(* ===== verification/Rtc_Prelude.thy ===== *)
theory Rtc_Prelude
  imports Main "HOL-Library.Word"
begin

text \<open>
  Shared vocabulary of the development: the machine types of the C sources, what the C
  language does with a plain \<open>char\<close>, reads of a bounded memory region, and the
  wrap-around loop \<open>for (i = a; i != (uint16_t)(b + 1); i++)\<close> that the jitter buffer and
  its clients run over RTP sequence numbers.  Undefined behaviour of C (a read or write out
  of a region, a dereference of NULL or of freed memory) is the value \<open>None\<close> of an
  \<open>option\<close> throughout the library.
\<close>

unbundle bit_operations_syntax

section \<open>Machine types\<close>

type_synonym u8 = "8 word"
type_synonym u16 = "16 word"
type_synonym u32 = "32 word"
type_synonym u64 = "64 word"
type_synonym bytes = "u8 list"

named_theorems rtc_defs \<open>definitions that the component proofs unfold\<close>
named_theorems rtc_simps \<open>rewrite rules shared by the component proofs\<close>

lemma u8_less: "unat (x :: u8) < 256"
  using unsigned_less [of x] by simp

lemma u16_less: "unat (x :: u16) < 65536"
  using unsigned_less [of x] by simp

lemma u32_less: "unat (x :: u32) < 4294967296"
  using unsigned_less [of x] by simp

lemma unat_u32_u64 [simp]: "unat (ucast (x :: u32) :: u64) = unat x"
  using u32_less [of x] by (simp add: unsigned_ucast_eq take_bit_nat_eq_self)

section \<open>Narrowing and circular distance\<close>

text \<open>\<open>(uint16_t)( ( x + y ) & 0xFFFF )\<close> computed in 32 bits is 16-bit wrap-around arithmetic.\<close>

lemma u16_of_u32_and [rtc_simps]: "(ucast (x AND 0xFFFF :: u32) :: u16) = ucast x"
proof -
  have m: "(0xFFFF :: u32) = mask 16" by (simp add: mask_eq_exp_minus_1)
  show ?thesis
    unfolding m by (rule bit_word_eqI) (auto simp: bit_and_iff bit_ucast_iff bit_mask_iff simp del: mask_numeral)
qed

lemma mod_32_16: "(b :: int) mod 4294967296 mod 65536 = b mod 65536"
  by (rule mod_mod_cancel) simp

lemma ucast_minus_u16 [rtc_simps]: "(ucast (ucast (a :: u16) - b :: u32) :: u16) = a - ucast b"
  by transfer (simp add: take_bit_eq_mod, metis mod_32_16 mod_diff_left_eq mod_diff_right_eq)

lemma ucast_plus_u16 [rtc_simps]: "(ucast (ucast (a :: u16) + b :: u32) :: u16) = a + ucast b"
  by transfer (simp add: take_bit_eq_mod, metis mod_32_16 mod_add_left_eq mod_add_right_eq)

text \<open>Membership in a range that may wrap around is a bound on the offset from its start.\<close>

lemma circular_range:
  fixes e w x :: u16
  shows "(if e \<le> e + w then e \<le> x \<and> x \<le> e + w else e \<le> x \<or> x \<le> e + w) \<longleftrightarrow> x - e \<le> w"
  using u16_less [of e] u16_less [of x] u16_less [of w]
  by (auto simp: word_le_nat_alt unat_sub_if' unat_plus_if' split: if_splits)

section \<open>Bounded memory\<close>

text \<open>Reading \<open>p[i]\<close> where \<open>p\<close> points to the first byte of \<open>m\<close>.\<close>

definition mem_read :: "'a list \<Rightarrow> nat \<Rightarrow> 'a option" where
  "mem_read m i = (if i < length m then Some (m ! i) else None)"

lemma mem_read_Some [simp]: "i < length m \<Longrightarrow> mem_read m i = Some (m ! i)"
  by (simp add: mem_read_def)

lemma mem_read_None [simp]: "length m \<le> i \<Longrightarrow> mem_read m i = None"
  by (simp add: mem_read_def)

lemma mem_read_eq_Some: "mem_read m i = Some x \<longleftrightarrow> i < length m \<and> m ! i = x"
  by (auto simp: mem_read_def)

section \<open>Wrap-around loops over 16-bit sequence numbers\<close>

lemma unat_minus_Suc:
  fixes i stop :: u16
  assumes "i \<noteq> stop"
  shows "unat (stop - i) = Suc (unat (stop - (i + 1)))"
proof -
  have "stop - i \<noteq> 0" using assms by simp
  then have "unat (stop - i - 1) = unat (stop - i) - 1" and "0 < unat (stop - i)"
    by (simp_all add: unat_minus_one unat_gt_0)
  then show ?thesis by (simp add: algebra_simps)
qed

text \<open>
  The values that the loop variable of \<open>for (i = a; i != stop; i++)\<close> takes when \<open>i\<close> and
  \<open>stop\<close> are \<open>uint16_t\<close>: the increment wraps, so the loop always ends.
\<close>

function seq_until :: "u16 \<Rightarrow> u16 \<Rightarrow> u16 list" where
  "seq_until i stop = (if i = stop then [] else i # seq_until (i + 1) stop)"
  by pat_completeness auto

termination
  by (relation "measure (\<lambda>(i, stop). unat (stop - i))") (auto simp: unat_minus_Suc)

declare seq_until.simps [simp del]

lemma seq_until_self [simp]: "seq_until i i = []"
  by (simp add: seq_until.simps)

lemma seq_until_step: "i \<noteq> stop \<Longrightarrow> seq_until i stop = i # seq_until (i + 1) stop"
  by (simp add: seq_until.simps [of i stop])

lemma length_seq_until [simp]: "length (seq_until i stop) = unat (stop - i)"
proof (induction i stop rule: seq_until.induct)
  case (1 i stop)
  show ?case
  proof (cases "i = stop")
    case True
    then show ?thesis by simp
  next
    case False
    with "1.IH" show ?thesis
      by (simp only: seq_until_step [OF False] unat_minus_Suc [OF False] list.size(4))
        simp
  qed
qed

lemma seq_until_nth: "k < unat (stop - i) \<Longrightarrow> seq_until i stop ! k = i + of_nat k"
proof (induction i stop arbitrary: k rule: seq_until.induct)
  case (1 i stop)
  show ?case
  proof (cases "i = stop")
    case True
    with "1.prems" show ?thesis by simp
  next
    case False
    show ?thesis
    proof (cases k)
      case 0
      with False show ?thesis by (simp add: seq_until_step)
    next
      case (Suc k')
      with False "1.prems" have "k' < unat (stop - (i + 1))"
        by (simp only: unat_minus_Suc [OF False] Suc Suc_less_eq)
      with False Suc show ?thesis
        using "1.IH" by (simp add: seq_until_step add.assoc)
    qed
  qed
qed

text \<open>A sequence number is visited exactly when its offset from the start is below the
  number of iterations.\<close>

lemma set_seq_until: "x \<in> set (seq_until i stop) \<longleftrightarrow> unat (x - i) < unat (stop - i)"
proof
  assume "x \<in> set (seq_until i stop)"
  then obtain k where k: "k < unat (stop - i)" and x: "x = i + of_nat k"
    by (auto simp: in_set_conv_nth seq_until_nth)
  have "k < 2 ^ 16"
    using k u16_less [of "stop - i"] by simp
  then have "unat (of_nat k :: u16) = k"
    by (simp add: unat_of_nat)
  with k x show "unat (x - i) < unat (stop - i)" by simp
next
  assume less: "unat (x - i) < unat (stop - i)"
  then have "seq_until i stop ! unat (x - i) = x"
    by (simp add: seq_until_nth)
  with less show "x \<in> set (seq_until i stop)"
    by (metis length_seq_until nth_mem)
qed

lemma distinct_seq_until [simp]: "distinct (seq_until i stop)"
proof (induction i stop rule: seq_until.induct)
  case (1 i stop)
  show ?case
  proof (cases "i = stop")
    case True
    then show ?thesis by simp
  next
    case False
    have "i \<notin> set (seq_until (i + 1) stop)"
    proof
      assume "i \<in> set (seq_until (i + 1) stop)"
      then have "unat (i - (i + 1)) < unat (stop - (i + 1))"
        by (simp only: set_seq_until)
      moreover have "i - (i + 1) = (- 1 :: u16)" by simp
      moreover have "unat (stop - (i + 1)) \<le> unat (- 1 :: u16)"
        by (metis word_le_nat_alt word_n1_ge)
      ultimately show False by simp
    qed
    with False "1.IH" show ?thesis by (simp add: seq_until_step)
  qed
qed

section \<open>Loops with break\<close>

text \<open>The body of a loop either goes on to the next iteration or leaves the loop.\<close>

datatype 's loop_ctl = Break 's | Next 's

fun run_loop :: "('i \<Rightarrow> 's \<Rightarrow> 's loop_ctl) \<Rightarrow> 'i list \<Rightarrow> 's \<Rightarrow> 's" where
  "run_loop body [] s = s"
| "run_loop body (i # is) s =
     (case body i s of Break s' \<Rightarrow> s' | Next s' \<Rightarrow> run_loop body is s')"

text \<open>An invariant of the loop over sequence numbers that knows the next iteration's index.\<close>

lemma run_loop_seq:
  assumes "P i0 s"
    and "\<And>i s s'. P i s \<Longrightarrow> i \<in> set (seq_until i0 stop) \<Longrightarrow> body i s = Next s' \<Longrightarrow> P (i + 1) s'"
    and "\<And>i s s'. P i s \<Longrightarrow> i \<in> set (seq_until i0 stop) \<Longrightarrow> body i s = Break s' \<Longrightarrow> Q s'"
    and "\<And>s. P stop s \<Longrightarrow> Q s"
  shows "Q (run_loop body (seq_until i0 stop) s)"
proof -
  have "Q (run_loop body (seq_until i st) s)"
    if "P i s" and "set (seq_until i st) \<subseteq> set (seq_until i0 stop)" and "st = stop" for i st s
    using that
  proof (induction i st arbitrary: s rule: seq_until.induct)
    case (1 i st)
    show ?case
    proof (cases "i = st")
      case True
      with "1.prems" assms(4) show ?thesis by simp
    next
      case False
      with "1.prems" have i: "i \<in> set (seq_until i0 stop)"
        and sub: "set (seq_until (i + 1) st) \<subseteq> set (seq_until i0 stop)"
        by (simp_all add: seq_until_step)
      show ?thesis
      proof (cases "body i s")
        case (Break s')
        with False assms(3) [OF "1.prems"(1) i] show ?thesis by (simp add: seq_until_step)
      next
        case (Next s')
        with assms(2) "1.prems"(1) i have "P (i + 1) s'" by blast
        from "1.IH" [OF False this sub "1.prems"(3)] False Next show ?thesis
          by (simp add: seq_until_step)
      qed
    qed
  qed
  with assms(1) show ?thesis by blast
qed

lemma run_loop_inv:
  assumes "P s" and "\<And>i s s'. P s \<Longrightarrow> i \<in> set is \<Longrightarrow> body i s = Next s' \<or> body i s = Break s' \<Longrightarrow> P s'"
  shows "P (run_loop body is s)"
  using assms
proof (induction "is" arbitrary: s)
  case Nil
  then show ?case by simp
next
  case (Cons i "is")
  show ?case
  proof (cases "body i s")
    case (Break s')
    with Cons.prems show ?thesis by auto
  next
    case (Next s')
    with Cons.prems(1) Cons.prems(2) [of s i s'] have "P s'" by simp
    then have "P (run_loop body is s')"
      by (rule Cons.IH) (rule Cons.prems(2), assumption, simp_all)
    with Next show ?thesis by simp
  qed
qed

lemma seq_until_Suc: "x \<in> set (seq_until s (i + 1)) \<Longrightarrow> x \<in> set (seq_until s i) \<or> x = i"
proof -
  assume "x \<in> set (seq_until s (i + 1))"
  then have less: "unat (x - s) < unat (i + 1 - s)" by (simp only: set_seq_until)
  have "i + 1 - s \<noteq> 0" using less by auto
  then have "unat (i + 1 - s) = Suc (unat (i - s))"
    using unat_minus_one [of "i + 1 - s"] unat_gt_0 [of "i + 1 - s"]
    by (simp add: algebra_simps)
  with less have "unat (x - s) < unat (i - s) \<or> unat (x - s) = unat (i - s)" by auto
  then have "unat (x - s) < unat (i - s) \<or> x - s = i - s" by (simp only: word_unat_eq_iff)
  then show ?thesis by (simp add: set_seq_until)
qed

text \<open>Inside a loop from \<open>o\<close> to \<open>stop\<close> the values visited so far only grow.\<close>

lemma seq_until_visited:
  assumes "i \<in> set (seq_until st stop)"
  shows "set (seq_until st (i + 1)) = insert i (set (seq_until st i))"
proof -
  have less: "unat (i - st) < unat (stop - st)" using assms by (simp only: set_seq_until)
  then have "Suc (unat (i - st)) < 65536" using u16_less [of "stop - st"] by simp
  then have "unat ((i - st) + 1) = unat (i - st) + unat (1 :: u16)"
    by (intro unat_add_lem [THEN iffD1]) simp
  then have eq: "unat (i + 1 - st) = Suc (unat (i - st))"
    by (simp only: diff_add_eq) simp
  show ?thesis
  proof
    show "set (seq_until st (i + 1)) \<subseteq> insert i (set (seq_until st i))"
      using seq_until_Suc by blast
    show "insert i (set (seq_until st i)) \<subseteq> set (seq_until st (i + 1))"
      by (auto simp only: set_seq_until eq)
  qed
qed

lemma notin_seq_until_self: "i \<notin> set (seq_until st i)"
  by (simp add: set_seq_until)

end
