(* ===== verification/Ring_Buffer.thy ===== *)
theory Ring_Buffer
  imports Rtc_Prelude
begin

text \<open>
  The outgoing message queue of the websocket client, \<open>networking/ring_buffer.c\<close>: a singly
  linked list of heap nodes with a head and a tail pointer.  The heap is explicit, so that
  a dangling tail, a use after free or a lost node would show: it maps an address to the
  node allocated there, and \<open>None\<close> as the outcome of an operation is an access to memory
  that is not allocated.  The pointer handed out by \<open>RingBuffer_GetHeadEntry\<close> is the
  address of the node, whose first field is the element.  The mutex makes each operation
  one atomic step.  The theory ends with the queue contract, as a locale, and its
  interpretation on these operations.
\<close>

section \<open>Data and operations\<close>

datatype RingBufferResult =
    RING_BUFFER_RESULT_OK
  | RING_BUFFER_RESULT_BAD_PARAM
  | RING_BUFFER_RESULT_OUT_OF_MEM
  | RING_BUFFER_RESULT_EMPTY
  | RING_BUFFER_RESULT_INCONSISTENT

record 'b RingBufferElement =
  pBuffer :: 'b
  bufferLength :: nat
  currentIndex :: nat

record 'b RingBufferElementInternal =
  element :: "'b RingBufferElement"
  pNext :: "nat option"

record 'b RingBuffer =
  heap :: "nat \<rightharpoonup> 'b RingBufferElementInternal"
  pHead :: "nat option"
  pTail :: "nat option"

text \<open>
  A pointer argument that the code compares with NULL is an \<open>option\<close>.  \<open>RingBuffer_Init\<close>
  does not touch the heap; \<open>mutex\<close> creation has no other effect on the state.
\<close>

definition RingBuffer_Init ::
    "'b RingBuffer option \<Rightarrow> RingBufferResult \<times> 'b RingBuffer option" where
  "RingBuffer_Init pRingBuffer =
     (case pRingBuffer of
        None \<Rightarrow> (RING_BUFFER_RESULT_BAD_PARAM, None)
      | Some rb \<Rightarrow> (RING_BUFFER_RESULT_OK, Some (rb\<lparr>pHead := None, pTail := None\<rparr>)))"

text \<open>\<open>mal\<close> is what \<open>malloc\<close> returns for the new node.\<close>

definition RingBuffer_Insert ::
    "'b RingBuffer option \<Rightarrow> 'b option \<Rightarrow> nat \<Rightarrow> nat option
      \<Rightarrow> (RingBufferResult \<times> 'b RingBuffer option) option" where
  "RingBuffer_Insert pRingBuffer pBuf len mal =
     (case (pRingBuffer, pBuf) of
        (Some rb, Some b) \<Rightarrow>
          if len = 0 then Some (RING_BUFFER_RESULT_BAD_PARAM, pRingBuffer)
          else (case mal of
              None \<Rightarrow> Some (RING_BUFFER_RESULT_OUT_OF_MEM, pRingBuffer)
            | Some a \<Rightarrow>
                (let node = \<lparr>element = \<lparr>pBuffer = b, bufferLength = len, currentIndex = 0\<rparr>,
                             pNext = None\<rparr>;
                     h = (heap rb)(a \<mapsto> node)
                 in (case pHead rb of
                       None \<Rightarrow>
                         Some (RING_BUFFER_RESULT_OK,
                               Some (rb\<lparr>heap := h, pHead := Some a, pTail := Some a\<rparr>))
                     | Some _ \<Rightarrow>
                         (case pTail rb of
                            None \<Rightarrow> None
                          | Some t \<Rightarrow>
                              (case h t of
                                 None \<Rightarrow> None
                               | Some n \<Rightarrow>
                                   Some (RING_BUFFER_RESULT_OK,
                                         Some (rb\<lparr>heap := h(t \<mapsto> n\<lparr>pNext := Some a\<rparr>),
                                                  pTail := Some a\<rparr>)))))))
      | _ \<Rightarrow> Some (RING_BUFFER_RESULT_BAD_PARAM, pRingBuffer))"

text \<open>The second argument says whether \<open>ppElement\<close> is non-NULL; the element pointer is
  written only when the result is OK.\<close>

definition RingBuffer_GetHeadEntry ::
    "'b RingBuffer option \<Rightarrow> bool \<Rightarrow> RingBufferResult \<times> nat option" where
  "RingBuffer_GetHeadEntry pRingBuffer ppElement =
     (case pRingBuffer of
        None \<Rightarrow> (RING_BUFFER_RESULT_BAD_PARAM, None)
      | Some rb \<Rightarrow>
          if \<not> ppElement then (RING_BUFFER_RESULT_BAD_PARAM, None)
          else (case pHead rb of
                  None \<Rightarrow> (RING_BUFFER_RESULT_EMPTY, None)
                | Some a \<Rightarrow> (RING_BUFFER_RESULT_OK, Some a)))"

definition RingBuffer_RemoveHeadEntry ::
    "'b RingBuffer option \<Rightarrow> nat option
      \<Rightarrow> (RingBufferResult \<times> 'b RingBuffer option) option" where
  "RingBuffer_RemoveHeadEntry pRingBuffer pElement =
     (case (pRingBuffer, pElement) of
        (Some rb, Some e) \<Rightarrow>
          if pHead rb \<noteq> Some e then Some (RING_BUFFER_RESULT_INCONSISTENT, pRingBuffer)
          else (case heap rb e of
                  None \<Rightarrow> None
                | Some n \<Rightarrow>
                    Some (RING_BUFFER_RESULT_OK,
                          Some (rb\<lparr>pHead := pNext n, heap := (heap rb)(e := None)\<rparr>)))
      | _ \<Rightarrow> Some (RING_BUFFER_RESULT_BAD_PARAM, pRingBuffer))"

text \<open>The empty buffer right after \<open>RingBuffer_Init\<close>, with no node allocated.\<close>

definition empty_ring :: "'b RingBuffer" where
  "empty_ring = \<lparr>heap = Map.empty, pHead = None, pTail = None\<rparr>"

section \<open>The list on the heap\<close>

text \<open>\<open>ring_path h p xs\<close>: from \<open>p\<close>, the next pointers lead through the nodes \<open>xs\<close> (each
  with its address and element) to NULL.\<close>

fun ring_path ::
    "(nat \<rightharpoonup> 'b RingBufferElementInternal) \<Rightarrow> nat option
      \<Rightarrow> (nat \<times> 'b RingBufferElement) list \<Rightarrow> bool" where
  "ring_path h p [] \<longleftrightarrow> p = None"
| "ring_path h p ((a, e) # xs) \<longleftrightarrow>
     p = Some a \<and> (\<exists>n. h a = Some n \<and> element n = e \<and> ring_path h (pNext n) xs)"

text \<open>What the list of a buffer is, and that exactly its nodes are allocated.  The tail
  pointer matters only while the list is not empty: \<open>RingBuffer_RemoveHeadEntry\<close> leaves it
  dangling when it frees the last node.\<close>

definition ring_rep :: "'b RingBuffer \<Rightarrow> (nat \<times> 'b RingBufferElement) list \<Rightarrow> bool" where
  "ring_rep rb xs \<longleftrightarrow>
     ring_path (heap rb) (pHead rb) xs \<and> distinct (map fst xs)
     \<and> dom (heap rb) = set (map fst xs)
     \<and> (xs \<noteq> [] \<longrightarrow> pTail rb = Some (fst (last xs)))"

lemma ring_path_upd [simp]:
  "a \<notin> fst ` set xs \<Longrightarrow> ring_path (h(a := v)) p xs = ring_path h p xs"
  by (induction xs arbitrary: p) auto

text \<open>Linking a new last node behind the old one extends the path.\<close>

lemma ring_path_snoc:
  assumes "ring_path h p (xs @ [(t, e)])" and "h t = Some n"
    and "distinct (map fst (xs @ [(t, e)]))" and "a \<notin> fst ` set (xs @ [(t, e)])"
    and "element m = e'" and "pNext m = None"
  shows "ring_path (h(a \<mapsto> m, t \<mapsto> n\<lparr>pNext := Some a\<rparr>)) p (xs @ [(t, e), (a, e')])"
  using assms by (induction xs arbitrary: p) auto

lemma ring_path_lookup: "ring_path h p xs \<Longrightarrow> (a, e) \<in> set xs \<Longrightarrow> \<exists>n. h a = Some n \<and> element n = e"
  by (induction xs arbitrary: p) auto

lemma ring_path_head:
  "ring_path h p xs \<Longrightarrow> p = (case xs of [] \<Rightarrow> None | x # _ \<Rightarrow> Some (fst x))"
  by (cases xs) auto

lemma ring_rep_empty: "ring_rep empty_ring []"
  by (simp add: ring_rep_def empty_ring_def)

lemma ring_rep_head:
  "ring_rep rb xs \<Longrightarrow> pHead rb = (case xs of [] \<Rightarrow> None | x # _ \<Rightarrow> Some (fst x))"
  by (auto simp: ring_rep_def dest: ring_path_head)

lemma ring_rep_lookup:
  "ring_rep rb xs \<Longrightarrow> (a, e) \<in> set xs \<Longrightarrow> \<exists>n. heap rb a = Some n \<and> element n = e"
  by (auto simp: ring_rep_def dest: ring_path_lookup)

section \<open>What the operations do to the list\<close>

abbreviation new_element :: "'b \<Rightarrow> nat \<Rightarrow> 'b RingBufferElement" where
  "new_element b len \<equiv> \<lparr>pBuffer = b, bufferLength = len, currentIndex = 0\<rparr>"

lemma RingBuffer_Insert_rep:
  assumes rep: "ring_rep rb xs" and "0 < len" and fresh: "a \<notin> fst ` set xs"
  shows "\<exists>rb'. RingBuffer_Insert (Some rb) (Some b) len (Some a)
                 = Some (RING_BUFFER_RESULT_OK, Some rb')
             \<and> ring_rep rb' (xs @ [(a, new_element b len)])"
proof (cases xs rule: rev_cases)
  case Nil
  with assms show ?thesis
    by (simp add: RingBuffer_Insert_def ring_rep_def)
next
  case (snoc ys y)
  obtain t e where y: "y = (t, e)" by (cases y)
  from rep snoc y have head: "pHead rb \<noteq> None" and tail: "pTail rb = Some t"
    using ring_rep_head [OF rep] by (auto simp: ring_rep_def split: list.splits)
  from rep snoc y obtain n where n: "heap rb t = Some n"
    using ring_rep_lookup [of rb xs t e] by auto
  have "t \<noteq> a" using fresh snoc y by auto
  let ?m = "\<lparr>element = new_element b len, pNext = None\<rparr>"
  let ?rb = "rb\<lparr>heap := (heap rb)(a \<mapsto> ?m, t \<mapsto> n\<lparr>pNext := Some a\<rparr>), pTail := Some a\<rparr>"
  have "RingBuffer_Insert (Some rb) (Some b) len (Some a) = Some (RING_BUFFER_RESULT_OK, Some ?rb)"
    using head tail n \<open>t \<noteq> a\<close> \<open>0 < len\<close>
    by (auto simp: RingBuffer_Insert_def Let_def)
  moreover have "ring_rep ?rb (xs @ [(a, new_element b len)])"
    using rep fresh snoc y n ring_path_snoc [of "heap rb" "pHead rb" ys t e n a ?m]
    by (auto simp: ring_rep_def)
  ultimately show ?thesis by blast
qed

lemma RingBuffer_GetHeadEntry_rep:
  "ring_rep rb xs \<Longrightarrow>
     RingBuffer_GetHeadEntry (Some rb) True =
       (case xs of [] \<Rightarrow> (RING_BUFFER_RESULT_EMPTY, None)
        | x # _ \<Rightarrow> (RING_BUFFER_RESULT_OK, Some (fst x)))"
  by (auto simp: RingBuffer_GetHeadEntry_def dest!: ring_rep_head split: list.splits)

lemma RingBuffer_RemoveHeadEntry_rep:
  assumes "ring_rep rb ((a, e) # xs)"
  shows "\<exists>rb'. RingBuffer_RemoveHeadEntry (Some rb) (Some a)
                 = Some (RING_BUFFER_RESULT_OK, Some rb') \<and> ring_rep rb' xs"
proof -
  from assms obtain n where n: "heap rb a = Some n" and path: "ring_path (heap rb) (pNext n) xs"
    and head: "pHead rb = Some a"
    by (auto simp: ring_rep_def)
  let ?rb = "rb\<lparr>pHead := pNext n, heap := (heap rb)(a := None)\<rparr>"
  have "RingBuffer_RemoveHeadEntry (Some rb) (Some a) = Some (RING_BUFFER_RESULT_OK, Some ?rb)"
    by (simp add: RingBuffer_RemoveHeadEntry_def head n)
  moreover have "ring_rep ?rb xs"
    using assms path by (auto simp: ring_rep_def)
  ultimately show ?thesis by blast
qed

lemma RingBuffer_RemoveHeadEntry_other:
  "ring_rep rb xs \<Longrightarrow> (xs \<noteq> [] \<Longrightarrow> fst (hd xs) \<noteq> a) \<Longrightarrow>
     RingBuffer_RemoveHeadEntry (Some rb) (Some a) = Some (RING_BUFFER_RESULT_INCONSISTENT, Some rb)"
  by (auto simp: RingBuffer_RemoveHeadEntry_def dest!: ring_rep_head split: list.splits)

section \<open>Updating the element in place\<close>

text \<open>What the owner of the element pointer does to the node (\<open>pElement->currentIndex += n\<close>):
  a write through the address that \<open>RingBuffer_GetHeadEntry\<close> returned.\<close>

definition ring_read :: "'b RingBuffer \<Rightarrow> nat \<Rightarrow> 'b RingBufferElement option" where
  "ring_read rb a = map_option element (heap rb a)"

definition ring_write :: "'b RingBuffer \<Rightarrow> nat \<Rightarrow> 'b RingBufferElement \<Rightarrow> 'b RingBuffer option" where
  "ring_write rb a e =
     (case heap rb a of None \<Rightarrow> None
      | Some n \<Rightarrow> Some (rb\<lparr>heap := (heap rb)(a \<mapsto> n\<lparr>element := e\<rparr>)\<rparr>))"

lemma ring_read_rep: "ring_rep rb ((a, e) # xs) \<Longrightarrow> ring_read rb a = Some e"
  by (auto simp: ring_rep_def ring_read_def)

lemma ring_write_rep:
  assumes "ring_rep rb ((a, e) # xs)"
  shows "\<exists>rb'. ring_write rb a e' = Some rb' \<and> ring_rep rb' ((a, e') # xs)"
proof -
  from assms obtain n where n: "heap rb a = Some n" by (auto simp: ring_rep_def)
  with assms show ?thesis
    by (auto simp: ring_rep_def ring_write_def insert_absorb split: if_splits)
qed

section \<open>The queue contract\<close>

text \<open>
  What the websocket client relies on: a first-in first-out queue of elements, each at an
  address; \<open>rep s xs\<close> says that \<open>xs\<close> is the content of the state \<open>s\<close>.
\<close>

locale element_queue =
  fixes rep :: "'s \<Rightarrow> ('p \<times> 'e) list \<Rightarrow> bool"
    and enq :: "'s \<Rightarrow> 'p \<Rightarrow> 'e \<Rightarrow> 's option"
    and front :: "'s \<Rightarrow> 'p option"
    and get :: "'s \<Rightarrow> 'p \<Rightarrow> 'e option"
    and put :: "'s \<Rightarrow> 'p \<Rightarrow> 'e \<Rightarrow> 's option"
    and deq :: "'s \<Rightarrow> 'p \<Rightarrow> 's option"
    and ok :: "'e \<Rightarrow> bool"
  assumes rep_enq: "rep s xs \<Longrightarrow> ok e \<Longrightarrow> p \<notin> fst ` set xs
                      \<Longrightarrow> \<exists>s'. enq s p e = Some s' \<and> rep s' (xs @ [(p, e)])"
    and front_rep: "rep s xs \<Longrightarrow> front s = (case xs of [] \<Rightarrow> None | x # _ \<Rightarrow> Some (fst x))"
    and get_rep: "rep s ((p, e) # xs) \<Longrightarrow> get s p = Some e"
    and rep_put: "rep s ((p, e) # xs) \<Longrightarrow> \<exists>s'. put s p e' = Some s' \<and> rep s' ((p, e') # xs)"
    and rep_deq: "rep s ((p, e) # xs) \<Longrightarrow> \<exists>s'. deq s p = Some s' \<and> rep s' xs"
begin

text \<open>A producer that inserts between the consumer's look at the head and its removal does
  not disturb it.\<close>

lemma enq_keeps_front:
  assumes "rep s ((p, e) # xs)" and "ok e'" and "q \<notin> fst ` set ((p, e) # xs)"
  shows "\<exists>s1 s2. enq s q e' = Some s1 \<and> front s1 = Some p \<and> get s1 p = Some e
           \<and> deq s1 p = Some s2 \<and> rep s2 (xs @ [(q, e')])"
proof -
  from rep_enq [OF assms] obtain s1 where s1: "enq s q e' = Some s1"
    and r1: "rep s1 ((p, e) # (xs @ [(q, e')]))" by auto
  from rep_deq [OF r1] obtain s2 where "deq s1 p = Some s2" and "rep s2 (xs @ [(q, e')])" by auto
  with s1 front_rep [OF r1] get_rep [OF r1] show ?thesis by auto
qed

text \<open>Inserting several elements and removing them again returns them in the order of
  insertion.\<close>

fun enq_all :: "'s \<Rightarrow> ('p \<times> 'e) list \<Rightarrow> 's option" where
  "enq_all s [] = Some s"
| "enq_all s ((p, e) # xs) = Option.bind (enq s p e) (\<lambda>s'. enq_all s' xs)"

fun deq_all :: "'s \<Rightarrow> nat \<Rightarrow> ('e list \<times> 's) option" where
  "deq_all s 0 = Some ([], s)"
| "deq_all s (Suc n) =
     Option.bind (front s) (\<lambda>p. Option.bind (get s p) (\<lambda>e. Option.bind (deq s p) (\<lambda>s'.
       map_option (\<lambda>(es, s''). (e # es, s'')) (deq_all s' n))))"

lemma rep_enq_all:
  assumes "rep s xs" and "\<forall>x \<in> set ys. ok (snd x)" and "distinct (map fst ys)"
    and "fst ` set ys \<inter> fst ` set xs = {}"
  shows "\<exists>s'. enq_all s ys = Some s' \<and> rep s' (xs @ ys)"
  using assms
proof (induction ys arbitrary: s xs)
  case Nil
  then show ?case by simp
next
  case (Cons y ys)
  obtain p e where y: "y = (p, e)" by (cases y)
  from Cons.prems y obtain s1 where s1: "enq s p e = Some s1" and r1: "rep s1 (xs @ [(p, e)])"
    using rep_enq [of s xs e p] by auto
  have "fst ` set ys \<inter> fst ` set (xs @ [(p, e)]) = {}"
    using Cons.prems y by auto
  with Cons.IH [OF r1] Cons.prems y obtain s2
    where "enq_all s1 ys = Some s2" and "rep s2 ((xs @ [(p, e)]) @ ys)"
    by auto
  with s1 y show ?case by simp
qed

lemma rep_deq_all:
  "rep s (xs @ ys) \<Longrightarrow> \<exists>s'. deq_all s (length xs) = Some (map snd xs, s') \<and> rep s' ys"
proof (induction xs arbitrary: s)
  case Nil
  then show ?case by simp
next
  case (Cons x xs)
  obtain p e where x: "x = (p, e)" by (cases x)
  with Cons.prems have r: "rep s ((p, e) # (xs @ ys))" by simp
  from rep_deq [OF r] obtain s1 where "deq s p = Some s1" and "rep s1 (xs @ ys)" by auto
  with Cons.IH [of s1] front_rep [OF r] get_rep [OF r] x show ?case by auto
qed

end

subsection \<open>The ring buffer meets it\<close>

definition ring_enq :: "'b RingBuffer \<Rightarrow> nat \<Rightarrow> 'b RingBufferElement \<Rightarrow> 'b RingBuffer option" where
  "ring_enq rb a e =
     (case RingBuffer_Insert (Some rb) (Some (pBuffer e)) (bufferLength e) (Some a) of
        Some (RING_BUFFER_RESULT_OK, Some rb') \<Rightarrow> Some rb'
      | _ \<Rightarrow> None)"

definition ring_deq :: "'b RingBuffer \<Rightarrow> nat \<Rightarrow> 'b RingBuffer option" where
  "ring_deq rb a =
     (case RingBuffer_RemoveHeadEntry (Some rb) (Some a) of
        Some (RING_BUFFER_RESULT_OK, Some rb') \<Rightarrow> Some rb'
      | _ \<Rightarrow> None)"

definition fresh_element :: "'b RingBufferElement \<Rightarrow> bool" where
  "fresh_element e \<longleftrightarrow> 0 < bufferLength e \<and> currentIndex e = 0"

interpretation rq: element_queue ring_rep ring_enq
  "\<lambda>rb. snd (RingBuffer_GetHeadEntry (Some rb) True)" ring_read ring_write ring_deq fresh_element
proof
  fix rb :: "'b RingBuffer" and xs and e :: "'b RingBufferElement" and p
  assume "ring_rep rb xs" and "fresh_element e" and "p \<notin> fst ` set xs"
  then show "\<exists>s'. ring_enq rb p e = Some s' \<and> ring_rep s' (xs @ [(p, e)])"
    using RingBuffer_Insert_rep [of rb xs "bufferLength e" p "pBuffer e"]
    by (cases e) (auto simp: ring_enq_def fresh_element_def)
next
  fix rb :: "'b RingBuffer" and xs
  assume "ring_rep rb xs"
  then show "snd (RingBuffer_GetHeadEntry (Some rb) True)
               = (case xs of [] \<Rightarrow> None | x # _ \<Rightarrow> Some (fst x))"
    by (simp add: RingBuffer_GetHeadEntry_rep split: list.splits)
next
  fix rb :: "'b RingBuffer" and p e xs
  assume r: "ring_rep rb ((p, e) # xs)"
  show "ring_read rb p = Some e" using r by (rule ring_read_rep)
  show "\<exists>s'. ring_write rb p e' = Some s' \<and> ring_rep s' ((p, e') # xs)" for e'
    using r by (rule ring_write_rep)
  show "\<exists>s'. ring_deq rb p = Some s' \<and> ring_rep s' xs"
    using RingBuffer_RemoveHeadEntry_rep [OF r] by (auto simp: ring_deq_def)
qed

section \<open>Properties\<close>

text \<open>The queue is first-in first-out across the two threads.  An insert that comes between
  the consumer's look at the head and its removal appends behind everything, the head stays
  the element the consumer looked at, and removing it frees exactly that node.\<close>

theorem ring_insert_between_look_and_remove:
  assumes "ring_rep rb ((p, e) # xs)" and "0 < len" and "q \<notin> fst ` set ((p, e) # xs)"
  shows "\<exists>rb1 rb2.
     RingBuffer_Insert (Some rb) (Some b) len (Some q) = Some (RING_BUFFER_RESULT_OK, Some rb1)
     \<and> RingBuffer_GetHeadEntry (Some rb1) True = (RING_BUFFER_RESULT_OK, Some p)
     \<and> RingBuffer_RemoveHeadEntry (Some rb1) (Some p) = Some (RING_BUFFER_RESULT_OK, Some rb2)
     \<and> ring_rep rb2 (xs @ [(q, new_element b len)]) \<and> p \<notin> dom (heap rb2)"
proof -
  have "fresh_element (new_element b len)" using assms(2) by (simp add: fresh_element_def)
  from rq.enq_keeps_front [OF assms(1) this assms(3)] obtain rb1 rb2 where
    "ring_enq rb q (new_element b len) = Some rb1"
    "snd (RingBuffer_GetHeadEntry (Some rb1) True) = Some p"
    "ring_deq rb1 p = Some rb2" and rep: "ring_rep rb2 (xs @ [(q, new_element b len)])" by blast
  moreover have "p \<notin> dom (heap rb2)"
    using rep assms by (auto simp: ring_rep_def)
  ultimately show ?thesis
    by (auto simp: ring_enq_def ring_deq_def RingBuffer_GetHeadEntry_def
        split: option.splits RingBufferResult.splits prod.splits if_splits)
qed

theorem ring_insert_between_look_and_remove_witness:
  "\<exists>rb rb1 rb2. ring_rep rb [(1, new_element ''a'' 1)]
     \<and> RingBuffer_Insert (Some rb) (Some ''bc'') 2 (Some 2) = Some (RING_BUFFER_RESULT_OK, Some rb1)
     \<and> RingBuffer_RemoveHeadEntry (Some rb1) (Some 1) = Some (RING_BUFFER_RESULT_OK, Some rb2)
     \<and> ring_rep rb2 [(2, new_element ''bc'' 2)]"
proof -
  from RingBuffer_Insert_rep [OF ring_rep_empty, of 1 1 "''a''"] obtain rb where
    "ring_rep rb [(1, new_element ''a'' 1)]" by auto
  with ring_insert_between_look_and_remove [OF this, of 2 2 "''bc''"] show ?thesis by auto
qed

text \<open>Round trip.  Any sequence of messages inserted into an empty buffer comes out in the
  order of insertion, with the buffers and lengths it went in with, and leaves no node
  allocated.\<close>

theorem ring_fifo:
  assumes "distinct (map fst ys)" and "\<forall>y \<in> set ys. fresh_element (snd y)"
  shows "\<exists>rb rb'. rq.enq_all empty_ring ys = Some rb
     \<and> rq.deq_all rb (length ys) = Some (map snd ys, rb')
     \<and> dom (heap rb') = {} \<and> RingBuffer_GetHeadEntry (Some rb') True = (RING_BUFFER_RESULT_EMPTY, None)"
proof -
  from rq.rep_enq_all [OF ring_rep_empty, of ys] assms obtain rb where
    rb: "rq.enq_all empty_ring ys = Some rb" "ring_rep rb ys" by auto
  then have "ring_rep rb (ys @ [])" by simp
  from rq.rep_deq_all [OF this] obtain rb' where
    "rq.deq_all rb (length ys) = Some (map snd ys, rb')" and rep: "ring_rep rb' []" by blast
  moreover have "dom (heap rb') = {}" using rep by (simp add: ring_rep_def)
  ultimately show ?thesis using rb RingBuffer_GetHeadEntry_rep [OF rep] by auto
qed

theorem ring_fifo_witness:
  "\<exists>rb rb'. rq.enq_all empty_ring [(1, new_element ''a'' 1), (2, new_element ''bc'' 2)] = Some rb
     \<and> rq.deq_all rb 2 = Some ([new_element ''a'' 1, new_element ''bc'' 2], rb')
     \<and> dom (heap rb') = {}"
  using ring_fifo [of "[(1, new_element ''a'' 1), (2, new_element ''bc'' 2)]"]
  by (auto simp: fresh_element_def numeral_2_eq_2)

end
