(* ===== verification/Websocket.thy ===== *)
theory Websocket
  imports Ring_Buffer
begin

text \<open>
  The websocket half of \<open>networking/networking.c\<close>: \<open>Networking_WebsocketInit\<close>, \<open>_Send\<close>,
  \<open>_Disconnect\<close>, \<open>_Signal\<close> and the libwebsockets callback \<open>LwsWebsocketCallback\<close>, over the
  ring buffer of \<open>Ring_Buffer\<close>.  libwebsockets itself is not part of the sources: what its
  calls return (\<open>lws_write\<close>, \<open>lws_frame_is_binary\<close>, \<open>lws_is_first_fragment\<close>, ...) comes with
  the callback's reason, and what the code asks it to do is the list of actions that a step
  returns.  The message buffers are a second heap; the bytes that \<open>lws_write\<close> took are kept
  in the ghost field \<open>wire\<close>.
\<close>

section \<open>State\<close>

datatype NetworkingResult = NETWORKING_RESULT_OK | NETWORKING_RESULT_FAIL | NETWORKING_RESULT_BAD_PARAM

definition WEBSOCKET_RX_BUFFER_LENGTH :: nat where
  "WEBSOCKET_RX_BUFFER_LENGTH = 12 * 1024"

text \<open>\<open>msgs\<close> holds, for each allocated message buffer, the bytes behind its \<open>LWS_PRE\<close> header
  room.  The receive callback takes the message and returns the callback's \<open>int\<close>.\<close>

record NetworkingWebsocketContext =
  ringBuffer :: "nat RingBuffer"
  msgs :: "nat \<rightharpoonup> bytes"
  rxBuffer :: bytes
  dataLengthInRxBuffer :: nat
  rxCallback :: "(bytes \<Rightarrow> int) option"
  connectionEstablished :: bool
  connectionClosed :: bool
  connectionCloseRequested :: bool
  lwsContextAlive :: bool
  wire :: bytes

datatype lws_action = lws_cancel_service | lws_callback_on_writable | lws_set_timeout_kill

datatype lws_reason =
    LWS_CALLBACK_CLIENT_CONNECTION_ERROR
  | LWS_CALLBACK_CLIENT_ESTABLISHED
  | LWS_CALLBACK_CLIENT_CLOSED
  | LWS_CALLBACK_WSI_DESTROY
  | LWS_CALLBACK_WS_PEER_INITIATED_CLOSE
  | LWS_CALLBACK_CLIENT_RECEIVE (is_binary: bool) (is_first: bool) (is_final: bool) (rx_data: bytes)
  | LWS_CALLBACK_CLIENT_WRITEABLE (lws_write: "bytes \<Rightarrow> int")
  | LWS_CALLBACK_EVENT_WAIT_CANCELLED
  | LWS_CALLBACK_OTHER

section \<open>Operations\<close>

text \<open>\<open>memset\<close> of the whole context, then the ring buffer and the connection flags.  The
  credentials that are copied along are strings no modelled operation reads.\<close>

definition Networking_WebsocketInit ::
    "NetworkingWebsocketContext option \<Rightarrow> bool
      \<Rightarrow> NetworkingResult \<times> NetworkingWebsocketContext option" where
  "Networking_WebsocketInit pCtx pCreds =
     (case pCtx of
        None \<Rightarrow> (NETWORKING_RESULT_BAD_PARAM, None)
      | Some c \<Rightarrow>
          if \<not> pCreds then (NETWORKING_RESULT_BAD_PARAM, Some c)
          else
            (let c0 = c\<lparr>ringBuffer := (ringBuffer c)\<lparr>pHead := None, pTail := None\<rparr>,
                        rxBuffer := replicate WEBSOCKET_RX_BUFFER_LENGTH 0,
                        dataLengthInRxBuffer := 0, rxCallback := None,
                        connectionEstablished := False, connectionClosed := False,
                        connectionCloseRequested := False, lwsContextAlive := False\<rparr>
             in (case RingBuffer_Init (Some (ringBuffer c0)) of
                   (RING_BUFFER_RESULT_OK, Some rb) \<Rightarrow>
                     (NETWORKING_RESULT_OK,
                      Some (c0\<lparr>ringBuffer := rb, connectionEstablished := False,
                               connectionClosed := True, connectionCloseRequested := False\<rparr>))
                 | _ \<Rightarrow> (NETWORKING_RESULT_FAIL, Some c0))))"

text \<open>\<open>malMsg\<close> and \<open>malNode\<close> are what \<open>malloc\<close> returns for the message buffer and for the
  ring buffer node; \<open>pMessage\<close> is the readable memory behind the caller's pointer.\<close>

definition Networking_WebsocketSend ::
    "NetworkingWebsocketContext option \<Rightarrow> bytes option \<Rightarrow> nat \<Rightarrow> nat option \<Rightarrow> nat option
      \<Rightarrow> (NetworkingResult \<times> NetworkingWebsocketContext option \<times> lws_action list) option" where
  "Networking_WebsocketSend pCtx pMessage messageLength malMsg malNode =
     (case (pCtx, pMessage) of
        (Some c, Some m) \<Rightarrow>
          if messageLength = 0 then Some (NETWORKING_RESULT_BAD_PARAM, pCtx, [])
          else (case malMsg of
              None \<Rightarrow> Some (NETWORKING_RESULT_FAIL, pCtx, [])
            | Some b \<Rightarrow>
                if length m < messageLength then None
                else (case RingBuffer_Insert (Some (ringBuffer c)) (Some b) messageLength malNode of
                    Some (RING_BUFFER_RESULT_OK, Some rb) \<Rightarrow>
                      Some (NETWORKING_RESULT_OK,
                            Some (c\<lparr>ringBuffer := rb,
                                    msgs := (msgs c)(b \<mapsto> take messageLength m)\<rparr>),
                            [lws_cancel_service])
                  | Some (_, _) \<Rightarrow> Some (NETWORKING_RESULT_FAIL, pCtx, [])
                  | None \<Rightarrow> None))
      | _ \<Rightarrow> Some (NETWORKING_RESULT_BAD_PARAM, pCtx, []))"

definition Networking_WebsocketDisconnect ::
    "NetworkingWebsocketContext option
      \<Rightarrow> NetworkingResult \<times> NetworkingWebsocketContext option \<times> lws_action list" where
  "Networking_WebsocketDisconnect pCtx =
     (case pCtx of
        None \<Rightarrow> (NETWORKING_RESULT_BAD_PARAM, None, [])
      | Some c \<Rightarrow> (NETWORKING_RESULT_OK, Some (c\<lparr>connectionCloseRequested := True\<rparr>),
                   [lws_cancel_service]))"

text \<open>\<open>lws_service\<close> runs callbacks: its effect on the context is the argument \<open>service\<close>.\<close>

definition Networking_WebsocketSignal ::
    "(NetworkingWebsocketContext \<Rightarrow> NetworkingWebsocketContext)
      \<Rightarrow> NetworkingWebsocketContext option
      \<Rightarrow> NetworkingResult \<times> NetworkingWebsocketContext option" where
  "Networking_WebsocketSignal service pCtx =
     (case pCtx of
        None \<Rightarrow> (NETWORKING_RESULT_BAD_PARAM, None)
      | Some c \<Rightarrow>
          (let c' = service c
           in if connectionClosed c'
              then (NETWORKING_RESULT_FAIL, Some (c'\<lparr>lwsContextAlive := False\<rparr>))
              else (NETWORKING_RESULT_OK, Some c')))"

text \<open>The receive branch: fragments are collected in \<open>rxBuffer\<close>, and the final one hands the
  message to the callback.  The third component lists the messages handed over.\<close>

definition ws_receive ::
    "NetworkingWebsocketContext \<Rightarrow> bool \<Rightarrow> bool \<Rightarrow> bool \<Rightarrow> bytes
      \<Rightarrow> int \<times> NetworkingWebsocketContext \<times> bytes list" where
  "ws_receive c isBinary isFirst isFinal data =
     (if \<not> isBinary \<and> data \<noteq> [] then
        (let n0 = (if isFirst then 0 else dataLengthInRxBuffer c);
             c0 = c\<lparr>dataLengthInRxBuffer := n0\<rparr>
         in if n0 + length data \<le> WEBSOCKET_RX_BUFFER_LENGTH then
              (let n1 = n0 + length data;
                   c1 = c0\<lparr>rxBuffer := take n0 (rxBuffer c) @ data @ drop n1 (rxBuffer c),
                           dataLengthInRxBuffer := n1\<rparr>
               in if isFinal then
                    (case rxCallback c1 of
                       None \<Rightarrow> (0, c1, [])
                     | Some f \<Rightarrow> (let m = take n1 (rxBuffer c1) in (f m, c1, [m])))
                  else (0, c1, []))
            else (1, c0, []))
      else (0, c, []))"

text \<open>The writeable branch: hand the unsent part of the oldest message to \<open>lws_write\<close>.\<close>

definition ws_writeable ::
    "NetworkingWebsocketContext \<Rightarrow> (bytes \<Rightarrow> int)
      \<Rightarrow> (int \<times> NetworkingWebsocketContext \<times> lws_action list) option" where
  "ws_writeable c lwsWrite =
     (case RingBuffer_GetHeadEntry (Some (ringBuffer c)) True of
        (RING_BUFFER_RESULT_OK, Some a) \<Rightarrow>
          Option.bind (ring_read (ringBuffer c) a) (\<lambda>e.
          Option.bind (msgs c (pBuffer e)) (\<lambda>m.
            if length m < bufferLength e then None
            else
              (let remaining = drop (currentIndex e) (take (bufferLength e) m);
                   remainingLength = bufferLength e - currentIndex e;
                   writtenLength = lwsWrite remaining
               in if writtenLength < 0 then Some (1, c, [])
                  else
                    (let c1 = c\<lparr>wire := wire c @ take (nat writtenLength) remaining\<rparr>
                     in if nat writtenLength = remainingLength then
                          (let c2 = c1\<lparr>msgs := (msgs c1)(pBuffer e := None)\<rparr>
                           in (case RingBuffer_RemoveHeadEntry (Some (ringBuffer c2)) (Some a) of
                                 Some (RING_BUFFER_RESULT_OK, Some rb) \<Rightarrow>
                                   Some (0, c2\<lparr>ringBuffer := rb\<rparr>, [lws_callback_on_writable])
                               | Some (_, _) \<Rightarrow> Some (1, c2, [])
                               | None \<Rightarrow> None))
                        else
                          map_option
                            (\<lambda>rb. (0, c1\<lparr>ringBuffer := rb\<rparr>, [lws_callback_on_writable]))
                            (ring_write (ringBuffer c1) a
                               (e\<lparr>currentIndex := currentIndex e + nat writtenLength\<rparr>))))))
      | _ \<Rightarrow> Some (0, c, []))"

definition LwsWebsocketCallback ::
    "NetworkingWebsocketContext \<Rightarrow> lws_reason
      \<Rightarrow> (int \<times> NetworkingWebsocketContext \<times> lws_action list \<times> bytes list) option" where
  "LwsWebsocketCallback c reason =
     (case reason of
        LWS_CALLBACK_CLIENT_CONNECTION_ERROR \<Rightarrow>
          Some (0, c\<lparr>connectionEstablished := False, connectionClosed := True\<rparr>, [], [])
      | LWS_CALLBACK_CLIENT_ESTABLISHED \<Rightarrow>
          Some (0, c\<lparr>connectionEstablished := True\<rparr>, [], [])
      | LWS_CALLBACK_CLIENT_CLOSED \<Rightarrow>
          Some (0, c\<lparr>connectionEstablished := False, connectionClosed := True\<rparr>, [], [])
      | LWS_CALLBACK_WSI_DESTROY \<Rightarrow>
          Some (0, c\<lparr>connectionEstablished := False, connectionClosed := True,
                     connectionCloseRequested := False\<rparr>, [lws_cancel_service], [])
      | LWS_CALLBACK_WS_PEER_INITIATED_CLOSE \<Rightarrow>
          Some (0, c\<lparr>connectionEstablished := False, connectionClosed := True\<rparr>, [], [])
      | LWS_CALLBACK_CLIENT_RECEIVE isBinary isFirst isFinal data \<Rightarrow>
          (let (r, c', ms) = ws_receive c isBinary isFirst isFinal data in Some (r, c', [], ms))
      | LWS_CALLBACK_CLIENT_WRITEABLE lwsWrite \<Rightarrow>
          map_option (\<lambda>(r, c', as). (r, c', as, [])) (ws_writeable c lwsWrite)
      | LWS_CALLBACK_EVENT_WAIT_CANCELLED \<Rightarrow>
          Some (0, c,
                if connectionCloseRequested c then [lws_set_timeout_kill]
                else if connectionEstablished c then [lws_callback_on_writable] else [], [])
      | LWS_CALLBACK_OTHER \<Rightarrow> Some (0, c, [], []))"

section \<open>Invariant: what is queued is allocated and not fully sent\<close>

definition ws_pending_one :: "NetworkingWebsocketContext \<Rightarrow> nat \<times> nat RingBufferElement \<Rightarrow> bytes" where
  "ws_pending_one c x =
     (case msgs c (pBuffer (snd x)) of None \<Rightarrow> [] | Some m \<Rightarrow> drop (currentIndex (snd x)) m)"

definition ws_pending ::
    "NetworkingWebsocketContext \<Rightarrow> (nat \<times> nat RingBufferElement) list \<Rightarrow> bytes" where
  "ws_pending c xs = concat (map (ws_pending_one c) xs)"

definition ws_elem_ok :: "NetworkingWebsocketContext \<Rightarrow> nat RingBufferElement \<Rightarrow> bool" where
  "ws_elem_ok c e \<longleftrightarrow>
     (\<exists>m. msgs c (pBuffer e) = Some m \<and> length m = bufferLength e \<and> currentIndex e < bufferLength e)"

definition ws_queue :: "NetworkingWebsocketContext \<Rightarrow> (nat \<times> nat RingBufferElement) list \<Rightarrow> bool" where
  "ws_queue c xs \<longleftrightarrow>
     ring_rep (ringBuffer c) xs \<and> distinct (map (pBuffer \<circ> snd) xs)
     \<and> dom (msgs c) = (pBuffer \<circ> snd) ` set xs \<and> (\<forall>x \<in> set xs. ws_elem_ok c (snd x))
     \<and> length (rxBuffer c) = WEBSOCKET_RX_BUFFER_LENGTH
     \<and> dataLengthInRxBuffer c \<le> WEBSOCKET_RX_BUFFER_LENGTH"

definition ws_init :: "NetworkingWebsocketContext" where
  "ws_init = \<lparr>ringBuffer = empty_ring, msgs = Map.empty,
              rxBuffer = replicate WEBSOCKET_RX_BUFFER_LENGTH 0, dataLengthInRxBuffer = 0,
              rxCallback = None, connectionEstablished = False, connectionClosed = True,
              connectionCloseRequested = False, lwsContextAlive = False, wire = []\<rparr>"

lemma ws_queue_init: "ws_queue ws_init [] \<and> wire ws_init = [] \<and> ws_pending ws_init [] = []"
  by (simp add: ws_queue_def ws_init_def ring_rep_empty ws_pending_def)

section \<open>Sending\<close>

lemma ws_pending_cong:
  "(\<And>x. x \<in> set xs \<Longrightarrow> msgs c' (pBuffer (snd x)) = msgs c (pBuffer (snd x)))
    \<Longrightarrow> ws_pending c' xs = ws_pending c xs"
  by (simp add: ws_pending_def ws_pending_one_def cong: map_cong)

lemma ws_queue_notin:
  "ws_queue c xs \<Longrightarrow> msgs c b = None \<Longrightarrow> x \<in> set xs \<Longrightarrow> pBuffer (snd x) \<noteq> b"
  unfolding ws_queue_def ws_elem_ok_def by force

lemma ws_send_ok:
  assumes q: "ws_queue c xs" and n: "0 < n" "n \<le> length m"
    and b: "msgs c b = None" and a: "heap (ringBuffer c) a = None"
  shows "\<exists>c'. Networking_WebsocketSend (Some c) (Some m) n (Some b) (Some a)
                = Some (NETWORKING_RESULT_OK, Some c', [lws_cancel_service])
            \<and> ws_queue c' (xs @ [(a, new_element b n)]) \<and> wire c' = wire c
            \<and> ws_pending c' (xs @ [(a, new_element b n)]) = ws_pending c xs @ take n m"
proof -
  from q have rep: "ring_rep (ringBuffer c) xs" by (simp add: ws_queue_def)
  then have "dom (heap (ringBuffer c)) = fst ` set xs" by (simp add: ring_rep_def)
  with a have fresh: "a \<notin> fst ` set xs" by auto
  from RingBuffer_Insert_rep [OF rep n(1) fresh, of b] obtain rb where
    ins: "RingBuffer_Insert (Some (ringBuffer c)) (Some b) n (Some a)
            = Some (RING_BUFFER_RESULT_OK, Some rb)"
    and rb: "ring_rep rb (xs @ [(a, new_element b n)])" by blast
  let ?c = "c\<lparr>ringBuffer := rb, msgs := (msgs c)(b \<mapsto> take n m)\<rparr>"
  note ne = ws_queue_notin [OF q b]
  have "Networking_WebsocketSend (Some c) (Some m) n (Some b) (Some a)
          = Some (NETWORKING_RESULT_OK, Some ?c, [lws_cancel_service])"
    using n by (simp add: Networking_WebsocketSend_def ins)
  moreover have "ws_queue ?c (xs @ [(a, new_element b n)])"
    using q rb ne n by (auto simp: ws_queue_def ws_elem_ok_def)
  moreover have "ws_pending ?c (xs @ [(a, new_element b n)]) = ws_pending c xs @ take n m"
  proof -
    have "ws_pending ?c xs = ws_pending c xs"
      by (rule ws_pending_cong) (simp add: ne)
    then show ?thesis by (simp add: ws_pending_def ws_pending_one_def)
  qed
  ultimately show ?thesis by auto
qed

text \<open>Any other outcome of a call leaves the context as it was.\<close>

lemma ws_send_not_ok:
  "Networking_WebsocketSend pCtx pMessage n malMsg malNode = Some (r, pCtx', as)
    \<Longrightarrow> r \<noteq> NETWORKING_RESULT_OK \<Longrightarrow> pCtx' = pCtx \<and> as = []"
  by (auto simp: Networking_WebsocketSend_def
      split: option.splits if_splits RingBufferResult.splits)

lemma ws_send_okD:
  assumes "Networking_WebsocketSend (Some c) (Some m) n malMsg malNode
             = Some (NETWORKING_RESULT_OK, pCtx', as)"
    and "ws_queue c xs"
  obtains a b where "0 < n" "n \<le> length m" "malMsg = Some b" "malNode = Some a"
  using assms
  by (auto simp: Networking_WebsocketSend_def RingBuffer_Insert_def
      split: option.splits if_splits RingBufferResult.splits)

section \<open>Writing to the connection\<close>

text \<open>\<open>lws_write\<close> reports an error or how many of the bytes it was given it took.\<close>

definition lws_write_ok :: "(bytes \<Rightarrow> int) \<Rightarrow> bool" where
  "lws_write_ok f \<longleftrightarrow> (\<forall>d. f d \<le> int (length d))"

lemma ws_writeable_empty: "ws_queue c [] \<Longrightarrow> ws_writeable c f = Some (0, c, [])"
  using RingBuffer_GetHeadEntry_rep [of "ringBuffer c" "[]"]
  by (simp add: ws_writeable_def ws_queue_def)

lemma ws_writeable_error:
  assumes q: "ws_queue c ((a, e) # xs)" and m: "msgs c (pBuffer e) = Some m"
    and neg: "f (drop (currentIndex e) m) < 0"
  shows "ws_writeable c f = Some (1, c, [])"
proof -
  from q have rep: "ring_rep (ringBuffer c) ((a, e) # xs)" and len: "length m = bufferLength e"
    using m by (auto simp: ws_queue_def ws_elem_ok_def)
  show ?thesis
    using neg by (simp add: ws_writeable_def RingBuffer_GetHeadEntry_rep [OF rep]
        ring_read_rep [OF rep] m len)
qed

lemma ws_writeable_full:
  assumes q: "ws_queue c ((a, e) # xs)" and m: "msgs c (pBuffer e) = Some m"
    and f: "f (drop (currentIndex e) m) = int (length (drop (currentIndex e) m))"
  shows "\<exists>c'. ws_writeable c f = Some (0, c', [lws_callback_on_writable]) \<and> ws_queue c' xs
            \<and> wire c' = wire c @ drop (currentIndex e) m \<and> ws_pending c' xs = ws_pending c xs"
proof -
  from q have rep: "ring_rep (ringBuffer c) ((a, e) # xs)" and len: "length m = bufferLength e"
    and dist: "distinct (map (pBuffer \<circ> snd) ((a, e) # xs))"
    using m by (auto simp: ws_queue_def ws_elem_ok_def)
  from RingBuffer_RemoveHeadEntry_rep [OF rep] obtain rb where
    rem: "RingBuffer_RemoveHeadEntry (Some (ringBuffer c)) (Some a)
            = Some (RING_BUFFER_RESULT_OK, Some rb)" and rb: "ring_rep rb xs" by blast
  let ?c = "c\<lparr>wire := wire c @ drop (currentIndex e) m,
              msgs := (msgs c)(pBuffer e := None), ringBuffer := rb\<rparr>"
  have "ws_writeable c f = Some (0, ?c, [lws_callback_on_writable])"
    using f by (simp add: ws_writeable_def RingBuffer_GetHeadEntry_rep [OF rep]
        ring_read_rep [OF rep] m len rem Let_def)
  moreover have ne: "\<forall>x \<in> set xs. pBuffer (snd x) \<noteq> pBuffer e"
    using dist by force
  then have "ws_queue ?c xs"
    using q rb by (auto simp: ws_queue_def ws_elem_ok_def)
  moreover have "ws_pending ?c xs = ws_pending c xs"
    by (rule ws_pending_cong) (simp add: ne)
  ultimately show ?thesis by auto
qed

lemma ws_writeable_partial:
  assumes q: "ws_queue c ((a, e) # xs)" and m: "msgs c (pBuffer e) = Some m"
    and f: "f (drop (currentIndex e) m) = int k" and k: "k < length (drop (currentIndex e) m)"
  shows "\<exists>c' e'. ws_writeable c f = Some (0, c', [lws_callback_on_writable])
            \<and> ws_queue c' ((a, e') # xs)
            \<and> wire c' = wire c @ take k (drop (currentIndex e) m)
            \<and> ws_pending c' ((a, e') # xs) = drop k (ws_pending c ((a, e) # xs))"
proof -
  from q have rep: "ring_rep (ringBuffer c) ((a, e) # xs)" and len: "length m = bufferLength e"
    using m by (auto simp: ws_queue_def ws_elem_ok_def)
  let ?e = "e\<lparr>currentIndex := currentIndex e + k\<rparr>"
  from ring_write_rep [OF rep, of ?e] obtain rb where
    wr: "ring_write (ringBuffer c) a ?e = Some rb" and rb: "ring_rep rb ((a, ?e) # xs)" by blast
  let ?c = "c\<lparr>wire := wire c @ take k (drop (currentIndex e) m), ringBuffer := rb\<rparr>"
  have "ws_writeable c f = Some (0, ?c, [lws_callback_on_writable])"
    using f k by (simp add: ws_writeable_def RingBuffer_GetHeadEntry_rep [OF rep]
        ring_read_rep [OF rep] m len wr Let_def)
  moreover have "ws_queue ?c ((a, ?e) # xs)"
    using q rb k m len by (auto simp: ws_queue_def ws_elem_ok_def)
  moreover have "ws_pending ?c ((a, ?e) # xs) = drop k (ws_pending c ((a, e) # xs))"
  proof -
    have "ws_pending ?c xs = ws_pending c xs" by (rule ws_pending_cong) simp
    with m k show ?thesis
      by (simp add: ws_pending_def ws_pending_one_def add.commute)
  qed
  ultimately show ?thesis by (intro exI conjI) auto
qed

lemma ws_writeable_step:
  assumes q: "ws_queue c xs" and f: "lws_write_ok f"
  shows "\<exists>r c' as xs'. ws_writeable c f = Some (r, c', as) \<and> ws_queue c' xs'
            \<and> wire c' @ ws_pending c' xs' = wire c @ ws_pending c xs"
proof (cases xs)
  case Nil
  with q show ?thesis using ws_writeable_empty [of c f] by auto
next
  case (Cons x ys)
  obtain a e where x: "x = (a, e)" by (cases x)
  with q Cons have q': "ws_queue c ((a, e) # ys)" by simp
  then obtain m where m: "msgs c (pBuffer e) = Some m"
    by (auto simp: ws_queue_def ws_elem_ok_def)
  let ?d = "drop (currentIndex e) m"
  have pend: "ws_pending c xs = ?d @ ws_pending c ys"
    using Cons x m by (simp add: ws_pending_def ws_pending_one_def)
  consider "f ?d < 0" | "f ?d = int (length ?d)"
    | k where "f ?d = int k" and "k < length ?d"
    using f unfolding lws_write_ok_def
    by (metis linorder_not_less nonneg_int_cases of_nat_less_iff order_less_le)
  then show ?thesis
  proof cases
    case 1
    show ?thesis using ws_writeable_error [where f = f, OF q' m 1] q by auto
  next
    case 2
    from ws_writeable_full [where f = f, OF q' m 2] pend show ?thesis
      by (metis append.assoc)
  next
    case (3 k)
    from ws_writeable_partial [where f = f, OF q' m 3] obtain c' e' where
      "ws_writeable c f = Some (0, c', [lws_callback_on_writable])"
      and "ws_queue c' ((a, e') # ys)" and "wire c' = wire c @ take k ?d"
      and "ws_pending c' ((a, e') # ys) = drop k (ws_pending c ((a, e) # ys))" by blast
    moreover have "take k ?d @ drop k (ws_pending c ((a, e) # ys)) = ws_pending c xs"
      using pend Cons x 3 append_take_drop_id [of k ?d] by (simp del: append_take_drop_id)
    ultimately show ?thesis by (metis append.assoc)
  qed
qed

section \<open>Receiving\<close>

lemma ws_receive_frame:
  "ws_receive c bin frst fin data = (r, c', ms) \<Longrightarrow>
     ringBuffer c' = ringBuffer c \<and> msgs c' = msgs c \<and> wire c' = wire c
     \<and> rxCallback c' = rxCallback c"
  by (auto simp: ws_receive_def Let_def split: if_splits option.splits)

lemma ws_receive_rx:
  assumes "ws_receive c bin frst fin data = (r, c', ms)"
    and "length (rxBuffer c) = WEBSOCKET_RX_BUFFER_LENGTH"
    and "dataLengthInRxBuffer c \<le> WEBSOCKET_RX_BUFFER_LENGTH"
  shows "length (rxBuffer c') = WEBSOCKET_RX_BUFFER_LENGTH
     \<and> dataLengthInRxBuffer c' \<le> WEBSOCKET_RX_BUFFER_LENGTH"
  using assms by (auto simp: ws_receive_def Let_def split: if_splits option.splits)

lemma ws_queue_frame:
  assumes "ws_queue c xs"
    and "ringBuffer c' = ringBuffer c" "msgs c' = msgs c"
    and "length (rxBuffer c') = WEBSOCKET_RX_BUFFER_LENGTH"
    and "dataLengthInRxBuffer c' \<le> WEBSOCKET_RX_BUFFER_LENGTH"
  shows "ws_queue c' xs" and "ws_pending c' xs = ws_pending c xs"
  using assms by (auto simp: ws_queue_def ws_elem_ok_def intro: ws_pending_cong)

text \<open>The connection flags and the receive callback do not enter the invariant.\<close>

lemma ws_queue_flags [simp]:
  "ws_queue (c\<lparr>connectionEstablished := x\<rparr>) xs = ws_queue c xs"
  "ws_queue (c\<lparr>connectionClosed := x\<rparr>) xs = ws_queue c xs"
  "ws_queue (c\<lparr>connectionCloseRequested := x\<rparr>) xs = ws_queue c xs"
  "ws_queue (c\<lparr>rxCallback := cb\<rparr>) xs = ws_queue c xs"
  by (simp_all add: ws_queue_def ws_elem_ok_def)

lemma ws_pending_flags [simp]:
  "ws_pending (c\<lparr>connectionEstablished := x\<rparr>) xs = ws_pending c xs"
  "ws_pending (c\<lparr>connectionClosed := x\<rparr>) xs = ws_pending c xs"
  "ws_pending (c\<lparr>connectionCloseRequested := x\<rparr>) xs = ws_pending c xs"
  "ws_pending (c\<lparr>rxCallback := cb\<rparr>) xs = ws_pending c xs"
  by (auto intro: ws_pending_cong)

lemma ws_receive_queue:
  assumes "ws_queue c xs" and "ws_receive c bin frst fin data = (r, c', ms)"
  shows "ws_queue c' xs \<and> ws_pending c' xs = ws_pending c xs \<and> wire c' = wire c"
proof -
  note frame = ws_receive_frame [OF assms(2)]
  have "length (rxBuffer c') = WEBSOCKET_RX_BUFFER_LENGTH
     \<and> dataLengthInRxBuffer c' \<le> WEBSOCKET_RX_BUFFER_LENGTH"
    using assms by (intro ws_receive_rx) (auto simp: ws_queue_def)
  with frame show ?thesis using ws_queue_frame [OF assms(1), of c'] by simp
qed

text \<open>Feeding the fragments of one message: the first is marked first, the last final.\<close>

fun ws_feed ::
    "NetworkingWebsocketContext \<Rightarrow> bool \<Rightarrow> bytes list \<Rightarrow> NetworkingWebsocketContext \<times> bytes list" where
  "ws_feed c isFirst [] = (c, [])"
| "ws_feed c isFirst (d # ds) =
     (let (r, c', ms) = ws_receive c False isFirst (ds = []) d;
          (c'', ms') = ws_feed c' False ds
      in (c'', ms @ ms'))"

definition ws_rx_holds :: "NetworkingWebsocketContext \<Rightarrow> bytes \<Rightarrow> bool" where
  "ws_rx_holds c m \<longleftrightarrow> length (rxBuffer c) = WEBSOCKET_RX_BUFFER_LENGTH
     \<and> dataLengthInRxBuffer c = length m \<and> length m \<le> WEBSOCKET_RX_BUFFER_LENGTH
     \<and> take (length m) (rxBuffer c) = m"

lemma ws_receive_fits:
  assumes c: "ws_rx_holds (c\<lparr>dataLengthInRxBuffer := if isFirst then 0 else dataLengthInRxBuffer c\<rparr>) m"
    and d: "d \<noteq> []" "length m + length d \<le> WEBSOCKET_RX_BUFFER_LENGTH"
    and cb: "rxCallback c = Some g"
  shows "\<exists>r c'. ws_receive c False isFirst fin d = (r, c', if fin then [m @ d] else [])
            \<and> ws_rx_holds c' (m @ d) \<and> rxCallback c' = Some g"
proof -
  have len: "length (rxBuffer c) = WEBSOCKET_RX_BUFFER_LENGTH"
    and n: "(if isFirst then 0 else dataLengthInRxBuffer c) = length m"
    and m: "take (length m) (rxBuffer c) = m"
    using c by (auto simp: ws_rx_holds_def)
  let ?c = "c\<lparr>dataLengthInRxBuffer := length m + length d,
               rxBuffer := m @ d @ drop (length m + length d) (rxBuffer c)\<rparr>"
  have "ws_receive c False isFirst fin d
          = (if fin then g (m @ d) else 0, ?c, if fin then [m @ d] else [])"
    using d by (simp add: ws_receive_def Let_def n m cb)
  moreover have "ws_rx_holds ?c (m @ d)"
    using d len by (simp add: ws_rx_holds_def)
  ultimately show ?thesis using cb by auto
qed

lemma ws_feed_holds:
  assumes "ws_rx_holds c m" and "rxCallback c = Some g" and "ds \<noteq> []"
    and "\<forall>d \<in> set ds. d \<noteq> []" and "length m + length (concat ds) \<le> WEBSOCKET_RX_BUFFER_LENGTH"
  shows "snd (ws_feed c False ds) = [m @ concat ds]"
  using assms
proof (induction ds arbitrary: c m)
  case Nil
  then show ?case by simp
next
  case (Cons d ds)
  from Cons.prems obtain r c' where r: "ws_receive c False False (ds = []) d
      = (r, c', if ds = [] then [m @ d] else [])" and h: "ws_rx_holds c' (m @ d)"
    and cb: "rxCallback c' = Some g"
    using ws_receive_fits [where c = c and isFirst = False and m = m and d = d and g = g
        and fin = "ds = []"] by auto
  show ?case
  proof (cases "ds = []")
    case True
    with r show ?thesis by (simp add: case_prod_unfold)
  next
    case False
    with Cons.IH [OF h cb] Cons.prems have "snd (ws_feed c' False ds) = [m @ concat (d # ds)]"
      by simp
    with r False show ?thesis by (simp add: case_prod_unfold)
  qed
qed

section \<open>Reachable contexts\<close>

text \<open>
  The producer (\<open>Networking_WebsocketSend\<close>, \<open>_Disconnect\<close>) and the service thread (the
  callback) interleave.  The second argument collects the bytes of the accepted messages.
  \<open>malloc\<close> returns memory that is not in use.  \<open>Networking_WebsocketConnect\<close> sets the
  receive callback and clears the connection flags before it runs the service loop.
\<close>

definition lws_reason_ok :: "lws_reason \<Rightarrow> bool" where
  "lws_reason_ok reason \<longleftrightarrow>
     (case reason of LWS_CALLBACK_CLIENT_WRITEABLE f \<Rightarrow> lws_write_ok f | _ \<Rightarrow> True)"

definition fresh_in :: "nat option \<Rightarrow> (nat \<rightharpoonup> 'a) \<Rightarrow> bool" where
  "fresh_in mal h \<longleftrightarrow> (case mal of None \<Rightarrow> True | Some a \<Rightarrow> h a = None)"

inductive ws_reach :: "NetworkingWebsocketContext \<Rightarrow> bytes \<Rightarrow> bool" where
  init: "ws_reach ws_init []"
| send: "ws_reach c acc \<Longrightarrow> fresh_in malMsg (msgs c) \<Longrightarrow> fresh_in malNode (heap (ringBuffer c))
     \<Longrightarrow> Networking_WebsocketSend (Some c) (Some m) n malMsg malNode = Some (r, Some c', as)
     \<Longrightarrow> ws_reach c' (if r = NETWORKING_RESULT_OK then acc @ take n m else acc)"
| disconnect: "ws_reach c acc \<Longrightarrow> Networking_WebsocketDisconnect (Some c) = (r, Some c', as)
     \<Longrightarrow> ws_reach c' acc"
| callback: "ws_reach c acc \<Longrightarrow> lws_reason_ok reason
     \<Longrightarrow> LwsWebsocketCallback c reason = Some (r, c', as, ms) \<Longrightarrow> ws_reach c' acc"
| connect: "ws_reach c acc \<Longrightarrow>
     ws_reach (c\<lparr>rxCallback := cb, connectionEstablished := False, connectionClosed := False,
                 connectionCloseRequested := False\<rparr>) acc"

lemma LwsWebsocketCallback_step:
  assumes q: "ws_queue c xs" and ok: "lws_reason_ok reason"
  shows "\<exists>r c' as ms xs'. LwsWebsocketCallback c reason = Some (r, c', as, ms) \<and> ws_queue c' xs'
            \<and> wire c' @ ws_pending c' xs' = wire c @ ws_pending c xs"
proof (cases reason)
  case (LWS_CALLBACK_CLIENT_WRITEABLE f)
  with ok have "lws_write_ok f" by (simp add: lws_reason_ok_def)
  from ws_writeable_step [OF q this] LWS_CALLBACK_CLIENT_WRITEABLE show ?thesis
    by (auto simp: LwsWebsocketCallback_def)
next
  case (LWS_CALLBACK_CLIENT_RECEIVE bin frst fin d)
  obtain r c' ms where "ws_receive c bin frst fin d = (r, c', ms)"
    by (cases "ws_receive c bin frst fin d")
  with ws_receive_queue [OF q this] LWS_CALLBACK_CLIENT_RECEIVE show ?thesis
    by (auto simp: LwsWebsocketCallback_def)
qed (use q in \<open>auto simp: LwsWebsocketCallback_def intro: exI [of _ xs]\<close>)

lemma ws_reach_queue:
  "ws_reach c acc \<Longrightarrow> \<exists>xs. ws_queue c xs \<and> wire c @ ws_pending c xs = acc"
proof (induction rule: ws_reach.induct)
  case init
  show ?case using ws_queue_init by auto
next
  case (send c acc malMsg malNode m n r c' as)
  then obtain xs where q: "ws_queue c xs" and acc: "wire c @ ws_pending c xs = acc" by blast
  show ?case
  proof (cases "r = NETWORKING_RESULT_OK")
    case True
    with send.hyps q obtain a b where ab: "0 < n" "n \<le> length m" "malMsg = Some b" "malNode = Some a"
      by (metis ws_send_okD)
    with send.hyps have fresh: "msgs c b = None" "heap (ringBuffer c) a = None"
      by (auto simp: fresh_in_def)
    from ws_send_ok [OF q ab(1,2) fresh] obtain c1 where
      "Networking_WebsocketSend (Some c) (Some m) n (Some b) (Some a)
         = Some (NETWORKING_RESULT_OK, Some c1, [lws_cancel_service])"
      and "ws_queue c1 (xs @ [(a, new_element b n)])" and "wire c1 = wire c"
      and "ws_pending c1 (xs @ [(a, new_element b n)]) = ws_pending c xs @ take n m"
      by blast
    with send.hyps ab acc True show ?thesis by (metis append.assoc option.inject prod.inject)
  next
    case False
    with send.hyps have "c' = c" using ws_send_not_ok by blast
    with False q acc show ?thesis by auto
  qed
next
  case (disconnect c acc r c' as)
  then obtain xs where q: "ws_queue c xs" and "wire c @ ws_pending c xs = acc" by blast
  moreover have "c' = c\<lparr>connectionCloseRequested := True\<rparr>"
    using disconnect.hyps by (simp add: Networking_WebsocketDisconnect_def)
  ultimately show ?case by auto
next
  case (callback c acc reason r c' as ms)
  then obtain xs where "ws_queue c xs" and "wire c @ ws_pending c xs = acc" by blast
  with LwsWebsocketCallback_step [of c xs reason] callback.hyps show ?case by auto
next
  case (connect c acc cb)
  then obtain xs where q: "ws_queue c xs" and "wire c @ ws_pending c xs = acc" by blast
  then show ?case by (auto intro: exI [of _ xs])
qed

section \<open>Draining the queue\<close>

text \<open>The service thread calling the writeable branch \<open>n\<close> times.\<close>

fun ws_service_writeable ::
    "nat \<Rightarrow> (bytes \<Rightarrow> int) \<Rightarrow> NetworkingWebsocketContext \<Rightarrow> NetworkingWebsocketContext option" where
  "ws_service_writeable 0 f c = Some c"
| "ws_service_writeable (Suc n) f c =
     (case LwsWebsocketCallback c (LWS_CALLBACK_CLIENT_WRITEABLE f) of
        None \<Rightarrow> None
      | Some (r, c', as, ms) \<Rightarrow> ws_service_writeable n f c')"

text \<open>A connection that makes progress: a write of something takes at least one byte.\<close>

definition lws_write_progress :: "(bytes \<Rightarrow> int) \<Rightarrow> bool" where
  "lws_write_progress f \<longleftrightarrow> (\<forall>d. d \<noteq> [] \<longrightarrow> 1 \<le> f d \<and> f d \<le> int (length d))"

lemma ws_pending_empty: "ws_queue c xs \<Longrightarrow> ws_pending c xs = [] \<Longrightarrow> xs = []"
  by (cases xs) (force simp: ws_queue_def ws_elem_ok_def ws_pending_def ws_pending_one_def)+

lemma ws_writeable_progress:
  assumes q: "ws_queue c (x # ys)" and f: "lws_write_progress f"
  shows "\<exists>c' xs'. ws_writeable c f = Some (0, c', [lws_callback_on_writable]) \<and> ws_queue c' xs'
            \<and> wire c' @ ws_pending c' xs' = wire c @ ws_pending c (x # ys)
            \<and> length (ws_pending c' xs') < length (ws_pending c (x # ys))"
proof -
  obtain a e where x: "x = (a, e)" by (cases x)
  with q have q': "ws_queue c ((a, e) # ys)" by simp
  then obtain m where m: "msgs c (pBuffer e) = Some m" and ne: "drop (currentIndex e) m \<noteq> []"
    by (auto simp: ws_queue_def ws_elem_ok_def)
  let ?d = "drop (currentIndex e) m"
  have pend: "ws_pending c ((a, e) # ys) = ?d @ ws_pending c ys"
    using m by (simp add: ws_pending_def ws_pending_one_def)
  from f ne have fd: "1 \<le> f ?d" "f ?d \<le> int (length ?d)"
    unfolding lws_write_progress_def by blast+
  obtain k where k: "f ?d = int k" "1 \<le> k" "k \<le> length ?d"
    by (rule that [of "nat (f ?d)"]) (use fd in linarith)+
  show ?thesis
  proof (cases "k = length ?d")
    case True
    then have fd: "f ?d = int (length ?d)" using k(1) by simp
    from ws_writeable_full [where f = f, OF q' m fd] obtain c' where
      c': "ws_writeable c f = Some (0, c', [lws_callback_on_writable])" "ws_queue c' ys"
        "wire c' = wire c @ ?d" "ws_pending c' ys = ws_pending c ys" by blast
    have "length (ws_pending c' ys) < length (ws_pending c (x # ys))"
      using c'(4) pend x ne by simp
    moreover have "wire c' @ ws_pending c' ys = wire c @ ws_pending c (x # ys)"
      using c' pend x by simp
    ultimately show ?thesis using c' by blast
  next
    case False
    then have kl: "k < length ?d" using k(3) by simp
    from ws_writeable_partial [where f = f, OF q' m k(1) kl] obtain c' e' where
      c': "ws_writeable c f = Some (0, c', [lws_callback_on_writable])"
        "ws_queue c' ((a, e') # ys)" "wire c' = wire c @ take k ?d"
        "ws_pending c' ((a, e') # ys) = drop k (ws_pending c ((a, e) # ys))" by blast
    have "take k ?d @ drop k (?d @ ws_pending c ys) = ?d @ ws_pending c ys"
      using kl append_take_drop_id [of k ?d] by (simp del: append_take_drop_id)
    then have "wire c' @ ws_pending c' ((a, e') # ys) = wire c @ ws_pending c (x # ys)"
      using c' pend x by simp
    moreover have "length (ws_pending c' ((a, e') # ys)) < length (ws_pending c (x # ys))"
      using c'(4) pend x ne k by simp
    ultimately show ?thesis using c' by blast
  qed
qed

lemma ws_service_drains:
  assumes "ws_queue c xs" and "lws_write_progress f" and "length (ws_pending c xs) \<le> n"
  shows "\<exists>c'. ws_service_writeable n f c = Some c' \<and> ws_queue c' []
            \<and> wire c' = wire c @ ws_pending c xs"
  using assms
proof (induction n arbitrary: c xs)
  case 0
  then have "xs = []" using ws_pending_empty by simp
  with 0 show ?case by (simp add: ws_pending_def)
next
  case (Suc n)
  show ?case
  proof (cases xs)
    case Nil
    with Suc.prems have "LwsWebsocketCallback c (LWS_CALLBACK_CLIENT_WRITEABLE f) = Some (0, c, [], [])"
      using ws_writeable_empty [of c f] by (simp add: LwsWebsocketCallback_def)
    with Suc.IH [of c xs] Suc.prems Nil show ?thesis by (simp add: ws_pending_def)
  next
    case (Cons x ys)
    from ws_writeable_progress [of c x ys f] Suc.prems Cons obtain c' xs' where
      w: "ws_writeable c f = Some (0, c', [lws_callback_on_writable])" and q: "ws_queue c' xs'"
      and same: "wire c' @ ws_pending c' xs' = wire c @ ws_pending c xs"
      and less: "length (ws_pending c' xs') < length (ws_pending c xs)" by blast
    from Suc.IH [OF q Suc.prems(2)] less Suc.prems(3) obtain c'' where
      "ws_service_writeable n f c' = Some c''" "ws_queue c'' []"
      "wire c'' = wire c' @ ws_pending c' xs'" by auto
    with w same show ?thesis by (simp add: LwsWebsocketCallback_def)
  qed
qed

section \<open>Properties\<close>

text \<open>C3: nothing is lost, duplicated or reordered between \<open>Networking_WebsocketSend\<close> and the
  wire.  In every context that sends, disconnects, connects and callbacks can lead to, in any
  interleaving and with partial and failing writes, the bytes already written followed by the
  unsent bytes of the queue are exactly the accepted messages in the order of acceptance; and
  every queued element owns an allocated, not yet fully sent buffer.\<close>

theorem ws_sends_in_order:
  assumes "ws_reach c acc"
  shows "\<exists>xs. ws_queue c xs \<and> wire c @ ws_pending c xs = acc"
  using assms by (rule ws_reach_queue)

definition ws_demo_write :: "bytes \<Rightarrow> int" where
  "ws_demo_write d = (if d = [] then 0 else 1)"

lemma ws_demo_reach:
  "\<exists>c1 c2. Networking_WebsocketSend (Some ws_init) (Some [1, 2]) 2 (Some 7) (Some 8)
             = Some (NETWORKING_RESULT_OK, Some c1, [lws_cancel_service])
         \<and> LwsWebsocketCallback c1 (LWS_CALLBACK_CLIENT_WRITEABLE ws_demo_write)
             = Some (0, c2, [lws_callback_on_writable], [])
         \<and> wire c2 = [1] \<and> ws_reach c2 [1, 2]"
proof -
  let ?e = "(8 :: nat, new_element (7 :: nat) 2)"
  have "ws_queue ws_init []" using ws_queue_init by simp
  from ws_send_ok [OF this, of 2 "[1, 2]" 7 8] obtain c1 where
    c1: "Networking_WebsocketSend (Some ws_init) (Some [1, 2]) 2 (Some 7) (Some 8)
           = Some (NETWORKING_RESULT_OK, Some c1, [lws_cancel_service])"
      "ws_queue c1 [?e]" "wire c1 = []" "ws_pending c1 [?e] = [1, 2]"
    by (auto simp: ws_init_def empty_ring_def ws_pending_def)
  have m: "msgs c1 7 = Some [1, 2]"
    using c1(2,4) by (auto simp: ws_queue_def ws_elem_ok_def ws_pending_def ws_pending_one_def)
  obtain c2 where c2: "ws_writeable c1 ws_demo_write = Some (0, c2, [lws_callback_on_writable])"
      "wire c2 = [1]"
    using ws_writeable_partial [where f = ws_demo_write, OF c1(2), of "[1, 2]" 1] m c1(3)
    by (auto simp: ws_demo_write_def)
  have "ws_reach c1 (if NETWORKING_RESULT_OK = NETWORKING_RESULT_OK then [] @ take 2 [1, 2] else [])"
    by (rule ws_reach.send [OF ws_reach.init _ _ c1(1)])
      (simp_all add: fresh_in_def ws_init_def empty_ring_def)
  then have "ws_reach c1 [1, 2]" by simp
  then have "ws_reach c2 [1, 2]"
    by (rule ws_reach.callback [where reason = "LWS_CALLBACK_CLIENT_WRITEABLE ws_demo_write"])
      (auto simp: c2 LwsWebsocketCallback_def lws_reason_ok_def lws_write_ok_def ws_demo_write_def
        Suc_le_eq)
  with c1 c2 show ?thesis by (auto simp: LwsWebsocketCallback_def)
qed

theorem ws_sends_in_order_witness:
  "\<exists>c xs. ws_reach c [1, 2] \<and> wire c = [1] \<and> ws_queue c xs \<and> wire c @ ws_pending c xs = [1, 2]"
  using ws_demo_reach ws_sends_in_order [of _ "[1, 2]"] by blast





text \<open>A text message that arrives in any number of non-empty fragments, and fits the
  receive buffer, reaches the callback exactly once and whole, whatever the buffer held
  before.\<close>

theorem ws_reassembles:
  assumes "length (rxBuffer c) = WEBSOCKET_RX_BUFFER_LENGTH" and "rxCallback c = Some g"
    and "ds \<noteq> []" and "\<forall>d \<in> set ds. d \<noteq> []" and "length (concat ds) \<le> WEBSOCKET_RX_BUFFER_LENGTH"
  shows "snd (ws_feed c True ds) = [concat ds]"
proof -
  obtain d ds' where ds: "ds = d # ds'" using assms(3) by (cases ds) auto
  have "ws_rx_holds (c\<lparr>dataLengthInRxBuffer := if True then 0 else dataLengthInRxBuffer c\<rparr>) []"
    using assms(1) by (simp add: ws_rx_holds_def)
  from ws_receive_fits [OF this, of d g "ds' = []"] assms ds obtain r c' where
    r: "ws_receive c False True (ds' = []) d = (r, c', if ds' = [] then [d] else [])"
    and h: "ws_rx_holds c' d" and cb: "rxCallback c' = Some g" by auto
  show ?thesis
  proof (cases "ds' = []")
    case True
    with r ds show ?thesis by (simp add: case_prod_unfold)
  next
    case False
    with ws_feed_holds [OF h cb False] assms ds have "snd (ws_feed c' False ds') = [concat ds]"
      by auto
    with r False ds show ?thesis by (simp add: case_prod_unfold)
  qed
qed

theorem ws_reassembles_witness:
  "snd (ws_feed (ws_init\<lparr>rxCallback := Some (\<lambda>_. 0), dataLengthInRxBuffer := 5\<rparr>) True [[1], [2, 3], [4]])
     = [[1, 2, 3, 4]]"
  by (subst ws_reassembles) (simp_all add: ws_init_def WEBSOCKET_RX_BUFFER_LENGTH_def)

end
