(* ===== verification/Pc_Result.thy ===== *)
theory Pc_Result
  imports Rtc_Prelude
begin

text \<open>
  The result codes of the peer connection component, the enumeration
  \<open>PeerConnectionResult_t\<close> of \<open>peer_connection/peer_connection_data_types.h\<close>, and the data
  the media path shares: the frames handed to and from the application.
\<close>

datatype (plugins only:) PeerConnectionResult =
    PEER_CONNECTION_RESULT_OK
  | PEER_CONNECTION_RESULT_CLOSING
  | PEER_CONNECTION_RESULT_BAD_PARAMETER
  | PEER_CONNECTION_RESULT_NO_FREE_TRANSCEIVER
  | PEER_CONNECTION_RESULT_FAIL_CREATE_TASK_ICE_CONTROLLER
  | PEER_CONNECTION_RESULT_FAIL_CREATE_TASK_ICE_SOCK_LISTENER
  | PEER_CONNECTION_RESULT_FAIL_CREATE_STARTUP_BARRIER
  | PEER_CONNECTION_RESULT_FAIL_SIGNAL_STARTUP_BARRIER
  | PEER_CONNECTION_RESULT_FAIL_ICE_CONTROLLER_INIT
  | PEER_CONNECTION_RESULT_FAIL_ICE_CONTROLLER_START
  | PEER_CONNECTION_RESULT_FAIL_ICE_CONTROLLER_ADD_REMOTE_CANDIDATE
  | PEER_CONNECTION_RESULT_FAIL_ICE_CONTROLLER_PROCESS_CANDIDATES_AND_PAIRS
  | PEER_CONNECTION_RESULT_FAIL_ICE_CONTROLLER_PERIOD_CONNECTION_CHECK
  | PEER_CONNECTION_RESULT_FAIL_ICE_CONTROLLER_ADDRESS_CLOSING
  | PEER_CONNECTION_RESULT_FAIL_ICE_CONTROLLER_DESTROY
  | PEER_CONNECTION_RESULT_FAIL_ICE_CONTROLLER_DESERIALIZE_CANDIDATE
  | PEER_CONNECTION_RESULT_FAIL_ICE_CONTROLLER_SEND_RTP_PACKET
  | PEER_CONNECTION_RESULT_FAIL_ICE_CONTROLLER_SEND_RTCP_PACKET
  | PEER_CONNECTION_RESULT_FAIL_ICE_CONTROLLER_RESEND_RTP_PACKET
  | PEER_CONNECTION_RESULT_FAIL_ICE_CONTROLLER_ADD_ICE_SERVER_CONFIG
  | PEER_CONNECTION_RESULT_FAIL_CREATE_CERT_AND_KEY
  | PEER_CONNECTION_RESULT_FAIL_CREATE_CERT_FINGERPRINT
  | PEER_CONNECTION_RESULT_FAIL_MQ_INIT
  | PEER_CONNECTION_RESULT_FAIL_MQ_SEND
  | PEER_CONNECTION_RESULT_FAIL_CREATE_SRTP_RX_SESSION
  | PEER_CONNECTION_RESULT_FAIL_CREATE_SRTP_TX_SESSION
  | PEER_CONNECTION_RESULT_FAIL_ENCRYPT_SRTP_RTP_PACKET
  | PEER_CONNECTION_RESULT_FAIL_ENCRYPT_SRTP_RTCP_PACKET
  | PEER_CONNECTION_RESULT_FAIL_DECRYPT_SRTP_RTP_PACKET
  | PEER_CONNECTION_RESULT_FAIL_RTP_INIT
  | PEER_CONNECTION_RESULT_FAIL_RTP_SERIALIZE
  | PEER_CONNECTION_RESULT_FAIL_RTP_DESERIALIZE
  | PEER_CONNECTION_RESULT_FAIL_RTP_RX_NO_MATCHING_SSRC
  | PEER_CONNECTION_RESULT_FAIL_RTP_PACKET_NOT_FOUND
  | PEER_CONNECTION_RESULT_FAIL_RTCP_INIT
  | PEER_CONNECTION_RESULT_FAIL_RTCP_DESERIALIZE
  | PEER_CONNECTION_RESULT_FAIL_RTCP_PARSE_REMB
  | PEER_CONNECTION_RESULT_FAIL_RTCP_PARSE_NACK
  | PEER_CONNECTION_RESULT_FAIL_RTCP_PARSE_PLI
  | PEER_CONNECTION_RESULT_FAIL_RTCP_PARSE_SLI
  | PEER_CONNECTION_RESULT_FAIL_RTCP_PARSE_FIR
  | PEER_CONNECTION_RESULT_FAIL_RTCP_PARSE_SENDER_REPORT
  | PEER_CONNECTION_RESULT_FAIL_RTCP_SERIALIZE_SENDER_REPORT
  | PEER_CONNECTION_RESULT_FAIL_RTCP_PARSE_RECEIVER_REPORT
  | PEER_CONNECTION_RESULT_FAIL_RTCP_TWCC_INIT
  | PEER_CONNECTION_RESULT_FAIL_CREATE_TWCC_MUTEX
  | PEER_CONNECTION_RESULT_FAIL_TAKE_TWCC_MUTEX
  | PEER_CONNECTION_RESULT_FAIL_TAKE_BITRATE_MOD_MUTEX
  | PEER_CONNECTION_RESULT_FAIL_TIMER_INIT
  | PEER_CONNECTION_RESULT_FAIL_TIMER_RESET
  | PEER_CONNECTION_RESULT_FAIL_RTCP_PARSE_TWCC
  | PEER_CONNECTION_RESULT_FAIL_RTCP_HANDLE_TWCC
  | PEER_CONNECTION_RESULT_FAIL_CREATE_SENDER_MUTEX
  | PEER_CONNECTION_RESULT_FAIL_TAKE_SENDER_MUTEX
  | PEER_CONNECTION_RESULT_FAIL_CREATE_SRTP_MUTEX
  | PEER_CONNECTION_RESULT_FAIL_INIT_DTLS_SESSION
  | PEER_CONNECTION_RESULT_FAIL_TAKE_SRTP_MUTEX
  | PEER_CONNECTION_RESULT_FAIL_PACKET_INFO_NO_ENOUGH_MEMORY
  | PEER_CONNECTION_RESULT_FAIL_RTP_PACKET_QUEUE_INIT
  | PEER_CONNECTION_RESULT_FAIL_RTP_PACKET_QUEUE_RETRIEVE
  | PEER_CONNECTION_RESULT_FAIL_RTP_PACKET_ENQUEUE
  | PEER_CONNECTION_RESULT_FAIL_PACKETIZER_INIT
  | PEER_CONNECTION_RESULT_FAIL_PACKETIZER_ADD_FRAME
  | PEER_CONNECTION_RESULT_FAIL_PACKETIZER_GET_PACKET
  | PEER_CONNECTION_RESULT_FAIL_DEPACKETIZER_INIT
  | PEER_CONNECTION_RESULT_FAIL_DEPACKETIZER_GET_PROPERTIES
  | PEER_CONNECTION_RESULT_FAIL_DEPACKETIZER_ADD_PACKET
  | PEER_CONNECTION_RESULT_FAIL_DEPACKETIZER_GET_FRAME
  | PEER_CONNECTION_RESULT_FAIL_JITTER_BUFFER_SEQ_NOT_FOUND
  | PEER_CONNECTION_RESULT_FAIL_SDP_DESERIALIZE_OFFER
  | PEER_CONNECTION_RESULT_FAIL_SDP_GET_PAYLOAD_TYPES
  | PEER_CONNECTION_RESULT_FAIL_SDP_SET_PAYLOAD_TYPE
  | PEER_CONNECTION_RESULT_FAIL_SDP_POPULATE_SINGLE_MEDIA_DESCRIPTION
  | PEER_CONNECTION_RESULT_FAIL_SDP_POPULATE_SESSION_DESCRIPTION
  | PEER_CONNECTION_RESULT_INVALID_REMOTE_USERNAME
  | PEER_CONNECTION_RESULT_INVALID_REMOTE_PASSWORD
  | PEER_CONNECTION_RESULT_UNKNOWN_SRTP_PROFILE
  | PEER_CONNECTION_RESULT_UNKNOWN_TX_CODEC
  | PEER_CONNECTION_RESULT_UNKNOWN_SSRC
  | PEER_CONNECTION_RESULT_UNKNOWN_SDP_TYPE
  | PEER_CONNECTION_RESULT_UNKNOWN_SDP_TRACK_KIND
  | PEER_CONNECTION_RESULT_UNKNOWN_CODEC
  | PEER_CONNECTION_RESULT_UNKNOWN_TRANSCEIVER
  | PEER_CONNECTION_RESULT_PACKET_OUTDATED
  | PEER_CONNECTION_RESULT_FAIL_SCTP_WRITE
  | PEER_CONNECTION_RESULT_FAIL_SCTP_READ
  | PEER_CONNECTION_RESULT_FAIL_SCTP_CLOSE

text \<open>The value a result code has in C, and the codes in the order of the enumeration.\<close>

primrec result_code :: "PeerConnectionResult \<Rightarrow> nat" where
  "result_code PEER_CONNECTION_RESULT_OK = 0"
| "result_code PEER_CONNECTION_RESULT_CLOSING = 1"
| "result_code PEER_CONNECTION_RESULT_BAD_PARAMETER = 2"
| "result_code PEER_CONNECTION_RESULT_NO_FREE_TRANSCEIVER = 3"
| "result_code PEER_CONNECTION_RESULT_FAIL_CREATE_TASK_ICE_CONTROLLER = 4"
| "result_code PEER_CONNECTION_RESULT_FAIL_CREATE_TASK_ICE_SOCK_LISTENER = 5"
| "result_code PEER_CONNECTION_RESULT_FAIL_CREATE_STARTUP_BARRIER = 6"
| "result_code PEER_CONNECTION_RESULT_FAIL_SIGNAL_STARTUP_BARRIER = 7"
| "result_code PEER_CONNECTION_RESULT_FAIL_ICE_CONTROLLER_INIT = 8"
| "result_code PEER_CONNECTION_RESULT_FAIL_ICE_CONTROLLER_START = 9"
| "result_code PEER_CONNECTION_RESULT_FAIL_ICE_CONTROLLER_ADD_REMOTE_CANDIDATE = 10"
| "result_code PEER_CONNECTION_RESULT_FAIL_ICE_CONTROLLER_PROCESS_CANDIDATES_AND_PAIRS = 11"
| "result_code PEER_CONNECTION_RESULT_FAIL_ICE_CONTROLLER_PERIOD_CONNECTION_CHECK = 12"
| "result_code PEER_CONNECTION_RESULT_FAIL_ICE_CONTROLLER_ADDRESS_CLOSING = 13"
| "result_code PEER_CONNECTION_RESULT_FAIL_ICE_CONTROLLER_DESTROY = 14"
| "result_code PEER_CONNECTION_RESULT_FAIL_ICE_CONTROLLER_DESERIALIZE_CANDIDATE = 15"
| "result_code PEER_CONNECTION_RESULT_FAIL_ICE_CONTROLLER_SEND_RTP_PACKET = 16"
| "result_code PEER_CONNECTION_RESULT_FAIL_ICE_CONTROLLER_SEND_RTCP_PACKET = 17"
| "result_code PEER_CONNECTION_RESULT_FAIL_ICE_CONTROLLER_RESEND_RTP_PACKET = 18"
| "result_code PEER_CONNECTION_RESULT_FAIL_ICE_CONTROLLER_ADD_ICE_SERVER_CONFIG = 19"
| "result_code PEER_CONNECTION_RESULT_FAIL_CREATE_CERT_AND_KEY = 20"
| "result_code PEER_CONNECTION_RESULT_FAIL_CREATE_CERT_FINGERPRINT = 21"
| "result_code PEER_CONNECTION_RESULT_FAIL_MQ_INIT = 22"
| "result_code PEER_CONNECTION_RESULT_FAIL_MQ_SEND = 23"
| "result_code PEER_CONNECTION_RESULT_FAIL_CREATE_SRTP_RX_SESSION = 24"
| "result_code PEER_CONNECTION_RESULT_FAIL_CREATE_SRTP_TX_SESSION = 25"
| "result_code PEER_CONNECTION_RESULT_FAIL_ENCRYPT_SRTP_RTP_PACKET = 26"
| "result_code PEER_CONNECTION_RESULT_FAIL_ENCRYPT_SRTP_RTCP_PACKET = 27"
| "result_code PEER_CONNECTION_RESULT_FAIL_DECRYPT_SRTP_RTP_PACKET = 28"
| "result_code PEER_CONNECTION_RESULT_FAIL_RTP_INIT = 29"
| "result_code PEER_CONNECTION_RESULT_FAIL_RTP_SERIALIZE = 30"
| "result_code PEER_CONNECTION_RESULT_FAIL_RTP_DESERIALIZE = 31"
| "result_code PEER_CONNECTION_RESULT_FAIL_RTP_RX_NO_MATCHING_SSRC = 32"
| "result_code PEER_CONNECTION_RESULT_FAIL_RTP_PACKET_NOT_FOUND = 33"
| "result_code PEER_CONNECTION_RESULT_FAIL_RTCP_INIT = 34"
| "result_code PEER_CONNECTION_RESULT_FAIL_RTCP_DESERIALIZE = 35"
| "result_code PEER_CONNECTION_RESULT_FAIL_RTCP_PARSE_REMB = 36"
| "result_code PEER_CONNECTION_RESULT_FAIL_RTCP_PARSE_NACK = 37"
| "result_code PEER_CONNECTION_RESULT_FAIL_RTCP_PARSE_PLI = 38"
| "result_code PEER_CONNECTION_RESULT_FAIL_RTCP_PARSE_SLI = 39"
| "result_code PEER_CONNECTION_RESULT_FAIL_RTCP_PARSE_FIR = 40"
| "result_code PEER_CONNECTION_RESULT_FAIL_RTCP_PARSE_SENDER_REPORT = 41"
| "result_code PEER_CONNECTION_RESULT_FAIL_RTCP_SERIALIZE_SENDER_REPORT = 42"
| "result_code PEER_CONNECTION_RESULT_FAIL_RTCP_PARSE_RECEIVER_REPORT = 43"
| "result_code PEER_CONNECTION_RESULT_FAIL_RTCP_TWCC_INIT = 44"
| "result_code PEER_CONNECTION_RESULT_FAIL_CREATE_TWCC_MUTEX = 45"
| "result_code PEER_CONNECTION_RESULT_FAIL_TAKE_TWCC_MUTEX = 46"
| "result_code PEER_CONNECTION_RESULT_FAIL_TAKE_BITRATE_MOD_MUTEX = 47"
| "result_code PEER_CONNECTION_RESULT_FAIL_TIMER_INIT = 48"
| "result_code PEER_CONNECTION_RESULT_FAIL_TIMER_RESET = 49"
| "result_code PEER_CONNECTION_RESULT_FAIL_RTCP_PARSE_TWCC = 50"
| "result_code PEER_CONNECTION_RESULT_FAIL_RTCP_HANDLE_TWCC = 51"
| "result_code PEER_CONNECTION_RESULT_FAIL_CREATE_SENDER_MUTEX = 52"
| "result_code PEER_CONNECTION_RESULT_FAIL_TAKE_SENDER_MUTEX = 53"
| "result_code PEER_CONNECTION_RESULT_FAIL_CREATE_SRTP_MUTEX = 54"
| "result_code PEER_CONNECTION_RESULT_FAIL_INIT_DTLS_SESSION = 55"
| "result_code PEER_CONNECTION_RESULT_FAIL_TAKE_SRTP_MUTEX = 56"
| "result_code PEER_CONNECTION_RESULT_FAIL_PACKET_INFO_NO_ENOUGH_MEMORY = 57"
| "result_code PEER_CONNECTION_RESULT_FAIL_RTP_PACKET_QUEUE_INIT = 58"
| "result_code PEER_CONNECTION_RESULT_FAIL_RTP_PACKET_QUEUE_RETRIEVE = 59"
| "result_code PEER_CONNECTION_RESULT_FAIL_RTP_PACKET_ENQUEUE = 60"
| "result_code PEER_CONNECTION_RESULT_FAIL_PACKETIZER_INIT = 61"
| "result_code PEER_CONNECTION_RESULT_FAIL_PACKETIZER_ADD_FRAME = 62"
| "result_code PEER_CONNECTION_RESULT_FAIL_PACKETIZER_GET_PACKET = 63"
| "result_code PEER_CONNECTION_RESULT_FAIL_DEPACKETIZER_INIT = 64"
| "result_code PEER_CONNECTION_RESULT_FAIL_DEPACKETIZER_GET_PROPERTIES = 65"
| "result_code PEER_CONNECTION_RESULT_FAIL_DEPACKETIZER_ADD_PACKET = 66"
| "result_code PEER_CONNECTION_RESULT_FAIL_DEPACKETIZER_GET_FRAME = 67"
| "result_code PEER_CONNECTION_RESULT_FAIL_JITTER_BUFFER_SEQ_NOT_FOUND = 68"
| "result_code PEER_CONNECTION_RESULT_FAIL_SDP_DESERIALIZE_OFFER = 69"
| "result_code PEER_CONNECTION_RESULT_FAIL_SDP_GET_PAYLOAD_TYPES = 70"
| "result_code PEER_CONNECTION_RESULT_FAIL_SDP_SET_PAYLOAD_TYPE = 71"
| "result_code PEER_CONNECTION_RESULT_FAIL_SDP_POPULATE_SINGLE_MEDIA_DESCRIPTION = 72"
| "result_code PEER_CONNECTION_RESULT_FAIL_SDP_POPULATE_SESSION_DESCRIPTION = 73"
| "result_code PEER_CONNECTION_RESULT_INVALID_REMOTE_USERNAME = 74"
| "result_code PEER_CONNECTION_RESULT_INVALID_REMOTE_PASSWORD = 75"
| "result_code PEER_CONNECTION_RESULT_UNKNOWN_SRTP_PROFILE = 76"
| "result_code PEER_CONNECTION_RESULT_UNKNOWN_TX_CODEC = 77"
| "result_code PEER_CONNECTION_RESULT_UNKNOWN_SSRC = 78"
| "result_code PEER_CONNECTION_RESULT_UNKNOWN_SDP_TYPE = 79"
| "result_code PEER_CONNECTION_RESULT_UNKNOWN_SDP_TRACK_KIND = 80"
| "result_code PEER_CONNECTION_RESULT_UNKNOWN_CODEC = 81"
| "result_code PEER_CONNECTION_RESULT_UNKNOWN_TRANSCEIVER = 82"
| "result_code PEER_CONNECTION_RESULT_PACKET_OUTDATED = 83"
| "result_code PEER_CONNECTION_RESULT_FAIL_SCTP_WRITE = 84"
| "result_code PEER_CONNECTION_RESULT_FAIL_SCTP_READ = 85"
| "result_code PEER_CONNECTION_RESULT_FAIL_SCTP_CLOSE = 86"

definition result_codes :: "PeerConnectionResult list" where
  "result_codes =
     [PEER_CONNECTION_RESULT_OK,
      PEER_CONNECTION_RESULT_CLOSING,
      PEER_CONNECTION_RESULT_BAD_PARAMETER,
      PEER_CONNECTION_RESULT_NO_FREE_TRANSCEIVER,
      PEER_CONNECTION_RESULT_FAIL_CREATE_TASK_ICE_CONTROLLER,
      PEER_CONNECTION_RESULT_FAIL_CREATE_TASK_ICE_SOCK_LISTENER,
      PEER_CONNECTION_RESULT_FAIL_CREATE_STARTUP_BARRIER,
      PEER_CONNECTION_RESULT_FAIL_SIGNAL_STARTUP_BARRIER,
      PEER_CONNECTION_RESULT_FAIL_ICE_CONTROLLER_INIT,
      PEER_CONNECTION_RESULT_FAIL_ICE_CONTROLLER_START,
      PEER_CONNECTION_RESULT_FAIL_ICE_CONTROLLER_ADD_REMOTE_CANDIDATE,
      PEER_CONNECTION_RESULT_FAIL_ICE_CONTROLLER_PROCESS_CANDIDATES_AND_PAIRS,
      PEER_CONNECTION_RESULT_FAIL_ICE_CONTROLLER_PERIOD_CONNECTION_CHECK,
      PEER_CONNECTION_RESULT_FAIL_ICE_CONTROLLER_ADDRESS_CLOSING,
      PEER_CONNECTION_RESULT_FAIL_ICE_CONTROLLER_DESTROY,
      PEER_CONNECTION_RESULT_FAIL_ICE_CONTROLLER_DESERIALIZE_CANDIDATE,
      PEER_CONNECTION_RESULT_FAIL_ICE_CONTROLLER_SEND_RTP_PACKET,
      PEER_CONNECTION_RESULT_FAIL_ICE_CONTROLLER_SEND_RTCP_PACKET,
      PEER_CONNECTION_RESULT_FAIL_ICE_CONTROLLER_RESEND_RTP_PACKET,
      PEER_CONNECTION_RESULT_FAIL_ICE_CONTROLLER_ADD_ICE_SERVER_CONFIG,
      PEER_CONNECTION_RESULT_FAIL_CREATE_CERT_AND_KEY,
      PEER_CONNECTION_RESULT_FAIL_CREATE_CERT_FINGERPRINT,
      PEER_CONNECTION_RESULT_FAIL_MQ_INIT,
      PEER_CONNECTION_RESULT_FAIL_MQ_SEND,
      PEER_CONNECTION_RESULT_FAIL_CREATE_SRTP_RX_SESSION,
      PEER_CONNECTION_RESULT_FAIL_CREATE_SRTP_TX_SESSION,
      PEER_CONNECTION_RESULT_FAIL_ENCRYPT_SRTP_RTP_PACKET,
      PEER_CONNECTION_RESULT_FAIL_ENCRYPT_SRTP_RTCP_PACKET,
      PEER_CONNECTION_RESULT_FAIL_DECRYPT_SRTP_RTP_PACKET,
      PEER_CONNECTION_RESULT_FAIL_RTP_INIT,
      PEER_CONNECTION_RESULT_FAIL_RTP_SERIALIZE,
      PEER_CONNECTION_RESULT_FAIL_RTP_DESERIALIZE,
      PEER_CONNECTION_RESULT_FAIL_RTP_RX_NO_MATCHING_SSRC,
      PEER_CONNECTION_RESULT_FAIL_RTP_PACKET_NOT_FOUND,
      PEER_CONNECTION_RESULT_FAIL_RTCP_INIT,
      PEER_CONNECTION_RESULT_FAIL_RTCP_DESERIALIZE,
      PEER_CONNECTION_RESULT_FAIL_RTCP_PARSE_REMB,
      PEER_CONNECTION_RESULT_FAIL_RTCP_PARSE_NACK,
      PEER_CONNECTION_RESULT_FAIL_RTCP_PARSE_PLI,
      PEER_CONNECTION_RESULT_FAIL_RTCP_PARSE_SLI,
      PEER_CONNECTION_RESULT_FAIL_RTCP_PARSE_FIR,
      PEER_CONNECTION_RESULT_FAIL_RTCP_PARSE_SENDER_REPORT,
      PEER_CONNECTION_RESULT_FAIL_RTCP_SERIALIZE_SENDER_REPORT,
      PEER_CONNECTION_RESULT_FAIL_RTCP_PARSE_RECEIVER_REPORT,
      PEER_CONNECTION_RESULT_FAIL_RTCP_TWCC_INIT,
      PEER_CONNECTION_RESULT_FAIL_CREATE_TWCC_MUTEX,
      PEER_CONNECTION_RESULT_FAIL_TAKE_TWCC_MUTEX,
      PEER_CONNECTION_RESULT_FAIL_TAKE_BITRATE_MOD_MUTEX,
      PEER_CONNECTION_RESULT_FAIL_TIMER_INIT,
      PEER_CONNECTION_RESULT_FAIL_TIMER_RESET,
      PEER_CONNECTION_RESULT_FAIL_RTCP_PARSE_TWCC,
      PEER_CONNECTION_RESULT_FAIL_RTCP_HANDLE_TWCC,
      PEER_CONNECTION_RESULT_FAIL_CREATE_SENDER_MUTEX,
      PEER_CONNECTION_RESULT_FAIL_TAKE_SENDER_MUTEX,
      PEER_CONNECTION_RESULT_FAIL_CREATE_SRTP_MUTEX,
      PEER_CONNECTION_RESULT_FAIL_INIT_DTLS_SESSION,
      PEER_CONNECTION_RESULT_FAIL_TAKE_SRTP_MUTEX,
      PEER_CONNECTION_RESULT_FAIL_PACKET_INFO_NO_ENOUGH_MEMORY,
      PEER_CONNECTION_RESULT_FAIL_RTP_PACKET_QUEUE_INIT,
      PEER_CONNECTION_RESULT_FAIL_RTP_PACKET_QUEUE_RETRIEVE,
      PEER_CONNECTION_RESULT_FAIL_RTP_PACKET_ENQUEUE,
      PEER_CONNECTION_RESULT_FAIL_PACKETIZER_INIT,
      PEER_CONNECTION_RESULT_FAIL_PACKETIZER_ADD_FRAME,
      PEER_CONNECTION_RESULT_FAIL_PACKETIZER_GET_PACKET,
      PEER_CONNECTION_RESULT_FAIL_DEPACKETIZER_INIT,
      PEER_CONNECTION_RESULT_FAIL_DEPACKETIZER_GET_PROPERTIES,
      PEER_CONNECTION_RESULT_FAIL_DEPACKETIZER_ADD_PACKET,
      PEER_CONNECTION_RESULT_FAIL_DEPACKETIZER_GET_FRAME,
      PEER_CONNECTION_RESULT_FAIL_JITTER_BUFFER_SEQ_NOT_FOUND,
      PEER_CONNECTION_RESULT_FAIL_SDP_DESERIALIZE_OFFER,
      PEER_CONNECTION_RESULT_FAIL_SDP_GET_PAYLOAD_TYPES,
      PEER_CONNECTION_RESULT_FAIL_SDP_SET_PAYLOAD_TYPE,
      PEER_CONNECTION_RESULT_FAIL_SDP_POPULATE_SINGLE_MEDIA_DESCRIPTION,
      PEER_CONNECTION_RESULT_FAIL_SDP_POPULATE_SESSION_DESCRIPTION,
      PEER_CONNECTION_RESULT_INVALID_REMOTE_USERNAME,
      PEER_CONNECTION_RESULT_INVALID_REMOTE_PASSWORD,
      PEER_CONNECTION_RESULT_UNKNOWN_SRTP_PROFILE,
      PEER_CONNECTION_RESULT_UNKNOWN_TX_CODEC,
      PEER_CONNECTION_RESULT_UNKNOWN_SSRC,
      PEER_CONNECTION_RESULT_UNKNOWN_SDP_TYPE,
      PEER_CONNECTION_RESULT_UNKNOWN_SDP_TRACK_KIND,
      PEER_CONNECTION_RESULT_UNKNOWN_CODEC,
      PEER_CONNECTION_RESULT_UNKNOWN_TRANSCEIVER,
      PEER_CONNECTION_RESULT_PACKET_OUTDATED,
      PEER_CONNECTION_RESULT_FAIL_SCTP_WRITE,
      PEER_CONNECTION_RESULT_FAIL_SCTP_READ,
      PEER_CONNECTION_RESULT_FAIL_SCTP_CLOSE]"

lemma result_codes_nth: "result_codes ! result_code r = r"
  by (cases r) (simp_all add: result_codes_def)

lemma result_code_inject: "result_code a = result_code b \<longleftrightarrow> a = b"
  by (metis result_codes_nth)

text \<open>Equality of result codes is executable.\<close>

instantiation PeerConnectionResult :: equal
begin

definition equal_PeerConnectionResult :: "PeerConnectionResult \<Rightarrow> PeerConnectionResult \<Rightarrow> bool" where
  "equal_PeerConnectionResult a b \<longleftrightarrow> result_code a = result_code b"

instance
  by standard (simp add: equal_PeerConnectionResult_def result_code_inject)

end

end
