(* ===== verification/Jitter_Buffer.thy ===== *)
theory Jitter_Buffer
  imports Pc_Result
begin

text \<open>
  The receive side's jitter buffer, \<open>peer_connection/peer_connection_jitter_buffer.c\<close>.  The
  packet array of 1000 entries is a function from the slot number; a packet pointer is the
  number of the slot it points to, since every packet the callers hold comes from
  \<open>PeerConnectionJitterBuffer_AllocateBuffer\<close>.  Function pointers are the name of the codec
  they belong to; what the codec helper and the two frame callbacks answer is the argument
  \<open>env\<close>.  The callbacks read the buffer and do not write it, as \<open>OnJitterBufferFrameReady\<close> and
  \<open>OnJitterBufferFrameDrop\<close> of \<open>peer_connection_srtp.c\<close>; their calls are recorded as events.
  \<open>pJitterBuffer\<close> is the address of a member of the session at every call and so not NULL.
\<close>

section \<open>Data\<close>

definition PEER_CONNECTION_JITTER_BUFFER_MAX_ENTRY_NUM :: nat where [rtc_defs]:
  "PEER_CONNECTION_JITTER_BUFFER_MAX_ENTRY_NUM = 1000"

record PeerConnectionJitterBufferPacket =
  isPushed :: bool
  sequenceNumber :: u16
  rtpTimestamp :: u32
  receiveTick :: u64
  pPacketBuffer :: "bytes option"
  packetBufferLength :: nat

text \<open>The codec whose helper functions a jitter buffer calls.\<close>

datatype codec_helper = H264_HELPER | OPUS_HELPER | G711_HELPER | H265_HELPER

record PeerConnectionJitterBuffer =
  jbIsInit :: bool
  isStart :: bool
  jbCapacity :: nat
  clockRate :: u32
  codec :: u32
  tolerenceRtpTimeStamp :: u32
  lastPopRtpTimestamp :: u32
  lastPopTick :: u64
  lastPopSequenceNumber :: u16
  oldestReceivedSequenceNumber :: u16
  newestReceivedSequenceNumber :: u16
  newestReceivedTimestamp :: u32
  rtpPackets :: "nat \<Rightarrow> PeerConnectionJitterBufferPacket"
  onFrameReadyCallbackFunc :: bool
  onFrameDropCallbackFunc :: bool
  getPacketPropertyFunc :: "codec_helper option"
  fillFrameFunc :: "codec_helper option"

text \<open>What the buffer calls: the property function gives its result and, on success, whether
  the packet starts a frame.\<close>

record jb_env =
  getPacketProperty :: "codec_helper \<Rightarrow> PeerConnectionJitterBufferPacket \<Rightarrow> PeerConnectionResult \<times> bool"
  onFrameReady :: "PeerConnectionJitterBuffer \<Rightarrow> u16 \<Rightarrow> u16 \<Rightarrow> PeerConnectionResult"
  onFrameDrop :: "PeerConnectionJitterBuffer \<Rightarrow> u16 \<Rightarrow> u16 \<Rightarrow> PeerConnectionResult"

datatype jb_event = FrameReady u16 u16 | FrameDrop u16 u16

text \<open>\<open>memset( pPacket, 0, ... )\<close>.\<close>

definition zero_packet :: PeerConnectionJitterBufferPacket where
  "zero_packet = \<lparr>isPushed = False, sequenceNumber = 0, rtpTimestamp = 0, receiveTick = 0,
                  pPacketBuffer = None, packetBufferLength = 0\<rparr>"

text \<open>\<open>PEER_CONNECTION_JITTER_BUFFER_WRAP( seq, MAX_ENTRY_NUM )\<close>.\<close>

definition slot_of :: "u16 \<Rightarrow> nat" where
  "slot_of seq = unat seq mod PEER_CONNECTION_JITTER_BUFFER_MAX_ENTRY_NUM"

abbreviation packet_at :: "PeerConnectionJitterBuffer \<Rightarrow> u16 \<Rightarrow> PeerConnectionJitterBufferPacket" where
  "packet_at jb seq \<equiv> rtpPackets jb (slot_of seq)"

section \<open>Discarding\<close>

definition DiscardPacket :: "PeerConnectionJitterBuffer \<Rightarrow> nat \<Rightarrow> PeerConnectionJitterBuffer" where
  "DiscardPacket jb k =
     (if pPacketBuffer (rtpPackets jb k) \<noteq> None
      then jb\<lparr>rtpPackets := (rtpPackets jb)(k := zero_packet)\<rparr> else jb)"

text \<open>\<open>pNextPacket\<close> is a slot, read after the range has been discarded.\<close>

definition DiscardPackets ::
    "PeerConnectionJitterBuffer \<Rightarrow> u16 \<Rightarrow> u16 \<Rightarrow> nat option \<Rightarrow> PeerConnectionJitterBuffer" where
  "DiscardPackets jb startSeq endSeq pNextPacket =
     (let jb' = foldl (\<lambda>b i. DiscardPacket b (slot_of i)) jb (seq_until startSeq (endSeq + 1))
      in (case pNextPacket of
            None \<Rightarrow> jb'
          | Some k \<Rightarrow> jb'\<lparr>oldestReceivedSequenceNumber := sequenceNumber (rtpPackets jb' k),
                          lastPopRtpTimestamp := rtpTimestamp (rtpPackets jb' k)\<rparr>))"

definition IsRtpPacketExpired ::
    "PeerConnectionJitterBuffer \<Rightarrow> PeerConnectionJitterBufferPacket \<Rightarrow> bool" where
  "IsRtpPacketExpired jb pkt =
     (let earliest = newestReceivedTimestamp jb - tolerenceRtpTimeStamp jb
      in (newestReceivedTimestamp jb > earliest \<and> rtpTimestamp pkt < earliest)
         \<or> (newestReceivedTimestamp jb < earliest \<and> rtpTimestamp pkt < earliest
            \<and> rtpTimestamp pkt > newestReceivedTimestamp jb))"

section \<open>Parsing frames\<close>

text \<open>The local variables of \<open>ParseFramesInJitterBuffer\<close>; \<open>None\<close> is the value -1 of
  \<open>popingPacketStartSeq\<close>.\<close>

record parse_state =
  psJb :: PeerConnectionJitterBuffer
  psRet :: PeerConnectionResult
  psContinuous :: bool
  psStart :: "u16 option"
  psFirst :: u16
  psPrev :: u16
  psEvents :: "jb_event list"

text \<open>A complete frame between \<open>psStart\<close> and \<open>psPrev\<close>, or an expired one: call the callback
  and free the packets up to the one at \<open>i\<close>.\<close>

definition emit_ready :: "jb_env \<Rightarrow> u16 \<Rightarrow> u16 \<Rightarrow> parse_state \<Rightarrow> parse_state" where
  "emit_ready env start i s =
     (let r = (if onFrameReadyCallbackFunc (psJb s)
               then onFrameReady env (psJb s) start (psPrev s) else psRet s)
      in s\<lparr>psJb := DiscardPackets (psJb s) start (psPrev s) (Some (slot_of i)),
           psRet := r, psStart := None, psFirst := i,
           psEvents := psEvents s @ [FrameReady start (psPrev s)]\<rparr>)"

definition emit_drop :: "jb_env \<Rightarrow> u16 \<Rightarrow> parse_state \<Rightarrow> parse_state" where
  "emit_drop env i s =
     (let r = (if onFrameDropCallbackFunc (psJb s)
               then onFrameDrop env (psJb s) (psFirst s) (psPrev s) else psRet s)
      in s\<lparr>psJb := DiscardPackets (psJb s) (psFirst s) (psPrev s) (Some (slot_of i)),
           psRet := r, psStart := None, psFirst := i,
           psEvents := psEvents s @ [FrameDrop (psFirst s) (psPrev s)]\<rparr>)"

text \<open>First half of the loop body: a hole, a packet of a later frame, or nothing to do.\<close>

definition parse_boundary ::
    "jb_env \<Rightarrow> bool \<Rightarrow> u16 \<Rightarrow> parse_state \<Rightarrow> parse_state loop_ctl" where
  "parse_boundary env isClosing i s =
     (let pkt = packet_at (psJb s) i
      in if \<not> isPushed pkt then
           (let s' = s\<lparr>psContinuous := False\<rparr>
            in if \<not> isClosing \<and> \<not> IsRtpPacketExpired (psJb s) pkt then Break s' else Next s')
         else if rtpTimestamp pkt \<noteq> lastPopRtpTimestamp (psJb s) then
           (case (psStart s, psContinuous s) of
              (Some start, True) \<Rightarrow>
                (let s' = emit_ready env start i s
                 in if psRet s' \<noteq> PEER_CONNECTION_RESULT_OK then Break s' else Next s')
            | _ \<Rightarrow>
                if IsRtpPacketExpired (psJb s) pkt then
                  (let s' = emit_drop env i s
                   in if psRet s' \<noteq> PEER_CONNECTION_RESULT_OK then Break s' else Next s')
                else Break s)
         else Next s)"

text \<open>What the installed property function answers: \<open>None\<close> when there is no such function or
  it fails.\<close>

definition packet_property ::
    "jb_env \<Rightarrow> PeerConnectionJitterBuffer \<Rightarrow> PeerConnectionJitterBufferPacket \<Rightarrow> bool option" where
  "packet_property env jb pkt =
     (case getPacketPropertyFunc jb of
        None \<Rightarrow> None
      | Some h \<Rightarrow>
          (let (result, isStartPacket) = getPacketProperty env h pkt
           in if result = PEER_CONNECTION_RESULT_OK then Some isStartPacket else None))"

text \<open>Second half: ask the codec whether a packet of the current frame starts it.\<close>

definition parse_property ::
    "jb_env \<Rightarrow> bool \<Rightarrow> u16 \<Rightarrow> parse_state \<Rightarrow> parse_state loop_ctl" where
  "parse_property env isClosing i s =
     (let pkt = packet_at (psJb s) i
      in if rtpTimestamp pkt = lastPopRtpTimestamp (psJb s) then
           (case packet_property env (psJb s) pkt of
              Some isStartPacket \<Rightarrow>
                Next (if psStart s = None \<and> isStartPacket
                      then s\<lparr>psStart := Some i, psPrev := i\<rparr> else s\<lparr>psPrev := i\<rparr>)
            | None \<Rightarrow>
                (let jb' = DiscardPacket (psJb s) (slot_of i);
                     s' = s\<lparr>psContinuous := False, psJb := jb'\<rparr>
                 in if \<not> isClosing \<and> \<not> IsRtpPacketExpired jb' (packet_at jb' i)
                    then Break s' else Next (s'\<lparr>psPrev := i\<rparr>)))
         else Next (s\<lparr>psPrev := i\<rparr>))"

definition parse_body :: "jb_env \<Rightarrow> bool \<Rightarrow> u16 \<Rightarrow> parse_state \<Rightarrow> parse_state loop_ctl" where
  "parse_body env isClosing i s =
     (case parse_boundary env isClosing i s of
        Break s' \<Rightarrow> Break s'
      | Next s' \<Rightarrow> parse_property env isClosing i s')"

text \<open>The second loop, run when the buffer is being closed: drop what is left.  After a
  callback failure \<open>continue\<close> skips the update of \<open>prev\<close>.\<close>

definition closing_drop :: "jb_env \<Rightarrow> u16 \<Rightarrow> parse_state \<Rightarrow> parse_state" where
  "closing_drop env i s =
     (let r = (if onFrameDropCallbackFunc (psJb s)
               then onFrameDrop env (psJb s) (psFirst s) (psPrev s) else psRet s)
      in s\<lparr>psJb := DiscardPackets (psJb s) (psFirst s) (psPrev s) None,
           psRet := r, psFirst := i,
           psEvents := psEvents s @ [FrameDrop (psFirst s) (psPrev s)]\<rparr>)"

definition closing_body :: "jb_env \<Rightarrow> u16 \<Rightarrow> parse_state \<Rightarrow> parse_state loop_ctl" where
  "closing_body env i s =
     (if \<not> isPushed (packet_at (psJb s) i) then
        (let s' = closing_drop env i s
         in if psRet s' \<noteq> PEER_CONNECTION_RESULT_OK then Next s' else Next (s'\<lparr>psPrev := i\<rparr>))
      else Next (s\<lparr>psPrev := i\<rparr>))"

definition parse_start :: "PeerConnectionJitterBuffer \<Rightarrow> parse_state" where
  "parse_start jb =
     \<lparr>psJb = jb, psRet = PEER_CONNECTION_RESULT_OK, psContinuous = True, psStart = None,
      psFirst = oldestReceivedSequenceNumber jb, psPrev = oldestReceivedSequenceNumber jb,
      psEvents = []\<rparr>"

definition parse_range :: "PeerConnectionJitterBuffer \<Rightarrow> u16 list" where
  "parse_range jb =
     seq_until (oldestReceivedSequenceNumber jb) (newestReceivedSequenceNumber jb + 1)"

definition parse_closing :: "jb_env \<Rightarrow> parse_state \<Rightarrow> parse_state" where
  "parse_closing env s =
     (let old = oldestReceivedSequenceNumber (psJb s);
          s1 = run_loop (closing_body env) (parse_range (psJb s)) (s\<lparr>psFirst := old, psPrev := old\<rparr>)
      in closing_drop env (psFirst s1) s1)"

definition ParseFramesInJitterBuffer ::
    "jb_env \<Rightarrow> PeerConnectionJitterBuffer \<Rightarrow> bool
      \<Rightarrow> PeerConnectionResult \<times> PeerConnectionJitterBuffer \<times> jb_event list" where
  "ParseFramesInJitterBuffer env jb isClosing =
     (if \<not> onFrameReadyCallbackFunc jb \<or> \<not> onFrameDropCallbackFunc jb
      then (PEER_CONNECTION_RESULT_BAD_PARAMETER, jb, [])
      else
        (let s = run_loop (parse_body env isClosing) (parse_range jb) (parse_start jb);
             s' = (if isClosing then parse_closing env s else s)
         in (psRet s', psJb s', psEvents s')))"

section \<open>Accepting packets\<close>

text \<open>The window around the newest sequence number, in the 32-bit arithmetic of the code.\<close>

definition ShouldAcceptPacket ::
    "PeerConnectionJitterBuffer \<Rightarrow> PeerConnectionJitterBufferPacket \<Rightarrow> PeerConnectionResult" where
  "ShouldAcceptPacket jb pkt =
     (let rtpSeqOffset = (of_nat (jbCapacity jb div 2) :: u32);
          earliest = (ucast ((ucast (newestReceivedSequenceNumber jb) - rtpSeqOffset) AND 0xFFFF) :: u16);
          lastest = (ucast ((ucast (newestReceivedSequenceNumber jb) + rtpSeqOffset) AND 0xFFFF) :: u16)
      in if lastest \<ge> earliest then
           (if sequenceNumber pkt < earliest \<or> sequenceNumber pkt > lastest
            then PEER_CONNECTION_RESULT_PACKET_OUTDATED else PEER_CONNECTION_RESULT_OK)
         else
           (if sequenceNumber pkt < earliest \<and> sequenceNumber pkt > lastest
            then PEER_CONNECTION_RESULT_PACKET_OUTDATED else PEER_CONNECTION_RESULT_OK))"

text \<open>
  \<open>UpdateJitterBufferAddPacket\<close>, one definition per group of its assignments.  The code adds
  \<open>0.1 * clockRate\<close> in double precision and truncates; for every 32-bit clock rate that is
  \<open>clockRate div 10\<close>, since \<open>0.1 * clockRate\<close> rounds to the exact quotient when 10 divides the
  rate and stays between two integers otherwise.
\<close>

definition update_newest_seq ::
    "PeerConnectionJitterBuffer \<Rightarrow> u16 \<Rightarrow> PeerConnectionJitterBuffer" where
  "update_newest_seq jb seq =
     (if seq > newestReceivedSequenceNumber jb then jb\<lparr>newestReceivedSequenceNumber := seq\<rparr>
      else if (newestReceivedSequenceNumber jb + 10) \<le> seq
      then jb\<lparr>newestReceivedSequenceNumber := seq\<rparr>
      else jb)"

definition update_oldest_seq ::
    "PeerConnectionJitterBuffer \<Rightarrow> u16 \<Rightarrow> PeerConnectionJitterBuffer" where
  "update_oldest_seq jb seq =
     (if seq < oldestReceivedSequenceNumber jb then jb\<lparr>oldestReceivedSequenceNumber := seq\<rparr>
      else if (oldestReceivedSequenceNumber jb - 10) \<le> seq
      then jb\<lparr>newestReceivedSequenceNumber := seq\<rparr>
      else jb)"

definition update_newest_timestamp ::
    "PeerConnectionJitterBuffer \<Rightarrow> u32 \<Rightarrow> PeerConnectionJitterBuffer" where
  "update_newest_timestamp jb ts =
     (if ts > newestReceivedTimestamp jb then jb\<lparr>newestReceivedTimestamp := ts\<rparr>
      else if (newestReceivedTimestamp jb + clockRate jb div 10) \<le> ts
      then jb\<lparr>newestReceivedTimestamp := ts\<rparr>
      else jb)"

definition update_lastpop_timestamp ::
    "PeerConnectionJitterBuffer \<Rightarrow> u32 \<Rightarrow> PeerConnectionJitterBuffer" where
  "update_lastpop_timestamp jb ts =
     (if ts < lastPopRtpTimestamp jb then jb\<lparr>lastPopRtpTimestamp := ts\<rparr>
      else if unat ts + unat (clockRate jb) div 10 < unat (lastPopRtpTimestamp jb)
      then jb\<lparr>lastPopRtpTimestamp := ts\<rparr>
      else jb)"

definition UpdateJitterBufferAddPacket ::
    "PeerConnectionJitterBuffer \<Rightarrow> PeerConnectionJitterBufferPacket \<Rightarrow> PeerConnectionJitterBuffer" where
  "UpdateJitterBufferAddPacket jb pkt =
     (let jb1 = update_newest_seq jb (sequenceNumber pkt);
          jb2 = update_oldest_seq jb1 (sequenceNumber pkt);
          jb3 = update_newest_timestamp jb2 (rtpTimestamp pkt)
      in update_lastpop_timestamp jb3 (rtpTimestamp pkt))"

section \<open>The interface\<close>

text \<open>\<open>TRANSCEIVER_IS_CODEC_ENABLED\<close> and the codec bits of \<open>transceiver_data_types.h\<close>.\<close>

definition TRANSCEIVER_IS_CODEC_ENABLED :: "u32 \<Rightarrow> nat \<Rightarrow> bool" where [rtc_defs]:
  "TRANSCEIVER_IS_CODEC_ENABLED bitmap b \<longleftrightarrow> bitmap AND push_bit b 1 \<noteq> 0"

definition TRANSCEIVER_RTC_CODEC_MULAW_BIT :: nat where "TRANSCEIVER_RTC_CODEC_MULAW_BIT = 1"
definition TRANSCEIVER_RTC_CODEC_ALAW_BIT :: nat where "TRANSCEIVER_RTC_CODEC_ALAW_BIT = 2"
definition TRANSCEIVER_RTC_CODEC_VP8_BIT :: nat where "TRANSCEIVER_RTC_CODEC_VP8_BIT = 3"
definition TRANSCEIVER_RTC_CODEC_OPUS_BIT :: nat where "TRANSCEIVER_RTC_CODEC_OPUS_BIT = 4"
definition TRANSCEIVER_RTC_CODEC_H264_BIT :: nat where "TRANSCEIVER_RTC_CODEC_H264_BIT = 5"
definition TRANSCEIVER_RTC_CODEC_H265_BIT :: nat where "TRANSCEIVER_RTC_CODEC_H265_BIT = 6"

lemmas codec_bit_defs [rtc_defs] =
  TRANSCEIVER_RTC_CODEC_MULAW_BIT_def TRANSCEIVER_RTC_CODEC_ALAW_BIT_def
  TRANSCEIVER_RTC_CODEC_VP8_BIT_def TRANSCEIVER_RTC_CODEC_OPUS_BIT_def
  TRANSCEIVER_RTC_CODEC_H264_BIT_def TRANSCEIVER_RTC_CODEC_H265_BIT_def

text \<open>Which helper the code installs, tried in its order: \<open>Some None\<close> is VP8, for which no
  function is set, and \<open>None\<close> the unsupported codec.\<close>

definition select_codec_helper :: "u32 \<Rightarrow> codec_helper option option" where
  "select_codec_helper codecBits =
     (if TRANSCEIVER_IS_CODEC_ENABLED codecBits TRANSCEIVER_RTC_CODEC_H264_BIT then Some (Some H264_HELPER)
      else if TRANSCEIVER_IS_CODEC_ENABLED codecBits TRANSCEIVER_RTC_CODEC_OPUS_BIT then Some (Some OPUS_HELPER)
      else if TRANSCEIVER_IS_CODEC_ENABLED codecBits TRANSCEIVER_RTC_CODEC_VP8_BIT then Some None
      else if TRANSCEIVER_IS_CODEC_ENABLED codecBits TRANSCEIVER_RTC_CODEC_MULAW_BIT then Some (Some G711_HELPER)
      else if TRANSCEIVER_IS_CODEC_ENABLED codecBits TRANSCEIVER_RTC_CODEC_ALAW_BIT then Some (Some G711_HELPER)
      else if TRANSCEIVER_IS_CODEC_ENABLED codecBits TRANSCEIVER_RTC_CODEC_H265_BIT then Some (Some H265_HELPER)
      else None)"

text \<open>The flags say whether the callback pointers are non-NULL.\<close>

definition PeerConnectionJitterBuffer_Create ::
    "PeerConnectionJitterBuffer \<Rightarrow> bool \<Rightarrow> bool \<Rightarrow> u32 \<Rightarrow> u32 \<Rightarrow> u32
      \<Rightarrow> PeerConnectionResult \<times> PeerConnectionJitterBuffer" where
  "PeerConnectionJitterBuffer_Create jb readyFunc dropFunc tolerenceBufferSec codecBits rate =
     (if codecBits = 0 then (PEER_CONNECTION_RESULT_BAD_PARAMETER, jb)
      else
        (let jb0 =
           \<lparr>jbIsInit = False, isStart = False,
            jbCapacity = PEER_CONNECTION_JITTER_BUFFER_MAX_ENTRY_NUM,
            clockRate = rate, codec = codecBits,
            tolerenceRtpTimeStamp = tolerenceBufferSec * rate,
            lastPopRtpTimestamp = 0xFFFFFFFF, lastPopTick = 0xFFFFFFFFFFFFFFFF,
            lastPopSequenceNumber = 0xFFFF, oldestReceivedSequenceNumber = 0,
            newestReceivedSequenceNumber = 0xFFFF, newestReceivedTimestamp = 0xFFFFFFFF,
            rtpPackets = (\<lambda>_. zero_packet),
            onFrameReadyCallbackFunc = readyFunc, onFrameDropCallbackFunc = dropFunc,
            getPacketPropertyFunc = None, fillFrameFunc = None\<rparr>
         in (case select_codec_helper codecBits of
               None \<Rightarrow> (PEER_CONNECTION_RESULT_UNKNOWN_TX_CODEC, jb0)
             | Some h \<Rightarrow>
                 (PEER_CONNECTION_RESULT_OK,
                  jb0\<lparr>getPacketPropertyFunc := h, fillFrameFunc := h, jbIsInit := True\<rparr>))))"

definition PeerConnectionJitterBuffer_Free ::
    "jb_env \<Rightarrow> PeerConnectionJitterBuffer \<Rightarrow> PeerConnectionJitterBuffer \<times> jb_event list" where
  "PeerConnectionJitterBuffer_Free env jb =
     (if \<not> jbIsInit jb then (jb, [])
      else
        (let (_, jb', evs) = ParseFramesInJitterBuffer env (jb\<lparr>jbIsInit := False\<rparr>) True
         in (DiscardPackets jb' 0 (of_nat PEER_CONNECTION_JITTER_BUFFER_MAX_ENTRY_NUM - 1) None, evs)))"

text \<open>
  \<open>mal\<close> is what \<open>malloc\<close> returns for the payload; the code stores it without a check.  The
  slot of the packet is written to \<open>*ppOutPacket\<close>, whose pointer is not NULL.
\<close>

definition PeerConnectionJitterBuffer_AllocateBuffer ::
    "PeerConnectionJitterBuffer \<Rightarrow> nat \<Rightarrow> u16 \<Rightarrow> bytes option
      \<Rightarrow> PeerConnectionResult \<times> PeerConnectionJitterBuffer \<times> nat option" where
  "PeerConnectionJitterBuffer_AllocateBuffer jb packetBufferSize rtpSeq mal =
     (if \<not> jbIsInit jb then (PEER_CONNECTION_RESULT_BAD_PARAMETER, jb, None)
      else if packetBufferSize = 0 then (PEER_CONNECTION_RESULT_BAD_PARAMETER, jb, None)
      else
        (let k = slot_of rtpSeq;
             jb1 = (if pPacketBuffer (rtpPackets jb k) \<noteq> None then DiscardPacket jb k else jb)
         in (PEER_CONNECTION_RESULT_OK,
             jb1\<lparr>rtpPackets := (rtpPackets jb1)(k := (rtpPackets jb1 k)\<lparr>pPacketBuffer := mal,
                                  packetBufferLength := packetBufferSize\<rparr>)\<rparr>,
             Some k)))"

definition PeerConnectionJitterBuffer_GetPacket ::
    "PeerConnectionJitterBuffer \<Rightarrow> u16 \<Rightarrow> bool \<Rightarrow> PeerConnectionResult \<times> nat option" where
  "PeerConnectionJitterBuffer_GetPacket jb rtpSeq ppOutPacket =
     (if \<not> ppOutPacket then (PEER_CONNECTION_RESULT_BAD_PARAMETER, None)
      else if \<not> jbIsInit jb then (PEER_CONNECTION_RESULT_BAD_PARAMETER, None)
      else if sequenceNumber (packet_at jb rtpSeq) = rtpSeq
      then (PEER_CONNECTION_RESULT_OK, Some (slot_of rtpSeq))
      else (PEER_CONNECTION_RESULT_FAIL_JITTER_BUFFER_SEQ_NOT_FOUND, None))"

text \<open>\<open>pPacket\<close> is the slot of the packet that the caller filled in.\<close>

definition push_start ::
    "PeerConnectionJitterBuffer \<Rightarrow> PeerConnectionJitterBufferPacket \<Rightarrow> PeerConnectionJitterBuffer" where
  "push_start jb pkt =
     (if \<not> isStart jb
      then jb\<lparr>isStart := True, newestReceivedSequenceNumber := sequenceNumber pkt,
               newestReceivedTimestamp := rtpTimestamp pkt,
               oldestReceivedSequenceNumber := sequenceNumber pkt\<rparr>
      else jb)"

definition push_accept ::
    "PeerConnectionJitterBuffer \<Rightarrow> nat \<Rightarrow> PeerConnectionJitterBuffer" where
  "push_accept jb k =
     (let jb1 = jb\<lparr>rtpPackets := (rtpPackets jb)(k := (rtpPackets jb k)\<lparr>isPushed := True\<rparr>)\<rparr>
      in UpdateJitterBufferAddPacket jb1 (rtpPackets jb1 k))"

definition PeerConnectionJitterBuffer_Push ::
    "jb_env \<Rightarrow> PeerConnectionJitterBuffer \<Rightarrow> nat option
      \<Rightarrow> PeerConnectionResult \<times> PeerConnectionJitterBuffer \<times> jb_event list" where
  "PeerConnectionJitterBuffer_Push env jb pPacket =
     (case pPacket of
        None \<Rightarrow> (PEER_CONNECTION_RESULT_BAD_PARAMETER, jb, [])
      | Some k \<Rightarrow>
          if \<not> jbIsInit jb then (PEER_CONNECTION_RESULT_BAD_PARAMETER, DiscardPacket jb k, [])
          else
            (let jb1 = push_start jb (rtpPackets jb k);
                 ret = ShouldAcceptPacket jb1 (rtpPackets jb1 k)
             in if ret \<noteq> PEER_CONNECTION_RESULT_OK then (ret, DiscardPacket jb1 k, [])
                else ParseFramesInJitterBuffer env (push_accept jb1 k) False))"

end
