(* ===== verification/Jitter_Buffer_Correct.thy ===== *)
theory Jitter_Buffer_Correct
  imports Jitter_Buffer
begin

text \<open>
  What the jitter buffer does: which packets a discard frees, that a frame announced as
  ready is complete, which sequence numbers are accepted, that the slots stay consistent
  and that nothing is left allocated after \<open>PeerConnectionJitterBuffer_Free\<close>.
\<close>

section \<open>Discarding frees exactly the slots of the range\<close>

definition discard_slots ::
    "nat set \<Rightarrow> (nat \<Rightarrow> PeerConnectionJitterBufferPacket) \<Rightarrow> nat \<Rightarrow> PeerConnectionJitterBufferPacket" where
  "discard_slots S ps k = (if k \<in> S \<and> pPacketBuffer (ps k) \<noteq> None then zero_packet else ps k)"

lemma zero_packet_sel [simp]:
  "isPushed zero_packet = False" "pPacketBuffer zero_packet = None"
  "sequenceNumber zero_packet = 0" "rtpTimestamp zero_packet = 0" "packetBufferLength zero_packet = 0"
  by (simp_all add: zero_packet_def)

lemma DiscardPacket_eq: "DiscardPacket jb k = jb\<lparr>rtpPackets := discard_slots {k} (rtpPackets jb)\<rparr>"
proof -
  have "discard_slots {k} (rtpPackets jb)
      = (if pPacketBuffer (rtpPackets jb k) \<noteq> None then (rtpPackets jb)(k := zero_packet)
         else rtpPackets jb)"
    by (auto simp: discard_slots_def fun_eq_iff)
  then show ?thesis by (simp add: DiscardPacket_def)
qed

lemma discard_slots_insert:
  "discard_slots S (discard_slots {k} ps) = discard_slots (insert k S) ps"
  by (auto simp: discard_slots_def fun_eq_iff)

lemma discard_slots_empty [simp]: "discard_slots {} ps = ps"
  by (simp add: discard_slots_def fun_eq_iff)

lemma foldl_DiscardPacket:
  "foldl (\<lambda>b i. DiscardPacket b (slot_of i)) jb is
     = jb\<lparr>rtpPackets := discard_slots (slot_of ` set is) (rtpPackets jb)\<rparr>"
  by (induction "is" arbitrary: jb) (simp_all add: DiscardPacket_eq discard_slots_insert)

definition range_slots :: "u16 \<Rightarrow> u16 \<Rightarrow> nat set" where
  "range_slots s e = slot_of ` set (seq_until s (e + 1))"

lemma DiscardPackets_None:
  "DiscardPackets jb s e None = jb\<lparr>rtpPackets := discard_slots (range_slots s e) (rtpPackets jb)\<rparr>"
  by (simp add: DiscardPackets_def foldl_DiscardPacket range_slots_def)

lemma DiscardPackets_Some:
  "DiscardPackets jb s e (Some k) =
     (let ps = discard_slots (range_slots s e) (rtpPackets jb)
      in jb\<lparr>rtpPackets := ps, oldestReceivedSequenceNumber := sequenceNumber (ps k),
             lastPopRtpTimestamp := rtpTimestamp (ps k)\<rparr>)"
  by (simp add: DiscardPackets_def foldl_DiscardPacket range_slots_def Let_def)

lemmas discard_eqs = DiscardPacket_eq DiscardPackets_None DiscardPackets_Some

text \<open>A packet that is discarded is the zero packet, any other one is as before.\<close>

definition packets_sub ::
    "(nat \<Rightarrow> PeerConnectionJitterBufferPacket) \<Rightarrow> (nat \<Rightarrow> PeerConnectionJitterBufferPacket) \<Rightarrow> bool" where
  "packets_sub ps ps0 \<longleftrightarrow> (\<forall>k. ps k = ps0 k \<or> ps k = zero_packet)"

lemma packets_sub_refl [simp]: "packets_sub ps ps"
  by (simp add: packets_sub_def)

lemma packets_sub_discard [intro]: "packets_sub ps ps0 \<Longrightarrow> packets_sub (discard_slots S ps) ps0"
  by (simp add: packets_sub_def discard_slots_def)

lemma packets_sub_pushed: "packets_sub ps ps0 \<Longrightarrow> isPushed (ps k) \<Longrightarrow> ps k = ps0 k"
  by (metis packets_sub_def zero_packet_sel(1))

section \<open>A frame that is announced is complete\<close>

text \<open>
  Each packet of the range has arrived, all carry the same RTP timestamp, the codec helper
  knows each of them, and the first one starts a frame.
\<close>

definition packet_good ::
    "jb_env \<Rightarrow> PeerConnectionJitterBuffer \<Rightarrow> u32 \<Rightarrow> u16 \<Rightarrow> bool" where
  "packet_good env jb ts q \<longleftrightarrow>
     isPushed (packet_at jb q) \<and> rtpTimestamp (packet_at jb q) = ts
     \<and> packet_property env jb (packet_at jb q) \<noteq> None"

definition starts_frame :: "jb_env \<Rightarrow> PeerConnectionJitterBuffer \<Rightarrow> u16 \<Rightarrow> bool" where
  "starts_frame env jb q \<longleftrightarrow> packet_property env jb (packet_at jb q) = Some True"

definition frame_complete :: "jb_env \<Rightarrow> PeerConnectionJitterBuffer \<Rightarrow> u16 \<Rightarrow> u16 \<Rightarrow> bool" where
  "frame_complete env jb s e \<longleftrightarrow>
     s \<in> set (seq_until s (e + 1)) \<and> starts_frame env jb s
     \<and> (\<exists>ts. \<forall>q \<in> set (seq_until s (e + 1)). packet_good env jb ts q)"

definition events_ok :: "jb_env \<Rightarrow> PeerConnectionJitterBuffer \<Rightarrow> jb_event list \<Rightarrow> bool" where
  "events_ok env jb evs \<longleftrightarrow> (\<forall>s e. FrameReady s e \<in> set evs \<longrightarrow> frame_complete env jb s e)"

text \<open>The codec helpers report a failure for a packet without a payload.\<close>

definition rejects_empty :: "jb_env \<Rightarrow> bool" where
  "rejects_empty env \<longleftrightarrow>
     (\<forall>h. fst (getPacketProperty env h zero_packet) \<noteq> PEER_CONNECTION_RESULT_OK)"

text \<open>The part of the loop invariant that does not depend on the index, and the part that
  follows the frame being collected.\<close>

definition parse_base :: "jb_env \<Rightarrow> PeerConnectionJitterBuffer \<Rightarrow> parse_state \<Rightarrow> bool" where
  "parse_base env jb s \<longleftrightarrow>
     packets_sub (rtpPackets (psJb s)) (rtpPackets jb)
     \<and> getPacketPropertyFunc (psJb s) = getPacketPropertyFunc jb
     \<and> events_ok env jb (psEvents s)"

definition parse_frame ::
    "jb_env \<Rightarrow> PeerConnectionJitterBuffer \<Rightarrow> u16 \<Rightarrow> parse_state \<Rightarrow> bool" where
  "parse_frame env jb i s \<longleftrightarrow>
     (\<forall>st. psStart s = Some st \<longrightarrow>
        psPrev s + 1 = i \<and> st \<in> set (seq_until (oldestReceivedSequenceNumber jb) i)
        \<and> starts_frame env jb st
        \<and> (psContinuous s \<longrightarrow>
             (\<forall>q \<in> set (seq_until st i). packet_good env jb (lastPopRtpTimestamp (psJb s)) q)))"

lemma seq_until_head: "i \<noteq> stop \<Longrightarrow> i \<in> set (seq_until i stop)"
  by (simp add: seq_until_step)

lemma emit_ready_base:
  assumes base: "parse_base env jb s" and frame: "parse_frame env jb i s"
    and st: "psStart s = Some st" "psContinuous s"
  shows "parse_base env jb (emit_ready env st i s)"
proof -
  have prev: "psPrev s + 1 = i" and vis: "st \<in> set (seq_until (oldestReceivedSequenceNumber jb) i)"
    and start: "starts_frame env jb st"
    and good: "\<forall>q \<in> set (seq_until st i). packet_good env jb (lastPopRtpTimestamp (psJb s)) q"
    using frame st by (auto simp: parse_frame_def)
  have "st \<noteq> i" using vis notin_seq_until_self by metis
  then have "frame_complete env jb st (psPrev s)"
    unfolding frame_complete_def prev using start good seq_until_head by blast
  with base show ?thesis
    by (auto simp: parse_base_def emit_ready_def Let_def DiscardPackets_Some events_ok_def)
qed

lemma emit_drop_base: "parse_base env jb s \<Longrightarrow> parse_base env jb (emit_drop env i s)"
  by (auto simp: parse_base_def emit_drop_def Let_def DiscardPackets_Some events_ok_def)

text \<open>After the first half of the body, a continuous frame means that the packet at the
  index has arrived, unless the discard has just freed its slot.\<close>

definition parse_here :: "u16 \<Rightarrow> parse_state \<Rightarrow> bool" where
  "parse_here i s \<longleftrightarrow>
     (psContinuous s \<longrightarrow>
        (isPushed (packet_at (psJb s) i) \<or> packet_at (psJb s) i = zero_packet)
        \<and> (psStart s = None \<or> rtpTimestamp (packet_at (psJb s) i) = lastPopRtpTimestamp (psJb s)))"

lemma discard_slots_here: "isPushed (ps k) \<Longrightarrow> isPushed (discard_slots S ps k) \<or> discard_slots S ps k = zero_packet"
  by (simp add: discard_slots_def)

lemma emit_here:
  assumes "isPushed (packet_at (psJb s) i)"
  shows "parse_here i (emit_ready env st i s)" and "parse_here i (emit_drop env i s)"
  using discard_slots_here [of "rtpPackets (psJb s)" "slot_of i", OF assms]
  by (auto simp: parse_here_def emit_ready_def emit_drop_def Let_def DiscardPackets_Some)

lemma emit_frame [simp]:
  "parse_frame env jb i (emit_ready env st j s)" "parse_frame env jb i (emit_drop env j s)"
  by (simp_all add: parse_frame_def emit_ready_def emit_drop_def Let_def)

lemma parse_boundary_cases:
  assumes "parse_boundary env cl i s = Next s' \<or> parse_boundary env cl i s = Break s'"
  obtains (hole) "s' = s\<lparr>psContinuous := False\<rparr>"
  | (ready) st where "psStart s = Some st" "psContinuous s" "isPushed (packet_at (psJb s) i)"
      "s' = emit_ready env st i s"
  | (drop) "isPushed (packet_at (psJb s) i)" "s' = emit_drop env i s"
  | (same) "isPushed (packet_at (psJb s) i)" "s' = s"
      "parse_boundary env cl i s = Next s' \<Longrightarrow> rtpTimestamp (packet_at (psJb s) i) = lastPopRtpTimestamp (psJb s)"
proof (cases "isPushed (packet_at (psJb s) i)")
  case False
  with assms show ?thesis
    by (auto intro!: hole simp: parse_boundary_def Let_def split: if_splits)
next
  case pushed: True
  show ?thesis
  proof (cases "\<exists>st. psStart s = Some st \<and> psContinuous s")
    case True
    then obtain st where "psStart s = Some st" "psContinuous s" by blast
    with pushed assms ready [of st] same show ?thesis
      by (auto simp: parse_boundary_def Let_def split: if_splits)
  next
    case False
    then have "parse_boundary env cl i s =
       (if rtpTimestamp (packet_at (psJb s) i) \<noteq> lastPopRtpTimestamp (psJb s) then
          (if IsRtpPacketExpired (psJb s) (packet_at (psJb s) i)
           then (if psRet (emit_drop env i s) \<noteq> PEER_CONNECTION_RESULT_OK
                 then Break (emit_drop env i s) else Next (emit_drop env i s))
           else Break s)
        else Next s)"
      using pushed by (auto simp: parse_boundary_def Let_def split: option.splits bool.splits)
    with assms pushed drop same show ?thesis by (auto split: if_splits)
  qed
qed

lemma parse_boundary_step:
  assumes "parse_base env jb s" and "parse_frame env jb i s"
    and "parse_boundary env cl i s = Next s' \<or> parse_boundary env cl i s = Break s'"
  shows "parse_base env jb s'"
  using assms(3)
proof (cases rule: parse_boundary_cases)
  case hole
  with assms(1) show ?thesis by (simp add: parse_base_def)
next
  case (ready st)
  with emit_ready_base [OF assms(1,2)] show ?thesis by simp
qed (use assms emit_drop_base in auto)

lemma parse_boundary_next:
  assumes "parse_frame env jb i s" and "parse_boundary env cl i s = Next s'"
  shows "parse_frame env jb i s' \<and> parse_here i s'"
  using assms(2) [THEN disjI1]
proof (cases rule: parse_boundary_cases)
  case hole
  with assms(1) show ?thesis by (simp add: parse_frame_def parse_here_def)
next
  case (ready st)
  with emit_here(1) show ?thesis by simp
next
  case drop
  with emit_here(2) show ?thesis by simp
next
  case same
  with assms show ?thesis by (simp add: parse_here_def)
qed

text \<open>The second half of the body extends the frame by the packet at the index.\<close>

lemma parse_property_cases:
  assumes "parse_property env cl i s = Next s' \<or> parse_property env cl i s = Break s'"
  obtains (other) "rtpTimestamp (packet_at (psJb s) i) \<noteq> lastPopRtpTimestamp (psJb s)"
      "s' = s\<lparr>psPrev := i\<rparr>"
  | (known) b where "rtpTimestamp (packet_at (psJb s) i) = lastPopRtpTimestamp (psJb s)"
      "packet_property env (psJb s) (packet_at (psJb s) i) = Some b"
      "s' = (if psStart s = None \<and> b then s\<lparr>psStart := Some i, psPrev := i\<rparr> else s\<lparr>psPrev := i\<rparr>)"
  | (unknown) p where "s' = s\<lparr>psContinuous := False, psJb := DiscardPacket (psJb s) (slot_of i), psPrev := p\<rparr>"
      "parse_property env cl i s = Next s' \<Longrightarrow> p = i"
proof (cases "rtpTimestamp (packet_at (psJb s) i) = lastPopRtpTimestamp (psJb s)")
  case False
  with assms show ?thesis by (auto intro: other simp: parse_property_def Let_def)
next
  case ts: True
  show ?thesis
  proof (cases "packet_property env (psJb s) (packet_at (psJb s) i)")
    case (Some b)
    with ts assms have
      "s' = (if psStart s = None \<and> b then s\<lparr>psStart := Some i, psPrev := i\<rparr> else s\<lparr>psPrev := i\<rparr>)"
      by (simp add: parse_property_def Let_def)
    with ts Some show ?thesis by (rule known)
  next
    case None
    let ?jb = "DiscardPacket (psJb s) (slot_of i)"
    have eq: "parse_property env cl i s =
        (if \<not> cl \<and> \<not> IsRtpPacketExpired ?jb (packet_at ?jb i)
         then Break (s\<lparr>psContinuous := False, psJb := ?jb\<rparr>)
         else Next (s\<lparr>psContinuous := False, psJb := ?jb, psPrev := i\<rparr>))"
      using None ts by (simp add: parse_property_def Let_def)
    show ?thesis
    proof (cases "\<not> cl \<and> \<not> IsRtpPacketExpired ?jb (packet_at ?jb i)")
      case True
      with eq assms have "s' = s\<lparr>psContinuous := False, psJb := ?jb, psPrev := psPrev s\<rparr>"
        by (cases s) auto
      then show ?thesis by (rule unknown) (use eq True in simp)
    next
      case False
      with eq assms show ?thesis by (intro unknown [of i]) simp_all
    qed
  qed
qed

lemma packet_property_cong:
  "getPacketPropertyFunc jb' = getPacketPropertyFunc jb \<Longrightarrow>
     packet_property env jb' pkt = packet_property env jb pkt"
  by (simp add: packet_property_def)

lemma packet_property_empty: "rejects_empty env \<Longrightarrow> packet_property env jb zero_packet = None"
  by (simp add: packet_property_def rejects_empty_def case_prod_unfold split: option.splits)

lemma parse_property_base:
  assumes "parse_base env jb s"
    and "parse_property env cl i s = Next s' \<or> parse_property env cl i s = Break s'"
  shows "parse_base env jb s'"
  using assms(2)
  by (cases rule: parse_property_cases) (use assms(1) in \<open>auto simp: parse_base_def DiscardPacket_eq\<close>)

lemma parse_property_frame:
  assumes base: "parse_base env jb s" and frame: "parse_frame env jb i s" and here: "parse_here i s"
    and env: "rejects_empty env"
    and i: "i \<in> set (seq_until (oldestReceivedSequenceNumber jb) stop)"
    and nx: "parse_property env cl i s = Next s'"
  shows "parse_frame env jb (i + 1) s'"
  using nx [THEN disjI1]
proof (cases rule: parse_property_cases)
  case other
  with here frame show ?thesis
    by (auto simp: parse_frame_def parse_here_def seq_until_visited [OF i])
next
  case (known b)
  let ?pkt = "packet_at (psJb s) i"
  have "?pkt \<noteq> zero_packet"
    using known(2) packet_property_empty [OF env] by auto
  then have pkt: "?pkt = packet_at jb i"
    using base by (auto simp: parse_base_def packets_sub_def)
  have pp: "packet_property env jb (packet_at jb i) = Some b"
    using known(2) base pkt packet_property_cong [of "psJb s" jb] by (simp add: parse_base_def)
  have good: "packet_good env jb (lastPopRtpTimestamp (psJb s)) i" if "psContinuous s"
    using that here known(1) pp pkt \<open>?pkt \<noteq> zero_packet\<close>
    by (auto simp: packet_good_def parse_here_def)
  show ?thesis
  proof (cases "psStart s = None \<and> b")
    case True
    have "set (seq_until i (i + 1)) = {i}" by (simp add: seq_until_step)
    with True known(3) pp good show ?thesis
      by (auto simp: parse_frame_def starts_frame_def seq_until_visited [OF i])
  next
    case False
    have "packet_good env jb (lastPopRtpTimestamp (psJb s)) q"
      if "psStart s = Some st" "psContinuous s" "q \<in> set (seq_until st (i + 1))" for st q
      using that frame good seq_until_Suc [of q st i] by (auto simp: parse_frame_def)
    with False known(3) frame show ?thesis
      by (auto simp: parse_frame_def seq_until_visited [OF i])
  qed
next
  case (unknown p)
  from unknown(2) nx have "p = i" by blast
  then show ?thesis
    using frame unfolding unknown(1) parse_frame_def seq_until_visited [OF i] by simp
qed

text \<open>The loops as a whole.\<close>

lemma parse_loop_base:
  assumes "rejects_empty env"
  shows "parse_base env jb (run_loop (parse_body env cl) (parse_range jb) (parse_start jb))"
  unfolding parse_range_def
proof (rule run_loop_seq [where P = "\<lambda>i s. parse_base env jb s \<and> parse_frame env jb i s"])
  show "parse_base env jb (parse_start jb)
      \<and> parse_frame env jb (oldestReceivedSequenceNumber jb) (parse_start jb)"
    by (simp add: parse_base_def parse_frame_def parse_start_def events_ok_def)
next
  fix i s s'
  assume P: "parse_base env jb s \<and> parse_frame env jb i s"
    and i: "i \<in> set (seq_until (oldestReceivedSequenceNumber jb) (newestReceivedSequenceNumber jb + 1))"
    and body: "parse_body env cl i s = Next s'"
  then obtain s1 where s1: "parse_boundary env cl i s = Next s1"
    and s': "parse_property env cl i s1 = Next s'"
    by (auto simp: parse_body_def split: loop_ctl.splits)
  from P s1 have b1: "parse_base env jb s1" by (blast intro: parse_boundary_step)
  from P s1 have "parse_frame env jb i s1" "parse_here i s1"
    by (auto dest: parse_boundary_next)
  with b1 s' i assms show "parse_base env jb s' \<and> parse_frame env jb (i + 1) s'"
    by (blast intro: parse_property_base parse_property_frame)
next
  fix i s s'
  assume P: "parse_base env jb s \<and> parse_frame env jb i s"
    and body: "parse_body env cl i s = Break s'"
  then show "parse_base env jb s'"
    by (auto simp: parse_body_def split: loop_ctl.splits
        intro: parse_boundary_step parse_property_base)
qed simp

lemma closing_drop_base: "parse_base env jb s \<Longrightarrow> parse_base env jb (closing_drop env i s)"
  by (auto simp: parse_base_def closing_drop_def Let_def DiscardPackets_None events_ok_def)

lemma closing_body_base:
  assumes "parse_base env jb s"
    and "closing_body env i s = Next s' \<or> closing_body env i s = Break s'"
  shows "parse_base env jb s'"
  using assms closing_drop_base [OF assms(1), of i]
  by (auto simp: closing_body_def Let_def parse_base_def split: if_splits)

lemma parse_closing_base:
  assumes "parse_base env jb s"
  shows "parse_base env jb (parse_closing env s)"
  unfolding parse_closing_def Let_def
proof (rule closing_drop_base, rule run_loop_inv [where P = "parse_base env jb"])
  show "parse_base env jb (s\<lparr>psFirst := oldestReceivedSequenceNumber (psJb s),
      psPrev := oldestReceivedSequenceNumber (psJb s)\<rparr>)"
    using assms by (simp add: parse_base_def)
qed (blast intro: closing_body_base)

lemma ParseFrames_events_ok:
  assumes "rejects_empty env" and "ParseFramesInJitterBuffer env jb cl = (r, jb', evs)"
  shows "events_ok env jb evs" and "packets_sub (rtpPackets jb') (rtpPackets jb)"
proof -
  note base = parse_loop_base [OF assms(1), of jb cl]
  have "events_ok env jb evs \<and> packets_sub (rtpPackets jb') (rtpPackets jb)"
    using assms(2) base parse_closing_base [OF base]
    by (auto simp: ParseFramesInJitterBuffer_def Let_def parse_base_def events_ok_def
        split: if_splits)
  then show "events_ok env jb evs" and "packets_sub (rtpPackets jb') (rtpPackets jb)" by auto
qed

section \<open>A complete frame followed by the next one is announced\<close>

lemma parse_body_good:
  assumes "packet_good env (psJb s) (lastPopRtpTimestamp (psJb s)) i"
    and "psStart s = Some st"
  shows "parse_body env cl i s = Next (s\<lparr>psPrev := i\<rparr>)"
  using assms
  by (auto simp: parse_body_def parse_boundary_def parse_property_def packet_good_def Let_def)

lemma parse_body_start:
  assumes "packet_good env (psJb s) (lastPopRtpTimestamp (psJb s)) i"
    and "psStart s = None" and "starts_frame env (psJb s) i"
  shows "parse_body env cl i s = Next (s\<lparr>psStart := Some i, psPrev := i\<rparr>)"
  using assms
  by (auto simp: parse_body_def parse_boundary_def parse_property_def packet_good_def
      starts_frame_def Let_def)

lemma run_loop_good:
  assumes "\<forall>i \<in> set is. packet_good env (psJb s) (lastPopRtpTimestamp (psJb s)) i"
    and "psStart s = Some st"
  shows "run_loop (parse_body env cl) (is @ rest) s
           = run_loop (parse_body env cl) rest (s\<lparr>psPrev := last (psPrev s # is)\<rparr>)"
  using assms
proof (induction "is" arbitrary: s)
  case Nil
  then show ?case by simp
next
  case (Cons i "is")
  then have "parse_body env cl i s = Next (s\<lparr>psPrev := i\<rparr>)"
    by (intro parse_body_good) simp_all
  with Cons.IH [of "s\<lparr>psPrev := i\<rparr>"] Cons.prems show ?case by simp
qed

lemma seq_until_snoc:
  assumes "i \<in> set (seq_until st stop)"
  shows "seq_until st (i + 1) = seq_until st i @ [i]"
  using assms
proof (induction st stop rule: seq_until.induct)
  case (1 st stop)
  show ?case
  proof (cases "st = i")
    case True
    then show ?thesis by (simp add: seq_until_step)
  next
    case False
    from "1.prems" have "st \<noteq> stop" by auto
    with "1.prems" False have i: "i \<in> set (seq_until (st + 1) stop)"
      by (simp add: seq_until_step)
    have "set (seq_until st (i + 1)) \<noteq> {}"
      using seq_until_visited [OF "1.prems"] by simp
    then have "st \<noteq> i + 1" by auto
    with False "1.IH" [OF \<open>st \<noteq> stop\<close> i] show ?thesis by (simp add: seq_until_step)
  qed
qed

lemma seq_until_last: "s \<noteq> e + 1 \<Longrightarrow> seq_until s (e + 1) = seq_until s e @ [e]"
proof -
  assume "s \<noteq> e + 1"
  then have "unat (e + 1 - s) \<noteq> 0" using unat_eq_0 [of "e + 1 - s"] by auto
  moreover have "unat (e + 1 - s) - 1 = unat (e - s)"
    using unat_minus_one [of "e + 1 - s"] \<open>s \<noteq> e + 1\<close> by (simp add: algebra_simps)
  ultimately have "e \<in> set (seq_until s (e + 1))" by (simp add: set_seq_until)
  then show ?thesis by (rule seq_until_snoc)
qed

lemma parse_property_keeps:
  assumes "parse_property env cl i s = Next s' \<or> parse_property env cl i s = Break s'"
  shows "psEvents s' = psEvents s
     \<and> (pPacketBuffer (rtpPackets (psJb s) k) = None \<longrightarrow> pPacketBuffer (rtpPackets (psJb s') k) = None)"
  using assms
  by (cases rule: parse_property_cases) (auto simp: DiscardPacket_eq discard_slots_def)

lemma run_loop_complete_frame:
  assumes ne: "s \<noteq> e + 1" and start: "starts_frame env jb s" and old: "oldestReceivedSequenceNumber jb = s"
    and good: "\<forall>q \<in> set (seq_until s (e + 1)). packet_good env jb (lastPopRtpTimestamp jb) q"
  shows "run_loop (parse_body env cl) (seq_until s (e + 1) @ rest) (parse_start jb)
           = run_loop (parse_body env cl) rest ((parse_start jb)\<lparr>psStart := Some s, psPrev := e\<rparr>)"
proof -
  have step: "seq_until s (e + 1) = s # seq_until (s + 1) (e + 1)"
    using ne by (rule seq_until_step)
  have "parse_body env cl s (parse_start jb) = Next ((parse_start jb)\<lparr>psStart := Some s, psPrev := s\<rparr>)"
    using good start step by (intro parse_body_start) (simp_all add: parse_start_def)
  moreover have "last (s # seq_until (s + 1) (e + 1)) = e"
    using step seq_until_last [OF ne] by (metis last_snoc)
  ultimately show ?thesis
    using good step run_loop_good [of "seq_until (s + 1) (e + 1)" env
        "(parse_start jb)\<lparr>psStart := Some s, psPrev := s\<rparr>" s cl rest]
    by (simp add: parse_start_def)
qed

lemma emit_ready_frees:
  "q \<in> set (seq_until st (psPrev s + 1)) \<Longrightarrow> pPacketBuffer (packet_at (psJb (emit_ready env st i s)) q) = None"
  by (auto simp: emit_ready_def Let_def DiscardPackets_Some discard_slots_def range_slots_def)

lemma parse_body_next_frame:
  assumes "psStart s = Some st" "psContinuous s"
    and "isPushed (packet_at (psJb s) i)" "rtpTimestamp (packet_at (psJb s) i) \<noteq> lastPopRtpTimestamp (psJb s)"
  shows "psEvents (run_loop (parse_body env cl) [i] s) = psEvents s @ [FrameReady st (psPrev s)]
     \<and> (\<forall>q \<in> set (seq_until st (psPrev s + 1)).
          pPacketBuffer (packet_at (psJb (run_loop (parse_body env cl) [i] s)) q) = None)"
proof -
  let ?s = "emit_ready env st i s"
  have ev: "psEvents ?s = psEvents s @ [FrameReady st (psPrev s)]"
    by (simp add: emit_ready_def Let_def)
  have "parse_boundary env cl i s = (if psRet ?s \<noteq> PEER_CONNECTION_RESULT_OK then Break ?s else Next ?s)"
    using assms by (simp add: parse_boundary_def Let_def)
  then have body: "parse_body env cl i s =
      (if psRet ?s \<noteq> PEER_CONNECTION_RESULT_OK then Break ?s else parse_property env cl i ?s)"
    by (simp add: parse_body_def)
  show ?thesis
  proof (cases "parse_body env cl i s")
    case (Break s')
    with body have "s' = ?s \<or> parse_property env cl i ?s = Break s'" by (auto split: if_splits)
    then show ?thesis using Break ev emit_ready_frees parse_property_keeps [of env cl i ?s s'] by auto
  next
    case (Next s')
    with body have "parse_property env cl i ?s = Next s'" by (auto split: if_splits)
    then show ?thesis using Next ev emit_ready_frees parse_property_keeps [of env cl i ?s s'] by auto
  qed
qed

section \<open>Which packets are accepted\<close>

lemma window_500:
  fixes n x :: u16
  shows "x - (n - 500) \<le> 1000 \<longleftrightarrow> unat (x - n) \<le> 500 \<or> unat (n - x) \<le> 500"
  using u16_less [of n] u16_less [of x]
  by (auto simp: word_le_nat_alt unat_sub_if' unat_plus_if' split: if_splits)

section \<open>What parsing keeps\<close>

definition jb_keep :: "PeerConnectionJitterBuffer \<Rightarrow> PeerConnectionJitterBuffer \<Rightarrow> bool" where
  "jb_keep jb jb' \<longleftrightarrow>
     packets_sub (rtpPackets jb') (rtpPackets jb) \<and> jbIsInit jb' = jbIsInit jb
     \<and> jbCapacity jb' = jbCapacity jb \<and> isStart jb' = isStart jb
     \<and> newestReceivedSequenceNumber jb' = newestReceivedSequenceNumber jb
     \<and> newestReceivedTimestamp jb' = newestReceivedTimestamp jb"

lemma jb_keep_discard [intro]:
  "jb_keep jb jb' \<Longrightarrow> jb_keep jb (DiscardPacket jb' k)"
  "jb_keep jb jb' \<Longrightarrow> jb_keep jb (DiscardPackets jb' s e p)"
  by (cases p; auto simp: jb_keep_def discard_eqs Let_def)+

lemma parse_boundary_keep:
  assumes "jb_keep jb (psJb s)"
    and "parse_boundary env cl i s = Next s' \<or> parse_boundary env cl i s = Break s'"
  shows "jb_keep jb (psJb s')"
  using assms(2)
  by (cases rule: parse_boundary_cases)
    (use assms(1) in \<open>auto simp: emit_ready_def emit_drop_def Let_def\<close>)

lemma parse_property_keep:
  assumes "jb_keep jb (psJb s)"
    and "parse_property env cl i s = Next s' \<or> parse_property env cl i s = Break s'"
  shows "jb_keep jb (psJb s')"
  using assms(2)
  by (cases rule: parse_property_cases) (use assms(1) in auto)

lemma parse_body_keep:
  assumes "jb_keep jb (psJb s)"
    and "parse_body env cl i s = Next s' \<or> parse_body env cl i s = Break s'"
  shows "jb_keep jb (psJb s')"
  using assms
  by (auto simp: parse_body_def split: loop_ctl.splits
      intro: parse_property_keep parse_boundary_keep)

lemma closing_body_keep:
  assumes "jb_keep jb (psJb s)"
    and "closing_body env i s = Next s' \<or> closing_body env i s = Break s'"
  shows "jb_keep jb (psJb s')"
  using assms by (auto simp: closing_body_def closing_drop_def Let_def split: if_splits)

lemma parse_closing_keep:
  assumes "jb_keep jb (psJb s)"
  shows "jb_keep jb (psJb (parse_closing env s))"
proof -
  have "jb_keep jb (psJb (run_loop (closing_body env) is (s\<lparr>psFirst := a, psPrev := b\<rparr>)))" for "is" a b
    by (rule run_loop_inv [where P = "\<lambda>s. jb_keep jb (psJb s)"])
      (use assms in simp, blast intro: closing_body_keep)
  then show ?thesis
    unfolding parse_closing_def Let_def by (auto simp: closing_drop_def Let_def)
qed

lemma ParseFrames_keep:
  assumes "ParseFramesInJitterBuffer env jb cl = (r, jb', evs)"
  shows "jb_keep jb jb'"
proof -
  have refl: "jb_keep jb jb" by (simp add: jb_keep_def)
  have "jb_keep jb (psJb (run_loop (parse_body env cl) (parse_range jb) (parse_start jb)))"
    by (rule run_loop_inv [where P = "\<lambda>s. jb_keep jb (psJb s)"])
      (simp add: parse_start_def refl, blast intro: parse_body_keep)
  with assms refl parse_closing_keep show ?thesis
    by (auto simp: ParseFramesInJitterBuffer_def Let_def split: if_splits)
qed

section \<open>Slots stay consistent\<close>

text \<open>A packet that has been pushed lies in the slot of its own sequence number and owns a
  payload.\<close>

definition jb_slots :: "PeerConnectionJitterBuffer \<Rightarrow> bool" where
  "jb_slots jb \<longleftrightarrow>
     (\<forall>k. isPushed (rtpPackets jb k) \<longrightarrow>
        slot_of (sequenceNumber (rtpPackets jb k)) = k \<and> pPacketBuffer (rtpPackets jb k) \<noteq> None)"

lemma jb_slots_sub: "jb_slots jb \<Longrightarrow> packets_sub (rtpPackets jb') (rtpPackets jb) \<Longrightarrow> jb_slots jb'"
  unfolding jb_slots_def by (metis packets_sub_pushed)

lemma jb_slots_discard: "jb_slots jb \<Longrightarrow> jb_slots (DiscardPacket jb k)"
  by (rule jb_slots_sub) (auto simp: DiscardPacket_eq)

lemma UpdateJitterBufferAddPacket_packets [simp]:
  "rtpPackets (UpdateJitterBufferAddPacket jb pkt) = rtpPackets jb"
  by (simp add: UpdateJitterBufferAddPacket_def Let_def update_newest_seq_def update_oldest_seq_def
      update_newest_timestamp_def update_lastpop_timestamp_def)

lemma push_start_packets [simp]: "rtpPackets (push_start jb pkt) = rtpPackets jb"
  by (simp add: push_start_def)

lemma push_accept_packets [simp]:
  "rtpPackets (push_accept jb k) = (rtpPackets jb)(k := (rtpPackets jb k)\<lparr>isPushed := True\<rparr>)"
  by (simp add: push_accept_def Let_def)

lemma jb_slots_push_accept:
  assumes "jb_slots jb" and "slot_of (sequenceNumber (rtpPackets jb k)) = k"
    and "pPacketBuffer (rtpPackets jb k) \<noteq> None"
  shows "jb_slots (push_accept jb k)"
  using assms by (auto simp: jb_slots_def)

lemma Push_slots:
  assumes slots: "jb_slots jb" and k: "slot_of (sequenceNumber (rtpPackets jb k)) = k"
    and buf: "pPacketBuffer (rtpPackets jb k) \<noteq> None"
    and push: "PeerConnectionJitterBuffer_Push env jb (Some k) = (r, jb', evs)"
  shows "jb_slots jb'"
proof -
  let ?jb1 = "push_start jb (rtpPackets jb k)"
  have s1: "jb_slots ?jb1" using slots by (simp add: jb_slots_def)
  have s2: "jb_slots (push_accept ?jb1 k)"
    using s1 k buf by (intro jb_slots_push_accept) simp_all
  show ?thesis
  proof (cases "jbIsInit jb \<and> ShouldAcceptPacket ?jb1 (rtpPackets ?jb1 k) = PEER_CONNECTION_RESULT_OK")
    case True
    with push have "ParseFramesInJitterBuffer env (push_accept ?jb1 k) False = (r, jb', evs)"
      by (simp add: PeerConnectionJitterBuffer_Push_def Let_def)
    then show ?thesis using s2 ParseFrames_keep jb_slots_sub unfolding jb_keep_def by blast
  next
    case False
    with push slots s1 jb_slots_discard show ?thesis
      by (auto simp: PeerConnectionJitterBuffer_Push_def Let_def split: if_splits)
  qed
qed

lemma AllocateBuffer_slots:
  assumes "jb_slots jb"
    and "PeerConnectionJitterBuffer_AllocateBuffer jb n seq mal = (r, jb', p)"
  shows "jb_slots jb'"
proof -
  have "jb_slots (DiscardPacket jb (slot_of seq))" using assms(1) by (rule jb_slots_discard)
  moreover have "\<not> isPushed (rtpPackets (DiscardPacket jb (slot_of seq)) (slot_of seq))"
    using assms(1) by (auto simp: DiscardPacket_eq discard_slots_def jb_slots_def)
  moreover have "\<not> isPushed (rtpPackets jb (slot_of seq))"
    if "pPacketBuffer (rtpPackets jb (slot_of seq)) = None"
    using assms(1) that by (auto simp: jb_slots_def)
  ultimately show ?thesis
    using assms
    by (auto simp: PeerConnectionJitterBuffer_AllocateBuffer_def Let_def jb_slots_def split: if_splits)
qed

section \<open>Nothing is left behind\<close>

lemma range_slots_all: "range_slots 0 999 = {..<1000}"
proof -
  have "set (seq_until 0 1000) = {x :: u16. unat x < 1000}"
    by (auto simp: set_seq_until)
  then have "range_slots 0 999 = slot_of ` {x :: u16. unat x < 1000}"
    by (simp add: range_slots_def)
  also have "\<dots> = {..<1000}"
  proof
    show "slot_of ` {x :: u16. unat x < 1000} \<subseteq> {..<1000}"
      by (auto simp: slot_of_def PEER_CONNECTION_JITTER_BUFFER_MAX_ENTRY_NUM_def)
    show "{..<1000} \<subseteq> slot_of ` {x :: u16. unat x < 1000}"
    proof
      fix k :: nat assume "k \<in> {..<1000}"
      then have "unat (of_nat k :: u16) = k" and "k < 1000" by (simp_all add: unat_of_nat)
      then show "k \<in> slot_of ` {x :: u16. unat x < 1000}"
        by (intro image_eqI [of _ _ "of_nat k"])
          (simp_all add: slot_of_def PEER_CONNECTION_JITTER_BUFFER_MAX_ENTRY_NUM_def)
    qed
  qed
  finally show ?thesis .
qed

lemma Free_clears:
  assumes "jbIsInit jb" and "PeerConnectionJitterBuffer_Free env jb = (jb', evs)"
  shows "\<not> jbIsInit jb' \<and> (\<forall>k < 1000. pPacketBuffer (rtpPackets jb' k) = None)"
proof -
  obtain r jb1 where parse: "ParseFramesInJitterBuffer env (jb\<lparr>jbIsInit := False\<rparr>) True = (r, jb1, evs)"
    and jb': "jb' = DiscardPackets jb1 0 999 None"
    using assms by (auto simp: PeerConnectionJitterBuffer_Free_def Let_def
        PEER_CONNECTION_JITTER_BUFFER_MAX_ENTRY_NUM_def split: prod.splits)
  have "\<not> jbIsInit jb1" using ParseFrames_keep [OF parse] by (simp add: jb_keep_def)
  then show ?thesis
    unfolding jb' DiscardPackets_None range_slots_all by (auto simp: discard_slots_def)
qed

section \<open>Properties\<close>

text \<open>A small receive buffer for the witnesses: packets 10 and 11 carry one frame, packet 12
  the next one; the helper takes packets with a payload, of which 10 and 12 start a frame.\<close>

definition demo_packet :: "u16 \<Rightarrow> u32 \<Rightarrow> PeerConnectionJitterBufferPacket" where
  "demo_packet seq ts = \<lparr>isPushed = True, sequenceNumber = seq, rtpTimestamp = ts, receiveTick = 0,
     pPacketBuffer = Some [1], packetBufferLength = 1\<rparr>"

definition demo_env :: jb_env where
  "demo_env = \<lparr>
     getPacketProperty = (\<lambda>h pkt.
       (if pPacketBuffer pkt = None then PEER_CONNECTION_RESULT_FAIL_DEPACKETIZER_INIT
        else PEER_CONNECTION_RESULT_OK, sequenceNumber pkt \<in> {10, 12})),
     onFrameReady = (\<lambda>_ _ _. PEER_CONNECTION_RESULT_OK),
     onFrameDrop = (\<lambda>_ _ _. PEER_CONNECTION_RESULT_OK)\<rparr>"

definition demo_jb :: PeerConnectionJitterBuffer where
  "demo_jb = (snd (PeerConnectionJitterBuffer_Create undefined True True 2 32 90000))
     \<lparr>isStart := True, oldestReceivedSequenceNumber := 10, newestReceivedSequenceNumber := 11,
      newestReceivedTimestamp := 100, lastPopRtpTimestamp := 100,
      rtpPackets := (\<lambda>_. zero_packet)
        (10 := demo_packet 10 100, 11 := demo_packet 11 100,
         12 := (demo_packet 12 200)\<lparr>isPushed := False\<rparr>)\<rparr>"

lemma demo_jb_sel [simp]:
  "jbIsInit demo_jb" "isStart demo_jb" "jbCapacity demo_jb = 1000"
  "oldestReceivedSequenceNumber demo_jb = 10" "newestReceivedSequenceNumber demo_jb = 11"
  "newestReceivedTimestamp demo_jb = 100" "lastPopRtpTimestamp demo_jb = 100"
  "onFrameReadyCallbackFunc demo_jb" "onFrameDropCallbackFunc demo_jb"
  "getPacketPropertyFunc demo_jb = Some H264_HELPER" "clockRate demo_jb = 90000"
  "rtpPackets demo_jb = (\<lambda>_. zero_packet)
        (10 := demo_packet 10 100, 11 := demo_packet 11 100,
         12 := (demo_packet 12 200)\<lparr>isPushed := False\<rparr>)"
  by (simp_all add: demo_jb_def PeerConnectionJitterBuffer_Create_def Let_def select_codec_helper_def
      rtc_defs)

lemma demo_packet_sel [simp]:
  "isPushed (demo_packet q ts)" "sequenceNumber (demo_packet q ts) = q"
  "rtpTimestamp (demo_packet q ts) = ts" "pPacketBuffer (demo_packet q ts) = Some [1]"
  by (simp_all add: demo_packet_def)

lemma demo_rejects_empty: "rejects_empty demo_env"
  by (simp add: rejects_empty_def demo_env_def)

lemma demo_slots [simp]: "slot_of 10 = 10" "slot_of 11 = 11" "slot_of 12 = 12"
  by (simp_all add: slot_of_def PEER_CONNECTION_JITTER_BUFFER_MAX_ENTRY_NUM_def)

lemma push_accept_demo:
  "push_accept demo_jb 12 = demo_jb\<lparr>rtpPackets := (rtpPackets demo_jb)(12 := demo_packet 12 200),
     newestReceivedSequenceNumber := 12, newestReceivedTimestamp := 200\<rparr>"
proof -
  have pushed: "(demo_packet 12 200)\<lparr>isPushed := True\<rparr> = demo_packet 12 200"
    by (simp add: demo_packet_def)
  show ?thesis
    by (simp add: pushed push_accept_def Let_def UpdateJitterBufferAddPacket_def update_newest_seq_def
        update_oldest_seq_def update_newest_timestamp_def update_lastpop_timestamp_def)
qed

text \<open>C16: every frame that a push announces as ready is complete in the buffer as it was after
  the packet was stored: each sequence number of the frame has been received, all packets have
  the same RTP timestamp, the codec helper accepts each of them, and the first one starts a
  frame.\<close>

theorem Push_ready_frames_complete:
  assumes "rejects_empty env"
    and "PeerConnectionJitterBuffer_Push env jb (Some k) = (r, jb', evs)"
    and "FrameReady s e \<in> set evs"
  shows "frame_complete env (push_accept (push_start jb (rtpPackets jb k)) k) s e"
proof -
  from assms(2,3) have
    "ParseFramesInJitterBuffer env (push_accept (push_start jb (rtpPackets jb k)) k) False = (r, jb', evs)"
    by (auto simp: PeerConnectionJitterBuffer_Push_def Let_def split: if_splits)
  from ParseFrames_events_ok(1) [OF assms(1) this] assms(3) show ?thesis
    by (simp add: events_ok_def)
qed

lemma demo_push:
  "\<exists>r jb'. PeerConnectionJitterBuffer_Push demo_env demo_jb (Some 12) = (r, jb', [FrameReady 10 11])"
  by (simp add: PeerConnectionJitterBuffer_Push_def Let_def push_start_def ShouldAcceptPacket_def
      push_accept_demo ParseFramesInJitterBuffer_def parse_range_def parse_start_def seq_until_step
      parse_body_def parse_boundary_def parse_property_def packet_property_def demo_env_def
      emit_ready_def DiscardPackets_def DiscardPacket_def)

theorem Push_ready_frames_complete_witness:
  "frame_complete demo_env (push_accept (push_start demo_jb (rtpPackets demo_jb 12)) 12) 10 11"
proof -
  obtain r jb' where
    "PeerConnectionJitterBuffer_Push demo_env demo_jb (Some 12) = (r, jb', [FrameReady 10 11])"
    using demo_push by blast
  from Push_ready_frames_complete [OF demo_rejects_empty this] show ?thesis by simp
qed

text \<open>C29: progress.  When the buffer holds a complete frame from its oldest packet on and the
  packet behind it belongs to a later frame, parsing announces exactly that frame as ready and
  frees its packets.\<close>

theorem complete_frame_announced:
  assumes cb: "onFrameReadyCallbackFunc jb" "onFrameDropCallbackFunc jb"
    and old: "oldestReceivedSequenceNumber jb = s" and new: "newestReceivedSequenceNumber jb = e + 1"
    and ne: "s \<noteq> e + 1" "s \<noteq> e + 2"
    and start: "starts_frame env jb s"
    and good: "\<forall>q \<in> set (seq_until s (e + 1)). packet_good env jb (lastPopRtpTimestamp jb) q"
    and nxt: "isPushed (packet_at jb (e + 1))" "rtpTimestamp (packet_at jb (e + 1)) \<noteq> lastPopRtpTimestamp jb"
  shows "\<exists>r jb'. ParseFramesInJitterBuffer env jb False = (r, jb', [FrameReady s e])
     \<and> (\<forall>q \<in> set (seq_until s (e + 1)). pPacketBuffer (packet_at jb' q) = None)"
proof -
  have "s \<noteq> e + 1 + 1" using ne(2) by (simp add: add.commute)
  then have "seq_until s (e + 1 + 1) = seq_until s (e + 1) @ [e + 1]"
    by (rule seq_until_last)
  then have "run_loop (parse_body env False) (parse_range jb) (parse_start jb)
      = run_loop (parse_body env False) [e + 1] ((parse_start jb)\<lparr>psStart := Some s, psPrev := e\<rparr>)"
    using run_loop_complete_frame [OF ne(1) start old good, of False "[e + 1]"] old new
    by (simp add: parse_range_def)
  with parse_body_next_frame [of "(parse_start jb)\<lparr>psStart := Some s, psPrev := e\<rparr>" s "e + 1" env False]
    nxt cb show ?thesis
    by (simp add: ParseFramesInJitterBuffer_def parse_start_def Let_def)
qed

theorem complete_frame_announced_witness:
  "\<exists>r jb'. ParseFramesInJitterBuffer demo_env (push_accept demo_jb 12) False
             = (r, jb', [FrameReady 10 11])"
  using complete_frame_announced [of "push_accept demo_jb 12" 10 11 demo_env]
  by (auto simp: push_accept_demo starts_frame_def packet_good_def packet_property_def demo_env_def
      seq_until_step)

text \<open>C32: the acceptance window.  In the 16-bit circular order, a packet is accepted exactly when
  it is at most 500 ahead of or behind the newest one, across the wrap at 65535.\<close>

theorem ShouldAcceptPacket_window:
  assumes "jbCapacity jb = PEER_CONNECTION_JITTER_BUFFER_MAX_ENTRY_NUM"
  shows "ShouldAcceptPacket jb pkt =
     (if unat (sequenceNumber pkt - newestReceivedSequenceNumber jb) \<le> 500
         \<or> unat (newestReceivedSequenceNumber jb - sequenceNumber pkt) \<le> 500
      then PEER_CONNECTION_RESULT_OK else PEER_CONNECTION_RESULT_PACKET_OUTDATED)"
proof -
  let ?n = "newestReceivedSequenceNumber jb" and ?x = "sequenceNumber pkt"
  have eq: "ShouldAcceptPacket jb pkt =
     (if (if ?n - 500 \<le> ?n + 500 then ?n - 500 \<le> ?x \<and> ?x \<le> ?n + 500
          else ?n - 500 \<le> ?x \<or> ?x \<le> ?n + 500)
      then PEER_CONNECTION_RESULT_OK else PEER_CONNECTION_RESULT_PACKET_OUTDATED)"
    using assms
    by (auto simp: ShouldAcceptPacket_def Let_def rtc_defs rtc_simps)
  have e: "?n + 500 = (?n - 500) + 1000" by simp
  show ?thesis unfolding eq e circular_range window_500 by (rule refl)
qed

theorem ShouldAcceptPacket_window_witness:
  "ShouldAcceptPacket (demo_jb\<lparr>newestReceivedSequenceNumber := 65535\<rparr>) (demo_packet 499 0)
     = PEER_CONNECTION_RESULT_OK
   \<and> ShouldAcceptPacket (demo_jb\<lparr>newestReceivedSequenceNumber := 65535\<rparr>) (demo_packet 500 0)
     = PEER_CONNECTION_RESULT_PACKET_OUTDATED"
  by (simp add: ShouldAcceptPacket_window PEER_CONNECTION_JITTER_BUFFER_MAX_ENTRY_NUM_def)

text \<open>How the newest sequence number moves.  Once the oldest number is at least 10, the
  second branch of the oldest-number update applies to every packet that is not older, so the
  newest number becomes the number of the packet that arrived last, whether or not it is newer:
  a late packet moves it back.\<close>

theorem UpdateJitterBufferAddPacket_newest:
  assumes "10 \<le> oldestReceivedSequenceNumber jb"
    and "oldestReceivedSequenceNumber jb \<le> sequenceNumber pkt"
  shows "newestReceivedSequenceNumber (UpdateJitterBufferAddPacket jb pkt) = sequenceNumber pkt"
proof -
  have "oldestReceivedSequenceNumber jb - 10 \<le> oldestReceivedSequenceNumber jb"
    using assms(1) by (rule word_sub_le)
  then have "oldestReceivedSequenceNumber jb - 10 \<le> sequenceNumber pkt"
    using assms(2) by (rule order_trans)
  then show ?thesis
    using assms(2)
    by (auto simp: UpdateJitterBufferAddPacket_def Let_def update_newest_seq_def update_oldest_seq_def
        update_newest_timestamp_def update_lastpop_timestamp_def)
qed

theorem UpdateJitterBufferAddPacket_newest_witness:
  "newestReceivedSequenceNumber (demo_jb\<lparr>newestReceivedSequenceNumber := 40\<rparr>) = 40
   \<and> newestReceivedSequenceNumber
       (UpdateJitterBufferAddPacket (demo_jb\<lparr>newestReceivedSequenceNumber := 40\<rparr>) (demo_packet 12 200)) = 12"
  by (simp add: UpdateJitterBufferAddPacket_newest)

text \<open>the last-pop timestamp is the minimum of the stored one and the packet's: the
  wrap-around branch asks for a timestamp below the stored one after that has been ruled out
  and never applies.\<close>

theorem update_lastpop_timestamp_min:
  "update_lastpop_timestamp jb ts = jb\<lparr>lastPopRtpTimestamp := min (lastPopRtpTimestamp jb) ts\<rparr>"
proof -
  have "\<not> unat ts + unat (clockRate jb) div 10 < unat (lastPopRtpTimestamp jb)"
    if "\<not> ts < lastPopRtpTimestamp jb"
    using that by (simp add: word_less_nat_alt)
  then show ?thesis
    by (auto simp: update_lastpop_timestamp_def min_def not_less)
qed

text \<open>A pushed packet lies in the slot of its own sequence number and owns its payload;
  allocating a buffer and pushing the packet, accepted or refused, with whatever the helper and
  the callbacks answer, keep it that way.\<close>

theorem Allocate_Push_slots:
  assumes "jb_slots jb"
    and "PeerConnectionJitterBuffer_AllocateBuffer jb n seq (Some buf) = (PEER_CONNECTION_RESULT_OK, jb1, Some k)"
    and "jb2 = jb1\<lparr>rtpPackets := (rtpPackets jb1)(k := (rtpPackets jb1 k)\<lparr>sequenceNumber := seq,
                     rtpTimestamp := ts, receiveTick := tick, packetBufferLength := len\<rparr>)\<rparr>"
    and "PeerConnectionJitterBuffer_Push env jb2 (Some k) = (r, jb3, evs)"
  shows "jb_slots jb1 \<and> jb_slots jb2 \<and> jb_slots jb3"
proof -
  have 1: "jb_slots jb1" using AllocateBuffer_slots assms(1,2) by blast
  have k: "k = slot_of seq" and buf: "pPacketBuffer (rtpPackets jb1 k) = Some buf"
    using assms(2)
    by (auto simp: PeerConnectionJitterBuffer_AllocateBuffer_def Let_def split: if_splits)
  have 2: "jb_slots jb2" using 1 k unfolding assms(3) by (simp add: jb_slots_def)
  have "jb_slots jb3"
    by (rule Push_slots [OF 2 _ _ assms(4)]) (simp_all add: assms(3) k [symmetric] buf)
  with 1 2 show ?thesis by blast
qed

theorem Allocate_Push_slots_witness:
  "\<exists>jb1 r jb3 evs. jb_slots demo_jb
     \<and> PeerConnectionJitterBuffer_AllocateBuffer demo_jb 1 12 (Some [7])
         = (PEER_CONNECTION_RESULT_OK, jb1, Some 12)
     \<and> PeerConnectionJitterBuffer_Push demo_env (jb1\<lparr>rtpPackets := (rtpPackets jb1)(12 :=
           (rtpPackets jb1 12)\<lparr>sequenceNumber := 12, rtpTimestamp := 200, receiveTick := 0,
              packetBufferLength := 1\<rparr>)\<rparr>) (Some 12) = (r, jb3, evs)
     \<and> jb_slots jb3"
proof -
  have slots: "jb_slots demo_jb" by (auto simp: jb_slots_def)
  obtain jb1 where jb1: "PeerConnectionJitterBuffer_AllocateBuffer demo_jb 1 12 (Some [7])
      = (PEER_CONNECTION_RESULT_OK, jb1, Some 12)"
    by (simp add: PeerConnectionJitterBuffer_AllocateBuffer_def Let_def)
  obtain r jb3 evs where push: "PeerConnectionJitterBuffer_Push demo_env (jb1\<lparr>rtpPackets := (rtpPackets jb1)(12 :=
           (rtpPackets jb1 12)\<lparr>sequenceNumber := 12, rtpTimestamp := 200, receiveTick := 0,
              packetBufferLength := 1\<rparr>)\<rparr>) (Some 12) = (r, jb3, evs)"
    by (metis prod_cases3)
  from Allocate_Push_slots [OF slots jb1 refl push] slots jb1 push show ?thesis by blast
qed

text \<open>After \<open>PeerConnectionJitterBuffer_Free\<close> no packet buffer is left in any of the 1000
  slots, whatever the buffer held, and the buffer counts as not initialised.\<close>

theorem Free_releases:
  assumes "jbIsInit jb" and "PeerConnectionJitterBuffer_Free env jb = (jb', evs)"
  shows "\<not> jbIsInit jb' \<and> (\<forall>k < 1000. pPacketBuffer (rtpPackets jb' k) = None)"
  using assms by (rule Free_clears)

theorem Free_releases_witness:
  "\<exists>jb' evs. PeerConnectionJitterBuffer_Free demo_env demo_jb = (jb', evs)
     \<and> \<not> jbIsInit jb' \<and> pPacketBuffer (rtpPackets jb' 12) = None"
proof -
  obtain jb' evs where free: "PeerConnectionJitterBuffer_Free demo_env demo_jb = (jb', evs)"
    by (metis surj_pair)
  from Free_releases [OF _ free] free show ?thesis by auto
qed

end
