(* ===== verification/Codec_Helper.thy ===== *)
theory Codec_Helper
  imports Jitter_Buffer_Correct
begin

text \<open>
  The receive half of the codec helpers under \<open>peer_connection_codec_helper/\<close>: the packet
  property functions that the jitter buffer asks whether a packet starts a frame, and the
  functions that put a frame together from its packets.  The bodies for H264, H265, Opus and
  G711 differ only in the depacketizer they call, which is not part of the sources: it is
  the argument \<open>dp\<close>.  The loop of the \<open>FillFrame\<close> functions compares a 16-bit counter with
  an \<open>int\<close>; it is a partial function, so that not returning is \<open>None\<close>.
\<close>

section \<open>The depacketizer library\<close>

text \<open>The calls return whether the result code is OK; a packet is the payload pointer with
  its length.\<close>

record 'd depacketizer =
  dpGetPacketProperties :: "bytes option \<Rightarrow> nat \<Rightarrow> bool \<times> u32"
  dpStartFlag :: u32
  dpInit :: "nat \<Rightarrow> bool \<times> 'd"
  dpAddPacket :: "'d \<Rightarrow> bytes option \<Rightarrow> nat \<Rightarrow> bool \<times> 'd"
  dpGetFrame :: "'d \<Rightarrow> nat \<Rightarrow> bool \<times> bytes"

definition PEER_CONNECTION_JITTER_BUFFER_MAX_PACKETS_NUM_IN_A_FRAME :: nat where
  "PEER_CONNECTION_JITTER_BUFFER_MAX_PACKETS_NUM_IN_A_FRAME = 32"

section \<open>Packet properties\<close>

text \<open>\<open>pIsStartPacket\<close> says whether the output pointer is non-NULL; the second component is the
  value written to it, if any.\<close>

definition codec_packet_property ::
    "'d depacketizer \<Rightarrow> PeerConnectionJitterBufferPacket option \<Rightarrow> bool
      \<Rightarrow> PeerConnectionResult \<times> bool option" where
  "codec_packet_property dp pPacket pIsStartPacket =
     (case pPacket of
        None \<Rightarrow> (PEER_CONNECTION_RESULT_BAD_PARAMETER, None)
      | Some pkt \<Rightarrow>
          if \<not> pIsStartPacket then (PEER_CONNECTION_RESULT_BAD_PARAMETER, None)
          else
            (let (ok, properties) = dpGetPacketProperties dp (pPacketBuffer pkt) (packetBufferLength pkt)
             in if \<not> ok then (PEER_CONNECTION_RESULT_FAIL_DEPACKETIZER_GET_PROPERTIES, None)
                else (PEER_CONNECTION_RESULT_OK, Some (properties AND dpStartFlag dp \<noteq> 0))))"

definition GetH264PacketProperty where "GetH264PacketProperty = codec_packet_property"
definition GetH265PacketProperty where "GetH265PacketProperty = codec_packet_property"
definition GetOpusPacketProperty where "GetOpusPacketProperty = codec_packet_property"
definition GetG711PacketProperty where "GetG711PacketProperty = codec_packet_property"

section \<open>Filling a frame\<close>

text \<open>\<open>for( i = rtpSeqStart; i != rtpSeqEnd + 1; i++ )\<close>: \<open>i\<close> is 16 bits wide and wraps, the
  bound \<open>stop\<close> is an \<open>int\<close> between 1 and 65536.\<close>

partial_function (option) fill_loop ::
    "'d depacketizer \<Rightarrow> PeerConnectionJitterBuffer \<Rightarrow> u16 \<Rightarrow> nat \<Rightarrow> 'd \<Rightarrow> u32
      \<Rightarrow> (PeerConnectionResult \<times> 'd \<times> u32) option" where
  "fill_loop dp jb i stop d ts =
     (if unat i = stop then Some (PEER_CONNECTION_RESULT_OK, d, ts)
      else
        (let pkt = packet_at jb i;
             added = dpAddPacket dp d (pPacketBuffer pkt) (packetBufferLength pkt)
         in if fst added then fill_loop dp jb (i + 1) stop (snd added) (rtpTimestamp pkt)
            else Some (PEER_CONNECTION_RESULT_FAIL_DEPACKETIZER_ADD_PACKET, snd added, rtpTimestamp pkt)))"

declare fill_loop.simps [code]

text \<open>The output is the frame bytes, their number and the RTP timestamp, written on success
  only.  The output pointers are not NULL: \<open>OnJitterBufferFrameReady\<close> passes the addresses of
  the receiver's frame buffer and of two locals.\<close>

definition codec_fill_frame ::
    "'d depacketizer \<Rightarrow> PeerConnectionJitterBuffer \<Rightarrow> u16 \<Rightarrow> u16 \<Rightarrow> nat
      \<Rightarrow> (PeerConnectionResult \<times> (bytes \<times> u32) option) option" where
  "codec_fill_frame dp jb rtpSeqStart rtpSeqEnd outBufferLength =
     (let (ok, d) = dpInit dp PEER_CONNECTION_JITTER_BUFFER_MAX_PACKETS_NUM_IN_A_FRAME
      in if \<not> ok then Some (PEER_CONNECTION_RESULT_FAIL_DEPACKETIZER_INIT, None)
         else
           (case fill_loop dp jb rtpSeqStart (unat rtpSeqEnd + 1) d 0 of
              None \<Rightarrow> None
            | Some (ret, d', ts) \<Rightarrow>
                if ret \<noteq> PEER_CONNECTION_RESULT_OK then Some (ret, None)
                else
                  (let (ok', frame) = dpGetFrame dp d' outBufferLength
                   in if \<not> ok' then Some (PEER_CONNECTION_RESULT_FAIL_DEPACKETIZER_GET_FRAME, None)
                      else Some (PEER_CONNECTION_RESULT_OK, Some (frame, ts)))))"

definition FillFrameH264 where "FillFrameH264 = codec_fill_frame"
definition FillFrameH265 where "FillFrameH265 = codec_fill_frame"
definition FillFrameOpus where "FillFrameOpus = codec_fill_frame"
definition FillFrameG711 where "FillFrameG711 = codec_fill_frame"

text \<open>The function pointers of the jitter buffer, by codec.\<close>

definition call_packet_property ::
    "(codec_helper \<Rightarrow> 'd depacketizer) \<Rightarrow> codec_helper \<Rightarrow> PeerConnectionJitterBufferPacket
      \<Rightarrow> PeerConnectionResult \<times> bool option" where
  "call_packet_property dps h pkt =
     (case h of
        H264_HELPER \<Rightarrow> GetH264PacketProperty (dps h) (Some pkt) True
      | H265_HELPER \<Rightarrow> GetH265PacketProperty (dps h) (Some pkt) True
      | OPUS_HELPER \<Rightarrow> GetOpusPacketProperty (dps h) (Some pkt) True
      | G711_HELPER \<Rightarrow> GetG711PacketProperty (dps h) (Some pkt) True)"

definition call_fill_frame ::
    "(codec_helper \<Rightarrow> 'd depacketizer) \<Rightarrow> codec_helper \<Rightarrow> PeerConnectionJitterBuffer \<Rightarrow> u16 \<Rightarrow> u16 \<Rightarrow> nat
      \<Rightarrow> (PeerConnectionResult \<times> (bytes \<times> u32) option) option" where
  "call_fill_frame dps h =
     (case h of
        H264_HELPER \<Rightarrow> FillFrameH264 (dps h)
      | H265_HELPER \<Rightarrow> FillFrameH265 (dps h)
      | OPUS_HELPER \<Rightarrow> FillFrameOpus (dps h)
      | G711_HELPER \<Rightarrow> FillFrameG711 (dps h))"

lemmas helper_defs =
  GetH264PacketProperty_def GetH265PacketProperty_def GetOpusPacketProperty_def
  GetG711PacketProperty_def FillFrameH264_def FillFrameH265_def FillFrameOpus_def FillFrameG711_def

lemma call_packet_property_eq: "call_packet_property dps h pkt = codec_packet_property (dps h) (Some pkt) True"
  by (cases h) (simp_all add: call_packet_property_def helper_defs)

lemma call_fill_frame_eq: "call_fill_frame dps h = codec_fill_frame (dps h)"
  by (cases h) (simp_all add: call_fill_frame_def helper_defs)

text \<open>With no function installed (VP8) the result is OK and nothing is written.\<close>

definition PeerConnectionJitterBuffer_FillFrame ::
    "(codec_helper \<Rightarrow> 'd depacketizer) \<Rightarrow> PeerConnectionJitterBuffer \<Rightarrow> u16 \<Rightarrow> u16 \<Rightarrow> nat
      \<Rightarrow> (PeerConnectionResult \<times> (bytes \<times> u32) option) option" where
  "PeerConnectionJitterBuffer_FillFrame dps jb rtpSeqStart rtpSeqEnd outBufferLength =
     (if \<not> jbIsInit jb then Some (PEER_CONNECTION_RESULT_BAD_PARAMETER, None)
      else (case fillFrameFunc jb of
              None \<Rightarrow> Some (PEER_CONNECTION_RESULT_OK, None)
            | Some h \<Rightarrow> call_fill_frame dps h jb rtpSeqStart rtpSeqEnd outBufferLength))"

section \<open>The loop adds the packets of the range in order\<close>

text \<open>Specification: feed the depacketizer the packets of a list of sequence numbers, until
  one is refused.\<close>

fun feed_packets ::
    "'d depacketizer \<Rightarrow> PeerConnectionJitterBuffer \<Rightarrow> u16 list \<Rightarrow> 'd \<Rightarrow> u32
      \<Rightarrow> PeerConnectionResult \<times> 'd \<times> u32" where
  "feed_packets dp jb [] d ts = (PEER_CONNECTION_RESULT_OK, d, ts)"
| "feed_packets dp jb (i # is) d ts =
     (let pkt = packet_at jb i;
          added = dpAddPacket dp d (pPacketBuffer pkt) (packetBufferLength pkt)
      in if fst added then feed_packets dp jb is (snd added) (rtpTimestamp pkt)
         else (PEER_CONNECTION_RESULT_FAIL_DEPACKETIZER_ADD_PACKET, snd added, rtpTimestamp pkt))"

lemma fill_loop_feed:
  "fill_loop dp jb i (unat stop) d ts = Some (feed_packets dp jb (seq_until i stop) d ts)"
proof (induction "unat (stop - i)" arbitrary: i d ts)
  case 0
  then have "i = stop" by (simp add: unat_eq_0)
  then show ?case by (simp add: fill_loop.simps)
next
  case (Suc n)
  then have ne: "i \<noteq> stop" by auto
  then have "unat (stop - (i + 1)) = n" using Suc.hyps(2) unat_minus_Suc [of i stop] by simp
  note IH = Suc.hyps(1) [OF this [symmetric]]
  from ne have "unat i \<noteq> unat stop" by (auto dest: word_unat_eq_iff [THEN iffD2])
  then show ?case
    by (subst fill_loop.simps) (simp add: IH seq_until_step [OF ne] Let_def)
qed

lemma unat_plus_one: "e \<noteq> 65535 \<Longrightarrow> unat (e + 1 :: u16) = unat e + 1"
  using u16_less [of e] by (auto simp: unat_plus_if' word_unat_eq_iff)

text \<open>With the last sequence number 65535 the bound is 65536, which the counter never equals.\<close>

lemma fill_loop_65536:
  assumes "fill_loop dp jb i stop d ts = Some y" and "stop = 65536"
  shows "fst y \<noteq> PEER_CONNECTION_RESULT_OK"
proof -
  have "stop = 65536 \<longrightarrow> fst y \<noteq> PEER_CONNECTION_RESULT_OK"
  proof (rule fill_loop.raw_induct [where P = "\<lambda>dp jb i stop d ts y.
        stop = 65536 \<longrightarrow> fst y \<noteq> PEER_CONNECTION_RESULT_OK", OF _ assms(1)])
    fix loop :: "'a depacketizer \<Rightarrow> PeerConnectionJitterBuffer \<Rightarrow> u16 \<Rightarrow> nat \<Rightarrow> 'a \<Rightarrow> u32
        \<Rightarrow> (PeerConnectionResult \<times> 'a \<times> u32) option"
      and dp jb i stop d ts and y :: "PeerConnectionResult \<times> 'a \<times> u32"
    assume IH: "\<And>dp jb i stop d ts y. loop dp jb i stop d ts = Some y \<Longrightarrow>
        stop = 65536 \<longrightarrow> fst y \<noteq> PEER_CONNECTION_RESULT_OK"
      and body: "(if unat i = stop then Some (PEER_CONNECTION_RESULT_OK, d, ts)
        else let pkt = packet_at jb i;
                 added = dpAddPacket dp d (pPacketBuffer pkt) (packetBufferLength pkt)
             in if fst added then loop dp jb (i + 1) stop (snd added) (rtpTimestamp pkt)
                else Some (PEER_CONNECTION_RESULT_FAIL_DEPACKETIZER_ADD_PACKET, snd added,
                           rtpTimestamp pkt)) = Some y"
    show "stop = 65536 \<longrightarrow> fst y \<noteq> PEER_CONNECTION_RESULT_OK"
    proof
      assume stop: "stop = 65536"
      with u16_less [of i] have "unat i \<noteq> stop" by simp
      with body stop IH show "fst y \<noteq> PEER_CONNECTION_RESULT_OK"
        by (auto simp: Let_def split: if_splits)
    qed
  qed
  with assms(2) show ?thesis by simp
qed

text \<open>A depacketizer that refuses packets once \<open>n\<close> have been added, as one with a fixed
  array does: \<open>room d\<close> is the number of packets that still fit.\<close>

definition dp_bounded :: "'d depacketizer \<Rightarrow> ('d \<Rightarrow> nat) \<Rightarrow> bool" where
  "dp_bounded dp room \<longleftrightarrow>
     (\<forall>d b n. fst (dpAddPacket dp d b n) \<longrightarrow> room (snd (dpAddPacket dp d b n)) < room d)"

lemma fill_loop_returns:
  assumes "dp_bounded dp room"
  shows "\<exists>y. fill_loop dp jb i stop d ts = Some y"
proof (induction "room d" arbitrary: i d ts rule: less_induct)
  case less
  show ?case
  proof (cases "unat i = stop")
    case True
    then show ?thesis by (simp add: fill_loop.simps)
  next
    case False
    let ?a = "dpAddPacket dp d (pPacketBuffer (packet_at jb i)) (packetBufferLength (packet_at jb i))"
    show ?thesis
    proof (cases "fst ?a")
      case True
      with assms have "room (snd ?a) < room d" unfolding dp_bounded_def by blast
      from less [OF this] True False show ?thesis
        by (subst fill_loop.simps) (simp add: Let_def)
    next
      case f: False
      with False show ?thesis by (subst fill_loop.simps) (simp add: Let_def)
    qed
  qed
qed

section \<open>Properties\<close>

text \<open>A depacketizer for the witnesses: it collects up to 32 payloads and gives their
  concatenation.\<close>

definition demo_dp :: "(bytes list) depacketizer" where
  "demo_dp = \<lparr>dpGetPacketProperties = (\<lambda>b n. (b \<noteq> None, 1)), dpStartFlag = 1,
     dpInit = (\<lambda>n. (True, [])),
     dpAddPacket = (\<lambda>d b n. case b of None \<Rightarrow> (False, d)
        | Some x \<Rightarrow> if length d < 32 then (True, d @ [take n x]) else (False, d)),
     dpGetFrame = (\<lambda>d n. (length (concat d) \<le> n, concat d))\<rparr>"

lemma demo_dp_bounded: "dp_bounded demo_dp (\<lambda>d. 32 - length d)"
  by (auto simp: dp_bounded_def demo_dp_def split: option.splits)



text \<open>C31: a frame whose last packet has sequence number 65535 is never delivered.  The loop's
  bound is then 65536 and the 16-bit counter never reaches it: no depacketizer makes the
  function report success, and one with a bounded packet array makes it return an error.\<close>

theorem fill_frame_65535_lost:
  assumes "jbIsInit jb" and "fillFrameFunc jb = Some h" and "dp_bounded (dps h) room"
  shows "\<exists>ret. PeerConnectionJitterBuffer_FillFrame dps jb rtpSeqStart 65535 n = Some (ret, None)
           \<and> ret \<noteq> PEER_CONNECTION_RESULT_OK"
proof -
  obtain ok d0 where init: "dpInit (dps h) 32 = (ok, d0)" by (cases "dpInit (dps h) 32")
  obtain y where y: "fill_loop (dps h) jb rtpSeqStart 65536 d0 0 = Some y"
    using fill_loop_returns [OF assms(3)] by blast
  have "fst y \<noteq> PEER_CONNECTION_RESULT_OK" using fill_loop_65536 [OF y] by simp
  with y init assms show ?thesis
    by (cases y) (auto simp: PeerConnectionJitterBuffer_FillFrame_def call_fill_frame_eq
        codec_fill_frame_def PEER_CONNECTION_JITTER_BUFFER_MAX_PACKETS_NUM_IN_A_FRAME_def)
qed

theorem fill_frame_65535_lost_witness:
  "\<exists>ret. PeerConnectionJitterBuffer_FillFrame (\<lambda>_. demo_dp) (demo_jb\<lparr>fillFrameFunc := Some OPUS_HELPER\<rparr>)
       65534 65535 100 = Some (ret, None) \<and> ret \<noteq> PEER_CONNECTION_RESULT_OK"
  by (rule fill_frame_65535_lost [OF _ _ demo_dp_bounded]) simp_all

end
