(* ===== verification/Rolling_Buffer.thy ===== *)
theory Rolling_Buffer
  imports Pc_Result
begin

text \<open>
  The rolling buffer of sent packets, \<open>peer_connection/peer_connection_rolling_buffer.c\<close>, from
  which lost packets are sent again.  Packets are heap nodes; the heap is explicit, and the
  outcome \<open>None\<close> of an operation is an access to memory that is not allocated.  The packet
  queue \<open>RtpPacketQueue\<close> belongs to a library that is not part of the sources: its calls are
  the record \<open>ops\<close>, over an arbitrary queue state, and what the code relies on is the
  predicate \<open>rpq_spec\<close>.
\<close>

section \<open>Data\<close>

text \<open>The RTP packet of the RTP library, with the fields the code sets; the payload pointer is
  the bytes it points to when the packet is serialised.\<close>

record RtpPacket =
  rtpFlags :: u32
  rtpPayloadType :: u32
  rtpSequenceNumber :: u16
  rtpHeaderTimestamp :: u32
  rtpSsrc :: u32
  rtpExtension :: "(u32 \<times> u32) option"
  rtpPayload :: bytes

definition zero_rtp_packet :: RtpPacket where
  "zero_rtp_packet = \<lparr>rtpFlags = 0, rtpPayloadType = 0, rtpSequenceNumber = 0,
     rtpHeaderTimestamp = 0, rtpSsrc = 0, rtpExtension = None, rtpPayload = []\<rparr>"

record PeerConnectionRollingBufferPacket =
  rbpRtpPacket :: RtpPacket
  twccExtensionPayload :: u32
  rbpPacketBuffer :: bytes
  rbpPacketBufferLength :: nat

type_synonym rb_heap = "nat \<rightharpoonup> PeerConnectionRollingBufferPacket"

record RtpPacketInfo =
  pSerializedRtpPacket :: "nat option"
  seqNum :: u16
  serializedPacketLength :: nat

datatype RtpPacketQueueResult =
    RTP_PACKET_QUEUE_RESULT_OK
  | RTP_PACKET_QUEUE_RESULT_PACKET_DELETED
  | RTP_PACKET_QUEUE_RESULT_OTHER nat

text \<open>\<open>rpqForceEnqueue\<close> returns the packet it removed, if any: the code clears the output
  structure before the call.\<close>

record 'q rtp_packet_queue =
  rpqInit :: "nat \<Rightarrow> RtpPacketQueueResult \<times> 'q"
  rpqForceEnqueue :: "'q \<Rightarrow> RtpPacketInfo \<Rightarrow> RtpPacketQueueResult \<times> 'q \<times> RtpPacketInfo option"
  rpqRetrieve :: "'q \<Rightarrow> u16 \<Rightarrow> RtpPacketQueueResult \<times> RtpPacketInfo"
  rpqDequeue :: "'q \<Rightarrow> RtpPacketQueueResult \<times> 'q \<times> RtpPacketInfo"

record 'q PeerConnectionRollingBuffer =
  rbIsInit :: bool
  packetQueue :: 'q
  infoArray :: bool
  maxSizePerPacket :: nat
  rbCapacity :: nat

section \<open>Operations\<close>

text \<open>The product of duration and bit rate is taken in 32 bits.  \<open>arrayOk\<close> says whether
  \<open>malloc\<close> of the info array succeeds.\<close>

definition PeerConnectionRollingBuffer_Create ::
    "'q rtp_packet_queue \<Rightarrow> 'q PeerConnectionRollingBuffer option \<Rightarrow> u32 \<Rightarrow> u32 \<Rightarrow> nat \<Rightarrow> bool
      \<Rightarrow> PeerConnectionResult \<times> 'q PeerConnectionRollingBuffer option" where
  "PeerConnectionRollingBuffer_Create ops pRollingBuffer bitRate durationSec maxSize arrayOk =
     (case pRollingBuffer of
        None \<Rightarrow> (PEER_CONNECTION_RESULT_BAD_PARAMETER, None)
      | Some rb \<Rightarrow>
          if bitRate = 0 \<or> durationSec = 0 \<or> maxSize = 0
          then (PEER_CONNECTION_RESULT_BAD_PARAMETER, Some rb)
          else
            (let cap = unat (durationSec * bitRate) div 8 div maxSize;
                 rb1 = rb\<lparr>maxSizePerPacket := maxSize, rbCapacity := cap, infoArray := arrayOk\<rparr>
             in if \<not> arrayOk then (PEER_CONNECTION_RESULT_FAIL_PACKET_INFO_NO_ENOUGH_MEMORY, Some rb1)
                else
                  (let (r, q) = rpqInit ops cap; rb2 = rb1\<lparr>packetQueue := q\<rparr>
                   in if r \<noteq> RTP_PACKET_QUEUE_RESULT_OK
                      then (PEER_CONNECTION_RESULT_FAIL_RTP_PACKET_QUEUE_INIT, Some rb2)
                      else (PEER_CONNECTION_RESULT_OK, Some (rb2\<lparr>rbIsInit := True\<rparr>)))))"

text \<open>The loop of \<open>PeerConnectionRollingBuffer_Free\<close>: dequeue until the queue reports anything
  but OK, and free each packet.  Freeing what is not allocated, or never ending, is \<open>None\<close>.\<close>

partial_function (option) free_loop ::
    "'q rtp_packet_queue \<Rightarrow> 'q \<Rightarrow> rb_heap \<Rightarrow> ('q \<times> rb_heap) option" where
  "free_loop ops q h =
     (let (r, q', info) = rpqDequeue ops q
      in if r \<noteq> RTP_PACKET_QUEUE_RESULT_OK then Some (q', h)
         else (case pSerializedRtpPacket info of
                 None \<Rightarrow> free_loop ops q' h
               | Some a \<Rightarrow> if h a = None then None else free_loop ops q' (h(a := None))))"

definition PeerConnectionRollingBuffer_Free ::
    "'q rtp_packet_queue \<Rightarrow> 'q PeerConnectionRollingBuffer option \<Rightarrow> rb_heap
      \<Rightarrow> ('q PeerConnectionRollingBuffer option \<times> rb_heap) option" where
  "PeerConnectionRollingBuffer_Free ops pRollingBuffer h =
     (case pRollingBuffer of
        None \<Rightarrow> Some (None, h)
      | Some rb \<Rightarrow>
          if \<not> rbIsInit rb then Some (Some rb, h)
          else
            (case free_loop ops (packetQueue rb) h of
               None \<Rightarrow> None
             | Some (q, h') \<Rightarrow>
                 Some (Some (rb\<lparr>rbIsInit := False, packetQueue := q, infoArray := False\<rparr>), h')))"

text \<open>\<open>mal\<close> is the address that \<open>malloc\<close> returns and \<open>junk\<close> what the new memory holds.  The code
  writes through the pointer without a check.\<close>

definition PeerConnectionRollingBuffer_GetRtpSequenceBuffer ::
    "'q PeerConnectionRollingBuffer \<Rightarrow> rb_heap \<Rightarrow> nat option \<Rightarrow> PeerConnectionRollingBufferPacket
      \<Rightarrow> (PeerConnectionResult \<times> rb_heap \<times> nat option) option" where
  "PeerConnectionRollingBuffer_GetRtpSequenceBuffer rb h mal junk =
     (if \<not> rbIsInit rb then Some (PEER_CONNECTION_RESULT_BAD_PARAMETER, h, None)
      else if rbCapacity rb = 0 then Some (PEER_CONNECTION_RESULT_BAD_PARAMETER, h, None)
      else (case mal of
              None \<Rightarrow> None
            | Some a \<Rightarrow>
                Some (PEER_CONNECTION_RESULT_OK,
                      h(a \<mapsto> junk\<lparr>rbpPacketBufferLength := maxSizePerPacket rb\<rparr>), Some a)))"

definition PeerConnectionRollingBuffer_DiscardRtpSequenceBuffer ::
    "'q PeerConnectionRollingBuffer \<Rightarrow> rb_heap \<Rightarrow> nat \<Rightarrow> rb_heap option" where
  "PeerConnectionRollingBuffer_DiscardRtpSequenceBuffer rb h a =
     (if \<not> rbIsInit rb then Some h
      else if h a = None then None else Some (h(a := None)))"

definition PeerConnectionRollingBuffer_SearchRtpSequenceBuffer ::
    "'q rtp_packet_queue \<Rightarrow> 'q PeerConnectionRollingBuffer \<Rightarrow> rb_heap \<Rightarrow> u16
      \<Rightarrow> (PeerConnectionResult \<times> rb_heap \<times> nat option) option" where
  "PeerConnectionRollingBuffer_SearchRtpSequenceBuffer ops rb h rtpSeq =
     (if \<not> rbIsInit rb then Some (PEER_CONNECTION_RESULT_BAD_PARAMETER, h, None)
      else if rbCapacity rb = 0 then Some (PEER_CONNECTION_RESULT_BAD_PARAMETER, h, None)
      else
        (let (r, info) = rpqRetrieve ops (packetQueue rb) rtpSeq
         in if r \<noteq> RTP_PACKET_QUEUE_RESULT_OK
            then Some (PEER_CONNECTION_RESULT_FAIL_RTP_PACKET_QUEUE_RETRIEVE, h, None)
            else
              Option.bind (pSerializedRtpPacket info) (\<lambda>a.
              Option.bind (h a) (\<lambda>pkt.
                Some (PEER_CONNECTION_RESULT_OK,
                      h(a \<mapsto> pkt\<lparr>rbpPacketBufferLength := serializedPacketLength info\<rparr>), Some a)))))"

definition PeerConnectionRollingBuffer_SetPacket ::
    "'q rtp_packet_queue \<Rightarrow> 'q PeerConnectionRollingBuffer \<Rightarrow> rb_heap \<Rightarrow> u16 \<Rightarrow> nat
      \<Rightarrow> (PeerConnectionResult \<times> 'q PeerConnectionRollingBuffer \<times> rb_heap) option" where
  "PeerConnectionRollingBuffer_SetPacket ops rb h rtpSeq a =
     (if \<not> rbIsInit rb then Some (PEER_CONNECTION_RESULT_BAD_PARAMETER, rb, h)
      else if rbCapacity rb = 0 then Some (PEER_CONNECTION_RESULT_BAD_PARAMETER, rb, h)
      else
        Option.bind (h a) (\<lambda>pkt.
          (let (r, q, deleted) = rpqForceEnqueue ops (packetQueue rb)
                 \<lparr>pSerializedRtpPacket = Some a, seqNum = rtpSeq,
                  serializedPacketLength = rbpPacketBufferLength pkt\<rparr>;
               rb' = rb\<lparr>packetQueue := q\<rparr>
           in if r \<noteq> RTP_PACKET_QUEUE_RESULT_OK \<and> r \<noteq> RTP_PACKET_QUEUE_RESULT_PACKET_DELETED
              then Some (PEER_CONNECTION_RESULT_FAIL_RTP_PACKET_ENQUEUE, rb', h)
              else (case Option.bind deleted pSerializedRtpPacket of
                      None \<Rightarrow> Some (PEER_CONNECTION_RESULT_OK, rb', h)
                    | Some old \<Rightarrow>
                        map_option (\<lambda>h'. (PEER_CONNECTION_RESULT_OK, rb', h'))
                          (PeerConnectionRollingBuffer_DiscardRtpSequenceBuffer rb' h old)))))"

section \<open>What the code relies on\<close>

text \<open>The library's queue of at most \<open>capacity\<close> packets: \<open>rep q xs\<close> says that \<open>xs\<close> is its
  content, oldest first.  A forced insert appends, giving back the oldest packet when there
  is no room; a retrieve finds a packet by its sequence number; a dequeue takes the oldest.\<close>

definition rpq_spec :: "'q rtp_packet_queue \<Rightarrow> ('q \<Rightarrow> RtpPacketInfo list \<Rightarrow> bool) \<Rightarrow> bool" where
  "rpq_spec ops rep \<longleftrightarrow>
     (\<forall>q xs x r q' del. rep q xs \<longrightarrow> rpqForceEnqueue ops q x = (r, q', del) \<longrightarrow>
        (r = RTP_PACKET_QUEUE_RESULT_OK \<and> del = None \<and> rep q' (xs @ [x]))
        \<or> (r = RTP_PACKET_QUEUE_RESULT_PACKET_DELETED \<and> xs \<noteq> [] \<and> del = Some (hd xs)
            \<and> rep q' (tl xs @ [x]))
        \<or> (r \<noteq> RTP_PACKET_QUEUE_RESULT_OK \<and> r \<noteq> RTP_PACKET_QUEUE_RESULT_PACKET_DELETED \<and> rep q' xs))
     \<and> (\<forall>q xs s r x. rep q xs \<longrightarrow> rpqRetrieve ops q s = (r, x) \<longrightarrow>
          (r = RTP_PACKET_QUEUE_RESULT_OK \<longleftrightarrow> s \<in> seqNum ` set xs)
          \<and> (r = RTP_PACKET_QUEUE_RESULT_OK \<longrightarrow> x \<in> set xs \<and> seqNum x = s))
     \<and> (\<forall>q xs r q' x. rep q xs \<longrightarrow> rpqDequeue ops q = (r, q', x) \<longrightarrow>
          (if xs = [] then r \<noteq> RTP_PACKET_QUEUE_RESULT_OK \<and> rep q' []
           else r = RTP_PACKET_QUEUE_RESULT_OK \<and> x = hd xs \<and> rep q' (tl xs)))"

lemma rpq_enqueue_cases:
  assumes "rpq_spec ops rep" and "rep q xs" and "rpqForceEnqueue ops q x = (r, q', del)"
  obtains (ok) "r = RTP_PACKET_QUEUE_RESULT_OK" "del = None" "rep q' (xs @ [x])"
    | (deleted) "r = RTP_PACKET_QUEUE_RESULT_PACKET_DELETED" "xs \<noteq> []" "del = Some (hd xs)"
        "rep q' (tl xs @ [x])"
    | (failed) "r \<noteq> RTP_PACKET_QUEUE_RESULT_OK" "r \<noteq> RTP_PACKET_QUEUE_RESULT_PACKET_DELETED"
        "rep q' xs"
  using assms(1) [unfolded rpq_spec_def, THEN conjunct1, rule_format, OF assms(2,3)] that
  by metis

lemmas rpq_retrieve = rpq_spec_def [THEN iffD1, THEN conjunct2, THEN conjunct1, rule_format]
lemmas rpq_dequeue = rpq_spec_def [THEN iffD1, THEN conjunct2, THEN conjunct2, rule_format]

lemma rpq_retrieve_found:
  assumes "rpq_spec ops rep" and "rep q xs" and "s \<in> seqNum ` set xs"
  shows "\<exists>x. rpqRetrieve ops q s = (RTP_PACKET_QUEUE_RESULT_OK, x) \<and> x \<in> set xs \<and> seqNum x = s"
proof -
  obtain r x where r: "rpqRetrieve ops q s = (r, x)" by (cases "rpqRetrieve ops q s")
  from rpq_retrieve [OF assms(1,2) r] assms(3) r show ?thesis by auto
qed

lemma rpq_retrieve_missing:
  assumes "rpq_spec ops rep" and "rep q xs" and "s \<notin> seqNum ` set xs"
  shows "fst (rpqRetrieve ops q s) \<noteq> RTP_PACKET_QUEUE_RESULT_OK"
  using rpq_retrieve [OF assms(1,2) prod.collapse [symmetric]] assms(3) by blast

lemma rpq_dequeue_empty:
  assumes "rpq_spec ops rep" and "rep q []"
  shows "\<exists>r q' x. rpqDequeue ops q = (r, q', x) \<and> r \<noteq> RTP_PACKET_QUEUE_RESULT_OK \<and> rep q' []"
proof -
  obtain r q' y where d: "rpqDequeue ops q = (r, q', y)" by (cases "rpqDequeue ops q")
  from rpq_dequeue [OF assms d] d show ?thesis by auto
qed

lemma rpq_dequeue_Cons:
  assumes "rpq_spec ops rep" and "rep q (x # xs)"
  shows "\<exists>q'. rpqDequeue ops q = (RTP_PACKET_QUEUE_RESULT_OK, q', x) \<and> rep q' xs"
proof -
  obtain r q' y where d: "rpqDequeue ops q = (r, q', y)" by (cases "rpqDequeue ops q")
  from rpq_dequeue [OF assms d] d show ?thesis by auto
qed

section \<open>Invariant: the queue owns its packets\<close>

text \<open>The content of the queue: each entry points to an allocated packet of its own.\<close>

definition rb_addrs :: "RtpPacketInfo list \<Rightarrow> nat set" where
  "rb_addrs xs = {a. \<exists>x \<in> set xs. pSerializedRtpPacket x = Some a}"

definition rb_rep ::
    "('q \<Rightarrow> RtpPacketInfo list \<Rightarrow> bool) \<Rightarrow> 'q PeerConnectionRollingBuffer \<Rightarrow> rb_heap
      \<Rightarrow> RtpPacketInfo list \<Rightarrow> bool" where
  "rb_rep rep rb h xs \<longleftrightarrow>
     rbIsInit rb \<and> 0 < rbCapacity rb \<and> rep (packetQueue rb) xs
     \<and> distinct (map pSerializedRtpPacket xs)
     \<and> (\<forall>x \<in> set xs. \<exists>a pkt. pSerializedRtpPacket x = Some a \<and> h a = Some pkt)"

lemma rb_repD:
  assumes "rb_rep rep rb h xs"
  shows "rbIsInit rb" "rbCapacity rb \<noteq> 0" "rep (packetQueue rb) xs"
  using assms by (auto simp: rb_rep_def)

lemma rb_rep_entry:
  assumes "rb_rep rep rb h xs" and "x \<in> set xs"
  obtains a pkt where "pSerializedRtpPacket x = Some a" "h a = Some pkt" "a \<in> rb_addrs xs"
  using assms unfolding rb_rep_def rb_addrs_def by blast

lemma rb_addrs_simps [simp]:
  "rb_addrs [] = {}"
  "rb_addrs (x # xs) = set_option (pSerializedRtpPacket x) \<union> rb_addrs xs"
  "rb_addrs (xs @ ys) = rb_addrs xs \<union> rb_addrs ys"
  by (auto simp: rb_addrs_def)

lemma rb_rep_cong:
  assumes "rb_rep rep rb h xs" and "\<And>a. a \<in> rb_addrs xs \<Longrightarrow> h' a \<noteq> None"
  shows "rb_rep rep rb h' xs"
  using assms unfolding rb_rep_def rb_addrs_def by blast

text \<open>An entry's address is not among those of the others.\<close>

lemma rb_addrs_distinct:
  assumes "distinct (map pSerializedRtpPacket (x # xs))" and "pSerializedRtpPacket x = Some a"
  shows "a \<notin> rb_addrs xs"
  using assms by (force simp: rb_addrs_def)

abbreviation new_info :: "nat \<Rightarrow> u16 \<Rightarrow> nat \<Rightarrow> RtpPacketInfo" where
  "new_info a s n \<equiv> \<lparr>pSerializedRtpPacket = Some a, seqNum = s, serializedPacketLength = n\<rparr>"

text \<open>Storing a packet: it becomes the newest entry; the oldest one may be dropped and is then
  freed; on failure nothing changes.\<close>

lemma SetPacket_rep:
  assumes spec: "rpq_spec ops rep" and rb: "rb_rep rep rb h xs"
    and a: "h a = Some pkt" "a \<notin> rb_addrs xs"
    and x: "x = new_info a s (rbpPacketBufferLength pkt)"
  obtains (stored) rb' where
      "PeerConnectionRollingBuffer_SetPacket ops rb h s a = Some (PEER_CONNECTION_RESULT_OK, rb', h)"
      "rb_rep rep rb' h (xs @ [x])" "maxSizePerPacket rb' = maxSizePerPacket rb"
    | (replaced) rb' old y ys where
      "xs = y # ys" "pSerializedRtpPacket y = Some old"
      "PeerConnectionRollingBuffer_SetPacket ops rb h s a = Some (PEER_CONNECTION_RESULT_OK, rb', h(old := None))"
      "rb_rep rep rb' (h(old := None)) (ys @ [x])" "maxSizePerPacket rb' = maxSizePerPacket rb"
    | (failed) rb' where
      "PeerConnectionRollingBuffer_SetPacket ops rb h s a
         = Some (PEER_CONNECTION_RESULT_FAIL_RTP_PACKET_ENQUEUE, rb', h)"
      "rb_rep rep rb' h xs" "maxSizePerPacket rb' = maxSizePerPacket rb"
proof -
  note init = rb_repD [OF rb]
  obtain r q del where e: "rpqForceEnqueue ops (packetQueue rb) x = (r, q, del)"
    by (cases "rpqForceEnqueue ops (packetQueue rb) x")
  let ?rb = "rb\<lparr>packetQueue := q\<rparr>"
  have new: "Some a \<notin> pSerializedRtpPacket ` set xs"
    using a(2) by (auto simp: rb_addrs_def)
  from spec init(3) e show thesis
  proof (cases rule: rpq_enqueue_cases)
    case ok
    have "PeerConnectionRollingBuffer_SetPacket ops rb h s a = Some (PEER_CONNECTION_RESULT_OK, ?rb, h)"
      using init a e ok by (simp add: PeerConnectionRollingBuffer_SetPacket_def x)
    moreover have "rb_rep rep ?rb h (xs @ [x])"
      using rb ok a new by (auto simp: rb_rep_def x)
    ultimately show thesis by (rule stored [where rb' = ?rb]) simp_all
  next
    case deleted
    then obtain y ys where xs: "xs = y # ys" by (cases xs) auto
    with rb obtain old opkt where old: "pSerializedRtpPacket y = Some old" "h old = Some opkt"
      using rb_rep_entry [of rep rb h xs y] by auto
    have fresh: "old \<notin> rb_addrs ys"
      using rb xs old by (intro rb_addrs_distinct) (auto simp: rb_rep_def)
    have "old \<noteq> a" using a(2) old xs by auto
    have "PeerConnectionRollingBuffer_SetPacket ops rb h s a
        = Some (PEER_CONNECTION_RESULT_OK, ?rb, h(old := None))"
      using init a e deleted xs old
      by (simp add: PeerConnectionRollingBuffer_SetPacket_def x
          PeerConnectionRollingBuffer_DiscardRtpSequenceBuffer_def)
    moreover have "\<forall>z \<in> set ys. \<exists>b pkt. pSerializedRtpPacket z = Some b \<and> (h(old := None)) b = Some pkt"
      using rb xs fresh unfolding rb_rep_def rb_addrs_def by fastforce
    then have "rb_rep rep ?rb (h(old := None)) (ys @ [x])"
      using rb deleted xs a new \<open>old \<noteq> a\<close> by (auto simp: rb_rep_def x)
    ultimately show thesis
      by (rule replaced [where rb' = ?rb and old = old and y = y and ys = ys, OF xs old(1)]) simp_all
  next
    case failed
    have "PeerConnectionRollingBuffer_SetPacket ops rb h s a
        = Some (PEER_CONNECTION_RESULT_FAIL_RTP_PACKET_ENQUEUE, ?rb, h)"
      using init a e failed by (simp add: PeerConnectionRollingBuffer_SetPacket_def x)
    moreover have "rb_rep rep ?rb h xs"
      using rb failed by (auto simp: rb_rep_def)
    ultimately show thesis by (rule that(3) [where rb' = ?rb]) simp_all
  qed
qed

text \<open>Finding a packet by its sequence number.\<close>

lemma Search_found:
  assumes "rpq_spec ops rep" and rb: "rb_rep rep rb h xs" and "s \<in> seqNum ` set xs"
  shows "\<exists>x a pkt. x \<in> set xs \<and> seqNum x = s \<and> pSerializedRtpPacket x = Some a \<and> h a = Some pkt
     \<and> PeerConnectionRollingBuffer_SearchRtpSequenceBuffer ops rb h s
         = Some (PEER_CONNECTION_RESULT_OK,
                 h(a \<mapsto> pkt\<lparr>rbpPacketBufferLength := serializedPacketLength x\<rparr>), Some a)"
proof -
  note init = rb_repD [OF rb]
  from rpq_retrieve_found [OF assms(1) init(3) assms(3)] obtain x where
    x: "rpqRetrieve ops (packetQueue rb) s = (RTP_PACKET_QUEUE_RESULT_OK, x)" "x \<in> set xs" "seqNum x = s"
    by blast
  from rb_rep_entry [OF rb x(2)] obtain a pkt where "pSerializedRtpPacket x = Some a" "h a = Some pkt" .
  with x init show ?thesis
    by (auto simp: PeerConnectionRollingBuffer_SearchRtpSequenceBuffer_def)
qed

lemma Search_missing:
  assumes "rpq_spec ops rep" and rb: "rb_rep rep rb h xs" and "s \<notin> seqNum ` set xs"
  shows "PeerConnectionRollingBuffer_SearchRtpSequenceBuffer ops rb h s
     = Some (PEER_CONNECTION_RESULT_FAIL_RTP_PACKET_QUEUE_RETRIEVE, h, None)"
  using rb_repD [OF rb] rpq_retrieve_missing [OF assms(1) rb_repD(3) [OF rb] assms(3)]
  by (simp add: PeerConnectionRollingBuffer_SearchRtpSequenceBuffer_def case_prod_unfold)

text \<open>Freeing the buffer frees exactly the packets of the queue.\<close>

lemma free_loop_frees:
  assumes "rpq_spec ops rep" and "rep q xs" and "distinct (map pSerializedRtpPacket xs)"
    and "\<forall>x \<in> set xs. \<exists>a. pSerializedRtpPacket x = Some a \<and> h a \<noteq> None"
  shows "\<exists>q'. free_loop ops q h = Some (q', \<lambda>a. if a \<in> rb_addrs xs then None else h a) \<and> rep q' []"
  using assms(2-)
proof (induction xs arbitrary: q h)
  case Nil
  from rpq_dequeue_empty [OF assms(1) Nil(1)] show ?case
    by (subst free_loop.simps) auto
next
  case (Cons x xs)
  from rpq_dequeue_Cons [OF assms(1) Cons.prems(1)] obtain q' where
    q': "rpqDequeue ops q = (RTP_PACKET_QUEUE_RESULT_OK, q', x)" "rep q' xs" by blast
  from Cons.prems obtain a where a: "pSerializedRtpPacket x = Some a" "h a \<noteq> None" by auto
  have fresh: "a \<notin> rb_addrs xs" using Cons.prems(2) a by (intro rb_addrs_distinct)
  have "\<forall>y \<in> set xs. \<exists>b. pSerializedRtpPacket y = Some b \<and> (h(a := None)) b \<noteq> None"
    using Cons.prems(3) fresh unfolding rb_addrs_def by fastforce
  moreover have "distinct (map pSerializedRtpPacket xs)" using Cons.prems(2) by simp
  ultimately obtain q'' where
    "free_loop ops q' (h(a := None)) = Some (q'', \<lambda>b. if b \<in> rb_addrs xs then None else (h(a := None)) b)"
    "rep q'' []" using Cons.IH [OF q'(2), of "h(a := None)"] by blast
  moreover have "(\<lambda>b. if b \<in> rb_addrs xs then None else (h(a := None)) b)
      = (\<lambda>b. if b \<in> rb_addrs (x # xs) then None else h b)"
    using a(1) by (auto simp: fun_eq_iff)
  ultimately show ?case
    using q' a by (subst free_loop.simps) (simp add: not_None_eq)
qed

lemma Free_frees:
  assumes "rpq_spec ops rep" and "rb_rep rep rb h xs"
  shows "\<exists>rb'. PeerConnectionRollingBuffer_Free ops (Some rb) h
           = Some (Some rb', \<lambda>a. if a \<in> rb_addrs xs then None else h a)
         \<and> \<not> rbIsInit rb' \<and> rep (packetQueue rb') []"
proof -
  have "\<forall>x \<in> set xs. \<exists>a. pSerializedRtpPacket x = Some a \<and> h a \<noteq> None"
    using assms(2) unfolding rb_rep_def by fastforce
  with free_loop_frees [OF assms(1), of "packetQueue rb" xs h] assms(2) obtain q where
    "free_loop ops (packetQueue rb) h = Some (q, \<lambda>a. if a \<in> rb_addrs xs then None else h a)" "rep q []"
    by (auto simp: rb_rep_def)
  with rb_repD [OF assms(2)] show ?thesis by (simp add: PeerConnectionRollingBuffer_Free_def)
qed

section \<open>Properties\<close>

text \<open>A queue for the witnesses: a list of at most two packets.\<close>

definition demo_queue :: "RtpPacketInfo list rtp_packet_queue" where
  "demo_queue = \<lparr>
     rpqInit = (\<lambda>n. (RTP_PACKET_QUEUE_RESULT_OK, [])),
     rpqForceEnqueue = (\<lambda>q x.
       if length q < 2 then (RTP_PACKET_QUEUE_RESULT_OK, q @ [x], None)
       else (RTP_PACKET_QUEUE_RESULT_PACKET_DELETED, tl q @ [x], Some (hd q))),
     rpqRetrieve = (\<lambda>q s.
       case find (\<lambda>x. seqNum x = s) q of
         None \<Rightarrow> (RTP_PACKET_QUEUE_RESULT_OTHER 1, new_info 0 0 0)
       | Some x \<Rightarrow> (RTP_PACKET_QUEUE_RESULT_OK, x)),
     rpqDequeue = (\<lambda>q. case q of [] \<Rightarrow> (RTP_PACKET_QUEUE_RESULT_OTHER 2, [], new_info 0 0 0)
       | x # xs \<Rightarrow> (RTP_PACKET_QUEUE_RESULT_OK, xs, x))\<rparr>"

lemma find_SomeD: "find P xs = Some x \<Longrightarrow> x \<in> set xs \<and> P x"
  by (induction xs) (auto split: if_splits)

lemma demo_queue_spec: "rpq_spec demo_queue (=)"
  by (auto simp: rpq_spec_def demo_queue_def find_None_iff dest!: find_SomeD
      split: option.splits list.splits if_splits)

definition demo_node :: PeerConnectionRollingBufferPacket where
  "demo_node = \<lparr>rbpRtpPacket = zero_rtp_packet, twccExtensionPayload = 0,
     rbpPacketBuffer = [1, 2, 3], rbpPacketBufferLength = 3\<rparr>"

definition demo_rb :: "RtpPacketInfo list PeerConnectionRollingBuffer" where
  "demo_rb = \<lparr>rbIsInit = True, packetQueue = [new_info 5 100 3, new_info 6 101 3],
     infoArray = True, maxSizePerPacket = 1400, rbCapacity = 2\<rparr>"

definition demo_heap :: rb_heap where
  "demo_heap = [5 \<mapsto> demo_node, 6 \<mapsto> demo_node, 7 \<mapsto> demo_node]"

lemma demo_rb_rep: "rb_rep (=) demo_rb demo_heap [new_info 5 100 3, new_info 6 101 3]"
  by (simp add: rb_rep_def demo_rb_def demo_heap_def)

text \<open>Storing a packet in the rolling buffer never loses track of memory.  The packet
  becomes the newest entry and the others keep their order; if the queue had to drop its oldest
  entry, exactly that packet is freed; if the queue refuses the packet, nothing changes and the
  caller still owns it.\<close>

theorem SetPacket_owns:
  assumes "rpq_spec ops rep" and "rb_rep rep rb h xs" and "h a = Some pkt" and "a \<notin> rb_addrs xs"
  shows "\<exists>r rb' h' ys. PeerConnectionRollingBuffer_SetPacket ops rb h s a = Some (r, rb', h')
     \<and> rb_rep rep rb' h' ys
     \<and> (if r = PEER_CONNECTION_RESULT_OK
        then \<exists>old. xs = old @ butlast ys \<and> length old \<le> 1
               \<and> last ys = new_info a s (rbpPacketBufferLength pkt) \<and> ys \<noteq> []
               \<and> h' = (\<lambda>b. if b \<in> rb_addrs old then None else h b)
        else ys = xs \<and> h' = h)"
  using assms
proof (rule SetPacket_rep [where s = s, OF _ _ _ _ refl])
  let ?x = "new_info a s (rbpPacketBufferLength pkt)"
  fix rb' assume "PeerConnectionRollingBuffer_SetPacket ops rb h s a = Some (PEER_CONNECTION_RESULT_OK, rb', h)"
    "rb_rep rep rb' h (xs @ [?x])"
  then show ?thesis
    by (intro exI [of _ PEER_CONNECTION_RESULT_OK] exI [of _ rb'] exI [of _ h] exI [of _ "xs @ [?x]"]) auto
next
  let ?x = "new_info a s (rbpPacketBufferLength pkt)"
  fix rb' old y ys
  assume xs: "xs = y # ys" "pSerializedRtpPacket y = Some old"
    and "PeerConnectionRollingBuffer_SetPacket ops rb h s a
        = Some (PEER_CONNECTION_RESULT_OK, rb', h(old := None))"
    "rb_rep rep rb' (h(old := None)) (ys @ [?x])"
  moreover have "h(old := None) = (\<lambda>b. if b \<in> rb_addrs [y] then None else h b)"
    using xs(2) by (auto simp: fun_eq_iff)
  ultimately show ?thesis
    by (intro exI [of _ PEER_CONNECTION_RESULT_OK] exI [of _ rb'] exI [of _ "h(old := None)"]
        exI [of _ "ys @ [?x]"]) (auto intro!: exI [of _ "[y]"])
next
  fix rb' assume "PeerConnectionRollingBuffer_SetPacket ops rb h s a
        = Some (PEER_CONNECTION_RESULT_FAIL_RTP_PACKET_ENQUEUE, rb', h)" "rb_rep rep rb' h xs"
  then show ?thesis
    by (intro exI [of _ PEER_CONNECTION_RESULT_FAIL_RTP_PACKET_ENQUEUE] exI [of _ rb'] exI [of _ h]
        exI [of _ xs]) auto
qed

theorem SetPacket_owns_witness:
  "\<exists>r rb' h' ys. PeerConnectionRollingBuffer_SetPacket demo_queue demo_rb demo_heap 102 7 = Some (r, rb', h')
     \<and> rb_rep (=) rb' h' ys"
  using SetPacket_owns [OF demo_queue_spec demo_rb_rep, of 7 demo_node 102]
  by (auto simp: demo_heap_def rb_addrs_def)

text \<open>C33: \<open>PeerConnectionRollingBuffer_Free\<close> ends, frees each stored packet exactly once and
  nothing else, and leaves the buffer marked as not initialised.\<close>

theorem RollingBuffer_Free_frees:
  assumes "rpq_spec ops rep" and "rb_rep rep rb h xs"
  shows "\<exists>rb'. PeerConnectionRollingBuffer_Free ops (Some rb) h
           = Some (Some rb', \<lambda>a. if a \<in> rb_addrs xs then None else h a)
         \<and> \<not> rbIsInit rb' \<and> rep (packetQueue rb') []"
  using assms by (rule Free_frees)

theorem RollingBuffer_Free_frees_witness:
  "\<exists>rb'. PeerConnectionRollingBuffer_Free demo_queue (Some demo_rb) demo_heap
           = Some (Some rb', \<lambda>a. if a \<in> rb_addrs [new_info 5 100 3, new_info 6 101 3] then None
                             else demo_heap a)
         \<and> \<not> rbIsInit rb'"
  using RollingBuffer_Free_frees [OF demo_queue_spec demo_rb_rep] by blast

end
