(* ===== verification/Srtp_Send.thy ===== *)
theory Srtp_Send
  imports Rolling_Buffer
begin

text \<open>
  The send path: the frame writers of the codec helpers (\<open>PeerConnectionSrtp_WriteH264Frame\<close>
  and its H265, Opus and G711 siblings), \<open>PeerConnectionSrtp_ConstructSrtpPacket\<close> of
  \<open>peer_connection_srtp.c\<close>, and the retransmission on a NACK (\<open>ResendSrtpPacket\<close>,
  \<open>OnRtcpNackEvent\<close> of \<open>peer_connection_srtcp.c\<close>), over the rolling buffer.  The session's
  pairs of fields \<open>video...\<close> and \<open>audio...\<close> are one field that maps the medium to its value.
  The packetizers, RTP serialisation, libsrtp and the ICE controller's socket are
  arguments; the packets handed to \<open>IceController_SendToRemotePeer\<close> are logged.
\<close>

section \<open>Data\<close>

datatype media = MEDIA_AUDIO | MEDIA_VIDEO

datatype TransceiverTrackKind =
    TRANSCEIVER_TRACK_KIND_UNKNOWN
  | TRANSCEIVER_TRACK_KIND_AUDIO
  | TRANSCEIVER_TRACK_KIND_VIDEO
  | TRANSCEIVER_TRACK_KIND_DATA_CHANNEL

datatype TransceiverDirection =
    TRANSCEIVER_TRACK_DIRECTION_UNKNOWN
  | TRANSCEIVER_TRACK_DIRECTION_SENDRECV
  | TRANSCEIVER_TRACK_DIRECTION_SENDONLY
  | TRANSCEIVER_TRACK_DIRECTION_RECVONLY
  | TRANSCEIVER_TRACK_DIRECTION_INACTIVE

record Transceiver =
  trackKind :: TransceiverTrackKind
  direction :: TransceiverDirection
  codecBitMap :: u32
  rollingbufferDurationSec :: u32
  rollingbufferBitRate :: u32
  ssrc :: u32
  rtxSsrc :: u32
  rtpPacketsTransmitted :: u64
  rtpBytesTransmitted :: u64
  rtpTimeOffset :: u64
  rtpFirstFrameWallClockTimeUs :: u64

record PeerConnectionFrame =
  presentationUs :: u64
  frameData :: bytes

text \<open>One packet handed to the network: its medium, the sequence number and payload of its RTP
  packet, and the bytes on the wire.\<close>

record tx_record =
  trMedia :: media
  trSeq :: u16
  trPayload :: bytes
  trWire :: bytes

record ('q, 's) PeerConnectionSession =
  srtpSender :: "media \<Rightarrow> 'q PeerConnectionRollingBuffer"
  sequenceNumberOf :: "media \<Rightarrow> u16"
  codecPayload :: "media \<Rightarrow> u32"
  codecRtxPayload :: "media \<Rightarrow> u32"
  rtxSequenceNumber :: "media \<Rightarrow> u16"
  twccId :: u16
  twccSequence :: u16
  srtpTransmitSession :: "'s option"
  transceivers :: "Transceiver list"
  txHeap :: rb_heap
  txLog :: "tx_record list"

text \<open>What the code calls.  \<open>rbMalloc\<close> is the address \<open>malloc\<close> gives in a heap, \<open>rbJunk n\<close> the
  content of a new packet with \<open>n\<close> bytes of buffer, \<open>stackJunk\<close> that of the local packet
  buffer; \<open>iceSendOk k\<close> the result of the \<open>k\<close>-th send of the session.\<close>

record ('q, 's) tx_env =
  txQueue :: "'q rtp_packet_queue"
  rbMalloc :: "rb_heap \<Rightarrow> nat option"
  rbJunk :: "nat \<Rightarrow> PeerConnectionRollingBufferPacket"
  stackJunk :: bytes
  senderLockOk :: bool
  srtpLockOk :: bool
  rtpSerialize :: "RtpPacket \<Rightarrow> nat \<Rightarrow> bytes option"
  srtpProtect :: "'s \<Rightarrow> bytes \<Rightarrow> nat \<Rightarrow> bytes option \<times> 's"
  iceSendOk :: "nat \<Rightarrow> bool"
  rtpFlagMarker :: u32
  rtpFlagExtension :: u32

datatype packetizer_result = PACKETIZER_OK | PACKETIZER_NO_MORE_PACKETS | PACKETIZER_ERROR

record 'p packetizer =
  pkGetPacket :: "'p \<Rightarrow> nat \<Rightarrow> packetizer_result \<times> 'p \<times> bytes"
  pkNaluCount :: "'p \<Rightarrow> nat"

definition PEER_CONNECTION_SRTP_RTP_PACKET_MAX_LENGTH :: nat where
  "PEER_CONNECTION_SRTP_RTP_PACKET_MAX_LENGTH = 1400"

definition PEER_CONNECTION_SRTP_RTP_PAYLOAD_MAX_LENGTH :: nat where
  "PEER_CONNECTION_SRTP_RTP_PAYLOAD_MAX_LENGTH = 1200"

definition PEER_CONNECTION_SRTP_RTX_WRITE_RESERVED_BYTES :: nat where
  "PEER_CONNECTION_SRTP_RTX_WRITE_RESERVED_BYTES = 2"

lemmas srtp_lengths [simp] =
  PEER_CONNECTION_SRTP_RTP_PACKET_MAX_LENGTH_def PEER_CONNECTION_SRTP_RTP_PAYLOAD_MAX_LENGTH_def
  PEER_CONNECTION_SRTP_RTX_WRITE_RESERVED_BYTES_def

text \<open>The time conversions and the transport-wide sequence number extension, in 64 and 32 bits.\<close>

definition PEER_CONNECTION_SRTP_CONVERT_TIME_US_TO_RTP_TIMESTAMP :: "u32 \<Rightarrow> u64 \<Rightarrow> u32" where
  "PEER_CONNECTION_SRTP_CONVERT_TIME_US_TO_RTP_TIMESTAMP clockRate us =
     ucast ((us * ucast clockRate) div 1000000 AND 0xFFFFFFFF)"

definition PEER_CONNECTION_SRTP_CONVERT_RTP_TIMESTAMP_TO_TIME_US :: "u32 \<Rightarrow> u32 \<Rightarrow> u64" where
  "PEER_CONNECTION_SRTP_CONVERT_RTP_TIMESTAMP_TO_TIME_US clockRate rtpTimestamp =
     ucast rtpTimestamp * 1000000 div ucast clockRate"

definition PEER_CONNECTION_SRTP_GET_TWCC_PAYLOAD :: "u16 \<Rightarrow> u16 \<Rightarrow> u32" where
  "PEER_CONNECTION_SRTP_GET_TWCC_PAYLOAD extId sequenceNum =
     push_bit 28 (ucast extId AND 0xf) OR push_bit 24 1 OR push_bit 8 (ucast sequenceNum)"

definition PEER_CONNECTION_SRTP_TWCC_EXT_PROFILE :: u32 where
  "PEER_CONNECTION_SRTP_TWCC_EXT_PROFILE = 0xBEDE"

text \<open>A medium with a retransmission payload type of its own keeps the bare payload in the
  rolling buffer (\<open>bufferAfterEncrypt = 0\<close>); otherwise the encrypted packet is kept.\<close>

definition uses_rtx :: "('q, 's) PeerConnectionSession \<Rightarrow> media \<Rightarrow> bool" where
  "uses_rtx ses m \<longleftrightarrow> codecRtxPayload ses m \<noteq> 0 \<and> codecRtxPayload ses m \<noteq> codecPayload ses m"

section \<open>Encrypting a packet\<close>

text \<open>\<open>buf\<close> is the output buffer before the call and its length the capacity in
  \<open>*pOutputSrtpPacketLength\<close>; the result carries the buffer and the length after the call.\<close>

definition PeerConnectionSrtp_ConstructSrtpPacket ::
    "('q, 's) tx_env \<Rightarrow> ('q, 's) PeerConnectionSession \<Rightarrow> RtpPacket \<Rightarrow> bytes
      \<Rightarrow> PeerConnectionResult \<times> bytes \<times> nat \<times> ('q, 's) PeerConnectionSession" where
  "PeerConnectionSrtp_ConstructSrtpPacket env ses rtp buf =
     (case rtpSerialize env rtp (length buf) of
        None \<Rightarrow> (PEER_CONNECTION_RESULT_FAIL_RTP_SERIALIZE, buf, length buf, ses)
      | Some ser \<Rightarrow>
          (let buf1 = ser @ drop (length ser) buf
           in if \<not> srtpLockOk env
              then (PEER_CONNECTION_RESULT_FAIL_TAKE_SRTP_MUTEX, buf1, length buf, ses)
              else
                (case srtpTransmitSession ses of
                   None \<Rightarrow> (PEER_CONNECTION_RESULT_OK, buf1, length buf, ses)
                 | Some t \<Rightarrow>
                     (let (enc, t') = srtpProtect env t ser (length buf);
                          ses' = ses\<lparr>srtpTransmitSession := Some t'\<rparr>
                      in (case enc of
                            None \<Rightarrow> (PEER_CONNECTION_RESULT_FAIL_ENCRYPT_SRTP_RTP_PACKET, buf1, length buf, ses')
                          | Some e \<Rightarrow> (PEER_CONNECTION_RESULT_OK, e @ drop (length e) buf1, length e, ses'))))))"

section \<open>Writing a frame\<close>

record frame_params =
  fpMedia :: media
  fpSsrc :: u32
  fpClockRate :: u32
  fpPresentationUs :: u64
  fpMarkerAlways :: bool

record ('q, 's, 'p) write_state =
  wSession :: "('q, 's) PeerConnectionSession"
  wPacketizer :: 'p
  wRet :: PeerConnectionResult
  wPacketSent :: u32
  wBytesSent :: u32

text \<open>The header of one packet; \<open>last\<close> is whether the marker is set.\<close>

definition write_rtp_packet ::
    "('q, 's) tx_env \<Rightarrow> ('q, 's) PeerConnectionSession \<Rightarrow> frame_params \<Rightarrow> bool \<Rightarrow> bytes \<Rightarrow> RtpPacket" where
  "write_rtp_packet env ses fp marker payload =
     zero_rtp_packet
       \<lparr>rtpPayloadType := codecPayload ses (fpMedia fp),
        rtpSequenceNumber := sequenceNumberOf ses (fpMedia fp),
        rtpSsrc := fpSsrc fp,
        rtpFlags := (if marker then rtpFlagMarker env else 0)
                    OR (if twccId ses > 0 then rtpFlagExtension env else 0),
        rtpHeaderTimestamp :=
          PEER_CONNECTION_SRTP_CONVERT_TIME_US_TO_RTP_TIMESTAMP (fpClockRate fp) (fpPresentationUs fp),
        rtpExtension :=
          (if twccId ses > 0
           then Some (PEER_CONNECTION_SRTP_TWCC_EXT_PROFILE,
                      PEER_CONNECTION_SRTP_GET_TWCC_PAYLOAD (twccId ses) (twccSequence ses))
           else None),
        rtpPayload := payload\<rparr>"

text \<open>The packet as stored in the rolling buffer's node: with retransmission payloads, the
  payload behind the two reserved bytes.\<close>

definition fill_node ::
    "bool \<Rightarrow> RtpPacket \<Rightarrow> bytes \<Rightarrow> PeerConnectionRollingBufferPacket \<Rightarrow> PeerConnectionRollingBufferPacket" where
  "fill_node rtx rtp payload node =
     node\<lparr>rbpRtpPacket := rtp,
          twccExtensionPayload :=
            (case rtpExtension rtp of None \<Rightarrow> twccExtensionPayload node | Some (_, x) \<Rightarrow> x),
          rbpPacketBuffer :=
            (if rtx then take 2 (rbpPacketBuffer node) @ payload @ drop (2 + length payload) (rbpPacketBuffer node)
             else rbpPacketBuffer node)\<rparr>"

text \<open>The packet at \<open>a\<close> has been built and encrypted: store it and hand it to the network.\<close>

definition write_store_send ::
    "('q, 's) tx_env \<Rightarrow> frame_params \<Rightarrow> bytes \<Rightarrow> bytes \<Rightarrow> nat \<Rightarrow> nat
      \<Rightarrow> ('q, 's, 'p) write_state \<Rightarrow> (bool \<times> ('q, 's, 'p) write_state) option" where
  "write_store_send env fp payload out len a st =
     (let ses = wSession st; m = fpMedia fp; rtx = uses_rtx ses m; seq = sequenceNumberOf ses m
      in Option.bind
           (PeerConnectionRollingBuffer_SetPacket (txQueue env) (srtpSender ses m) (txHeap ses) seq a)
           (\<lambda>(r, rb, h).
             (let ses1 = ses\<lparr>srtpSender := (srtpSender ses)(m := rb), txHeap := h,
                            sequenceNumberOf := (sequenceNumberOf ses)(m := seq + 1)\<rparr>
              in if r \<noteq> PEER_CONNECTION_RESULT_OK
                 then map_option (\<lambda>h'. (False, st\<lparr>wSession := ses1\<lparr>txHeap := h'\<rparr>, wRet := r\<rparr>))
                        (PeerConnectionRollingBuffer_DiscardRtpSequenceBuffer rb h a)
                 else
                   Option.bind (h a) (\<lambda>node.
                     (let wire = take len (if rtx then out else rbpPacketBuffer node);
                          ses2 = ses1\<lparr>txLog := txLog ses1 @
                                   [\<lparr>trMedia = m, trSeq = seq, trPayload = payload, trWire = wire\<rparr>]\<rparr>
                      in if iceSendOk env (length (txLog ses1))
                         then Some (True, st\<lparr>wSession := ses2, wPacketSent := wPacketSent st + 1,
                                wBytesSent := wBytesSent st + of_nat (length (rtpPayload (rbpRtpPacket node)))\<rparr>)
                         else Some (False, st\<lparr>wSession := ses2,
                                wRet := PEER_CONNECTION_RESULT_FAIL_ICE_CONTROLLER_SEND_RTP_PACKET\<rparr>))))))"

text \<open>The body of the loop for a packet that the packetizer produced.\<close>

definition write_packet ::
    "('q, 's) tx_env \<Rightarrow> frame_params \<Rightarrow> bool \<Rightarrow> bytes \<Rightarrow> nat \<Rightarrow> PeerConnectionRollingBufferPacket
      \<Rightarrow> ('q, 's, 'p) write_state \<Rightarrow> (bool \<times> ('q, 's, 'p) write_state) option" where
  "write_packet env fp marker payload a node st =
     (let ses = wSession st; m = fpMedia fp; rtx = uses_rtx ses m;
          rtp = write_rtp_packet env ses fp marker payload;
          ses1 = (if twccId ses > 0 then ses\<lparr>twccSequence := twccSequence ses + 1\<rparr> else ses);
          node1 = fill_node rtx rtp payload node;
          buf = (if rtx then stackJunk env else take (rbpPacketBufferLength node) (rbpPacketBuffer node));
          (r, out, len, ses2) = PeerConnectionSrtp_ConstructSrtpPacket env ses1 rtp buf;
          node2 = (if rtx then node1 else node1\<lparr>rbpPacketBuffer := out\<rparr>);
          node3 = (if r = PEER_CONNECTION_RESULT_OK
                   then node2\<lparr>rbpPacketBufferLength := (if rtx then length payload else len)\<rparr> else node2);
          ses3 = ses2\<lparr>txHeap := (txHeap ses2)(a \<mapsto> node3)\<rparr>
      in if r \<noteq> PEER_CONNECTION_RESULT_OK
         then map_option (\<lambda>h. (False, st\<lparr>wSession := ses3\<lparr>txHeap := h\<rparr>, wRet := r\<rparr>))
                (PeerConnectionRollingBuffer_DiscardRtpSequenceBuffer (srtpSender ses m) (txHeap ses3) a)
         else write_store_send env fp payload out len a (st\<lparr>wSession := ses3\<rparr>))"

text \<open>One round of the \<open>while\<close> loop; the flag says whether it goes on.\<close>

definition write_iter ::
    "('q, 's) tx_env \<Rightarrow> 'p packetizer \<Rightarrow> frame_params \<Rightarrow> ('q, 's, 'p) write_state
      \<Rightarrow> (bool \<times> ('q, 's, 'p) write_state) option" where
  "write_iter env pk fp st =
     (let ses = wSession st; m = fpMedia fp; rb = srtpSender ses m
      in Option.bind
           (PeerConnectionRollingBuffer_GetRtpSequenceBuffer rb (txHeap ses)
              (rbMalloc env (txHeap ses)) (rbJunk env (maxSizePerPacket rb)))
           (\<lambda>(r, h, pRollingBufferPacket).
             (case pRollingBufferPacket of
                None \<Rightarrow> Some (False, st\<lparr>wRet := r\<rparr>)
              | Some a \<Rightarrow>
                  Option.bind (h a) (\<lambda>node.
                    (let cap = (if uses_rtx ses m
                                then rbpPacketBufferLength node - PEER_CONNECTION_SRTP_RTX_WRITE_RESERVED_BYTES
                                else PEER_CONNECTION_SRTP_RTP_PAYLOAD_MAX_LENGTH);
                         (res, p, payload) = pkGetPacket pk (wPacketizer st) cap;
                         st1 = st\<lparr>wSession := ses\<lparr>txHeap := h\<rparr>, wPacketizer := p\<rparr>;
                         discard = (\<lambda>ret. map_option
                           (\<lambda>h'. (False, st1\<lparr>wSession := ses\<lparr>txHeap := h'\<rparr>, wRet := ret\<rparr>))
                           (PeerConnectionRollingBuffer_DiscardRtpSequenceBuffer rb h a))
                     in (case res of
                           PACKETIZER_NO_MORE_PACKETS \<Rightarrow> discard (wRet st)
                         | PACKETIZER_ERROR \<Rightarrow> discard PEER_CONNECTION_RESULT_FAIL_PACKETIZER_GET_PACKET
                         | PACKETIZER_OK \<Rightarrow>
                             write_packet env fp (fpMarkerAlways fp \<or> pkNaluCount pk p = 0) payload a node st1))))))"

partial_function (option) write_loop ::
    "('q, 's) tx_env \<Rightarrow> 'p packetizer \<Rightarrow> frame_params \<Rightarrow> ('q, 's, 'p) write_state
      \<Rightarrow> ('q, 's, 'p) write_state option" where
  "write_loop env pk fp st =
     Option.bind (write_iter env pk fp st)
       (\<lambda>r. if fst r then write_loop env pk fp (snd r) else Some (snd r))"

text \<open>The common body: \<open>start\<close> is the packetizer after its initialisation, or the error of the
  initialisation; \<open>now\<close> the wall clock after the loop.\<close>

definition codec_write_frame ::
    "('q, 's) tx_env \<Rightarrow> 'p packetizer \<Rightarrow> PeerConnectionResult + 'p \<Rightarrow> frame_params \<Rightarrow> u64
      \<Rightarrow> ('q, 's) PeerConnectionSession \<Rightarrow> Transceiver
      \<Rightarrow> (PeerConnectionResult \<times> ('q, 's) PeerConnectionSession \<times> Transceiver) option" where
  "codec_write_frame env pk start fp now ses t =
     (case start of
        Inl r \<Rightarrow> Some (r, ses, t)
      | Inr p \<Rightarrow>
          if \<not> senderLockOk env then Some (PEER_CONNECTION_RESULT_FAIL_TAKE_SENDER_MUTEX, ses, t)
          else
            map_option
              (\<lambda>st. (wRet st, wSession st,
                 if wPacketSent st \<noteq> 0
                 then (let t1 = (if rtpFirstFrameWallClockTimeUs t = 0
                                 then t\<lparr>rtpFirstFrameWallClockTimeUs := now, rtpTimeOffset := 0\<rparr> else t)
                       in t1\<lparr>rtpPacketsTransmitted := rtpPacketsTransmitted t1 + ucast (wPacketSent st),
                             rtpBytesTransmitted := rtpBytesTransmitted t1 + ucast (wBytesSent st)\<rparr>)
                 else t))
              (write_loop env pk fp
                 \<lparr>wSession = ses, wPacketizer = p, wRet = PEER_CONNECTION_RESULT_OK,
                  wPacketSent = 0, wBytesSent = 0\<rparr>))"

text \<open>The video packetizers are initialised and given the frame in two calls, the audio ones in
  one.  A NULL transceiver is dereferenced after the check that rejects it.\<close>

definition video_start ::
    "(bool \<times> 'p) \<Rightarrow> ('p \<Rightarrow> bytes \<Rightarrow> bool \<times> 'p) \<Rightarrow> bytes \<Rightarrow> PeerConnectionResult + 'p" where
  "video_start init addFrame d =
     (if \<not> fst init then Inl PEER_CONNECTION_RESULT_FAIL_PACKETIZER_INIT
      else (let r = addFrame (snd init) d
            in if \<not> fst r then Inl PEER_CONNECTION_RESULT_FAIL_PACKETIZER_ADD_FRAME else Inr (snd r)))"

definition audio_start :: "(bytes \<Rightarrow> bool \<times> 'p) \<Rightarrow> bytes \<Rightarrow> PeerConnectionResult + 'p" where
  "audio_start init d =
     (if \<not> fst (init d) then Inl PEER_CONNECTION_RESULT_FAIL_PACKETIZER_INIT else Inr (snd (init d)))"

definition frame_params_of :: "media \<Rightarrow> u32 \<Rightarrow> Transceiver \<Rightarrow> PeerConnectionFrame \<Rightarrow> frame_params" where
  "frame_params_of m rate t f =
     \<lparr>fpMedia = m, fpSsrc = ssrc t, fpClockRate = rate, fpPresentationUs = presentationUs f,
      fpMarkerAlways = (m = MEDIA_AUDIO)\<rparr>"

definition PeerConnectionSrtp_WriteH264Frame where
  "PeerConnectionSrtp_WriteH264Frame env pk init addFrame now pSession pTransceiver pFrame =
     (case pTransceiver of
        None \<Rightarrow> None
      | Some t \<Rightarrow>
          (case (pSession, pFrame) of
             (Some ses, Some f) \<Rightarrow>
               if trackKind t \<noteq> TRANSCEIVER_TRACK_KIND_VIDEO
               then Some (PEER_CONNECTION_RESULT_BAD_PARAMETER, Some ses, t)
               else map_option (\<lambda>(r, s, t'). (r, Some s, t'))
                      (codec_write_frame env pk (video_start init addFrame (frameData f))
                         (frame_params_of MEDIA_VIDEO 90000 t f) now ses t)
           | _ \<Rightarrow> Some (PEER_CONNECTION_RESULT_BAD_PARAMETER, pSession, t)))"

definition PeerConnectionSrtp_WriteH265Frame where
  "PeerConnectionSrtp_WriteH265Frame env pk init addFrame now pSession pTransceiver pFrame =
     (case pTransceiver of
        None \<Rightarrow> None
      | Some t \<Rightarrow>
          (case (pSession, pFrame) of
             (Some ses, Some f) \<Rightarrow>
               if trackKind t \<noteq> TRANSCEIVER_TRACK_KIND_VIDEO
               then Some (PEER_CONNECTION_RESULT_BAD_PARAMETER, Some ses, t)
               else map_option (\<lambda>(r, s, t'). (r, Some s, t'))
                      (codec_write_frame env pk (video_start init addFrame (frameData f))
                         (frame_params_of MEDIA_VIDEO 90000 t f) now ses t)
           | _ \<Rightarrow> Some (PEER_CONNECTION_RESULT_BAD_PARAMETER, pSession, t)))"

definition PeerConnectionSrtp_WriteOpusFrame where
  "PeerConnectionSrtp_WriteOpusFrame env pk init now pSession pTransceiver pFrame =
     (case pTransceiver of
        None \<Rightarrow> None
      | Some t \<Rightarrow>
          (case (pSession, pFrame) of
             (Some ses, Some f) \<Rightarrow>
               if trackKind t \<noteq> TRANSCEIVER_TRACK_KIND_AUDIO
               then Some (PEER_CONNECTION_RESULT_BAD_PARAMETER, Some ses, t)
               else map_option (\<lambda>(r, s, t'). (r, Some s, t'))
                      (codec_write_frame env pk (audio_start init (frameData f))
                         (frame_params_of MEDIA_AUDIO 48000 t f) now ses t)
           | _ \<Rightarrow> Some (PEER_CONNECTION_RESULT_BAD_PARAMETER, pSession, t)))"

definition PeerConnectionSrtp_WriteG711Frame where
  "PeerConnectionSrtp_WriteG711Frame env pk init now pSession pTransceiver pFrame =
     (case pTransceiver of
        None \<Rightarrow> None
      | Some t \<Rightarrow>
          (case (pSession, pFrame) of
             (Some ses, Some f) \<Rightarrow>
               if trackKind t \<noteq> TRANSCEIVER_TRACK_KIND_AUDIO
               then Some (PEER_CONNECTION_RESULT_BAD_PARAMETER, Some ses, t)
               else map_option (\<lambda>(r, s, t'). (r, Some s, t'))
                      (codec_write_frame env pk (audio_start init (frameData f))
                         (frame_params_of MEDIA_AUDIO 8000 t f) now ses t)
           | _ \<Rightarrow> Some (PEER_CONNECTION_RESULT_BAD_PARAMETER, pSession, t)))"

section \<open>Retransmission\<close>

definition PeerConnection_MatchTransceiverBySsrc ::
    "('q, 's) PeerConnectionSession \<Rightarrow> u32 \<Rightarrow> PeerConnectionResult \<times> Transceiver option" where
  "PeerConnection_MatchTransceiverBySsrc ses x =
     (case find (\<lambda>t. x = ssrc t \<or> x = rtxSsrc t) (transceivers ses) of
        None \<Rightarrow> (PEER_CONNECTION_RESULT_UNKNOWN_SSRC, None)
      | Some t \<Rightarrow> (PEER_CONNECTION_RESULT_OK, Some t))"

definition htons_bytes :: "u16 \<Rightarrow> bytes" where
  "htons_bytes x = [ucast (drop_bit 8 x), ucast x]"

text \<open>The packet to send for a stored node: with retransmission payloads, a new RTP packet whose
  payload is the original sequence number followed by the stored payload.\<close>

definition ResendSrtpPacket ::
    "('q, 's) tx_env \<Rightarrow> ('q, 's) PeerConnectionSession \<Rightarrow> Transceiver \<Rightarrow> u16 \<Rightarrow> u32
      \<Rightarrow> (PeerConnectionResult \<times> ('q, 's) PeerConnectionSession) option" where
  "ResendSrtpPacket env ses t rtpSeq senderSsrc =
     (let m = (if trackKind t = TRANSCEIVER_TRACK_KIND_VIDEO then MEDIA_VIDEO else MEDIA_AUDIO);
          rtx = uses_rtx ses m
      in if \<not> senderLockOk env then Some (PEER_CONNECTION_RESULT_FAIL_TAKE_SENDER_MUTEX, ses)
         else
           Option.bind
             (PeerConnectionRollingBuffer_SearchRtpSequenceBuffer (txQueue env) (srtpSender ses m) (txHeap ses) rtpSeq)
             (\<lambda>(r, h, pRollingBufferPacket).
               (case pRollingBufferPacket of
                  None \<Rightarrow> Some (PEER_CONNECTION_RESULT_FAIL_RTP_PACKET_NOT_FOUND, ses\<lparr>txHeap := h\<rparr>)
                | Some a \<Rightarrow>
                    Option.bind (h a) (\<lambda>node.
                      (let (r1, wire, payload, seq, ses1) =
                         (if rtx then
                            (let buf = htons_bytes rtpSeq @ drop 2 (rbpPacketBuffer node);
                                 payload = take (rbpPacketBufferLength node + 2) buf;
                                 rtp = (rbpRtpPacket node)\<lparr>rtpSequenceNumber := rtxSequenceNumber ses m,
                                          rtpSsrc := rtxSsrc t, rtpPayloadType := codecRtxPayload ses m,
                                          rtpPayload := payload\<rparr>;
                                 node' = node\<lparr>rbpPacketBuffer := buf, rbpRtpPacket := rtp\<rparr>;
                                 (r1, out, len, ses1) = PeerConnectionSrtp_ConstructSrtpPacket env
                                   (ses\<lparr>txHeap := h(a \<mapsto> node'),
                                        rtxSequenceNumber := (rtxSequenceNumber ses)(m := rtxSequenceNumber ses m + 1)\<rparr>)
                                   rtp (stackJunk env)
                             in (r1, take len out, payload, rtxSequenceNumber ses m, ses1))
                          else
                            (PEER_CONNECTION_RESULT_OK, take (rbpPacketBufferLength node) (rbpPacketBuffer node),
                             rtpPayload (rbpRtpPacket node), rtpSequenceNumber (rbpRtpPacket node),
                             ses\<lparr>txHeap := h\<rparr>))
                       in if r1 \<noteq> PEER_CONNECTION_RESULT_OK then Some (r1, ses1)
                          else
                            (let ses2 = ses1\<lparr>txLog := txLog ses1 @
                                   [\<lparr>trMedia = m, trSeq = seq, trPayload = payload, trWire = wire\<rparr>]\<rparr>
                             in if iceSendOk env (length (txLog ses1))
                                then Some (PEER_CONNECTION_RESULT_OK, ses2)
                                else Some (PEER_CONNECTION_RESULT_FAIL_ICE_CONTROLLER_RESEND_RTP_PACKET, ses2)))))))"

text \<open>The loop over the sequence numbers of a NACK stops at the first failure.\<close>

fun nack_loop ::
    "('q, 's) tx_env \<Rightarrow> ('q, 's) PeerConnectionSession \<Rightarrow> Transceiver \<Rightarrow> u32 \<Rightarrow> u16 list
      \<Rightarrow> (PeerConnectionResult \<times> ('q, 's) PeerConnectionSession) option" where
  "nack_loop env ses t senderSsrc [] = Some (PEER_CONNECTION_RESULT_OK, ses)"
| "nack_loop env ses t senderSsrc (s # ss) =
     Option.bind (ResendSrtpPacket env ses t s senderSsrc)
       (\<lambda>(r, ses'). if r \<noteq> PEER_CONNECTION_RESULT_OK then Some (r, ses')
                    else nack_loop env ses' t senderSsrc ss)"

text \<open>\<open>parsed\<close> is what \<open>Rtcp_ParseNackPacket\<close> gives: sender and media source SSRC and the list of
  sequence numbers.\<close>

definition OnRtcpNackEvent ::
    "('q, 's) tx_env \<Rightarrow> ('q, 's) PeerConnectionSession \<Rightarrow> (u32 \<times> u32 \<times> u16 list) option
      \<Rightarrow> (PeerConnectionResult \<times> ('q, 's) PeerConnectionSession) option" where
  "OnRtcpNackEvent env ses parsed =
     (case parsed of
        None \<Rightarrow> Some (PEER_CONNECTION_RESULT_FAIL_RTCP_PARSE_NACK, ses)
      | Some (senderSsrc, mediaSourceSsrc, seqs) \<Rightarrow>
          (case PeerConnection_MatchTransceiverBySsrc ses mediaSourceSsrc of
             (r, Some t) \<Rightarrow> nack_loop env ses t senderSsrc seqs
           | (r, None) \<Rightarrow> Some (r, ses)))"

end
