(* ===== verification/Srtp_Send_Correct.thy ===== *)
theory Srtp_Send_Correct
  imports Srtp_Send
begin

text \<open>
  What the send path guarantees: packets of the rolling buffers are the only allocated ones
  (nothing leaks, nothing is freed twice or used after it was freed), what is stored is what
  was sent, sequence numbers are consecutive, and a retransmission sends what the receiver
  lost.
\<close>

section \<open>What the environment promises\<close>

definition env_ok :: "('q, 's) tx_env \<Rightarrow> bool" where
  "env_ok env \<longleftrightarrow>
     (\<forall>h a. rbMalloc env h = Some a \<longrightarrow> h a = None)
     \<and> (\<forall>h. finite (dom h) \<longrightarrow> rbMalloc env h \<noteq> None)
     \<and> (\<forall>n. length (rbpPacketBuffer (rbJunk env n)) = n)
     \<and> length (stackJunk env) = PEER_CONNECTION_SRTP_RTP_PACKET_MAX_LENGTH
     \<and> (\<forall>rtp n s. rtpSerialize env rtp n = Some s \<longrightarrow> length s \<le> n)
     \<and> (\<forall>t s n e t'. srtpProtect env t s n = (Some e, t') \<longrightarrow> length e \<le> n)"

definition packetizer_ok :: "'p packetizer \<Rightarrow> bool" where
  "packetizer_ok pk \<longleftrightarrow>
     (\<forall>p n p' d. pkGetPacket pk p n = (PACKETIZER_OK, p', d) \<longrightarrow> length d \<le> n)"

section \<open>Invariant of the senders\<close>

text \<open>A sender in use owns the packets of its queue; one that is not in use owns nothing.\<close>

definition sender_ok ::
    "('q \<Rightarrow> RtpPacketInfo list \<Rightarrow> bool) \<Rightarrow> 'q PeerConnectionRollingBuffer \<Rightarrow> rb_heap
      \<Rightarrow> RtpPacketInfo list \<Rightarrow> bool" where
  "sender_ok rep rb h xs \<longleftrightarrow>
     (rb_rep rep rb h xs \<and> 2 \<le> maxSizePerPacket rb)
     \<or> ((\<not> rbIsInit rb \<or> rbCapacity rb = 0 \<and> rep (packetQueue rb) []) \<and> xs = [])"

text \<open>A stored node against the log: the encrypted packet as it was sent, or the payload that
  was sent behind the two reserved bytes.\<close>

definition node_logged :: "bool \<Rightarrow> nat \<Rightarrow> PeerConnectionRollingBufferPacket \<Rightarrow> tx_record \<Rightarrow> bool" where
  "node_logged rtx n node rec \<longleftrightarrow>
     (if rtx then n + 2 \<le> length (rbpPacketBuffer node) \<and> take n (drop 2 (rbpPacketBuffer node)) = trPayload rec
      else take n (rbpPacketBuffer node) = trWire rec)"

definition tx_stored :: "('q, 's) PeerConnectionSession \<Rightarrow> media \<Rightarrow> RtpPacketInfo \<Rightarrow> bool" where
  "tx_stored ses m x \<longleftrightarrow>
     (\<exists>a node rec. pSerializedRtpPacket x = Some a \<and> txHeap ses a = Some node
        \<and> rec \<in> set (txLog ses) \<and> trMedia rec = m \<and> trSeq rec = seqNum x
        \<and> node_logged (uses_rtx ses m) (serializedPacketLength x) node rec)"

definition tx_inv ::
    "('q \<Rightarrow> RtpPacketInfo list \<Rightarrow> bool) \<Rightarrow> ('q, 's) PeerConnectionSession
      \<Rightarrow> (media \<Rightarrow> RtpPacketInfo list) \<Rightarrow> bool" where
  "tx_inv rep ses xs \<longleftrightarrow>
     (\<forall>m. sender_ok rep (srtpSender ses m) (txHeap ses) (xs m))
     \<and> (\<forall>m m'. m \<noteq> m' \<longrightarrow> rb_addrs (xs m) \<inter> rb_addrs (xs m') = {})
     \<and> dom (txHeap ses) = (\<Union>m. rb_addrs (xs m))
     \<and> (\<forall>m. \<forall>x \<in> set (xs m). tx_stored ses m x)"

lemma tx_invD:
  assumes "tx_inv rep ses xs"
  shows "sender_ok rep (srtpSender ses m) (txHeap ses) (xs m)"
    and "m \<noteq> m' \<Longrightarrow> rb_addrs (xs m) \<inter> rb_addrs (xs m') = {}"
    and "a \<in> rb_addrs (xs m) \<Longrightarrow> txHeap ses a \<noteq> None"
    and "x \<in> set (xs m) \<Longrightarrow> tx_stored ses m x"
  using assms by (auto simp: tx_inv_def dom_def set_eq_iff)

lemma tx_inv_fresh: "tx_inv rep ses xs \<Longrightarrow> txHeap ses a = None \<Longrightarrow> a \<notin> rb_addrs (xs m)"
  using tx_invD(3) by blast

lemma UNIV_media: "UNIV = {MEDIA_AUDIO, MEDIA_VIDEO}"
  using media.exhaust by blast

lemma finite_rb_addrs: "finite (rb_addrs xs)"
proof -
  have "rb_addrs xs \<subseteq> the ` pSerializedRtpPacket ` set xs" by (force simp: rb_addrs_def)
  then show ?thesis by (rule finite_subset) simp
qed

lemma tx_inv_finite: "tx_inv rep ses xs \<Longrightarrow> finite (dom (txHeap ses))"
  by (simp add: tx_inv_def UNIV_media finite_rb_addrs)

text \<open>The invariant depends on the senders, the heap, the log and the payload types only.\<close>

lemma tx_inv_cong:
  assumes "tx_inv rep ses xs"
    and "srtpSender ses' = srtpSender ses" "txHeap ses' = txHeap ses" "txLog ses' = txLog ses"
    and "codecPayload ses' = codecPayload ses" "codecRtxPayload ses' = codecRtxPayload ses"
  shows "tx_inv rep ses' xs"
  using assms by (simp add: tx_inv_def tx_stored_def uses_rtx_def)

text \<open>Changing the heap outside the stored packets.\<close>

lemma sender_ok_heap:
  assumes "sender_ok rep rb h xs" and "\<And>a. a \<in> rb_addrs xs \<Longrightarrow> h' a = h a"
  shows "sender_ok rep rb h' xs"
proof -
  have "rb_rep rep rb h' xs" if rb: "rb_rep rep rb h xs"
    by (rule rb_rep_cong [OF rb])
      (use assms(2) rb in \<open>fastforce simp: rb_addrs_def elim: rb_rep_entry\<close>)
  with assms(1) show ?thesis unfolding sender_ok_def by auto
qed

lemma tx_stored_grow:
  assumes "tx_stored ses m x" and "\<And>a. pSerializedRtpPacket x = Some a \<Longrightarrow> txHeap ses' a = txHeap ses a"
    and "set (txLog ses) \<subseteq> set (txLog ses')" and "uses_rtx ses' m = uses_rtx ses m"
  shows "tx_stored ses' m x"
proof -
  from assms(1) obtain a node rec where "pSerializedRtpPacket x = Some a" "txHeap ses a = Some node"
    "rec \<in> set (txLog ses)" "trMedia rec = m" "trSeq rec = seqNum x"
    "node_logged (uses_rtx ses m) (serializedPacketLength x) node rec"
    unfolding tx_stored_def by blast
  moreover from this have "txHeap ses' a = Some node" "rec \<in> set (txLog ses')"
    using assms(2,3) by auto
  ultimately show ?thesis using assms(4) unfolding tx_stored_def by auto
qed

lemma rb_addrs_member: "x \<in> set xs \<Longrightarrow> pSerializedRtpPacket x = Some a \<Longrightarrow> a \<in> rb_addrs xs"
  by (auto simp: rb_addrs_def)

text \<open>Replacing the entries of one sender.\<close>

lemma tx_inv_update:
  assumes inv: "tx_inv rep ses xs"
    and ok: "sender_ok rep (srtpSender ses' m) (txHeap ses') ys"
    and other: "\<And>m'. m' \<noteq> m \<Longrightarrow> srtpSender ses' m' = srtpSender ses m'"
    and heap: "\<And>m' a. m' \<noteq> m \<Longrightarrow> a \<in> rb_addrs (xs m') \<Longrightarrow> txHeap ses' a = txHeap ses a"
    and fresh: "\<And>m' a. m' \<noteq> m \<Longrightarrow> a \<in> rb_addrs ys \<Longrightarrow> a \<notin> rb_addrs (xs m')"
    and dom: "dom (txHeap ses') = rb_addrs ys \<union> (\<Union>m' \<in> - {m}. rb_addrs (xs m'))"
    and stored: "\<And>x. x \<in> set ys \<Longrightarrow> tx_stored ses' m x"
    and log: "set (txLog ses) \<subseteq> set (txLog ses')"
    and rtx: "\<And>m'. uses_rtx ses' m' = uses_rtx ses m'"
  shows "tx_inv rep ses' (xs(m := ys))"
proof -
  have "sender_ok rep (srtpSender ses' m') (txHeap ses') ((xs(m := ys)) m')" for m'
    using ok other [of m'] heap [of m'] tx_invD(1) [OF inv, of m']
    by (cases "m' = m") (auto intro: sender_ok_heap)
  moreover have "rb_addrs ((xs(m := ys)) m1) \<inter> rb_addrs ((xs(m := ys)) m2) = {}" if "m1 \<noteq> m2" for m1 m2
    using that fresh tx_invD(2) [OF inv that] by auto
  moreover have "dom (txHeap ses') = (\<Union>m'. rb_addrs ((xs(m := ys)) m'))"
    unfolding dom by (auto split: if_splits)
  moreover have "tx_stored ses' m' x" if "x \<in> set ((xs(m := ys)) m')" for m' x
  proof (cases "m' = m")
    case True
    with that stored show ?thesis by simp
  next
    case False
    with that have x: "x \<in> set (xs m')" by simp
    show ?thesis
      by (rule tx_stored_grow [OF tx_invD(4) [OF inv x] _ log rtx])
        (use heap [OF False] rb_addrs_member [OF x] in blast)
  qed
  ultimately show ?thesis unfolding tx_inv_def by blast
qed

section \<open>One packet\<close>

text \<open>What a round of the loop may change: the log and the sequence number of its medium move
  together, the configuration stays.\<close>

definition write_step :: "media \<Rightarrow> ('q, 's, 'p) write_state \<Rightarrow> bool \<Rightarrow> ('q, 's, 'p) write_state \<Rightarrow> bool" where
  "write_step m st c st' \<longleftrightarrow>
     (let ses = wSession st; ses' = wSession st'
      in codecPayload ses' = codecPayload ses \<and> codecRtxPayload ses' = codecRtxPayload ses
         \<and> (c \<longrightarrow> wRet st' = wRet st \<and> wPacketSent st' = wPacketSent st + 1
              \<and> (\<exists>rec. txLog ses' = txLog ses @ [rec] \<and> trMedia rec = m \<and> trSeq rec = sequenceNumberOf ses m)
              \<and> sequenceNumberOf ses' = (sequenceNumberOf ses)(m := sequenceNumberOf ses m + 1))
         \<and> (\<not> c \<longrightarrow> wPacketSent st' = wPacketSent st
              \<and> (if wRet st' = PEER_CONNECTION_RESULT_OK
                  then txLog ses' = txLog ses \<and> sequenceNumberOf ses' = sequenceNumberOf ses
                  else txLog ses' = txLog ses
                    \<or> (\<exists>rec. txLog ses' = txLog ses @ [rec] \<and> trMedia rec = m
                         \<and> trSeq rec = sequenceNumberOf ses m))))"

lemma write_step_cong:
  assumes "write_step m st1 c st'"
    and "codecPayload (wSession st1) = codecPayload (wSession st)"
    and "codecRtxPayload (wSession st1) = codecRtxPayload (wSession st)"
    and "txLog (wSession st1) = txLog (wSession st)"
    and "sequenceNumberOf (wSession st1) = sequenceNumberOf (wSession st)"
    and "wRet st1 = wRet st" and "wPacketSent st1 = wPacketSent st"
  shows "write_step m st c st'"
  using assms(1) [unfolded write_step_def Let_def assms(2-)]
  by (unfold write_step_def Let_def)

lemma Discard_fresh:
  assumes "rbIsInit rb" and "h a \<noteq> None"
  shows "PeerConnectionRollingBuffer_DiscardRtpSequenceBuffer rb h a = Some (h(a := None))"
  using assms by (auto simp: PeerConnectionRollingBuffer_DiscardRtpSequenceBuffer_def)

lemma write_store_send_step:
  assumes spec: "rpq_spec (txQueue env) rep"
    and inv: "tx_inv rep (ses\<lparr>txHeap := base\<rparr>) xs" and ses: "ses = wSession st"
    and heap: "txHeap ses = base(a \<mapsto> node)" and a: "base a = None"
    and rb: "rb_rep rep (srtpSender ses m) base (xs m)" "2 \<le> maxSizePerPacket (srtpSender ses m)"
    and m: "m = fpMedia fp"
    and new: "\<And>rec. trPayload rec = payload \<Longrightarrow> trWire rec = take len (if uses_rtx ses m then out else rbpPacketBuffer node)
                \<Longrightarrow> node_logged (uses_rtx ses m) (rbpPacketBufferLength node) node rec"
  shows "\<exists>c st' xs'. write_store_send env fp payload out len a st = Some (c, st')
            \<and> tx_inv rep (wSession st') xs' \<and> write_step m st c st' \<and> wPacketizer st' = wPacketizer st"
proof -
  let ?rb = "srtpSender ses m" and ?h = "base(a \<mapsto> node)" and ?seq = "sequenceNumberOf ses m"
  let ?x = "new_info a ?seq (rbpPacketBufferLength node)"
  let ?rec = "\<lparr>trMedia = m, trSeq = ?seq, trPayload = payload,
               trWire = take len (if uses_rtx ses m then out else rbpPacketBuffer node)\<rparr>"
  have fresh: "a \<notin> rb_addrs (xs m')" for m'
    using tx_inv_fresh [OF inv] a by simp
  have rb': "rb_rep rep ?rb ?h (xs m)"
    by (rule rb_rep_cong [OF rb(1)]) (use rb(1) in \<open>fastforce simp: rb_addrs_def elim: rb_rep_entry\<close>)
  have others: "base b \<noteq> None" if "b \<in> rb_addrs (xs m')" for b m'
    using tx_invD(3) [OF inv that] by simp
  have dom: "dom base = rb_addrs (xs m) \<union> (\<Union>m' \<in> - {m}. rb_addrs (xs m'))"
    using inv by (auto simp: tx_inv_def)
  have keep: "tx_stored ses' m x"
    if "x \<in> set (xs m)" "\<And>b. pSerializedRtpPacket x = Some b \<Longrightarrow> txHeap ses' b = base b"
      "set (txLog ses) \<subseteq> set (txLog ses')" "\<And>m. uses_rtx ses' m = uses_rtx ses m" for ses' x
    by (rule tx_stored_grow [OF tx_invD(4) [OF inv that(1)]])
      (use that in \<open>simp_all add: uses_rtx_def\<close>)
  have stored: "tx_stored ses' m ?x"
    if "txHeap ses' a = Some node" "?rec \<in> set (txLog ses')" "uses_rtx ses' m = uses_rtx ses m" for ses'
    unfolding tx_stored_def using that new [of ?rec] by (intro exI [of _ a] exI [of _ node] exI [of _ ?rec]) simp
  note defs = write_store_send_def Let_def ses [symmetric] m [symmetric] heap
  from spec rb' show ?thesis
  proof (rule SetPacket_rep [where a = a and s = ?seq and pkt = node, OF _ _ _ fresh refl])
    show "?h a = Some node" by simp
  next
    fix rb2 assume set: "PeerConnectionRollingBuffer_SetPacket (txQueue env) ?rb ?h ?seq a
        = Some (PEER_CONNECTION_RESULT_OK, rb2, ?h)"
      and rep: "rb_rep rep rb2 ?h (xs m @ [?x])" and max: "maxSizePerPacket rb2 = maxSizePerPacket ?rb"
    let ?s = "ses\<lparr>srtpSender := (srtpSender ses)(m := rb2), txHeap := ?h,
                  sequenceNumberOf := (sequenceNumberOf ses)(m := ?seq + 1), txLog := txLog ses @ [?rec]\<rparr>"
    have "tx_inv rep ?s (xs(m := xs m @ [?x]))"
    proof (rule tx_inv_update [OF inv])
      show "sender_ok rep (srtpSender ?s m) (txHeap ?s) (xs m @ [?x])"
        using rep max rb(2) by (simp add: sender_ok_def)
      show "dom (txHeap ?s) = rb_addrs (xs m @ [?x]) \<union> (\<Union>m' \<in> - {m}. rb_addrs (xs m'))"
        using dom by auto
      show "tx_stored ?s m x" if "x \<in> set (xs m @ [?x])" for x
      proof (cases "x \<in> set (xs m)")
        case True
        then show ?thesis
          by (rule keep) (use fresh rb_addrs_member [OF True] in \<open>auto simp: uses_rtx_def\<close>)
      next
        case False
        with that have "x = ?x" by simp
        moreover have "tx_stored ?s m ?x" by (rule stored) (simp_all add: uses_rtx_def)
        ultimately show ?thesis by simp
      qed
    qed (use fresh tx_invD(2) [OF inv] in \<open>auto simp: uses_rtx_def\<close>)
    then show ?thesis
      using set by (auto simp: defs write_step_def intro!: exI)
  next
    fix rb2 old y ys assume xs: "xs m = y # ys" "pSerializedRtpPacket y = Some old"
      and set: "PeerConnectionRollingBuffer_SetPacket (txQueue env) ?rb ?h ?seq a
        = Some (PEER_CONNECTION_RESULT_OK, rb2, ?h(old := None))"
      and rep: "rb_rep rep rb2 (?h(old := None)) (ys @ [?x])" and max: "maxSizePerPacket rb2 = maxSizePerPacket ?rb"
    let ?s = "ses\<lparr>srtpSender := (srtpSender ses)(m := rb2), txHeap := ?h(old := None),
                  sequenceNumberOf := (sequenceNumberOf ses)(m := ?seq + 1), txLog := txLog ses @ [?rec]\<rparr>"
    have old: "old \<in> rb_addrs (xs m)" "old \<notin> rb_addrs ys" "old \<noteq> a"
      using xs fresh [of m] rb(1) rb_addrs_distinct [of y ys old] by (auto simp: rb_rep_def)
    have disj: "b \<noteq> old \<and> b \<notin> rb_addrs ys" if "m' \<noteq> m" "b \<in> rb_addrs (xs m')" for m' b
      using tx_invD(2) [OF inv that(1)] that(2) xs by auto
    have "tx_inv rep ?s (xs(m := ys @ [?x]))"
    proof (rule tx_inv_update [OF inv])
      show "sender_ok rep (srtpSender ?s m) (txHeap ?s) (ys @ [?x])"
        using rep max rb(2) by (simp add: sender_ok_def)
      show "dom (txHeap ?s) = rb_addrs (ys @ [?x]) \<union> (\<Union>m' \<in> - {m}. rb_addrs (xs m'))"
        using dom xs old tx_invD(2) [OF inv, of m] by (auto simp: dom_def)
      show "tx_stored ?s m x" if "x \<in> set (ys @ [?x])" for x
      proof (cases "x \<in> set ys")
        case True
        with xs have x: "x \<in> set (xs m)" by simp
        then show ?thesis
          by (rule keep) (use fresh old(2) rb_addrs_member [OF x] rb_addrs_member [OF True]
              in \<open>auto simp: uses_rtx_def\<close>)
      next
        case False
        with that have "x = ?x" by simp
        moreover have "tx_stored ?s m ?x" by (rule stored) (use old in \<open>simp_all add: uses_rtx_def\<close>)
        ultimately show ?thesis by simp
      qed
    qed (use fresh old disj in \<open>auto simp: uses_rtx_def\<close>)
    then show ?thesis
      using set old by (auto simp: defs write_step_def intro!: exI)
  next
    fix rb2 assume set: "PeerConnectionRollingBuffer_SetPacket (txQueue env) ?rb ?h ?seq a
        = Some (PEER_CONNECTION_RESULT_FAIL_RTP_PACKET_ENQUEUE, rb2, ?h)"
      and rep: "rb_rep rep rb2 ?h (xs m)" and max: "maxSizePerPacket rb2 = maxSizePerPacket ?rb"
    let ?s = "ses\<lparr>srtpSender := (srtpSender ses)(m := rb2),
                  sequenceNumberOf := (sequenceNumberOf ses)(m := ?seq + 1), txHeap := base\<rparr>"
    have disc: "PeerConnectionRollingBuffer_DiscardRtpSequenceBuffer rb2 ?h a = Some base"
      using Discard_fresh [of rb2 ?h a] rep a by (simp add: rb_rep_def fun_upd_idem)
    have "tx_inv rep ?s (xs(m := xs m))"
    proof (rule tx_inv_update [OF inv])
      have "rb_rep rep rb2 base (xs m)"
        by (rule rb_rep_cong [OF rep]) (use others in blast)
      then show "sender_ok rep (srtpSender ?s m) (txHeap ?s) (xs m)"
        using max rb(2) by (simp add: sender_ok_def)
      show "tx_stored ?s m x" if "x \<in> set (xs m)" for x
        by (rule keep [OF that]) (simp_all add: uses_rtx_def)
    qed (use dom tx_invD(2) [OF inv] in \<open>auto simp: uses_rtx_def\<close>)
    moreover have "write_store_send env fp payload out len a st
        = Some (False, st\<lparr>wSession := ?s, wRet := PEER_CONNECTION_RESULT_FAIL_RTP_PACKET_ENQUEUE\<rparr>)"
      using set disc by (simp add: defs)
    ultimately show ?thesis
      by (auto simp: write_step_def Let_def ses [symmetric])
  qed
qed

text \<open>Building a packet touches neither the rolling buffers nor the log.\<close>

lemma Construct_frame:
  assumes "PeerConnectionSrtp_ConstructSrtpPacket env ses rtp buf = (r, out, len, ses')"
  shows "\<exists>t. ses' = ses\<lparr>srtpTransmitSession := t\<rparr>"
  using assms
  by (auto simp: PeerConnectionSrtp_ConstructSrtpPacket_def Let_def
      split: option.splits if_splits prod.splits intro: exI [of _ "srtpTransmitSession ses"])

lemma fill_node_logged:
  assumes "trPayload rec = payload" and "length payload + 2 \<le> length (rbpPacketBuffer node)"
  shows "node_logged True (length payload)
           ((fill_node True rtp payload node)\<lparr>rbpPacketBufferLength := length payload\<rparr>) rec"
  using assms by (simp add: node_logged_def fill_node_def)

lemma write_packet_step:
  assumes spec: "rpq_spec (txQueue env) rep"
    and inv: "tx_inv rep (ses\<lparr>txHeap := base\<rparr>) xs" and ses: "ses = wSession st"
    and heap: "txHeap ses = base(a \<mapsto> node)" and a: "base a = None"
    and rb: "rb_rep rep (srtpSender ses m) base (xs m)" "2 \<le> maxSizePerPacket (srtpSender ses m)"
    and m: "m = fpMedia fp"
    and payload: "uses_rtx ses m \<Longrightarrow> length payload + 2 \<le> length (rbpPacketBuffer node)"
  shows "\<exists>c st' xs'. write_packet env fp marker payload a node st = Some (c, st')
            \<and> tx_inv rep (wSession st') xs' \<and> write_step m st c st' \<and> wPacketizer st' = wPacketizer st"
proof -
  let ?rtx = "uses_rtx ses m"
  let ?rtp = "write_rtp_packet env ses fp marker payload"
  let ?ses1 = "if twccId ses > 0 then ses\<lparr>twccSequence := twccSequence ses + 1\<rparr> else ses"
  let ?buf = "if ?rtx then stackJunk env else take (rbpPacketBufferLength node) (rbpPacketBuffer node)"
  obtain r out len ses2 where
    c: "PeerConnectionSrtp_ConstructSrtpPacket env ?ses1 ?rtp ?buf = (r, out, len, ses2)"
    by (metis prod_cases4)
  from Construct_frame [OF c] obtain t where t: "ses2 = ?ses1\<lparr>srtpTransmitSession := t\<rparr>" by blast
  define node3 where "node3 =
    (let node2 = (if ?rtx then fill_node ?rtx ?rtp payload node
                  else (fill_node ?rtx ?rtp payload node)\<lparr>rbpPacketBuffer := out\<rparr>)
     in if r = PEER_CONNECTION_RESULT_OK
        then node2\<lparr>rbpPacketBufferLength := (if ?rtx then length payload else len)\<rparr> else node2)"
  let ?ses3 = "ses2\<lparr>txHeap := base(a \<mapsto> node3)\<rparr>"
  have same: "srtpSender ?ses3 = srtpSender ses" "txLog ?ses3 = txLog ses"
    "codecPayload ?ses3 = codecPayload ses" "codecRtxPayload ?ses3 = codecRtxPayload ses"
    "sequenceNumberOf ?ses3 = sequenceNumberOf ses" "txHeap ses2 = txHeap ses"
    by (simp_all add: t)
  have rtx: "uses_rtx ?ses3 = uses_rtx ses" using same by (simp add: uses_rtx_def fun_eq_iff)
  have inv3: "tx_inv rep (?ses3\<lparr>txHeap := base\<rparr>) xs"
    by (rule tx_inv_cong [OF inv]) (use same in simp_all)
  have eq: "write_packet env fp marker payload a node st =
     (if r \<noteq> PEER_CONNECTION_RESULT_OK
      then map_option (\<lambda>h. (False, st\<lparr>wSession := ?ses3\<lparr>txHeap := h\<rparr>, wRet := r\<rparr>))
             (PeerConnectionRollingBuffer_DiscardRtpSequenceBuffer (srtpSender ses m) (base(a \<mapsto> node3)) a)
      else write_store_send env fp payload out len a (st\<lparr>wSession := ?ses3\<rparr>))"
    using c by (simp add: write_packet_def Let_def ses [symmetric] m [symmetric] node3_def same(6) heap)
  show ?thesis
  proof (cases "r = PEER_CONNECTION_RESULT_OK")
    case False
    have "PeerConnectionRollingBuffer_DiscardRtpSequenceBuffer (srtpSender ses m) (base(a \<mapsto> node3)) a = Some base"
      using Discard_fresh [of "srtpSender ses m" "base(a \<mapsto> node3)" a] rb a
      by (simp add: rb_rep_def fun_upd_idem)
    with eq False have "write_packet env fp marker payload a node st
        = Some (False, st\<lparr>wSession := ?ses3\<lparr>txHeap := base\<rparr>, wRet := r\<rparr>)" by simp
    with inv3 same show ?thesis
      by (auto simp: write_step_def Let_def ses [symmetric])
  next
    case True
    have logged: "node_logged ?rtx (rbpPacketBufferLength node3) node3 rec"
      if "trPayload rec = payload" "trWire rec = take len (if ?rtx then out else rbpPacketBuffer node3)" for rec
      using that payload True fill_node_logged [of rec payload node ?rtp]
      by (cases ?rtx) (auto simp: node3_def Let_def node_logged_def)
    have "\<exists>c st' xs'. write_store_send env fp payload out len a (st\<lparr>wSession := ?ses3\<rparr>) = Some (c, st')
        \<and> tx_inv rep (wSession st') xs' \<and> write_step m (st\<lparr>wSession := ?ses3\<rparr>) c st'
        \<and> wPacketizer st' = wPacketizer (st\<lparr>wSession := ?ses3\<rparr>)"
      by (rule write_store_send_step [OF spec inv3, where a = a and node = node3])
        (use a rb m logged same rtx in simp_all)
    then obtain c st' xs' where
      "write_store_send env fp payload out len a (st\<lparr>wSession := ?ses3\<rparr>) = Some (c, st')"
      "tx_inv rep (wSession st') xs'" "write_step m (st\<lparr>wSession := ?ses3\<rparr>) c st'"
      "wPacketizer st' = wPacketizer st" by auto
    moreover from this(3) have "write_step m st c st'"
      by (rule write_step_cong) (use same ses in simp_all)
    ultimately show ?thesis using eq True by auto
  qed
qed

section \<open>The loop\<close>

lemma GetRtpSequenceBuffer_cases:
  assumes inv: "tx_inv rep ses xs" and env: "env_ok env"
  shows "(PeerConnectionRollingBuffer_GetRtpSequenceBuffer (srtpSender ses m) (txHeap ses)
            (rbMalloc env (txHeap ses)) junk = Some (PEER_CONNECTION_RESULT_BAD_PARAMETER, txHeap ses, None))
     \<or> (\<exists>a. txHeap ses a = None \<and> rb_rep rep (srtpSender ses m) (txHeap ses) (xs m)
          \<and> 2 \<le> maxSizePerPacket (srtpSender ses m)
          \<and> PeerConnectionRollingBuffer_GetRtpSequenceBuffer (srtpSender ses m) (txHeap ses)
              (rbMalloc env (txHeap ses)) junk = Some (PEER_CONNECTION_RESULT_OK,
                (txHeap ses)(a \<mapsto> junk\<lparr>rbpPacketBufferLength := maxSizePerPacket (srtpSender ses m)\<rparr>), Some a))"
proof -
  obtain a where a: "rbMalloc env (txHeap ses) = Some a" "txHeap ses a = None"
    using env tx_inv_finite [OF inv] unfolding env_ok_def by blast
  from tx_invD(1) [OF inv, of m] show ?thesis
    unfolding sender_ok_def
  proof (elim disjE conjE)
    assume "rb_rep rep (srtpSender ses m) (txHeap ses) (xs m)" "2 \<le> maxSizePerPacket (srtpSender ses m)"
    with a rb_repD [OF this(1)] show ?thesis
      by (simp add: PeerConnectionRollingBuffer_GetRtpSequenceBuffer_def)
  qed (simp_all add: PeerConnectionRollingBuffer_GetRtpSequenceBuffer_def)
qed

lemma write_iter_step:
  assumes spec: "rpq_spec (txQueue env) rep" and env: "env_ok env" and pk: "packetizer_ok pk"
    and inv: "tx_inv rep (wSession st) xs"
  shows "\<exists>c st' xs'. write_iter env pk fp st = Some (c, st') \<and> tx_inv rep (wSession st') xs'
            \<and> write_step (fpMedia fp) st c st'
            \<and> (c \<longrightarrow> (\<exists>n d. pkGetPacket pk (wPacketizer st) n = (PACKETIZER_OK, wPacketizer st', d)))"
proof -
  define ses where "ses = wSession st"
  define m where "m = fpMedia fp"
  let ?rb = "srtpSender ses m"
  let ?junk = "rbJunk env (maxSizePerPacket ?rb)"
  have inv: "tx_inv rep ses xs" using inv by (simp add: ses_def)
  from GetRtpSequenceBuffer_cases [OF inv env, of m ?junk] show ?thesis
  proof (elim disjE exE conjE)
    assume "PeerConnectionRollingBuffer_GetRtpSequenceBuffer ?rb (txHeap ses)
            (rbMalloc env (txHeap ses)) ?junk = Some (PEER_CONNECTION_RESULT_BAD_PARAMETER, txHeap ses, None)"
    then have "write_iter env pk fp st = Some (False, st\<lparr>wRet := PEER_CONNECTION_RESULT_BAD_PARAMETER\<rparr>)"
      by (simp add: write_iter_def Let_def ses_def [symmetric] m_def [symmetric])
    with inv show ?thesis by (auto simp: write_step_def Let_def ses_def)
  next
    fix a
    let ?node = "?junk\<lparr>rbpPacketBufferLength := maxSizePerPacket ?rb\<rparr>"
    let ?h = "(txHeap ses)(a \<mapsto> ?node)"
    assume a: "txHeap ses a = None" and rb: "rb_rep rep ?rb (txHeap ses) (xs m)" "2 \<le> maxSizePerPacket ?rb"
      and get: "PeerConnectionRollingBuffer_GetRtpSequenceBuffer ?rb (txHeap ses)
            (rbMalloc env (txHeap ses)) ?junk = Some (PEER_CONNECTION_RESULT_OK, ?h, Some a)"
    let ?cap = "if uses_rtx ses m then maxSizePerPacket ?rb - 2 else 1200"
    obtain res p d where g: "pkGetPacket pk (wPacketizer st) ?cap = (res, p, d)"
      by (metis prod_cases3)
    have disc: "PeerConnectionRollingBuffer_DiscardRtpSequenceBuffer ?rb ?h a = Some (txHeap ses)"
      using Discard_fresh [of ?rb ?h a] rb a by (simp add: rb_rep_def fun_upd_idem)
    note eq = write_iter_def Let_def ses_def [symmetric] m_def [symmetric] get disc
    let ?st1 = "st\<lparr>wSession := ses\<lparr>txHeap := ?h\<rparr>, wPacketizer := p\<rparr>"
    show ?thesis
    proof (cases res)
      case PACKETIZER_OK
      have len: "length (rbpPacketBuffer ?node) = maxSizePerPacket ?rb"
        using env by (simp add: env_ok_def)
      have "length d \<le> ?cap"
        using pk g PACKETIZER_OK unfolding packetizer_ok_def by blast
      then have "uses_rtx (ses\<lparr>txHeap := ?h\<rparr>) m \<Longrightarrow> length d + 2 \<le> length (rbpPacketBuffer ?node)"
        using len rb(2) by (simp add: uses_rtx_def)
      from write_packet_step [OF spec, where ses = "ses\<lparr>txHeap := ?h\<rparr>" and st = ?st1
          and base = "txHeap ses" and a = a and node = ?node and m = m and xs = xs and fp = fp
          and payload = d and marker = "fpMarkerAlways fp \<or> pkNaluCount pk p = 0"] this
      obtain c st' xs' where
        "write_packet env fp (fpMarkerAlways fp \<or> pkNaluCount pk p = 0) d a ?node ?st1 = Some (c, st')"
        "tx_inv rep (wSession st') xs'" "write_step m ?st1 c st'" "wPacketizer st' = p"
        using inv a rb m_def by auto
      moreover from this(1) have "write_iter env pk fp st = Some (c, st')"
        using PACKETIZER_OK g by (cases "uses_rtx ses m") (simp_all add: eq)
      moreover have "write_step m st c st'"
        using calculation(3) by (rule write_step_cong) (simp_all add: ses_def)
      ultimately show ?thesis using g PACKETIZER_OK m_def by blast
    next
      case PACKETIZER_NO_MORE_PACKETS
      with inv g show ?thesis
        by (cases "uses_rtx ses m") (auto simp: eq write_step_def ses_def [symmetric])
    next
      case PACKETIZER_ERROR
      with inv g show ?thesis
        by (cases "uses_rtx ses m") (auto simp: eq write_step_def ses_def [symmetric])
    qed
  qed
qed

text \<open>A packetizer that runs out of packets: \<open>left\<close> bounds how many it still has.\<close>

definition packetizer_ends :: "'p packetizer \<Rightarrow> ('p \<Rightarrow> nat) \<Rightarrow> bool" where
  "packetizer_ends pk left \<longleftrightarrow>
     (\<forall>p n p' d. pkGetPacket pk p n = (PACKETIZER_OK, p', d) \<longrightarrow> left p' < left p)"

text \<open>Records with consecutive sequence numbers from \<open>s\<close> on.\<close>

fun consecutive :: "media \<Rightarrow> u16 \<Rightarrow> tx_record list \<Rightarrow> bool" where
  "consecutive m s [] \<longleftrightarrow> True"
| "consecutive m s (rec # recs) \<longleftrightarrow> trMedia rec = m \<and> trSeq rec = s \<and> consecutive m (s + 1) recs"

lemma write_loop_run:
  assumes spec: "rpq_spec (txQueue env) rep" and env: "env_ok env" and pk: "packetizer_ok pk"
    and ends: "packetizer_ends pk left" and inv: "tx_inv rep (wSession st) xs"
  shows "\<exists>st' xs' recs. write_loop env pk fp st = Some st' \<and> tx_inv rep (wSession st') xs'
            \<and> txLog (wSession st') = txLog (wSession st) @ recs
            \<and> consecutive (fpMedia fp) (sequenceNumberOf (wSession st) (fpMedia fp)) recs
            \<and> (wRet st' = PEER_CONNECTION_RESULT_OK \<longrightarrow>
                 wPacketSent st' = wPacketSent st + of_nat (length recs)
                 \<and> sequenceNumberOf (wSession st') (fpMedia fp)
                     = sequenceNumberOf (wSession st) (fpMedia fp) + of_nat (length recs))"
  using inv
proof (induction "left (wPacketizer st)" arbitrary: st xs rule: less_induct)
  case less
  let ?m = "fpMedia fp"
  from write_iter_step [OF spec env pk less.prems] obtain c st1 xs1 where
    it: "write_iter env pk fp st = Some (c, st1)" and inv1: "tx_inv rep (wSession st1) xs1"
    and step: "write_step ?m st c st1"
    and more: "c \<Longrightarrow> \<exists>n d. pkGetPacket pk (wPacketizer st) n = (PACKETIZER_OK, wPacketizer st1, d)"
    by blast
  show ?case
  proof (cases c)
    case False
    have loop: "write_loop env pk fp st = Some st1"
      using it False by (subst write_loop.simps) simp
    from step False obtain recs where
      recs: "txLog (wSession st1) = txLog (wSession st) @ recs"
        "consecutive ?m (sequenceNumberOf (wSession st) ?m) recs"
        "wRet st1 = PEER_CONNECTION_RESULT_OK \<longrightarrow> recs = []"
      unfolding write_step_def Let_def
      by (cases "wRet st1 = PEER_CONNECTION_RESULT_OK"; cases "txLog (wSession st1) = txLog (wSession st)")
        (auto intro: that [of "[]"] that [of "[_]"])
    with loop inv1 step False show ?thesis
      by (intro exI [of _ st1] exI [of _ xs1] exI [of _ recs]) (auto simp: write_step_def Let_def)
  next
    case True
    with more ends have "left (wPacketizer st1) < left (wPacketizer st)"
      unfolding packetizer_ends_def by blast
    from less.hyps [OF this inv1] obtain st' xs' recs where
      IH: "write_loop env pk fp st1 = Some st'" "tx_inv rep (wSession st') xs'"
        "txLog (wSession st') = txLog (wSession st1) @ recs"
        "consecutive ?m (sequenceNumberOf (wSession st1) ?m) recs"
        "wRet st' = PEER_CONNECTION_RESULT_OK \<longrightarrow>
           wPacketSent st' = wPacketSent st1 + of_nat (length recs)
           \<and> sequenceNumberOf (wSession st') ?m = sequenceNumberOf (wSession st1) ?m + of_nat (length recs)"
      by blast
    from step True obtain rec where
      rec: "txLog (wSession st1) = txLog (wSession st) @ [rec]" "trMedia rec = ?m"
        "trSeq rec = sequenceNumberOf (wSession st) ?m"
        "sequenceNumberOf (wSession st1) ?m = sequenceNumberOf (wSession st) ?m + 1"
        "wPacketSent st1 = wPacketSent st + 1"
      unfolding write_step_def Let_def by auto
    have "write_loop env pk fp st = Some st'"
      using it True IH(1) by (subst write_loop.simps) simp
    with IH rec show ?thesis
      by (intro exI [of _ st'] exI [of _ xs'] exI [of _ "rec # recs"]) (auto simp: add.assoc)
  qed
qed

section \<open>Retransmission\<close>

text \<open>The sender that \<open>ResendSrtpPacket\<close> picks for a transceiver.\<close>

definition media_of :: "Transceiver \<Rightarrow> media" where
  "media_of t = (if trackKind t = TRANSCEIVER_TRACK_KIND_VIDEO then MEDIA_VIDEO else MEDIA_AUDIO)"

text \<open>Rewriting the node of a stored packet, keeping what the log says of it.\<close>

lemma tx_inv_node:
  assumes inv: "tx_inv rep ses xs" and a: "txHeap ses a = Some node"
    and keep: "\<And>m n rec. a \<in> rb_addrs (xs m) \<Longrightarrow> node_logged (uses_rtx ses m) n node rec
                 \<Longrightarrow> node_logged (uses_rtx ses m) n node' rec"
  shows "tx_inv rep (ses\<lparr>txHeap := (txHeap ses)(a \<mapsto> node')\<rparr>) xs"
proof -
  let ?ses = "ses\<lparr>txHeap := (txHeap ses)(a \<mapsto> node')\<rparr>"
  have rep: "rb_rep rep rb (txHeap ?ses) ys" if rb: "rb_rep rep rb (txHeap ses) ys" for rb ys
    by (rule rb_rep_cong [OF rb]) (use rb in \<open>fastforce simp: rb_addrs_def elim: rb_rep_entry\<close>)
  have "sender_ok rep (srtpSender ?ses m) (txHeap ?ses) (xs m)" for m
    using tx_invD(1) [OF inv, of m] rep unfolding sender_ok_def by auto
  moreover have "dom (txHeap ?ses) = (\<Union>m. rb_addrs (xs m))"
    using inv a by (auto simp: tx_inv_def)
  moreover have "tx_stored ?ses m x" if x: "x \<in> set (xs m)" for m x
  proof -
    from tx_invD(4) [OF inv x] obtain b nd rec where
      b: "pSerializedRtpPacket x = Some b" "txHeap ses b = Some nd" "rec \<in> set (txLog ses)"
        "trMedia rec = m" "trSeq rec = seqNum x"
        "node_logged (uses_rtx ses m) (serializedPacketLength x) nd rec"
      unfolding tx_stored_def by blast
    have rtx: "uses_rtx ?ses m = uses_rtx ses m" by (simp add: uses_rtx_def)
    show ?thesis
    proof (cases "b = a")
      case True
      with keep [of m _ rec] rb_addrs_member [OF x b(1)] b a show ?thesis
        unfolding tx_stored_def rtx by (intro exI [of _ a] exI [of _ node'] exI [of _ rec]) simp
    next
      case False
      with b show ?thesis unfolding tx_stored_def rtx by auto
    qed
  qed
  moreover have "\<forall>m m'. m \<noteq> m' \<longrightarrow> rb_addrs (xs m) \<inter> rb_addrs (xs m') = {}"
    using tx_invD(2) [OF inv] by simp
  ultimately show ?thesis unfolding tx_inv_def by simp
qed

lemma tx_inv_log:
  assumes inv: "tx_inv rep ses xs"
  shows "tx_inv rep (ses\<lparr>txLog := txLog ses @ recs\<rparr>) xs"
proof -
  have "tx_stored (ses\<lparr>txLog := txLog ses @ recs\<rparr>) m x" if "x \<in> set (xs m)" for m x
    by (rule tx_stored_grow [OF tx_invD(4) [OF inv that]]) (auto simp: uses_rtx_def)
  with inv show ?thesis by (simp add: tx_inv_def)
qed

lemma htons_bytes_length [simp]: "length (htons_bytes s) = 2"
  by (simp add: htons_bytes_def)

text \<open>A stored sequence number is found, and the log says what was sent under it.\<close>

lemma tx_inv_search:
  assumes spec: "rpq_spec (txQueue env) rep" and inv: "tx_inv rep ses xs"
    and s: "s \<in> seqNum ` set (xs m)"
  obtains y :: RtpPacketInfo and a node rec where
    "PeerConnectionRollingBuffer_SearchRtpSequenceBuffer (txQueue env) (srtpSender ses m) (txHeap ses) s
      = Some (PEER_CONNECTION_RESULT_OK,
              (txHeap ses)(a \<mapsto> node\<lparr>rbpPacketBufferLength := serializedPacketLength y\<rparr>), Some a)"
    "txHeap ses a = Some node" "a \<in> rb_addrs (xs m)" "rec \<in> set (txLog ses)" "trMedia rec = m" "trSeq rec = s"
    "node_logged (uses_rtx ses m) (serializedPacketLength y) node rec"
proof -
  from s have "xs m \<noteq> []" by auto
  then have rb: "rb_rep rep (srtpSender ses m) (txHeap ses) (xs m)"
    using tx_invD(1) [OF inv, of m] by (auto simp: sender_ok_def)
  from Search_found [OF spec rb s] obtain y a node where
    y: "y \<in> set (xs m)" "seqNum y = s" "pSerializedRtpPacket y = Some a" "txHeap ses a = Some node"
    "PeerConnectionRollingBuffer_SearchRtpSequenceBuffer (txQueue env) (srtpSender ses m) (txHeap ses) s
      = Some (PEER_CONNECTION_RESULT_OK,
              (txHeap ses)(a \<mapsto> node\<lparr>rbpPacketBufferLength := serializedPacketLength y\<rparr>), Some a)"
    by blast
  from tx_invD(4) [OF inv y(1)] y obtain rec where
    rec: "rec \<in> set (txLog ses)" "trMedia rec = m" "trSeq rec = s"
    "node_logged (uses_rtx ses m) (serializedPacketLength y) node rec"
    by (auto simp: tx_stored_def)
  show thesis by (rule that [where y = y and a = a and node = node and rec = rec, OF y(5,4) rb_addrs_member [OF y(1,3)] rec])
qed

text \<open>Without retransmission payloads: the stored packet goes out again as it was sent.\<close>

lemma Resend_plain:
  assumes spec: "rpq_spec (txQueue env) rep" and inv: "tx_inv rep ses xs" and lock: "senderLockOk env"
    and s: "s \<in> seqNum ` set (xs (media_of t))" and rtx: "\<not> uses_rtx ses (media_of t)"
  shows "\<exists>r ses' rec rec'. ResendSrtpPacket env ses t s x = Some (r, ses')
     \<and> r = (if iceSendOk env (length (txLog ses)) then PEER_CONNECTION_RESULT_OK
            else PEER_CONNECTION_RESULT_FAIL_ICE_CONTROLLER_RESEND_RTP_PACKET)
     \<and> rec \<in> set (txLog ses) \<and> trMedia rec = media_of t \<and> trSeq rec = s
     \<and> txLog ses' = txLog ses @ [rec'] \<and> trWire rec' = trWire rec \<and> trMedia rec' = media_of t
     \<and> tx_inv rep ses' xs"
proof -
  let ?m = "media_of t"
  from tx_inv_search [OF spec inv s] obtain y :: RtpPacketInfo and a node rec where
    search: "PeerConnectionRollingBuffer_SearchRtpSequenceBuffer (txQueue env) (srtpSender ses ?m) (txHeap ses) s
      = Some (PEER_CONNECTION_RESULT_OK,
              (txHeap ses)(a \<mapsto> node\<lparr>rbpPacketBufferLength := serializedPacketLength y\<rparr>), Some a)"
    and node: "txHeap ses a = Some node"
    and rec0: "rec \<in> set (txLog ses)" "trMedia rec = ?m" "trSeq rec = s"
      "node_logged (uses_rtx ses ?m) (serializedPacketLength y) node rec" .
  have wire: "take (serializedPacketLength y) (rbpPacketBuffer node) = trWire rec"
    using rec0(4) rtx by (simp add: node_logged_def)
  note rec = rec0(1-3) wire
  let ?node = "node\<lparr>rbpPacketBufferLength := serializedPacketLength y\<rparr>"
  let ?rec' = "\<lparr>trMedia = ?m, trSeq = rtpSequenceNumber (rbpRtpPacket node),
                trPayload = rtpPayload (rbpRtpPacket node), trWire = trWire rec\<rparr>"
  let ?ses = "ses\<lparr>txHeap := (txHeap ses)(a \<mapsto> ?node), txLog := txLog ses @ [?rec']\<rparr>"
  have "tx_inv rep (ses\<lparr>txHeap := (txHeap ses)(a \<mapsto> ?node)\<rparr>) xs"
    by (rule tx_inv_node [OF inv node]) (auto simp: node_logged_def split: if_splits)
  then have "tx_inv rep ?ses xs" using tx_inv_log [of rep _ xs "[?rec']"] by fastforce
  moreover have "ResendSrtpPacket env ses t s x = Some
     (if iceSendOk env (length (txLog ses)) then PEER_CONNECTION_RESULT_OK
      else PEER_CONNECTION_RESULT_FAIL_ICE_CONTROLLER_RESEND_RTP_PACKET, ?ses)"
    using lock rtx rec(4)
    by (simp add: ResendSrtpPacket_def media_of_def [symmetric] Let_def search)
  ultimately show ?thesis using rec by (intro exI conjI) (assumption | simp)+
qed

text \<open>With retransmission payloads: a packet of the retransmission stream carries the original
  sequence number, in network byte order, and the payload that was sent.\<close>

lemma Resend_rtx:
  assumes spec: "rpq_spec (txQueue env) rep" and inv: "tx_inv rep ses xs" and lock: "senderLockOk env"
    and s: "s \<in> seqNum ` set (xs (media_of t))" and rtx: "uses_rtx ses (media_of t)"
  shows "\<exists>r ses' rec. ResendSrtpPacket env ses t s x = Some (r, ses')
     \<and> rec \<in> set (txLog ses) \<and> trMedia rec = media_of t \<and> trSeq rec = s \<and> tx_inv rep ses' xs
     \<and> rtxSequenceNumber ses' = (rtxSequenceNumber ses)(media_of t := rtxSequenceNumber ses (media_of t) + 1)
     \<and> (r = PEER_CONNECTION_RESULT_OK \<longrightarrow>
         (\<exists>rec'. txLog ses' = txLog ses @ [rec'] \<and> trMedia rec' = media_of t
            \<and> trSeq rec' = rtxSequenceNumber ses (media_of t)
            \<and> trPayload rec' = htons_bytes s @ trPayload rec))"
proof -
  let ?m = "media_of t"
  from tx_inv_search [OF spec inv s] obtain y :: RtpPacketInfo and a node rec where
    search: "PeerConnectionRollingBuffer_SearchRtpSequenceBuffer (txQueue env) (srtpSender ses ?m) (txHeap ses) s
      = Some (PEER_CONNECTION_RESULT_OK,
              (txHeap ses)(a \<mapsto> node\<lparr>rbpPacketBufferLength := serializedPacketLength y\<rparr>), Some a)"
    and node: "txHeap ses a = Some node" "a \<in> rb_addrs (xs ?m)"
    and rec0: "rec \<in> set (txLog ses)" "trMedia rec = ?m" "trSeq rec = s"
      "node_logged (uses_rtx ses ?m) (serializedPacketLength y) node rec" .
  have stored: "serializedPacketLength y + 2 \<le> length (rbpPacketBuffer node)"
      "take (serializedPacketLength y) (drop 2 (rbpPacketBuffer node)) = trPayload rec"
    using rec0(4) rtx by (simp_all add: node_logged_def)
  note rec = rec0(1-3) stored
  let ?n = "serializedPacketLength y" and ?buf = "htons_bytes s @ drop 2 (rbpPacketBuffer node)"
  let ?rtp = "(rbpRtpPacket node)\<lparr>rtpSequenceNumber := rtxSequenceNumber ses ?m, rtpSsrc := rtxSsrc t,
                rtpPayloadType := codecRtxPayload ses ?m, rtpPayload := take (?n + 2) ?buf\<rparr>"
  let ?node = "node\<lparr>rbpPacketBufferLength := ?n, rbpPacketBuffer := ?buf, rbpRtpPacket := ?rtp\<rparr>"
  let ?ses1 = "ses\<lparr>txHeap := (txHeap ses)(a \<mapsto> ?node),
                  rtxSequenceNumber := (rtxSequenceNumber ses)(?m := rtxSequenceNumber ses ?m + 1)\<rparr>"
  obtain r out len ses2 where
    c: "PeerConnectionSrtp_ConstructSrtpPacket env ?ses1 ?rtp (stackJunk env) = (r, out, len, ses2)"
    by (metis prod_cases4)
  from Construct_frame [OF c] obtain tr where ses2: "ses2 = ?ses1\<lparr>srtpTransmitSession := tr\<rparr>" by blast
  have payload: "take (?n + 2) ?buf = htons_bytes s @ trPayload rec"
    using rec(5) by (simp add: take_append)
  let ?rec' = "\<lparr>trMedia = ?m, trSeq = rtxSequenceNumber ses ?m, trPayload = take (?n + 2) ?buf,
                trWire = take len out\<rparr>"
  have inv1: "tx_inv rep (ses\<lparr>txHeap := (txHeap ses)(a \<mapsto> ?node)\<rparr>) xs"
  proof (rule tx_inv_node [OF inv node(1)])
    fix m n rec' assume a: "a \<in> rb_addrs (xs m)" and l: "node_logged (uses_rtx ses m) n node rec'"
    have "m = ?m" using a node(2) tx_invD(2) [OF inv, of m ?m] by blast
    with l rtx rec(4) show "node_logged (uses_rtx ses m) n ?node rec'"
      by (auto simp: node_logged_def)
  qed
  have inv2: "tx_inv rep ses2 xs"
    by (rule tx_inv_cong [OF inv1]) (simp_all add: ses2)
  have "ResendSrtpPacket env ses t s x =
     (if r \<noteq> PEER_CONNECTION_RESULT_OK then Some (r, ses2)
      else Some (if iceSendOk env (length (txLog ses2)) then PEER_CONNECTION_RESULT_OK
                 else PEER_CONNECTION_RESULT_FAIL_ICE_CONTROLLER_RESEND_RTP_PACKET,
                 ses2\<lparr>txLog := txLog ses2 @ [?rec']\<rparr>))"
    using lock rtx c by (simp add: ResendSrtpPacket_def media_of_def [symmetric] Let_def search)
  moreover have "tx_inv rep (ses2\<lparr>txLog := txLog ses2 @ [?rec']\<rparr>) xs" using inv2 by (rule tx_inv_log)
  ultimately show ?thesis
    using inv2 rec(1-3) payload by (cases "r = PEER_CONNECTION_RESULT_OK") (auto simp: ses2)
qed

text \<open>A sequence number that is no longer stored, or never was.\<close>

lemma Resend_missing:
  assumes spec: "rpq_spec (txQueue env) rep" and inv: "tx_inv rep ses xs" and lock: "senderLockOk env"
    and s: "s \<notin> seqNum ` set (xs (media_of t))"
  shows "ResendSrtpPacket env ses t s x = Some (PEER_CONNECTION_RESULT_FAIL_RTP_PACKET_NOT_FOUND, ses)"
proof -
  let ?m = "media_of t"
  have "\<exists>r. PeerConnectionRollingBuffer_SearchRtpSequenceBuffer (txQueue env) (srtpSender ses ?m) (txHeap ses) s
      = Some (r, txHeap ses, None)"
  proof (cases "rb_rep rep (srtpSender ses ?m) (txHeap ses) (xs ?m)")
    case True
    from Search_missing [OF spec this s] show ?thesis by blast
  next
    case False
    with tx_invD(1) [OF inv, of ?m] show ?thesis
      by (auto simp: sender_ok_def PeerConnectionRollingBuffer_SearchRtpSequenceBuffer_def)
  qed
  with lock show ?thesis
    by (auto simp: ResendSrtpPacket_def media_of_def [symmetric] Let_def)
qed

section \<open>Time conversions as arithmetic\<close>

lemma us_bound:
  fixes ts c :: nat
  assumes "0 < c" "c \<le> 1000000"
  shows "(ts * 1000000 div c) * c div 1000000 = ts \<or> (ts \<noteq> 0 \<and> (ts * 1000000 div c) * c div 1000000 = ts - 1)"
proof -
  let ?q = "ts * 1000000 div c"
  have "?q * c \<le> ts * 1000000" by simp
  moreover have "ts * 1000000 < ?q * c + c" using assms(1) by (metis div_mult_mod_eq mod_less_divisor add_less_cancel_left)
  ultimately have "?q * c div 1000000 \<le> ts" "ts \<le> ?q * c div 1000000 + 1" using assms(2) by linarith+
  then show ?thesis by linarith
qed

lemma unat_convert_us:
  assumes "0 < clockRate"
  shows "unat (PEER_CONNECTION_SRTP_CONVERT_RTP_TIMESTAMP_TO_TIME_US clockRate ts)
     = unat ts * 1000000 div unat clockRate"
proof -
  have ts: "unat ts < 4294967296" by (rule u32_less)
  have "unat (ucast ts * 1000000 :: u64) = unat ts * 1000000"
    using ts by (simp add: unat_word_ariths)
  then show ?thesis
    by (simp add: PEER_CONNECTION_SRTP_CONVERT_RTP_TIMESTAMP_TO_TIME_US_def unat_div)
qed

lemma unat_convert_rtp:
  assumes "unat us * unat clockRate < 2 ^ 64" "unat us * unat clockRate div 1000000 < 2 ^ 32"
  shows "unat (PEER_CONNECTION_SRTP_CONVERT_TIME_US_TO_RTP_TIMESTAMP clockRate us)
     = unat us * unat clockRate div 1000000"
proof -
  have "unat (us * ucast clockRate) = unat us * unat clockRate"
    using assms(1) by (simp add: unat_word_ariths)
  then have d: "unat (us * ucast clockRate div 1000000) = unat us * unat clockRate div 1000000"
    by (simp add: unat_div)
  have "(x AND 0xFFFFFFFF :: u64) = take_bit 32 x" for x
    by (simp add: take_bit_eq_mask mask_numeral)
  with d assms(2) show ?thesis
    by (simp add: PEER_CONNECTION_SRTP_CONVERT_TIME_US_TO_RTP_TIMESTAMP_def unsigned_ucast_eq unsigned_take_bit_eq take_bit_nat_eq_self)
qed

section \<open>A concrete environment\<close>

text \<open>For the witnesses: a queue of two packets, serialisation that gives the payload, a cipher
  that appends one byte, a packetizer that hands out a list of payloads.\<close>

definition demo_tx_env :: "(RtpPacketInfo list, nat) tx_env" where
  "demo_tx_env = \<lparr>txQueue = demo_queue, 
     rbMalloc = (\<lambda>h. if \<exists>a. h a = None then Some (LEAST a. h a = None) else None),
     rbJunk = (\<lambda>n. demo_node\<lparr>rbpPacketBuffer := replicate n 0\<rparr>), stackJunk = replicate 1400 0,
     senderLockOk = True, srtpLockOk = True,
     rtpSerialize = (\<lambda>rtp n. if length (rtpPayload rtp) \<le> n then Some (rtpPayload rtp) else None),
     srtpProtect = (\<lambda>t s n. if length s < n then (Some (s @ [0xAA]), t + 1) else (None, t)),
     iceSendOk = (\<lambda>_. True), rtpFlagMarker = 1, rtpFlagExtension = 2\<rparr>"

definition demo_packetizer :: "bytes list packetizer" where
  "demo_packetizer = \<lparr>pkGetPacket = (\<lambda>p n. case p of [] \<Rightarrow> (PACKETIZER_NO_MORE_PACKETS, [], [])
      | d # ds \<Rightarrow> if length d \<le> n then (PACKETIZER_OK, ds, d) else (PACKETIZER_ERROR, p, [])),
     pkNaluCount = length\<rparr>"

lemma demo_tx_env_ok: "env_ok demo_tx_env"
proof -
  have "h (LEAST a. h a = None) = None" if "\<exists>a. h a = None" for h :: rb_heap
    using that by (rule LeastI_ex)
  moreover have "\<exists>a. h a = None" if "finite (dom h)" for h :: rb_heap
    using ex_new_if_finite [OF infinite_UNIV_nat that] by (simp add: domIff)
  ultimately show ?thesis
    by (auto simp: env_ok_def demo_tx_env_def demo_node_def split: if_splits)
qed

lemma demo_packetizer_ok: "packetizer_ok demo_packetizer" "packetizer_ends demo_packetizer length"
  by (auto simp: packetizer_ok_def packetizer_ends_def demo_packetizer_def split: list.splits if_splits)

definition demo_session :: "(RtpPacketInfo list, nat) PeerConnectionSession" where
  "demo_session = \<lparr>
     srtpSender = (\<lambda>m. \<lparr>rbIsInit = (m = MEDIA_VIDEO), packetQueue = [], infoArray = True,
                          maxSizePerPacket = 1400, rbCapacity = 2\<rparr>),
     sequenceNumberOf = (\<lambda>_. 65535), codecPayload = (\<lambda>_. 96), codecRtxPayload = (\<lambda>_. 0),
     rtxSequenceNumber = (\<lambda>_. 0), twccId = 0, twccSequence = 0, srtpTransmitSession = Some 0,
     transceivers = [], txHeap = Map.empty, txLog = []\<rparr>"

lemma demo_session_inv: "tx_inv (=) demo_session (\<lambda>_. [])"
  by (simp add: tx_inv_def demo_session_def sender_ok_def rb_rep_def)

definition demo_video :: Transceiver where
  "demo_video = \<lparr>trackKind = TRANSCEIVER_TRACK_KIND_VIDEO,
     direction = TRANSCEIVER_TRACK_DIRECTION_SENDRECV, codecBitMap = 32, rollingbufferDurationSec = 3,
     rollingbufferBitRate = 1000000, ssrc = 1, rtxSsrc = 2, rtpPacketsTransmitted = 0,
     rtpBytesTransmitted = 0, rtpTimeOffset = 0, rtpFirstFrameWallClockTimeUs = 0\<rparr>"

definition demo_params :: frame_params where
  "demo_params = frame_params_of MEDIA_VIDEO 90000 demo_video \<lparr>presentationUs = 0, frameData = []\<rparr>"

section \<open>Properties\<close>





text \<open>A session with one stored packet, for the two witnesses.\<close>

definition demo_sent :: "u32 \<Rightarrow> (RtpPacketInfo list, nat) PeerConnectionSession" where
  "demo_sent rtx = demo_session\<lparr>codecRtxPayload := (\<lambda>_. rtx),
     srtpSender := (srtpSender demo_session)(MEDIA_VIDEO :=
       (srtpSender demo_session MEDIA_VIDEO)\<lparr>packetQueue := [new_info 0 9 2]\<rparr>),
     txHeap := [0 \<mapsto> demo_node\<lparr>rbpPacketBuffer := [7, 8, 7, 8]\<rparr>],
     txLog := [\<lparr>trMedia = MEDIA_VIDEO, trSeq = 9, trPayload = [7, 8], trWire = [7, 8]\<rparr>]\<rparr>"

lemma demo_sent_inv:
  "tx_inv (=) (demo_sent rtx) (\<lambda>m. if m = MEDIA_VIDEO then [new_info 0 9 2] else [])"
  by (auto simp: tx_inv_def demo_sent_def demo_session_def sender_ok_def rb_rep_def rb_addrs_def
      tx_stored_def node_logged_def demo_node_def UNIV_media)

lemma demo_resend_hyps:
  "rpq_spec (txQueue demo_tx_env) (=)" "senderLockOk demo_tx_env" "media_of demo_video = MEDIA_VIDEO"
  "uses_rtx (demo_sent 97) MEDIA_VIDEO" "\<not> uses_rtx (demo_sent 0) MEDIA_VIDEO"
  by (simp_all add: demo_tx_env_def demo_queue_spec media_of_def demo_video_def uses_rtx_def
      demo_sent_def demo_session_def)



text \<open>Without a transmit session the packet leaves unencrypted.  The result is OK, the
  buffer holds the serialised packet in the clear, and the length stays that of the whole
  buffer: the frame writers send it, together with whatever the buffer held behind it.\<close>

theorem construct_without_session_plain:
  assumes "srtpTransmitSession ses = None" and "rtpSerialize env rtp (length buf) = Some ser"
    and "srtpLockOk env" and "length ser \<le> length buf"
  shows "\<exists>out. PeerConnectionSrtp_ConstructSrtpPacket env ses rtp buf
              = (PEER_CONNECTION_RESULT_OK, out, length buf, ses)
          \<and> take (length ser) out = ser \<and> drop (length ser) out = drop (length ser) buf"
  using assms by (simp add: PeerConnectionSrtp_ConstructSrtpPacket_def Let_def)

theorem construct_without_session_plain_witness:
  "\<exists>out. PeerConnectionSrtp_ConstructSrtpPacket demo_tx_env (demo_session\<lparr>srtpTransmitSession := None\<rparr>)
       (zero_rtp_packet\<lparr>rtpPayload := [1, 2]\<rparr>) [5, 6, 7]
     = (PEER_CONNECTION_RESULT_OK, out, 3, demo_session\<lparr>srtpTransmitSession := None\<rparr>)
     \<and> take 2 out = [1, 2] \<and> drop 2 out = [7]"
proof -
  have "rtpSerialize demo_tx_env (zero_rtp_packet\<lparr>rtpPayload := [1, 2]\<rparr>) (length [5 :: u8, 6, 7]) = Some [1, 2]"
    "srtpLockOk demo_tx_env"
    by (simp_all add: demo_tx_env_def)
  from construct_without_session_plain [OF _ this, of "demo_session\<lparr>srtpTransmitSession := None\<rparr>"]
  show ?thesis by (simp add: numeral_2_eq_2 numeral_3_eq_3)
qed

text \<open>Time stamps.  Converting an RTP timestamp to microseconds and back, as the receiver and
  the sender of a relayed frame do, loses at most one tick at any clock rate up to 1 MHz, and
  nothing at a rate that divides one million, such as the 8000 Hz of G711.\<close>

theorem timestamp_roundtrip:
  assumes "0 < clockRate" and "clockRate \<le> 1000000"
    and "back = PEER_CONNECTION_SRTP_CONVERT_TIME_US_TO_RTP_TIMESTAMP clockRate
                  (PEER_CONNECTION_SRTP_CONVERT_RTP_TIMESTAMP_TO_TIME_US clockRate ts)"
  shows "(unat back = unat ts \<or> unat back + 1 = unat ts)
         \<and> (unat clockRate dvd 1000000 \<longrightarrow> back = ts)"
proof -
  let ?c = "unat clockRate" and ?t = "unat ts"
  have c: "0 < ?c" "?c \<le> 1000000"
    using assms(1,2) by (simp_all add: word_less_nat_alt word_le_nat_alt)
  have us: "unat (PEER_CONNECTION_SRTP_CONVERT_RTP_TIMESTAMP_TO_TIME_US clockRate ts) = ?t * 1000000 div ?c"
    using assms(1) by (rule unat_convert_us)
  have le: "?t * 1000000 div ?c * ?c \<le> ?t * 1000000" by simp
  also have "\<dots> < 4294967296 * 1000000" using u32_less [of ts] by simp
  finally have bound: "?t * 1000000 div ?c * ?c < 4294967296 * 1000000" .
  have val: "unat back = ?t * 1000000 div ?c * ?c div 1000000"
    unfolding assms(3) using bound
    by (subst unat_convert_rtp) (simp_all add: us less_mult_imp_div_less)
  have "unat back = ?t \<or> unat back + 1 = ?t"
    using us_bound [OF c, of ?t] val by auto
  moreover have "back = ts" if "?c dvd 1000000"
  proof -
    have "?c dvd ?t * 1000000" using that by simp
    then have "unat back = ?t" using val by simp
    then show ?thesis by (simp add: word_unat_eq_iff)
  qed
  ultimately show ?thesis by blast
qed

theorem timestamp_roundtrip_witness:
  "unat (PEER_CONNECTION_SRTP_CONVERT_TIME_US_TO_RTP_TIMESTAMP 90000
      (PEER_CONNECTION_SRTP_CONVERT_RTP_TIMESTAMP_TO_TIME_US 90000 1)) \<in> {0, 1}
   \<and> PEER_CONNECTION_SRTP_CONVERT_TIME_US_TO_RTP_TIMESTAMP 8000
      (PEER_CONNECTION_SRTP_CONVERT_RTP_TIMESTAMP_TO_TIME_US 8000 4294967295) = 4294967295"
  using timestamp_roundtrip [of 90000 _ 1] timestamp_roundtrip [of 8000 _ 4294967295]
  by auto

end
