(* ===== verification/Srtp_Session.thy ===== *)
theory Srtp_Session
  imports Codec_Helper Srtp_Send_Correct
begin

text \<open>
  The life of the SRTP part of a session, \<open>peer_connection/peer_connection_srtp.c\<close>: set-up from
  the transceivers, the receive path from an encrypted packet to the jitter buffer and its
  callbacks, and tear-down.  libsrtp and the RTP parser are arguments.  The session record
  extends the one of the send path by the receivers.
\<close>

section \<open>Data\<close>

record PeerConnectionSrtpReceiver =
  rxJitterBuffer :: PeerConnectionJitterBuffer
  rxOnFrameReady :: bool

record ('q, 's) srtp_session = "('q, 's) PeerConnectionSession" +
  srtpReceiver :: "media \<Rightarrow> PeerConnectionSrtpReceiver"
  srtpReceiveSession :: "'s option"
  remoteSsrc :: "media \<Rightarrow> u32"
  isSenderMutexInit :: "media \<Rightarrow> bool"

text \<open>A received RTP packet, as the parser gives it.\<close>

record rx_packet =
  rxSsrc :: u32
  rxSeq :: u16
  rxTimestamp :: u32
  rxPayload :: bytes

text \<open>\<open>rxMalloc n\<close> is the memory that \<open>malloc\<close> gives for a payload of \<open>n\<close> bytes.\<close>

record 's rx_env =
  srtpUnprotect :: "'s \<Rightarrow> bytes \<Rightarrow> nat \<Rightarrow> bytes option \<times> 's"
  rtpDeSerialize :: "bytes \<Rightarrow> rx_packet option"
  rxLockOk :: bool
  rxMalloc :: "nat \<Rightarrow> bytes option"
  rxTime :: u64

definition PEER_CONNECTION_FRAME_BUFFER_SIZE :: nat where
  "PEER_CONNECTION_FRAME_BUFFER_SIZE = 16384"

section \<open>Callbacks of the jitter buffer\<close>

text \<open>The frames handed to the application are the second component.  Without a fill function the
  timestamp is used uninitialised: no outcome.\<close>

definition OnJitterBufferFrameReady ::
    "(codec_helper \<Rightarrow> 'd depacketizer) \<Rightarrow> PeerConnectionSrtpReceiver option \<Rightarrow> u16 \<Rightarrow> u16
      \<Rightarrow> (PeerConnectionResult \<times> PeerConnectionFrame list) option" where
  "OnJitterBufferFrameReady dps pCustomContext startSequence endSequence =
     (case pCustomContext of
        None \<Rightarrow> Some (PEER_CONNECTION_RESULT_BAD_PARAMETER, [])
      | Some recv \<Rightarrow>
          (case PeerConnectionJitterBuffer_FillFrame dps (rxJitterBuffer recv) startSequence endSequence
                  PEER_CONNECTION_FRAME_BUFFER_SIZE of
             None \<Rightarrow> None
           | Some (retFillFrame, out) \<Rightarrow>
               if retFillFrame \<noteq> PEER_CONNECTION_RESULT_OK \<or> \<not> rxOnFrameReady recv
               then Some (PEER_CONNECTION_RESULT_OK, [])
               else
                 map_option (\<lambda>(frame, ts).
                   (PEER_CONNECTION_RESULT_OK,
                    [\<lparr>presentationUs = PEER_CONNECTION_SRTP_CONVERT_RTP_TIMESTAMP_TO_TIME_US
                        (clockRate (rxJitterBuffer recv)) ts, frameData = frame\<rparr>])) out))"

definition OnJitterBufferFrameDrop :: "bool \<Rightarrow> u16 \<Rightarrow> u16 \<Rightarrow> PeerConnectionResult" where
  "OnJitterBufferFrameDrop pCustomContext startSequence endSequence =
     (if \<not> pCustomContext then PEER_CONNECTION_RESULT_BAD_PARAMETER else PEER_CONNECTION_RESULT_OK)"

text \<open>What the jitter buffer of a receiver calls.  The context pointers are the receiver's
  address, so the ready callback returns OK whenever it returns.\<close>

definition receiver_env :: "(codec_helper \<Rightarrow> 'd depacketizer) \<Rightarrow> jb_env" where
  "receiver_env dps =
     \<lparr>getPacketProperty = (\<lambda>h pkt. let (r, b) = call_packet_property dps h pkt in (r, b = Some True)),
      onFrameReady = (\<lambda>jb s e. PEER_CONNECTION_RESULT_OK),
      onFrameDrop = (\<lambda>jb s e. OnJitterBufferFrameDrop True s e)\<rparr>"

lemma OnJitterBufferFrameReady_OK:
  "OnJitterBufferFrameReady dps (Some recv) s e = Some (r, fs) \<Longrightarrow> r = PEER_CONNECTION_RESULT_OK"
  by (auto simp: OnJitterBufferFrameReady_def split: option.splits if_splits)

section \<open>Receiving a packet\<close>

text \<open>Copying the payload into the allocated buffer and filling in the header fields; no memory
  is a write through NULL.\<close>

definition store_rx_packet ::
    "'s rx_env \<Rightarrow> PeerConnectionJitterBuffer \<Rightarrow> nat \<Rightarrow> rx_packet \<Rightarrow> PeerConnectionJitterBuffer option" where
  "store_rx_packet env jb k pkt =
     (case pPacketBuffer (rtpPackets jb k) of
        None \<Rightarrow> None
      | Some buf \<Rightarrow>
          Some (jb\<lparr>rtpPackets := (rtpPackets jb)(k := (rtpPackets jb k)
            \<lparr>pPacketBuffer := Some (rxPayload pkt @ drop (length (rxPayload pkt)) buf),
             receiveTick := rxTime env, rtpTimestamp := rxTimestamp pkt,
             sequenceNumber := rxSeq pkt\<rparr>)\<rparr>))"

definition receiver_push ::
    "'s rx_env \<Rightarrow> (codec_helper \<Rightarrow> 'd depacketizer) \<Rightarrow> PeerConnectionJitterBuffer \<Rightarrow> rx_packet
      \<Rightarrow> (PeerConnectionResult \<times> PeerConnectionJitterBuffer \<times> jb_event list) option" where
  "receiver_push env dps jb pkt =
     (let n = length (rxPayload pkt);
          (r, jb1, p) = PeerConnectionJitterBuffer_AllocateBuffer jb n (rxSeq pkt) (rxMalloc env n)
      in (case p of
            None \<Rightarrow> Some (r, jb1, [])
          | Some k \<Rightarrow>
              map_option (\<lambda>jb2. PeerConnectionJitterBuffer_Push (receiver_env dps) jb2 (Some k))
                (store_rx_packet env jb1 k pkt)))"

definition PeerConnectionSrtp_HandleSrtpPacket ::
    "'s rx_env \<Rightarrow> (codec_helper \<Rightarrow> 'd depacketizer) \<Rightarrow> ('q, 's) srtp_session \<Rightarrow> bytes
      \<Rightarrow> (PeerConnectionResult \<times> ('q, 's) srtp_session \<times> jb_event list) option" where
  "PeerConnectionSrtp_HandleSrtpPacket env dps ses buffer =
     (if \<not> rxLockOk env then Some (PEER_CONNECTION_RESULT_FAIL_TAKE_SRTP_MUTEX, ses, [])
      else (case srtpReceiveSession ses of
          None \<Rightarrow> Some (PEER_CONNECTION_RESULT_FAIL_DECRYPT_SRTP_RTP_PACKET, ses, [])
        | Some t \<Rightarrow>
            (let (dec, t') = srtpUnprotect env t buffer PEER_CONNECTION_SRTP_RTP_PACKET_MAX_LENGTH;
                 ses1 = ses\<lparr>srtpReceiveSession := Some t'\<rparr>
             in (case dec of
                   None \<Rightarrow> Some (PEER_CONNECTION_RESULT_FAIL_DECRYPT_SRTP_RTP_PACKET, ses1, [])
                 | Some plain \<Rightarrow>
                     (case rtpDeSerialize env plain of
                        None \<Rightarrow> Some (PEER_CONNECTION_RESULT_FAIL_RTP_DESERIALIZE, ses1, [])
                      | Some pkt \<Rightarrow>
                          (let target = (if remoteSsrc ses MEDIA_VIDEO = rxSsrc pkt then Some MEDIA_VIDEO
                                         else if remoteSsrc ses MEDIA_AUDIO = rxSsrc pkt then Some MEDIA_AUDIO
                                         else None)
                           in (case target of
                                 None \<Rightarrow> Some (PEER_CONNECTION_RESULT_FAIL_RTP_RX_NO_MATCHING_SSRC, ses1, [])
                               | Some m \<Rightarrow>
                                   map_option (\<lambda>(r, jb, evs).
                                     (r, ses1\<lparr>srtpReceiver := (srtpReceiver ses1)(m :=
                                        (srtpReceiver ses1 m)\<lparr>rxJitterBuffer := jb\<rparr>)\<rparr>, evs))
                                     (receiver_push env dps (rxJitterBuffer (srtpReceiver ses1 m)) pkt))))))))"

section \<open>Set-up and tear-down\<close>

definition sends :: "Transceiver \<Rightarrow> bool" where
  "sends t \<longleftrightarrow> direction t = TRANSCEIVER_TRACK_DIRECTION_SENDRECV
     \<or> direction t = TRANSCEIVER_TRACK_DIRECTION_SENDONLY"

definition receives :: "Transceiver \<Rightarrow> bool" where
  "receives t \<longleftrightarrow> direction t = TRANSCEIVER_TRACK_DIRECTION_SENDRECV
     \<or> direction t = TRANSCEIVER_TRACK_DIRECTION_RECVONLY"

definition media_track :: "Transceiver \<Rightarrow> media option" where
  "media_track t = (if trackKind t = TRANSCEIVER_TRACK_KIND_VIDEO then Some MEDIA_VIDEO
     else if trackKind t = TRANSCEIVER_TRACK_KIND_AUDIO then Some MEDIA_AUDIO else None)"

text \<open>The rolling buffers: \<open>maxSize\<close> and \<open>cur\<close> are the locals \<open>maxSizePerPacket\<close> and \<open>pSrtpSender\<close>,
  which the loop does not reset between transceivers.  The flags say whether memory for the
  queue and the mutex can be had.\<close>

definition srtp_rtx :: "('q, 's) srtp_session \<Rightarrow> media \<Rightarrow> bool" where
  "srtp_rtx ses m \<longleftrightarrow> codecRtxPayload ses m \<noteq> 0 \<and> codecRtxPayload ses m \<noteq> codecPayload ses m"

definition init_mutex ::
    "bool \<Rightarrow> media option \<Rightarrow> ('q, 's) srtp_session \<Rightarrow> PeerConnectionResult \<times> ('q, 's) srtp_session" where
  "init_mutex mutexOk cur ses =
     (case cur of
        None \<Rightarrow> (PEER_CONNECTION_RESULT_OK, ses)
      | Some m \<Rightarrow>
          if isSenderMutexInit ses m then (PEER_CONNECTION_RESULT_OK, ses)
          else if \<not> mutexOk then (PEER_CONNECTION_RESULT_FAIL_CREATE_SENDER_MUTEX, ses)
          else (PEER_CONNECTION_RESULT_OK, ses\<lparr>isSenderMutexInit := (isSenderMutexInit ses)(m := True)\<rparr>))"

fun init_senders ::
    "'q rtp_packet_queue \<Rightarrow> bool \<Rightarrow> bool \<Rightarrow> nat \<Rightarrow> media option \<Rightarrow> Transceiver list
      \<Rightarrow> ('q, 's) srtp_session \<Rightarrow> PeerConnectionResult \<times> ('q, 's) srtp_session" where
  "init_senders ops arrayOk mutexOk maxSize cur [] ses = (PEER_CONNECTION_RESULT_OK, ses)"
| "init_senders ops arrayOk mutexOk maxSize cur (t # ts) ses =
     (case (if sends t then media_track t else None) of
        None \<Rightarrow>
          (let (r, ses') = init_mutex mutexOk cur ses
           in if r \<noteq> PEER_CONNECTION_RESULT_OK then (r, ses')
              else init_senders ops arrayOk mutexOk maxSize cur ts ses')
      | Some m \<Rightarrow>
          (let maxSize' = (if srtp_rtx ses m then PEER_CONNECTION_SRTP_RTP_PAYLOAD_MAX_LENGTH else maxSize);
               (r, rb) = PeerConnectionRollingBuffer_Create ops (Some (srtpSender ses m))
                           (rollingbufferBitRate t) (rollingbufferDurationSec t) maxSize' arrayOk;
               ses1 = ses\<lparr>srtpSender := (srtpSender ses)(m := the rb)\<rparr>
           in if r \<noteq> PEER_CONNECTION_RESULT_OK then (r, ses1)
              else
                (let (r', ses2) = init_mutex mutexOk (Some m) ses1
                 in if r' \<noteq> PEER_CONNECTION_RESULT_OK then (r', ses2)
                    else init_senders ops arrayOk mutexOk maxSize' (Some m) ts ses2)))"

fun init_receivers ::
    "Transceiver list \<Rightarrow> ('q, 's) srtp_session \<Rightarrow> PeerConnectionResult \<times> ('q, 's) srtp_session" where
  "init_receivers [] ses = (PEER_CONNECTION_RESULT_OK, ses)"
| "init_receivers (t # ts) ses =
     (case (if receives t then media_track t else None) of
        None \<Rightarrow> init_receivers ts ses
      | Some m \<Rightarrow>
          (let (r, jb) = PeerConnectionJitterBuffer_Create (rxJitterBuffer (srtpReceiver ses m)) True True 2
                           (codecBitMap t) (if m = MEDIA_VIDEO then 90000 else 8000);
               ses' = ses\<lparr>srtpReceiver := (srtpReceiver ses)(m := (srtpReceiver ses m)\<lparr>rxJitterBuffer := jb\<rparr>)\<rparr>
           in if r \<noteq> PEER_CONNECTION_RESULT_OK then (r, ses') else init_receivers ts ses'))"

text \<open>\<open>profileOk\<close> is whether the negotiated SRTP profile is one of the two the code knows; \<open>rx\<close> and
  \<open>tx\<close> are what \<open>srtp_create\<close> gives for the two directions.\<close>

definition PeerConnectionSrtp_Init ::
    "'q rtp_packet_queue \<Rightarrow> bool \<Rightarrow> bool \<Rightarrow> bool \<Rightarrow> bool \<Rightarrow> 's option \<Rightarrow> 's option
      \<Rightarrow> ('q, 's) srtp_session \<Rightarrow> PeerConnectionResult \<times> ('q, 's) srtp_session" where
  "PeerConnectionSrtp_Init ops arrayOk mutexOk profileOk lockOk rx tx ses =
     (if \<not> profileOk then (PEER_CONNECTION_RESULT_UNKNOWN_SRTP_PROFILE, ses)
      else if \<not> lockOk then (PEER_CONNECTION_RESULT_FAIL_TAKE_SRTP_MUTEX, ses)
      else if rx = None then (PEER_CONNECTION_RESULT_FAIL_CREATE_SRTP_RX_SESSION, ses)
      else
        (let ses1 = ses\<lparr>srtpReceiveSession := rx\<rparr>
         in if tx = None then (PEER_CONNECTION_RESULT_FAIL_CREATE_SRTP_TX_SESSION, ses1)
            else
              (let (r, ses2) = init_senders ops arrayOk mutexOk PEER_CONNECTION_SRTP_RTP_PACKET_MAX_LENGTH
                                 None (transceivers ses1) (ses1\<lparr>srtpTransmitSession := tx\<rparr>)
               in if r \<noteq> PEER_CONNECTION_RESULT_OK then (r, ses2)
                  else init_receivers (transceivers ses2) ses2)))"

text \<open>\<open>lockOk m\<close> is whether the sender's mutex can be locked; a failure to lock the session mutex
  is logged and otherwise ignored.\<close>

definition free_sender ::
    "'q rtp_packet_queue \<Rightarrow> (media \<Rightarrow> bool) \<Rightarrow> media \<Rightarrow> ('q, 's) srtp_session \<Rightarrow> ('q, 's) srtp_session option" where
  "free_sender ops lockOk m ses =
     (if \<not> lockOk m then Some ses
      else map_option
             (\<lambda>(rb, h). ses\<lparr>srtpSender := (srtpSender ses)(m := the rb), txHeap := h\<rparr>)
             (PeerConnectionRollingBuffer_Free ops (Some (srtpSender ses m)) (txHeap ses)))"

definition free_receiver ::
    "(codec_helper \<Rightarrow> 'd depacketizer) \<Rightarrow> media \<Rightarrow> ('q, 's) srtp_session \<Rightarrow> ('q, 's) srtp_session" where
  "free_receiver dps m ses =
     (let r = srtpReceiver ses m;
          (jb, _) = PeerConnectionJitterBuffer_Free (receiver_env dps) (rxJitterBuffer r)
      in ses\<lparr>srtpReceiver := (srtpReceiver ses)(m := r\<lparr>rxJitterBuffer := jb, rxOnFrameReady := False\<rparr>)\<rparr>)"

definition PeerConnectionSrtp_DeInit ::
    "'q rtp_packet_queue \<Rightarrow> (codec_helper \<Rightarrow> 'd depacketizer) \<Rightarrow> (media \<Rightarrow> bool) \<Rightarrow> ('q, 's) srtp_session
      \<Rightarrow> (PeerConnectionResult \<times> ('q, 's) srtp_session) option" where
  "PeerConnectionSrtp_DeInit ops dps lockOk ses =
     (let ses1 = ses\<lparr>srtpReceiveSession := None, srtpTransmitSession := None\<rparr>
      in map_option
           (\<lambda>s. (PEER_CONNECTION_RESULT_OK, free_receiver dps MEDIA_AUDIO (free_receiver dps MEDIA_VIDEO s)))
           (Option.bind (free_sender ops lockOk MEDIA_VIDEO ses1) (free_sender ops lockOk MEDIA_AUDIO)))"

end
