(* ===== verification/Srtp_Session_Correct.thy ===== *)
theory Srtp_Session_Correct
  imports Srtp_Session
begin

text \<open>
  The receive path delivers what was received: every packet the jitter buffers hold is a
  decrypted packet of the right stream, and a frame is announced only when received packets
  fill its range.  Set-up establishes the invariant of the send path and tear-down frees
  everything.
\<close>

section \<open>Packets that a push leaves behind\<close>

lemma Push_pushed:
  assumes old: "\<And>k. isPushed (rtpPackets jb k) \<Longrightarrow> P k (rtpPackets jb k)"
    and new: "P k0 ((rtpPackets jb k0)\<lparr>isPushed := True\<rparr>)"
    and push: "PeerConnectionJitterBuffer_Push env jb (Some k0) = (r, jb', evs)"
    and k: "isPushed (rtpPackets jb' k)"
  shows "P k (rtpPackets jb' k)"
proof -
  let ?jb1 = "push_start jb (rtpPackets jb k0)"
  show ?thesis
  proof (cases "jbIsInit jb \<and> ShouldAcceptPacket ?jb1 (rtpPackets ?jb1 k0) = PEER_CONNECTION_RESULT_OK")
    case True
    with push have "ParseFramesInJitterBuffer env (push_accept ?jb1 k0) False = (r, jb', evs)"
      by (simp add: PeerConnectionJitterBuffer_Push_def Let_def)
    from ParseFrames_keep [OF this] have
      "packets_sub (rtpPackets jb') ((rtpPackets jb)(k0 := (rtpPackets jb k0)\<lparr>isPushed := True\<rparr>))"
      by (simp add: jb_keep_def)
    from packets_sub_pushed [OF this k] k new old show ?thesis by (auto split: if_splits)
  next
    case False
    with push have "packets_sub (rtpPackets jb') (rtpPackets jb)"
      by (auto simp: PeerConnectionJitterBuffer_Push_def Let_def DiscardPacket_eq
          intro!: packets_sub_discard split: if_splits)
    from packets_sub_pushed [OF this k] k old show ?thesis by simp
  qed
qed

section \<open>What the jitter buffers hold\<close>

text \<open>The packet of slot \<open>k\<close> is one of the received packets of the medium.\<close>

definition slot_received ::
    "(media \<times> rx_packet) list \<Rightarrow> media \<Rightarrow> nat \<Rightarrow> PeerConnectionJitterBufferPacket \<Rightarrow> bool" where
  "slot_received log m k p \<longleftrightarrow>
     (\<exists>pkt. (m, pkt) \<in> set log \<and> slot_of (rxSeq pkt) = k \<and> sequenceNumber p = rxSeq pkt
        \<and> rtpTimestamp p = rxTimestamp pkt \<and> pPacketBuffer p = Some (rxPayload pkt)
        \<and> packetBufferLength p = length (rxPayload pkt))"

definition jb_received :: "(media \<times> rx_packet) list \<Rightarrow> media \<Rightarrow> PeerConnectionJitterBuffer \<Rightarrow> bool" where
  "jb_received log m jb \<longleftrightarrow>
     (\<forall>k. isPushed (rtpPackets jb k) \<longrightarrow> slot_received log m k (rtpPackets jb k))"

lemma slot_received_mono:
  "slot_received log m k p \<Longrightarrow> set log \<subseteq> set log' \<Longrightarrow> slot_received log' m k p"
  unfolding slot_received_def by blast

lemma jb_received_mono: "jb_received log m jb \<Longrightarrow> set log \<subseteq> set log' \<Longrightarrow> jb_received log' m jb"
  unfolding jb_received_def using slot_received_mono by blast

definition rx_env_ok :: "'s rx_env \<Rightarrow> bool" where
  "rx_env_ok env \<longleftrightarrow> (\<forall>n. \<exists>buf. rxMalloc env n = Some buf \<and> length buf = n)"

text \<open>The slot that a packet with a payload is stored in, on its way into the buffer.\<close>

definition stored_jb ::
    "'s rx_env \<Rightarrow> PeerConnectionJitterBuffer \<Rightarrow> rx_packet \<Rightarrow> PeerConnectionJitterBuffer" where
  "stored_jb env jb pkt =
     (let jb1 = DiscardPacket jb (slot_of (rxSeq pkt))
      in jb1\<lparr>rtpPackets := (rtpPackets jb1)(slot_of (rxSeq pkt) :=
           (rtpPackets jb1 (slot_of (rxSeq pkt)))\<lparr>packetBufferLength := length (rxPayload pkt),
             pPacketBuffer := Some (rxPayload pkt), receiveTick := rxTime env,
             rtpTimestamp := rxTimestamp pkt, sequenceNumber := rxSeq pkt\<rparr>)\<rparr>)"

lemma receiver_push_eq:
  assumes "rx_env_ok env" and "jbIsInit jb" and "rxPayload pkt \<noteq> []"
  shows "receiver_push env dps jb pkt =
     Some (PeerConnectionJitterBuffer_Push (receiver_env dps) (stored_jb env jb pkt) (Some (slot_of (rxSeq pkt))))"
proof -
  obtain buf where "rxMalloc env (length (rxPayload pkt)) = Some buf" "length buf = length (rxPayload pkt)"
    using assms(1) unfolding rx_env_ok_def by blast
  with assms(2,3) show ?thesis
    by (simp add: receiver_push_def PeerConnectionJitterBuffer_AllocateBuffer_def store_rx_packet_def
        stored_jb_def Let_def DiscardPacket_def)
qed

lemma receiver_push_refused:
  assumes "\<not> jbIsInit jb \<or> rxPayload pkt = []"
  shows "receiver_push env dps jb pkt = Some (PEER_CONNECTION_RESULT_BAD_PARAMETER, jb, [])"
  using assms by (auto simp: receiver_push_def PeerConnectionJitterBuffer_AllocateBuffer_def)

lemma jb_received_stored:
  assumes "jb_received log m jb"
  shows "jb_received log m (stored_jb env jb pkt)"
    and "slot_received (log @ [(m, pkt)]) m (slot_of (rxSeq pkt))
           ((rtpPackets (stored_jb env jb pkt) (slot_of (rxSeq pkt)))\<lparr>isPushed := True\<rparr>)"
proof -
  let ?k = "slot_of (rxSeq pkt)"
  have "\<not> isPushed (rtpPackets (DiscardPacket jb ?k) ?k)"
    using assms by (auto simp: DiscardPacket_def jb_received_def slot_received_def)
  moreover have "rtpPackets (DiscardPacket jb ?k) k = rtpPackets jb k" if "k \<noteq> ?k" for k
    using that by (simp add: DiscardPacket_def)
  ultimately show "jb_received log m (stored_jb env jb pkt)"
    using assms by (auto simp: stored_jb_def jb_received_def Let_def)
  show "slot_received (log @ [(m, pkt)]) m ?k ((rtpPackets (stored_jb env jb pkt) ?k)\<lparr>isPushed := True\<rparr>)"
    by (auto simp: slot_received_def stored_jb_def Let_def)
qed

lemma receiver_push_received:
  assumes env: "rx_env_ok env" and jb: "jb_received log m jb"
    and push: "receiver_push env dps jb pkt = Some (r, jb', evs)"
  shows "jb_received (log @ [(m, pkt)]) m jb'"
proof (cases "jbIsInit jb \<and> rxPayload pkt \<noteq> []")
  case True
  with push receiver_push_eq [OF env, of jb pkt dps] have
    p: "PeerConnectionJitterBuffer_Push (receiver_env dps) (stored_jb env jb pkt) (Some (slot_of (rxSeq pkt)))
      = (r, jb', evs)" by simp
  show ?thesis
    unfolding jb_received_def
  proof (intro allI impI)
    fix k assume k: "isPushed (rtpPackets jb' k)"
    show "slot_received (log @ [(m, pkt)]) m k (rtpPackets jb' k)"
      by (rule Push_pushed [where P = "slot_received (log @ [(m, pkt)]) m", OF _ jb_received_stored(2) [OF jb] p k])
        (use jb_received_stored(1) [OF jb, of env pkt] in
          \<open>auto simp: jb_received_def intro: slot_received_mono\<close>)
  qed
next
  case False
  with push have "jb' = jb" by (auto simp: receiver_push_refused)
  with jb show ?thesis by (auto intro: jb_received_mono)
qed

section \<open>Reachable receive states\<close>

text \<open>The packet that a datagram carries, if it decrypts, parses and belongs to a stream.\<close>

definition rx_decode :: "'s rx_env \<Rightarrow> ('q, 's) srtp_session \<Rightarrow> bytes \<Rightarrow> (media \<times> rx_packet) option" where
  "rx_decode env ses buffer =
     (if \<not> rxLockOk env then None
      else Option.bind (srtpReceiveSession ses) (\<lambda>t.
           Option.bind (fst (srtpUnprotect env t buffer PEER_CONNECTION_SRTP_RTP_PACKET_MAX_LENGTH)) (\<lambda>plain.
           Option.bind (rtpDeSerialize env plain) (\<lambda>pkt.
             if remoteSsrc ses MEDIA_VIDEO = rxSsrc pkt then Some (MEDIA_VIDEO, pkt)
             else if remoteSsrc ses MEDIA_AUDIO = rxSsrc pkt then Some (MEDIA_AUDIO, pkt) else None))))"

lemma HandleSrtpPacket_cases:
  assumes "PeerConnectionSrtp_HandleSrtpPacket env dps ses buffer = Some (r, ses', evs)"
  obtains (dropped) "rx_decode env ses buffer = None" "srtpReceiver ses' = srtpReceiver ses" "evs = []"
      "r \<noteq> PEER_CONNECTION_RESULT_OK"
    | (pushed) m pkt jb where "rx_decode env ses buffer = Some (m, pkt)"
      "receiver_push env dps (rxJitterBuffer (srtpReceiver ses m)) pkt = Some (r, jb, evs)"
      "srtpReceiver ses' = (srtpReceiver ses)(m := (srtpReceiver ses m)\<lparr>rxJitterBuffer := jb\<rparr>)"
proof (cases "rx_decode env ses buffer")
  case None
  from assms have "srtpReceiver ses' = srtpReceiver ses \<and> evs = [] \<and> r \<noteq> PEER_CONNECTION_RESULT_OK"
  proof (cases "rxLockOk env \<and> srtpReceiveSession ses \<noteq> None")
    case True
    then obtain t where t: "srtpReceiveSession ses = Some t" "rxLockOk env" by auto
    obtain dec t' where u: "srtpUnprotect env t buffer PEER_CONNECTION_SRTP_RTP_PACKET_MAX_LENGTH = (dec, t')"
      by (cases "srtpUnprotect env t buffer PEER_CONNECTION_SRTP_RTP_PACKET_MAX_LENGTH")
    show ?thesis
    proof (cases "Option.bind dec (rtpDeSerialize env)")
      case None
      with assms t u show ?thesis
        by (cases dec) (auto simp: PeerConnectionSrtp_HandleSrtpPacket_def)
    next
      case (Some pkt)
      with assms t u \<open>rx_decode env ses buffer = None\<close> show ?thesis
        by (cases dec; cases "remoteSsrc ses MEDIA_VIDEO = rxSsrc pkt"; cases "remoteSsrc ses MEDIA_AUDIO = rxSsrc pkt")
          (auto simp: PeerConnectionSrtp_HandleSrtpPacket_def rx_decode_def)
    qed
  next
    case False
    with assms show ?thesis
      by (cases "rxLockOk env") (auto simp: PeerConnectionSrtp_HandleSrtpPacket_def)
  qed
  with None show thesis by (intro dropped) auto
next
  case (Some mp)
  obtain m pkt where mp: "mp = (m, pkt)" by (cases mp)
  from Some mp obtain t plain where t: "srtpReceiveSession ses = Some t" "rxLockOk env"
    "fst (srtpUnprotect env t buffer PEER_CONNECTION_SRTP_RTP_PACKET_MAX_LENGTH) = Some plain"
    "rtpDeSerialize env plain = Some pkt"
    by (auto simp: rx_decode_def bind_eq_Some_conv split: if_splits)
  then obtain t' where u: "srtpUnprotect env t buffer PEER_CONNECTION_SRTP_RTP_PACKET_MAX_LENGTH = (Some plain, t')"
    by (metis prod.collapse)
  from Some mp t u assms have "\<exists>jb. receiver_push env dps (rxJitterBuffer (srtpReceiver ses m)) pkt = Some (r, jb, evs)
      \<and> srtpReceiver ses' = (srtpReceiver ses)(m := (srtpReceiver ses m)\<lparr>rxJitterBuffer := jb\<rparr>)"
    by (cases "remoteSsrc ses MEDIA_VIDEO = rxSsrc pkt"; cases "remoteSsrc ses MEDIA_AUDIO = rxSsrc pkt")
      (auto simp: PeerConnectionSrtp_HandleSrtpPacket_def rx_decode_def)
  with Some mp show thesis by (auto intro: pushed)
qed


text \<open>A packet is received by the session: it decrypts, parses and matches a stream.\<close>

abbreviation rx_decoded :: "'s rx_env \<Rightarrow> ('q, 's) srtp_session \<Rightarrow> bytes \<Rightarrow> (media \<times> rx_packet) list" where
  "rx_decoded env ses buffer \<equiv> (case rx_decode env ses buffer of None \<Rightarrow> [] | Some mp \<Rightarrow> [mp])"

lemma receiver_push_returns:
  assumes "rx_env_ok env"
  shows "\<exists>r jb' evs. receiver_push env dps jb pkt = Some (r, jb', evs)"
  using receiver_push_eq [OF assms, of jb pkt dps] receiver_push_refused [of jb pkt env dps]
  by (cases "jbIsInit jb \<and> rxPayload pkt \<noteq> []"; cases "PeerConnectionJitterBuffer_Push (receiver_env dps)
      (stored_jb env jb pkt) (Some (slot_of (rxSeq pkt)))") auto

lemma HandleSrtpPacket_returns:
  assumes env: "rx_env_ok env"
  shows "\<exists>r ses' evs. PeerConnectionSrtp_HandleSrtpPacket env dps ses buffer = Some (r, ses', evs)"
proof -
  have "PeerConnectionSrtp_HandleSrtpPacket env dps ses buffer \<noteq> None"
    using receiver_push_returns [OF env, of dps]
    by (fastforce simp: PeerConnectionSrtp_HandleSrtpPacket_def Let_def split: option.split prod.split)
  then show ?thesis by auto
qed

lemma HandleSrtpPacket_received:
  assumes env: "rx_env_ok env"
    and inv: "\<And>m. jb_received log m (rxJitterBuffer (srtpReceiver ses m))"
    and h: "PeerConnectionSrtp_HandleSrtpPacket env dps ses buffer = Some (r, ses', evs)"
  shows "jb_received (log @ rx_decoded env ses buffer) m (rxJitterBuffer (srtpReceiver ses' m))"
  using h
proof (cases rule: HandleSrtpPacket_cases)
  case dropped
  with inv show ?thesis by simp
next
  case (pushed m' pkt jb)
  with receiver_push_received [OF env inv, of dps m' pkt r jb evs] show ?thesis
    by (auto intro!: jb_received_mono [OF inv])
qed

text \<open>The sessions that can occur: set up from receivers that hold nothing, then packets in any
  order, steps of the rest of the program that leave the receivers alone, and closing.\<close>

inductive srtp_reach ::
    "(codec_helper \<Rightarrow> 'd depacketizer) \<Rightarrow> (media \<times> rx_packet) list \<Rightarrow> ('q, 's) srtp_session \<Rightarrow> bool"
  for dps where
  init: "(\<And>m k. \<not> isPushed (rtpPackets (rxJitterBuffer (srtpReceiver ses m)) k)) \<Longrightarrow>
     PeerConnectionSrtp_Init ops arrayOk mutexOk profileOk lockOk rx tx ses = (r, ses') \<Longrightarrow>
     srtp_reach dps [] ses'"
| packet: "srtp_reach dps log ses \<Longrightarrow> rx_env_ok env \<Longrightarrow>
     PeerConnectionSrtp_HandleSrtpPacket env dps ses buffer = Some (r, ses', evs) \<Longrightarrow>
     srtp_reach dps (log @ rx_decoded env ses buffer) ses'"
| other: "srtp_reach dps log ses \<Longrightarrow> srtpReceiver ses' = srtpReceiver ses \<Longrightarrow> srtp_reach dps log ses'"
| deinit: "srtp_reach dps log ses \<Longrightarrow> PeerConnectionSrtp_DeInit ops dps lockOk' ses = Some (r, ses') \<Longrightarrow>
     srtp_reach dps log ses'"

lemma Create_not_pushed:
  assumes "PeerConnectionJitterBuffer_Create jb a b c d e = (r, jb')" and "\<And>k. \<not> isPushed (rtpPackets jb k)"
  shows "\<not> isPushed (rtpPackets jb' k)"
  using assms by (auto simp: PeerConnectionJitterBuffer_Create_def Let_def split: if_splits option.splits)

text \<open>An invariant of the set-up, for every outcome or only for success: \<open>any\<close> says which.\<close>

lemma init_receivers_inv:
  assumes create: "\<And>ses m bits rate r jb. P ses \<Longrightarrow> any \<or> r = PEER_CONNECTION_RESULT_OK \<Longrightarrow>
      PeerConnectionJitterBuffer_Create (rxJitterBuffer (srtpReceiver ses m)) True True 2 bits rate = (r, jb) \<Longrightarrow>
      P (ses\<lparr>srtpReceiver := (srtpReceiver ses)(m := (srtpReceiver ses m)\<lparr>rxJitterBuffer := jb\<rparr>)\<rparr>)"
  shows "P ses \<Longrightarrow> any \<or> fst (init_receivers ts ses) = PEER_CONNECTION_RESULT_OK \<Longrightarrow> P (snd (init_receivers ts ses))"
proof (induction ts ses rule: init_receivers.induct)
  case (2 t ts ses)
  show ?case
  proof (cases "if receives t then media_track t else None")
    case None
    with 2 show ?thesis by simp
  next
    case (Some m')
    obtain r1 jb where c: "PeerConnectionJitterBuffer_Create (rxJitterBuffer (srtpReceiver ses m')) True True 2
        (codecBitMap t) (if m' = MEDIA_VIDEO then 90000 else 8000) = (r1, jb)" by (rule prod.exhaust)
    from create [OF 2(3) _ c] 2(2) [OF Some refl c [symmetric] refl] 2(4) Some c show ?thesis
      by (cases "r1 = PEER_CONNECTION_RESULT_OK") simp_all
  qed
qed simp

lemma init_mutex_inv:
  assumes "\<And>ses m. P ses \<Longrightarrow> P (ses\<lparr>isSenderMutexInit := (isSenderMutexInit ses)(m := True)\<rparr>)"
    and "init_mutex mutexOk cur ses = (r, ses')" and "P ses"
  shows "P ses'"
  using assms by (auto simp: init_mutex_def split: option.splits if_splits)

lemma init_senders_inv:
  assumes mutex: "\<And>ses m. P ses \<Longrightarrow> P (ses\<lparr>isSenderMutexInit := (isSenderMutexInit ses)(m := True)\<rparr>)"
    and create: "\<And>ses m rate dur n r rb. P ses \<Longrightarrow> 2 \<le> n \<Longrightarrow> any \<or> r = PEER_CONNECTION_RESULT_OK \<Longrightarrow>
      PeerConnectionRollingBuffer_Create ops (Some (srtpSender ses m)) rate dur n arrayOk = (r, rb) \<Longrightarrow>
      P (ses\<lparr>srtpSender := (srtpSender ses)(m := the rb)\<rparr>)"
  shows "2 \<le> maxSize \<Longrightarrow> P ses \<Longrightarrow>
     any \<or> fst (init_senders ops arrayOk mutexOk maxSize cur ts ses) = PEER_CONNECTION_RESULT_OK \<Longrightarrow>
     P (snd (init_senders ops arrayOk mutexOk maxSize cur ts ses))"
proof (induction ts arbitrary: maxSize cur ses)
  case (Cons t ts)
  show ?case
  proof (cases "if sends t then media_track t else None")
    case None
    obtain r s1 where m: "init_mutex mutexOk cur ses = (r, s1)" by (rule prod.exhaust)
    have "P s1" using init_mutex_inv [OF mutex m Cons.prems(2)] .
    with None m Cons.IH [OF Cons.prems(1)] Cons.prems(3) show ?thesis
      by (cases "r = PEER_CONNECTION_RESULT_OK") simp_all
  next
    case (Some m')
    let ?n = "if srtp_rtx ses m' then PEER_CONNECTION_SRTP_RTP_PAYLOAD_MAX_LENGTH else maxSize"
    have n: "2 \<le> ?n" using Cons.prems(1) by simp
    obtain r rb where c: "PeerConnectionRollingBuffer_Create ops (Some (srtpSender ses m'))
        (rollingbufferBitRate t) (rollingbufferDurationSec t) ?n arrayOk = (r, rb)" by (rule prod.exhaust)
    let ?s1 = "ses\<lparr>srtpSender := (srtpSender ses)(m' := the rb)\<rparr>"
    obtain r2 s2 where m: "init_mutex mutexOk (Some m') ?s1 = (r2, s2)" by (rule prod.exhaust)
    show ?thesis
    proof (cases "r = PEER_CONNECTION_RESULT_OK")
      case True
      with create [OF Cons.prems(2) n _ c] have "P ?s1" by simp
      with init_mutex_inv [of P, OF mutex m] have "P s2" by simp
      with True Some c m Cons.IH [OF n] Cons.prems(3) show ?thesis
        by (cases "r2 = PEER_CONNECTION_RESULT_OK") simp_all
    next
      case False
      with create [OF Cons.prems(2) n _ c] Some c m Cons.prems(3) show ?thesis by simp
    qed
  qed
qed simp

lemma Init_inv:
  assumes mutex: "\<And>ses m. P ses \<Longrightarrow> P (ses\<lparr>isSenderMutexInit := (isSenderMutexInit ses)(m := True)\<rparr>)"
    and create: "\<And>ses m rate dur n r rb. P ses \<Longrightarrow> 2 \<le> n \<Longrightarrow> any \<or> r = PEER_CONNECTION_RESULT_OK \<Longrightarrow>
      PeerConnectionRollingBuffer_Create ops (Some (srtpSender ses m)) rate dur n arrayOk = (r, rb) \<Longrightarrow>
      P (ses\<lparr>srtpSender := (srtpSender ses)(m := the rb)\<rparr>)"
    and recv: "\<And>ses m bits rate r jb. P ses \<Longrightarrow> any \<or> r = PEER_CONNECTION_RESULT_OK \<Longrightarrow>
      PeerConnectionJitterBuffer_Create (rxJitterBuffer (srtpReceiver ses m)) True True 2 bits rate = (r, jb) \<Longrightarrow>
      P (ses\<lparr>srtpReceiver := (srtpReceiver ses)(m := (srtpReceiver ses m)\<lparr>rxJitterBuffer := jb\<rparr>)\<rparr>)"
    and rx: "\<And>ses. P ses \<Longrightarrow> P (ses\<lparr>srtpReceiveSession := rx\<rparr>)"
    and tx: "\<And>ses. P ses \<Longrightarrow> P (ses\<lparr>srtpTransmitSession := tx\<rparr>)"
    and P: "P ses"
    and any: "any \<or> fst (PeerConnectionSrtp_Init ops arrayOk mutexOk profileOk lockOk rx tx ses) = PEER_CONNECTION_RESULT_OK"
  shows "P (snd (PeerConnectionSrtp_Init ops arrayOk mutexOk profileOk lockOk rx tx ses))"
proof -
  obtain r s2 where s2: "init_senders ops arrayOk mutexOk PEER_CONNECTION_SRTP_RTP_PACKET_MAX_LENGTH None
      (transceivers ses) (ses\<lparr>srtpReceiveSession := rx, srtpTransmitSession := tx\<rparr>) = (r, s2)"
    by (rule prod.exhaust)
  have "P (snd (init_senders ops arrayOk mutexOk PEER_CONNECTION_SRTP_RTP_PACKET_MAX_LENGTH None
      (transceivers ses) (ses\<lparr>srtpReceiveSession := rx, srtpTransmitSession := tx\<rparr>)))"
    if "any \<or> r = PEER_CONNECTION_RESULT_OK"
    by (rule init_senders_inv [where any = any, OF mutex create]) (use s2 that tx [OF rx [OF P]] in simp_all)
  with s2 init_receivers_inv [of P any s2, OF recv] rx [OF P] P any show ?thesis
    by (cases "profileOk \<and> lockOk \<and> rx \<noteq> None \<and> tx \<noteq> None"; cases "r = PEER_CONNECTION_RESULT_OK")
      (auto simp: PeerConnectionSrtp_Init_def)
qed

lemma Free_sub:
  assumes "PeerConnectionJitterBuffer_Free env jb = (jb', evs)"
  shows "packets_sub (rtpPackets jb') (rtpPackets jb)"
proof (cases "jbIsInit jb")
  case True
  obtain r jb1 evs1 where p: "ParseFramesInJitterBuffer env (jb\<lparr>jbIsInit := False\<rparr>) True = (r, jb1, evs1)"
    by (rule prod_cases3)
  from ParseFrames_keep [OF this] have "packets_sub (rtpPackets jb1) (rtpPackets jb)"
    by (simp add: jb_keep_def)
  with True p assms show ?thesis
    by (auto simp: PeerConnectionJitterBuffer_Free_def discard_eqs intro!: packets_sub_discard)
next
  case False
  with assms show ?thesis by (simp add: PeerConnectionJitterBuffer_Free_def)
qed

lemma jb_received_sub:
  "jb_received log m jb \<Longrightarrow> packets_sub (rtpPackets jb') (rtpPackets jb) \<Longrightarrow> jb_received log m jb'"
  unfolding jb_received_def by (metis packets_sub_pushed)

lemma free_sender_receiver:
  "free_sender ops lockOk m ses = Some ses' \<Longrightarrow> srtpReceiver ses' = srtpReceiver ses"
  by (auto simp: free_sender_def split: if_splits)

lemma free_receiver_received:
  assumes "\<And>m. jb_received log m (rxJitterBuffer (srtpReceiver ses m))"
  shows "jb_received log m (rxJitterBuffer (srtpReceiver (free_receiver dps m' ses) m))"
proof -
  obtain jb evs where f: "PeerConnectionJitterBuffer_Free (receiver_env dps) (rxJitterBuffer (srtpReceiver ses m')) = (jb, evs)"
    by (rule prod.exhaust)
  from jb_received_sub [OF assms Free_sub [OF f]] assms f show ?thesis
    by (auto simp: free_receiver_def)
qed

lemma srtp_reach_received:
  "srtp_reach dps log ses \<Longrightarrow> jb_received log m (rxJitterBuffer (srtpReceiver ses m))"
proof (induction arbitrary: m rule: srtp_reach.induct)
  case (init ses ops arrayOk mutexOk profileOk lockOk rx tx r ses')
  have "\<forall>m k. \<not> isPushed (rtpPackets (rxJitterBuffer (srtpReceiver
      (snd (PeerConnectionSrtp_Init ops arrayOk mutexOk profileOk lockOk rx tx ses)) m)) k)"
    by (rule Init_inv [where any = True]) (use init(1) Create_not_pushed in auto)
  with init(2) show ?case by (simp add: jb_received_def)
next
  case (packet log ses env buffer r ses' evs)
  then show ?case by (intro HandleSrtpPacket_received)
next
  case (other log ses ses')
  then show ?case by simp
next
  case (deinit log ses ops lockOk' r ses')
  then obtain s1 s2 where
    "free_sender ops lockOk' MEDIA_VIDEO (ses\<lparr>srtpReceiveSession := None, srtpTransmitSession := None\<rparr>) = Some s1"
    "free_sender ops lockOk' MEDIA_AUDIO s1 = Some s2"
    and ses': "ses' = free_receiver dps MEDIA_AUDIO (free_receiver dps MEDIA_VIDEO s2)"
    by (auto simp: PeerConnectionSrtp_DeInit_def bind_eq_Some_conv)
  then have "srtpReceiver s2 = srtpReceiver ses" by (simp add: free_sender_receiver)
  with deinit.IH have "jb_received log m (rxJitterBuffer (srtpReceiver s2 m))" for m by simp
  then show ?case unfolding ses' by (intro free_receiver_received)
qed

text \<open>The depacketizers refuse a packet without a payload.\<close>

definition dps_reject_empty :: "(codec_helper \<Rightarrow> 'd depacketizer) \<Rightarrow> bool" where
  "dps_reject_empty dps \<longleftrightarrow> (\<forall>h. \<not> fst (dpGetPacketProperties (dps h) None 0))"

lemma receiver_env_rejects_empty: "dps_reject_empty dps \<Longrightarrow> rejects_empty (receiver_env dps)"
  unfolding dps_reject_empty_def rejects_empty_def
proof (intro allI)
  fix h assume "\<forall>h. \<not> fst (dpGetPacketProperties (dps h) None 0)"
  then have "\<not> fst (dpGetPacketProperties (dps h) None 0)" ..
  then show "fst (getPacketProperty (receiver_env dps) h zero_packet) \<noteq> PEER_CONNECTION_RESULT_OK"
    by (auto simp: receiver_env_def call_packet_property_eq codec_packet_property_def split: prod.splits)
qed

section \<open>Set-up and tear-down\<close>

text \<open>What \<open>RtpPacketQueue_Init\<close> promises: an empty queue.\<close>

definition rpq_init_spec :: "'q rtp_packet_queue \<Rightarrow> ('q \<Rightarrow> RtpPacketInfo list \<Rightarrow> bool) \<Rightarrow> bool" where
  "rpq_init_spec ops rep \<longleftrightarrow> (\<forall>n q. rpqInit ops n = (RTP_PACKET_QUEUE_RESULT_OK, q) \<longrightarrow> rep q [])"

text \<open>No packet is stored: each sender is unused or holds an empty queue.\<close>

abbreviation tx_idle :: "('q \<Rightarrow> RtpPacketInfo list \<Rightarrow> bool) \<Rightarrow> ('q, 's) srtp_session \<Rightarrow> bool" where
  "tx_idle rep ses \<equiv> tx_inv rep (PeerConnectionSession.truncate ses) (\<lambda>_. [])"

lemma truncate_sel [simp]:
  "srtpSender (PeerConnectionSession.truncate ses) = srtpSender ses"
  "txHeap (PeerConnectionSession.truncate ses) = txHeap ses"
  by (simp_all add: PeerConnectionSession.truncate_def)

lemma tx_idle_iff:
  "tx_idle rep ses \<longleftrightarrow> (\<forall>m. sender_ok rep (srtpSender ses m) Map.empty []) \<and> txHeap ses = Map.empty"
  by (auto simp: tx_inv_def rb_addrs_def)

lemma Create_sender_ok:
  assumes "rpq_init_spec ops rep" and "sender_ok rep rb Map.empty []" and "2 \<le> n"
    and "PeerConnectionRollingBuffer_Create ops (Some rb) rate dur n ok = (PEER_CONNECTION_RESULT_OK, rb')"
  shows "sender_ok rep (the rb') Map.empty []"
  using assms
  by (auto simp: PeerConnectionRollingBuffer_Create_def Let_def sender_ok_def rb_rep_def rpq_init_spec_def
      split: if_splits prod.splits)

lemma Init_idle:
  assumes spec: "rpq_init_spec ops rep" and idle: "tx_idle rep ses"
    and init: "PeerConnectionSrtp_Init ops arrayOk mutexOk profileOk lockOk rx tx ses = (PEER_CONNECTION_RESULT_OK, ses')"
  shows "tx_idle rep ses'"
proof -
  have "(\<lambda>s. (\<forall>m. sender_ok rep (srtpSender s m) Map.empty []) \<and> txHeap s = Map.empty)
      (snd (PeerConnectionSrtp_Init ops arrayOk mutexOk profileOk lockOk rx tx ses))"
    by (rule Init_inv [where any = False])
      (use init idle [unfolded tx_idle_iff] in \<open>auto intro: Create_sender_ok [OF spec]\<close>)
  with init show ?thesis by (simp add: tx_idle_iff)
qed

text \<open>A sender or receiver that is set up stays set up while the remaining ones are.\<close>

lemma init_senders_stay:
  assumes "init_senders ops arrayOk mutexOk n cur ts ses = (PEER_CONNECTION_RESULT_OK, ses')" and "2 \<le> n"
    and "rbIsInit (srtpSender ses m)" and "isSenderMutexInit ses m"
  shows "rbIsInit (srtpSender ses' m) \<and> isSenderMutexInit ses' m"
proof -
  have "(\<lambda>s. rbIsInit (srtpSender s m) \<and> isSenderMutexInit s m) (snd (init_senders ops arrayOk mutexOk n cur ts ses))"
    by (rule init_senders_inv [where any = False])
      (use assms in \<open>auto simp: PeerConnectionRollingBuffer_Create_def Let_def split: if_splits prod.splits\<close>)
  with assms(1) show ?thesis by simp
qed

lemma init_senders_all:
  assumes "init_senders ops arrayOk mutexOk n cur ts ses = (PEER_CONNECTION_RESULT_OK, ses')" and "2 \<le> n"
    and "t \<in> set ts" and "sends t" and "media_track t = Some m"
  shows "rbIsInit (srtpSender ses' m) \<and> isSenderMutexInit ses' m"
  using assms(1-3)
proof (induction ts arbitrary: n cur ses)
  case (Cons u ts)
  show ?case
  proof (cases "if sends u then media_track u else None")
    case None
    with assms(4,5) Cons.prems(3) have "t \<in> set ts" by auto
    with None Cons show ?thesis
      by (cases "init_mutex mutexOk cur ses") (auto split: if_splits)
  next
    case (Some m')
    let ?n = "if srtp_rtx ses m' then PEER_CONNECTION_SRTP_RTP_PAYLOAD_MAX_LENGTH else n"
    obtain r rb where c: "PeerConnectionRollingBuffer_Create ops (Some (srtpSender ses m'))
        (rollingbufferBitRate u) (rollingbufferDurationSec u) ?n arrayOk = (r, rb)" by (rule prod.exhaust)
    let ?s1 = "ses\<lparr>srtpSender := (srtpSender ses)(m' := the rb)\<rparr>"
    obtain r2 s2 where m: "init_mutex mutexOk (Some m') ?s1 = (r2, s2)" by (rule prod.exhaust)
    have n: "2 \<le> ?n" using Cons.prems(2) by simp
    from Cons.prems(1) Some c m have "r = PEER_CONNECTION_RESULT_OK \<and> r2 = PEER_CONNECTION_RESULT_OK
        \<and> init_senders ops arrayOk mutexOk ?n (Some m') ts s2 = (PEER_CONNECTION_RESULT_OK, ses')"
      by (cases "r = PEER_CONNECTION_RESULT_OK"; cases "r2 = PEER_CONNECTION_RESULT_OK") simp_all
    then have ok: "r = PEER_CONNECTION_RESULT_OK" "r2 = PEER_CONNECTION_RESULT_OK"
      and rest: "init_senders ops arrayOk mutexOk ?n (Some m') ts s2 = (PEER_CONNECTION_RESULT_OK, ses')"
      by auto
    show ?thesis
    proof (cases "t \<in> set ts")
      case True
      from Cons.IH [OF rest n this] show ?thesis .
    next
      case False
      with Cons.prems(3) Some assms(4,5) have "m' = m" by auto
      with c m ok have "rbIsInit (srtpSender s2 m) \<and> isSenderMutexInit s2 m"
        by (auto simp: PeerConnectionRollingBuffer_Create_def Let_def init_mutex_def
            split: if_splits prod.splits)
      with init_senders_stay [OF rest n] show ?thesis by blast
    qed
  qed
qed simp

text \<open>A receiver that has been set up: the jitter buffer is initialised, has both callbacks and
  holds nothing.\<close>

definition jb_ready :: "PeerConnectionJitterBuffer \<Rightarrow> bool" where
  "jb_ready jb \<longleftrightarrow> jbIsInit jb \<and> onFrameReadyCallbackFunc jb \<and> onFrameDropCallbackFunc jb
     \<and> jbCapacity jb = 1000 \<and> rtpPackets jb = (\<lambda>_. zero_packet)"

lemma Create_ready:
  "PeerConnectionJitterBuffer_Create jb True True tol bits rate = (PEER_CONNECTION_RESULT_OK, jb') \<Longrightarrow> jb_ready jb'"
  by (auto simp: PeerConnectionJitterBuffer_Create_def Let_def jb_ready_def
      PEER_CONNECTION_JITTER_BUFFER_MAX_ENTRY_NUM_def split: if_splits option.splits)

lemma init_receivers_stay:
  assumes "init_receivers ts ses = (PEER_CONNECTION_RESULT_OK, ses')"
    and "jb_ready (rxJitterBuffer (srtpReceiver ses m))"
  shows "jb_ready (rxJitterBuffer (srtpReceiver ses' m))"
proof -
  have "(\<lambda>s. jb_ready (rxJitterBuffer (srtpReceiver s m))) (snd (init_receivers ts ses))"
    by (rule init_receivers_inv [where any = False]) (use assms in \<open>auto dest: Create_ready\<close>)
  with assms(1) show ?thesis by simp
qed

lemma init_receivers_all:
  assumes "init_receivers ts ses = (PEER_CONNECTION_RESULT_OK, ses')"
    and "t \<in> set ts" and "receives t" and "media_track t = Some m"
  shows "jb_ready (rxJitterBuffer (srtpReceiver ses' m))"
  using assms(1,2)
proof (induction ts arbitrary: ses)
  case (Cons u ts)
  show ?case
  proof (cases "if receives u then media_track u else None")
    case None
    with Cons assms(3,4) show ?thesis by auto
  next
    case (Some m')
    obtain r1 jb where c: "PeerConnectionJitterBuffer_Create (rxJitterBuffer (srtpReceiver ses m')) True True 2
        (codecBitMap u) (if m' = MEDIA_VIDEO then 90000 else 8000) = (r1, jb)" by (rule prod.exhaust)
    let ?s1 = "ses\<lparr>srtpReceiver := (srtpReceiver ses)(m' := (srtpReceiver ses m')\<lparr>rxJitterBuffer := jb\<rparr>)\<rparr>"
    from Cons.prems(1) Some c have "r1 = PEER_CONNECTION_RESULT_OK
        \<and> init_receivers ts ?s1 = (PEER_CONNECTION_RESULT_OK, ses')"
      by (cases "r1 = PEER_CONNECTION_RESULT_OK") simp_all
    then have ok: "r1 = PEER_CONNECTION_RESULT_OK"
      and rest: "init_receivers ts ?s1 = (PEER_CONNECTION_RESULT_OK, ses')" by auto
    show ?thesis
    proof (cases "t \<in> set ts")
      case False
      with Cons.prems(2) Some assms(3,4) have "m' = m" by auto
      with Create_ready c ok have "jb_ready (rxJitterBuffer (srtpReceiver ?s1 m))" by auto
      with init_receivers_stay [OF rest] show ?thesis .
    qed (use Cons.IH [OF rest] in blast)
  qed
qed simp

lemma init_senders_transceivers:
  "2 \<le> n \<Longrightarrow> transceivers (snd (init_senders ops arrayOk mutexOk n cur ts ses)) = transceivers ses"
  by (rule init_senders_inv [where any = True and P = "\<lambda>s. transceivers s = transceivers ses"]) simp_all

lemma Init_OK:
  assumes "PeerConnectionSrtp_Init ops arrayOk mutexOk profileOk lockOk rx tx ses = (PEER_CONNECTION_RESULT_OK, ses')"
  obtains s2 where "rx \<noteq> None" "tx \<noteq> None"
    "init_senders ops arrayOk mutexOk PEER_CONNECTION_SRTP_RTP_PACKET_MAX_LENGTH None (transceivers ses)
       (ses\<lparr>srtpReceiveSession := rx, srtpTransmitSession := tx\<rparr>) = (PEER_CONNECTION_RESULT_OK, s2)"
    "init_receivers (transceivers ses) s2 = (PEER_CONNECTION_RESULT_OK, ses')"
proof -
  obtain r s2 where s2: "init_senders ops arrayOk mutexOk PEER_CONNECTION_SRTP_RTP_PACKET_MAX_LENGTH None
      (transceivers ses) (ses\<lparr>srtpReceiveSession := rx, srtpTransmitSession := tx\<rparr>) = (r, s2)"
    by (rule prod.exhaust)
  with init_senders_transceivers [of PEER_CONNECTION_SRTP_RTP_PACKET_MAX_LENGTH ops arrayOk mutexOk None
      "transceivers ses" "ses\<lparr>srtpReceiveSession := rx, srtpTransmitSession := tx\<rparr>"]
  have "transceivers s2 = transceivers ses" by simp
  with assms s2 that show thesis
    by (cases "profileOk \<and> lockOk \<and> rx \<noteq> None \<and> tx \<noteq> None"; cases "r = PEER_CONNECTION_RESULT_OK")
      (auto simp: PeerConnectionSrtp_Init_def split: if_splits)
qed

text \<open>Freeing a sender takes exactly its packets out of the heap.\<close>

lemma free_sender_frees:
  assumes spec: "rpq_spec ops rep" and lock: "lockOk m" and ok: "sender_ok rep (srtpSender ses m) (txHeap ses) xs"
  shows "\<exists>ses'. free_sender ops lockOk m ses = Some ses'
     \<and> txHeap ses' = (\<lambda>a. if a \<in> rb_addrs xs then None else txHeap ses a)
     \<and> (\<forall>m'. m' \<noteq> m \<longrightarrow> srtpSender ses' m' = srtpSender ses m')
     \<and> \<not> rbIsInit (srtpSender ses' m) \<and> srtpReceiver ses' = srtpReceiver ses
     \<and> srtpReceiveSession ses' = srtpReceiveSession ses \<and> srtpTransmitSession ses' = srtpTransmitSession ses"
proof -
  let ?rb = "srtpSender ses m"
  have "\<exists>rb'. PeerConnectionRollingBuffer_Free ops (Some ?rb) (txHeap ses)
      = Some (Some rb', \<lambda>a. if a \<in> rb_addrs xs then None else txHeap ses a) \<and> \<not> rbIsInit rb'"
  proof (cases "rb_rep rep ?rb (txHeap ses) xs")
    case True
    from Free_frees [OF spec this] show ?thesis by blast
  next
    case False
    with ok have xs: "xs = []" and c: "\<not> rbIsInit ?rb \<or> rep (packetQueue ?rb) []"
      by (auto simp: sender_ok_def)
    from c free_loop_frees [OF spec, of "packetQueue ?rb" "[]" "txHeap ses"] show ?thesis
      by (cases "rbIsInit ?rb") (auto simp: xs PeerConnectionRollingBuffer_Free_def rb_addrs_def)
  qed
  with lock show ?thesis by (auto simp: free_sender_def)
qed

lemma free_receiver_sel [simp]:
  "txHeap (free_receiver dps m ses) = txHeap ses"
  "srtpSender (free_receiver dps m ses) = srtpSender ses"
  "srtpReceiveSession (free_receiver dps m ses) = srtpReceiveSession ses"
  "srtpTransmitSession (free_receiver dps m ses) = srtpTransmitSession ses"
  "m' \<noteq> m \<Longrightarrow> srtpReceiver (free_receiver dps m ses) m' = srtpReceiver ses m'"
  by (simp_all add: free_receiver_def Let_def split: prod.splits)

lemma free_receiver_clears:
  assumes "jbIsInit (rxJitterBuffer (srtpReceiver ses m))"
  shows "\<forall>k < 1000. pPacketBuffer (rtpPackets (rxJitterBuffer (srtpReceiver (free_receiver dps m ses) m)) k) = None"
proof -
  obtain jb evs where f: "PeerConnectionJitterBuffer_Free (receiver_env dps) (rxJitterBuffer (srtpReceiver ses m)) = (jb, evs)"
    by (rule prod.exhaust)
  from Free_clears [OF assms f] f show ?thesis by (simp add: free_receiver_def)
qed

lemma free_receiver_init:
  "jbIsInit (rxJitterBuffer (srtpReceiver (free_receiver dps m ses) m')) \<longleftrightarrow>
     m' \<noteq> m \<and> jbIsInit (rxJitterBuffer (srtpReceiver ses m'))"
proof -
  obtain jb evs where f: "PeerConnectionJitterBuffer_Free (receiver_env dps) (rxJitterBuffer (srtpReceiver ses m)) = (jb, evs)"
    by (rule prod.exhaust)
  from Free_clears [OF _ f] f show ?thesis
    by (cases "jbIsInit (rxJitterBuffer (srtpReceiver ses m))")
      (auto simp: free_receiver_def PeerConnectionJitterBuffer_Free_def)
qed

lemma free_receivers_clear:
  assumes "jbIsInit (rxJitterBuffer (srtpReceiver ses m))" and "k < 1000"
  shows "pPacketBuffer (rtpPackets (rxJitterBuffer (srtpReceiver
     (free_receiver dps MEDIA_AUDIO (free_receiver dps MEDIA_VIDEO ses)) m)) k) = None"
  using assms free_receiver_clears [of ses MEDIA_VIDEO dps]
    free_receiver_clears [of "free_receiver dps MEDIA_VIDEO ses" MEDIA_AUDIO dps]
  by (cases m) simp_all

lemma sender_ok_other:
  "sender_ok rep rb h xs \<Longrightarrow> A \<inter> rb_addrs xs = {} \<Longrightarrow> sender_ok rep rb (\<lambda>a. if a \<in> A then None else h a) xs"
  by (fastforce simp: sender_ok_def rb_rep_def rb_addrs_def)

section \<open>Frames consist of received packets\<close>

text \<open>Each packet of the range lies in the slot of a received packet of the medium, all with
  the same RTP timestamp.\<close>

definition frame_received :: "(media \<times> rx_packet) list \<Rightarrow> media \<Rightarrow> u16 \<Rightarrow> u16 \<Rightarrow> bool" where
  "frame_received log m s e \<longleftrightarrow>
     s \<in> set (seq_until s (e + 1)) \<and>
     (\<exists>ts. \<forall>q \<in> set (seq_until s (e + 1)). \<exists>p. (m, p) \<in> set log \<and> slot_of (rxSeq p) = slot_of q
        \<and> rxTimestamp p = ts)"

lemma slot_receivedD:
  assumes "slot_received log m k p"
  obtains pkt where "(m, pkt) \<in> set log" "slot_of (rxSeq pkt) = k" "rxTimestamp pkt = rtpTimestamp p"
  using assms unfolding slot_received_def by auto

lemma receiver_push_frames:
  assumes rej: "dps_reject_empty dps" and env: "rx_env_ok env" and inv: "jb_received log m jb"
    and push: "receiver_push env dps jb pkt = Some (r, jb', evs)" and ev: "FrameReady s e \<in> set evs"
  shows "frame_received (log @ [(m, pkt)]) m s e"
proof -
  let ?k = "slot_of (rxSeq pkt)" and ?log = "log @ [(m, pkt)]"
  let ?jb = "stored_jb env jb pkt"
  let ?jb1 = "push_accept (push_start ?jb (rtpPackets ?jb ?k)) ?k"
  have "jbIsInit jb \<and> rxPayload pkt \<noteq> []"
  proof (rule ccontr)
    assume "\<not> ?thesis"
    with receiver_push_refused [of jb pkt env dps] push ev show False by auto
  qed
  with push receiver_push_eq [OF env, of jb pkt dps] ev
  have "ParseFramesInJitterBuffer (receiver_env dps) ?jb1 False = (r, jb', evs)"
    by (auto simp: PeerConnectionJitterBuffer_Push_def Let_def split: if_splits)
  from ParseFrames_events_ok(1) [OF receiver_env_rejects_empty [OF rej] this] ev
  have "frame_complete (receiver_env dps) ?jb1 s e" by (simp add: events_ok_def)
  then obtain ts where head: "s \<in> set (seq_until s (e + 1))"
    and good: "\<forall>q \<in> set (seq_until s (e + 1)). packet_good (receiver_env dps) ?jb1 ts q"
    unfolding frame_complete_def by blast
  have "slot_received ?log m k (rtpPackets ?jb1 k)" if "isPushed (rtpPackets ?jb1 k)" for k
    using jb_received_stored(1) [OF inv, of env pkt] jb_received_stored(2) [OF inv, of pkt env] that
    by (cases "k = ?k") (auto simp: jb_received_def intro: slot_received_mono)
  with good have "\<forall>q \<in> set (seq_until s (e + 1)). \<exists>p. (m, p) \<in> set ?log \<and> slot_of (rxSeq p) = slot_of q \<and> rxTimestamp p = ts"
    unfolding packet_good_def by (metis slot_receivedD)
  with head show ?thesis unfolding frame_received_def by blast
qed

text \<open>A session for the witnesses: one video transceiver in both directions, set up and then torn
  down again; the cipher is the identity and the parser takes the first byte as the sequence
  number.\<close>

definition demo_rx_env :: "nat rx_env" where
  "demo_rx_env = \<lparr>srtpUnprotect = (\<lambda>t b n. (Some b, t + 1)),
     rtpDeSerialize = (\<lambda>b. case b of [] \<Rightarrow> None
        | x # xs \<Rightarrow> Some \<lparr>rxSsrc = 7, rxSeq = ucast x, rxTimestamp = 0, rxPayload = xs\<rparr>),
     rxLockOk = True, rxMalloc = (\<lambda>n. Some (replicate n 0)), rxTime = 0\<rparr>"

definition demo_srtp :: "(RtpPacketInfo list, nat) srtp_session" where
  "demo_srtp = \<lparr>
     srtpSender = (\<lambda>m. \<lparr>rbIsInit = False, packetQueue = [], infoArray = False, maxSizePerPacket = 0, rbCapacity = 0\<rparr>),
     sequenceNumberOf = (\<lambda>_. 0), codecPayload = (\<lambda>_. 96), codecRtxPayload = (\<lambda>_. 0),
     rtxSequenceNumber = (\<lambda>_. 0), twccId = 0, twccSequence = 0, srtpTransmitSession = None,
     transceivers = [demo_video], txHeap = Map.empty, txLog = [],
     srtpReceiver = (\<lambda>m. \<lparr>rxJitterBuffer = demo_jb\<lparr>jbIsInit := False, rtpPackets := \<lambda>_. zero_packet\<rparr>, rxOnFrameReady = True\<rparr>),
     srtpReceiveSession = None, remoteSsrc = (\<lambda>_. 7), isSenderMutexInit = (\<lambda>_. False)\<rparr>"

lemma demo_rx_env_ok: "rx_env_ok demo_rx_env"
  by (simp add: rx_env_ok_def demo_rx_env_def)

lemma demo_dps_reject: "dps_reject_empty (\<lambda>_. demo_dp)"
  by (simp add: dps_reject_empty_def demo_dp_def)

lemma demo_srtp_idle: "tx_idle (=) demo_srtp"
  by (simp add: tx_idle_iff demo_srtp_def sender_ok_def)

lemma demo_queue_init_spec: "rpq_init_spec demo_queue (=)"
  by (simp add: rpq_init_spec_def demo_queue_def)

lemma demo_srtp_init:
  "\<exists>ses'. PeerConnectionSrtp_Init demo_queue True True True True (Some 0) (Some 0) demo_srtp
     = (PEER_CONNECTION_RESULT_OK, ses') \<and> remoteSsrc ses' = (\<lambda>_. 7)"
  by (simp add: PeerConnectionSrtp_Init_def demo_srtp_def demo_video_def sends_def receives_def media_track_def
      srtp_rtx_def PeerConnectionRollingBuffer_Create_def demo_queue_def init_mutex_def
      PeerConnectionJitterBuffer_Create_def select_codec_helper_def TRANSCEIVER_IS_CODEC_ENABLED_def codec_bit_defs)

section \<open>Properties\<close>



text \<open>Set-up.  When \<open>PeerConnectionSrtp_Init\<close> succeeds both SRTP sessions exist, no packet is
  stored for retransmission, every audio or video transceiver that sends has a rolling buffer
  and a mutex, and every one that receives has an empty jitter buffer with its callbacks.\<close>

theorem srtp_init_ready:
  assumes "rpq_init_spec ops rep" and "tx_idle rep ses"
    and "PeerConnectionSrtp_Init ops arrayOk mutexOk profileOk lockOk rx tx ses = (PEER_CONNECTION_RESULT_OK, ses')"
  shows "rx \<noteq> None \<and> tx \<noteq> None \<and> tx_idle rep ses'
     \<and> (\<forall>t \<in> set (transceivers ses). \<forall>m. media_track t = Some m \<longrightarrow>
          (sends t \<longrightarrow> rbIsInit (srtpSender ses' m) \<and> isSenderMutexInit ses' m)
          \<and> (receives t \<longrightarrow> jb_ready (rxJitterBuffer (srtpReceiver ses' m))))"
proof -
  from assms(3) obtain s2 where ne: "rx \<noteq> None" "tx \<noteq> None"
    and snd: "init_senders ops arrayOk mutexOk PEER_CONNECTION_SRTP_RTP_PACKET_MAX_LENGTH None (transceivers ses)
       (ses\<lparr>srtpReceiveSession := rx, srtpTransmitSession := tx\<rparr>) = (PEER_CONNECTION_RESULT_OK, s2)"
    and rcv: "init_receivers (transceivers ses) s2 = (PEER_CONNECTION_RESULT_OK, ses')" by (rule Init_OK)
  have "(\<lambda>s. \<forall>m. srtpSender s m = srtpSender s2 m \<and> isSenderMutexInit s m = isSenderMutexInit s2 m)
      (snd (init_receivers (transceivers ses) s2))"
    by (rule init_receivers_inv [where any = True]) simp_all
  with rcv have "srtpSender ses' m = srtpSender s2 m" "isSenderMutexInit ses' m = isSenderMutexInit s2 m" for m
    by simp_all
  with init_senders_all [OF snd] init_receivers_all [OF rcv] ne Init_idle [OF assms] show ?thesis by simp
qed

theorem srtp_init_ready_witness:
  "\<exists>ses'. PeerConnectionSrtp_Init demo_queue True True True True (Some 0) (Some 0) demo_srtp
       = (PEER_CONNECTION_RESULT_OK, ses')
     \<and> rbIsInit (srtpSender ses' MEDIA_VIDEO) \<and> jb_ready (rxJitterBuffer (srtpReceiver ses' MEDIA_VIDEO))"
proof -
  obtain ses' where init: "PeerConnectionSrtp_Init demo_queue True True True True (Some 0) (Some 0) demo_srtp
      = (PEER_CONNECTION_RESULT_OK, ses')" using demo_srtp_init by blast
  have "demo_video \<in> set (transceivers demo_srtp)" "media_track demo_video = Some MEDIA_VIDEO"
    "sends demo_video" "receives demo_video"
    by (simp_all add: demo_srtp_def demo_video_def media_track_def sends_def receives_def)
  with srtp_init_ready [OF demo_queue_init_spec demo_srtp_idle init] init show ?thesis by blast
qed



end
