(* ===== verification/Ice_Crc.thy ===== *)
theory Ice_Crc
  imports Rtc_Prelude
begin

text \<open>
  \<open>IceController_CalculateCrc32\<close> of \<open>ice_controller/ice_controller.c\<close>, the checksum that the ICE
  library puts into the STUN fingerprint attribute, and its equivalence with the definition of
  CRC-32 as a polynomial division bit by bit.  The buffer is shorter than \<open>2 ^ 32\<close> bytes.
\<close>

section \<open>The operation\<close>

definition gCrc32Table :: "u32 list" where
  "gCrc32Table = [
     0x00000000, 0x77073096, 0xEE0E612C, 0x990951BA, 0x076DC419, 0x706AF48F, 0xE963A535, 0x9E6495A3,
     0x0EDB8832, 0x79DCB8A4, 0xE0D5E91E, 0x97D2D988, 0x09B64C2B, 0x7EB17CBD, 0xE7B82D07, 0x90BF1D91,
     0x1DB71064, 0x6AB020F2, 0xF3B97148, 0x84BE41DE, 0x1ADAD47D, 0x6DDDE4EB, 0xF4D4B551, 0x83D385C7,
     0x136C9856, 0x646BA8C0, 0xFD62F97A, 0x8A65C9EC, 0x14015C4F, 0x63066CD9, 0xFA0F3D63, 0x8D080DF5,
     0x3B6E20C8, 0x4C69105E, 0xD56041E4, 0xA2677172, 0x3C03E4D1, 0x4B04D447, 0xD20D85FD, 0xA50AB56B,
     0x35B5A8FA, 0x42B2986C, 0xDBBBC9D6, 0xACBCF940, 0x32D86CE3, 0x45DF5C75, 0xDCD60DCF, 0xABD13D59,
     0x26D930AC, 0x51DE003A, 0xC8D75180, 0xBFD06116, 0x21B4F4B5, 0x56B3C423, 0xCFBA9599, 0xB8BDA50F,
     0x2802B89E, 0x5F058808, 0xC60CD9B2, 0xB10BE924, 0x2F6F7C87, 0x58684C11, 0xC1611DAB, 0xB6662D3D,
     0x76DC4190, 0x01DB7106, 0x98D220BC, 0xEFD5102A, 0x71B18589, 0x06B6B51F, 0x9FBFE4A5, 0xE8B8D433,
     0x7807C9A2, 0x0F00F934, 0x9609A88E, 0xE10E9818, 0x7F6A0DBB, 0x086D3D2D, 0x91646C97, 0xE6635C01,
     0x6B6B51F4, 0x1C6C6162, 0x856530D8, 0xF262004E, 0x6C0695ED, 0x1B01A57B, 0x8208F4C1, 0xF50FC457,
     0x65B0D9C6, 0x12B7E950, 0x8BBEB8EA, 0xFCB9887C, 0x62DD1DDF, 0x15DA2D49, 0x8CD37CF3, 0xFBD44C65,
     0x4DB26158, 0x3AB551CE, 0xA3BC0074, 0xD4BB30E2, 0x4ADFA541, 0x3DD895D7, 0xA4D1C46D, 0xD3D6F4FB,
     0x4369E96A, 0x346ED9FC, 0xAD678846, 0xDA60B8D0, 0x44042D73, 0x33031DE5, 0xAA0A4C5F, 0xDD0D7CC9,
     0x5005713C, 0x270241AA, 0xBE0B1010, 0xC90C2086, 0x5768B525, 0x206F85B3, 0xB966D409, 0xCE61E49F,
     0x5EDEF90E, 0x29D9C998, 0xB0D09822, 0xC7D7A8B4, 0x59B33D17, 0x2EB40D81, 0xB7BD5C3B, 0xC0BA6CAD,
     0xEDB88320, 0x9ABFB3B6, 0x03B6E20C, 0x74B1D29A, 0xEAD54739, 0x9DD277AF, 0x04DB2615, 0x73DC1683,
     0xE3630B12, 0x94643B84, 0x0D6D6A3E, 0x7A6A5AA8, 0xE40ECF0B, 0x9309FF9D, 0x0A00AE27, 0x7D079EB1,
     0xF00F9344, 0x8708A3D2, 0x1E01F268, 0x6906C2FE, 0xF762575D, 0x806567CB, 0x196C3671, 0x6E6B06E7,
     0xFED41B76, 0x89D32BE0, 0x10DA7A5A, 0x67DD4ACC, 0xF9B9DF6F, 0x8EBEEFF9, 0x17B7BE43, 0x60B08ED5,
     0xD6D6A3E8, 0xA1D1937E, 0x38D8C2C4, 0x4FDFF252, 0xD1BB67F1, 0xA6BC5767, 0x3FB506DD, 0x48B2364B,
     0xD80D2BDA, 0xAF0A1B4C, 0x36034AF6, 0x41047A60, 0xDF60EFC3, 0xA867DF55, 0x316E8EEF, 0x4669BE79,
     0xCB61B38C, 0xBC66831A, 0x256FD2A0, 0x5268E236, 0xCC0C7795, 0xBB0B4703, 0x220216B9, 0x5505262F,
     0xC5BA3BBE, 0xB2BD0B28, 0x2BB45A92, 0x5CB36A04, 0xC2D7FFA7, 0xB5D0CF31, 0x2CD99E8B, 0x5BDEAE1D,
     0x9B64C2B0, 0xEC63F226, 0x756AA39C, 0x026D930A, 0x9C0906A9, 0xEB0E363F, 0x72076785, 0x05005713,
     0x95BF4A82, 0xE2B87A14, 0x7BB12BAE, 0x0CB61B38, 0x92D28E9B, 0xE5D5BE0D, 0x7CDCEFB7, 0x0BDBDF21,
     0x86D3D2D4, 0xF1D4E242, 0x68DDB3F8, 0x1FDA836E, 0x81BE16CD, 0xF6B9265B, 0x6FB077E1, 0x18B74777,
     0x88085AE6, 0xFF0F6A70, 0x66063BCA, 0x11010B5C, 0x8F659EFF, 0xF862AE69, 0x616BFFD3, 0x166CCF45,
     0xA00AE278, 0xD70DD2EE, 0x4E048354, 0x3903B3C2, 0xA7672661, 0xD06016F7, 0x4969474D, 0x3E6E77DB,
     0xAED16A4A, 0xD9D65ADC, 0x40DF0B66, 0x37D83BF0, 0xA9BCAE53, 0xDEBB9EC5, 0x47B2CF7F, 0x30B5FFE9,
     0xBDBDF21C, 0xCABAC28A, 0x53B39330, 0x24B4A3A6, 0xBAD03605, 0xCDD70693, 0x54DE5729, 0x23D967BF,
     0xB3667A2E, 0xC4614AB8, 0x5D681B02, 0x2A6F2B94, 0xB40BBE37, 0xC30C8EA1, 0x5A05DF1B, 0x2D02EF8D]"

fun crc_loop :: "u32 \<Rightarrow> bytes \<Rightarrow> nat \<Rightarrow> u32 option" where
  "crc_loop c m 0 = Some c"
| "crc_loop c [] (Suc n) = None"
| "crc_loop c (b # m) (Suc n) =
     crc_loop ((gCrc32Table ! unat ((c XOR ucast b) AND 0xFF)) XOR drop_bit 8 c) m n"

text \<open>The calculated value is written to \<open>*pCalculatedCrc32\<close>; the result code is always OK.\<close>

definition IceController_CalculateCrc32 :: "u32 \<Rightarrow> bytes option \<Rightarrow> nat \<Rightarrow> u32 option" where
  "IceController_CalculateCrc32 initialResult pBuffer bufferLength =
     (let n = (if pBuffer = None then 0 else bufferLength)
      in map_option (\<lambda>c. c XOR 0xFFFFFFFF)
           (crc_loop (initialResult XOR 0xFFFFFFFF) (case pBuffer of None \<Rightarrow> [] | Some m \<Rightarrow> m) n))"

section \<open>Division bit by bit\<close>

definition crc_bit :: "u32 \<Rightarrow> u32" where
  "crc_bit c = (if bit c 0 then drop_bit 1 c XOR 0xEDB88320 else drop_bit 1 c)"

definition crc_byte :: "u32 \<Rightarrow> u8 \<Rightarrow> u32" where
  "crc_byte c b = (crc_bit ^^ 8) (c XOR ucast b)"

definition crc32 :: "u32 \<Rightarrow> bytes \<Rightarrow> u32" where
  "crc32 c bs = foldl crc_byte (c XOR 0xFFFFFFFF) bs XOR 0xFFFFFFFF"

lemma crc_bit_xor: "crc_bit (x XOR y) = crc_bit x XOR crc_bit y"
  by (rule bit_word_eqI) (auto simp: crc_bit_def bit_xor_iff bit_drop_bit_eq)

lemma crc_bit_iter_xor: "(crc_bit ^^ n) (x XOR y) = (crc_bit ^^ n) x XOR (crc_bit ^^ n) y"
  by (induction n) (simp_all add: crc_bit_xor)

lemma crc_bit_low_zero: "(\<forall>k < n. \<not> bit x k) \<Longrightarrow> (crc_bit ^^ n) x = drop_bit n x"
proof (induction n)
  case (Suc n)
  then have "crc_bit (drop_bit n x) = drop_bit 1 (drop_bit n x)"
    by (simp add: crc_bit_def bit_drop_bit_eq)
  with Suc show ?case by simp
qed simp

text \<open>The division is linear, so the table is determined by its entries at the powers of two: each
  doubling of the table adds the next of them.\<close>

lemma funpow_8: "(f ^^ 8) x = f (f (f (f (f (f (f (f x)))))))"
  by (simp add: eval_nat_numeral)

definition doubled :: "u32 list \<Rightarrow> u32 list" where
  "doubled ps = foldl (\<lambda>l p. l @ map (\<lambda>x. x XOR p) l) [0] ps"

lemma of_nat_add_power:
  assumes "m < 2 ^ j" and "j < 32"
  shows "(of_nat (m + 2 ^ j) :: u32) = of_nat m XOR 2 ^ j"
proof -
  have "\<not> bit m j" using assms by (simp add: bit_iff_odd)
  then have "of_nat m AND (2 ^ j :: u32) = 0" by (intro bit_word_eqI) (auto simp: bit_simps)
  then show ?thesis by (simp add: disjunctive_add_eq_xor)
qed

lemma doubled_powers:
  "j \<le> 8 \<Longrightarrow> doubled (map (\<lambda>k. (crc_bit ^^ 8) (2 ^ k)) [0..<j]) = map (\<lambda>n. (crc_bit ^^ 8) (of_nat n)) [0..<2 ^ j]"
proof (induction j)
  case 0
  show ?case by (simp add: doubled_def funpow_8 crc_bit_def)
next
  case (Suc j)
  have eq: "(crc_bit ^^ 8) (of_nat (m + 2 ^ j)) = (crc_bit ^^ 8) (of_nat m) XOR (crc_bit ^^ 8) (2 ^ j)" if "m < 2 ^ j" for m
    using of_nat_add_power [of m j] that Suc.prems by (simp add: crc_bit_iter_xor del: funpow.simps)
  have "[0..<2 ^ Suc j] = [0..<2 ^ j] @ map (\<lambda>m. m + 2 ^ j) [0..<2 ^ j]"
    using upt_add_eq_append [of 0 "2 ^ j" "2 ^ j"] map_add_upt [of "2 ^ j" "2 ^ j"] by (simp add: mult_2)
  with Suc.IH Suc.prems eq show ?case by (simp add: doubled_def)
qed

lemma gCrc32Table_doubled:
  "gCrc32Table = doubled [0x77073096, 0xEE0E612C, 0x076DC419, 0x0EDB8832,
     0x1DB71064, 0x3B6E20C8, 0x76DC4190, 0xEDB88320]"
  by (simp add: doubled_def gCrc32Table_def)

lemma crc_powers:
  "map (\<lambda>k. (crc_bit ^^ 8) (2 ^ k)) [0..<8] =
     [0x77073096, 0xEE0E612C, 0x076DC419, 0x0EDB8832, 0x1DB71064, 0x3B6E20C8, 0x76DC4190, 0xEDB88320]"
  by (simp add: upt_rec funpow_8 crc_bit_def)

lemma numeral_256: "(256 :: nat) = 2 ^ 8"
  by simp

lemma gCrc32Table_nth:
  assumes "n < 256"
  shows "gCrc32Table ! n = (crc_bit ^^ 8) (of_nat n)"
proof -
  have "gCrc32Table = map (\<lambda>n. (crc_bit ^^ 8) (of_nat n)) [0..<2 ^ 8]"
    using doubled_powers [of 8] unfolding crc_powers gCrc32Table_doubled by simp
  with assms show ?thesis by (metis (no_types, lifting) nth_map_upt add_0 diff_zero numeral_256)
qed

lemma crc_step: "(gCrc32Table ! unat ((c XOR ucast (b :: u8)) AND 0xFF)) XOR drop_bit 8 c = crc_byte c b"
proof -
  let ?x = "c XOR ucast b :: u32"
  let ?lo = "?x AND 0xFF" and ?hi = "?x AND NOT 0xFF"
  have m: "(0xFF :: u32) = mask 8" by (simp add: mask_eq_exp_minus_1)
  have split: "?x = ?lo XOR ?hi" by (rule bit_word_eqI) (auto simp: bit_simps)
  have "unat ?lo < 256"
    unfolding m using and_mask_less' [of 8 ?x] by (simp add: word_less_nat_alt mask_eq_exp_minus_1)
  then have lo: "gCrc32Table ! unat ?lo = (crc_bit ^^ 8) ?lo" by (simp add: gCrc32Table_nth)
  have "(crc_bit ^^ 8) ?hi = drop_bit 8 ?hi"
    unfolding m by (rule crc_bit_low_zero) (auto simp: bit_simps simp del: mask_numeral)
  also have "\<dots> = drop_bit 8 c"
    unfolding m by (rule bit_word_eqI)
      (auto simp: bit_simps simp del: mask_numeral dest: bit_imp_le_length)
  finally have hi: "(crc_bit ^^ 8) ?hi = drop_bit 8 c" .
  have "crc_byte c b = (crc_bit ^^ 8) (?lo XOR ?hi)" unfolding crc_byte_def using split by simp
  also have "\<dots> = (crc_bit ^^ 8) ?lo XOR (crc_bit ^^ 8) ?hi" by (rule crc_bit_iter_xor)
  finally show ?thesis using lo hi by simp
qed

lemma crc_loop_eq: "crc_loop c (bs @ rest) (length bs) = Some (foldl crc_byte c bs)"
  by (induction bs arbitrary: c) (simp_all add: crc_step)

section \<open>Properties\<close>

text \<open>C37: the table-driven checksum is CRC-32.  For every buffer the code's result is that of the
  division by the reversed polynomial \<open>0xEDB88320\<close> bit by bit, and no byte behind the buffer is
  read.\<close>

theorem CalculateCrc32_correct:
  "IceController_CalculateCrc32 init (Some (bs @ rest)) (length bs) = Some (crc32 init bs)"
  by (simp add: IceController_CalculateCrc32_def crc_loop_eq crc32_def)

end
