(* ===== verification/String_Utils.thy ===== *)
theory String_Utils
  imports Rtc_Prelude
begin

text \<open>
  \<open>string_utils/string_utils.c\<close>: the decimal conversion and the substring search that the
  parsers of the program use.  A pointer to characters is the memory from there on; reading
  past it is \<open>None\<close>.  \<open>StringUtils_ConvertStringToHex\<close> is modelled in \<open>Pc_Sdp\<close>, where it is used.
\<close>

section \<open>Operations\<close>

datatype StringUtilsResult =
    STRING_UTILS_RESULT_OK
  | STRING_UTILS_RESULT_BAD_PARAMETER
  | STRING_UTILS_RESULT_NON_NUMBERIC_STRING

abbreviation NUL :: char where
  "NUL \<equiv> CHR 0x00"

definition is_digit :: "char \<Rightarrow> bool" where
  "is_digit c \<longleftrightarrow> 48 \<le> (of_char c :: nat) \<and> (of_char c :: nat) \<le> 57"

definition digit_value :: "char \<Rightarrow> nat" where
  "digit_value c = of_char c - 48"

text \<open>The loop tests \<open>pStr[i]\<close> before it tests \<open>i < strLength\<close>.\<close>

fun convert_loop :: "string \<Rightarrow> nat \<Rightarrow> nat \<Rightarrow> u32 \<Rightarrow> (StringUtilsResult \<times> u32) option" where
  "convert_loop [] strLength i result = None"
| "convert_loop (c # cs) strLength i result =
     (if c = NUL \<or> strLength \<le> i then Some (STRING_UTILS_RESULT_OK, result)
      else if is_digit c then convert_loop cs strLength (i + 1) (result * 10 + of_nat (digit_value c))
      else if i = 0 then Some (STRING_UTILS_RESULT_NON_NUMBERIC_STRING, result)
      else Some (STRING_UTILS_RESULT_OK, result))"

text \<open>\<open>pStr\<close> is \<open>None\<close> for NULL and \<open>pOutUl\<close> says whether the output pointer is not NULL; the second
  component is what is written to it, if anything.\<close>

definition StringUtils_ConvertStringToUl ::
    "string option \<Rightarrow> nat \<Rightarrow> bool \<Rightarrow> (StringUtilsResult \<times> u32 option) option" where
  "StringUtils_ConvertStringToUl pStr strLength pOutUl =
     (if pStr = None \<or> \<not> pOutUl then Some (STRING_UTILS_RESULT_OK, None)
      else map_option
             (\<lambda>(ret, result). (ret, if ret = STRING_UTILS_RESULT_OK then Some result else None))
             (convert_loop (the pStr) strLength 0 0))"

text \<open>The inner loop of the search compares before it tests the length.\<close>

function match_length :: "string \<Rightarrow> string \<Rightarrow> nat \<Rightarrow> nat \<Rightarrow> nat option" where
  "match_length str pattern patternLength checked =
     (case (mem_read str checked, mem_read pattern checked) of
        (Some a, Some b) \<Rightarrow>
          if a = b \<and> checked < patternLength then match_length str pattern patternLength (checked + 1)
          else Some checked
      | _ \<Rightarrow> None)"
  by pat_completeness auto

termination
  by (relation "measure (\<lambda>(s, p, n, k). n - k)") auto

declare match_length.simps [simp del]

text \<open>\<open>n\<close> is the number of further positions to try from position \<open>i\<close> on.\<close>

fun strstr_loop :: "string \<Rightarrow> string \<Rightarrow> nat \<Rightarrow> nat \<Rightarrow> nat \<Rightarrow> nat option option" where
  "strstr_loop str pattern patternLength i 0 = Some None"
| "strstr_loop str pattern patternLength i (Suc n) =
     (case match_length (drop i str) pattern patternLength 0 of
        None \<Rightarrow> None
      | Some k \<Rightarrow>
          if k = patternLength then Some (Some i)
          else strstr_loop str pattern patternLength (i + 1) n)"

text \<open>The result is the offset of the returned pointer, \<open>Some None\<close> for NULL.\<close>

definition StringUtils_StrStr ::
    "string option \<Rightarrow> nat \<Rightarrow> string option \<Rightarrow> nat \<Rightarrow> nat option option" where
  "StringUtils_StrStr pStr strLength pPattern patternLength =
     (if pPattern = None \<or> patternLength = 0 then Some (map_option (\<lambda>_. 0) pStr)
      else if pStr \<noteq> None \<and> patternLength \<le> strLength
      then strstr_loop (the pStr) (the pPattern) patternLength 0 (strLength - patternLength + 1)
      else Some None)"

section \<open>Decimal numbers\<close>

definition dec_value :: "string \<Rightarrow> nat" where
  "dec_value = foldl (\<lambda>v c. v * 10 + digit_value c) 0"

lemma is_digit_not_NUL [simp]: "is_digit c \<Longrightarrow> c \<noteq> NUL"
  by (auto simp: is_digit_def)

lemma convert_loop_digits:
  assumes "\<forall>c \<in> set ds. is_digit c" and "i + length ds \<le> n" and "ds \<noteq> [] \<or> 0 < i"
    and stop: "i + length ds = n \<or> rest \<noteq> [] \<and> \<not> is_digit (hd rest)" and mem: "rest \<noteq> []"
  shows "convert_loop (ds @ rest) n i (of_nat v) =
     Some (STRING_UTILS_RESULT_OK, of_nat (foldl (\<lambda>v c. v * 10 + digit_value c) v ds))"
  using assms(1-4)
proof (induction ds arbitrary: i v)
  case Nil
  with mem show ?case by (cases rest) auto
next
  case (Cons d ds)
  have "convert_loop (ds @ rest) n (i + 1) (of_nat (v * 10 + digit_value d)) =
      Some (STRING_UTILS_RESULT_OK, of_nat (foldl (\<lambda>v c. v * 10 + digit_value c) (v * 10 + digit_value d) ds))"
    by (rule Cons.IH) (use Cons.prems in simp_all)
  with Cons.prems(1,2) show ?case by simp
qed

text \<open>A run of digits that ends at the length or before another character is converted to its
  value, modulo the width.\<close>

lemma ConvertStringToUl_digits:
  assumes "ds \<noteq> []" and "\<forall>c \<in> set ds. is_digit c" and "rest \<noteq> []"
    and "length ds = n \<or> length ds < n \<and> \<not> is_digit (hd rest)"
  shows "StringUtils_ConvertStringToUl (Some (ds @ rest)) n True
     = Some (STRING_UTILS_RESULT_OK, Some (of_nat (dec_value ds)))"
  using convert_loop_digits [of ds 0 n rest 0] assms
  by (auto simp: StringUtils_ConvertStringToUl_def dec_value_def)

lemma convert_loop_readable: "n < i + length mem \<Longrightarrow> i \<le> n \<Longrightarrow> \<exists>r v. convert_loop mem n i acc = Some (r, v)"
  by (induction mem n i acc rule: convert_loop.induct) auto

lemma ConvertStringToUl_readable:
  "n < length mem \<Longrightarrow> \<exists>r v. StringUtils_ConvertStringToUl (Some mem) n True = Some (r, v)"
  using convert_loop_readable [of n 0 mem 0] by (auto simp: StringUtils_ConvertStringToUl_def)

text \<open>The decimal notation of a number, as \<open>%u\<close> and \<open>%d\<close> print a non-negative one.\<close>

fun show_nat :: "nat \<Rightarrow> string" where
  "show_nat n = (if n < 10 then [char_of (48 + n)] else show_nat (n div 10) @ [char_of (48 + n mod 10)])"

declare show_nat.simps [simp del]

lemma digit_char [simp]: "d < 10 \<Longrightarrow> is_digit (char_of (48 + d))" "d < 10 \<Longrightarrow> digit_value (char_of (48 + d)) = d"
  by (simp_all add: is_digit_def digit_value_def)

lemma show_nat_digits: "c \<in> set (show_nat n) \<Longrightarrow> is_digit c"
  by (induction n rule: show_nat.induct) (subst (asm) (2) show_nat.simps, auto split: if_splits)

lemma show_nat_nonempty [simp]: "show_nat n \<noteq> []"
  by (subst show_nat.simps) simp

lemma dec_value_show_nat [simp]: "dec_value (show_nat n) = n"
proof (induction n rule: show_nat.induct)
  case (1 n)
  then show ?case by (subst show_nat.simps) (auto simp: dec_value_def)
qed

section \<open>Search\<close>

lemma match_length_prefix:
  assumes "k \<le> length p" and "take k s = take k p" and "length p \<le> length s" and "extra \<noteq> []" and "extra' \<noteq> []"
  shows "\<exists>j. match_length (s @ extra) (p @ extra') (length p) k = Some j \<and>
     (j = length p \<longleftrightarrow> take (length p) s = p)"
  using assms(1,2)
proof (induction "length p - k" arbitrary: k)
  case 0
  then have k: "k = length p" by simp
  have "k < length (s @ extra)" "k < length (p @ extra')" using assms k by (auto simp: less_le)
  with k "0.prems" show ?case by (subst match_length.simps) (auto simp: mem_read_def)
next
  case (Suc m)
  then have k: "k < length p" by simp
  then have rs: "mem_read (s @ extra) k = Some (s ! k)" "mem_read (p @ extra') k = Some (p ! k)"
    using assms(3) by (auto simp: mem_read_def nth_append)
  show ?case
  proof (cases "s ! k = p ! k")
    case True
    with Suc.prems k assms(3) have "take (k + 1) s = take (k + 1) p"
      by (simp add: take_Suc_conv_app_nth)
    with Suc.hyps(1) [of "k + 1"] Suc.hyps(2) k rs True show ?thesis
      by (subst match_length.simps) auto
  next
    case False
    with k assms(3) have "take (length p) s \<noteq> p" by (metis nth_take)
    with k rs False show ?thesis by (subst match_length.simps) auto
  qed
qed

definition occurs_at :: "'a list \<Rightarrow> 'a list \<Rightarrow> nat \<Rightarrow> bool" where
  "occurs_at s p i \<longleftrightarrow> i + length p \<le> length s \<and> take (length p) (drop i s) = p"

lemma strstr_loop_spec:
  assumes "extra \<noteq> []" and "extra' \<noteq> []" and "i + n + length p = length s + 1"
  shows "strstr_loop (s @ extra) (p @ extra') (length p) i n =
     Some (if \<exists>j \<ge> i. occurs_at s p j then Some (LEAST j. i \<le> j \<and> occurs_at s p j) else None)"
  using assms(3)
proof (induction n arbitrary: i)
  case 0
  then have "\<not> (\<exists>j \<ge> i. occurs_at s p j)" by (auto simp: occurs_at_def)
  then show ?case by simp
next
  case (Suc n)
  from Suc.prems have le: "i + length p \<le> length s" "length p \<le> length s - i" by simp_all
  then obtain k where k: "match_length (drop i (s @ extra)) (p @ extra') (length p) 0 = Some k"
    "k = length p \<longleftrightarrow> occurs_at s p i"
    using match_length_prefix [of 0 p "drop i s" extra extra'] assms(1,2) by (auto simp: occurs_at_def)
  show ?case
  proof (cases "occurs_at s p i")
    case True
    then have "(LEAST j. i \<le> j \<and> occurs_at s p j) = i" by (intro Least_equality) auto
    with True k show ?thesis by auto
  next
    case False
    then have "(i \<le> j \<and> occurs_at s p j) = (i + 1 \<le> j \<and> occurs_at s p j)" for j
      by (cases "j = i") auto
    with Suc.IH [of "i + 1"] Suc.prems False k show ?thesis by simp
  qed
qed

section \<open>Properties\<close>

text \<open>Equivalence with the specification of a substring search.  On a string and a pattern
  that are each followed by at least one readable character, \<open>StringUtils_StrStr\<close> returns the
  first position at which the pattern occurs, and NULL when there is none.\<close>

theorem StrStr_first_occurrence:
  assumes "p \<noteq> []" and "extra \<noteq> []" and "extra' \<noteq> []"
  shows "StringUtils_StrStr (Some (s @ extra)) (length s) (Some (p @ extra')) (length p) =
     Some (if \<exists>i. occurs_at s p i then Some (LEAST i. occurs_at s p i) else None)"
proof (cases "length p \<le> length s")
  case True
  with strstr_loop_spec [OF assms(2,3), of 0 "length s - length p + 1" p s] assms(1) show ?thesis
    by (simp add: StringUtils_StrStr_def)
next
  case False
  then have "\<not> (\<exists>i. occurs_at s p i)" by (auto simp: occurs_at_def)
  with False assms(1) show ?thesis by (simp add: StringUtils_StrStr_def)
qed

theorem StrStr_first_occurrence_witness:
  "StringUtils_StrStr (Some (''abcbc'' @ [NUL])) (length ''abcbc'') (Some (''bc'' @ [NUL])) (length ''bc'')
     = Some (if \<exists>i. occurs_at ''abcbc'' ''bc'' i then Some (LEAST i. occurs_at ''abcbc'' ''bc'' i) else None)"
  by (rule StrStr_first_occurrence) simp_all

end
