(* ===== verification/Ice_Data.thy ===== *)
theory Ice_Data
  imports String_Utils
begin

text \<open>
  The data of the ICE controller, \<open>ice_controller/ice_controller_data_types.h\<close>, and what it uses of
  the ICE library's types.  A pointer to a candidate, to a candidate pair, to a socket context
  or to an ICE server is the index in the array it points into.
\<close>

section \<open>Results and states\<close>

datatype (plugins only:) IceControllerResult =
    ICE_CONTROLLER_RESULT_OK
  | ICE_CONTROLLER_RESULT_FOUND_CONNECTION
  | ICE_CONTROLLER_RESULT_CONNECTION_IN_PROGRESS
  | ICE_CONTROLLER_RESULT_CONNECTION_CLOSED
  | ICE_CONTROLLER_RESULT_CONTEXT_ALREADY_CLOSED
  | ICE_CONTROLLER_RESULT_NOT_STUN_PACKET
  | ICE_CONTROLLER_RESULT_CONNECTIVITY_CHECK_TIMEOUT
  | ICE_CONTROLLER_RESULT_BAD_PARAMETER
  | ICE_CONTROLLER_RESULT_IPV6_NOT_SUPPORT
  | ICE_CONTROLLER_RESULT_IP_BUFFER_TOO_SMALL
  | ICE_CONTROLLER_RESULT_CANDIDATE_SEND_FAIL
  | ICE_CONTROLLER_RESULT_INVALID_IP_ADDR
  | ICE_CONTROLLER_RESULT_INVALID_JSON
  | ICE_CONTROLLER_RESULT_INVALID_PROTOCOL
  | ICE_CONTROLLER_RESULT_INVALID_PACKET
  | ICE_CONTROLLER_RESULT_FAIL_CREATE_ICE_AGENT
  | ICE_CONTROLLER_RESULT_FAIL_SOCKET_CREATE
  | ICE_CONTROLLER_RESULT_FAIL_SOCKET_BIND
  | ICE_CONTROLLER_RESULT_FAIL_SOCKET_CONNECT
  | ICE_CONTROLLER_RESULT_FAIL_SOCKET_NTOP
  | ICE_CONTROLLER_RESULT_FAIL_SOCKET_TYPE
  | ICE_CONTROLLER_RESULT_FAIL_SOCKET_GETSOCKNAME
  | ICE_CONTROLLER_RESULT_FAIL_SOCKET_SENDTO
  | ICE_CONTROLLER_RESULT_FAIL_ADD_HOST_CANDIDATE
  | ICE_CONTROLLER_RESULT_FAIL_ADD_RELAY_CANDIDATE
  | ICE_CONTROLLER_RESULT_FAIL_ADD_REMOTE_CANDIDATE
  | ICE_CONTROLLER_RESULT_FAIL_ADD_IPv6_REMOTE_CANDIDATE
  | ICE_CONTROLLER_RESULT_FAIL_ADD_NON_UDP_REMOTE_CANDIDATE
  | ICE_CONTROLLER_RESULT_FAIL_ADD_CANDIDATE_TYPE
  | ICE_CONTROLLER_RESULT_FAIL_TIMER_INIT
  | ICE_CONTROLLER_RESULT_FAIL_DNS_QUERY
  | ICE_CONTROLLER_RESULT_FAIL_SET_CONNECTIVITY_CHECK_TIMER
  | ICE_CONTROLLER_RESULT_FAIL_QUERY_CANDIDATE_PAIR_COUNT
  | ICE_CONTROLLER_RESULT_FAIL_QUERY_LOCAL_CANDIDATE_COUNT
  | ICE_CONTROLLER_RESULT_FAIL_MUTEX_CREATE
  | ICE_CONTROLLER_RESULT_FAIL_MUTEX_TAKE
  | ICE_CONTROLLER_RESULT_FAIL_CONNECTION_NOT_READY
  | ICE_CONTROLLER_RESULT_FAIL_CREATE_TURN_CHANNEL_DATA
  | ICE_CONTROLLER_RESULT_FAIL_SEND_BIND_RESPONSE
  | ICE_CONTROLLER_RESULT_FAIL_SEND_NOMINATION_REQUEST
  | ICE_CONTROLLER_RESULT_FAIL_FIND_SOCKET_CONTEXT
  | ICE_CONTROLLER_RESULT_FAIL_FIND_NOMINATED_CONTEXT
  | ICE_CONTROLLER_RESULT_FAIL_SOCKET_CONTEXT_ALREADY_CLOSED
  | ICE_CONTROLLER_RESULT_FAIL_EXCEED_MTU
  | ICE_CONTROLLER_RESULT_FAIL_CREATE_NEXT_PAIR_REQUEST
  | ICE_CONTROLLER_RESULT_NO_SOCKET_CONTEXT_AVAILABLE
  | ICE_CONTROLLER_RESULT_JSON_CANDIDATE_NOT_FOUND
  | ICE_CONTROLLER_RESULT_JSON_CANDIDATE_INVALID_PRIORITY
  | ICE_CONTROLLER_RESULT_JSON_CANDIDATE_INVALID_PROTOCOL
  | ICE_CONTROLLER_RESULT_JSON_CANDIDATE_INVALID_PORT
  | ICE_CONTROLLER_RESULT_JSON_CANDIDATE_INVALID_TYPE_ID
  | ICE_CONTROLLER_RESULT_JSON_CANDIDATE_INVALID_TYPE
  | ICE_CONTROLLER_RESULT_JSON_CANDIDATE_LACK_OF_ELEMENT

text \<open>The value a result code has in C, and the codes in the order of the enumeration; comparing
  the values makes equality executable.\<close>

primrec ice_result_code :: "IceControllerResult \<Rightarrow> nat" where
  "ice_result_code ICE_CONTROLLER_RESULT_OK = 0"
| "ice_result_code ICE_CONTROLLER_RESULT_FOUND_CONNECTION = 1"
| "ice_result_code ICE_CONTROLLER_RESULT_CONNECTION_IN_PROGRESS = 2"
| "ice_result_code ICE_CONTROLLER_RESULT_CONNECTION_CLOSED = 3"
| "ice_result_code ICE_CONTROLLER_RESULT_CONTEXT_ALREADY_CLOSED = 4"
| "ice_result_code ICE_CONTROLLER_RESULT_NOT_STUN_PACKET = 5"
| "ice_result_code ICE_CONTROLLER_RESULT_CONNECTIVITY_CHECK_TIMEOUT = 6"
| "ice_result_code ICE_CONTROLLER_RESULT_BAD_PARAMETER = 7"
| "ice_result_code ICE_CONTROLLER_RESULT_IPV6_NOT_SUPPORT = 8"
| "ice_result_code ICE_CONTROLLER_RESULT_IP_BUFFER_TOO_SMALL = 9"
| "ice_result_code ICE_CONTROLLER_RESULT_CANDIDATE_SEND_FAIL = 10"
| "ice_result_code ICE_CONTROLLER_RESULT_INVALID_IP_ADDR = 11"
| "ice_result_code ICE_CONTROLLER_RESULT_INVALID_JSON = 12"
| "ice_result_code ICE_CONTROLLER_RESULT_INVALID_PROTOCOL = 13"
| "ice_result_code ICE_CONTROLLER_RESULT_INVALID_PACKET = 14"
| "ice_result_code ICE_CONTROLLER_RESULT_FAIL_CREATE_ICE_AGENT = 15"
| "ice_result_code ICE_CONTROLLER_RESULT_FAIL_SOCKET_CREATE = 16"
| "ice_result_code ICE_CONTROLLER_RESULT_FAIL_SOCKET_BIND = 17"
| "ice_result_code ICE_CONTROLLER_RESULT_FAIL_SOCKET_CONNECT = 18"
| "ice_result_code ICE_CONTROLLER_RESULT_FAIL_SOCKET_NTOP = 19"
| "ice_result_code ICE_CONTROLLER_RESULT_FAIL_SOCKET_TYPE = 20"
| "ice_result_code ICE_CONTROLLER_RESULT_FAIL_SOCKET_GETSOCKNAME = 21"
| "ice_result_code ICE_CONTROLLER_RESULT_FAIL_SOCKET_SENDTO = 22"
| "ice_result_code ICE_CONTROLLER_RESULT_FAIL_ADD_HOST_CANDIDATE = 23"
| "ice_result_code ICE_CONTROLLER_RESULT_FAIL_ADD_RELAY_CANDIDATE = 24"
| "ice_result_code ICE_CONTROLLER_RESULT_FAIL_ADD_REMOTE_CANDIDATE = 25"
| "ice_result_code ICE_CONTROLLER_RESULT_FAIL_ADD_IPv6_REMOTE_CANDIDATE = 26"
| "ice_result_code ICE_CONTROLLER_RESULT_FAIL_ADD_NON_UDP_REMOTE_CANDIDATE = 27"
| "ice_result_code ICE_CONTROLLER_RESULT_FAIL_ADD_CANDIDATE_TYPE = 28"
| "ice_result_code ICE_CONTROLLER_RESULT_FAIL_TIMER_INIT = 29"
| "ice_result_code ICE_CONTROLLER_RESULT_FAIL_DNS_QUERY = 30"
| "ice_result_code ICE_CONTROLLER_RESULT_FAIL_SET_CONNECTIVITY_CHECK_TIMER = 31"
| "ice_result_code ICE_CONTROLLER_RESULT_FAIL_QUERY_CANDIDATE_PAIR_COUNT = 32"
| "ice_result_code ICE_CONTROLLER_RESULT_FAIL_QUERY_LOCAL_CANDIDATE_COUNT = 33"
| "ice_result_code ICE_CONTROLLER_RESULT_FAIL_MUTEX_CREATE = 34"
| "ice_result_code ICE_CONTROLLER_RESULT_FAIL_MUTEX_TAKE = 35"
| "ice_result_code ICE_CONTROLLER_RESULT_FAIL_CONNECTION_NOT_READY = 36"
| "ice_result_code ICE_CONTROLLER_RESULT_FAIL_CREATE_TURN_CHANNEL_DATA = 37"
| "ice_result_code ICE_CONTROLLER_RESULT_FAIL_SEND_BIND_RESPONSE = 38"
| "ice_result_code ICE_CONTROLLER_RESULT_FAIL_SEND_NOMINATION_REQUEST = 39"
| "ice_result_code ICE_CONTROLLER_RESULT_FAIL_FIND_SOCKET_CONTEXT = 40"
| "ice_result_code ICE_CONTROLLER_RESULT_FAIL_FIND_NOMINATED_CONTEXT = 41"
| "ice_result_code ICE_CONTROLLER_RESULT_FAIL_SOCKET_CONTEXT_ALREADY_CLOSED = 42"
| "ice_result_code ICE_CONTROLLER_RESULT_FAIL_EXCEED_MTU = 43"
| "ice_result_code ICE_CONTROLLER_RESULT_FAIL_CREATE_NEXT_PAIR_REQUEST = 44"
| "ice_result_code ICE_CONTROLLER_RESULT_NO_SOCKET_CONTEXT_AVAILABLE = 45"
| "ice_result_code ICE_CONTROLLER_RESULT_JSON_CANDIDATE_NOT_FOUND = 46"
| "ice_result_code ICE_CONTROLLER_RESULT_JSON_CANDIDATE_INVALID_PRIORITY = 47"
| "ice_result_code ICE_CONTROLLER_RESULT_JSON_CANDIDATE_INVALID_PROTOCOL = 48"
| "ice_result_code ICE_CONTROLLER_RESULT_JSON_CANDIDATE_INVALID_PORT = 49"
| "ice_result_code ICE_CONTROLLER_RESULT_JSON_CANDIDATE_INVALID_TYPE_ID = 50"
| "ice_result_code ICE_CONTROLLER_RESULT_JSON_CANDIDATE_INVALID_TYPE = 51"
| "ice_result_code ICE_CONTROLLER_RESULT_JSON_CANDIDATE_LACK_OF_ELEMENT = 52"

definition ice_result_codes :: "IceControllerResult list" where
  "ice_result_codes =
     [ICE_CONTROLLER_RESULT_OK,
      ICE_CONTROLLER_RESULT_FOUND_CONNECTION,
      ICE_CONTROLLER_RESULT_CONNECTION_IN_PROGRESS,
      ICE_CONTROLLER_RESULT_CONNECTION_CLOSED,
      ICE_CONTROLLER_RESULT_CONTEXT_ALREADY_CLOSED,
      ICE_CONTROLLER_RESULT_NOT_STUN_PACKET,
      ICE_CONTROLLER_RESULT_CONNECTIVITY_CHECK_TIMEOUT,
      ICE_CONTROLLER_RESULT_BAD_PARAMETER,
      ICE_CONTROLLER_RESULT_IPV6_NOT_SUPPORT,
      ICE_CONTROLLER_RESULT_IP_BUFFER_TOO_SMALL,
      ICE_CONTROLLER_RESULT_CANDIDATE_SEND_FAIL,
      ICE_CONTROLLER_RESULT_INVALID_IP_ADDR,
      ICE_CONTROLLER_RESULT_INVALID_JSON,
      ICE_CONTROLLER_RESULT_INVALID_PROTOCOL,
      ICE_CONTROLLER_RESULT_INVALID_PACKET,
      ICE_CONTROLLER_RESULT_FAIL_CREATE_ICE_AGENT,
      ICE_CONTROLLER_RESULT_FAIL_SOCKET_CREATE,
      ICE_CONTROLLER_RESULT_FAIL_SOCKET_BIND,
      ICE_CONTROLLER_RESULT_FAIL_SOCKET_CONNECT,
      ICE_CONTROLLER_RESULT_FAIL_SOCKET_NTOP,
      ICE_CONTROLLER_RESULT_FAIL_SOCKET_TYPE,
      ICE_CONTROLLER_RESULT_FAIL_SOCKET_GETSOCKNAME,
      ICE_CONTROLLER_RESULT_FAIL_SOCKET_SENDTO,
      ICE_CONTROLLER_RESULT_FAIL_ADD_HOST_CANDIDATE,
      ICE_CONTROLLER_RESULT_FAIL_ADD_RELAY_CANDIDATE,
      ICE_CONTROLLER_RESULT_FAIL_ADD_REMOTE_CANDIDATE,
      ICE_CONTROLLER_RESULT_FAIL_ADD_IPv6_REMOTE_CANDIDATE,
      ICE_CONTROLLER_RESULT_FAIL_ADD_NON_UDP_REMOTE_CANDIDATE,
      ICE_CONTROLLER_RESULT_FAIL_ADD_CANDIDATE_TYPE,
      ICE_CONTROLLER_RESULT_FAIL_TIMER_INIT,
      ICE_CONTROLLER_RESULT_FAIL_DNS_QUERY,
      ICE_CONTROLLER_RESULT_FAIL_SET_CONNECTIVITY_CHECK_TIMER,
      ICE_CONTROLLER_RESULT_FAIL_QUERY_CANDIDATE_PAIR_COUNT,
      ICE_CONTROLLER_RESULT_FAIL_QUERY_LOCAL_CANDIDATE_COUNT,
      ICE_CONTROLLER_RESULT_FAIL_MUTEX_CREATE,
      ICE_CONTROLLER_RESULT_FAIL_MUTEX_TAKE,
      ICE_CONTROLLER_RESULT_FAIL_CONNECTION_NOT_READY,
      ICE_CONTROLLER_RESULT_FAIL_CREATE_TURN_CHANNEL_DATA,
      ICE_CONTROLLER_RESULT_FAIL_SEND_BIND_RESPONSE,
      ICE_CONTROLLER_RESULT_FAIL_SEND_NOMINATION_REQUEST,
      ICE_CONTROLLER_RESULT_FAIL_FIND_SOCKET_CONTEXT,
      ICE_CONTROLLER_RESULT_FAIL_FIND_NOMINATED_CONTEXT,
      ICE_CONTROLLER_RESULT_FAIL_SOCKET_CONTEXT_ALREADY_CLOSED,
      ICE_CONTROLLER_RESULT_FAIL_EXCEED_MTU,
      ICE_CONTROLLER_RESULT_FAIL_CREATE_NEXT_PAIR_REQUEST,
      ICE_CONTROLLER_RESULT_NO_SOCKET_CONTEXT_AVAILABLE,
      ICE_CONTROLLER_RESULT_JSON_CANDIDATE_NOT_FOUND,
      ICE_CONTROLLER_RESULT_JSON_CANDIDATE_INVALID_PRIORITY,
      ICE_CONTROLLER_RESULT_JSON_CANDIDATE_INVALID_PROTOCOL,
      ICE_CONTROLLER_RESULT_JSON_CANDIDATE_INVALID_PORT,
      ICE_CONTROLLER_RESULT_JSON_CANDIDATE_INVALID_TYPE_ID,
      ICE_CONTROLLER_RESULT_JSON_CANDIDATE_INVALID_TYPE,
      ICE_CONTROLLER_RESULT_JSON_CANDIDATE_LACK_OF_ELEMENT]"

lemma ice_result_codes_nth: "ice_result_codes ! ice_result_code r = r"
  by (cases r) (simp_all add: ice_result_codes_def)

lemma ice_result_code_inject: "ice_result_code a = ice_result_code b \<longleftrightarrow> a = b"
  by (metis ice_result_codes_nth)

instantiation IceControllerResult :: equal
begin

definition equal_IceControllerResult :: "IceControllerResult \<Rightarrow> IceControllerResult \<Rightarrow> bool" where
  "equal_IceControllerResult a b \<longleftrightarrow> ice_result_code a = ice_result_code b"

instance
  by standard (simp add: equal_IceControllerResult_def ice_result_code_inject)

end

datatype IceControllerState =
    ICE_CONTROLLER_STATE_NONE
  | ICE_CONTROLLER_STATE_NEW
  | ICE_CONTROLLER_STATE_PROCESS_CANDIDATES_AND_PAIRS
  | ICE_CONTROLLER_STATE_NOMINATING
  | ICE_CONTROLLER_STATE_READY
  | ICE_CONTROLLER_STATE_CLOSING
  | ICE_CONTROLLER_STATE_CLOSED

datatype IceControllerSocketContextState =
    ICE_CONTROLLER_SOCKET_CONTEXT_STATE_NONE
  | ICE_CONTROLLER_SOCKET_CONTEXT_STATE_CONNECTION_IN_PROGRESS
  | ICE_CONTROLLER_SOCKET_CONTEXT_STATE_CREATE
  | ICE_CONTROLLER_SOCKET_CONTEXT_STATE_READY
  | ICE_CONTROLLER_SOCKET_CONTEXT_STATE_SELECTED

datatype IceControllerSocketType =
    ICE_CONTROLLER_SOCKET_TYPE_NONE
  | ICE_CONTROLLER_SOCKET_TYPE_TCP
  | ICE_CONTROLLER_SOCKET_TYPE_TLS
  | ICE_CONTROLLER_SOCKET_TYPE_UDP
  | ICE_CONTROLLER_SOCKET_TYPE_DTLS

datatype IceControllerIceServerType =
    ICE_CONTROLLER_ICE_SERVER_TYPE_NONE
  | ICE_CONTROLLER_ICE_SERVER_TYPE_STUN
  | ICE_CONTROLLER_ICE_SERVER_TYPE_TURN
  | ICE_CONTROLLER_ICE_SERVER_TYPE_TURNS

datatype IceControllerCallbackEvent =
    ICE_CONTROLLER_CB_EVENT_NONE
  | ICE_CONTROLLER_CB_EVENT_LOCAL_CANDIDATE_READY
  | ICE_CONTROLLER_CB_EVENT_PROCESS_ICE_CANDIDATES_AND_PAIRS
  | ICE_CONTROLLER_CB_EVENT_PEER_TO_PEER_CONNECTION_FOUND
  | ICE_CONTROLLER_CB_EVENT_PERIODIC_CONNECTION_CHECK
  | ICE_CONTROLLER_CB_EVENT_ICE_CLOSING
  | ICE_CONTROLLER_CB_EVENT_ICE_CLOSED
  | ICE_CONTROLLER_CB_EVENT_ICE_CLOSE_NOTIFY
  | ICE_CONTROLLER_CB_EVENT_MAX

section \<open>Endpoints and candidates\<close>

text \<open>The library's enumerations; a value that is none of the named ones is \<open>..._OTHER\<close>.\<close>

datatype stun_family = STUN_ADDRESS_IPv4 | STUN_ADDRESS_IPv6 | STUN_ADDRESS_OTHER

datatype IceCandidateType =
    ICE_CANDIDATE_TYPE_HOST
  | ICE_CANDIDATE_TYPE_PEER_REFLEXIVE
  | ICE_CANDIDATE_TYPE_SERVER_REFLEXIVE
  | ICE_CANDIDATE_TYPE_RELAY
  | ICE_CANDIDATE_TYPE_OTHER

datatype IceSocketProtocol = ICE_SOCKET_PROTOCOL_NONE | ICE_SOCKET_PROTOCOL_UDP | ICE_SOCKET_PROTOCOL_TCP

record IceEndpoint =
  epFamily :: stun_family
  epPort :: u16
  epAddress :: bytes
  isPointToPoint :: bool

record IceControllerCandidate =
  protocol :: IceSocketProtocol
  priority :: u32
  iceEndpoint :: IceEndpoint
  candidateType :: IceCandidateType

record IceControllerIceServer =
  serverType :: IceControllerIceServerType
  url :: string
  serverEndpoint :: IceEndpoint
  userName :: string
  password :: string
  serverProtocol :: IceSocketProtocol

end
