(* ===== verification/Ice_Candidate.thy ===== *)
theory Ice_Candidate
  imports Ice_Data
begin

text \<open>
  Candidate strings: how a remote candidate is parsed (\<open>IceController_DeserializeIceCandidate\<close> of
  \<open>ice_controller/ice_controller.c\<close>, \<open>IceControllerNet_ConvertIpString\<close> of \<open>ice_controller_net.c\<close>) and
  how a local one is printed (\<open>HandleLocalCandidateReady\<close> of \<open>app_common/app_common.c\<close>).
  coreJSON and \<open>inet_pton\<close> are arguments.
\<close>

section \<open>Comparison of a token\<close>

text \<open>\<open>strncmp( p, literal, n ) == 0\<close> where the first argument holds the \<open>n\<close> characters from \<open>p\<close>.\<close>

fun strncmp_eq :: "string \<Rightarrow> string \<Rightarrow> bool" where
  "strncmp_eq [] lit = True"
| "strncmp_eq (c # cs) [] = (c = NUL)"
| "strncmp_eq (c # cs) (d # ds) = (c = d \<and> (c = NUL \<or> strncmp_eq cs ds))"

section \<open>Parsing\<close>

record inet_lib =
  inetPton4 :: "string \<Rightarrow> bytes option"
  inetPton6 :: "string \<Rightarrow> bytes option"

definition ICE_CONTROLLER_IP_ADDR_STRING_BUFFER_LENGTH :: nat where
  "ICE_CONTROLLER_IP_ADDR_STRING_BUFFER_LENGTH = 39"

text \<open>The conversions see the characters before the first NUL; on success they overwrite the first
  4 or 16 bytes of the address.\<close>

definition IceControllerNet_ConvertIpString ::
    "inet_lib \<Rightarrow> string \<Rightarrow> IceEndpoint \<Rightarrow> IceControllerResult \<times> IceEndpoint" where
  "IceControllerNet_ConvertIpString lib ip ep =
     (if length ip > ICE_CONTROLLER_IP_ADDR_STRING_BUFFER_LENGTH
      then (ICE_CONTROLLER_RESULT_IP_BUFFER_TOO_SMALL, ep)
      else
        (let s = takeWhile (\<lambda>c. c \<noteq> NUL) ip
         in (case inetPton4 lib s of
               Some a \<Rightarrow> (ICE_CONTROLLER_RESULT_OK,
                  ep\<lparr>epAddress := a @ drop (length a) (epAddress ep), epFamily := STUN_ADDRESS_IPv4\<rparr>)
             | None \<Rightarrow>
                 (case inetPton6 lib s of
                    Some a \<Rightarrow> (ICE_CONTROLLER_RESULT_OK,
                      ep\<lparr>epAddress := a @ drop (length a) (epAddress ep), epFamily := STUN_ADDRESS_IPv6\<rparr>)
                  | None \<Rightarrow> (ICE_CONTROLLER_RESULT_INVALID_IP_ADDR, ep)))))"

text \<open>\<open>json msg\<close> is what \<open>JSON_Validate\<close> and \<open>JSON_Iterate\<close> give: \<open>None\<close> for an invalid message,
  otherwise the pairs in order, each value with the memory behind it.\<close>

type_synonym json_lib = "string \<Rightarrow> (string \<times> string \<times> string) list option"

definition parseIceCandidate :: "json_lib \<Rightarrow> string \<Rightarrow> IceControllerResult + (string \<times> string)" where
  "parseIceCandidate json msg =
     (case json msg of
        None \<Rightarrow> Inl ICE_CONTROLLER_RESULT_INVALID_JSON
      | Some pairs \<Rightarrow>
          (case find (\<lambda>(key, _). key = ''candidate'') pairs of
             None \<Rightarrow> Inl ICE_CONTROLLER_RESULT_JSON_CANDIDATE_NOT_FOUND
           | Some (_, value) \<Rightarrow> Inr value))"

datatype IceControllerCandidateDeserializerState =
    ICE_CONTROLLER_CANDIDATE_DESERIALIZER_STATE_FOUNDATION
  | ICE_CONTROLLER_CANDIDATE_DESERIALIZER_STATE_COMPONENT
  | ICE_CONTROLLER_CANDIDATE_DESERIALIZER_STATE_PROTOCOL
  | ICE_CONTROLLER_CANDIDATE_DESERIALIZER_STATE_PRIORITY
  | ICE_CONTROLLER_CANDIDATE_DESERIALIZER_STATE_IP
  | ICE_CONTROLLER_CANDIDATE_DESERIALIZER_STATE_PORT
  | ICE_CONTROLLER_CANDIDATE_DESERIALIZER_STATE_TYPE_ID
  | ICE_CONTROLLER_CANDIDATE_DESERIALIZER_STATE_TYPE_VAL
  | ICE_CONTROLLER_CANDIDATE_DESERIALIZER_STATE_MAX

text \<open>\<open>deserializerState++\<close>; \<open>None\<close> is the value beyond \<open>MAX\<close>, at which the loop ends.\<close>

fun next_state ::
    "IceControllerCandidateDeserializerState \<Rightarrow> IceControllerCandidateDeserializerState option" where
  "next_state ICE_CONTROLLER_CANDIDATE_DESERIALIZER_STATE_FOUNDATION = Some ICE_CONTROLLER_CANDIDATE_DESERIALIZER_STATE_COMPONENT"
| "next_state ICE_CONTROLLER_CANDIDATE_DESERIALIZER_STATE_COMPONENT = Some ICE_CONTROLLER_CANDIDATE_DESERIALIZER_STATE_PROTOCOL"
| "next_state ICE_CONTROLLER_CANDIDATE_DESERIALIZER_STATE_PROTOCOL = Some ICE_CONTROLLER_CANDIDATE_DESERIALIZER_STATE_PRIORITY"
| "next_state ICE_CONTROLLER_CANDIDATE_DESERIALIZER_STATE_PRIORITY = Some ICE_CONTROLLER_CANDIDATE_DESERIALIZER_STATE_IP"
| "next_state ICE_CONTROLLER_CANDIDATE_DESERIALIZER_STATE_IP = Some ICE_CONTROLLER_CANDIDATE_DESERIALIZER_STATE_PORT"
| "next_state ICE_CONTROLLER_CANDIDATE_DESERIALIZER_STATE_PORT = Some ICE_CONTROLLER_CANDIDATE_DESERIALIZER_STATE_TYPE_ID"
| "next_state ICE_CONTROLLER_CANDIDATE_DESERIALIZER_STATE_TYPE_ID = Some ICE_CONTROLLER_CANDIDATE_DESERIALIZER_STATE_TYPE_VAL"
| "next_state ICE_CONTROLLER_CANDIDATE_DESERIALIZER_STATE_TYPE_VAL = Some ICE_CONTROLLER_CANDIDATE_DESERIALIZER_STATE_MAX"
| "next_state ICE_CONTROLLER_CANDIDATE_DESERIALIZER_STATE_MAX = None"

text \<open>The body of the \<open>switch\<close>: \<open>tok\<close> is the token and \<open>mem\<close> the memory from its first character on.\<close>

definition deserialize_protocol :: "string \<Rightarrow> IceControllerCandidate \<Rightarrow> IceControllerResult \<times> IceControllerCandidate" where
  "deserialize_protocol tok cand =
     (if strncmp_eq tok ''tcp'' \<or> strncmp_eq tok ''TCP''
      then (ICE_CONTROLLER_RESULT_OK, cand\<lparr>protocol := ICE_SOCKET_PROTOCOL_TCP\<rparr>)
      else if strncmp_eq tok ''udp'' \<or> strncmp_eq tok ''UDP''
      then (ICE_CONTROLLER_RESULT_OK, cand\<lparr>protocol := ICE_SOCKET_PROTOCOL_UDP\<rparr>)
      else (ICE_CONTROLLER_RESULT_JSON_CANDIDATE_INVALID_PROTOCOL, cand))"

definition deserialize_type :: "string \<Rightarrow> IceControllerCandidate \<Rightarrow> IceControllerResult \<times> IceControllerCandidate" where
  "deserialize_type tok cand =
     (if strncmp_eq tok ''host'' then (ICE_CONTROLLER_RESULT_OK, cand\<lparr>candidateType := ICE_CANDIDATE_TYPE_HOST\<rparr>)
      else if strncmp_eq tok ''srflx''
      then (ICE_CONTROLLER_RESULT_OK, cand\<lparr>candidateType := ICE_CANDIDATE_TYPE_SERVER_REFLEXIVE\<rparr>)
      else if strncmp_eq tok ''prflx''
      then (ICE_CONTROLLER_RESULT_OK, cand\<lparr>candidateType := ICE_CANDIDATE_TYPE_PEER_REFLEXIVE\<rparr>)
      else if strncmp_eq tok ''relay'' then (ICE_CONTROLLER_RESULT_OK, cand\<lparr>candidateType := ICE_CANDIDATE_TYPE_RELAY\<rparr>)
      else (ICE_CONTROLLER_RESULT_JSON_CANDIDATE_INVALID_TYPE, cand))"

definition deserialize_token ::
    "inet_lib \<Rightarrow> IceControllerCandidateDeserializerState \<Rightarrow> string \<Rightarrow> string \<Rightarrow> IceControllerCandidate
      \<Rightarrow> (IceControllerResult \<times> IceControllerCandidate) option" where
  "deserialize_token lib st tok mem cand =
     (case st of
        ICE_CONTROLLER_CANDIDATE_DESERIALIZER_STATE_PROTOCOL \<Rightarrow> Some (deserialize_protocol tok cand)
      | ICE_CONTROLLER_CANDIDATE_DESERIALIZER_STATE_PRIORITY \<Rightarrow>
          map_option
            (\<lambda>(r, v). if r = STRING_UTILS_RESULT_OK then (ICE_CONTROLLER_RESULT_OK, cand\<lparr>priority := the v\<rparr>)
                      else (ICE_CONTROLLER_RESULT_JSON_CANDIDATE_INVALID_PRIORITY, cand))
            (StringUtils_ConvertStringToUl (Some mem) (length tok) True)
      | ICE_CONTROLLER_CANDIDATE_DESERIALIZER_STATE_IP \<Rightarrow>
          (let (r, ep) = IceControllerNet_ConvertIpString lib tok (iceEndpoint cand)
           in Some (r, cand\<lparr>iceEndpoint := ep\<rparr>))
      | ICE_CONTROLLER_CANDIDATE_DESERIALIZER_STATE_PORT \<Rightarrow>
          map_option
            (\<lambda>(r, v). if r = STRING_UTILS_RESULT_OK
                      then (ICE_CONTROLLER_RESULT_OK, cand\<lparr>iceEndpoint := (iceEndpoint cand)\<lparr>epPort := ucast (the v)\<rparr>\<rparr>)
                      else (ICE_CONTROLLER_RESULT_JSON_CANDIDATE_INVALID_PORT, cand))
            (StringUtils_ConvertStringToUl (Some mem) (length tok) True)
      | ICE_CONTROLLER_CANDIDATE_DESERIALIZER_STATE_TYPE_ID \<Rightarrow>
          Some (if tok = ''typ'' then ICE_CONTROLLER_RESULT_OK
                else ICE_CONTROLLER_RESULT_JSON_CANDIDATE_INVALID_TYPE_ID, cand)
      | ICE_CONTROLLER_CANDIDATE_DESERIALIZER_STATE_TYPE_VAL \<Rightarrow> Some (deserialize_type tok cand)
      | _ \<Rightarrow> Some (ICE_CONTROLLER_RESULT_OK, cand))"

text \<open>The loop: \<open>cur\<close> is the text between \<open>pCurr\<close> and \<open>pTail\<close>, \<open>behind\<close> the memory behind \<open>pTail\<close>, and
  \<open>parsed\<close> is \<open>isAllElementsParsed\<close>.\<close>

function deserialize_loop ::
    "inet_lib \<Rightarrow> string \<Rightarrow> IceControllerCandidateDeserializerState option \<Rightarrow> string \<Rightarrow> IceControllerCandidate \<Rightarrow> bool
      \<Rightarrow> (IceControllerResult \<times> IceControllerCandidate \<times> bool) option" where
  "deserialize_loop lib behind state cur cand parsed =
     (if cur = [] \<or> state = None then Some (ICE_CONTROLLER_RESULT_OK, cand, parsed)
      else
        (let st = the state; tok = takeWhile (\<lambda>c. c \<noteq> CHR '' '') cur;
             parsed' = (parsed \<or> st = ICE_CONTROLLER_CANDIDATE_DESERIALIZER_STATE_TYPE_VAL)
         in (case deserialize_token lib st tok (cur @ behind) cand of
               None \<Rightarrow> None
             | Some (r, cand') \<Rightarrow>
                 if r = ICE_CONTROLLER_RESULT_OK
                 then deserialize_loop lib behind (next_state st) (drop (length tok + 1) cur) cand' parsed'
                 else Some (r, cand', parsed'))))"
  by pat_completeness auto

termination
  by (relation "measure (\<lambda>(l, b, s, cur, c, p). length cur)") (auto simp: length_greater_0_conv [symmetric] simp del: length_greater_0_conv)

declare deserialize_loop.simps [simp del]

definition IceController_DeserializeIceCandidate ::
    "inet_lib \<Rightarrow> json_lib \<Rightarrow> string option \<Rightarrow> string \<Rightarrow> IceControllerCandidate option
      \<Rightarrow> (IceControllerResult \<times> IceControllerCandidate option) option" where
  "IceController_DeserializeIceCandidate lib json pDecodeMessage behind pCandidate =
     (case (pDecodeMessage, pCandidate) of
        (Some msg, Some cand) \<Rightarrow>
          (let start = (case parseIceCandidate json msg of
                 Inl r \<Rightarrow> if r = ICE_CONTROLLER_RESULT_INVALID_JSON then Some (msg, behind) else None
               | Inr v \<Rightarrow> Some v)
           in (case start of
                 None \<Rightarrow> Some (ICE_CONTROLLER_RESULT_JSON_CANDIDATE_LACK_OF_ELEMENT, Some cand)
               | Some (cur, behind') \<Rightarrow>
                   map_option
                     (\<lambda>(r, cand', parsed).
                        (if parsed then r else ICE_CONTROLLER_RESULT_JSON_CANDIDATE_LACK_OF_ELEMENT, Some cand'))
                     (deserialize_loop lib behind' (Some ICE_CONTROLLER_CANDIDATE_DESERIALIZER_STATE_FOUNDATION)
                        cur cand False)))
      | _ \<Rightarrow> Some (ICE_CONTROLLER_RESULT_JSON_CANDIDATE_LACK_OF_ELEMENT, pCandidate))"

section \<open>Printing\<close>

fun GetCandidateTypeString :: "IceCandidateType \<Rightarrow> string" where
  "GetCandidateTypeString ICE_CANDIDATE_TYPE_HOST = ''host''"
| "GetCandidateTypeString ICE_CANDIDATE_TYPE_PEER_REFLEXIVE = ''prflx''"
| "GetCandidateTypeString ICE_CANDIDATE_TYPE_SERVER_REFLEXIVE = ''srflx''"
| "GetCandidateTypeString ICE_CANDIDATE_TYPE_RELAY = ''relay''"
| "GetCandidateTypeString ICE_CANDIDATE_TYPE_OTHER = ''unknown''"

definition show_quad :: "u8 \<Rightarrow> u8 \<Rightarrow> u8 \<Rightarrow> u8 \<Rightarrow> string" where
  "show_quad a b c d = show_nat (unat a) @ ''.'' @ show_nat (unat b) @ ''.'' @ show_nat (unat c) @ ''.'' @ show_nat (unat d)"

text \<open>The template \<open>DEMO_ICE_CANDIDATE_JSON_IPV4_TEMPLATE\<close>, filled in by \<open>HandleLocalCandidateReady\<close>.  The
  buffer of 512 characters holds the longest such string.\<close>

definition ipv4_candidate_string :: "nat \<Rightarrow> u32 \<Rightarrow> u8 \<Rightarrow> u8 \<Rightarrow> u8 \<Rightarrow> u8 \<Rightarrow> u16 \<Rightarrow> IceCandidateType \<Rightarrow> string" where
  "ipv4_candidate_string index prio a b c d port type =
     (''candidate:'' @ show_nat index) @ '' '' @ ''1'' @ '' '' @ ''udp'' @ '' '' @ show_nat (unat prio) @ '' ''
       @ show_quad a b c d @ '' '' @ show_nat (unat port) @ '' '' @ ''typ'' @ '' ''
       @ GetCandidateTypeString type @ '' '' @ ''raddr'' @ '' '' @ ''0.0.0.0 rport 0 generation 0 network-cost 999''"

end
