(* ===== verification/Ice_Candidate_Correct.thy ===== *)
theory Ice_Candidate_Correct
  imports Ice_Candidate
begin

text \<open>
  Correctness of the candidate strings: what one endpoint prints the other reads back, which error
  codes the parser can return, and which tokens it accepts.
\<close>

section \<open>Tokens\<close>

lemma deserialize_loop_token:
  assumes "CHR '' '' \<notin> set tok"
    and "deserialize_token lib st tok (tok @ '' '' @ cur @ behind) cand = Some (ICE_CONTROLLER_RESULT_OK, cand')"
  shows "deserialize_loop lib behind (Some st) (tok @ '' '' @ cur) cand parsed =
     deserialize_loop lib behind (next_state st) cur cand'
       (parsed \<or> st = ICE_CONTROLLER_CANDIDATE_DESERIALIZER_STATE_TYPE_VAL)"
proof -
  have tok: "takeWhile (\<lambda>c. c \<noteq> CHR '' '') (tok @ '' '' @ cur) = tok"
    using assms(1) by (auto simp: takeWhile_append)
  show ?thesis
    by (subst deserialize_loop.simps) (use assms(2) tok in \<open>simp add: Let_def\<close>)
qed

lemma deserialize_loop_end [simp]:
  "deserialize_loop lib behind None cur cand parsed = Some (ICE_CONTROLLER_RESULT_OK, cand, parsed)"
  by (subst deserialize_loop.simps) simp

lemma show_nat_no_char: "\<not> is_digit c \<Longrightarrow> c \<notin> set (show_nat n)"
  using show_nat_digits by blast

lemma is_digit_consts [simp]: "\<not> is_digit CHR '' ''" "\<not> is_digit NUL"
  by (simp_all add: is_digit_def)

lemma length_show_byte: "n < 256 \<Longrightarrow> length (show_nat n) \<le> 3"
  by (subst show_nat.simps, simp, subst show_nat.simps, simp, subst show_nat.simps) auto

lemma show_quad_chars: "c \<in> set (show_quad w x y z) \<Longrightarrow> is_digit c \<or> c = CHR ''.''"
  by (auto simp: show_quad_def dest: show_nat_digits)

lemma show_quad_no_space [simp]: "CHR '' '' \<notin> set (show_quad w x y z)"
  using show_quad_chars by fastforce

lemma takeWhile_show_quad [simp]: "takeWhile (\<lambda>c. c \<noteq> NUL) (show_quad w x y z) = show_quad w x y z"
  by (rule takeWhile_eq_all_conv [THEN iffD2]) (use show_quad_chars in fastforce)

lemma length_show_quad: "length (show_quad w x y z) \<le> ICE_CONTROLLER_IP_ADDR_STRING_BUFFER_LENGTH"
proof -
  have "length (show_nat (unat v)) \<le> 3" for v :: u8
    using unsigned_less [of v, where 'a = nat] by (intro length_show_byte) simp
  from this [of w] this [of x] this [of y] this [of z] show ?thesis
    by (simp add: show_quad_def ICE_CONTROLLER_IP_ADDR_STRING_BUFFER_LENGTH_def)
qed

lemma ConvertIpString_quad:
  assumes "inetPton4 lib (show_quad w x y z) = Some [w, x, y, z]"
  shows "IceControllerNet_ConvertIpString lib (show_quad w x y z) ep =
     (ICE_CONTROLLER_RESULT_OK, ep\<lparr>epAddress := [w, x, y, z] @ drop 4 (epAddress ep), epFamily := STUN_ADDRESS_IPv4\<rparr>)"
  using assms length_show_quad [of w x y z]
  by (simp add: IceControllerNet_ConvertIpString_def not_less [symmetric] eval_nat_numeral)

lemma ConvertStringToUl_show [simp]:
  "StringUtils_ConvertStringToUl (Some (show_nat n @ CHR '' '' # rest)) (length (show_nat n)) True
     = Some (STRING_UTILS_RESULT_OK, Some (of_nat n))"
  by (rule ConvertStringToUl_digits [of "show_nat n", unfolded dec_value_show_nat]) (use show_nat_digits in auto)

lemma ucast_up_down [simp]: "ucast (ucast (v :: u16) :: u32) = v"
  by transfer simp

lemma deserialize_type_string:
  "type \<noteq> ICE_CANDIDATE_TYPE_OTHER \<Longrightarrow>
     deserialize_type (GetCandidateTypeString type) cand = (ICE_CONTROLLER_RESULT_OK, cand\<lparr>candidateType := type\<rparr>)"
  by (cases type) (simp_all add: deserialize_type_def)

lemma GetCandidateTypeString_no_space [simp]: "CHR '' '' \<notin> set (GetCandidateTypeString type)"
  by (cases type) simp_all

text \<open>The candidate that a printed string stands for, in the order in which the fields are set.\<close>

definition read_candidate ::
    "u32 \<Rightarrow> u8 \<Rightarrow> u8 \<Rightarrow> u8 \<Rightarrow> u8 \<Rightarrow> u16 \<Rightarrow> IceCandidateType \<Rightarrow> IceControllerCandidate \<Rightarrow> IceControllerCandidate" where
  "read_candidate prio w x y z port type cand =
     cand\<lparr>protocol := ICE_SOCKET_PROTOCOL_UDP, priority := prio,
       iceEndpoint := (iceEndpoint cand)\<lparr>epAddress := [w, x, y, z] @ drop 4 (epAddress (iceEndpoint cand)),
         epFamily := STUN_ADDRESS_IPv4, epPort := port\<rparr>,
       candidateType := type\<rparr>"

lemma deserialize_loop_printed:
  assumes inet: "inetPton4 lib (show_quad w x y z) = Some [w, x, y, z]" and "type \<noteq> ICE_CANDIDATE_TYPE_OTHER"
  shows "deserialize_loop lib behind (Some ICE_CONTROLLER_CANDIDATE_DESERIALIZER_STATE_FOUNDATION)
       (ipv4_candidate_string index prio w x y z port type) cand False =
     Some (ICE_CONTROLLER_RESULT_OK, read_candidate prio w x y z port type cand, True)"
proof -
  note step = trans [OF deserialize_loop_token]
  note tokens = show_nat_no_char deserialize_token_def deserialize_protocol_def
    ConvertIpString_quad [OF inet] deserialize_type_string [OF assms(2)]
  show ?thesis
    unfolding ipv4_candidate_string_def
    by (rule step, simp add: tokens, simp add: tokens, simp only: next_state.simps)+
      (simp add: read_candidate_def)
qed

section \<open>Error codes\<close>

definition parse_progress :: "IceControllerCandidateDeserializerState option \<Rightarrow> bool \<Rightarrow> bool" where
  "parse_progress state parsed \<longleftrightarrow>
     (parsed \<longrightarrow> state = Some ICE_CONTROLLER_CANDIDATE_DESERIALIZER_STATE_MAX \<or> state = None)"

lemma parse_progress_next:
  "parse_progress (Some st) parsed \<Longrightarrow>
     parse_progress (next_state st) (parsed \<or> st = ICE_CONTROLLER_CANDIDATE_DESERIALIZER_STATE_TYPE_VAL)"
  by (cases st) (auto simp: parse_progress_def)

lemma deserialize_token_late_error:
  assumes "deserialize_token lib st tok mem cand = Some (r, cand')"
    and "st = ICE_CONTROLLER_CANDIDATE_DESERIALIZER_STATE_TYPE_VAL \<or> st = ICE_CONTROLLER_CANDIDATE_DESERIALIZER_STATE_MAX"
  shows "r = ICE_CONTROLLER_RESULT_OK \<or> r = ICE_CONTROLLER_RESULT_JSON_CANDIDATE_INVALID_TYPE"
  using assms by (auto simp: deserialize_token_def deserialize_type_def split: if_splits)

lemma deserialize_loop_errors:
  assumes "deserialize_loop lib behind state cur cand parsed = Some (r, cand', True)" and "parse_progress state parsed"
  shows "r = ICE_CONTROLLER_RESULT_OK \<or> r = ICE_CONTROLLER_RESULT_JSON_CANDIDATE_INVALID_TYPE"
  using assms
proof (induction lib behind state cur cand parsed rule: deserialize_loop.induct)
  case (1 lib behind state cur cand parsed)
  show ?case
  proof (cases "cur = [] \<or> state = None")
    case True
    with 1 show ?thesis by (subst (asm) deserialize_loop.simps) simp
  next
    case False
    then obtain st where st: "state = Some st" by auto
    let ?tok = "takeWhile (\<lambda>c. c \<noteq> CHR '' '') cur"
    let ?p = "parsed \<or> st = ICE_CONTROLLER_CANDIDATE_DESERIALIZER_STATE_TYPE_VAL"
    from "1.prems"(1) False st obtain r1 cand1
      where tok: "deserialize_token lib st ?tok (cur @ behind) cand = Some (r1, cand1)"
      by (subst (asm) deserialize_loop.simps) (auto simp: Let_def split: option.splits)
    show ?thesis
    proof (cases "r1 = ICE_CONTROLLER_RESULT_OK")
      case True
      with "1.prems"(1) False st tok
      have "deserialize_loop lib behind (next_state st) (drop (length ?tok + 1) cur) cand1 ?p = Some (r, cand', True)"
        by (subst (asm) deserialize_loop.simps) (simp add: Let_def)
      with "1.IH" [OF False _ _ _ tok _ True] st parse_progress_next "1.prems"(2) show ?thesis
        by simp
    next
      case r1: False
      with "1.prems"(1) False st tok have "r = r1" ?p
        by (subst (asm) deserialize_loop.simps, simp add: Let_def)+
      with deserialize_token_late_error [OF tok] "1.prems"(2) st show ?thesis
        by (auto simp: parse_progress_def)
    qed
  qed
qed

section \<open>Properties\<close>

definition cand0 :: IceControllerCandidate where
  "cand0 = \<lparr>protocol = ICE_SOCKET_PROTOCOL_TCP, priority = 0,
     iceEndpoint = \<lparr>epFamily = STUN_ADDRESS_IPv6, epPort = 0, epAddress = replicate 16 0, isPointToPoint = False\<rparr>,
     candidateType = ICE_CANDIDATE_TYPE_OTHER\<rparr>"

text \<open>C36: round trip of a candidate.  The string that the application prints for a local IPv4
  candidate (\<open>HandleLocalCandidateReady\<close>), sent as the \<open>candidate\<close> member of a JSON message, is
  deserialised by the other side to the same transport (UDP), priority, address, port and
  candidate type.  Relied on: \<open>inet_pton\<close> reads the dotted quad back, and coreJSON finds the member.\<close>

theorem candidate_round_trip:
  assumes "inetPton4 lib (show_quad w x y z) = Some [w, x, y, z]" and "type \<noteq> ICE_CANDIDATE_TYPE_OTHER"
    and "json msg = Some pairs"
    and "find (\<lambda>(key, _). key = ''candidate'') pairs
           = Some (key, ipv4_candidate_string index prio w x y z port type, rest)"
  shows "IceController_DeserializeIceCandidate lib json (Some msg) behind (Some cand) =
     Some (ICE_CONTROLLER_RESULT_OK, Some (read_candidate prio w x y z port type cand))"
  using assms(3,4) deserialize_loop_printed [OF assms(1,2)]
  by (simp add: IceController_DeserializeIceCandidate_def parseIceCandidate_def)

theorem candidate_round_trip_witness:
  "IceController_DeserializeIceCandidate
     \<lparr>inetPton4 = (\<lambda>s. if s = show_quad 192 168 1 7 then Some [192, 168, 1, 7] else None), inetPton6 = (\<lambda>_. None)\<rparr>
     (\<lambda>_. Some [(''sdpMid'', ''0'', []), (''candidate'', ipv4_candidate_string 3 2130706431 192 168 1 7 50000 ICE_CANDIDATE_TYPE_HOST, [NUL])])
     (Some ''{}'') [NUL] (Some cand0) =
   Some (ICE_CONTROLLER_RESULT_OK, Some (read_candidate 2130706431 192 168 1 7 50000 ICE_CANDIDATE_TYPE_HOST cand0))"
  by (rule candidate_round_trip [where key = "''candidate''" and rest = "[NUL]" and index = 3, OF _ _ refl]) simp_all

text \<open>The errors of the candidate parser.  Whatever the input, a call that returns gives OK,
  "invalid type" or "lack of element": the specific codes for a bad protocol, priority, address,
  port or type keyword, for a NULL argument and for a JSON message without a candidate are all
  overwritten by "lack of element" at the end of the function.\<close>

theorem DeserializeIceCandidate_errors:
  assumes "IceController_DeserializeIceCandidate lib json pDecodeMessage behind pCandidate = Some (r, cand')"
  shows "r = ICE_CONTROLLER_RESULT_OK \<or> r = ICE_CONTROLLER_RESULT_JSON_CANDIDATE_INVALID_TYPE
       \<or> r = ICE_CONTROLLER_RESULT_JSON_CANDIDATE_LACK_OF_ELEMENT"
  using assms
  by (auto simp: IceController_DeserializeIceCandidate_def Let_def parse_progress_def
      split: option.splits prod.splits if_splits dest: deserialize_loop_errors)

theorem DeserializeIceCandidate_errors_witness:
  "\<exists>r. IceController_DeserializeIceCandidate \<lparr>inetPton4 = (\<lambda>_. None), inetPton6 = (\<lambda>_. None)\<rparr> (\<lambda>_. None)
       (Some ''1 1 sctp'') [NUL] (Some cand0) = Some (r, Some cand0) \<and>
     (r = ICE_CONTROLLER_RESULT_OK \<or> r = ICE_CONTROLLER_RESULT_JSON_CANDIDATE_INVALID_TYPE
       \<or> r = ICE_CONTROLLER_RESULT_JSON_CANDIDATE_LACK_OF_ELEMENT)"
proof -
  let ?call = "IceController_DeserializeIceCandidate \<lparr>inetPton4 = (\<lambda>_. None), inetPton6 = (\<lambda>_. None)\<rparr> (\<lambda>_. None)
       (Some ''1 1 sctp'') [NUL] (Some cand0)"
  have run: "?call = Some (ICE_CONTROLLER_RESULT_JSON_CANDIDATE_LACK_OF_ELEMENT, Some cand0)"
    by (simp add: IceController_DeserializeIceCandidate_def parseIceCandidate_def deserialize_loop.simps
        deserialize_token_def deserialize_protocol_def Let_def)
  from DeserializeIceCandidate_errors [OF run] run show ?thesis by blast
qed

end
