(* ===== verification/Ice_Server.thy ===== *)
theory Ice_Server
  imports Ice_Candidate
begin

text \<open>
  The list of STUN and TURN servers that the application gives to the ICE controller:
  \<open>ParseIceServerUri\<close> and \<open>GetIceServerList\<close> of \<open>app_common/app_common.c\<close>.  The configurations
  come from the signaling controller; their URIs are buffers with at least one character behind the
  URI.
\<close>

section \<open>Operations\<close>

definition ICE_CONTROLLER_ICE_SERVER_URL_MAX_LENGTH :: nat where
  "ICE_CONTROLLER_ICE_SERVER_URL_MAX_LENGTH = 256"

definition ICE_CONTROLLER_ICE_SERVER_USERNAME_MAX_LENGTH :: nat where
  "ICE_CONTROLLER_ICE_SERVER_USERNAME_MAX_LENGTH = 256"

definition ICE_CONTROLLER_ICE_SERVER_PASSWORD_MAX_LENGTH :: nat where
  "ICE_CONTROLLER_ICE_SERVER_PASSWORD_MAX_LENGTH = 256"

definition ICE_SERVER_TYPE_STUN :: string where "ICE_SERVER_TYPE_STUN = ''stun:''"
definition ICE_SERVER_TYPE_TURN :: string where "ICE_SERVER_TYPE_TURN = ''turn:''"
definition ICE_SERVER_TYPE_TURNS :: string where "ICE_SERVER_TYPE_TURNS = ''turns:''"

lemmas ice_server_consts = ICE_CONTROLLER_ICE_SERVER_URL_MAX_LENGTH_def ICE_CONTROLLER_ICE_SERVER_USERNAME_MAX_LENGTH_def
  ICE_CONTROLLER_ICE_SERVER_PASSWORD_MAX_LENGTH_def ICE_SERVER_TYPE_STUN_def ICE_SERVER_TYPE_TURN_def ICE_SERVER_TYPE_TURNS_def

text \<open>The first part of \<open>ParseIceServerUri\<close>: the scheme.  A string is longer than a scheme and starts
  with it.\<close>

definition has_scheme :: "string \<Rightarrow> string \<Rightarrow> bool" where
  "has_scheme scheme uri \<longleftrightarrow> length uri > length scheme \<and> take (length scheme) uri = scheme"

definition parse_scheme :: "string \<Rightarrow> (IceControllerIceServerType \<times> string) option" where
  "parse_scheme uri =
     (if has_scheme ICE_SERVER_TYPE_STUN uri
      then Some (ICE_CONTROLLER_ICE_SERVER_TYPE_STUN, drop (length ICE_SERVER_TYPE_STUN) uri)
      else if has_scheme ICE_SERVER_TYPE_TURNS uri
      then Some (ICE_CONTROLLER_ICE_SERVER_TYPE_TURNS, drop (length ICE_SERVER_TYPE_TURNS) uri)
      else if has_scheme ICE_SERVER_TYPE_TURN uri
      then Some (ICE_CONTROLLER_ICE_SERVER_TYPE_TURN, drop (length ICE_SERVER_TYPE_TURN) uri)
      else None)"

text \<open>The last part: the transport.  \<open>cur\<close> is what follows the port.\<close>

definition parse_transport :: "IceControllerIceServer \<Rightarrow> string \<Rightarrow> int \<times> IceControllerIceServer" where
  "parse_transport srv cur =
     (if cur = [] then (-1, srv)
      else if serverType srv = ICE_CONTROLLER_ICE_SERVER_TYPE_TURN \<or> serverType srv = ICE_CONTROLLER_ICE_SERVER_TYPE_TURNS
      then if strncmp_eq cur ''?transport=udp'' then (0, srv\<lparr>serverProtocol := ICE_SOCKET_PROTOCOL_UDP\<rparr>)
           else if strncmp_eq cur ''?transport=tcp'' then (0, srv\<lparr>serverProtocol := ICE_SOCKET_PROTOCOL_TCP\<rparr>)
           else (-1, srv)
      else (0, srv))"

text \<open>The middle part: the port.  \<open>UINT16_MAX\<close> is 65535.\<close>

definition parse_port :: "IceControllerIceServer \<Rightarrow> string \<Rightarrow> string \<Rightarrow> (int \<times> IceControllerIceServer) option" where
  "parse_port srv cur behind =
     (let tok = takeWhile (\<lambda>c. c \<noteq> CHR ''?'') cur
      in (case StringUtils_ConvertStringToUl (Some (cur @ behind)) (length tok) True of
            None \<Rightarrow> None
          | Some (r, port) \<Rightarrow>
              if r \<noteq> STRING_UTILS_RESULT_OK \<or> the port > 65535 then Some (-1, srv)
              else Some (parse_transport
                (srv\<lparr>serverEndpoint := (serverEndpoint srv)\<lparr>epPort := ucast (the port)\<rparr>\<rparr>) (drop (length tok) cur))))"

definition ParseIceServerUri :: "IceControllerIceServer \<Rightarrow> string \<Rightarrow> string \<Rightarrow> (int \<times> IceControllerIceServer) option" where
  "ParseIceServerUri srv uri behind =
     (case parse_scheme uri of
        None \<Rightarrow> Some (-1, srv)
      | Some (type, cur) \<Rightarrow>
          (let srv1 = srv\<lparr>serverType := type\<rparr>; host = takeWhile (\<lambda>c. c \<noteq> CHR '':'') cur
           in if CHR '':'' \<notin> set cur then Some (-1, srv1)
              else if length host \<ge> ICE_CONTROLLER_ICE_SERVER_URL_MAX_LENGTH then Some (-1, srv1)
              else parse_port (srv1\<lparr>url := host\<rparr>) (drop (length host + 1) cur) behind))"

text \<open>One configuration of the signaling controller; each URI comes with the rest of its buffer.\<close>

record IceServerConfig =
  iceServerUris :: "(string \<times> string) list"
  configUserName :: string
  configPassword :: string

text \<open>The inner loop: \<open>out\<close> is the output array and \<open>idx\<close> is \<open>currentIceServerIndex\<close>.\<close>

fun server_uris ::
    "string \<Rightarrow> string \<Rightarrow> (string \<times> string) list \<Rightarrow> nat \<Rightarrow> IceControllerIceServer list
      \<Rightarrow> (nat \<times> IceControllerIceServer list) option" where
  "server_uris user pass [] idx out = Some (idx, out)"
| "server_uris user pass ((uri, behind) # uris) idx out =
     (if idx \<ge> length out then Some (idx, out)
      else
        (case ParseIceServerUri (out ! idx) uri behind of
           None \<Rightarrow> None
         | Some (r, srv) \<Rightarrow>
             if r \<noteq> 0 then server_uris user pass uris idx (out[idx := srv])
             else server_uris user pass uris (idx + 1) (out[idx := srv\<lparr>userName := user, password := pass\<rparr>])))"

text \<open>The outer loop.\<close>

fun server_configs ::
    "IceServerConfig list \<Rightarrow> nat \<Rightarrow> IceControllerIceServer list \<Rightarrow> (nat \<times> IceControllerIceServer list) option" where
  "server_configs [] idx out = Some (idx, out)"
| "server_configs (c # cs) idx out =
     (if length (configUserName c) > ICE_CONTROLLER_ICE_SERVER_USERNAME_MAX_LENGTH then server_configs cs idx out
      else if length (configPassword c) > ICE_CONTROLLER_ICE_SERVER_PASSWORD_MAX_LENGTH then server_configs cs idx out
      else if idx \<ge> length out then Some (idx, out)
      else
        (case server_uris (configUserName c) (configPassword c) (iceServerUris c) idx out of
           None \<Rightarrow> None
         | Some (idx', out') \<Rightarrow> server_configs cs idx' out'))"

text \<open>The URL of the default STUN server; \<open>region\<close> is \<open>AWS_REGION\<close>.\<close>

definition default_stun_url :: "string \<Rightarrow> string" where
  "default_stun_url region =
     ''stun.kinesisvideo.'' @ region @ ''.'' @
       (if \<exists>i \<le> length region. take 3 (drop i region) = ''cn-'' then ''amazonaws.com.cn'' else ''amazonaws.com'')"

definition default_server :: "string \<Rightarrow> IceControllerIceServer \<Rightarrow> IceControllerIceServer" where
  "default_server region srv =
     srv\<lparr>serverProtocol := ICE_SOCKET_PROTOCOL_UDP, serverType := ICE_CONTROLLER_ICE_SERVER_TYPE_STUN,
       userName := [], password := [], serverEndpoint := (serverEndpoint srv)\<lparr>isPointToPoint := False, epPort := 443\<rparr>,
       url := default_stun_url region\<rparr>"

text \<open>\<open>configs\<close> is \<open>None\<close> when \<open>SignalingController_QueryIceServerConfigs\<close> fails; \<open>out\<close> is the output array,
  of \<open>*pOutputIceServersCount\<close> elements, or \<open>None\<close> for NULL.  \<open>snprintf\<close> returns the length of the
  whole text: the code compares it with the buffer size for equality only, and beyond it writes the
  terminator outside the array, which has no outcome here.  The result is the return value with
  the number of servers and the array.\<close>

definition GetIceServerList ::
    "string \<Rightarrow> IceServerConfig list option \<Rightarrow> IceControllerIceServer list option
      \<Rightarrow> (int \<times> nat \<times> IceControllerIceServer list) option" where
  "GetIceServerList region configs pOutput =
     (case pOutput of
        None \<Rightarrow> Some (1, 0, [])
      | Some out \<Rightarrow>
          if length out < 1 then Some (-1, length out, out)
          else if configs = None then Some (-1, length out, out)
          else
            (let written = length (default_stun_url region)
             in if written = ICE_CONTROLLER_ICE_SERVER_URL_MAX_LENGTH then Some (-1, length out, out)
                else if written > ICE_CONTROLLER_ICE_SERVER_URL_MAX_LENGTH then None
                else map_option (\<lambda>(idx, out'). (0, idx, out'))
                       (server_configs (the configs) 1 (out[0 := default_server region (out ! 0)]))))"

section \<open>Specification\<close>

text \<open>What a usable URI stands for: the type of the server, its host, its port and, for TURN, the
  transport.\<close>

type_synonym server_view = "IceControllerIceServerType \<times> string \<times> u16 \<times> IceSocketProtocol option \<times> string \<times> string"

definition view :: "IceControllerIceServer \<Rightarrow> server_view" where
  "view srv = (serverType srv, url srv, epPort (serverEndpoint srv),
     if serverType srv = ICE_CONTROLLER_ICE_SERVER_TYPE_TURN \<or> serverType srv = ICE_CONTROLLER_ICE_SERVER_TYPE_TURNS
     then Some (serverProtocol srv) else None, userName srv, password srv)"

definition blank_server :: IceControllerIceServer where
  "blank_server = \<lparr>serverType = ICE_CONTROLLER_ICE_SERVER_TYPE_STUN, url = [],
     serverEndpoint = \<lparr>epFamily = STUN_ADDRESS_IPv4, epPort = 0, epAddress = [], isPointToPoint = False\<rparr>,
     userName = [], password = [], serverProtocol = ICE_SOCKET_PROTOCOL_UDP\<rparr>"

definition uri_view :: "string \<Rightarrow> string \<Rightarrow> string \<times> string \<Rightarrow> server_view option" where
  "uri_view user pass u =
     (case ParseIceServerUri blank_server (fst u) (snd u) of
        Some (r, srv) \<Rightarrow> if r = 0 then Some (view (srv\<lparr>userName := user, password := pass\<rparr>)) else None
      | None \<Rightarrow> None)"

definition config_views :: "IceServerConfig \<Rightarrow> server_view list" where
  "config_views c =
     (if length (configUserName c) > ICE_CONTROLLER_ICE_SERVER_USERNAME_MAX_LENGTH
         \<or> length (configPassword c) > ICE_CONTROLLER_ICE_SERVER_PASSWORD_MAX_LENGTH then []
      else List.map_filter (uri_view (configUserName c) (configPassword c)) (iceServerUris c))"

text \<open>Every URI has a readable character behind it.\<close>

definition uris_readable :: "(string \<times> string) list \<Rightarrow> bool" where
  "uris_readable us \<longleftrightarrow> (\<forall>u \<in> set us. snd u \<noteq> [])"

section \<open>Parsing a URI\<close>

lemma parse_port_readable: "behind \<noteq> [] \<Longrightarrow> \<exists>r srv'. parse_port srv cur behind = Some (r, srv')"
proof -
  assume "behind \<noteq> []"
  then have "length (takeWhile (\<lambda>c. c \<noteq> CHR ''?'') cur) < length (cur @ behind)"
    using length_takeWhile_le [of "\<lambda>c. c \<noteq> CHR ''?''" cur] by (cases behind) simp_all
  with ConvertStringToUl_readable show ?thesis
    by (fastforce simp: parse_port_def Let_def split: option.splits)
qed

lemma ParseIceServerUri_readable: "behind \<noteq> [] \<Longrightarrow> \<exists>r srv'. ParseIceServerUri srv uri behind = Some (r, srv')"
  using parse_port_readable by (auto simp: ParseIceServerUri_def Let_def split: option.splits)

text \<open>The outcome does not depend on what the slot held before.\<close>

lemma parse_transport_view:
  assumes "serverType b = serverType srv" "url b = url srv" "epPort (serverEndpoint b) = epPort (serverEndpoint srv)"
  shows "fst (parse_transport b cur) = fst (parse_transport srv cur)"
    and "fst (parse_transport srv cur) = 0 \<Longrightarrow>
      view (snd (parse_transport b cur)\<lparr>userName := u, password := p\<rparr>) = view (snd (parse_transport srv cur)\<lparr>userName := u, password := p\<rparr>)"
proof -
  show "fst (parse_transport b cur) = fst (parse_transport srv cur)"
    using assms(1) by (simp add: parse_transport_def)
next
  assume ok: "fst (parse_transport srv cur) = 0"
  obtain udp tcp where tr: "strncmp_eq cur ''?transport=udp'' = udp" "strncmp_eq cur ''?transport=tcp'' = tcp" by blast
  show "view (snd (parse_transport b cur)\<lparr>userName := u, password := p\<rparr>) = view (snd (parse_transport srv cur)\<lparr>userName := u, password := p\<rparr>)"
    using assms ok unfolding parse_transport_def view_def tr
    by (cases udp; cases tcp; cases "serverType srv"; simp split: if_splits)
qed

lemma parse_port_view:
  assumes "parse_port srv cur behind = Some (r, srv')" and "serverType b = serverType srv" "url b = url srv"
  shows "\<exists>b'. parse_port b cur behind = Some (r, b') \<and>
     (r = 0 \<longrightarrow> view (b'\<lparr>userName := u, password := p\<rparr>) = view (srv'\<lparr>userName := u, password := p\<rparr>))"
proof -
  let ?n = "length (takeWhile (\<lambda>c. c \<noteq> CHR ''?'') cur)"
  from assms(1) obtain q v where q: "StringUtils_ConvertStringToUl (Some (cur @ behind)) ?n True = Some (q, v)"
    by (auto simp: parse_port_def Let_def split: option.splits)
  let ?set = "\<lambda>x. x\<lparr>serverEndpoint := (serverEndpoint x)\<lparr>epPort := ucast (the v)\<rparr>\<rparr>"
  show ?thesis
  proof (cases "q \<noteq> STRING_UTILS_RESULT_OK \<or> the v > 65535")
    case True
    with assms q show ?thesis by (auto simp: parse_port_def)
  next
    case False
    with assms(1) q have run: "parse_transport (?set srv) (drop ?n cur) = (r, srv')"
      by (simp add: parse_port_def)
    have "parse_port b cur behind = Some (parse_transport (?set b) (drop ?n cur))"
      using False q by (simp add: parse_port_def)
    with run assms(2,3) parse_transport_view [of "?set b" "?set srv" "drop ?n cur"] show ?thesis
      by (cases "parse_transport (?set b) (drop ?n cur)") simp
  qed
qed

lemma ParseIceServerUri_view:
  assumes "ParseIceServerUri srv uri behind = Some (r, srv')"
  shows "\<exists>b'. ParseIceServerUri b uri behind = Some (r, b') \<and>
     (r = 0 \<longrightarrow> view (b'\<lparr>userName := u, password := p\<rparr>) = view (srv'\<lparr>userName := u, password := p\<rparr>))"
proof (cases "parse_scheme uri")
  case None
  with assms show ?thesis by (auto simp: ParseIceServerUri_def)
next
  case (Some tc)
  obtain type cur where tc: "tc = (type, cur)" by (cases tc)
  let ?host = "takeWhile (\<lambda>c. c \<noteq> CHR '':'') cur"
  show ?thesis
  proof (cases "CHR '':'' \<notin> set cur \<or> length ?host \<ge> ICE_CONTROLLER_ICE_SERVER_URL_MAX_LENGTH")
    case True
    with assms Some tc show ?thesis by (auto simp: ParseIceServerUri_def Let_def split: if_splits)
  next
    case False
    with assms Some tc parse_port_view [where srv = "srv\<lparr>serverType := type, url := ?host\<rparr>"
        and b = "b\<lparr>serverType := type, url := ?host\<rparr>"] show ?thesis
      by (simp add: ParseIceServerUri_def Let_def)
  qed
qed

corollary uri_view_Some:
  assumes "ParseIceServerUri srv uri behind = Some (r, srv')"
  shows "uri_view user pass (uri, behind) =
     (if r = 0 then Some (view (srv'\<lparr>userName := user, password := pass\<rparr>)) else None)"
  using ParseIceServerUri_view [OF assms, where b = blank_server and u = user and p = pass] by (auto simp: uri_view_def)

section \<open>The list of servers\<close>

lemma take_update_Suc: "i < length xs \<Longrightarrow> take (i + 1) (xs[i := x]) = take i xs @ [x]"
  by (simp add: take_Suc_conv_app_nth)

lemma server_uris_spec:
  assumes "uris_readable us" and "idx \<le> length out"
  shows "\<exists>out'. server_uris user pass us idx out
       = Some (min (length out) (idx + length (List.map_filter (uri_view user pass) us)), out') \<and>
     length out' = length out \<and>
     map view (take (min (length out) (idx + length (List.map_filter (uri_view user pass) us))) out') =
       take (length out) (map view (take idx out) @ List.map_filter (uri_view user pass) us)"
  using assms
proof (induction us arbitrary: idx out)
  case Nil
  then show ?case by (simp add: map_filter_simps)
next
  case (Cons ub us)
  obtain uri behind where ub: "ub = (uri, behind)" by (cases ub)
  show ?case
  proof (cases "idx < length out")
    case False
    with Cons.prems ub show ?thesis by simp
  next
    case True
    from Cons.prems(1) ub have "behind \<noteq> []" "uris_readable us" by (auto simp: uris_readable_def)
    then obtain r srv where run: "ParseIceServerUri (out ! idx) uri behind = Some (r, srv)"
      using ParseIceServerUri_readable by blast
    show ?thesis
    proof (cases "r = 0")
      case False
      with uri_view_Some [OF run] have none: "uri_view user pass ub = None" by (simp add: ub)
      from Cons.IH [OF \<open>uris_readable us\<close>, of idx "out[idx := srv]"] Cons.prems(2) none True False run ub show ?thesis
        by (simp add: map_filter_simps)
    next
      case r: True
      let ?srv = "srv\<lparr>userName := user, password := pass\<rparr>"
      from r uri_view_Some [OF run] have some: "uri_view user pass ub = Some (view ?srv)" by (simp add: ub)
      from Cons.IH [OF \<open>uris_readable us\<close>, of "idx + 1" "out[idx := ?srv]"] True r run ub some show ?thesis
        by (simp add: map_filter_simps take_Suc_conv_app_nth)
    qed
  qed
qed

lemma server_configs_spec:
  assumes "\<forall>c \<in> set cs. uris_readable (iceServerUris c)" and "idx \<le> length out"
  shows "\<exists>out'. server_configs cs idx out
       = Some (min (length out) (idx + length (concat (map config_views cs))), out') \<and>
     length out' = length out \<and>
     map view (take (min (length out) (idx + length (concat (map config_views cs)))) out') =
       take (length out) (map view (take idx out) @ concat (map config_views cs))"
  using assms
proof (induction cs arbitrary: idx out)
  case Nil
  then show ?case by simp
next
  case (Cons c cs)
  let ?vs = "List.map_filter (uri_view (configUserName c) (configPassword c)) (iceServerUris c)"
  show ?case
  proof (cases "config_views c = [] \<and> (length (configUserName c) > ICE_CONTROLLER_ICE_SERVER_USERNAME_MAX_LENGTH
       \<or> length (configPassword c) > ICE_CONTROLLER_ICE_SERVER_PASSWORD_MAX_LENGTH)")
    case True
    with Cons.IH [of idx out] Cons.prems show ?thesis by auto
  next
    case False
    then have vs: "config_views c = ?vs" and short: "\<not> length (configUserName c) > ICE_CONTROLLER_ICE_SERVER_USERNAME_MAX_LENGTH"
      "\<not> length (configPassword c) > ICE_CONTROLLER_ICE_SERVER_PASSWORD_MAX_LENGTH"
      by (auto simp: config_views_def)
    show ?thesis
    proof (cases "idx < length out")
      case False
      with Cons.prems(2) short show ?thesis by simp
    next
      case True
      from server_uris_spec [of "iceServerUris c" idx out "configUserName c" "configPassword c"] Cons.prems
      obtain out1 where run: "server_uris (configUserName c) (configPassword c) (iceServerUris c) idx out
            = Some (min (length out) (idx + length ?vs), out1)"
        and out1: "length out1 = length out" "map view (take (min (length out) (idx + length ?vs)) out1)
            = take (length out) (map view (take idx out) @ ?vs)" by auto
      from Cons.IH [of "min (length out) (idx + length ?vs)" out1] Cons.prems(1) out1(1) obtain out2 where
        rest: "server_configs cs (min (length out) (idx + length ?vs)) out1
            = Some (min (length out) (min (length out) (idx + length ?vs) + length (concat (map config_views cs))), out2)"
        and out2: "length out2 = length out" "map view (take (min (length out) (min (length out) (idx + length ?vs) + length (concat (map config_views cs)))) out2)
            = take (length out) (take (length out) (map view (take idx out) @ ?vs) @ concat (map config_views cs))"
        by (auto simp: out1(2))
      have n: "min (length out) (min (length out) (idx + length ?vs) + length (concat (map config_views cs)))
          = min (length out) (idx + (length ?vs + length (concat (map config_views cs))))" by auto
      have t: "take n (take n (xs @ ys) @ zs) = take n (xs @ ys @ zs)" for n and xs ys zs :: "server_view list"
        by (auto simp: min_def)
      show ?thesis
        using True short run rest out2 unfolding n t by (simp add: vs)
    qed
  qed
qed

section \<open>Properties\<close>

text \<open>Refinement.  \<open>GetIceServerList\<close> fills the output array with the default STUN server of the region
  followed by the servers of all usable URIs of all configurations, in order, with the
  configuration's credentials, and stops when the array is full; configurations with credentials
  too long for the buffers and URIs that do not parse are skipped without a trace in the result.\<close>

theorem GetIceServerList_refines:
  assumes "\<forall>c \<in> set cs. uris_readable (iceServerUris c)" and "out \<noteq> []"
    and "length (default_stun_url region) < ICE_CONTROLLER_ICE_SERVER_URL_MAX_LENGTH"
  shows "\<exists>n out'. GetIceServerList region (Some cs) (Some out) = Some (0, n, out') \<and> length out' = length out \<and>
     map view (take n out') = take (length out)
       ((ICE_CONTROLLER_ICE_SERVER_TYPE_STUN, default_stun_url region, 443, None, [], []) # concat (map config_views cs))"
proof -
  let ?out = "out[0 := default_server region (out ! 0)]"
  have "map view (take 1 ?out) = [(ICE_CONTROLLER_ICE_SERVER_TYPE_STUN, default_stun_url region, 443, None, [], [])]"
    using assms(2) by (cases out) (simp_all add: view_def default_server_def)
  with server_configs_spec [OF assms(1), of 1 ?out] assms(2,3) show ?thesis
    by (cases out) (auto simp: GetIceServerList_def Let_def)
qed

theorem GetIceServerList_refines_witness:
  "\<exists>n out'. GetIceServerList ''us-west-2''
      (Some [\<lparr>iceServerUris = [(''turn:a:443?transport=udp'', [NUL])], configUserName = ''u'', configPassword = ''p''\<rparr>])
      (Some [blank_server, blank_server]) = Some (0, n, out') \<and> length out' = length [blank_server, blank_server] \<and>
     map view (take n out') = take (length [blank_server, blank_server])
       ((ICE_CONTROLLER_ICE_SERVER_TYPE_STUN, default_stun_url ''us-west-2'', 443, None, [], []) #
         concat (map config_views [\<lparr>iceServerUris = [(''turn:a:443?transport=udp'', [NUL])], configUserName = ''u'', configPassword = ''p''\<rparr>]))"
  by (rule GetIceServerList_refines) (simp_all add: uris_readable_def default_stun_url_def ice_server_consts)

text \<open>Errors.  A URI without a query part is rejected, whatever its scheme: the STUN form
  \<open>stun:host:port\<close> that the comment in the function gives as an example never parses.\<close>

theorem ParseIceServerUri_needs_query:
  assumes "CHR ''?'' \<notin> set uri" and "behind \<noteq> []"
  shows "\<exists>srv'. ParseIceServerUri srv uri behind = Some (-1, srv')"
proof -
  have port: "\<exists>srv'. parse_port s cur behind = Some (-1, srv')" if "CHR ''?'' \<notin> set cur" for s cur
  proof -
    have all: "takeWhile (\<lambda>c. c \<noteq> CHR ''?'') cur = cur" using that by (auto simp: takeWhile_eq_all_conv)
    obtain q v where "StringUtils_ConvertStringToUl (Some (cur @ behind)) (length cur) True = Some (q, v)"
      using ConvertStringToUl_readable [of "length cur" "cur @ behind"] assms(2) by auto
    then show ?thesis by (auto simp: parse_port_def all parse_transport_def)
  qed
  have "CHR ''?'' \<notin> set cur" if "parse_scheme uri = Some (type, cur)" for type cur
    using that assms(1) by (auto simp: parse_scheme_def split: if_splits dest: in_set_dropD)
  moreover have "CHR ''?'' \<notin> set (drop n cur)" if "CHR ''?'' \<notin> set cur" for n cur
    using that by (auto dest: in_set_dropD)
  ultimately show ?thesis
    using port by (simp add: ParseIceServerUri_def Let_def split: option.splits)
qed

theorem ParseIceServerUri_needs_query_witness:
  "\<exists>srv'. ParseIceServerUri blank_server ''stun:stun.kinesisvideo.us-west-2.amazonaws.com:443'' [NUL] = Some (-1, srv')"
  by (rule ParseIceServerUri_needs_query) simp_all

end
