(* ===== verification/Timer_Controller.thy ===== *)
theory Timer_Controller
  imports Rtc_Prelude
begin

text \<open>
  \<open>timer_controller/timer_controller.c\<close>: a one-shot or repeating timer over a POSIX timer.  The kernel
  is a record of what its calls answer; a pointer to a handler is \<open>None\<close> for NULL.
\<close>

datatype TimerControllerResult =
    TIMER_CONTROLLER_RESULT_OK
  | TIMER_CONTROLLER_RESULT_SET
  | TIMER_CONTROLLER_RESULT_NOT_SET
  | TIMER_CONTROLLER_RESULT_BAD_PARAMETER
  | TIMER_CONTROLLER_RESULT_FAIL_TIMER_CREATE
  | TIMER_CONTROLLER_RESULT_FAIL_TIMER_SET
  | TIMER_CONTROLLER_RESULT_FAIL_GETTIME

record timespec =
  tv_sec :: u32
  tv_nsec :: u32

record itimerspec =
  it_value :: timespec
  it_interval :: timespec

text \<open>The handler: the kernel timer with its current setting, and the callback.  A timer that was not
  created or was deleted has no setting.\<close>

record 'cb TimerHandler =
  timerId :: "itimerspec option"
  onTimerExpire :: 'cb

definition zero_time :: timespec where
  "zero_time = \<lparr>tv_sec = 0, tv_nsec = 0\<rparr>"

definition disarmed :: itimerspec where
  "disarmed = \<lparr>it_value = zero_time, it_interval = zero_time\<rparr>"

text \<open>The kernel: whether \<open>timer_create\<close> and \<open>timer_settime\<close> succeed, what \<open>timer_gettime\<close> reports for
  a setting (\<open>None\<close> when it fails) and what the stack holds where the report would be written.\<close>

record timer_os =
  create_ok :: bool
  settime_ok :: bool
  gettime :: "itimerspec \<Rightarrow> itimerspec option"
  stack_its :: itimerspec

definition ms_timespec :: "u32 \<Rightarrow> timespec" where
  "ms_timespec ms = \<lparr>tv_sec = ms div 1000, tv_nsec = (ms mod 1000) * 1000000\<rparr>"

definition TimerController_Create ::
    "timer_os \<Rightarrow> 'cb TimerHandler option \<Rightarrow> 'cb option \<Rightarrow> TimerControllerResult \<times> 'cb TimerHandler option" where
  "TimerController_Create os pTimerHandler cb =
     (case (pTimerHandler, cb) of
        (Some h, Some f) \<Rightarrow>
          if create_ok os then (TIMER_CONTROLLER_RESULT_OK, Some (h\<lparr>onTimerExpire := f, timerId := Some disarmed\<rparr>))
          else (TIMER_CONTROLLER_RESULT_FAIL_TIMER_CREATE, Some (h\<lparr>onTimerExpire := f\<rparr>))
      | _ \<Rightarrow> (TIMER_CONTROLLER_RESULT_BAD_PARAMETER, pTimerHandler))"

text \<open>\<open>timer_settime\<close> with a zero value disarms the timer; on a deleted timer it fails.\<close>

definition TimerController_SetTimer ::
    "timer_os \<Rightarrow> 'cb TimerHandler option \<Rightarrow> u32 \<Rightarrow> u32 \<Rightarrow> TimerControllerResult \<times> 'cb TimerHandler option" where
  "TimerController_SetTimer os pTimerHandler initialTimeMs repeatTimeMs =
     (case pTimerHandler of
        None \<Rightarrow> (TIMER_CONTROLLER_RESULT_BAD_PARAMETER, None)
      | Some h \<Rightarrow>
          (let its = \<lparr>it_value = ms_timespec initialTimeMs, it_interval = ms_timespec repeatTimeMs\<rparr>
           in if settime_ok os \<and> timerId h \<noteq> None then (TIMER_CONTROLLER_RESULT_OK, Some (h\<lparr>timerId := Some its\<rparr>))
              else (TIMER_CONTROLLER_RESULT_FAIL_TIMER_SET, Some h)))"

definition TimerController_Reset :: "timer_os \<Rightarrow> 'cb TimerHandler option \<Rightarrow> 'cb TimerHandler option" where
  "TimerController_Reset os pTimerHandler =
     (if pTimerHandler = None then None else snd (TimerController_SetTimer os pTimerHandler 0 0))"

definition TimerController_Delete :: "'cb TimerHandler option \<Rightarrow> 'cb TimerHandler option" where
  "TimerController_Delete pTimerHandler = map_option (\<lambda>h. h\<lparr>timerId := None\<rparr>) pTimerHandler"

text \<open>The NULL check does not stop the function: the next statement dereferences the pointer, which
  has no outcome.  A failure of \<open>timer_gettime\<close> leaves the report as the stack held it, and the
  error code is overwritten.\<close>

definition TimerController_IsTimerSet :: "timer_os \<Rightarrow> 'cb TimerHandler option \<Rightarrow> TimerControllerResult option" where
  "TimerController_IsTimerSet os pTimerHandler =
     (case pTimerHandler of
        None \<Rightarrow> None
      | Some h \<Rightarrow>
          (let its = (case timerId h of
                 None \<Rightarrow> stack_its os
               | Some s \<Rightarrow> (case gettime os s of None \<Rightarrow> stack_its os | Some t \<Rightarrow> t))
           in Some (if tv_sec (it_value its) = 0 \<and> tv_nsec (it_value its) = 0
                    then TIMER_CONTROLLER_RESULT_NOT_SET else TIMER_CONTROLLER_RESULT_SET)))"

section \<open>Behaviour\<close>

text \<open>What POSIX documents of the kernel: the remaining time of an armed timer is not zero, and that
  of a disarmed one is.\<close>

definition timer_os_ok :: "timer_os \<Rightarrow> bool" where
  "timer_os_ok os \<longleftrightarrow> settime_ok os \<and> (\<forall>s. \<exists>t. gettime os s = Some t \<and> (it_value t = zero_time \<longleftrightarrow> it_value s = zero_time))"

lemma ms_timespec_zero: "ms_timespec ms = zero_time \<longleftrightarrow> ms = 0"
proof
  assume "ms_timespec ms = zero_time"
  then have q: "ms div 1000 = 0" and r: "(ms mod 1000) * 1000000 = 0"
    by (simp_all add: ms_timespec_def zero_time_def)
  have lt: "unat (ms mod 1000) < 1000" by (simp add: unat_mod)
  from r have "unat ((ms mod 1000) * 1000000) = 0" by simp
  moreover have "unat ((ms mod 1000) * 1000000) = unat (ms mod 1000) * 1000000"
    using lt by (subst unat_word_ariths) (simp add: unat_mod)
  ultimately have "unat (ms mod 1000) = 0" by simp
  with q have "unat ms = 0"
    by (metis div_mult_mod_eq mult_zero_left add_0 unat_eq_zero)
  then show "ms = 0" by (simp add: unat_eq_zero)
qed (simp add: ms_timespec_def zero_time_def)

text \<open>a timer that is set to expire is reported as set, and one that is set to zero or reset is
  reported as not set: the conversion of milliseconds to seconds and nanoseconds loses no non-zero
  time.\<close>

theorem SetTimer_IsTimerSet:
  assumes "timer_os_ok os" and "timerId h \<noteq> None"
  shows "\<exists>h'. TimerController_SetTimer os (Some h) ms rep = (TIMER_CONTROLLER_RESULT_OK, Some h') \<and>
     TimerController_IsTimerSet os (Some h')
       = Some (if ms = 0 then TIMER_CONTROLLER_RESULT_NOT_SET else TIMER_CONTROLLER_RESULT_SET)"
proof -
  let ?its = "\<lparr>it_value = ms_timespec ms, it_interval = ms_timespec rep\<rparr>"
  from assms(1) obtain t where "gettime os ?its = Some t" "it_value t = zero_time \<longleftrightarrow> it_value ?its = zero_time"
    unfolding timer_os_ok_def by blast
  then have t: "gettime os ?its = Some t" "it_value t = zero_time \<longleftrightarrow> ms = 0"
    by (simp_all add: ms_timespec_zero)
  have "tv_sec v = 0 \<and> tv_nsec v = 0 \<longleftrightarrow> v = zero_time" for v :: timespec
    by (cases v) (simp add: zero_time_def)
  with assms t show ?thesis
    by (auto simp: TimerController_SetTimer_def TimerController_IsTimerSet_def timer_os_ok_def)
qed

theorem SetTimer_IsTimerSet_witness:
  "\<exists>h'. TimerController_SetTimer \<lparr>create_ok = True, settime_ok = True, gettime = Some, stack_its = disarmed\<rparr>
       (Some \<lparr>timerId = Some disarmed, onTimerExpire = ()\<rparr>) 50 0 = (TIMER_CONTROLLER_RESULT_OK, Some h') \<and>
     TimerController_IsTimerSet \<lparr>create_ok = True, settime_ok = True, gettime = Some, stack_its = disarmed\<rparr> (Some h')
       = Some (if 50 = (0 :: u32) then TIMER_CONTROLLER_RESULT_NOT_SET else TIMER_CONTROLLER_RESULT_SET)"
  by (rule SetTimer_IsTimerSet) (simp_all add: timer_os_ok_def)

end
