(* ===== verification/Message_Queue.thy ===== *)
theory Message_Queue
  imports Rtc_Prelude
begin

text \<open>
  \<open>message_queue/linux/message_queue.c\<close>: the queue of requests between threads, over a POSIX message
  queue.  All messages are sent with priority 0, so the kernel delivers them in order.  The queues
  are opened in blocking mode: a send to a full queue and a receive from an empty one do not return,
  which is \<open>None\<close> here.
\<close>

datatype MessageQueueResult =
    MESSAGE_QUEUE_RESULT_OK
  | MESSAGE_QUEUE_RESULT_MQ_IS_EMPTY
  | MESSAGE_QUEUE_RESULT_MQ_HAVE_MESSAGE
  | MESSAGE_QUEUE_RESULT_BAD_PARAMETER
  | MESSAGE_QUEUE_RESULT_MQ_IS_FULL
  | MESSAGE_QUEUE_RESULT_MQ_IS_NOT_FULL
  | MESSAGE_QUEUE_RESULT_MQ_OPEN_FAILED
  | MESSAGE_QUEUE_RESULT_MQ_SEND_FAILED
  | MESSAGE_QUEUE_RESULT_MQ_RECV_FAILED
  | MESSAGE_QUEUE_RESULT_MQ_GETATTR_FAILED

text \<open>The kernel's queues by name, and the handler: the name and whether the descriptor is open.\<close>

record 'm mq =
  mq_maxmsg :: nat
  mq_msgs :: "'m list"

record MessageQueueHandler =
  pQueueName :: string
  messageQueue :: bool

type_synonym 'm mq_table = "string \<Rightarrow> 'm mq option"

text \<open>\<open>mq_open\<close> with \<open>O_CREAT\<close> opens a queue that exists as it is and creates it otherwise; it fails
  when the attributes are refused (\<open>open_ok\<close>).\<close>

definition MessageQueue_Create ::
    "bool \<Rightarrow> 'm mq_table \<Rightarrow> MessageQueueHandler option \<Rightarrow> string option \<Rightarrow> nat
      \<Rightarrow> MessageQueueResult \<times> 'm mq_table \<times> MessageQueueHandler option" where
  "MessageQueue_Create open_ok tab pHandler pName maxNum =
     (case (pHandler, pName) of
        (Some h, Some name) \<Rightarrow>
          if \<not> open_ok then (MESSAGE_QUEUE_RESULT_MQ_OPEN_FAILED, tab, Some (h\<lparr>messageQueue := False\<rparr>))
          else (MESSAGE_QUEUE_RESULT_OK,
                (if tab name = None then tab(name \<mapsto> \<lparr>mq_maxmsg = maxNum, mq_msgs = []\<rparr>) else tab),
                Some \<lparr>pQueueName = name, messageQueue = True\<rparr>)
      | _ \<Rightarrow> (MESSAGE_QUEUE_RESULT_BAD_PARAMETER, tab, pHandler))"

definition MessageQueue_Destroy ::
    "'m mq_table \<Rightarrow> MessageQueueHandler option \<Rightarrow> string \<Rightarrow> 'm mq_table \<times> MessageQueueHandler option" where
  "MessageQueue_Destroy tab pHandler name =
     (case pHandler of
        Some h \<Rightarrow> (tab(pQueueName h := None), Some (h\<lparr>messageQueue := False\<rparr>))
      | None \<Rightarrow> (tab(name := None), None))"

text \<open>The queue operations on an open queue; \<open>None\<close> as a message is a NULL pointer.\<close>

definition MessageQueue_Send :: "'m mq \<Rightarrow> 'm option \<Rightarrow> (MessageQueueResult \<times> 'm mq) option" where
  "MessageQueue_Send q pMessage =
     (case pMessage of
        None \<Rightarrow> Some (MESSAGE_QUEUE_RESULT_BAD_PARAMETER, q)
      | Some m \<Rightarrow>
          if length (mq_msgs q) < mq_maxmsg q then Some (MESSAGE_QUEUE_RESULT_OK, q\<lparr>mq_msgs := mq_msgs q @ [m]\<rparr>)
          else None)"

definition MessageQueue_Recv :: "'m mq \<Rightarrow> (MessageQueueResult \<times> 'm \<times> 'm mq) option" where
  "MessageQueue_Recv q =
     (case mq_msgs q of
        [] \<Rightarrow> None
      | m # ms \<Rightarrow> Some (MESSAGE_QUEUE_RESULT_OK, m, q\<lparr>mq_msgs := ms\<rparr>))"

definition MessageQueue_IsEmpty :: "'m mq \<Rightarrow> MessageQueueResult" where
  "MessageQueue_IsEmpty q = (if mq_msgs q = [] then MESSAGE_QUEUE_RESULT_MQ_IS_EMPTY else MESSAGE_QUEUE_RESULT_MQ_HAVE_MESSAGE)"

definition MessageQueue_IsFull :: "'m mq \<Rightarrow> MessageQueueResult" where
  "MessageQueue_IsFull q =
     (if length (mq_msgs q) = mq_maxmsg q then MESSAGE_QUEUE_RESULT_MQ_IS_FULL else MESSAGE_QUEUE_RESULT_MQ_IS_NOT_FULL)"

section \<open>The queue as an interface\<close>

text \<open>What the users of a queue rely on: a bounded channel whose content is a list, where a send that
  was preceded by the check for a full queue appends and a receive takes the oldest message.\<close>

locale bounded_channel =
  fixes content :: "'q \<Rightarrow> 'm list" and capacity :: "'q \<Rightarrow> nat" and full :: "'q \<Rightarrow> bool"
    and put :: "'q \<Rightarrow> 'm \<Rightarrow> 'q option" and get :: "'q \<Rightarrow> ('m \<times> 'q) option"
  assumes full_iff: "length (content q) \<le> capacity q \<Longrightarrow> full q \<longleftrightarrow> length (content q) = capacity q"
    and put_ok: "length (content q) \<le> capacity q \<Longrightarrow> \<not> full q \<Longrightarrow>
      \<exists>q'. put q m = Some q' \<and> content q' = content q @ [m] \<and> capacity q' = capacity q"
    and get_ok: "content q = m # ms \<Longrightarrow> \<exists>q'. get q = Some (m, q') \<and> content q' = ms \<and> capacity q' = capacity q"
begin

text \<open>Post a message unless the queue is full; then it is dropped.\<close>

definition post :: "'q \<Rightarrow> 'm \<Rightarrow> bool \<times> 'q" where
  "post q m = (if full q then (False, q) else (True, the (put q m)))"

lemma post_content:
  assumes "length (content q) \<le> capacity q"
  shows "content (snd (post q m)) = (if length (content q) < capacity q then content q @ [m] else content q)"
    and "capacity (snd (post q m)) = capacity q"
    and "length (content (snd (post q m))) \<le> capacity q"
    and "fst (post q m) \<longleftrightarrow> length (content q) < capacity q"
  using assms full_iff [OF assms] put_ok [OF assms, of m] by (auto simp: post_def)

text \<open>Messages posted to a queue with room come out in order, each once.\<close>

fun post_all :: "'q \<Rightarrow> 'm list \<Rightarrow> 'q" where
  "post_all q [] = q"
| "post_all q (m # ms) = post_all (snd (post q m)) ms"

lemma post_all_content:
  "length (content q) + length ms \<le> capacity q \<Longrightarrow> content (post_all q ms) = content q @ ms"
  by (induction ms arbitrary: q) (simp_all add: post_content)

fun get_all :: "nat \<Rightarrow> 'q \<Rightarrow> 'm list" where
  "get_all 0 q = []"
| "get_all (Suc n) q = (case get q of None \<Rightarrow> [] | Some (m, q') \<Rightarrow> m # get_all n q')"

lemma get_all_content: "get_all (length (content q)) q = content q"
proof (induction "content q" arbitrary: q)
  case Nil
  then show ?case by simp
next
  case (Cons m ms)
  from get_ok [OF Cons.hyps(2) [symmetric]] obtain q' where "get q = Some (m, q')" "content q' = ms" by blast
  with Cons.hyps(1) [of q'] Cons.hyps(2) [symmetric] show ?case by simp
qed

lemma fifo: "length (content q) + length ms \<le> capacity q \<Longrightarrow>
    get_all (length (content q) + length ms) (post_all q ms) = content q @ ms"
  using get_all_content [of "post_all q ms"] post_all_content [of q ms] by simp

end

definition mq_put :: "'m mq \<Rightarrow> 'm \<Rightarrow> 'm mq option" where
  "mq_put q m = map_option snd (MessageQueue_Send q (Some m))"

definition mq_get :: "'m mq \<Rightarrow> ('m \<times> 'm mq) option" where
  "mq_get q = map_option snd (MessageQueue_Recv q)"

interpretation mqueue: bounded_channel mq_msgs mq_maxmsg "\<lambda>q. MessageQueue_IsFull q = MESSAGE_QUEUE_RESULT_MQ_IS_FULL" mq_put mq_get
  by unfold_locales
    (auto simp: MessageQueue_IsFull_def mq_put_def mq_get_def MessageQueue_Send_def MessageQueue_Recv_def split: if_splits)

end
