(* ===== verification/Ice_State.thy ===== *)
theory Ice_State
  imports Ice_Server Timer_Controller "HOL-Library.Monad_Syntax"
begin

text \<open>
  The state of the ICE controller (\<open>ice_controller/ice_controller_data_types.h\<close>) and what it uses: the
  ICE library, the operating system, the TLS transport and the callbacks of its owner, all of them
  arguments.  Pointers into the arrays of the context are indices, \<open>None\<close> for NULL.  An operation
  that dereferences NULL or runs out of an array, or that does not return, has no outcome (\<open>None\<close>).
\<close>

section \<open>The ICE library\<close>

text \<open>The results that the controller distinguishes; the others are \<open>..._OTHER\<close>.\<close>

datatype IceResult =
    ICE_RESULT_OK
  | ICE_RESULT_NO_NEXT_ACTION
  | ICE_RESULT_TURN_CHANNEL_DATA_HEADER_NOT_REQUIRED
  | ICE_RESULT_OTHER

datatype (plugins only:) IceHandleStunPacketResult =
    ICE_HANDLE_STUN_PACKET_RESULT_UPDATED_SERVER_REFLEXIVE_CANDIDATE_ADDRESS
  | ICE_HANDLE_STUN_PACKET_RESULT_UPDATED_RELAY_CANDIDATE_ADDRESS
  | ICE_HANDLE_STUN_PACKET_RESULT_SEND_TRIGGERED_CHECK
  | ICE_HANDLE_STUN_PACKET_RESULT_SEND_RESPONSE_FOR_REMOTE_REQUEST
  | ICE_HANDLE_STUN_PACKET_RESULT_SEND_CHANNEL_BIND_REQUEST
  | ICE_HANDLE_STUN_PACKET_RESULT_SEND_CONNECTIVITY_CHECK_REQUEST
  | ICE_HANDLE_STUN_PACKET_RESULT_SEND_RESPONSE_AND_START_NOMINATION
  | ICE_HANDLE_STUN_PACKET_RESULT_START_NOMINATION
  | ICE_HANDLE_STUN_PACKET_RESULT_CANDIDATE_PAIR_READY
  | ICE_HANDLE_STUN_PACKET_RESULT_SEND_ALLOCATION_REQUEST
  | ICE_HANDLE_STUN_PACKET_RESULT_TURN_SESSION_TERMINATED
  | ICE_HANDLE_STUN_PACKET_RESULT_UNEXPECTED_RESPONSE
  | ICE_HANDLE_STUN_PACKET_RESULT_NOT_STUN_PACKET
  | ICE_HANDLE_STUN_PACKET_RESULT_ONLY_LOGGED

record IceCandidate =
  candidateKind :: IceCandidateType
  endpoint :: IceEndpoint

text \<open>A pair refers to a local candidate and, unless it is NULL, a remote one; \<open>pairSucceeded\<close> says
  that its state is \<open>ICE_CANDIDATE_PAIR_STATE_SUCCEEDED\<close>.\<close>

record IceCandidatePair =
  pairLocal :: nat
  pairRemote :: "nat option"
  pairSucceeded :: bool

text \<open>The arrays of the agent up to their current counts, and the rest of its state.\<close>

record 'x IceContext =
  localCandidates :: "IceCandidate list"
  remoteCandidates :: "IceCandidate list"
  candidatePairs :: "IceCandidatePair list"
  iceRest :: 'x

text \<open>The functions of the library.  A message is the buffer it writes; a pair or a candidate is its
  index, \<open>None\<close> where NULL may be passed.  \<open>iceHandleTurnPacket\<close> gives the offset and the length of the
  payload in the packet; \<open>turnHeaderLength\<close> is \<open>ICE_TURN_CHANNEL_DATA_MESSAGE_HEADER_LENGTH\<close>.\<close>

record 'x ice_lib =
  iceInit :: "bool \<Rightarrow> IceResult \<times> 'x IceContext"
  iceAddHostCandidate :: "IceEndpoint \<Rightarrow> 'x IceContext \<Rightarrow> IceResult \<times> 'x IceContext"
  iceAddServerReflexiveCandidate :: "IceEndpoint \<Rightarrow> 'x IceContext \<Rightarrow> IceResult \<times> 'x IceContext"
  iceAddRelayCandidate :: "IceEndpoint \<Rightarrow> string \<Rightarrow> string \<Rightarrow> 'x IceContext \<Rightarrow> IceResult \<times> 'x IceContext"
  iceAddRemoteCandidate :: "IceControllerCandidate \<Rightarrow> 'x IceContext \<Rightarrow> IceResult \<times> 'x IceContext"
  iceCreateNextCandidateRequest :: "nat option \<Rightarrow> u64 \<Rightarrow> 'x IceContext \<Rightarrow> IceResult \<times> bytes \<times> 'x IceContext"
  iceCreateNextPairRequest :: "nat option \<Rightarrow> u64 \<Rightarrow> 'x IceContext \<Rightarrow> IceResult \<times> bytes \<times> 'x IceContext"
  iceCreateResponseForRequest :: "nat \<Rightarrow> bytes \<Rightarrow> 'x IceContext \<Rightarrow> IceResult \<times> bytes \<times> 'x IceContext"
  iceCreateTurnChannelDataMessage :: "nat \<Rightarrow> bytes \<Rightarrow> 'x IceContext \<Rightarrow> IceResult \<times> bytes \<times> 'x IceContext"
  turnHeaderLength :: nat
  iceHandleStunPacket :: "bytes \<Rightarrow> nat option \<Rightarrow> IceEndpoint \<Rightarrow> u64 \<Rightarrow> 'x IceContext
      \<Rightarrow> IceHandleStunPacketResult \<times> bytes \<times> nat option \<times> 'x IceContext"
  iceHandleTurnPacket :: "bytes \<Rightarrow> nat \<Rightarrow> 'x IceContext \<Rightarrow> IceResult \<times> nat \<times> nat \<times> nat option \<times> 'x IceContext"
  iceGetCandidatePairCount :: "'x IceContext \<Rightarrow> IceResult \<times> nat"
  iceCloseCandidate :: "nat \<Rightarrow> 'x IceContext \<Rightarrow> 'x IceContext"
  iceCloseCandidatePair :: "nat \<Rightarrow> 'x IceContext \<Rightarrow> IceResult \<times> 'x IceContext"

section \<open>The operating system and the TLS transport\<close>

text \<open>The answer to a send: a number of bytes, or \<open>errno\<close> in one of three classes (\<open>EAGAIN\<close> and
  \<open>EWOULDBLOCK\<close>; \<open>ENOMEM\<close>, \<open>ENOSPC\<close> and \<open>ENOBUFS\<close>; the others).\<close>

datatype send_answer = Sent nat | SendAgain | SendNoMemory | SendFailed

text \<open>The answer to a receive: \<open>EAGAIN\<close> or \<open>EWOULDBLOCK\<close>, another error, or data with the source.\<close>

datatype recv_answer = RecvAgain | RecvError | RecvData bytes IceEndpoint

datatype TlsTransportStatus = TLS_TRANSPORT_SUCCESS | TLS_TRANSPORT_HANDSHAKE_IN_PROGRESS | TLS_TRANSPORT_OTHER

text \<open>A network interface as \<open>getifaddrs\<close> lists it: \<open>AF_INET\<close> with a non-null address, the address, the
  flags \<open>IFF_LOOPBACK\<close> and \<open>IFF_POINTOPOINT\<close>.\<close>

record ifaddr =
  ifaIsInet :: bool
  ifaAddr :: bytes
  ifaLoopback :: bool
  ifaPointToPoint :: bool

text \<open>Calls that open a descriptor see the descriptors that are open.\<close>

record 'w net_os =
  osSocket :: "stun_family \<Rightarrow> int list \<Rightarrow> 'w \<Rightarrow> int \<times> 'w"
  osBind :: "int \<Rightarrow> IceEndpoint \<Rightarrow> 'w \<Rightarrow> bool \<times> 'w"
  osGetsockname :: "int \<Rightarrow> 'w \<Rightarrow> u16 option \<times> 'w"
  osSendto :: "int \<Rightarrow> bytes \<Rightarrow> IceEndpoint \<Rightarrow> 'w \<Rightarrow> send_answer \<times> 'w"
  osRecvfrom :: "int \<Rightarrow> nat \<Rightarrow> 'w \<Rightarrow> recv_answer \<times> 'w"
  osSelect :: "int list \<Rightarrow> 'w \<Rightarrow> int list option \<times> 'w"
  osGetaddrinfo :: "string \<Rightarrow> 'w \<Rightarrow> bytes option option \<times> 'w"
  osGetifaddrs :: "'w \<Rightarrow> ifaddr list \<times> 'w"
  osTimeUs :: "'w \<Rightarrow> u64"
  inetNtopOk :: "bytes \<Rightarrow> bool"
  tlsConnect :: "IceEndpoint \<Rightarrow> string \<Rightarrow> string \<Rightarrow> int list \<Rightarrow> 'w \<Rightarrow> TlsTransportStatus \<times> int \<times> 'w"
  tlsContinueHandshake :: "int \<Rightarrow> 'w \<Rightarrow> TlsTransportStatus \<times> 'w"
  tlsSend :: "int \<Rightarrow> bytes \<Rightarrow> 'w \<Rightarrow> send_answer \<times> 'w"
  tlsRecv :: "int \<Rightarrow> nat \<Rightarrow> 'w \<Rightarrow> bytes option \<times> 'w"

section \<open>The context\<close>

definition ICE_CONTROLLER_MAX_LOCAL_CANDIDATE_COUNT :: nat where "ICE_CONTROLLER_MAX_LOCAL_CANDIDATE_COUNT = 100"
definition ICE_CONTROLLER_MAX_ICE_SERVER_COUNT :: nat where "ICE_CONTROLLER_MAX_ICE_SERVER_COUNT = 7"
definition ICE_CONTROLLER_PRINT_CONNECTIVITY_CHECK_PERIOD_MS :: u64 where "ICE_CONTROLLER_PRINT_CONNECTIVITY_CHECK_PERIOD_MS = 10000"
definition ICE_CONTROLLER_CONNECTIVITY_TIMER_INTERVAL_MS :: u32 where "ICE_CONTROLLER_CONNECTIVITY_TIMER_INTERVAL_MS = 100"
definition ICE_CONTROLLER_PERIODIC_TIMER_INTERVAL_MS :: u32 where "ICE_CONTROLLER_PERIODIC_TIMER_INTERVAL_MS = 1000"
definition ICE_CONTROLLER_CLOSING_INTERVAL_MS :: u32 where "ICE_CONTROLLER_CLOSING_INTERVAL_MS = 100"
definition ICE_CONTROLLER_CONNECTIVITY_CHECK_TIMEOUT_MS :: u64 where "ICE_CONTROLLER_CONNECTIVITY_CHECK_TIMEOUT_MS = 12000"
definition ICE_CONTROLLER_MAX_PATH_LENGTH :: nat where "ICE_CONTROLLER_MAX_PATH_LENGTH = 2048"
definition ICE_CONTROLLER_MAX_PEM_LENGTH :: nat where "ICE_CONTROLLER_MAX_PEM_LENGTH = 2048"
definition ICE_CONTROLLER_MAX_MTU :: nat where "ICE_CONTROLLER_MAX_MTU = 1500"

record IceControllerSocketContext =
  sockState :: IceControllerSocketContextState
  socketType :: IceControllerSocketType
  pLocalCandidate :: "nat option"
  pRemoteCandidate :: "nat option"
  pIceServer :: "nat option"
  pCandidatePair :: "nat option"
  socketFd :: int

record IceControllerMetrics =
  pendingSrflxCandidateNum :: u32
  pendingRelayCandidateNum :: u32
  isFirstConnectivityRequest :: bool
  printCandidatePairsStatusMs :: u64

text \<open>Two fields are not in the code: \<open>openFds\<close>, the descriptors that were opened for the controller and
  not closed since, and \<open>strayCloses\<close>, the closes of a descriptor that was not open.  \<open>world\<close> is everything
  outside the controller.\<close>

record ('x, 'w) IceControllerContext =
  state :: IceControllerState
  iceContext :: "'x IceContext"
  natTraversalConfigBitmap :: u32
  iceServers :: "IceControllerIceServer list"
  rootCaPath :: string
  rootCaPem :: string
  metrics :: IceControllerMetrics
  timerHandler :: "unit TimerHandler"
  timerIntervalMs :: u32
  executeSocketListener :: bool
  socketsContexts :: "IceControllerSocketContext list"
  socketsContextsCount :: nat
  pNominatedSocketContext :: "nat option"
  localEndpoints :: "IceEndpoint list"
  candidateFoundationCounter :: nat
  connectivityCheckTimeoutMs :: u64
  addLocalCandidates :: bool
  openFds :: "int list"
  strayCloses :: "int list"
  world :: 'w

text \<open>What an operation runs in: whether the two mutexes can be taken, the timers, the libraries, and the
  callbacks of the owner, which may change the context.  The event callback gets the index of the
  local candidate for the event that announces one.\<close>

record ('x, 'w) ice_env =
  socketMutexOk :: bool
  iceMutexOk :: bool
  timerOs :: timer_os
  lib :: "'x ice_lib"
  os :: "'w net_os"
  onIceEventCallbackFunc :: "(IceControllerCallbackEvent \<Rightarrow> nat option \<Rightarrow> ('x, 'w) IceControllerContext
      \<Rightarrow> (int \<times> ('x, 'w) IceControllerContext) option) option"
  onRecvNonStunPacketFunc :: "(bytes \<Rightarrow> ('x, 'w) IceControllerContext \<Rightarrow> ('x, 'w) IceControllerContext option) option"

section \<open>Access\<close>

abbreviation sock :: "('x, 'w) IceControllerContext \<Rightarrow> nat \<Rightarrow> IceControllerSocketContext" where
  "sock c i \<equiv> socketsContexts c ! i"

definition upd_sock ::
    "nat \<Rightarrow> (IceControllerSocketContext \<Rightarrow> IceControllerSocketContext) \<Rightarrow> ('x, 'w) IceControllerContext \<Rightarrow> ('x, 'w) IceControllerContext" where
  "upd_sock i f c = c\<lparr>socketsContexts := (socketsContexts c)[i := f (sock c i)]\<rparr>"

definition upd_metrics :: "(IceControllerMetrics \<Rightarrow> IceControllerMetrics) \<Rightarrow> ('x, 'w) IceControllerContext \<Rightarrow> ('x, 'w) IceControllerContext" where
  "upd_metrics f c = c\<lparr>metrics := f (metrics c)\<rparr>"

definition open_fd :: "int \<Rightarrow> ('x, 'w) IceControllerContext \<Rightarrow> ('x, 'w) IceControllerContext" where
  "open_fd fd c = c\<lparr>openFds := fd # openFds c\<rparr>"

text \<open>The system call \<open>close\<close>.\<close>

definition close_fd :: "int \<Rightarrow> ('x, 'w) IceControllerContext \<Rightarrow> ('x, 'w) IceControllerContext" where
  "close_fd fd c =
     (if fd \<in> set (openFds c) then c\<lparr>openFds := remove1 fd (openFds c)\<rparr> else c\<lparr>strayCloses := fd # strayCloses c\<rparr>)"

definition local_candidate :: "('x, 'w) IceControllerContext \<Rightarrow> nat \<Rightarrow> IceCandidate option" where
  "local_candidate c l = mem_read (localCandidates (iceContext c)) l"

text \<open>The endpoint of the server of a socket; reading it through a NULL pointer has no outcome.\<close>

definition server_endpoint :: "('x, 'w) IceControllerContext \<Rightarrow> nat \<Rightarrow> IceEndpoint option" where
  "server_endpoint c i = do { k \<leftarrow> pIceServer (sock c i); s \<leftarrow> mem_read (iceServers c) k; Some (serverEndpoint s) }"

definition NAT_SEND_HOST :: u32 where "NAT_SEND_HOST = 1"
definition NAT_ACCEPT_HOST :: u32 where "NAT_ACCEPT_HOST = 2"
definition NAT_SEND_SRFLX :: u32 where "NAT_SEND_SRFLX = 4"
definition NAT_ACCEPT_SRFLX :: u32 where "NAT_ACCEPT_SRFLX = 8"
definition NAT_SEND_RELAY :: u32 where "NAT_SEND_RELAY = 16"
definition NAT_ACCEPT_RELAY :: u32 where "NAT_ACCEPT_RELAY = 32"

definition ICE_CONTROLLER_IS_NAT_CONFIG_SET :: "('x, 'w) IceControllerContext \<Rightarrow> u32 \<Rightarrow> bool" where
  "ICE_CONTROLLER_IS_NAT_CONFIG_SET c natConfig \<longleftrightarrow> natTraversalConfigBitmap c AND natConfig \<noteq> 0"

text \<open>Times: microseconds from the system; seconds for the library.\<close>

definition now_sec :: "('x, 'w) ice_env \<Rightarrow> ('x, 'w) IceControllerContext \<Rightarrow> u64" where
  "now_sec env c = osTimeUs (os env) (world c) div 1000000"

definition now_ms :: "('x, 'w) ice_env \<Rightarrow> ('x, 'w) IceControllerContext \<Rightarrow> u64" where
  "now_ms env c = osTimeUs (os env) (world c) div 1000"

section \<open>State and timer\<close>

definition IceController_UpdateState :: "IceControllerState \<Rightarrow> ('x, 'w) IceControllerContext \<Rightarrow> ('x, 'w) IceControllerContext" where
  "IceController_UpdateState newState c = c\<lparr>state := newState\<rparr>"

definition IceController_UpdateTimerInterval :: "('x, 'w) ice_env \<Rightarrow> u32 \<Rightarrow> ('x, 'w) IceControllerContext \<Rightarrow> ('x, 'w) IceControllerContext" where
  "IceController_UpdateTimerInterval env newIntervalMs c =
     (let h = timerHandler c;
          h1 = (if TimerController_IsTimerSet (timerOs env) (Some h) = Some TIMER_CONTROLLER_RESULT_SET
                then the (TimerController_Reset (timerOs env) (Some h)) else h);
          (r, h2) = TimerController_SetTimer (timerOs env) (Some h1) newIntervalMs 0;
          c1 = c\<lparr>timerHandler := the h2\<rparr>
      in if r \<noteq> TIMER_CONTROLLER_RESULT_OK then c1
         else if newIntervalMs \<noteq> timerIntervalMs c1 then c1\<lparr>timerIntervalMs := newIntervalMs\<rparr>
         else c1)"

text \<open>Calling the owner; without a callback nothing happens.\<close>

definition notify ::
    "('x, 'w) ice_env \<Rightarrow> IceControllerCallbackEvent \<Rightarrow> nat option \<Rightarrow> ('x, 'w) IceControllerContext
      \<Rightarrow> (int \<times> ('x, 'w) IceControllerContext) option" where
  "notify env ev arg c = (case onIceEventCallbackFunc env of None \<Rightarrow> Some (0, c) | Some f \<Rightarrow> f ev arg c)"

end
