(* ===== verification/Ice_Net.thy ===== *)
theory Ice_Net
  imports Ice_State
begin

text \<open>
  \<open>ice_controller/ice_controller_net.c\<close>: the table of sockets, sending, the gathering of local
  candidates and the handling of STUN packets.
\<close>

section \<open>Local addresses and names\<close>

definition zero_endpoint :: IceEndpoint where
  "zero_endpoint = \<lparr>epFamily = STUN_ADDRESS_OTHER, epPort = 0, epAddress = replicate 16 0, isPointToPoint = False\<rparr>"

text \<open>The first \<open>room\<close> IPv4 addresses of interfaces that are not loopback.\<close>

fun GetLocalIPAdresses :: "nat \<Rightarrow> ifaddr list \<Rightarrow> IceEndpoint list" where
  "GetLocalIPAdresses room [] = []"
| "GetLocalIPAdresses room (i # ifs) =
     (if room = 0 then []
      else if ifaIsInet i \<and> \<not> ifaLoopback i
      then zero_endpoint\<lparr>epFamily := STUN_ADDRESS_IPv4, epAddress := ifaAddr i @ drop (length (ifaAddr i)) (epAddress zero_endpoint),
             isPointToPoint := ifaPointToPoint i\<rparr> # GetLocalIPAdresses (room - 1) ifs
      else GetLocalIPAdresses room ifs)"

text \<open>\<open>getaddrinfo\<close> fails, or lists no IPv4 address, or its first IPv4 address is taken.\<close>

definition IceControllerNet_DnsLookUp ::
    "('x, 'w) ice_env \<Rightarrow> string \<Rightarrow> IceEndpoint \<Rightarrow> 'w \<Rightarrow> IceControllerResult \<times> IceEndpoint \<times> 'w" where
  "IceControllerNet_DnsLookUp env name ep w =
     (case osGetaddrinfo (os env) name w of
        (None, w') \<Rightarrow> (ICE_CONTROLLER_RESULT_FAIL_DNS_QUERY, ep, w')
      | (Some None, w') \<Rightarrow> (ICE_CONTROLLER_RESULT_OK, ep, w')
      | (Some (Some a), w') \<Rightarrow>
          (ICE_CONTROLLER_RESULT_OK, ep\<lparr>epFamily := STUN_ADDRESS_IPv4, epAddress := a @ drop (length a) (epAddress ep)\<rparr>, w'))"

section \<open>The socket table\<close>

definition IceControllerNet_UpdateSocketContext ::
    "('x, 'w) ice_env \<Rightarrow> nat \<Rightarrow> IceControllerSocketContextState \<Rightarrow> nat option \<Rightarrow> nat option \<Rightarrow> nat option
      \<Rightarrow> ('x, 'w) IceControllerContext \<Rightarrow> ('x, 'w) IceControllerContext" where
  "IceControllerNet_UpdateSocketContext env i newState loc rem srv c =
     (if socketMutexOk env
      then upd_sock i (\<lambda>s. s\<lparr>sockState := newState, pLocalCandidate := loc, pRemoteCandidate := rem, pIceServer := srv\<rparr>) c
      else c)"

text \<open>Giving back the slot that was just taken.\<close>

definition drop_socket :: "nat \<Rightarrow> ('x, 'w) IceControllerContext \<Rightarrow> ('x, 'w) IceControllerContext" where
  "drop_socket i c =
     (let c1 = upd_sock i (\<lambda>s. s\<lparr>socketFd := -1\<rparr>) (close_fd (socketFd (sock c i)) c)
      in c1\<lparr>socketsContextsCount := socketsContextsCount c1 - 1\<rparr>)"

text \<open>\<open>bindTo\<close> is the index of the local endpoint to bind to.  The result has the slot on success.  When
  \<open>socket\<close> itself fails the slot is not given back.\<close>

definition CreateSocketContextUdp ::
    "('x, 'w) ice_env \<Rightarrow> stun_family \<Rightarrow> nat option \<Rightarrow> ('x, 'w) IceControllerContext
      \<Rightarrow> IceControllerResult \<times> nat option \<times> ('x, 'w) IceControllerContext" where
  "CreateSocketContextUdp env family bindTo c =
     (if socketsContextsCount c < ICE_CONTROLLER_MAX_LOCAL_CANDIDATE_COUNT
      then
        (let i = socketsContextsCount c; (fd, w1) = osSocket (os env) family (openFds c) (world c);
             c1 = upd_sock i (\<lambda>s. s\<lparr>socketFd := fd\<rparr>) (c\<lparr>socketsContextsCount := i + 1, world := w1\<rparr>)
         in if fd = -1 then (ICE_CONTROLLER_RESULT_FAIL_SOCKET_CREATE, None, c1)
            else
              (let c2 = open_fd fd c1; udp = upd_sock i (\<lambda>s. s\<lparr>socketType := ICE_CONTROLLER_SOCKET_TYPE_UDP\<rparr>)
               in (case bindTo of
                     None \<Rightarrow> (ICE_CONTROLLER_RESULT_OK, Some i, udp c2)
                   | Some b \<Rightarrow>
                       (let ep = localEndpoints c2 ! b
                        in if epFamily ep \<noteq> STUN_ADDRESS_IPv4
                           then (ICE_CONTROLLER_RESULT_IPV6_NOT_SUPPORT, None, drop_socket i c2)
                           else
                             (let (ok, w2) = osBind (os env) fd ep (world c2); c3 = c2\<lparr>world := w2\<rparr>
                              in if \<not> ok then (ICE_CONTROLLER_RESULT_FAIL_SOCKET_BIND, None, drop_socket i c3)
                                 else
                                   (case osGetsockname (os env) fd (world c3) of
                                      (None, w3) \<Rightarrow> (ICE_CONTROLLER_RESULT_FAIL_SOCKET_GETSOCKNAME, None, drop_socket i (c3\<lparr>world := w3\<rparr>))
                                    | (Some p, w3) \<Rightarrow>
                                        (ICE_CONTROLLER_RESULT_OK, Some i,
                                         udp (c3\<lparr>world := w3, localEndpoints := (localEndpoints c3)[b := ep\<lparr>epPort := p\<rparr>]\<rparr>))))))))
      else (ICE_CONTROLLER_RESULT_NO_SOCKET_CONTEXT_AVAILABLE, None, c))"

text \<open>\<open>dest\<close> is the endpoint of the server.  A failed \<open>TLS_FreeRTOS_Connect\<close> has closed its descriptor
  (\<open>Tls_Transport_Correct\<close>), unless \<open>fcntl\<close> failed: that descriptor is lost to the controller.\<close>

definition CreateSocketContextTcp ::
    "('x, 'w) ice_env \<Rightarrow> IceEndpoint \<Rightarrow> ('x, 'w) IceControllerContext
      \<Rightarrow> IceControllerResult \<times> nat option \<times> ('x, 'w) IceControllerContext" where
  "CreateSocketContextTcp env dest c =
     (if \<not> inetNtopOk (os env) (epAddress dest) then (ICE_CONTROLLER_RESULT_FAIL_SOCKET_NTOP, None, c)
      else if socketsContextsCount c < ICE_CONTROLLER_MAX_LOCAL_CANDIDATE_COUNT
      then
        (let i = socketsContextsCount c; c1 = c\<lparr>socketsContextsCount := i + 1\<rparr>;
             (st, fd, w1) = tlsConnect (os env) dest (rootCaPath c) (rootCaPem c) (openFds c) (world c);
             c2 = c1\<lparr>world := w1\<rparr>;
             tls = (\<lambda>c. upd_sock i (\<lambda>s. s\<lparr>socketFd := fd, socketType := ICE_CONTROLLER_SOCKET_TYPE_TLS\<rparr>) (open_fd fd c))
         in (case st of
               TLS_TRANSPORT_HANDSHAKE_IN_PROGRESS \<Rightarrow> (ICE_CONTROLLER_RESULT_CONNECTION_IN_PROGRESS, Some i, tls c2)
             | TLS_TRANSPORT_SUCCESS \<Rightarrow> (ICE_CONTROLLER_RESULT_OK, Some i, tls c2)
             | TLS_TRANSPORT_OTHER \<Rightarrow>
                 (ICE_CONTROLLER_RESULT_FAIL_SOCKET_CONNECT, None,
                  upd_sock i (\<lambda>s. s\<lparr>socketFd := -1\<rparr>) (c2\<lparr>socketsContextsCount := socketsContextsCount c2 - 1\<rparr>))))
      else (ICE_CONTROLLER_RESULT_NO_SOCKET_CONTEXT_AVAILABLE, None, c))"

text \<open>\<open>dest\<close> is only given for TCP; without it a TCP request dereferences NULL, which no caller does.\<close>

definition CreateSocketContext ::
    "('x, 'w) ice_env \<Rightarrow> stun_family \<Rightarrow> nat option \<Rightarrow> IceEndpoint \<Rightarrow> IceSocketProtocol \<Rightarrow> ('x, 'w) IceControllerContext
      \<Rightarrow> IceControllerResult \<times> nat option \<times> ('x, 'w) IceControllerContext" where
  "CreateSocketContext env family bindTo dest proto c =
     (if \<not> socketMutexOk env then (ICE_CONTROLLER_RESULT_FAIL_MUTEX_TAKE, None, c)
      else (case proto of
              ICE_SOCKET_PROTOCOL_UDP \<Rightarrow> CreateSocketContextUdp env family bindTo c
            | ICE_SOCKET_PROTOCOL_TCP \<Rightarrow> CreateSocketContextTcp env dest c
            | ICE_SOCKET_PROTOCOL_NONE \<Rightarrow> (ICE_CONTROLLER_RESULT_INVALID_PROTOCOL, None, c)))"

text \<open>\<open>TLS_FreeRTOS_Disconnect\<close> closes the descriptor of the session, and the function closes it again.\<close>

definition IceControllerNet_FreeSocketContext ::
    "('x, 'w) ice_env \<Rightarrow> nat \<Rightarrow> ('x, 'w) IceControllerContext \<Rightarrow> ('x, 'w) IceControllerContext" where
  "IceControllerNet_FreeSocketContext env i c =
     (let s = sock c i
      in if socketFd s \<noteq> -1 \<and> socketMutexOk env
         then
           (let c1 = (if socketType s = ICE_CONTROLLER_SOCKET_TYPE_TLS then close_fd (socketFd s) c else c)
            in upd_sock i (\<lambda>s. s\<lparr>socketFd := -1, sockState := ICE_CONTROLLER_SOCKET_CONTEXT_STATE_NONE\<rparr>) (close_fd (socketFd s) c1))
         else c)"

section \<open>Sending\<close>

text \<open>The loop: \<open>buf\<close> is what is left to send and \<open>delay\<close> is \<open>totalDelayMs\<close>.  A socket that keeps
  answering \<open>EAGAIN\<close> is retried for ever.\<close>

partial_function (option) send_loop ::
    "('x, 'w) ice_env \<Rightarrow> bool \<Rightarrow> int \<Rightarrow> IceEndpoint \<Rightarrow> bytes \<Rightarrow> nat \<Rightarrow> 'w \<Rightarrow> (IceControllerResult \<times> 'w) option" where
  "send_loop env tls fd dest buf delay w =
     (if buf = [] then Some (ICE_CONTROLLER_RESULT_OK, w)
      else
        (case (if tls then tlsSend (os env) fd buf w else osSendto (os env) fd buf dest w) of
           (Sent n, w') \<Rightarrow> send_loop env tls fd dest (drop n buf) delay w'
         | (SendAgain, w') \<Rightarrow> send_loop env tls fd dest buf delay w'
         | (SendNoMemory, w') \<Rightarrow>
             if 1000 \<le> delay + 50 then Some (ICE_CONTROLLER_RESULT_FAIL_SOCKET_SENDTO, w')
             else send_loop env tls fd dest buf (delay + 50) w'
         | (SendFailed, w') \<Rightarrow> Some (ICE_CONTROLLER_RESULT_FAIL_SOCKET_SENDTO, w')))"

definition SendSocketPacket ::
    "('x, 'w) ice_env \<Rightarrow> IceControllerSocketContext \<Rightarrow> bytes \<Rightarrow> IceEndpoint \<Rightarrow> 'w \<Rightarrow> (IceControllerResult \<times> 'w) option" where
  "SendSocketPacket env s buf dest w =
     (if buf = [] then Some (ICE_CONTROLLER_RESULT_OK, w)
      else if socketType s = ICE_CONTROLLER_SOCKET_TYPE_UDP then send_loop env False (socketFd s) dest buf 0 w
      else if socketType s = ICE_CONTROLLER_SOCKET_TYPE_TLS then send_loop env True (socketFd s) dest buf 0 w
      else Some (ICE_CONTROLLER_RESULT_FAIL_SOCKET_SENDTO, w))"

text \<open>The part under the mutex.\<close>

definition send_locked ::
    "('x, 'w) ice_env \<Rightarrow> nat \<Rightarrow> IceEndpoint \<Rightarrow> bytes \<Rightarrow> ('x, 'w) IceControllerContext
      \<Rightarrow> (IceControllerResult \<times> ('x, 'w) IceControllerContext) option" where
  "send_locked env i dest buf c =
     (let s = sock c i
      in if sockState s = ICE_CONTROLLER_SOCKET_CONTEXT_STATE_NONE
         then Some (ICE_CONTROLLER_RESULT_FAIL_SOCKET_CONTEXT_ALREADY_CLOSED, c)
         else do {
           l \<leftarrow> pLocalCandidate s;
           cand \<leftarrow> local_candidate c l;
           if epFamily (endpoint cand) \<noteq> epFamily dest then Some (ICE_CONTROLLER_RESULT_FAIL_SOCKET_SENDTO, c)
           else if socketType s = ICE_CONTROLLER_SOCKET_TYPE_UDP \<or> socketType s = ICE_CONTROLLER_SOCKET_TYPE_TLS
           then do { (r, w) \<leftarrow> SendSocketPacket env s buf dest (world c); Some (r, c\<lparr>world := w\<rparr>) }
           else Some (ICE_CONTROLLER_RESULT_FAIL_SOCKET_TYPE, c)
         })"

text \<open>A socket on which sending failed is closed, and with the nominated socket the session.\<close>

definition send_failed :: "('x, 'w) ice_env \<Rightarrow> nat \<Rightarrow> ('x, 'w) IceControllerContext \<Rightarrow> ('x, 'w) IceControllerContext option" where
  "send_failed env i c =
     (let c1 = (case pLocalCandidate (sock c i) of
            Some l \<Rightarrow> c\<lparr>iceContext := iceCloseCandidate (lib env) l (iceContext c)\<rparr>
          | None \<Rightarrow> c);
          c2 = IceControllerNet_FreeSocketContext env i c1
      in if pNominatedSocketContext c2 = Some i \<and> onIceEventCallbackFunc env \<noteq> None
         then do {
           (_, c3) \<leftarrow> notify env ICE_CONTROLLER_CB_EVENT_ICE_CLOSE_NOTIFY None c2;
           Some (IceController_UpdateTimerInterval env ICE_CONTROLLER_CLOSING_INTERVAL_MS c3)
         }
         else Some c2)"

definition IceControllerNet_SendPacket ::
    "('x, 'w) ice_env \<Rightarrow> nat \<Rightarrow> IceEndpoint \<Rightarrow> bytes \<Rightarrow> ('x, 'w) IceControllerContext
      \<Rightarrow> (IceControllerResult \<times> ('x, 'w) IceControllerContext) option" where
  "IceControllerNet_SendPacket env i dest buf c =
     (if \<not> socketMutexOk env then Some (ICE_CONTROLLER_RESULT_FAIL_MUTEX_TAKE, c)
      else do {
        (r, c1) \<leftarrow> send_locked env i dest buf c;
        if r = ICE_CONTROLLER_RESULT_FAIL_SOCKET_SENDTO
        then do { c2 \<leftarrow> send_failed env i c1; Some (r, c2) }
        else Some (r, c1)
      })"

section \<open>Local candidates\<close>

text \<open>The index of the candidate that the library added last.\<close>

definition last_candidate :: "('x, 'w) IceControllerContext \<Rightarrow> nat" where
  "last_candidate c = length (localCandidates (iceContext c)) - 1"

text \<open>Announcing a candidate counts it when the owner accepts it.\<close>

definition announce ::
    "('x, 'w) ice_env \<Rightarrow> nat option \<Rightarrow> ('x, 'w) IceControllerContext \<Rightarrow> (int \<times> ('x, 'w) IceControllerContext) option" where
  "announce env cand c =
     do {
       (r, c1) \<leftarrow> notify env ICE_CONTROLLER_CB_EVENT_LOCAL_CANDIDATE_READY cand c;
       Some (r, if r = 0 then c1\<lparr>candidateFoundationCounter := candidateFoundationCounter c1 + 1\<rparr> else c1)
     }"

definition AddHostCandidate ::
    "('x, 'w) ice_env \<Rightarrow> nat \<Rightarrow> ('x, 'w) IceControllerContext \<Rightarrow> ('x, 'w) IceControllerContext option" where
  "AddHostCandidate env b c =
     (case CreateSocketContext env (epFamily (localEndpoints c ! b)) (Some b) zero_endpoint ICE_SOCKET_PROTOCOL_UDP c of
        (r, slot, c1) \<Rightarrow>
          if r \<noteq> ICE_CONTROLLER_RESULT_OK then Some c1
          else if \<not> iceMutexOk env then Some c1
          else
            (let i = the slot; (ir, ice) = iceAddHostCandidate (lib env) (localEndpoints c1 ! b) (iceContext c1);
                 c2 = c1\<lparr>iceContext := ice\<rparr>; l = last_candidate c2
             in if ir \<noteq> ICE_RESULT_OK then Some (IceControllerNet_FreeSocketContext env i c2)
                else if onIceEventCallbackFunc env = None
                then Some (IceControllerNet_UpdateSocketContext env i ICE_CONTROLLER_SOCKET_CONTEXT_STATE_READY (Some l) None None c2)
                else do {
                  (ret, c3) \<leftarrow> announce env (Some l) c2;
                  Some (if ret = 0
                        then IceControllerNet_UpdateSocketContext env i ICE_CONTROLLER_SOCKET_CONTEXT_STATE_READY (Some l) None None c3
                        else IceControllerNet_FreeSocketContext env i c3)
                }))"

text \<open>The DNS lookup for a server, stored in the server's endpoint.\<close>

definition resolve_server ::
    "('x, 'w) ice_env \<Rightarrow> nat \<Rightarrow> ('x, 'w) IceControllerContext \<Rightarrow> IceControllerResult \<times> ('x, 'w) IceControllerContext" where
  "resolve_server env k c =
     (let srv = iceServers c ! k; (r, ep, w) = IceControllerNet_DnsLookUp env (url srv) (serverEndpoint srv) (world c)
      in (r, c\<lparr>world := w, iceServers := (iceServers c)[k := srv\<lparr>serverEndpoint := ep\<rparr>]\<rparr>))"

text \<open>The loop over the servers \<open>ks\<close> for the local endpoint \<open>b\<close>.\<close>

fun AddSrflxCandidate ::
    "('x, 'w) ice_env \<Rightarrow> nat \<Rightarrow> nat list \<Rightarrow> ('x, 'w) IceControllerContext \<Rightarrow> ('x, 'w) IceControllerContext" where
  "AddSrflxCandidate env b [] c = c"
| "AddSrflxCandidate env b (k # ks) c =
     (if serverType (iceServers c ! k) \<noteq> ICE_CONTROLLER_ICE_SERVER_TYPE_STUN then AddSrflxCandidate env b ks c
      else
        (let (dns, c1) = resolve_server env k c; fam = epFamily (serverEndpoint (iceServers c1 ! k))
         in if dns \<noteq> ICE_CONTROLLER_RESULT_OK then AddSrflxCandidate env b ks c1
            else if \<not> (fam = STUN_ADDRESS_IPv4 \<and> epFamily (localEndpoints c1 ! b) = fam) then AddSrflxCandidate env b ks c1
            else
              (case CreateSocketContext env (epFamily (localEndpoints c1 ! b)) (Some b) zero_endpoint ICE_SOCKET_PROTOCOL_UDP c1 of
                 (r, slot, c2) \<Rightarrow>
                   if r \<noteq> ICE_CONTROLLER_RESULT_OK then AddSrflxCandidate env b ks c2
                   else if \<not> iceMutexOk env then AddSrflxCandidate env b ks c2
                   else
                     (let i = the slot; (ir, ice) = iceAddServerReflexiveCandidate (lib env) (localEndpoints c2 ! b) (iceContext c2);
                          c3 = c2\<lparr>iceContext := ice\<rparr>
                      in if ir \<noteq> ICE_RESULT_OK then IceControllerNet_FreeSocketContext env i c3
                         else AddSrflxCandidate env b ks
                           (upd_metrics (\<lambda>m. m\<lparr>pendingSrflxCandidateNum := pendingSrflxCandidateNum m + 1\<rparr>)
                             (IceControllerNet_UpdateSocketContext env i ICE_CONTROLLER_SOCKET_CONTEXT_STATE_CREATE
                               (Some (last_candidate c3)) None (Some k) c3))))))"

text \<open>Which servers are used for relay candidates: TURN over UDP and TURNS over TCP.\<close>

definition relay_server :: "IceControllerIceServer \<Rightarrow> bool" where
  "relay_server srv \<longleftrightarrow>
     \<not> (serverType srv \<noteq> ICE_CONTROLLER_ICE_SERVER_TYPE_TURN \<and> serverType srv \<noteq> ICE_CONTROLLER_ICE_SERVER_TYPE_TURNS) \<and>
     \<not> (serverProtocol srv \<noteq> ICE_SOCKET_PROTOCOL_UDP \<and> serverProtocol srv \<noteq> ICE_SOCKET_PROTOCOL_TCP) \<and>
     \<not> (serverProtocol srv = ICE_SOCKET_PROTOCOL_UDP \<and> serverType srv \<noteq> ICE_CONTROLLER_ICE_SERVER_TYPE_TURN) \<and>
     \<not> (serverProtocol srv = ICE_SOCKET_PROTOCOL_TCP \<and> serverType srv \<noteq> ICE_CONTROLLER_ICE_SERVER_TYPE_TURNS)"

definition add_relay ::
    "('x, 'w) ice_env \<Rightarrow> nat \<Rightarrow> ('x, 'w) IceControllerContext \<Rightarrow> IceResult \<times> ('x, 'w) IceControllerContext" where
  "add_relay env k c =
     (let srv = iceServers c ! k;
          (ir, ice) = iceAddRelayCandidate (lib env) (serverEndpoint srv) (userName srv) (password srv) (iceContext c)
      in (ir, c\<lparr>iceContext := ice\<rparr>))"

definition relay_pending :: "('x, 'w) IceControllerContext \<Rightarrow> ('x, 'w) IceControllerContext" where
  "relay_pending = upd_metrics (\<lambda>m. m\<lparr>pendingRelayCandidateNum := pendingRelayCandidateNum m + 1\<rparr>)"

fun AddRelayCandidates ::
    "('x, 'w) ice_env \<Rightarrow> nat list \<Rightarrow> ('x, 'w) IceControllerContext \<Rightarrow> ('x, 'w) IceControllerContext" where
  "AddRelayCandidates env [] c = c"
| "AddRelayCandidates env (k # ks) c =
     (if \<not> relay_server (iceServers c ! k) then AddRelayCandidates env ks c
      else
        (let (dns, c1) = resolve_server env k c; srv = iceServers c1 ! k
         in if dns \<noteq> ICE_CONTROLLER_RESULT_OK then AddRelayCandidates env ks c1
            else
              (case CreateSocketContext env STUN_ADDRESS_IPv4 None (serverEndpoint srv) (serverProtocol srv) c1 of
                 (r, slot, c2) \<Rightarrow>
                   (let i = the slot
                    in if r = ICE_CONTROLLER_RESULT_OK
                       then if \<not> iceMutexOk env then AddRelayCandidates env ks c2
                            else
                              (let (ir, c3) = add_relay env k c2
                               in if ir \<noteq> ICE_RESULT_OK then IceControllerNet_FreeSocketContext env i c3
                                  else AddRelayCandidates env ks
                                    (relay_pending (IceControllerNet_UpdateSocketContext env i
                                       ICE_CONTROLLER_SOCKET_CONTEXT_STATE_CREATE (Some (last_candidate c3)) None (Some k) c3)))
                       else if r = ICE_CONTROLLER_RESULT_CONNECTION_IN_PROGRESS
                       then AddRelayCandidates env ks
                              (relay_pending (IceControllerNet_UpdateSocketContext env i
                                 ICE_CONTROLLER_SOCKET_CONTEXT_STATE_CONNECTION_IN_PROGRESS None None (Some k) c2))
                       else AddRelayCandidates env ks c2))))"

text \<open>The loop over the local endpoints \<open>bs\<close>.\<close>

fun gather_local ::
    "('x, 'w) ice_env \<Rightarrow> nat list \<Rightarrow> ('x, 'w) IceControllerContext \<Rightarrow> ('x, 'w) IceControllerContext option" where
  "gather_local env [] c = Some c"
| "gather_local env (b # bs) c =
     do {
       c1 \<leftarrow> (if ICE_CONTROLLER_IS_NAT_CONFIG_SET c NAT_SEND_HOST then AddHostCandidate env b c else Some c);
       let c2 = (if ICE_CONTROLLER_IS_NAT_CONFIG_SET c1 NAT_SEND_SRFLX
                 then AddSrflxCandidate env b [0..<length (iceServers c1)] c1 else c1);
       gather_local env bs c2
     }"

definition IceControllerNet_AddLocalCandidates ::
    "('x, 'w) ice_env \<Rightarrow> ('x, 'w) IceControllerContext \<Rightarrow> ('x, 'w) IceControllerContext option" where
  "IceControllerNet_AddLocalCandidates env c =
     (let (ifs, w) = osGetifaddrs (os env) (world c);
          eps = GetLocalIPAdresses ICE_CONTROLLER_MAX_LOCAL_CANDIDATE_COUNT ifs
      in do {
        c1 \<leftarrow> gather_local env [0..<length eps] (c\<lparr>world := w, localEndpoints := eps\<rparr>);
        Some (if ICE_CONTROLLER_IS_NAT_CONFIG_SET c1 NAT_SEND_RELAY
              then AddRelayCandidates env [0..<length (iceServers c1)] c1 else c1)
      })"

section \<open>The TLS handshake with a relay\<close>

text \<open>\<open>isLocked\<close> says that the caller holds the ICE mutex.\<close>

definition IceControllerNet_ExecuteTlsHandshake ::
    "('x, 'w) ice_env \<Rightarrow> nat \<Rightarrow> bool \<Rightarrow> ('x, 'w) IceControllerContext
      \<Rightarrow> (IceControllerResult \<times> ('x, 'w) IceControllerContext) option" where
  "IceControllerNet_ExecuteTlsHandshake env i isLocked c =
     (let s = sock c i
      in if socketType s \<noteq> ICE_CONTROLLER_SOCKET_TYPE_TLS then Some (ICE_CONTROLLER_RESULT_BAD_PARAMETER, c)
         else if \<not> socketMutexOk env then Some (ICE_CONTROLLER_RESULT_FAIL_MUTEX_TAKE, c)
         else
           (case tlsContinueHandshake (os env) (socketFd s) (world c) of
              (TLS_TRANSPORT_SUCCESS, w) \<Rightarrow>
                (let c1 = c\<lparr>world := w\<rparr>
                 in if \<not> (isLocked \<or> iceMutexOk env) then Some (ICE_CONTROLLER_RESULT_FAIL_MUTEX_TAKE, c1)
                    else do {
                      k \<leftarrow> pIceServer s;
                      let (ir, c2) = add_relay env k c1;
                      Some (ICE_CONTROLLER_RESULT_OK,
                        if ir \<noteq> ICE_RESULT_OK then IceControllerNet_FreeSocketContext env i c2
                        else IceControllerNet_UpdateSocketContext env i ICE_CONTROLLER_SOCKET_CONTEXT_STATE_CREATE
                               (Some (last_candidate c2)) None (Some k) c2)
                    })
            | (TLS_TRANSPORT_HANDSHAKE_IN_PROGRESS, w) \<Rightarrow> Some (ICE_CONTROLLER_RESULT_OK, c\<lparr>world := w\<rparr>)
            | (TLS_TRANSPORT_OTHER, w) \<Rightarrow> Some (ICE_CONTROLLER_RESULT_OK, IceControllerNet_FreeSocketContext env i (c\<lparr>world := w\<rparr>))))"

section \<open>STUN packets\<close>

text \<open>Where a packet for a pair goes: to the server of the socket for a relay candidate, otherwise to the
  remote candidate of the pair.\<close>

definition pair_destination :: "nat \<Rightarrow> nat \<Rightarrow> ('x, 'w) IceControllerContext \<Rightarrow> IceEndpoint option" where
  "pair_destination i p c =
     do {
       l \<leftarrow> pLocalCandidate (sock c i);
       cand \<leftarrow> local_candidate c l;
       if candidateKind cand = ICE_CANDIDATE_TYPE_RELAY then server_endpoint c i
       else do {
         pr \<leftarrow> mem_read (candidatePairs (iceContext c)) p;
         k \<leftarrow> pairRemote pr;
         rc \<leftarrow> mem_read (remoteCandidates (iceContext c)) k;
         Some (endpoint rc)
       }
     }"

definition SendBindingResponse ::
    "('x, 'w) ice_env \<Rightarrow> nat \<Rightarrow> nat option \<Rightarrow> bytes \<Rightarrow> ('x, 'w) IceControllerContext
      \<Rightarrow> (IceControllerResult \<times> ('x, 'w) IceControllerContext) option" where
  "SendBindingResponse env i pair tid c =
     (case pair of
        None \<Rightarrow> Some (ICE_CONTROLLER_RESULT_BAD_PARAMETER, c)
      | Some p \<Rightarrow>
          if \<not> iceMutexOk env then Some (ICE_CONTROLLER_RESULT_FAIL_MUTEX_TAKE, c)
          else
            (let (ir, buf, ice) = iceCreateResponseForRequest (lib env) p tid (iceContext c); c1 = c\<lparr>iceContext := ice\<rparr>
             in if ir \<noteq> ICE_RESULT_OK then Some (ICE_CONTROLLER_RESULT_FAIL_SEND_BIND_RESPONSE, c1)
                else do {
                  dest \<leftarrow> pair_destination i p c1;
                  (r, c2) \<leftarrow> IceControllerNet_SendPacket env i dest buf c1;
                  Some (if r \<noteq> ICE_CONTROLLER_RESULT_OK then ICE_CONTROLLER_RESULT_FAIL_SEND_BIND_RESPONSE else r, c2)
                }))"

definition SendNominationRequest ::
    "('x, 'w) ice_env \<Rightarrow> nat \<Rightarrow> nat option \<Rightarrow> ('x, 'w) IceControllerContext
      \<Rightarrow> (IceControllerResult \<times> ('x, 'w) IceControllerContext) option" where
  "SendNominationRequest env i pair c =
     (case pair of
        None \<Rightarrow> Some (ICE_CONTROLLER_RESULT_BAD_PARAMETER, c)
      | Some p \<Rightarrow>
          if \<not> iceMutexOk env then Some (ICE_CONTROLLER_RESULT_FAIL_MUTEX_TAKE, c)
          else
            (let (ir, buf, ice) = iceCreateNextPairRequest (lib env) (Some p) (now_sec env c) (iceContext c); c1 = c\<lparr>iceContext := ice\<rparr>
             in if ir \<noteq> ICE_RESULT_OK then Some (ICE_CONTROLLER_RESULT_FAIL_SEND_BIND_RESPONSE, c1)
                else do {
                  dest \<leftarrow> pair_destination i p c1;
                  (r, c2) \<leftarrow> IceControllerNet_SendPacket env i dest buf c1;
                  Some (if r \<noteq> ICE_CONTROLLER_RESULT_OK then ICE_CONTROLLER_RESULT_FAIL_SEND_NOMINATION_REQUEST else r, c2)
                }))"

definition CheckNomination :: "nat option \<Rightarrow> ('x, 'w) IceControllerContext \<Rightarrow> IceControllerResult option" where
  "CheckNomination pair c =
     (case pair of
        None \<Rightarrow> Some ICE_CONTROLLER_RESULT_BAD_PARAMETER
      | Some p \<Rightarrow> do {
          pr \<leftarrow> mem_read (candidatePairs (iceContext c)) p;
          Some (if pairSucceeded pr \<and> pNominatedSocketContext c = None then ICE_CONTROLLER_RESULT_FOUND_CONNECTION
                else ICE_CONTROLLER_RESULT_OK)
        })"

text \<open>The address of a reflexive or relay candidate is known: the socket is ready, and the owner is told.\<close>

definition candidate_updated ::
    "('x, 'w) ice_env \<Rightarrow> nat \<Rightarrow> ('x, 'w) IceControllerContext \<Rightarrow> ('x, 'w) IceControllerContext option" where
  "candidate_updated env i c =
     (let s = sock c i;
          c1 = IceControllerNet_UpdateSocketContext env i ICE_CONTROLLER_SOCKET_CONTEXT_STATE_READY
                 (pLocalCandidate s) (pRemoteCandidate s) (pIceServer s) c
      in map_option snd (announce env (pLocalCandidate s) c1))"

text \<open>A request of the library to be sent to the server of the socket: creating it may fail, and a failure
  to send is only logged.\<close>

definition send_to_server ::
    "('x, 'w) ice_env \<Rightarrow> nat \<Rightarrow> ('x IceContext \<Rightarrow> IceResult \<times> bytes \<times> 'x IceContext) \<Rightarrow> ('x, 'w) IceControllerContext
      \<Rightarrow> (IceControllerResult \<times> ('x, 'w) IceControllerContext) option" where
  "send_to_server env i create c =
     (if \<not> iceMutexOk env then Some (ICE_CONTROLLER_RESULT_FAIL_MUTEX_TAKE, c)
      else
        (let (ir, buf, ice) = create (iceContext c); c1 = c\<lparr>iceContext := ice\<rparr>
         in if ir \<noteq> ICE_RESULT_OK then Some (ICE_CONTROLLER_RESULT_OK, c1)
            else do {
              dest \<leftarrow> server_endpoint c1 i;
              (_, c2) \<leftarrow> IceControllerNet_SendPacket env i dest buf c1;
              Some (ICE_CONTROLLER_RESULT_OK, c2)
            }))"

definition response_and_check ::
    "('x, 'w) ice_env \<Rightarrow> nat \<Rightarrow> nat option \<Rightarrow> bytes \<Rightarrow> ('x, 'w) IceControllerContext
      \<Rightarrow> (IceControllerResult \<times> ('x, 'w) IceControllerContext) option" where
  "response_and_check env i pair tid c =
     do {
       (r, c1) \<leftarrow> SendBindingResponse env i pair tid c;
       if r = ICE_CONTROLLER_RESULT_OK then do { r' \<leftarrow> CheckNomination pair c1; Some (r', c1) } else Some (r, c1)
     }"

text \<open>The \<open>switch\<close> over the result of the library; the results that are only logged are one value.\<close>

definition handle_stun_result ::
    "('x, 'w) ice_env \<Rightarrow> nat \<Rightarrow> IceHandleStunPacketResult \<Rightarrow> bytes \<Rightarrow> nat option \<Rightarrow> u64 \<Rightarrow> ('x, 'w) IceControllerContext
      \<Rightarrow> (IceControllerResult \<times> ('x, 'w) IceControllerContext) option" where
  "handle_stun_result env i res tid pair sec c =
     (case res of
        ICE_HANDLE_STUN_PACKET_RESULT_UPDATED_SERVER_REFLEXIVE_CANDIDATE_ADDRESS \<Rightarrow> do {
          c1 \<leftarrow> (if onIceEventCallbackFunc env = None then Some c else candidate_updated env i c);
          Some (ICE_CONTROLLER_RESULT_OK, upd_metrics (\<lambda>m. m\<lparr>pendingSrflxCandidateNum := pendingSrflxCandidateNum m - 1\<rparr>) c1)
        }
      | ICE_HANDLE_STUN_PACKET_RESULT_UPDATED_RELAY_CANDIDATE_ADDRESS \<Rightarrow>
          if onIceEventCallbackFunc env = None then Some (ICE_CONTROLLER_RESULT_OK, c)
          else do {
            c1 \<leftarrow> candidate_updated env i c;
            Some (ICE_CONTROLLER_RESULT_OK, upd_metrics (\<lambda>m. m\<lparr>pendingRelayCandidateNum := pendingRelayCandidateNum m - 1\<rparr>) c1)
          }
      | ICE_HANDLE_STUN_PACKET_RESULT_SEND_TRIGGERED_CHECK \<Rightarrow> response_and_check env i pair tid c
      | ICE_HANDLE_STUN_PACKET_RESULT_SEND_RESPONSE_FOR_REMOTE_REQUEST \<Rightarrow> response_and_check env i pair tid c
      | ICE_HANDLE_STUN_PACKET_RESULT_SEND_CHANNEL_BIND_REQUEST \<Rightarrow> send_to_server env i (iceCreateNextPairRequest (lib env) pair sec) c
      | ICE_HANDLE_STUN_PACKET_RESULT_SEND_CONNECTIVITY_CHECK_REQUEST \<Rightarrow> send_to_server env i (iceCreateNextPairRequest (lib env) pair sec) c
      | ICE_HANDLE_STUN_PACKET_RESULT_SEND_RESPONSE_AND_START_NOMINATION \<Rightarrow> do {
          (r, c1) \<leftarrow> SendBindingResponse env i pair tid c;
          if r \<noteq> ICE_CONTROLLER_RESULT_OK then Some (r, c1) else SendNominationRequest env i pair c1
        }
      | ICE_HANDLE_STUN_PACKET_RESULT_START_NOMINATION \<Rightarrow> SendNominationRequest env i pair c
      | ICE_HANDLE_STUN_PACKET_RESULT_CANDIDATE_PAIR_READY \<Rightarrow> do { r \<leftarrow> CheckNomination pair c; Some (r, c) }
      | ICE_HANDLE_STUN_PACKET_RESULT_SEND_ALLOCATION_REQUEST \<Rightarrow>
          send_to_server env i (iceCreateNextCandidateRequest (lib env) (pLocalCandidate (sock c i)) sec) c
      | ICE_HANDLE_STUN_PACKET_RESULT_TURN_SESSION_TERMINATED \<Rightarrow>
          Some (ICE_CONTROLLER_RESULT_CONNECTION_CLOSED, IceControllerNet_FreeSocketContext env i c)
      | ICE_HANDLE_STUN_PACKET_RESULT_UNEXPECTED_RESPONSE \<Rightarrow> Some (ICE_CONTROLLER_RESULT_OK, c)
      | ICE_HANDLE_STUN_PACKET_RESULT_NOT_STUN_PACKET \<Rightarrow> Some (ICE_CONTROLLER_RESULT_NOT_STUN_PACKET, c)
      | ICE_HANDLE_STUN_PACKET_RESULT_ONLY_LOGGED \<Rightarrow> Some (ICE_CONTROLLER_RESULT_OK, c))"

definition IceControllerNet_HandleStunPacket ::
    "('x, 'w) ice_env \<Rightarrow> nat \<Rightarrow> bytes \<Rightarrow> IceEndpoint \<Rightarrow> ('x, 'w) IceControllerContext
      \<Rightarrow> (IceControllerResult \<times> ('x, 'w) IceControllerContext) option" where
  "IceControllerNet_HandleStunPacket env i buf remote c =
     (if \<not> iceMutexOk env then Some (ICE_CONTROLLER_RESULT_FAIL_MUTEX_TAKE, c)
      else
        (let sec = now_sec env c;
             (res, tid, pair, ice) = iceHandleStunPacket (lib env) buf (pLocalCandidate (sock c i)) remote sec (iceContext c)
         in handle_stun_result env i res tid pair sec (c\<lparr>iceContext := ice\<rparr>)))"

end
