(* ===== verification/Ice_Controller.thy ===== *)
theory Ice_Controller
  imports Ice_Net
begin

text \<open>
  \<open>ice_controller/ice_controller.c\<close>: connectivity checks, the choice of a connection, sending to the
  remote peer, and closing.  The loops over the socket table test the current count at every round;
  the table has \<open>ICE_CONTROLLER_MAX_LOCAL_CANDIDATE_COUNT\<close> entries.
\<close>

section \<open>The listener's flag\<close>

definition IceControllerSocketListener_StartPolling ::
    "('x, 'w) ice_env \<Rightarrow> ('x, 'w) IceControllerContext \<Rightarrow> IceControllerResult \<times> ('x, 'w) IceControllerContext" where
  "IceControllerSocketListener_StartPolling env c =
     (if socketMutexOk env then (ICE_CONTROLLER_RESULT_OK, c\<lparr>executeSocketListener := True\<rparr>)
      else (ICE_CONTROLLER_RESULT_FAIL_MUTEX_TAKE, c))"

definition IceControllerSocketListener_StopPolling ::
    "('x, 'w) ice_env \<Rightarrow> ('x, 'w) IceControllerContext \<Rightarrow> IceControllerResult \<times> ('x, 'w) IceControllerContext" where
  "IceControllerSocketListener_StopPolling env c =
     (if socketMutexOk env then (ICE_CONTROLLER_RESULT_OK, c\<lparr>executeSocketListener := False\<rparr>)
      else (ICE_CONTROLLER_RESULT_FAIL_MUTEX_TAKE, c))"

definition IceControllerSocketListener_Init :: "('x, 'w) IceControllerContext \<Rightarrow> ('x, 'w) IceControllerContext" where
  "IceControllerSocketListener_Init c = c\<lparr>executeSocketListener := False\<rparr>"

section \<open>The timer\<close>

text \<open>An event that the owner does not take is announced again later.\<close>

definition timer_event ::
    "('x, 'w) ice_env \<Rightarrow> IceControllerCallbackEvent \<Rightarrow> u32 \<Rightarrow> ('x, 'w) IceControllerContext \<Rightarrow> ('x, 'w) IceControllerContext option" where
  "timer_event env ev retryMs c =
     do {
       (r, c1) \<leftarrow> notify env ev None c;
       Some (if r \<noteq> 0 then IceController_UpdateTimerInterval env retryMs c1 else c1)
     }"

definition OnTimerExpire :: "('x, 'w) ice_env \<Rightarrow> ('x, 'w) IceControllerContext \<Rightarrow> ('x, 'w) IceControllerContext option" where
  "OnTimerExpire env c =
     (if onIceEventCallbackFunc env = None then Some c
      else (case state c of
              ICE_CONTROLLER_STATE_PROCESS_CANDIDATES_AND_PAIRS \<Rightarrow>
                timer_event env ICE_CONTROLLER_CB_EVENT_PROCESS_ICE_CANDIDATES_AND_PAIRS ICE_CONTROLLER_CONNECTIVITY_TIMER_INTERVAL_MS c
            | ICE_CONTROLLER_STATE_READY \<Rightarrow>
                timer_event env ICE_CONTROLLER_CB_EVENT_PERIODIC_CONNECTION_CHECK ICE_CONTROLLER_PERIODIC_TIMER_INTERVAL_MS c
            | ICE_CONTROLLER_STATE_CLOSING \<Rightarrow>
                timer_event env ICE_CONTROLLER_CB_EVENT_ICE_CLOSING ICE_CONTROLLER_CLOSING_INTERVAL_MS c
            | ICE_CONTROLLER_STATE_CLOSED \<Rightarrow>
                timer_event env ICE_CONTROLLER_CB_EVENT_ICE_CLOSED ICE_CONTROLLER_CLOSING_INTERVAL_MS c
            | _ \<Rightarrow> Some c))"

section \<open>Connectivity checks\<close>

text \<open>The last socket of a local candidate.\<close>

definition FindSocketContextByLocalCandidate :: "('x, 'w) IceControllerContext \<Rightarrow> nat \<Rightarrow> nat option" where
  "FindSocketContextByLocalCandidate c l =
     (case filter (\<lambda>i. pLocalCandidate (sock c i) = Some l) [0..<socketsContextsCount c] of
        [] \<Rightarrow> None
      | found \<Rightarrow> Some (last found))"

fun process_local ::
    "('x, 'w) ice_env \<Rightarrow> u64 \<Rightarrow> nat list \<Rightarrow> ('x, 'w) IceControllerContext \<Rightarrow> ('x, 'w) IceControllerContext option" where
  "process_local env sec [] c = Some c"
| "process_local env sec (i # js) c =
     (if socketsContextsCount c \<le> i then Some c
      else if sockState (sock c i) = ICE_CONTROLLER_SOCKET_CONTEXT_STATE_CONNECTION_IN_PROGRESS
      then do { (_, c1) \<leftarrow> IceControllerNet_ExecuteTlsHandshake env i True c; process_local env sec js c1 }
      else
        (case pLocalCandidate (sock c i) of
           None \<Rightarrow> process_local env sec js c
         | Some l \<Rightarrow>
             (let (ir, buf, ice) = iceCreateNextCandidateRequest (lib env) (Some l) sec (iceContext c); c1 = c\<lparr>iceContext := ice\<rparr>
              in if ir \<noteq> ICE_RESULT_OK then process_local env sec js c1
                 else do {
                   dest \<leftarrow> server_endpoint c1 i;
                   (_, c2) \<leftarrow> IceControllerNet_SendPacket env i dest buf c1;
                   process_local env sec js c2
                 })))"

definition ProcessLocalCandidates :: "('x, 'w) ice_env \<Rightarrow> ('x, 'w) IceControllerContext \<Rightarrow> ('x, 'w) IceControllerContext option" where
  "ProcessLocalCandidates env c =
     (if iceMutexOk env then process_local env (now_sec env c) [0..<ICE_CONTROLLER_MAX_LOCAL_CANDIDATE_COUNT] c else Some c)"

text \<open>\<open>target\<close> is the socket to use, \<open>pair\<close> the pair.\<close>

definition HandleCandidatePairRequest ::
    "('x, 'w) ice_env \<Rightarrow> nat option \<Rightarrow> nat option \<Rightarrow> ('x, 'w) IceControllerContext
      \<Rightarrow> (IceControllerResult \<times> ('x, 'w) IceControllerContext) option" where
  "HandleCandidatePairRequest env target pair c =
     (let (ir, buf, ice) = iceCreateNextPairRequest (lib env) pair (now_sec env c) (iceContext c); c1 = c\<lparr>iceContext := ice\<rparr>
      in if ir = ICE_RESULT_NO_NEXT_ACTION then Some (ICE_CONTROLLER_RESULT_OK, c1)
         else if ir \<noteq> ICE_RESULT_OK then Some (ICE_CONTROLLER_RESULT_FAIL_CREATE_NEXT_PAIR_REQUEST, c1)
         else do {
           p \<leftarrow> pair;
           pr \<leftarrow> mem_read (candidatePairs (iceContext c1)) p;
           case pairRemote pr of
             None \<Rightarrow> Some (ICE_CONTROLLER_RESULT_OK, c1)
           | Some k \<Rightarrow>
               (case (case target of None \<Rightarrow> FindSocketContextByLocalCandidate c1 (pairLocal pr) | Some i \<Rightarrow> Some i) of
                  None \<Rightarrow> Some (ICE_CONTROLLER_RESULT_OK, c1)
                | Some i \<Rightarrow> do {
                    cand \<leftarrow> local_candidate c1 (pairLocal pr);
                    dest \<leftarrow> (if candidateKind cand = ICE_CANDIDATE_TYPE_RELAY then server_endpoint c1 i
                             else map_option endpoint (mem_read (remoteCandidates (iceContext c1)) k));
                    IceControllerNet_SendPacket env i dest buf c1
                  })
         })"

fun process_pairs ::
    "('x, 'w) ice_env \<Rightarrow> nat list \<Rightarrow> ('x, 'w) IceControllerContext \<Rightarrow> ('x, 'w) IceControllerContext option" where
  "process_pairs env [] c = Some c"
| "process_pairs env (p # ps) c =
     do {
       pr \<leftarrow> mem_read (candidatePairs (iceContext c)) p;
       case FindSocketContextByLocalCandidate c (pairLocal pr) of
         None \<Rightarrow> process_pairs env ps c
       | Some i \<Rightarrow> do { (_, c1) \<leftarrow> HandleCandidatePairRequest env (Some i) (Some p) c; process_pairs env ps c1 }
     }"

definition ProcessCandidatePairs :: "('x, 'w) ice_env \<Rightarrow> ('x, 'w) IceControllerContext \<Rightarrow> ('x, 'w) IceControllerContext option" where
  "ProcessCandidatePairs env c =
     (if \<not> iceMutexOk env then Some c
      else
        (let c1 = upd_metrics (\<lambda>m. m\<lparr>isFirstConnectivityRequest := False\<rparr>) c;
             (ir, count) = iceGetCandidatePairCount (lib env) (iceContext c1)
         in if ir \<noteq> ICE_RESULT_OK then Some c1 else process_pairs env [0..<count] c1))"

text \<open>One round of the checks; \<open>PrintCandidatesStatus\<close> and \<open>PrintCandidatePairsStatus\<close> only log.\<close>

definition IceController_ProcessIceCandidatesAndPairs ::
    "('x, 'w) ice_env \<Rightarrow> ('x, 'w) IceControllerContext \<Rightarrow> (IceControllerResult \<times> ('x, 'w) IceControllerContext) option" where
  "IceController_ProcessIceCandidatesAndPairs env c =
     do {
       let ms = now_ms env c;
       c1 \<leftarrow> (if addLocalCandidates c then IceControllerNet_AddLocalCandidates env (c\<lparr>addLocalCandidates := False\<rparr>) else Some c);
       c2 \<leftarrow> ProcessCandidatePairs env c1;
       c3 \<leftarrow> ProcessLocalCandidates env c2;
       if ms > connectivityCheckTimeoutMs c3
       then if onIceEventCallbackFunc env = None then Some (ICE_CONTROLLER_RESULT_CONNECTIVITY_CHECK_TIMEOUT, c3)
            else do {
              (_, c4) \<leftarrow> notify env ICE_CONTROLLER_CB_EVENT_ICE_CLOSE_NOTIFY None c3;
              Some (ICE_CONTROLLER_RESULT_CONNECTIVITY_CHECK_TIMEOUT,
                IceController_UpdateTimerInterval env ICE_CONTROLLER_CLOSING_INTERVAL_MS c4)
            }
       else
         (let c4 = IceController_UpdateTimerInterval env ICE_CONTROLLER_CONNECTIVITY_TIMER_INTERVAL_MS c3
          in Some (ICE_CONTROLLER_RESULT_OK,
               if ms > printCandidatePairsStatusMs (metrics c4)
               then upd_metrics (\<lambda>m. m\<lparr>printCandidatePairsStatusMs := ms + ICE_CONTROLLER_PRINT_CONNECTIVITY_CHECK_PERIOD_MS\<rparr>) c4
               else c4))
     }"

definition IceController_PeriodConnectionCheck ::
    "('x, 'w) ice_env \<Rightarrow> ('x, 'w) IceControllerContext \<Rightarrow> (IceControllerResult \<times> ('x, 'w) IceControllerContext) option" where
  "IceController_PeriodConnectionCheck env c =
     (case pNominatedSocketContext c of
        Some i \<Rightarrow>
          if pLocalCandidate (sock c i) = None then Some (ICE_CONTROLLER_RESULT_FAIL_FIND_NOMINATED_CONTEXT, c)
          else do {
            c1 \<leftarrow> (if iceMutexOk env then map_option snd (HandleCandidatePairRequest env (Some i) (pCandidatePair (sock c i)) c) else Some c);
            c2 \<leftarrow> ProcessLocalCandidates env c1;
            Some (ICE_CONTROLLER_RESULT_OK, IceController_UpdateTimerInterval env ICE_CONTROLLER_PERIODIC_TIMER_INTERVAL_MS c2)
          }
      | None \<Rightarrow> Some (ICE_CONTROLLER_RESULT_FAIL_FIND_NOMINATED_CONTEXT, c))"

section \<open>Remote candidates\<close>

definition accept_candidate :: "('x, 'w) IceControllerContext \<Rightarrow> IceCandidateType \<Rightarrow> bool" where
  "accept_candidate c type =
     (case type of
        ICE_CANDIDATE_TYPE_HOST \<Rightarrow> ICE_CONTROLLER_IS_NAT_CONFIG_SET c NAT_ACCEPT_HOST
      | ICE_CANDIDATE_TYPE_PEER_REFLEXIVE \<Rightarrow> True
      | ICE_CANDIDATE_TYPE_SERVER_REFLEXIVE \<Rightarrow> ICE_CONTROLLER_IS_NAT_CONFIG_SET c NAT_ACCEPT_SRFLX
      | ICE_CANDIDATE_TYPE_RELAY \<Rightarrow> ICE_CONTROLLER_IS_NAT_CONFIG_SET c NAT_ACCEPT_RELAY
      | ICE_CANDIDATE_TYPE_OTHER \<Rightarrow> False)"

definition IceController_AddRemoteCandidate ::
    "('x, 'w) ice_env \<Rightarrow> IceControllerCandidate \<Rightarrow> ('x, 'w) IceControllerContext
      \<Rightarrow> IceControllerResult \<times> ('x, 'w) IceControllerContext" where
  "IceController_AddRemoteCandidate env cand c =
     (if epFamily (iceEndpoint cand) \<noteq> STUN_ADDRESS_IPv4 then (ICE_CONTROLLER_RESULT_FAIL_ADD_IPv6_REMOTE_CANDIDATE, c)
      else if protocol cand \<noteq> ICE_SOCKET_PROTOCOL_UDP then (ICE_CONTROLLER_RESULT_FAIL_ADD_NON_UDP_REMOTE_CANDIDATE, c)
      else if \<not> accept_candidate c (candidateType cand) then (ICE_CONTROLLER_RESULT_FAIL_ADD_CANDIDATE_TYPE, c)
      else if \<not> iceMutexOk env then (ICE_CONTROLLER_RESULT_FAIL_MUTEX_TAKE, c)
      else
        (let (ir, ice) = iceAddRemoteCandidate (lib env) cand (iceContext c)
         in (if ir \<noteq> ICE_RESULT_OK then ICE_CONTROLLER_RESULT_FAIL_ADD_REMOTE_CANDIDATE else ICE_CONTROLLER_RESULT_OK,
             c\<lparr>iceContext := ice\<rparr>)))"

section \<open>After the handshake\<close>

fun close_pairs :: "('x, 'w) ice_env \<Rightarrow> nat \<Rightarrow> nat list \<Rightarrow> ('x, 'w) IceControllerContext \<Rightarrow> ('x, 'w) IceControllerContext" where
  "close_pairs env keep [] c = c"
| "close_pairs env keep (p # ps) c =
     (if p = keep then close_pairs env keep ps c
      else close_pairs env keep ps (c\<lparr>iceContext := snd (iceCloseCandidatePair (lib env) p (iceContext c))\<rparr>))"

definition IceController_CloseOtherCandidatePairs ::
    "('x, 'w) ice_env \<Rightarrow> nat option \<Rightarrow> ('x, 'w) IceControllerContext \<Rightarrow> ('x, 'w) IceControllerContext" where
  "IceController_CloseOtherCandidatePairs env pair c =
     (case pair of
        None \<Rightarrow> c
      | Some keep \<Rightarrow>
          if \<not> iceMutexOk env then c
          else (case iceGetCandidatePairCount (lib env) (iceContext c) of
                  (ir, count) \<Rightarrow> if ir \<noteq> ICE_RESULT_OK then c else close_pairs env keep [0..<count] c))"

definition is_relay :: "('x, 'w) IceControllerContext \<Rightarrow> nat \<Rightarrow> bool" where
  "is_relay c i =
     (case pLocalCandidate (sock c i) of
        None \<Rightarrow> False
      | Some l \<Rightarrow> (case local_candidate c l of None \<Rightarrow> False | Some cand \<Rightarrow> candidateKind cand = ICE_CANDIDATE_TYPE_RELAY))"

text \<open>Telling the library to end the TURN session of a socket's candidate.\<close>

definition close_candidate_of :: "('x, 'w) ice_env \<Rightarrow> nat \<Rightarrow> ('x, 'w) IceControllerContext \<Rightarrow> ('x, 'w) IceControllerContext" where
  "close_candidate_of env i c =
     (case pLocalCandidate (sock c i) of
        Some l \<Rightarrow> c\<lparr>iceContext := iceCloseCandidate (lib env) l (iceContext c)\<rparr>
      | None \<Rightarrow> c)"

fun release_loop :: "('x, 'w) ice_env \<Rightarrow> nat \<Rightarrow> nat list \<Rightarrow> ('x, 'w) IceControllerContext \<Rightarrow> ('x, 'w) IceControllerContext" where
  "release_loop env chosen [] c = c"
| "release_loop env chosen (i # js) c =
     (if socketFd (sock c i) = socketFd (sock c chosen) then release_loop env chosen js c
      else if is_relay c i
      then release_loop env chosen js (if iceMutexOk env then close_candidate_of env i c else c)
      else release_loop env chosen js (IceControllerNet_FreeSocketContext env i c))"

definition ReleaseOtherSockets ::
    "('x, 'w) ice_env \<Rightarrow> nat option \<Rightarrow> ('x, 'w) IceControllerContext \<Rightarrow> ('x, 'w) IceControllerContext" where
  "ReleaseOtherSockets env chosen c =
     (case chosen of
        None \<Rightarrow> c
      | Some i \<Rightarrow>
          (let c1 = release_loop env i [0..<socketsContextsCount c] c
           in IceController_CloseOtherCandidatePairs env (pCandidatePair (sock c1 i)) c1))"

datatype IceControllerEvent = ICE_CONTROLLER_EVENT_NONE | ICE_CONTROLLER_EVENT_DTLS_HANDSHAKE_DONE

definition IceController_HandleEvent ::
    "('x, 'w) ice_env \<Rightarrow> IceControllerEvent \<Rightarrow> ('x, 'w) IceControllerContext \<Rightarrow> ('x, 'w) IceControllerContext" where
  "IceController_HandleEvent env event c =
     (case event of
        ICE_CONTROLLER_EVENT_DTLS_HANDSHAKE_DONE \<Rightarrow> ReleaseOtherSockets env (pNominatedSocketContext c) c
      | _ \<Rightarrow> c)"

section \<open>Sending to the peer\<close>

text \<open>The states are compared as numbers: only \<open>SELECTED\<close> is not below itself.\<close>

definition IceController_SendToRemotePeer ::
    "('x, 'w) ice_env \<Rightarrow> bytes option \<Rightarrow> ('x, 'w) IceControllerContext
      \<Rightarrow> (IceControllerResult \<times> ('x, 'w) IceControllerContext) option" where
  "IceController_SendToRemotePeer env pBuffer c =
     (case pBuffer of
        None \<Rightarrow> Some (ICE_CONTROLLER_RESULT_BAD_PARAMETER, c)
      | Some buf \<Rightarrow>
          (case pNominatedSocketContext c of
             None \<Rightarrow> Some (ICE_CONTROLLER_RESULT_FAIL_CONNECTION_NOT_READY, c)
           | Some i \<Rightarrow>
               (let s = sock c i
                in if sockState s \<noteq> ICE_CONTROLLER_SOCKET_CONTEXT_STATE_SELECTED
                   then Some (ICE_CONTROLLER_RESULT_FAIL_CONNECTION_NOT_READY, c)
                   else (case (pLocalCandidate s, pRemoteCandidate s, pCandidatePair s) of
                       (Some l, Some k, Some p) \<Rightarrow> do {
                         cand \<leftarrow> local_candidate c l;
                         if candidateKind cand = ICE_CANDIDATE_TYPE_RELAY
                         then if length buf + turnHeaderLength (lib env) > ICE_CONTROLLER_MAX_MTU
                              then Some (ICE_CONTROLLER_RESULT_FAIL_EXCEED_MTU, c)
                              else if \<not> iceMutexOk env then Some (ICE_CONTROLLER_RESULT_FAIL_MUTEX_TAKE, c)
                              else
                                (let (ir, turn, ice) = iceCreateTurnChannelDataMessage (lib env) p buf (iceContext c); c1 = c\<lparr>iceContext := ice\<rparr>
                                 in if ir \<noteq> ICE_RESULT_OK \<and> ir \<noteq> ICE_RESULT_TURN_CHANNEL_DATA_HEADER_NOT_REQUIRED
                                    then Some (ICE_CONTROLLER_RESULT_FAIL_CREATE_TURN_CHANNEL_DATA, c1)
                                    else do {
                                      dest \<leftarrow> server_endpoint c1 i;
                                      IceControllerNet_SendPacket env i dest (if ir = ICE_RESULT_OK then turn else buf) c1
                                    })
                         else do {
                           rc \<leftarrow> mem_read (remoteCandidates (iceContext c)) k;
                           IceControllerNet_SendPacket env i (endpoint rc) buf c
                         }
                       }
                     | _ \<Rightarrow> Some (ICE_CONTROLLER_RESULT_FAIL_CONNECTION_NOT_READY, c)))))"

section \<open>Closing\<close>

text \<open>All sockets are closed: the listener stops, the owner is told, the controller is closed.\<close>

definition finish_closing ::
    "('x, 'w) ice_env \<Rightarrow> ('x, 'w) IceControllerContext \<Rightarrow> (IceControllerResult \<times> ('x, 'w) IceControllerContext) option" where
  "finish_closing env c =
     (let (r, c1) = IceControllerSocketListener_StopPolling env c
      in do {
        (_, c2) \<leftarrow> notify env ICE_CONTROLLER_CB_EVENT_ICE_CLOSED None c1;
        Some (r, IceController_UpdateState ICE_CONTROLLER_STATE_CLOSED c2)
      })"

definition any_socket_alive :: "('x, 'w) IceControllerContext \<Rightarrow> bool" where
  "any_socket_alive c \<longleftrightarrow> list_ex (\<lambda>i. sockState (sock c i) \<noteq> ICE_CONTROLLER_SOCKET_CONTEXT_STATE_NONE) [0..<socketsContextsCount c]"

definition IceController_AddressClosing ::
    "('x, 'w) ice_env \<Rightarrow> ('x, 'w) IceControllerContext \<Rightarrow> (IceControllerResult \<times> ('x, 'w) IceControllerContext) option" where
  "IceController_AddressClosing env c =
     (if any_socket_alive c
      then do {
        c1 \<leftarrow> ProcessLocalCandidates env c;
        Some (ICE_CONTROLLER_RESULT_OK, IceController_UpdateTimerInterval env ICE_CONTROLLER_CLOSING_INTERVAL_MS c1)
      }
      else do { (_, c1) \<leftarrow> finish_closing env c; Some (ICE_CONTROLLER_RESULT_OK, c1) })"

text \<open>The loop of \<open>IceController_Destroy\<close>; the first component is \<open>needReleaseTurnResource\<close>.\<close>

fun destroy_loop ::
    "('x, 'w) ice_env \<Rightarrow> nat list \<Rightarrow> bool \<Rightarrow> ('x, 'w) IceControllerContext \<Rightarrow> bool \<times> ('x, 'w) IceControllerContext" where
  "destroy_loop env [] need c = (need, c)"
| "destroy_loop env (i # js) need c =
     (if sockState (sock c i) = ICE_CONTROLLER_SOCKET_CONTEXT_STATE_NONE then destroy_loop env js need c
      else if is_relay c i
      then if iceMutexOk env then destroy_loop env js True (close_candidate_of env i c) else destroy_loop env js need c
      else destroy_loop env js need (IceControllerNet_FreeSocketContext env i c))"

definition IceController_Destroy ::
    "('x, 'w) ice_env \<Rightarrow> ('x, 'w) IceControllerContext \<Rightarrow> (IceControllerResult \<times> ('x, 'w) IceControllerContext) option" where
  "IceController_Destroy env c =
     (let close = (\<lambda>c1.
            let (need, c2) = destroy_loop env [0..<socketsContextsCount c1] False c1
            in if need then Some (ICE_CONTROLLER_RESULT_OK, IceController_UpdateTimerInterval env ICE_CONTROLLER_CLOSING_INTERVAL_MS c2)
               else finish_closing env c2)
      in (case state c of
            ICE_CONTROLLER_STATE_NEW \<Rightarrow> close (IceController_UpdateState ICE_CONTROLLER_STATE_NONE c)
          | ICE_CONTROLLER_STATE_READY \<Rightarrow> close (IceController_UpdateState ICE_CONTROLLER_STATE_CLOSING c)
          | ICE_CONTROLLER_STATE_PROCESS_CANDIDATES_AND_PAIRS \<Rightarrow> close (IceController_UpdateState ICE_CONTROLLER_STATE_CLOSING c)
          | ICE_CONTROLLER_STATE_CLOSING \<Rightarrow> close (IceController_UpdateState ICE_CONTROLLER_STATE_CLOSING c)
          | _ \<Rightarrow> Some (ICE_CONTROLLER_RESULT_CONTEXT_ALREADY_CLOSED, c)))"

section \<open>Set-up\<close>

definition zero_sock :: IceControllerSocketContext where
  "zero_sock = \<lparr>sockState = ICE_CONTROLLER_SOCKET_CONTEXT_STATE_NONE, socketType = ICE_CONTROLLER_SOCKET_TYPE_NONE,
     pLocalCandidate = None, pRemoteCandidate = None, pIceServer = None, pCandidatePair = None, socketFd = 0\<rparr>"

text \<open>\<open>memset\<close> of the context.  The record of open descriptors and the world are not part of it.\<close>

definition zero_context :: "('x, 'w) IceControllerContext \<Rightarrow> ('x, 'w) IceControllerContext" where
  "zero_context c =
     c\<lparr>state := ICE_CONTROLLER_STATE_NONE,
       iceContext := (iceContext c)\<lparr>localCandidates := [], remoteCandidates := [], candidatePairs := []\<rparr>,
       natTraversalConfigBitmap := 0, iceServers := [], rootCaPath := [], rootCaPem := [],
       metrics := \<lparr>pendingSrflxCandidateNum = 0, pendingRelayCandidateNum = 0, isFirstConnectivityRequest = False, printCandidatePairsStatusMs = 0\<rparr>,
       timerHandler := (timerHandler c)\<lparr>timerId := None\<rparr>, timerIntervalMs := 0, executeSocketListener := False,
       socketsContexts := replicate ICE_CONTROLLER_MAX_LOCAL_CANDIDATE_COUNT zero_sock, socketsContextsCount := 0,
       pNominatedSocketContext := None, localEndpoints := [], candidateFoundationCounter := 0,
       connectivityCheckTimeoutMs := 0, addLocalCandidates := False\<rparr>"

text \<open>\<open>sockInit\<close> and \<open>mutexInit\<close> say whether \<open>pthread_mutex_init\<close> succeeds.\<close>

definition IceController_Init ::
    "('x, 'w) ice_env \<Rightarrow> bool \<Rightarrow> bool \<Rightarrow> u32 \<Rightarrow> ('x, 'w) IceControllerContext
      \<Rightarrow> IceControllerResult \<times> ('x, 'w) IceControllerContext" where
  "IceController_Init env sockInit mutexInit bitmap c =
     (let c1 = upd_metrics (\<lambda>m. m\<lparr>isFirstConnectivityRequest := True\<rparr>)
                 ((IceController_UpdateState ICE_CONTROLLER_STATE_NEW (zero_context c))\<lparr>natTraversalConfigBitmap := bitmap\<rparr>);
          (tr, th) = TimerController_Create (timerOs env) (Some (timerHandler c1)) (Some ());
          c2 = c1\<lparr>timerHandler := the th\<rparr>
      in if tr \<noteq> TIMER_CONTROLLER_RESULT_OK then (ICE_CONTROLLER_RESULT_FAIL_TIMER_INIT, c2)
         else
           (let c3 = c2\<lparr>socketsContexts := map (\<lambda>s. s\<lparr>socketFd := -1, sockState := ICE_CONTROLLER_SOCKET_CONTEXT_STATE_NONE\<rparr>) (socketsContexts c2)\<rparr>
            in if \<not> sockInit then (ICE_CONTROLLER_RESULT_FAIL_MUTEX_CREATE, c3)
               else if \<not> mutexInit then (ICE_CONTROLLER_RESULT_FAIL_MUTEX_CREATE, c3)
               else (ICE_CONTROLLER_RESULT_OK, IceControllerSocketListener_Init c3)))"

definition close_if_open :: "('x, 'w) ice_env \<Rightarrow> nat \<Rightarrow> ('x, 'w) IceControllerContext \<Rightarrow> ('x, 'w) IceControllerContext" where
  "close_if_open env i c = (if socketFd (sock c i) \<ge> 0 then IceControllerNet_FreeSocketContext env i c else c)"

text \<open>\<open>config\<close> says that all strings of the configuration are given.\<close>

definition IceController_Start ::
    "('x, 'w) ice_env \<Rightarrow> bool \<Rightarrow> bool \<Rightarrow> ('x, 'w) IceControllerContext
      \<Rightarrow> (IceControllerResult \<times> ('x, 'w) IceControllerContext) option" where
  "IceController_Start env config isControlling c =
     (if \<not> config then Some (ICE_CONTROLLER_RESULT_BAD_PARAMETER, c)
      else if \<not> iceMutexOk env then Some (ICE_CONTROLLER_RESULT_FAIL_MUTEX_TAKE, c)
      else
        (let ms = now_ms env c; (ir, ice) = iceInit (lib env) isControlling; c1 = c\<lparr>iceContext := ice\<rparr>
         in if ir \<noteq> ICE_RESULT_OK then Some (ICE_CONTROLLER_RESULT_FAIL_CREATE_ICE_AGENT, c1)
            else
              (let c2 = fold (close_if_open env) [0..<ICE_CONTROLLER_MAX_LOCAL_CANDIDATE_COUNT] c1;
                   c3 = IceController_UpdateState ICE_CONTROLLER_STATE_PROCESS_CANDIDATES_AND_PAIRS
                          (c2\<lparr>socketsContextsCount := 0, pNominatedSocketContext := None\<rparr>);
                   c4 = (upd_metrics (\<lambda>m. m\<lparr>printCandidatePairsStatusMs := ms + ICE_CONTROLLER_PRINT_CONNECTIVITY_CHECK_PERIOD_MS\<rparr>) c3)
                          \<lparr>addLocalCandidates := True, connectivityCheckTimeoutMs := ms + ICE_CONTROLLER_CONNECTIVITY_CHECK_TIMEOUT_MS\<rparr>;
                   (r, c5) = IceControllerSocketListener_StartPolling env c4
               in if r \<noteq> ICE_CONTROLLER_RESULT_OK then Some (r, c5)
                  else do { c6 \<leftarrow> OnTimerExpire env c5; Some (r, c6) })))"

text \<open>The lengths of the strings are the lengths of the lists.\<close>

definition IceController_AddIceServerConfig ::
    "IceControllerIceServer list \<Rightarrow> string \<Rightarrow> string \<Rightarrow> ('x, 'w) IceControllerContext
      \<Rightarrow> IceControllerResult \<times> ('x, 'w) IceControllerContext" where
  "IceController_AddIceServerConfig servers caPath caPem c =
     (if length caPath > ICE_CONTROLLER_MAX_PATH_LENGTH \<or> length caPem > ICE_CONTROLLER_MAX_PEM_LENGTH
      then (ICE_CONTROLLER_RESULT_BAD_PARAMETER, c)
      else
        (let c1 = (if length caPath > 0 then c\<lparr>rootCaPath := caPath\<rparr> else c);
             c2 = (if length caPem > 0 then c1\<lparr>rootCaPem := caPem\<rparr> else c1)
         in (ICE_CONTROLLER_RESULT_OK, c2\<lparr>iceServers := take ICE_CONTROLLER_MAX_ICE_SERVER_COUNT servers\<rparr>)))"

end
