(* ===== verification/Ice_Listener.thy ===== *)
theory Ice_Listener
  imports Ice_Controller
begin

text \<open>
  \<open>ice_controller/ice_controller_socket_listener.c\<close>: receiving packets, sorting them into STUN and the
  rest, and the nomination of a socket.
\<close>

section \<open>Receiving\<close>

definition RX_BUFFER_SIZE :: nat where "RX_BUFFER_SIZE = 4096"

text \<open>A negative number of bytes, none, or a packet.\<close>

datatype rx = RxError | RxNone | RxData bytes IceEndpoint

definition RecvPacketUdp ::
    "('x, 'w) ice_env \<Rightarrow> IceControllerSocketContext \<Rightarrow> 'w \<Rightarrow> rx \<times> 'w" where
  "RecvPacketUdp env s w =
     (case osRecvfrom (os env) (socketFd s) RX_BUFFER_SIZE w of
        (RecvAgain, w') \<Rightarrow> (RxNone, w')
      | (RecvError, w') \<Rightarrow> (RxError, w')
      | (RecvData b src, w') \<Rightarrow>
          (if b = [] then RxNone
           else if epFamily src = STUN_ADDRESS_IPv4 \<or> epFamily src = STUN_ADDRESS_IPv6
           then RxData b (zero_endpoint\<lparr>epFamily := epFamily src, epPort := epPort src,
                  epAddress := epAddress src @ drop (length (epAddress src)) (epAddress zero_endpoint)\<rparr>)
           else RxError, w'))"

definition RecvPacketTls ::
    "('x, 'w) ice_env \<Rightarrow> IceControllerSocketContext \<Rightarrow> IceEndpoint \<Rightarrow> 'w \<Rightarrow> rx \<times> 'w" where
  "RecvPacketTls env s server w =
     (case tlsRecv (os env) (socketFd s) RX_BUFFER_SIZE w of
        (None, w') \<Rightarrow> (RxError, w')
      | (Some b, w') \<Rightarrow> (if b = [] then RxNone else RxData b server, w'))"

section \<open>Nomination\<close>

definition transport_address :: "IceEndpoint \<Rightarrow> stun_family \<times> u16 \<times> bytes" where
  "transport_address ep = (epFamily ep, epPort ep, epAddress ep)"

text \<open>The loop over the pairs \<open>ps\<close>; a pair without a remote candidate whose local address matches is
  dereferenced.\<close>

fun find_pair :: "nat \<Rightarrow> IceEndpoint \<Rightarrow> nat list \<Rightarrow> ('x, 'w) IceControllerContext \<Rightarrow> nat option option" where
  "find_pair i remote [] c = Some None"
| "find_pair i remote (p # ps) c =
     do {
       pr \<leftarrow> mem_read (candidatePairs (iceContext c)) p;
       pl \<leftarrow> local_candidate c (pairLocal pr);
       l \<leftarrow> pLocalCandidate (sock c i);
       sl \<leftarrow> local_candidate c l;
       if transport_address (endpoint pl) \<noteq> transport_address (endpoint sl) then find_pair i remote ps c
       else do {
         k \<leftarrow> pairRemote pr;
         rc \<leftarrow> mem_read (remoteCandidates (iceContext c)) k;
         if transport_address (endpoint rc) = transport_address remote then Some (Some p) else find_pair i remote ps c
       }
     }"

definition FindCandidatePairByRemoteIceEndpoint ::
    "('x, 'w) ice_env \<Rightarrow> nat \<Rightarrow> IceEndpoint \<Rightarrow> ('x, 'w) IceControllerContext \<Rightarrow> nat option option" where
  "FindCandidatePairByRemoteIceEndpoint env i remote c =
     (if \<not> iceMutexOk env then Some None
      else (case iceGetCandidatePairCount (lib env) (iceContext c) of
              (ir, count) \<Rightarrow> if ir \<noteq> ICE_RESULT_OK then Some None else find_pair i remote [0..<count] c))"

text \<open>The first part of \<open>UpdateNominatedSocketContext\<close>: the pair that the packet belongs to.\<close>

definition nominated_pair ::
    "('x, 'w) ice_env \<Rightarrow> nat \<Rightarrow> nat option \<Rightarrow> IceEndpoint \<Rightarrow> ('x, 'w) IceControllerContext
      \<Rightarrow> (IceControllerResult + nat) option" where
  "nominated_pair env i pair remote c =
     do {
       l \<leftarrow> pLocalCandidate (sock c i);
       cand \<leftarrow> local_candidate c l;
       if candidateKind cand = ICE_CANDIDATE_TYPE_HOST \<or> candidateKind cand = ICE_CANDIDATE_TYPE_SERVER_REFLEXIVE
       then (case pair of
               None \<Rightarrow> do {
                 found \<leftarrow> FindCandidatePairByRemoteIceEndpoint env i remote c;
                 Some (case found of None \<Rightarrow> Inl ICE_CONTROLLER_RESULT_INVALID_PACKET | Some p \<Rightarrow> Inr p)
               }
             | Some _ \<Rightarrow> Some (Inl ICE_CONTROLLER_RESULT_BAD_PARAMETER))
       else Some (case pair of None \<Rightarrow> Inl ICE_CONTROLLER_RESULT_BAD_PARAMETER | Some p \<Rightarrow> Inr p)
     }"

definition UpdateNominatedSocketContext ::
    "('x, 'w) ice_env \<Rightarrow> nat \<Rightarrow> nat option \<Rightarrow> IceEndpoint \<Rightarrow> ('x, 'w) IceControllerContext
      \<Rightarrow> (IceControllerResult \<times> ('x, 'w) IceControllerContext) option" where
  "UpdateNominatedSocketContext env i pair remote c =
     do {
       np \<leftarrow> nominated_pair env i pair remote c;
       case np of
         Inl r \<Rightarrow> Some (r, c)
       | Inr p \<Rightarrow>
           if \<not> socketMutexOk env then Some (ICE_CONTROLLER_RESULT_FAIL_MUTEX_TAKE, c)
           else do {
             pr \<leftarrow> mem_read (candidatePairs (iceContext c)) p;
             let original = (case pNominatedSocketContext c of None \<Rightarrow> None | Some j \<Rightarrow> pCandidatePair (sock c j));
             let c1 = upd_sock i (\<lambda>s. s\<lparr>pRemoteCandidate := pairRemote pr, pCandidatePair := Some p,
                        sockState := ICE_CONTROLLER_SOCKET_CONTEXT_STATE_SELECTED\<rparr>) (c\<lparr>pNominatedSocketContext := Some i\<rparr>);
             if original \<noteq> None then Some (ICE_CONTROLLER_RESULT_OK, c1)
             else do {
               (_, c2) \<leftarrow> notify env ICE_CONTROLLER_CB_EVENT_PEER_TO_PEER_CONNECTION_FOUND None
                           (IceController_UpdateTimerInterval env ICE_CONTROLLER_PERIODIC_TIMER_INTERVAL_MS
                             (IceController_UpdateState ICE_CONTROLLER_STATE_READY c1));
               Some (ICE_CONTROLLER_RESULT_OK, c2)
             }
           }
     }"

section \<open>Packets\<close>

text \<open>The classes of RFC 5764, section 5.1.2, by the first byte.\<close>

definition is_media_or_dtls :: "u8 \<Rightarrow> bool" where
  "is_media_or_dtls b \<longleftrightarrow> b > 127 \<and> b < 192 \<or> b > 19 \<and> b < 64"

text \<open>The variables that survive a round of the loop: the offset of \<open>pProcessingBuffer\<close> in the receive
  buffer, \<open>ret\<close> and \<open>pCandidatePair\<close>.\<close>

record rx_state =
  rxOff :: nat
  rxRet :: IceControllerResult
  rxPair :: "nat option"

text \<open>Removing the TURN header; \<open>None\<close> is the failure to take the mutex.\<close>

definition strip_turn ::
    "('x, 'w) ice_env \<Rightarrow> nat \<Rightarrow> bytes \<Rightarrow> rx_state \<Rightarrow> ('x, 'w) IceControllerContext
      \<Rightarrow> (bytes \<times> rx_state \<times> ('x, 'w) IceControllerContext) option" where
  "strip_turn env l buf st c =
     (if \<not> iceMutexOk env then None
      else (case iceHandleTurnPacket (lib env) buf l (iceContext c) of
              (ir, off, len, pair, ice) \<Rightarrow>
                if ir = ICE_RESULT_OK
                then Some (take len (drop off buf), st\<lparr>rxOff := rxOff st + off, rxPair := pair\<rparr>, c\<lparr>iceContext := ice\<rparr>)
                else Some (buf, st, c\<lparr>iceContext := ice\<rparr>)))"

text \<open>A packet of the peer for the owner: a socket that is not the nominated one is nominated first.\<close>

definition rx_media ::
    "('x, 'w) ice_env \<Rightarrow> nat \<Rightarrow> bytes \<Rightarrow> IceEndpoint \<Rightarrow> rx_state \<Rightarrow> ('x, 'w) IceControllerContext
      \<Rightarrow> (rx_state \<times> ('x, 'w) IceControllerContext) option" where
  "rx_media env i buf remote st c =
     (case onRecvNonStunPacketFunc env of
        None \<Rightarrow> Some (st, c)
      | Some deliver \<Rightarrow> do {
          (r, c1) \<leftarrow> (if pNominatedSocketContext c \<noteq> Some i then UpdateNominatedSocketContext env i (rxPair st) remote c
                      else Some (rxRet st, c));
          c2 \<leftarrow> (if r = ICE_CONTROLLER_RESULT_OK then deliver buf c1 else Some c1);
          Some (st\<lparr>rxRet := r\<rparr>, c2)
        })"

text \<open>A STUN packet; the first component says that the loop goes on.\<close>

definition rx_stun ::
    "('x, 'w) ice_env \<Rightarrow> nat \<Rightarrow> bytes \<Rightarrow> IceEndpoint \<Rightarrow> rx_state \<Rightarrow> ('x, 'w) IceControllerContext
      \<Rightarrow> (bool \<times> rx_state \<times> ('x, 'w) IceControllerContext) option" where
  "rx_stun env i buf remote st c =
     do {
       (r, c1) \<leftarrow> IceControllerNet_HandleStunPacket env i buf remote c;
       if r = ICE_CONTROLLER_RESULT_FOUND_CONNECTION \<and> pNominatedSocketContext c1 = None
       then do { (_, c2) \<leftarrow> UpdateNominatedSocketContext env i (rxPair st) remote c1; Some (True, st\<lparr>rxRet := r\<rparr>, c2) }
       else Some (r \<noteq> ICE_CONTROLLER_RESULT_CONNECTION_CLOSED, st\<lparr>rxRet := r\<rparr>, c1)
     }"

text \<open>One packet, after the TURN header.\<close>

definition rx_dispatch ::
    "('x, 'w) ice_env \<Rightarrow> nat \<Rightarrow> bytes \<Rightarrow> IceEndpoint \<Rightarrow> rx_state \<Rightarrow> ('x, 'w) IceControllerContext
      \<Rightarrow> (bool \<times> rx_state \<times> ('x, 'w) IceControllerContext) option" where
  "rx_dispatch env i buf remote st c =
     (case buf of
        [] \<Rightarrow> Some (True, st, c)
      | b # _ \<Rightarrow>
          if is_media_or_dtls b then map_option (\<lambda>(st', c'). (True, st', c')) (rx_media env i buf remote st c)
          else if b < 2 then rx_stun env i buf remote st c
          else Some (True, st, c))"

text \<open>The receiving of one packet: \<open>Inl\<close> says that the loop ends, with whether the number of bytes was
  negative.  A TLS socket that was closed while its packets were handled has no session any more.\<close>

definition rx_receive ::
    "('x, 'w) ice_env \<Rightarrow> nat \<Rightarrow> ('x, 'w) IceControllerContext
      \<Rightarrow> ((bool + bytes \<times> IceEndpoint) \<times> ('x, 'w) IceControllerContext) option" where
  "rx_receive env i c =
     (let s = sock c i; result = (\<lambda>(r, w). ((case r of RxError \<Rightarrow> Inl True | RxNone \<Rightarrow> Inl False | RxData b ep \<Rightarrow> Inr (b, ep)), c\<lparr>world := w\<rparr>))
      in if socketType s = ICE_CONTROLLER_SOCKET_TYPE_UDP then Some (result (RecvPacketUdp env s (world c)))
         else if socketType s = ICE_CONTROLLER_SOCKET_TYPE_TLS
         then if socketFd s = -1 then None
              else do { server \<leftarrow> server_endpoint c i; Some (result (RecvPacketTls env s server (world c))) }
         else Some (Inl False, c))"

text \<open>The receive call writes its data at the offset of \<open>pProcessingBuffer\<close>, with the size of the whole
  buffer: data that does not fit has no outcome.\<close>

partial_function (option) rx_loop ::
    "('x, 'w) ice_env \<Rightarrow> nat \<Rightarrow> rx_state \<Rightarrow> ('x, 'w) IceControllerContext \<Rightarrow> (bool \<times> ('x, 'w) IceControllerContext) option" where
  "rx_loop env i st c =
     do {
       (res, c1) \<leftarrow> rx_receive env i c;
       case res of
         Inl failed \<Rightarrow> Some (failed, c1)
       | Inr (buf, remote) \<Rightarrow>
           if rxOff st + length buf > RX_BUFFER_SIZE then None
           else do {
             l \<leftarrow> pLocalCandidate (sock c1 i);
             cand \<leftarrow> local_candidate c1 l;
             case (if candidateKind cand = ICE_CANDIDATE_TYPE_RELAY then strip_turn env l buf st c1 else Some (buf, st, c1)) of
               None \<Rightarrow> Some (False, c1)
             | Some (buf', st', c2) \<Rightarrow> do {
                 (continue, st2, c3) \<leftarrow> rx_dispatch env i buf' remote st' c2;
                 if continue then rx_loop env i st2 c3 else Some (False, c3)
               }
           }
     }"

definition rx_init :: rx_state where
  "rx_init = \<lparr>rxOff = 0, rxRet = ICE_CONTROLLER_RESULT_OK, rxPair = None\<rparr>"

definition HandleRxPacket :: "('x, 'w) ice_env \<Rightarrow> nat \<Rightarrow> ('x, 'w) IceControllerContext \<Rightarrow> ('x, 'w) IceControllerContext option" where
  "HandleRxPacket env i c =
     do {
       (failed, c1) \<leftarrow> rx_loop env i rx_init c;
       Some (if failed then IceControllerNet_FreeSocketContext env i (close_candidate_of env i c1) else c1)
     }"

section \<open>Polling\<close>

fun poll_loop ::
    "('x, 'w) ice_env \<Rightarrow> int list \<Rightarrow> (nat \<times> int) list \<Rightarrow> ('x, 'w) IceControllerContext \<Rightarrow> ('x, 'w) IceControllerContext option" where
  "poll_loop env ready [] c = Some c"
| "poll_loop env ready ((i, fd) # fds) c =
     (if fd \<ge> 0 \<and> fd \<in> set ready
      then do {
        c1 \<leftarrow> (if sockState (sock c i) = ICE_CONTROLLER_SOCKET_CONTEXT_STATE_CONNECTION_IN_PROGRESS
               then map_option snd (IceControllerNet_ExecuteTlsHandshake env i False c)
               else HandleRxPacket env i c);
        poll_loop env ready fds c1
      }
      else poll_loop env ready fds c)"

definition pollingSockets :: "('x, 'w) ice_env \<Rightarrow> ('x, 'w) IceControllerContext \<Rightarrow> ('x, 'w) IceControllerContext option" where
  "pollingSockets env c =
     (if \<not> socketMutexOk env then Some c
      else
        (let fds = map (\<lambda>i. (i, socketFd (sock c i))) [0..<socketsContextsCount c];
             (ready, w) = osSelect (os env) (filter (\<lambda>fd. fd \<ge> 0) (map snd fds)) (world c); c1 = c\<lparr>world := w\<rparr>
         in (case ready of
               None \<Rightarrow> Some c1
             | Some rs \<Rightarrow> if rs = [] then Some c1 else poll_loop env rs fds c1)))"

text \<open>One round of \<open>IceControllerSocketListener_Task\<close>.\<close>

definition IceControllerSocketListener_Task ::
    "('x, 'w) ice_env \<Rightarrow> ('x, 'w) IceControllerContext \<Rightarrow> ('x, 'w) IceControllerContext option" where
  "IceControllerSocketListener_Task env c = (if executeSocketListener c then pollingSockets env c else Some c)"

end
