(* ===== verification/Ice_Sockets.thy ===== *)
theory Ice_Sockets
  imports Ice_Listener "HOL-Library.Multiset"
begin

text \<open>
  The ownership of descriptors by the ICE controller: the descriptors that are open are exactly those in
  the socket table, each once, and a socket is open exactly when its state is not \<open>NONE\<close>.  The theory has
  the invariant, its preservation by the primitives of the socket table, and, in a locale for the
  environment, by every operation of the controller and the listener.
\<close>

section \<open>The invariant\<close>

definition open_of :: "IceControllerSocketContext list \<Rightarrow> int list" where
  "open_of ss = filter (\<lambda>fd. fd \<noteq> -1) (map socketFd ss)"

definition sock_ok :: "IceControllerSocketContext \<Rightarrow> bool" where
  "sock_ok s \<longleftrightarrow> socketFd s \<ge> -1 \<and> (socketFd s = -1 \<longleftrightarrow> sockState s = ICE_CONTROLLER_SOCKET_CONTEXT_STATE_NONE)"

definition tab :: "IceControllerSocketContext list \<Rightarrow> nat \<Rightarrow> int list \<Rightarrow> bool" where
  "tab ss n fds \<longleftrightarrow>
     length ss = ICE_CONTROLLER_MAX_LOCAL_CANDIDATE_COUNT \<and> n \<le> ICE_CONTROLLER_MAX_LOCAL_CANDIDATE_COUNT \<and>
     (\<forall>i < length ss. sock_ok (ss ! i)) \<and> (\<forall>i < length ss. n \<le> i \<longrightarrow> socketFd (ss ! i) = -1) \<and>
     mset fds = mset (open_of ss) \<and> distinct fds"

definition table_ok :: "('x, 'w) IceControllerContext \<Rightarrow> bool" where
  "table_ok c \<longleftrightarrow> tab (socketsContexts c) (socketsContextsCount c) (openFds c) \<and>
     pred_option (\<lambda>i. i < ICE_CONTROLLER_MAX_LOCAL_CANDIDATE_COUNT) (pNominatedSocketContext c)"

text \<open>The state between the creation of a socket and its registration: slot \<open>i\<close> is open, its state is
  still \<open>NONE\<close>, and giving it a state restores the invariant.\<close>

definition half_open :: "nat \<Rightarrow> ('x, 'w) IceControllerContext \<Rightarrow> bool" where
  "half_open i c \<longleftrightarrow> i < ICE_CONTROLLER_MAX_LOCAL_CANDIDATE_COUNT \<and> length (socketsContexts c) = ICE_CONTROLLER_MAX_LOCAL_CANDIDATE_COUNT \<and>
     socketFd (sock c i) \<ge> 0 \<and> sockState (sock c i) = ICE_CONTROLLER_SOCKET_CONTEXT_STATE_NONE \<and>
     table_ok (upd_sock i (\<lambda>s. s\<lparr>sockState := ICE_CONTROLLER_SOCKET_CONTEXT_STATE_CREATE\<rparr>) c)"

text \<open>The part of the context that the invariant reads.\<close>

definition same_table :: "('x, 'w) IceControllerContext \<Rightarrow> ('x, 'w) IceControllerContext \<Rightarrow> bool" where
  "same_table c c' \<longleftrightarrow> socketsContexts c' = socketsContexts c \<and> socketsContextsCount c' = socketsContextsCount c \<and> openFds c' = openFds c
     \<and> pNominatedSocketContext c' = pNominatedSocketContext c"

lemma table_ok_same: "same_table c c' \<Longrightarrow> table_ok c' = table_ok c"
  by (simp add: same_table_def table_ok_def)

lemma half_open_same: "same_table c c' \<Longrightarrow> half_open i c' = half_open i c"
  by (simp add: same_table_def half_open_def table_ok_def upd_sock_def)

lemma table_ok_frames [simp]:
  "table_ok (c\<lparr>world := w\<rparr>) = table_ok c" "table_ok (c\<lparr>iceContext := ice\<rparr>) = table_ok c"
  "table_ok (c\<lparr>state := st\<rparr>) = table_ok c" "table_ok (c\<lparr>timerHandler := h\<rparr>) = table_ok c"
  "table_ok (c\<lparr>timerIntervalMs := ms\<rparr>) = table_ok c" "table_ok (c\<lparr>executeSocketListener := b\<rparr>) = table_ok c"
  "table_ok (c\<lparr>localEndpoints := eps\<rparr>) = table_ok c"
  "table_ok (c\<lparr>candidateFoundationCounter := k\<rparr>) = table_ok c" "table_ok (c\<lparr>metrics := m\<rparr>) = table_ok c"
  "table_ok (c\<lparr>iceServers := srvs\<rparr>) = table_ok c" "table_ok (c\<lparr>addLocalCandidates := b\<rparr>) = table_ok c"
  "table_ok (c\<lparr>connectivityCheckTimeoutMs := t\<rparr>) = table_ok c" "table_ok (c\<lparr>strayCloses := fds\<rparr>) = table_ok c"
  "table_ok (c\<lparr>rootCaPath := s\<rparr>) = table_ok c" "table_ok (c\<lparr>rootCaPem := s\<rparr>) = table_ok c"
  by (simp_all add: table_ok_def)

lemma half_open_frames [simp]:
  "half_open i (c\<lparr>world := w\<rparr>) = half_open i c" "half_open i (c\<lparr>iceContext := ice\<rparr>) = half_open i c"
  "half_open i (c\<lparr>localEndpoints := eps\<rparr>) = half_open i c" "half_open i (c\<lparr>candidateFoundationCounter := k\<rparr>) = half_open i c"
  by (rule half_open_same, simp add: same_table_def)+

lemma nominated_table: "table_ok c \<Longrightarrow> pNominatedSocketContext c = Some i \<Longrightarrow> i < ICE_CONTROLLER_MAX_LOCAL_CANDIDATE_COUNT"
  by (simp add: table_ok_def)

lemma table_ok_nominate: "table_ok c \<Longrightarrow> i < ICE_CONTROLLER_MAX_LOCAL_CANDIDATE_COUNT \<Longrightarrow> table_ok (c\<lparr>pNominatedSocketContext := Some i\<rparr>)"
  by (simp add: table_ok_def)

lemma length_table: "table_ok c \<Longrightarrow> length (socketsContexts c) = ICE_CONTROLLER_MAX_LOCAL_CANDIDATE_COUNT"
  by (simp add: table_ok_def tab_def)

lemma count_table: "table_ok c \<Longrightarrow> socketsContextsCount c \<le> ICE_CONTROLLER_MAX_LOCAL_CANDIDATE_COUNT"
  by (simp add: table_ok_def tab_def)

lemma table_sock_ok: "table_ok c \<Longrightarrow> i < ICE_CONTROLLER_MAX_LOCAL_CANDIDATE_COUNT \<Longrightarrow> sock_ok (sock c i)"
  by (simp add: table_ok_def tab_def)

lemma sock_upd [simp]: "i < length (socketsContexts c) \<Longrightarrow> sock (upd_sock i f c) j = (if i = j then f (sock c i) else sock c j)"
  by (simp add: upd_sock_def nth_list_update)

lemma length_upd_sock [simp]: "length (socketsContexts (upd_sock i f c)) = length (socketsContexts c)"
  by (simp add: upd_sock_def)

section \<open>Opening and closing a slot\<close>

lemma mset_open_of_update:
  assumes "i < length ss"
  shows "mset (open_of (ss[i := s])) = filter_mset (\<lambda>fd. fd \<noteq> -1) {#socketFd s#} + (mset (open_of ss) - filter_mset (\<lambda>fd. fd \<noteq> -1) {#socketFd (ss ! i)#})"
  using assms by (simp add: open_of_def map_update mset_update)

lemma tab_update_same:
  assumes "tab ss n fds" and "i < length ss" and "socketFd s = socketFd (ss ! i)" and "sock_ok s"
  shows "tab (ss[i := s]) n fds"
proof -
  have "map socketFd (ss[i := s]) = map socketFd ss"
    using assms(2,3) by (simp add: map_update list_update_same_conv)
  then have "open_of (ss[i := s]) = open_of ss" by (simp add: open_of_def)
  with assms show ?thesis by (auto simp: tab_def nth_list_update)
qed

lemma table_ok_upd:
  assumes "table_ok c" and "i < ICE_CONTROLLER_MAX_LOCAL_CANDIDATE_COUNT"
    and "socketFd (f (sock c i)) = socketFd (sock c i)" and "sock_ok (f (sock c i))"
  shows "table_ok (upd_sock i f c)"
  using assms tab_update_same [of "socketsContexts c" "socketsContextsCount c" "openFds c" i "f (sock c i)"] length_table [OF assms(1)]
  by (simp add: table_ok_def upd_sock_def)

lemma tab_close:
  assumes "tab ss n fds" and "i < length ss" and "socketFd (ss ! i) \<noteq> -1"
    and "socketFd s = -1" and "sockState s = ICE_CONTROLLER_SOCKET_CONTEXT_STATE_NONE"
  shows "tab (ss[i := s]) n (remove1 (socketFd (ss ! i)) fds)"
proof -
  have "mset (open_of (ss[i := s])) = mset (open_of ss) - {#socketFd (ss ! i)#}"
    using assms by (simp add: mset_open_of_update)
  with assms show ?thesis by (auto simp: tab_def nth_list_update sock_ok_def)
qed

lemma open_in_table: "tab ss n fds \<Longrightarrow> i < length ss \<Longrightarrow> socketFd (ss ! i) \<noteq> -1 \<Longrightarrow> socketFd (ss ! i) \<in> set fds"
  unfolding tab_def set_mset_mset [symmetric] by (simp add: open_of_def)

lemma tab_open:
  assumes "tab ss n fds" and "n < length ss" and "fd \<notin> set fds" and "fd \<ge> 0" and "socketFd s = fd"
    and "sockState s \<noteq> ICE_CONTROLLER_SOCKET_CONTEXT_STATE_NONE"
  shows "tab (ss[n := s]) (n + 1) (fd # fds)"
proof -
  have "socketFd (ss ! n) = -1" using assms(1,2) by (simp add: tab_def)
  with assms have "mset (open_of (ss[n := s])) = add_mset fd (mset (open_of ss))"
    by (simp add: mset_open_of_update)
  with assms show ?thesis by (auto simp: tab_def nth_list_update sock_ok_def)
qed

text \<open>The table with the last slot given back.\<close>

lemma tab_retract: "tab ss (n + 1) fds \<Longrightarrow> n < length ss \<Longrightarrow> socketFd (ss ! n) = -1 \<Longrightarrow> tab ss n fds"
  by (auto simp: tab_def le_less_Suc_eq Suc_le_eq)

lemma tab_more: "tab ss n fds \<Longrightarrow> n < length ss \<Longrightarrow> tab ss (n + 1) fds"
  by (auto simp: tab_def)

section \<open>The primitives\<close>

lemma close_fd_simps [simp]:
  "openFds (close_fd fd c) = remove1 fd (openFds c)" "socketsContexts (close_fd fd c) = socketsContexts c"
  "socketsContextsCount (close_fd fd c) = socketsContextsCount c" "iceContext (close_fd fd c) = iceContext c"
  "pNominatedSocketContext (close_fd fd c) = pNominatedSocketContext c" "state (close_fd fd c) = state c"
  by (simp_all add: close_fd_def remove1_idem)

lemma upd_sock_twice:
  "i < length (socketsContexts c) \<Longrightarrow> upd_sock i f (upd_sock i g c) = upd_sock i (\<lambda>s. f (g s)) c"
  by (simp add: upd_sock_def)

lemma upd_sock_simps [simp]:
  "openFds (upd_sock i f c) = openFds c" "socketsContextsCount (upd_sock i f c) = socketsContextsCount c"
  "iceContext (upd_sock i f c) = iceContext c" "pNominatedSocketContext (upd_sock i f c) = pNominatedSocketContext c"
  "state (upd_sock i f c) = state c"
  by (simp_all add: upd_sock_def)

lemma half_open_tab:
  assumes "half_open i c"
  shows "tab ((socketsContexts c)[i := (sock c i)\<lparr>sockState := ICE_CONTROLLER_SOCKET_CONTEXT_STATE_CREATE\<rparr>]) (socketsContextsCount c) (openFds c)"
    and "i < length (socketsContexts c)"
  using assms by (simp_all add: half_open_def table_ok_def upd_sock_def)

text \<open>A socket that is open, registered or not, is closed.\<close>

lemma close_slot:
  assumes "table_ok c \<and> i < ICE_CONTROLLER_MAX_LOCAL_CANDIDATE_COUNT \<and> socketFd (sock c i) \<noteq> -1 \<or> half_open i c"
    and "socketFd s = -1" and "sockState s = ICE_CONTROLLER_SOCKET_CONTEXT_STATE_NONE"
  shows "tab ((socketsContexts c)[i := s]) (socketsContextsCount c) (remove1 (socketFd (sock c i)) (openFds c))"
    and "distinct (openFds c)"
    and "pred_option (\<lambda>i. i < ICE_CONTROLLER_MAX_LOCAL_CANDIDATE_COUNT) (pNominatedSocketContext c)"
proof -
  show "tab ((socketsContexts c)[i := s]) (socketsContextsCount c) (remove1 (socketFd (sock c i)) (openFds c))"
    using assms(1)
  proof
    assume "table_ok c \<and> i < ICE_CONTROLLER_MAX_LOCAL_CANDIDATE_COUNT \<and> socketFd (sock c i) \<noteq> -1"
    with tab_close [of "socketsContexts c" "socketsContextsCount c" "openFds c" i s] assms(2,3) length_table show ?thesis
      by (simp add: table_ok_def tab_def)
  next
    assume h: "half_open i c"
    with tab_close [OF half_open_tab(1) [OF h], of i s] half_open_tab(2) [OF h] assms(2,3) show ?thesis
      by (simp add: half_open_def)
  qed
  show "pred_option (\<lambda>i. i < ICE_CONTROLLER_MAX_LOCAL_CANDIDATE_COUNT) (pNominatedSocketContext c)"
    using assms(1) by (auto simp: half_open_def table_ok_def)
  show "distinct (openFds c)"
    using assms(1) half_open_tab(1) [of i c] by (auto simp: table_ok_def tab_def)
qed

lemma remove1_twice: "distinct xs \<Longrightarrow> remove1 x (remove1 x xs) = remove1 x xs"
  by (simp add: remove1_idem)

lemma Free_ok:
  assumes "table_ok c \<and> i < ICE_CONTROLLER_MAX_LOCAL_CANDIDATE_COUNT \<or> half_open i c" and "socketMutexOk env"
  shows "table_ok (IceControllerNet_FreeSocketContext env i c)"
proof (cases "socketFd (sock c i) = -1")
  case True
  with assms(1) show ?thesis by (auto simp: IceControllerNet_FreeSocketContext_def half_open_def)
next
  case False
  let ?s = "(sock c i)\<lparr>socketFd := -1, sockState := ICE_CONTROLLER_SOCKET_CONTEXT_STATE_NONE\<rparr>"
  from False assms(1) have "table_ok c \<and> i < ICE_CONTROLLER_MAX_LOCAL_CANDIDATE_COUNT \<and> socketFd (sock c i) \<noteq> -1 \<or> half_open i c"
    by blast
  from close_slot [OF this, of ?s] False assms(2) show ?thesis
    by (simp add: IceControllerNet_FreeSocketContext_def Let_def table_ok_def upd_sock_def remove1_twice)
qed

lemma Free_other [simp]:
  "socketsContextsCount (IceControllerNet_FreeSocketContext env i c) = socketsContextsCount c"
  "length (socketsContexts (IceControllerNet_FreeSocketContext env i c)) = length (socketsContexts c)"
  "iceContext (IceControllerNet_FreeSocketContext env i c) = iceContext c"
  "pNominatedSocketContext (IceControllerNet_FreeSocketContext env i c) = pNominatedSocketContext c"
  "state (IceControllerNet_FreeSocketContext env i c) = state c"
  by (simp_all add: IceControllerNet_FreeSocketContext_def Let_def)

lemma drop_ok:
  assumes "half_open i c" and "socketsContextsCount c = i + 1"
  shows "table_ok (drop_socket i c)"
proof -
  let ?s = "(sock c i)\<lparr>socketFd := -1\<rparr>"
  from assms(1) have "tab ((socketsContexts c)[i := ?s]) (i + 1) (remove1 (socketFd (sock c i)) (openFds c))"
    using close_slot(1) [of c i ?s] assms by (simp add: half_open_def)
  from tab_retract [OF this] half_open_tab(2) [OF assms(1)] assms(2) close_slot(3) [of c i ?s] assms(1) show ?thesis
    by (simp add: drop_socket_def Let_def table_ok_def upd_sock_def half_open_def)
qed

lemma register_ok:
  assumes "half_open i c" and "socketMutexOk env" and "st \<noteq> ICE_CONTROLLER_SOCKET_CONTEXT_STATE_NONE"
  shows "table_ok (IceControllerNet_UpdateSocketContext env i st loc rem srv c)"
proof -
  let ?g = "\<lambda>s :: IceControllerSocketContext. s\<lparr>sockState := ICE_CONTROLLER_SOCKET_CONTEXT_STATE_CREATE\<rparr>"
  let ?f = "\<lambda>s :: IceControllerSocketContext. s\<lparr>sockState := st, pLocalCandidate := loc, pRemoteCandidate := rem, pIceServer := srv\<rparr>"
  note i = half_open_tab(2) [OF assms(1)]
  have "table_ok (upd_sock i ?f (upd_sock i ?g c))"
    by (rule table_ok_upd) (use assms i in \<open>simp_all add: half_open_def sock_ok_def\<close>)
  with assms(2) i show ?thesis
    by (simp add: IceControllerNet_UpdateSocketContext_def upd_sock_twice)
qed

lemma reregister_ok:
  assumes "table_ok c" and "i < ICE_CONTROLLER_MAX_LOCAL_CANDIDATE_COUNT" and "socketMutexOk env"
    and "socketFd (sock c i) \<noteq> -1" and "st \<noteq> ICE_CONTROLLER_SOCKET_CONTEXT_STATE_NONE"
  shows "table_ok (IceControllerNet_UpdateSocketContext env i st loc rem srv c)"
  unfolding IceControllerNet_UpdateSocketContext_def
  using assms table_sock_ok [OF assms(1,2)] by (simp add: table_ok_upd sock_ok_def)

lemma fresh_slot:
  assumes "table_ok c" and "socketsContextsCount c < ICE_CONTROLLER_MAX_LOCAL_CANDIDATE_COUNT" and "fd \<ge> 0" and "fd \<notin> set (openFds c)"
    and i: "i = socketsContextsCount c"
    and c': "socketsContexts c' = (socketsContexts c)[i := (sock c i)\<lparr>socketFd := fd, socketType := ty\<rparr>]"
      "socketsContextsCount c' = i + 1" "openFds c' = fd # openFds c" "pNominatedSocketContext c' = pNominatedSocketContext c"
  shows "half_open i c'"
proof -
  let ?s = "(sock c i)\<lparr>socketFd := fd, socketType := ty, sockState := ICE_CONTROLLER_SOCKET_CONTEXT_STATE_CREATE\<rparr>"
  have "tab ((socketsContexts c)[i := ?s]) (i + 1) (fd # openFds c)"
    using tab_open [of "socketsContexts c" i "openFds c" fd ?s] assms length_table [OF assms(1)] by (simp add: table_ok_def)
  moreover have "sockState (sock c i) = ICE_CONTROLLER_SOCKET_CONTEXT_STATE_NONE"
    using assms(1,2) i by (auto simp: table_ok_def tab_def sock_ok_def)
  ultimately show ?thesis
    using assms length_table [OF assms(1)] by (simp add: half_open_def table_ok_def upd_sock_def)
qed

end
