(* ===== verification/Ice_Ownership.thy ===== *)
theory Ice_Ownership
  imports Ice_Sockets
begin

text \<open>
  Every operation of the ICE controller and of its listener keeps the ownership of the descriptors.  What
  the controller relies on is stated as two interfaces: the platform (mutexes, system calls) and the
  owner (the callbacks).
\<close>

section \<open>Interfaces\<close>

text \<open>The platform: the mutexes can be taken; a call that opens a descriptor gives one that is not open; a
  receive from the descriptor -1 fails.\<close>

locale ice_platform =
  fixes env :: "('x, 'w) ice_env"
  assumes socket_mutex: "socketMutexOk env" and ice_mutex: "iceMutexOk env"
    and socket_fresh: "osSocket (os env) fam fds w = (fd, w') \<Longrightarrow> fd = -1 \<or> fd \<ge> 0 \<and> fd \<notin> set fds"
    and tls_fresh: "tlsConnect (os env) ep path pem fds w = (st, fd, w') \<Longrightarrow> st \<noteq> TLS_TRANSPORT_OTHER \<Longrightarrow> fd \<ge> 0 \<and> fd \<notin> set fds"
    and recv_closed: "fst (osRecvfrom (os env) (-1) n w) = RecvError"
begin

lemma CreateUdp_ok:
  assumes "table_ok c" and "CreateSocketContextUdp env fam b c = (r, slot, c')"
  shows "r = ICE_CONTROLLER_RESULT_OK \<and> slot \<noteq> None \<and> half_open (the slot) c' \<or>
     r \<noteq> ICE_CONTROLLER_RESULT_OK \<and> r \<noteq> ICE_CONTROLLER_RESULT_CONNECTION_IN_PROGRESS \<and> table_ok c'"
proof (cases "socketsContextsCount c < ICE_CONTROLLER_MAX_LOCAL_CANDIDATE_COUNT")
  case False
  with assms show ?thesis by (simp add: CreateSocketContextUdp_def)
next
  case room: True
  obtain fd w1 where sk: "osSocket (os env) fam (openFds c) (world c) = (fd, w1)" by (cases "osSocket (os env) fam (openFds c) (world c)")
  let ?i = "socketsContextsCount c"
  let ?c1 = "upd_sock ?i (\<lambda>s. s\<lparr>socketFd := fd\<rparr>) (c\<lparr>socketsContextsCount := ?i + 1, world := w1\<rparr>)"
  show ?thesis
  proof (cases "fd = -1")
    case True
    have i: "socketFd (sock c ?i) = -1" "?i < length (socketsContexts c)" "sock_ok (sock c ?i)"
      using assms(1) room by (auto simp: table_ok_def tab_def)
    from assms(1) i have "tab (socketsContexts c) (?i + 1) (openFds c)" using tab_more [of "socketsContexts c" ?i "openFds c"] by (simp add: table_ok_def)
    with i True assms(1) have "table_ok ?c1"
      by (auto simp: table_ok_def upd_sock_def sock_ok_def intro!: tab_update_same)
    with assms(2) room sk True show ?thesis by (simp add: CreateSocketContextUdp_def Let_def)
  next
    case False
    with socket_fresh [OF sk] have fresh: "fd \<ge> 0" "fd \<notin> set (openFds c)" by auto
    let ?c2 = "open_fd fd ?c1"
    have h2: "half_open ?i ?c2"
      by (rule fresh_slot [OF assms(1) room fresh refl, where ty = "socketType (sock c ?i)"], simp_all add: open_fd_def upd_sock_def)
    then have c2: "half_open ?i (?c2\<lparr>world := w\<rparr>)" "socketsContextsCount (?c2\<lparr>world := w\<rparr>) = ?i + 1"
      "half_open ?i ?c2" "socketsContextsCount ?c2 = ?i + 1" for w
      by (simp_all add: open_fd_def)
    have udp: "half_open ?i (upd_sock ?i (\<lambda>s. s\<lparr>socketType := ICE_CONTROLLER_SOCKET_TYPE_UDP\<rparr>) d)" if "half_open ?i d" for d :: "('x, 'w) IceControllerContext"
      using that half_open_tab [OF that] tab_update_same [OF half_open_tab(1) [OF that], of ?i
          "(sock d ?i)\<lparr>socketType := ICE_CONTROLLER_SOCKET_TYPE_UDP, sockState := ICE_CONTROLLER_SOCKET_CONTEXT_STATE_CREATE\<rparr>"]
      by (simp add: half_open_def table_ok_def upd_sock_def sock_ok_def)
    note run = assms(2) [unfolded CreateSocketContextUdp_def, simplified room sk Let_def False if_True if_False prod.case]
    show ?thesis
    proof (cases b)
      case None
      with run udp [OF c2(3)] show ?thesis by auto
    next
      case (Some j)
      let ?ep = "localEndpoints ?c2 ! j"
      obtain ok w2 where bd: "osBind (os env) fd ?ep (world ?c2) = (ok, w2)" by (cases "osBind (os env) fd ?ep (world ?c2)")
      obtain p w3 where gs: "osGetsockname (os env) fd w2 = (p, w3)" by (cases "osGetsockname (os env) fd w2")
      have dropped: "table_ok (drop_socket ?i ?c2)" "table_ok (drop_socket ?i (?c2\<lparr>world := w\<rparr>))" for w
        using drop_ok c2 by blast+
      have "half_open ?i (upd_sock ?i (\<lambda>s. s\<lparr>socketType := ICE_CONTROLLER_SOCKET_TYPE_UDP\<rparr>) (?c2\<lparr>world := w3, localEndpoints := eps\<rparr>))" for eps
        by (rule udp) (use c2(1) in simp)
      with run Some bd gs dropped show ?thesis by (auto split: if_splits option.splits)
    qed
  qed
qed

lemma CreateTcp_ok:
  assumes "table_ok c" and "CreateSocketContextTcp env dest c = (r, slot, c')"
  shows "(r = ICE_CONTROLLER_RESULT_OK \<or> r = ICE_CONTROLLER_RESULT_CONNECTION_IN_PROGRESS) \<and> slot \<noteq> None \<and> half_open (the slot) c' \<or>
     r \<noteq> ICE_CONTROLLER_RESULT_OK \<and> r \<noteq> ICE_CONTROLLER_RESULT_CONNECTION_IN_PROGRESS \<and> table_ok c'"
proof (cases "inetNtopOk (os env) (epAddress dest) \<and> socketsContextsCount c < ICE_CONTROLLER_MAX_LOCAL_CANDIDATE_COUNT")
  case False
  with assms show ?thesis by (auto simp: CreateSocketContextTcp_def split: if_splits)
next
  case True
  let ?i = "socketsContextsCount c"
  obtain st fd w1 where tc: "tlsConnect (os env) dest (rootCaPath c) (rootCaPem c) (openFds c) (world c) = (st, fd, w1)"
    by (cases "tlsConnect (os env) dest (rootCaPath c) (rootCaPem c) (openFds c) (world c)")
  note run = assms(2) [unfolded CreateSocketContextTcp_def, simplified True tc Let_def if_True if_False prod.case]
  let ?opened = "upd_sock ?i (\<lambda>s. s\<lparr>socketFd := fd, socketType := ICE_CONTROLLER_SOCKET_TYPE_TLS\<rparr>) (open_fd fd (c\<lparr>socketsContextsCount := ?i + 1, world := w1\<rparr>))"
  show ?thesis
  proof (cases "st = TLS_TRANSPORT_OTHER")
    case st: True
    have "socketFd (sock c ?i) = -1" "?i < length (socketsContexts c)" "sock_ok (sock c ?i)"
      using assms(1) True by (auto simp: table_ok_def tab_def)
    then have "table_ok (upd_sock ?i (\<lambda>s. s\<lparr>socketFd := -1\<rparr>) c)"
      by (intro table_ok_upd) (use assms(1) True in \<open>auto simp: sock_ok_def\<close>)
    with run st True show ?thesis by (auto simp: table_ok_def upd_sock_def)
  next
    case False
    with tls_fresh [OF tc] have fresh: "fd \<ge> 0" "fd \<notin> set (openFds c)" by auto
    have "half_open ?i ?opened"
      by (rule fresh_slot [OF assms(1) _ fresh refl, where ty = ICE_CONTROLLER_SOCKET_TYPE_TLS]) (use True in \<open>simp_all add: open_fd_def upd_sock_def\<close>)
    with run False True show ?thesis by (cases st) auto
  qed
qed

lemma Create_ok:
  assumes "table_ok c" and "CreateSocketContext env fam b dest proto c = (r, slot, c')"
  shows "(r = ICE_CONTROLLER_RESULT_OK \<or> r = ICE_CONTROLLER_RESULT_CONNECTION_IN_PROGRESS) \<and> slot \<noteq> None \<and> half_open (the slot) c' \<or>
     r \<noteq> ICE_CONTROLLER_RESULT_OK \<and> r \<noteq> ICE_CONTROLLER_RESULT_CONNECTION_IN_PROGRESS \<and> table_ok c'"
  using assms CreateUdp_ok CreateTcp_ok socket_mutex
  by (cases proto) (fastforce simp: CreateSocketContext_def)+

end

section \<open>The operations\<close>

text \<open>The owner: its callback leaves the socket table alone on every event but the connection found, and
  keeps the invariant on that one and when it is given a packet.\<close>

locale ice_owner = ice_platform env for env :: "('x, 'w) ice_env" +
  assumes quiet: "onIceEventCallbackFunc env = Some f \<Longrightarrow> ev \<noteq> ICE_CONTROLLER_CB_EVENT_PEER_TO_PEER_CONNECTION_FOUND
      \<Longrightarrow> f ev arg c = Some (r, c') \<Longrightarrow> same_table c c'"
    and found: "onIceEventCallbackFunc env = Some f \<Longrightarrow> f ICE_CONTROLLER_CB_EVENT_PEER_TO_PEER_CONNECTION_FOUND arg c = Some (r, c')
      \<Longrightarrow> table_ok c \<Longrightarrow> table_ok c'"
    and deliver: "onRecvNonStunPacketFunc env = Some g \<Longrightarrow> g buf c = Some c' \<Longrightarrow> table_ok c \<Longrightarrow> table_ok c'"
begin

lemma notify_same:
  "notify env ev arg c = Some (r, c') \<Longrightarrow> ev \<noteq> ICE_CONTROLLER_CB_EVENT_PEER_TO_PEER_CONNECTION_FOUND \<Longrightarrow> same_table c c'"
  using quiet by (auto simp: notify_def same_table_def split: option.splits)

lemma notify_ok: "notify env ev arg c = Some (r, c') \<Longrightarrow> table_ok c \<Longrightarrow> table_ok c'"
  using found [of _ arg c r c'] notify_same [of ev arg c r c'] table_ok_same [of c c']
  by (cases "ev = ICE_CONTROLLER_CB_EVENT_PEER_TO_PEER_CONNECTION_FOUND") (auto simp: notify_def split: option.splits)

lemma announce_same: "announce env arg c = Some (r, c') \<Longrightarrow> same_table c c'"
  using notify_same [of ICE_CONTROLLER_CB_EVENT_LOCAL_CANDIDATE_READY arg c]
  by (auto simp: announce_def same_table_def split: bind_splits if_splits)

lemma UpdateTimer_ok [simp]: "table_ok (IceController_UpdateTimerInterval env ms c) = table_ok c"
  by (simp add: IceController_UpdateTimerInterval_def Let_def split: prod.split)

lemma UpdateState_ok [simp]: "table_ok (IceController_UpdateState st c) = table_ok c"
  by (simp add: IceController_UpdateState_def)

lemma upd_metrics_ok [simp]: "table_ok (upd_metrics f c) = table_ok c"
  by (simp add: upd_metrics_def)

lemma free_ok [intro]:
  "table_ok c \<Longrightarrow> i < ICE_CONTROLLER_MAX_LOCAL_CANDIDATE_COUNT \<Longrightarrow> table_ok (IceControllerNet_FreeSocketContext env i c)"
  "half_open i c \<Longrightarrow> table_ok (IceControllerNet_FreeSocketContext env i c)"
  using Free_ok socket_mutex by blast+

lemma send_locked_same: "send_locked env i dest buf c = Some (r, c') \<Longrightarrow> same_table c c'"
  by (auto simp: send_locked_def Let_def same_table_def split: bind_splits if_splits)

lemma SendPacket_ok:
  assumes "IceControllerNet_SendPacket env i dest buf c = Some (r, c')" and "table_ok c" and "i < ICE_CONTROLLER_MAX_LOCAL_CANDIDATE_COUNT"
  shows "table_ok c'"
proof -
  from assms(1) socket_mutex obtain r1 c1 where s1: "send_locked env i dest buf c = Some (r1, c1)"
    by (auto simp: IceControllerNet_SendPacket_def split: bind_splits)
  with send_locked_same table_ok_same assms(2) have t1: "table_ok c1" by blast
  show ?thesis
  proof (cases "r1 = ICE_CONTROLLER_RESULT_FAIL_SOCKET_SENDTO")
    case False
    with assms(1) s1 socket_mutex t1 show ?thesis by (simp add: IceControllerNet_SendPacket_def)
  next
    case True
    let ?c2 = "case pLocalCandidate (sock c1 i) of Some l \<Rightarrow> c1\<lparr>iceContext := iceCloseCandidate (lib env) l (iceContext c1)\<rparr> | None \<Rightarrow> c1"
    have "table_ok (IceControllerNet_FreeSocketContext env i ?c2)"
      by (rule free_ok(1)) (use t1 assms(3) in \<open>simp_all split: option.split\<close>)
    with assms(1) s1 True socket_mutex show ?thesis
      by (auto simp: IceControllerNet_SendPacket_def send_failed_def Let_def dest: notify_ok split: bind_splits if_splits)
  qed
qed

lemma AddHost_ok: "AddHostCandidate env b c = Some c' \<Longrightarrow> table_ok c \<Longrightarrow> table_ok c'"
proof -
  assume run: "AddHostCandidate env b c = Some c'" and ok: "table_ok c"
  obtain r slot c1 where cr: "CreateSocketContext env (epFamily (localEndpoints c ! b)) (Some b) zero_endpoint ICE_SOCKET_PROTOCOL_UDP c = (r, slot, c1)"
    by (cases "CreateSocketContext env (epFamily (localEndpoints c ! b)) (Some b) zero_endpoint ICE_SOCKET_PROTOCOL_UDP c")
  show ?thesis
  proof (cases "r = ICE_CONTROLLER_RESULT_OK")
    case False
    have "r \<noteq> ICE_CONTROLLER_RESULT_CONNECTION_IN_PROGRESS"
      using cr socket_mutex CreateUdp_ok [OF ok] by (fastforce simp: CreateSocketContext_def)
    with False Create_ok [OF ok cr] run cr show ?thesis by (simp add: AddHostCandidate_def)
  next
    case True
    with Create_ok [OF ok cr] have h: "half_open (the slot) c1" by simp
    obtain ir ice where add: "iceAddHostCandidate (lib env) (localEndpoints c1 ! b) (iceContext c1) = (ir, ice)"
      by (cases "iceAddHostCandidate (lib env) (localEndpoints c1 ! b) (iceContext c1)")
    let ?c2 = "c1\<lparr>iceContext := ice\<rparr>"
    have h2: "half_open (the slot) ?c2" using h by simp
    have h3: "half_open (the slot) c3" if "announce env arg ?c2 = Some (ret, c3)" for arg ret c3
      using half_open_same [OF announce_same [OF that]] h2 by simp
    show ?thesis
      using run cr True ice_mutex add h2 h3
      by (auto simp: AddHostCandidate_def Let_def intro!: free_ok register_ok [OF _ socket_mutex] split: if_splits bind_splits)
  qed
qed

lemma resolve_ok [simp]: "table_ok (snd (resolve_server env k c)) = table_ok c"
  by (simp add: resolve_server_def Let_def split: prod.split)

lemma AddSrflx_ok: "table_ok c \<Longrightarrow> table_ok (AddSrflxCandidate env b ks c)"
proof (induction ks arbitrary: c)
  case (Cons k ks)
  obtain dns c1 where rs: "resolve_server env k c = (dns, c1)" by (cases "resolve_server env k c")
  with Cons.prems resolve_ok [of k c] have ok1: "table_ok c1" by simp
  let ?cr = "CreateSocketContext env (epFamily (localEndpoints c1 ! b)) (Some b) zero_endpoint ICE_SOCKET_PROTOCOL_UDP c1"
  obtain r slot c2 where cr: "?cr = (r, slot, c2)" by (cases ?cr)
  obtain ir ice where add: "iceAddServerReflexiveCandidate (lib env) (localEndpoints c2 ! b) (iceContext c2) = (ir, ice)"
    by (cases "iceAddServerReflexiveCandidate (lib env) (localEndpoints c2 ! b) (iceContext c2)")
  have bad: "r \<noteq> ICE_CONTROLLER_RESULT_OK \<Longrightarrow> table_ok c2"
    using cr socket_mutex CreateUdp_ok [OF ok1] by (fastforce simp: CreateSocketContext_def)
  have good: "r = ICE_CONTROLLER_RESULT_OK \<Longrightarrow> half_open (the slot) (c2\<lparr>iceContext := ice\<rparr>)"
    using Create_ok [OF ok1 cr] by simp
  show ?case
  proof (cases "serverType (iceServers c ! k) = ICE_CONTROLLER_ICE_SERVER_TYPE_STUN \<and> dns = ICE_CONTROLLER_RESULT_OK \<and>
      epFamily (serverEndpoint (iceServers c1 ! k)) = STUN_ADDRESS_IPv4 \<and> epFamily (localEndpoints c1 ! b) = STUN_ADDRESS_IPv4")
    case False
    with Cons.prems Cons.IH ok1 show ?thesis by (auto simp: rs Let_def)
  next
    case True
    with cr have cr': "CreateSocketContext env STUN_ADDRESS_IPv4 (Some b) zero_endpoint ICE_SOCKET_PROTOCOL_UDP c1 = (r, slot, c2)" by simp
    show ?thesis
    proof (cases "r = ICE_CONTROLLER_RESULT_OK")
      case False
      with True Cons.IH bad show ?thesis by (simp add: rs cr' Let_def)
    next
      case r: True
      from register_ok [OF good [OF r] socket_mutex] free_ok(2) [OF good [OF r]] Cons.IH True r show ?thesis
        by (simp add: rs cr' add Let_def ice_mutex)
    qed
  qed
qed simp

lemma add_relay_frame: "add_relay env k c = (ir, c') \<Longrightarrow> same_table c c'"
  by (auto simp: add_relay_def Let_def same_table_def split: prod.splits)

lemma relay_pending_ok [simp]: "table_ok (relay_pending c) = table_ok c"
  by (simp add: relay_pending_def)

lemma AddRelay_ok: "table_ok c \<Longrightarrow> table_ok (AddRelayCandidates env ks c)"
proof (induction ks arbitrary: c)
  case (Cons k ks)
  obtain dns c1 where rs: "resolve_server env k c = (dns, c1)" by (cases "resolve_server env k c")
  with Cons.prems resolve_ok [of k c] have ok1: "table_ok c1" by simp
  let ?srv = "iceServers c1 ! k"
  let ?cr = "CreateSocketContext env STUN_ADDRESS_IPv4 None (serverEndpoint ?srv) (serverProtocol ?srv) c1"
  obtain r slot c2 where cr: "?cr = (r, slot, c2)" by (cases ?cr)
  obtain ir c3 where add: "add_relay env k c2 = (ir, c3)" by (cases "add_relay env k c2")
  note made = Create_ok [OF ok1 cr]
  have h3: "half_open i c3 = half_open i c2" for i using add_relay_frame [OF add] by (rule half_open_same)
  consider "\<not> relay_server (iceServers c ! k) \<or> dns \<noteq> ICE_CONTROLLER_RESULT_OK"
    | "relay_server (iceServers c ! k)" "dns = ICE_CONTROLLER_RESULT_OK" "r = ICE_CONTROLLER_RESULT_OK"
    | "relay_server (iceServers c ! k)" "dns = ICE_CONTROLLER_RESULT_OK" "r = ICE_CONTROLLER_RESULT_CONNECTION_IN_PROGRESS"
    | "relay_server (iceServers c ! k)" "dns = ICE_CONTROLLER_RESULT_OK" "r \<noteq> ICE_CONTROLLER_RESULT_OK" "r \<noteq> ICE_CONTROLLER_RESULT_CONNECTION_IN_PROGRESS"
    by blast
  then show ?case
  proof cases
    case 1
    with Cons.prems Cons.IH ok1 show ?thesis by (auto simp: rs Let_def)
  next
    case 2
    with made have h: "half_open (the slot) c3" by (simp add: h3)
    from register_ok [OF h socket_mutex] free_ok(2) [OF h] Cons.IH 2 show ?thesis
      by (simp add: rs cr add ice_mutex Let_def)
  next
    case 3
    with made have h: "half_open (the slot) c2" by simp
    from register_ok [OF h socket_mutex] Cons.IH 3 show ?thesis by (simp add: rs cr Let_def)
  next
    case 4
    with made Cons.IH show ?thesis by (simp add: rs cr Let_def)
  qed
qed simp

lemma gather_ok: "gather_local env bs c = Some c' \<Longrightarrow> table_ok c \<Longrightarrow> table_ok c'"
proof (induction bs arbitrary: c)
  case (Cons b bs)
  then show ?case by (auto simp: Let_def dest: AddHost_ok intro: AddSrflx_ok split: bind_splits if_splits)
qed simp

lemma AddLocalCandidates_ok: "IceControllerNet_AddLocalCandidates env c = Some c' \<Longrightarrow> table_ok c \<Longrightarrow> table_ok c'"
  by (auto simp: IceControllerNet_AddLocalCandidates_def Let_def dest!: gather_ok intro!: AddRelay_ok split: prod.splits bind_splits)

lemma ExecuteTls_ok:
  assumes "IceControllerNet_ExecuteTlsHandshake env i locked c = Some (r, c')" and "table_ok c"
    and "i < ICE_CONTROLLER_MAX_LOCAL_CANDIDATE_COUNT" and "sockState (sock c i) \<noteq> ICE_CONTROLLER_SOCKET_CONTEXT_STATE_NONE"
  shows "table_ok c'"
proof -
  obtain st w where hs: "tlsContinueHandshake (os env) (socketFd (sock c i)) (world c) = (st, w)"
    by (cases "tlsContinueHandshake (os env) (socketFd (sock c i)) (world c)")
  have fd: "socketFd (sock c i) \<noteq> -1" using table_sock_ok [OF assms(2,3)] assms(4) by (simp add: sock_ok_def)
  have relay: "table_ok c2 \<and> sock c2 i = sock c i" if "add_relay env k (c\<lparr>world := w\<rparr>) = (ir, c2)" for k ir c2
    using add_relay_frame [OF that] assms(2) table_ok_same [of "c\<lparr>world := w\<rparr>" c2] by (simp add: same_table_def)
  show ?thesis
  proof (cases st)
    case TLS_TRANSPORT_SUCCESS
    with assms(1) hs ice_mutex socket_mutex relay fd assms(2,3) show ?thesis
      by (auto simp: IceControllerNet_ExecuteTlsHandshake_def Let_def
          intro!: free_ok(1) reregister_ok [OF _ _ socket_mutex] split: if_splits bind_splits prod.splits)
  next
    case TLS_TRANSPORT_HANDSHAKE_IN_PROGRESS
    with assms hs socket_mutex show ?thesis
      by (auto simp: IceControllerNet_ExecuteTlsHandshake_def Let_def split: if_splits)
  next
    case TLS_TRANSPORT_OTHER
    with assms hs socket_mutex show ?thesis
      by (auto simp: IceControllerNet_ExecuteTlsHandshake_def Let_def intro!: free_ok(1) split: if_splits)
  qed
qed

lemma candidate_updated_ok:
  assumes "candidate_updated env i c = Some c'" and "table_ok c" and "i < ICE_CONTROLLER_MAX_LOCAL_CANDIDATE_COUNT" and "socketFd (sock c i) \<noteq> -1"
  shows "table_ok c'"
proof -
  from assms(1) obtain r where "announce env (pLocalCandidate (sock c i))
      (IceControllerNet_UpdateSocketContext env i ICE_CONTROLLER_SOCKET_CONTEXT_STATE_READY
        (pLocalCandidate (sock c i)) (pRemoteCandidate (sock c i)) (pIceServer (sock c i)) c) = Some (r, c')"
    by (auto simp: candidate_updated_def Let_def)
  from table_ok_same [OF announce_same [OF this]] reregister_ok [OF assms(2,3) socket_mutex assms(4)] show ?thesis by simp
qed

lemma SendBindingResponse_ok:
  "SendBindingResponse env i pair tid c = Some (r, c') \<Longrightarrow> table_ok c \<Longrightarrow> i < ICE_CONTROLLER_MAX_LOCAL_CANDIDATE_COUNT \<Longrightarrow> table_ok c'"
  by (auto simp: SendBindingResponse_def Let_def dest!: SendPacket_ok split: option.splits if_splits prod.splits bind_splits)

lemma SendNominationRequest_ok:
  "SendNominationRequest env i pair c = Some (r, c') \<Longrightarrow> table_ok c \<Longrightarrow> i < ICE_CONTROLLER_MAX_LOCAL_CANDIDATE_COUNT \<Longrightarrow> table_ok c'"
  by (auto simp: SendNominationRequest_def Let_def dest!: SendPacket_ok split: option.splits if_splits prod.splits bind_splits)

lemma send_to_server_ok:
  "send_to_server env i create c = Some (r, c') \<Longrightarrow> table_ok c \<Longrightarrow> i < ICE_CONTROLLER_MAX_LOCAL_CANDIDATE_COUNT \<Longrightarrow> table_ok c'"
  by (auto simp: send_to_server_def Let_def dest!: SendPacket_ok split: if_splits prod.splits bind_splits)

lemma response_and_check_ok:
  "response_and_check env i pair tid c = Some (r, c') \<Longrightarrow> table_ok c \<Longrightarrow> i < ICE_CONTROLLER_MAX_LOCAL_CANDIDATE_COUNT \<Longrightarrow> table_ok c'"
  by (auto simp: response_and_check_def dest!: SendBindingResponse_ok split: if_splits bind_splits)

lemma handle_stun_result_ok:
  assumes "handle_stun_result env i res tid pair sec c = Some (r, c')" and "table_ok c"
    and "i < ICE_CONTROLLER_MAX_LOCAL_CANDIDATE_COUNT" and "socketFd (sock c i) \<noteq> -1"
  shows "table_ok c'"
proof (cases res)
  case ICE_HANDLE_STUN_PACKET_RESULT_UPDATED_SERVER_REFLEXIVE_CANDIDATE_ADDRESS
  with assms show ?thesis by (auto simp: handle_stun_result_def dest: candidate_updated_ok split: if_splits bind_splits)
next
  case ICE_HANDLE_STUN_PACKET_RESULT_UPDATED_RELAY_CANDIDATE_ADDRESS
  with assms show ?thesis by (auto simp: handle_stun_result_def dest: candidate_updated_ok split: if_splits bind_splits)
next
  case ICE_HANDLE_STUN_PACKET_RESULT_SEND_RESPONSE_AND_START_NOMINATION
  with assms(1) obtain r1 c1 where b: "SendBindingResponse env i pair tid c = Some (r1, c1)"
    and rest: "(if r1 \<noteq> ICE_CONTROLLER_RESULT_OK then Some (r1, c1) else SendNominationRequest env i pair c1) = Some (r, c')"
    by (auto simp: handle_stun_result_def split: bind_splits)
  from SendBindingResponse_ok [OF b assms(2,3)] rest SendNominationRequest_ok [OF _ _ assms(3)] show ?thesis
    by (auto split: if_splits)
next
  case ICE_HANDLE_STUN_PACKET_RESULT_TURN_SESSION_TERMINATED
  with assms show ?thesis by (auto simp: handle_stun_result_def)
qed (use assms in \<open>auto simp: handle_stun_result_def dest: response_and_check_ok send_to_server_ok SendNominationRequest_ok split: bind_splits\<close>)

lemma HandleStunPacket_ok:
  "IceControllerNet_HandleStunPacket env i buf remote c = Some (r, c') \<Longrightarrow> table_ok c \<Longrightarrow>
     i < ICE_CONTROLLER_MAX_LOCAL_CANDIDATE_COUNT \<Longrightarrow> socketFd (sock c i) \<noteq> -1 \<Longrightarrow> table_ok c'"
  by (auto simp: IceControllerNet_HandleStunPacket_def Let_def dest!: handle_stun_result_ok split: if_splits prod.splits)

lemma process_local_ok:
  "process_local env sec js c = Some c' \<Longrightarrow> table_ok c \<Longrightarrow> \<forall>i \<in> set js. i < ICE_CONTROLLER_MAX_LOCAL_CANDIDATE_COUNT \<Longrightarrow> table_ok c'"
proof (induction js arbitrary: c)
  case (Cons i js)
  consider "socketsContextsCount c \<le> i"
    | "i < socketsContextsCount c" "sockState (sock c i) = ICE_CONTROLLER_SOCKET_CONTEXT_STATE_CONNECTION_IN_PROGRESS"
    | "i < socketsContextsCount c" "sockState (sock c i) \<noteq> ICE_CONTROLLER_SOCKET_CONTEXT_STATE_CONNECTION_IN_PROGRESS"
    by linarith
  then show ?case
  proof cases
    case 1
    with Cons.prems show ?thesis by simp
  next
    case 2
    with Cons.prems obtain r c1 where h: "IceControllerNet_ExecuteTlsHandshake env i True c = Some (r, c1)"
      and rest: "process_local env sec js c1 = Some c'" by (auto split: bind_splits)
    with Cons.IH [OF rest] ExecuteTls_ok [OF h] Cons.prems 2 show ?thesis by simp
  next
    case 3
    show ?thesis
    proof (cases "pLocalCandidate (sock c i)")
      case None
      with Cons.prems Cons.IH 3 show ?thesis by simp
    next
      case (Some l)
      obtain ir buf ice where cr: "iceCreateNextCandidateRequest (lib env) (Some l) sec (iceContext c) = (ir, buf, ice)"
        by (cases "iceCreateNextCandidateRequest (lib env) (Some l) sec (iceContext c)")
      show ?thesis
      proof (cases "ir = ICE_RESULT_OK")
        case False
        with Some cr 3 Cons.prems Cons.IH [of "c\<lparr>iceContext := ice\<rparr>"] show ?thesis by simp
      next
        case True
        with Some cr 3 Cons.prems(1) obtain dest r c2
          where snd: "IceControllerNet_SendPacket env i dest buf (c\<lparr>iceContext := ice\<rparr>) = Some (r, c2)"
            and rest: "process_local env sec js c2 = Some c'"
          by (auto simp: Let_def split: bind_splits)
        from SendPacket_ok [OF snd] Cons.IH [OF rest] Cons.prems show ?thesis by simp
      qed
    qed
  qed
qed simp

lemma ProcessLocalCandidates_ok: "ProcessLocalCandidates env c = Some c' \<Longrightarrow> table_ok c \<Longrightarrow> table_ok c'"
  by (auto simp: ProcessLocalCandidates_def dest!: process_local_ok split: if_splits)

lemma FindSocket_bound:
  assumes "FindSocketContextByLocalCandidate c l = Some i" and "table_ok c"
  shows "i < ICE_CONTROLLER_MAX_LOCAL_CANDIDATE_COUNT"
proof -
  let ?found = "filter (\<lambda>i. pLocalCandidate (sock c i) = Some l) [0..<socketsContextsCount c]"
  from assms(1) have "?found \<noteq> []" "i = last ?found"
    by (auto simp: FindSocketContextByLocalCandidate_def split: list.splits)
  then have "i \<in> set ?found" using last_in_set by blast
  then show ?thesis using count_table [OF assms(2)] by simp
qed

lemma HandleCandidatePairRequest_ok:
  assumes "HandleCandidatePairRequest env target pair c = Some (r, c')" and "table_ok c"
    and "pred_option (\<lambda>i. i < ICE_CONTROLLER_MAX_LOCAL_CANDIDATE_COUNT) target"
  shows "table_ok c'"
proof -
  obtain ir buf ice where cr: "iceCreateNextPairRequest (lib env) pair (now_sec env c) (iceContext c) = (ir, buf, ice)"
    by (cases "iceCreateNextPairRequest (lib env) pair (now_sec env c) (iceContext c)")
  let ?c1 = "c\<lparr>iceContext := ice\<rparr>"
  have ok1: "table_ok ?c1" using assms(2) by simp
  have tgt: "i < ICE_CONTROLLER_MAX_LOCAL_CANDIDATE_COUNT"
    if "(case target of None \<Rightarrow> FindSocketContextByLocalCandidate ?c1 l | Some i \<Rightarrow> Some i) = Some i" for i l
    using that assms(3) FindSocket_bound [OF _ ok1] by (auto split: option.splits)
  show ?thesis
    using assms(1) cr ok1 tgt
    by (auto simp: HandleCandidatePairRequest_def Let_def dest!: SendPacket_ok split: if_splits bind_splits option.splits)
qed

lemma process_pairs_ok: "process_pairs env ps c = Some c' \<Longrightarrow> table_ok c \<Longrightarrow> table_ok c'"
proof (induction ps arbitrary: c)
  case (Cons p ps)
  from Cons.prems(1) obtain pr where pr: "mem_read (candidatePairs (iceContext c)) p = Some pr" by (auto split: bind_splits)
  show ?case
  proof (cases "FindSocketContextByLocalCandidate c (pairLocal pr)")
    case None
    with Cons.prems Cons.IH pr show ?thesis by simp
  next
    case (Some i)
    with Cons.prems(1) pr obtain r c1 where h: "HandleCandidatePairRequest env (Some i) (Some p) c = Some (r, c1)"
      and rest: "process_pairs env ps c1 = Some c'" by (auto split: bind_splits)
    from HandleCandidatePairRequest_ok [OF h Cons.prems(2)] FindSocket_bound [OF Some Cons.prems(2)] Cons.IH [OF rest]
    show ?thesis by simp
  qed
qed simp

lemma ProcessCandidatePairs_ok: "ProcessCandidatePairs env c = Some c' \<Longrightarrow> table_ok c \<Longrightarrow> table_ok c'"
  by (auto simp: ProcessCandidatePairs_def Let_def dest!: process_pairs_ok split: if_splits prod.splits)

lemma ProcessIceCandidatesAndPairs_ok:
  assumes "IceController_ProcessIceCandidatesAndPairs env c = Some (r, c')" and "table_ok c"
  shows "table_ok c'"
proof -
  from assms(1) obtain c1 c2 c3 where
    c1: "(if addLocalCandidates c then IceControllerNet_AddLocalCandidates env (c\<lparr>addLocalCandidates := False\<rparr>) else Some c) = Some c1"
    and c2: "ProcessCandidatePairs env c1 = Some c2" and c3: "ProcessLocalCandidates env c2 = Some c3"
    by (auto simp: IceController_ProcessIceCandidatesAndPairs_def Let_def split: bind_splits)
  have "table_ok c1" using c1 assms(2) AddLocalCandidates_ok by (auto split: if_splits)
  with c2 c3 have "table_ok c3" using ProcessCandidatePairs_ok ProcessLocalCandidates_ok by blast
  then show ?thesis
    using assms(1) c1 c2 c3
    by (auto simp: IceController_ProcessIceCandidatesAndPairs_def Let_def dest: notify_ok split: bind_splits if_splits)
qed

lemma PeriodConnectionCheck_ok:
  assumes "IceController_PeriodConnectionCheck env c = Some (r, c')" and "table_ok c"
  shows "table_ok c'"
proof (cases "pNominatedSocketContext c")
  case None
  with assms show ?thesis by (simp add: IceController_PeriodConnectionCheck_def)
next
  case (Some i)
  show ?thesis
  proof (cases "pLocalCandidate (sock c i)")
    case None
    with Some assms show ?thesis by (simp add: IceController_PeriodConnectionCheck_def)
  next
    case (Some l)
    with \<open>pNominatedSocketContext c = Some i\<close> assms(1) ice_mutex obtain r1 c1 c2 where
      h: "HandleCandidatePairRequest env (Some i) (pCandidatePair (sock c i)) c = Some (r1, c1)"
      and p: "ProcessLocalCandidates env c1 = Some c2" and c': "c' = IceController_UpdateTimerInterval env ICE_CONTROLLER_PERIODIC_TIMER_INTERVAL_MS c2"
      by (auto simp: IceController_PeriodConnectionCheck_def split: bind_splits)
    from HandleCandidatePairRequest_ok [OF h assms(2)] nominated_table [OF assms(2) \<open>pNominatedSocketContext c = Some i\<close>]
      ProcessLocalCandidates_ok [OF p] c' show ?thesis by simp
  qed
qed

lemma timer_event_ok: "timer_event env ev ms c = Some c' \<Longrightarrow> table_ok c \<Longrightarrow> table_ok c'"
  by (auto simp: timer_event_def dest: notify_ok split: bind_splits if_splits)

lemma OnTimerExpire_ok: "OnTimerExpire env c = Some c' \<Longrightarrow> table_ok c \<Longrightarrow> table_ok c'"
  by (auto simp: OnTimerExpire_def dest: timer_event_ok split: if_splits IceControllerState.splits)

lemma SendToRemotePeer_ok:
  assumes "IceController_SendToRemotePeer env pBuffer c = Some (r, c')" and "table_ok c"
  shows "table_ok c'"
proof (cases "\<exists>buf i. pBuffer = Some buf \<and> pNominatedSocketContext c = Some i")
  case False
  with assms show ?thesis by (auto simp: IceController_SendToRemotePeer_def split: option.splits)
next
  case True
  then obtain buf i where bi: "pBuffer = Some buf" "pNominatedSocketContext c = Some i" by blast
  from bi(2) assms(2) have i: "i < ICE_CONTROLLER_MAX_LOCAL_CANDIDATE_COUNT" by (rule nominated_table [rotated])
  show ?thesis
    using assms bi i
    by (auto simp: IceController_SendToRemotePeer_def Let_def dest!: SendPacket_ok split: if_splits option.splits bind_splits prod.splits)
qed

lemma close_pairs_frame [simp]: "same_table c (close_pairs env keep ps c)"
  by (induction ps arbitrary: c) (auto simp: same_table_def)

lemma close_candidate_frame: "same_table c (close_candidate_of env i c)"
  by (simp add: close_candidate_of_def same_table_def split: option.split)

lemma close_candidate_ok [simp]: "table_ok (close_candidate_of env i c) = table_ok c"
  using table_ok_same [OF close_candidate_frame] .

lemma release_loop_ok: "table_ok c \<Longrightarrow> \<forall>i \<in> set js. i < ICE_CONTROLLER_MAX_LOCAL_CANDIDATE_COUNT \<Longrightarrow> table_ok (release_loop env chosen js c)"
  by (induction js arbitrary: c) (auto simp: free_ok)

lemma CloseOther_ok [simp]: "table_ok (IceController_CloseOtherCandidatePairs env pair c) = table_ok c"
  by (auto simp: IceController_CloseOtherCandidatePairs_def table_ok_same split: option.splits prod.splits)

lemma HandleEvent_ok: "table_ok c \<Longrightarrow> table_ok (IceController_HandleEvent env ev c)"
  using count_table [of c]
  by (cases ev) (auto simp: IceController_HandleEvent_def ReleaseOtherSockets_def Let_def intro!: release_loop_ok split: option.splits)

lemma finish_closing_ok: "finish_closing env c = Some (r, c') \<Longrightarrow> table_ok c \<Longrightarrow> table_ok c'"
  by (auto simp: finish_closing_def IceControllerSocketListener_StopPolling_def dest: notify_ok split: if_splits bind_splits)

lemma AddressClosing_ok: "IceController_AddressClosing env c = Some (r, c') \<Longrightarrow> table_ok c \<Longrightarrow> table_ok c'"
  by (auto simp: IceController_AddressClosing_def dest: finish_closing_ok ProcessLocalCandidates_ok split: if_splits bind_splits)

lemma destroy_loop_ok:
  "destroy_loop env js need c = (need', c') \<Longrightarrow> table_ok c \<Longrightarrow> \<forall>i \<in> set js. i < ICE_CONTROLLER_MAX_LOCAL_CANDIDATE_COUNT \<Longrightarrow> table_ok c'"
  by (induction js arbitrary: need c) (auto simp: free_ok split: if_splits)

lemma Destroy_ok:
  assumes "IceController_Destroy env c = Some (r, c')" and "table_ok c"
  shows "table_ok c'"
proof -
  have "table_ok c'" if "(let (need, c2) = destroy_loop env [0..<socketsContextsCount d] False d
       in if need then Some (ICE_CONTROLLER_RESULT_OK, IceController_UpdateTimerInterval env ICE_CONTROLLER_CLOSING_INTERVAL_MS c2)
          else finish_closing env c2) = Some (r, c')" and "table_ok d" for d
  proof -
    obtain need c2 where dl: "destroy_loop env [0..<socketsContextsCount d] False d = (need, c2)" by fastforce
    have "table_ok c2" using destroy_loop_ok [OF dl that(2)] count_table [OF that(2)] by simp
    with that(1) dl show ?thesis by (auto dest: finish_closing_ok split: if_splits)
  qed
  with assms show ?thesis by (auto simp: IceController_Destroy_def Let_def split: IceControllerState.splits)
qed

end

end
