(* ===== verification/Ice_Ownership_Rx.thy ===== *)
theory Ice_Ownership_Rx
  imports Ice_Ownership
begin

text \<open>
  Ownership of the descriptors, continued: set-up and the listener.
\<close>

context ice_owner
begin

section \<open>Start\<close>

lemma close_if_open_ok: "table_ok c \<Longrightarrow> i < ICE_CONTROLLER_MAX_LOCAL_CANDIDATE_COUNT \<Longrightarrow> table_ok (close_if_open env i c)"
  by (simp add: close_if_open_def free_ok)

lemma close_if_open_fd:
  assumes "table_ok c" and "i < ICE_CONTROLLER_MAX_LOCAL_CANDIDATE_COUNT"
  shows "socketFd (sock (close_if_open env i c) i) = -1"
    and "j \<noteq> i \<Longrightarrow> sock (close_if_open env i c) j = sock c j"
  using table_sock_ok [OF assms] assms length_table [OF assms(1)] socket_mutex
  by (auto simp: close_if_open_def IceControllerNet_FreeSocketContext_def Let_def sock_ok_def)

lemma close_all:
  "table_ok c \<Longrightarrow> n \<le> ICE_CONTROLLER_MAX_LOCAL_CANDIDATE_COUNT \<Longrightarrow>
     table_ok (fold (close_if_open env) [0..<n] c) \<and> (\<forall>i < n. socketFd (sock (fold (close_if_open env) [0..<n] c) i) = -1)"
proof (induction n)
  case (Suc n)
  let ?d = "fold (close_if_open env) [0..<n] c"
  from Suc have d: "table_ok ?d" "\<forall>i < n. socketFd (sock ?d i) = -1" by simp_all
  from Suc.prems have n: "n < ICE_CONTROLLER_MAX_LOCAL_CANDIDATE_COUNT" by simp
  have "socketFd (sock (close_if_open env n ?d) i) = -1" if "i < Suc n" for i
    using that d close_if_open_fd(1) [OF d(1) n] close_if_open_fd(2) [OF d(1) n, of i] by (cases "i = n") auto
  with close_if_open_ok [OF d(1) n] show ?case by simp
qed simp

lemma Start_ok:
  assumes "IceController_Start env config controlling c = Some (r, c')" and "table_ok c"
  shows "table_ok c'"
proof -
  obtain ir ice where ini: "iceInit (lib env) controlling = (ir, ice)" by (cases "iceInit (lib env) controlling")
  let ?c2 = "fold (close_if_open env) [0..<ICE_CONTROLLER_MAX_LOCAL_CANDIDATE_COUNT] (c\<lparr>iceContext := ice\<rparr>)"
  have c2: "table_ok ?c2" "\<forall>i < ICE_CONTROLLER_MAX_LOCAL_CANDIDATE_COUNT. socketFd (sock ?c2 i) = -1"
    using close_all [of "c\<lparr>iceContext := ice\<rparr>" ICE_CONTROLLER_MAX_LOCAL_CANDIDATE_COUNT] assms(2) by auto
  then have c3: "table_ok (?c2\<lparr>socketsContextsCount := 0, pNominatedSocketContext := None\<rparr>)"
    by (simp add: table_ok_def tab_def)
  show ?thesis
  proof (cases "config \<and> ir = ICE_RESULT_OK")
    case False
    with assms ini ice_mutex show ?thesis by (auto simp: IceController_Start_def Let_def split: if_splits)
  next
    case True
    with assms(1) ini ice_mutex socket_mutex c3 OnTimerExpire_ok show ?thesis
      by (auto simp: IceController_Start_def Let_def IceControllerSocketListener_StartPolling_def split: bind_splits)
  qed
qed

lemma AddRemoteCandidate_ok: "IceController_AddRemoteCandidate env cand c = (r, c') \<Longrightarrow> table_ok c \<Longrightarrow> table_ok c'"
  by (auto simp: IceController_AddRemoteCandidate_def Let_def split: if_splits prod.splits)

section \<open>Receiving\<close>

lemma SendPacket_same:
  "IceControllerNet_SendPacket env i dest buf c = Some (r, c') \<Longrightarrow> r \<noteq> ICE_CONTROLLER_RESULT_FAIL_SOCKET_SENDTO \<Longrightarrow> same_table c c'"
  using send_locked_same [of i dest buf c] by (auto simp: IceControllerNet_SendPacket_def same_table_def split: if_splits bind_splits)

lemma SendBindingResponse_same:
  assumes "SendBindingResponse env i pair tid c = Some (ICE_CONTROLLER_RESULT_OK, c')"
  shows "same_table c c'"
proof -
  from assms ice_mutex obtain p dest buf ice c1 where "pair = Some p" and c1: "c1 = c\<lparr>iceContext := ice\<rparr>"
    and s: "IceControllerNet_SendPacket env i dest buf c1 = Some (ICE_CONTROLLER_RESULT_OK, c')"
    by (auto simp: SendBindingResponse_def Let_def split: option.splits prod.splits if_splits bind_splits)
  from SendPacket_same [OF s] c1 show ?thesis by (simp add: same_table_def)
qed

lemma send_to_server_not_found: "send_to_server env i create c = Some (r, c') \<Longrightarrow> r \<noteq> ICE_CONTROLLER_RESULT_FOUND_CONNECTION"
  by (auto simp: send_to_server_def Let_def split: if_splits prod.splits bind_splits)

lemma SendNomination_not_found: "SendNominationRequest env i pair c = Some (r, c') \<Longrightarrow> r \<noteq> ICE_CONTROLLER_RESULT_FOUND_CONNECTION"
  by (auto simp: SendNominationRequest_def Let_def split: option.splits if_splits prod.splits bind_splits)

lemma SendBinding_not_found: "SendBindingResponse env i pair tid c = Some (r, c') \<Longrightarrow> r \<noteq> ICE_CONTROLLER_RESULT_FOUND_CONNECTION"
  by (auto simp: SendBindingResponse_def Let_def split: option.splits if_splits prod.splits bind_splits)

lemma response_found_same:
  assumes "response_and_check env i pair tid c = Some (ICE_CONTROLLER_RESULT_FOUND_CONNECTION, c')"
  shows "same_table c c'"
proof -
  from assms obtain r c1 where b: "SendBindingResponse env i pair tid c = Some (r, c1)"
    and rest: "(if r = ICE_CONTROLLER_RESULT_OK then do { r' \<leftarrow> CheckNomination pair c1; Some (r', c1) } else Some (r, c1))
        = Some (ICE_CONTROLLER_RESULT_FOUND_CONNECTION, c')"
    by (auto simp: response_and_check_def split: bind_splits)
  from rest SendBinding_not_found [OF b] have "r = ICE_CONTROLLER_RESULT_OK" "c1 = c'" by (auto split: if_splits bind_splits)
  with SendBindingResponse_same b show ?thesis by simp
qed

text \<open>When a connection is found the socket is still open.\<close>

lemma HandleStun_found_same:
  assumes "handle_stun_result env i res tid pair sec c = Some (ICE_CONTROLLER_RESULT_FOUND_CONNECTION, c')"
  shows "same_table c c'"
proof (cases res)
  case ICE_HANDLE_STUN_PACKET_RESULT_SEND_TRIGGERED_CHECK
  with assms response_found_same show ?thesis by (simp add: handle_stun_result_def)
next
  case ICE_HANDLE_STUN_PACKET_RESULT_SEND_RESPONSE_FOR_REMOTE_REQUEST
  with assms response_found_same show ?thesis by (simp add: handle_stun_result_def)
next
  case ICE_HANDLE_STUN_PACKET_RESULT_CANDIDATE_PAIR_READY
  with assms show ?thesis by (auto simp: handle_stun_result_def same_table_def split: bind_splits)
next
  case ICE_HANDLE_STUN_PACKET_RESULT_SEND_RESPONSE_AND_START_NOMINATION
  with assms show ?thesis
    by (auto simp: handle_stun_result_def dest: SendBinding_not_found SendNomination_not_found split: bind_splits if_splits)
qed (use assms in \<open>auto simp: handle_stun_result_def dest: send_to_server_not_found SendNomination_not_found split: if_splits bind_splits\<close>)

lemma UpdateNominated_ok:
  assumes "UpdateNominatedSocketContext env i pair remote c = Some (r, c')" and "table_ok c"
    and "i < ICE_CONTROLLER_MAX_LOCAL_CANDIDATE_COUNT" and "socketFd (sock c i) \<noteq> -1"
  shows "table_ok c'"
proof -
  from assms(1) obtain np where np: "nominated_pair env i pair remote c = Some np"
    by (auto simp: UpdateNominatedSocketContext_def split: bind_splits)
  show ?thesis
  proof (cases np)
    case (Inl e)
    with assms np show ?thesis by (simp add: UpdateNominatedSocketContext_def)
  next
    case (Inr p)
    let ?c1 = "\<lambda>pr. upd_sock i (\<lambda>s. s\<lparr>pRemoteCandidate := pairRemote pr, pCandidatePair := Some p,
        sockState := ICE_CONTROLLER_SOCKET_CONTEXT_STATE_SELECTED\<rparr>) (c\<lparr>pNominatedSocketContext := Some i\<rparr>)"
    have "table_ok (?c1 pr)" for pr
      by (rule table_ok_upd)
        (use table_ok_nominate [OF assms(2,3)] table_sock_ok [OF assms(2,3)] assms(3,4) in \<open>simp_all add: sock_ok_def\<close>)
    with assms(1) np Inr socket_mutex show ?thesis
      by (auto simp: UpdateNominatedSocketContext_def Let_def dest: notify_ok split: bind_splits if_splits)
  qed
qed

lemma rx_media_ok:
  assumes "rx_media env i buf remote st c = Some (st', c')" and "table_ok c"
    and "i < ICE_CONTROLLER_MAX_LOCAL_CANDIDATE_COUNT" and "socketFd (sock c i) \<noteq> -1"
  shows "table_ok c'"
proof (cases "onRecvNonStunPacketFunc env")
  case None
  with assms show ?thesis by (simp add: rx_media_def)
next
  case (Some g)
  with assms(1) obtain r c1 where
    u: "(if pNominatedSocketContext c \<noteq> Some i then UpdateNominatedSocketContext env i (rxPair st) remote c else Some (rxRet st, c)) = Some (r, c1)"
    and d: "(if r = ICE_CONTROLLER_RESULT_OK then g buf c1 else Some c1) = Some c'"
    by (auto simp: rx_media_def split: bind_splits)
  from u UpdateNominated_ok [OF _ assms(2-4)] assms(2) have "table_ok c1" by (auto split: if_splits)
  with d deliver [OF Some] show ?thesis by (auto split: if_splits)
qed

lemma rx_stun_ok:
  assumes "rx_stun env i buf remote st c = Some (b, st', c')" and "table_ok c"
    and "i < ICE_CONTROLLER_MAX_LOCAL_CANDIDATE_COUNT" and "socketFd (sock c i) \<noteq> -1"
  shows "table_ok c'"
proof -
  from assms(1) obtain r c1 where h: "IceControllerNet_HandleStunPacket env i buf remote c = Some (r, c1)"
    by (auto simp: rx_stun_def split: bind_splits)
  note t1 = HandleStunPacket_ok [OF h assms(2-4)]
  show ?thesis
  proof (cases "r = ICE_CONTROLLER_RESULT_FOUND_CONNECTION \<and> pNominatedSocketContext c1 = None")
    case False
    with assms(1) h t1 show ?thesis by (auto simp: rx_stun_def split: if_splits)
  next
    case True
    from h True ice_mutex obtain res tid pair sec ice where
      "handle_stun_result env i res tid pair sec (c\<lparr>iceContext := ice\<rparr>) = Some (ICE_CONTROLLER_RESULT_FOUND_CONNECTION, c1)"
      by (auto simp: IceControllerNet_HandleStunPacket_def Let_def split: prod.splits)
    from HandleStun_found_same [OF this] have "socketFd (sock c1 i) \<noteq> -1" using assms(4) by (simp add: same_table_def)
    with True assms(1) h UpdateNominated_ok [OF _ t1 assms(3)] show ?thesis
      by (auto simp: rx_stun_def split: bind_splits)
  qed
qed

lemma rx_dispatch_ok:
  assumes "rx_dispatch env i buf remote st c = Some (b, st', c')" and "table_ok c"
    and "i < ICE_CONTROLLER_MAX_LOCAL_CANDIDATE_COUNT" and "socketFd (sock c i) \<noteq> -1"
  shows "table_ok c'"
  using assms(1) rx_media_ok [OF _ assms(2-4)] rx_stun_ok [OF _ assms(2-4)] assms(2)
  by (auto simp: rx_dispatch_def split: list.splits if_splits)

lemma rx_receive_same: "rx_receive env i c = Some (res, c') \<Longrightarrow> same_table c c'"
  by (auto simp: rx_receive_def Let_def same_table_def split: if_splits bind_splits prod.splits)

lemma rx_receive_open:
  assumes "rx_receive env i c = Some (Inr x, c')"
  shows "socketFd (sock c i) \<noteq> -1"
proof
  assume fd: "socketFd (sock c i) = -1"
  then have "fst (RecvPacketUdp env (sock c i) (world c)) = RxError"
    using recv_closed [of RX_BUFFER_SIZE "world c"] by (auto simp: RecvPacketUdp_def split: prod.splits)
  with assms fd show False by (auto simp: rx_receive_def Let_def split: if_splits prod.splits)
qed

lemma strip_turn_same: "strip_turn env l buf st c = Some (buf', st', c') \<Longrightarrow> same_table c c'"
  by (auto simp: strip_turn_def same_table_def split: if_splits prod.splits)

lemma rx_loop_ok:
  assumes "rx_loop env i st c = Some y" and "table_ok c" and "i < ICE_CONTROLLER_MAX_LOCAL_CANDIDATE_COUNT"
  shows "table_ok (snd y)"
proof -
  let ?P = "\<lambda>e i st c y. e = env \<longrightarrow> table_ok c \<longrightarrow> i < ICE_CONTROLLER_MAX_LOCAL_CANDIDATE_COUNT \<longrightarrow> table_ok (snd y)"
  have "?P env i st c y"
  proof (rule rx_loop.raw_induct [of ?P, OF _ assms(1)], intro impI)
    fix loop e i st c y
    assume IH: "\<And>e i st c y. loop e i st c = Some y \<Longrightarrow> ?P e i st c y" and e: "e = env"
      and ok: "table_ok c" and i: "i < ICE_CONTROLLER_MAX_LOCAL_CANDIDATE_COUNT"
      and run: "rx_receive e i c \<bind> (\<lambda>(res, c1). case res of Inl failed \<Rightarrow> Some (failed, c1)
        | Inr (buf, remote) \<Rightarrow>
            if RX_BUFFER_SIZE < rxOff st + length buf then None
            else pLocalCandidate (sock c1 i) \<bind> (\<lambda>l. local_candidate c1 l \<bind> (\<lambda>cand.
              case if candidateKind cand = ICE_CANDIDATE_TYPE_RELAY then strip_turn e l buf st c1 else Some (buf, st, c1) of
                None \<Rightarrow> Some (False, c1)
              | Some (buf', st', c2) \<Rightarrow> rx_dispatch e i buf' remote st' c2 \<bind>
                  (\<lambda>(continue, st2, c3). if continue then loop e i st2 c3 else Some (False, c3))))) = Some y"
    from run obtain res c1 where rx: "rx_receive env i c = Some (res, c1)" using e by (auto split: bind_splits)
    have ok1: "table_ok c1" using rx_receive_same [OF rx] table_ok_same ok by blast
    show "table_ok (snd y)"
    proof (cases res)
      case (Inl b)
      with run rx e ok1 show ?thesis by auto
    next
      case (Inr br)
      obtain buf remote where br: "br = (buf, remote)" by (cases br)
      have fd1: "socketFd (sock c1 i) \<noteq> -1"
        using rx_receive_open [of i c] rx Inr rx_receive_same [OF rx] by (simp add: same_table_def)
      from run rx e Inr br obtain l cand where lc: "pLocalCandidate (sock c1 i) = Some l" "local_candidate c1 l = Some cand"
        by (auto split: if_splits bind_splits)
      let ?strip = "if candidateKind cand = ICE_CANDIDATE_TYPE_RELAY then strip_turn env l buf st c1 else Some (buf, st, c1)"
      show ?thesis
      proof (cases ?strip)
        case None
        with run rx e Inr br lc ok1 show ?thesis by (auto split: if_splits)
      next
        case (Some bsc)
        obtain buf' st' c2 where bsc: "bsc = (buf', st', c2)" by (cases bsc)
        have "same_table c1 c2" using Some bsc strip_turn_same by (auto simp: same_table_def split: if_splits)
        then have ok2: "table_ok c2" "socketFd (sock c2 i) \<noteq> -1" using ok1 fd1 table_ok_same by (auto simp: same_table_def)
        from run rx e Inr br lc Some bsc obtain continue st2 c3 where
          d: "rx_dispatch env i buf' remote st' c2 = Some (continue, st2, c3)"
          and rest: "(if continue then loop env i st2 c3 else Some (False, c3)) = Some y"
          by (auto split: if_splits bind_splits)
        from rx_dispatch_ok [OF d ok2(1) i ok2(2)] rest IH [of env i st2 c3 y] i show ?thesis by (auto split: if_splits)
      qed
    qed
  qed
  with assms show ?thesis by simp
qed

lemma HandleRxPacket_ok:
  assumes "HandleRxPacket env i c = Some c'" and "table_ok c" and "i < ICE_CONTROLLER_MAX_LOCAL_CANDIDATE_COUNT"
  shows "table_ok c'"
proof -
  from assms(1) obtain failed c1 where run: "rx_loop env i rx_init c = Some (failed, c1)"
    by (auto simp: HandleRxPacket_def split: bind_splits)
  from rx_loop_ok [OF run assms(2,3)] assms(1,3) run show ?thesis by (auto simp: HandleRxPacket_def free_ok)
qed

lemma poll_loop_ok:
  "poll_loop env ready fds c = Some c' \<Longrightarrow> table_ok c \<Longrightarrow> \<forall>(i, fd) \<in> set fds. i < ICE_CONTROLLER_MAX_LOCAL_CANDIDATE_COUNT \<Longrightarrow> table_ok c'"
proof (induction fds arbitrary: c)
  case (Cons x fds)
  obtain i fd where x: "x = (i, fd)" by (cases x)
  show ?case
  proof (cases "fd \<ge> 0 \<and> fd \<in> set ready")
    case False
    with Cons x show ?thesis by auto
  next
    case True
    with Cons.prems(1) x obtain c1 where
      s: "(if sockState (sock c i) = ICE_CONTROLLER_SOCKET_CONTEXT_STATE_CONNECTION_IN_PROGRESS
           then map_option snd (IceControllerNet_ExecuteTlsHandshake env i False c) else HandleRxPacket env i c) = Some c1"
      and rest: "poll_loop env ready fds c1 = Some c'"
      by (auto split: bind_splits)
    have i: "i < ICE_CONTROLLER_MAX_LOCAL_CANDIDATE_COUNT" using Cons.prems(3) x by simp
    have "table_ok c1"
      using s HandleRxPacket_ok [OF _ Cons.prems(2) i] ExecuteTls_ok [OF _ Cons.prems(2) i] by (auto split: if_splits)
    with Cons.IH [OF rest] Cons.prems(3) show ?thesis by simp
  qed
qed simp

lemma pollingSockets_ok: "pollingSockets env c = Some c' \<Longrightarrow> table_ok c \<Longrightarrow> table_ok c'"
  using count_table [of c]
  by (auto simp: pollingSockets_def Let_def dest!: poll_loop_ok split: if_splits prod.splits option.splits)

lemma Listener_ok: "IceControllerSocketListener_Task env c = Some c' \<Longrightarrow> table_ok c \<Longrightarrow> table_ok c'"
  by (auto simp: IceControllerSocketListener_Task_def dest: pollingSockets_ok split: if_splits)

end

end
