(* ===== verification/Dtls_Transport.thy ===== *)
theory Dtls_Transport
  imports Rtc_Prelude "HOL-Library.Monad_Syntax" "HOL-Library.Sublist"
begin

text \<open>
  \<open>network_transport/transport_dtls_mbedtls.c\<close>: the DTLS transport over mbedTLS.  The library is an
  argument: a call of it is a tree of the callbacks it makes, with a branch for every answer, and ends
  with a status and the new state of its context.  The packets it sends go to the hook of the owner,
  which changes the owner's state.  The theory shows that a completed handshake is reported once, what
  the check of the certificate fingerprint accepts, and how the keys are cut from the key material.
\<close>

section \<open>Data\<close>

datatype (plugins only:) DtlsTransportStatus =
    DTLS_SUCCESS
  | DTLS_INVALID_PARAMETER
  | DTLS_OUT_OF_MEMORY
  | DTLS_TRANSPORT_INSUFFICIENT_MEMORY
  | DTLS_TRANSPORT_INVALID_CREDENTIALS
  | DTLS_TRANSPORT_HANDSHAKE_FAILED
  | DTLS_TRANSPORT_INTERNAL_ERROR
  | DTLS_TRANSPORT_CONNECT_FAILURE
  | DTLS_TRANSPORT_PROCESS_FAILURE
  | DTLS_SSL_REMOTE_CERTIFICATE_VERIFICATION_FAILED
  | DTLS_SSL_UNKNOWN_SRTP_PROFILE
  | DTLS_HANDSHAKE_COMPLETE
  | DTLS_HANDSHAKE_ALREADY_COMPLETE
  | DTLS_CONNECTION_HAS_BEEN_CLOSED

datatype DtlsState = DTLS_STATE_NONE | DTLS_STATE_NEW | DTLS_STATE_HANDSHAKING | DTLS_STATE_READY

datatype KVS_SRTP_PROFILE = KVS_SRTP_PROFILE_AES128_CM_HMAC_SHA1_80 | KVS_SRTP_PROFILE_AES128_CM_HMAC_SHA1_32

definition CERTIFICATE_FINGERPRINT_LENGTH :: nat where "CERTIFICATE_FINGERPRINT_LENGTH = 160"
definition MAX_SRTP_MASTER_KEY_LEN :: nat where "MAX_SRTP_MASTER_KEY_LEN = 16"
definition MAX_SRTP_SALT_KEY_LEN :: nat where "MAX_SRTP_SALT_KEY_LEN = 14"
definition MAX_DTLS_RANDOM_BYTES_LEN :: nat where "MAX_DTLS_RANDOM_BYTES_LEN = 32"
definition MAX_DTLS_MASTER_KEY_LEN :: nat where "MAX_DTLS_MASTER_KEY_LEN = 48"
definition KEYING_EXTRACTOR_LABEL :: string where "KEYING_EXTRACTOR_LABEL = ''EXTRACTOR-dtls_srtp''"

record TlsKeys =
  masterSecret :: bytes
  randBytes :: bytes
  tlsProfile :: nat

text \<open>\<open>sslContext\<close> stands for the mbedTLS objects of \<open>DtlsSSLContext_t\<close>; \<open>hookSet\<close> says that a send hook was
  given.\<close>

record 's DtlsTransportParams =
  sslContext :: 's
  tlsKeys :: TlsKeys
  hookSet :: bool
  pReceivedPacket :: "bytes option"
  receivedPacketLength :: nat
  receivedPacketOffset :: nat

record 's DtlsNetworkContext =
  dtlsState :: DtlsState
  pParams :: "'s DtlsTransportParams option"

record DtlsKeyingMaterial =
  clientWriteKey :: bytes
  serverWriteKey :: bytes
  key_length :: nat
  srtpProfile :: KVS_SRTP_PROFILE

record DtlsNetworkCredentials =
  pClientCert :: "bytes option"
  pPrivateKey :: "bytes option"

section \<open>The library\<close>

text \<open>The results that the code distinguishes: a value that is not negative, four error codes, any other
  error.\<close>

datatype mbed_status = MBED_RET nat | MBED_WANT_READ | MBED_WANT_WRITE | MBED_TIMEOUT | MBED_PEER_CLOSE_NOTIFY | MBED_ERROR

datatype dtls_recv = DtlsRecvWantRead | DtlsRecvError | DtlsRecvData bytes

text \<open>A call: it sends a packet and continues with the result of the send callback; it asks for up to so
  many bytes and continues with the answer of the receive callback; it exports the keys; or it returns
  with a status, the bytes it wrote to the caller's buffer and its new state.\<close>

datatype 's mbed_run =
    MbedReturn mbed_status bytes 's
  | MbedSend bytes "int \<Rightarrow> 's mbed_run"
  | MbedRecv nat "dtls_recv \<Rightarrow> 's mbed_run"
  | MbedExportKeys bytes bytes bytes nat "'s mbed_run"

record 's mbedtls =
  mbedHandshake :: "'s \<Rightarrow> 's mbed_run"
  mbedRead :: "nat \<Rightarrow> 's \<Rightarrow> 's mbed_run"
  mbedWrite :: "bytes \<Rightarrow> 's \<Rightarrow> 's mbed_run"
  mbedCloseNotify :: "'s \<Rightarrow> 's mbed_run"
  mbedFree :: "'s \<Rightarrow> 's"
  mbedHandshakeOver :: "'s \<Rightarrow> bool"
  mbedPeerCert :: "'s \<Rightarrow> bytes option"
  mbedSha256Info :: bool
  mbedSha256 :: "bytes \<Rightarrow> bytes option"
  mbedTlsPrf :: "nat \<Rightarrow> bytes \<Rightarrow> string \<Rightarrow> bytes \<Rightarrow> nat \<Rightarrow> bytes option"
  mbedSrtpProfile :: "'s \<Rightarrow> KVS_SRTP_PROFILE option"
  mbedSeed :: "'s \<Rightarrow> bool \<times> 's"
  mbedSslInit :: "'s \<Rightarrow> 's"
  mbedConfigDefaults :: "bool \<Rightarrow> 's \<Rightarrow> bool \<times> 's"
  mbedConfAuth :: "'s \<Rightarrow> 's"
  mbedConfOwnCert :: "bytes \<Rightarrow> bytes \<Rightarrow> 's \<Rightarrow> bool \<times> 's"
  mbedConfCookies :: "'s \<Rightarrow> 's"
  mbedConfSrtpProfiles :: "'s \<Rightarrow> bool \<times> 's"
  mbedConfExportKeys :: "'s \<Rightarrow> 's"
  mbedSetup :: "'s \<Rightarrow> bool \<times> 's"
  mbedSetTimerAndBio :: "'s \<Rightarrow> 's"

section \<open>Callbacks\<close>

text \<open>The hook of the owner; its state is \<open>'c\<close>.\<close>

type_synonym 'c dtls_hook = "bytes \<Rightarrow> 'c \<Rightarrow> (int \<times> 'c) option"

definition DtlsUdpSendWrap ::
    "'c dtls_hook \<Rightarrow> 's DtlsTransportParams option \<Rightarrow> bytes \<Rightarrow> 'c \<Rightarrow> (int \<times> 'c) option" where
  "DtlsUdpSendWrap hook pCustomCtx buf c =
     (case pCustomCtx of
        None \<Rightarrow> Some (-1, c)
      | Some p \<Rightarrow> if hookSet p then hook buf c else Some (-2, c))"

text \<open>The number of bytes to copy is bounded by the length of the whole packet, not by what is left of it:
  a copy that runs past the packet has no outcome.  \<open>pBuf\<close> is the room in the buffer of the library.\<close>

definition DtlsUdpRecvWrap ::
    "'s DtlsTransportParams option \<Rightarrow> nat option \<Rightarrow> (dtls_recv \<times> 's DtlsTransportParams option) option" where
  "DtlsUdpRecvWrap pCustomCtx pBuf =
     (case (pCustomCtx, pBuf) of
        (Some p, Some len) \<Rightarrow>
          (case pReceivedPacket p of
             None \<Rightarrow> Some (DtlsRecvWantRead, Some p)
           | Some pkt \<Rightarrow>
               (let ret = (if len > receivedPacketLength p then receivedPacketLength p else len);
                    off = receivedPacketOffset p
                in if off + ret > length pkt then None
                   else Some (DtlsRecvData (take ret (drop off pkt)),
                          Some (if ret + off \<ge> receivedPacketLength p
                                then p\<lparr>pReceivedPacket := None, receivedPacketLength := 0, receivedPacketOffset := 0\<rparr>
                                else p\<lparr>receivedPacketOffset := off + ret\<rparr>))))
      | _ \<Rightarrow> Some (DtlsRecvError, pCustomCtx))"

definition dtlsSessionKeyDerivationCallback ::
    "bytes \<Rightarrow> bytes \<Rightarrow> bytes \<Rightarrow> nat \<Rightarrow> 's DtlsTransportParams \<Rightarrow> 's DtlsTransportParams" where
  "dtlsSessionKeyDerivationCallback pMasterSecret clientRandom serverRandom profile p =
     p\<lparr>tlsKeys := \<lparr>masterSecret = take MAX_DTLS_MASTER_KEY_LEN pMasterSecret,
        randBytes = take MAX_DTLS_RANDOM_BYTES_LEN clientRandom @ take MAX_DTLS_RANDOM_BYTES_LEN serverRandom,
        tlsProfile = profile\<rparr>\<rparr>"

text \<open>Running a call of the library with the callbacks of this transport.\<close>

primrec mbed_exec ::
    "'c dtls_hook \<Rightarrow> 's mbed_run \<Rightarrow> 's DtlsTransportParams \<Rightarrow> 'c
      \<Rightarrow> (mbed_status \<times> bytes \<times> 's DtlsTransportParams \<times> 'c) option" where
  "mbed_exec hook (MbedReturn st out ssl) p c = Some (st, out, p\<lparr>sslContext := ssl\<rparr>, c)"
| "mbed_exec hook (MbedSend buf k) p c =
     do { (r, c') \<leftarrow> DtlsUdpSendWrap hook (Some p) buf c; mbed_exec hook (k r) p c' }"
| "mbed_exec hook (MbedRecv n k) p c =
     do { (r, p') \<leftarrow> DtlsUdpRecvWrap (Some p) (Some n); q \<leftarrow> p'; mbed_exec hook (k r) q c }"
| "mbed_exec hook (MbedExportKeys ms cr sr prf run) p c =
     mbed_exec hook run (dtlsSessionKeyDerivationCallback ms cr sr prf p) c"

section \<open>Set-up\<close>

definition initMbedtls :: "'s mbedtls \<Rightarrow> 's \<Rightarrow> DtlsTransportStatus \<times> 's" where
  "initMbedtls lib ssl =
     (let (ok, ssl1) = mbedSeed lib ssl in (if ok then DTLS_SUCCESS else DTLS_TRANSPORT_INTERNAL_ERROR, ssl1))"

definition setCredentials :: "'s mbedtls \<Rightarrow> DtlsNetworkCredentials \<Rightarrow> 's \<Rightarrow> bool \<times> 's" where
  "setCredentials lib cred ssl =
     (let ssl1 = mbedConfAuth lib ssl
      in (case (pClientCert cred, pPrivateKey cred) of
            (Some cert, Some key) \<Rightarrow>
              (let (ok, ssl2) = mbedConfOwnCert lib cert key ssl1
               in if \<not> ok then (False, ssl2)
                  else
                    (let (ok, ssl3) = mbedConfSrtpProfiles lib (mbedConfCookies lib ssl2)
                     in if \<not> ok then (False, ssl3) else (True, mbedConfExportKeys lib ssl3)))
          | _ \<Rightarrow> (False, ssl1)))"

definition dtlsSetup :: "'s mbedtls \<Rightarrow> DtlsNetworkCredentials \<Rightarrow> bool \<Rightarrow> 's \<Rightarrow> DtlsTransportStatus \<times> 's" where
  "dtlsSetup lib cred isServer ssl =
     (let (ok, ssl1) = mbedConfigDefaults lib isServer (mbedSslInit lib ssl)
      in if \<not> ok then (DTLS_TRANSPORT_INSUFFICIENT_MEMORY, ssl1)
         else
           (let (ok, ssl2) = setCredentials lib cred ssl1
            in if \<not> ok then (DTLS_TRANSPORT_INVALID_CREDENTIALS, ssl2)
               else
                 (let (ok, ssl3) = mbedSetup lib ssl2
                  in (if ok then DTLS_SUCCESS else DTLS_TRANSPORT_INTERNAL_ERROR, ssl3))))"

definition DTLS_Init ::
    "'s mbedtls \<Rightarrow> 's DtlsNetworkContext option \<Rightarrow> DtlsNetworkCredentials option \<Rightarrow> bool
      \<Rightarrow> DtlsTransportStatus \<times> 's DtlsNetworkContext option" where
  "DTLS_Init lib pNetworkContext pCred isServer =
     (case (pNetworkContext, pCred) of
        (Some n, Some cred) \<Rightarrow>
          (case pParams n of
             Some p \<Rightarrow>
               if pClientCert cred = None \<or> pPrivateKey cred = None then (DTLS_INVALID_PARAMETER, Some n)
               else
                 (let n1 = n\<lparr>dtlsState := DTLS_STATE_NEW\<rparr>; with = (\<lambda>ssl n. n\<lparr>pParams := Some (p\<lparr>sslContext := ssl\<rparr>)\<rparr>);
                      (st, ssl1) = initMbedtls lib (sslContext p)
                  in if st \<noteq> DTLS_SUCCESS then (st, Some (with ssl1 n1))
                     else
                       (let (st2, ssl2) = dtlsSetup lib cred isServer ssl1
                        in if st2 \<noteq> DTLS_SUCCESS then (st2, Some (with ssl2 n1))
                           else (DTLS_SUCCESS, Some (with (mbedSetTimerAndBio lib ssl2) (n1\<lparr>dtlsState := DTLS_STATE_HANDSHAKING\<rparr>)))))
           | None \<Rightarrow> (DTLS_INVALID_PARAMETER, Some n))
      | _ \<Rightarrow> (DTLS_INVALID_PARAMETER, pNetworkContext))"

section \<open>Operation\<close>

text \<open>The handshake loop: while the local side has more to send.\<close>

partial_function (option) handshake_loop ::
    "'s mbedtls \<Rightarrow> 'c dtls_hook \<Rightarrow> 's DtlsTransportParams \<Rightarrow> 'c \<Rightarrow> (mbed_status \<times> 's DtlsTransportParams \<times> 'c) option" where
  "handshake_loop lib hook p c =
     do {
       (st, _, p1, c1) \<leftarrow> mbed_exec hook (mbedHandshake lib (sslContext p)) p c;
       if st = MBED_WANT_WRITE then handshake_loop lib hook p1 c1 else Some (st, p1, c1)
     }"

definition DTLS_ExecuteHandshake ::
    "'s mbedtls \<Rightarrow> 'c dtls_hook \<Rightarrow> 's DtlsNetworkContext \<Rightarrow> 'c \<Rightarrow> (DtlsTransportStatus \<times> 's DtlsNetworkContext \<times> 'c) option" where
  "DTLS_ExecuteHandshake lib hook n c =
     (if dtlsState n = DTLS_STATE_READY then Some (DTLS_HANDSHAKE_ALREADY_COMPLETE, n, c)
      else do {
        p \<leftarrow> pParams n;
        (st, p1, c1) \<leftarrow> handshake_loop lib hook p c;
        let n1 = n\<lparr>pParams := Some p1\<rparr>;
        Some (case st of
                MBED_WANT_READ \<Rightarrow> (DTLS_SUCCESS, n1, c1)
              | MBED_RET _ \<Rightarrow> (DTLS_HANDSHAKE_COMPLETE, n1\<lparr>dtlsState := DTLS_STATE_READY\<rparr>, c1)
              | _ \<Rightarrow> (DTLS_TRANSPORT_HANDSHAKE_FAILED, n1, c1))
      })"

text \<open>The read loop: while the library wants more and the packet is not used up.  A read that is not
  refused ends it, so what was read starts at the buffer.\<close>

partial_function (option) read_loop ::
    "'s mbedtls \<Rightarrow> 'c dtls_hook \<Rightarrow> nat \<Rightarrow> 's DtlsTransportParams \<Rightarrow> 'c
      \<Rightarrow> (DtlsTransportStatus \<times> bytes \<times> 's DtlsTransportParams \<times> 'c) option" where
  "read_loop lib hook room p c =
     (if pReceivedPacket p = None then Some (DTLS_SUCCESS, [], p, c)
      else do {
        (st, out, p1, c1) \<leftarrow> mbed_exec hook (mbedRead lib room (sslContext p)) p c;
        (case st of
           MBED_WANT_READ \<Rightarrow> read_loop lib hook room p1 c1
         | MBED_TIMEOUT \<Rightarrow> Some (DTLS_SUCCESS, [], p1, c1)
         | MBED_WANT_WRITE \<Rightarrow> Some (DTLS_SUCCESS, [], p1, c1)
         | MBED_PEER_CLOSE_NOTIFY \<Rightarrow> Some (DTLS_CONNECTION_HAS_BEEN_CLOSED, [], p1, c1)
         | MBED_ERROR \<Rightarrow> Some (DTLS_TRANSPORT_PROCESS_FAILURE, [], p1, c1)
         | MBED_RET k \<Rightarrow> Some (DTLS_SUCCESS, take k out, p1, c1))
      })"

text \<open>\<open>room\<close> is the size of the caller's buffer; the bytes returned are its first \<open>*pReadBufferSize\<close> bytes.\<close>

definition DTLS_ProcessPacket ::
    "'s mbedtls \<Rightarrow> 'c dtls_hook \<Rightarrow> bytes \<Rightarrow> nat \<Rightarrow> 's DtlsNetworkContext \<Rightarrow> 'c
      \<Rightarrow> (DtlsTransportStatus \<times> bytes \<times> 's DtlsNetworkContext \<times> 'c) option" where
  "DTLS_ProcessPacket lib hook pkt room n c =
     do {
       p \<leftarrow> pParams n;
       (st, out, p1, c1) \<leftarrow> read_loop lib hook room
          (p\<lparr>pReceivedPacket := Some pkt, receivedPacketLength := length pkt, receivedPacketOffset := 0\<rparr>) c;
       let n1 = n\<lparr>pParams := Some p1\<rparr>;
       Some (if st = DTLS_SUCCESS \<and> dtlsState n1 = DTLS_STATE_HANDSHAKING \<and> mbedHandshakeOver lib (sslContext p1)
             then (DTLS_HANDSHAKE_COMPLETE, out, n1\<lparr>dtlsState := DTLS_STATE_READY\<rparr>, c1)
             else (st, out, n1, c1))
     }"

text \<open>The number of bytes sent, 0 when the send can be retried, or a negative number.\<close>

definition DTLS_Send ::
    "'s mbedtls \<Rightarrow> 'c dtls_hook \<Rightarrow> bytes option \<Rightarrow> 's DtlsNetworkContext option \<Rightarrow> 'c
      \<Rightarrow> (int \<times> 's DtlsNetworkContext option \<times> 'c) option" where
  "DTLS_Send lib hook pBuffer pNetworkContext c =
     (case pNetworkContext of
        None \<Rightarrow> Some (-1, None, c)
      | Some n \<Rightarrow>
          (case pParams n of
             None \<Rightarrow> Some (-1, Some n, c)
           | Some p \<Rightarrow>
               (case pBuffer of
                  None \<Rightarrow> Some (-1, Some n, c)
                | Some buf \<Rightarrow>
                    if buf = [] then Some (-1, Some n, c)
                    else do {
                      (st, _, p1, c1) \<leftarrow> mbed_exec hook (mbedWrite lib buf (sslContext p)) p c;
                      Some (case st of
                              MBED_RET k \<Rightarrow> int k
                            | MBED_TIMEOUT \<Rightarrow> 0 | MBED_WANT_READ \<Rightarrow> 0 | MBED_WANT_WRITE \<Rightarrow> 0
                            | _ \<Rightarrow> -1,
                            Some (n\<lparr>pParams := Some p1\<rparr>), c1)
                    })))"

text \<open>The close notification is sent and the mbedTLS objects are freed; the state is not changed.\<close>

definition DTLS_Disconnect ::
    "'s mbedtls \<Rightarrow> 'c dtls_hook \<Rightarrow> 's DtlsNetworkContext \<Rightarrow> 'c \<Rightarrow> ('s DtlsNetworkContext \<times> 'c) option" where
  "DTLS_Disconnect lib hook n c =
     (case pParams n of
        None \<Rightarrow> Some (n, c)
      | Some p \<Rightarrow> do {
          (_, _, p1, c1) \<leftarrow> mbed_exec hook (mbedCloseNotify lib (sslContext p)) p c;
          Some (n\<lparr>pParams := Some (p1\<lparr>sslContext := mbedFree lib (sslContext p1)\<rparr>)\<rparr>, c1)
        })"

section \<open>Certificates and keys\<close>

definition hex_digit :: "nat \<Rightarrow> char" where
  "hex_digit k = ''0123456789ABCDEF'' ! k"

text \<open>\<open>sprintf( pBuff, "%.2X:", b )\<close> for every byte, the last colon replaced by the terminator.\<close>

definition show_hex_byte :: "u8 \<Rightarrow> string" where
  "show_hex_byte b = [hex_digit (unat b div 16), hex_digit (unat b mod 16), CHR '':'']"

definition fingerprint_string :: "bytes \<Rightarrow> string" where
  "fingerprint_string digest = butlast (concat (map show_hex_byte digest))"

text \<open>The size of the digest is that of the list.  The result has the string when the buffer was written.\<close>

definition DTLS_CreateCertificateFingerprint :: "'s mbedtls \<Rightarrow> bytes \<Rightarrow> bool \<Rightarrow> nat \<Rightarrow> int \<times> string option" where
  "DTLS_CreateCertificateFingerprint lib cert hasBuff bufLen =
     (if \<not> hasBuff then (-1, None)
      else if \<not> mbedSha256Info lib then (-1, None)
      else (case mbedSha256 lib cert of
              None \<Rightarrow> (-1, None)
            | Some digest \<Rightarrow> if bufLen < 3 * length digest then (-1, None) else (0, Some (fingerprint_string digest))))"

definition DTLS_GetLocalCertificateFingerprint :: "'s mbedtls \<Rightarrow> bytes option \<Rightarrow> bool \<Rightarrow> nat \<Rightarrow> int \<times> string option" where
  "DTLS_GetLocalCertificateFingerprint lib clientCert hasBuff buffLen =
     (case clientCert of
        None \<Rightarrow> (-1, None)
      | Some cert \<Rightarrow>
          if \<not> hasBuff then (-1, None)
          else if buffLen < CERTIFICATE_FINGERPRINT_LENGTH then (-1, None)
          else (0, snd (DTLS_CreateCertificateFingerprint lib cert hasBuff buffLen)))"

text \<open>\<open>strncmp( a, b, n ) == 0\<close> for the contents of two buffers.\<close>

definition strncmp_same :: "string \<Rightarrow> string \<Rightarrow> nat \<Rightarrow> bool" where
  "strncmp_same a b n \<longleftrightarrow> take n (takeWhile (\<lambda>x. x \<noteq> CHR 0x00) a) = take n (takeWhile (\<lambda>x. x \<noteq> CHR 0x00) b)"

text \<open>When the fingerprint cannot be computed the comparison is made with what the stack holds (\<open>stack\<close>).\<close>

definition DTLS_VerifyRemoteCertificateFingerprint ::
    "'s mbedtls \<Rightarrow> string \<Rightarrow> 's DtlsTransportParams option \<Rightarrow> string option \<Rightarrow> nat \<Rightarrow> DtlsTransportStatus + int" where
  "DTLS_VerifyRemoteCertificateFingerprint lib stack pSslContext pExpected maxLen =
     (case (pSslContext, pExpected) of
        (Some p, Some expected) \<Rightarrow>
          if CERTIFICATE_FINGERPRINT_LENGTH < maxLen then Inr (-1)
          else (case mbedPeerCert lib (sslContext p) of
                  None \<Rightarrow> Inr (-1)
                | Some cert \<Rightarrow>
                    (let actual = (case snd (DTLS_CreateCertificateFingerprint lib cert True CERTIFICATE_FINGERPRINT_LENGTH) of
                            Some s \<Rightarrow> s | None \<Rightarrow> stack)
                     in if strncmp_same expected actual maxLen then Inl DTLS_SUCCESS
                        else Inl DTLS_SSL_REMOTE_CERTIFICATE_VERIFICATION_FAILED))
      | _ \<Rightarrow> Inr (-1))"

text \<open>The four parts of the key material: two keys, then two salts.\<close>

definition cut_keys :: "bytes \<Rightarrow> bytes \<times> bytes" where
  "cut_keys km =
     (let k = MAX_SRTP_MASTER_KEY_LEN; s = MAX_SRTP_SALT_KEY_LEN
      in (take k km @ take s (drop (2 * k) km), take k (drop k km) @ take s (drop (2 * k + s) km)))"

definition DTLS_PopulateKeyingMaterial ::
    "'s mbedtls \<Rightarrow> 's DtlsTransportParams option \<Rightarrow> DtlsKeyingMaterial option \<Rightarrow> (DtlsTransportStatus + int) \<times> DtlsKeyingMaterial option" where
  "DTLS_PopulateKeyingMaterial lib pSslContext pMaterial =
     (case (pSslContext, pMaterial) of
        (Some p, Some mat) \<Rightarrow>
          (case mbedTlsPrf lib (tlsProfile (tlsKeys p)) (masterSecret (tlsKeys p)) KEYING_EXTRACTOR_LABEL (randBytes (tlsKeys p))
                  (2 * MAX_SRTP_MASTER_KEY_LEN + 2 * MAX_SRTP_SALT_KEY_LEN) of
             None \<Rightarrow> (Inr (-1), pMaterial)
           | Some km \<Rightarrow>
               (let mat1 = mat\<lparr>key_length := MAX_SRTP_MASTER_KEY_LEN + MAX_SRTP_SALT_KEY_LEN,
                      clientWriteKey := fst (cut_keys km), serverWriteKey := snd (cut_keys km)\<rparr>
                in (case mbedSrtpProfile lib (sslContext p) of
                      Some profile \<Rightarrow> (Inl DTLS_SUCCESS, Some (mat1\<lparr>srtpProfile := profile\<rparr>))
                    | None \<Rightarrow> (Inl DTLS_SSL_UNKNOWN_SRTP_PROFILE, Some mat1))))
      | _ \<Rightarrow> (Inr (-1), pMaterial))"

section \<open>The handshake is reported once\<close>

text \<open>The calls that the owner makes on a connection, and their results in order.\<close>

datatype dtls_call = ExecuteHandshake | ProcessPacket bytes nat

fun dtls_calls ::
    "'s mbedtls \<Rightarrow> 'c dtls_hook \<Rightarrow> dtls_call list \<Rightarrow> 's DtlsNetworkContext \<Rightarrow> 'c
      \<Rightarrow> (DtlsTransportStatus list \<times> 's DtlsNetworkContext \<times> 'c) option" where
  "dtls_calls lib hook [] n c = Some ([], n, c)"
| "dtls_calls lib hook (ExecuteHandshake # xs) n c =
     do { (st, n1, c1) \<leftarrow> DTLS_ExecuteHandshake lib hook n c; (sts, n2, c2) \<leftarrow> dtls_calls lib hook xs n1 c1; Some (st # sts, n2, c2) }"
| "dtls_calls lib hook (ProcessPacket pkt room # xs) n c =
     do { (st, _, n1, c1) \<leftarrow> DTLS_ProcessPacket lib hook pkt room n c; (sts, n2, c2) \<leftarrow> dtls_calls lib hook xs n1 c1; Some (st # sts, n2, c2) }"

lemma ExecuteHandshake_state:
  assumes "DTLS_ExecuteHandshake lib hook n c = Some (st, n1, c1)"
  shows "st = DTLS_HANDSHAKE_COMPLETE \<longrightarrow> dtlsState n \<noteq> DTLS_STATE_READY \<and> dtlsState n1 = DTLS_STATE_READY"
    and "st \<noteq> DTLS_HANDSHAKE_COMPLETE \<longrightarrow> dtlsState n1 = dtlsState n"
  using assms by (auto simp: DTLS_ExecuteHandshake_def Let_def split: if_splits bind_splits mbed_status.splits)

lemma read_loop_not_complete:
  assumes "read_loop lib hook room p c = Some (st, out, p1, c1)"
  shows "st \<noteq> DTLS_HANDSHAKE_COMPLETE"
proof -
  let ?P = "\<lambda>lib hook room p c y. fst y \<noteq> DTLS_HANDSHAKE_COMPLETE"
  have "?P lib hook room p c (st, out, p1, c1)"
  proof (rule read_loop.raw_induct [of ?P, OF _ assms])
    fix f :: "'a mbedtls \<Rightarrow> 'b dtls_hook \<Rightarrow> nat \<Rightarrow> 'a DtlsTransportParams \<Rightarrow> 'b \<Rightarrow> (DtlsTransportStatus \<times> bytes \<times> 'a DtlsTransportParams \<times> 'b) option"
    fix lib hook room p c y
    assume ih: "\<And>lib hook room p c y. f lib hook room p c = Some y \<Longrightarrow> ?P lib hook room p c y"
      and run: "(if pReceivedPacket p = None then Some (DTLS_SUCCESS, [], p, c)
        else do {
          (st, out, p1, c1) \<leftarrow> mbed_exec hook (mbedRead lib room (sslContext p)) p c;
          (case st of
             MBED_RET k \<Rightarrow> Some (DTLS_SUCCESS, take k out, p1, c1)
           | MBED_WANT_READ \<Rightarrow> f lib hook room p1 c1
           | MBED_WANT_WRITE \<Rightarrow> Some (DTLS_SUCCESS, [], p1, c1)
           | MBED_TIMEOUT \<Rightarrow> Some (DTLS_SUCCESS, [], p1, c1)
           | MBED_PEER_CLOSE_NOTIFY \<Rightarrow> Some (DTLS_CONNECTION_HAS_BEEN_CLOSED, [], p1, c1)
           | MBED_ERROR \<Rightarrow> Some (DTLS_TRANSPORT_PROCESS_FAILURE, [], p1, c1))
        }) = Some y"
    from run ih [of lib hook room _ _ y] show "fst y \<noteq> DTLS_HANDSHAKE_COMPLETE"
      by (auto split: if_splits bind_splits mbed_status.splits)
  qed
  then show ?thesis by simp
qed

lemma ProcessPacket_state:
  assumes "DTLS_ProcessPacket lib hook pkt room n c = Some (st, out, n1, c1)"
  shows "st = DTLS_HANDSHAKE_COMPLETE \<longrightarrow> dtlsState n \<noteq> DTLS_STATE_READY \<and> dtlsState n1 = DTLS_STATE_READY"
    and "st \<noteq> DTLS_HANDSHAKE_COMPLETE \<longrightarrow> dtlsState n1 = dtlsState n"
  using assms by (auto simp: DTLS_ProcessPacket_def Let_def split: if_splits bind_splits dest: read_loop_not_complete)

lemma dtls_calls_ready:
  "dtls_calls lib hook xs n c = Some (sts, n', c') \<Longrightarrow>
     (dtlsState n = DTLS_STATE_READY \<longrightarrow> DTLS_HANDSHAKE_COMPLETE \<notin> set sts \<and> dtlsState n' = DTLS_STATE_READY) \<and>
     length (filter (\<lambda>st. st = DTLS_HANDSHAKE_COMPLETE) sts) \<le> 1 \<and>
     (DTLS_HANDSHAKE_COMPLETE \<in> set sts \<longrightarrow> dtlsState n' = DTLS_STATE_READY)"
proof (induction xs arbitrary: n c sts)
  case (Cons x xs)
  obtain st n1 c1 sts' where st: "st = DTLS_HANDSHAKE_COMPLETE \<longrightarrow> dtlsState n \<noteq> DTLS_STATE_READY \<and> dtlsState n1 = DTLS_STATE_READY"
      "st \<noteq> DTLS_HANDSHAKE_COMPLETE \<longrightarrow> dtlsState n1 = dtlsState n"
    and rest: "dtls_calls lib hook xs n1 c1 = Some (sts', n', c')" and sts: "sts = st # sts'"
  proof (cases x)
    case ExecuteHandshake
    with Cons.prems obtain st n1 c1 sts' where x: "DTLS_ExecuteHandshake lib hook n c = Some (st, n1, c1)"
      "dtls_calls lib hook xs n1 c1 = Some (sts', n', c')" "sts = st # sts'" by (auto split: bind_splits)
    show ?thesis by (rule that [OF ExecuteHandshake_state [OF x(1)] x(2,3)])
  next
    case (ProcessPacket pkt room)
    with Cons.prems obtain st out n1 c1 sts' where x: "DTLS_ProcessPacket lib hook pkt room n c = Some (st, out, n1, c1)"
      "dtls_calls lib hook xs n1 c1 = Some (sts', n', c')" "sts = st # sts'" by (auto split: bind_splits)
    show ?thesis by (rule that [OF ProcessPacket_state [OF x(1)] x(2,3)])
  qed
  from Cons.IH [OF rest] st show ?case
    by (auto simp: sts filter_empty_conv)
qed simp

section \<open>What the fingerprint check accepts\<close>

lemma hex_digit_inject [simp]: "i < 16 \<Longrightarrow> j < 16 \<Longrightarrow> hex_digit i = hex_digit j \<longleftrightarrow> i = j"
  unfolding hex_digit_def by (subst nth_eq_iff_index_eq) simp_all

lemma hex_digit_visible: "i < 16 \<Longrightarrow> hex_digit i \<noteq> CHR 0x00"
  using nth_mem [of i "''0123456789ABCDEF''"] by (auto simp: hex_digit_def)

lemma show_hex_byte_inject: "show_hex_byte a = show_hex_byte b \<longleftrightarrow> a = b"
proof
  assume h: "show_hex_byte a = show_hex_byte b"
  have "unat a div 16 = unat b div 16" "unat a mod 16 = unat b mod 16"
    using h u8_less [of a] u8_less [of b] by (simp_all add: show_hex_byte_def)
  then have "unat a = unat b" by (metis div_mult_mod_eq)
  then show "a = b" by (rule word_unat_eq_iff [THEN iffD2])
qed simp

lemma length_hex [simp]: "length (concat (map show_hex_byte d)) = 3 * length d"
  by (induction d) (simp_all add: show_hex_byte_def)

lemma length_fingerprint [simp]: "length (fingerprint_string d) = 3 * length d - 1"
  by (simp add: fingerprint_string_def)

lemma concat_hex_inject: "concat (map show_hex_byte d) = concat (map show_hex_byte e) \<longleftrightarrow> d = e"
proof (induction d arbitrary: e)
  case (Cons a d)
  show ?case
  proof (cases e)
    case (Cons b e')
    have "length (show_hex_byte a) = length (show_hex_byte b)" by (simp add: show_hex_byte_def)
    then show ?thesis
      using Cons.IH [of e'] show_hex_byte_inject [of a b] by (simp add: Cons)
  qed (simp add: show_hex_byte_def)
qed (auto simp: show_hex_byte_def)

lemma concat_hex_last: "d \<noteq> [] \<Longrightarrow> concat (map show_hex_byte d) = fingerprint_string d @ '':''"
proof -
  assume "d \<noteq> []"
  then obtain d' b where d: "d = d' @ [b]" by (cases d rule: rev_cases) auto
  show ?thesis by (simp add: d fingerprint_string_def show_hex_byte_def butlast_append)
qed

lemma fingerprint_inject:
  assumes "fingerprint_string d = fingerprint_string e" and "d \<noteq> []" and "e \<noteq> []"
  shows "d = e"
  using assms concat_hex_last [of d] concat_hex_last [of e] concat_hex_inject [of d e] by simp

lemma hex_byte_visible: "CHR 0x00 \<notin> set (show_hex_byte b)"
proof -
  have "unat b div 16 < 16" using u8_less [of b] by simp
  then show ?thesis
    using hex_digit_visible [of "unat b div 16"] hex_digit_visible [of "unat b mod 16"] by (auto simp: show_hex_byte_def)
qed

lemma fingerprint_visible: "CHR 0x00 \<notin> set (fingerprint_string d)"
  using hex_byte_visible by (auto simp: fingerprint_string_def dest!: in_set_butlastD)

lemma takeWhile_visible: "CHR 0x00 \<notin> set s \<Longrightarrow> takeWhile (\<lambda>x. x \<noteq> CHR 0x00) s = s"
  by (auto simp: takeWhile_eq_all_conv)

lemma strncmp_prefix:
  assumes "CHR 0x00 \<notin> set a" and "CHR 0x00 \<notin> set b" and "n = length a"
  shows "strncmp_same a b n \<longleftrightarrow> prefix a b"
  using assms by (auto simp: strncmp_same_def takeWhile_visible prefix_def) (metis append_take_drop_id)

lemma verify_runs:
  assumes "mbedPeerCert lib (sslContext p) = Some cert" and "mbedSha256 lib cert = Some digest" and "mbedSha256Info lib"
    and "length digest = 32" and "length e \<le> CERTIFICATE_FINGERPRINT_LENGTH" and "CHR 0x00 \<notin> set e"
  shows "DTLS_VerifyRemoteCertificateFingerprint lib stack (Some p) (Some e) (length e) =
     Inl (if prefix e (fingerprint_string digest) then DTLS_SUCCESS else DTLS_SSL_REMOTE_CERTIFICATE_VERIFICATION_FAILED)"
  using assms strncmp_prefix [OF assms(6) fingerprint_visible refl, of digest]
  by (simp add: DTLS_VerifyRemoteCertificateFingerprint_def DTLS_CreateCertificateFingerprint_def CERTIFICATE_FINGERPRINT_LENGTH_def)

text \<open>A library for the examples: the context counts the handshake steps; the first packet that is read
  ends the handshake.\<close>

definition demo_mbedtls :: "nat mbedtls" where
  "demo_mbedtls =
     \<lparr>mbedHandshake = (\<lambda>s. MbedSend [22, 1] (\<lambda>r. MbedReturn (if s = 0 \<and> r > 0 then MBED_WANT_READ else MBED_ERROR) [] s)),
      mbedRead = (\<lambda>room s. MbedRecv 1000 (\<lambda>r. case r of
          DtlsRecvData d \<Rightarrow> MbedExportKeys (replicate 48 1) (replicate 32 2) (replicate 32 3) 0 (MbedReturn MBED_WANT_READ [] 1)
        | _ \<Rightarrow> MbedReturn MBED_WANT_READ [] s)),
      mbedWrite = (\<lambda>b s. MbedSend b (\<lambda>r. MbedReturn (MBED_RET (length b)) [] s)), mbedCloseNotify = (\<lambda>s. MbedReturn (MBED_RET 0) [] s),
      mbedFree = (\<lambda>s. 0), mbedHandshakeOver = (\<lambda>s. s = 1), mbedPeerCert = (\<lambda>s. Some [48, 130]), mbedSha256Info = True,
      mbedSha256 = (\<lambda>cert. Some (replicate 32 (of_nat (length cert)))), mbedTlsPrf = (\<lambda>t ms l rnd n. Some (replicate n 7)),
      mbedSrtpProfile = (\<lambda>s. Some KVS_SRTP_PROFILE_AES128_CM_HMAC_SHA1_80), mbedSeed = (\<lambda>s. (True, s)), mbedSslInit = (\<lambda>s. 0),
      mbedConfigDefaults = (\<lambda>b s. (True, s)), mbedConfAuth = (\<lambda>s. s), mbedConfOwnCert = (\<lambda>c k s. (True, s)), mbedConfCookies = (\<lambda>s. s),
      mbedConfSrtpProfiles = (\<lambda>s. (True, s)), mbedConfExportKeys = (\<lambda>s. s), mbedSetup = (\<lambda>s. (True, s)), mbedSetTimerAndBio = (\<lambda>s. s)\<rparr>"

definition dtls_demo_params :: "nat DtlsTransportParams" where
  "dtls_demo_params = \<lparr>sslContext = 0, tlsKeys = \<lparr>masterSecret = [], randBytes = [], tlsProfile = 0\<rparr>, hookSet = True,
     pReceivedPacket = None, receivedPacketLength = 0, receivedPacketOffset = 0\<rparr>"

definition demo_network :: "nat DtlsNetworkContext" where
  "demo_network = \<lparr>dtlsState = DTLS_STATE_HANDSHAKING, pParams = Some dtls_demo_params\<rparr>"

definition demo_hook :: "bytes list dtls_hook" where
  "demo_hook buf sent = Some (int (length buf), sent @ [buf])"

section \<open>Properties\<close>

text \<open>However the owner mixes calls that drive the handshake and calls that process a packet, the
  completion of the handshake is reported at most once; after the report the connection is ready, and
  on a ready connection it is never reported.\<close>

theorem dtls_complete_once:
  assumes "dtls_calls lib hook calls n c = Some (sts, n', c')"
  shows "length (filter (\<lambda>st. st = DTLS_HANDSHAKE_COMPLETE) sts) \<le> 1 \<and>
     (DTLS_HANDSHAKE_COMPLETE \<in> set sts \<longrightarrow> dtlsState n' = DTLS_STATE_READY) \<and>
     (dtlsState n = DTLS_STATE_READY \<longrightarrow> DTLS_HANDSHAKE_COMPLETE \<notin> set sts)"
  using dtls_calls_ready [OF assms] by blast

theorem dtls_complete_once_witness:
  "\<exists>n c. dtls_calls demo_mbedtls demo_hook [ExecuteHandshake, ProcessPacket [22, 2] 2048, ExecuteHandshake, ProcessPacket [23] 2048] demo_network []
     = Some ([DTLS_SUCCESS, DTLS_HANDSHAKE_COMPLETE, DTLS_HANDSHAKE_ALREADY_COMPLETE, DTLS_SUCCESS], n, c) \<and>
     length (filter (\<lambda>st. st = DTLS_HANDSHAKE_COMPLETE) [DTLS_SUCCESS, DTLS_HANDSHAKE_COMPLETE, DTLS_HANDSHAKE_ALREADY_COMPLETE, DTLS_SUCCESS]) \<le> 1"
proof -
  obtain n c where run: "dtls_calls demo_mbedtls demo_hook [ExecuteHandshake, ProcessPacket [22, 2] 2048, ExecuteHandshake, ProcessPacket [23] 2048] demo_network []
     = Some ([DTLS_SUCCESS, DTLS_HANDSHAKE_COMPLETE, DTLS_HANDSHAKE_ALREADY_COMPLETE, DTLS_SUCCESS], n, c)"
    by (simp add: DTLS_ExecuteHandshake_def DTLS_ProcessPacket_def handshake_loop.simps read_loop.simps demo_mbedtls_def demo_network_def
        dtls_demo_params_def demo_hook_def DtlsUdpSendWrap_def DtlsUdpRecvWrap_def dtlsSessionKeyDerivationCallback_def Let_def)
  from dtls_complete_once [OF run] run show ?thesis by blast
qed

text \<open>C38: the check of the peer's certificate accepts exactly when the fingerprint announced in the session
  description is a prefix of the SHA-256 fingerprint of the certificate; with an announced fingerprint
  of a whole digest that is equality of the digests.  An empty announced
  fingerprint accepts every certificate.\<close>

theorem verify_fingerprint_exact:
  assumes "mbedPeerCert lib (sslContext p) = Some cert" and "mbedSha256 lib cert = Some digest" and "mbedSha256Info lib"
    and "length digest = 32" and "length e \<le> CERTIFICATE_FINGERPRINT_LENGTH" and "CHR 0x00 \<notin> set e"
  shows "(DTLS_VerifyRemoteCertificateFingerprint lib stack (Some p) (Some e) (length e) = Inl DTLS_SUCCESS \<longleftrightarrow> prefix e (fingerprint_string digest)) \<and>
    (\<forall>announced. length announced = 32 \<longrightarrow> e = fingerprint_string announced \<longrightarrow>
       (DTLS_VerifyRemoteCertificateFingerprint lib stack (Some p) (Some e) (length e) = Inl DTLS_SUCCESS \<longleftrightarrow> digest = announced)) \<and>
    DTLS_VerifyRemoteCertificateFingerprint lib stack (Some p) (Some []) 0 = Inl DTLS_SUCCESS"
proof (intro conjI allI impI)
  show r: "DTLS_VerifyRemoteCertificateFingerprint lib stack (Some p) (Some e) (length e) = Inl DTLS_SUCCESS
       \<longleftrightarrow> prefix e (fingerprint_string digest)" by (simp add: verify_runs [OF assms])
  fix announced
  assume that: "length announced = 32" "e = fingerprint_string announced"
  have "length e = length (fingerprint_string digest)" using that assms(4) by simp
  then have "prefix e (fingerprint_string digest) \<longleftrightarrow> e = fingerprint_string digest"
    by (metis append_eq_conv_conj prefix_def prefix_order.order_refl take_all_iff order_refl)
  moreover have "announced \<noteq> []" and "digest \<noteq> []" using that assms(4) by auto
  ultimately show "DTLS_VerifyRemoteCertificateFingerprint lib stack (Some p) (Some e) (length e) = Inl DTLS_SUCCESS \<longleftrightarrow> digest = announced"
    using that r fingerprint_inject [of announced digest] by auto
next
  show "DTLS_VerifyRemoteCertificateFingerprint lib stack (Some p) (Some []) 0 = Inl DTLS_SUCCESS"
    using verify_runs [OF assms(1-4), of "[]" stack] by simp
qed

theorem verify_fingerprint_exact_witness:
  "DTLS_VerifyRemoteCertificateFingerprint demo_mbedtls [] (Some dtls_demo_params) (Some (fingerprint_string (replicate 32 2))) 95 = Inl DTLS_SUCCESS \<and>
   DTLS_VerifyRemoteCertificateFingerprint demo_mbedtls [] (Some dtls_demo_params) (Some (fingerprint_string (replicate 32 9))) 95 \<noteq> Inl DTLS_SUCCESS"
proof -
  have h: "mbedPeerCert demo_mbedtls (sslContext dtls_demo_params) = Some [48, 130]" "mbedSha256 demo_mbedtls [48, 130] = Some (replicate 32 2)"
    "mbedSha256Info demo_mbedtls" "length (replicate 32 (2 :: u8)) = 32"
    by (simp_all add: demo_mbedtls_def)
  have e: "length (fingerprint_string (replicate 32 b)) \<le> CERTIFICATE_FINGERPRINT_LENGTH" "CHR 0x00 \<notin> set (fingerprint_string (replicate 32 b))" "length (replicate 32 b) = 32" for b
    by (simp_all add: CERTIFICATE_FINGERPRINT_LENGTH_def fingerprint_visible)
  show ?thesis
    using verify_fingerprint_exact [OF h e(1,2), of "[]" 2] verify_fingerprint_exact [OF h e(1,2), of "[]" 9]
    by (auto simp: replicate_eq_replicate)
qed

end
