(* ===== verification/Pc_Session.thy ===== *)
theory Pc_Session
  imports Ice_Ownership_Rx Dtls_Transport Message_Queue Srtp_Send
begin

text \<open>
  The session of \<open>peer_connection/peer_connection.c\<close>: the queue of requests between its threads, the
  callbacks of the ICE controller, the DTLS handshake and the closing of the session.  The session
  contains the ICE controller; here the context of the controller contains the rest of the session
  as its \<open>world\<close>, so that every operation has the type of the operations of the controller.  The
  system, the ICE library, mbedTLS and the media path are arguments.  Data channels are compiled out
  (\<open>ENABLE_SCTP_DATA_CHANNEL\<close> is 0), and so are metrics.
\<close>

section \<open>Data\<close>

datatype PeerConnectionSessionState =
    PEER_CONNECTION_SESSION_STATE_NONE
  | PEER_CONNECTION_SESSION_STATE_CLOSING
  | PEER_CONNECTION_SESSION_STATE_INITED
  | PEER_CONNECTION_SESSION_STATE_START
  | PEER_CONNECTION_SESSION_STATE_FIND_CONNECTION
  | PEER_CONNECTION_SESSION_STATE_P2P_CONNECTION_FOUND
  | PEER_CONNECTION_SESSION_STATE_CONNECTION_READY

text \<open>A request with its content; a transceiver is its address.\<close>

datatype (plugins only:) PeerConnectionSessionRequestMessage =
    PEER_CONNECTION_SESSION_REQUEST_TYPE_NONE
  | PEER_CONNECTION_SESSION_REQUEST_TYPE_ADD_REMOTE_CANDIDATE IceControllerCandidate
  | PEER_CONNECTION_SESSION_REQUEST_TYPE_PROCESS_ICE_CANDIDATES_AND_PAIRS
  | PEER_CONNECTION_SESSION_REQUEST_TYPE_PERIOD_CONNECTION_CHECK
  | PEER_CONNECTION_SESSION_REQUEST_TYPE_RTCP_SENDER_REPORT u64 nat
  | PEER_CONNECTION_SESSION_REQUEST_TYPE_ICE_CLOSING
  | PEER_CONNECTION_SESSION_REQUEST_TYPE_ICE_CLOSED
  | PEER_CONNECTION_SESSION_REQUEST_TYPE_PEER_CONNECTION_CLOSE
  | PEER_CONNECTION_SESSION_REQUEST_TYPE_PEER_CONNECTION_CLOSE_NO_ICE_FLOW

datatype TransceiverCallbackEvent =
    TRANSCEIVER_CB_EVENT_NONE
  | TRANSCEIVER_CB_EVENT_REMOTE_PEER_READY
  | TRANSCEIVER_CB_EVENT_REMOTE_PEER_CLOSED
  | TRANSCEIVER_CB_EVENT_MAX

definition PEER_CONNECTION_TRANSCEIVER_MAX_COUNT :: nat where "PEER_CONNECTION_TRANSCEIVER_MAX_COUNT = 2"
definition PEER_CONNECTION_USER_NAME_LENGTH :: nat where "PEER_CONNECTION_USER_NAME_LENGTH = 32"
definition PEER_CONNECTION_PASSWORD_LENGTH :: nat where "PEER_CONNECTION_PASSWORD_LENGTH = 32"
definition PEER_CONNECTION_SDP_DESCRIPTION_BUFFER_MAX_LENGTH :: nat where "PEER_CONNECTION_SDP_DESCRIPTION_BUFFER_MAX_LENGTH = 10000"
definition PEER_CONNECTION_MAX_DTLS_DECRYPTED_DATA_LENGTH :: nat where "PEER_CONNECTION_MAX_DTLS_DECRYPTED_DATA_LENGTH = 2048"
definition PEER_CONNECTION_WAIT_SDP_MESSAGE_TIMEOUT_MS :: u32 where "PEER_CONNECTION_WAIT_SDP_MESSAGE_TIMEOUT_MS = 12000"
definition PEER_CONNECTION_INACTIVE_CONNECTION_TIMEOUT_MS :: u64 where "PEER_CONNECTION_INACTIVE_CONNECTION_TIMEOUT_MS = 30000"
definition PEER_CONNECTION_DTLS_HANDSHAKING_TIMEOUT_MS :: u64 where "PEER_CONNECTION_DTLS_HANDSHAKING_TIMEOUT_MS = 12000"
definition PEER_CONNECTION_MAX_QUEUE_MSG_NUM :: nat where "PEER_CONNECTION_MAX_QUEUE_MSG_NUM = 10"
definition PEER_CONNECTION_RTCP_REPORT_TIMER_INTERVAL_MS :: u32 where "PEER_CONNECTION_RTCP_REPORT_TIMER_INTERVAL_MS = 5000"

text \<open>The session without its ICE controller.  The array of transceivers holds their addresses, \<open>None\<close>
  for NULL; the transceivers belong to the application.  \<open>media\<close> is the state of the SRTP
  sessions, buffers and RTP settings, \<open>outer\<close> everything outside the session.\<close>

record ('s, 'm, 'w) pc_session =
  sessionState :: PeerConnectionSessionState
  requestQueue :: "PeerConnectionSessionRequestMessage mq"
  startupBarrier :: nat
  remoteUserName :: string
  remotePassword :: string
  combinedName :: string
  remoteCertFingerprint :: string
  remoteCertFingerprintLength :: nat
  xDtlsNetworkContext :: "'s DtlsNetworkContext"
  dtlsKeyingMaterial :: DtlsKeyingMaterial
  dtlsIsServer :: bool
  pTransceivers :: "nat option list"
  transceiverCount :: nat
  mLinesTransceiverCount :: nat
  rtcpAudioSenderReportTimer :: "unit TimerHandler"
  rtcpVideoSenderReportTimer :: "unit TimerHandler"
  closeSessionTimer :: "unit TimerHandler"
  dtlsHandshakingTimeoutMs :: u64
  inactiveConnectionTimeoutMs :: u64
  media :: 'm
  outer :: 'w

type_synonym ('x, 's, 'm, 'w) pc_ctx = "('x, ('s, 'm, 'w) pc_session) IceControllerContext"

text \<open>The content of a sender report.\<close>

record RtcpSenderReport =
  senderSsrc :: u32
  srRtpTime :: u32
  srNtpTime :: u64
  srPacketCount :: u32
  srOctetCount :: u32

text \<open>A run of the media path: it sends packets through the ICE controller, sees whether each send
  succeeded, and ends with a result.\<close>

datatype 'm media_run =
    MediaReturn PeerConnectionResult 'm
  | MediaSend bytes "bool \<Rightarrow> 'm media_run"

text \<open>What the session description of the peer says (\<open>quickAccess\<close>); NULL pointers are \<open>None\<close>.\<close>

record sdp_quick_access =
  sdpIceUfrag :: "string option"
  sdpIcePwd :: string
  sdpFingerprint :: string
  sdpDtlsRoleActive :: bool
  sdpRemoteCandidates :: "string list"

record 'm pc_media =
  mediaInit :: "DtlsKeyingMaterial \<Rightarrow> 'm \<Rightarrow> PeerConnectionResult \<times> 'm"
  mediaDeInit :: "'m \<Rightarrow> (PeerConnectionResult \<times> 'm) option"
  mediaSrtp :: "bytes \<Rightarrow> 'm \<Rightarrow> 'm media_run"
  mediaSrtcp :: "bytes \<Rightarrow> 'm \<Rightarrow> 'm media_run"
  mediaTransmit :: "'m \<Rightarrow> bool"
  mediaAudioClockRate :: "'m \<Rightarrow> u32"
  mediaVideoClockRate :: "'m \<Rightarrow> u32"
  mediaSenderReport :: "RtcpSenderReport \<Rightarrow> 'm \<Rightarrow> PeerConnectionResult \<times> bytes \<times> 'm"
  mediaPayloadTypes :: "sdp_quick_access \<Rightarrow> 'm \<Rightarrow> PeerConnectionResult \<times> 'm"
  mediaRtpInit :: bool
  mediaRtcpInit :: bool
  mediaRemoteDescription :: "sdp_quick_access \<Rightarrow> 'm \<Rightarrow> 'm"

record ('x, 's, 'm, 'w) pc_env =
  pcIce :: "'x ice_lib"
  pcOs :: "'w net_os"
  pcTimers :: timer_os
  pcMbed :: "'s mbedtls"
  pcSslZero :: 's
  pcStack :: string
  pcCredentials :: DtlsNetworkCredentials
  pcRand :: "'w \<Rightarrow> u32 \<times> 'w"
  pcCandidateReady :: "(nat \<Rightarrow> 'w \<Rightarrow> 'w) option"
  pcTransceiver :: "nat \<Rightarrow> 'w \<Rightarrow> Transceiver"
  pcSetSsrc :: "nat \<Rightarrow> u32 \<Rightarrow> u32 \<Rightarrow> 'w \<Rightarrow> 'w"
  pcEvent :: "nat \<Rightarrow> TransceiverCallbackEvent \<Rightarrow> 'w \<Rightarrow> 'w"
  pcMedia :: "'m pc_media"
  pcDeserializeSdp :: "string \<Rightarrow> PeerConnectionResult \<times> sdp_quick_access"
  pcParseCandidate :: "string \<Rightarrow> (IceControllerResult \<times> IceControllerCandidate option) option"
  pcLocalUserName :: string
  pcBarrierOk :: bool

section \<open>The system\<close>

text \<open>The answers of the system are those of \<open>pcOs\<close>, which sees only what is outside the session, with what
  the kernel guarantees: a new descriptor is the lowest one that is not open, and a receive from the
  descriptor -1 fails.\<close>

definition lowest_free :: "int list \<Rightarrow> int" where
  "lowest_free fds = hd (filter (\<lambda>fd. fd \<notin> set fds) (map int [0..<length fds + 1]))"

definition lift_os :: "('a \<times> 'w) \<Rightarrow> ('s, 'm, 'w) pc_session \<Rightarrow> 'a \<times> ('s, 'm, 'w) pc_session" where
  "lift_os r s = (fst r, s\<lparr>outer := snd r\<rparr>)"

definition session_os :: "'w net_os \<Rightarrow> ('s, 'm, 'w) pc_session net_os" where
  "session_os sys =
     \<lparr>osSocket = (\<lambda>fam fds s. let (fd, s') = lift_os (osSocket sys fam fds (outer s)) s in (if fd = -1 then -1 else lowest_free fds, s')),
      osBind = (\<lambda>fd ep s. lift_os (osBind sys fd ep (outer s)) s),
      osGetsockname = (\<lambda>fd s. lift_os (osGetsockname sys fd (outer s)) s),
      osSendto = (\<lambda>fd buf ep s. lift_os (osSendto sys fd buf ep (outer s)) s),
      osRecvfrom = (\<lambda>fd n s. if fd = -1 then (RecvError, s) else lift_os (osRecvfrom sys fd n (outer s)) s),
      osSelect = (\<lambda>fds s. lift_os (osSelect sys fds (outer s)) s),
      osGetaddrinfo = (\<lambda>name s. lift_os (osGetaddrinfo sys name (outer s)) s),
      osGetifaddrs = (\<lambda>s. lift_os (osGetifaddrs sys (outer s)) s),
      osTimeUs = (\<lambda>s. osTimeUs sys (outer s)),
      inetNtopOk = inetNtopOk sys,
      tlsConnect = (\<lambda>ep path pem fds s. let (st, fd, w) = tlsConnect sys ep path pem fds (outer s) in (st, lowest_free fds, s\<lparr>outer := w\<rparr>)),
      tlsContinueHandshake = (\<lambda>fd s. lift_os (tlsContinueHandshake sys fd (outer s)) s),
      tlsSend = (\<lambda>fd buf s. lift_os (tlsSend sys fd buf (outer s)) s),
      tlsRecv = (\<lambda>fd n s. lift_os (tlsRecv sys fd n (outer s)) s)\<rparr>"

section \<open>Requests\<close>

function EmptyMessageQueue :: "PeerConnectionSessionRequestMessage mq \<Rightarrow> PeerConnectionSessionRequestMessage mq" where
  "EmptyMessageQueue q =
     (if MessageQueue_IsEmpty q = MESSAGE_QUEUE_RESULT_MQ_HAVE_MESSAGE
      then (case MessageQueue_Recv q of None \<Rightarrow> q | Some (_, _, q') \<Rightarrow> EmptyMessageQueue q')
      else q)"
  by pat_completeness auto

termination
  by (relation "measure (\<lambda>q. length (mq_msgs q))")
    (auto simp: MessageQueue_Recv_def split: list.splits)

declare EmptyMessageQueue.simps [simp del]

text \<open>A send to a queue that is full is dropped with an error; the check comes first, so that the send
  itself does not block.\<close>

definition SendPeerConnectionEvent ::
    "PeerConnectionSessionRequestMessage \<Rightarrow> ('x, 's, 'm, 'w) pc_ctx \<Rightarrow> (PeerConnectionResult \<times> ('x, 's, 'm, 'w) pc_ctx) option" where
  "SendPeerConnectionEvent msg c =
     (if MessageQueue_IsFull (requestQueue (world c)) = MESSAGE_QUEUE_RESULT_MQ_IS_FULL then Some (PEER_CONNECTION_RESULT_FAIL_MQ_SEND, c)
      else do {
        (r, q) \<leftarrow> MessageQueue_Send (requestQueue (world c)) (Some msg);
        Some (if r \<noteq> MESSAGE_QUEUE_RESULT_OK then PEER_CONNECTION_RESULT_FAIL_MQ_SEND else PEER_CONNECTION_RESULT_OK,
              c\<lparr>world := (world c)\<lparr>requestQueue := q\<rparr>\<rparr>)
      })"

text \<open>The events of the ICE controller that only queue a request.\<close>

definition queue_event ::
    "PeerConnectionSessionRequestMessage \<Rightarrow> ('x, 's, 'm, 'w) pc_ctx \<Rightarrow> (int \<times> ('x, 's, 'm, 'w) pc_ctx) option" where
  "queue_event msg c = do { (r, c') \<leftarrow> SendPeerConnectionEvent msg c; Some (if r \<noteq> PEER_CONNECTION_RESULT_OK then -11 else 0, c') }"

definition OnIceEventProcessIceCandidatesAndPairs :: "('x, 's, 'm, 'w) pc_ctx \<Rightarrow> (int \<times> ('x, 's, 'm, 'w) pc_ctx) option" where
  "OnIceEventProcessIceCandidatesAndPairs = queue_event PEER_CONNECTION_SESSION_REQUEST_TYPE_PROCESS_ICE_CANDIDATES_AND_PAIRS"

definition OnIceEventPeriodicConnectionCheck :: "('x, 's, 'm, 'w) pc_ctx \<Rightarrow> (int \<times> ('x, 's, 'm, 'w) pc_ctx) option" where
  "OnIceEventPeriodicConnectionCheck = queue_event PEER_CONNECTION_SESSION_REQUEST_TYPE_PERIOD_CONNECTION_CHECK"

definition OnIceEventClosing :: "('x, 's, 'm, 'w) pc_ctx \<Rightarrow> (int \<times> ('x, 's, 'm, 'w) pc_ctx) option" where
  "OnIceEventClosing = queue_event PEER_CONNECTION_SESSION_REQUEST_TYPE_ICE_CLOSING"

definition OnIceEventClosed :: "('x, 's, 'm, 'w) pc_ctx \<Rightarrow> (int \<times> ('x, 's, 'm, 'w) pc_ctx) option" where
  "OnIceEventClosed = queue_event PEER_CONNECTION_SESSION_REQUEST_TYPE_ICE_CLOSED"

definition OnIceEventPeerConnectionClose :: "('x, 's, 'm, 'w) pc_ctx \<Rightarrow> (int \<times> ('x, 's, 'm, 'w) pc_ctx) option" where
  "OnIceEventPeerConnectionClose = queue_event PEER_CONNECTION_SESSION_REQUEST_TYPE_PEER_CONNECTION_CLOSE"

definition LocalCandidateReady ::
    "('x, 's, 'm, 'w) pc_env \<Rightarrow> nat option \<Rightarrow> ('x, 's, 'm, 'w) pc_ctx \<Rightarrow> ('x, 's, 'm, 'w) pc_ctx" where
  "LocalCandidateReady pe arg c =
     (case (arg, pcCandidateReady pe) of
        (Some l, Some f) \<Rightarrow> c\<lparr>world := (world c)\<lparr>outer := f l (outer (world c))\<rparr>\<rparr>
      | _ \<Rightarrow> c)"

text \<open>\<open>HandleIceEventCallback\<close> on every event but the connection found.  The handshake, which that event
  starts, sends packets and may close the session, and so calls the callback again, but never
  with that event: the handshake runs the controller with this callback.\<close>

definition queued_event ::
    "('x, 's, 'm, 'w) pc_env \<Rightarrow> IceControllerCallbackEvent \<Rightarrow> nat option \<Rightarrow> ('x, 's, 'm, 'w) pc_ctx
      \<Rightarrow> (int \<times> ('x, 's, 'm, 'w) pc_ctx) option" where
  "queued_event pe event arg c =
     (case event of
        ICE_CONTROLLER_CB_EVENT_LOCAL_CANDIDATE_READY \<Rightarrow> Some (0, LocalCandidateReady pe arg c)
      | ICE_CONTROLLER_CB_EVENT_PROCESS_ICE_CANDIDATES_AND_PAIRS \<Rightarrow> OnIceEventProcessIceCandidatesAndPairs c
      | ICE_CONTROLLER_CB_EVENT_PERIODIC_CONNECTION_CHECK \<Rightarrow> OnIceEventPeriodicConnectionCheck c
      | ICE_CONTROLLER_CB_EVENT_ICE_CLOSING \<Rightarrow> OnIceEventClosing c
      | ICE_CONTROLLER_CB_EVENT_ICE_CLOSED \<Rightarrow> OnIceEventClosed c
      | ICE_CONTROLLER_CB_EVENT_ICE_CLOSE_NOTIFY \<Rightarrow> OnIceEventPeerConnectionClose c
      | _ \<Rightarrow> Some (-2, c))"

definition inner_env :: "('x, 's, 'm, 'w) pc_env \<Rightarrow> ('x, ('s, 'm, 'w) pc_session) ice_env" where
  "inner_env pe =
     \<lparr>socketMutexOk = True, iceMutexOk = True, timerOs = pcTimers pe, lib = pcIce pe, os = session_os (pcOs pe),
      onIceEventCallbackFunc = Some (queued_event pe), onRecvNonStunPacketFunc = None\<rparr>"

section \<open>Closing\<close>

text \<open>Calling the transceivers; reading the array behind its entries or through NULL has no outcome.\<close>

fun notify_transceivers ::
    "('x, 's, 'm, 'w) pc_env \<Rightarrow> TransceiverCallbackEvent \<Rightarrow> nat list \<Rightarrow> ('x, 's, 'm, 'w) pc_ctx \<Rightarrow> ('x, 's, 'm, 'w) pc_ctx option" where
  "notify_transceivers pe ev [] c = Some c"
| "notify_transceivers pe ev (i # js) c =
     do {
       p \<leftarrow> mem_read (pTransceivers (world c)) i;
       a \<leftarrow> p;
       notify_transceivers pe ev js (c\<lparr>world := (world c)\<lparr>outer := pcEvent pe a ev (outer (world c))\<rparr>\<rparr>)
     }"

definition DestroyIceController ::
    "('x, 's, 'm, 'w) pc_env \<Rightarrow> ('x, 's, 'm, 'w) pc_ctx \<Rightarrow> (PeerConnectionResult \<times> ('x, 's, 'm, 'w) pc_ctx) option" where
  "DestroyIceController pe c =
     do {
       (r, c1) \<leftarrow> IceController_Destroy (inner_env pe) c;
       Some (if r \<noteq> ICE_CONTROLLER_RESULT_OK then PEER_CONNECTION_RESULT_FAIL_ICE_CONTROLLER_DESTROY else PEER_CONNECTION_RESULT_OK, c1)
     }"

definition reset_timer :: "timer_os \<Rightarrow> unit TimerHandler \<Rightarrow> bool \<times> unit TimerHandler" where
  "reset_timer tos h =
     (let r = TimerController_IsTimerSet tos (Some h)
      in if r = Some TIMER_CONTROLLER_RESULT_SET then (True, the (TimerController_Reset tos (Some h)))
         else (r = Some TIMER_CONTROLLER_RESULT_NOT_SET, h))"

definition PeerConnection_ResetTimer ::
    "timer_os \<Rightarrow> ('x, 's, 'm, 'w) pc_ctx \<Rightarrow> PeerConnectionResult \<times> ('x, 's, 'm, 'w) pc_ctx" where
  "PeerConnection_ResetTimer tos c =
     (let (ok1, h1) = reset_timer tos (rtcpAudioSenderReportTimer (world c)); c1 = c\<lparr>world := (world c)\<lparr>rtcpAudioSenderReportTimer := h1\<rparr>\<rparr>
      in if \<not> ok1 then (PEER_CONNECTION_RESULT_FAIL_TIMER_RESET, c1)
         else
           (let (ok2, h2) = reset_timer tos (rtcpVideoSenderReportTimer (world c1)); c2 = c1\<lparr>world := (world c1)\<lparr>rtcpVideoSenderReportTimer := h2\<rparr>\<rparr>
            in if \<not> ok2 then (PEER_CONNECTION_RESULT_FAIL_TIMER_RESET, c2)
               else
                 (let (ok3, h3) = reset_timer tos (closeSessionTimer (world c2)); c3 = c2\<lparr>world := (world c2)\<lparr>closeSessionTimer := h3\<rparr>\<rparr>
                  in (if ok3 then PEER_CONNECTION_RESULT_OK else PEER_CONNECTION_RESULT_FAIL_TIMER_RESET, c3))))"

definition set_session_state :: "PeerConnectionSessionState \<Rightarrow> ('x, 's, 'm, 'w) pc_ctx \<Rightarrow> ('x, 's, 'm, 'w) pc_ctx" where
  "set_session_state st c = c\<lparr>world := (world c)\<lparr>sessionState := st\<rparr>\<rparr>"

definition PeerConnection_CloseSession ::
    "('x, 's, 'm, 'w) pc_env \<Rightarrow> ('x, 's, 'm, 'w) pc_ctx \<Rightarrow> (PeerConnectionResult \<times> ('x, 's, 'm, 'w) pc_ctx) option" where
  "PeerConnection_CloseSession pe c =
     do {
       let ready = (sessionState (world c) = PEER_CONNECTION_SESSION_STATE_CONNECTION_READY);
       let c1 = set_session_state PEER_CONNECTION_SESSION_STATE_CLOSING c;
       c2 \<leftarrow> (if ready then notify_transceivers pe TRANSCEIVER_CB_EVENT_REMOTE_PEER_CLOSED [0..<transceiverCount (world c1)] c1 else Some c1);
       (r, c3) \<leftarrow> DestroyIceController pe c2;
       if r \<noteq> PEER_CONNECTION_RESULT_OK then Some (r, c3)
       else do {
         (r2, m) \<leftarrow> mediaDeInit (pcMedia pe) (media (world c3));
         let c4 = c3\<lparr>world := (world c3)\<lparr>media := m\<rparr>\<rparr>;
         if r2 \<noteq> PEER_CONNECTION_RESULT_OK then Some (r2, c4)
         else Some (PeerConnection_ResetTimer (pcTimers pe) (upd_metrics (\<lambda>k. k\<lparr>isFirstConnectivityRequest := True\<rparr>) c4))
       }
     }"

definition OnClosePeerConnection :: "('x, 's, 'm, 'w) pc_ctx \<Rightarrow> ('x, 's, 'm, 'w) pc_ctx" where
  "OnClosePeerConnection c =
     c\<lparr>world := (world c)\<lparr>transceiverCount := 0, mLinesTransceiverCount := 0,
        pTransceivers := replicate PEER_CONNECTION_TRANSCEIVER_MAX_COUNT None, sessionState := PEER_CONNECTION_SESSION_STATE_INITED\<rparr>\<rparr>"

section \<open>DTLS\<close>

text \<open>A call of the DTLS transport, which gets its part of the session and gives it back.\<close>

definition put_dtls :: "'s DtlsNetworkContext \<Rightarrow> ('x, 's, 'm, 'w) pc_ctx \<Rightarrow> ('x, 's, 'm, 'w) pc_ctx" where
  "put_dtls n c = c\<lparr>world := (world c)\<lparr>xDtlsNetworkContext := n\<rparr>\<rparr>"

definition OnDtlsSendHook :: "('x, 's, 'm, 'w) pc_env \<Rightarrow> bytes \<Rightarrow> ('x, 's, 'm, 'w) pc_ctx \<Rightarrow> (int \<times> ('x, 's, 'm, 'w) pc_ctx) option" where
  "OnDtlsSendHook pe buf c =
     do {
       (r, c1) \<leftarrow> IceController_SendToRemotePeer (inner_env pe) (Some buf) c;
       Some (if r \<noteq> ICE_CONTROLLER_RESULT_OK then -1 else int (length buf), c1)
     }"

definition pc_now_ms :: "('x, 's, 'm, 'w) pc_env \<Rightarrow> ('x, 's, 'm, 'w) pc_ctx \<Rightarrow> u64" where
  "pc_now_ms pe c = osTimeUs (pcOs pe) (outer (world c)) div 1000"

text \<open>The result of \<open>DTLS_Init\<close> is only compared with success.\<close>

definition InitDtlsSession :: "('x, 's, 'm, 'w) pc_env \<Rightarrow> bool \<Rightarrow> ('x, 's, 'm, 'w) pc_ctx \<Rightarrow> int \<times> ('x, 's, 'm, 'w) pc_ctx" where
  "InitDtlsSession pe isServer c =
     (let zero = \<lparr>sslContext = pcSslZero pe, tlsKeys = \<lparr>masterSecret = replicate 48 0, randBytes = replicate 64 0, tlsProfile = 0\<rparr>,
            hookSet = True, pReceivedPacket = None, receivedPacketLength = 0, receivedPacketOffset = 0\<rparr>;
          n = (xDtlsNetworkContext (world c))\<lparr>pParams := Some zero\<rparr>;
          c1 = c\<lparr>world := (world c)\<lparr>xDtlsNetworkContext := n, dtlsIsServer := isServer\<rparr>\<rparr>
      in if pClientCert (pcCredentials pe) = None then (-23, c1)
         else
           (let (st, n') = DTLS_Init (pcMbed pe) (Some n) (Some (pcCredentials pe)) isServer; c2 = put_dtls (the n') c1
            in if st \<noteq> DTLS_SUCCESS then (-24, c2)
               else (0, c2\<lparr>world := (world c2)\<lparr>dtlsHandshakingTimeoutMs := pc_now_ms pe c2 + PEER_CONNECTION_DTLS_HANDSHAKING_TIMEOUT_MS\<rparr>\<rparr>)))"

text \<open>Setting the timer of the sender reports, unless it is set; the times vary at random.\<close>

definition arm_report_timer ::
    "('x, 's, 'm, 'w) pc_env \<Rightarrow> unit TimerHandler \<Rightarrow> 'w \<Rightarrow> unit TimerHandler \<times> 'w" where
  "arm_report_timer pe h w =
     (if TimerController_IsTimerSet (pcTimers pe) (Some h) = Some TIMER_CONTROLLER_RESULT_NOT_SET
      then
        (let (r1, w1) = pcRand pe w; (r2, w2) = pcRand pe w1;
             (_, h') = TimerController_SetTimer (pcTimers pe) (Some h) (PEER_CONNECTION_RTCP_REPORT_TIMER_INTERVAL_MS + r1 mod 200)
               (PEER_CONNECTION_RTCP_REPORT_TIMER_INTERVAL_MS + r2 mod 200)
         in (the h', w2))
      else (h, w))"

text \<open>The loop goes over the whole array, whatever the number of transceivers: a NULL entry has no outcome.\<close>

fun set_timers :: "('x, 's, 'm, 'w) pc_env \<Rightarrow> nat list \<Rightarrow> ('s, 'm, 'w) pc_session \<Rightarrow> ('s, 'm, 'w) pc_session option" where
  "set_timers pe [] s = Some s"
| "set_timers pe (i # js) s =
     do {
       p \<leftarrow> mem_read (pTransceivers s) i;
       a \<leftarrow> p;
       let kind = trackKind (pcTransceiver pe a (outer s));
       set_timers pe js
         (if kind = TRANSCEIVER_TRACK_KIND_AUDIO
          then (let (h, w) = arm_report_timer pe (rtcpAudioSenderReportTimer s) (outer s) in s\<lparr>rtcpAudioSenderReportTimer := h, outer := w\<rparr>)
          else if kind = TRANSCEIVER_TRACK_KIND_VIDEO
          then (let (h, w) = arm_report_timer pe (rtcpVideoSenderReportTimer s) (outer s) in s\<lparr>rtcpVideoSenderReportTimer := h, outer := w\<rparr>)
          else s)
     }"

definition PeerConnection_SetTimer :: "('x, 's, 'm, 'w) pc_env \<Rightarrow> ('x, 's, 'm, 'w) pc_ctx \<Rightarrow> ('x, 's, 'm, 'w) pc_ctx option" where
  "PeerConnection_SetTimer pe c = map_option (\<lambda>s. c\<lparr>world := s\<rparr>) (set_timers pe [0..<PEER_CONNECTION_TRANSCEIVER_MAX_COUNT] (world c))"

text \<open>The checks after the handshake: the certificate, the keys, the SRTP sessions; the number is the error.\<close>

definition dtls_checks :: "('x, 's, 'm, 'w) pc_env \<Rightarrow> ('x, 's, 'm, 'w) pc_ctx \<Rightarrow> (int \<times> ('x, 's, 'm, 'w) pc_ctx) option" where
  "dtls_checks pe c =
     do {
       p \<leftarrow> pParams (xDtlsNetworkContext (world c));
       if DTLS_VerifyRemoteCertificateFingerprint (pcMbed pe) (pcStack pe) (Some p) (Some (remoteCertFingerprint (world c)))
            (remoteCertFingerprintLength (world c)) \<noteq> Inl DTLS_SUCCESS
       then Some (-0x1001, c)
       else
         (let (r, mat) = DTLS_PopulateKeyingMaterial (pcMbed pe) (Some p) (Some (dtlsKeyingMaterial (world c)));
              c1 = c\<lparr>world := (world c)\<lparr>dtlsKeyingMaterial := the mat\<rparr>\<rparr>
          in if r \<noteq> Inl DTLS_SUCCESS then Some (-0x1002, c1)
             else
               (let (r2, m) = mediaInit (pcMedia pe) (dtlsKeyingMaterial (world c1)) (media (world c1)); c2 = c1\<lparr>world := (world c1)\<lparr>media := m\<rparr>\<rparr>
                in if r2 \<noteq> PEER_CONNECTION_RESULT_OK then Some (-0x1003, c2) else Some (0, c2)))
     }"

definition OnDtlsHandshakeComplete ::
    "('x, 's, 'm, 'w) pc_env \<Rightarrow> ('x, 's, 'm, 'w) pc_ctx \<Rightarrow> (int \<times> ('x, 's, 'm, 'w) pc_ctx) option" where
  "OnDtlsHandshakeComplete pe c =
     do {
       (ret, c1) \<leftarrow> dtls_checks pe c;
       if ret \<noteq> 0 then do { (_, c2) \<leftarrow> PeerConnection_CloseSession pe c1; Some (ret, c2) }
       else do {
         c2 \<leftarrow> PeerConnection_SetTimer pe c1;
         let c3 = set_session_state PEER_CONNECTION_SESSION_STATE_CONNECTION_READY c2;
         let c4 = c3\<lparr>world := (world c3)\<lparr>inactiveConnectionTimeoutMs := pc_now_ms pe c3 + PEER_CONNECTION_INACTIVE_CONNECTION_TIMEOUT_MS\<rparr>\<rparr>;
         c5 \<leftarrow> notify_transceivers pe TRANSCEIVER_CB_EVENT_REMOTE_PEER_READY [0..<transceiverCount (world c4)] c4;
         Some (0, IceController_HandleEvent (inner_env pe) ICE_CONTROLLER_EVENT_DTLS_HANDSHAKE_DONE c5)
       }
     }"

text \<open>The timeout of the handshake is checked after every call, also when the handshake is complete.\<close>

definition ExecuteDtlsHandshake ::
    "('x, 's, 'm, 'w) pc_env \<Rightarrow> ('x, 's, 'm, 'w) pc_ctx \<Rightarrow> (int \<times> ('x, 's, 'm, 'w) pc_ctx) option" where
  "ExecuteDtlsHandshake pe c =
     do {
       (st, n, c1) \<leftarrow> DTLS_ExecuteHandshake (pcMbed pe) (OnDtlsSendHook pe) (xDtlsNetworkContext (world c)) c;
       let c2 = put_dtls n c1;
       (ret, c3) \<leftarrow> (if st = DTLS_HANDSHAKE_COMPLETE then OnDtlsHandshakeComplete pe c2
                     else if st \<noteq> DTLS_SUCCESS \<and> st \<noteq> DTLS_HANDSHAKE_ALREADY_COMPLETE then Some (-31, c2)
                     else Some (0, c2));
       if ret = 0 \<and> pc_now_ms pe c3 > dtlsHandshakingTimeoutMs (world c3)
       then do { (_, c4) \<leftarrow> PeerConnection_CloseSession pe c3; Some (ret, c4) }
       else Some (ret, c3)
     }"

definition HandleDtlsTermination ::
    "('x, 's, 'm, 'w) pc_env \<Rightarrow> ('x, 's, 'm, 'w) pc_ctx \<Rightarrow> (int \<times> ('x, 's, 'm, 'w) pc_ctx) option" where
  "HandleDtlsTermination pe c =
     do {
       (n, c1) \<leftarrow> DTLS_Disconnect (pcMbed pe) (OnDtlsSendHook pe) (xDtlsNetworkContext (world c)) c;
       (_, c2) \<leftarrow> PeerConnection_CloseSession pe (put_dtls n c1);
       Some (0, c2)
     }"

definition ProcessDtlsPacket ::
    "('x, 's, 'm, 'w) pc_env \<Rightarrow> bytes \<Rightarrow> ('x, 's, 'm, 'w) pc_ctx \<Rightarrow> (int \<times> ('x, 's, 'm, 'w) pc_ctx) option" where
  "ProcessDtlsPacket pe buf c =
     do {
       (st, _, n, c1) \<leftarrow> DTLS_ProcessPacket (pcMbed pe) (OnDtlsSendHook pe) buf PEER_CONNECTION_MAX_DTLS_DECRYPTED_DATA_LENGTH
          (xDtlsNetworkContext (world c)) c;
       let c2 = put_dtls n c1;
       if st = DTLS_HANDSHAKE_COMPLETE then OnDtlsHandshakeComplete pe c2
       else if st = DTLS_SUCCESS then Some (0, c2)
       else HandleDtlsTermination pe c2
     }"

section \<open>Packets from the peer\<close>

primrec media_exec ::
    "('x, 's, 'm, 'w) pc_env \<Rightarrow> 'm media_run \<Rightarrow> ('x, 's, 'm, 'w) pc_ctx \<Rightarrow> (PeerConnectionResult \<times> ('x, 's, 'm, 'w) pc_ctx) option" where
  "media_exec pe (MediaReturn r m) c = Some (r, c\<lparr>world := (world c)\<lparr>media := m\<rparr>\<rparr>)"
| "media_exec pe (MediaSend buf k) c =
     do { (r, c1) \<leftarrow> IceController_SendToRemotePeer (inner_env pe) (Some buf) c; media_exec pe (k (r = ICE_CONTROLLER_RESULT_OK)) c1 }"

definition handle_media ::
    "('x, 's, 'm, 'w) pc_env \<Rightarrow> 'm media_run \<Rightarrow> ('x, 's, 'm, 'w) pc_ctx \<Rightarrow> (int \<times> ('x, 's, 'm, 'w) pc_ctx) option" where
  "handle_media pe run c =
     do {
       (r, c1) \<leftarrow> media_exec pe run c;
       if r \<noteq> PEER_CONNECTION_RESULT_OK then Some (-2, c1)
       else Some (0, c1\<lparr>world := (world c1)\<lparr>inactiveConnectionTimeoutMs := pc_now_ms pe c1 + PEER_CONNECTION_INACTIVE_CONNECTION_TIMEOUT_MS\<rparr>\<rparr>)
     }"

definition HandleNonStunPackets ::
    "('x, 's, 'm, 'w) pc_env \<Rightarrow> bytes option \<Rightarrow> ('x, 's, 'm, 'w) pc_ctx \<Rightarrow> (int \<times> ('x, 's, 'm, 'w) pc_ctx) option" where
  "HandleNonStunPackets pe pBuffer c =
     (case pBuffer of
        None \<Rightarrow> Some (-1, c)
      | Some buf \<Rightarrow>
          if length buf < 2 then Some (-2, c)
          else if buf ! 0 > 127 \<and> buf ! 0 < 192
          then if buf ! 1 \<ge> 192 \<and> buf ! 1 \<le> 223 then handle_media pe (mediaSrtcp (pcMedia pe) buf (media (world c))) c
               else handle_media pe (mediaSrtp (pcMedia pe) buf (media (world c))) c
          else if buf ! 0 > 19 \<and> buf ! 0 < 64 then ProcessDtlsPacket pe buf c
          else Some (0, c))"

section \<open>The callbacks of the controller\<close>

definition HandleIceEventCallback ::
    "('x, 's, 'm, 'w) pc_env \<Rightarrow> IceControllerCallbackEvent \<Rightarrow> nat option \<Rightarrow> ('x, 's, 'm, 'w) pc_ctx
      \<Rightarrow> (int \<times> ('x, 's, 'm, 'w) pc_ctx) option" where
  "HandleIceEventCallback pe event arg c =
     (if event = ICE_CONTROLLER_CB_EVENT_PEER_TO_PEER_CONNECTION_FOUND
      then do { (r, c1) \<leftarrow> ExecuteDtlsHandshake pe c; Some (r, set_session_state PEER_CONNECTION_SESSION_STATE_P2P_CONNECTION_FOUND c1) }
      else queued_event pe event arg c)"

definition session_env :: "('x, 's, 'm, 'w) pc_env \<Rightarrow> ('x, ('s, 'm, 'w) pc_session) ice_env" where
  "session_env pe =
     (inner_env pe)\<lparr>onIceEventCallbackFunc := Some (HandleIceEventCallback pe),
        onRecvNonStunPacketFunc := Some (\<lambda>buf c. map_option snd (HandleNonStunPackets pe (Some buf) c))\<rparr>"

section \<open>The session thread\<close>

definition HandleAddRemoteCandidateRequest ::
    "('x, 's, 'm, 'w) pc_env \<Rightarrow> IceControllerCandidate \<Rightarrow> ('x, 's, 'm, 'w) pc_ctx \<Rightarrow> PeerConnectionResult \<times> ('x, 's, 'm, 'w) pc_ctx" where
  "HandleAddRemoteCandidateRequest pe cand c =
     (if sessionState (world c) = PEER_CONNECTION_SESSION_STATE_FIND_CONNECTION
      then
        (let (r, c1) = IceController_AddRemoteCandidate (session_env pe) cand c
         in (if r \<noteq> ICE_CONTROLLER_RESULT_OK then PEER_CONNECTION_RESULT_FAIL_ICE_CONTROLLER_ADD_REMOTE_CANDIDATE
             else PEER_CONNECTION_RESULT_OK, c1))
      else (PEER_CONNECTION_RESULT_OK, c))"

definition HandleProcessIceCandidatesAndPairs ::
    "('x, 's, 'm, 'w) pc_env \<Rightarrow> ('x, 's, 'm, 'w) pc_ctx \<Rightarrow> (PeerConnectionResult \<times> ('x, 's, 'm, 'w) pc_ctx) option" where
  "HandleProcessIceCandidatesAndPairs pe c =
     do {
       (r, c1) \<leftarrow> IceController_ProcessIceCandidatesAndPairs (session_env pe) c;
       Some (if r \<noteq> ICE_CONTROLLER_RESULT_OK then PEER_CONNECTION_RESULT_FAIL_ICE_CONTROLLER_PROCESS_CANDIDATES_AND_PAIRS
             else PEER_CONNECTION_RESULT_OK, c1)
     }"

definition HandlePeriodConnectionCheck ::
    "('x, 's, 'm, 'w) pc_env \<Rightarrow> ('x, 's, 'm, 'w) pc_ctx \<Rightarrow> (PeerConnectionResult \<times> ('x, 's, 'm, 'w) pc_ctx) option" where
  "HandlePeriodConnectionCheck pe c =
     do {
       (r, c1) \<leftarrow> IceController_PeriodConnectionCheck (session_env pe) c;
       Some (if r \<noteq> ICE_CONTROLLER_RESULT_OK then PEER_CONNECTION_RESULT_FAIL_ICE_CONTROLLER_PERIOD_CONNECTION_CHECK
             else PEER_CONNECTION_RESULT_OK, c1)
     }"

definition HandleIceClosing ::
    "('x, 's, 'm, 'w) pc_env \<Rightarrow> ('x, 's, 'm, 'w) pc_ctx \<Rightarrow> (PeerConnectionResult \<times> ('x, 's, 'm, 'w) pc_ctx) option" where
  "HandleIceClosing pe c =
     do {
       (r, c1) \<leftarrow> IceController_AddressClosing (session_env pe) c;
       Some (if r \<noteq> ICE_CONTROLLER_RESULT_OK then PEER_CONNECTION_RESULT_FAIL_ICE_CONTROLLER_ADDRESS_CLOSING
             else PEER_CONNECTION_RESULT_OK, c1)
     }"

text \<open>\<open>networking_utils.c\<close>: seconds since 1900 in the upper half, the fraction of a second in the lower.\<close>

definition NetworkingUtils_GetNTPTimeFromUnixTimeUs :: "u64 \<Rightarrow> u64" where
  "NetworkingUtils_GetNTPTimeFromUnixTimeUs timeUs =
     push_bit 32 (timeUs div 1000000 + 2208988800) OR (timeUs mod 1000000 * 4294967296) div 1000000"

definition PeerConnection_OnRtcpSenderReportCallback ::
    "('x, 's, 'm, 'w) pc_env \<Rightarrow> u64 \<Rightarrow> nat \<Rightarrow> ('x, 's, 'm, 'w) pc_ctx \<Rightarrow> (PeerConnectionResult \<times> ('x, 's, 'm, 'w) pc_ctx) option" where
  "PeerConnection_OnRtcpSenderReportCallback pe currentTimeUs a c =
     (let t = pcTransceiver pe a (outer (world c)); md = pcMedia pe; m = media (world c);
          elapsed = currentTimeUs - rtpFirstFrameWallClockTimeUs t
      in if \<not> mediaTransmit md m \<or> elapsed < 2500000 then Some (PEER_CONNECTION_RESULT_OK, c)
         else
           (let rate = (if trackKind t = TRANSCEIVER_TRACK_KIND_AUDIO then mediaAudioClockRate md m else mediaVideoClockRate md m);
                report = \<lparr>senderSsrc = ssrc t,
                  srRtpTime = ucast (rtpTimeOffset t + ucast (PEER_CONNECTION_SRTP_CONVERT_TIME_US_TO_RTP_TIMESTAMP rate elapsed)),
                  srNtpTime = NetworkingUtils_GetNTPTimeFromUnixTimeUs currentTimeUs,
                  srPacketCount = ucast (rtpPacketsTransmitted t), srOctetCount = ucast (rtpBytesTransmitted t)\<rparr>;
                (r, pkt, m1) = mediaSenderReport md report m; c1 = c\<lparr>world := (world c)\<lparr>media := m1\<rparr>\<rparr>
            in if r \<noteq> PEER_CONNECTION_RESULT_OK then Some (PEER_CONNECTION_RESULT_FAIL_RTCP_SERIALIZE_SENDER_REPORT, c1)
               else do {
                 (r2, c2) \<leftarrow> IceController_SendToRemotePeer (session_env pe) (Some pkt) c1;
                 Some (if r2 \<noteq> ICE_CONTROLLER_RESULT_OK then PEER_CONNECTION_RESULT_FAIL_ICE_CONTROLLER_SEND_RTCP_PACKET
                       else PEER_CONNECTION_RESULT_OK, c2)
               }))"

text \<open>One request; without a request the thread waits in the receive (\<open>None\<close>).\<close>

definition handle_message ::
    "('x, 's, 'm, 'w) pc_env \<Rightarrow> PeerConnectionSessionRequestMessage \<Rightarrow> ('x, 's, 'm, 'w) pc_ctx
      \<Rightarrow> (PeerConnectionResult \<times> ('x, 's, 'm, 'w) pc_ctx) option" where
  "handle_message pe msg c =
     (case msg of
        PEER_CONNECTION_SESSION_REQUEST_TYPE_ADD_REMOTE_CANDIDATE cand \<Rightarrow>
          Some (PEER_CONNECTION_RESULT_OK, snd (HandleAddRemoteCandidateRequest pe cand c))
      | PEER_CONNECTION_SESSION_REQUEST_TYPE_PROCESS_ICE_CANDIDATES_AND_PAIRS \<Rightarrow> do {
          (_, c1) \<leftarrow> HandleProcessIceCandidatesAndPairs pe c;
          Some (PEER_CONNECTION_RESULT_OK, c1)
        }
      | PEER_CONNECTION_SESSION_REQUEST_TYPE_PERIOD_CONNECTION_CHECK \<Rightarrow> do {
          (_, c1) \<leftarrow> HandlePeriodConnectionCheck pe c;
          if sessionState (world c1) = PEER_CONNECTION_SESSION_STATE_P2P_CONNECTION_FOUND
          then do { (_, c2) \<leftarrow> ExecuteDtlsHandshake pe c1; Some (PEER_CONNECTION_RESULT_OK, c2) }
          else Some (PEER_CONNECTION_RESULT_OK, c1)
        }
      | PEER_CONNECTION_SESSION_REQUEST_TYPE_ICE_CLOSING \<Rightarrow> do {
          (_, c1) \<leftarrow> HandleIceClosing pe c;
          Some (PEER_CONNECTION_RESULT_OK, c1)
        }
      | PEER_CONNECTION_SESSION_REQUEST_TYPE_ICE_CLOSED \<Rightarrow> Some (PEER_CONNECTION_RESULT_CLOSING, OnClosePeerConnection c)
      | PEER_CONNECTION_SESSION_REQUEST_TYPE_RTCP_SENDER_REPORT us a \<Rightarrow> do {
          (_, c1) \<leftarrow> PeerConnection_OnRtcpSenderReportCallback pe us a c;
          Some (PEER_CONNECTION_RESULT_OK, c1)
        }
      | PEER_CONNECTION_SESSION_REQUEST_TYPE_PEER_CONNECTION_CLOSE \<Rightarrow> do {
          (_, c1) \<leftarrow> PeerConnection_CloseSession pe c;
          Some (PEER_CONNECTION_RESULT_OK, c1)
        }
      | PEER_CONNECTION_SESSION_REQUEST_TYPE_PEER_CONNECTION_CLOSE_NO_ICE_FLOW \<Rightarrow> do {
          (_, c1) \<leftarrow> PeerConnection_CloseSession pe c;
          Some (PEER_CONNECTION_RESULT_OK, OnClosePeerConnection c1)
        }
      | PEER_CONNECTION_SESSION_REQUEST_TYPE_NONE \<Rightarrow> Some (PEER_CONNECTION_RESULT_OK, c))"

definition HandleRequest ::
    "('x, 's, 'm, 'w) pc_env \<Rightarrow> ('x, 's, 'm, 'w) pc_ctx \<Rightarrow> (PeerConnectionResult \<times> ('x, 's, 'm, 'w) pc_ctx) option" where
  "HandleRequest pe c =
     do {
       (_, msg, q) \<leftarrow> MessageQueue_Recv (requestQueue (world c));
       handle_message pe msg (c\<lparr>world := (world c)\<lparr>requestQueue := q\<rparr>\<rparr>)
     }"

text \<open>One iteration of the loop of the session thread; the first component says whether it goes on.\<close>

definition session_iteration ::
    "('x, 's, 'm, 'w) pc_env \<Rightarrow> ('x, 's, 'm, 'w) pc_ctx \<Rightarrow> (bool \<times> ('x, 's, 'm, 'w) pc_ctx) option" where
  "session_iteration pe c =
     do {
       (r, c1) \<leftarrow> HandleRequest pe c;
       if r \<noteq> PEER_CONNECTION_RESULT_OK then Some (False, c1)
       else if sessionState (world c1) = PEER_CONNECTION_SESSION_STATE_CONNECTION_READY \<and> pc_now_ms pe c1 > inactiveConnectionTimeoutMs (world c1)
       then do { (_, c2) \<leftarrow> PeerConnection_CloseSession pe c1; Some (True, c2) }
       else Some (True, c1)
     }"

partial_function (option) SessionProcessEndlessLoop ::
    "('x, 's, 'm, 'w) pc_env \<Rightarrow> ('x, 's, 'm, 'w) pc_ctx \<Rightarrow> ('x, 's, 'm, 'w) pc_ctx option" where
  "SessionProcessEndlessLoop pe c =
     do { (again, c1) \<leftarrow> session_iteration pe c; if again then SessionProcessEndlessLoop pe c1 else Some c1 }"

section \<open>Timers\<close>

fun report_transceiver ::
    "('x, 's, 'm, 'w) pc_env \<Rightarrow> TransceiverTrackKind \<Rightarrow> nat list \<Rightarrow> ('x, 's, 'm, 'w) pc_ctx \<Rightarrow> ('x, 's, 'm, 'w) pc_ctx option" where
  "report_transceiver pe kind [] c = Some c"
| "report_transceiver pe kind (i # js) c =
     do {
       p \<leftarrow> mem_read (pTransceivers (world c)) i;
       a \<leftarrow> p;
       if trackKind (pcTransceiver pe a (outer (world c))) = kind
       then map_option snd (SendPeerConnectionEvent
              (PEER_CONNECTION_SESSION_REQUEST_TYPE_RTCP_SENDER_REPORT (osTimeUs (pcOs pe) (outer (world c))) a) c)
       else report_transceiver pe kind js c
     }"

definition OnRtcpSenderReportAudioTimerExpire :: "('x, 's, 'm, 'w) pc_env \<Rightarrow> ('x, 's, 'm, 'w) pc_ctx \<Rightarrow> ('x, 's, 'm, 'w) pc_ctx option" where
  "OnRtcpSenderReportAudioTimerExpire pe c = report_transceiver pe TRANSCEIVER_TRACK_KIND_AUDIO [0..<transceiverCount (world c)] c"

definition OnRtcpSenderReportVideoTimerExpire :: "('x, 's, 'm, 'w) pc_env \<Rightarrow> ('x, 's, 'm, 'w) pc_ctx \<Rightarrow> ('x, 's, 'm, 'w) pc_ctx option" where
  "OnRtcpSenderReportVideoTimerExpire pe c = report_transceiver pe TRANSCEIVER_TRACK_KIND_VIDEO [0..<transceiverCount (world c)] c"

text \<open>The start-up barrier counts the signals that were not taken.\<close>

definition signal_barrier :: "('x, 's, 'm, 'w) pc_env \<Rightarrow> ('x, 's, 'm, 'w) pc_ctx \<Rightarrow> ('x, 's, 'm, 'w) pc_ctx" where
  "signal_barrier pe c = (if pcBarrierOk pe then c\<lparr>world := (world c)\<lparr>startupBarrier := startupBarrier (world c) + 1\<rparr>\<rparr> else c)"

definition OnCloseSessionTimerExpire :: "('x, 's, 'm, 'w) pc_env \<Rightarrow> ('x, 's, 'm, 'w) pc_ctx \<Rightarrow> ('x, 's, 'm, 'w) pc_ctx option" where
  "OnCloseSessionTimerExpire pe c =
     (if sessionState (world c) = PEER_CONNECTION_SESSION_STATE_START
      then do {
        let c1 = c\<lparr>world := (world c)\<lparr>requestQueue := EmptyMessageQueue (requestQueue (world c))\<rparr>\<rparr>;
        (_, c2) \<leftarrow> SendPeerConnectionEvent PEER_CONNECTION_SESSION_REQUEST_TYPE_PEER_CONNECTION_CLOSE_NO_ICE_FLOW c1;
        Some (signal_barrier pe c2)
      }
      else Some c)"

end
