(* ===== verification/Pc_Api.thy ===== *)
theory Pc_Api
  imports Pc_Session Srtp_Session
begin

text \<open>
  The calls by which the application drives a session (\<open>peer_connection/peer_connection.c\<close>): set-up,
  transceivers, the peer's session description and candidates.
\<close>

section \<open>Set-up\<close>

text \<open>The configuration: the bits of the NAT traversal, the ICE servers and the certificates; the two flags say
  whether the mutexes of the controller can be created.\<close>

record PeerConnectionSessionConfiguration =
  cfgNatTraversal :: u32
  cfgIceServers :: "IceControllerIceServer list"
  cfgRootCaPath :: string
  cfgRootCaPem :: string

definition PeerConnection_AddIceServerConfig ::
    "PeerConnectionSessionConfiguration option \<Rightarrow> ('x, 's, 'm, 'w) pc_ctx \<Rightarrow> PeerConnectionResult \<times> ('x, 's, 'm, 'w) pc_ctx" where
  "PeerConnection_AddIceServerConfig pCfg c =
     (case pCfg of
        None \<Rightarrow> (PEER_CONNECTION_RESULT_BAD_PARAMETER, c)
      | Some cfg \<Rightarrow>
          (let (r, c1) = IceController_AddIceServerConfig (cfgIceServers cfg) (cfgRootCaPath cfg) (cfgRootCaPem cfg) c
           in (if r \<noteq> ICE_CONTROLLER_RESULT_OK then PEER_CONNECTION_RESULT_FAIL_ICE_CONTROLLER_ADD_ICE_SERVER_CONFIG
               else PEER_CONNECTION_RESULT_OK, c1)))"

definition InitializeIceController ::
    "('x, 's, 'm, 'w) pc_env \<Rightarrow> bool \<Rightarrow> bool \<Rightarrow> PeerConnectionSessionConfiguration \<Rightarrow> ('x, 's, 'm, 'w) pc_ctx
      \<Rightarrow> PeerConnectionResult \<times> ('x, 's, 'm, 'w) pc_ctx" where
  "InitializeIceController pe socketMutex iceMutex cfg c =
     (let (r, c1) = IceController_Init (session_env pe) socketMutex iceMutex (cfgNatTraversal cfg) c
      in if r \<noteq> ICE_CONTROLLER_RESULT_OK then (PEER_CONNECTION_RESULT_FAIL_ICE_CONTROLLER_INIT, c1)
         else PeerConnection_AddIceServerConfig (Some cfg) c1)"

text \<open>The system calls of the set-up that may fail, in their order.\<close>

record pc_init_os =
  initCertificate :: bool
  initQueue :: bool
  initSrtpMutex :: bool
  initBarrier :: bool
  initTask :: bool
  initSocketMutex :: bool
  initIceMutex :: bool
  initListener :: bool

definition zero_session :: "('x, 's, 'm, 'w) pc_env \<Rightarrow> 'm \<Rightarrow> ('s, 'm, 'w) pc_session \<Rightarrow> ('s, 'm, 'w) pc_session" where
  "zero_session pe m s =
     (let noTimer = \<lparr>timerId = None, onTimerExpire = ()\<rparr>
      in s\<lparr>sessionState := PEER_CONNECTION_SESSION_STATE_NONE, startupBarrier := 0, remoteUserName := [], remotePassword := [], combinedName := [],
           remoteCertFingerprint := [], remoteCertFingerprintLength := 0,
           xDtlsNetworkContext := \<lparr>dtlsState = DTLS_STATE_NONE, pParams = None\<rparr>,
           dtlsKeyingMaterial := \<lparr>clientWriteKey = replicate 30 0, serverWriteKey = replicate 30 0, key_length = 0,
             srtpProfile = srtpProfile (dtlsKeyingMaterial s)\<rparr>,
           dtlsIsServer := False, pTransceivers := replicate PEER_CONNECTION_TRANSCEIVER_MAX_COUNT None, transceiverCount := 0,
           mLinesTransceiverCount := 0, rtcpAudioSenderReportTimer := noTimer, rtcpVideoSenderReportTimer := noTimer,
           closeSessionTimer := noTimer, dtlsHandshakingTimeoutMs := 0, inactiveConnectionTimeoutMs := 0, media := m\<rparr>)"

text \<open>Creating the three timers, in order.\<close>

definition create_timers :: "timer_os \<Rightarrow> ('s, 'm, 'w) pc_session \<Rightarrow> bool \<times> ('s, 'm, 'w) pc_session" where
  "create_timers tos s =
     (let mk = (\<lambda>h. TimerController_Create tos (Some h) (Some ()));
          (r1, h1) = mk (rtcpAudioSenderReportTimer s); s1 = s\<lparr>rtcpAudioSenderReportTimer := the h1\<rparr>
      in if r1 \<noteq> TIMER_CONTROLLER_RESULT_OK then (False, s1)
         else
           (let (r2, h2) = mk (rtcpVideoSenderReportTimer s1); s2 = s1\<lparr>rtcpVideoSenderReportTimer := the h2\<rparr>
            in if r2 \<noteq> TIMER_CONTROLLER_RESULT_OK then (False, s2)
               else
                 (let (r3, h3) = mk (closeSessionTimer s2)
                  in (r3 = TIMER_CONTROLLER_RESULT_OK, s2\<lparr>closeSessionTimer := the h3\<rparr>))))"

text \<open>The message queue of the previous round is deleted and a new one is made; \<open>zeroMedia\<close> is the media
  part after \<open>memset\<close>.\<close>

definition PeerConnection_Init ::
    "('x, 's, 'm, 'w) pc_env \<Rightarrow> pc_init_os \<Rightarrow> 'm \<Rightarrow> PeerConnectionSessionConfiguration option \<Rightarrow> ('x, 's, 'm, 'w) pc_ctx
      \<Rightarrow> PeerConnectionResult \<times> ('x, 's, 'm, 'w) pc_ctx" where
  "PeerConnection_Init pe sys zeroMedia pCfg c =
     (case pCfg of
        None \<Rightarrow> (PEER_CONNECTION_RESULT_BAD_PARAMETER, c)
      | Some cfg \<Rightarrow>
          if \<not> initCertificate sys then (PEER_CONNECTION_RESULT_FAIL_CREATE_CERT_AND_KEY, c)
          else
            (let c1 = zero_context c\<lparr>world := zero_session pe zeroMedia (world c)\<rparr>
             in if \<not> initQueue sys then (PEER_CONNECTION_RESULT_FAIL_MQ_INIT, c1)
                else
                  (let c2 = c1\<lparr>world := (world c1)\<lparr>requestQueue := \<lparr>mq_maxmsg = PEER_CONNECTION_MAX_QUEUE_MSG_NUM, mq_msgs = []\<rparr>\<rparr>\<rparr>
                   in if \<not> initSrtpMutex sys then (PEER_CONNECTION_RESULT_FAIL_CREATE_SRTP_MUTEX, c2)
                      else if \<not> initBarrier sys then (PEER_CONNECTION_RESULT_FAIL_CREATE_STARTUP_BARRIER, c2)
                      else if \<not> initTask sys then (PEER_CONNECTION_RESULT_FAIL_CREATE_TASK_ICE_CONTROLLER, c2)
                      else
                        (let (r, c3) = InitializeIceController pe (initSocketMutex sys) (initIceMutex sys) cfg c2
                         in if r \<noteq> PEER_CONNECTION_RESULT_OK then (r, c3)
                            else if \<not> initListener sys then (PEER_CONNECTION_RESULT_FAIL_CREATE_TASK_ICE_SOCK_LISTENER, c3)
                            else
                              (let c4 = set_session_state PEER_CONNECTION_SESSION_STATE_INITED c3; (ok, s) = create_timers (pcTimers pe) (world c4)
                               in (if ok then PEER_CONNECTION_RESULT_OK else PEER_CONNECTION_RESULT_FAIL_TIMER_INIT, c4\<lparr>world := s\<rparr>))))))"

definition PeerConnection_Start :: "('x, 's, 'm, 'w) pc_ctx \<Rightarrow> PeerConnectionResult \<times> ('x, 's, 'm, 'w) pc_ctx" where
  "PeerConnection_Start c =
     (PEER_CONNECTION_RESULT_OK,
      set_session_state PEER_CONNECTION_SESSION_STATE_START
        (c\<lparr>world := (world c)\<lparr>requestQueue := EmptyMessageQueue (requestQueue (world c))\<rparr>\<rparr>))"

section \<open>Transceivers\<close>

definition AllocateTransceiver ::
    "('x, 's, 'm, 'w) pc_env \<Rightarrow> nat \<Rightarrow> ('x, 's, 'm, 'w) pc_ctx \<Rightarrow> PeerConnectionResult \<times> ('x, 's, 'm, 'w) pc_ctx" where
  "AllocateTransceiver pe a c =
     (let s = world c
      in if transceiverCount s < PEER_CONNECTION_TRANSCEIVER_MAX_COUNT
         then
           (let (r1, w1) = pcRand pe (outer s); (r2, w2) = pcRand pe w1
            in (PEER_CONNECTION_RESULT_OK,
                c\<lparr>world := s\<lparr>outer := pcSetSsrc pe a r1 r2 w2, pTransceivers := (pTransceivers s)[transceiverCount s := Some a],
                   transceiverCount := transceiverCount s + 1\<rparr>\<rparr>))
         else (PEER_CONNECTION_RESULT_NO_FREE_TRANSCEIVER, c))"

definition PeerConnection_AddTransceiver ::
    "('x, 's, 'm, 'w) pc_env \<Rightarrow> nat \<Rightarrow> ('x, 's, 'm, 'w) pc_ctx \<Rightarrow> PeerConnectionResult \<times> ('x, 's, 'm, 'w) pc_ctx" where
  "PeerConnection_AddTransceiver pe a c = AllocateTransceiver pe a c"

definition GetDefaultCodec :: "u32 \<Rightarrow> u32 option" where
  "GetDefaultCodec bits =
     (if TRANSCEIVER_IS_CODEC_ENABLED bits TRANSCEIVER_RTC_CODEC_H264_BIT then Some 125
      else if TRANSCEIVER_IS_CODEC_ENABLED bits TRANSCEIVER_RTC_CODEC_OPUS_BIT then Some 111
      else if TRANSCEIVER_IS_CODEC_ENABLED bits TRANSCEIVER_RTC_CODEC_VP8_BIT then Some 96
      else if TRANSCEIVER_IS_CODEC_ENABLED bits TRANSCEIVER_RTC_CODEC_MULAW_BIT then Some 0
      else if TRANSCEIVER_IS_CODEC_ENABLED bits TRANSCEIVER_RTC_CODEC_ALAW_BIT then Some 8
      else if TRANSCEIVER_IS_CODEC_ENABLED bits TRANSCEIVER_RTC_CODEC_H265_BIT then Some 127
      else None)"

text \<open>The loop over the transceivers, on the RTP settings; every transceiver that is not video sets those of the
  audio stream.\<close>

fun SetDefaultPayloadTypes ::
    "Transceiver option list \<Rightarrow> ('q, 's) PeerConnectionSession \<Rightarrow> PeerConnectionResult \<times> ('q, 's) PeerConnectionSession" where
  "SetDefaultPayloadTypes [] s = (PEER_CONNECTION_RESULT_OK, s)"
| "SetDefaultPayloadTypes (None # ts) s = (PEER_CONNECTION_RESULT_UNKNOWN_TRANSCEIVER, s)"
| "SetDefaultPayloadTypes (Some t # ts) s =
     (let m = (if trackKind t = TRANSCEIVER_TRACK_KIND_VIDEO then MEDIA_VIDEO else MEDIA_AUDIO);
          s1 = s\<lparr>codecRtxPayload := (codecRtxPayload s)(m := 0), rtxSequenceNumber := (rtxSequenceNumber s)(m := 0),
                 sequenceNumberOf := (sequenceNumberOf s)(m := 0)\<rparr>
      in (case GetDefaultCodec (codecBitMap t) of
            None \<Rightarrow> (PEER_CONNECTION_RESULT_UNKNOWN_CODEC, s1)
          | Some payload \<Rightarrow> SetDefaultPayloadTypes ts (s1\<lparr>codecPayload := (codecPayload s1)(m := payload)\<rparr>)))"

section \<open>The peer's description and candidates\<close>

definition SendRemoteCandidateRequest ::
    "('x, 's, 'm, 'w) pc_env \<Rightarrow> IceControllerCandidate option \<Rightarrow> ('x, 's, 'm, 'w) pc_ctx
      \<Rightarrow> (PeerConnectionResult \<times> ('x, 's, 'm, 'w) pc_ctx) option" where
  "SendRemoteCandidateRequest pe pCand c =
     (case pCand of
        None \<Rightarrow> Some (PEER_CONNECTION_RESULT_BAD_PARAMETER, c)
      | Some cand \<Rightarrow>
          (let c1 = (if sessionState (world c) = PEER_CONNECTION_SESSION_STATE_START \<and>
                   TimerController_IsTimerSet (pcTimers pe) (Some (closeSessionTimer (world c))) = Some TIMER_CONTROLLER_RESULT_NOT_SET
                 then c\<lparr>world := (world c)\<lparr>closeSessionTimer :=
                   the (snd (TimerController_SetTimer (pcTimers pe) (Some (closeSessionTimer (world c))) PEER_CONNECTION_WAIT_SDP_MESSAGE_TIMEOUT_MS 0))\<rparr>\<rparr>
                 else c)
           in SendPeerConnectionEvent (PEER_CONNECTION_SESSION_REQUEST_TYPE_ADD_REMOTE_CANDIDATE cand) c1))"

definition PeerConnection_AddRemoteCandidate ::
    "('x, 's, 'm, 'w) pc_env \<Rightarrow> string option \<Rightarrow> ('x, 's, 'm, 'w) pc_ctx \<Rightarrow> (PeerConnectionResult \<times> ('x, 's, 'm, 'w) pc_ctx) option" where
  "PeerConnection_AddRemoteCandidate pe pMessage c =
     (case pMessage of
        None \<Rightarrow> Some (PEER_CONNECTION_RESULT_BAD_PARAMETER, c)
      | Some msg \<Rightarrow> do {
          (r, cand) \<leftarrow> pcParseCandidate pe msg;
          if r \<noteq> ICE_CONTROLLER_RESULT_OK then Some (PEER_CONNECTION_RESULT_FAIL_ICE_CONTROLLER_DESERIALIZE_CANDIDATE, c)
          else SendRemoteCandidateRequest pe cand c
        })"

text \<open>The candidates of the description; a candidate that cannot be added is skipped.\<close>

fun add_candidates ::
    "('x, 's, 'm, 'w) pc_env \<Rightarrow> string list \<Rightarrow> ('x, 's, 'm, 'w) pc_ctx \<Rightarrow> ('x, 's, 'm, 'w) pc_ctx option" where
  "add_candidates pe [] c = Some c"
| "add_candidates pe (cand # cands) c =
     do { (_, c1) \<leftarrow> PeerConnection_AddRemoteCandidate pe (Some cand) c; add_candidates pe cands c1 }"

text \<open>The names and the fingerprint of the peer are copied into arrays of fixed size; the length of the
  fingerprint is not checked, and a copy that does not fit has no outcome.\<close>

definition store_remote :: "('x, 's, 'm, 'w) pc_env \<Rightarrow> sdp_quick_access \<Rightarrow> ('x, 's, 'm, 'w) pc_ctx \<Rightarrow> ('x, 's, 'm, 'w) pc_ctx option" where
  "store_remote pe sdp c =
     (if length (sdpFingerprint sdp) > CERTIFICATE_FINGERPRINT_LENGTH then None
      else
        Some (c\<lparr>world := (world c)\<lparr>remoteUserName := the (sdpIceUfrag sdp), remotePassword := sdpIcePwd sdp,
           combinedName := the (sdpIceUfrag sdp) @ '':'' @ take PEER_CONNECTION_USER_NAME_LENGTH (pcLocalUserName pe),
           remoteCertFingerprint := sdpFingerprint sdp, remoteCertFingerprintLength := length (sdpFingerprint sdp)\<rparr>\<rparr>))"

text \<open>The controller is started; then the media settings are taken over, the session looks for a
  connection, and its thread is woken up.\<close>

definition start_connection ::
    "('x, 's, 'm, 'w) pc_env \<Rightarrow> sdp_quick_access \<Rightarrow> ('x, 's, 'm, 'w) pc_ctx \<Rightarrow> (PeerConnectionResult \<times> ('x, 's, 'm, 'w) pc_ctx) option" where
  "start_connection pe sdp c =
     do {
       (r, c1) \<leftarrow> IceController_Start (session_env pe) True (dtlsIsServer (world c)) c;
       if r \<noteq> ICE_CONTROLLER_RESULT_OK then Some (PEER_CONNECTION_RESULT_FAIL_ICE_CONTROLLER_START, c1)
       else if \<not> mediaRtpInit (pcMedia pe) then Some (PEER_CONNECTION_RESULT_FAIL_RTP_INIT, c1)
       else if \<not> mediaRtcpInit (pcMedia pe) then Some (PEER_CONNECTION_RESULT_FAIL_RTCP_INIT, c1)
       else do {
         let c2 = c1\<lparr>world := (world c1)\<lparr>media := mediaRemoteDescription (pcMedia pe) sdp (media (world c1))\<rparr>\<rparr>;
         let c3 = set_session_state PEER_CONNECTION_SESSION_STATE_FIND_CONNECTION c2;
         if \<not> pcBarrierOk pe then Some (PEER_CONNECTION_RESULT_FAIL_SIGNAL_STARTUP_BARRIER, c3)
         else do { c4 \<leftarrow> add_candidates pe (sdpRemoteCandidates sdp) (signal_barrier pe c3); Some (PEER_CONNECTION_RESULT_OK, c4) }
       }
     }"

text \<open>The second check tests the pointer to the user name again, not that to the password.\<close>

definition PeerConnection_SetRemoteDescription ::
    "('x, 's, 'm, 'w) pc_env \<Rightarrow> string option \<Rightarrow> ('x, 's, 'm, 'w) pc_ctx \<Rightarrow> (PeerConnectionResult \<times> ('x, 's, 'm, 'w) pc_ctx) option" where
  "PeerConnection_SetRemoteDescription pe pSdpBuffer c =
     (case pSdpBuffer of
        None \<Rightarrow> Some (PEER_CONNECTION_RESULT_BAD_PARAMETER, c)
      | Some text \<Rightarrow>
          if length text > PEER_CONNECTION_SDP_DESCRIPTION_BUFFER_MAX_LENGTH then Some (PEER_CONNECTION_RESULT_BAD_PARAMETER, c)
          else
            (let (r, sdp) = pcDeserializeSdp pe text
             in if r \<noteq> PEER_CONNECTION_RESULT_OK then Some (r, c)
                else
                  (let (r2, m) = mediaPayloadTypes (pcMedia pe) sdp (media (world c)); c1 = c\<lparr>world := (world c)\<lparr>media := m\<rparr>\<rparr>
                   in if r2 \<noteq> PEER_CONNECTION_RESULT_OK then Some (r2, c1)
                      else (case sdpIceUfrag sdp of
                              None \<Rightarrow> Some (PEER_CONNECTION_RESULT_INVALID_REMOTE_USERNAME, c1)
                            | Some ufrag \<Rightarrow>
                                if length ufrag + PEER_CONNECTION_USER_NAME_LENGTH > 2 * PEER_CONNECTION_USER_NAME_LENGTH
                                then Some (PEER_CONNECTION_RESULT_INVALID_REMOTE_USERNAME, c1)
                                else if length (sdpIcePwd sdp) > PEER_CONNECTION_PASSWORD_LENGTH
                                then Some (PEER_CONNECTION_RESULT_INVALID_REMOTE_PASSWORD, c1)
                                else
                                  (let (d, c2) = InitDtlsSession pe (sdpDtlsRoleActive sdp) c1
                                   in if d \<noteq> 0 then Some (PEER_CONNECTION_RESULT_FAIL_INIT_DTLS_SESSION, c2)
                                      else do { c3 \<leftarrow> store_remote pe sdp c2; start_connection pe sdp c3 })))))"

end
