(* ===== verification/Pc_Session_Correct.thy ===== *)
theory Pc_Session_Correct
  imports Pc_Api
begin

text \<open>
  The session owns the descriptors of its ICE controller: the callbacks of the session meet the
  interface that the controller states for its owner, so that every operation of the controller and
  of the session keeps the socket table in step with the open descriptors.
\<close>

section \<open>The kernel's descriptors\<close>

lemma lowest_free_fresh: "lowest_free fds \<notin> set fds" "lowest_free fds \<ge> 0"
proof -
  let ?xs = "filter (\<lambda>fd. fd \<notin> set fds) (map int [0..<length fds + 1])"
  have "?xs \<noteq> []"
  proof
    assume "?xs = []"
    then have "int ` {0..<length fds + 1} \<subseteq> set fds" by (auto simp: filter_empty_conv simp del: upt_Suc)
    then have "card (int ` {0..<length fds + 1}) \<le> card (set fds)" by (intro card_mono) auto
    then show False using card_length [of fds] by (simp add: card_image)
  qed
  then have "lowest_free fds \<in> set ?xs" unfolding lowest_free_def by (rule hd_in_set)
  then show "lowest_free fds \<notin> set fds" "lowest_free fds \<ge> 0" by (auto simp del: upt_Suc)
qed

lemma SendPeerConnectionEvent_same:
  "SendPeerConnectionEvent msg c = Some (r, c') \<Longrightarrow> same_table c c'"
  by (auto simp: SendPeerConnectionEvent_def same_table_def split: if_splits bind_splits)

lemma queue_event_same: "queue_event msg c = Some (r, c') \<Longrightarrow> same_table c c'"
  by (auto simp: queue_event_def split: bind_splits dest: SendPeerConnectionEvent_same)

lemmas on_ice_event_defs =
  OnIceEventProcessIceCandidatesAndPairs_def OnIceEventPeriodicConnectionCheck_def OnIceEventClosing_def
  OnIceEventClosed_def OnIceEventPeerConnectionClose_def

lemma queued_event_same: "queued_event pe ev arg c = Some (r, c') \<Longrightarrow> same_table c c'"
  by (cases ev)
    (auto simp: queued_event_def on_ice_event_defs LocalCandidateReady_def same_table_def
      dest: queue_event_same [unfolded same_table_def] split: option.splits)

lemmas env_sel =
  inner_env_def session_env_def session_os_def lift_os_def

interpretation inner: ice_owner "inner_env pe" for pe :: "('x, 's, 'm, 'w) pc_env"
proof
  show "socketMutexOk (inner_env pe)" "iceMutexOk (inner_env pe)" by (simp_all add: inner_env_def)
next
  fix fam fds w fd w'
  assume "osSocket (os (inner_env pe)) fam fds w = (fd, w')"
  then show "fd = -1 \<or> fd \<ge> 0 \<and> fd \<notin> set fds"
    using lowest_free_fresh [of fds] by (auto simp: env_sel split: if_splits)
next
  fix ep path pem fds w st fd w'
  assume "tlsConnect (os (inner_env pe)) ep path pem fds w = (st, fd, w')"
  then show "fd \<ge> 0 \<and> fd \<notin> set fds"
    using lowest_free_fresh [of fds] by (auto simp: env_sel split: prod.splits)
next
  fix n w show "fst (osRecvfrom (os (inner_env pe)) (-1) n w) = RecvError" by (simp add: env_sel)
next
  fix f ev arg c r c'
  assume "onIceEventCallbackFunc (inner_env pe) = Some f" "f ev arg c = Some (r, c')"
  then show "same_table c c'" using queued_event_same by (auto simp: inner_env_def)
next
  fix f arg c r c'
  assume "onIceEventCallbackFunc (inner_env pe) = Some f" and "table_ok c"
    and "f ICE_CONTROLLER_CB_EVENT_PEER_TO_PEER_CONNECTION_FOUND arg c = Some (r, c')"
  then show "table_ok c'" by (auto simp: inner_env_def queued_event_def)
next
  fix g buf c c'
  assume "onRecvNonStunPacketFunc (inner_env pe) = Some g"
  then show "table_ok c'" by (simp add: inner_env_def)
qed

section \<open>The operations of the session\<close>

text \<open>The table is not in the part of the session that these operations change.\<close>

lemma world_ok [simp]: "table_ok (c\<lparr>world := s\<rparr>) = table_ok c"
  by simp

lemma put_dtls_ok [simp]: "table_ok (put_dtls n c) = table_ok c"
  by (simp add: put_dtls_def)

lemma set_session_state_ok [simp]: "table_ok (set_session_state st c) = table_ok c"
  by (simp add: set_session_state_def)

lemma notify_transceivers_ok: "notify_transceivers pe ev js c = Some c' \<Longrightarrow> table_ok c' = table_ok c"
  by (induction js arbitrary: c) (auto split: bind_splits)

lemma hook_ok: "OnDtlsSendHook pe buf c = Some (r, c') \<Longrightarrow> table_ok c \<Longrightarrow> table_ok c'"
  using inner.SendToRemotePeer_ok by (auto simp: OnDtlsSendHook_def split: bind_splits)

text \<open>What the send hook keeps, the whole DTLS transport keeps.\<close>

lemma mbed_exec_keeps:
  assumes "\<And>buf c r c'. hook buf c = Some (r, c') \<Longrightarrow> P c \<Longrightarrow> P c'"
  shows "mbed_exec hook run p c = Some (st, out, p', c') \<Longrightarrow> P c \<Longrightarrow> P c'"
proof (induction run arbitrary: p c)
  case (MbedSend buf k)
  from MbedSend.prems obtain r c1 where s: "DtlsUdpSendWrap hook (Some p) buf c = Some (r, c1)"
    and run: "mbed_exec hook (k r) p c1 = Some (st, out, p', c')" by (auto split: bind_splits)
  from s MbedSend.prems(2) assms have "P c1" by (auto simp: DtlsUdpSendWrap_def split: if_splits)
  with MbedSend.IH [OF rangeI run] show ?case by simp
next
  case (MbedRecv n k)
  from MbedRecv.prems obtain r q where run: "mbed_exec hook (k r) q c = Some (st, out, p', c')" by (auto split: bind_splits)
  with MbedRecv.IH [OF rangeI run] MbedRecv.prems(2) show ?case by simp
qed auto

lemma handshake_loop_keeps:
  assumes keep: "\<And>buf c r c'. hook buf c = Some (r, c') \<Longrightarrow> P c \<Longrightarrow> P c'"
    and run: "handshake_loop mb hook p c = Some (st, p', c')" and "P c"
  shows "P c'"
proof -
  let ?Q = "\<lambda>mb hk p c y. hk = hook \<longrightarrow> P c \<longrightarrow> P (snd (snd y))"
  have "?Q mb hook p c (st, p', c')"
  proof (rule handshake_loop.raw_induct [of ?Q, OF _ run], intro impI)
    fix f mb hk p c y
    assume ih: "\<And>mb hk p c y. f mb hk p c = Some y \<Longrightarrow> hk = hook \<longrightarrow> P c \<longrightarrow> P (snd (snd y))"
      and step: "do { (st, _, p1, c1) \<leftarrow> mbed_exec hk (mbedHandshake mb (sslContext p)) p c;
          if st = MBED_WANT_WRITE then f mb hk p1 c1 else Some (st, p1, c1) } = Some y"
      and hk: "hk = hook" and "P c"
    from step obtain st out p1 c1 where e: "mbed_exec hook (mbedHandshake mb (sslContext p)) p c = Some (st, out, p1, c1)"
      using hk by (auto split: bind_splits)
    from mbed_exec_keeps [of hook P, OF keep e \<open>P c\<close>] have "P c1" .
    with step e ih [of mb hook p1 c1 y] hk show "P (snd (snd y))" by (auto split: if_splits)
  qed
  with \<open>P c\<close> show ?thesis by simp
qed

lemma read_loop_keeps:
  assumes keep: "\<And>buf c r c'. hook buf c = Some (r, c') \<Longrightarrow> P c \<Longrightarrow> P c'"
    and run: "read_loop mb hook room p c = Some (st, out, p', c')" and "P c"
  shows "P c'"
proof -
  let ?Q = "\<lambda>mb hk room p c y. hk = hook \<longrightarrow> P c \<longrightarrow> P (snd (snd (snd y)))"
  have "?Q mb hook room p c (st, out, p', c')"
  proof (rule read_loop.raw_induct [of ?Q, OF _ run], intro impI)
    fix f mb hk room p c y
    assume ih: "\<And>mb hk room p c y. f mb hk room p c = Some y \<Longrightarrow> hk = hook \<longrightarrow> P c \<longrightarrow> P (snd (snd (snd y)))"
      and step: "(if pReceivedPacket p = None then Some (DTLS_SUCCESS, [], p, c)
        else do {
          (st, out, p1, c1) \<leftarrow> mbed_exec hk (mbedRead mb room (sslContext p)) p c;
          (case st of
             MBED_RET k \<Rightarrow> Some (DTLS_SUCCESS, take k out, p1, c1)
           | MBED_WANT_READ \<Rightarrow> f mb hk room p1 c1
           | MBED_WANT_WRITE \<Rightarrow> Some (DTLS_SUCCESS, [], p1, c1)
           | MBED_TIMEOUT \<Rightarrow> Some (DTLS_SUCCESS, [], p1, c1)
           | MBED_PEER_CLOSE_NOTIFY \<Rightarrow> Some (DTLS_CONNECTION_HAS_BEEN_CLOSED, [], p1, c1)
           | MBED_ERROR \<Rightarrow> Some (DTLS_TRANSPORT_PROCESS_FAILURE, [], p1, c1))
        }) = Some y"
      and hk: "hk = hook" and "P c"
    show "P (snd (snd (snd y)))"
    proof (cases "pReceivedPacket p")
      case None
      with step \<open>P c\<close> show ?thesis by auto
    next
      case (Some pkt)
      with step obtain st out p1 c1 where e: "mbed_exec hook (mbedRead mb room (sslContext p)) p c = Some (st, out, p1, c1)"
        using hk by (auto split: bind_splits)
      from mbed_exec_keeps [of hook P, OF keep e \<open>P c\<close>] have "P c1" .
      with step Some e ih [of mb hook room p1 c1 y] hk show ?thesis by (auto split: mbed_status.splits)
    qed
  qed
  with \<open>P c\<close> show ?thesis by simp
qed

lemma ExecuteHandshake_keeps:
  assumes keep: "\<And>buf c r c'. hook buf c = Some (r, c') \<Longrightarrow> P c \<Longrightarrow> P c'"
  shows "DTLS_ExecuteHandshake mb hook n c = Some (st, n', c') \<Longrightarrow> P c \<Longrightarrow> P c'"
  using handshake_loop_keeps [of hook P, OF keep]
  by (auto simp: DTLS_ExecuteHandshake_def Let_def split: if_splits bind_splits mbed_status.splits)

lemma ProcessPacket_keeps:
  assumes keep: "\<And>buf c r c'. hook buf c = Some (r, c') \<Longrightarrow> P c \<Longrightarrow> P c'"
  shows "DTLS_ProcessPacket mb hook pkt room n c = Some (st, out, n', c') \<Longrightarrow> P c \<Longrightarrow> P c'"
  using read_loop_keeps [of hook P, OF keep] by (auto simp: DTLS_ProcessPacket_def Let_def split: if_splits bind_splits)

lemma Disconnect_keeps:
  assumes keep: "\<And>buf c r c'. hook buf c = Some (r, c') \<Longrightarrow> P c \<Longrightarrow> P c'"
  shows "DTLS_Disconnect mb hook n c = Some (n', c') \<Longrightarrow> P c \<Longrightarrow> P c'"
  using mbed_exec_keeps [of hook P, OF keep] by (auto simp: DTLS_Disconnect_def split: option.splits bind_splits)

lemma ResetTimer_ok: "PeerConnection_ResetTimer tos c = (r, c') \<Longrightarrow> table_ok c' = table_ok c"
  by (auto simp: PeerConnection_ResetTimer_def Let_def split: prod.splits if_splits)

lemma CloseSession_ok:
  assumes "PeerConnection_CloseSession pe c = Some (r, c')" and "table_ok c"
  shows "table_ok c'"
proof -
  let ?c1 = "set_session_state PEER_CONNECTION_SESSION_STATE_CLOSING c"
  from assms(1) obtain c2 r3 c3
    where c2: "(if sessionState (world c) = PEER_CONNECTION_SESSION_STATE_CONNECTION_READY
        then notify_transceivers pe TRANSCEIVER_CB_EVENT_REMOTE_PEER_CLOSED [0..<transceiverCount (world ?c1)] ?c1 else Some ?c1) = Some c2"
      and c3: "DestroyIceController pe c2 = Some (r3, c3)"
      and last: "(if r3 \<noteq> PEER_CONNECTION_RESULT_OK then Some (r3, c3)
        else do {
          (r2, m) \<leftarrow> mediaDeInit (pcMedia pe) (media (world c3));
          let c4 = c3\<lparr>world := (world c3)\<lparr>media := m\<rparr>\<rparr>;
          if r2 \<noteq> PEER_CONNECTION_RESULT_OK then Some (r2, c4)
          else Some (PeerConnection_ResetTimer (pcTimers pe) (upd_metrics (\<lambda>k. k\<lparr>isFirstConnectivityRequest := True\<rparr>) c4))
        }) = Some (r, c')"
    by (auto simp: PeerConnection_CloseSession_def Let_def split: bind_splits)
  from c2 assms(2) have "table_ok c2" by (auto split: if_splits dest: notify_transceivers_ok)
  with c3 have "table_ok c3"
    using inner.Destroy_ok by (auto simp: DestroyIceController_def split: bind_splits)
  with last show ?thesis
    by (auto simp: Let_def upd_metrics_def split: if_splits bind_splits dest!: ResetTimer_ok)
qed

lemma SetTimer_ok: "PeerConnection_SetTimer pe c = Some c' \<Longrightarrow> table_ok c' = table_ok c"
  by (auto simp: PeerConnection_SetTimer_def)

lemma dtls_checks_ok: "dtls_checks pe c = Some (r, c') \<Longrightarrow> table_ok c' = table_ok c"
  by (auto simp: dtls_checks_def Let_def split: if_splits bind_splits prod.splits)

lemma HandshakeComplete_ok:
  assumes "OnDtlsHandshakeComplete pe c = Some (r, c')" and "table_ok c"
  shows "table_ok c'"
proof -
  from assms(1) obtain ret c1 where c1: "dtls_checks pe c = Some (ret, c1)"
    by (auto simp: OnDtlsHandshakeComplete_def split: bind_splits)
  with assms(2) have ok: "table_ok c1" by (simp add: dtls_checks_ok)
  show ?thesis
  proof (cases "ret = 0")
    case True
    with assms(1) c1 ok show ?thesis
      by (auto simp: OnDtlsHandshakeComplete_def Let_def split: bind_splits intro!: inner.HandleEvent_ok
          dest!: SetTimer_ok notify_transceivers_ok)
  next
    case False
    with assms(1) c1 ok CloseSession_ok show ?thesis
      by (auto simp: OnDtlsHandshakeComplete_def split: bind_splits)
  qed
qed

lemma ExecuteDtlsHandshake_ok:
  assumes "ExecuteDtlsHandshake pe c = Some (r, c')" and "table_ok c"
  shows "table_ok c'"
proof -
  from assms(1) obtain st n c1 ret c3
    where c1: "DTLS_ExecuteHandshake (pcMbed pe) (OnDtlsSendHook pe) (xDtlsNetworkContext (world c)) c = Some (st, n, c1)"
      and c3: "(if st = DTLS_HANDSHAKE_COMPLETE then OnDtlsHandshakeComplete pe (put_dtls n c1)
          else if st \<noteq> DTLS_SUCCESS \<and> st \<noteq> DTLS_HANDSHAKE_ALREADY_COMPLETE then Some (-31, put_dtls n c1)
          else Some (0, put_dtls n c1)) = Some (ret, c3)"
      and last: "(if ret = 0 \<and> pc_now_ms pe c3 > dtlsHandshakingTimeoutMs (world c3)
          then do { (_, c4) \<leftarrow> PeerConnection_CloseSession pe c3; Some (ret, c4) } else Some (ret, c3)) = Some (r, c')"
    by (auto simp: ExecuteDtlsHandshake_def Let_def split: bind_splits)
  have "table_ok c1" by (rule ExecuteHandshake_keeps [of "OnDtlsSendHook pe" table_ok, OF hook_ok c1 assms(2)])
  with c3 HandshakeComplete_ok [of pe "put_dtls n c1"] have "table_ok c3" by (auto split: if_splits)
  with last CloseSession_ok show ?thesis by (auto split: if_splits bind_splits)
qed

lemma HandleDtlsTermination_ok: "HandleDtlsTermination pe c = Some (r, c') \<Longrightarrow> table_ok c \<Longrightarrow> table_ok c'"
  using Disconnect_keeps [of "OnDtlsSendHook pe" table_ok, OF hook_ok] CloseSession_ok
  by (fastforce simp: HandleDtlsTermination_def split: bind_splits)

lemma ProcessDtlsPacket_ok:
  assumes "ProcessDtlsPacket pe buf c = Some (r, c')" and "table_ok c"
  shows "table_ok c'"
proof -
  from assms(1) obtain st out n c1
    where c1: "DTLS_ProcessPacket (pcMbed pe) (OnDtlsSendHook pe) buf PEER_CONNECTION_MAX_DTLS_DECRYPTED_DATA_LENGTH
        (xDtlsNetworkContext (world c)) c = Some (st, out, n, c1)"
      and last: "(if st = DTLS_HANDSHAKE_COMPLETE then OnDtlsHandshakeComplete pe (put_dtls n c1)
       else if st = DTLS_SUCCESS then Some (0, put_dtls n c1) else HandleDtlsTermination pe (put_dtls n c1)) = Some (r, c')"
    by (auto simp: ProcessDtlsPacket_def Let_def split: bind_splits)
  have "table_ok c1" by (rule ProcessPacket_keeps [of "OnDtlsSendHook pe" table_ok, OF hook_ok c1 assms(2)])
  with last HandshakeComplete_ok [of pe "put_dtls n c1"] HandleDtlsTermination_ok [of pe "put_dtls n c1"] show ?thesis by (auto split: if_splits)
qed

lemma media_exec_ok: "media_exec pe run c = Some (r, c') \<Longrightarrow> table_ok c \<Longrightarrow> table_ok c'"
proof (induction run arbitrary: c)
  case (MediaSend buf k)
  from MediaSend.prems obtain r1 c1 where s: "IceController_SendToRemotePeer (inner_env pe) (Some buf) c = Some (r1, c1)"
    and run: "media_exec pe (k (r1 = ICE_CONTROLLER_RESULT_OK)) c1 = Some (r, c')" by (auto split: bind_splits)
  from MediaSend.IH [OF rangeI run] inner.SendToRemotePeer_ok [OF s MediaSend.prems(2)] show ?case by simp
qed auto

lemma handle_media_ok: "handle_media pe run c = Some (r, c') \<Longrightarrow> table_ok c \<Longrightarrow> table_ok c'"
  using media_exec_ok by (fastforce simp: handle_media_def split: bind_splits if_splits)

lemma HandleNonStunPackets_ok: "HandleNonStunPackets pe b c = Some (r, c') \<Longrightarrow> table_ok c \<Longrightarrow> table_ok c'"
  using handle_media_ok ProcessDtlsPacket_ok by (auto simp: HandleNonStunPackets_def split: option.splits if_splits)

interpretation session: ice_owner "session_env pe" for pe :: "('x, 's, 'm, 'w) pc_env"
proof
  show "socketMutexOk (session_env pe)" "iceMutexOk (session_env pe)" by (simp_all add: env_sel)
next
  fix fam fds w fd w'
  assume "osSocket (os (session_env pe)) fam fds w = (fd, w')"
  then show "fd = -1 \<or> fd \<ge> 0 \<and> fd \<notin> set fds"
    using lowest_free_fresh [of fds] by (auto simp: env_sel split: if_splits)
next
  fix ep path pem fds w st fd w'
  assume "tlsConnect (os (session_env pe)) ep path pem fds w = (st, fd, w')"
  then show "fd \<ge> 0 \<and> fd \<notin> set fds"
    using lowest_free_fresh [of fds] by (auto simp: env_sel split: prod.splits)
next
  fix n w show "fst (osRecvfrom (os (session_env pe)) (-1) n w) = RecvError" by (simp add: env_sel)
next
  fix f ev arg c r c'
  assume "onIceEventCallbackFunc (session_env pe) = Some f" "ev \<noteq> ICE_CONTROLLER_CB_EVENT_PEER_TO_PEER_CONNECTION_FOUND" "f ev arg c = Some (r, c')"
  then show "same_table c c'" using queued_event_same by (auto simp: session_env_def HandleIceEventCallback_def)
next
  fix f arg c r c'
  assume "onIceEventCallbackFunc (session_env pe) = Some f" and "table_ok c"
    and "f ICE_CONTROLLER_CB_EVENT_PEER_TO_PEER_CONNECTION_FOUND arg c = Some (r, c')"
  then show "table_ok c'"
    using ExecuteDtlsHandshake_ok by (auto simp: session_env_def HandleIceEventCallback_def split: bind_splits)
next
  fix g buf c c'
  assume "onRecvNonStunPacketFunc (session_env pe) = Some g" and "g buf c = Some c'" and "table_ok c"
  then show "table_ok c'" using HandleNonStunPackets_ok by (auto simp: session_env_def)
qed

end
