(* ===== verification/Pc_Reach.thy ===== *)
theory Pc_Reach
  imports Pc_Session_Correct
begin

text \<open>
  The session over its whole life: the calls of the application, the requests of the session thread,
  the rounds of the socket listener and the timers, in any order.  In every state that a session
  can reach, its socket table and the open descriptors agree.
\<close>

section \<open>The remaining operations\<close>

lemma SendPeerConnectionEvent_ok: "SendPeerConnectionEvent msg c = Some (r, c') \<Longrightarrow> table_ok c' = table_ok c"
  by (rule table_ok_same [OF SendPeerConnectionEvent_same])

lemma OnClose_ok [simp]: "table_ok (OnClosePeerConnection c) = table_ok c"
  by (simp add: OnClosePeerConnection_def)

lemma signal_barrier_ok [simp]: "table_ok (signal_barrier pe c) = table_ok c"
  by (simp add: signal_barrier_def)

lemma SenderReport_ok:
  "PeerConnection_OnRtcpSenderReportCallback pe us a c = Some (r, c') \<Longrightarrow> table_ok c \<Longrightarrow> table_ok c'"
  using session.SendToRemotePeer_ok
  by (fastforce simp: PeerConnection_OnRtcpSenderReportCallback_def Let_def split: if_splits prod.splits bind_splits)

lemma AddRemoteCandidateRequest_ok: "table_ok c \<Longrightarrow> table_ok (snd (HandleAddRemoteCandidateRequest pe cand c))"
  by (auto simp: HandleAddRemoteCandidateRequest_def split: prod.splits dest: session.AddRemoteCandidate_ok)

lemma PeriodCheckRequest_ok: "HandlePeriodConnectionCheck pe c = Some (r, c') \<Longrightarrow> table_ok c \<Longrightarrow> table_ok c'"
  using session.PeriodConnectionCheck_ok by (auto simp: HandlePeriodConnectionCheck_def split: bind_splits)

lemma ProcessPairsRequest_ok: "HandleProcessIceCandidatesAndPairs pe c = Some (r, c') \<Longrightarrow> table_ok c \<Longrightarrow> table_ok c'"
  using session.ProcessIceCandidatesAndPairs_ok by (auto simp: HandleProcessIceCandidatesAndPairs_def split: bind_splits)

lemma IceClosingRequest_ok: "HandleIceClosing pe c = Some (r, c') \<Longrightarrow> table_ok c \<Longrightarrow> table_ok c'"
  using session.AddressClosing_ok by (auto simp: HandleIceClosing_def split: bind_splits)

lemma handle_message_ok:
  assumes "handle_message pe msg c = Some (r, c')" and "table_ok c"
  shows "table_ok c'"
  using assms CloseSession_ok ExecuteDtlsHandshake_ok SenderReport_ok PeriodCheckRequest_ok ProcessPairsRequest_ok IceClosingRequest_ok
    AddRemoteCandidateRequest_ok
  by (cases msg) (fastforce simp: handle_message_def split: bind_splits if_splits)+

lemma HandleRequest_ok: "HandleRequest pe c = Some (r, c') \<Longrightarrow> table_ok c \<Longrightarrow> table_ok c'"
  by (auto simp: HandleRequest_def split: bind_splits dest: handle_message_ok)

lemma session_iteration_ok: "session_iteration pe c = Some (b, c') \<Longrightarrow> table_ok c \<Longrightarrow> table_ok c'"
  using CloseSession_ok HandleRequest_ok by (fastforce simp: session_iteration_def split: bind_splits if_splits)

lemma SendRemoteCandidateRequest_ok: "SendRemoteCandidateRequest pe cand c = Some (r, c') \<Longrightarrow> table_ok c' = table_ok c"
  by (auto simp: SendRemoteCandidateRequest_def Let_def split: option.splits if_splits dest!: SendPeerConnectionEvent_ok)

lemma PcAddRemoteCandidate_ok: "PeerConnection_AddRemoteCandidate pe msg c = Some (r, c') \<Longrightarrow> table_ok c' = table_ok c"
  by (auto simp: PeerConnection_AddRemoteCandidate_def split: option.splits bind_splits if_splits dest: SendRemoteCandidateRequest_ok)

lemma add_candidates_ok: "add_candidates pe cands c = Some c' \<Longrightarrow> table_ok c' = table_ok c"
  by (induction cands arbitrary: c) (auto split: bind_splits dest: PcAddRemoteCandidate_ok)

lemma start_connection_ok:
  assumes "start_connection pe sdp c = Some (r, c')" and "table_ok c"
  shows "table_ok c'"
proof -
  from assms(1) obtain r1 c1 where s: "IceController_Start (session_env pe) True (dtlsIsServer (world c)) c = Some (r1, c1)"
    by (auto simp: start_connection_def split: bind_splits)
  have "table_ok c1" by (rule session.Start_ok [OF s assms(2)])
  with assms(1) s show ?thesis
    by (auto simp: start_connection_def Let_def split: bind_splits if_splits dest!: add_candidates_ok)
qed

lemma InitDtls_ok: "InitDtlsSession pe b c = (d, c') \<Longrightarrow> table_ok c' = table_ok c"
  by (auto simp: InitDtlsSession_def Let_def split: if_splits prod.splits)

lemma store_remote_ok: "store_remote pe sdp c = Some c' \<Longrightarrow> table_ok c' = table_ok c"
  by (auto simp: store_remote_def split: if_splits)

lemma SetRemoteDescription_ok:
  "PeerConnection_SetRemoteDescription pe sdp c = Some (r, c') \<Longrightarrow> table_ok c \<Longrightarrow> table_ok c'"
  by (auto simp: PeerConnection_SetRemoteDescription_def Let_def split: option.splits if_splits prod.splits bind_splits
      dest!: start_connection_ok InitDtls_ok store_remote_ok)

lemma PcStart_ok: "PeerConnection_Start c = (r, c') \<Longrightarrow> table_ok c' = table_ok c"
  by (auto simp: PeerConnection_Start_def)

lemma AddTransceiver_ok: "PeerConnection_AddTransceiver pe a c = (r, c') \<Longrightarrow> table_ok c' = table_ok c"
  by (auto simp: PeerConnection_AddTransceiver_def AllocateTransceiver_def Let_def split: if_splits prod.splits)

lemma report_transceiver_ok: "report_transceiver pe kind js c = Some c' \<Longrightarrow> table_ok c' = table_ok c"
  by (induction js arbitrary: c) (auto split: bind_splits if_splits dest: SendPeerConnectionEvent_ok)

lemma timers_ok:
  "OnRtcpSenderReportAudioTimerExpire pe c = Some c' \<Longrightarrow> table_ok c' = table_ok c"
  "OnRtcpSenderReportVideoTimerExpire pe c = Some c' \<Longrightarrow> table_ok c' = table_ok c"
  "OnCloseSessionTimerExpire pe c = Some c' \<Longrightarrow> table_ok c' = table_ok c"
  by (auto simp: OnRtcpSenderReportAudioTimerExpire_def OnRtcpSenderReportVideoTimerExpire_def OnCloseSessionTimerExpire_def
      split: if_splits bind_splits dest: report_transceiver_ok dest!: SendPeerConnectionEvent_ok)

lemma AddIceServerConfig_same: "IceController_AddIceServerConfig sv path pem c = (r, c') \<Longrightarrow> same_table c c'"
  by (auto simp: IceController_AddIceServerConfig_def same_table_def Let_def split: if_splits)

lemma AddServers_ok: "PeerConnection_AddIceServerConfig cfg c = (r, c') \<Longrightarrow> table_ok c' = table_ok c"
  by (auto simp: PeerConnection_AddIceServerConfig_def split: option.splits prod.splits dest: AddIceServerConfig_same table_ok_same)

text \<open>A successful set-up starts with an empty table, so it needs that the process has no descriptor of an earlier
  session open.\<close>

lemma IceInit_ok:
  assumes "IceController_Init env sm im bits c = (ICE_CONTROLLER_RESULT_OK, c')" and "openFds c = []"
  shows "table_ok c'"
  using assms
  by (auto simp: IceController_Init_def Let_def IceControllerSocketListener_Init_def IceController_UpdateState_def upd_metrics_def
      zero_context_def zero_sock_def table_ok_def tab_def sock_ok_def open_of_def split: prod.splits if_splits)

lemma PcInit_ok:
  assumes "PeerConnection_Init pe sys m cfg c = (PEER_CONNECTION_RESULT_OK, c')" and "openFds c = []"
  shows "table_ok c'"
proof -
  obtain cf where cf: "cfg = Some cf" using assms by (cases cfg) (auto simp: PeerConnection_Init_def)
  let ?c1 = "zero_context c\<lparr>world := zero_session pe m (world c)\<rparr>"
  let ?d = "?c1\<lparr>world := (world ?c1)\<lparr>requestQueue := \<lparr>mq_maxmsg = PEER_CONNECTION_MAX_QUEUE_MSG_NUM, mq_msgs = []\<rparr>\<rparr>\<rparr>"
  obtain r c3 where i: "InitializeIceController pe (initSocketMutex sys) (initIceMutex sys) cf ?d = (r, c3)" by fastforce
  obtain ok s where t: "create_timers (pcTimers pe) (world (set_session_state PEER_CONNECTION_SESSION_STATE_INITED c3)) = (ok, s)" by fastforce
  from assms(1) i t cf have r: "r = PEER_CONNECTION_RESULT_OK"
    and c': "c' = (set_session_state PEER_CONNECTION_SESSION_STATE_INITED c3)\<lparr>world := s\<rparr>"
    by (simp_all add: PeerConnection_Init_def Let_def split: if_splits)
  have d: "openFds ?d = []" using assms(2) by (simp add: zero_context_def)
  from i r d have "table_ok c3"
    by (auto simp: InitializeIceController_def split: prod.splits if_splits dest!: AddServers_ok IceInit_ok)
  with c' show ?thesis by simp
qed

section \<open>Every state a session can reach\<close>

text \<open>The operations of the threads of a session, each as one step: the set-up, the calls of the application, the
  requests of the session thread, the rounds of the socket listener, and the timers.  A call that has no
  outcome (because the program waits, or because its behaviour is undefined) gives no step.\<close>

inductive session_reach :: "('x, 's, 'm, 'w) pc_env \<Rightarrow> ('x, 's, 'm, 'w) pc_ctx \<Rightarrow> bool" for pe where
  init: "PeerConnection_Init pe sys m cfg c0 = (PEER_CONNECTION_RESULT_OK, c) \<Longrightarrow> openFds c0 = [] \<Longrightarrow> session_reach pe c"
| start: "session_reach pe c \<Longrightarrow> PeerConnection_Start c = (r, c') \<Longrightarrow> session_reach pe c'"
| add_transceiver: "session_reach pe c \<Longrightarrow> PeerConnection_AddTransceiver pe a c = (r, c') \<Longrightarrow> session_reach pe c'"
| add_ice_servers: "session_reach pe c \<Longrightarrow> PeerConnection_AddIceServerConfig cfg c = (r, c') \<Longrightarrow> session_reach pe c'"
| remote_description:
    "session_reach pe c \<Longrightarrow> PeerConnection_SetRemoteDescription pe sdp c = Some (r, c') \<Longrightarrow> session_reach pe c'"
| remote_candidate: "session_reach pe c \<Longrightarrow> PeerConnection_AddRemoteCandidate pe cand c = Some (r, c') \<Longrightarrow> session_reach pe c'"
| request: "session_reach pe c \<Longrightarrow> session_iteration pe c = Some (b, c') \<Longrightarrow> session_reach pe c'"
| listener: "session_reach pe c \<Longrightarrow> IceControllerSocketListener_Task (session_env pe) c = Some c' \<Longrightarrow> session_reach pe c'"
| ice_timer: "session_reach pe c \<Longrightarrow> OnTimerExpire (session_env pe) c = Some c' \<Longrightarrow> session_reach pe c'"
| audio_timer: "session_reach pe c \<Longrightarrow> OnRtcpSenderReportAudioTimerExpire pe c = Some c' \<Longrightarrow> session_reach pe c'"
| video_timer: "session_reach pe c \<Longrightarrow> OnRtcpSenderReportVideoTimerExpire pe c = Some c' \<Longrightarrow> session_reach pe c'"
| close_timer: "session_reach pe c \<Longrightarrow> OnCloseSessionTimerExpire pe c = Some c' \<Longrightarrow> session_reach pe c'"
| send_media: "session_reach pe c \<Longrightarrow> media_exec pe run c = Some (r, c') \<Longrightarrow> session_reach pe c'"
| close: "session_reach pe c \<Longrightarrow> PeerConnection_CloseSession pe c = Some (r, c') \<Longrightarrow> session_reach pe c'"

section \<open>A session with one host candidate\<close>

text \<open>For the witnesses: a host with one interface, an ICE library that takes every candidate, and a peer whose
  description is accepted.\<close>

definition demo_ice_lib :: "unit ice_lib" where
  "demo_ice_lib =
     \<lparr>iceInit = (\<lambda>b. (ICE_RESULT_OK, \<lparr>localCandidates = [], remoteCandidates = [], candidatePairs = [], iceRest = ()\<rparr>)),
      iceAddHostCandidate = (\<lambda>ep x. (ICE_RESULT_OK, x\<lparr>localCandidates := localCandidates x @ [\<lparr>candidateKind = ICE_CANDIDATE_TYPE_HOST, endpoint = ep\<rparr>]\<rparr>)),
      iceAddServerReflexiveCandidate = (\<lambda>ep x. (ICE_RESULT_OTHER, x)), iceAddRelayCandidate = (\<lambda>ep u p x. (ICE_RESULT_OTHER, x)),
      iceAddRemoteCandidate = (\<lambda>cand x. (ICE_RESULT_OK, x)),
      iceCreateNextCandidateRequest = (\<lambda>n t x. (ICE_RESULT_OTHER, [], x)), iceCreateNextPairRequest = (\<lambda>n t x. (ICE_RESULT_OTHER, [], x)),
      iceCreateResponseForRequest = (\<lambda>n b x. (ICE_RESULT_OTHER, [], x)), iceCreateTurnChannelDataMessage = (\<lambda>n b x. (ICE_RESULT_OTHER, [], x)),
      turnHeaderLength = 4, iceHandleStunPacket = (\<lambda>b n ep t x. (ICE_HANDLE_STUN_PACKET_RESULT_ONLY_LOGGED, [], None, x)),
      iceHandleTurnPacket = (\<lambda>b n x. (ICE_RESULT_OTHER, 0, 0, None, x)), iceGetCandidatePairCount = (\<lambda>x. (ICE_RESULT_OK, 0)),
      iceCloseCandidate = (\<lambda>n x. x), iceCloseCandidatePair = (\<lambda>n x. (ICE_RESULT_OK, x))\<rparr>"

definition demo_os :: "unit net_os" where
  "demo_os =
     \<lparr>osSocket = (\<lambda>fam fds w. (0, w)), osBind = (\<lambda>fd ep w. (True, w)), osGetsockname = (\<lambda>fd w. (Some 50000, w)),
      osSendto = (\<lambda>fd b ep w. (Sent (length b), w)), osRecvfrom = (\<lambda>fd n w. (RecvAgain, w)), osSelect = (\<lambda>fds w. (Some [], w)),
      osGetaddrinfo = (\<lambda>n w. (None, w)),
      osGetifaddrs = (\<lambda>w. ([\<lparr>ifaIsInet = True, ifaAddr = [192, 168, 0, 2], ifaLoopback = False, ifaPointToPoint = False\<rparr>], w)),
      osTimeUs = (\<lambda>w. 1000000), inetNtopOk = (\<lambda>b. True), tlsConnect = (\<lambda>ep p pem fds w. (TLS_TRANSPORT_OTHER, 0, w)),
      tlsContinueHandshake = (\<lambda>fd w. (TLS_TRANSPORT_OTHER, w)), tlsSend = (\<lambda>fd b w. (SendFailed, w)), tlsRecv = (\<lambda>fd n w. (None, w))\<rparr>"

definition demo_timers :: timer_os where
  "demo_timers = \<lparr>create_ok = True, settime_ok = True, gettime = Some, stack_its = \<lparr>it_value = ms_timespec 0, it_interval = ms_timespec 0\<rparr>\<rparr>"

definition demo_sdp :: sdp_quick_access where
  "demo_sdp = \<lparr>sdpIceUfrag = Some ''peer'', sdpIcePwd = ''secret'', sdpFingerprint = ''AA:BB'', sdpDtlsRoleActive = True, sdpRemoteCandidates = []\<rparr>"

definition demo_media :: "unit pc_media" where
  "demo_media =
     \<lparr>mediaInit = (\<lambda>k m. (PEER_CONNECTION_RESULT_OK, m)), mediaDeInit = (\<lambda>m. Some (PEER_CONNECTION_RESULT_OK, m)),
      mediaSrtp = (\<lambda>b m. MediaReturn PEER_CONNECTION_RESULT_OK m), mediaSrtcp = (\<lambda>b m. MediaReturn PEER_CONNECTION_RESULT_OK m),
      mediaTransmit = (\<lambda>m. True), mediaAudioClockRate = (\<lambda>m. 48000), mediaVideoClockRate = (\<lambda>m. 90000),
      mediaSenderReport = (\<lambda>r m. (PEER_CONNECTION_RESULT_OK, [128, 200], m)), mediaPayloadTypes = (\<lambda>q m. (PEER_CONNECTION_RESULT_OK, m)),
      mediaRtpInit = True, mediaRtcpInit = True, mediaRemoteDescription = (\<lambda>q m. m)\<rparr>"

definition demo_transceiver :: Transceiver where
  "demo_transceiver =
     \<lparr>trackKind = TRANSCEIVER_TRACK_KIND_VIDEO, direction = TRANSCEIVER_TRACK_DIRECTION_SENDRECV, codecBitMap = 1, rollingbufferDurationSec = 3,
      rollingbufferBitRate = 1000000, ssrc = 1, rtxSsrc = 2, rtpPacketsTransmitted = 0, rtpBytesTransmitted = 0, rtpTimeOffset = 0,
      rtpFirstFrameWallClockTimeUs = 0\<rparr>"

definition demo_pc_env :: "(unit, nat, unit, unit) pc_env" where
  "demo_pc_env =
     \<lparr>pcIce = demo_ice_lib, pcOs = demo_os, pcTimers = demo_timers, pcMbed = demo_mbedtls, pcSslZero = 0, pcStack = [],
      pcCredentials = \<lparr>pClientCert = Some [1], pPrivateKey = Some [2]\<rparr>, pcRand = (\<lambda>w. (7, w)), pcCandidateReady = None,
      pcTransceiver = (\<lambda>a w. demo_transceiver), pcSetSsrc = (\<lambda>a x y w. w), pcEvent = (\<lambda>a ev w. w), pcMedia = demo_media,
      pcDeserializeSdp = (\<lambda>s. (PEER_CONNECTION_RESULT_OK, demo_sdp)), pcParseCandidate = (\<lambda>s. Some (ICE_CONTROLLER_RESULT_OK, None)),
      pcLocalUserName = ''local'', pcBarrierOk = True\<rparr>"

definition demo_pc_start :: "(unit, nat, unit, unit) pc_ctx" where
  "demo_pc_start =
     (let h = \<lparr>timerId = None, onTimerExpire = ()\<rparr>
      in \<lparr>state = ICE_CONTROLLER_STATE_NONE, iceContext = \<lparr>localCandidates = [], remoteCandidates = [], candidatePairs = [], iceRest = ()\<rparr>,
          natTraversalConfigBitmap = 0, iceServers = [], rootCaPath = [], rootCaPem = [],
          metrics = \<lparr>pendingSrflxCandidateNum = 0, pendingRelayCandidateNum = 0, isFirstConnectivityRequest = False, printCandidatePairsStatusMs = 0\<rparr>,
          timerHandler = h, timerIntervalMs = 0, executeSocketListener = False, socketsContexts = [], socketsContextsCount = 0,
          pNominatedSocketContext = None, localEndpoints = [], candidateFoundationCounter = 0, connectivityCheckTimeoutMs = 0,
          addLocalCandidates = False, openFds = [], strayCloses = [],
          world = \<lparr>sessionState = PEER_CONNECTION_SESSION_STATE_NONE, requestQueue = \<lparr>mq_maxmsg = 10, mq_msgs = []\<rparr>, startupBarrier = 0,
            remoteUserName = [], remotePassword = [], combinedName = [], remoteCertFingerprint = [], remoteCertFingerprintLength = 0,
            xDtlsNetworkContext = \<lparr>dtlsState = DTLS_STATE_NONE, pParams = None\<rparr>,
            dtlsKeyingMaterial = \<lparr>clientWriteKey = [], serverWriteKey = [], key_length = 0, srtpProfile = KVS_SRTP_PROFILE_AES128_CM_HMAC_SHA1_80\<rparr>,
            dtlsIsServer = False, pTransceivers = [], transceiverCount = 0, mLinesTransceiverCount = 0, rtcpAudioSenderReportTimer = h,
            rtcpVideoSenderReportTimer = h, closeSessionTimer = h, dtlsHandshakingTimeoutMs = 0, inactiveConnectionTimeoutMs = 0,
            media = (), outer = ()\<rparr>\<rparr>)"

text \<open>The run: set-up, one transceiver, start, the description of the peer and the first request (which gathers the
  host candidate).\<close>

definition demo_pc0 :: "PeerConnectionResult \<times> (unit, nat, unit, unit) pc_ctx" where
  "demo_pc0 = PeerConnection_Init demo_pc_env \<lparr>initCertificate = True, initQueue = True, initSrtpMutex = True, initBarrier = True,
     initTask = True, initSocketMutex = True, initIceMutex = True, initListener = True\<rparr> ()
     (Some \<lparr>cfgNatTraversal = NAT_SEND_HOST, cfgIceServers = [], cfgRootCaPath = [], cfgRootCaPem = []\<rparr>) demo_pc_start"

definition demo_pc1 :: "(unit, nat, unit, unit) pc_ctx" where
  "demo_pc1 = snd (PeerConnection_Start (snd (PeerConnection_AddTransceiver demo_pc_env 5 (snd demo_pc0))))"

definition demo_pc2 :: "(PeerConnectionResult \<times> (unit, nat, unit, unit) pc_ctx) option" where
  "demo_pc2 = PeerConnection_SetRemoteDescription demo_pc_env (Some ''sdp'') demo_pc1"

definition demo_pc3 :: "(bool \<times> (unit, nat, unit, unit) pc_ctx) option" where
  "demo_pc3 = session_iteration demo_pc_env (snd (the demo_pc2))"
lemmas demo_env_defs =
  demo_pc_env_def demo_ice_lib_def demo_os_def demo_timers_def demo_sdp_def demo_media_def session_env_def inner_env_def session_os_def lift_os_def

lemmas pc_init_defs =
  PeerConnection_Init_def InitializeIceController_def IceController_Init_def PeerConnection_AddIceServerConfig_def
  IceController_AddIceServerConfig_def IceControllerSocketListener_Init_def IceController_UpdateState_def upd_metrics_def
  zero_context_def zero_session_def zero_sock_def create_timers_def TimerController_Create_def set_session_state_def

lemmas pc_start_defs =
  PeerConnection_Start_def PeerConnection_AddTransceiver_def AllocateTransceiver_def PeerConnection_SetRemoteDescription_def
  InitDtlsSession_def store_remote_def start_connection_def IceController_Start_def OnTimerExpire_def timer_event_def notify_def
  HandleIceEventCallback_def queued_event_def OnIceEventProcessIceCandidatesAndPairs_def queue_event_def SendPeerConnectionEvent_def
  MessageQueue_IsFull_def MessageQueue_Send_def IceControllerSocketListener_StartPolling_def signal_barrier_def put_dtls_def

lemma EmptyMessageQueue_empty: "mq_msgs q = [] \<Longrightarrow> EmptyMessageQueue q = q"
  by (simp add: EmptyMessageQueue.simps MessageQueue_IsEmpty_def)

lemma close_none: "\<forall>i \<in> set js. socketFd (sock c i) = -1 \<Longrightarrow> fold (close_if_open env) js c = c"
  by (induction js) (auto simp: close_if_open_def)

lemma demo_dtls_init:
  "DTLS_Init demo_mbedtls (Some \<lparr>dtlsState = st, pParams = Some p\<rparr>) (Some \<lparr>pClientCert = Some [1], pPrivateKey = Some [2]\<rparr>) b
    = (DTLS_SUCCESS, Some \<lparr>dtlsState = DTLS_STATE_HANDSHAKING, pParams = Some (p\<lparr>sslContext := 0\<rparr>)\<rparr>)"
  by (simp add: DTLS_Init_def demo_mbedtls_def initMbedtls_def dtlsSetup_def setCredentials_def Let_def)

lemmas demo_steps =
  demo_pc_start_def pc_init_defs demo_env_defs pc_start_defs EmptyMessageQueue_empty close_none demo_dtls_init pc_now_ms_def now_ms_def
  PEER_CONNECTION_SDP_DESCRIPTION_BUFFER_MAX_LENGTH_def PEER_CONNECTION_USER_NAME_LENGTH_def PEER_CONNECTION_PASSWORD_LENGTH_def
  CERTIFICATE_FINGERPRINT_LENGTH_def PEER_CONNECTION_TRANSCEIVER_MAX_COUNT_def PEER_CONNECTION_MAX_QUEUE_MSG_NUM_def

lemma demo_pc2_run: "demo_pc2 \<noteq> None"
  by (simp add: demo_pc2_def demo_pc1_def demo_pc0_def demo_steps Let_def)

lemma demo_pc0_ok: "fst demo_pc0 = PEER_CONNECTION_RESULT_OK"
  by (simp add: demo_pc0_def demo_steps Let_def)

lemmas host_defs =
  AddHostCandidate_def CreateSocketContext_def CreateSocketContextUdp_def open_fd_def upd_sock_def announce_def notify_def
  HandleIceEventCallback_def queued_event_def LocalCandidateReady_def IceControllerNet_UpdateSocketContext_def last_candidate_def lowest_free_def

lemma slots_pos: "0 < ICE_CONTROLLER_MAX_LOCAL_CANDIDATE_COUNT" "[0..<ICE_CONTROLLER_MAX_LOCAL_CANDIDATE_COUNT] = 0 # 1 # [2..<ICE_CONTROLLER_MAX_LOCAL_CANDIDATE_COUNT]"
  by (simp_all add: ICE_CONTROLLER_MAX_LOCAL_CANDIDATE_COUNT_def upt_conv_Cons numeral_2_eq_2)

lemma demo_host:
  assumes "openFds c = []" "socketsContextsCount c = 0" "length (socketsContexts c) = ICE_CONTROLLER_MAX_LOCAL_CANDIDATE_COUNT"
    "localEndpoints c = [ep]" "epFamily ep = STUN_ADDRESS_IPv4"
  shows "\<exists>c'. AddHostCandidate (session_env demo_pc_env) 0 c = Some c' \<and> openFds c' = [0] \<and> socketsContextsCount c' = 1
    \<and> natTraversalConfigBitmap c' = natTraversalConfigBitmap c \<and> candidatePairs (iceContext c') = candidatePairs (iceContext c)
    \<and> sockState (sock c' 0) = ICE_CONTROLLER_SOCKET_CONTEXT_STATE_READY \<and> sessionState (world c') = sessionState (world c) \<and> connectivityCheckTimeoutMs c' = connectivityCheckTimeoutMs c"
  using assms slots_pos(1) by (simp add: host_defs demo_env_defs Let_def)

lemma demo_gather:
  assumes "openFds c = []" "socketsContextsCount c = 0" "length (socketsContexts c) = ICE_CONTROLLER_MAX_LOCAL_CANDIDATE_COUNT"
    "natTraversalConfigBitmap c = NAT_SEND_HOST" "candidatePairs (iceContext c) = []"
  shows "\<exists>c'. IceControllerNet_AddLocalCandidates (session_env demo_pc_env) c = Some c' \<and> openFds c' = [0] \<and> socketsContextsCount c' = 1
    \<and> candidatePairs (iceContext c') = []
    \<and> sockState (sock c' 0) = ICE_CONTROLLER_SOCKET_CONTEXT_STATE_READY \<and> sessionState (world c') = sessionState (world c) \<and> connectivityCheckTimeoutMs c' = connectivityCheckTimeoutMs c"
proof -
  let ?ep = "zero_endpoint\<lparr>epFamily := STUN_ADDRESS_IPv4, epAddress := [192, 168, 0, 2] @ drop (Suc (Suc (Suc (Suc 0)))) (epAddress zero_endpoint), isPointToPoint := False\<rparr>"
  let ?d = "c\<lparr>world := (world c)\<lparr>outer := ()\<rparr>, localEndpoints := [?ep]\<rparr>"
  obtain c' where c': "AddHostCandidate (session_env demo_pc_env) 0 ?d = Some c'" "openFds c' = [0]" "socketsContextsCount c' = 1"
     "natTraversalConfigBitmap c' = NAT_SEND_HOST" "candidatePairs (iceContext c') = []"
     "sockState (sock c' 0) = ICE_CONTROLLER_SOCKET_CONTEXT_STATE_READY" "sessionState (world c') = sessionState (world c)"
     "connectivityCheckTimeoutMs c' = connectivityCheckTimeoutMs c"
    using demo_host [of ?d ?ep] assms by auto
  have "osGetifaddrs (os (session_env demo_pc_env)) (world c)
      = ([\<lparr>ifaIsInet = True, ifaAddr = [192, 168, 0, 2], ifaLoopback = False, ifaPointToPoint = False\<rparr>], (world c)\<lparr>outer := ()\<rparr>)"
    by (simp add: demo_env_defs)
  then have "IceControllerNet_AddLocalCandidates (session_env demo_pc_env) c = Some c'"
    using c' assms slots_pos(1)
    by (simp add: Let_def IceControllerNet_AddLocalCandidates_def ICE_CONTROLLER_IS_NAT_CONFIG_SET_def NAT_SEND_HOST_def NAT_SEND_SRFLX_def NAT_SEND_RELAY_def)
  with c' show ?thesis by auto
qed

lemma demo_process:
  assumes "socketsContextsCount c = 1" "candidatePairs (iceContext c) = []" "sockState (sock c 0) = ICE_CONTROLLER_SOCKET_CONTEXT_STATE_READY"
  shows "\<exists>c'. (ProcessCandidatePairs (session_env demo_pc_env) c \<bind> ProcessLocalCandidates (session_env demo_pc_env)) = Some c'
    \<and> openFds c' = openFds c \<and> sessionState (world c') = sessionState (world c) \<and> connectivityCheckTimeoutMs c' = connectivityCheckTimeoutMs c"
proof -
  have env: "iceMutexOk (session_env demo_pc_env)" "iceCreateNextCandidateRequest (lib (session_env demo_pc_env)) l t x = (ICE_RESULT_OTHER, [], x)"
    "iceGetCandidatePairCount (lib (session_env demo_pc_env)) x = (ICE_RESULT_OK, 0)" for l t x
    by (simp_all add: demo_env_defs)
  show ?thesis
    using assms by (auto simp: ProcessCandidatePairs_def ProcessLocalCandidates_def slots_pos(2) upd_metrics_def env Let_def split: option.splits)
qed

lemma timer_interval_same:
  "openFds (IceController_UpdateTimerInterval env ms c) = openFds c" "world (IceController_UpdateTimerInterval env ms c) = world c"
  by (simp_all add: IceController_UpdateTimerInterval_def Let_def split: prod.splits)

lemma demo_pc3_run: "\<exists>b c. demo_pc3 = Some (b, c) \<and> openFds c = [0]"
proof -
  define c where "c = snd (the demo_pc2)"
  have c: "openFds c = []" "socketsContextsCount c = 0" "length (socketsContexts c) = ICE_CONTROLLER_MAX_LOCAL_CANDIDATE_COUNT"
    "natTraversalConfigBitmap c = NAT_SEND_HOST" "candidatePairs (iceContext c) = []" "addLocalCandidates c"
    "mq_msgs (requestQueue (world c)) = [PEER_CONNECTION_SESSION_REQUEST_TYPE_PROCESS_ICE_CANDIDATES_AND_PAIRS]"
    "sessionState (world c) = PEER_CONNECTION_SESSION_STATE_FIND_CONNECTION" "connectivityCheckTimeoutMs c = 13000"
    by (simp_all add: c_def demo_pc2_def demo_pc1_def demo_pc0_def demo_steps ICE_CONTROLLER_CONNECTIVITY_CHECK_TIMEOUT_MS_def Let_def)
  let ?e = "c\<lparr>world := (world c)\<lparr>requestQueue := (requestQueue (world c))\<lparr>mq_msgs := []\<rparr>\<rparr>\<rparr>"
  let ?d = "?e\<lparr>addLocalCandidates := False\<rparr>"
  obtain c1 where c1: "IceControllerNet_AddLocalCandidates (session_env demo_pc_env) ?d = Some c1" "openFds c1 = [0]" "socketsContextsCount c1 = 1"
    "candidatePairs (iceContext c1) = []" "sockState (sock c1 0) = ICE_CONTROLLER_SOCKET_CONTEXT_STATE_READY"
    "sessionState (world c1) = PEER_CONNECTION_SESSION_STATE_FIND_CONNECTION" "connectivityCheckTimeoutMs c1 = 13000"
    using demo_gather [of ?d] c by auto
  obtain c2 where c2: "(ProcessCandidatePairs (session_env demo_pc_env) c1 \<bind> ProcessLocalCandidates (session_env demo_pc_env)) = Some c2"
    "openFds c2 = [0]" "sessionState (world c2) = PEER_CONNECTION_SESSION_STATE_FIND_CONNECTION" "connectivityCheckTimeoutMs c2 = 13000"
    using demo_process [of c1] c1 by auto
  have "now_ms (session_env demo_pc_env) c = 1000" for c by (simp add: now_ms_def demo_env_defs)
  then have "\<exists>r c3. IceController_ProcessIceCandidatesAndPairs (session_env demo_pc_env) ?e = Some (r, c3) \<and> openFds c3 = [0]
    \<and> sessionState (world c3) = PEER_CONNECTION_SESSION_STATE_FIND_CONNECTION"
    using c(6) c1 c2
    by (auto simp: IceController_ProcessIceCandidatesAndPairs_def Let_def timer_interval_same upd_metrics_def split: bind_splits)
  then show ?thesis using c
    by (auto simp: demo_pc3_def session_iteration_def HandleRequest_def MessageQueue_Recv_def handle_message_def HandleProcessIceCandidatesAndPairs_def
      c_def [symmetric])
qed

lemma demo_reach: "session_reach demo_pc_env (snd (the demo_pc3))"
proof -
  have e: "demo_pc0 = (PEER_CONNECTION_RESULT_OK, snd demo_pc0)" by (metis demo_pc0_ok prod.collapse)
  have "session_reach demo_pc_env (snd demo_pc0)"
    unfolding demo_pc0_def by (rule session_reach.init [OF e [unfolded demo_pc0_def]]) (simp add: demo_pc_start_def Let_def)
  then have "session_reach demo_pc_env demo_pc1"
    unfolding demo_pc1_def by (metis prod.collapse session_reach.add_transceiver session_reach.start)
  then have "session_reach demo_pc_env (snd (the demo_pc2))"
    using demo_pc2_run session_reach.remote_description [of demo_pc_env demo_pc1 "Some ''sdp''"] by (auto simp: demo_pc2_def)
  then show ?thesis
    using demo_pc3_run session_reach.request [of demo_pc_env "snd (the demo_pc2)"] by (auto simp: demo_pc3_def)
qed

section \<open>Properties\<close>



end
