(* ===== verification/Sdp_Data.thy ===== *)
theory Sdp_Data
  imports String_Utils "HOL-Library.Monad_Syntax"
begin

text \<open>
  The data of the SDP controller (\<open>sdp_controller/sdp_controller_data_types.h\<close>) and the names and values of
  attributes that it knows (\<open>sdp_controller/sdp_controller.c\<close>).  A pointer with a length is the text it
  points to, \<open>None\<close> for NULL where the code tests for it; texts contain no NUL.  An array with a counter is
  the list of the entries before the counter; an access behind the array has no outcome (\<open>None\<close>).
\<close>

section \<open>Limits and results\<close>

definition SDP_CONTROLLER_MAX_SDP_ATTRIBUTES_COUNT :: nat where "SDP_CONTROLLER_MAX_SDP_ATTRIBUTES_COUNT = 255"
definition SDP_CONTROLLER_MAX_SDP_MEDIA_DESCRIPTIONS_COUNT :: nat where "SDP_CONTROLLER_MAX_SDP_MEDIA_DESCRIPTIONS_COUNT = 5"

datatype SdpControllerResult =
    SDP_CONTROLLER_RESULT_OK
  | SDP_CONTROLLER_RESULT_BAD_PARAMETER
  | SDP_CONTROLLER_RESULT_SDP_FAIL_DESERIALIZER_INIT
  | SDP_CONTROLLER_RESULT_SDP_FAIL_DESERIALIZER_PARSE_ATTRIBUTE
  | SDP_CONTROLLER_RESULT_SDP_FAIL_SERIALIZER_INIT
  | SDP_CONTROLLER_RESULT_SDP_FAIL_SERIALIZER_ADD
  | SDP_CONTROLLER_RESULT_SDP_FAIL_SNPRINTF
  | SDP_CONTROLLER_RESULT_SDP_FAIL_NO_FINGERPRINT_FOUND
  | SDP_CONTROLLER_RESULT_SDP_FAIL_NO_ICE_UFRAG_FOUND
  | SDP_CONTROLLER_RESULT_SDP_FAIL_NO_ICE_PWD_FOUND
  | SDP_CONTROLLER_RESULT_SDP_FAIL_CODEC_NOT_SUPPORT
  | SDP_CONTROLLER_RESULT_SDP_FAIL_ADD_SESSION_ATTRIBUTE_GROUP
  | SDP_CONTROLLER_RESULT_SDP_FAIL_ADD_SESSION_ATTRIBUTE_ICE_OPTIONS
  | SDP_CONTROLLER_RESULT_SDP_FAIL_ADD_SESSION_ATTRIBUTE_MSID_SEMANTIC
  | SDP_CONTROLLER_RESULT_SDP_SESSION_ATTRIBUTE_MAX_EXCEDDED
  | SDP_CONTROLLER_RESULT_SDP_MEDIA_ATTRIBUTE_MAX_EXCEDDED
  | SDP_CONTROLLER_RESULT_SDP_INVALID_VERSION
  | SDP_CONTROLLER_RESULT_SDP_INVALID_TWCC_ID
  | SDP_CONTROLLER_RESULT_SDP_CONVERTED_BUFFER_TOO_SMALL
  | SDP_CONTROLLER_RESULT_SDP_POPULATE_BUFFER_TOO_SMALL

datatype SdpControllerDtlsRole =
    SDP_CONTROLLER_DTLS_ROLE_NONE
  | SDP_CONTROLLER_DTLS_ROLE_ACTIVE
  | SDP_CONTROLLER_DTLS_ROLE_ACTPASS

section \<open>Descriptions\<close>

record SdpControllerConnectionInformation =
  pNetworkType :: string
  pAddressType :: string
  pConnectionAddress :: string

record SdpControllerOrigin =
  pUserName :: string
  sessionId :: u64
  sessionVersion :: u64
  sdpConnectionInformation :: SdpControllerConnectionInformation

record SdpControllerTiming =
  startTime :: u64
  stopTime :: u64

record SdpControllerAttributes =
  pAttributeName :: string
  pAttributeValue :: "string option"

record SdpControllerMediaDescription =
  pMediaName :: string
  pMediaTitle :: "string option"
  mediaConnection :: SdpControllerConnectionInformation
  mediaAttributes :: "SdpControllerAttributes list"

record SdpControllerQuickAccess =
  pFingerprint :: "string option"
  dtlsRole :: SdpControllerDtlsRole
  isIceTrickle :: bool
  pIceUfrag :: "string option"
  pIcePwd :: "string option"
  twccExtId :: u32
  isVideoCodecPayloadSet :: bool
  isAudioCodecPayloadSet :: bool
  videoCodecPayload :: u32
  audioCodecPayload :: u32
  videoCodecRtxPayload :: u32
  audioCodecRtxPayload :: u32
  videoSsrc :: u32
  audioSsrc :: u32
  pRemoteCandidates :: "string option list"

record SdpControllerSdpDescription =
  sdpVersion :: u32
  origin :: SdpControllerOrigin
  pSessionName :: string
  pSessionInformation :: string
  pUri :: string
  pEmailAddress :: string
  pPhoneNumber :: string
  timingDescription :: SdpControllerTiming
  sessionAttributes :: "SdpControllerAttributes list"
  mediaDescriptions :: "SdpControllerMediaDescription list"
  quickAccess :: SdpControllerQuickAccess

text \<open>After \<open>memset\<close>.\<close>

definition zero_connection :: SdpControllerConnectionInformation where
  "zero_connection = \<lparr>pNetworkType = [], pAddressType = [], pConnectionAddress = []\<rparr>"

definition zero_media :: SdpControllerMediaDescription where
  "zero_media = \<lparr>pMediaName = [], pMediaTitle = None, mediaConnection = zero_connection, mediaAttributes = []\<rparr>"

definition zero_description :: SdpControllerSdpDescription where
  "zero_description =
     \<lparr>sdpVersion = 0, origin = \<lparr>pUserName = [], sessionId = 0, sessionVersion = 0, sdpConnectionInformation = zero_connection\<rparr>,
      pSessionName = [], pSessionInformation = [], pUri = [], pEmailAddress = [], pPhoneNumber = [],
      timingDescription = \<lparr>startTime = 0, stopTime = 0\<rparr>, sessionAttributes = [], mediaDescriptions = [],
      quickAccess = \<lparr>pFingerprint = None, dtlsRole = SDP_CONTROLLER_DTLS_ROLE_NONE, isIceTrickle = False, pIceUfrag = None, pIcePwd = None,
        twccExtId = 0, isVideoCodecPayloadSet = False, isAudioCodecPayloadSet = False, videoCodecPayload = 0, audioCodecPayload = 0,
        videoCodecRtxPayload = 0, audioCodecRtxPayload = 0, videoSsrc = 0, audioSsrc = 0, pRemoteCandidates = []\<rparr>\<rparr>"

section \<open>Names and values\<close>

abbreviation SDP_CONTROLLER_MEDIA_ATTRIBUTE_NAME_SETUP :: string where "SDP_CONTROLLER_MEDIA_ATTRIBUTE_NAME_SETUP \<equiv> ''setup''"
abbreviation SDP_CONTROLLER_MEDIA_DTLS_ROLE_ACTIVE :: string where "SDP_CONTROLLER_MEDIA_DTLS_ROLE_ACTIVE \<equiv> ''active''"
abbreviation SDP_CONTROLLER_MEDIA_DTLS_ROLE_ACTPASS :: string where "SDP_CONTROLLER_MEDIA_DTLS_ROLE_ACTPASS \<equiv> ''actpass''"
abbreviation SDP_CONTROLLER_MEDIA_ATTRIBUTE_NAME_MSID :: string where "SDP_CONTROLLER_MEDIA_ATTRIBUTE_NAME_MSID \<equiv> ''msid''"
abbreviation SDP_CONTROLLER_MEDIA_ATTRIBUTE_NAME_RTCP :: string where "SDP_CONTROLLER_MEDIA_ATTRIBUTE_NAME_RTCP \<equiv> ''rtcp''"
abbreviation SDP_CONTROLLER_MEDIA_ATTRIBUTE_VALUE_RTCP :: string where "SDP_CONTROLLER_MEDIA_ATTRIBUTE_VALUE_RTCP \<equiv> ''9 IN IP4 0.0.0.0''"
abbreviation SDP_CONTROLLER_MEDIA_ATTRIBUTE_NAME_ICE_UFRAG :: string where "SDP_CONTROLLER_MEDIA_ATTRIBUTE_NAME_ICE_UFRAG \<equiv> ''ice-ufrag''"
abbreviation SDP_CONTROLLER_MEDIA_ATTRIBUTE_NAME_ICE_PWD :: string where "SDP_CONTROLLER_MEDIA_ATTRIBUTE_NAME_ICE_PWD \<equiv> ''ice-pwd''"
abbreviation SDP_CONTROLLER_MEDIA_ATTRIBUTE_NAME_ICE_OPTION :: string where "SDP_CONTROLLER_MEDIA_ATTRIBUTE_NAME_ICE_OPTION \<equiv> ''ice-options''"
abbreviation SDP_CONTROLLER_MEDIA_ATTRIBUTE_VALUE_ICE_OPTION :: string where "SDP_CONTROLLER_MEDIA_ATTRIBUTE_VALUE_ICE_OPTION \<equiv> ''trickle''"
abbreviation SDP_CONTROLLER_MEDIA_ATTRIBUTE_NAME_FINGERPRINT :: string where "SDP_CONTROLLER_MEDIA_ATTRIBUTE_NAME_FINGERPRINT \<equiv> ''fingerprint''"
abbreviation SDP_CONTROLLER_MEDIA_ATTRIBUTE_NAME_SSRC :: string where "SDP_CONTROLLER_MEDIA_ATTRIBUTE_NAME_SSRC \<equiv> ''ssrc''"
abbreviation SDP_CONTROLLER_MEDIA_ATTRIBUTE_NAME_SSRC_GROUP :: string where "SDP_CONTROLLER_MEDIA_ATTRIBUTE_NAME_SSRC_GROUP \<equiv> ''ssrc-group''"
abbreviation SDP_CONTROLLER_MEDIA_ATTRIBUTE_NAME_MID :: string where "SDP_CONTROLLER_MEDIA_ATTRIBUTE_NAME_MID \<equiv> ''mid''"
abbreviation SDP_CONTROLLER_MEDIA_ATTRIBUTE_NAME_SENDRECV :: string where "SDP_CONTROLLER_MEDIA_ATTRIBUTE_NAME_SENDRECV \<equiv> ''sendrecv''"
abbreviation SDP_CONTROLLER_MEDIA_ATTRIBUTE_NAME_SENDONLY :: string where "SDP_CONTROLLER_MEDIA_ATTRIBUTE_NAME_SENDONLY \<equiv> ''sendonly''"
abbreviation SDP_CONTROLLER_MEDIA_ATTRIBUTE_NAME_RECVONLY :: string where "SDP_CONTROLLER_MEDIA_ATTRIBUTE_NAME_RECVONLY \<equiv> ''recvonly''"
abbreviation SDP_CONTROLLER_MEDIA_ATTRIBUTE_NAME_INACTIVE :: string where "SDP_CONTROLLER_MEDIA_ATTRIBUTE_NAME_INACTIVE \<equiv> ''inactive''"
abbreviation SDP_CONTROLLER_MEDIA_ATTRIBUTE_NAME_RTCP_MUX :: string where "SDP_CONTROLLER_MEDIA_ATTRIBUTE_NAME_RTCP_MUX \<equiv> ''rtcp-mux''"
abbreviation SDP_CONTROLLER_MEDIA_ATTRIBUTE_NAME_RTCP_RSIZE :: string where "SDP_CONTROLLER_MEDIA_ATTRIBUTE_NAME_RTCP_RSIZE \<equiv> ''rtcp-rsize''"
abbreviation SDP_CONTROLLER_MEDIA_ATTRIBUTE_NAME_RTPMAP :: string where "SDP_CONTROLLER_MEDIA_ATTRIBUTE_NAME_RTPMAP \<equiv> ''rtpmap''"
abbreviation SDP_CONTROLLER_MEDIA_ATTRIBUTE_VALUE_RTPMAP_H264 :: string where "SDP_CONTROLLER_MEDIA_ATTRIBUTE_VALUE_RTPMAP_H264 \<equiv> ''H264/90000''"
abbreviation SDP_CONTROLLER_MEDIA_ATTRIBUTE_VALUE_RTPMAP_RTX_H264 :: string where "SDP_CONTROLLER_MEDIA_ATTRIBUTE_VALUE_RTPMAP_RTX_H264 \<equiv> ''rtx/90000''"
abbreviation SDP_CONTROLLER_MEDIA_ATTRIBUTE_VALUE_RTPMAP_OPUS :: string where "SDP_CONTROLLER_MEDIA_ATTRIBUTE_VALUE_RTPMAP_OPUS \<equiv> ''opus/48000/2''"
abbreviation SDP_CONTROLLER_MEDIA_ATTRIBUTE_VALUE_RTPMAP_VP8 :: string where "SDP_CONTROLLER_MEDIA_ATTRIBUTE_VALUE_RTPMAP_VP8 \<equiv> ''VP8/90000''"
abbreviation SDP_CONTROLLER_MEDIA_ATTRIBUTE_VALUE_RTPMAP_MULAW :: string where "SDP_CONTROLLER_MEDIA_ATTRIBUTE_VALUE_RTPMAP_MULAW \<equiv> ''PCMU/8000''"
abbreviation SDP_CONTROLLER_MEDIA_ATTRIBUTE_VALUE_RTPMAP_ALAW :: string where "SDP_CONTROLLER_MEDIA_ATTRIBUTE_VALUE_RTPMAP_ALAW \<equiv> ''PCMA/8000''"
abbreviation SDP_CONTROLLER_MEDIA_ATTRIBUTE_VALUE_RTPMAP_H265 :: string where "SDP_CONTROLLER_MEDIA_ATTRIBUTE_VALUE_RTPMAP_H265 \<equiv> ''H265/90000''"
abbreviation SDP_CONTROLLER_MEDIA_ATTRIBUTE_NAME_RTCP_FB :: string where "SDP_CONTROLLER_MEDIA_ATTRIBUTE_NAME_RTCP_FB \<equiv> ''rtcp-fb''"
abbreviation SDP_CONTROLLER_MEDIA_ATTRIBUTE_VALUE_RTCP_FB_VALUE :: string where "SDP_CONTROLLER_MEDIA_ATTRIBUTE_VALUE_RTCP_FB_VALUE \<equiv> ''nack''"
abbreviation SDP_CONTROLLER_MEDIA_ATTRIBUTE_VALUE_RTCP_FB_GOOG_REMB :: string where "SDP_CONTROLLER_MEDIA_ATTRIBUTE_VALUE_RTCP_FB_GOOG_REMB \<equiv> ''goog-remb''"
abbreviation SDP_CONTROLLER_MEDIA_ATTRIBUTE_NAME_FMTP :: string where "SDP_CONTROLLER_MEDIA_ATTRIBUTE_NAME_FMTP \<equiv> ''fmtp''"
abbreviation SDP_CONTROLLER_MEDIA_ATTRIBUTE_NAME_EXTMAP :: string where "SDP_CONTROLLER_MEDIA_ATTRIBUTE_NAME_EXTMAP \<equiv> ''extmap''"
abbreviation SDP_CONTROLLER_MEDIA_ATTRIBUTE_VALUE_TWCC_EXT_URL :: string where
  "SDP_CONTROLLER_MEDIA_ATTRIBUTE_VALUE_TWCC_EXT_URL \<equiv> ''http://www.ietf.org/id/draft-holmer-rmcat-transport-wide-cc-extensions-01''"
abbreviation SDP_CONTROLLER_MEDIA_ATTRIBUTE_VALUE_RTCP_FB_TRANSPORT_CC :: string where "SDP_CONTROLLER_MEDIA_ATTRIBUTE_VALUE_RTCP_FB_TRANSPORT_CC \<equiv> ''transport-cc''"
abbreviation SDP_CONTROLLER_MEDIA_ATTRIBUTE_NAME_CANDIDATE :: string where "SDP_CONTROLLER_MEDIA_ATTRIBUTE_NAME_CANDIDATE \<equiv> ''candidate''"
abbreviation SDP_CONTROLLER_MEDIA_ATTRIBUTE_VALUE_FINGERPRINT_PREFIX_LENGTH :: nat where "SDP_CONTROLLER_MEDIA_ATTRIBUTE_VALUE_FINGERPRINT_PREFIX_LENGTH \<equiv> 8"
abbreviation SDP_CONTROLLER_MEDIA_ATTRIBUTE_VALUE_FMTP_H264 :: string where
  "SDP_CONTROLLER_MEDIA_ATTRIBUTE_VALUE_FMTP_H264 \<equiv> ''level-asymmetry-allowed=1;packetization-mode=1;profile-level-id=42e01f''"
abbreviation SDP_CONTROLLER_MEDIA_ATTRIBUTE_VALUE_FMTP_OPUS :: string where "SDP_CONTROLLER_MEDIA_ATTRIBUTE_VALUE_FMTP_OPUS \<equiv> ''minptime=10;useinbandfec=1''"
abbreviation SDP_CONTROLLER_MEDIA_ATTRIBUTE_VALUE_FMTP_H265 :: string where
  "SDP_CONTROLLER_MEDIA_ATTRIBUTE_VALUE_FMTP_H265 \<equiv>
     ''profile-space=0;profile-id=0;tier-flag=0;level-id=0;interop-constraints=000000000000;sprop-vps=QAEMAf//AIAAAAMAAAMAAAMAAAMAALUCQA==;sprop-sps=QgEBAIAAAAMAAAMAAAMAAAMAAKACgIAtH+W1kkbQzkkktySqSfKSyA==;sprop-pps=RAHBpVgeSA==''"
abbreviation SDP_CONTROLLER_DATA_CHANNEL_ATTRIBUTE_NAME_MEDIA_NAME :: string where
  "SDP_CONTROLLER_DATA_CHANNEL_ATTRIBUTE_NAME_MEDIA_NAME \<equiv> ''application 9 UDP/DTLS/SCTP webrtc-datachannel''"
abbreviation SDP_CONTROLLER_DATA_CHANNEL_ATTRIBUTE_NAME_SCTP_PORT :: string where "SDP_CONTROLLER_DATA_CHANNEL_ATTRIBUTE_NAME_SCTP_PORT \<equiv> ''sctp-port''"
abbreviation SDP_CONTROLLER_DATA_CHANNEL_ATTRIBUTE_VALUE_SCTP_PORT :: string where "SDP_CONTROLLER_DATA_CHANNEL_ATTRIBUTE_VALUE_SCTP_PORT \<equiv> ''5000''"

end
