(* ===== verification/Sdp_Parse.thy ===== *)
theory Sdp_Parse
  imports Sdp_Data
begin

text \<open>
  Reading a session description: \<open>SdpController_DeserializeSdpMessage\<close> and its helpers in
  \<open>sdp_controller/sdp_controller.c\<close>.  The SDP library, which splits the text into typed lines and an
  attribute into name and value, is a record of its functions.
\<close>

section \<open>The SDP library\<close>

text \<open>The types of lines that the controller reads or writes.\<close>

datatype sdp_type =
    SDP_TYPE_VERSION
  | SDP_TYPE_ORIGINATOR
  | SDP_TYPE_SESSION_NAME
  | SDP_TYPE_SESSION_INFO
  | SDP_TYPE_URI
  | SDP_TYPE_EMAIL
  | SDP_TYPE_PHONE
  | SDP_TYPE_CONNINFO
  | SDP_TYPE_TIME_ACTIVE
  | SDP_TYPE_ATTRIBUTE
  | SDP_TYPE_MEDIA
  | SDP_TYPE_MEDIA_TITLE
  | SDP_TYPE_OTHER

text \<open>\<open>SdpDeserializer_GetNext\<close> gives the type of the next line, its value and the new state, or an error
  at the end; \<open>SdpDeserializer_ParseAttribute\<close> splits at the colon, and the value of an attribute without a colon
  is NULL.\<close>

record 'c sdp_deserializer =
  SdpDeserializer_Init :: "string \<Rightarrow> 'c option"
  SdpDeserializer_GetNext :: "'c \<Rightarrow> (sdp_type \<times> string \<times> 'c) option"
  SdpDeserializer_ParseAttribute :: "string \<Rightarrow> (string \<times> string option) option"

section \<open>Attributes\<close>

text \<open>Writing \<open>twccExtId\<close>; in the text of the attribute the URL follows the number.\<close>

definition parse_twcc ::
    "string \<Rightarrow> SdpControllerQuickAccess \<Rightarrow> (SdpControllerResult \<times> SdpControllerQuickAccess) option" where
  "parse_twcc val qa =
     (let url = SDP_CONTROLLER_MEDIA_ATTRIBUTE_VALUE_TWCC_EXT_URL; len = length val - length url
      in if drop len val = url
         then do {
           (r, out) \<leftarrow> StringUtils_ConvertStringToUl (Some val) len True;
           if r \<noteq> STRING_UTILS_RESULT_OK then Some (SDP_CONTROLLER_RESULT_SDP_INVALID_TWCC_ID, qa)
           else Some (SDP_CONTROLLER_RESULT_OK, qa\<lparr>twccExtId := the out\<rparr>)
         }
         else Some (SDP_CONTROLLER_RESULT_OK, qa))"

definition parse_extra ::
    "SdpControllerAttributes \<Rightarrow> SdpControllerQuickAccess \<Rightarrow> (SdpControllerResult \<times> SdpControllerQuickAccess) option" where
  "parse_extra a qa =
     (let name = pAttributeName a; pval = pAttributeValue a; val = (case pval of None \<Rightarrow> [] | Some v \<Rightarrow> v)
      in if name = SDP_CONTROLLER_MEDIA_ATTRIBUTE_NAME_FINGERPRINT \<and> length val > SDP_CONTROLLER_MEDIA_ATTRIBUTE_VALUE_FINGERPRINT_PREFIX_LENGTH
         then Some (SDP_CONTROLLER_RESULT_OK,
                qa\<lparr>pFingerprint := Some (drop SDP_CONTROLLER_MEDIA_ATTRIBUTE_VALUE_FINGERPRINT_PREFIX_LENGTH val)\<rparr>)
         else if name = SDP_CONTROLLER_MEDIA_ATTRIBUTE_NAME_SETUP
         then Some (SDP_CONTROLLER_RESULT_OK,
                qa\<lparr>dtlsRole := (if val = SDP_CONTROLLER_MEDIA_DTLS_ROLE_ACTIVE then SDP_CONTROLLER_DTLS_ROLE_ACTIVE else SDP_CONTROLLER_DTLS_ROLE_ACTPASS)\<rparr>)
         else if name = SDP_CONTROLLER_MEDIA_ATTRIBUTE_NAME_ICE_OPTION \<and> val = SDP_CONTROLLER_MEDIA_ATTRIBUTE_VALUE_ICE_OPTION
         then Some (SDP_CONTROLLER_RESULT_OK, qa\<lparr>isIceTrickle := True\<rparr>)
         else if name = SDP_CONTROLLER_MEDIA_ATTRIBUTE_NAME_ICE_UFRAG then Some (SDP_CONTROLLER_RESULT_OK, qa\<lparr>pIceUfrag := pval\<rparr>)
         else if name = SDP_CONTROLLER_MEDIA_ATTRIBUTE_NAME_ICE_PWD then Some (SDP_CONTROLLER_RESULT_OK, qa\<lparr>pIcePwd := pval\<rparr>)
         else if name = SDP_CONTROLLER_MEDIA_ATTRIBUTE_NAME_EXTMAP \<and> length val > length SDP_CONTROLLER_MEDIA_ATTRIBUTE_VALUE_TWCC_EXT_URL
         then parse_twcc val qa
         else if name = SDP_CONTROLLER_MEDIA_ATTRIBUTE_NAME_CANDIDATE
         then Some (SDP_CONTROLLER_RESULT_OK,
                if length (pRemoteCandidates qa) < SDP_CONTROLLER_MAX_SDP_ATTRIBUTES_COUNT
                then qa\<lparr>pRemoteCandidates := pRemoteCandidates qa @ [pval]\<rparr> else qa)
         else Some (SDP_CONTROLLER_RESULT_OK, qa))"

definition ParseExtraAttributes ::
    "SdpControllerSdpDescription \<Rightarrow> SdpControllerAttributes \<Rightarrow> (SdpControllerResult \<times> SdpControllerSdpDescription) option" where
  "ParseExtraAttributes d a = map_option (\<lambda>(r, qa). (r, d\<lparr>quickAccess := qa\<rparr>)) (parse_extra a (quickAccess d))"

text \<open>The attribute belongs to the last media description.\<close>

definition ParseMediaAttributes ::
    "'c sdp_deserializer \<Rightarrow> SdpControllerSdpDescription \<Rightarrow> string \<Rightarrow> (SdpControllerResult \<times> SdpControllerSdpDescription) option" where
  "ParseMediaAttributes lb d buf =
     (let i = length (mediaDescriptions d) - 1; md = mediaDescriptions d ! i
      in if length (mediaAttributes md) \<ge> SDP_CONTROLLER_MAX_SDP_ATTRIBUTES_COUNT
         then Some (SDP_CONTROLLER_RESULT_SDP_MEDIA_ATTRIBUTE_MAX_EXCEDDED, d)
         else (case SdpDeserializer_ParseAttribute lb buf of
                 None \<Rightarrow> Some (SDP_CONTROLLER_RESULT_SDP_FAIL_DESERIALIZER_PARSE_ATTRIBUTE, d)
               | Some (name, val) \<Rightarrow>
                   (let a = \<lparr>pAttributeName = name, pAttributeValue = val\<rparr>
                    in ParseExtraAttributes
                         (d\<lparr>mediaDescriptions := (mediaDescriptions d)[i := md\<lparr>mediaAttributes := mediaAttributes md @ [a]\<rparr>]\<rparr>) a)))"

definition ParseSessionAttributes ::
    "'c sdp_deserializer \<Rightarrow> SdpControllerSdpDescription \<Rightarrow> string \<Rightarrow> (SdpControllerResult \<times> SdpControllerSdpDescription) option" where
  "ParseSessionAttributes lb d buf =
     (if length (sessionAttributes d) \<ge> SDP_CONTROLLER_MAX_SDP_ATTRIBUTES_COUNT
      then Some (SDP_CONTROLLER_RESULT_SDP_SESSION_ATTRIBUTE_MAX_EXCEDDED, d)
      else (case SdpDeserializer_ParseAttribute lb buf of
              None \<Rightarrow> Some (SDP_CONTROLLER_RESULT_SDP_FAIL_DESERIALIZER_PARSE_ATTRIBUTE, d)
            | Some (name, val) \<Rightarrow>
                (let a = \<lparr>pAttributeName = name, pAttributeValue = val\<rparr>
                 in ParseExtraAttributes (d\<lparr>sessionAttributes := sessionAttributes d @ [a]\<rparr>) a)))"

section \<open>Lines\<close>

text \<open>The body of the loop.  The array of media descriptions is not checked: a line \<open>m=\<close> behind its last entry
  has no outcome.  A line end follows the version in the text.\<close>

definition parse_line ::
    "'c sdp_deserializer \<Rightarrow> sdp_type \<Rightarrow> string \<Rightarrow> SdpControllerSdpDescription \<Rightarrow> (SdpControllerResult \<times> SdpControllerSdpDescription) option" where
  "parse_line lb type val d =
     (let ok = (\<lambda>d'. Some (SDP_CONTROLLER_RESULT_OK, d'))
      in if type = SDP_TYPE_MEDIA
         then if length (mediaDescriptions d) < SDP_CONTROLLER_MAX_SDP_MEDIA_DESCRIPTIONS_COUNT
              then ok (d\<lparr>mediaDescriptions := mediaDescriptions d @ [zero_media\<lparr>pMediaName := val\<rparr>]\<rparr>)
              else None
         else if mediaDescriptions d \<noteq> []
         then if type = SDP_TYPE_ATTRIBUTE then ParseMediaAttributes lb d val
              else if type = SDP_TYPE_SESSION_INFO
              then (let i = length (mediaDescriptions d) - 1
                    in ok (d\<lparr>mediaDescriptions := (mediaDescriptions d)[i := (mediaDescriptions d ! i)\<lparr>pMediaTitle := Some val\<rparr>]\<rparr>))
              else ok d
         else if type = SDP_TYPE_SESSION_NAME then ok (d\<lparr>pSessionName := val\<rparr>)
         else if type = SDP_TYPE_SESSION_INFO then ok (d\<lparr>pSessionInformation := val\<rparr>)
         else if type = SDP_TYPE_URI then ok (d\<lparr>pUri := val\<rparr>)
         else if type = SDP_TYPE_EMAIL then ok (d\<lparr>pEmailAddress := val\<rparr>)
         else if type = SDP_TYPE_PHONE then ok (d\<lparr>pPhoneNumber := val\<rparr>)
         else if type = SDP_TYPE_VERSION
         then do {
           (r, out) \<leftarrow> StringUtils_ConvertStringToUl (Some (val @ [CHR 0x0D])) (length val) True;
           if r \<noteq> STRING_UTILS_RESULT_OK then Some (SDP_CONTROLLER_RESULT_SDP_INVALID_VERSION, d)
           else ok (d\<lparr>sdpVersion := the out\<rparr>)
         }
         else if type = SDP_TYPE_ATTRIBUTE then ParseSessionAttributes lb d val
         else ok d)"

partial_function (option) sdp_loop ::
    "'c sdp_deserializer \<Rightarrow> 'c \<Rightarrow> SdpControllerSdpDescription \<Rightarrow> (SdpControllerResult \<times> SdpControllerSdpDescription) option" where
  "sdp_loop lb ctx d =
     (case SdpDeserializer_GetNext lb ctx of
        None \<Rightarrow> Some (SDP_CONTROLLER_RESULT_OK, d)
      | Some (type, val, ctx') \<Rightarrow> do {
          (r, d') \<leftarrow> parse_line lb type val d;
          if r \<noteq> SDP_CONTROLLER_RESULT_OK then Some (r, d') else sdp_loop lb ctx' d'
        })"

definition SdpController_DeserializeSdpMessage ::
    "'c sdp_deserializer \<Rightarrow> string option \<Rightarrow> SdpControllerSdpDescription option
      \<Rightarrow> (SdpControllerResult \<times> SdpControllerSdpDescription option) option" where
  "SdpController_DeserializeSdpMessage lb pSdpContent pSdpDescription =
     (if pSdpContent = None \<or> pSdpDescription = None then Some (SDP_CONTROLLER_RESULT_BAD_PARAMETER, pSdpDescription)
      else (case SdpDeserializer_Init lb (the pSdpContent) of
              None \<Rightarrow> Some (SDP_CONTROLLER_RESULT_SDP_FAIL_DESERIALIZER_INIT, Some zero_description)
            | Some ctx \<Rightarrow> do {
                (r, d) \<leftarrow> sdp_loop lb ctx zero_description;
                Some (if r \<noteq> SDP_CONTROLLER_RESULT_OK then r
                      else if pFingerprint (quickAccess d) = None then SDP_CONTROLLER_RESULT_SDP_FAIL_NO_FINGERPRINT_FOUND
                      else if pIceUfrag (quickAccess d) = None then SDP_CONTROLLER_RESULT_SDP_FAIL_NO_ICE_UFRAG_FOUND
                      else if pIcePwd (quickAccess d) = None then SDP_CONTROLLER_RESULT_SDP_FAIL_NO_ICE_PWD_FOUND
                      else SDP_CONTROLLER_RESULT_OK, Some d)
              }))"

end
