(* ===== verification/Sdp_Populate.thy ===== *)
theory Sdp_Populate
  imports Sdp_Data Srtp_Session
begin

text \<open>
  Composing a local session description: the functions of \<open>sdp_controller/sdp_controller.c\<close> that fill in a media
  description and the session part.  Attribute values are printed one behind the other into a buffer of the
  caller; the number is the room that is left.
\<close>

section \<open>Printing into the buffer\<close>

text \<open>\<open>snprintf\<close> with the room that is left: text as long as the room is an error.  Longer text is not caught: the
  room wraps around and the next text is written behind the buffer, which has no outcome.\<close>

definition sdp_print :: "string \<Rightarrow> nat \<Rightarrow> nat option option" where
  "sdp_print txt room = (if length txt = room then Some None else if length txt > room then None else Some (Some (room - length txt)))"

record pop_state =
  popRoom :: nat
  popMedia :: SdpControllerMediaDescription

type_synonym pop_result = "(SdpControllerResult \<times> pop_state) option"

text \<open>The next entry of the array of attributes.\<close>

definition push_attribute :: "string \<Rightarrow> string option \<Rightarrow> pop_state \<Rightarrow> pop_result" where
  "push_attribute name val st =
     (if length (mediaAttributes (popMedia st)) < SDP_CONTROLLER_MAX_SDP_ATTRIBUTES_COUNT
      then Some (SDP_CONTROLLER_RESULT_OK,
             st\<lparr>popMedia := (popMedia st)\<lparr>mediaAttributes := mediaAttributes (popMedia st) @ [\<lparr>pAttributeName = name, pAttributeValue = val\<rparr>]\<rparr>\<rparr>)
      else None)"

definition print_attribute :: "string \<Rightarrow> string \<Rightarrow> pop_state \<Rightarrow> pop_result" where
  "print_attribute name txt st =
     (if length (mediaAttributes (popMedia st)) \<ge> SDP_CONTROLLER_MAX_SDP_ATTRIBUTES_COUNT then None
      else do {
        r \<leftarrow> sdp_print txt (popRoom st);
        case r of
          None \<Rightarrow> Some (SDP_CONTROLLER_RESULT_SDP_POPULATE_BUFFER_TOO_SMALL, st)
        | Some room \<Rightarrow> push_attribute name (Some txt) (st\<lparr>popRoom := room\<rparr>)
      })"

text \<open>Steps one after the other, as long as the result is OK.\<close>

fun sdp_steps :: "(pop_state \<Rightarrow> pop_result) list \<Rightarrow> pop_state \<Rightarrow> pop_result" where
  "sdp_steps [] st = Some (SDP_CONTROLLER_RESULT_OK, st)"
| "sdp_steps (f # fs) st = do { (r, st') \<leftarrow> f st; if r \<noteq> SDP_CONTROLLER_RESULT_OK then Some (r, st') else sdp_steps fs st' }"

definition sdp_when :: "bool \<Rightarrow> (pop_state \<Rightarrow> pop_result) \<Rightarrow> pop_state \<Rightarrow> pop_result" where
  "sdp_when b f st = (if b then f st else Some (SDP_CONTROLLER_RESULT_OK, st))"

definition show_u32 :: "u32 \<Rightarrow> string" where
  "show_u32 n = show_nat (unat n)"

section \<open>SSRC and feedback attributes\<close>

text \<open>The part of the transceiver with the names of its stream and track.\<close>

record sdp_names =
  streamId :: string
  trackId :: string

definition ssrc_attribute :: "u32 \<Rightarrow> string \<Rightarrow> pop_state \<Rightarrow> pop_result" where
  "ssrc_attribute n txt = print_attribute SDP_CONTROLLER_MEDIA_ATTRIBUTE_NAME_SSRC (show_u32 n @ txt)"

text \<open>The four attributes of the stream, and of the stream with retransmissions.\<close>

definition ssrc_steps :: "Transceiver \<Rightarrow> sdp_names \<Rightarrow> string \<Rightarrow> (pop_state \<Rightarrow> pop_result) list" where
  "ssrc_steps t nm cname =
     [ssrc_attribute (ssrc t) ('' cname:'' @ cname),
      ssrc_attribute (ssrc t) ('' msid:'' @ streamId nm @ '' '' @ trackId nm),
      ssrc_attribute (ssrc t) ('' mslabel:'' @ streamId nm),
      ssrc_attribute (ssrc t) ('' label:'' @ trackId nm)]"

definition rtx_ssrc_steps :: "Transceiver \<Rightarrow> sdp_names \<Rightarrow> string \<Rightarrow> bool \<Rightarrow> (pop_state \<Rightarrow> pop_result) list" where
  "rtx_ssrc_steps t nm cname containRtx =
     [sdp_when containRtx (ssrc_attribute (rtxSsrc t) ('' cname:'' @ cname)),
      sdp_when containRtx (ssrc_attribute (rtxSsrc t) ('' msid:'' @ streamId nm @ '' '' @ trackId nm @ ''RTX'')),
      sdp_when containRtx (ssrc_attribute (rtxSsrc t) ('' mslabel:'' @ streamId nm @ ''RTX'')),
      sdp_when containRtx (ssrc_attribute (rtxSsrc t) ('' label:'' @ trackId nm @ ''RTX''))]"

definition PopulateTransceiverSsrc :: "Transceiver \<Rightarrow> sdp_names \<Rightarrow> string \<Rightarrow> bool \<Rightarrow> pop_state \<Rightarrow> pop_result" where
  "PopulateTransceiverSsrc t nm cname containRtx = sdp_steps (ssrc_steps t nm cname @ rtx_ssrc_steps t nm cname containRtx)"

definition PopulateRtcpFb :: "u32 \<Rightarrow> u16 \<Rightarrow> pop_state \<Rightarrow> pop_result" where
  "PopulateRtcpFb payload twcc =
     sdp_steps
       [print_attribute SDP_CONTROLLER_MEDIA_ATTRIBUTE_NAME_RTCP_FB (show_u32 payload @ '' '' @ SDP_CONTROLLER_MEDIA_ATTRIBUTE_VALUE_RTCP_FB_GOOG_REMB),
        sdp_when (twcc > 0)
          (print_attribute SDP_CONTROLLER_MEDIA_ATTRIBUTE_NAME_RTCP_FB (show_u32 payload @ '' '' @ SDP_CONTROLLER_MEDIA_ATTRIBUTE_VALUE_RTCP_FB_TRANSPORT_CC))]"

section \<open>Searching attributes\<close>

definition FindAttributeName :: "SdpControllerAttributes list \<Rightarrow> string \<Rightarrow> SdpControllerAttributes option" where
  "FindAttributeName atts pat = find (\<lambda>a. pAttributeName a = pat) atts"

definition attribute_text :: "SdpControllerAttributes \<Rightarrow> string" where
  "attribute_text a = (case pAttributeValue a of None \<Rightarrow> [] | Some v \<Rightarrow> v)"

text \<open>The value only has to start with the digits of the payload type.  A payload type with
  more digits than \<open>TRANSCEIVER_CODEC_STRING_MAX_LENGTH\<close> is not found: with one more it is rejected, with yet more it is cut
  and compared together with its terminator, which no value contains.\<close>

definition TRANSCEIVER_CODEC_STRING_MAX_LENGTH :: nat where "TRANSCEIVER_CODEC_STRING_MAX_LENGTH = 3"

definition FindFmtpBasedOnCodec :: "SdpControllerAttributes list \<Rightarrow> u32 \<Rightarrow> SdpControllerAttributes option" where
  "FindFmtpBasedOnCodec atts codecType =
     (let digits = show_u32 codecType
      in if length digits > TRANSCEIVER_CODEC_STRING_MAX_LENGTH then None
         else find (\<lambda>a. pAttributeName a = SDP_CONTROLLER_MEDIA_ATTRIBUTE_NAME_FMTP \<and> length (attribute_text a) \<ge> length digits
            \<and> take (length digits) (attribute_text a) = digits) atts)"

text \<open>The last match.\<close>

definition MatchAttributesValuePrefix :: "SdpControllerAttributes list \<Rightarrow> string \<Rightarrow> SdpControllerAttributes option" where
  "MatchAttributesValuePrefix atts pat =
     fold (\<lambda>a found. if length (attribute_text a) \<ge> length pat \<and> take (length pat) (attribute_text a) = pat then Some a else found) atts None"

section \<open>Codecs\<close>

text \<open>In an answer the format parameters are those of the peer, if there are any.\<close>

definition print_fmtp :: "SdpControllerMediaDescription option \<Rightarrow> u32 \<Rightarrow> string \<Rightarrow> pop_state \<Rightarrow> pop_result" where
  "print_fmtp remote payload params =
     (case remote of
        None \<Rightarrow> print_attribute SDP_CONTROLLER_MEDIA_ATTRIBUTE_NAME_FMTP (show_u32 payload @ '' '' @ params)
      | Some md \<Rightarrow>
          (case FindFmtpBasedOnCodec (mediaAttributes md) payload of
             None \<Rightarrow> sdp_steps []
           | Some a \<Rightarrow> print_attribute SDP_CONTROLLER_MEDIA_ATTRIBUTE_NAME_FMTP (attribute_text a)))"

definition print_rtpmap :: "u32 \<Rightarrow> string \<Rightarrow> pop_state \<Rightarrow> pop_result" where
  "print_rtpmap payload val = print_attribute SDP_CONTROLLER_MEDIA_ATTRIBUTE_NAME_RTPMAP (show_u32 payload @ '' '' @ val)"

definition print_nack :: "u32 \<Rightarrow> pop_state \<Rightarrow> pop_result" where
  "print_nack payload = print_attribute SDP_CONTROLLER_MEDIA_ATTRIBUTE_NAME_RTCP_FB (show_u32 payload @ '' '' @ SDP_CONTROLLER_MEDIA_ATTRIBUTE_VALUE_RTCP_FB_VALUE)"

definition h264_rtx_steps :: "u32 \<Rightarrow> u32 \<Rightarrow> (pop_state \<Rightarrow> pop_result) list" where
  "h264_rtx_steps payload rtxPayload =
     [sdp_when (rtxPayload \<noteq> 0) (print_rtpmap rtxPayload SDP_CONTROLLER_MEDIA_ATTRIBUTE_VALUE_RTPMAP_RTX_H264),
      sdp_when (rtxPayload \<noteq> 0) (print_attribute SDP_CONTROLLER_MEDIA_ATTRIBUTE_NAME_FMTP (show_u32 rtxPayload @ '' apt='' @ show_u32 payload))]"

definition PopulateCodecAttributesH264 :: "SdpControllerMediaDescription option \<Rightarrow> u32 \<Rightarrow> u32 \<Rightarrow> pop_state \<Rightarrow> pop_result" where
  "PopulateCodecAttributesH264 remote payload rtxPayload =
     sdp_steps
       ([print_rtpmap payload SDP_CONTROLLER_MEDIA_ATTRIBUTE_VALUE_RTPMAP_H264,
         print_nack payload,
         print_fmtp remote payload SDP_CONTROLLER_MEDIA_ATTRIBUTE_VALUE_FMTP_H264] @ h264_rtx_steps payload rtxPayload)"

definition PopulateCodecAttributesOpus :: "SdpControllerMediaDescription option \<Rightarrow> u32 \<Rightarrow> u32 \<Rightarrow> pop_state \<Rightarrow> pop_result" where
  "PopulateCodecAttributesOpus remote payload rtxPayload =
     sdp_steps
       [print_rtpmap payload SDP_CONTROLLER_MEDIA_ATTRIBUTE_VALUE_RTPMAP_OPUS,
        print_fmtp remote payload SDP_CONTROLLER_MEDIA_ATTRIBUTE_VALUE_FMTP_OPUS,
        print_nack payload]"

definition PopulateCodecAttributesVp8 :: "SdpControllerMediaDescription option \<Rightarrow> u32 \<Rightarrow> u32 \<Rightarrow> pop_state \<Rightarrow> pop_result" where
  "PopulateCodecAttributesVp8 remote payload rtxPayload = sdp_steps [print_rtpmap payload SDP_CONTROLLER_MEDIA_ATTRIBUTE_VALUE_RTPMAP_VP8]"

definition PopulateCodecAttributesMulaw :: "SdpControllerMediaDescription option \<Rightarrow> u32 \<Rightarrow> u32 \<Rightarrow> pop_state \<Rightarrow> pop_result" where
  "PopulateCodecAttributesMulaw remote payload rtxPayload =
     sdp_steps [print_rtpmap payload SDP_CONTROLLER_MEDIA_ATTRIBUTE_VALUE_RTPMAP_MULAW, print_nack payload]"

definition PopulateCodecAttributesAlaw :: "SdpControllerMediaDescription option \<Rightarrow> u32 \<Rightarrow> u32 \<Rightarrow> pop_state \<Rightarrow> pop_result" where
  "PopulateCodecAttributesAlaw remote payload rtxPayload =
     sdp_steps [print_rtpmap payload SDP_CONTROLLER_MEDIA_ATTRIBUTE_VALUE_RTPMAP_ALAW, print_nack payload]"

definition PopulateCodecAttributesH265 :: "SdpControllerMediaDescription option \<Rightarrow> u32 \<Rightarrow> u32 \<Rightarrow> pop_state \<Rightarrow> pop_result" where
  "PopulateCodecAttributesH265 remote payload rtxPayload =
     sdp_steps
       [print_rtpmap payload SDP_CONTROLLER_MEDIA_ATTRIBUTE_VALUE_RTPMAP_H265,
        print_nack payload,
        print_fmtp remote payload SDP_CONTROLLER_MEDIA_ATTRIBUTE_VALUE_FMTP_H265]"

record SdpControllerPopulateMediaConfiguration =
  isOffer :: bool
  canTrickleIce :: bool
  cfgCname :: "string option"
  cfgUserName :: "string option"
  cfgPassword :: "string option"
  cfgTransceiver :: "(Transceiver \<times> sdp_names) option"
  payloadType :: u32
  rtxPayloadType :: u32
  pLocalFingerprint :: "string option"
  cfgTwccExtId :: u16

definition PopulateCodecAttributes ::
    "SdpControllerMediaDescription option \<Rightarrow> SdpControllerPopulateMediaConfiguration \<Rightarrow> pop_state \<Rightarrow> pop_result" where
  "PopulateCodecAttributes remote cfg st =
     (case cfgTransceiver cfg of
        None \<Rightarrow> Some (SDP_CONTROLLER_RESULT_BAD_PARAMETER, st)
      | Some (t, nm) \<Rightarrow>
          (let on = TRANSCEIVER_IS_CODEC_ENABLED (codecBitMap t); p = payloadType cfg; x = rtxPayloadType cfg
           in sdp_steps
                [if on TRANSCEIVER_RTC_CODEC_H264_BIT then PopulateCodecAttributesH264 remote p x
                 else if on TRANSCEIVER_RTC_CODEC_OPUS_BIT then PopulateCodecAttributesOpus remote p x
                 else if on TRANSCEIVER_RTC_CODEC_VP8_BIT then PopulateCodecAttributesVp8 remote p x
                 else if on TRANSCEIVER_RTC_CODEC_MULAW_BIT then PopulateCodecAttributesMulaw remote p x
                 else if on TRANSCEIVER_RTC_CODEC_ALAW_BIT then PopulateCodecAttributesAlaw remote p x
                 else if on TRANSCEIVER_RTC_CODEC_H265_BIT then PopulateCodecAttributesH265 remote p x
                 else (\<lambda>s. Some (SDP_CONTROLLER_RESULT_SDP_FAIL_CODEC_NOT_SUPPORT, s)),
                 PopulateRtcpFb p (cfgTwccExtId cfg)] st))"

section \<open>A media description\<close>

text \<open>The direction of an answer mirrors that of the peer; the first of its four attributes counts.\<close>

fun answer_direction :: "SdpControllerAttributes list \<Rightarrow> TransceiverDirection" where
  "answer_direction [] = TRANSCEIVER_TRACK_DIRECTION_UNKNOWN"
| "answer_direction (a # atts) =
     (if pAttributeName a = SDP_CONTROLLER_MEDIA_ATTRIBUTE_NAME_SENDRECV then TRANSCEIVER_TRACK_DIRECTION_SENDRECV
      else if pAttributeName a = SDP_CONTROLLER_MEDIA_ATTRIBUTE_NAME_SENDONLY then TRANSCEIVER_TRACK_DIRECTION_RECVONLY
      else if pAttributeName a = SDP_CONTROLLER_MEDIA_ATTRIBUTE_NAME_RECVONLY then TRANSCEIVER_TRACK_DIRECTION_SENDONLY
      else if pAttributeName a = SDP_CONTROLLER_MEDIA_ATTRIBUTE_NAME_INACTIVE then TRANSCEIVER_TRACK_DIRECTION_INACTIVE
      else answer_direction atts)"

definition direction_name :: "TransceiverDirection \<Rightarrow> string" where
  "direction_name dir =
     (case dir of
        TRANSCEIVER_TRACK_DIRECTION_SENDRECV \<Rightarrow> SDP_CONTROLLER_MEDIA_ATTRIBUTE_NAME_SENDRECV
      | TRANSCEIVER_TRACK_DIRECTION_SENDONLY \<Rightarrow> SDP_CONTROLLER_MEDIA_ATTRIBUTE_NAME_SENDONLY
      | TRANSCEIVER_TRACK_DIRECTION_RECVONLY \<Rightarrow> SDP_CONTROLLER_MEDIA_ATTRIBUTE_NAME_RECVONLY
      | _ \<Rightarrow> SDP_CONTROLLER_MEDIA_ATTRIBUTE_NAME_INACTIVE)"

text \<open>The direction attribute; in an answer the description of the peer is read without a check.\<close>

definition push_direction ::
    "SdpControllerMediaDescription option \<Rightarrow> bool \<Rightarrow> Transceiver \<Rightarrow> pop_state \<Rightarrow> pop_result" where
  "push_direction remote offer t st =
     (if offer then push_attribute (direction_name (direction t)) None st
      else if direction t = TRANSCEIVER_TRACK_DIRECTION_INACTIVE
      then push_attribute (direction_name TRANSCEIVER_TRACK_DIRECTION_INACTIVE) None st
      else do { md \<leftarrow> remote; push_attribute (direction_name (answer_direction (mediaAttributes md))) None st })"

definition push_mid :: "SdpControllerMediaDescription option \<Rightarrow> bool \<Rightarrow> u32 \<Rightarrow> pop_state \<Rightarrow> pop_result" where
  "push_mid remote offer idx st =
     do {
       src \<leftarrow> (if offer then Some None else map_option (\<lambda>md. FindAttributeName (mediaAttributes md) SDP_CONTROLLER_MEDIA_ATTRIBUTE_NAME_MID) remote);
       case src of
         Some a \<Rightarrow> push_attribute SDP_CONTROLLER_MEDIA_ATTRIBUTE_NAME_MID (pAttributeValue a) st
       | None \<Rightarrow> print_attribute SDP_CONTROLLER_MEDIA_ATTRIBUTE_NAME_MID (show_u32 idx) st
     }"

definition media_name :: "SdpControllerPopulateMediaConfiguration \<Rightarrow> TransceiverTrackKind \<Rightarrow> string option" where
  "media_name cfg kind =
     (let tail = show_u32 (payloadType cfg) @ (if rtxPayloadType cfg = 0 then [] else '' '' @ show_u32 (rtxPayloadType cfg))
      in case kind of
           TRANSCEIVER_TRACK_KIND_VIDEO \<Rightarrow> Some (''video 9 UDP/TLS/RTP/SAVPF '' @ tail)
         | TRANSCEIVER_TRACK_KIND_AUDIO \<Rightarrow> Some (''audio 9 UDP/TLS/RTP/SAVPF '' @ tail)
         | TRANSCEIVER_TRACK_KIND_DATA_CHANNEL \<Rightarrow> Some SDP_CONTROLLER_DATA_CHANNEL_ATTRIBUTE_NAME_MEDIA_NAME
         | _ \<Rightarrow> None)"

definition default_connection :: SdpControllerConnectionInformation where
  "default_connection = \<lparr>pNetworkType = ''IN'', pAddressType = ''IP4'', pConnectionAddress = ''127.0.0.1''\<rparr>"

definition print_media_name ::
    "SdpControllerPopulateMediaConfiguration \<Rightarrow> TransceiverTrackKind \<Rightarrow> pop_state \<Rightarrow> pop_result" where
  "print_media_name cfg kind st =
     (case media_name cfg kind of
        None \<Rightarrow> Some (SDP_CONTROLLER_RESULT_SDP_FAIL_SNPRINTF, st)
      | Some txt \<Rightarrow> do {
          r \<leftarrow> sdp_print txt (popRoom st);
          case r of
            None \<Rightarrow> Some (SDP_CONTROLLER_RESULT_SDP_POPULATE_BUFFER_TOO_SMALL, st)
          | Some room \<Rightarrow>
              Some (SDP_CONTROLLER_RESULT_OK,
                st\<lparr>popRoom := room, popMedia := (popMedia st)\<lparr>pMediaName := txt, pMediaTitle := None, mediaConnection := default_connection\<rparr>\<rparr>)
        })"

text \<open>The names of the stream, and the credentials.\<close>

definition stream_steps :: "SdpControllerPopulateMediaConfiguration \<Rightarrow> bool \<Rightarrow> (pop_state \<Rightarrow> pop_result) list" where
  "stream_steps cfg av =
     (let t = fst (the (cfgTransceiver cfg)); nm = snd (the (cfgTransceiver cfg)); rtx = (rtxPayloadType cfg \<noteq> 0)
      in [sdp_when av (print_attribute SDP_CONTROLLER_MEDIA_ATTRIBUTE_NAME_MSID (streamId nm @ '' '' @ trackId nm @ (if rtx then ''RTX'' else []))),
          sdp_when (av \<and> rtx) (print_attribute SDP_CONTROLLER_MEDIA_ATTRIBUTE_NAME_SSRC_GROUP (''FID '' @ show_u32 (ssrc t) @ '' '' @ show_u32 (rtxSsrc t))),
          sdp_when av (PopulateTransceiverSsrc t nm (the (cfgCname cfg)) rtx)])"

definition credential_steps :: "SdpControllerPopulateMediaConfiguration \<Rightarrow> (pop_state \<Rightarrow> pop_result) list" where
  "credential_steps cfg =
     [push_attribute SDP_CONTROLLER_MEDIA_ATTRIBUTE_NAME_RTCP (Some SDP_CONTROLLER_MEDIA_ATTRIBUTE_VALUE_RTCP),
      push_attribute SDP_CONTROLLER_MEDIA_ATTRIBUTE_NAME_ICE_UFRAG (cfgUserName cfg),
      push_attribute SDP_CONTROLLER_MEDIA_ATTRIBUTE_NAME_ICE_PWD (cfgPassword cfg),
      sdp_when (canTrickleIce cfg) (push_attribute SDP_CONTROLLER_MEDIA_ATTRIBUTE_NAME_ICE_OPTION (Some SDP_CONTROLLER_MEDIA_ATTRIBUTE_VALUE_ICE_OPTION)),
      print_attribute SDP_CONTROLLER_MEDIA_ATTRIBUTE_NAME_FINGERPRINT (''sha-256 '' @ the (pLocalFingerprint cfg)),
      push_attribute SDP_CONTROLLER_MEDIA_ATTRIBUTE_NAME_SETUP
        (Some (if isOffer cfg then SDP_CONTROLLER_MEDIA_DTLS_ROLE_ACTPASS else SDP_CONTROLLER_MEDIA_DTLS_ROLE_ACTIVE))]"

text \<open>All steps, in order.\<close>

definition media_steps ::
    "SdpControllerMediaDescription option \<Rightarrow> SdpControllerPopulateMediaConfiguration \<Rightarrow> u32 \<Rightarrow> TransceiverTrackKind \<Rightarrow> (pop_state \<Rightarrow> pop_result) list" where
  "media_steps remote cfg idx kind =
     (let av = (kind \<noteq> TRANSCEIVER_TRACK_KIND_DATA_CHANNEL)
      in [print_media_name cfg kind] @ stream_steps cfg av @ credential_steps cfg @
         [push_mid remote (isOffer cfg) idx,
          sdp_when av (push_direction remote (isOffer cfg) (fst (the (cfgTransceiver cfg)))),
          sdp_when av (push_attribute SDP_CONTROLLER_MEDIA_ATTRIBUTE_NAME_RTCP_MUX None),
          sdp_when av (push_attribute SDP_CONTROLLER_MEDIA_ATTRIBUTE_NAME_RTCP_RSIZE None),
          sdp_when av (PopulateCodecAttributes remote cfg),
          sdp_when (\<not> av) (push_attribute SDP_CONTROLLER_DATA_CHANNEL_ATTRIBUTE_NAME_SCTP_PORT (Some SDP_CONTROLLER_DATA_CHANNEL_ATTRIBUTE_VALUE_SCTP_PORT))])"

text \<open>On success the buffer of the caller is advanced; the description is the caller's on every path.\<close>

definition SdpController_PopulateSingleMedia ::
    "SdpControllerMediaDescription option \<Rightarrow> SdpControllerPopulateMediaConfiguration \<Rightarrow> SdpControllerMediaDescription option \<Rightarrow> u32
      \<Rightarrow> nat option \<Rightarrow> TransceiverTrackKind \<Rightarrow> (SdpControllerResult \<times> SdpControllerMediaDescription option \<times> nat option) option" where
  "SdpController_PopulateSingleMedia remote cfg pLocal idx pBuffer kind =
     (if pLocal = None \<or> pBuffer = None then Some (SDP_CONTROLLER_RESULT_BAD_PARAMETER, pLocal, pBuffer)
      else if cfgCname cfg = None \<or> pLocalFingerprint cfg = None \<or> cfgPassword cfg = None
        \<or> kind \<noteq> TRANSCEIVER_TRACK_KIND_DATA_CHANNEL \<and> cfgTransceiver cfg = None \<or> cfgUserName cfg = None
      then Some (SDP_CONTROLLER_RESULT_BAD_PARAMETER, pLocal, pBuffer)
      else do {
        (r, st) \<leftarrow> sdp_steps (media_steps remote cfg idx kind) \<lparr>popRoom = the pBuffer, popMedia = zero_media\<rparr>;
        Some (r, Some (popMedia st), if r = SDP_CONTROLLER_RESULT_OK then Some (popRoom st) else pBuffer)
      })"

section \<open>The session part\<close>

text \<open>A name and a value, printed one behind the other; the result is the number of characters or negative.\<close>

definition add_session_attribute ::
    "string \<Rightarrow> string \<Rightarrow> nat \<Rightarrow> SdpControllerSdpDescription \<Rightarrow> (int \<times> SdpControllerSdpDescription) option" where
  "add_session_attribute name val room d =
     (if length (sessionAttributes d) \<ge> SDP_CONTROLLER_MAX_SDP_ATTRIBUTES_COUNT then None
      else do {
        r \<leftarrow> sdp_print name room;
        case r of
          None \<Rightarrow> Some (-2, d)
        | Some room1 \<Rightarrow> do {
            r2 \<leftarrow> sdp_print val room1;
            case r2 of
              None \<Rightarrow> Some (-2, d)
            | Some room2 \<Rightarrow>
                Some (int (length name + length val),
                  d\<lparr>sessionAttributes := sessionAttributes d @ [\<lparr>pAttributeName = name, pAttributeValue = Some val\<rparr>]\<rparr>)
          }
      })"

text \<open>The numbers of the media behind \<open>BUNDLE\<close>.  The size given to \<open>snprintf\<close> does not account for the six characters
  of that word, so that text that does not fit is written behind the buffer: no outcome.\<close>

fun bundle_numbers :: "nat list \<Rightarrow> nat \<Rightarrow> string option" where
  "bundle_numbers [] room = Some []"
| "bundle_numbers (i # js) room =
     (let txt = '' '' @ show_nat i
      in if length txt + 1 > room then None else map_option ((@) txt) (bundle_numbers js (room - length txt)))"

definition AddSessionAttributeGroup ::
    "nat \<Rightarrow> SdpControllerSdpDescription \<Rightarrow> SdpControllerSdpDescription option \<Rightarrow> (int \<times> SdpControllerSdpDescription) option" where
  "AddSessionAttributeGroup room d remote =
     (case (case remote of None \<Rightarrow> None | Some rd \<Rightarrow> MatchAttributesValuePrefix (sessionAttributes rd) ''BUNDLE'') of
        Some a \<Rightarrow> add_session_attribute ''group'' (attribute_text a) room d
      | None \<Rightarrow>
          if length (sessionAttributes d) \<ge> SDP_CONTROLLER_MAX_SDP_ATTRIBUTES_COUNT then None
          else do {
            r \<leftarrow> sdp_print ''group'' room;
            case r of
              None \<Rightarrow> Some (-2, d)
            | Some room1 \<Rightarrow> do {
                r2 \<leftarrow> sdp_print ''BUNDLE'' room1;
                case r2 of
                  None \<Rightarrow> Some (-2, d)
                | Some room2 \<Rightarrow> do {
                    nums \<leftarrow> bundle_numbers [0..<length (mediaDescriptions d)] room2;
                    Some (int (length ''group'' + length ''BUNDLE'' + length nums),
                      d\<lparr>sessionAttributes := sessionAttributes d @ [\<lparr>pAttributeName = ''group'', pAttributeValue = Some (''BUNDLE'' @ nums)\<rparr>]\<rparr>)
                  }
              }
          })"

definition AddSessionAttributeIceOptions ::
    "nat \<Rightarrow> SdpControllerSdpDescription \<Rightarrow> (int \<times> SdpControllerSdpDescription) option" where
  "AddSessionAttributeIceOptions = add_session_attribute ''ice-options'' ''trickle''"

definition AddSessionAttributeMsidSemantic ::
    "nat \<Rightarrow> SdpControllerSdpDescription \<Rightarrow> (int \<times> SdpControllerSdpDescription) option" where
  "AddSessionAttributeMsidSemantic = add_session_attribute ''msid-semantic'' '' WMS myKvsVideoStream''"

definition PopulateSessionAttributes ::
    "SdpControllerSdpDescription option \<Rightarrow> bool \<Rightarrow> SdpControllerSdpDescription \<Rightarrow> nat \<Rightarrow> (SdpControllerResult \<times> SdpControllerSdpDescription \<times> nat) option" where
  "PopulateSessionAttributes remote trickle d room =
     do {
       (w1, d1) \<leftarrow> AddSessionAttributeGroup room d remote;
       if w1 < 0 then Some (SDP_CONTROLLER_RESULT_SDP_FAIL_ADD_SESSION_ATTRIBUTE_GROUP, d1, room)
       else do {
         let room1 = room - nat w1;
         (w2, d2) \<leftarrow> (if trickle then AddSessionAttributeIceOptions room1 d1 else Some (0, d1));
         if w2 < 0 then Some (SDP_CONTROLLER_RESULT_SDP_FAIL_ADD_SESSION_ATTRIBUTE_ICE_OPTIONS, d2, room)
         else do {
           let room2 = room1 - nat w2;
           (w3, d3) \<leftarrow> AddSessionAttributeMsidSemantic room2 d2;
           if w3 < 0 then Some (SDP_CONTROLLER_RESULT_SDP_FAIL_ADD_SESSION_ATTRIBUTE_MSID_SEMANTIC, d3, room)
           else Some (SDP_CONTROLLER_RESULT_OK, d3, room2 - nat w3)
         }
       }
     }"

text \<open>\<open>rnd\<close> is what \<open>rand()\<close> returns.\<close>

definition PopulateSessionOrigin :: "u64 \<Rightarrow> SdpControllerOrigin" where
  "PopulateSessionOrigin rnd = \<lparr>pUserName = ''-'', sessionId = rnd, sessionVersion = 2, sdpConnectionInformation = default_connection\<rparr>"

record SdpControllerPopulateSessionConfiguration =
  sesIsOffer :: bool
  sesCanTrickleIce :: bool
  sesTiming :: SdpControllerTiming

definition SdpController_PopulateSessionDescription ::
    "u64 \<Rightarrow> SdpControllerSdpDescription option \<Rightarrow> SdpControllerPopulateSessionConfiguration \<Rightarrow> SdpControllerSdpDescription option \<Rightarrow> nat option
      \<Rightarrow> (SdpControllerResult \<times> SdpControllerSdpDescription option \<times> nat option) option" where
  "SdpController_PopulateSessionDescription rnd remote cfg pLocal pBuffer =
     (if pLocal = None \<or> pBuffer = None then Some (SDP_CONTROLLER_RESULT_BAD_PARAMETER, pLocal, pBuffer)
      else do {
        let d = (the pLocal)\<lparr>sdpVersion := 0, origin := PopulateSessionOrigin rnd, pSessionName := ''-'', timingDescription := sesTiming cfg\<rparr>;
        (r, d', room) \<leftarrow> PopulateSessionAttributes remote (sesCanTrickleIce cfg) d (the pBuffer);
        Some (r, Some d', Some room)
      })"

end
