(* ===== verification/Sdp_Serialize.thy ===== *)
theory Sdp_Serialize
  imports Sdp_Parse Sdp_Populate
begin

text \<open>
  Writing a session description: \<open>SerializeSdpMessage\<close>, its helpers and the message around it in
  \<open>sdp_controller/sdp_controller.c\<close>.  The SDP library, which prints the lines, is a record of its functions.
\<close>

section \<open>The SDP library\<close>

text \<open>The functions append a line to the context; the flag says whether it was appended.\<close>

record 'c sdp_serializer =
  SdpSerializer_Init :: "nat \<Rightarrow> 'c option"
  SdpSerializer_AddU64 :: "sdp_type \<Rightarrow> u64 \<Rightarrow> 'c \<Rightarrow> bool \<times> 'c"
  SdpSerializer_AddBuffer :: "sdp_type \<Rightarrow> string \<Rightarrow> 'c \<Rightarrow> bool \<times> 'c"
  SdpSerializer_AddOriginator :: "SdpControllerOrigin \<Rightarrow> 'c \<Rightarrow> bool \<times> 'c"
  SdpSerializer_AddTimeActive :: "SdpControllerTiming \<Rightarrow> 'c \<Rightarrow> bool \<times> 'c"
  SdpSerializer_AddAttribute :: "SdpControllerAttributes \<Rightarrow> 'c \<Rightarrow> bool \<times> 'c"
  SdpSerializer_AddConnectionInfo :: "string \<Rightarrow> 'c \<Rightarrow> bool \<times> 'c"
  SdpSerializer_Finalize :: "'c \<Rightarrow> string option"

definition add_result :: "bool \<times> 'c \<Rightarrow> SdpControllerResult \<times> 'c" where
  "add_result r = (if fst r then SDP_CONTROLLER_RESULT_OK else SDP_CONTROLLER_RESULT_SDP_FAIL_SERIALIZER_ADD, snd r)"

section \<open>Operations\<close>

definition SerializeOrigin :: "'c sdp_serializer \<Rightarrow> SdpControllerOrigin \<Rightarrow> 'c \<Rightarrow> SdpControllerResult \<times> 'c" where
  "SerializeOrigin lb o' ctx = add_result (SdpSerializer_AddOriginator lb o' ctx)"

definition SerializeTiming :: "'c sdp_serializer \<Rightarrow> SdpControllerTiming \<Rightarrow> 'c \<Rightarrow> SdpControllerResult \<times> 'c" where
  "SerializeTiming lb t ctx = add_result (SdpSerializer_AddTimeActive lb t ctx)"

text \<open>The loop does not stop at an error.\<close>

fun SerializeAttributes :: "'c sdp_serializer \<Rightarrow> SdpControllerAttributes list \<Rightarrow> 'c \<Rightarrow> SdpControllerResult \<times> 'c" where
  "SerializeAttributes lb [] ctx = (SDP_CONTROLLER_RESULT_OK, ctx)"
| "SerializeAttributes lb (a # atts) ctx =
     (let (r, ctx1) = add_result (SdpSerializer_AddAttribute lb a ctx); (r2, ctx2) = SerializeAttributes lb atts ctx1
      in (if r \<noteq> SDP_CONTROLLER_RESULT_OK then r else r2, ctx2))"

definition SerializeConnectionInfo :: "'c sdp_serializer \<Rightarrow> SdpControllerConnectionInformation \<Rightarrow> 'c \<Rightarrow> SdpControllerResult \<times> 'c" where
  "SerializeConnectionInfo lb ci ctx = add_result (SdpSerializer_AddConnectionInfo lb (pConnectionAddress ci) ctx)"

definition and_then :: "SdpControllerResult \<times> 'c \<Rightarrow> ('c \<Rightarrow> SdpControllerResult \<times> 'c) \<Rightarrow> SdpControllerResult \<times> 'c" where
  "and_then r f = (if fst r \<noteq> SDP_CONTROLLER_RESULT_OK then r else f (snd r))"

definition serialize_media :: "'c sdp_serializer \<Rightarrow> SdpControllerMediaDescription \<Rightarrow> 'c \<Rightarrow> SdpControllerResult \<times> 'c" where
  "serialize_media lb md ctx =
     and_then (add_result (SdpSerializer_AddBuffer lb SDP_TYPE_MEDIA (pMediaName md) ctx)) (\<lambda>c1.
     and_then (case pMediaTitle md of None \<Rightarrow> (SDP_CONTROLLER_RESULT_OK, c1)
               | Some title \<Rightarrow> add_result (SdpSerializer_AddBuffer lb SDP_TYPE_MEDIA_TITLE title c1)) (\<lambda>c2.
     and_then (SerializeConnectionInfo lb (mediaConnection md) c2) (SerializeAttributes lb (mediaAttributes md))))"

fun SerializeMedias :: "'c sdp_serializer \<Rightarrow> SdpControllerMediaDescription list \<Rightarrow> 'c \<Rightarrow> SdpControllerResult \<times> 'c" where
  "SerializeMedias lb [] ctx = (SDP_CONTROLLER_RESULT_OK, ctx)"
| "SerializeMedias lb (md # mds) ctx = and_then (serialize_media lb md ctx) (SerializeMedias lb mds)"

definition SerializeSdpMessage :: "'c sdp_serializer \<Rightarrow> SdpControllerSdpDescription \<Rightarrow> nat \<Rightarrow> SdpControllerResult + string" where
  "SerializeSdpMessage lb d room =
     (case SdpSerializer_Init lb room of
        None \<Rightarrow> Inl SDP_CONTROLLER_RESULT_SDP_FAIL_SERIALIZER_INIT
      | Some ctx \<Rightarrow>
          (let (r, c) =
             and_then (add_result (SdpSerializer_AddU64 lb SDP_TYPE_VERSION (ucast (sdpVersion d)) ctx)) (\<lambda>c1.
             and_then (SerializeOrigin lb (origin d) c1) (\<lambda>c2.
             and_then (add_result (SdpSerializer_AddBuffer lb SDP_TYPE_SESSION_NAME (pSessionName d) c2)) (\<lambda>c3.
             and_then (SerializeTiming lb (timingDescription d) c3) (\<lambda>c4.
             and_then (SerializeAttributes lb (sessionAttributes d) c4) (SerializeMedias lb (mediaDescriptions d))))))
           in if r \<noteq> SDP_CONTROLLER_RESULT_OK then Inl r
              else (case SdpSerializer_Finalize lb c of
                      None \<Rightarrow> Inl SDP_CONTROLLER_RESULT_SDP_FAIL_SERIALIZER_ADD
                    | Some text \<Rightarrow> Inr text)))"

text \<open>The message around the description.  As with the attributes, text that is longer than the room is not caught.\<close>

definition SdpController_SerializeSdpMessageByDescription ::
    "'c sdp_serializer \<Rightarrow> bool \<Rightarrow> SdpControllerSdpDescription option \<Rightarrow> nat option \<Rightarrow> (SdpControllerResult + string) option" where
  "SdpController_SerializeSdpMessageByDescription lb offer pSdpDescription pOutput =
     (case (pSdpDescription, pOutput) of
        (Some d, Some room) \<Rightarrow>
          (let head = ''{\"type\": \"'' @ (if offer then ''offer'' else ''answer'') @ ''\", \"sdp\": \"''; tail = ''\"}''
           in do {
             r1 \<leftarrow> sdp_print head room;
             case r1 of
               None \<Rightarrow> Some (Inl SDP_CONTROLLER_RESULT_SDP_CONVERTED_BUFFER_TOO_SMALL)
             | Some room1 \<Rightarrow>
                 (case SerializeSdpMessage lb d room1 of
                    Inl r \<Rightarrow> Some (Inl r)
                  | Inr text \<Rightarrow> do {
                      r3 \<leftarrow> sdp_print tail (room1 - length text);
                      case r3 of
                        None \<Rightarrow> Some (Inl SDP_CONTROLLER_RESULT_SDP_CONVERTED_BUFFER_TOO_SMALL)
                      | Some _ \<Rightarrow> Some (Inr (head @ text @ tail))
                    })
           })
      | _ \<Rightarrow> Some (Inl SDP_CONTROLLER_RESULT_BAD_PARAMETER))"

end
