(* ===== verification/Sdp_Round_Trip.thy ===== *)
theory Sdp_Round_Trip
  imports Sdp_Serialize
begin

text \<open>
  What \<open>SerializeSdpMessage\<close> writes, \<open>SdpController_DeserializeSdpMessage\<close> reads back: the names, the attributes
  in their order, and the credentials and the DTLS role that the peer looks for.
\<close>

section \<open>What the library promises\<close>

text \<open>Text that stays on its line; an attribute that is written as \<open>name\<close> or \<open>name:value\<close>.\<close>

definition plain_text :: "string \<Rightarrow> bool" where
  "plain_text s \<longleftrightarrow> CHR 0x0D \<notin> set s \<and> CHR 0x0A \<notin> set s"

definition plain_attribute :: "SdpControllerAttributes \<Rightarrow> bool" where
  "plain_attribute a \<longleftrightarrow> plain_text (pAttributeName a) \<and> CHR '':'' \<notin> set (pAttributeName a) \<and> pAttributeName a \<noteq> []
     \<and> (case pAttributeValue a of None \<Rightarrow> True | Some v \<Rightarrow> plain_text v \<and> v \<noteq> [])"

text \<open>The lines that a reader gets, up to the end.\<close>

fun sdp_reads :: "'r sdp_deserializer \<Rightarrow> 'r \<Rightarrow> (sdp_type \<times> string) list \<Rightarrow> bool" where
  "sdp_reads de ctx [] \<longleftrightarrow> SdpDeserializer_GetNext de ctx = None"
| "sdp_reads de ctx ((ty, v) # ls) \<longleftrightarrow> (\<exists>ctx'. SdpDeserializer_GetNext de ctx = Some (ty, v, ctx') \<and> sdp_reads de ctx' ls)"

text \<open>A media title is written as a line of session information.\<close>

definition read_type :: "sdp_type \<Rightarrow> sdp_type" where
  "read_type ty = (if ty = SDP_TYPE_MEDIA_TITLE then SDP_TYPE_SESSION_INFO else ty)"

text \<open>The lines \<open>ls\<close> have been written to a context.  Every function appends one line, which the deserializer reads
  back.\<close>

definition sdp_library_ok :: "'c sdp_serializer \<Rightarrow> 'r sdp_deserializer \<Rightarrow> ('c \<Rightarrow> (sdp_type \<times> string) list) \<Rightarrow> bool" where
  "sdp_library_ok lb de lns \<longleftrightarrow>
     (\<forall>n c. SdpSerializer_Init lb n = Some c \<longrightarrow> lns c = []) \<and>
     (\<forall>ty v c c'. SdpSerializer_AddU64 lb ty v c = (True, c') \<longrightarrow> lns c' = lns c @ [(read_type ty, show_nat (unat v))]) \<and>
     (\<forall>ty s c c'. SdpSerializer_AddBuffer lb ty s c = (True, c') \<longrightarrow> plain_text s \<longrightarrow> lns c' = lns c @ [(read_type ty, s)]) \<and>
     (\<forall>o' c c'. SdpSerializer_AddOriginator lb o' c = (True, c') \<longrightarrow> (\<exists>s. lns c' = lns c @ [(SDP_TYPE_ORIGINATOR, s)])) \<and>
     (\<forall>t c c'. SdpSerializer_AddTimeActive lb t c = (True, c') \<longrightarrow> (\<exists>s. lns c' = lns c @ [(SDP_TYPE_TIME_ACTIVE, s)])) \<and>
     (\<forall>a c c'. SdpSerializer_AddConnectionInfo lb a c = (True, c') \<longrightarrow> (\<exists>s. lns c' = lns c @ [(SDP_TYPE_CONNINFO, s)])) \<and>
     (\<forall>a c c'. SdpSerializer_AddAttribute lb a c = (True, c') \<longrightarrow> plain_attribute a \<longrightarrow>
        (\<exists>s. lns c' = lns c @ [(SDP_TYPE_ATTRIBUTE, s)] \<and> SdpDeserializer_ParseAttribute de s = Some (pAttributeName a, pAttributeValue a))) \<and>
     (\<forall>c text. SdpSerializer_Finalize lb c = Some text \<longrightarrow> (\<exists>ctx. SdpDeserializer_Init de text = Some ctx \<and> sdp_reads de ctx (lns c)))"

section \<open>Reading lines\<close>

fun parse_lines ::
    "'r sdp_deserializer \<Rightarrow> (sdp_type \<times> string) list \<Rightarrow> SdpControllerSdpDescription \<Rightarrow> (SdpControllerResult \<times> SdpControllerSdpDescription) option" where
  "parse_lines de [] d = Some (SDP_CONTROLLER_RESULT_OK, d)"
| "parse_lines de ((ty, v) # ls) d =
     do { (r, d') \<leftarrow> parse_line de ty v d; if r \<noteq> SDP_CONTROLLER_RESULT_OK then Some (r, d') else parse_lines de ls d' }"

fun parse_all :: "SdpControllerAttributes list \<Rightarrow> SdpControllerQuickAccess \<Rightarrow> (SdpControllerResult \<times> SdpControllerQuickAccess) option" where
  "parse_all [] qa = Some (SDP_CONTROLLER_RESULT_OK, qa)"
| "parse_all (a # atts) qa =
     do { (r, qa') \<leftarrow> parse_extra a qa; if r \<noteq> SDP_CONTROLLER_RESULT_OK then Some (r, qa') else parse_all atts qa' }"

text \<open>What is read back of a media description: everything but the connection, which is not read.\<close>

definition read_media :: "SdpControllerMediaDescription \<Rightarrow> SdpControllerMediaDescription" where
  "read_media md = md\<lparr>mediaConnection := zero_connection\<rparr>"

definition plain_media :: "SdpControllerMediaDescription \<Rightarrow> bool" where
  "plain_media md \<longleftrightarrow> plain_text (pMediaName md) \<and> (case pMediaTitle md of None \<Rightarrow> True | Some t \<Rightarrow> plain_text t) \<and> list_all plain_attribute (mediaAttributes md)
     \<and> length (mediaAttributes md) \<le> SDP_CONTROLLER_MAX_SDP_ATTRIBUTES_COUNT"

definition plain_description :: "SdpControllerSdpDescription \<Rightarrow> bool" where
  "plain_description d \<longleftrightarrow> plain_text (pSessionName d) \<and> list_all plain_attribute (sessionAttributes d)
     \<and> length (sessionAttributes d) \<le> SDP_CONTROLLER_MAX_SDP_ATTRIBUTES_COUNT \<and> list_all plain_media (mediaDescriptions d)
     \<and> length (mediaDescriptions d) \<le> SDP_CONTROLLER_MAX_SDP_MEDIA_DESCRIPTIONS_COUNT"

lemma deserialize_lines: "sdp_reads de ctx ls \<Longrightarrow> sdp_loop de ctx d = parse_lines de ls d"
proof (induction ls arbitrary: ctx d)
  case Nil
  then show ?case by (subst sdp_loop.simps) simp
next
  case (Cons l ls)
  then show ?case by (cases l; subst sdp_loop.simps) (auto intro!: Option.bind_cong [OF refl])
qed

lemma parse_lines_append:
  "parse_lines de (xs @ ys) d = do { (r, d') \<leftarrow> parse_lines de xs d; if r \<noteq> SDP_CONTROLLER_RESULT_OK then Some (r, d') else parse_lines de ys d' }"
proof (induction xs arbitrary: d)
  case (Cons l xs)
  then show ?case by (cases l) (auto intro!: Option.bind_cong [OF refl] split: prod.splits)
qed auto

lemma parse_all_Cons_OK:
  "parse_all (a # atts) qa = Some (SDP_CONTROLLER_RESULT_OK, qa') \<longleftrightarrow>
    (\<exists>q1. parse_extra a qa = Some (SDP_CONTROLLER_RESULT_OK, q1) \<and> parse_all atts q1 = Some (SDP_CONTROLLER_RESULT_OK, qa'))"
  by (auto split: bind_splits)

lemma parse_all_append:
  "parse_all (xs @ ys) qa = Some (SDP_CONTROLLER_RESULT_OK, qa') \<longleftrightarrow>
    (\<exists>q1. parse_all xs qa = Some (SDP_CONTROLLER_RESULT_OK, q1) \<and> parse_all ys q1 = Some (SDP_CONTROLLER_RESULT_OK, qa'))"
  by (induction xs arbitrary: qa) (auto simp: parse_all_Cons_OK simp del: parse_all.simps(2))

lemma attribute_eta: "\<lparr>pAttributeName = pAttributeName a, pAttributeValue = pAttributeValue a\<rparr> = (a :: SdpControllerAttributes)"
  by simp

text \<open>Lines that are attributes.\<close>

definition attribute_lines :: "'r sdp_deserializer \<Rightarrow> (sdp_type \<times> string) list \<Rightarrow> SdpControllerAttributes list \<Rightarrow> bool" where
  "attribute_lines de =
     list_all2 (\<lambda>(ty, s) a. ty = SDP_TYPE_ATTRIBUTE \<and> SdpDeserializer_ParseAttribute de s = Some (pAttributeName a, pAttributeValue a))"

lemma parse_session_attributes:
  assumes "attribute_lines de ls atts" "mediaDescriptions d = []"
    "length (sessionAttributes d) + length atts \<le> SDP_CONTROLLER_MAX_SDP_ATTRIBUTES_COUNT"
    "parse_all atts (quickAccess d) = Some (SDP_CONTROLLER_RESULT_OK, qa)"
  shows "parse_lines de ls d = Some (SDP_CONTROLLER_RESULT_OK, d\<lparr>sessionAttributes := sessionAttributes d @ atts, quickAccess := qa\<rparr>)"
  using assms
proof (induction ls arbitrary: atts d)
  case Nil
  then show ?case by (simp add: attribute_lines_def)
next
  case (Cons l ls)
  then obtain s a as' where l: "l = (SDP_TYPE_ATTRIBUTE, s)" "SdpDeserializer_ParseAttribute de s = Some (pAttributeName a, pAttributeValue a)"
    "atts = a # as'" "attribute_lines de ls as'"
    by (auto simp: attribute_lines_def list_all2_Cons1)
  from Cons.prems(4) l(3) obtain q1 where q1: "parse_extra a (quickAccess d) = Some (SDP_CONTROLLER_RESULT_OK, q1)"
    "parse_all as' q1 = Some (SDP_CONTROLLER_RESULT_OK, qa)" by (auto simp: parse_all_Cons_OK simp del: parse_all.simps(2))
  let ?d = "d\<lparr>sessionAttributes := sessionAttributes d @ [a], quickAccess := q1\<rparr>"
  have "parse_line de SDP_TYPE_ATTRIBUTE s d = Some (SDP_CONTROLLER_RESULT_OK, ?d)"
    using Cons.prems(2,3) l(2,3) q1(1) by (simp add: parse_line_def ParseSessionAttributes_def ParseExtraAttributes_def attribute_eta Let_def)
  moreover have "parse_lines de ls ?d = Some (SDP_CONTROLLER_RESULT_OK, ?d\<lparr>sessionAttributes := sessionAttributes ?d @ as', quickAccess := qa\<rparr>)"
    by (rule Cons.IH [OF l(4)]) (use Cons.prems l(3) q1(2) in auto)
  ultimately show ?case by (simp add: l(1,3))
qed

lemma parse_media_attributes:
  assumes "attribute_lines de ls atts" "mediaDescriptions d = mds @ [md]"
    "length (mediaAttributes md) + length atts \<le> SDP_CONTROLLER_MAX_SDP_ATTRIBUTES_COUNT"
    "parse_all atts (quickAccess d) = Some (SDP_CONTROLLER_RESULT_OK, qa)"
  shows "parse_lines de ls d = Some (SDP_CONTROLLER_RESULT_OK,
    d\<lparr>mediaDescriptions := mds @ [md\<lparr>mediaAttributes := mediaAttributes md @ atts\<rparr>], quickAccess := qa\<rparr>)"
  using assms
proof (induction ls arbitrary: atts d md)
  case Nil
  then show ?case by (simp add: attribute_lines_def)
next
  case (Cons l ls)
  then obtain s a as' where l: "l = (SDP_TYPE_ATTRIBUTE, s)" "SdpDeserializer_ParseAttribute de s = Some (pAttributeName a, pAttributeValue a)"
    "atts = a # as'" "attribute_lines de ls as'"
    by (auto simp: attribute_lines_def list_all2_Cons1)
  from Cons.prems(4) l(3) obtain q1 where q1: "parse_extra a (quickAccess d) = Some (SDP_CONTROLLER_RESULT_OK, q1)"
    "parse_all as' q1 = Some (SDP_CONTROLLER_RESULT_OK, qa)" by (auto simp: parse_all_Cons_OK simp del: parse_all.simps(2))
  let ?md = "md\<lparr>mediaAttributes := mediaAttributes md @ [a]\<rparr>"
  let ?d = "d\<lparr>mediaDescriptions := mds @ [?md], quickAccess := q1\<rparr>"
  have "parse_line de SDP_TYPE_ATTRIBUTE s d = Some (SDP_CONTROLLER_RESULT_OK, ?d)"
    using Cons.prems(2,3) l(2,3) q1(1) by (simp add: parse_line_def ParseMediaAttributes_def ParseExtraAttributes_def attribute_eta Let_def list_update_append)
  moreover have "parse_lines de ls ?d = Some (SDP_CONTROLLER_RESULT_OK,
      ?d\<lparr>mediaDescriptions := mds @ [?md\<lparr>mediaAttributes := mediaAttributes ?md @ as'\<rparr>], quickAccess := qa\<rparr>)"
    by (rule Cons.IH [OF l(4)]) (use Cons.prems l(3) q1(2) in auto)
  ultimately show ?case by (simp add: l(1,3))
qed

section \<open>Writing lines\<close>

lemma and_then_OK: "and_then r f = (SDP_CONTROLLER_RESULT_OK, c') \<longleftrightarrow> (\<exists>c. r = (SDP_CONTROLLER_RESULT_OK, c) \<and> f c = (SDP_CONTROLLER_RESULT_OK, c'))"
  by (cases r) (auto simp: and_then_def)

lemma add_result_OK: "add_result r = (SDP_CONTROLLER_RESULT_OK, c) \<longleftrightarrow> r = (True, c)"
  by (cases r) (auto simp: add_result_def)

lemmas serialize_OK = and_then_OK add_result_OK

text \<open>The laws, one function at a time.\<close>

lemma library_lines:
  assumes "sdp_library_ok lb de lns"
  shows init_lines: "SdpSerializer_Init lb n = Some c \<Longrightarrow> lns c = []"
    and add_u64_lines: "SdpSerializer_AddU64 lb ty v c = (True, c') \<Longrightarrow> lns c' = lns c @ [(read_type ty, show_nat (unat v))]"
    and add_buffer_lines: "SdpSerializer_AddBuffer lb ty s c = (True, c') \<Longrightarrow> plain_text s \<Longrightarrow> lns c' = lns c @ [(read_type ty, s)]"
    and add_origin_lines: "SdpSerializer_AddOriginator lb o' c = (True, c') \<Longrightarrow> \<exists>s. lns c' = lns c @ [(SDP_TYPE_ORIGINATOR, s)]"
    and add_time_lines: "SdpSerializer_AddTimeActive lb t c = (True, c') \<Longrightarrow> \<exists>s. lns c' = lns c @ [(SDP_TYPE_TIME_ACTIVE, s)]"
    and add_connection_lines: "SdpSerializer_AddConnectionInfo lb adr c = (True, c') \<Longrightarrow> \<exists>s. lns c' = lns c @ [(SDP_TYPE_CONNINFO, s)]"
    and add_attribute_lines: "SdpSerializer_AddAttribute lb a c = (True, c') \<Longrightarrow> plain_attribute a \<Longrightarrow>
      \<exists>s. lns c' = lns c @ [(SDP_TYPE_ATTRIBUTE, s)] \<and> SdpDeserializer_ParseAttribute de s = Some (pAttributeName a, pAttributeValue a)"
    and finalize_lines: "SdpSerializer_Finalize lb c = Some txt \<Longrightarrow> \<exists>ctx. SdpDeserializer_Init de txt = Some ctx \<and> sdp_reads de ctx (lns c)"
  using assms unfolding sdp_library_ok_def by metis+

lemma serialize_attributes_lines:
  assumes ok: "sdp_library_ok lb de lns"
  shows "SerializeAttributes lb atts c = (SDP_CONTROLLER_RESULT_OK, c') \<Longrightarrow> list_all plain_attribute atts
    \<Longrightarrow> \<exists>ls. lns c' = lns c @ ls \<and> attribute_lines de ls atts"
proof (induction atts arbitrary: c)
  case Nil
  then show ?case by (simp add: attribute_lines_def)
next
  case (Cons a atts)
  then obtain c1 where c1: "SdpSerializer_AddAttribute lb a c = (True, c1)" "SerializeAttributes lb atts c1 = (SDP_CONTROLLER_RESULT_OK, c')"
    by (cases "SdpSerializer_AddAttribute lb a c") (auto simp: add_result_def split: prod.splits if_splits)
  obtain s where s: "lns c1 = lns c @ [(SDP_TYPE_ATTRIBUTE, s)]" "SdpDeserializer_ParseAttribute de s = Some (pAttributeName a, pAttributeValue a)"
    using add_attribute_lines [OF ok c1(1)] Cons.prems(2) by auto
  obtain ls where "lns c' = lns c1 @ ls" "attribute_lines de ls atts"
    using Cons.IH [OF c1(2)] Cons.prems(2) by auto
  with s have "lns c' = lns c @ (SDP_TYPE_ATTRIBUTE, s) # ls \<and> attribute_lines de ((SDP_TYPE_ATTRIBUTE, s) # ls) (a # atts)"
    by (simp add: attribute_lines_def)
  then show ?case by blast
qed

definition title_lines :: "SdpControllerMediaDescription \<Rightarrow> (sdp_type \<times> string) list" where
  "title_lines md = (case pMediaTitle md of None \<Rightarrow> [] | Some t \<Rightarrow> [(SDP_TYPE_SESSION_INFO, t)])"

definition media_lines :: "'r sdp_deserializer \<Rightarrow> (sdp_type \<times> string) list \<Rightarrow> SdpControllerMediaDescription \<Rightarrow> bool" where
  "media_lines de ls md \<longleftrightarrow> (\<exists>s ats. ls = [(SDP_TYPE_MEDIA, pMediaName md)] @ title_lines md @ [(SDP_TYPE_CONNINFO, s)] @ ats
     \<and> attribute_lines de ats (mediaAttributes md))"

lemma serialize_media_lines:
  assumes ok: "sdp_library_ok lb de lns" and "serialize_media lb md c = (SDP_CONTROLLER_RESULT_OK, c')" "plain_media md"
  shows "\<exists>ls. lns c' = lns c @ ls \<and> media_lines de ls md"
proof -
  from assms(2) obtain c1 c2 c3 where c: "SdpSerializer_AddBuffer lb SDP_TYPE_MEDIA (pMediaName md) c = (True, c1)"
    "(case pMediaTitle md of None \<Rightarrow> c2 = c1 | Some t \<Rightarrow> SdpSerializer_AddBuffer lb SDP_TYPE_MEDIA_TITLE t c1 = (True, c2))"
    "SdpSerializer_AddConnectionInfo lb (pConnectionAddress (mediaConnection md)) c2 = (True, c3)"
    "SerializeAttributes lb (mediaAttributes md) c3 = (SDP_CONTROLLER_RESULT_OK, c')"
    by (cases "pMediaTitle md") (auto simp: serialize_media_def SerializeConnectionInfo_def serialize_OK)
  have "lns c1 = lns c @ [(SDP_TYPE_MEDIA, pMediaName md)]"
    using add_buffer_lines [OF ok c(1)] assms(3) by (simp add: plain_media_def read_type_def)
  moreover have "lns c2 = lns c1 @ title_lines md"
    using c(2) assms(3) add_buffer_lines [OF ok, of SDP_TYPE_MEDIA_TITLE _ c1 c2]
    by (auto simp: plain_media_def read_type_def title_lines_def split: option.splits)
  moreover obtain s where "lns c3 = lns c2 @ [(SDP_TYPE_CONNINFO, s)]" using add_connection_lines [OF ok c(3)] by blast
  moreover obtain ats where "lns c' = lns c3 @ ats" "attribute_lines de ats (mediaAttributes md)"
    using serialize_attributes_lines [OF ok c(4)] assms(3) by (auto simp: plain_media_def)
  ultimately show ?thesis by (auto simp: media_lines_def)
qed

lemma serialize_medias_lines:
  assumes ok: "sdp_library_ok lb de lns"
  shows "SerializeMedias lb mds c = (SDP_CONTROLLER_RESULT_OK, c') \<Longrightarrow> list_all plain_media mds
    \<Longrightarrow> \<exists>lss. lns c' = lns c @ concat lss \<and> list_all2 (media_lines de) lss mds"
proof (induction mds arbitrary: c)
  case Nil
  then show ?case by (auto intro!: exI [of _ "[]"])
next
  case (Cons md mds)
  then obtain c1 where c1: "serialize_media lb md c = (SDP_CONTROLLER_RESULT_OK, c1)" "SerializeMedias lb mds c1 = (SDP_CONTROLLER_RESULT_OK, c')"
    by (auto simp: and_then_OK)
  obtain ls where "lns c1 = lns c @ ls" "media_lines de ls md" using serialize_media_lines [OF ok c1(1)] Cons.prems(2) by auto
  moreover obtain lss where "lns c' = lns c1 @ concat lss" "list_all2 (media_lines de) lss mds" using Cons.IH [OF c1(2)] Cons.prems(2) by auto
  ultimately have "lns c' = lns c @ concat (ls # lss) \<and> list_all2 (media_lines de) (ls # lss) (md # mds)" by simp
  then show ?case by blast
qed

section \<open>Reading what was written\<close>

lemma parse_media:
  assumes "media_lines de ls md" "length (mediaDescriptions d) < SDP_CONTROLLER_MAX_SDP_MEDIA_DESCRIPTIONS_COUNT" "plain_media md"
    "parse_all (mediaAttributes md) (quickAccess d) = Some (SDP_CONTROLLER_RESULT_OK, qa)"
  shows "parse_lines de ls d = Some (SDP_CONTROLLER_RESULT_OK, d\<lparr>mediaDescriptions := mediaDescriptions d @ [read_media md], quickAccess := qa\<rparr>)"
proof -
  from assms(1) obtain s ats where ls: "ls = ((SDP_TYPE_MEDIA, pMediaName md) # title_lines md @ [(SDP_TYPE_CONNINFO, s)]) @ ats"
    "attribute_lines de ats (mediaAttributes md)" by (auto simp: media_lines_def)
  let ?md = "zero_media\<lparr>pMediaName := pMediaName md, pMediaTitle := pMediaTitle md\<rparr>"
  let ?d = "d\<lparr>mediaDescriptions := mediaDescriptions d @ [?md]\<rparr>"
  have "parse_lines de ((SDP_TYPE_MEDIA, pMediaName md) # title_lines md @ [(SDP_TYPE_CONNINFO, s)]) d = Some (SDP_CONTROLLER_RESULT_OK, ?d)"
    using assms(2) by (cases "pMediaTitle md") (auto simp: title_lines_def parse_line_def Let_def list_update_append zero_media_def)
  moreover have "parse_lines de ats ?d = Some (SDP_CONTROLLER_RESULT_OK,
      ?d\<lparr>mediaDescriptions := mediaDescriptions d @ [?md\<lparr>mediaAttributes := mediaAttributes ?md @ mediaAttributes md\<rparr>], quickAccess := qa\<rparr>)"
    by (rule parse_media_attributes [OF ls(2)]) (use assms(3,4) in \<open>auto simp: plain_media_def zero_media_def\<close>)
  ultimately show ?thesis by (simp add: ls(1) parse_lines_append read_media_def zero_media_def del: append.simps parse_lines.simps)
qed

lemma parse_medias:
  assumes "list_all2 (media_lines de) lss mds" "list_all plain_media mds"
    "length (mediaDescriptions d) + length mds \<le> SDP_CONTROLLER_MAX_SDP_MEDIA_DESCRIPTIONS_COUNT"
    "parse_all (concat (map mediaAttributes mds)) (quickAccess d) = Some (SDP_CONTROLLER_RESULT_OK, qa)"
  shows "parse_lines de (concat lss) d
    = Some (SDP_CONTROLLER_RESULT_OK, d\<lparr>mediaDescriptions := mediaDescriptions d @ map read_media mds, quickAccess := qa\<rparr>)"
  using assms
proof (induction lss mds arbitrary: d rule: list_all2_induct)
  case (Cons ls lss md mds)
  then obtain q1 where q1: "parse_all (mediaAttributes md) (quickAccess d) = Some (SDP_CONTROLLER_RESULT_OK, q1)"
    "parse_all (concat (map mediaAttributes mds)) q1 = Some (SDP_CONTROLLER_RESULT_OK, qa)" by (auto simp: parse_all_append)
  let ?d = "d\<lparr>mediaDescriptions := mediaDescriptions d @ [read_media md], quickAccess := q1\<rparr>"
  have "parse_lines de ls d = Some (SDP_CONTROLLER_RESULT_OK, ?d)"
    by (rule parse_media [OF Cons.hyps(1) _ _ q1(1)]) (use Cons.prems in auto)
  moreover have "parse_lines de (concat lss) ?d
    = Some (SDP_CONTROLLER_RESULT_OK, ?d\<lparr>mediaDescriptions := mediaDescriptions ?d @ map read_media mds, quickAccess := qa\<rparr>)"
    by (rule Cons.IH) (use Cons.prems q1(2) in auto)
  ultimately show ?case by (simp add: parse_lines_append)
qed simp

lemma parse_version [simp]:
  "StringUtils_ConvertStringToUl (Some (show_nat (unat (v :: u32)) @ [CHR 0x0D])) (length (show_nat (unat v))) True
    = Some (STRING_UTILS_RESULT_OK, Some v)"
  by (subst ConvertStringToUl_digits) (auto dest: show_nat_digits)

text \<open>The lines in front of the attributes of the session.\<close>

lemma parse_session_lines:
  "parse_lines de [(SDP_TYPE_VERSION, show_nat (unat (v :: u32))), (SDP_TYPE_ORIGINATOR, s1), (SDP_TYPE_SESSION_NAME, n), (SDP_TYPE_TIME_ACTIVE, s2)]
      zero_description
    = Some (SDP_CONTROLLER_RESULT_OK, zero_description\<lparr>sdpVersion := v, pSessionName := n\<rparr>)"
  by (simp add: parse_line_def Let_def zero_description_def)

lemma serialize_message_lines:
  assumes ok: "sdp_library_ok lb de lns" and "SerializeSdpMessage lb d room = Inr txt" "plain_description d"
  shows "\<exists>ctx s1 s2 ats lss. SdpDeserializer_Init de txt = Some ctx
    \<and> sdp_reads de ctx ([(SDP_TYPE_VERSION, show_nat (unat (sdpVersion d))), (SDP_TYPE_ORIGINATOR, s1), (SDP_TYPE_SESSION_NAME, pSessionName d),
        (SDP_TYPE_TIME_ACTIVE, s2)] @ ats @ concat lss)
    \<and> attribute_lines de ats (sessionAttributes d) \<and> list_all2 (media_lines de) lss (mediaDescriptions d)"
proof -
  from assms(2) obtain c0 c1 c2 c3 c4 c5 c where c: "SdpSerializer_Init lb room = Some c0"
    "SdpSerializer_AddU64 lb SDP_TYPE_VERSION (ucast (sdpVersion d)) c0 = (True, c1)"
    "SdpSerializer_AddOriginator lb (origin d) c1 = (True, c2)"
    "SdpSerializer_AddBuffer lb SDP_TYPE_SESSION_NAME (pSessionName d) c2 = (True, c3)"
    "SdpSerializer_AddTimeActive lb (timingDescription d) c3 = (True, c4)"
    "SerializeAttributes lb (sessionAttributes d) c4 = (SDP_CONTROLLER_RESULT_OK, c5)"
    "SerializeMedias lb (mediaDescriptions d) c5 = (SDP_CONTROLLER_RESULT_OK, c)"
    "SdpSerializer_Finalize lb c = Some txt"
    by (auto simp: SerializeSdpMessage_def SerializeOrigin_def SerializeTiming_def serialize_OK
        split: option.splits prod.splits if_splits)
  have pl: "plain_text (pSessionName d)" "list_all plain_attribute (sessionAttributes d)" "list_all plain_media (mediaDescriptions d)"
    using assms(3) by (auto simp: plain_description_def)
  from add_origin_lines [OF ok c(3)] add_time_lines [OF ok c(5)] obtain s1 s2
    where s: "lns c2 = lns c1 @ [(SDP_TYPE_ORIGINATOR, s1)]" "lns c4 = lns c3 @ [(SDP_TYPE_TIME_ACTIVE, s2)]" by blast
  from serialize_attributes_lines [OF ok c(6) pl(2)] serialize_medias_lines [OF ok c(7) pl(3)] obtain ats lss
    where l: "lns c5 = lns c4 @ ats" "attribute_lines de ats (sessionAttributes d)"
      "lns c = lns c5 @ concat lss" "list_all2 (media_lines de) lss (mediaDescriptions d)" by blast
  have "lns c = [(SDP_TYPE_VERSION, show_nat (unat (sdpVersion d))), (SDP_TYPE_ORIGINATOR, s1), (SDP_TYPE_SESSION_NAME, pSessionName d),
        (SDP_TYPE_TIME_ACTIVE, s2)] @ ats @ concat lss"
    using init_lines [OF ok c(1)] add_u64_lines [OF ok c(2)] add_buffer_lines [OF ok c(4) pl(1)] s l(1,3) by (simp add: read_type_def)
  with finalize_lines [OF ok c(8)] l(2,4) show ?thesis by metis
qed

lemma description_read_back:
  assumes "sdp_library_ok lb de lns"
    and "SerializeSdpMessage lb d room = Inr txt"
    and "plain_description d"
    and "parse_all (sessionAttributes d @ concat (map mediaAttributes (mediaDescriptions d))) (quickAccess zero_description)
      = Some (SDP_CONTROLLER_RESULT_OK, qa)"
    and "pFingerprint qa \<noteq> None" "pIceUfrag qa \<noteq> None" "pIcePwd qa \<noteq> None"
  shows "SdpController_DeserializeSdpMessage de (Some txt) (Some d0)
    = Some (SDP_CONTROLLER_RESULT_OK, Some (zero_description\<lparr>sdpVersion := sdpVersion d, pSessionName := pSessionName d,
        sessionAttributes := sessionAttributes d, mediaDescriptions := map read_media (mediaDescriptions d), quickAccess := qa\<rparr>))"
proof -
  from serialize_message_lines [OF assms(1-3)] obtain ctx s1 s2 ats lss where l: "SdpDeserializer_Init de txt = Some ctx"
    "sdp_reads de ctx ([(SDP_TYPE_VERSION, show_nat (unat (sdpVersion d))), (SDP_TYPE_ORIGINATOR, s1), (SDP_TYPE_SESSION_NAME, pSessionName d),
        (SDP_TYPE_TIME_ACTIVE, s2)] @ ats @ concat lss)" (is "sdp_reads de ctx (?head @ _)")
    "attribute_lines de ats (sessionAttributes d)" "list_all2 (media_lines de) lss (mediaDescriptions d)" by blast
  let ?d1 = "zero_description\<lparr>sdpVersion := sdpVersion d, pSessionName := pSessionName d\<rparr>"
  have zero: "mediaDescriptions zero_description = []" "sessionAttributes zero_description = []" by (auto simp: zero_description_def)
  from assms(4) obtain q1 where q1: "parse_all (sessionAttributes d) (quickAccess zero_description) = Some (SDP_CONTROLLER_RESULT_OK, q1)"
    "parse_all (concat (map mediaAttributes (mediaDescriptions d))) q1 = Some (SDP_CONTROLLER_RESULT_OK, qa)" by (auto simp: parse_all_append)
  let ?d2 = "?d1\<lparr>sessionAttributes := sessionAttributes d, quickAccess := q1\<rparr>"
  have "parse_lines de ats ?d1 = Some (SDP_CONTROLLER_RESULT_OK, ?d2)"
    using parse_session_attributes [OF l(3), of ?d1 q1] assms(3) q1(1) zero by (simp add: plain_description_def)
  moreover have "parse_lines de (concat lss) ?d2
    = Some (SDP_CONTROLLER_RESULT_OK, ?d2\<lparr>mediaDescriptions := map read_media (mediaDescriptions d), quickAccess := qa\<rparr>)"
    using parse_medias [OF l(4), of ?d2 qa] assms(3) q1(2) zero by (simp add: plain_description_def)
  ultimately have "sdp_loop de ctx zero_description
      = Some (SDP_CONTROLLER_RESULT_OK, ?d2\<lparr>mediaDescriptions := map read_media (mediaDescriptions d), quickAccess := qa\<rparr>)"
    unfolding deserialize_lines [OF l(2)] parse_lines_append parse_session_lines by simp
  with l(1) assms(5-7) show ?thesis by (simp add: SdpController_DeserializeSdpMessage_def)
qed

section \<open>A library\<close>

text \<open>The lines are kept in the context, printed as \<open>x=value\<close> with a line end behind, and read one at a time.\<close>

definition demo_letters :: "(sdp_type \<times> char) list" where
  "demo_letters = [(SDP_TYPE_VERSION, CHR ''v''), (SDP_TYPE_ORIGINATOR, CHR ''o''), (SDP_TYPE_SESSION_NAME, CHR ''s''), (SDP_TYPE_SESSION_INFO, CHR ''i''),
     (SDP_TYPE_URI, CHR ''u''), (SDP_TYPE_EMAIL, CHR ''e''), (SDP_TYPE_PHONE, CHR ''p''), (SDP_TYPE_CONNINFO, CHR ''c''),
     (SDP_TYPE_TIME_ACTIVE, CHR ''t''), (SDP_TYPE_ATTRIBUTE, CHR ''a''), (SDP_TYPE_MEDIA, CHR ''m'')]"

definition demo_letter :: "sdp_type \<Rightarrow> char" where
  "demo_letter ty = (case map_of demo_letters ty of None \<Rightarrow> CHR ''b'' | Some c \<Rightarrow> c)"

definition demo_type :: "char \<Rightarrow> sdp_type" where
  "demo_type c = (case find (\<lambda>(ty, l). l = c) demo_letters of None \<Rightarrow> SDP_TYPE_OTHER | Some (ty, l) \<Rightarrow> ty)"

definition demo_add :: "sdp_type \<Rightarrow> string \<Rightarrow> (sdp_type \<times> string) list \<Rightarrow> bool \<times> (sdp_type \<times> string) list" where
  "demo_add ty s c = (if plain_text s then (True, c @ [(read_type ty, s)]) else (False, c))"

definition demo_attribute :: "SdpControllerAttributes \<Rightarrow> string" where
  "demo_attribute a = pAttributeName a @ (case pAttributeValue a of None \<Rightarrow> [] | Some v \<Rightarrow> '':'' @ v)"

definition demo_print :: "sdp_type \<times> string \<Rightarrow> string" where
  "demo_print l = demo_letter (fst l) # ''='' @ snd l @ [CHR 0x0D, CHR 0x0A]"

definition demo_serializer :: "(sdp_type \<times> string) list sdp_serializer" where
  "demo_serializer =
     \<lparr>SdpSerializer_Init = (\<lambda>room. Some []),
      SdpSerializer_AddU64 = (\<lambda>ty v. demo_add ty (show_nat (unat v))),
      SdpSerializer_AddBuffer = demo_add,
      SdpSerializer_AddOriginator = (\<lambda>o'. demo_add SDP_TYPE_ORIGINATOR (pUserName o' @ '' '' @ show_nat (unat (sessionId o'))
         @ '' '' @ show_nat (unat (sessionVersion o')) @ '' IN IP4 '' @ pConnectionAddress (sdpConnectionInformation o'))),
      SdpSerializer_AddTimeActive = (\<lambda>t. demo_add SDP_TYPE_TIME_ACTIVE (show_nat (unat (startTime t)) @ '' '' @ show_nat (unat (stopTime t)))),
      SdpSerializer_AddAttribute = (\<lambda>a. demo_add SDP_TYPE_ATTRIBUTE (demo_attribute a)),
      SdpSerializer_AddConnectionInfo = (\<lambda>adr. demo_add SDP_TYPE_CONNINFO (''IN IP4 '' @ adr)),
      SdpSerializer_Finalize = (\<lambda>c. if list_all (\<lambda>l. plain_text (snd l) \<and> demo_type (demo_letter (fst l)) = fst l) c
         then Some (concat (map demo_print c)) else None)\<rparr>"

definition demo_next :: "string \<Rightarrow> (sdp_type \<times> string \<times> string) option" where
  "demo_next text =
     (case text of
        l # eq # rest \<Rightarrow> (let v = takeWhile (\<lambda>c. c \<noteq> CHR 0x0D) rest in Some (demo_type l, v, drop (length v + 2) rest))
      | _ \<Rightarrow> None)"

definition demo_deserializer :: "string sdp_deserializer" where
  "demo_deserializer =
     \<lparr>SdpDeserializer_Init = Some,
      SdpDeserializer_GetNext = demo_next,
      SdpDeserializer_ParseAttribute = (\<lambda>s. let n = takeWhile (\<lambda>c. c \<noteq> CHR '':'') s
         in if n = s then Some (n, None) else Some (n, Some (drop (length n + 1) s)))\<rparr>"

lemma plain_text_append [simp]: "plain_text (a @ b) \<longleftrightarrow> plain_text a \<and> plain_text b"
  by (auto simp: plain_text_def)

lemma plain_text_show_nat [simp]: "plain_text (show_nat n)"
  using show_nat_digits [of _ n] by (fastforce simp: plain_text_def is_digit_def)

lemma takeWhile_up_to: "x \<notin> set a \<Longrightarrow> takeWhile (\<lambda>c. c \<noteq> x) (a @ x # b) = a"
  by (induction a) auto

lemma demo_next_print: "plain_text (snd l) \<Longrightarrow> demo_next (demo_print l @ rest) = Some (demo_type (demo_letter (fst l)), snd l, rest)"
  by (simp add: demo_next_def demo_print_def plain_text_def Let_def takeWhile_up_to)

lemma demo_reads:
  "list_all (\<lambda>l. plain_text (snd l) \<and> demo_type (demo_letter (fst l)) = fst l) ls \<Longrightarrow> sdp_reads demo_deserializer (concat (map demo_print ls)) ls"
proof (induction ls)
  case Nil
  then show ?case by (simp add: demo_deserializer_def demo_next_def)
next
  case (Cons l ls)
  then show ?case by (cases l) (use demo_next_print [of l] in \<open>simp add: demo_deserializer_def\<close>)
qed

lemma demo_parse_attribute:
  "plain_attribute a \<Longrightarrow> SdpDeserializer_ParseAttribute demo_deserializer (demo_attribute a) = Some (pAttributeName a, pAttributeValue a)"
  by (cases "pAttributeValue a") (auto simp: plain_attribute_def demo_attribute_def demo_deserializer_def Let_def takeWhile_up_to takeWhile_eq_all_conv)

lemma demo_library_ok: "sdp_library_ok demo_serializer demo_deserializer (\<lambda>c. c)"
  unfolding sdp_library_ok_def
proof (intro conjI)
  show "\<forall>a c c'. SdpSerializer_AddAttribute demo_serializer a c = (True, c') \<longrightarrow> plain_attribute a \<longrightarrow>
     (\<exists>s. c' = c @ [(SDP_TYPE_ATTRIBUTE, s)] \<and> SdpDeserializer_ParseAttribute demo_deserializer s = Some (pAttributeName a, pAttributeValue a))"
    by (auto simp: demo_serializer_def demo_add_def read_type_def demo_parse_attribute split: if_splits)
  show "\<forall>c text. SdpSerializer_Finalize demo_serializer c = Some text \<longrightarrow>
     (\<exists>ctx. SdpDeserializer_Init demo_deserializer text = Some ctx \<and> sdp_reads demo_deserializer ctx c)"
  proof -
    have "SdpDeserializer_Init demo_deserializer x = Some x" for x by (simp add: demo_deserializer_def)
    then show ?thesis by (auto simp: demo_serializer_def demo_reads split: if_splits)
  qed
qed (auto simp: demo_serializer_def demo_add_def read_type_def split: if_splits)

text \<open>A session description that the controller writes, the controller reads back.  Suppose the SDP library reads the
  lines that it wrote, the text of the description stays on its lines, the description fits into the arrays of the reader, and
  the attributes, read in the order session, first media, second media, name a fingerprint, a user fragment and a
  password.  Then, whatever was in the result before, the text is accepted: version, session name, the attributes of the
  session and the name, title and attributes of every media description are those that were written, in their order, and the
  fingerprint, role, user fragment, password, candidates and extension number are those that the attributes
  name.  Origin, timing and connection lines are skipped.\<close>

theorem sdp_round_trip:
  assumes "sdp_library_ok lb de lns"
    and "SerializeSdpMessage lb d room = Inr txt"
    and "plain_description d"
    and "parse_all (sessionAttributes d @ concat (map mediaAttributes (mediaDescriptions d))) (quickAccess zero_description)
      = Some (SDP_CONTROLLER_RESULT_OK, qa)"
    and "pFingerprint qa \<noteq> None" "pIceUfrag qa \<noteq> None" "pIcePwd qa \<noteq> None"
  shows "SdpController_DeserializeSdpMessage de (Some txt) (Some d0)
    = Some (SDP_CONTROLLER_RESULT_OK, Some (zero_description\<lparr>sdpVersion := sdpVersion d, pSessionName := pSessionName d,
        sessionAttributes := sessionAttributes d, mediaDescriptions := map read_media (mediaDescriptions d), quickAccess := qa\<rparr>))"
  by (rule description_read_back [OF assms])

text \<open>A description with one media description, written with this library.\<close>

definition demo_attributes :: "SdpControllerAttributes list" where
  "demo_attributes =
     [\<lparr>pAttributeName = ''ice-ufrag'', pAttributeValue = Some ''u''\<rparr>, \<lparr>pAttributeName = ''ice-pwd'', pAttributeValue = Some ''p''\<rparr>,
      \<lparr>pAttributeName = ''fingerprint'', pAttributeValue = Some ''sha-256 AB''\<rparr>, \<lparr>pAttributeName = ''setup'', pAttributeValue = Some ''active''\<rparr>]"

definition demo_description :: SdpControllerSdpDescription where
  "demo_description = zero_description\<lparr>pSessionName := ''-'',
     mediaDescriptions := [zero_media\<lparr>pMediaName := ''video 9'', pMediaTitle := Some ''cam'', mediaAttributes := demo_attributes\<rparr>]\<rparr>"

definition demo_sdp_text :: string where
  "demo_sdp_text = (case SerializeSdpMessage demo_serializer demo_description 1000 of Inl r \<Rightarrow> [] | Inr txt \<Rightarrow> txt)"

theorem sdp_round_trip_witness:
  "SdpController_DeserializeSdpMessage demo_deserializer (Some demo_sdp_text) (Some zero_description)
    = Some (SDP_CONTROLLER_RESULT_OK, Some (zero_description\<lparr>sdpVersion := 0, pSessionName := ''-'', sessionAttributes := [],
        mediaDescriptions := [zero_media\<lparr>pMediaName := ''video 9'', pMediaTitle := Some ''cam'', mediaAttributes := demo_attributes\<rparr>],
        quickAccess := (quickAccess zero_description)\<lparr>pIceUfrag := Some ''u'', pIcePwd := Some ''p'', pFingerprint := Some ''AB'',
          dtlsRole := SDP_CONTROLLER_DTLS_ROLE_ACTIVE\<rparr>\<rparr>))"
proof -
  have written: "SerializeSdpMessage demo_serializer demo_description 1000 = Inr demo_sdp_text"
    unfolding demo_sdp_text_def by code_simp
  have plain: "plain_description demo_description" by code_simp
  have qa: "parse_all (sessionAttributes demo_description @ concat (map mediaAttributes (mediaDescriptions demo_description))) (quickAccess zero_description)
      = Some (SDP_CONTROLLER_RESULT_OK, (quickAccess zero_description)\<lparr>pIceUfrag := Some ''u'', pIcePwd := Some ''p'', pFingerprint := Some ''AB'',
          dtlsRole := SDP_CONTROLLER_DTLS_ROLE_ACTIVE\<rparr>)"
    by (simp add: demo_description_def demo_attributes_def parse_extra_def zero_description_def)
  have d: "sdpVersion demo_description = 0" "pSessionName demo_description = ''-''" "sessionAttributes demo_description = []"
    "map read_media (mediaDescriptions demo_description)
      = [zero_media\<lparr>pMediaName := ''video 9'', pMediaTitle := Some ''cam'', mediaAttributes := demo_attributes\<rparr>]"
    by (simp_all add: demo_description_def zero_description_def read_media_def zero_media_def)
  show ?thesis using sdp_round_trip [OF demo_library_ok written plain qa, of zero_description] unfolding d by simp
qed

end
