(* ===== verification/Sdp_Offer.thy ===== *)
theory Sdp_Offer
  imports Sdp_Round_Trip
begin

text \<open>
  What a composed media description tells the reader: every step of \<open>SdpController_PopulateSingleMedia\<close> adds attributes, and
  \<open>ParseExtraAttributes\<close> takes from them the credentials of the configuration.
\<close>

section \<open>Steps that add attributes\<close>

text \<open>A step only adds attributes at the end, and reading them has the effect \<open>g\<close>.\<close>

definition tells :: "(pop_state \<Rightarrow> pop_result) \<Rightarrow> (SdpControllerQuickAccess \<Rightarrow> SdpControllerQuickAccess) \<Rightarrow> bool" where
  "tells f g \<longleftrightarrow> (\<forall>st st'. f st = Some (SDP_CONTROLLER_RESULT_OK, st') \<longrightarrow>
     (\<exists>ats. mediaAttributes (popMedia st') = mediaAttributes (popMedia st) @ ats
        \<and> (\<forall>qa. parse_all ats qa = Some (SDP_CONTROLLER_RESULT_OK, g qa))))"

named_theorems tells_intro

lemma tells_steps:
  assumes "list_all2 tells fs gs"
  shows "tells (sdp_steps fs) (fold (\<lambda>g qa. g qa) gs)"
  using assms
proof (induction fs gs rule: list_all2_induct)
  case Nil
  then show ?case by (simp add: tells_def)
next
  case (Cons f fs g gs)
  show ?case unfolding tells_def
  proof (intro allI impI)
    fix st st'
    assume "sdp_steps (f # fs) st = Some (SDP_CONTROLLER_RESULT_OK, st')"
    then obtain st1 where st1: "f st = Some (SDP_CONTROLLER_RESULT_OK, st1)" "sdp_steps fs st1 = Some (SDP_CONTROLLER_RESULT_OK, st')"
      by (auto split: bind_splits if_splits)
    from Cons.hyps(1) st1(1) obtain a1 where a1: "mediaAttributes (popMedia st1) = mediaAttributes (popMedia st) @ a1"
      "\<And>qa. parse_all a1 qa = Some (SDP_CONTROLLER_RESULT_OK, g qa)" unfolding tells_def by metis
    from Cons.IH st1(2) obtain a2 where a2: "mediaAttributes (popMedia st') = mediaAttributes (popMedia st1) @ a2"
      "\<And>qa. parse_all a2 qa = Some (SDP_CONTROLLER_RESULT_OK, fold (\<lambda>g qa. g qa) gs qa)" unfolding tells_def by metis
    from a1 a2 show "\<exists>ats. mediaAttributes (popMedia st') = mediaAttributes (popMedia st) @ ats
        \<and> (\<forall>qa. parse_all ats qa = Some (SDP_CONTROLLER_RESULT_OK, fold (\<lambda>g qa. g qa) (g # gs) qa))"
      by (intro exI [of _ "a1 @ a2"]) (simp add: parse_all_append)
  qed
qed

lemma tells_when: "tells f g \<Longrightarrow> tells (sdp_when b f) (if b then g else id)"
  by (auto simp: tells_def sdp_when_def)

lemma tells_push:
  assumes "\<And>qa. parse_extra \<lparr>pAttributeName = name, pAttributeValue = val\<rparr> qa = Some (SDP_CONTROLLER_RESULT_OK, g qa)"
  shows "tells (push_attribute name val) g"
  using assms by (auto simp: tells_def push_attribute_def)

lemma tells_print:
  assumes "\<And>qa. parse_extra \<lparr>pAttributeName = name, pAttributeValue = Some txt\<rparr> qa = Some (SDP_CONTROLLER_RESULT_OK, g qa)"
  shows "tells (print_attribute name txt) g"
  using assms by (auto simp: tells_def print_attribute_def push_attribute_def split: bind_splits option.splits if_splits)

section \<open>Attributes the reader passes over\<close>

abbreviation silent :: "(pop_state \<Rightarrow> pop_result) \<Rightarrow> bool" where
  "silent f \<equiv> tells f id"

definition neutral_name :: "string \<Rightarrow> bool" where
  "neutral_name n \<longleftrightarrow> n \<notin> {SDP_CONTROLLER_MEDIA_ATTRIBUTE_NAME_FINGERPRINT, SDP_CONTROLLER_MEDIA_ATTRIBUTE_NAME_SETUP,
     SDP_CONTROLLER_MEDIA_ATTRIBUTE_NAME_ICE_OPTION, SDP_CONTROLLER_MEDIA_ATTRIBUTE_NAME_ICE_UFRAG, SDP_CONTROLLER_MEDIA_ATTRIBUTE_NAME_ICE_PWD,
     SDP_CONTROLLER_MEDIA_ATTRIBUTE_NAME_EXTMAP, SDP_CONTROLLER_MEDIA_ATTRIBUTE_NAME_CANDIDATE}"

lemma neutral_extra: "neutral_name (pAttributeName a) \<Longrightarrow> parse_extra a qa = Some (SDP_CONTROLLER_RESULT_OK, qa)"
  by (auto simp: neutral_name_def parse_extra_def)

lemma silent_push [tells_intro]: "neutral_name name \<Longrightarrow> silent (push_attribute name val)"
  by (rule tells_push) (simp add: neutral_extra)

lemma silent_print [tells_intro]: "neutral_name name \<Longrightarrow> silent (print_attribute name txt)"
  by (rule tells_print) (simp add: neutral_extra)

lemma silent_steps [tells_intro]: "list_all silent fs \<Longrightarrow> silent (sdp_steps fs)"
proof -
  assume "list_all silent fs"
  then have "list_all2 tells fs (replicate (length fs) id)" by (simp add: list_all2_conv_all_nth list_all_length)
  moreover have "fold (\<lambda>g qa. g qa) (replicate n id) = id" for n by (induction n) auto
  ultimately show ?thesis using tells_steps by fastforce
qed

lemma silent_when [tells_intro]: "silent f \<Longrightarrow> silent (sdp_when b f)"
  using tells_when [of f id b] by simp

lemma silent_if [tells_intro]: "silent f \<Longrightarrow> silent g \<Longrightarrow> silent (if b then f else g)"
  by simp

lemma silent_error [tells_intro]: "silent (\<lambda>st. Some (SDP_CONTROLLER_RESULT_SDP_FAIL_CODEC_NOT_SUPPORT, st))"
  by (simp add: tells_def)

lemma silent_ssrc [tells_intro]: "silent (PopulateTransceiverSsrc t nm cname rtx)"
  by (auto simp: PopulateTransceiverSsrc_def ssrc_steps_def rtx_ssrc_steps_def ssrc_attribute_def neutral_name_def intro!: tells_intro)

lemma silent_rtcp_fb [tells_intro]: "silent (PopulateRtcpFb payload twcc)"
  by (auto simp: PopulateRtcpFb_def neutral_name_def intro!: tells_intro)

lemma silent_fmtp [tells_intro]: "silent (print_fmtp remote payload params)"
  by (auto simp: print_fmtp_def neutral_name_def intro!: tells_intro simp del: sdp_steps.simps split: option.splits)

lemma silent_rtpmap [tells_intro]: "silent (print_rtpmap payload val)"
  by (auto simp: print_rtpmap_def neutral_name_def intro!: tells_intro)

lemma silent_nack [tells_intro]: "silent (print_nack payload)"
  by (auto simp: print_nack_def neutral_name_def intro!: tells_intro)

lemma silent_codecs [tells_intro]:
  "silent (PopulateCodecAttributesH264 remote p x)" "silent (PopulateCodecAttributesOpus remote p x)" "silent (PopulateCodecAttributesVp8 remote p x)"
  "silent (PopulateCodecAttributesMulaw remote p x)" "silent (PopulateCodecAttributesAlaw remote p x)" "silent (PopulateCodecAttributesH265 remote p x)"
  unfolding PopulateCodecAttributesH264_def h264_rtx_steps_def PopulateCodecAttributesOpus_def PopulateCodecAttributesVp8_def
    PopulateCodecAttributesMulaw_def PopulateCodecAttributesAlaw_def PopulateCodecAttributesH265_def
  by (auto simp: neutral_name_def intro!: tells_intro)

lemma silent_codec [tells_intro]: "silent (PopulateCodecAttributes remote cfg)"
proof (cases "cfgTransceiver cfg")
  case None
  then show ?thesis by (simp add: tells_def PopulateCodecAttributes_def)
next
  case (Some tn)
  obtain t nm where tn: "tn = (t, nm)" by (cases tn)
  show ?thesis unfolding PopulateCodecAttributes_def Some tn by (auto simp: Let_def intro!: tells_intro simp del: sdp_steps.simps)
qed

lemma silent_direction [tells_intro]: "silent (push_direction remote offer t)"
proof -
  have n: "neutral_name (direction_name dir)" for dir by (cases dir) (auto simp: direction_name_def neutral_name_def)
  have "silent (\<lambda>st. if c then push_attribute (direction_name d1) None st else if c' then push_attribute (direction_name d2) None st
      else do { md \<leftarrow> remote; push_attribute (direction_name (d3 md)) None st })" for c c' d1 d2 d3
    using silent_push [OF n] by (cases remote) (auto simp: tells_def)
  from this [of offer "direction t" "direction t = TRANSCEIVER_TRACK_DIRECTION_INACTIVE"] show ?thesis by (simp add: push_direction_def [abs_def])
qed

lemma silent_mid [tells_intro]: "silent (push_mid remote offer idx)"
proof -
  have "neutral_name SDP_CONTROLLER_MEDIA_ATTRIBUTE_NAME_MID" by (simp add: neutral_name_def)
  from silent_push [OF this] silent_print [OF this] show ?thesis
    unfolding tells_def push_mid_def by (cases remote) (auto split: bind_splits option.splits if_splits)
qed

lemma silent_media_name [tells_intro]: "silent (print_media_name cfg kind)"
  by (auto simp: tells_def print_media_name_def split: bind_splits option.splits)

section \<open>The credentials\<close>

text \<open>What the reader knows after a media description that was composed with this configuration.\<close>

definition told :: "SdpControllerPopulateMediaConfiguration \<Rightarrow> SdpControllerQuickAccess \<Rightarrow> SdpControllerQuickAccess" where
  "told cfg qa = qa\<lparr>pIceUfrag := cfgUserName cfg, pIcePwd := cfgPassword cfg, isIceTrickle := isIceTrickle qa \<or> canTrickleIce cfg,
     pFingerprint := pLocalFingerprint cfg,
     dtlsRole := (if isOffer cfg then SDP_CONTROLLER_DTLS_ROLE_ACTPASS else SDP_CONTROLLER_DTLS_ROLE_ACTIVE)\<rparr>"

lemma tells_ufrag: "tells (push_attribute SDP_CONTROLLER_MEDIA_ATTRIBUTE_NAME_ICE_UFRAG val) (\<lambda>qa. qa\<lparr>pIceUfrag := val\<rparr>)"
  and tells_pwd: "tells (push_attribute SDP_CONTROLLER_MEDIA_ATTRIBUTE_NAME_ICE_PWD val) (\<lambda>qa. qa\<lparr>pIcePwd := val\<rparr>)"
  and tells_trickle: "tells (push_attribute SDP_CONTROLLER_MEDIA_ATTRIBUTE_NAME_ICE_OPTION (Some SDP_CONTROLLER_MEDIA_ATTRIBUTE_VALUE_ICE_OPTION))
    (\<lambda>qa. qa\<lparr>isIceTrickle := True\<rparr>)"
  and tells_fingerprint: "fp \<noteq> [] \<Longrightarrow> tells (print_attribute SDP_CONTROLLER_MEDIA_ATTRIBUTE_NAME_FINGERPRINT (''sha-256 '' @ fp))
    (\<lambda>qa. qa\<lparr>pFingerprint := Some fp\<rparr>)"
  and tells_setup: "tells (push_attribute SDP_CONTROLLER_MEDIA_ATTRIBUTE_NAME_SETUP
      (Some (if offer then SDP_CONTROLLER_MEDIA_DTLS_ROLE_ACTPASS else SDP_CONTROLLER_MEDIA_DTLS_ROLE_ACTIVE)))
    (\<lambda>qa. qa\<lparr>dtlsRole := (if offer then SDP_CONTROLLER_DTLS_ROLE_ACTPASS else SDP_CONTROLLER_DTLS_ROLE_ACTIVE)\<rparr>)"
  by (rule tells_push tells_print; simp add: parse_extra_def)+

lemmas tells_credentials = tells_ufrag tells_pwd tells_when [OF tells_trickle] tells_fingerprint tells_setup

lemma tells_media_steps:
  assumes "pLocalFingerprint cfg = Some fp" "fp \<noteq> []"
  shows "tells (sdp_steps (media_steps remote cfg idx kind)) (told cfg)"
proof -
  let ?gs = "[id] @ [id, id, id] @ [id, \<lambda>qa. qa\<lparr>pIceUfrag := cfgUserName cfg\<rparr>, \<lambda>qa. qa\<lparr>pIcePwd := cfgPassword cfg\<rparr>,
    (if canTrickleIce cfg then (\<lambda>qa. qa\<lparr>isIceTrickle := True\<rparr>) else id), \<lambda>qa. qa\<lparr>pFingerprint := Some fp\<rparr>,
    \<lambda>qa. qa\<lparr>dtlsRole := (if isOffer cfg then SDP_CONTROLLER_DTLS_ROLE_ACTPASS else SDP_CONTROLLER_DTLS_ROLE_ACTIVE)\<rparr>] @
    [id, id, id, id, id, id]"
  have "list_all2 tells (media_steps remote cfg idx kind) ?gs"
    unfolding media_steps_def stream_steps_def credential_steps_def Let_def assms(1) option.sel
    by (intro list_all2_appendI list.rel_intros tells_credentials assms(2); (rule tells_intro)+; simp add: neutral_name_def)
  from tells_steps [OF this] have "tells (sdp_steps (media_steps remote cfg idx kind)) (fold (\<lambda>g qa. g qa) ?gs)" .
  moreover have "fold (\<lambda>g qa. g qa) ?gs = told cfg" by (auto simp: told_def assms fun_eq_iff)
  ultimately show ?thesis by simp
qed

lemma populated_tells:
  assumes "SdpController_PopulateSingleMedia remote cfg pLocal idx pBuffer kind = Some (SDP_CONTROLLER_RESULT_OK, Some md, room)"
    and "pLocalFingerprint cfg \<noteq> Some []"
  shows "parse_all (mediaAttributes md) qa = Some (SDP_CONTROLLER_RESULT_OK, told cfg qa)"
proof -
  from assms(1) obtain fp st where st: "pLocalFingerprint cfg = Some fp" "md = popMedia st"
    "sdp_steps (media_steps remote cfg idx kind) \<lparr>popRoom = the pBuffer, popMedia = zero_media\<rparr> = Some (SDP_CONTROLLER_RESULT_OK, st)"
    by (auto simp: SdpController_PopulateSingleMedia_def split: if_splits bind_splits)
  with assms(2) tells_media_steps [of cfg fp remote idx kind] show ?thesis by (fastforce simp: tells_def zero_media_def)
qed

lemma told_again: "told cfg (told cfg' qa) = told cfg (qa\<lparr>isIceTrickle := isIceTrickle qa \<or> canTrickleIce cfg'\<rparr>)"
  by (simp add: told_def)

section \<open>The session part\<close>

lemma add_session_attribute_OK:
  "add_session_attribute name val room d = Some (w, d') \<Longrightarrow> 0 \<le> w
    \<Longrightarrow> d' = d\<lparr>sessionAttributes := sessionAttributes d @ [\<lparr>pAttributeName = name, pAttributeValue = Some val\<rparr>]\<rparr>"
  by (auto simp: add_session_attribute_def split: bind_splits if_splits option.splits)

lemma group_OK:
  "AddSessionAttributeGroup room d remote = Some (w, d') \<Longrightarrow> 0 \<le> w
    \<Longrightarrow> \<exists>val. d' = d\<lparr>sessionAttributes := sessionAttributes d @ [\<lparr>pAttributeName = ''group'', pAttributeValue = Some val\<rparr>]\<rparr>"
  by (auto simp: AddSessionAttributeGroup_def dest: add_session_attribute_OK split: bind_splits if_splits option.splits)

text \<open>The attributes of the session, and what the reader takes from them.\<close>

lemma session_attributes_OK:
  assumes "PopulateSessionAttributes remote trickle d room = Some (SDP_CONTROLLER_RESULT_OK, d', room')"
  shows "\<exists>val. d' = d\<lparr>sessionAttributes := sessionAttributes d @ [\<lparr>pAttributeName = ''group'', pAttributeValue = Some val\<rparr>]
    @ (if trickle then [\<lparr>pAttributeName = ''ice-options'', pAttributeValue = Some ''trickle''\<rparr>] else [])
    @ [\<lparr>pAttributeName = ''msid-semantic'', pAttributeValue = Some '' WMS myKvsVideoStream''\<rparr>]\<rparr>"
proof -
  from assms obtain w1 d1 w2 d2 w3 where w: "AddSessionAttributeGroup room d remote = Some (w1, d1)" "0 \<le> w1"
    "(if trickle then AddSessionAttributeIceOptions (room - nat w1) d1 else Some (0, d1)) = Some (w2, d2)" "0 \<le> w2"
    "AddSessionAttributeMsidSemantic (room - nat w1 - nat w2) d2 = Some (w3, d')" "0 \<le> w3"
    by (fastforce simp: PopulateSessionAttributes_def Let_def not_less split: bind_splits if_splits)
  from group_OK [OF w(1,2)] obtain val
    where d1: "d1 = d\<lparr>sessionAttributes := sessionAttributes d @ [\<lparr>pAttributeName = ''group'', pAttributeValue = Some val\<rparr>]\<rparr>" by blast
  moreover have "d2 = d1\<lparr>sessionAttributes := sessionAttributes d1
      @ (if trickle then [\<lparr>pAttributeName = ''ice-options'', pAttributeValue = Some ''trickle''\<rparr>] else [])\<rparr>"
    using w(3,4) by (auto simp: AddSessionAttributeIceOptions_def dest: add_session_attribute_OK split: if_splits)
  moreover have "d' = d2\<lparr>sessionAttributes := sessionAttributes d2 @ [\<lparr>pAttributeName = ''msid-semantic'', pAttributeValue = Some '' WMS myKvsVideoStream''\<rparr>]\<rparr>"
    using w(5,6) unfolding AddSessionAttributeMsidSemantic_def by (rule add_session_attribute_OK)
  ultimately show ?thesis by auto
qed

lemma populated_session_tells:
  assumes "SdpController_PopulateSessionDescription rnd remote scfg (Some d0) pBuffer = Some (SDP_CONTROLLER_RESULT_OK, Some d, room)"
    and "sessionAttributes d0 = []"
  shows "mediaDescriptions d = mediaDescriptions d0"
    and "parse_all (sessionAttributes d) qa = Some (SDP_CONTROLLER_RESULT_OK, qa\<lparr>isIceTrickle := isIceTrickle qa \<or> sesCanTrickleIce scfg\<rparr>)"
proof -
  let ?d = "d0\<lparr>sdpVersion := 0, origin := PopulateSessionOrigin rnd, pSessionName := ''-'', timingDescription := sesTiming scfg\<rparr>"
  from assms(1) obtain room' where "PopulateSessionAttributes remote (sesCanTrickleIce scfg) ?d (the pBuffer) = Some (SDP_CONTROLLER_RESULT_OK, d, room')"
    by (auto simp: SdpController_PopulateSessionDescription_def Let_def split: if_splits bind_splits)
  from session_attributes_OK [OF this] obtain val where d: "d = ?d\<lparr>sessionAttributes := [\<lparr>pAttributeName = ''group'', pAttributeValue = Some val\<rparr>]
    @ (if sesCanTrickleIce scfg then [\<lparr>pAttributeName = ''ice-options'', pAttributeValue = Some ''trickle''\<rparr>] else [])
    @ [\<lparr>pAttributeName = ''msid-semantic'', pAttributeValue = Some '' WMS myKvsVideoStream''\<rparr>]\<rparr>" using assms(2) by auto
  show "mediaDescriptions d = mediaDescriptions d0" by (simp add: d)
  show "parse_all (sessionAttributes d) qa = Some (SDP_CONTROLLER_RESULT_OK, qa\<lparr>isIceTrickle := isIceTrickle qa \<or> sesCanTrickleIce scfg\<rparr>)"
    by (simp add: d parse_extra_def)
qed

text \<open>The media descriptions of a session, all composed with the same credentials.\<close>

definition composed :: "string \<Rightarrow> string \<Rightarrow> string \<Rightarrow> bool \<Rightarrow> SdpControllerMediaDescription \<Rightarrow> bool" where
  "composed user pwd fp offer md \<longleftrightarrow> (\<exists>remote cfg pLocal idx pBuffer kind room.
     SdpController_PopulateSingleMedia remote cfg pLocal idx pBuffer kind = Some (SDP_CONTROLLER_RESULT_OK, Some md, room)
     \<and> cfgUserName cfg = Some user \<and> cfgPassword cfg = Some pwd \<and> pLocalFingerprint cfg = Some fp \<and> isOffer cfg = offer)"

definition knows :: "string \<Rightarrow> string \<Rightarrow> string \<Rightarrow> bool \<Rightarrow> SdpControllerQuickAccess \<Rightarrow> bool" where
  "knows user pwd fp offer qa \<longleftrightarrow> pIceUfrag qa = Some user \<and> pIcePwd qa = Some pwd \<and> pFingerprint qa = Some fp
     \<and> dtlsRole qa = (if offer then SDP_CONTROLLER_DTLS_ROLE_ACTPASS else SDP_CONTROLLER_DTLS_ROLE_ACTIVE)"

lemma composed_known:
  assumes "composed user pwd fp offer md" "fp \<noteq> []"
  shows "\<exists>qa'. parse_all (mediaAttributes md) qa = Some (SDP_CONTROLLER_RESULT_OK, qa') \<and> knows user pwd fp offer qa'"
  using assms populated_tells unfolding composed_def by (fastforce simp: knows_def told_def)

lemma composed_all_known:
  assumes "list_all (composed user pwd fp offer) mds" "fp \<noteq> []"
  shows "\<exists>qa'. parse_all (concat (map mediaAttributes mds)) qa = Some (SDP_CONTROLLER_RESULT_OK, qa') \<and> (mds \<noteq> [] \<longrightarrow> knows user pwd fp offer qa')"
  using assms(1)
proof (induction mds arbitrary: qa)
  case (Cons md mds)
  then obtain q1 where q1: "parse_all (mediaAttributes md) qa = Some (SDP_CONTROLLER_RESULT_OK, q1)" "knows user pwd fp offer q1"
    using composed_known [of user pwd fp offer md qa] assms(2) by auto
  obtain q2 where q2: "parse_all (concat (map mediaAttributes mds)) q1 = Some (SDP_CONTROLLER_RESULT_OK, q2)" "mds \<noteq> [] \<longrightarrow> knows user pwd fp offer q2"
    using Cons.IH [of q1] Cons.prems by auto
  from q1 q2 show ?case by (cases mds) (auto simp: parse_all_append)
qed simp

text \<open>What is written of a composed session is accepted.\<close>

lemma composed_session_accepted:
  assumes "sdp_library_ok lb de lns"
    and "SdpController_PopulateSessionDescription rnd remote scfg (Some d0) pBuffer = Some (SDP_CONTROLLER_RESULT_OK, Some d, room)"
    and "sessionAttributes d0 = []" "mediaDescriptions d0 \<noteq> []" "list_all (composed user pwd fp offer) (mediaDescriptions d0)" "fp \<noteq> []"
    and "SerializeSdpMessage lb d room' = Inr txt" "plain_description d"
  shows "\<exists>d'. SdpController_DeserializeSdpMessage de (Some txt) (Some x) = Some (SDP_CONTROLLER_RESULT_OK, Some d')
    \<and> sessionAttributes d' = sessionAttributes d \<and> mediaDescriptions d' = map read_media (mediaDescriptions d0) \<and> knows user pwd fp offer (quickAccess d')"
proof -
  note d = populated_session_tells [OF assms(2,3)]
  obtain q where q: "parse_all (sessionAttributes d) (quickAccess zero_description) = Some (SDP_CONTROLLER_RESULT_OK, q)" using d(2) by blast
  obtain qa where qa: "parse_all (concat (map mediaAttributes (mediaDescriptions d))) q = Some (SDP_CONTROLLER_RESULT_OK, qa)" "knows user pwd fp offer qa"
    using composed_all_known [OF assms(5,6), of q] assms(4) d(1) by auto
  from q qa have "parse_all (sessionAttributes d @ concat (map mediaAttributes (mediaDescriptions d))) (quickAccess zero_description)
      = Some (SDP_CONTROLLER_RESULT_OK, qa)" by (auto simp: parse_all_append)
  from description_read_back [OF assms(1,7,8) this] qa(2) d(1) show ?thesis by (auto simp: knows_def)
qed

text \<open>What \<open>SdpController_PopulateSingleMedia\<close> puts into a media description is what the peer takes from it.  Whatever the codec, the
  kind of media and the buffer are, if the function succeeds then reading the attributes that it wrote succeeds and gives
  the user fragment, the password and the fingerprint of the configuration, the role \<open>actpass\<close> for an offer and
  \<open>active\<close> for an answer, and the trickle flag if the configuration has it; it changes nothing else of what has been read
  before.\<close>

theorem populated_media_told:
  assumes "SdpController_PopulateSingleMedia remote cfg pLocal idx pBuffer kind = Some (SDP_CONTROLLER_RESULT_OK, Some md, room)"
    and "pLocalFingerprint cfg \<noteq> Some []"
  shows "parse_all (mediaAttributes md) qa = Some (SDP_CONTROLLER_RESULT_OK, qa\<lparr>pIceUfrag := cfgUserName cfg, pIcePwd := cfgPassword cfg,
    isIceTrickle := isIceTrickle qa \<or> canTrickleIce cfg, pFingerprint := pLocalFingerprint cfg,
    dtlsRole := (if isOffer cfg then SDP_CONTROLLER_DTLS_ROLE_ACTPASS else SDP_CONTROLLER_DTLS_ROLE_ACTIVE)\<rparr>)"
  using populated_tells [OF assms] by (simp add: told_def)

text \<open>An offer of a data channel.\<close>

definition demo_offer_cfg :: SdpControllerPopulateMediaConfiguration where
  "demo_offer_cfg =
     \<lparr>isOffer = True, canTrickleIce = True, cfgCname = Some ''n'', cfgUserName = Some ''u'', cfgPassword = Some ''p'', cfgTransceiver = None,
      payloadType = 0, rtxPayloadType = 0, pLocalFingerprint = Some ''AB'', cfgTwccExtId = 0\<rparr>"

definition demo_offer_media :: SdpControllerMediaDescription where
  "demo_offer_media =
     \<lparr>pMediaName = SDP_CONTROLLER_DATA_CHANNEL_ATTRIBUTE_NAME_MEDIA_NAME, pMediaTitle = None, mediaConnection = default_connection,
      mediaAttributes =
        [\<lparr>pAttributeName = ''rtcp'', pAttributeValue = Some SDP_CONTROLLER_MEDIA_ATTRIBUTE_VALUE_RTCP\<rparr>,
         \<lparr>pAttributeName = ''ice-ufrag'', pAttributeValue = Some ''u''\<rparr>,
         \<lparr>pAttributeName = ''ice-pwd'', pAttributeValue = Some ''p''\<rparr>,
         \<lparr>pAttributeName = ''ice-options'', pAttributeValue = Some ''trickle''\<rparr>,
         \<lparr>pAttributeName = ''fingerprint'', pAttributeValue = Some ''sha-256 AB''\<rparr>,
         \<lparr>pAttributeName = ''setup'', pAttributeValue = Some ''actpass''\<rparr>,
         \<lparr>pAttributeName = ''mid'', pAttributeValue = Some ''0''\<rparr>,
         \<lparr>pAttributeName = ''sctp-port'', pAttributeValue = Some ''5000''\<rparr>]\<rparr>"

lemma show_zero: "show_nat 0 = ''0''"
  by code_simp

lemma demo_offer_evaluated:
  "SdpController_PopulateSingleMedia None demo_offer_cfg (Some zero_media) 0 (Some 1000) TRANSCEIVER_TRACK_KIND_DATA_CHANNEL
    = Some (SDP_CONTROLLER_RESULT_OK, Some demo_offer_media, Some 943)"
  by (simp add: SdpController_PopulateSingleMedia_def media_steps_def stream_steps_def credential_steps_def Let_def demo_offer_cfg_def sdp_when_def print_media_name_def media_name_def
      sdp_print_def push_attribute_def print_attribute_def push_mid_def show_u32_def show_zero zero_media_def demo_offer_media_def
      SDP_CONTROLLER_MAX_SDP_ATTRIBUTES_COUNT_def)

theorem populated_media_told_witness:
  "parse_all (mediaAttributes demo_offer_media) (quickAccess zero_description) = Some (SDP_CONTROLLER_RESULT_OK,
    (quickAccess zero_description)\<lparr>pIceUfrag := Some ''u'', pIcePwd := Some ''p'', isIceTrickle := True, pFingerprint := Some ''AB'',
      dtlsRole := SDP_CONTROLLER_DTLS_ROLE_ACTPASS\<rparr>)"
  using populated_media_told [OF demo_offer_evaluated, of "quickAccess zero_description"] by (simp add: demo_offer_cfg_def)

end
