(* ===== verification/Pc_Sdp.thy ===== *)
theory Pc_Sdp
  imports Sdp_Offer Pc_Api
begin

text \<open>
  \<open>peer_connection/peer_connection_sdp.c\<close>: the session descriptions of a session.  The codecs that the peer announces are
  collected from its description and matched with the transceivers; the local description is composed and
  written.  \<open>PeerConnection_CreateOffer\<close> and \<open>PeerConnection_CreateAnswer\<close> of \<open>peer_connection.c\<close> are at the end.

  A value of an attribute is followed by the rest of the text of the description: \<open>behind\<close> gives it for an attribute.
\<close>

section \<open>Hexadecimal numbers\<close>

text \<open>\<open>sscanf\<close> with \<open>%x\<close>: white space, a sign, a prefix and digits.  A number that does not fit has no outcome.\<close>

definition hex_digit_value :: "char \<Rightarrow> nat option" where
  "hex_digit_value c =
     (let n = of_char c :: nat
      in if 48 \<le> n \<and> n \<le> 57 then Some (n - 48) else if 65 \<le> n \<and> n \<le> 70 then Some (n - 55) else if 97 \<le> n \<and> n \<le> 102 then Some (n - 87) else None)"

definition is_space :: "char \<Rightarrow> bool" where
  "is_space c \<longleftrightarrow> c = CHR '' '' \<or> 9 \<le> (of_char c :: nat) \<and> (of_char c :: nat) \<le> 13"

definition hex_value :: "string \<Rightarrow> nat" where
  "hex_value = foldl (\<lambda>v c. v * 16 + the (hex_digit_value c)) 0"

definition scan_hex :: "string \<Rightarrow> u32 option option" where
  "scan_hex s =
     (let s1 = dropWhile is_space s;
          neg = (s1 \<noteq> [] \<and> hd s1 = CHR ''-'');
          s2 = (if s1 \<noteq> [] \<and> hd s1 \<in> {CHR ''-'', CHR ''+''} then tl s1 else s1);
          s3 = (if length s2 \<ge> 2 \<and> hd s2 = CHR ''0'' \<and> s2 ! 1 \<in> {CHR ''x'', CHR ''X''} then drop 2 s2 else s2);
          ds = takeWhile (\<lambda>c. hex_digit_value c \<noteq> None) s3
      in if ds = [] then Some None
         else if hex_value ds \<ge> 2 ^ 32 then None
         else Some (Some (if neg then - of_nat (hex_value ds) else of_nat (hex_value ds))))"

text \<open>The length is not used: \<open>sscanf\<close> reads on behind it.\<close>

definition StringUtils_ConvertStringToHex :: "string option \<Rightarrow> nat \<Rightarrow> bool \<Rightarrow> (StringUtilsResult \<times> u32 option) option" where
  "StringUtils_ConvertStringToHex pStr strLength pOutUl =
     (if pStr = None \<or> \<not> pOutUl then Some (STRING_UTILS_RESULT_OK, None)
      else map_option (\<lambda>r. case r of None \<Rightarrow> (STRING_UTILS_RESULT_NON_NUMBERIC_STRING, None) | Some v \<Rightarrow> (STRING_UTILS_RESULT_OK, Some v))
             (scan_hex (the pStr)))"

section \<open>The format parameters of H264\<close>

abbreviation PEER_CONNECTION_SDP_H264_PACKETIZATION_MODE :: string where "PEER_CONNECTION_SDP_H264_PACKETIZATION_MODE \<equiv> ''packetization-mode=1''"
abbreviation PEER_CONNECTION_SDP_H264_ASYMMETRY_ALLOWED :: string where "PEER_CONNECTION_SDP_H264_ASYMMETRY_ALLOWED \<equiv> ''level-asymmetry-allowed=1''"
abbreviation PEER_CONNECTION_SDP_H264_PROFILE_LEVEL_ID :: string where "PEER_CONNECTION_SDP_H264_PROFILE_LEVEL_ID \<equiv> ''profile-level-id=''"
definition PEER_CONNECTION_SDP_H264_PROFILE_42E01F :: u32 where "PEER_CONNECTION_SDP_H264_PROFILE_42E01F = 0x42e01f"
definition PEER_CONNECTION_SDP_H264_FMTP_SUBPROFILE_MASK :: u32 where "PEER_CONNECTION_SDP_H264_FMTP_SUBPROFILE_MASK = 0xFFFF00"
definition PEER_CONNECTION_SDP_H264_FMTP_PROFILE_LEVEL_MASK :: u32 where "PEER_CONNECTION_SDP_H264_FMTP_PROFILE_LEVEL_MASK = 0x0000FF"
definition PEER_CONNECTION_SDP_H264_FMTP_MINIMUM_SCORE :: nat where "PEER_CONNECTION_SDP_H264_FMTP_MINIMUM_SCORE = 10"
definition PEER_CONNECTION_SDP_H264_FMTP_HIGHEST_SCORE :: nat where "PEER_CONNECTION_SDP_H264_FMTP_HIGHEST_SCORE = 12"

type_synonym text_behind = "SdpControllerAttributes \<Rightarrow> string"

definition value_text :: "text_behind \<Rightarrow> SdpControllerAttributes \<Rightarrow> string option" where
  "value_text behind a = map_option (\<lambda>v. v @ behind a) (pAttributeValue a)"

text \<open>The last attribute that starts with the digits of the payload type.\<close>

definition FindH264FmtpAttribute :: "SdpControllerAttributes list \<Rightarrow> SdpControllerAttributes \<Rightarrow> SdpControllerAttributes option" where
  "FindH264FmtpAttribute atts rtpmap =
     (let digits = takeWhile is_digit (attribute_text rtpmap)
      in if digits = [] then None
         else fold (\<lambda>a found. if pAttributeName a = ''fmtp'' \<and> length (attribute_text a) \<ge> length digits
                       \<and> take (length digits) (attribute_text a) = digits then Some a else found) atts None)"

definition fmtp_has :: "text_behind \<Rightarrow> SdpControllerAttributes \<Rightarrow> string \<Rightarrow> nat option option" where
  "fmtp_has behind a pat = StringUtils_StrStr (value_text behind a) (length (attribute_text a)) (Some (pat @ [NUL])) (length pat)"

definition profile_score :: "text_behind \<Rightarrow> SdpControllerAttributes \<Rightarrow> nat option" where
  "profile_score behind a =
     do {
       p \<leftarrow> fmtp_has behind a PEER_CONNECTION_SDP_H264_PROFILE_LEVEL_ID;
       case p of
         None \<Rightarrow> Some 0
       | Some i \<Rightarrow> do {
           let start = i + length PEER_CONNECTION_SDP_H264_PROFILE_LEVEL_ID;
           (r, out) \<leftarrow> StringUtils_ConvertStringToHex (map_option (drop start) (value_text behind a)) (length (attribute_text a) - start) True;
           if r \<noteq> STRING_UTILS_RESULT_OK then Some 0
           else (let pid = the out
                 in Some (if pid AND PEER_CONNECTION_SDP_H264_FMTP_SUBPROFILE_MASK = PEER_CONNECTION_SDP_H264_PROFILE_42E01F AND PEER_CONNECTION_SDP_H264_FMTP_SUBPROFILE_MASK
                        \<and> pid AND PEER_CONNECTION_SDP_H264_FMTP_PROFILE_LEVEL_MASK \<le> PEER_CONNECTION_SDP_H264_PROFILE_42E01F AND PEER_CONNECTION_SDP_H264_FMTP_PROFILE_LEVEL_MASK
                      then 1 else 0))
         }
     }"

definition CalculateH264ScoreByFmtp :: "text_behind \<Rightarrow> SdpControllerAttributes option \<Rightarrow> nat option" where
  "CalculateH264ScoreByFmtp behind pFmtp =
     (case pFmtp of
        None \<Rightarrow> Some 0
      | Some a \<Rightarrow> do {
          mode \<leftarrow> fmtp_has behind a PEER_CONNECTION_SDP_H264_PACKETIZATION_MODE;
          asym \<leftarrow> fmtp_has behind a PEER_CONNECTION_SDP_H264_ASYMMETRY_ALLOWED;
          prof \<leftarrow> profile_score behind a;
          Some ((if mode \<noteq> None then PEER_CONNECTION_SDP_H264_FMTP_MINIMUM_SCORE else 0) + (if asym \<noteq> None then 1 else 0) + prof)
        })"

section \<open>The codecs of a media description\<close>

abbreviation PEER_CONNECTION_SDP_CODEC_H264_VALUE :: string where "PEER_CONNECTION_SDP_CODEC_H264_VALUE \<equiv> ''H264/90000''"
abbreviation PEER_CONNECTION_SDP_CODEC_H265_VALUE :: string where "PEER_CONNECTION_SDP_CODEC_H265_VALUE \<equiv> ''H265/90000''"
abbreviation PEER_CONNECTION_SDP_CODEC_OPUS_VALUE :: string where "PEER_CONNECTION_SDP_CODEC_OPUS_VALUE \<equiv> ''opus/48000/2''"
abbreviation PEER_CONNECTION_SDP_CODEC_VP8_VALUE :: string where "PEER_CONNECTION_SDP_CODEC_VP8_VALUE \<equiv> ''VP8/90000''"
abbreviation PEER_CONNECTION_SDP_CODEC_MULAW_VALUE :: string where "PEER_CONNECTION_SDP_CODEC_MULAW_VALUE \<equiv> ''PCMU/8000''"
abbreviation PEER_CONNECTION_SDP_CODEC_ALAW_VALUE :: string where "PEER_CONNECTION_SDP_CODEC_ALAW_VALUE \<equiv> ''PCMA/8000''"
abbreviation PEER_CONNECTION_SDP_CODEC_APT_VALUE :: string where "PEER_CONNECTION_SDP_CODEC_APT_VALUE \<equiv> ''apt=''"
definition TRANSCEIVER_RTC_CODEC_NUM :: nat where "TRANSCEIVER_RTC_CODEC_NUM = 8"

definition TRANSCEIVER_ENABLE_CODEC :: "u32 \<Rightarrow> nat \<Rightarrow> u32" where
  "TRANSCEIVER_ENABLE_CODEC bitmap b = bitmap OR push_bit b 1"

definition PEER_CONNECTION_SDP_GET_APT_CODEC_FROM_PAYLOAD :: "u32 \<Rightarrow> u32" where
  "PEER_CONNECTION_SDP_GET_APT_CODEC_FROM_PAYLOAD payload = payload AND 0xFF"

definition PEER_CONNECTION_SDP_GET_RTX_CODEC_FROM_PAYLOAD :: "u32 \<Rightarrow> u32" where
  "PEER_CONNECTION_SDP_GET_RTX_CODEC_FROM_PAYLOAD payload = drop_bit 16 payload"

definition PEER_CONNECTION_SDP_SET_PAYLOAD :: "u32 \<Rightarrow> u32 \<Rightarrow> u32" where
  "PEER_CONNECTION_SDP_SET_PAYLOAD rtxPayload aptPayload = push_bit 16 rtxPayload OR aptPayload"

text \<open>The bits that have been found, their payload types, and the best score of an H264 line.\<close>

record codec_scan =
  scanBits :: u32
  scanPayloads :: "nat \<Rightarrow> u32"
  scanScore :: nat

definition ends_with :: "SdpControllerAttributes \<Rightarrow> string \<Rightarrow> bool" where
  "ends_with a suf \<longleftrightarrow> length (attribute_text a) \<ge> length suf \<and> drop (length (attribute_text a) - length suf) (attribute_text a) = suf"

definition scan_payload :: "text_behind \<Rightarrow> SdpControllerAttributes \<Rightarrow> string \<Rightarrow> nat \<Rightarrow> codec_scan \<Rightarrow> (bool \<times> codec_scan) option" where
  "scan_payload behind a suf b s =
     do {
       (r, out) \<leftarrow> StringUtils_ConvertStringToUl (value_text behind a) (length (attribute_text a) - length suf) True;
       Some (if r \<noteq> STRING_UTILS_RESULT_OK then (False, s)
             else (True, s\<lparr>scanBits := TRANSCEIVER_ENABLE_CODEC (scanBits s) b,
                           scanPayloads := (scanPayloads s)(b := PEER_CONNECTION_SDP_SET_PAYLOAD 0 (the out))\<rparr>))
     }"

definition scan_h264 :: "text_behind \<Rightarrow> SdpControllerAttributes list \<Rightarrow> SdpControllerAttributes \<Rightarrow> codec_scan \<Rightarrow> codec_scan option" where
  "scan_h264 behind atts a s =
     do {
       score \<leftarrow> CalculateH264ScoreByFmtp behind (FindH264FmtpAttribute atts a);
       if score \<ge> PEER_CONNECTION_SDP_H264_FMTP_MINIMUM_SCORE \<and> scanScore s < score
       then do {
         (ok, s') \<leftarrow> scan_payload behind a PEER_CONNECTION_SDP_CODEC_H264_VALUE TRANSCEIVER_RTC_CODEC_H264_BIT s;
         Some (if ok then s'\<lparr>scanScore := score\<rparr> else s')
       }
       else Some s
     }"

text \<open>The codecs in the order of the tests.\<close>

definition plain_codecs :: "(string \<times> nat) list" where
  "plain_codecs =
     [(PEER_CONNECTION_SDP_CODEC_VP8_VALUE, TRANSCEIVER_RTC_CODEC_VP8_BIT), (PEER_CONNECTION_SDP_CODEC_H265_VALUE, TRANSCEIVER_RTC_CODEC_H265_BIT),
      (PEER_CONNECTION_SDP_CODEC_OPUS_VALUE, TRANSCEIVER_RTC_CODEC_OPUS_BIT), (PEER_CONNECTION_SDP_CODEC_MULAW_VALUE, TRANSCEIVER_RTC_CODEC_MULAW_BIT),
      (PEER_CONNECTION_SDP_CODEC_ALAW_VALUE, TRANSCEIVER_RTC_CODEC_ALAW_BIT)]"

definition scan_rtpmap :: "text_behind \<Rightarrow> SdpControllerAttributes list \<Rightarrow> SdpControllerAttributes \<Rightarrow> codec_scan \<Rightarrow> codec_scan option" where
  "scan_rtpmap behind atts a s =
     (if scanScore s < PEER_CONNECTION_SDP_H264_FMTP_HIGHEST_SCORE \<and> ends_with a PEER_CONNECTION_SDP_CODEC_H264_VALUE then scan_h264 behind atts a s
      else (case find (\<lambda>(suf, b). \<not> TRANSCEIVER_IS_CODEC_ENABLED (scanBits s) b \<and> ends_with a suf) plain_codecs of
              None \<Rightarrow> Some s
            | Some (suf, b) \<Rightarrow> map_option snd (scan_payload behind a suf b s)))"

text \<open>The payload type of the retransmissions of a codec, behind \<open>apt=\<close>.\<close>

definition rtx_payloads :: "u32 \<Rightarrow> u32 \<Rightarrow> codec_scan \<Rightarrow> nat \<Rightarrow> u32" where
  "rtx_payloads rtx apt s =
     (\<lambda>j. if TRANSCEIVER_RTC_CODEC_MULAW_BIT \<le> j \<and> j < TRANSCEIVER_RTC_CODEC_NUM \<and> TRANSCEIVER_IS_CODEC_ENABLED (scanBits s) j
             \<and> PEER_CONNECTION_SDP_GET_APT_CODEC_FROM_PAYLOAD (scanPayloads s j) = apt
          then PEER_CONNECTION_SDP_SET_PAYLOAD rtx apt else scanPayloads s j)"

definition scan_fmtp :: "text_behind \<Rightarrow> SdpControllerAttributes \<Rightarrow> codec_scan \<Rightarrow> codec_scan option" where
  "scan_fmtp behind a s =
     do {
       p \<leftarrow> fmtp_has behind a PEER_CONNECTION_SDP_CODEC_APT_VALUE;
       case p of
         None \<Rightarrow> Some s
       | Some i \<Rightarrow> do {
           (r1, rtx) \<leftarrow> StringUtils_ConvertStringToUl (value_text behind a) (length (attribute_text a)) True;
           if r1 \<noteq> STRING_UTILS_RESULT_OK then Some s
           else do {
             let start = i + length PEER_CONNECTION_SDP_CODEC_APT_VALUE;
             (r2, apt) \<leftarrow> StringUtils_ConvertStringToUl (map_option (drop start) (value_text behind a)) (length (attribute_text a) - start) True;
             Some (if r2 \<noteq> STRING_UTILS_RESULT_OK then s else s\<lparr>scanPayloads := rtx_payloads (the rtx) (the apt) s\<rparr>)
           }
         }
     }"

definition scan_attribute :: "text_behind \<Rightarrow> SdpControllerAttributes list \<Rightarrow> SdpControllerAttributes \<Rightarrow> codec_scan \<Rightarrow> codec_scan option" where
  "scan_attribute behind atts a s =
     (if pAttributeName a = ''rtpmap'' then scan_rtpmap behind atts a s
      else if pAttributeName a = ''fmtp'' then scan_fmtp behind a s
      else Some s)"

fun scan_loop :: "text_behind \<Rightarrow> SdpControllerAttributes list \<Rightarrow> SdpControllerAttributes list \<Rightarrow> codec_scan \<Rightarrow> codec_scan option" where
  "scan_loop behind atts [] s = Some s"
| "scan_loop behind atts (a # as') s = do { s' \<leftarrow> scan_attribute behind atts a s; scan_loop behind atts as' s' }"

definition CollectAttributesCodec ::
    "text_behind \<Rightarrow> SdpControllerAttributes list \<Rightarrow> (nat \<Rightarrow> u32) \<Rightarrow> (u32 \<times> (nat \<Rightarrow> u32)) option" where
  "CollectAttributesCodec behind atts codecPayloads =
     map_option (\<lambda>s. (scanBits s, scanPayloads s)) (scan_loop behind atts atts \<lparr>scanBits = 0, scanPayloads = codecPayloads, scanScore = 0\<rparr>)"

text \<open>The name of a media description lists payload types behind its third word: the first \<open>0\<close> or \<open>8\<close> is mu-law or A-law.\<close>

function static_codec :: "nat \<Rightarrow> string \<Rightarrow> nat option" where
  "static_codec seen name =
     (let token = takeWhile (\<lambda>c. c \<noteq> CHR '' '') name; rest = drop (length token) name
      in if seen + 1 > 3 \<and> token = ''0'' then Some TRANSCEIVER_RTC_CODEC_MULAW_BIT
         else if seen + 1 > 3 \<and> token = ''8'' then Some TRANSCEIVER_RTC_CODEC_ALAW_BIT
         else if rest = [] then None else static_codec (seen + 1) (tl rest))"
  by pat_completeness auto

termination
  by (relation "measure (\<lambda>(n, s). length s)") auto

declare static_codec.simps [simp del]

text \<open>The payload type of A-law is stored as that of mu-law.\<close>

definition GetPayloadTypesFromMedia ::
    "text_behind \<Rightarrow> SdpControllerMediaDescription \<Rightarrow> u32 \<Rightarrow> (nat \<Rightarrow> u32) \<Rightarrow> (u32 \<times> (nat \<Rightarrow> u32)) option" where
  "GetPayloadTypesFromMedia behind md bits payloads =
     (let (bits1, payloads1) =
        (case static_codec 0 (pMediaName md) of
           None \<Rightarrow> (bits, payloads)
         | Some b \<Rightarrow> (TRANSCEIVER_ENABLE_CODEC bits b,
                      payloads(TRANSCEIVER_RTC_CODEC_MULAW_BIT := (if b = TRANSCEIVER_RTC_CODEC_MULAW_BIT then 0 else 8))))
      in map_option (\<lambda>(found, payloads2). (bits1 OR found, payloads2)) (CollectAttributesCodec behind (mediaAttributes md) payloads1))"

section \<open>Matching transceivers\<close>

text \<open>A description with the text it was read from, or with the room that its parts are printed to.\<close>

datatype SdpControllerMessageType =
    SDP_CONTROLLER_MESSAGE_TYPE_NONE
  | SDP_CONTROLLER_MESSAGE_TYPE_OFFER
  | SDP_CONTROLLER_MESSAGE_TYPE_ANSWER

record PeerConnectionBufferSessionDescription =
  pSdpBuffer :: "string option"
  sdpBufferLength :: nat
  sdpMessageType :: SdpControllerMessageType
  sdpDescription :: SdpControllerSdpDescription

text \<open>What a session has for its descriptions: the settings of its streams with its transceivers, the names of these, the
  transceivers of the lines of the peer's description (by index), and the local credentials.\<close>

record ('q, 's) sdp_session =
  rtpSession :: "('q, 's) PeerConnectionSession"
  transceiverNames :: "nat \<Rightarrow> sdp_names"
  isCodecPayloadSet :: "media \<Rightarrow> bool"
  pMLinesTransceivers :: "nat list"
  localCname :: string
  sdpLocalUserName :: string
  sdpLocalPassword :: string
  localCertFingerprint :: string
  remoteSessionDescription :: PeerConnectionBufferSessionDescription

definition codec_order :: "nat list" where
  "codec_order = [TRANSCEIVER_RTC_CODEC_H264_BIT, TRANSCEIVER_RTC_CODEC_VP8_BIT, TRANSCEIVER_RTC_CODEC_H265_BIT, TRANSCEIVER_RTC_CODEC_OPUS_BIT,
     TRANSCEIVER_RTC_CODEC_MULAW_BIT, TRANSCEIVER_RTC_CODEC_ALAW_BIT]"

definition common_codec :: "u32 \<Rightarrow> Transceiver \<Rightarrow> nat option" where
  "common_codec bits t = find (TRANSCEIVER_IS_CODEC_ENABLED (bits AND codecBitMap t)) codec_order"

text \<open>The loop over the transceivers: the index of the first one that takes part, with its codec.\<close>

fun find_transceiver :: "u32 \<Rightarrow> TransceiverTrackKind \<Rightarrow> bool list \<Rightarrow> nat \<Rightarrow> Transceiver list \<Rightarrow> (nat \<times> nat) option option" where
  "find_transceiver bits kind codecSet i [] = Some None"
| "find_transceiver bits kind codecSet i (t # ts) =
     do {
       used \<leftarrow> mem_read codecSet i;
       if used \<or> trackKind t \<noteq> kind \<or> bits AND codecBitMap t = 0 then find_transceiver bits kind codecSet (i + 1) ts
       else (case common_codec bits t of
               Some b \<Rightarrow> Some (Some (i, b))
             | None \<Rightarrow> find_transceiver bits kind codecSet (i + 1) ts)
     }"

definition media_kind :: "string \<Rightarrow> (media \<times> TransceiverTrackKind) option" where
  "media_kind name =
     (if take 5 name = ''video'' then Some (MEDIA_VIDEO, TRANSCEIVER_TRACK_KIND_VIDEO)
      else if take 5 name = ''audio'' then Some (MEDIA_AUDIO, TRANSCEIVER_TRACK_KIND_AUDIO)
      else None)"

definition take_codec :: "media \<Rightarrow> u32 \<Rightarrow> nat \<Rightarrow> ('q, 's) sdp_session \<Rightarrow> ('q, 's) sdp_session" where
  "take_codec k payload i ses =
     ses\<lparr>isCodecPayloadSet := (isCodecPayloadSet ses)(k := True),
       rtpSession := (rtpSession ses)\<lparr>
         codecPayload := (codecPayload (rtpSession ses))(k := PEER_CONNECTION_SDP_GET_APT_CODEC_FROM_PAYLOAD payload),
         codecRtxPayload := (codecRtxPayload (rtpSession ses))(k := PEER_CONNECTION_SDP_GET_RTX_CODEC_FROM_PAYLOAD payload)\<rparr>,
       pMLinesTransceivers := (if length (pMLinesTransceivers ses) < PEER_CONNECTION_TRANSCEIVER_MAX_COUNT
         then pMLinesTransceivers ses @ [i] else pMLinesTransceivers ses)\<rparr>"

definition SetPayloadType ::
    "SdpControllerMediaDescription \<Rightarrow> u32 \<Rightarrow> (nat \<Rightarrow> u32) \<Rightarrow> bool list \<Rightarrow> ('q, 's) sdp_session
      \<Rightarrow> (PeerConnectionResult \<times> bool list \<times> ('q, 's) sdp_session) option" where
  "SetPayloadType md bits payloads codecSet ses =
     (case media_kind (pMediaName md) of
        None \<Rightarrow> Some (PEER_CONNECTION_RESULT_UNKNOWN_SDP_TRACK_KIND, codecSet, ses)
      | Some (k, kind) \<Rightarrow> do {
          found \<leftarrow> find_transceiver bits kind codecSet 0 (transceivers (rtpSession ses));
          Some (PEER_CONNECTION_RESULT_OK,
            (case found of None \<Rightarrow> (codecSet, ses) | Some (i, b) \<Rightarrow> (codecSet[i := True], take_codec k (payloads b) i ses)))
        })"

text \<open>The loop over the media descriptions.  Codecs found in one description stay for the next ones, and the
  result is that of the last description.\<close>

fun payload_types_loop ::
    "text_behind \<Rightarrow> SdpControllerMediaDescription list \<Rightarrow> u32 \<Rightarrow> (nat \<Rightarrow> u32) \<Rightarrow> bool list \<Rightarrow> PeerConnectionResult \<Rightarrow> ('q, 's) sdp_session
      \<Rightarrow> (PeerConnectionResult \<times> ('q, 's) sdp_session) option" where
  "payload_types_loop behind [] bits payloads codecSet ret ses = Some (ret, ses)"
| "payload_types_loop behind (md # mds) bits payloads codecSet ret ses =
     do {
       (bits', payloads') \<leftarrow> GetPayloadTypesFromMedia behind md bits payloads;
       (r, codecSet', ses') \<leftarrow> SetPayloadType md bits' payloads' codecSet ses;
       payload_types_loop behind mds bits' payloads' codecSet'
         (if r \<noteq> PEER_CONNECTION_RESULT_OK then PEER_CONNECTION_RESULT_FAIL_SDP_SET_PAYLOAD_TYPE else PEER_CONNECTION_RESULT_OK) ses'
     }"

definition PeerConnectionSdp_SetPayloadTypes ::
    "text_behind \<Rightarrow> PeerConnectionBufferSessionDescription option \<Rightarrow> ('q, 's) sdp_session option
      \<Rightarrow> (PeerConnectionResult \<times> ('q, 's) sdp_session option) option" where
  "PeerConnectionSdp_SetPayloadTypes behind pRemote pSession =
     (case (pSession, pRemote) of
        (Some ses, Some remote) \<Rightarrow>
          if pSdpBuffer remote = None then Some (PEER_CONNECTION_RESULT_BAD_PARAMETER, pSession)
          else map_option (\<lambda>(r, ses'). (r, Some ses'))
                 (payload_types_loop behind (mediaDescriptions (sdpDescription remote)) 0 (\<lambda>_. 0)
                   (replicate PEER_CONNECTION_TRANSCEIVER_MAX_COUNT False) PEER_CONNECTION_RESULT_OK ses)
      | _ \<Rightarrow> Some (PEER_CONNECTION_RESULT_BAD_PARAMETER, pSession))"

section \<open>Reading the peer's description\<close>

text \<open>The first \<open>ssrc\<close> attribute with a number.\<close>

fun find_ssrc :: "text_behind \<Rightarrow> SdpControllerAttributes list \<Rightarrow> u32 \<Rightarrow> u32 option" where
  "find_ssrc behind [] old = Some old"
| "find_ssrc behind (a # atts) old =
     (if pAttributeName a = ''ssrc''
      then do {
        (r, out) \<leftarrow> StringUtils_ConvertStringToUl (value_text behind a) (length (attribute_text a)) True;
        if r \<noteq> STRING_UTILS_RESULT_OK then find_ssrc behind atts old else Some (case out of None \<Rightarrow> old | Some v \<Rightarrow> v)
      }
      else find_ssrc behind atts old)"

fun SetReceiverSsrc :: "text_behind \<Rightarrow> SdpControllerMediaDescription list \<Rightarrow> SdpControllerQuickAccess \<Rightarrow> SdpControllerQuickAccess option" where
  "SetReceiverSsrc behind [] qa = Some qa"
| "SetReceiverSsrc behind (md # mds) qa =
     (case media_kind (pMediaName md) of
        None \<Rightarrow> SetReceiverSsrc behind mds qa
      | Some (MEDIA_VIDEO, _) \<Rightarrow> do { v \<leftarrow> find_ssrc behind (mediaAttributes md) (videoSsrc qa); SetReceiverSsrc behind mds (qa\<lparr>videoSsrc := v\<rparr>) }
      | Some (MEDIA_AUDIO, _) \<Rightarrow> do { v \<leftarrow> find_ssrc behind (mediaAttributes md) (audioSsrc qa); SetReceiverSsrc behind mds (qa\<lparr>audioSsrc := v\<rparr>) })"

definition PeerConnectionSdp_DeserializeSdpMessage ::
    "'c sdp_deserializer \<Rightarrow> text_behind \<Rightarrow> PeerConnectionBufferSessionDescription option
      \<Rightarrow> (PeerConnectionResult \<times> PeerConnectionBufferSessionDescription option) option" where
  "PeerConnectionSdp_DeserializeSdpMessage de behind pBuffer =
     (case pBuffer of
        None \<Rightarrow> Some (PEER_CONNECTION_RESULT_BAD_PARAMETER, None)
      | Some b \<Rightarrow>
          if sdpMessageType b = SDP_CONTROLLER_MESSAGE_TYPE_NONE then Some (PEER_CONNECTION_RESULT_UNKNOWN_SDP_TYPE, Some b)
          else do {
            (r, d) \<leftarrow> SdpController_DeserializeSdpMessage de (map_option (take (sdpBufferLength b)) (pSdpBuffer b)) (Some (sdpDescription b));
            if r \<noteq> SDP_CONTROLLER_RESULT_OK then Some (PEER_CONNECTION_RESULT_FAIL_SDP_DESERIALIZE_OFFER, Some (b\<lparr>sdpDescription := the d\<rparr>))
            else do {
              qa \<leftarrow> SetReceiverSsrc behind (mediaDescriptions (the d)) (quickAccess (the d));
              Some (PEER_CONNECTION_RESULT_OK, Some (b\<lparr>sdpDescription := (the d)\<lparr>quickAccess := qa\<rparr>\<rparr>))
            }
          })"

section \<open>The local description\<close>

definition media_configuration :: "('q, 's) sdp_session \<Rightarrow> bool \<Rightarrow> nat \<Rightarrow> SdpControllerPopulateMediaConfiguration" where
  "media_configuration ses offer i =
     (let t = transceivers (rtpSession ses) ! i; k = (if trackKind t = TRANSCEIVER_TRACK_KIND_VIDEO then MEDIA_VIDEO else MEDIA_AUDIO)
      in \<lparr>isOffer = offer, canTrickleIce = True, cfgCname = Some (localCname ses), cfgUserName = Some (sdpLocalUserName ses),
          cfgPassword = Some (sdpLocalPassword ses), cfgTransceiver = Some (t, transceiverNames ses i),
          payloadType = codecPayload (rtpSession ses) k, rtxPayloadType = codecRtxPayload (rtpSession ses) k,
          pLocalFingerprint = Some (localCertFingerprint ses),
          cfgTwccExtId = (if offer then 0 else ucast (twccExtId (quickAccess (sdpDescription (remoteSessionDescription ses)))))\<rparr>)"

text \<open>The entry of line \<open>n\<close> is written.  The callers pass a description without media, so that it is the next one of the
  array; another description is given no outcome.\<close>

fun populate_media_loop ::
    "('q, 's) sdp_session \<Rightarrow> SdpControllerSdpDescription option \<Rightarrow> nat \<Rightarrow> nat list \<Rightarrow> SdpControllerSdpDescription \<Rightarrow> nat
      \<Rightarrow> (PeerConnectionResult \<times> SdpControllerSdpDescription \<times> nat) option" where
  "populate_media_loop ses remote n [] d room = Some (PEER_CONNECTION_RESULT_OK, d, room)"
| "populate_media_loop ses remote n (i # js) d room =
     (if n \<ge> SDP_CONTROLLER_MAX_SDP_MEDIA_DESCRIPTIONS_COUNT \<or> length (transceivers (rtpSession ses)) \<le> i then None
      else
        (let rmd = map_option (\<lambda>rd. if n < length (mediaDescriptions rd) then mediaDescriptions rd ! n else zero_media) remote
         in do {
           (r, md, room') \<leftarrow> SdpController_PopulateSingleMedia rmd (media_configuration ses (remote = None) i) (Some zero_media) (of_nat n) (Some room)
              (trackKind (transceivers (rtpSession ses) ! i));
           if r \<noteq> SDP_CONTROLLER_RESULT_OK then Some (PEER_CONNECTION_RESULT_FAIL_SDP_POPULATE_SINGLE_MEDIA_DESCRIPTION, d, room)
           else populate_media_loop ses remote (n + 1) js (d\<lparr>mediaDescriptions := mediaDescriptions d @ [the md]\<rparr>) (the room')
         }))"

definition PopulateMediaDescriptions ::
    "('q, 's) sdp_session \<Rightarrow> SdpControllerSdpDescription option \<Rightarrow> SdpControllerSdpDescription \<Rightarrow> nat
      \<Rightarrow> (PeerConnectionResult \<times> SdpControllerSdpDescription \<times> nat) option" where
  "PopulateMediaDescriptions ses remote d room =
     (if mediaDescriptions d \<noteq> [] then None else populate_media_loop ses remote 0
       (if remote = None then [0..<length (transceivers (rtpSession ses))] else pMLinesTransceivers ses) d room)"

definition PopulateSessionDescription ::
    "u64 \<Rightarrow> SdpControllerSdpDescription option \<Rightarrow> SdpControllerSdpDescription \<Rightarrow> nat
      \<Rightarrow> (PeerConnectionResult \<times> SdpControllerSdpDescription \<times> nat) option" where
  "PopulateSessionDescription rnd remote d room =
     do {
       (r, d', room') \<leftarrow> SdpController_PopulateSessionDescription rnd remote
         \<lparr>sesIsOffer = (remote = None), sesCanTrickleIce = True, sesTiming = \<lparr>startTime = 0, stopTime = 0\<rparr>\<rparr> (Some d) (Some room);
       Some (if r \<noteq> SDP_CONTROLLER_RESULT_OK then PEER_CONNECTION_RESULT_FAIL_SDP_POPULATE_SESSION_DESCRIPTION else PEER_CONNECTION_RESULT_OK, the d', the room')
     }"

text \<open>The output is a message, with the room for it.\<close>

definition PeerConnectionSdp_PopulateSessionDescription ::
    "'c sdp_serializer \<Rightarrow> u64 \<Rightarrow> ('q, 's) sdp_session option \<Rightarrow> PeerConnectionBufferSessionDescription option
      \<Rightarrow> PeerConnectionBufferSessionDescription option \<Rightarrow> nat option
      \<Rightarrow> (PeerConnectionResult \<times> PeerConnectionBufferSessionDescription option \<times> string option) option" where
  "PeerConnectionSdp_PopulateSessionDescription lb rnd pSession pRemote pLocal pOutput =
     (case (pSession, pLocal, pOutput) of
        (Some ses, Some loc, Some outRoom) \<Rightarrow>
          if pSdpBuffer loc = None \<or> (case pRemote of None \<Rightarrow> False | Some rm \<Rightarrow> pSdpBuffer rm = None)
          then Some (PEER_CONNECTION_RESULT_BAD_PARAMETER, pLocal, None)
          else
            (let remote = map_option sdpDescription pRemote
             in do {
               (r1, d1, room1) \<leftarrow> PopulateMediaDescriptions ses remote (sdpDescription loc) (sdpBufferLength loc);
               if r1 \<noteq> PEER_CONNECTION_RESULT_OK then Some (r1, Some (loc\<lparr>sdpDescription := d1\<rparr>), None)
               else do {
                 (r2, d2, room2) \<leftarrow> PopulateSessionDescription rnd remote d1 room1;
                 let loc' = loc\<lparr>sdpDescription := d2\<rparr>;
                 if r2 \<noteq> PEER_CONNECTION_RESULT_OK then Some (r2, Some loc', None)
                 else do {
                   out \<leftarrow> SdpController_SerializeSdpMessageByDescription lb (sdpMessageType loc = SDP_CONTROLLER_MESSAGE_TYPE_OFFER) (Some d2) (Some outRoom);
                   Some (case out of
                           Inl _ \<Rightarrow> (PEER_CONNECTION_RESULT_FAIL_SDP_POPULATE_SESSION_DESCRIPTION, Some loc', None)
                         | Inr msg \<Rightarrow> (PEER_CONNECTION_RESULT_OK, Some loc', Some msg))
                 }
               }
             })
      | _ \<Rightarrow> Some (PEER_CONNECTION_RESULT_BAD_PARAMETER, pLocal, None))"

definition PeerConnection_CreateOffer ::
    "'c sdp_serializer \<Rightarrow> u64 \<Rightarrow> ('q, 's) sdp_session option \<Rightarrow> PeerConnectionBufferSessionDescription option \<Rightarrow> nat option
      \<Rightarrow> (PeerConnectionResult \<times> ('q, 's) sdp_session option \<times> PeerConnectionBufferSessionDescription option \<times> string option) option" where
  "PeerConnection_CreateOffer lb rnd pSession pLocal pOutput =
     (case (pSession, pLocal, pOutput) of
        (Some ses, Some loc, Some outRoom) \<Rightarrow>
          if pSdpBuffer loc = None then Some (PEER_CONNECTION_RESULT_BAD_PARAMETER, pSession, pLocal, None)
          else
            (let (r, rtp) = SetDefaultPayloadTypes (map Some (transceivers (rtpSession ses))) (rtpSession ses); ses' = ses\<lparr>rtpSession := rtp\<rparr>
             in if r \<noteq> PEER_CONNECTION_RESULT_OK then Some (r, Some ses', pLocal, None)
                else map_option (\<lambda>(r2, loc', msg). (r2, Some ses', loc', msg))
                       (PeerConnectionSdp_PopulateSessionDescription lb rnd (Some ses') None pLocal pOutput))
      | _ \<Rightarrow> Some (PEER_CONNECTION_RESULT_BAD_PARAMETER, pSession, pLocal, None))"

definition PeerConnection_CreateAnswer ::
    "'c sdp_serializer \<Rightarrow> u64 \<Rightarrow> ('q, 's) sdp_session option \<Rightarrow> PeerConnectionBufferSessionDescription option \<Rightarrow> nat option
      \<Rightarrow> (PeerConnectionResult \<times> PeerConnectionBufferSessionDescription option \<times> string option) option" where
  "PeerConnection_CreateAnswer lb rnd pSession pLocal pOutput =
     (case (pSession, pLocal, pOutput) of
        (Some ses, Some loc, Some outRoom) \<Rightarrow>
          if pSdpBuffer loc = None then Some (PEER_CONNECTION_RESULT_BAD_PARAMETER, pLocal, None)
          else PeerConnectionSdp_PopulateSessionDescription lb rnd pSession (Some (remoteSessionDescription ses)) pLocal pOutput
      | _ \<Rightarrow> Some (PEER_CONNECTION_RESULT_BAD_PARAMETER, pLocal, None))"

end
