(* ===== verification/Pc_Sdp_Correct.thy ===== *)
theory Pc_Sdp_Correct
  imports Pc_Sdp Srtp_Send_Correct
begin

text \<open>
  What the descriptions of a session achieve: the peer that reads a description has the credentials of the session, and the
  payload types that are chosen from a description are announced in it.
\<close>

section \<open>The description that the peer reads\<close>

lemma populated_lines:
  "populate_media_loop ses remote n js d room = Some (PEER_CONNECTION_RESULT_OK, d', room') \<Longrightarrow>
    \<exists>mds. d' = d\<lparr>mediaDescriptions := mediaDescriptions d @ mds\<rparr> \<and> length mds = length js
      \<and> list_all (composed (sdpLocalUserName ses) (sdpLocalPassword ses) (localCertFingerprint ses) (remote = None)) mds"
proof (induction js arbitrary: n d room)
  case Nil
  then show ?case by (auto intro: exI [of _ "[]"])
next
  case (Cons i js)
  let ?cfg = "media_configuration ses (remote = None) i"
  let ?c = "composed (sdpLocalUserName ses) (sdpLocalPassword ses) (localCertFingerprint ses) (remote = None)"
  from Cons.prems obtain rmd md room1 where md: "SdpController_PopulateSingleMedia rmd ?cfg (Some zero_media) (of_nat n) (Some room)
      (trackKind (transceivers (rtpSession ses) ! i)) = Some (SDP_CONTROLLER_RESULT_OK, md, room1)"
    "populate_media_loop ses remote (n + 1) js (d\<lparr>mediaDescriptions := mediaDescriptions d @ [the md]\<rparr>) (the room1) = Some (PEER_CONNECTION_RESULT_OK, d', room')"
    by (auto simp: Let_def split: if_splits bind_splits)
  from md(1) obtain m where m: "md = Some m" by (auto simp: SdpController_PopulateSingleMedia_def split: if_splits bind_splits)
  have "cfgUserName ?cfg = Some (sdpLocalUserName ses)" "cfgPassword ?cfg = Some (sdpLocalPassword ses)"
    "pLocalFingerprint ?cfg = Some (localCertFingerprint ses)" "isOffer ?cfg = (remote = None)"
    by (simp_all add: media_configuration_def Let_def)
  with md(1) m have c: "?c m" unfolding composed_def by blast
  from Cons.IH [OF md(2)] obtain mds where mds: "d' = d\<lparr>mediaDescriptions := mediaDescriptions d @ m # mds\<rparr>" "length mds = length js"
    "list_all ?c mds" by (auto simp: m)
  from mds c show ?case by (intro exI [of _ "m # mds"]) simp
qed

text \<open>The message around a description.\<close>

definition sdp_message :: "bool \<Rightarrow> string \<Rightarrow> string" where
  "sdp_message offer txt = ''{\"type\": \"'' @ (if offer then ''offer'' else ''answer'') @ ''\", \"sdp\": \"'' @ txt @ ''\"}''"

lemma serialize_message_OK:
  "SdpController_SerializeSdpMessageByDescription lb offer (Some d) (Some room) = Some (Inr msg) \<Longrightarrow>
    \<exists>txt room1. SerializeSdpMessage lb d room1 = Inr txt
      \<and> msg = sdp_message offer txt"
  by (auto simp: SdpController_SerializeSdpMessageByDescription_def sdp_message_def Let_def split: bind_splits option.splits sum.splits if_splits)

lemma find_ssrc_returns:
  assumes "\<forall>a. behind a \<noteq> []"
  shows "\<exists>v. find_ssrc behind atts old = Some v"
proof (induction atts)
  case (Cons a atts)
  have "\<exists>r out. StringUtils_ConvertStringToUl (value_text behind a) (length (attribute_text a)) True = Some (r, out)"
  proof (cases "pAttributeValue a")
    case None
    then show ?thesis by (simp add: StringUtils_ConvertStringToUl_def value_text_def)
  next
    case (Some v)
    then show ?thesis using assms ConvertStringToUl_readable [of "length v" "v @ behind a"]
      by (auto simp: value_text_def attribute_text_def)
  qed
  with Cons show ?case by auto
qed simp

lemma SetReceiverSsrc_known:
  assumes "\<forall>a. behind a \<noteq> []" and "knows user pwd fp offer qa"
  shows "\<exists>qa'. SetReceiverSsrc behind mds qa = Some qa' \<and> knows user pwd fp offer qa'"
  using assms(2)
proof (induction mds arbitrary: qa)
  case (Cons md mds)
  obtain v w where "find_ssrc behind (mediaAttributes md) (videoSsrc qa) = Some v" "find_ssrc behind (mediaAttributes md) (audioSsrc qa) = Some w"
    using find_ssrc_returns [OF assms(1)] by blast
  moreover have "knows user pwd fp offer (qa\<lparr>videoSsrc := v\<rparr>)" "knows user pwd fp offer (qa\<lparr>audioSsrc := w\<rparr>)"
    using Cons.prems by (simp_all add: knows_def)
  ultimately show ?case using Cons.IH Cons.prems by (auto split: option.splits media.splits)
qed simp

lemma session_part_OK:
  "PopulateSessionDescription rnd remote d room = Some (PEER_CONNECTION_RESULT_OK, d', room') \<Longrightarrow>
    \<exists>scfg. SdpController_PopulateSessionDescription rnd remote scfg (Some d) (Some room) = Some (SDP_CONTROLLER_RESULT_OK, Some d', Some room')"
proof -
  have some: "\<exists>d' room'. x = Some d' \<and> y = Some room'"
    if "SdpController_PopulateSessionDescription rnd remote cfg (Some d) (Some room) = Some (r, x, y)" for cfg r x y
    using that by (auto simp: SdpController_PopulateSessionDescription_def Let_def split: bind_splits)
  assume "PopulateSessionDescription rnd remote d room = Some (PEER_CONNECTION_RESULT_OK, d', room')"
  then obtain cfg x y where "SdpController_PopulateSessionDescription rnd remote cfg (Some d) (Some room) = Some (SDP_CONTROLLER_RESULT_OK, x, y)"
    "d' = the x" "room' = the y" by (auto simp: PopulateSessionDescription_def split: bind_splits if_splits)
  with some show ?thesis by fastforce
qed

text \<open>The lines of the local description: all transceivers in an offer, those of the peer's lines in an answer.\<close>

definition description_lines :: "('q, 's) sdp_session \<Rightarrow> bool \<Rightarrow> nat list" where
  "description_lines ses offer = (if offer then [0..<length (transceivers (rtpSession ses))] else pMLinesTransceivers ses)"

lemma populated_description:
  assumes "PeerConnectionSdp_PopulateSessionDescription lb rnd (Some ses) pRemote (Some loc) (Some outRoom)
      = Some (PEER_CONNECTION_RESULT_OK, Some loc', Some msg)"
  shows "\<exists>mds scfg room1 room2 room3 txt.
    SdpController_PopulateSessionDescription rnd (map_option sdpDescription pRemote) scfg
        (Some ((sdpDescription loc)\<lparr>mediaDescriptions := mds\<rparr>)) (Some room1) = Some (SDP_CONTROLLER_RESULT_OK, Some (sdpDescription loc'), room2)
    \<and> length mds = length (description_lines ses (pRemote = None))
    \<and> list_all (composed (sdpLocalUserName ses) (sdpLocalPassword ses) (localCertFingerprint ses) (pRemote = None)) mds
    \<and> SerializeSdpMessage lb (sdpDescription loc') room3 = Inr txt
    \<and> msg = sdp_message (sdpMessageType loc = SDP_CONTROLLER_MESSAGE_TYPE_OFFER) txt"
proof -
  let ?remote = "map_option sdpDescription pRemote"
  from assms obtain d1 room1 d2 room2 where 1: "PopulateMediaDescriptions ses ?remote (sdpDescription loc) (sdpBufferLength loc) = Some (PEER_CONNECTION_RESULT_OK, d1, room1)"
    "PopulateSessionDescription rnd ?remote d1 room1 = Some (PEER_CONNECTION_RESULT_OK, d2, room2)"
    "SdpController_SerializeSdpMessageByDescription lb (sdpMessageType loc = SDP_CONTROLLER_MESSAGE_TYPE_OFFER) (Some d2) (Some outRoom) = Some (Inr msg)"
    "sdpDescription loc' = d2"
    by (auto simp: PeerConnectionSdp_PopulateSessionDescription_def Let_def split: if_splits bind_splits sum.splits)
  from 1(1) have empty: "mediaDescriptions (sdpDescription loc) = []"
    and loop: "populate_media_loop ses ?remote 0 (description_lines ses (pRemote = None)) (sdpDescription loc) (sdpBufferLength loc) = Some (PEER_CONNECTION_RESULT_OK, d1, room1)"
    by (auto simp: PopulateMediaDescriptions_def description_lines_def split: if_splits)
  from populated_lines [OF loop] obtain mds where mds: "d1 = (sdpDescription loc)\<lparr>mediaDescriptions := mds\<rparr>"
    "length mds = length (description_lines ses (pRemote = None))"
    "list_all (composed (sdpLocalUserName ses) (sdpLocalPassword ses) (localCertFingerprint ses) (pRemote = None)) mds"
    by (auto simp: empty)
  from session_part_OK [OF 1(2)] obtain scfg
    where "SdpController_PopulateSessionDescription rnd ?remote scfg (Some d1) (Some room1) = Some (SDP_CONTROLLER_RESULT_OK, Some d2, Some room2)" by blast
  moreover from serialize_message_OK [OF 1(3)] obtain tx room3 where "SerializeSdpMessage lb d2 room3 = Inr tx"
    "msg = sdp_message (sdpMessageType loc = SDP_CONTROLLER_MESSAGE_TYPE_OFFER) tx" by blast
  ultimately show ?thesis using mds 1(4) by blast
qed

text \<open>C2: What a session announces, its peer learns.  Suppose the SDP library reads the lines that it wrote, and
  \<open>PeerConnectionSdp_PopulateSessionDescription\<close> makes an offer (without a description of the peer) or an answer for a session with at least one line and a
  fingerprint.  If it succeeds and the text of the description stays on its lines, the message is a JSON object with the type and a
  description, and a peer that gives this description to \<open>PeerConnectionSdp_DeserializeSdpMessage\<close>, as an offer or an answer and with anything
  in the rest of the structure, gets it accepted: it has one media description per line of the session, as they were composed, and
  the user fragment, the password, the fingerprint and the DTLS role that it will use are those of the session.\<close>

theorem description_reaches_peer:
  assumes "sdp_library_ok lb de lns"
    and "PeerConnectionSdp_PopulateSessionDescription lb rnd (Some ses) pRemote (Some loc) (Some outRoom)
      = Some (PEER_CONNECTION_RESULT_OK, Some loc', Some msg)"
    and "sessionAttributes (sdpDescription loc) = []" "description_lines ses (pRemote = None) \<noteq> []" "localCertFingerprint ses \<noteq> []"
    and "plain_description (sdpDescription loc')" "\<forall>a. behind a \<noteq> []"
  shows "\<exists>txt. msg = sdp_message (sdpMessageType loc = SDP_CONTROLLER_MESSAGE_TYPE_OFFER) txt
    \<and> (\<forall>b. pSdpBuffer b = Some txt \<and> sdpBufferLength b = length txt \<and> sdpMessageType b \<noteq> SDP_CONTROLLER_MESSAGE_TYPE_NONE \<longrightarrow>
       (\<exists>b'. PeerConnectionSdp_DeserializeSdpMessage de behind (Some b) = Some (PEER_CONNECTION_RESULT_OK, Some b')
          \<and> mediaDescriptions (sdpDescription b') = map read_media (mediaDescriptions (sdpDescription loc'))
          \<and> length (mediaDescriptions (sdpDescription b')) = length (description_lines ses (pRemote = None))
          \<and> pIceUfrag (quickAccess (sdpDescription b')) = Some (sdpLocalUserName ses)
          \<and> pIcePwd (quickAccess (sdpDescription b')) = Some (sdpLocalPassword ses)
          \<and> pFingerprint (quickAccess (sdpDescription b')) = Some (localCertFingerprint ses)
          \<and> dtlsRole (quickAccess (sdpDescription b')) = (if pRemote = None then SDP_CONTROLLER_DTLS_ROLE_ACTPASS else SDP_CONTROLLER_DTLS_ROLE_ACTIVE)))"
proof -
  let ?k = "knows (sdpLocalUserName ses) (sdpLocalPassword ses) (localCertFingerprint ses) (pRemote = None)"
  from populated_description [OF assms(2)] obtain mds scfg room1 room2 room3 tx where
    pop: "SdpController_PopulateSessionDescription rnd (map_option sdpDescription pRemote) scfg
        (Some ((sdpDescription loc)\<lparr>mediaDescriptions := mds\<rparr>)) (Some room1) = Some (SDP_CONTROLLER_RESULT_OK, Some (sdpDescription loc'), room2)"
    and mds: "length mds = length (description_lines ses (pRemote = None))"
      "list_all (composed (sdpLocalUserName ses) (sdpLocalPassword ses) (localCertFingerprint ses) (pRemote = None)) mds"
    and ser: "SerializeSdpMessage lb (sdpDescription loc') room3 = Inr tx"
    and msg: "msg = sdp_message (sdpMessageType loc = SDP_CONTROLLER_MESSAGE_TYPE_OFFER) tx"
    by blast
  have same: "mediaDescriptions (sdpDescription loc') = mds" using populated_session_tells(1) [OF pop] assms(3) by simp
  have "mds \<noteq> []" using mds(1) assms(4) by auto
  have "\<exists>b'. PeerConnectionSdp_DeserializeSdpMessage de behind (Some b) = Some (PEER_CONNECTION_RESULT_OK, Some b')
        \<and> mediaDescriptions (sdpDescription b') = map read_media mds \<and> ?k (quickAccess (sdpDescription b'))"
    if b: "pSdpBuffer b = Some tx" "sdpBufferLength b = length tx" "sdpMessageType b \<noteq> SDP_CONTROLLER_MESSAGE_TYPE_NONE" for b
  proof -
    from composed_session_accepted [OF assms(1) pop _ _ _ assms(5) ser assms(6), of "sdpLocalUserName ses" "sdpLocalPassword ses" "pRemote = None" "sdpDescription b"]
      assms(3) mds(2) \<open>mds \<noteq> []\<close>
    obtain d' where d': "SdpController_DeserializeSdpMessage de (Some tx) (Some (sdpDescription b)) = Some (SDP_CONTROLLER_RESULT_OK, Some d')"
      "mediaDescriptions d' = map read_media mds" "?k (quickAccess d')" by auto
    from SetReceiverSsrc_known [OF assms(7) d'(3)] obtain qa where "SetReceiverSsrc behind (mediaDescriptions d') (quickAccess d') = Some qa" "?k qa" by blast
    with b d'(1,2) show ?thesis by (simp add: PeerConnectionSdp_DeserializeSdpMessage_def)
  qed
  with msg mds(1) show ?thesis unfolding same by (fastforce simp: knows_def)
qed

section \<open>The payload types\<close>

definition codec_value :: "nat \<Rightarrow> string option" where
  "codec_value b = (if b = TRANSCEIVER_RTC_CODEC_H264_BIT then Some PEER_CONNECTION_SDP_CODEC_H264_VALUE
     else map_option fst (find (\<lambda>(suf, b'). b' = b) plain_codecs))"

text \<open>The payload type \<open>q\<close> of a codec is announced: by an attribute, or, for mu-law, by the number 0 in the name.\<close>

definition announces :: "text_behind \<Rightarrow> SdpControllerAttributes list \<Rightarrow> nat \<Rightarrow> u32 \<Rightarrow> bool" where
  "announces behind atts b q \<longleftrightarrow> (\<exists>a \<in> set atts. \<exists>suf p. pAttributeName a = ''rtpmap'' \<and> codec_value b = Some suf \<and> ends_with a suf
     \<and> StringUtils_ConvertStringToUl (value_text behind a) (length (attribute_text a) - length suf) True = Some (STRING_UTILS_RESULT_OK, Some p)
     \<and> q = p AND 0xFF)"

definition offered :: "text_behind \<Rightarrow> SdpControllerMediaDescription list \<Rightarrow> nat \<Rightarrow> u32 \<Rightarrow> bool" where
  "offered behind mds b q \<longleftrightarrow> (\<exists>md \<in> set mds. announces behind (mediaAttributes md) b q
     \<or> b = TRANSCEIVER_RTC_CODEC_MULAW_BIT \<and> q = 0 \<and> static_codec 0 (pMediaName md) = Some TRANSCEIVER_RTC_CODEC_MULAW_BIT)"

definition scan_ok :: "text_behind \<Rightarrow> SdpControllerMediaDescription list \<Rightarrow> u32 \<Rightarrow> (nat \<Rightarrow> u32) \<Rightarrow> bool" where
  "scan_ok behind mds bits payloads \<longleftrightarrow> (\<forall>b. bit bits b \<longrightarrow> offered behind mds b (payloads b AND 0xFF))"

lemma codec_enabled_bit: "TRANSCEIVER_IS_CODEC_ENABLED w b \<longleftrightarrow> bit w b"
  by (simp add: TRANSCEIVER_IS_CODEC_ENABLED_def push_bit_eq_mult and_exp_eq_0_iff_not_bit)

lemma bit_enable: "bit (TRANSCEIVER_ENABLE_CODEC w b) j \<Longrightarrow> bit w j \<or> j = b"
  by (auto simp: TRANSCEIVER_ENABLE_CODEC_def bit_or_iff bit_exp_iff)

lemma set_payload_low: "(PEER_CONNECTION_SDP_SET_PAYLOAD rtx apt) AND 0xFF = apt AND 0xFF"
proof -
  have "x AND 0xFF = take_bit 8 x" for x :: u32 by (simp add: take_bit_eq_mask mask_eq_exp_minus_1)
  then show ?thesis by (simp add: PEER_CONNECTION_SDP_SET_PAYLOAD_def take_bit_push_bit)
qed

lemma offered_mono: "offered behind mds b q \<Longrightarrow> set mds \<subseteq> set mds' \<Longrightarrow> offered behind mds' b q"
  by (auto simp: offered_def)

lemma announces_mono: "announces behind atts b q \<Longrightarrow> set atts \<subseteq> set atts' \<Longrightarrow> announces behind atts' b q"
  by (auto simp: announces_def)

text \<open>Scanning an attribute keeps the payload types announced, together with those \<open>bits0\<close> that were known before.\<close>

definition scan_inv :: "text_behind \<Rightarrow> SdpControllerMediaDescription list \<Rightarrow> u32 \<Rightarrow> codec_scan \<Rightarrow> bool" where
  "scan_inv behind mds bits0 s \<longleftrightarrow> scan_ok behind mds (bits0 OR scanBits s) (scanPayloads s)"

lemma scan_payload_inv:
  assumes "scan_payload behind a suf b s = Some (ok, s')" "scan_inv behind mds bits0 s"
    and "pAttributeName a = ''rtpmap''" "ends_with a suf" "codec_value b = Some suf" "suf \<noteq> []" "md \<in> set mds" "a \<in> set (mediaAttributes md)"
  shows "scan_inv behind mds bits0 s'"
proof -
  from assms(4,6) obtain v where v: "pAttributeValue a = Some v" by (cases "pAttributeValue a") (auto simp: ends_with_def attribute_text_def)
  from assms(1) obtain r out where r: "StringUtils_ConvertStringToUl (value_text behind a) (length (attribute_text a) - length suf) True = Some (r, out)"
    "s' = (if r \<noteq> STRING_UTILS_RESULT_OK then s else s\<lparr>scanBits := TRANSCEIVER_ENABLE_CODEC (scanBits s) b,
       scanPayloads := (scanPayloads s)(b := PEER_CONNECTION_SDP_SET_PAYLOAD 0 (the out))\<rparr>)"
    by (auto simp: scan_payload_def split: bind_splits if_splits)
  show ?thesis
  proof (cases "r = STRING_UTILS_RESULT_OK")
    case True
    then obtain p where p: "out = Some p" using r(1) v by (auto simp: StringUtils_ConvertStringToUl_def value_text_def)
    have "announces behind (mediaAttributes md) b (p AND 0xFF)"
      unfolding announces_def using assms(3-5,8) r(1) True p by blast
    then have "offered behind mds b (p AND 0xFF)" using assms(7) by (auto simp: offered_def)
    with assms(2) True show ?thesis
      by (auto simp: r(2) p scan_inv_def scan_ok_def bit_or_iff set_payload_low dest: bit_enable)
  qed (use assms(2) r(2) in simp)
qed

lemma scan_fmtp_inv:
  assumes "scan_fmtp behind a s = Some s'" "scan_inv behind mds bits0 s"
  shows "scan_inv behind mds bits0 s'"
proof -
  have "rtx_payloads rtx apt s j AND 0xFF = scanPayloads s j AND 0xFF" for rtx apt j
    by (auto simp: rtx_payloads_def set_payload_low PEER_CONNECTION_SDP_GET_APT_CODEC_FROM_PAYLOAD_def)
  then have "scan_inv behind mds bits0 (s\<lparr>scanPayloads := rtx_payloads rtx apt s\<rparr>)" for rtx apt
    using assms(2) by (simp add: scan_inv_def scan_ok_def)
  then show ?thesis using assms by (auto simp: scan_fmtp_def Let_def split: bind_splits option.splits if_splits)
qed

lemma plain_codecs_value: "(suf, b) \<in> set plain_codecs \<Longrightarrow> codec_value b = Some suf \<and> suf \<noteq> []"
  by (auto simp: plain_codecs_def codec_value_def TRANSCEIVER_RTC_CODEC_H264_BIT_def TRANSCEIVER_RTC_CODEC_VP8_BIT_def TRANSCEIVER_RTC_CODEC_H265_BIT_def
      TRANSCEIVER_RTC_CODEC_OPUS_BIT_def TRANSCEIVER_RTC_CODEC_MULAW_BIT_def TRANSCEIVER_RTC_CODEC_ALAW_BIT_def)

lemma scan_attribute_inv:
  assumes "scan_attribute behind atts a s = Some s'" "scan_inv behind mds bits0 s" "md \<in> set mds" "a \<in> set (mediaAttributes md)"
  shows "scan_inv behind mds bits0 s'"
proof -
  have h264: "scan_inv behind mds bits0 s1" if "scan_h264 behind atts a s = Some s1" "pAttributeName a = ''rtpmap''"
      "ends_with a PEER_CONNECTION_SDP_CODEC_H264_VALUE" for s1
  proof -
    have "scan_inv behind mds bits0 s2" if "scan_payload behind a PEER_CONNECTION_SDP_CODEC_H264_VALUE TRANSCEIVER_RTC_CODEC_H264_BIT s = Some (ok, s2)" for ok s2
      by (rule scan_payload_inv [OF that assms(2)]) (use \<open>pAttributeName a = ''rtpmap''\<close> \<open>ends_with a PEER_CONNECTION_SDP_CODEC_H264_VALUE\<close> assms(3,4) in \<open>auto simp: codec_value_def\<close>)
    then have "scan_inv behind mds bits0 (if ok then s2\<lparr>scanScore := score\<rparr> else s2)"
      if "scan_payload behind a PEER_CONNECTION_SDP_CODEC_H264_VALUE TRANSCEIVER_RTC_CODEC_H264_BIT s = Some (ok, s2)" for ok s2 score
      using that by (auto simp: scan_inv_def)
    with that(1) assms(2) show ?thesis by (auto simp: scan_h264_def split: bind_splits if_splits)
  qed
  have plain: "scan_inv behind mds bits0 s1" if "scan_payload behind a suf b s = Some (ok, s1)" "pAttributeName a = ''rtpmap''"
      "find (\<lambda>(suf, b). \<not> TRANSCEIVER_IS_CODEC_ENABLED (scanBits s) b \<and> ends_with a suf) plain_codecs = Some (suf, b)" for suf b ok s1
  proof -
    have "(suf, b) \<in> set plain_codecs" "ends_with a suf" using that(3) by (auto simp: find_Some_iff in_set_conv_nth)
    with plain_codecs_value [of suf b] show ?thesis
      using scan_payload_inv [OF that(1) assms(2) that(2)] assms(3,4) by blast
  qed
  from assms(1) h264 plain scan_fmtp_inv [OF _ assms(2)] assms(2) show ?thesis
    by (fastforce simp: scan_attribute_def scan_rtpmap_def split: if_splits option.splits prod.splits)
qed

lemma scan_loop_inv:
  assumes "md \<in> set mds"
  shows "scan_loop behind atts as' s = Some s' \<Longrightarrow> scan_inv behind mds bits0 s \<Longrightarrow> set as' \<subseteq> set (mediaAttributes md) \<Longrightarrow> scan_inv behind mds bits0 s'"
proof (induction as' arbitrary: s)
  case (Cons a as')
  then obtain s1 where s1: "scan_attribute behind atts a s = Some s1" "scan_loop behind atts as' s1 = Some s'" by (auto split: bind_splits)
  have "scan_inv behind mds bits0 s1" by (rule scan_attribute_inv [OF s1(1) Cons.prems(2) assms]) (use Cons.prems(3) in simp)
  with Cons.IH [OF s1(2)] Cons.prems(3) show ?case by simp
qed simp

lemma GetPayloadTypes_ok:
  assumes "GetPayloadTypesFromMedia behind md bits payloads = Some (bits', payloads')" "scan_ok behind mds bits payloads"
    and "static_codec 0 (pMediaName md) \<noteq> Some TRANSCEIVER_RTC_CODEC_ALAW_BIT"
  shows "scan_ok behind (mds @ [md]) bits' payloads'"
proof -
  define b1 p1 where "b1 = fst (case static_codec 0 (pMediaName md) of None \<Rightarrow> (bits, payloads) | Some b \<Rightarrow> (TRANSCEIVER_ENABLE_CODEC bits b,
      payloads(TRANSCEIVER_RTC_CODEC_MULAW_BIT := (if b = TRANSCEIVER_RTC_CODEC_MULAW_BIT then 0 else 8))))"
    and "p1 = snd (case static_codec 0 (pMediaName md) of None \<Rightarrow> (bits, payloads) | Some b \<Rightarrow> (TRANSCEIVER_ENABLE_CODEC bits b,
      payloads(TRANSCEIVER_RTC_CODEC_MULAW_BIT := (if b = TRANSCEIVER_RTC_CODEC_MULAW_BIT then 0 else 8))))"
  have codec: "static_codec n name = Some b \<Longrightarrow> b = TRANSCEIVER_RTC_CODEC_MULAW_BIT \<or> b = TRANSCEIVER_RTC_CODEC_ALAW_BIT" for n name b
    by (induction n name rule: static_codec.induct) (subst (asm) (2) static_codec.simps, auto simp: Let_def split: if_splits)
  have "scan_ok behind (mds @ [md]) b1 p1"
  proof (cases "static_codec 0 (pMediaName md)")
    case None
    with assms(2) show ?thesis by (auto simp: b1_def p1_def scan_ok_def intro: offered_mono)
  next
    case (Some b)
    then have b: "b = TRANSCEIVER_RTC_CODEC_MULAW_BIT" using codec assms(3) by blast
    have "offered behind (mds @ [md]) TRANSCEIVER_RTC_CODEC_MULAW_BIT 0" using Some b by (simp add: offered_def)
    with Some b assms(2) show ?thesis by (auto simp: b1_def p1_def scan_ok_def intro: offered_mono dest!: bit_enable)
  qed
  then have "scan_inv behind (mds @ [md]) b1 \<lparr>scanBits = 0, scanPayloads = p1, scanScore = 0\<rparr>" by (simp add: scan_inv_def)
  moreover from assms(1) obtain s where "scan_loop behind (mediaAttributes md) (mediaAttributes md) \<lparr>scanBits = 0, scanPayloads = p1, scanScore = 0\<rparr> = Some s"
    "bits' = b1 OR scanBits s" "payloads' = scanPayloads s"
    by (auto simp: GetPayloadTypesFromMedia_def CollectAttributesCodec_def b1_def p1_def split: prod.splits option.splits)
  ultimately show ?thesis using scan_loop_inv [of md "mds @ [md]"] by (auto simp: scan_inv_def)
qed

lemma find_transceiver_found:
  "find_transceiver bits kind codecSet n ts = Some (Some (i, b)) \<Longrightarrow>
    \<exists>t \<in> set ts. trackKind t = kind \<and> bit (codecBitMap t) b \<and> bit bits b"
proof (induction ts arbitrary: n)
  case (Cons t ts)
  have "bit (codecBitMap t) b' \<and> bit bits b'" if "common_codec bits t = Some b'" for b'
    using that by (auto simp: common_codec_def find_Some_iff codec_enabled_bit bit_and_iff)
  with Cons show ?case by (auto split: bind_splits if_splits option.splits)
qed simp

definition kind_of :: "media \<Rightarrow> TransceiverTrackKind" where
  "kind_of k = (case k of MEDIA_VIDEO \<Rightarrow> TRANSCEIVER_TRACK_KIND_VIDEO | MEDIA_AUDIO \<Rightarrow> TRANSCEIVER_TRACK_KIND_AUDIO)"

text \<open>The payload type of a stream that has been set is that of a codec that a transceiver supports and that was offered.\<close>

definition negotiated :: "text_behind \<Rightarrow> SdpControllerMediaDescription list \<Rightarrow> ('q, 's) sdp_session \<Rightarrow> bool" where
  "negotiated behind mds ses \<longleftrightarrow> (\<forall>k. isCodecPayloadSet ses k \<longrightarrow> (\<exists>t \<in> set (transceivers (rtpSession ses)). \<exists>b.
     trackKind t = kind_of k \<and> bit (codecBitMap t) b \<and> offered behind mds b (codecPayload (rtpSession ses) k)))"

lemma negotiated_mono: "negotiated behind mds ses \<Longrightarrow> negotiated behind (mds @ mds') ses"
  unfolding negotiated_def using offered_mono [of behind mds _ _ "mds @ mds'"] by fastforce

lemma SetPayloadType_negotiated:
  assumes "SetPayloadType md bits payloads codecSet ses = Some (r, codecSet', ses')" "scan_ok behind mds bits payloads" "negotiated behind mds ses"
  shows "negotiated behind mds ses' \<and> transceivers (rtpSession ses') = transceivers (rtpSession ses)"
proof -
  have "negotiated behind mds (take_codec k (payloads b) i ses)"
    if f: "find_transceiver bits kind codecSet 0 (transceivers (rtpSession ses)) = Some (Some (i, b))" and k: "media_kind name = Some (k, kind)" for k kind i b name
  proof -
    from find_transceiver_found [OF f] obtain t where t: "t \<in> set (transceivers (rtpSession ses))" "trackKind t = kind" "bit (codecBitMap t) b" "bit bits b" by blast
    moreover have "kind = kind_of k" using k by (auto simp: media_kind_def kind_of_def split: if_splits)
    moreover have "offered behind mds b (payloads b AND 0xFF)" using assms(2) t(4) by (auto simp: scan_ok_def)
    ultimately show ?thesis using assms(3)
      by (auto simp: negotiated_def take_codec_def PEER_CONNECTION_SDP_GET_APT_CODEC_FROM_PAYLOAD_def)
  qed
  with assms(1,3) show ?thesis
    by (auto simp: SetPayloadType_def take_codec_def split: option.splits prod.splits bind_splits)
qed

lemma payload_types_negotiated:
  assumes "list_all (\<lambda>md. static_codec 0 (pMediaName md) \<noteq> Some TRANSCEIVER_RTC_CODEC_ALAW_BIT) mds"
  shows "payload_types_loop behind mds bits payloads codecSet ret ses = Some (r, ses') \<Longrightarrow> scan_ok behind pre bits payloads \<Longrightarrow> negotiated behind pre ses
    \<Longrightarrow> negotiated behind (pre @ mds) ses' \<and> transceivers (rtpSession ses') = transceivers (rtpSession ses)"
  using assms
proof (induction mds arbitrary: pre bits payloads codecSet ret ses)
  case (Cons md mds)
  from Cons.prems(1) obtain b1 p1 r1 c1 s1 ret1 where 1: "GetPayloadTypesFromMedia behind md bits payloads = Some (b1, p1)"
    "SetPayloadType md b1 p1 codecSet ses = Some (r1, c1, s1)" "payload_types_loop behind mds b1 p1 c1 ret1 s1 = Some (r, ses')"
    by (auto split: bind_splits)
  have ok: "scan_ok behind (pre @ [md]) b1 p1" using GetPayloadTypes_ok [OF 1(1) Cons.prems(2)] Cons.prems(4) by simp
  from SetPayloadType_negotiated [OF 1(2) ok negotiated_mono [OF Cons.prems(3)]]
  have "negotiated behind (pre @ [md]) s1" "transceivers (rtpSession s1) = transceivers (rtpSession ses)" by auto
  with Cons.IH [OF 1(3) ok] Cons.prems(4) show ?case by simp
qed simp


lemma scan_loop_neutral:
  "\<forall>a \<in> set as'. pAttributeName a \<notin> {''rtpmap'', ''fmtp''} \<Longrightarrow> scan_loop behind atts as' s = Some s"
  by (induction as') (auto simp: scan_attribute_def)

text \<open>C40: The static payload type of A-law is lost: when a peer offers A-law as payload type 8 only by the number in the line, without
  \<open>rtpmap\<close> and \<open>fmtp\<close> attributes, a session whose only transceiver speaks A-law agrees to it, and sets the payload
  type of its audio stream to 0, which is mu-law.\<close>

theorem static_alaw_becomes_mulaw:
  assumes "mediaDescriptions (sdpDescription remote) = [md]" "pSdpBuffer remote \<noteq> None"
    and "static_codec 0 (pMediaName md) = Some TRANSCEIVER_RTC_CODEC_ALAW_BIT" "take 5 (pMediaName md) = ''audio''"
    and "\<forall>a \<in> set (mediaAttributes md). pAttributeName a \<notin> {''rtpmap'', ''fmtp''}"
    and "transceivers (rtpSession ses) = [t]" "trackKind t = TRANSCEIVER_TRACK_KIND_AUDIO"
    and "codecBitMap t = TRANSCEIVER_ENABLE_CODEC 0 TRANSCEIVER_RTC_CODEC_ALAW_BIT"
  shows "\<exists>ses'. PeerConnectionSdp_SetPayloadTypes behind (Some remote) (Some ses) = Some (PEER_CONNECTION_RESULT_OK, Some ses')
    \<and> isCodecPayloadSet ses' MEDIA_AUDIO \<and> codecPayload (rtpSession ses') MEDIA_AUDIO = 0"
proof -
  let ?p = "(\<lambda>_. 0 :: u32)(TRANSCEIVER_RTC_CODEC_MULAW_BIT := 8)" and ?bits = "TRANSCEIVER_ENABLE_CODEC 0 TRANSCEIVER_RTC_CODEC_ALAW_BIT"
  have "TRANSCEIVER_RTC_CODEC_ALAW_BIT \<noteq> TRANSCEIVER_RTC_CODEC_MULAW_BIT" by code_simp
  then have 1: "GetPayloadTypesFromMedia behind md 0 (\<lambda>_. 0) = Some (?bits, ?p)"
    using assms(3) by (simp add: GetPayloadTypesFromMedia_def CollectAttributesCodec_def scan_loop_neutral [OF assms(5)])
  have "find (TRANSCEIVER_IS_CODEC_ENABLED (?bits AND ?bits)) codec_order = Some TRANSCEIVER_RTC_CODEC_ALAW_BIT" "?bits \<noteq> 0" by code_simp+
  then have "find_transceiver ?bits TRANSCEIVER_TRACK_KIND_AUDIO (replicate PEER_CONNECTION_TRANSCEIVER_MAX_COUNT False) 0 [t]
      = Some (Some (0, TRANSCEIVER_RTC_CODEC_ALAW_BIT))"
    using assms(7,8) by (simp add: common_codec_def PEER_CONNECTION_TRANSCEIVER_MAX_COUNT_def)
  then have 2: "\<exists>c'. SetPayloadType md ?bits ?p (replicate PEER_CONNECTION_TRANSCEIVER_MAX_COUNT False) ses
      = Some (PEER_CONNECTION_RESULT_OK, c', take_codec MEDIA_AUDIO 0 0 ses)"
    using assms(4,6) \<open>TRANSCEIVER_RTC_CODEC_ALAW_BIT \<noteq> TRANSCEIVER_RTC_CODEC_MULAW_BIT\<close>
    by (simp add: SetPayloadType_def media_kind_def del: find_transceiver.simps)
  from 1 2 assms(1,2) show ?thesis
    by (auto simp: PeerConnectionSdp_SetPayloadTypes_def take_codec_def PEER_CONNECTION_SDP_GET_APT_CODEC_FROM_PAYLOAD_def)
qed

section \<open>A session with one line\<close>

definition demo_line_transceiver :: "TransceiverTrackKind \<Rightarrow> u32 \<Rightarrow> Transceiver" where
  "demo_line_transceiver kind bits =
     \<lparr>trackKind = kind, direction = TRANSCEIVER_TRACK_DIRECTION_SENDRECV, codecBitMap = bits, rollingbufferDurationSec = 3,
      rollingbufferBitRate = 1000000, ssrc = 1, rtxSsrc = 2, rtpPacketsTransmitted = 0, rtpBytesTransmitted = 0, rtpTimeOffset = 0,
      rtpFirstFrameWallClockTimeUs = 0\<rparr>"

definition demo_buffer :: PeerConnectionBufferSessionDescription where
  "demo_buffer = \<lparr>pSdpBuffer = Some [], sdpBufferLength = 10000, sdpMessageType = SDP_CONTROLLER_MESSAGE_TYPE_OFFER, sdpDescription = zero_description\<rparr>"

definition demo_sdp_session :: "TransceiverTrackKind \<Rightarrow> u32 \<Rightarrow> (RtpPacketInfo list, nat) sdp_session" where
  "demo_sdp_session kind bits =
     \<lparr>rtpSession = demo_session\<lparr>transceivers := [demo_line_transceiver kind bits]\<rparr>, transceiverNames = (\<lambda>_. \<lparr>streamId = ''s'', trackId = ''t''\<rparr>),
      isCodecPayloadSet = (\<lambda>_. False), pMLinesTransceivers = [], localCname = ''n'', sdpLocalUserName = ''u'', sdpLocalPassword = ''p'',
      localCertFingerprint = ''AB'', remoteSessionDescription = demo_buffer\<rparr>"

definition demo_remote :: "string \<Rightarrow> SdpControllerAttributes list \<Rightarrow> PeerConnectionBufferSessionDescription" where
  "demo_remote name atts =
     demo_buffer\<lparr>sdpDescription := zero_description\<lparr>mediaDescriptions := [zero_media\<lparr>pMediaName := name, mediaAttributes := atts\<rparr>]\<rparr>\<rparr>"

abbreviation demo_behind :: text_behind where
  "demo_behind \<equiv> (\<lambda>_. [CHR 0x0D])"

theorem static_alaw_becomes_mulaw_witness:
  "\<exists>ses'. PeerConnectionSdp_SetPayloadTypes demo_behind (Some (demo_remote ''audio 9 UDP/TLS/RTP/SAVPF 8'' []))
      (Some (demo_sdp_session TRANSCEIVER_TRACK_KIND_AUDIO 4)) = Some (PEER_CONNECTION_RESULT_OK, Some ses')
    \<and> isCodecPayloadSet ses' MEDIA_AUDIO \<and> codecPayload (rtpSession ses') MEDIA_AUDIO = 0"
proof -
  have "static_codec 0 ''audio 9 UDP/TLS/RTP/SAVPF 8'' = Some TRANSCEIVER_RTC_CODEC_ALAW_BIT" "(4 :: u32) = TRANSCEIVER_ENABLE_CODEC 0 TRANSCEIVER_RTC_CODEC_ALAW_BIT"
    by code_simp+
  then show ?thesis
    using static_alaw_becomes_mulaw [of "demo_remote ''audio 9 UDP/TLS/RTP/SAVPF 8'' []" "zero_media\<lparr>pMediaName := ''audio 9 UDP/TLS/RTP/SAVPF 8'', mediaAttributes := []\<rparr>"
        "demo_sdp_session TRANSCEIVER_TRACK_KIND_AUDIO 4" "demo_line_transceiver TRANSCEIVER_TRACK_KIND_AUDIO 4" demo_behind]
    by (simp add: demo_remote_def demo_buffer_def demo_sdp_session_def demo_line_transceiver_def zero_description_def zero_media_def)
qed

definition demo_rtpmap :: SdpControllerAttributes where
  "demo_rtpmap = \<lparr>pAttributeName = ''rtpmap'', pAttributeValue = Some ''97 VP8/90000''\<rparr>"

lemma demo_payload_types:
  "\<exists>ses'. PeerConnectionSdp_SetPayloadTypes demo_behind (Some (demo_remote ''video 9 UDP/TLS/RTP/SAVPF 97'' [demo_rtpmap]))
      (Some (demo_sdp_session TRANSCEIVER_TRACK_KIND_VIDEO 8)) = Some (PEER_CONNECTION_RESULT_OK, Some ses')
    \<and> isCodecPayloadSet ses' MEDIA_VIDEO \<and> codecPayload (rtpSession ses') MEDIA_VIDEO = 97"
proof -
  let ?md = "zero_media\<lparr>pMediaName := ''video 9 UDP/TLS/RTP/SAVPF 97'', mediaAttributes := [demo_rtpmap]\<rparr>"
  let ?vp8 = "TRANSCEIVER_RTC_CODEC_VP8_BIT"
  let ?bits = "TRANSCEIVER_ENABLE_CODEC 0 ?vp8" and ?p = "(\<lambda>_. 0 :: u32)(?vp8 := PEER_CONNECTION_SDP_SET_PAYLOAD 0 97)"
  have conv: "StringUtils_ConvertStringToUl (value_text demo_behind demo_rtpmap) (length (attribute_text demo_rtpmap) - length PEER_CONNECTION_SDP_CODEC_VP8_VALUE) True
      = Some (STRING_UTILS_RESULT_OK, Some 97)" by code_simp
  have pick: "find (\<lambda>(suf, b). \<not> TRANSCEIVER_IS_CODEC_ENABLED 0 b \<and> ends_with demo_rtpmap suf) plain_codecs = Some (PEER_CONNECTION_SDP_CODEC_VP8_VALUE, ?vp8)"
    "\<not> ends_with demo_rtpmap PEER_CONNECTION_SDP_CODEC_H264_VALUE" "pAttributeName demo_rtpmap = ''rtpmap''" by code_simp+
  have "scan_attribute demo_behind [demo_rtpmap] demo_rtpmap \<lparr>scanBits = 0, scanPayloads = (\<lambda>_. 0), scanScore = 0\<rparr>
      = Some \<lparr>scanBits = ?bits, scanPayloads = ?p, scanScore = 0\<rparr>"
    using conv pick by (simp add: scan_attribute_def scan_rtpmap_def scan_payload_def)
  moreover have "static_codec 0 ''video 9 UDP/TLS/RTP/SAVPF 97'' = None" by code_simp
  ultimately have 1: "GetPayloadTypesFromMedia demo_behind ?md 0 (\<lambda>_. 0) = Some (?bits, ?p)"
    by (simp add: GetPayloadTypesFromMedia_def CollectAttributesCodec_def zero_media_def)
  have "find (TRANSCEIVER_IS_CODEC_ENABLED (?bits AND 8)) codec_order = Some ?vp8" "?bits AND 8 \<noteq> 0" by code_simp+
  then have "find_transceiver ?bits TRANSCEIVER_TRACK_KIND_VIDEO (replicate PEER_CONNECTION_TRANSCEIVER_MAX_COUNT False) 0
      (transceivers (rtpSession (demo_sdp_session TRANSCEIVER_TRACK_KIND_VIDEO 8))) = Some (Some (0, ?vp8))"
    by (simp add: common_codec_def demo_sdp_session_def demo_line_transceiver_def PEER_CONNECTION_TRANSCEIVER_MAX_COUNT_def)
  then have "\<exists>c'. SetPayloadType ?md ?bits ?p (replicate PEER_CONNECTION_TRANSCEIVER_MAX_COUNT False) (demo_sdp_session TRANSCEIVER_TRACK_KIND_VIDEO 8)
      = Some (PEER_CONNECTION_RESULT_OK, c', take_codec MEDIA_VIDEO (PEER_CONNECTION_SDP_SET_PAYLOAD 0 97) 0 (demo_sdp_session TRANSCEIVER_TRACK_KIND_VIDEO 8))"
    by (simp add: SetPayloadType_def media_kind_def zero_media_def del: find_transceiver.simps)
  with 1 show ?thesis
    by (auto simp: PeerConnectionSdp_SetPayloadTypes_def take_codec_def PEER_CONNECTION_SDP_GET_APT_CODEC_FROM_PAYLOAD_def PEER_CONNECTION_SDP_SET_PAYLOAD_def
        demo_remote_def demo_buffer_def)
qed


text \<open>The line of a video in VP8, and the description.\<close>

definition demo_line :: SdpControllerMediaDescription where
  "demo_line =
     \<lparr>pMediaName = ''video 9 UDP/TLS/RTP/SAVPF 96'', pMediaTitle = None, mediaConnection = default_connection,
      mediaAttributes =
        [\<lparr>pAttributeName = ''msid'', pAttributeValue = Some ''s t''\<rparr>,
         \<lparr>pAttributeName = ''ssrc'', pAttributeValue = Some ''1 cname:n''\<rparr>,
         \<lparr>pAttributeName = ''ssrc'', pAttributeValue = Some ''1 msid:s t''\<rparr>,
         \<lparr>pAttributeName = ''ssrc'', pAttributeValue = Some ''1 mslabel:s''\<rparr>,
         \<lparr>pAttributeName = ''ssrc'', pAttributeValue = Some ''1 label:t''\<rparr>,
         \<lparr>pAttributeName = ''rtcp'', pAttributeValue = Some SDP_CONTROLLER_MEDIA_ATTRIBUTE_VALUE_RTCP\<rparr>,
         \<lparr>pAttributeName = ''ice-ufrag'', pAttributeValue = Some ''u''\<rparr>,
         \<lparr>pAttributeName = ''ice-pwd'', pAttributeValue = Some ''p''\<rparr>,
         \<lparr>pAttributeName = ''ice-options'', pAttributeValue = Some ''trickle''\<rparr>,
         \<lparr>pAttributeName = ''fingerprint'', pAttributeValue = Some ''sha-256 AB''\<rparr>,
         \<lparr>pAttributeName = ''setup'', pAttributeValue = Some ''actpass''\<rparr>,
         \<lparr>pAttributeName = ''mid'', pAttributeValue = Some ''0''\<rparr>,
         \<lparr>pAttributeName = ''sendrecv'', pAttributeValue = None\<rparr>,
         \<lparr>pAttributeName = ''rtcp-mux'', pAttributeValue = None\<rparr>,
         \<lparr>pAttributeName = ''rtcp-rsize'', pAttributeValue = None\<rparr>,
         \<lparr>pAttributeName = ''rtpmap'', pAttributeValue = Some ''96 VP8/90000''\<rparr>,
         \<lparr>pAttributeName = ''rtcp-fb'', pAttributeValue = Some ''96 goog-remb''\<rparr>]\<rparr>"

definition demo_offer :: SdpControllerSdpDescription where
  "demo_offer = zero_description\<lparr>origin := PopulateSessionOrigin 7, pSessionName := ''-'', mediaDescriptions := [demo_line],
     sessionAttributes :=
       [\<lparr>pAttributeName = ''group'', pAttributeValue = Some ''BUNDLE 0''\<rparr>,
        \<lparr>pAttributeName = ''ice-options'', pAttributeValue = Some ''trickle''\<rparr>,
        \<lparr>pAttributeName = ''msid-semantic'', pAttributeValue = Some '' WMS myKvsVideoStream''\<rparr>]\<rparr>"

lemma demo_codec_bits: "TRANSCEIVER_IS_CODEC_ENABLED 8 TRANSCEIVER_RTC_CODEC_VP8_BIT" "\<not> TRANSCEIVER_IS_CODEC_ENABLED 8 TRANSCEIVER_RTC_CODEC_H264_BIT"
  "\<not> TRANSCEIVER_IS_CODEC_ENABLED 8 TRANSCEIVER_RTC_CODEC_OPUS_BIT"
  by code_simp+

lemma demo_numbers: "show_nat 0 = ''0''" "show_nat (Suc 0) = ''1''" "show_nat 1 = ''1''" "show_nat 96 = ''96''"
  by code_simp+

lemma demo_line_evaluated:
  "SdpController_PopulateSingleMedia None (media_configuration (demo_sdp_session TRANSCEIVER_TRACK_KIND_VIDEO 8) True 0) (Some zero_media) 0 (Some 10000)
      TRANSCEIVER_TRACK_KIND_VIDEO = Some (SDP_CONTROLLER_RESULT_OK, Some demo_line, Some 9895)"
  by (simp add: SdpController_PopulateSingleMedia_def media_steps_def stream_steps_def credential_steps_def Let_def media_configuration_def demo_sdp_session_def
      demo_session_def demo_line_transceiver_def sdp_when_def print_media_name_def media_name_def sdp_print_def push_attribute_def print_attribute_def push_mid_def
      push_direction_def direction_name_def PopulateTransceiverSsrc_def ssrc_steps_def rtx_ssrc_steps_def ssrc_attribute_def PopulateCodecAttributes_def
      PopulateCodecAttributesVp8_def print_rtpmap_def PopulateRtcpFb_def demo_codec_bits show_u32_def demo_numbers zero_media_def demo_line_def
      SDP_CONTROLLER_MAX_SDP_ATTRIBUTES_COUNT_def)

lemma demo_session_evaluated:
  "SdpController_PopulateSessionDescription 7 None \<lparr>sesIsOffer = True, sesCanTrickleIce = True, sesTiming = \<lparr>startTime = 0, stopTime = 0\<rparr>\<rparr>
      (Some (zero_description\<lparr>mediaDescriptions := [demo_line]\<rparr>)) (Some 9895) = Some (SDP_CONTROLLER_RESULT_OK, Some demo_offer, Some 9830)"
  by (simp add: SdpController_PopulateSessionDescription_def PopulateSessionAttributes_def AddSessionAttributeGroup_def AddSessionAttributeIceOptions_def
      AddSessionAttributeMsidSemantic_def add_session_attribute_def sdp_print_def Let_def zero_description_def demo_numbers demo_offer_def
      SDP_CONTROLLER_MAX_SDP_ATTRIBUTES_COUNT_def)

lemma demo_offer_serialized:
  "\<exists>msg. SdpController_SerializeSdpMessageByDescription demo_serializer True (Some demo_offer) (Some 10000) = Some (Inr msg)"
proof -
  have "case SdpController_SerializeSdpMessageByDescription demo_serializer True (Some demo_offer) (Some 10000) of Some (Inr _) \<Rightarrow> True | _ \<Rightarrow> False" by code_simp
  then show ?thesis by (auto split: option.splits sum.splits)
qed

lemma demo_offer_plain: "plain_description demo_offer"
  by code_simp

theorem description_reaches_peer_witness:
  "\<exists>txt b'. PeerConnectionSdp_PopulateSessionDescription demo_serializer 7 (Some (demo_sdp_session TRANSCEIVER_TRACK_KIND_VIDEO 8)) None
      (Some demo_buffer) (Some 10000) = Some (PEER_CONNECTION_RESULT_OK, Some (demo_buffer\<lparr>sdpDescription := demo_offer\<rparr>), Some (sdp_message True txt))
    \<and> PeerConnectionSdp_DeserializeSdpMessage demo_deserializer demo_behind (Some (demo_buffer\<lparr>pSdpBuffer := Some txt, sdpBufferLength := length txt\<rparr>))
        = Some (PEER_CONNECTION_RESULT_OK, Some b')
    \<and> pIceUfrag (quickAccess (sdpDescription b')) = Some ''u'' \<and> pFingerprint (quickAccess (sdpDescription b')) = Some ''AB''"
proof -
  let ?ses = "demo_sdp_session TRANSCEIVER_TRACK_KIND_VIDEO 8" and ?loc = "demo_buffer\<lparr>sdpDescription := demo_offer\<rparr>"
  have session: "length (transceivers (rtpSession ?ses)) = 1" "trackKind (transceivers (rtpSession ?ses) ! 0) = TRANSCEIVER_TRACK_KIND_VIDEO"
    by (simp_all add: demo_sdp_session_def demo_line_transceiver_def)
  have "PopulateMediaDescriptions ?ses None zero_description 10000
      = Some (PEER_CONNECTION_RESULT_OK, zero_description\<lparr>mediaDescriptions := [demo_line]\<rparr>, 9895)"
    using session demo_line_evaluated by (simp add: PopulateMediaDescriptions_def SDP_CONTROLLER_MAX_SDP_MEDIA_DESCRIPTIONS_COUNT_def zero_description_def)
  moreover have "PopulateSessionDescription 7 None (zero_description\<lparr>mediaDescriptions := [demo_line]\<rparr>) 9895 = Some (PEER_CONNECTION_RESULT_OK, demo_offer, 9830)"
    by (simp add: PopulateSessionDescription_def demo_session_evaluated)
  moreover obtain msg where "SdpController_SerializeSdpMessageByDescription demo_serializer True (Some demo_offer) (Some 10000) = Some (Inr msg)"
    using demo_offer_serialized by blast
  ultimately have pop: "PeerConnectionSdp_PopulateSessionDescription demo_serializer 7 (Some ?ses) None (Some demo_buffer) (Some 10000)
      = Some (PEER_CONNECTION_RESULT_OK, Some ?loc, Some msg)"
    by (simp add: PeerConnectionSdp_PopulateSessionDescription_def demo_buffer_def)
  have "sessionAttributes (sdpDescription demo_buffer) = []" "description_lines ?ses (None = None) \<noteq> []" "localCertFingerprint ?ses \<noteq> []"
    "plain_description (sdpDescription ?loc)" "\<forall>a. demo_behind a \<noteq> []"
    using demo_offer_plain session(1) by (simp_all add: demo_buffer_def zero_description_def description_lines_def demo_sdp_session_def)
  note reach = description_reaches_peer [OF demo_library_ok pop this(1,2,3,4,5)]
  have offer: "sdpMessageType demo_buffer = SDP_CONTROLLER_MESSAGE_TYPE_OFFER" by (simp add: demo_buffer_def)
  from reach obtain tx where "msg = sdp_message True tx"
    "\<exists>b'. PeerConnectionSdp_DeserializeSdpMessage demo_deserializer demo_behind (Some (demo_buffer\<lparr>pSdpBuffer := Some tx, sdpBufferLength := length tx\<rparr>))
        = Some (PEER_CONNECTION_RESULT_OK, Some b')
      \<and> pIceUfrag (quickAccess (sdpDescription b')) = Some (sdpLocalUserName ?ses) \<and> pFingerprint (quickAccess (sdpDescription b')) = Some (localCertFingerprint ?ses)"
    by (force simp: offer)
  with pop show ?thesis by (auto simp: demo_sdp_session_def)
qed

end
