(* ===== verification/Url.thy ===== *)
theory Url
  imports String_Utils "HOL-Library.Monad_Syntax"
begin

text \<open>
  The parts of a URL and the percent encoding: \<open>GetHostFromUrl\<close>, \<open>GetPathFromUrl\<close> and \<open>UriEncode\<close> of \<open>networking/networking.c\<close>, which
  the signing of a request uses.  A URL is the text up to its terminator; a pointer into it is its offset.
\<close>

section \<open>Operations\<close>

fun strstr_from :: "string \<Rightarrow> nat \<Rightarrow> string \<Rightarrow> nat option" where
  "strstr_from pat i [] = (if pat = [] then Some i else None)"
| "strstr_from pat i (c # cs) = (if take (length pat) (c # cs) = pat then Some i else strstr_from pat (i + 1) cs)"

text \<open>The host ends at a slash, a colon or a question mark; without one of them the result is 0 and the host is not set.  A length
  behind the terminator is given no outcome.\<close>

definition GetHostFromUrl :: "string \<Rightarrow> nat \<Rightarrow> (int \<times> (nat \<times> nat) option) option" where
  "GetHostFromUrl url urlLength =
     (if length url < urlLength then None
      else (case strstr_from ''://'' 0 url of
              None \<Rightarrow> Some (-1, None)
            | Some i \<Rightarrow>
                if i + 3 > urlLength then Some (-1, None)
                else (let tail = take (urlLength - (i + 3)) (drop (i + 3) url);
                          host = takeWhile (\<lambda>c. c \<notin> {CHR ''/'', CHR '':'', CHR ''?''}) tail
                      in Some (0, if length host < length tail then Some (i + 3, length host) else None))))"

text \<open>A host that is not set is NULL, in which \<open>strchr\<close> then searches.\<close>

definition GetPathFromUrl :: "string \<Rightarrow> nat \<Rightarrow> (int \<times> (nat \<times> nat) option) option" where
  "GetPathFromUrl url urlLength =
     do {
       (ret, host) \<leftarrow> GetHostFromUrl url urlLength;
       if ret \<noteq> 0 then Some (ret, None)
       else (case host of
               None \<Rightarrow> None
             | Some (h, n) \<Rightarrow>
                 (let start = h + n; path = takeWhile (\<lambda>c. c \<noteq> CHR ''?'') (drop start url);
                      pend = (if CHR ''?'' \<in> set (drop start url) then start + length path else urlLength)
                  in Some (0, Some (start, pend - start))))
     }"

text \<open>A byte is a signed \<open>char\<close>: behind 127 the index into the digits is negative.\<close>

definition hex_alpha :: string where
  "hex_alpha = ''0123456789ABCDEF''"

definition unreserved :: "char \<Rightarrow> bool" where
  "unreserved c \<longleftrightarrow> (let n = of_char c :: nat
     in 65 \<le> n \<and> n \<le> 90 \<or> 97 \<le> n \<and> n \<le> 122 \<or> 48 \<le> n \<and> n \<le> 57) \<or> c \<in> {CHR ''_'', CHR ''-'', CHR ''~'', CHR ''.''}"

fun uri_loop :: "string \<Rightarrow> nat \<Rightarrow> string option option" where
  "uri_loop [] remaining = Some (Some [])"
| "uri_loop (c # cs) remaining =
     (if unreserved c
      then if remaining < 1 then Some None else map_option (map_option ((#) c)) (uri_loop cs (remaining - 1))
      else if remaining < 3 then Some None
      else if c = CHR ''/'' then map_option (map_option ((@) ''%2F'')) (uri_loop cs (remaining - 3))
      else if (of_char c :: nat) \<ge> 128 then None
      else map_option (map_option ((@) [CHR ''%'', hex_alpha ! (of_char c div 16), hex_alpha ! (of_char c mod 16)])) (uri_loop cs (remaining - 3)))"

definition UriEncode :: "string \<Rightarrow> nat \<Rightarrow> (int + string) option" where
  "UriEncode src room = map_option (\<lambda>r. case r of None \<Rightarrow> Inl (-1) | Some out \<Rightarrow> Inr out) (uri_loop src room)"

section \<open>Percent decoding\<close>

definition hex_of :: "char \<Rightarrow> nat" where
  "hex_of c = (if is_digit c then digit_value c else of_char c - 55)"

fun uri_decode :: "string \<Rightarrow> string" where
  "uri_decode (c # a # b # s) =
     (if c = CHR ''%'' then char_of (hex_of a * 16 + hex_of b) # uri_decode s else c # uri_decode (a # b # s))"
| "uri_decode s = s"

lemma uri_decode_plain: "c \<noteq> CHR ''%'' \<Longrightarrow> uri_decode (c # s) = c # uri_decode s"
  by (cases s rule: uri_decode.cases) auto

lemma hex_alpha_back: "n < 16 \<Longrightarrow> hex_of (hex_alpha ! n) = n"
proof -
  have "list_all (\<lambda>n. hex_of (hex_alpha ! n) = n) [0..<16]" by code_simp
  then show "n < 16 \<Longrightarrow> hex_of (hex_alpha ! n) = n" by (auto simp: list_all_iff)
qed

lemma hex_alpha_unreserved: "n < 16 \<Longrightarrow> unreserved (hex_alpha ! n)"
proof -
  have "list_all (\<lambda>n. unreserved (hex_alpha ! n)) [0..<16]" by code_simp
  then show "n < 16 \<Longrightarrow> unreserved (hex_alpha ! n)" by (auto simp: list_all_iff)
qed

lemma uri_loop_runs:
  "list_all (\<lambda>c. (of_char c :: nat) < 128) src \<Longrightarrow> 3 * length src \<le> room \<Longrightarrow>
    \<exists>out. uri_loop src room = Some (Some out) \<and> length out \<le> 3 * length src
      \<and> uri_decode out = src \<and> list_all (\<lambda>c. unreserved c \<or> c = CHR ''%'') out"
proof (induction src arbitrary: room)
  case (Cons c src)
  let ?h = "hex_alpha ! (of_char c div 16)" and ?l = "hex_alpha ! (of_char c mod 16)"
  have n: "(of_char c :: nat) < 128" using Cons.prems(1) by simp
  have hex: "hex_of ?h = of_char c div 16" "hex_of ?l = of_char c mod 16" "unreserved ?h" "unreserved ?l"
    using n by (auto intro!: hex_alpha_back hex_alpha_unreserved)
  have "\<not> unreserved (CHR ''%'')" by code_simp
  then have plain: "uri_decode (c # s) = c # uri_decode s" if "unreserved c" for s using that uri_decode_plain by metis
  have code: "uri_decode (CHR ''%'' # ?h # ?l # s) = c # uri_decode s" for s using hex(1,2) by (simp add: mult.commute)
  have slash: "uri_decode (CHR ''%'' # CHR ''2'' # CHR ''F'' # s) = CHR ''/'' # uri_decode s" for s
  proof -
    have "char_of (hex_of (CHR ''2'') * 16 + hex_of (CHR ''F'')) = CHR ''/''" by code_simp
    then show ?thesis by simp
  qed
  obtain o1 where o1: "uri_loop src (room - 1) = Some (Some o1)" "length o1 \<le> 3 * length src" "uri_decode o1 = src" "list_all (\<lambda>c. unreserved c \<or> c = CHR ''%'') o1"
    using Cons.IH [of "room - 1"] Cons.prems by force
  obtain o3 where o3: "uri_loop src (room - 3) = Some (Some o3)" "length o3 \<le> 3 * length src" "uri_decode o3 = src" "list_all (\<lambda>c. unreserved c \<or> c = CHR ''%'') o3"
    using Cons.IH [of "room - 3"] Cons.prems by force
  have two: "unreserved (CHR ''2'')" "unreserved (CHR ''F'')" by code_simp+
  show ?case using Cons.prems(2) n o1 o3 hex(3,4) two by (auto simp: plain code slash simp del: uri_decode.simps)
qed simp

text \<open>Percent encoding is invertible.  Text of ASCII characters is encoded whenever there is room for three characters per
  character; the output has only unreserved characters and percent signs, and decoding it gives the text back.\<close>

theorem uri_encode_round_trip:
  assumes "list_all (\<lambda>c. (of_char c :: nat) < 128) src" "3 * length src \<le> room"
  shows "\<exists>out. UriEncode src room = Some (Inr out) \<and> length out \<le> 3 * length src \<and> uri_decode out = src
    \<and> list_all (\<lambda>c. unreserved c \<or> c = CHR ''%'') out"
  using uri_loop_runs [OF assms] by (auto simp: UriEncode_def)

theorem uri_encode_round_trip_witness:
  "UriEncode ''a/b c'' 15 = Some (Inr ''a%2Fb%20c'') \<and> uri_decode ''a%2Fb%20c'' = ''a/b c''"
proof -
  have "UriEncode ''a/b c'' 15 = Some (Inr ''a%2Fb%20c'')" by code_simp
  moreover have "list_all (\<lambda>c. (of_char c :: nat) < 128) ''a/b c''" by code_simp
  ultimately show ?thesis using uri_encode_round_trip [of "''a/b c''" 15] by simp
qed

end
