(* ===== verification/Request_Sign.thy ===== *)
theory Request_Sign
  imports Url "HOL-Library.List_Lexorder" "HOL-Library.Char_ord"
begin

text \<open>
  The signing of requests in \<open>networking/networking.c\<close>: \<open>GetCurrentTimeInIso8601Format\<close>, \<open>SignHttpRequest\<close> and \<open>SignWebsocketRequest\<close>.  The SigV4
  library is a parameter: it gets what is to be signed and returns the authorization header with the signature in it, or an
  error.  A text with its length is a string.
\<close>

section \<open>Data\<close>

definition STATIC_CRED_EXPIRES_SECONDS :: u64 where "STATIC_CRED_EXPIRES_SECONDS = 604800"
definition SIGV4_METADATA_BUFFER_LENGTH :: nat where "SIGV4_METADATA_BUFFER_LENGTH = 4096"
definition WEBSOCKET_URI_PATH_BUFFER_LENGTH :: nat where "WEBSOCKET_URI_PATH_BUFFER_LENGTH = 2048"
definition ISO8601_TIME_LENGTH :: nat where "ISO8601_TIME_LENGTH = 17"

record AwsCredentials =
  pAccessKeyId :: string
  pSecretAccessKey :: string
  pSessionToken :: "string option"
  credExpirationSeconds :: u64

record AwsConfig =
  pRegion :: string
  pService :: string

datatype HttpVerb = HTTP_GET | HTTP_POST

record HttpRequestHeader =
  headerName :: string
  headerValue :: string

text \<open>What the library signs.\<close>

record sigv4_params =
  sigMethod :: string
  sigPath :: string
  sigQuery :: "string option"
  sigQueryIsCanonical :: bool
  sigHeaders :: string
  sigPayload :: "string option"
  sigCredentials :: AwsCredentials
  sigDate :: string
  sigConfig :: AwsConfig

type_synonym sigv4 = "sigv4_params \<Rightarrow> (string \<times> string) option"

section \<open>Operations\<close>

text \<open>\<open>strftime\<close> gives 0 when the text and its terminator do not fit.\<close>

definition GetCurrentTimeInIso8601Format :: "string \<Rightarrow> nat \<Rightarrow> string option" where
  "GetCurrentTimeInIso8601Format now room = (if length now \<ge> room \<or> now = [] then None else Some now)"

abbreviation crlf :: string where
  "crlf \<equiv> [CHR 0x0D, CHR 0x0A]"

text \<open>The headers that are signed: host, user agent and date.  The result is the authorization header.  Headers longer than the
  buffer are not caught, and the library reads behind it: no outcome.\<close>

definition SignHttpRequest ::
    "sigv4 \<Rightarrow> string \<Rightarrow> string \<Rightarrow> HttpRequestHeader \<Rightarrow> HttpRequestHeader \<Rightarrow> HttpVerb \<Rightarrow> string option \<Rightarrow> AwsCredentials \<Rightarrow> AwsConfig
      \<Rightarrow> (int + HttpRequestHeader) option" where
  "SignHttpRequest sigv4 uriHost uriPath userAgent date verb body creds cfg =
     (let metadata = ''host: '' @ uriHost @ crlf @ headerName userAgent @ '': '' @ headerValue userAgent @ crlf
                       @ headerName date @ '': '' @ headerValue date @ crlf
      in if length metadata = SIGV4_METADATA_BUFFER_LENGTH then Some (Inl (-1))
         else if length metadata > SIGV4_METADATA_BUFFER_LENGTH then None
         else (case sigv4 \<lparr>sigMethod = (if verb = HTTP_POST then ''POST'' else ''GET''), sigPath = uriPath, sigQuery = None, sigQueryIsCanonical = False,
                            sigHeaders = metadata, sigPayload = body, sigCredentials = creds, sigDate = headerValue date, sigConfig = cfg\<rparr> of
                 None \<Rightarrow> Some (Inl (-1))
               | Some (auth, sig) \<Rightarrow> Some (Inr \<lparr>headerName = ''Authorization'', headerValue = auth\<rparr>)))"

text \<open>The query of a websocket request is written piece by piece, as it is or percent-encoded.  A printed piece as long as the
  room is an error; a longer one is not caught, and the next one is written behind the buffer: no outcome.\<close>

datatype sign_step = Put string | Enc string

fun sign_write :: "sign_step list \<Rightarrow> string \<Rightarrow> (int + string) option" where
  "sign_write [] out = Some (Inr out)"
| "sign_write (Put t # steps) out =
     (let room = SIGV4_METADATA_BUFFER_LENGTH - length out
      in if length t = room then Some (Inl (-1)) else if length t > room then None else sign_write steps (out @ t))"
| "sign_write (Enc t # steps) out =
     do {
       r \<leftarrow> UriEncode t (SIGV4_METADATA_BUFFER_LENGTH - length out);
       case r of Inl _ \<Rightarrow> Some (Inl (-1)) | Inr e \<Rightarrow> sign_write steps (out @ e)
     }"

text \<open>The path, the channel and, for a viewer, what is behind the ampersand.  An ampersand in front of the equals sign gives a negative
  length: no outcome.\<close>

definition ws_query :: "string \<Rightarrow> (int + string \<times> string \<times> string option) option" where
  "ws_query url =
     do {
       (ret, path) \<leftarrow> GetPathFromUrl url (length url);
       if ret \<noteq> 0 then Some (Inl (-1))
       else
         (let (p, n) = the path; query = drop (p + n + 1) url;
              key = takeWhile (\<lambda>c. c \<noteq> CHR ''='') query; front = takeWhile (\<lambda>c. c \<noteq> CHR ''&'') query
          in if p + n + 1 \<ge> length url then Some (Inl (-1))
             else if take 16 query \<noteq> ''X-Amz-ChannelARN'' then Some (Inl (-1))
             else if CHR ''='' \<notin> set query then Some (Inl (-1))
             else if CHR ''&'' \<notin> set query then Some (Inr (take n (drop p url), drop (length key + 1) query, None))
             else if length front < length key + 1 then None
             else Some (Inr (take n (drop p url), drop (length key + 1) front, Some (drop (length front + 1) query))))
     }"

text \<open>The seconds that the request is valid.  Credentials that have expired give a difference that wraps around.\<close>

definition ws_expires :: "AwsCredentials \<Rightarrow> u64 \<Rightarrow> u64" where
  "ws_expires creds now =
     (if credExpirationSeconds creds \<noteq> 0 then max (min STATIC_CRED_EXPIRES_SECONDS (credExpirationSeconds creds - now)) 1
      else STATIC_CRED_EXPIRES_SECONDS)"

definition channel_steps :: "string \<Rightarrow> string option \<Rightarrow> sign_step list" where
  "channel_steps arn client = [Put ''&X-Amz-ChannelARN='', Enc arn] @ (case client of None \<Rightarrow> [] | Some c \<Rightarrow> [Put (''&'' @ c)])"

definition ws_credential_steps :: "AwsCredentials \<Rightarrow> AwsConfig \<Rightarrow> string \<Rightarrow> sign_step list" where
  "ws_credential_steps creds cfg date =
     [Put ''&X-Amz-Credential='', Enc (pAccessKeyId creds), Enc ''/'', Enc (take 8 date), Enc ''/'', Enc (pRegion cfg), Enc ''/'',
      Enc (pService cfg), Enc ''/aws4_request'']"

definition token_steps :: "AwsCredentials \<Rightarrow> sign_step list" where
  "token_steps creds =
     (case pSessionToken creds of
        Some token \<Rightarrow> if token = [] then [] else [Put ''&X-Amz-Security-Token='', Enc token]
      | None \<Rightarrow> [])"

definition ws_steps :: "string \<Rightarrow> string option \<Rightarrow> AwsCredentials \<Rightarrow> AwsConfig \<Rightarrow> string \<Rightarrow> u64 \<Rightarrow> sign_step list" where
  "ws_steps arn client creds cfg date now =
     channel_steps arn client @ ws_credential_steps creds cfg date
     @ [Put (''&X-Amz-Date='' @ date), Put (''&X-Amz-Expires='' @ show_nat (unat (ws_expires creds now)))]
     @ token_steps creds @ [Put ''&X-Amz-SignedHeaders=host'']"

text \<open>The new path is \<open>/?\<close> and the query.  The copy of the query takes two characters too many, which are written over the end of the
  path buffer when the path has one character less than it may have: no outcome.\<close>

definition ws_path :: "string \<Rightarrow> string \<Rightarrow> (int + string) option" where
  "ws_path query sig =
     (let tail = ''&X-Amz-Signature='' @ sig; written = length query + length tail
      in if length tail = SIGV4_METADATA_BUFFER_LENGTH - length query \<or> written + 2 > WEBSOCKET_URI_PATH_BUFFER_LENGTH then Some (Inl (-1))
         else if written + 4 > WEBSOCKET_URI_PATH_BUFFER_LENGTH + 1 then None
         else Some (Inr (''/?'' @ query @ tail)))"

definition SignWebsocketRequest ::
    "sigv4 \<Rightarrow> u64 \<Rightarrow> string \<Rightarrow> string \<Rightarrow> string \<Rightarrow> AwsCredentials \<Rightarrow> AwsConfig \<Rightarrow> (int + string) option" where
  "SignWebsocketRequest sigv4 now url uriHost date creds cfg =
     do {
       r0 \<leftarrow> sign_write [Put ''X-Amz-Algorithm=AWS4-HMAC-SHA256''] [];
       q \<leftarrow> ws_query url;
       case (r0, q) of
         (Inr out, Inr (path, arn, client)) \<Rightarrow>
           if length date < 8 then None
           else do {
             r \<leftarrow> sign_write (ws_steps arn client creds cfg date now) out;
             case r of
               Inl e \<Rightarrow> Some (Inl e)
             | Inr query \<Rightarrow>
                 (let headers = ''host: '' @ uriHost @ crlf
                  in if length headers = SIGV4_METADATA_BUFFER_LENGTH - length query then Some (Inl (-1))
                     else if length headers > SIGV4_METADATA_BUFFER_LENGTH - length query then None
                     else (case sigv4 \<lparr>sigMethod = ''GET'', sigPath = path, sigQuery = Some query, sigQueryIsCanonical = True, sigHeaders = headers,
                                        sigPayload = None, sigCredentials = creds, sigDate = date, sigConfig = cfg\<rparr> of
                             None \<Rightarrow> Some (Inl (-1))
                           | Some (auth, sig) \<Rightarrow> ws_path query sig))
           }
       | _ \<Rightarrow> Some (Inl (-1))
     }"

section \<open>The signed query is canonical\<close>

definition percent_char :: "char \<Rightarrow> string" where
  "percent_char c = (if unreserved c then [c] else [CHR ''%'', hex_alpha ! (of_char c div 16), hex_alpha ! (of_char c mod 16)])"

definition percent :: "string \<Rightarrow> string" where
  "percent s = concat (map percent_char s)"

lemma percent_append [simp]: "percent (s @ t) = percent s @ percent t"
  by (simp add: percent_def)

lemma percent_simps [simp]: "percent [] = []" "percent (c # s) = percent_char c @ percent s"
  by (simp_all add: percent_def)

lemma slash_percent: "percent_char (CHR ''/'') = ''%2F''" "\<not> unreserved (CHR ''/'')"
  by code_simp+

lemma uri_loop_percent: "uri_loop src room = Some (Some out) \<Longrightarrow> out = percent src \<and> list_all (\<lambda>c. (of_char c :: nat) < 128) src"
proof (induction src arbitrary: room out)
  case (Cons c src)
  have "unreserved c \<Longrightarrow> (of_char c :: nat) < 128" by (auto simp: unreserved_def Let_def)
  with Cons show ?case
    by (auto simp: percent_def percent_char_def slash_percent hex_alpha_def split: if_splits option.splits)
qed (simp add: percent_def)

lemma UriEncode_percent: "UriEncode src room = Some (Inr out) \<Longrightarrow> out = percent src \<and> list_all (\<lambda>c. (of_char c :: nat) < 128) src"
  using uri_loop_percent by (fastforce simp: UriEncode_def split: option.splits)

fun step_text :: "sign_step \<Rightarrow> string" where
  "step_text (Put t) = t"
| "step_text (Enc t) = percent t"

fun step_ascii :: "sign_step \<Rightarrow> bool" where
  "step_ascii (Put t) = True"
| "step_ascii (Enc t) = list_all (\<lambda>c. (of_char c :: nat) < 128) t"

lemma sign_write_text:
  "sign_write steps out = Some (Inr res) \<Longrightarrow> res = out @ concat (map step_text steps) \<and> list_all step_ascii steps"
  by (induction steps out rule: sign_write.induct)
    (auto simp: Let_def split: if_splits bind_splits sum.splits dest!: UriEncode_percent)

lemma uri_decode_percent: "list_all (\<lambda>c. (of_char c :: nat) < 128) s \<Longrightarrow> uri_decode (percent s) = s"
  using uri_loop_runs [of s "3 * length s"] uri_loop_percent by fastforce

definition query_text :: "(string \<times> string) list \<Rightarrow> string" where
  "query_text ps = tl (concat (map (\<lambda>(k, v). ''&'' @ k @ ''='' @ v) ps))"

definition credential_scope :: "AwsCredentials \<Rightarrow> AwsConfig \<Rightarrow> string \<Rightarrow> string" where
  "credential_scope creds cfg date = pAccessKeyId creds @ ''/'' @ take 8 date @ ''/'' @ pRegion cfg @ ''/'' @ pService cfg @ ''/aws4_request''"

lemmas ws_steps_defs = ws_steps_def channel_steps_def ws_credential_steps_def token_steps_def

text \<open>The parameters of a signed request.\<close>

definition ws_params :: "string \<Rightarrow> string option \<Rightarrow> AwsCredentials \<Rightarrow> AwsConfig \<Rightarrow> string \<Rightarrow> u64 \<Rightarrow> (string \<times> string) list" where
  "ws_params arn client creds cfg date now =
     [(''X-Amz-Algorithm'', ''AWS4-HMAC-SHA256''), (''X-Amz-ChannelARN'', percent arn)]
     @ (case client of None \<Rightarrow> [] | Some cid \<Rightarrow> [(''X-Amz-ClientId'', cid)])
     @ [(''X-Amz-Credential'', percent (credential_scope creds cfg date)), (''X-Amz-Date'', date),
        (''X-Amz-Expires'', show_nat (unat (ws_expires creds now)))]
     @ (case pSessionToken creds of Some token \<Rightarrow> if token = [] then [] else [(''X-Amz-Security-Token'', percent token)] | None \<Rightarrow> [])
     @ [(''X-Amz-SignedHeaders'', ''host'')]"

lemma ws_steps_text:
  "''X-Amz-Algorithm=AWS4-HMAC-SHA256'' @ concat (map step_text (ws_steps arn (map_option (\<lambda>cid. ''X-Amz-ClientId='' @ cid) client) creds cfg date now))
    = query_text (ws_params arn client creds cfg date now)"
  by (simp add: ws_steps_defs ws_params_def query_text_def credential_scope_def split: option.split)

lemma ws_params_sorted: "sorted_wrt (<) (map fst (ws_params arn client creds cfg date now))"
proof -
  have "sorted_wrt (<) [''X-Amz-Algorithm'', ''X-Amz-ChannelARN'', ''X-Amz-ClientId'', ''X-Amz-Credential'', ''X-Amz-Date'', ''X-Amz-Expires'',
      ''X-Amz-Security-Token'', ''X-Amz-SignedHeaders'']" by code_simp
  then show ?thesis by (auto simp: ws_params_def split: option.split)
qed

text \<open>The URL of a channel, for a master or for a viewer.\<close>

definition channel_url :: "string \<Rightarrow> string \<Rightarrow> string \<Rightarrow> string option \<Rightarrow> string" where
  "channel_url host path arn client =
     ''wss://'' @ host @ path @ ''?X-Amz-ChannelARN='' @ arn @ (case client of None \<Rightarrow> [] | Some cid \<Rightarrow> ''&X-Amz-ClientId='' @ cid)"

definition channel_url_ok :: "string \<Rightarrow> string \<Rightarrow> string \<Rightarrow> bool" where
  "channel_url_ok host path arn \<longleftrightarrow>
     set host \<inter> {CHR ''/'', CHR '':'', CHR ''?''} = {} \<and> CHR ''?'' \<notin> set path \<and> (path = [] \<or> hd path = CHR ''/'') \<and> CHR ''&'' \<notin> set arn"

lemma ws_query_channel_url:
  assumes "channel_url_ok host path arn"
  shows "ws_query (channel_url host path arn client) = Some (Inr (path, arn, map_option (\<lambda>cid. ''X-Amz-ClientId='' @ cid) client))"
proof -
  define tail where "tail = ''X-Amz-ChannelARN='' @ arn @ (case client of None \<Rightarrow> [] | Some cid \<Rightarrow> ''&X-Amz-ClientId='' @ cid)"
  define url where "url = channel_url host path arn client"
  have url: "url = ''wss://'' @ host @ path @ CHR ''?'' # tail" by (simp add: channel_url_def url_def tail_def)
  then have len: "length url = 6 + length host + length path + 1 + length tail" and start: "strstr_from ''://'' 0 url = Some 3"
    and front: "drop 6 url = host @ path @ CHR ''?'' # tail" by simp_all
  have split: "drop (6 + n) url = drop n (drop 6 url)" for n by (simp add: add.commute)
  from split [of "length host"] split [of "length host + length path + 1"]
  have drops: "drop 6 url = host @ path @ CHR ''?'' # tail" "drop (6 + length host) url = path @ CHR ''?'' # tail"
    "drop (6 + length host + length path + 1) url = tail" unfolding front by (simp_all add: add.assoc)
  have host: "takeWhile (\<lambda>c. c \<notin> {CHR ''/'', CHR '':'', CHR ''?''}) (host @ path @ CHR ''?'' # tail) = host"
    using assms by (cases path) (subst takeWhile_append2; auto simp: channel_url_ok_def)+
  have "GetHostFromUrl url (length url) = Some (0, Some (6, length host))"
    using host len start drops(1) by (simp add: GetHostFromUrl_def Let_def)
  moreover have "takeWhile (\<lambda>c. c \<noteq> CHR ''?'') (path @ CHR ''?'' # tail) = path"
    using assms by (subst takeWhile_append2) (auto simp: channel_url_ok_def)
  ultimately have path: "GetPathFromUrl url (length url) = Some (0, Some (6 + length host, length path))"
    using drops(2) by (simp add: GetPathFromUrl_def Let_def)
  have key: "takeWhile (\<lambda>c. c \<noteq> CHR ''='') tail = ''X-Amz-ChannelARN''" "take 16 tail = ''X-Amz-ChannelARN''" "CHR ''='' \<in> set tail" "0 < length tail"
    by (simp_all add: tail_def)
  have noamp: "CHR ''&'' \<notin> set arn" using assms by (simp add: channel_url_ok_def)
  have "ws_query url = Some (Inr (path, arn, map_option (\<lambda>cid. ''X-Amz-ClientId='' @ cid) client))"
  proof (cases client)
    case None
    then have "CHR ''&'' \<notin> set tail" "drop (length ''X-Amz-ChannelARN'' + 1) tail = arn" using noamp by (simp_all add: tail_def)
    with None path drops key len show ?thesis by (simp add: ws_query_def Let_def)
  next
    case (Some cid)
    have front: "takeWhile (\<lambda>c. c \<noteq> CHR ''&'') tail = ''X-Amz-ChannelARN='' @ arn"
    proof -
      have "takeWhile (\<lambda>c. c \<noteq> CHR ''&'') (arn @ CHR ''&'' # s) = arn" for s using noamp by (subst takeWhile_append2) auto
      then show ?thesis using Some by (simp add: tail_def)
    qed
    have "CHR ''&'' \<in> set tail" "drop (length (''X-Amz-ChannelARN='' @ arn) + 1) tail = ''X-Amz-ClientId='' @ cid" using Some by (simp_all add: tail_def)
    with Some path drops key front len show ?thesis by (simp add: ws_query_def Let_def)
  qed
  then show ?thesis by (simp add: url_def)
qed

lemma ws_path_Inr: "ws_path query sig = Some (Inr out) \<Longrightarrow> out = ''/?'' @ query @ ''&X-Amz-Signature='' @ sig"
  by (auto simp: ws_path_def Let_def split: if_splits)


definition demo_creds :: AwsCredentials where
  "demo_creds = \<lparr>pAccessKeyId = ''AK'', pSecretAccessKey = ''S'', pSessionToken = Some ''t/1'', credExpirationSeconds = 1000\<rparr>"

definition demo_aws_config :: AwsConfig where
  "demo_aws_config = \<lparr>pRegion = ''us'', pService = ''kv''\<rparr>"

abbreviation demo_sigv4 :: sigv4 where
  "demo_sigv4 \<equiv> (\<lambda>_. Some (''AWS4'', ''ab''))"

definition demo_signed :: string where
  "demo_signed = ''/?X-Amz-Algorithm=AWS4-HMAC-SHA256&X-Amz-ChannelARN=arn%3A1%2F2&X-Amz-ClientId=v&X-Amz-Credential=AK%2F20250101%2Fus%2Fkv%2Faws4_request'' @
     ''&X-Amz-Date=20250101T000000Z&X-Amz-Expires=600&X-Amz-Security-Token=t%2F1&X-Amz-SignedHeaders=host&X-Amz-Signature=ab''"


end
