(* ===== verification/Http_Client.thy ===== *)
theory Http_Client
  imports Request_Sign Websocket
begin

text \<open>
  The HTTP client of \<open>networking/networking.c\<close> and the connecting of its websocket client: \<open>LwsHttpCallback\<close>, \<open>CreateHttpLwsContext\<close>,
  \<open>Networking_HttpInit\<close>, \<open>Networking_HttpSend\<close> and \<open>Networking_WebsocketConnect\<close>.

  libwebsockets runs callbacks inside \<open>lws_client_connect_via_info\<close> and inside \<open>lws_service\<close>: they are lists of reasons, one list per call of
  \<open>lws_service\<close>.  When no call is left and the connection is still open, the loop goes on for ever, which is no outcome.
  What the code asks of libwebsockets is the list of actions.  The field \<open>httpContexts\<close> counts the contexts of libwebsockets that have
  been created and not destroyed.
\<close>

section \<open>Data\<close>

definition HTTP_URI_HOST_BUFFER_LENGTH :: nat where "HTTP_URI_HOST_BUFFER_LENGTH = 128"
definition WEBSOCKET_URI_HOST_BUFFER_LENGTH :: nat where "WEBSOCKET_URI_HOST_BUFFER_LENGTH = 128"
definition HTTP_URI_PATH_BUFFER_LENGTH :: nat where "HTTP_URI_PATH_BUFFER_LENGTH = 256"

record HttpRequest =
  verb :: HttpVerb
  pUrl :: string
  pHeaders :: "HttpRequestHeader list"
  pUserAgent :: string
  pBody :: "string option"

record HttpResponse =
  pContent :: string
  contentMaxCapacity :: nat

text \<open>The four required headers: user agent, date, session token, authorization.  One without a value has the empty text.\<close>

record NetworkingHttpContext =
  uriHost :: string
  uriPath :: string
  requiredUserAgent :: HttpRequestHeader
  requiredTime :: HttpRequestHeader
  requiredSessionToken :: HttpRequestHeader
  requiredAuthorization :: HttpRequestHeader
  pRequest :: "HttpRequest option"
  pResponse :: "HttpResponse option"
  httpConnectionClosed :: bool
  httpStatusCode :: int
  httpContexts :: nat

datatype http_action =
    add_http_header HttpRequestHeader
  | http_body_pending bool
  | http_callback_on_writable
  | http_cancel_service
  | http_connect string string HttpVerb

text \<open>The reasons \<open>LWS_CALLBACK_...\<close> of the callback, each with what the calls of libwebsockets in its branch return.\<close>

datatype http_reason =
    HTTP_CLIENT_CONNECTION_ERROR
  | HTTP_CLOSED_CLIENT_HTTP
  | HTTP_ESTABLISHED_CLIENT_HTTP int
  | HTTP_RECEIVE_CLIENT_HTTP_READ string
  | HTTP_RECEIVE_CLIENT_HTTP int
  | HTTP_COMPLETED_CLIENT_HTTP
  | HTTP_APPEND_HANDSHAKE_HEADER "HttpRequestHeader \<Rightarrow> int"
  | HTTP_CLIENT_HTTP_WRITEABLE "string \<Rightarrow> int"
  | HTTP_WSI_DESTROY
  | HTTP_OTHER

section \<open>The callback\<close>

definition no_header :: HttpRequestHeader where
  "no_header = \<lparr>headerName = [], headerValue = []\<rparr>"

definition requiredHeaders :: "NetworkingHttpContext \<Rightarrow> HttpRequestHeader list" where
  "requiredHeaders c = [requiredUserAgent c, requiredTime c, requiredSessionToken c, requiredAuthorization c]"

definition body_text :: "HttpRequest \<Rightarrow> string" where
  "body_text req = (case pBody req of None \<Rightarrow> [] | Some b \<Rightarrow> b)"

definition handshake_headers :: "NetworkingHttpContext \<Rightarrow> HttpRequest \<Rightarrow> HttpRequestHeader list" where
  "handshake_headers c req =
     filter (\<lambda>h. headerValue h \<noteq> []) (requiredHeaders c)
     @ [\<lparr>headerName = ''content-type'', headerValue = ''application/json''\<rparr>,
        \<lparr>headerName = ''content-length'', headerValue = show_nat (length (body_text req))\<rparr>]
     @ pHeaders req"

text \<open>Only the status of the last header that is added counts.\<close>

definition LwsHttpCallback :: "NetworkingHttpContext \<Rightarrow> http_reason \<Rightarrow> (int \<times> NetworkingHttpContext \<times> http_action list) option" where
  "LwsHttpCallback c reason =
     (case reason of
        HTTP_CLIENT_CONNECTION_ERROR \<Rightarrow> Some (0, c\<lparr>httpStatusCode := -1\<rparr>, [])
      | HTTP_CLOSED_CLIENT_HTTP \<Rightarrow> Some (0, c, [])
      | HTTP_ESTABLISHED_CLIENT_HTTP status \<Rightarrow> Some (0, c\<lparr>httpStatusCode := status\<rparr>, [])
      | HTTP_RECEIVE_CLIENT_HTTP_READ data \<Rightarrow>
          if data = [] then Some (0, c, [])
          else (case pResponse c of
                  None \<Rightarrow> None
                | Some resp \<Rightarrow>
                    if length data \<ge> contentMaxCapacity resp then Some (-2, c, [])
                    else Some (0, c\<lparr>pResponse := Some (resp\<lparr>pContent := data\<rparr>)\<rparr>, []))
      | HTTP_RECEIVE_CLIENT_HTTP r \<Rightarrow> Some (if r < 0 then -1 else 0, c, [])
      | HTTP_COMPLETED_CLIENT_HTTP \<Rightarrow> Some (0, c\<lparr>httpConnectionClosed := True\<rparr>, [])
      | HTTP_APPEND_HANDSHAKE_HEADER add \<Rightarrow>
          (case pRequest c of
             None \<Rightarrow> None
           | Some req \<Rightarrow>
               (let hs = handshake_headers c req
                in Some (if add (last hs) \<noteq> 0 then 1 else 0, c, map add_http_header hs @ [http_body_pending True, http_callback_on_writable])))
      | HTTP_CLIENT_HTTP_WRITEABLE lwsWrite \<Rightarrow>
          (case pRequest c of
             None \<Rightarrow> None
           | Some req \<Rightarrow>
               (let written = lwsWrite (body_text req)
                in if written \<noteq> int (length (body_text req))
                   then if written > 0 then Some (0, c, [http_body_pending True, http_callback_on_writable]) else Some (1, c, [])
                   else Some (0, c, [http_body_pending False])))
      | HTTP_WSI_DESTROY \<Rightarrow> Some (0, c\<lparr>httpConnectionClosed := True\<rparr>, [http_cancel_service])
      | HTTP_OTHER \<Rightarrow> Some (0, c, []))"

text \<open>The callbacks of one call of libwebsockets, and the loop around \<open>lws_service\<close>.\<close>

fun http_callbacks :: "NetworkingHttpContext \<Rightarrow> http_reason list \<Rightarrow> (NetworkingHttpContext \<times> http_action list) option" where
  "http_callbacks c [] = Some (c, [])"
| "http_callbacks c (e # es) =
     do { (r, c', acts) \<leftarrow> LwsHttpCallback c e; (c'', acts') \<leftarrow> http_callbacks c' es; Some (c'', acts @ acts') }"

fun http_loop :: "NetworkingHttpContext \<Rightarrow> http_reason list list \<Rightarrow> (NetworkingHttpContext \<times> http_action list) option" where
  "http_loop c services =
     (if httpConnectionClosed c then Some (c, [])
      else (case services of
              [] \<Rightarrow> None
            | es # rest \<Rightarrow> do { (c', acts) \<leftarrow> http_callbacks c es; (c'', acts') \<leftarrow> http_loop c' rest; Some (c'', acts @ acts') }))"

declare http_loop.simps [simp del]

section \<open>Sending a request\<close>

text \<open>What the outside does during a request: whether a context can be created, the time as text, the signing
  library, and the callbacks while connecting and in each call of \<open>lws_service\<close>.\<close>

record http_world =
  contextCreated :: bool
  timeText :: string
  signer :: sigv4
  connectEvents :: "http_reason list"
  serviceEvents :: "http_reason list list"

definition Networking_HttpInit :: "NetworkingHttpContext option \<Rightarrow> bool \<Rightarrow> NetworkingResult \<times> NetworkingHttpContext option" where
  "Networking_HttpInit pCtx pCreds =
     (case pCtx of
        None \<Rightarrow> (NETWORKING_RESULT_BAD_PARAM, None)
      | Some c \<Rightarrow>
          if \<not> pCreds then (NETWORKING_RESULT_BAD_PARAM, Some c)
          else (NETWORKING_RESULT_OK,
            Some \<lparr>uriHost = [], uriPath = [], requiredUserAgent = no_header, requiredTime = no_header, requiredSessionToken = no_header,
              requiredAuthorization = no_header, pRequest = None, pResponse = None, httpConnectionClosed = False, httpStatusCode = 0,
              httpContexts = httpContexts c\<rparr>))"

definition CreateHttpLwsContext :: "http_world \<Rightarrow> NetworkingHttpContext \<Rightarrow> NetworkingResult \<times> NetworkingHttpContext" where
  "CreateHttpLwsContext w c =
     (if contextCreated w then (NETWORKING_RESULT_OK, c\<lparr>httpContexts := httpContexts c + 1\<rparr>) else (NETWORKING_RESULT_FAIL, c))"

text \<open>The host of the URL.  A host that is not set has length 0: nothing is copied from the null pointer.\<close>

definition http_host :: "HttpRequest \<Rightarrow> NetworkingHttpContext \<Rightarrow> (NetworkingResult \<times> NetworkingHttpContext) option" where
  "http_host req c =
     map_option (\<lambda>(ret, host).
       if ret \<noteq> 0 then (NETWORKING_RESULT_FAIL, c)
       else (let (h, n) = (case host of None \<Rightarrow> (0, 0) | Some hn \<Rightarrow> hn)
             in if n \<le> HTTP_URI_HOST_BUFFER_LENGTH then (NETWORKING_RESULT_OK, c\<lparr>uriHost := take n (drop h (pUrl req))\<rparr>)
                else (NETWORKING_RESULT_FAIL, c)))
       (GetHostFromUrl (pUrl req) (length (pUrl req)))"

definition http_time :: "http_world \<Rightarrow> NetworkingHttpContext \<Rightarrow> NetworkingResult \<times> NetworkingHttpContext" where
  "http_time w c =
     (case GetCurrentTimeInIso8601Format (timeText w) ISO8601_TIME_LENGTH of
        None \<Rightarrow> (NETWORKING_RESULT_FAIL, c)
      | Some t \<Rightarrow> (NETWORKING_RESULT_OK, c\<lparr>requiredTime := \<lparr>headerName = ''x-amz-date'', headerValue = t\<rparr>\<rparr>))"

definition http_token :: "AwsCredentials option \<Rightarrow> NetworkingHttpContext \<Rightarrow> NetworkingHttpContext" where
  "http_token pAwsCredentials c =
     (case pAwsCredentials of
        Some creds \<Rightarrow>
          (case pSessionToken creds of
             Some token \<Rightarrow>
               if token \<noteq> [] then c\<lparr>requiredSessionToken := \<lparr>headerName = ''x-amz-security-token'', headerValue = token\<rparr>\<rparr>
               else c\<lparr>requiredSessionToken := (requiredSessionToken c)\<lparr>headerValue := []\<rparr>\<rparr>
           | None \<Rightarrow> c\<lparr>requiredSessionToken := (requiredSessionToken c)\<lparr>headerValue := []\<rparr>\<rparr>)
      | None \<Rightarrow> c\<lparr>requiredSessionToken := (requiredSessionToken c)\<lparr>headerValue := []\<rparr>\<rparr>)"

text \<open>The path of the URL; its first character becomes a slash, an empty path stays empty.\<close>

definition http_path :: "HttpRequest \<Rightarrow> NetworkingHttpContext \<Rightarrow> (NetworkingResult \<times> NetworkingHttpContext) option" where
  "http_path req c =
     map_option (\<lambda>(ret, path).
       if ret \<noteq> 0 then (NETWORKING_RESULT_FAIL, c)
       else (let (p, n) = the path; txt = take n (drop p (pUrl req))
             in if n \<le> HTTP_URI_PATH_BUFFER_LENGTH then (NETWORKING_RESULT_OK, c\<lparr>uriPath := (if txt = [] then [] else CHR ''/'' # tl txt)\<rparr>)
                else (NETWORKING_RESULT_FAIL, c)))
       (GetPathFromUrl (pUrl req) (length (pUrl req)))"

definition http_sign ::
    "http_world \<Rightarrow> HttpRequest \<Rightarrow> AwsCredentials option \<Rightarrow> AwsConfig \<Rightarrow> NetworkingHttpContext \<Rightarrow> (NetworkingResult \<times> NetworkingHttpContext) option" where
  "http_sign w req pAwsCredentials cfg c =
     (case pAwsCredentials of
        None \<Rightarrow> Some (NETWORKING_RESULT_OK, c)
      | Some creds \<Rightarrow>
          map_option (\<lambda>r. case r of Inl _ \<Rightarrow> (NETWORKING_RESULT_FAIL, c) | Inr h \<Rightarrow> (NETWORKING_RESULT_OK, c\<lparr>requiredAuthorization := h\<rparr>))
            (SignHttpRequest (signer w) (uriHost c) (uriPath c) (requiredUserAgent c) (requiredTime c) (verb req) (pBody req) creds cfg))"

text \<open>Connect, reset the flag, wait until the connection is closed, destroy the context.\<close>

definition http_exchange ::
    "http_world \<Rightarrow> HttpRequest \<Rightarrow> HttpResponse \<Rightarrow> NetworkingHttpContext \<Rightarrow> (NetworkingResult \<times> NetworkingHttpContext \<times> http_action list) option" where
  "http_exchange w req resp c =
     do {
       (c1, acts1) \<leftarrow> http_callbacks (c\<lparr>pRequest := Some req, pResponse := Some resp, httpStatusCode := 0\<rparr>) (connectEvents w);
       (c2, acts2) \<leftarrow> http_loop (c1\<lparr>httpConnectionClosed := False\<rparr>) (serviceEvents w);
       Some (if httpStatusCode c2 \<noteq> 200 then NETWORKING_RESULT_FAIL else NETWORKING_RESULT_OK,
             c2\<lparr>httpContexts := httpContexts c2 - 1\<rparr>, http_connect (uriHost c) (uriPath c) (verb req) # acts1 @ acts2)
     }"

definition if_ok ::
    "(NetworkingHttpContext \<Rightarrow> (NetworkingResult \<times> NetworkingHttpContext) option) \<Rightarrow> NetworkingResult \<times> NetworkingHttpContext
      \<Rightarrow> (NetworkingResult \<times> NetworkingHttpContext) option" where
  "if_ok f rc = (if fst rc = NETWORKING_RESULT_OK then f (snd rc) else Some rc)"

text \<open>Everything up to the exchange.\<close>

definition http_prepare ::
    "http_world \<Rightarrow> HttpRequest \<Rightarrow> AwsCredentials option \<Rightarrow> AwsConfig \<Rightarrow> NetworkingHttpContext \<Rightarrow> (NetworkingResult \<times> NetworkingHttpContext) option" where
  "http_prepare w req pAwsCredentials cfg c =
     do {
       s1 \<leftarrow> if_ok (\<lambda>c. http_host req (c\<lparr>requiredUserAgent := \<lparr>headerName = ''user-agent'', headerValue = pUserAgent req\<rparr>\<rparr>)) (CreateHttpLwsContext w c);
       s2 \<leftarrow> if_ok (\<lambda>c. Some (http_time w c)) s1;
       s3 \<leftarrow> if_ok (\<lambda>c. Some (NETWORKING_RESULT_OK, http_token pAwsCredentials c)) s2;
       s4 \<leftarrow> if_ok (http_path req) s3;
       if_ok (http_sign w req pAwsCredentials cfg) s4
     }"

text \<open>The last component is the response of the caller.\<close>

definition Networking_HttpSend ::
    "http_world \<Rightarrow> NetworkingHttpContext option \<Rightarrow> HttpRequest option \<Rightarrow> AwsCredentials option \<Rightarrow> AwsConfig \<Rightarrow> HttpResponse option
      \<Rightarrow> (NetworkingResult \<times> NetworkingHttpContext option \<times> http_action list \<times> HttpResponse option) option" where
  "Networking_HttpSend w pCtx pReq pAwsCredentials cfg pResp =
     (case (pCtx, pReq, pResp) of
        (Some c, Some req, Some resp) \<Rightarrow>
          do {
            (r, c1) \<leftarrow> http_prepare w req pAwsCredentials cfg c;
            if r \<noteq> NETWORKING_RESULT_OK then Some (r, Some c1, [], pResp)
            else map_option (\<lambda>(r, c2, acts). (r, Some c2, acts, pResponse c2)) (http_exchange w req resp c1)
          }
      | _ \<Rightarrow> Some (NETWORKING_RESULT_BAD_PARAM, pCtx, [], pResp))"

section \<open>Connecting the websocket\<close>

fun ws_callbacks :: "NetworkingWebsocketContext \<Rightarrow> lws_reason list \<Rightarrow> NetworkingWebsocketContext option" where
  "ws_callbacks c [] = Some c"
| "ws_callbacks c (e # es) = do { (r, c', acts, ms) \<leftarrow> LwsWebsocketCallback c e; ws_callbacks c' es }"

fun ws_connect_loop :: "NetworkingWebsocketContext \<Rightarrow> lws_reason list list \<Rightarrow> NetworkingWebsocketContext option" where
  "ws_connect_loop c services =
     (if connectionEstablished c \<or> connectionClosed c then Some c
      else (case services of [] \<Rightarrow> None | es # rest \<Rightarrow> do { c' \<leftarrow> ws_callbacks c es; ws_connect_loop c' rest }))"

declare ws_connect_loop.simps [simp del]

record ws_world =
  wsContextCreated :: bool
  wsTimeText :: string
  wsNow :: u64
  wsSigner :: sigv4
  wsConnectEvents :: "lws_reason list"
  wsServiceEvents :: "lws_reason list list"

record WebsocketConnectInfo =
  wsUrl :: string
  wsRxCallback :: "(bytes \<Rightarrow> int) option"

text \<open>The host of the websocket URL, within the buffer.\<close>

definition ws_host :: "string \<Rightarrow> string option option" where
  "ws_host url =
     map_option (\<lambda>(ret, host).
       if ret \<noteq> 0 then None
       else (let (h, n) = (case host of None \<Rightarrow> (0, 0) | Some hn \<Rightarrow> hn)
             in if n \<le> WEBSOCKET_URI_HOST_BUFFER_LENGTH then Some (take n (drop h url)) else None))
       (GetHostFromUrl url (length url))"

text \<open>The last component is what libwebsockets is asked to connect to.\<close>

definition Networking_WebsocketConnect ::
    "ws_world \<Rightarrow> NetworkingWebsocketContext option \<Rightarrow> WebsocketConnectInfo option \<Rightarrow> AwsCredentials option \<Rightarrow> AwsConfig
      \<Rightarrow> (NetworkingResult \<times> NetworkingWebsocketContext option \<times> (string \<times> string) option) option" where
  "Networking_WebsocketConnect w pCtx pInfo pAwsCredentials cfg =
     (case (pCtx, pInfo, pAwsCredentials) of
        (Some c, Some info, Some creds) \<Rightarrow>
          if connectionEstablished c then Some (NETWORKING_RESULT_OK, pCtx, None)
          else if \<not> wsContextCreated w then Some (NETWORKING_RESULT_FAIL, Some (c\<lparr>lwsContextAlive := False\<rparr>), None)
          else
            (let c0 = c\<lparr>lwsContextAlive := True\<rparr>
             in do {
               host \<leftarrow> ws_host (wsUrl info);
               case (host, GetCurrentTimeInIso8601Format (wsTimeText w) ISO8601_TIME_LENGTH) of
                 (Some h, Some date) \<Rightarrow> do {
                   signed \<leftarrow> SignWebsocketRequest (wsSigner w) (wsNow w) (wsUrl info) h date creds cfg;
                   case signed of
                     Inl _ \<Rightarrow> Some (NETWORKING_RESULT_FAIL, Some c0, None)
                   | Inr path \<Rightarrow> do {
                       c1 \<leftarrow> ws_callbacks (c0\<lparr>rxCallback := wsRxCallback info\<rparr>) (wsConnectEvents w);
                       c2 \<leftarrow> ws_connect_loop (c1\<lparr>connectionEstablished := False, connectionClosed := False, connectionCloseRequested := False\<rparr>) (wsServiceEvents w);
                       Some (if connectionClosed c2 then NETWORKING_RESULT_FAIL else NETWORKING_RESULT_OK, Some c2, Some (h, path))
                     }
                 }
               | _ \<Rightarrow> Some (NETWORKING_RESULT_FAIL, Some c0, None)
             })
      | _ \<Rightarrow> Some (NETWORKING_RESULT_BAD_PARAM, pCtx, None))"

section \<open>Contexts, headers and content of a request\<close>

lemma LwsHttpCallback_keeps:
  "LwsHttpCallback c e = Some (r, c', acts) \<Longrightarrow>
    httpContexts c' = httpContexts c \<and> requiredHeaders c' = requiredHeaders c \<and> pRequest c' = pRequest c \<and> uriHost c' = uriHost c \<and> uriPath c' = uriPath c
    \<and> (\<forall>h. add_http_header h \<in> set acts \<longrightarrow> (\<exists>req. pRequest c = Some req \<and> h \<in> set (handshake_headers c req)))"
  by (auto simp: LwsHttpCallback_def Let_def requiredHeaders_def split: http_reason.splits option.splits if_splits)

lemma handshake_headers_cong: "requiredHeaders c' = requiredHeaders c \<Longrightarrow> handshake_headers c' req = handshake_headers c req"
  by (simp add: handshake_headers_def)

lemma http_callbacks_keeps:
  "http_callbacks c es = Some (c', acts) \<Longrightarrow>
    httpContexts c' = httpContexts c \<and> requiredHeaders c' = requiredHeaders c \<and> pRequest c' = pRequest c
    \<and> (\<forall>h. add_http_header h \<in> set acts \<longrightarrow> (\<exists>req. pRequest c = Some req \<and> h \<in> set (handshake_headers c req)))"
proof (induction es arbitrary: c acts)
  case (Cons e es)
  from Cons.prems obtain r c1 a1 a2 where s: "LwsHttpCallback c e = Some (r, c1, a1)" "http_callbacks c1 es = Some (c', a2)" "acts = a1 @ a2"
    by (auto split: bind_splits)
  from LwsHttpCallback_keeps [OF s(1)] Cons.IH [OF s(2)] handshake_headers_cong [of c1 c] s(3) show ?case by auto
qed auto

lemma http_loop_keeps:
  "http_loop c services = Some (c', acts) \<Longrightarrow>
    httpContexts c' = httpContexts c \<and> requiredHeaders c' = requiredHeaders c \<and> pRequest c' = pRequest c
    \<and> (\<forall>h. add_http_header h \<in> set acts \<longrightarrow> (\<exists>req. pRequest c = Some req \<and> h \<in> set (handshake_headers c req)))"
proof (induction services arbitrary: c acts)
  case Nil
  then show ?case by (auto simp: http_loop.simps split: if_splits)
next
  case (Cons es rest)
  show ?case
  proof (cases "httpConnectionClosed c")
    case True
    with Cons.prems show ?thesis by (auto simp: http_loop.simps)
  next
    case False
    with Cons.prems obtain c1 a1 a2 where s: "http_callbacks c es = Some (c1, a1)" "http_loop c1 rest = Some (c', a2)" "acts = a1 @ a2"
      by (auto simp: http_loop.simps [of c] split: bind_splits)
    from http_callbacks_keeps [OF s(1)] Cons.IH [OF s(2)] handshake_headers_cong [of c1 c] s(3) show ?thesis by auto
  qed
qed

lemma http_exchange_keeps:
  assumes "http_exchange w req resp c = Some (r, c', acts)"
  shows "httpContexts c' = httpContexts c - 1" "acts \<noteq> []" "add_http_header h \<in> set acts \<Longrightarrow> h \<in> set (handshake_headers c req)"
proof -
  let ?c0 = "c\<lparr>pRequest := Some req, pResponse := Some resp, httpStatusCode := 0\<rparr>"
  from assms obtain c1 a1 c2 a2 where s: "http_callbacks ?c0 (connectEvents w) = Some (c1, a1)"
    "http_loop (c1\<lparr>httpConnectionClosed := False\<rparr>) (serviceEvents w) = Some (c2, a2)"
    "c' = c2\<lparr>httpContexts := httpContexts c2 - 1\<rparr>" "acts = http_connect (uriHost c) (uriPath c) (verb req) # a1 @ a2"
    by (auto simp: http_exchange_def split: bind_splits)
  from http_callbacks_keeps [OF s(1)] have k1: "httpContexts c1 = httpContexts c" "requiredHeaders c1 = requiredHeaders c" "pRequest c1 = Some req"
    "add_http_header h \<in> set a1 \<longrightarrow> h \<in> set (handshake_headers ?c0 req)" by (auto simp: requiredHeaders_def)
  from http_loop_keeps [OF s(2)] k1 have k2: "httpContexts c2 = httpContexts c"
    "add_http_header h \<in> set a2 \<longrightarrow> h \<in> set (handshake_headers (c1\<lparr>httpConnectionClosed := False\<rparr>) req)" by (auto simp: requiredHeaders_def)
  have same: "handshake_headers ?c0 req = handshake_headers c req" "handshake_headers (c1\<lparr>httpConnectionClosed := False\<rparr>) req = handshake_headers c req"
    using k1(2) by (intro handshake_headers_cong; simp add: requiredHeaders_def)+
  show "httpContexts c' = httpContexts c - 1" "acts \<noteq> []" using s(3,4) k2(1) by simp_all
  show "add_http_header h \<in> set acts \<Longrightarrow> h \<in> set (handshake_headers c req)" using s(4) k1(4) k2(2) same by auto
qed

lemma if_ok_Some: "if_ok f rc = Some rc' \<Longrightarrow> (fst rc = NETWORKING_RESULT_OK \<and> f (snd rc) = Some rc') \<or> (fst rc \<noteq> NETWORKING_RESULT_OK \<and> rc' = rc)"
  by (auto simp: if_ok_def split: if_splits)

lemma http_steps_contexts:
  "http_host req c = Some rc \<Longrightarrow> httpContexts (snd rc) = httpContexts c" "httpContexts (snd (http_time w c)) = httpContexts c"
  "httpContexts (http_token cr c) = httpContexts c" "http_path req c = Some rc \<Longrightarrow> httpContexts (snd rc) = httpContexts c"
  "http_sign w req cr cfg c = Some rc \<Longrightarrow> httpContexts (snd rc) = httpContexts c"
  by (auto simp: http_host_def http_time_def http_token_def http_path_def http_sign_def Let_def map_option_case
      split: option.splits if_splits sum.splits prod.splits)

lemma if_ok_contexts:
  "if_ok f rc = Some rc' \<Longrightarrow> (\<And>c x. f c = Some x \<Longrightarrow> httpContexts (snd x) = httpContexts c) \<Longrightarrow> httpContexts (snd rc') = httpContexts (snd rc)"
  by (auto simp: if_ok_def split: if_splits)

lemma http_prepare_contexts:
  assumes "http_prepare w req cr cfg c = Some (r, c')"
  shows "httpContexts c' = httpContexts c + (if contextCreated w then 1 else 0)" "r = NETWORKING_RESULT_OK \<Longrightarrow> contextCreated w"
proof -
  from assms obtain s1 s2 s3 s4 where
    s: "if_ok (\<lambda>c. http_host req (c\<lparr>requiredUserAgent := \<lparr>headerName = ''user-agent'', headerValue = pUserAgent req\<rparr>\<rparr>)) (CreateHttpLwsContext w c) = Some s1"
      "if_ok (\<lambda>c. Some (http_time w c)) s1 = Some s2" "if_ok (\<lambda>c. Some (NETWORKING_RESULT_OK, http_token cr c)) s2 = Some s3"
      "if_ok (http_path req) s3 = Some s4" "if_ok (http_sign w req cr cfg) s4 = Some (r, c')"
    by (auto simp: http_prepare_def split: bind_splits)
  from s(1) have 1: "httpContexts (snd s1) = httpContexts c + (if contextCreated w then 1 else 0)" "fst s1 = NETWORKING_RESULT_OK \<Longrightarrow> contextCreated w"
    using http_steps_contexts(1) by (auto simp: if_ok_def CreateHttpLwsContext_def split: if_splits)
  note step = if_ok_Some [OF s(2)] if_ok_Some [OF s(3)] if_ok_Some [OF s(4)] if_ok_Some [OF s(5)]
  have "httpContexts (snd s2) = httpContexts (snd s1)" by (rule if_ok_contexts [OF s(2)]) (auto simp: http_steps_contexts(2))
  moreover have "httpContexts (snd s3) = httpContexts (snd s2)" by (rule if_ok_contexts [OF s(3)]) (auto simp: http_steps_contexts(3))
  moreover have "httpContexts (snd s4) = httpContexts (snd s3)" by (rule if_ok_contexts [OF s(4)]) (rule http_steps_contexts(4))
  moreover have "httpContexts c' = httpContexts (snd s4)" using if_ok_contexts [OF s(5)] http_steps_contexts(5) by fastforce
  ultimately show "httpContexts c' = httpContexts c + (if contextCreated w then 1 else 0)" using 1(1) by simp
  show "r = NETWORKING_RESULT_OK \<Longrightarrow> contextCreated w" using step 1(2) by auto
qed

text \<open>The contexts of libwebsockets that HTTP requests use.  A request that reaches the server gives its context back, whatever the
  server answers.  A request that is not sent because of its URL, its host, its path, the clock or the signature leaves its context
  behind, although the function returns an error.\<close>

theorem http_contexts:
  assumes "Networking_HttpSend w (Some c) (Some req) cr cfg (Some resp) = Some (r, Some c', acts, resp')"
  shows "httpContexts c' = httpContexts c + (if acts = [] \<and> contextCreated w then 1 else 0)"
proof -
  from assms obtain r1 c1 where p: "http_prepare w req cr cfg c = Some (r1, c1)"
    and rest: "(r1 \<noteq> NETWORKING_RESULT_OK \<and> c' = c1 \<and> acts = []) \<or> (r1 = NETWORKING_RESULT_OK \<and> http_exchange w req resp c1 = Some (r, c', acts))"
    by (auto simp: Networking_HttpSend_def split: bind_splits if_splits)
  from rest show ?thesis
  proof (elim disjE conjE)
    assume "r1 = NETWORKING_RESULT_OK" and x: "http_exchange w req resp c1 = Some (r, c', acts)"
    with http_prepare_contexts [OF p] http_exchange_keeps(1,2) [OF x] show ?thesis by simp
  qed (use http_prepare_contexts(1) [OF p] in simp)
qed

text \<open>The parameters that are signed for a request with the host and the path of a context.\<close>

definition http_sig_params :: "NetworkingHttpContext \<Rightarrow> HttpRequest \<Rightarrow> AwsCredentials \<Rightarrow> AwsConfig \<Rightarrow> string \<Rightarrow> sigv4_params" where
  "http_sig_params c req creds cfg date =
     \<lparr>sigMethod = (if verb req = HTTP_POST then ''POST'' else ''GET''), sigPath = uriPath c, sigQuery = None, sigQueryIsCanonical = False,
      sigHeaders = ''host: '' @ uriHost c @ crlf @ ''user-agent: '' @ pUserAgent req @ crlf @ ''x-amz-date: '' @ date @ crlf,
      sigPayload = pBody req, sigCredentials = creds, sigDate = date, sigConfig = cfg\<rparr>"

lemma http_host_steps:
  "http_host req c = Some (NETWORKING_RESULT_OK, c') \<Longrightarrow> \<exists>h. c' = c\<lparr>uriHost := h\<rparr>"
  "http_time w c = (NETWORKING_RESULT_OK, c') \<Longrightarrow> timeText w \<noteq> [] \<and> c' = c\<lparr>requiredTime := \<lparr>headerName = ''x-amz-date'', headerValue = timeText w\<rparr>\<rparr>"
  "http_path req c = Some (NETWORKING_RESULT_OK, c') \<Longrightarrow> \<exists>p. c' = c\<lparr>uriPath := p\<rparr>"
  by (auto simp: http_host_def http_time_def http_path_def GetCurrentTimeInIso8601Format_def Let_def map_option_case split: option.splits if_splits prod.splits)

lemma http_prepare_OK:
  assumes "http_prepare w req cr cfg c = Some (NETWORKING_RESULT_OK, c')"
  shows "\<exists>c4. requiredUserAgent c4 = \<lparr>headerName = ''user-agent'', headerValue = pUserAgent req\<rparr>
    \<and> requiredTime c4 = \<lparr>headerName = ''x-amz-date'', headerValue = timeText w\<rparr>
    \<and> requiredSessionToken c4 = requiredSessionToken (http_token cr c)
    \<and> requiredAuthorization c4 = requiredAuthorization c \<and> http_sign w req cr cfg c4 = Some (NETWORKING_RESULT_OK, c')"
proof -
  let ?ua = "\<lambda>c. c\<lparr>requiredUserAgent := \<lparr>headerName = ''user-agent'', headerValue = pUserAgent req\<rparr>\<rparr>"
  from assms obtain c1 c2 c4 where s: "http_host req (?ua (c\<lparr>httpContexts := httpContexts c + 1\<rparr>)) = Some (NETWORKING_RESULT_OK, c1)"
    "http_time w c1 = (NETWORKING_RESULT_OK, c2)" "http_path req (http_token cr c2) = Some (NETWORKING_RESULT_OK, c4)"
    "http_sign w req cr cfg c4 = Some (NETWORKING_RESULT_OK, c')"
    by (auto simp: http_prepare_def if_ok_def CreateHttpLwsContext_def split: bind_splits if_splits)
  from http_host_steps(1) [OF s(1)] http_host_steps(2) [OF s(2)] http_host_steps(3) [OF s(3)] s(4) show ?thesis
    by (intro exI [of _ c4]) (auto simp: http_token_def split: option.splits)
qed

lemma http_sign_authorization:
  assumes "http_sign w req cr cfg c = Some (NETWORKING_RESULT_OK, c')"
    and "requiredUserAgent c = \<lparr>headerName = ''user-agent'', headerValue = pUserAgent req\<rparr>" "requiredTime c = \<lparr>headerName = ''x-amz-date'', headerValue = date\<rparr>"
  shows "case cr of
      None \<Rightarrow> requiredAuthorization c' = requiredAuthorization c
    | Some creds \<Rightarrow> \<exists>sig. signer w (http_sig_params c' req creds cfg date) = Some (headerValue (requiredAuthorization c'), sig)"
  using assms by (auto simp: http_sign_def SignHttpRequest_def http_sig_params_def Let_def split: option.splits if_splits sum.splits)

lemma http_sign_others:
  "http_sign w req cr cfg c = Some (NETWORKING_RESULT_OK, c') \<Longrightarrow>
    requiredUserAgent c' = requiredUserAgent c \<and> requiredTime c' = requiredTime c \<and> requiredSessionToken c' = requiredSessionToken c"
  by (auto simp: http_sign_def map_option_case split: option.splits sum.splits)

text \<open>C14: The authorization of HTTP requests.  An authorization header that a request sends, and that is not one of the caller's own headers, is,
  with credentials, what the signing library gave for the method, host, path, date and body of this very request; without credentials it is the
  one of the last signed request, which has not been cleared.\<close>

theorem http_authorization:
  assumes "Networking_HttpSend w (Some c) (Some req) cr cfg (Some resp) = Some (r, Some c', acts, resp')"
    and "add_http_header h \<in> set acts" "headerName h = ''Authorization''" "h \<notin> set (pHeaders req)"
  shows "case cr of
      None \<Rightarrow> h = requiredAuthorization c
    | Some creds \<Rightarrow> \<exists>c1 sig. http_prepare w req cr cfg c = Some (NETWORKING_RESULT_OK, c1)
        \<and> signer w (http_sig_params c1 req creds cfg (timeText w)) = Some (headerValue h, sig)"
proof -
  from assms(1,2) obtain c1 where p: "http_prepare w req cr cfg c = Some (NETWORKING_RESULT_OK, c1)" and x: "http_exchange w req resp c1 = Some (r, c', acts)"
    by (auto simp: Networking_HttpSend_def split: bind_splits if_splits)
  from http_exchange_keeps(3) [OF x assms(2)] assms(4) have hs: "h \<in> set (requiredHeaders c1)" "headerValue h \<noteq> []"
    using assms(3) by (auto simp: handshake_headers_def)
  from http_prepare_OK [OF p] obtain c4 where c4: "requiredUserAgent c4 = \<lparr>headerName = ''user-agent'', headerValue = pUserAgent req\<rparr>"
    "requiredTime c4 = \<lparr>headerName = ''x-amz-date'', headerValue = timeText w\<rparr>" "requiredSessionToken c4 = requiredSessionToken (http_token cr c)"
    "requiredAuthorization c4 = requiredAuthorization c" "http_sign w req cr cfg c4 = Some (NETWORKING_RESULT_OK, c1)" by blast
  have "headerValue (requiredSessionToken c4) \<noteq> [] \<Longrightarrow> headerName (requiredSessionToken c4) = ''x-amz-security-token''"
    using c4(3) by (auto simp: http_token_def split: option.splits if_splits)
  then have "h = requiredAuthorization c1"
    using hs http_sign_others [OF c4(5)] c4(1,2) assms(3) by (auto simp: requiredHeaders_def)
  with http_sign_authorization [OF c4(5,1,2)] c4(4) p show ?thesis by (auto split: option.splits)
qed

section \<open>The queue while connecting\<close>

lemma ws_callbacks_queue:
  "ws_callbacks c es = Some c' \<Longrightarrow> ws_queue c xs \<Longrightarrow> list_all lws_reason_ok es \<Longrightarrow>
    \<exists>xs'. ws_queue c' xs' \<and> wire c' @ ws_pending c' xs' = wire c @ ws_pending c xs"
proof (induction es arbitrary: c xs)
  case (Cons e es)
  from LwsWebsocketCallback_step [OF Cons.prems(2), of e] Cons.prems(3) obtain r c1 acts ms xs1 where
    s: "LwsWebsocketCallback c e = Some (r, c1, acts, ms)" "ws_queue c1 xs1" "wire c1 @ ws_pending c1 xs1 = wire c @ ws_pending c xs" by auto
  with Cons.IH [of c1 xs1] Cons.prems show ?case by auto
qed auto

lemma ws_connect_loop_queue:
  "ws_connect_loop c services = Some c' \<Longrightarrow> ws_queue c xs \<Longrightarrow> list_all (list_all lws_reason_ok) services \<Longrightarrow>
    (connectionEstablished c' \<or> connectionClosed c') \<and> (\<exists>xs'. ws_queue c' xs' \<and> wire c' @ ws_pending c' xs' = wire c @ ws_pending c xs)"
proof (induction services arbitrary: c xs)
  case Nil
  then show ?case by (auto simp: ws_connect_loop.simps split: if_splits)
next
  case (Cons es rest)
  show ?case
  proof (cases "connectionEstablished c \<or> connectionClosed c")
    case True
    with Cons.prems show ?thesis by (auto simp: ws_connect_loop.simps)
  next
    case False
    with Cons.prems(1) obtain c1 where s: "ws_callbacks c es = Some c1" "ws_connect_loop c1 rest = Some c'"
      by (auto simp: ws_connect_loop.simps [of c] split: bind_splits)
    from ws_callbacks_queue [OF s(1) Cons.prems(2)] Cons.prems(3) obtain xs1 where
      "ws_queue c1 xs1" "wire c1 @ ws_pending c1 xs1 = wire c @ ws_pending c xs" by auto
    with Cons.IH [OF s(2), of xs1] Cons.prems(3) show ?thesis by auto
  qed
qed

lemma ws_queue_connect_flags [simp]:
  "ws_queue (c\<lparr>lwsContextAlive := a\<rparr>) xs = ws_queue c xs" "ws_pending (c\<lparr>lwsContextAlive := a\<rparr>) xs = ws_pending c xs"
  "ws_queue (c\<lparr>rxCallback := cb\<rparr>) xs = ws_queue c xs" "ws_pending (c\<lparr>rxCallback := cb\<rparr>) xs = ws_pending c xs"
  by (simp_all add: ws_queue_def ws_pending_def ws_elem_ok_def ws_pending_one_def [abs_def])

text \<open>C15: Connecting and reconnecting lose no message.  Whatever the URL and the credentials are and whatever libwebsockets reports while
  the connection is set up, when \<open>Networking_WebsocketConnect\<close> returns, the queue is well-formed, the bytes on the wire followed by the
  bytes that wait are those of before, and an OK means that the connection is established.\<close>

theorem websocket_connect_keeps_queue:
  assumes "Networking_WebsocketConnect w (Some c) pInfo cr cfg = Some (r, Some c', req)" "ws_queue c xs"
    and "list_all lws_reason_ok (wsConnectEvents w)" "list_all (list_all lws_reason_ok) (wsServiceEvents w)"
  shows "(\<exists>xs'. ws_queue c' xs' \<and> wire c' @ ws_pending c' xs' = wire c @ ws_pending c xs) \<and> (r = NETWORKING_RESULT_OK \<longrightarrow> connectionEstablished c')"
proof (cases "req = None")
  case True
  with assms(1,2) show ?thesis
    by (auto simp: Networking_WebsocketConnect_def Let_def split: option.splits if_splits bind_splits sum.splits intro: exI [of _ xs])
next
  case False
  with assms(1) obtain info where info: "pInfo = Some info" by (cases pInfo) (auto simp: Networking_WebsocketConnect_def)
  with assms(1) False obtain c1 where s: "ws_callbacks (c\<lparr>lwsContextAlive := True, rxCallback := wsRxCallback info\<rparr>) (wsConnectEvents w) = Some c1"
    "ws_connect_loop (c1\<lparr>connectionEstablished := False, connectionClosed := False, connectionCloseRequested := False\<rparr>) (wsServiceEvents w) = Some c'"
    "r = (if connectionClosed c' then NETWORKING_RESULT_FAIL else NETWORKING_RESULT_OK)"
    by (auto simp: Networking_WebsocketConnect_def Let_def split: option.splits if_splits bind_splits sum.splits)
  from ws_callbacks_queue [OF s(1) _ assms(3), of xs] assms(2) obtain xs1 where q: "ws_queue c1 xs1" "wire c1 @ ws_pending c1 xs1 = wire c @ ws_pending c xs"
    by auto
  let ?c = "c1\<lparr>connectionEstablished := False, connectionClosed := False, connectionCloseRequested := False\<rparr>"
  from q have "ws_queue ?c xs1" "wire ?c @ ws_pending ?c xs1 = wire c @ ws_pending c xs" by simp_all
  with ws_connect_loop_queue [OF s(2) _ assms(4), of xs1] s(3) show ?thesis by auto
qed

section \<open>Examples\<close>

definition demo_http :: NetworkingHttpContext where
  "demo_http = \<lparr>uriHost = [], uriPath = [], requiredUserAgent = no_header, requiredTime = no_header, requiredSessionToken = no_header,
     requiredAuthorization = \<lparr>headerName = ''Authorization'', headerValue = ''old''\<rparr>, pRequest = None, pResponse = None, httpConnectionClosed = False,
     httpStatusCode = 0, httpContexts = 0\<rparr>"

definition demo_request :: "string \<Rightarrow> HttpRequest" where
  "demo_request url = \<lparr>verb = HTTP_GET, pUrl = url, pHeaders = [], pUserAgent = ''ua'', pBody = None\<rparr>"

definition demo_response :: HttpResponse where
  "demo_response = \<lparr>pContent = [], contentMaxCapacity = 100\<rparr>"

definition demo_http_world :: http_world where
  "demo_http_world = \<lparr>contextCreated = True, timeText = ''20250101T000000Z'', signer = demo_sigv4, connectEvents = [],
     serviceEvents = [[HTTP_APPEND_HANDSHAKE_HEADER (\<lambda>_. 0)], [HTTP_ESTABLISHED_CLIENT_HTTP 200, HTTP_COMPLETED_CLIENT_HTTP]]\<rparr>"

theorem http_contexts_witness:
  "\<exists>c'. Networking_HttpSend demo_http_world (Some demo_http) (Some (demo_request ''no host'')) None demo_aws_config (Some demo_response)
      = Some (NETWORKING_RESULT_FAIL, Some c', [], Some demo_response) \<and> httpContexts c' = 1"
proof -
  have "GetHostFromUrl ''no host'' (length ''no host'') = Some (-1, None)" by code_simp
  then have "\<exists>c'. Networking_HttpSend demo_http_world (Some demo_http) (Some (demo_request ''no host'')) None demo_aws_config (Some demo_response)
      = Some (NETWORKING_RESULT_FAIL, Some c', [], Some demo_response)"
    by (simp add: Networking_HttpSend_def http_prepare_def if_ok_def CreateHttpLwsContext_def demo_http_world_def http_host_def demo_request_def)
  moreover have "httpContexts demo_http = 0" "contextCreated demo_http_world" by (simp_all add: demo_http_def demo_http_world_def)
  ultimately show ?thesis using http_contexts [of demo_http_world demo_http] by fastforce
qed

theorem http_authorization_witness:
  "\<exists>c' acts resp. Networking_HttpSend demo_http_world (Some demo_http) (Some (demo_request ''https://h/p'')) None demo_aws_config (Some demo_response)
      = Some (NETWORKING_RESULT_OK, Some c', acts, resp)
    \<and> (\<forall>h. add_http_header h \<in> set acts \<and> headerName h = ''Authorization'' \<longrightarrow> h = \<lparr>headerName = ''Authorization'', headerValue = ''old''\<rparr>)
    \<and> add_http_header \<lparr>headerName = ''Authorization'', headerValue = ''old''\<rparr> \<in> set acts"
proof -
  have "GetHostFromUrl ''https://h/p'' (length ''https://h/p'') = Some (0, Some (8, 1))" "GetPathFromUrl ''https://h/p'' (length ''https://h/p'') = Some (0, Some (9, 2))" by code_simp+
  then obtain c' acts resp where send: "Networking_HttpSend demo_http_world (Some demo_http) (Some (demo_request ''https://h/p'')) None demo_aws_config (Some demo_response)
      = Some (NETWORKING_RESULT_OK, Some c', acts, resp)" and added: "add_http_header \<lparr>headerName = ''Authorization'', headerValue = ''old''\<rparr> \<in> set acts"
    by (simp add: Networking_HttpSend_def http_prepare_def if_ok_def CreateHttpLwsContext_def demo_http_world_def http_host_def demo_request_def http_time_def
        http_token_def http_path_def http_sign_def http_exchange_def http_loop.simps LwsHttpCallback_def demo_http_def GetCurrentTimeInIso8601Format_def
        ISO8601_TIME_LENGTH_def HTTP_URI_HOST_BUFFER_LENGTH_def HTTP_URI_PATH_BUFFER_LENGTH_def handshake_headers_def requiredHeaders_def no_header_def)
  have "pHeaders (demo_request ''https://h/p'') = []" "requiredAuthorization demo_http = \<lparr>headerName = ''Authorization'', headerValue = ''old''\<rparr>"
    by (simp_all add: demo_request_def demo_http_def)
  with http_authorization [OF send] have "h = \<lparr>headerName = ''Authorization'', headerValue = ''old''\<rparr>"
    if "add_http_header h \<in> set acts" "headerName h = ''Authorization''" for h using that by simp
  with send added show ?thesis by blast
qed

definition demo_ws_world :: ws_world where
  "demo_ws_world = \<lparr>wsContextCreated = True, wsTimeText = ''20250101T000000Z'', wsNow = 400, wsSigner = demo_sigv4, wsConnectEvents = [],
     wsServiceEvents = [[LWS_CALLBACK_CLIENT_ESTABLISHED]]\<rparr>"

theorem websocket_connect_keeps_queue_witness:
  "\<exists>c' xs'. Networking_WebsocketConnect demo_ws_world (Some ws_init) (Some \<lparr>wsUrl = channel_url ''h'' ''/'' ''arn:1/2'' (Some ''v''), wsRxCallback = None\<rparr>)
      (Some demo_creds) demo_aws_config = Some (NETWORKING_RESULT_OK, Some c', Some (''h'', demo_signed))
    \<and> ws_queue c' xs' \<and> wire c' @ ws_pending c' xs' = [] \<and> connectionEstablished c'"
proof -
  have "SignWebsocketRequest demo_sigv4 400 (channel_url ''h'' ''/'' ''arn:1/2'' (Some ''v'')) ''h'' ''20250101T000000Z'' demo_creds demo_aws_config = Some (Inr demo_signed)"
    "ws_host (channel_url ''h'' ''/'' ''arn:1/2'' (Some ''v'')) = Some (Some ''h'')" by code_simp+
  then obtain c' where conn: "Networking_WebsocketConnect demo_ws_world (Some ws_init)
      (Some \<lparr>wsUrl = channel_url ''h'' ''/'' ''arn:1/2'' (Some ''v''), wsRxCallback = None\<rparr>) (Some demo_creds) demo_aws_config
      = Some (NETWORKING_RESULT_OK, Some c', Some (''h'', demo_signed))"
    by (simp add: Networking_WebsocketConnect_def demo_ws_world_def ws_init_def GetCurrentTimeInIso8601Format_def ISO8601_TIME_LENGTH_def ws_connect_loop.simps
        LwsWebsocketCallback_def)
  have "list_all lws_reason_ok (wsConnectEvents demo_ws_world)" "list_all (list_all lws_reason_ok) (wsServiceEvents demo_ws_world)"
    by (simp_all add: demo_ws_world_def lws_reason_ok_def)
  from websocket_connect_keeps_queue [OF conn _ this, of "[]"] conn ws_queue_init show ?thesis by auto
qed

end
