(* ===== verification/Sdp_Newline.thy ===== *)
theory Sdp_Newline
  imports String_Utils "HOL-Library.Monad_Syntax"
begin

text \<open>
  The line ends of a session description in a signaling message: \<open>SignalingController_SerializeSdpContentNewline\<close> and
  \<open>SignalingController_DeserializeSdpContentNewline\<close> of \<open>signaling_controller/signaling_controller.c\<close>, which turn line ends into the
  characters backslash and letter and back.
\<close>

section \<open>Operations\<close>

datatype SignalingControllerResult =
    SIGNALING_CONTROLLER_RESULT_OK
  | SIGNALING_CONTROLLER_RESULT_BAD_PARAM
  | SIGNALING_CONTROLLER_RESULT_FAIL

abbreviation LF :: char where "LF \<equiv> CHR 0x0A"
abbreviation CR :: char where "CR \<equiv> CHR 0x0D"
abbreviation BS :: char where "BS \<equiv> CHR 0x5C"

definition escaped_newline :: string where
  "escaped_newline = [BS, CHR ''r'', BS, CHR ''n'']"

text \<open>The line in front of the next line feed, without a carriage return.\<close>

definition cut_line :: "string \<Rightarrow> string" where
  "cut_line s = (let l = takeWhile (\<lambda>c. c \<noteq> LF) s in if l \<noteq> [] \<and> last l = CR then butlast l else l)"

text \<open>\<open>snprintf\<close> gets the room that is left and needs one character more for its terminator, which the check before it does not
  count: in the last position there is the terminator instead of the letter.  A line with a terminator in it leaves characters of the
  output unwritten, which is given no outcome.\<close>

function serialize_newlines :: "nat \<Rightarrow> string \<Rightarrow> string \<Rightarrow> (SignalingControllerResult \<times> string \<times> string) option" where
  "serialize_newlines room out cur =
     (if LF \<notin> set cur then Some (SIGNALING_CONTROLLER_RESULT_OK, out, cur)
      else
        (let line = cut_line cur; rest = drop (length (takeWhile (\<lambda>c. c \<noteq> LF) cur) + 1) cur
         in if room < length out + length line + 4 then Some (SIGNALING_CONTROLLER_RESULT_FAIL, out, cur)
            else if NUL \<in> set line then None
            else serialize_newlines room
                   (out @ line @ (if room = length out + length line + 4 then butlast escaped_newline @ [NUL] else escaped_newline)) rest))"
  by pat_completeness auto

termination
proof (relation "measure (\<lambda>(n, a, s). length s)", goal_cases)
  case (2 room out cur line rest)
  then have "cur \<noteq> []" by auto
  then show ?case using 2(3) by simp
qed simp

declare serialize_newlines.simps [simp del]

text \<open>What is behind the last line feed is copied without a check.\<close>

definition SignalingController_SerializeSdpContentNewline ::
    "string option \<Rightarrow> nat option \<Rightarrow> (SignalingControllerResult + string) option" where
  "SignalingController_SerializeSdpContentNewline pSdpMessage pEvent =
     (case (pSdpMessage, pEvent) of
        (Some msg, Some room) \<Rightarrow>
          if msg = [] then Some (Inl SIGNALING_CONTROLLER_RESULT_BAD_PARAM)
          else do {
            (r, out, rest) \<leftarrow> serialize_newlines room [] msg;
            if r \<noteq> SIGNALING_CONTROLLER_RESULT_OK then Some (Inl r)
            else if room < length out + length rest then None
            else Some (Inr (out @ rest))
          }
      | _ \<Rightarrow> Some (Inl SIGNALING_CONTROLLER_RESULT_BAD_PARAM))"

text \<open>\<open>strstr\<close> for a backslash and the letter: the characters in front of it and behind it.\<close>

fun split_newline :: "string \<Rightarrow> (string \<times> string) option" where
  "split_newline (c # d # s) =
     (if c = BS \<and> d = CHR ''n'' then Some ([], s) else map_option (\<lambda>(l, r). (c # l, r)) (split_newline (d # s)))"
| "split_newline _ = None"

lemma split_newline_length: "split_newline s = Some (l, r) \<Longrightarrow> length r < length s"
  by (induction s arbitrary: l rule: split_newline.induct) (auto split: if_splits)

definition cut_escape :: "string \<Rightarrow> string" where
  "cut_escape l = (if length l \<ge> 2 \<and> l ! (length l - 2) = BS \<and> l ! (length l - 1) = CHR ''r'' then take (length l - 2) l else l)"

function deserialize_newlines :: "nat \<Rightarrow> string \<Rightarrow> string \<Rightarrow> SignalingControllerResult \<times> string" where
  "deserialize_newlines room out cur =
     (case split_newline cur of
        None \<Rightarrow> (SIGNALING_CONTROLLER_RESULT_OK, out)
      | Some (l, rest) \<Rightarrow>
          (let line = cut_escape l
           in if room < length out + length line + 2 then (SIGNALING_CONTROLLER_RESULT_FAIL, out)
              else deserialize_newlines room (out @ line @ [CR, LF]) rest))"
  by pat_completeness auto

termination
  by (relation "measure (\<lambda>(n, a, s). length s)") (auto dest: split_newline_length)

declare deserialize_newlines.simps [simp del]

text \<open>The message is the memory from its start; it is read up to its terminator, whatever its length is said to be.\<close>

definition SignalingController_DeserializeSdpContentNewline ::
    "string option \<Rightarrow> nat \<Rightarrow> nat option \<Rightarrow> (SignalingControllerResult + string) option" where
  "SignalingController_DeserializeSdpContentNewline pSdpMessage sdpMessageLength pFormal =
     (case (pSdpMessage, pFormal) of
        (Some mem, Some room) \<Rightarrow>
          if sdpMessageLength = 0 then Some (Inl SIGNALING_CONTROLLER_RESULT_BAD_PARAM)
          else if NUL \<notin> set mem then None
          else (let (r, out) = deserialize_newlines room [] (takeWhile (\<lambda>c. c \<noteq> NUL) mem)
                in Some (if r \<noteq> SIGNALING_CONTROLLER_RESULT_OK then Inl r else Inr out))
      | _ \<Rightarrow> Some (Inl SIGNALING_CONTROLLER_RESULT_BAD_PARAM))"

section \<open>Round trip\<close>

definition plain_line :: "string \<Rightarrow> bool" where
  "plain_line l \<longleftrightarrow> set l \<inter> {CR, LF, NUL, BS} = {}"

definition lines_text :: "string list \<Rightarrow> string" where
  "lines_text ls = concat (map (\<lambda>l. l @ [CR, LF]) ls)"

definition lines_escaped :: "string list \<Rightarrow> string" where
  "lines_escaped ls = concat (map (\<lambda>l. l @ escaped_newline) ls)"

lemma cut_line_plain: "plain_line l \<Longrightarrow> takeWhile (\<lambda>c. c \<noteq> LF) (l @ CR # LF # s) = l @ [CR] \<and> cut_line (l @ CR # LF # s) = l"
proof -
  assume "plain_line l"
  then have "takeWhile (\<lambda>c. c \<noteq> LF) (l @ CR # LF # s) = l @ [CR]" by (subst takeWhile_append2) (auto simp: plain_line_def)
  then show ?thesis by (simp add: cut_line_def)
qed

lemma serialize_lines:
  assumes "list_all plain_line ls" "LF \<notin> set tail"
  shows "length out + length (lines_escaped ls) < room
    \<Longrightarrow> serialize_newlines room out (lines_text ls @ tail) = Some (SIGNALING_CONTROLLER_RESULT_OK, out @ lines_escaped ls, tail)"
  using assms(1)
proof (induction ls arbitrary: out)
  case Nil
  then show ?case using assms(2) by (subst serialize_newlines.simps) (simp add: lines_text_def lines_escaped_def)
next
  case (Cons l ls)
  have l: "plain_line l" and len: "length out + length l + 4 < room"
    using Cons.prems by (auto simp: lines_escaped_def escaped_newline_def)
  then have "NUL \<notin> set l" by (auto simp: plain_line_def)
  have step: "serialize_newlines room out (l @ CR # LF # s) = serialize_newlines room (out @ l @ escaped_newline) s" for s
    using cut_line_plain [OF l, of s] len \<open>NUL \<notin> set l\<close> by (subst serialize_newlines.simps) (simp add: Let_def)
  have "serialize_newlines room (out @ l @ escaped_newline) (lines_text ls @ tail)
      = Some (SIGNALING_CONTROLLER_RESULT_OK, (out @ l @ escaped_newline) @ lines_escaped ls, tail)"
    by (rule Cons.IH) (use Cons.prems in \<open>auto simp: lines_escaped_def\<close>)
  with step [of "lines_text ls @ tail"] show ?case by (simp add: lines_text_def lines_escaped_def)
qed

lemma split_newline_none: "BS \<notin> set s \<Longrightarrow> split_newline s = None"
  by (induction s rule: split_newline.induct) auto

lemma split_newline_plain: "BS \<notin> set l \<Longrightarrow> split_newline (l @ escaped_newline @ s) = Some (l @ [BS, CHR ''r''], s)"
proof (induction l)
  case Nil
  then show ?case by (simp add: escaped_newline_def)
next
  case (Cons c l)
  then have "split_newline (c # (l @ escaped_newline @ s)) = map_option (\<lambda>(l, r). (c # l, r)) (split_newline (l @ escaped_newline @ s))"
    by (cases l) (auto simp: escaped_newline_def)
  with Cons show ?case by simp
qed

lemma deserialize_lines_escaped:
  assumes "list_all plain_line ls" "BS \<notin> set tail"
  shows "length out + length (lines_text ls) \<le> room
    \<Longrightarrow> deserialize_newlines room out (lines_escaped ls @ tail) = (SIGNALING_CONTROLLER_RESULT_OK, out @ lines_text ls)"
  using assms(1)
proof (induction ls arbitrary: out)
  case Nil
  then show ?case using split_newline_none [OF assms(2)] by (subst deserialize_newlines.simps) (simp add: lines_text_def lines_escaped_def)
next
  case (Cons l ls)
  have l: "BS \<notin> set l" and len: "length out + length l + 2 \<le> room" using Cons.prems by (auto simp: lines_text_def plain_line_def)
  have step: "deserialize_newlines room out (l @ escaped_newline @ s) = deserialize_newlines room (out @ l @ [CR, LF]) s" for s
    using split_newline_plain [OF l, of s] len by (subst deserialize_newlines.simps) (simp add: cut_escape_def nth_append)
  have "deserialize_newlines room (out @ l @ [CR, LF]) (lines_escaped ls @ tail)
      = (SIGNALING_CONTROLLER_RESULT_OK, (out @ l @ [CR, LF]) @ lines_text ls)"
    by (rule Cons.IH) (use Cons.prems in \<open>auto simp: lines_text_def\<close>)
  with step [of "lines_escaped ls @ tail"] show ?case by (simp add: lines_text_def lines_escaped_def)
qed

text \<open>The line ends of a session description survive the signaling channel.  A message of a head, the lines of a description, each ended
  by carriage return and line feed, and a tail, is serialized whenever there is room for it and one character more; what the
  receiver finds behind the head, up to the terminator, is turned back into exactly these lines, whenever there is room for
  them.  Neither head nor tail has a line feed, and no line, head or tail has a backslash or a terminator.\<close>

theorem sdp_newlines_round_trip:
  assumes "list_all plain_line (l # ls)" "plain_line head" "plain_line tail"
    and "room > length head + length (lines_escaped (l # ls)) + length tail" "n > 0" "room2 \<ge> length (lines_text (l # ls))"
  shows "\<exists>body. SignalingController_SerializeSdpContentNewline (Some (head @ lines_text (l # ls) @ tail)) (Some room) = Some (Inr (head @ body))
    \<and> SignalingController_DeserializeSdpContentNewline (Some (body @ NUL # rest)) n (Some room2) = Some (Inr (lines_text (l # ls)))"
proof -
  have whole: "head @ lines_text (l # ls) @ tail = lines_text ((head @ l) # ls) @ tail"
    "lines_escaped ((head @ l) # ls) = head @ lines_escaped (l # ls)" by (simp_all add: lines_text_def lines_escaped_def)
  have plain: "list_all plain_line ((head @ l) # ls)" "LF \<notin> set tail" "BS \<notin> set tail" "NUL \<notin> set tail"
    using assms(1-3) by (auto simp: plain_line_def)
  have "serialize_newlines room [] (head @ lines_text (l # ls) @ tail) = Some (SIGNALING_CONTROLLER_RESULT_OK, head @ lines_escaped (l # ls), tail)"
    using serialize_lines [OF plain(1,2), of "[]" room] assms(4) unfolding whole by simp
  moreover have "head @ lines_text (l # ls) @ tail \<noteq> []" by (simp add: lines_text_def)
  ultimately have "SignalingController_SerializeSdpContentNewline (Some (head @ lines_text (l # ls) @ tail)) (Some room)
      = Some (Inr (head @ lines_escaped (l # ls) @ tail))"
    using assms(4) by (simp add: SignalingController_SerializeSdpContentNewline_def)
  moreover have "NUL \<notin> set (lines_escaped (l # ls))"
    using assms(1) by (auto simp: lines_escaped_def escaped_newline_def plain_line_def list_all_iff)
  then have "takeWhile (\<lambda>c. c \<noteq> NUL) ((lines_escaped (l # ls) @ tail) @ NUL # rest) = lines_escaped (l # ls) @ tail"
    using plain(4) by (subst takeWhile_append2) auto
  then have "SignalingController_DeserializeSdpContentNewline (Some ((lines_escaped (l # ls) @ tail) @ NUL # rest)) n (Some room2)
      = Some (Inr (lines_text (l # ls)))"
    using deserialize_lines_escaped [OF assms(1) plain(3), of "[]" room2] assms(5,6)
    by (simp add: SignalingController_DeserializeSdpContentNewline_def)
  ultimately show ?thesis by blast
qed

theorem sdp_newlines_round_trip_witness:
  "\<exists>body. SignalingController_SerializeSdpContentNewline (Some ([CHR 0x22] @ lines_text [''v=0'', ''s=-''] @ [CHR 0x22])) (Some 30) = Some (Inr ([CHR 0x22] @ body))
    \<and> SignalingController_DeserializeSdpContentNewline (Some (body @ NUL # [])) 3 (Some 12) = Some (Inr (lines_text [''v=0'', ''s=-'']))"
  by (rule sdp_newlines_round_trip) (simp_all add: plain_line_def lines_text_def lines_escaped_def escaped_newline_def)

end
