(* ===== verification/Base64.thy ===== *)
theory Base64
  imports Rtc_Prelude "HOL-Library.Monad_Syntax"
begin

text \<open>
  \<open>base64/custom/base64_custom.c\<close> and \<open>base64/mbedtls/base64_mbedtls.c\<close>: the two implementations of the
  interface \<open>base64/base64.h\<close>.  A buffer is the list of its bytes; a call gives the result code and, on
  success, the bytes written, whose number is the new value of \<open>*pOutputDataLength\<close>.  NULL is \<open>None\<close>.
  Inputs are shorter than 4 GB, so that the 32-bit loop counters do not wrap.
\<close>

section \<open>Tables\<close>

datatype Base64Result =
    BASE64_RESULT_OK
  | BASE64_RESULT_BAD_PARAMETER
  | BASE64_RESULT_INVALID_INPUT
  | BASE64_RESULT_BUFFER_TOO_SMALL

definition base64EncodePadding :: "nat list" where "base64EncodePadding = [0, 2, 1]"

definition base64DecodePadding :: "nat list" where "base64DecodePadding = [0, 255, 2, 1]"

text \<open>The alphabet is a string literal, so that the array has a terminating NUL.\<close>

definition base64EecodeAlpha :: bytes where
  "base64EecodeAlpha =
     map of_char ''ABCDEFGHIJKLMNOPQRSTUVWXYZabcdefghijklmnopqrstuvwxyz0123456789+/'' @ [0]"

definition base64DecodeAlpha :: bytes where
  "base64DecodeAlpha =
     replicate 43 0 @ [62, 0, 0, 0, 63, 52, 53, 54, 55, 56, 57, 58, 59, 60, 61, 0, 0, 0, 0, 0, 0, 0,
       0, 1, 2, 3, 4, 5, 6, 7, 8, 9, 10, 11, 12, 13, 14, 15, 16, 17, 18, 19, 20, 21, 22, 23, 24, 25,
       0, 0, 0, 0, 0, 0, 26, 27, 28, 29, 30, 31, 32, 33, 34, 35, 36, 37, 38, 39, 40, 41, 42, 43, 44,
       45, 46, 47, 48, 49, 50, 51] @ replicate 133 0"

section \<open>Encoding\<close>

text \<open>Indexing the alphabet with an \<open>int\<close>; outside the array there is no outcome.\<close>

definition alpha_at :: "int \<Rightarrow> u8 option" where
  "alpha_at i = (if 0 \<le> i then mem_read base64EecodeAlpha (nat i) else None)"

text \<open>The loop over the groups of three bytes, which go through variables of type \<open>uint8_t\<close>.  The second
  component is what is left of the input.\<close>

fun encode_loop :: "bytes \<Rightarrow> (bytes \<times> bytes) option" where
  "encode_loop (b0 # b1 # b2 # rest) =
     do {
       c0 \<leftarrow> alpha_at (drop_bit 2 (uint b0));
       c1 \<leftarrow> alpha_at (push_bit 4 (3 AND uint b0) + drop_bit 4 (uint b1));
       c2 \<leftarrow> alpha_at (push_bit 2 (15 AND uint b1) + drop_bit 6 (uint b2));
       c3 \<leftarrow> alpha_at (63 AND uint b2);
       (out, left) \<leftarrow> encode_loop rest;
       Some (c0 # c1 # c2 # c3 # out, left)
     }"
| "encode_loop rest = Some ([], rest)"

text \<open>The rest of the input is read through \<open>const char *\<close>, so that its bytes are signed.\<close>

definition encode_tail :: "nat \<Rightarrow> bytes \<Rightarrow> bytes option" where
  "encode_tail padding inp =
     (if padding = 1 then do {
        p0 \<leftarrow> map_option sint (mem_read inp 0);
        p1 \<leftarrow> map_option sint (mem_read inp 1);
        c0 \<leftarrow> alpha_at (drop_bit 2 p0);
        c1 \<leftarrow> alpha_at (push_bit 4 (3 AND p0) + drop_bit 4 p1);
        c2 \<leftarrow> alpha_at (push_bit 2 (15 AND p1));
        Some [c0, c1, c2, of_char (CHR ''='')]
      }
      else if padding = 2 then do {
        p0 \<leftarrow> map_option sint (mem_read inp 0);
        c0 \<leftarrow> alpha_at (drop_bit 2 p0);
        c1 \<leftarrow> alpha_at (push_bit 4 (3 AND p0));
        Some [c0, c1, of_char (CHR ''=''), of_char (CHR ''='')]
      }
      else Some [])"

definition Base64_Encode :: "bytes option \<Rightarrow> nat option \<Rightarrow> (Base64Result + bytes) option" where
  "Base64_Encode pInputData pOutputDataLength =
     (case (pInputData, pOutputDataLength) of
        (Some inp, Some room) \<Rightarrow>
          (let padding = base64EncodePadding ! (length inp mod 3); outputLength = 4 * (length inp + padding) div 3
           in if outputLength > room then Some (Inl BASE64_RESULT_BUFFER_TOO_SMALL)
              else do {
                (out, left) \<leftarrow> encode_loop inp;
                tail \<leftarrow> encode_tail padding left;
                Some (Inr (take outputLength (out @ tail)))
              })
      | _ \<Rightarrow> Some (Inl BASE64_RESULT_BAD_PARAMETER))"

section \<open>Decoding\<close>

definition decode_at :: "u8 \<Rightarrow> u8" where
  "decode_at c = base64DecodeAlpha ! unat c"

fun decode_loop :: "bytes \<Rightarrow> bytes \<times> bytes" where
  "decode_loop (c0 # c1 # c2 # c3 # rest) =
     (let b0 = decode_at c0; b1 = decode_at c1; b2 = decode_at c2; b3 = decode_at c3; (out, left) = decode_loop rest
      in ((push_bit 2 b0 OR drop_bit 4 b1) # (push_bit 4 b1 OR drop_bit 2 b2) # (push_bit 6 b2 OR b3) # out, left))"
| "decode_loop rest = ([], rest)"

definition decode_tail :: "nat \<Rightarrow> bytes \<Rightarrow> bytes" where
  "decode_tail padding inp =
     (if padding = 1
      then (let b0 = decode_at (inp ! 0); b1 = decode_at (inp ! 1); b2 = decode_at (inp ! 2)
            in [push_bit 2 b0 OR drop_bit 4 b1, push_bit 4 b1 OR drop_bit 2 b2])
      else if padding = 2
      then (let b0 = decode_at (inp ! 0); b1 = decode_at (inp ! 1) in [push_bit 2 b0 OR drop_bit 4 b1])
      else [])"

text \<open>The length of the input without the padding, which is checked twice.\<close>

definition drop_padding :: "bytes \<Rightarrow> bytes" where
  "drop_padding inp =
     (let cut = (\<lambda>xs. if xs \<noteq> [] \<and> last xs = of_char (CHR ''='') then butlast xs else xs) in cut (cut inp))"

definition Base64_Decode :: "bytes option \<Rightarrow> nat option \<Rightarrow> Base64Result + bytes" where
  "Base64_Decode pInputData pOutputDataLength =
     (case (pInputData, pOutputDataLength) of
        (Some inp, Some room) \<Rightarrow>
          if length inp < 2 then Inl BASE64_RESULT_INVALID_INPUT
          else
            (let body = drop_padding inp; padding = base64DecodePadding ! (length body mod 4); outputLength = 3 * length body div 4
             in if padding = 255 then Inl BASE64_RESULT_INVALID_INPUT
                else if room < outputLength then Inl BASE64_RESULT_BUFFER_TOO_SMALL
                else (let (out, left) = decode_loop body in Inr (out @ decode_tail padding left)))
      | _ \<Rightarrow> Inl BASE64_RESULT_BAD_PARAMETER)"

text \<open>\<open>base64.c\<close> has the same two functions under other names, with the same tables.\<close>

definition base64Encode :: "bytes option \<Rightarrow> nat option \<Rightarrow> (Base64Result + bytes) option" where
  "base64Encode = Base64_Encode"

definition base64Decode :: "bytes option \<Rightarrow> nat option \<Rightarrow> Base64Result + bytes" where
  "base64Decode = Base64_Decode"

section \<open>The implementation on mbedTLS\<close>

text \<open>mbedTLS gives an error code or the output; the pointers are not checked.\<close>

definition MBEDTLS_ERR_BASE64_BUFFER_TOO_SMALL :: int where "MBEDTLS_ERR_BASE64_BUFFER_TOO_SMALL = -0x2A"

definition Base64_InterpretReturnValue :: "int \<Rightarrow> Base64Result" where
  "Base64_InterpretReturnValue errorCode =
     (if errorCode = MBEDTLS_ERR_BASE64_BUFFER_TOO_SMALL then BASE64_RESULT_BUFFER_TOO_SMALL else BASE64_RESULT_INVALID_INPUT)"

definition mbedtls_Base64_Encode :: "(nat \<Rightarrow> bytes \<Rightarrow> int + bytes) \<Rightarrow> bytes \<Rightarrow> nat \<Rightarrow> Base64Result + bytes" where
  "mbedtls_Base64_Encode mbedtls_base64_encode inp room =
     (case mbedtls_base64_encode room inp of Inr out \<Rightarrow> Inr out | Inl e \<Rightarrow> Inl (Base64_InterpretReturnValue e))"

definition mbedtls_Base64_Decode :: "(nat \<Rightarrow> bytes \<Rightarrow> int + bytes) \<Rightarrow> bytes \<Rightarrow> nat \<Rightarrow> Base64Result + bytes" where
  "mbedtls_Base64_Decode mbedtls_base64_decode inp room =
     (case mbedtls_base64_decode room inp of Inr out \<Rightarrow> Inr out | Inl e \<Rightarrow> Inl (Base64_InterpretReturnValue e))"

section \<open>Round trip\<close>

lemma table_lengths: "length base64EecodeAlpha = 65" "length base64DecodeAlpha = 256"
  by (simp_all add: base64EecodeAlpha_def base64DecodeAlpha_def)

definition alpha_char :: "nat \<Rightarrow> u8" where "alpha_char i = base64EecodeAlpha ! i"

lemma tables_inverse: "map decode_at (butlast base64EecodeAlpha) = map word_of_nat [0..<64]"
  by (simp add: base64EecodeAlpha_def base64DecodeAlpha_def decode_at_def nth_append upt_rec butlast_append)

lemma tables_pad: "of_char (CHR ''='') \<notin> set (butlast base64EecodeAlpha)"
  by (simp add: base64EecodeAlpha_def butlast_append)

lemma alpha_char_nth: "i < 64 \<Longrightarrow> alpha_char i = butlast base64EecodeAlpha ! i"
  by (simp add: alpha_char_def nth_butlast table_lengths)

lemma decode_alpha: "i < 64 \<Longrightarrow> decode_at (alpha_char i) = word_of_nat i"
  using arg_cong [OF tables_inverse, of "\<lambda>xs. xs ! i"] by (simp add: alpha_char_nth table_lengths)

lemma alpha_not_pad: "i < 64 \<Longrightarrow> alpha_char i \<noteq> of_char (CHR ''='')"
  using tables_pad by (metis alpha_char_nth length_butlast nth_mem table_lengths(1) diff_Suc_1 numeral_eq_Suc pred_numeral_simps)

lemma alpha_at_nat: "i < 64 \<Longrightarrow> alpha_at (int i) = Some (alpha_char i)"
  by (simp add: alpha_at_def alpha_char_def table_lengths)

lemma or_shifted:
  fixes u v :: u8
  assumes "unat v < 2 ^ (k + m)"
  shows "unat (push_bit m u OR drop_bit k v) = unat u * 2 ^ m mod 256 + unat v div 2 ^ k"
proof -
  have small: "unat v div 2 ^ k < 2 ^ m" using assms by (simp add: less_mult_imp_div_less power_add mult.commute)
  have d: "unat (drop_bit k v) = unat v div 2 ^ k" unfolding unat_drop_bit_eq by (rule drop_bit_eq_div)
  have "unat (push_bit m u OR drop_bit k v) = (push_bit m (unat u) mod 256) OR (unat v div 2 ^ k)"
    by (simp add: unsigned_or_eq unsigned_push_bit_eq d take_bit_eq_mod del: drop_bit_eq_div)
  also have "\<dots> = push_bit m (unat u) mod 256 + unat v div 2 ^ k"
  proof (rule disjunctive_add [symmetric])
    fix n
    show "\<not> bit (push_bit m (unat u) mod 256) n \<or> \<not> bit (unat v div 2 ^ k) n"
    proof (cases "n < m")
      case True
      have "\<not> bit (take_bit 8 (push_bit m (unat u))) n" using True by (simp add: bit_take_bit_iff bit_push_bit_iff)
      then show ?thesis by (simp add: take_bit_eq_mod)
    next
      case False
      then have "unat v div 2 ^ k < 2 ^ n" using small by (meson less_le_trans one_le_numeral power_increasing not_less)
      then show ?thesis by (simp add: bit_iff_odd)
    qed
  qed
  finally show ?thesis by (simp add: push_bit_eq_mult)
qed

lemma or_shifted_nat:
  assumes "i < 64" "j < 64" "j < 2 ^ (k + m)"
  shows "unat (push_bit m (word_of_nat i) OR drop_bit k (word_of_nat j) :: u8) = i * 2 ^ m mod 256 + j div 2 ^ k"
  using or_shifted [of "word_of_nat j" k m "word_of_nat i"] assms by (simp add: unat_of_nat)

text \<open>The four indices of three bytes, as numbers, and the three bytes back from them.\<close>

lemma indices_int:
  "drop_bit 2 (uint b0) = int (unat b0 div 4)"
  "push_bit 4 (3 AND uint b0) + drop_bit 4 (uint b1) = int (16 * (unat b0 mod 4) + unat b1 div 16)"
  "push_bit 2 (15 AND uint b1) + drop_bit 6 (uint b2) = int (4 * (unat b1 mod 16) + unat b2 div 64)"
  "63 AND uint b2 = int (unat b2 mod 64)"
  "push_bit 4 (3 AND uint b0) = int (16 * (unat b0 mod 4))"
  "push_bit 2 (15 AND uint b1) = int (4 * (unat b1 mod 16))"
  for b0 b1 b2 :: u8
proof -
  have m: "3 AND x = x mod 4" "15 AND x = x mod 16" "63 AND x = x mod 64" for x :: int
    using take_bit_eq_mod [of 2 x] take_bit_eq_mod [of 4 x] take_bit_eq_mod [of 6 x]
    by (simp_all add: take_bit_eq_mask mask_eq_exp_minus_1 and.commute)
  have u: "uint b = int (unat b)" for b :: u8 by simp
  show "drop_bit 2 (uint b0) = int (unat b0 div 4)"
  "push_bit 4 (3 AND uint b0) + drop_bit 4 (uint b1) = int (16 * (unat b0 mod 4) + unat b1 div 16)"
  "push_bit 2 (15 AND uint b1) + drop_bit 6 (uint b2) = int (4 * (unat b1 mod 16) + unat b2 div 64)"
  "63 AND uint b2 = int (unat b2 mod 64)"
  "push_bit 4 (3 AND uint b0) = int (16 * (unat b0 mod 4))"
  "push_bit 2 (15 AND uint b1) = int (4 * (unat b1 mod 16))"
    unfolding m u by (simp_all add: drop_bit_eq_div push_bit_eq_mult zdiv_int zmod_int)
qed

lemma index_bounds:
  "unat b0 div 4 < 64" "16 * (unat b0 mod 4) + unat b1 div 16 < 64" "4 * (unat b1 mod 16) + unat b2 div 64 < 64" "unat b2 mod 64 < 64"
  "16 * (unat b0 mod 4) < 64" "4 * (unat b1 mod 16) < 64"
  for b0 b1 b2 :: u8
  using u8_less [of b0] u8_less [of b1] u8_less [of b2] by auto

lemma bytes_back:
  fixes b0 b1 b2 :: u8
  shows "y < 16 \<Longrightarrow> push_bit 2 (word_of_nat (unat b0 div 4)) OR drop_bit 4 (word_of_nat (16 * (unat b0 mod 4) + y)) = b0"
    "z < 4 \<Longrightarrow> push_bit 4 (word_of_nat (16 * (unat b0 mod 4) + unat b1 div 16)) OR drop_bit 2 (word_of_nat (4 * (unat b1 mod 16) + z)) = b1"
    "push_bit 6 (word_of_nat (4 * (unat b1 mod 16) + unat b2 div 64)) OR word_of_nat (unat b2 mod 64) = b2"
proof -
  note bounds = u8_less [of b0] u8_less [of b1] u8_less [of b2]
  have "unat (push_bit 2 (word_of_nat (unat b0 div 4)) OR drop_bit 4 (word_of_nat (16 * (unat b0 mod 4) + y)) :: u8) = unat b0" if "y < 16"
    by (subst or_shifted_nat) (use that bounds in auto)
  then show "push_bit 2 (word_of_nat (unat b0 div 4)) OR drop_bit 4 (word_of_nat (16 * (unat b0 mod 4) + y)) = b0" if "y < 16"
    using that by (simp only: word_unat_eq_iff)
  have "unat (push_bit 4 (word_of_nat (16 * (unat b0 mod 4) + unat b1 div 16)) OR drop_bit 2 (word_of_nat (4 * (unat b1 mod 16) + z)) :: u8) = unat b1" if "z < 4"
    by (subst or_shifted_nat) (use that bounds in auto)
  then show "push_bit 4 (word_of_nat (16 * (unat b0 mod 4) + unat b1 div 16)) OR drop_bit 2 (word_of_nat (4 * (unat b1 mod 16) + z)) = b1" if "z < 4"
    using that by (simp only: word_unat_eq_iff)
  have "unat (push_bit 6 (word_of_nat (4 * (unat b1 mod 16) + unat b2 div 64)) OR drop_bit 0 (word_of_nat (unat b2 mod 64)) :: u8) = unat b2"
    by (subst or_shifted_nat) (use bounds in auto)
  then show "push_bit 6 (word_of_nat (4 * (unat b1 mod 16) + unat b2 div 64)) OR word_of_nat (unat b2 mod 64) = b2"
    by (simp only: drop_bit_0 id_apply word_unat_eq_iff)
qed

lemma triple_induct [case_names short triple]:
  assumes "\<And>xs. length xs < 3 \<Longrightarrow> P xs" and "\<And>x y z xs. P xs \<Longrightarrow> P (x # y # z # xs)"
  shows "P xs"
proof (induction xs rule: length_induct)
  case (1 xs)
  show ?case
  proof (cases "length xs < 3")
    case False
    then obtain x y z ys where "xs = x # y # z # ys" by (cases xs; cases "tl xs"; cases "tl (tl xs)") auto
    with 1 assms(2) show ?thesis by simp
  qed (rule assms(1))
qed

lemma triple_take_drop:
  "drop (3 * Suc n) (a # b # c # xs) = drop (3 * n) xs" "take (3 * Suc n) (a # b # c # xs) = a # b # c # take (3 * n) xs"
  by (simp_all add: numeral_3_eq_3)

lemma encode_loop_run:
  "\<exists>out. encode_loop inp = Some (out, drop (3 * (length inp div 3)) inp) \<and> length out = 4 * (length inp div 3)
    \<and> of_char (CHR ''='') \<notin> set out
    \<and> (\<forall>t. decode_loop (out @ t) = (take (3 * (length inp div 3)) inp @ fst (decode_loop t), snd (decode_loop t)))"
proof (induction inp rule: triple_induct)
  case (triple b0 b1 b2 rest)
  then obtain out where out: "encode_loop rest = Some (out, drop (3 * (length rest div 3)) rest)" "length out = 4 * (length rest div 3)"
    "of_char (CHR ''='') \<notin> set out"
    "\<And>t. decode_loop (out @ t) = (take (3 * (length rest div 3)) rest @ fst (decode_loop t), snd (decode_loop t))" by auto
  note ix = index_bounds
  have n: "length (b0 # b1 # b2 # rest) div 3 = Suc (length rest div 3)" by simp
  let ?q = "[alpha_char (unat b0 div 4), alpha_char (16 * (unat b0 mod 4) + unat b1 div 16),
     alpha_char (4 * (unat b1 mod 16) + unat b2 div 64), alpha_char (unat b2 mod 64)]"
  have "encode_loop (b0 # b1 # b2 # rest) = Some (?q @ out, drop (3 * (length rest div 3)) rest)"
    using out(1) by (simp only: encode_loop.simps indices_int(1-4) ix alpha_at_nat) simp
  moreover have "of_char (CHR ''='') \<notin> set (?q @ out)" using out(3) ix alpha_not_pad by (auto simp del: of_char_of)
  moreover have "decode_loop ((?q @ out) @ t) = (b0 # b1 # b2 # take (3 * (length rest div 3)) rest @ fst (decode_loop t), snd (decode_loop t))" for t
  proof -
    have "unat b1 div 16 < 16" "unat b2 div 64 < 4" using u8_less [of b1] u8_less [of b2] by auto
    then show ?thesis using out(4) [of t] by (simp add: Let_def decode_alpha ix bytes_back del: of_nat_add of_nat_mult)
  qed
  ultimately show ?case unfolding n triple_take_drop using out(2)
    by (intro exI [of _ "?q @ out"] conjI allI) (simp_all only: append_Cons length_append, simp_all)
next
  case (short xs)
  then show ?case by (cases xs; cases "tl xs"; cases "tl (tl xs)") auto
qed

text \<open>The rest of the input, where its bytes are ASCII.\<close>

lemma sint_ascii: "(b :: u8) < 128 \<Longrightarrow> sint b = uint b"
  by (simp add: sint_uint signed_take_bit_eq_if_positive bit_iff_odd word_less_alt take_bit_int_eq_self)

lemma ascii_index:
  "b0 < 128 \<Longrightarrow> alpha_at (drop_bit 2 (sint b0)) = Some (alpha_char (unat b0 div 4))"
  "b0 < 128 \<Longrightarrow> alpha_at (push_bit 4 (3 AND sint b0)) = Some (alpha_char (16 * (unat b0 mod 4)))"
  "b0 < 128 \<Longrightarrow> b1 < 128 \<Longrightarrow>
     alpha_at (push_bit 4 (3 AND sint b0) + drop_bit 4 (sint b1)) = Some (alpha_char (16 * (unat b0 mod 4) + unat b1 div 16))"
  "b1 < 128 \<Longrightarrow> alpha_at (push_bit 2 (15 AND sint b1)) = Some (alpha_char (4 * (unat b1 mod 16)))"
  for b0 b1 :: u8
  by (simp_all only: sint_ascii indices_int(2)) (simp_all only: indices_int alpha_at_nat index_bounds)

lemma encode_tail_run:
  assumes "length xs < 3" and "\<forall>b \<in> set xs. b < 128"
  shows "\<exists>out. encode_tail (base64EncodePadding ! length xs) xs = Some (out @ replicate (base64EncodePadding ! length xs) (of_char (CHR ''=''))) \<and>
    of_char (CHR ''='') \<notin> set out \<and> length out mod 4 = (if xs = [] then 0 else Suc (length xs)) \<and> length out < 4 \<and>
    decode_tail (base64DecodePadding ! (length out mod 4)) out = xs"
proof -
  consider "xs = []" | b0 where "xs = [b0]" | b0 b1 where "xs = [b0, b1]"
    using assms(1) by (cases xs; cases "tl xs"; cases "tl (tl xs)") auto
  then show ?thesis
  proof cases
    case 1
    then show ?thesis by (simp add: encode_tail_def base64EncodePadding_def base64DecodePadding_def decode_tail_def)
  next
    case (2 b0)
    let ?q = "[alpha_char (unat b0 div 4), alpha_char (16 * (unat b0 mod 4))]"
    from 2 assms(2) have "encode_tail 2 xs = Some (?q @ [of_char (CHR ''=''), of_char (CHR ''='')])"
      by (simp add: encode_tail_def ascii_index [simplified])
    moreover have "decode_tail 2 ?q = [b0]"
      using bytes_back(1) [of 0 b0] by (simp add: decode_tail_def decode_alpha index_bounds del: of_nat_mult)
    ultimately show ?thesis using 2 alpha_not_pad index_bounds
      by (intro exI [of _ ?q]) (auto simp: base64EncodePadding_def base64DecodePadding_def numeral_2_eq_2)
  next
    case (3 b0 b1)
    let ?q = "[alpha_char (unat b0 div 4), alpha_char (16 * (unat b0 mod 4) + unat b1 div 16), alpha_char (4 * (unat b1 mod 16))]"
    from 3 assms(2) have "encode_tail 1 xs = Some (?q @ [of_char (CHR ''='')])"
      by (simp add: encode_tail_def ascii_index [simplified])
    moreover have "decode_tail 1 ?q = [b0, b1]"
      using bytes_back(1) [of "unat b1 div 16" b0] bytes_back(2) [of 0 b0 b1] u8_less [of b1]
      by (simp add: decode_tail_def decode_alpha index_bounds del: of_nat_mult of_nat_add)
    ultimately show ?thesis using 3 alpha_not_pad index_bounds
      by (intro exI [of _ ?q]) (auto simp: base64EncodePadding_def base64DecodePadding_def numeral_2_eq_2)
  qed
qed

lemma drop_padding_out:
  assumes "of_char (CHR ''='') \<notin> set out" and "k \<le> 2"
  shows "drop_padding (out @ replicate k (of_char (CHR ''=''))) = out"
proof -
  have "out \<noteq> [] \<Longrightarrow> last out \<noteq> of_char (CHR ''='')" using assms(1) last_in_set by metis
  moreover have "k = 0 \<or> k = 1 \<or> k = 2" using assms(2) by auto
  ultimately show ?thesis by (auto simp: drop_padding_def Let_def numeral_2_eq_2 butlast_append)
qed

lemma mod_3_bound: "base64EncodePadding ! (n mod 3) \<le> 2"
proof -
  have "n mod 3 = 0 \<or> n mod 3 = 1 \<or> n mod 3 = 2" by auto
  then show ?thesis by (auto simp: base64EncodePadding_def numeral_2_eq_2)
qed

section \<open>Properties\<close>

text \<open>Encoding and decoding agree: every input that is not empty, and whose one or two bytes behind the last full
  group of three are ASCII, is encoded whenever the output buffer has room for it, and decoding the output gives the
  input back whenever there is room for that.\<close>

theorem base64_round_trip:
  assumes "inp \<noteq> []" and "\<forall>b \<in> set (drop (3 * (length inp div 3)) inp). b < 128"
    and "room \<ge> 4 * ((length inp + 2) div 3)" and "room2 \<ge> length inp"
  shows "\<exists>out. Base64_Encode (Some inp) (Some room) = Some (Inr out) \<and> length out = 4 * ((length inp + 2) div 3)
    \<and> Base64_Decode (Some out) (Some room2) = Inr inp"
proof -
  define q r xs where "q = length inp div 3" and "r = length inp mod 3" and "xs = drop (3 * q) inp"
  have n: "length inp = 3 * q + r" "r < 3" by (simp_all add: q_def r_def)
  have xs: "length xs = r" "take (3 * q) inp @ xs = inp" using n by (simp_all add: xs_def)
  let ?p = "base64EncodePadding ! r" and ?eq = "of_char (CHR ''='') :: u8"
  obtain o1 where o1: "encode_loop inp = Some (o1, xs)" "length o1 = 4 * q" "?eq \<notin> set o1"
    "\<And>t. decode_loop (o1 @ t) = (take (3 * q) inp @ fst (decode_loop t), snd (decode_loop t))"
    using encode_loop_run [of inp] unfolding q_def xs_def by blast
  obtain o2 where o2: "encode_tail ?p xs = Some (o2 @ replicate ?p ?eq)" "?eq \<notin> set o2" "length o2 = (if r = 0 then 0 else Suc r)"
    "decode_tail (base64DecodePadding ! length o2) o2 = xs"
    using encode_tail_run [of xs] assms(2) n xs(1) unfolding q_def [symmetric] xs_def [symmetric] by (auto split: if_splits)
  have r: "r = 0 \<or> r = 1 \<or> r = 2" using n(2) by auto
  have p: "?p = (if r = 0 then 0 else 3 - r)" using r by (elim disjE) (simp_all add: base64EncodePadding_def)
  have len: "4 * (length inp + ?p) div 3 = 4 * ((length inp + 2) div 3)" "4 * ((length inp + 2) div 3) = length o1 + length o2 + ?p"
    unfolding p n(1) o1(2) o2(3) using r by (elim disjE; simp)+
  let ?out = "o1 @ o2 @ replicate ?p ?eq"
  have l: "(4 * length inp + 4 * ?p) div 3 = length o1 + length o2 + ?p" using len by (simp add: distrib_left)
  have enc: "Base64_Encode (Some inp) (Some room) = Some (Inr ?out)"
    using assms(3) [unfolded len(2)] by (simp add: Base64_Encode_def Let_def r_def [symmetric] o1(1) o2(1) l)
  have "drop_padding ?out = o1 @ o2"
    using drop_padding_out [of "o1 @ o2" ?p] o1(3) o2(2) mod_3_bound [of "length inp"] by (simp add: r_def)
  moreover have "2 \<le> length ?out" using assms(1) n by (cases "q = 0") (auto simp: p o1(2) o2(3))
  moreover have "length (o1 @ o2) mod 4 = length o2" using n(2) o2(3) by (simp add: o1(2) split: if_splits)
  moreover have "base64DecodePadding ! length o2 \<noteq> 255" using r by (elim disjE) (simp_all add: o2(3) base64DecodePadding_def)
  moreover have "3 * length (o1 @ o2) div 4 = length inp"
  proof -
    have "3 * length (o1 @ o2) div 4 = 3 * q + 3 * length o2 div 4" by (simp add: o1(2))
    also have "3 * length o2 div 4 = r" using r by (elim disjE) (simp_all add: o2(3))
    finally show ?thesis by (simp add: n(1))
  qed
  moreover have "decode_loop o2 = ([], o2)" using o2(3) n(2)
    by (cases o2; cases "tl o2"; cases "tl (tl o2)"; cases "tl (tl (tl o2))") (auto split: if_splits)
  ultimately have "Base64_Decode (Some ?out) (Some room2) = Inr inp"
    using assms(4) o1(4) [of o2] o2(4) xs(2) by (simp add: Base64_Decode_def Let_def)
  with enc len show ?thesis by auto
qed

definition demo_text :: bytes where
  "demo_text = map of_char ''Hello''"

theorem base64_round_trip_witness:
  "Base64_Encode (Some demo_text) (Some 8) = Some (Inr (map of_char ''SGVsbG8='')) \<and> Base64_Decode (Some (map of_char ''SGVsbG8='')) (Some 5) = Inr demo_text"
proof -
  have e: "Base64_Encode (Some demo_text) (Some 8) = Some (Inr (map of_char ''SGVsbG8=''))" by code_simp
  have "\<forall>b \<in> set (drop (3 * (length demo_text div 3)) demo_text). b < 128" "demo_text \<noteq> []" "length demo_text = 5"
    by (simp_all add: demo_text_def)
  with base64_round_trip [of demo_text 8 5] e show ?thesis by simp
qed

text \<open>Behind the last group of three the input bytes are taken as signed characters: a byte of 0x80 or more in the
  first place of the rest has no outcome (the alphabet is read in front of its start), and one in the second
  place can give a wrong character, from which decoding restores another byte.\<close>

lemma base64_tail_signed:
  "(\<forall>b. b \<ge> 128 \<longrightarrow> Base64_Encode (Some [b]) (Some 4) = None)
    \<and> (\<exists>out. Base64_Encode (Some [3, 0x80]) (Some 4) = Some (Inr out) \<and> Base64_Decode (Some out) (Some 2) = Inr [2, 0x80])"
proof -
  have neg: "sint b < 0" if "b \<ge> 128" for b :: u8
  proof -
    have "uint b div 128 = 1" using that unsigned_less [of b, where 'a = int] by (simp add: word_le_def)
    then show ?thesis by (simp add: sint_uint bit_iff_odd)
  qed
  have "Base64_Encode (Some [b]) (Some 4) = None" if "b \<ge> 128" for b
    using neg [OF that] by (simp add: Base64_Encode_def base64EncodePadding_def encode_tail_def alpha_at_def drop_bit_negative_int_iff numeral_2_eq_2)
  moreover have "Base64_Encode (Some [3, 0x80]) (Some 4) = Some (Inr (map of_char ''AoA=''))" by code_simp
  moreover have "Base64_Decode (Some (map of_char ''AoA='')) (Some 2) = Inr [2, 0x80]" by code_simp
  ultimately show ?thesis by blast
qed

end
