(* ===== verification/Signaling.thy ===== *)
theory Signaling
  imports Http_Client Sdp_Newline Base64
begin

text \<open>
  \<open>signaling_controller/signaling_controller.c\<close>: credentials, the requests to the signaling service, the configurations of the ICE servers, the
  connection over a websocket, and messages in both directions.  The signaling library, which writes requests and reads responses, the
  JSON library and the outside world (record \<open>signaling_os\<close>, threaded as a state \<open>'s\<close>) are parameters.

  A text in a character array with its length is a string.  A copy that does not fit into its array has no outcome.
\<close>

section \<open>Data\<close>

definition SIGNALING_CONTROLLER_FETCH_CREDS_GRACE_PERIOD_SEC :: u64 where "SIGNALING_CONTROLLER_FETCH_CREDS_GRACE_PERIOD_SEC = 30"
definition SIGNALING_CONTROLLER_HTTP_URL_BUFFER_LENGTH :: nat where "SIGNALING_CONTROLLER_HTTP_URL_BUFFER_LENGTH = 1024"
definition SIGNALING_CONTROLLER_HTTP_BODY_BUFFER_LENGTH :: nat where "SIGNALING_CONTROLLER_HTTP_BODY_BUFFER_LENGTH = 10 * 1024"
definition SIGNALING_CONTROLLER_HTTP_RESPONSE_BUFFER_LENGTH :: nat where "SIGNALING_CONTROLLER_HTTP_RESPONSE_BUFFER_LENGTH = 10 * 1024"
definition SIGNALING_CONTROLLER_MESSAGE_BUFFER_LENGTH :: nat where "SIGNALING_CONTROLLER_MESSAGE_BUFFER_LENGTH = 10 * 1024"
definition SIGNALING_CONTROLLER_HTTP_NUM_RETRIES :: nat where "SIGNALING_CONTROLLER_HTTP_NUM_RETRIES = 5"
definition SIGNALING_CONTROLLER_ARN_BUFFER_LENGTH :: nat where "SIGNALING_CONTROLLER_ARN_BUFFER_LENGTH = 128"
definition SIGNALING_CONTROLLER_ENDPOINT_BUFFER_LENGTH :: nat where "SIGNALING_CONTROLLER_ENDPOINT_BUFFER_LENGTH = 128"
definition SIGNALING_CONTROLLER_ICE_SERVER_MAX_URIS_COUNT :: nat where "SIGNALING_CONTROLLER_ICE_SERVER_MAX_URIS_COUNT = 3"
definition SIGNALING_CONTROLLER_ICE_SERVER_URI_BUFFER_LENGTH :: nat where "SIGNALING_CONTROLLER_ICE_SERVER_URI_BUFFER_LENGTH = 256"
definition SIGNALING_CONTROLLER_ICE_SERVER_USER_NAME_BUFFER_LENGTH :: nat where "SIGNALING_CONTROLLER_ICE_SERVER_USER_NAME_BUFFER_LENGTH = 256"
definition SIGNALING_CONTROLLER_ICE_SERVER_PASSWORD_BUFFER_LENGTH :: nat where "SIGNALING_CONTROLLER_ICE_SERVER_PASSWORD_BUFFER_LENGTH = 256"
definition SIGNALING_CONTROLLER_ICE_SERVER_MAX_CONFIG_COUNT :: nat where "SIGNALING_CONTROLLER_ICE_SERVER_MAX_CONFIG_COUNT = 5"
definition SIGNALING_CONTROLLER_ICE_CONFIG_REFRESH_GRACE_PERIOD_SEC :: u32 where "SIGNALING_CONTROLLER_ICE_CONFIG_REFRESH_GRACE_PERIOD_SEC = 30"

datatype SignalingControllerConnectionState =
    SIGNALING_CONTROLLER_STATE_NONE
  | SIGNALING_CONTROLLER_STATE_INITED
  | SIGNALING_CONTROLLER_STATE_DISCONNECTED
  | SIGNALING_CONTROLLER_STATE_CONNECTED

datatype SignalingRole = SIGNALING_ROLE_MASTER | SIGNALING_ROLE_VIEWER

datatype SignalingTypeMessage =
    SIGNALING_TYPE_MESSAGE_SDP_OFFER
  | SIGNALING_TYPE_MESSAGE_SDP_ANSWER
  | SIGNALING_TYPE_MESSAGE_ICE_CANDIDATE
  | SIGNALING_TYPE_MESSAGE_GO_AWAY
  | SIGNALING_TYPE_MESSAGE_RECONNECT_ICE_SERVER
  | SIGNALING_TYPE_MESSAGE_STATUS_RESPONSE
  | SIGNALING_TYPE_MESSAGE_UNKNOWN

record SignalingMessage =
  pRemoteClientId :: string
  messageType :: SignalingTypeMessage
  pMessage :: "bytes option"
  pCorrelationId :: string

record AwsIotCredentials =
  pThingName :: string
  pRoleAlias :: string
  pIotCredentialsEndpoint :: string

record SignalingControllerConnectInfo =
  awsCreds :: AwsCredentials
  infoAwsConfig :: AwsConfig
  awsIotCreds :: AwsIotCredentials
  channelName :: string
  infoUserAgentName :: string
  infoMessageReceivedCallback :: bool
  infoRole :: SignalingRole
  enableStorageSession :: bool
  infoClientId :: string

text \<open>The configuration of an ICE server as it is stored: three URI buffers, each as its text and the rest of the buffer.\<close>

record StoredIceServerConfig =
  ttlSeconds :: u32
  storedUris :: "(string \<times> string) list"
  iceServerUriCount :: nat
  storedUserName :: string
  storedPassword :: string

text \<open>The field \<open>announced\<close> lists the states that the callback has been called with.\<close>

record SignalingControllerContext =
  connectionState :: SignalingControllerConnectionState
  accessKeyId :: string
  secretAccessKey :: string
  sessionToken :: string
  expirationSeconds :: u64
  signalingChannelArn :: string
  wssEndpoint :: string
  httpsEndpoint :: string
  webrtcEndpoint :: string
  iceServerConfigExpirationSec :: u64
  iceServerConfigsCount :: nat
  iceServerConfigs :: "StoredIceServerConfig list"
  pUserAgentName :: string
  pClientId :: string
  ctxRole :: SignalingRole
  awsConfig :: AwsConfig
  messageReceivedCallback :: bool
  connectionStateCallback :: bool
  signalingRxMessageBuffer :: bytes
  announced :: "SignalingControllerConnectionState list"
  httpContext :: NetworkingHttpContext
  websocketContext :: NetworkingWebsocketContext

section \<open>The library and the outside world\<close>

record SignalingCredential =
  sigAccessKeyId :: "string option"
  sigSecretAccessKey :: "string option"
  sigSessionToken :: "string option"
  sigExpiration :: "string option"

record SignalingChannelInfo =
  pChannelStatus :: "string option"
  pChannelArn :: "string option"

record SignalingChannelEndpoints =
  endpointWss :: "string option"
  endpointHttps :: "string option"
  endpointWebrtc :: "string option"

record SignalingIceServer =
  serverUserName :: string
  serverPassword :: string
  messageTtlSeconds :: u32
  serverUris :: "string list"

record WssSendMessage =
  sendType :: SignalingTypeMessage
  sendPayload :: bytes
  sendCorrelationId :: string
  sendRecipient :: string

record WssRecvMessage =
  recvType :: SignalingTypeMessage
  recvPayload :: bytes
  recvSender :: string
  recvCorrelationId :: string

text \<open>The functions that construct a request get the room for URL and body; the limits are those of the arrays for credentials.\<close>

record signaling_lib =
  ACCESS_KEY_MAX_LEN :: nat
  SECRET_ACCESS_KEY_MAX_LEN :: nat
  SESSION_TOKEN_MAX_LEN :: nat
  Signaling_ConstructFetchTempCredsRequestForAwsIot :: "string \<Rightarrow> string \<Rightarrow> nat \<Rightarrow> string option"
  Signaling_ParseFetchTempCredsResponseFromAwsIot :: "string \<Rightarrow> SignalingCredential option"
  Signaling_ConstructDescribeSignalingChannelRequest :: "string \<Rightarrow> string \<Rightarrow> nat \<Rightarrow> nat \<Rightarrow> (string \<times> string) option"
  Signaling_ParseDescribeSignalingChannelResponse :: "string \<Rightarrow> SignalingChannelInfo option"
  Signaling_ConstructGetSignalingChannelEndpointRequest :: "string \<Rightarrow> string \<Rightarrow> bool \<Rightarrow> SignalingRole \<Rightarrow> nat \<Rightarrow> nat \<Rightarrow> (string \<times> string) option"
  Signaling_ParseGetSignalingChannelEndpointResponse :: "string \<Rightarrow> SignalingChannelEndpoints option"
  Signaling_ConstructJoinStorageSessionRequest :: "string \<Rightarrow> string \<Rightarrow> SignalingRole \<Rightarrow> nat \<Rightarrow> nat \<Rightarrow> (string \<times> string) option"
  Signaling_ConstructGetIceServerConfigRequest :: "string \<Rightarrow> string \<Rightarrow> string \<Rightarrow> nat \<Rightarrow> nat \<Rightarrow> (string \<times> string) option"
  Signaling_ParseGetIceServerConfigResponse :: "string \<Rightarrow> nat \<Rightarrow> SignalingIceServer list option"
  Signaling_ConstructConnectWssEndpointRequest :: "string \<Rightarrow> string \<Rightarrow> SignalingRole \<Rightarrow> string \<Rightarrow> nat \<Rightarrow> nat \<Rightarrow> (string \<times> string) option"
  Signaling_ConstructWssMessage :: "WssSendMessage \<Rightarrow> nat \<Rightarrow> bytes option"
  Signaling_ParseWssRecvMessage :: "bytes \<Rightarrow> WssRecvMessage option"

text \<open>The outside world: what an HTTP request, a websocket connection and a call of \<open>lws_service\<close> meet next, the clock, and
  \<open>sscanf\<close> with \<open>timegm\<close> for a date.\<close>

record 's signaling_os =
  nextHttp :: "'s \<Rightarrow> http_world \<times> 's"
  nextWs :: "'s \<Rightarrow> ws_world \<times> 's"
  nextService :: "'s \<Rightarrow> (NetworkingWebsocketContext \<Rightarrow> NetworkingWebsocketContext) \<times> 's"
  currentTimeSec :: "'s \<Rightarrow> u64 \<times> 's"
  timegm_of :: "string \<Rightarrow> int"

type_synonym 's signaling_result = "(SignalingControllerResult \<times> SignalingControllerContext \<times> 's) option"

section \<open>Requests\<close>

definition NetworkingUtils_GetTimeFromIso8601 :: "(string \<Rightarrow> int) \<Rightarrow> string \<Rightarrow> u64" where
  "NetworkingUtils_GetTimeFromIso8601 timegm date =
     (if length date = 20 then (let t = timegm date in if t \<noteq> -1 then of_int t else 0) else 0)"

definition OnConnectionStateChange :: "SignalingControllerConnectionState \<Rightarrow> SignalingControllerContext \<Rightarrow> SignalingControllerContext" where
  "OnConnectionStateChange newState c =
     (if connectionStateCallback c \<and> connectionState c \<noteq> newState
      then c\<lparr>connectionState := newState, announced := announced c @ [newState]\<rparr> else c)"

definition stored_credentials :: "SignalingControllerContext \<Rightarrow> AwsCredentials" where
  "stored_credentials c = \<lparr>AwsCredentials.pAccessKeyId = accessKeyId c, pSecretAccessKey = secretAccessKey c, pSessionToken = Some (sessionToken c),
     credExpirationSeconds = expirationSeconds c\<rparr>"

text \<open>At most five attempts.  The response is the same buffer for all of them.\<close>

fun http_tries ::
    "nat \<Rightarrow> 's signaling_os \<Rightarrow> HttpRequest \<Rightarrow> AwsCredentials \<Rightarrow> AwsConfig \<Rightarrow> NetworkingHttpContext \<Rightarrow> HttpResponse \<Rightarrow> 's
      \<Rightarrow> (NetworkingResult \<times> NetworkingHttpContext \<times> HttpResponse \<times> 's) option" where
  "http_tries 0 os req creds cfg h resp s = None"
| "http_tries (Suc n) os req creds cfg h resp s =
     (let (w, s1) = nextHttp os s
      in do {
        (r, h', acts, resp') \<leftarrow> Networking_HttpSend w (Some h) (Some req) (Some creds) cfg (Some resp);
        if r = NETWORKING_RESULT_OK \<or> n = 0 then Some (r, the h', the resp', s1)
        else http_tries n os req creds cfg (the h') (the resp') s1
      })"

definition fresh_response :: HttpResponse where
  "fresh_response = \<lparr>pContent = [], contentMaxCapacity = SIGNALING_CONTROLLER_HTTP_RESPONSE_BUFFER_LENGTH\<rparr>"

definition HttpSend ::
    "'s signaling_os \<Rightarrow> SignalingControllerContext \<Rightarrow> HttpRequest \<Rightarrow> 's
      \<Rightarrow> (SignalingControllerResult \<times> SignalingControllerContext \<times> string \<times> 's) option" where
  "HttpSend os c req s =
     do {
       (r, h, resp, s1) \<leftarrow> http_tries SIGNALING_CONTROLLER_HTTP_NUM_RETRIES os (req\<lparr>pUserAgent := pUserAgentName c\<rparr>) (stored_credentials c) (awsConfig c)
         (httpContext c) fresh_response s;
       Some (if r = NETWORKING_RESULT_OK then SIGNALING_CONTROLLER_RESULT_OK else SIGNALING_CONTROLLER_RESULT_FAIL, c\<lparr>httpContext := h\<rparr>, pContent resp, s1)
     }"

definition post_request :: "string \<times> string \<Rightarrow> HttpRequest" where
  "post_request ub = \<lparr>verb = HTTP_POST, pUrl = fst ub, pHeaders = [], pUserAgent = [], pBody = Some (snd ub)\<rparr>"

text \<open>A POST request that the library has constructed, or its error.\<close>

definition post_signaling ::
    "'s signaling_os \<Rightarrow> (string \<times> string) option \<Rightarrow> SignalingControllerContext \<Rightarrow> 's
      \<Rightarrow> (SignalingControllerResult \<times> SignalingControllerContext \<times> string \<times> 's) option" where
  "post_signaling os constructed c s =
     (case constructed of
        None \<Rightarrow> Some (SIGNALING_CONTROLLER_RESULT_FAIL, c, [], s)
      | Some ub \<Rightarrow> HttpSend os c (post_request ub) s)"

text \<open>A copy with its terminator into an array of one character more than \<open>limit\<close>; a text that is absent is not copied.\<close>

definition copy_text :: "nat \<Rightarrow> string option \<Rightarrow> string \<Rightarrow> string option" where
  "copy_text limit src old = (case src of None \<Rightarrow> Some old | Some t \<Rightarrow> if length t \<le> limit then Some t else None)"

definition store_credentials :: "signaling_lib \<Rightarrow> (string \<Rightarrow> int) \<Rightarrow> SignalingCredential \<Rightarrow> SignalingControllerContext \<Rightarrow> SignalingControllerContext option" where
  "store_credentials lib timegm cr c =
     do {
       k \<leftarrow> copy_text (ACCESS_KEY_MAX_LEN lib) (sigAccessKeyId cr) (accessKeyId c);
       sk \<leftarrow> copy_text (SECRET_ACCESS_KEY_MAX_LEN lib) (sigSecretAccessKey cr) (secretAccessKey c);
       t \<leftarrow> copy_text (SESSION_TOKEN_MAX_LEN lib) (sigSessionToken cr) (sessionToken c);
       Some (c\<lparr>accessKeyId := k, secretAccessKey := sk, sessionToken := t,
         expirationSeconds := (case sigExpiration cr of None \<Rightarrow> expirationSeconds c | Some d \<Rightarrow> NetworkingUtils_GetTimeFromIso8601 timegm d)\<rparr>)
     }"

text \<open>One attempt, without credentials.\<close>

definition FetchTemporaryCredentials :: "signaling_lib \<Rightarrow> 's signaling_os \<Rightarrow> AwsIotCredentials \<Rightarrow> SignalingControllerContext \<Rightarrow> 's \<Rightarrow> 's signaling_result" where
  "FetchTemporaryCredentials lib os iot c s =
     (case Signaling_ConstructFetchTempCredsRequestForAwsIot lib (pIotCredentialsEndpoint iot) (pRoleAlias iot) SIGNALING_CONTROLLER_HTTP_URL_BUFFER_LENGTH of
        None \<Rightarrow> Some (SIGNALING_CONTROLLER_RESULT_FAIL, c, s)
      | Some u \<Rightarrow>
          (let req = \<lparr>verb = HTTP_GET, pUrl = u, pHeaders = [\<lparr>headerName = ''x-amzn-iot-thingname'', headerValue = pThingName iot\<rparr>],
                      pUserAgent = pUserAgentName c, pBody = None\<rparr>;
               (w, s1) = nextHttp os s
           in do {
             (r, h, acts, resp) \<leftarrow> Networking_HttpSend w (Some (httpContext c)) (Some req) None (awsConfig c) (Some fresh_response);
             let c1 = c\<lparr>httpContext := the h\<rparr>;
             if r \<noteq> NETWORKING_RESULT_OK then Some (SIGNALING_CONTROLLER_RESULT_FAIL, c1, s1)
             else (case Signaling_ParseFetchTempCredsResponseFromAwsIot lib (pContent (the resp)) of
                     None \<Rightarrow> Some (SIGNALING_CONTROLLER_RESULT_FAIL, c1, s1)
                   | Some cr \<Rightarrow> map_option (\<lambda>c2. (SIGNALING_CONTROLLER_RESULT_OK, c2, s1)) (store_credentials lib (timegm_of os) cr c1))
           }))"

text \<open>The status is compared over its own length: any prefix of \<open>ACTIVE\<close> will do.\<close>

definition DescribeSignalingChannel :: "signaling_lib \<Rightarrow> 's signaling_os \<Rightarrow> string \<Rightarrow> SignalingControllerContext \<Rightarrow> 's \<Rightarrow> 's signaling_result" where
  "DescribeSignalingChannel lib os channel c s =
     do {
       (r, c1, content, s1) \<leftarrow> post_signaling os (Signaling_ConstructDescribeSignalingChannelRequest lib (pRegion (awsConfig c)) channel
         SIGNALING_CONTROLLER_HTTP_URL_BUFFER_LENGTH SIGNALING_CONTROLLER_HTTP_BODY_BUFFER_LENGTH) c s;
       if r \<noteq> SIGNALING_CONTROLLER_RESULT_OK then Some (r, c1, s1)
       else (case Signaling_ParseDescribeSignalingChannelResponse lib content of
               None \<Rightarrow> Some (SIGNALING_CONTROLLER_RESULT_FAIL, c1, s1)
             | Some info \<Rightarrow>
                 (case pChannelStatus info of
                    None \<Rightarrow> Some (SIGNALING_CONTROLLER_RESULT_FAIL, c1, s1)
                  | Some status \<Rightarrow>
                      if take (length status) ''ACTIVE'' \<noteq> status then Some (SIGNALING_CONTROLLER_RESULT_FAIL, c1, s1)
                      else map_option (\<lambda>arn. (SIGNALING_CONTROLLER_RESULT_OK, c1\<lparr>signalingChannelArn := arn\<rparr>, s1))
                             (copy_text SIGNALING_CONTROLLER_ARN_BUFFER_LENGTH (pChannelArn info) (signalingChannelArn c1))))
     }"

definition too_long :: "string option \<Rightarrow> bool" where
  "too_long e \<longleftrightarrow> (case e of None \<Rightarrow> False | Some t \<Rightarrow> length t > SIGNALING_CONTROLLER_ENDPOINT_BUFFER_LENGTH)"

definition endpoint_text :: "string option \<Rightarrow> string \<Rightarrow> string" where
  "endpoint_text e old = (case e of None \<Rightarrow> old | Some t \<Rightarrow> t)"

text \<open>The endpoints in the order of the code; one that is too long stops the others.\<close>

definition store_endpoints :: "SignalingChannelEndpoints \<Rightarrow> SignalingControllerContext \<Rightarrow> SignalingControllerResult \<times> SignalingControllerContext" where
  "store_endpoints e c =
     (if too_long (endpointHttps e) then (SIGNALING_CONTROLLER_RESULT_FAIL, c)
      else (let c1 = c\<lparr>httpsEndpoint := endpoint_text (endpointHttps e) (httpsEndpoint c)\<rparr>
            in if too_long (endpointWss e) then (SIGNALING_CONTROLLER_RESULT_FAIL, c1)
               else (let c2 = c1\<lparr>wssEndpoint := endpoint_text (endpointWss e) (wssEndpoint c)\<rparr>
                     in if too_long (endpointWebrtc e) then (SIGNALING_CONTROLLER_RESULT_FAIL, c2)
                        else (SIGNALING_CONTROLLER_RESULT_OK, c2\<lparr>webrtcEndpoint := endpoint_text (endpointWebrtc e) (webrtcEndpoint c)\<rparr>))))"

definition GetSignalingChannelEndpoints :: "signaling_lib \<Rightarrow> 's signaling_os \<Rightarrow> bool \<Rightarrow> SignalingControllerContext \<Rightarrow> 's \<Rightarrow> 's signaling_result" where
  "GetSignalingChannelEndpoints lib os storage c s =
     do {
       (r, c1, content, s1) \<leftarrow> post_signaling os (Signaling_ConstructGetSignalingChannelEndpointRequest lib (pRegion (awsConfig c)) (signalingChannelArn c) storage (ctxRole c)
         SIGNALING_CONTROLLER_HTTP_URL_BUFFER_LENGTH SIGNALING_CONTROLLER_HTTP_BODY_BUFFER_LENGTH) c s;
       if r \<noteq> SIGNALING_CONTROLLER_RESULT_OK then Some (r, c1, s1)
       else (case Signaling_ParseGetSignalingChannelEndpointResponse lib content of
               None \<Rightarrow> Some (SIGNALING_CONTROLLER_RESULT_FAIL, c1, s1)
             | Some e \<Rightarrow> (let (r2, c2) = store_endpoints e c1 in Some (r2, c2, s1)))
     }"

definition JoinStorageSession :: "signaling_lib \<Rightarrow> 's signaling_os \<Rightarrow> SignalingControllerContext \<Rightarrow> 's \<Rightarrow> 's signaling_result" where
  "JoinStorageSession lib os c s =
     map_option (\<lambda>(r, c1, content, s1). (r, c1, s1))
       (post_signaling os (Signaling_ConstructJoinStorageSessionRequest lib (webrtcEndpoint c) (signalingChannelArn c) SIGNALING_ROLE_MASTER
          SIGNALING_CONTROLLER_HTTP_URL_BUFFER_LENGTH SIGNALING_CONTROLLER_HTTP_BODY_BUFFER_LENGTH) c s)"

section \<open>The ICE servers\<close>

fun store_uris :: "nat \<Rightarrow> string list \<Rightarrow> (string \<times> string) list \<Rightarrow> bool \<times> nat \<times> (string \<times> string) list" where
  "store_uris j [] us = (True, j, us)"
| "store_uris j (u # rest) us =
     (if j \<ge> SIGNALING_CONTROLLER_ICE_SERVER_MAX_URIS_COUNT then (True, j, us)
      else if length u \<ge> SIGNALING_CONTROLLER_ICE_SERVER_URI_BUFFER_LENGTH then (False, j, us)
      else store_uris (j + 1) rest (us[j := (u, drop (length u) (fst (us ! j) @ snd (us ! j)))]))"

definition store_config :: "SignalingIceServer \<Rightarrow> StoredIceServerConfig \<Rightarrow> bool \<times> StoredIceServerConfig" where
  "store_config srv cfg =
     (let (ok, n, us) = store_uris 0 (serverUris srv) (storedUris cfg);
          cfg1 = cfg\<lparr>storedUserName := serverUserName srv, storedPassword := serverPassword srv, ttlSeconds := messageTtlSeconds srv, storedUris := us\<rparr>
      in (ok, if ok then cfg1\<lparr>iceServerUriCount := n\<rparr> else cfg1))"

fun store_configs :: "nat \<Rightarrow> SignalingIceServer list \<Rightarrow> u32 \<Rightarrow> StoredIceServerConfig list \<Rightarrow> bool \<times> nat \<times> u32 \<times> StoredIceServerConfig list" where
  "store_configs i [] minTtl cfgs = (True, i, minTtl, cfgs)"
| "store_configs i (srv # rest) minTtl cfgs =
     (if i \<ge> SIGNALING_CONTROLLER_ICE_SERVER_MAX_CONFIG_COUNT then (True, i, minTtl, cfgs)
      else if length (serverUserName srv) \<ge> SIGNALING_CONTROLLER_ICE_SERVER_USER_NAME_BUFFER_LENGTH then (False, i, minTtl, cfgs)
      else if length (serverPassword srv) \<ge> SIGNALING_CONTROLLER_ICE_SERVER_PASSWORD_BUFFER_LENGTH then (False, i, minTtl, cfgs)
      else (let (ok, cfg) = store_config srv (cfgs ! i)
            in if ok then store_configs (i + 1) rest (min minTtl (messageTtlSeconds srv)) (cfgs[i := cfg])
               else (False, i, min minTtl (messageTtlSeconds srv), cfgs[i := cfg])))"

definition ice_expiration :: "u32 \<Rightarrow> u64 \<Rightarrow> u64" where
  "ice_expiration minTtl now =
     now + ucast (if minTtl < SIGNALING_CONTROLLER_ICE_CONFIG_REFRESH_GRACE_PERIOD_SEC then minTtl
                  else minTtl - SIGNALING_CONTROLLER_ICE_CONFIG_REFRESH_GRACE_PERIOD_SEC)"

definition GetIceServerConfigs :: "signaling_lib \<Rightarrow> 's signaling_os \<Rightarrow> SignalingControllerContext \<Rightarrow> 's \<Rightarrow> 's signaling_result" where
  "GetIceServerConfigs lib os c s =
     do {
       (r, c1, content, s1) \<leftarrow> post_signaling os (Signaling_ConstructGetIceServerConfigRequest lib (httpsEndpoint c) (signalingChannelArn c) (pClientId c)
         SIGNALING_CONTROLLER_HTTP_URL_BUFFER_LENGTH SIGNALING_CONTROLLER_HTTP_BODY_BUFFER_LENGTH) c s;
       if r \<noteq> SIGNALING_CONTROLLER_RESULT_OK then Some (r, c1, s1)
       else (case Signaling_ParseGetIceServerConfigResponse lib content SIGNALING_CONTROLLER_ICE_SERVER_MAX_CONFIG_COUNT of
               None \<Rightarrow> Some (SIGNALING_CONTROLLER_RESULT_FAIL, c1, s1)
             | Some servers \<Rightarrow>
                 (let (ok, n, minTtl, cfgs) = store_configs 0 servers (- 1) (iceServerConfigs c1); c2 = c1\<lparr>iceServerConfigs := cfgs\<rparr>
                  in if \<not> ok then Some (SIGNALING_CONTROLLER_RESULT_FAIL, c2, s1)
                     else (let (now, s2) = currentTimeSec os s1
                           in Some (SIGNALING_CONTROLLER_RESULT_OK, c2\<lparr>iceServerConfigsCount := n, iceServerConfigExpirationSec := ice_expiration minTtl now\<rparr>, s2))))
     }"

section \<open>Connecting\<close>

text \<open>What arrives on the websocket: the result for libwebsockets, the receive buffer, and the message that is handed to the application.  The
  payload is decoded to the front of the buffer, without a terminator.  A status other than 200 is only logged.\<close>

definition OnWssMessageReceived :: "signaling_lib \<Rightarrow> bool \<Rightarrow> bytes \<Rightarrow> bytes \<Rightarrow> int \<times> bytes \<times> SignalingMessage option" where
  "OnWssMessageReceived lib callback rx m =
     (case Signaling_ParseWssRecvMessage lib m of
        None \<Rightarrow> (1, rx, None)
      | Some recv \<Rightarrow>
          (case Base64_Decode (Some (recvPayload recv)) (Some SIGNALING_CONTROLLER_MESSAGE_BUFFER_LENGTH) of
             Inl _ \<Rightarrow> (1, rx, None)
           | Inr payload \<Rightarrow>
               (let rx1 = payload @ drop (length payload) rx
                in if recvType recv = SIGNALING_TYPE_MESSAGE_GO_AWAY then (1, rx1, None)
                   else (0, rx1, if callback then Some \<lparr>pRemoteClientId = recvSender recv, messageType = recvType recv, pMessage = Some payload,
                                                    pCorrelationId = recvCorrelationId recv\<rparr> else None))))"

definition ConnectToWssEndpoint :: "signaling_lib \<Rightarrow> 's signaling_os \<Rightarrow> SignalingControllerContext \<Rightarrow> 's \<Rightarrow> 's signaling_result" where
  "ConnectToWssEndpoint lib os c s =
     (case Signaling_ConstructConnectWssEndpointRequest lib (wssEndpoint c) (signalingChannelArn c) (ctxRole c) (pClientId c)
             SIGNALING_CONTROLLER_HTTP_URL_BUFFER_LENGTH SIGNALING_CONTROLLER_HTTP_BODY_BUFFER_LENGTH of
        None \<Rightarrow> Some (SIGNALING_CONTROLLER_RESULT_FAIL, c, s)
      | Some (u, body) \<Rightarrow>
          (let info = \<lparr>wsUrl = u, wsRxCallback = Some (\<lambda>m. fst (OnWssMessageReceived lib (messageReceivedCallback c) (signalingRxMessageBuffer c) m))\<rparr>; (w, s1) = nextWs os s
           in map_option (\<lambda>(r, ws, req).
                (if r = NETWORKING_RESULT_OK then SIGNALING_CONTROLLER_RESULT_OK else SIGNALING_CONTROLLER_RESULT_FAIL, c\<lparr>websocketContext := the ws\<rparr>, s1))
                (Networking_WebsocketConnect w (Some (websocketContext c)) (Some info) (Some (stored_credentials c)) (awsConfig c))))"

definition uses_iot :: "AwsIotCredentials \<Rightarrow> bool" where
  "uses_iot iot \<longleftrightarrow> pThingName iot \<noteq> [] \<and> pRoleAlias iot \<noteq> [] \<and> pIotCredentialsEndpoint iot \<noteq> []"

definition AreCredentialsExpired :: "'s signaling_os \<Rightarrow> SignalingControllerConnectInfo \<Rightarrow> SignalingControllerContext \<Rightarrow> 's \<Rightarrow> bool \<times> 's" where
  "AreCredentialsExpired os info c s =
     (let (now, s1) = currentTimeSec os s
      in (uses_iot (awsIotCreds info)
            \<and> (expirationSeconds c = 0 \<or> now \<ge> expirationSeconds c - SIGNALING_CONTROLLER_FETCH_CREDS_GRACE_PERIOD_SEC), s1))"

text \<open>The credentials of the application are copied without a terminator.\<close>

definition copy_static_credentials :: "signaling_lib \<Rightarrow> AwsCredentials \<Rightarrow> SignalingControllerContext \<Rightarrow> SignalingControllerContext option" where
  "copy_static_credentials lib cr c =
     (let token = (case pSessionToken cr of None \<Rightarrow> [] | Some t \<Rightarrow> t)
      in if length (AwsCredentials.pAccessKeyId cr) > ACCESS_KEY_MAX_LEN lib + 1 \<or> length (pSecretAccessKey cr) > SECRET_ACCESS_KEY_MAX_LEN lib + 1
            \<or> length token > SESSION_TOKEN_MAX_LEN lib + 1 then None
         else Some (c\<lparr>accessKeyId := AwsCredentials.pAccessKeyId cr, secretAccessKey := pSecretAccessKey cr, sessionToken := token,
                expirationSeconds := credExpirationSeconds cr\<rparr>))"

definition sig_then ::
    "(SignalingControllerContext \<Rightarrow> 's \<Rightarrow> 's signaling_result) \<Rightarrow> SignalingControllerResult \<times> SignalingControllerContext \<times> 's \<Rightarrow> 's signaling_result" where
  "sig_then f rcs = (let (r, c, s) = rcs in if r = SIGNALING_CONTROLLER_RESULT_OK then f c s else Some rcs)"

definition take_connect_info :: "SignalingControllerConnectInfo \<Rightarrow> SignalingControllerContext \<Rightarrow> SignalingControllerContext" where
  "take_connect_info info c =
     c\<lparr>pUserAgentName := infoUserAgentName info, awsConfig := infoAwsConfig info, messageReceivedCallback := infoMessageReceivedCallback info,
       pClientId := infoClientId info, ctxRole := infoRole info\<rparr>"

definition obtain_credentials ::
    "signaling_lib \<Rightarrow> 's signaling_os \<Rightarrow> SignalingControllerConnectInfo \<Rightarrow> SignalingControllerContext \<Rightarrow> 's \<Rightarrow> 's signaling_result" where
  "obtain_credentials lib os info c s =
     (let (expired, s1) = AreCredentialsExpired os info c s
      in if expired then FetchTemporaryCredentials lib os (awsIotCreds info) c s1
         else map_option (\<lambda>c1. (SIGNALING_CONTROLLER_RESULT_OK, c1, s1)) (copy_static_credentials lib (awsCreds info) c))"

definition connect_steps ::
    "signaling_lib \<Rightarrow> 's signaling_os \<Rightarrow> SignalingControllerConnectInfo \<Rightarrow> SignalingControllerContext \<Rightarrow> 's \<Rightarrow> 's signaling_result" where
  "connect_steps lib os info c s =
     do {
       x1 \<leftarrow> obtain_credentials lib os info c s;
       x2 \<leftarrow> sig_then (DescribeSignalingChannel lib os (channelName info)) x1;
       x3 \<leftarrow> sig_then (GetSignalingChannelEndpoints lib os (enableStorageSession info)) x2;
       x4 \<leftarrow> sig_then (GetIceServerConfigs lib os) x3;
       x5 \<leftarrow> sig_then (ConnectToWssEndpoint lib os) x4;
       (if enableStorageSession info then sig_then (JoinStorageSession lib os) x5 else Some x5)
     }"

definition ConnectToSignalingService ::
    "signaling_lib \<Rightarrow> 's signaling_os \<Rightarrow> SignalingControllerConnectInfo \<Rightarrow> SignalingControllerContext \<Rightarrow> 's \<Rightarrow> 's signaling_result" where
  "ConnectToSignalingService lib os info c s =
     map_option (\<lambda>(r, c1, s1).
       (r, OnConnectionStateChange (if r = SIGNALING_CONTROLLER_RESULT_OK then SIGNALING_CONTROLLER_STATE_CONNECTED else SIGNALING_CONTROLLER_STATE_DISCONNECTED) c1, s1))
       (connect_steps lib os info (take_connect_info info c) s)"

section \<open>The interface\<close>

text \<open>The context is cleared, its callbacks with it, before the first state is announced.  The role is a number that is set before it is
  used.  \<open>mutexOk\<close> is the result of \<open>pthread_mutex_init\<close>.\<close>

definition zero_config :: StoredIceServerConfig where
  "zero_config = \<lparr>ttlSeconds = 0, storedUris = replicate SIGNALING_CONTROLLER_ICE_SERVER_MAX_URIS_COUNT ([], replicate (SIGNALING_CONTROLLER_ICE_SERVER_URI_BUFFER_LENGTH + 1) NUL),
     iceServerUriCount = 0, storedUserName = [], storedPassword = []\<rparr>"

definition zero_signaling_context :: "SignalingControllerContext \<Rightarrow> SignalingControllerContext" where
  "zero_signaling_context c =
     \<lparr>connectionState = SIGNALING_CONTROLLER_STATE_NONE, accessKeyId = [], secretAccessKey = [], sessionToken = [], expirationSeconds = 0,
      signalingChannelArn = [], wssEndpoint = [], httpsEndpoint = [], webrtcEndpoint = [], iceServerConfigExpirationSec = 0, iceServerConfigsCount = 0,
      iceServerConfigs = replicate SIGNALING_CONTROLLER_ICE_SERVER_MAX_CONFIG_COUNT zero_config, pUserAgentName = [], pClientId = [], ctxRole = ctxRole c,
      awsConfig = \<lparr>pRegion = [], pService = []\<rparr>, messageReceivedCallback = False, connectionStateCallback = False,
      signalingRxMessageBuffer = replicate SIGNALING_CONTROLLER_MESSAGE_BUFFER_LENGTH 0, announced = announced c,
      httpContext = httpContext c, websocketContext = websocketContext c\<rparr>"

definition SignalingController_Init ::
    "SignalingControllerContext option \<Rightarrow> bool \<Rightarrow> bool \<Rightarrow> SignalingControllerResult \<times> SignalingControllerContext option" where
  "SignalingController_Init pCtx pSslCreds mutexOk =
     (case pCtx of
        None \<Rightarrow> (SIGNALING_CONTROLLER_RESULT_BAD_PARAM, None)
      | Some c \<Rightarrow>
          if \<not> pSslCreds then (SIGNALING_CONTROLLER_RESULT_BAD_PARAM, Some c)
          else if \<not> mutexOk then (SIGNALING_CONTROLLER_RESULT_FAIL, Some (zero_signaling_context c))
          else
            (let c0 = zero_signaling_context c; (r1, h) = Networking_HttpInit (Some (httpContext c0)) True; c1 = c0\<lparr>httpContext := the h\<rparr>
             in if r1 \<noteq> NETWORKING_RESULT_OK then (SIGNALING_CONTROLLER_RESULT_FAIL, Some c1)
                else
                  (let (r2, ws) = Networking_WebsocketInit (Some (websocketContext c1)) True; c2 = c1\<lparr>websocketContext := the ws\<rparr>
                   in if r2 \<noteq> NETWORKING_RESULT_OK then (SIGNALING_CONTROLLER_RESULT_FAIL, Some c2)
                      else (SIGNALING_CONTROLLER_RESULT_OK, Some (OnConnectionStateChange SIGNALING_CONTROLLER_STATE_INITED c2)))))"

definition SignalingController_SetConnectionStateCallback ::
    "SignalingControllerContext option \<Rightarrow> bool \<Rightarrow> SignalingControllerResult \<times> SignalingControllerContext option" where
  "SignalingController_SetConnectionStateCallback pCtx callback =
     (case pCtx of
        None \<Rightarrow> (SIGNALING_CONTROLLER_RESULT_BAD_PARAM, None)
      | Some c \<Rightarrow> (SIGNALING_CONTROLLER_RESULT_OK, Some (c\<lparr>connectionStateCallback := callback\<rparr>)))"

text \<open>\<open>SignalingController_StartListening\<close> never returns once it listens: it connects, and then serves the websocket until the connection is
  closed or credentials cannot be renewed.  One pass through either loop is one step.\<close>

datatype listen_phase = LISTEN_CONNECT | LISTEN_SERVE

definition SignalingController_StartListening ::
    "SignalingControllerContext option \<Rightarrow> SignalingControllerConnectInfo option \<Rightarrow> SignalingControllerResult + listen_phase \<times> SignalingControllerContext" where
  "SignalingController_StartListening pCtx pInfo =
     (case (pCtx, pInfo) of
        (Some c, Some info) \<Rightarrow>
          if infoRole info = SIGNALING_ROLE_VIEWER \<and> enableStorageSession info then Inl SIGNALING_CONTROLLER_RESULT_BAD_PARAM
          else Inr (LISTEN_CONNECT, c)
      | _ \<Rightarrow> Inl SIGNALING_CONTROLLER_RESULT_BAD_PARAM)"

definition listen_serve ::
    "signaling_lib \<Rightarrow> 's signaling_os \<Rightarrow> SignalingControllerConnectInfo \<Rightarrow> SignalingControllerContext \<Rightarrow> 's
      \<Rightarrow> (listen_phase \<times> SignalingControllerContext \<times> 's) option" where
  "listen_serve lib os info c s =
     (let (service, s1) = nextService os s; (r, ws) = Networking_WebsocketSignal service (Some (websocketContext c)); c1 = c\<lparr>websocketContext := the ws\<rparr>
      in if r \<noteq> NETWORKING_RESULT_OK then Some (LISTEN_CONNECT, OnConnectionStateChange SIGNALING_CONTROLLER_STATE_DISCONNECTED c1, s1)
         else
           (let (expired, s2) = AreCredentialsExpired os info c1 s1
            in if expired
               then map_option (\<lambda>(r2, c2, s3). (if r2 = SIGNALING_CONTROLLER_RESULT_OK then LISTEN_SERVE else LISTEN_CONNECT, c2, s3))
                      (FetchTemporaryCredentials lib os (awsIotCreds info) c1 s2)
               else Some (LISTEN_SERVE, c1, s2)))"

definition listen_step ::
    "signaling_lib \<Rightarrow> 's signaling_os \<Rightarrow> SignalingControllerConnectInfo \<Rightarrow> listen_phase \<times> SignalingControllerContext \<times> 's
      \<Rightarrow> (listen_phase \<times> SignalingControllerContext \<times> 's) option" where
  "listen_step lib os info x =
     (case x of
        (LISTEN_CONNECT, c, s) \<Rightarrow>
          map_option (\<lambda>(r, c1, s1). (if r = SIGNALING_CONTROLLER_RESULT_OK then LISTEN_SERVE else LISTEN_CONNECT, c1, s1)) (ConnectToSignalingService lib os info c s)
      | (LISTEN_SERVE, c, s) \<Rightarrow> listen_serve lib os info c s)"

text \<open>\<open>malMsg\<close> and \<open>malNode\<close> are what \<open>malloc\<close> gives for the queued message.\<close>

definition SignalingController_SendMessage ::
    "signaling_lib \<Rightarrow> SignalingControllerContext option \<Rightarrow> SignalingMessage option \<Rightarrow> nat option \<Rightarrow> nat option
      \<Rightarrow> (SignalingControllerResult \<times> SignalingControllerContext option \<times> lws_action list) option" where
  "SignalingController_SendMessage lib pCtx pMsg malMsg malNode =
     (case (pCtx, pMsg) of
        (Some c, Some msg) \<Rightarrow>
          if pMessage msg = None then Some (SIGNALING_CONTROLLER_RESULT_BAD_PARAM, pCtx, [])
          else do {
            encoded \<leftarrow> Base64_Encode (pMessage msg) (Some SIGNALING_CONTROLLER_MESSAGE_BUFFER_LENGTH);
            case encoded of
              Inl _ \<Rightarrow> Some (SIGNALING_CONTROLLER_RESULT_FAIL, pCtx, [])
            | Inr payload \<Rightarrow>
                (case Signaling_ConstructWssMessage lib \<lparr>sendType = messageType msg, sendPayload = payload, sendCorrelationId = pCorrelationId msg,
                                                          sendRecipient = pRemoteClientId msg\<rparr> SIGNALING_CONTROLLER_MESSAGE_BUFFER_LENGTH of
                   None \<Rightarrow> Some (SIGNALING_CONTROLLER_RESULT_FAIL, pCtx, [])
                 | Some out \<Rightarrow>
                     map_option (\<lambda>(r, ws, acts).
                       (if r = NETWORKING_RESULT_OK then SIGNALING_CONTROLLER_RESULT_OK else SIGNALING_CONTROLLER_RESULT_FAIL,
                        Some (c\<lparr>websocketContext := the ws\<rparr>), acts))
                       (Networking_WebsocketSend (Some (websocketContext c)) (Some out) (length out) malMsg malNode))
          }
      | _ \<Rightarrow> Some (SIGNALING_CONTROLLER_RESULT_BAD_PARAM, pCtx, []))"

text \<open>The configurations are given out even when they could not be renewed.\<close>

definition SignalingController_QueryIceServerConfigs ::
    "signaling_lib \<Rightarrow> 's signaling_os \<Rightarrow> SignalingControllerContext option \<Rightarrow> bool \<Rightarrow> 's
      \<Rightarrow> (SignalingControllerResult \<times> SignalingControllerContext option \<times> StoredIceServerConfig list option \<times> 's) option" where
  "SignalingController_QueryIceServerConfigs lib os pCtx outputs s =
     (case pCtx of
        None \<Rightarrow> Some (SIGNALING_CONTROLLER_RESULT_BAD_PARAM, None, None, s)
      | Some c \<Rightarrow>
          if \<not> outputs then Some (SIGNALING_CONTROLLER_RESULT_BAD_PARAM, pCtx, None, s)
          else
            (let (now, s1) = currentTimeSec os s
             in map_option (\<lambda>(r, c1, s2). (r, Some c1, Some (take (iceServerConfigsCount c1) (iceServerConfigs c1)), s2))
                  (if iceServerConfigsCount c = 0 \<or> iceServerConfigExpirationSec c < now then GetIceServerConfigs lib os c s1
                   else Some (SIGNALING_CONTROLLER_RESULT_OK, c, s1))))"

definition SignalingController_RefreshIceServerConfigs ::
    "signaling_lib \<Rightarrow> 's signaling_os \<Rightarrow> SignalingControllerContext option \<Rightarrow> 's \<Rightarrow> (SignalingControllerResult \<times> SignalingControllerContext option \<times> 's) option" where
  "SignalingController_RefreshIceServerConfigs lib os pCtx s =
     (case pCtx of
        None \<Rightarrow> Some (SIGNALING_CONTROLLER_RESULT_BAD_PARAM, None, s)
      | Some c \<Rightarrow> map_option (\<lambda>(r, c1, s1). (r, Some c1, s1)) (GetIceServerConfigs lib os c s))"

text \<open>The members of the JSON object in a signaling message, each value with the rest of the message behind it.  Keys and values are compared over
  their own length, so that a prefix is enough.\<close>

definition same_prefix :: "string \<Rightarrow> string \<Rightarrow> bool" where
  "same_prefix key name \<longleftrightarrow> take (length key) name = key"

fun extract_sdp :: "bool \<Rightarrow> (string \<times> string \<times> string) list \<Rightarrow> (string \<times> string) option" where
  "extract_sdp isSdpOffer [] = None"
| "extract_sdp isSdpOffer ((k, v, behind) # rest) =
     (if same_prefix k ''type''
      then if isSdpOffer \<and> \<not> same_prefix v ''offer'' \<or> \<not> isSdpOffer \<and> \<not> same_prefix v ''answer'' then None else extract_sdp isSdpOffer rest
      else if same_prefix k ''sdp'' then Some (v, behind)
      else extract_sdp isSdpOffer rest)"

definition SignalingController_ExtractSdpMessageFromSignalingMessage ::
    "(string \<Rightarrow> (string \<times> string \<times> string) list option) \<Rightarrow> string option \<Rightarrow> bool \<Rightarrow> bool \<Rightarrow> SignalingControllerResult \<times> (string \<times> string) option" where
  "SignalingController_ExtractSdpMessageFromSignalingMessage json pSignalingMessage isSdpOffer outputs =
     (case pSignalingMessage of
        None \<Rightarrow> (SIGNALING_CONTROLLER_RESULT_BAD_PARAM, None)
      | Some msg \<Rightarrow>
          if msg = [] \<or> \<not> outputs then (SIGNALING_CONTROLLER_RESULT_BAD_PARAM, None)
          else (case json msg of
                  None \<Rightarrow> (SIGNALING_CONTROLLER_RESULT_FAIL, None)
                | Some members \<Rightarrow>
                    (case extract_sdp isSdpOffer members of
                       None \<Rightarrow> (SIGNALING_CONTROLLER_RESULT_FAIL, None)
                     | Some sdp \<Rightarrow> (SIGNALING_CONTROLLER_RESULT_OK, Some sdp))))"

end
