(* ===== verification/Signaling_Correct.thy ===== *)
theory Signaling_Correct
  imports Signaling
begin

text \<open>
  What holds of a signaling controller in every state that it reaches, what its messages carry, and what is lost on a reconnect.
\<close>

section \<open>Well-formed contexts\<close>

definition uri_ok :: "string \<times> string \<Rightarrow> bool" where
  "uri_ok u \<longleftrightarrow> length (fst u) < SIGNALING_CONTROLLER_ICE_SERVER_URI_BUFFER_LENGTH \<and> length (fst u) + length (snd u) = SIGNALING_CONTROLLER_ICE_SERVER_URI_BUFFER_LENGTH + 1"

definition config_ok :: "StoredIceServerConfig \<Rightarrow> bool" where
  "config_ok cfg \<longleftrightarrow> length (storedUris cfg) = SIGNALING_CONTROLLER_ICE_SERVER_MAX_URIS_COUNT
     \<and> list_all uri_ok (storedUris cfg)
     \<and> iceServerUriCount cfg \<le> SIGNALING_CONTROLLER_ICE_SERVER_MAX_URIS_COUNT
     \<and> length (storedUserName cfg) < SIGNALING_CONTROLLER_ICE_SERVER_USER_NAME_BUFFER_LENGTH
     \<and> length (storedPassword cfg) < SIGNALING_CONTROLLER_ICE_SERVER_PASSWORD_BUFFER_LENGTH"

definition endpoints_ok :: "SignalingControllerContext \<Rightarrow> bool" where
  "endpoints_ok c \<longleftrightarrow> length (signalingChannelArn c) \<le> SIGNALING_CONTROLLER_ARN_BUFFER_LENGTH
     \<and> length (wssEndpoint c) \<le> SIGNALING_CONTROLLER_ENDPOINT_BUFFER_LENGTH \<and> length (httpsEndpoint c) \<le> SIGNALING_CONTROLLER_ENDPOINT_BUFFER_LENGTH
     \<and> length (webrtcEndpoint c) \<le> SIGNALING_CONTROLLER_ENDPOINT_BUFFER_LENGTH"

definition credentials_ok :: "signaling_lib \<Rightarrow> SignalingControllerContext \<Rightarrow> bool" where
  "credentials_ok lib c \<longleftrightarrow> length (accessKeyId c) \<le> ACCESS_KEY_MAX_LEN lib + 1 \<and> length (secretAccessKey c) \<le> SECRET_ACCESS_KEY_MAX_LEN lib + 1
     \<and> length (sessionToken c) \<le> SESSION_TOKEN_MAX_LEN lib + 1"

definition servers_ok :: "SignalingControllerContext \<Rightarrow> bool" where
  "servers_ok c \<longleftrightarrow> length (iceServerConfigs c) = SIGNALING_CONTROLLER_ICE_SERVER_MAX_CONFIG_COUNT \<and> list_all config_ok (iceServerConfigs c)
     \<and> iceServerConfigsCount c \<le> SIGNALING_CONTROLLER_ICE_SERVER_MAX_CONFIG_COUNT"

definition states_ok :: "SignalingControllerContext \<Rightarrow> bool" where
  "states_ok c \<longleftrightarrow> distinct_adj (announced c) \<and> (announced c \<noteq> [] \<longrightarrow> last (announced c) = connectionState c)"

definition context_ok :: "signaling_lib \<Rightarrow> SignalingControllerContext \<Rightarrow> bool" where
  "context_ok lib c \<longleftrightarrow> endpoints_ok c \<and> credentials_ok lib c \<and> servers_ok c \<and> states_ok c"

lemmas context_defs = context_ok_def endpoints_ok_def credentials_ok_def servers_ok_def states_ok_def

named_theorems keeps_ok

lemma context_ok_fields [simp]:
  "context_ok lib (c\<lparr>httpContext := h\<rparr>) = context_ok lib c" "context_ok lib (c\<lparr>websocketContext := ws\<rparr>) = context_ok lib c"
  "context_ok lib (c\<lparr>connectionStateCallback := b\<rparr>) = context_ok lib c" "context_ok lib (take_connect_info info c) = context_ok lib c"
  by (simp_all add: context_defs take_connect_info_def)

lemma OnConnectionStateChange_ok: "context_ok lib c \<Longrightarrow> context_ok lib (OnConnectionStateChange st c)"
  by (auto simp: OnConnectionStateChange_def context_defs distinct_adj_append_iff)

lemma post_keeps: "post_signaling os q c s = Some (r, c1, content, s1) \<Longrightarrow> \<exists>h. c1 = c\<lparr>httpContext := h\<rparr>"
  by (cases q) (auto simp: post_signaling_def HttpSend_def split: bind_splits intro!: exI [of _ "httpContext c1"])

lemma copy_text_length: "copy_text n src old = Some t \<Longrightarrow> length old \<le> m \<Longrightarrow> n \<le> m \<Longrightarrow> length t \<le> m"
  by (auto simp: copy_text_def split: option.splits if_splits)

lemma FetchTemporaryCredentials_ok [keeps_ok]:
  assumes "FetchTemporaryCredentials lib os iot c s = Some (r, c', s')" "context_ok lib c"
  shows "context_ok lib c'"
proof -
  have store: "context_ok lib c2" if "store_credentials lib tg cr c1 = Some c2" "context_ok lib c1" for tg cr c1 c2
  proof -
    from that(1) obtain k sk t e where t: "copy_text (ACCESS_KEY_MAX_LEN lib) (sigAccessKeyId cr) (accessKeyId c1) = Some k"
      "copy_text (SECRET_ACCESS_KEY_MAX_LEN lib) (sigSecretAccessKey cr) (secretAccessKey c1) = Some sk"
      "copy_text (SESSION_TOKEN_MAX_LEN lib) (sigSessionToken cr) (sessionToken c1) = Some t"
      "c2 = c1\<lparr>accessKeyId := k, secretAccessKey := sk, sessionToken := t, expirationSeconds := e\<rparr>"
      by (auto simp: store_credentials_def split: bind_splits)
    have "length k \<le> ACCESS_KEY_MAX_LEN lib + 1" "length sk \<le> SECRET_ACCESS_KEY_MAX_LEN lib + 1" "length t \<le> SESSION_TOKEN_MAX_LEN lib + 1"
      using that(2) by (auto simp: context_ok_def credentials_ok_def intro!: copy_text_length [OF t(1)] copy_text_length [OF t(2)] copy_text_length [OF t(3)])
    with that(2) t(4) show ?thesis by (simp add: context_defs)
  qed
  show ?thesis using assms
    by (auto simp: FetchTemporaryCredentials_def Let_def intro: store split: option.splits prod.splits if_splits bind_splits)
qed

lemma copy_static_credentials_ok: "copy_static_credentials lib cr c = Some c' \<Longrightarrow> context_ok lib c \<Longrightarrow> context_ok lib c'"
  by (auto simp: copy_static_credentials_def Let_def context_defs split: if_splits)

lemma DescribeSignalingChannel_ok [keeps_ok]:
  assumes "DescribeSignalingChannel lib os ch c s = Some (r, c', s')" "context_ok lib c"
  shows "context_ok lib c'"
proof -
  from assms(1) obtain r1 c1 content s1 where p: "post_signaling os (Signaling_ConstructDescribeSignalingChannelRequest lib (pRegion (awsConfig c)) ch
      SIGNALING_CONTROLLER_HTTP_URL_BUFFER_LENGTH SIGNALING_CONTROLLER_HTTP_BODY_BUFFER_LENGTH) c s = Some (r1, c1, content, s1)"
    and rest: "c' = c1 \<or> (\<exists>src arn. copy_text SIGNALING_CONTROLLER_ARN_BUFFER_LENGTH src (signalingChannelArn c1) = Some arn \<and> c' = c1\<lparr>signalingChannelArn := arn\<rparr>)"
    by (auto simp: DescribeSignalingChannel_def split: bind_splits if_splits option.splits) blast
  from post_keeps [OF p] assms(2) have c1: "context_ok lib c1" by auto
  from rest show ?thesis
  proof (elim disjE exE conjE)
    fix src arn assume a: "copy_text SIGNALING_CONTROLLER_ARN_BUFFER_LENGTH src (signalingChannelArn c1) = Some arn" "c' = c1\<lparr>signalingChannelArn := arn\<rparr>"
    with c1 copy_text_length [OF a(1)] show ?thesis by (auto simp: context_defs)
  qed (use c1 in simp)
qed

lemma store_endpoints_ok: "context_ok lib c \<Longrightarrow> context_ok lib (snd (store_endpoints e c))"
  by (auto simp: store_endpoints_def Let_def too_long_def endpoint_text_def context_defs split: option.splits)

lemma GetSignalingChannelEndpoints_ok [keeps_ok]:
  assumes "GetSignalingChannelEndpoints lib os st c s = Some (r, c', s')" "context_ok lib c"
  shows "context_ok lib c'"
proof -
  from assms(1) obtain r1 c1 content s1 where p: "post_signaling os (Signaling_ConstructGetSignalingChannelEndpointRequest lib (pRegion (awsConfig c)) (signalingChannelArn c) st (ctxRole c)
      SIGNALING_CONTROLLER_HTTP_URL_BUFFER_LENGTH SIGNALING_CONTROLLER_HTTP_BODY_BUFFER_LENGTH) c s = Some (r1, c1, content, s1)"
    and "c' = c1 \<or> (\<exists>e. c' = snd (store_endpoints e c1))"
    by (auto simp: GetSignalingChannelEndpoints_def split: bind_splits if_splits option.splits prod.splits) (metis snd_conv)
  with post_keeps [OF p] assms(2) show ?thesis by (auto intro: store_endpoints_ok)
qed

lemma store_uris_ok:
  "store_uris j ts us = (ok, n, us') \<Longrightarrow> length us = SIGNALING_CONTROLLER_ICE_SERVER_MAX_URIS_COUNT \<Longrightarrow> j \<le> SIGNALING_CONTROLLER_ICE_SERVER_MAX_URIS_COUNT
    \<Longrightarrow> list_all uri_ok us
    \<Longrightarrow> n \<le> SIGNALING_CONTROLLER_ICE_SERVER_MAX_URIS_COUNT \<and> length us' = SIGNALING_CONTROLLER_ICE_SERVER_MAX_URIS_COUNT
      \<and> list_all uri_ok us'"
proof (induction ts arbitrary: j us)
  case (Cons t ts)
  show ?case
  proof (cases "j \<ge> SIGNALING_CONTROLLER_ICE_SERVER_MAX_URIS_COUNT \<or> length t \<ge> SIGNALING_CONTROLLER_ICE_SERVER_URI_BUFFER_LENGTH")
    case False
    let ?u = "(t, drop (length t) (fst (us ! j) @ snd (us ! j)))"
    have "uri_ok (us ! j)" using Cons.prems(2,4) False by (auto simp: list_all_length)
    then have "uri_ok ?u" using False by (auto simp: uri_ok_def)
    then have "list_all uri_ok (us[j := ?u])" using Cons.prems(4) by (auto simp: list_all_iff dest!: set_update_subset_insert [THEN subsetD])
    with Cons.IH [of "j + 1" "us[j := ?u]"] Cons.prems False show ?thesis by simp
  qed (use Cons.prems in \<open>auto split: if_splits\<close>)
qed simp

lemma store_config_ok:
  assumes "config_ok cfg" "length (serverUserName srv) < SIGNALING_CONTROLLER_ICE_SERVER_USER_NAME_BUFFER_LENGTH"
    "length (serverPassword srv) < SIGNALING_CONTROLLER_ICE_SERVER_PASSWORD_BUFFER_LENGTH"
  shows "config_ok (snd (store_config srv cfg))"
proof -
  obtain ok n us where u: "store_uris 0 (serverUris srv) (storedUris cfg) = (ok, n, us)" by (metis prod_cases3)
  with store_uris_ok [OF u] assms show ?thesis by (auto simp: store_config_def config_ok_def Let_def)
qed

lemma store_configs_ok:
  "store_configs i srvs m cfgs = (ok, n, m', cfgs') \<Longrightarrow> length cfgs = SIGNALING_CONTROLLER_ICE_SERVER_MAX_CONFIG_COUNT \<Longrightarrow> list_all config_ok cfgs
    \<Longrightarrow> i \<le> SIGNALING_CONTROLLER_ICE_SERVER_MAX_CONFIG_COUNT
    \<Longrightarrow> n \<le> SIGNALING_CONTROLLER_ICE_SERVER_MAX_CONFIG_COUNT \<and> length cfgs' = SIGNALING_CONTROLLER_ICE_SERVER_MAX_CONFIG_COUNT \<and> list_all config_ok cfgs'"
proof (induction srvs arbitrary: i m cfgs)
  case (Cons srv srvs)
  show ?case
  proof (cases "i \<ge> SIGNALING_CONTROLLER_ICE_SERVER_MAX_CONFIG_COUNT \<or> length (serverUserName srv) \<ge> SIGNALING_CONTROLLER_ICE_SERVER_USER_NAME_BUFFER_LENGTH
      \<or> length (serverPassword srv) \<ge> SIGNALING_CONTROLLER_ICE_SERVER_PASSWORD_BUFFER_LENGTH")
    case False
    let ?cfg = "snd (store_config srv (cfgs ! i))"
    have "config_ok ?cfg" using Cons.prems(2,3) False by (intro store_config_ok) (auto simp: list_all_length)
    then have "list_all config_ok (cfgs[i := ?cfg])" using Cons.prems(3) by (auto simp: list_all_iff dest!: set_update_subset_insert [THEN subsetD])
    with Cons.IH [of "i + 1" _ "cfgs[i := ?cfg]"] Cons.prems False show ?thesis by (auto simp: Let_def split: prod.splits if_splits)
  qed (use Cons.prems in \<open>auto split: if_splits\<close>)
qed simp

lemma GetIceServerConfigs_ok [keeps_ok]:
  assumes "GetIceServerConfigs lib os c s = Some (r, c', s')" "context_ok lib c"
  shows "context_ok lib c'"
proof -
  from assms(1) obtain r1 c1 content s1 where p: "post_signaling os (Signaling_ConstructGetIceServerConfigRequest lib (httpsEndpoint c) (signalingChannelArn c) (pClientId c)
      SIGNALING_CONTROLLER_HTTP_URL_BUFFER_LENGTH SIGNALING_CONTROLLER_HTTP_BODY_BUFFER_LENGTH) c s = Some (r1, c1, content, s1)"
    and rest: "c' = c1 \<or> (\<exists>srvs ok n m cfgs. store_configs 0 srvs (- 1) (iceServerConfigs c1) = (ok, n, m, cfgs)
      \<and> (c' = c1\<lparr>iceServerConfigs := cfgs\<rparr> \<or> (\<exists>e. c' = c1\<lparr>iceServerConfigs := cfgs, iceServerConfigsCount := n, iceServerConfigExpirationSec := e\<rparr>)))"
    by (auto simp: GetIceServerConfigs_def Let_def split: bind_splits if_splits option.splits prod.splits) blast+
  from post_keeps [OF p] assms(2) have c1: "context_ok lib c1" by auto
  then have "list_all config_ok cfgs \<and> n \<le> SIGNALING_CONTROLLER_ICE_SERVER_MAX_CONFIG_COUNT \<and> length cfgs = SIGNALING_CONTROLLER_ICE_SERVER_MAX_CONFIG_COUNT"
    if "store_configs 0 srvs (- 1) (iceServerConfigs c1) = (ok, n, m, cfgs)" for srvs ok n m cfgs
    using store_configs_ok [OF that] by (simp add: context_ok_def servers_ok_def)
  with rest c1 show ?thesis by (auto simp: context_defs)
qed

lemma ConnectToWssEndpoint_ok [keeps_ok]: "ConnectToWssEndpoint lib os c s = Some (r, c', s') \<Longrightarrow> context_ok lib c \<Longrightarrow> context_ok lib c'"
  by (auto simp: ConnectToWssEndpoint_def Let_def split: option.splits prod.splits)

lemma JoinStorageSession_ok [keeps_ok]: "JoinStorageSession lib os c s = Some (r, c', s') \<Longrightarrow> context_ok lib c \<Longrightarrow> context_ok lib c'"
  by (auto simp: JoinStorageSession_def dest!: post_keeps)

lemma obtain_credentials_ok [keeps_ok]: "obtain_credentials lib os info c s = Some (r, c', s') \<Longrightarrow> context_ok lib c \<Longrightarrow> context_ok lib c'"
  by (auto simp: obtain_credentials_def split: prod.splits if_splits intro: FetchTemporaryCredentials_ok copy_static_credentials_ok)

lemma sig_then_ok:
  assumes "sig_then f x = Some y" "context_ok lib (fst (snd x))"
    and "\<And>c s r c' s'. f c s = Some (r, c', s') \<Longrightarrow> context_ok lib c \<Longrightarrow> context_ok lib c'"
  shows "context_ok lib (fst (snd y))"
  using assms by (cases x; cases y) (auto simp: sig_then_def split: if_splits)

lemma connect_steps_ok:
  assumes "connect_steps lib os info c s = Some y" "context_ok lib c"
  shows "context_ok lib (fst (snd y))"
proof -
  from assms(1) obtain x1 x2 x3 x4 x5 where x: "obtain_credentials lib os info c s = Some x1" "sig_then (DescribeSignalingChannel lib os (channelName info)) x1 = Some x2"
    "sig_then (GetSignalingChannelEndpoints lib os (enableStorageSession info)) x2 = Some x3" "sig_then (GetIceServerConfigs lib os) x3 = Some x4"
    "sig_then (ConnectToWssEndpoint lib os) x4 = Some x5"
    "(if enableStorageSession info then sig_then (JoinStorageSession lib os) x5 else Some x5) = Some y"
    by (auto simp: connect_steps_def split: bind_splits)
  have "context_ok lib (fst (snd x1))" using x(1) assms(2) by (cases x1) (auto intro: obtain_credentials_ok)
  then have "context_ok lib (fst (snd x2))" by (rule sig_then_ok [OF x(2)]) (rule DescribeSignalingChannel_ok)
  then have "context_ok lib (fst (snd x3))" by (rule sig_then_ok [OF x(3)]) (rule GetSignalingChannelEndpoints_ok)
  then have "context_ok lib (fst (snd x4))" by (rule sig_then_ok [OF x(4)]) (rule GetIceServerConfigs_ok)
  then have x5: "context_ok lib (fst (snd x5))" by (rule sig_then_ok [OF x(5)]) (rule ConnectToWssEndpoint_ok)
  show ?thesis
  proof (cases "enableStorageSession info")
    case True
    with x(6) have "sig_then (JoinStorageSession lib os) x5 = Some y" by simp
    then show ?thesis using x5 by (rule sig_then_ok) (rule JoinStorageSession_ok)
  qed (use x5 x(6) in simp)
qed

lemma ConnectToSignalingService_ok [keeps_ok]: "ConnectToSignalingService lib os info c s = Some (r, c', s') \<Longrightarrow> context_ok lib c \<Longrightarrow> context_ok lib c'"
  by (auto simp: ConnectToSignalingService_def intro!: OnConnectionStateChange_ok dest!: connect_steps_ok)

lemma listen_step_ok:
  assumes "listen_step lib os info (p, c, s) = Some (p', c', s')" "context_ok lib c"
  shows "context_ok lib c'"
proof (cases p)
  case LISTEN_CONNECT
  with assms show ?thesis by (auto simp: listen_step_def intro: ConnectToSignalingService_ok)
next
  case LISTEN_SERVE
  with assms show ?thesis
    by (auto simp: listen_step_def listen_serve_def Let_def intro!: OnConnectionStateChange_ok split: prod.splits if_splits dest!: FetchTemporaryCredentials_ok)
qed

section \<open>Reachable states\<close>

text \<open>A controller is initialised and listens; between the steps of its thread the application sends, asks for the ICE servers, renews
  them and changes its callback.\<close>

inductive signaling_reach ::
    "signaling_lib \<Rightarrow> 's signaling_os \<Rightarrow> SignalingControllerConnectInfo \<Rightarrow> listen_phase \<times> SignalingControllerContext \<times> 's \<Rightarrow> bool"
  for lib :: signaling_lib and os :: "'s signaling_os" and info :: SignalingControllerConnectInfo where
  start: "announced c = [] \<Longrightarrow> SignalingController_Init (Some c) True mutexOk = (SIGNALING_CONTROLLER_RESULT_OK, Some c1)
    \<Longrightarrow> SignalingController_StartListening (Some c1) (Some info) = Inr (p, c2) \<Longrightarrow> signaling_reach lib os info (p, c2, s)"
| listen: "signaling_reach lib os info x \<Longrightarrow> listen_step lib os info x = Some y \<Longrightarrow> signaling_reach lib os info y"
| send: "signaling_reach lib os info (p, c, s) \<Longrightarrow> SignalingController_SendMessage lib (Some c) pMsg malMsg malNode = Some (r, Some c', acts)
    \<Longrightarrow> signaling_reach lib os info (p, c', s)"
| query: "signaling_reach lib os info (p, c, s) \<Longrightarrow> SignalingController_QueryIceServerConfigs lib os (Some c) outs s = Some (r, Some c', cfgs, s')
    \<Longrightarrow> signaling_reach lib os info (p, c', s')"
| refresh: "signaling_reach lib os info (p, c, s) \<Longrightarrow> SignalingController_RefreshIceServerConfigs lib os (Some c) s = Some (r, Some c', s')
    \<Longrightarrow> signaling_reach lib os info (p, c', s')"
| callback: "signaling_reach lib os info (p, c, s) \<Longrightarrow> SignalingController_SetConnectionStateCallback (Some c) b = (r, Some c')
    \<Longrightarrow> signaling_reach lib os info (p, c', s)"

lemma zero_config_ok: "config_ok zero_config"
  by (simp add: config_ok_def uri_ok_def SIGNALING_CONTROLLER_ICE_SERVER_URI_BUFFER_LENGTH_def zero_config_def list_all_length SIGNALING_CONTROLLER_ICE_SERVER_USER_NAME_BUFFER_LENGTH_def
      SIGNALING_CONTROLLER_ICE_SERVER_PASSWORD_BUFFER_LENGTH_def)

lemma zero_signaling_context_ok: "announced c = [] \<Longrightarrow> context_ok lib (zero_signaling_context c)"
  using zero_config_ok by (simp add: context_defs zero_signaling_context_def list_all_length)

lemma SignalingController_Init_ok:
  "announced c = [] \<Longrightarrow> SignalingController_Init (Some c) creds mutexOk = (SIGNALING_CONTROLLER_RESULT_OK, Some c1) \<Longrightarrow> context_ok lib c1"
  by (auto simp: SignalingController_Init_def Let_def zero_signaling_context_ok intro!: OnConnectionStateChange_ok split: if_splits prod.splits)

lemma SignalingController_SendMessage_ok:
  "SignalingController_SendMessage lib (Some c) pMsg malMsg malNode = Some (r, Some c', acts) \<Longrightarrow> context_ok lib c \<Longrightarrow> context_ok lib c'"
  by (auto simp: SignalingController_SendMessage_def split: option.splits if_splits bind_splits sum.splits)

lemma signaling_reach_ok: "signaling_reach lib os info x \<Longrightarrow> context_ok lib (fst (snd x))"
proof (induction rule: signaling_reach.induct)
  case (start c mutexOk c1 p c2 s)
  then show ?case using SignalingController_Init_ok [of c True mutexOk c1 lib] by (auto simp: SignalingController_StartListening_def split: if_splits)
next
  case (listen x y)
  then show ?case by (cases x; cases y) (auto intro: listen_step_ok)
next
  case (send p c s pMsg malMsg malNode r c' acts)
  then show ?case using SignalingController_SendMessage_ok by auto
next
  case (query p c s outs r c' cfgs s')
  then show ?case
    by (auto simp: SignalingController_QueryIceServerConfigs_def split: if_splits prod.splits dest: GetIceServerConfigs_ok)
next
  case (refresh p c s r c' s')
  then show ?case by (auto simp: SignalingController_RefreshIceServerConfigs_def dest: GetIceServerConfigs_ok)
next
  case (callback p c s b r c')
  then show ?case by (auto simp: SignalingController_SetConnectionStateCallback_def)
qed



section \<open>Credentials on a reconnect\<close>

definition credentials_of :: "SignalingControllerContext \<Rightarrow> string \<times> string \<times> string \<times> u64" where
  "credentials_of c = (accessKeyId c, secretAccessKey c, sessionToken c, expirationSeconds c)"

lemma credentials_kept:
  "post_signaling os q c s = Some (r, c1, content, s1) \<Longrightarrow> credentials_of c1 = credentials_of c"
  "DescribeSignalingChannel lib os ch c s = Some (r, c', s') \<Longrightarrow> credentials_of c' = credentials_of c"
  "GetSignalingChannelEndpoints lib os st c s = Some (r, c', s') \<Longrightarrow> credentials_of c' = credentials_of c"
  "GetIceServerConfigs lib os c s = Some (r, c', s') \<Longrightarrow> credentials_of c' = credentials_of c"
  "ConnectToWssEndpoint lib os c s = Some (r, c', s') \<Longrightarrow> credentials_of c' = credentials_of c"
  "JoinStorageSession lib os c s = Some (r, c', s') \<Longrightarrow> credentials_of c' = credentials_of c"
proof -
  show post: "post_signaling os q c s = Some (r, c1, content, s1) \<Longrightarrow> credentials_of c1 = credentials_of c" for q c s r c1 content s1
    using post_keeps [of os q c s r c1 content s1] by (auto simp: credentials_of_def)
  note * = credentials_of_def
  show "DescribeSignalingChannel lib os ch c s = Some (r, c', s') \<Longrightarrow> credentials_of c' = credentials_of c"
    by (auto simp: DescribeSignalingChannel_def * split: bind_splits if_splits option.splits dest!: post_keeps)
  show "GetSignalingChannelEndpoints lib os st c s = Some (r, c', s') \<Longrightarrow> credentials_of c' = credentials_of c"
    by (auto simp: GetSignalingChannelEndpoints_def store_endpoints_def Let_def * split: bind_splits if_splits option.splits dest!: post_keeps)
  show "GetIceServerConfigs lib os c s = Some (r, c', s') \<Longrightarrow> credentials_of c' = credentials_of c"
    by (auto simp: GetIceServerConfigs_def Let_def * split: bind_splits if_splits option.splits prod.splits dest!: post_keeps)
  show "ConnectToWssEndpoint lib os c s = Some (r, c', s') \<Longrightarrow> credentials_of c' = credentials_of c"
    by (auto simp: ConnectToWssEndpoint_def Let_def * split: option.splits prod.splits)
  show "JoinStorageSession lib os c s = Some (r, c', s') \<Longrightarrow> credentials_of c' = credentials_of c"
    by (auto simp: JoinStorageSession_def * dest!: post_keeps)
qed

lemma sig_then_credentials:
  assumes "sig_then f x = Some y" "\<And>c s r c' s'. f c s = Some (r, c', s') \<Longrightarrow> credentials_of c' = credentials_of c"
  shows "credentials_of (fst (snd y)) = credentials_of (fst (snd x))"
  using assms by (cases x; cases y) (auto simp: sig_then_def split: if_splits)

lemma connect_steps_credentials:
  assumes "connect_steps lib os info c s = Some y"
  obtains x where "obtain_credentials lib os info c s = Some x" "credentials_of (fst (snd y)) = credentials_of (fst (snd x))"
proof -
  from assms obtain x1 x2 x3 x4 x5 where x: "obtain_credentials lib os info c s = Some x1" "sig_then (DescribeSignalingChannel lib os (channelName info)) x1 = Some x2"
    "sig_then (GetSignalingChannelEndpoints lib os (enableStorageSession info)) x2 = Some x3" "sig_then (GetIceServerConfigs lib os) x3 = Some x4"
    "sig_then (ConnectToWssEndpoint lib os) x4 = Some x5"
    "(if enableStorageSession info then sig_then (JoinStorageSession lib os) x5 else Some x5) = Some y"
    by (auto simp: connect_steps_def split: bind_splits)
  have "credentials_of (fst (snd y)) = credentials_of (fst (snd x5))"
    using x(6) sig_then_credentials [of "JoinStorageSession lib os" x5 y] credentials_kept(6) [of lib os] by (auto split: if_splits)
  also have "\<dots> = credentials_of (fst (snd x4))" by (rule sig_then_credentials [OF x(5)]) (rule credentials_kept)
  also have "\<dots> = credentials_of (fst (snd x3))" by (rule sig_then_credentials [OF x(4)]) (rule credentials_kept)
  also have "\<dots> = credentials_of (fst (snd x2))" by (rule sig_then_credentials [OF x(3)]) (rule credentials_kept)
  also have "\<dots> = credentials_of (fst (snd x1))" by (rule sig_then_credentials [OF x(2)]) (rule credentials_kept)
  finally show ?thesis using x(1) that by blast
qed

lemma OnConnectionStateChange_credentials [simp]: "credentials_of (OnConnectionStateChange st c) = credentials_of c"
  by (simp add: OnConnectionStateChange_def credentials_of_def)

text \<open>C12: A reconnect forgets credentials that are still valid.  When temporary credentials of AWS IoT are in use and have not yet
  expired, connecting to the signaling service replaces them by those of the application, whatever the outcome of the connection is.\<close>

theorem reconnect_forgets_credentials:
  assumes "ConnectToSignalingService lib os info c s = Some (r, c', s')" "currentTimeSec os s = (now, s1)"
    and "uses_iot (awsIotCreds info)" "expirationSeconds c \<noteq> 0" "now < expirationSeconds c - SIGNALING_CONTROLLER_FETCH_CREDS_GRACE_PERIOD_SEC"
  shows "credentials_of c' = (AwsCredentials.pAccessKeyId (awsCreds info), pSecretAccessKey (awsCreds info),
    (case pSessionToken (awsCreds info) of None \<Rightarrow> [] | Some t \<Rightarrow> t), credExpirationSeconds (awsCreds info))"
proof -
  from assms(1) obtain y where y: "connect_steps lib os info (take_connect_info info c) s = Some y" "credentials_of c' = credentials_of (fst (snd y))"
    by (auto simp: ConnectToSignalingService_def split: prod.splits)
  from connect_steps_credentials [OF y(1)] obtain x where x: "obtain_credentials lib os info (take_connect_info info c) s = Some x"
    "credentials_of (fst (snd y)) = credentials_of (fst (snd x))" by blast
  have "AreCredentialsExpired os info (take_connect_info info c) s = (False, s1)"
    using assms(2,4,5) by (simp add: AreCredentialsExpired_def take_connect_info_def not_le)
  with x y(2) show ?thesis
    by (auto simp: obtain_credentials_def copy_static_credentials_def Let_def credentials_of_def split: if_splits)
qed

section \<open>Messages\<close>

lemma SignalingController_SendMessage_OK:
  assumes "SignalingController_SendMessage lib (Some c) (Some msg) malMsg malNode = Some (SIGNALING_CONTROLLER_RESULT_OK, Some c', acts)" "pMessage msg = Some m"
  obtains payload out where
    "Base64_Encode (Some m) (Some SIGNALING_CONTROLLER_MESSAGE_BUFFER_LENGTH) = Some (Inr payload)"
    "Signaling_ConstructWssMessage lib \<lparr>sendType = messageType msg, sendPayload = payload, sendCorrelationId = pCorrelationId msg, sendRecipient = pRemoteClientId msg\<rparr>
       SIGNALING_CONTROLLER_MESSAGE_BUFFER_LENGTH = Some out"
    "Networking_WebsocketSend (Some (websocketContext c)) (Some out) (length out) malMsg malNode = Some (NETWORKING_RESULT_OK, Some (websocketContext c'), acts)"
proof -
  from assms obtain payload out r ws where s: "Base64_Encode (Some m) (Some SIGNALING_CONTROLLER_MESSAGE_BUFFER_LENGTH) = Some (Inr payload)"
    "Signaling_ConstructWssMessage lib \<lparr>sendType = messageType msg, sendPayload = payload, sendCorrelationId = pCorrelationId msg, sendRecipient = pRemoteClientId msg\<rparr>
       SIGNALING_CONTROLLER_MESSAGE_BUFFER_LENGTH = Some out"
    "Networking_WebsocketSend (Some (websocketContext c)) (Some out) (length out) malMsg malNode = Some (NETWORKING_RESULT_OK, ws, acts)"
    "c' = c\<lparr>websocketContext := the ws\<rparr>"
    by (auto simp: SignalingController_SendMessage_def split: option.splits if_splits bind_splits sum.splits)
  then have ws: "ws = Some (websocketContext c')"
    by (auto simp: Networking_WebsocketSend_def split: option.splits if_splits RingBufferResult.splits)
  show ?thesis by (rule that [OF s(1,2)]) (use s(3) ws in simp)
qed

lemma base64_fits:
  assumes "Base64_Encode (Some m) (Some room) = Some (Inr payload)"
  shows "4 * ((length m + 2) div 3) \<le> room"
proof -
  define q r where "q = length m div 3" and "r = length m mod 3"
  have n: "length m = 3 * q + r" and "r < 3" by (simp_all add: q_def r_def)
  then have "r = 0 \<or> r = 1 \<or> r = 2" by linarith
  then have "4 * (length m + base64EncodePadding ! r) div 3 = 4 * ((length m + 2) div 3)"
    unfolding n by (elim disjE) (simp_all add: base64EncodePadding_def)
  with assms show ?thesis unfolding r_def by (auto simp: Base64_Encode_def Let_def split: if_splits)
qed


section \<open>Examples\<close>

text \<open>A library that constructs no request, and frames a message as its payload with the type in front of it.\<close>

definition demo_lib :: signaling_lib where
  "demo_lib = \<lparr>ACCESS_KEY_MAX_LEN = 128, SECRET_ACCESS_KEY_MAX_LEN = 128, SESSION_TOKEN_MAX_LEN = 2048,
     Signaling_ConstructFetchTempCredsRequestForAwsIot = (\<lambda>_ _ _. None), Signaling_ParseFetchTempCredsResponseFromAwsIot = (\<lambda>_. None),
     Signaling_ConstructDescribeSignalingChannelRequest = (\<lambda>_ _ _ _. None), Signaling_ParseDescribeSignalingChannelResponse = (\<lambda>_. None),
     Signaling_ConstructGetSignalingChannelEndpointRequest = (\<lambda>_ _ _ _ _ _. None), Signaling_ParseGetSignalingChannelEndpointResponse = (\<lambda>_. None),
     Signaling_ConstructJoinStorageSessionRequest = (\<lambda>_ _ _ _ _. None), Signaling_ConstructGetIceServerConfigRequest = (\<lambda>_ _ _ _ _. None),
     Signaling_ParseGetIceServerConfigResponse = (\<lambda>_ _. None), Signaling_ConstructConnectWssEndpointRequest = (\<lambda>_ _ _ _ _ _. None),
     Signaling_ConstructWssMessage = (\<lambda>m _. Some ((if sendType m = SIGNALING_TYPE_MESSAGE_SDP_OFFER then 1 else 0) # sendPayload m)),
     Signaling_ParseWssRecvMessage = (\<lambda>_. None)\<rparr>"

definition demo_signaling_os :: "unit signaling_os" where
  "demo_signaling_os = \<lparr>nextHttp = \<lambda>s. (demo_http_world, s), nextWs = \<lambda>s. (demo_ws_world, s), nextService = \<lambda>s. (id, s), currentTimeSec = \<lambda>s. (100, s), timegm_of = \<lambda>_. 0\<rparr>"

definition demo_info :: "string \<Rightarrow> SignalingControllerConnectInfo" where
  "demo_info thing = \<lparr>awsCreds = \<lparr>AwsCredentials.pAccessKeyId = ''static'', pSecretAccessKey = ''secret'', pSessionToken = None, credExpirationSeconds = 0\<rparr>,
     infoAwsConfig = demo_aws_config, awsIotCreds = \<lparr>pThingName = thing, pRoleAlias = ''role'', pIotCredentialsEndpoint = ''iot''\<rparr>, channelName = ''ch'',
     infoUserAgentName = ''ua'', infoMessageReceivedCallback = True, infoRole = SIGNALING_ROLE_MASTER, enableStorageSession = False, infoClientId = ''me''\<rparr>"

definition demo_context :: SignalingControllerContext where
  "demo_context = \<lparr>connectionState = SIGNALING_CONTROLLER_STATE_CONNECTED, accessKeyId = ''temporary'', secretAccessKey = ''secret2'', sessionToken = ''token'',
     expirationSeconds = 1000, signalingChannelArn = [], wssEndpoint = [], httpsEndpoint = [], webrtcEndpoint = [], iceServerConfigExpirationSec = 0,
     iceServerConfigsCount = 0, iceServerConfigs = [], pUserAgentName = [], pClientId = [], ctxRole = SIGNALING_ROLE_MASTER, awsConfig = demo_aws_config,
     messageReceivedCallback = True, connectionStateCallback = True, signalingRxMessageBuffer = [], announced = [], httpContext = demo_http, websocketContext = ws_init\<rparr>"

lemmas demo_defs = demo_lib_def demo_signaling_os_def demo_info_def demo_context_def

definition demo_started :: SignalingControllerContext where
  "demo_started = the (snd (SignalingController_Init (Some demo_context) True True))"

definition demo_failed :: SignalingControllerContext where
  "demo_failed = fst (snd (the (ConnectToSignalingService demo_lib demo_signaling_os (demo_info []) (demo_started\<lparr>connectionStateCallback := True\<rparr>) ())))"

lemma demo_init: "SignalingController_Init (Some demo_context) True True = (SIGNALING_CONTROLLER_RESULT_OK, Some demo_started)"
  "connectionState demo_started = SIGNALING_CONTROLLER_STATE_NONE" "announced demo_started = []"
  by (simp_all add: demo_started_def SignalingController_Init_def Networking_HttpInit_def Networking_WebsocketInit_def RingBuffer_Init_def OnConnectionStateChange_def
      zero_signaling_context_def demo_context_def ws_init_def)

lemma demo_connect: "ConnectToSignalingService demo_lib demo_signaling_os (demo_info []) (demo_started\<lparr>connectionStateCallback := True\<rparr>) () = Some (SIGNALING_CONTROLLER_RESULT_FAIL, demo_failed, ())"
  "announced demo_failed = [SIGNALING_CONTROLLER_STATE_DISCONNECTED]"
  using demo_init(2,3)
  by (simp_all add: demo_failed_def ConnectToSignalingService_def connect_steps_def obtain_credentials_def AreCredentialsExpired_def uses_iot_def
      copy_static_credentials_def sig_then_def DescribeSignalingChannel_def post_signaling_def OnConnectionStateChange_def take_connect_info_def demo_lib_def demo_signaling_os_def demo_info_def)

lemma demo_signaling_reach: "signaling_reach demo_lib demo_signaling_os (demo_info []) (LISTEN_CONNECT, demo_failed, ())"
proof -
  have "signaling_reach demo_lib demo_signaling_os (demo_info []) (LISTEN_CONNECT, demo_started, ())"
    by (rule signaling_reach.start [OF _ demo_init(1)]) (simp_all add: demo_context_def SignalingController_StartListening_def demo_info_def)
  then have "signaling_reach demo_lib demo_signaling_os (demo_info []) (LISTEN_CONNECT, demo_started\<lparr>connectionStateCallback := True\<rparr>, ())"
    by (rule signaling_reach.callback) (simp add: SignalingController_SetConnectionStateCallback_def)
  then show ?thesis by (rule signaling_reach.listen) (simp add: listen_step_def demo_connect(1))
qed



theorem reconnect_forgets_credentials_witness:
  "\<exists>r c'. ConnectToSignalingService demo_lib demo_signaling_os (demo_info ''thing'') demo_context () = Some (r, c', ())
    \<and> credentials_of demo_context = (''temporary'', ''secret2'', ''token'', 1000) \<and> credentials_of c' = (''static'', ''secret'', [], 0)"
proof -
  have time: "currentTimeSec demo_signaling_os () = (100, ())" "uses_iot (awsIotCreds (demo_info ''thing''))" "expirationSeconds demo_context = 1000"
    by (simp_all add: demo_defs uses_iot_def)
  then obtain r c' where conn: "ConnectToSignalingService demo_lib demo_signaling_os (demo_info ''thing'') demo_context () = Some (r, c', ())"
    by (simp add: ConnectToSignalingService_def connect_steps_def obtain_credentials_def AreCredentialsExpired_def SIGNALING_CONTROLLER_FETCH_CREDS_GRACE_PERIOD_SEC_def
      copy_static_credentials_def sig_then_def DescribeSignalingChannel_def post_signaling_def take_connect_info_def demo_lib_def demo_info_def)
  have "credentials_of c' = (''static'', ''secret'', [], 0)"
    using reconnect_forgets_credentials [OF conn time(1,2)] time(3) by (simp add: SIGNALING_CONTROLLER_FETCH_CREDS_GRACE_PERIOD_SEC_def demo_info_def)
  with conn show ?thesis by (auto simp: credentials_of_def demo_context_def)
qed

text \<open>The other side reads a frame as the service relays it: here the frame itself.\<close>

definition demo_peer_lib :: signaling_lib where
  "demo_peer_lib = demo_lib\<lparr>Signaling_ConstructWssMessage := \<lambda>m _. if sendType m = SIGNALING_TYPE_MESSAGE_SDP_OFFER then Some (sendPayload m) else None,
     Signaling_ParseWssRecvMessage := \<lambda>b. Some \<lparr>recvType = SIGNALING_TYPE_MESSAGE_SDP_OFFER, recvPayload = b, recvSender = ''peer'', recvCorrelationId = []\<rparr>\<rparr>"

definition demo_offer_message :: SignalingMessage where
  "demo_offer_message = \<lparr>pRemoteClientId = ''you'', messageType = SIGNALING_TYPE_MESSAGE_SDP_OFFER, pMessage = Some demo_text, pCorrelationId = []\<rparr>"


end
