(* ===== verification/App_Common.thy ===== *)
theory App_Common
  imports Signaling_Correct Pc_Sdp Ice_Server Ice_Candidate
begin

text \<open>
  The application around signaling and sessions, \<open>app_common/app_common.c\<close>: the table of sessions, one per remote client, and what is done with
  offers, answers, candidates and the reconnect of the ICE servers that arrive over signaling.  The sample handler of the bandwidth
  estimation computes with floating point numbers and is left out, and so are the callbacks that pass received frames on.

  The memory behind a message is the rest of the receive buffer of the signaling controller, which is not cleared between messages.
\<close>

section \<open>Data\<close>

definition REMOTE_ID_MAX_LENGTH :: nat where "REMOTE_ID_MAX_LENGTH = 256"
definition AWS_MAX_VIEWER_NUM :: nat where "AWS_MAX_VIEWER_NUM = 2"
definition DEMO_TRANSCEIVER_MEDIA_INDEX_VIDEO :: nat where "DEMO_TRANSCEIVER_MEDIA_INDEX_VIDEO = 0"
definition DEMO_TRANSCEIVER_MEDIA_INDEX_AUDIO :: nat where "DEMO_TRANSCEIVER_MEDIA_INDEX_AUDIO = 1"
definition SIGNALING_CONNECT_STATE_TIMEOUT_SEC :: u64 where "SIGNALING_CONNECT_STATE_TIMEOUT_SEC = 15"
definition DEMO_JSON_CANDIDATE_MAX_LENGTH :: nat where "DEMO_JSON_CANDIDATE_MAX_LENGTH = 512"

record ('x, 's, 'm, 'w) AppSession =
  remoteClientId :: string
  peerConnectionSession :: "('x, 's, 'm, 'w) pc_ctx"

text \<open>The barrier counts what has been written to its descriptor; \<open>isFirstConnected\<close> is the static variable of the state callback.\<close>

record ('x, 's, 'm, 'w) AppContext =
  signalingControllerContext :: SignalingControllerContext
  signalingControllerClientId :: string
  signalingControllerRole :: SignalingRole
  appSessions :: "('x, 's, 'm, 'w) AppSession list"
  natTraversalConfig :: u32
  signalingConnectionBarrier :: nat
  isFirstConnected :: bool

text \<open>The settings of \<open>demo_config.h\<close>; a macro that may be undefined is an option.\<close>

record demo_config =
  AWS_REGION :: string
  AWS_KVS_CHANNEL_NAME :: string
  AWS_KVS_AGENT_NAME :: string
  AWS_CA_CERT_PATH :: string
  AWS_ACCESS_KEY :: "(string \<times> string \<times> string option) option"
  AWS_IOT_THING :: "(string \<times> string \<times> string) option"
  JOIN_STORAGE_SESSION :: bool

text \<open>What the application runs in: the environment of its sessions, the part of a session that its descriptions are composed from, the SDP
  writer with the number of a description, the signaling library, the world of the signaling controller with what \<open>malloc\<close>
  gives for the next message, the JSON library, and the function of the media source that sets up a transceiver.\<close>

record ('x, 's, 'm, 'w, 'q, 'p, 'c, 'o) app_env =
  appConfig :: demo_config
  appPc :: "('x, 's, 'm, 'w) pc_env"
  appSdp :: "('x, 's, 'm, 'w) pc_ctx \<Rightarrow> ('q, 'p) sdp_session"
  appSerializer :: "'c sdp_serializer"
  appRandom :: u64
  appSignaling :: signaling_lib
  appSignalingOs :: "'o signaling_os"
  appMalloc :: "'o \<Rightarrow> (nat option \<times> nat option) \<times> 'o"
  appJson :: "string \<Rightarrow> (string \<times> string \<times> string) list option"
  initTransceiverFunc :: "TransceiverTrackKind \<Rightarrow> nat \<Rightarrow> 'w \<Rightarrow> int \<times> 'w"

section \<open>The thread of the signaling controller\<close>

definition task_connect_info :: "demo_config \<Rightarrow> ('x, 's, 'm, 'w) AppContext \<Rightarrow> SignalingControllerConnectInfo" where
  "task_connect_info cfg a =
     \<lparr>awsCreds = (case AWS_ACCESS_KEY cfg of
                    None \<Rightarrow> \<lparr>AwsCredentials.pAccessKeyId = [], pSecretAccessKey = [], pSessionToken = None, credExpirationSeconds = 0\<rparr>
                  | Some (key, secret, token) \<Rightarrow>
                      \<lparr>AwsCredentials.pAccessKeyId = key, pSecretAccessKey = secret, pSessionToken = token, credExpirationSeconds = 0\<rparr>),
      infoAwsConfig = \<lparr>pRegion = AWS_REGION cfg, pService = ''kinesisvideo''\<rparr>,
      awsIotCreds = (case AWS_IOT_THING cfg of
                       None \<Rightarrow> \<lparr>pThingName = [], pRoleAlias = [], pIotCredentialsEndpoint = []\<rparr>
                     | Some (thing, role, ep) \<Rightarrow> \<lparr>pThingName = thing, pRoleAlias = role, pIotCredentialsEndpoint = ep\<rparr>),
      channelName = AWS_KVS_CHANNEL_NAME cfg, infoUserAgentName = AWS_KVS_AGENT_NAME cfg, infoMessageReceivedCallback = True,
      infoRole = signalingControllerRole a, enableStorageSession = JOIN_STORAGE_SESSION cfg, infoClientId = signalingControllerClientId a\<rparr>"

text \<open>The thread listens until the controller refuses; the listening itself is the steps of the controller.\<close>

definition SignalingController_Task ::
    "demo_config \<Rightarrow> ('x, 's, 'm, 'w) AppContext option \<Rightarrow> int + listen_phase \<times> SignalingControllerContext" where
  "SignalingController_Task cfg pApp =
     (case pApp of
        None \<Rightarrow> Inl (-1)
      | Some a \<Rightarrow> (case SignalingController_StartListening (Some (signalingControllerContext a)) (Some (task_connect_info cfg a)) of
                    Inl r \<Rightarrow> Inl (if r \<noteq> SIGNALING_CONTROLLER_RESULT_OK then -1 else 0)
                  | Inr x \<Rightarrow> Inr x))"

text \<open>The callback for the state of the connection; \<open>writeOk\<close> says whether the write to the barrier succeeds.\<close>

definition OnSignalingConnectionStateChange ::
    "bool \<Rightarrow> SignalingControllerConnectionState \<Rightarrow> ('x, 's, 'm, 'w) AppContext option \<Rightarrow> ('x, 's, 'm, 'w) AppContext option" where
  "OnSignalingConnectionStateChange writeOk st pApp =
     map_option (\<lambda>a. if isFirstConnected a \<and> st = SIGNALING_CONTROLLER_STATE_CONNECTED \<and> writeOk
                     then a\<lparr>isFirstConnected := False, signalingConnectionBarrier := signalingConnectionBarrier a + 1\<rparr> else a) pApp"

section \<open>Sessions\<close>

definition put_session :: "nat \<Rightarrow> ('x, 's, 'm, 'w) pc_ctx \<Rightarrow> ('x, 's, 'm, 'w) AppContext \<Rightarrow> ('x, 's, 'm, 'w) AppContext" where
  "put_session i p a = a\<lparr>appSessions := (appSessions a)[i := (appSessions a ! i)\<lparr>peerConnectionSession := p\<rparr>]\<rparr>"

abbreviation session_of :: "('x, 's, 'm, 'w) AppContext \<Rightarrow> nat \<Rightarrow> ('x, 's, 'm, 'w) pc_ctx" where
  "session_of a i \<equiv> peerConnectionSession (appSessions a ! i)"

text \<open>The ICE servers as \<open>GetIceServerList\<close> reads them.\<close>

definition stored_config :: "StoredIceServerConfig \<Rightarrow> IceServerConfig" where
  "stored_config cfg = \<lparr>iceServerUris = take (iceServerUriCount cfg) (storedUris cfg), configUserName = storedUserName cfg, configPassword = storedPassword cfg\<rparr>"

definition session_servers ::
    "('x, 's, 'm, 'w, 'q, 'p, 'c, 'o) app_env \<Rightarrow> ('x, 's, 'm, 'w) AppContext \<Rightarrow> 'o
      \<Rightarrow> (int \<times> IceControllerIceServer list \<times> ('x, 's, 'm, 'w) AppContext \<times> 'o) option" where
  "session_servers e a w =
     do {
       (r, sc, cfgs, w1) \<leftarrow> SignalingController_QueryIceServerConfigs (appSignaling e) (appSignalingOs e) (Some (signalingControllerContext a)) True w;
       (ret, n, servers) \<leftarrow> GetIceServerList (AWS_REGION (appConfig e))
         (if r = SIGNALING_CONTROLLER_RESULT_OK then map_option (map stored_config) cfgs else None)
         (Some (replicate ICE_CONTROLLER_MAX_ICE_SERVER_COUNT blank_server));
       Some (ret, take n servers, a\<lparr>signalingControllerContext := the sc\<rparr>, w1)
     }"

text \<open>Transceivers are at the addresses of their entries in the application sessions.\<close>

definition transceiver_address :: "nat \<Rightarrow> nat \<Rightarrow> nat" where
  "transceiver_address i k = i * PEER_CONNECTION_TRANSCEIVER_MAX_COUNT + k"

definition add_transceiver ::
    "('x, 's, 'm, 'w, 'q, 'p, 'c, 'o) app_env \<Rightarrow> TransceiverTrackKind \<Rightarrow> nat \<Rightarrow> ('x, 's, 'm, 'w) pc_ctx \<Rightarrow> int \<times> ('x, 's, 'm, 'w) pc_ctx" where
  "add_transceiver e kind address p =
     (let (ret, w) = initTransceiverFunc e kind address (outer (world p)); p1 = p\<lparr>world := (world p)\<lparr>outer := w\<rparr>\<rparr>
      in if ret \<noteq> 0 then (ret, p1)
         else (let (r, p2) = PeerConnection_AddTransceiver (appPc e) address p1 in (if r \<noteq> PEER_CONNECTION_RESULT_OK then -1 else 0, p2)))"

text \<open>Both transceivers, then the name of the client, then the start.  The callback for local candidates is part of the environment.\<close>

definition start_session ::
    "('x, 's, 'm, 'w, 'q, 'p, 'c, 'o) app_env \<Rightarrow> nat \<Rightarrow> string \<Rightarrow> IceControllerIceServer list \<Rightarrow> u32 \<Rightarrow> ('x, 's, 'm, 'w) AppSession
      \<Rightarrow> int \<times> ('x, 's, 'm, 'w) AppSession" where
  "start_session e i clientId servers bits s =
     (let (r1, p1) = PeerConnection_AddIceServerConfig
            (Some \<lparr>cfgNatTraversal = bits, cfgIceServers = servers, cfgRootCaPath = AWS_CA_CERT_PATH (appConfig e), cfgRootCaPem = []\<rparr>) (peerConnectionSession s)
      in if r1 \<noteq> PEER_CONNECTION_RESULT_OK then (-1, s\<lparr>peerConnectionSession := p1\<rparr>)
         else
           (let (r2, p2) = add_transceiver e TRANSCEIVER_TRACK_KIND_VIDEO (transceiver_address i DEMO_TRANSCEIVER_MEDIA_INDEX_VIDEO) p1
            in if r2 \<noteq> 0 then (r2, s\<lparr>peerConnectionSession := p2\<rparr>)
               else
                 (let (r3, p3) = add_transceiver e TRANSCEIVER_TRACK_KIND_AUDIO (transceiver_address i DEMO_TRANSCEIVER_MEDIA_INDEX_AUDIO) p2
                  in if r3 \<noteq> 0 then (r3, s\<lparr>peerConnectionSession := p3\<rparr>)
                     else
                       (let (r4, p4) = PeerConnection_Start p3
                        in (if r4 \<noteq> PEER_CONNECTION_RESULT_OK then -1 else 0, s\<lparr>remoteClientId := clientId, peerConnectionSession := p4\<rparr>)))))"

definition StartPeerConnectionSession ::
    "('x, 's, 'm, 'w, 'q, 'p, 'c, 'o) app_env \<Rightarrow> nat \<Rightarrow> string \<Rightarrow> ('x, 's, 'm, 'w) AppContext \<Rightarrow> 'o
      \<Rightarrow> (int \<times> ('x, 's, 'm, 'w) AppContext \<times> 'o) option" where
  "StartPeerConnectionSession e i clientId a w =
     (if length clientId > REMOTE_ID_MAX_LENGTH then Some (-1, a, w)
      else do {
        (ret, servers, a1, w1) \<leftarrow> session_servers e a w;
        if ret \<noteq> 0 then Some (ret, a1, w1)
        else (let (ret2, s) = start_session e i clientId servers (natTraversalConfig a1) (appSessions a1 ! i)
              in Some (ret2, a1\<lparr>appSessions := (appSessions a1)[i := s]\<rparr>, w1))
      })"

text \<open>The search keeps the first free session and goes on to look for one of this client.\<close>

fun find_session :: "string \<Rightarrow> nat \<Rightarrow> nat option \<Rightarrow> ('x, 's, 'm, 'w) AppSession list \<Rightarrow> nat option" where
  "find_session clientId i free [] = free"
| "find_session clientId i free (s # ss) =
     (if length (remoteClientId s) = length clientId \<and> strncmp_eq (remoteClientId s) clientId then Some i
      else find_session clientId (i + 1)
        (if free = None \<and> sessionState (world (peerConnectionSession s)) = PEER_CONNECTION_SESSION_STATE_INITED then Some i else free) ss)"

definition AppCommon_GetPeerConnectionSession ::
    "('x, 's, 'm, 'w, 'q, 'p, 'c, 'o) app_env \<Rightarrow> string \<Rightarrow> ('x, 's, 'm, 'w) AppContext \<Rightarrow> 'o
      \<Rightarrow> (nat option \<times> ('x, 's, 'm, 'w) AppContext \<times> 'o) option" where
  "AppCommon_GetPeerConnectionSession e clientId a w =
     (case find_session clientId 0 None (appSessions a) of
        None \<Rightarrow> Some (None, a, w)
      | Some i \<Rightarrow>
          if sessionState (world (session_of a i)) = PEER_CONNECTION_SESSION_STATE_INITED
          then do {
            (ret, a1, w1) \<leftarrow> StartPeerConnectionSession e i clientId a w;
            Some (if ret \<noteq> 0 then None else Some i, a1, w1)
          }
          else Some (Some i, a, w))"

section \<open>Messages\<close>

definition message_text :: "SignalingMessage \<Rightarrow> string option" where
  "message_text msg = map_option (map (\<lambda>b. char_of (unat b))) (pMessage msg)"

text \<open>The session description in a message with its line ends restored.  Its text is read up to a terminator, through the rest of the message and
  what is behind it.\<close>

definition received_sdp :: "(string \<Rightarrow> (string \<times> string \<times> string) list option) \<Rightarrow> bool \<Rightarrow> SignalingMessage \<Rightarrow> bytes \<Rightarrow> string option option" where
  "received_sdp json offer msg behind =
     (let (r, sdp) = SignalingController_ExtractSdpMessageFromSignalingMessage json (message_text msg) offer True
      in if r \<noteq> SIGNALING_CONTROLLER_RESULT_OK then Some None
         else map_option (\<lambda>res. case res of Inl _ \<Rightarrow> None | Inr t \<Rightarrow> Some t)
                (SignalingController_DeserializeSdpContentNewline (Some (fst (the sdp) @ snd (the sdp) @ map (\<lambda>b. char_of (unat b)) behind)) (length (fst (the sdp)))
                  (Some PEER_CONNECTION_SDP_DESCRIPTION_BUFFER_MAX_LENGTH)))"

text \<open>The session of the sender takes the description; that it refuses it is only logged.\<close>

definition take_description ::
    "('x, 's, 'm, 'w, 'q, 'p, 'c, 'o) app_env \<Rightarrow> bool \<Rightarrow> SignalingMessage \<Rightarrow> bytes \<Rightarrow> ('x, 's, 'm, 'w) AppContext \<Rightarrow> 'o
      \<Rightarrow> (nat option \<times> ('x, 's, 'm, 'w) AppContext \<times> 'o) option" where
  "take_description e offer msg behind a w =
     do {
       sdp \<leftarrow> received_sdp (appJson e) offer msg behind;
       case sdp of
         None \<Rightarrow> Some (None, a, w)
       | Some t \<Rightarrow> do {
           (idx, a1, w1) \<leftarrow> AppCommon_GetPeerConnectionSession e (pRemoteClientId msg) a w;
           case idx of
             None \<Rightarrow> Some (None, a1, w1)
           | Some i \<Rightarrow> do {
               (r, p) \<leftarrow> PeerConnection_SetRemoteDescription (appPc e) (Some t) (session_of a1 i);
               Some (Some i, put_session i p a1, w1)
             }
         }
     }"

text \<open>\<open>PeerConnection_SetLocalDescription\<close> stores nothing.\<close>

definition PeerConnection_SetLocalDescription :: "PeerConnectionBufferSessionDescription option \<Rightarrow> ('x, 's, 'm, 'w) pc_ctx option \<Rightarrow> PeerConnectionResult" where
  "PeerConnection_SetLocalDescription pDescription pSession = PEER_CONNECTION_RESULT_OK"

definition local_buffer :: PeerConnectionBufferSessionDescription where
  "local_buffer = \<lparr>pSdpBuffer = Some [], sdpBufferLength = PEER_CONNECTION_SDP_DESCRIPTION_BUFFER_MAX_LENGTH,
     sdpMessageType = SDP_CONTROLLER_MESSAGE_TYPE_NONE, sdpDescription = zero_description\<rparr>"

definition signal_text ::
    "('x, 's, 'm, 'w, 'q, 'p, 'c, 'o) app_env \<Rightarrow> SignalingTypeMessage \<Rightarrow> string \<Rightarrow> string \<Rightarrow> ('x, 's, 'm, 'w) AppContext \<Rightarrow> 'o
      \<Rightarrow> (('x, 's, 'm, 'w) AppContext \<times> 'o) option" where
  "signal_text e type client txt a w =
     (let ((malMsg, malNode), w1) = appMalloc e w
      in map_option (\<lambda>(r, sc, acts). (a\<lparr>signalingControllerContext := the sc\<rparr>, w1))
           (SignalingController_SendMessage (appSignaling e) (Some (signalingControllerContext a))
             (Some \<lparr>pRemoteClientId = client, messageType = type, pMessage = Some (map of_char txt), pCorrelationId = []\<rparr>) malMsg malNode))"

text \<open>The answer: composed, its line ends escaped, and sent to the sender of the offer.\<close>

definition send_sdp_answer ::
    "('x, 's, 'm, 'w, 'q, 'p, 'c, 'o) app_env \<Rightarrow> nat \<Rightarrow> string \<Rightarrow> ('x, 's, 'm, 'w) AppContext \<Rightarrow> 'o \<Rightarrow> (('x, 's, 'm, 'w) AppContext \<times> 'o) option" where
  "send_sdp_answer e i client a w =
     (if PeerConnection_SetLocalDescription (Some local_buffer) (Some (session_of a i)) \<noteq> PEER_CONNECTION_RESULT_OK then Some (a, w)
      else do {
        (r, loc, out) \<leftarrow> PeerConnection_CreateAnswer (appSerializer e) (appRandom e) (Some (appSdp e (session_of a i))) (Some local_buffer)
          (Some PEER_CONNECTION_SDP_DESCRIPTION_BUFFER_MAX_LENGTH);
        if r \<noteq> PEER_CONNECTION_RESULT_OK then Some (a, w)
        else do {
          esc \<leftarrow> SignalingController_SerializeSdpContentNewline out (Some PEER_CONNECTION_SDP_DESCRIPTION_BUFFER_MAX_LENGTH);
          case esc of
            Inl _ \<Rightarrow> Some (a, w)
          | Inr txt \<Rightarrow> signal_text e SIGNALING_TYPE_MESSAGE_SDP_ANSWER client txt a w
        }
      })"

definition HandleSdpOffer ::
    "('x, 's, 'm, 'w, 'q, 'p, 'c, 'o) app_env \<Rightarrow> SignalingMessage option \<Rightarrow> bytes \<Rightarrow> ('x, 's, 'm, 'w) AppContext option \<Rightarrow> 'o
      \<Rightarrow> (('x, 's, 'm, 'w) AppContext option \<times> 'o) option" where
  "HandleSdpOffer e pMsg behind pApp w =
     (case (pApp, pMsg) of
        (Some a, Some msg) \<Rightarrow> do {
          (idx, a1, w1) \<leftarrow> take_description e True msg behind a w;
          (a2, w2) \<leftarrow> (case idx of None \<Rightarrow> Some (a1, w1) | Some i \<Rightarrow> send_sdp_answer e i (pRemoteClientId msg) a1 w1);
          Some (Some a2, w2)
        }
      | _ \<Rightarrow> Some (pApp, w))"

definition HandleSdpAnswer ::
    "('x, 's, 'm, 'w, 'q, 'p, 'c, 'o) app_env \<Rightarrow> SignalingMessage option \<Rightarrow> bytes \<Rightarrow> ('x, 's, 'm, 'w) AppContext option \<Rightarrow> 'o
      \<Rightarrow> (('x, 's, 'm, 'w) AppContext option \<times> 'o) option" where
  "HandleSdpAnswer e pMsg behind pApp w =
     (case (pApp, pMsg) of
        (Some a, Some msg) \<Rightarrow> do {
          (idx, a1, w1) \<leftarrow> take_description e False msg behind a w;
          Some (Some a1, w1)
        }
      | _ \<Rightarrow> Some (pApp, w))"

definition HandleRemoteCandidate ::
    "('x, 's, 'm, 'w, 'q, 'p, 'c, 'o) app_env \<Rightarrow> SignalingMessage \<Rightarrow> ('x, 's, 'm, 'w) AppContext \<Rightarrow> 'o \<Rightarrow> (('x, 's, 'm, 'w) AppContext \<times> 'o) option" where
  "HandleRemoteCandidate e msg a w =
     do {
       (idx, a1, w1) \<leftarrow> AppCommon_GetPeerConnectionSession e (pRemoteClientId msg) a w;
       case idx of
         None \<Rightarrow> Some (a1, w1)
       | Some i \<Rightarrow> do {
           (r, p) \<leftarrow> PeerConnection_AddRemoteCandidate (appPc e) (message_text msg) (session_of a1 i);
           Some (put_session i p a1, w1)
         }
     }"

text \<open>Tried again until the time is over.\<close>

partial_function (option) reconnect_loop ::
    "('x, 's, 'm, 'w, 'q, 'p, 'c, 'o) app_env \<Rightarrow> u64 \<Rightarrow> u64 \<Rightarrow> ('x, 's, 'm, 'w) AppContext \<Rightarrow> 'o \<Rightarrow> (('x, 's, 'm, 'w) AppContext \<times> 'o) option" where
  "reconnect_loop e initTime currTime a w =
     (if currTime < initTime + SIGNALING_CONNECT_STATE_TIMEOUT_SEC
      then do {
        (r, sc, w1) \<leftarrow> SignalingController_RefreshIceServerConfigs (appSignaling e) (appSignalingOs e) (Some (signalingControllerContext a)) w;
        let a1 = a\<lparr>signalingControllerContext := the sc\<rparr>;
        if r = SIGNALING_CONTROLLER_RESULT_OK then Some (a1, w1)
        else (let (now, w2) = currentTimeSec (appSignalingOs e) w1 in reconnect_loop e initTime now a1 w2)
      }
      else Some (a, w))"

definition HandleIceServerReconnect ::
    "('x, 's, 'm, 'w, 'q, 'p, 'c, 'o) app_env \<Rightarrow> ('x, 's, 'm, 'w) AppContext \<Rightarrow> 'o \<Rightarrow> (('x, 's, 'm, 'w) AppContext \<times> 'o) option" where
  "HandleIceServerReconnect e a w = (let (now, w1) = currentTimeSec (appSignalingOs e) w in reconnect_loop e now now a w1)"

definition OnSignalingMessageReceived ::
    "('x, 's, 'm, 'w, 'q, 'p, 'c, 'o) app_env \<Rightarrow> SignalingMessage \<Rightarrow> bytes \<Rightarrow> ('x, 's, 'm, 'w) AppContext \<Rightarrow> 'o \<Rightarrow> (('x, 's, 'm, 'w) AppContext \<times> 'o) option" where
  "OnSignalingMessageReceived e msg behind a w =
     (case messageType msg of
        SIGNALING_TYPE_MESSAGE_SDP_OFFER \<Rightarrow> map_option (\<lambda>(a1, w1). (the a1, w1)) (HandleSdpOffer e (Some msg) behind (Some a) w)
      | SIGNALING_TYPE_MESSAGE_SDP_ANSWER \<Rightarrow> map_option (\<lambda>(a1, w1). (the a1, w1)) (HandleSdpAnswer e (Some msg) behind (Some a) w)
      | SIGNALING_TYPE_MESSAGE_ICE_CANDIDATE \<Rightarrow> HandleRemoteCandidate e msg a w
      | SIGNALING_TYPE_MESSAGE_RECONNECT_ICE_SERVER \<Rightarrow> HandleIceServerReconnect e a w
      | _ \<Rightarrow> Some (a, w))"

text \<open>A message of the websocket on its way through the signaling controller to the application.\<close>

definition app_receive ::
    "('x, 's, 'm, 'w, 'q, 'p, 'c, 'o) app_env \<Rightarrow> bytes \<Rightarrow> ('x, 's, 'm, 'w) AppContext \<Rightarrow> 'o \<Rightarrow> (int \<times> ('x, 's, 'm, 'w) AppContext \<times> 'o) option" where
  "app_receive e m a w =
     (let sc = signalingControllerContext a;
          (r, rx, msg) = OnWssMessageReceived (appSignaling e) (messageReceivedCallback sc) (signalingRxMessageBuffer sc) m;
          a1 = a\<lparr>signalingControllerContext := sc\<lparr>signalingRxMessageBuffer := rx\<rparr>\<rparr>
      in (case msg of
            None \<Rightarrow> Some (r, a1, w)
          | Some sm \<Rightarrow> map_option (\<lambda>(a2, w2). (r, a2, w2)) (OnSignalingMessageReceived e sm (drop (length (the (pMessage sm))) rx) a1 w)))"

section \<open>Local candidates\<close>

definition upper_hex_digit :: "nat \<Rightarrow> char" where
  "upper_hex_digit d = char_of (if d < 10 then 48 + d else 55 + d)"

definition hex_pair :: "u8 \<Rightarrow> string" where
  "hex_pair b = [upper_hex_digit (unat b div 16), upper_hex_digit (unat b mod 16)]"

fun hex_groups :: "bytes \<Rightarrow> string" where
  "hex_groups [b0, b1] = hex_pair b0 @ hex_pair b1"
| "hex_groups (b0 # b1 # bs) = hex_pair b0 @ hex_pair b1 @ '':'' @ hex_groups bs"
| "hex_groups _ = []"

definition ipv6_candidate_string :: "nat \<Rightarrow> u32 \<Rightarrow> bytes \<Rightarrow> u16 \<Rightarrow> IceCandidateType \<Rightarrow> string" where
  "ipv6_candidate_string index prio address port type =
     ''candidate:'' @ show_nat index @ '' 1 udp '' @ show_nat (unat prio) @ '' '' @ hex_groups (take 16 address) @ '' '' @ show_nat (unat port) @ '' typ ''
       @ GetCandidateTypeString type @ '' raddr ::/0 rport 0 generation 0 network-cost 999''"

definition candidate_string :: "nat \<Rightarrow> u32 \<Rightarrow> IceEndpoint \<Rightarrow> IceCandidateType \<Rightarrow> string" where
  "candidate_string index prio ep type =
     (if epFamily ep = STUN_ADDRESS_IPv4
      then ipv4_candidate_string index prio (epAddress ep ! 0) (epAddress ep ! 1) (epAddress ep ! 2) (epAddress ep ! 3) (epPort ep) type
      else ipv6_candidate_string index prio (epAddress ep) (epPort ep) type)"

definition candidate_json :: "string \<Rightarrow> string" where
  "candidate_json cand = ''{'' @ [CHR 0x22] @ ''candidate'' @ [CHR 0x22] @ '':'' @ [CHR 0x22] @ cand @ [CHR 0x22] @ '','' @ [CHR 0x22] @ ''sdpMid'' @ [CHR 0x22]
     @ '':'' @ [CHR 0x22] @ ''0'' @ [CHR 0x22] @ '','' @ [CHR 0x22] @ ''sdpMLineIndex'' @ [CHR 0x22] @ '':0}''"

text \<open>The length that \<open>snprintf\<close> returns is used as it is: a text that does not fit has no outcome.\<close>

definition HandleLocalCandidateReady ::
    "('x, 's, 'm, 'w, 'q, 'p, 'c, 'o) app_env \<Rightarrow> nat option \<Rightarrow> (nat \<times> u32 \<times> IceEndpoint \<times> IceCandidateType) option \<Rightarrow> ('x, 's, 'm, 'w) AppContext \<Rightarrow> 'o
      \<Rightarrow> (('x, 's, 'm, 'w) AppContext \<times> 'o) option" where
  "HandleLocalCandidateReady e pAppSession pIceLocalCandidate a w =
     (case (pAppSession, pIceLocalCandidate) of
        (Some i, Some (index, prio, ep, type)) \<Rightarrow>
          (let cand = candidate_string index prio ep type; txt = candidate_json cand
           in if length cand \<ge> DEMO_JSON_CANDIDATE_MAX_LENGTH \<or> length txt \<ge> DEMO_JSON_CANDIDATE_MAX_LENGTH then None
              else signal_text e SIGNALING_TYPE_MESSAGE_ICE_CANDIDATE (remoteClientId (appSessions a ! i)) txt a w)
      | _ \<Rightarrow> Some (a, w))"

section \<open>Set-up\<close>

definition InitializeAppSession ::
    "('x, 's, 'm, 'w) pc_env \<Rightarrow> pc_init_os \<Rightarrow> 'm \<Rightarrow> u32 \<Rightarrow> ('x, 's, 'm, 'w) AppSession \<Rightarrow> int \<times> ('x, 's, 'm, 'w) AppSession" where
  "InitializeAppSession pe sys zeroMedia bits s =
     (let (r, p) = PeerConnection_Init pe sys zeroMedia (Some \<lparr>cfgNatTraversal = bits, cfgIceServers = [], cfgRootCaPath = [], cfgRootCaPem = []\<rparr>) (peerConnectionSession s)
      in (if r \<noteq> PEER_CONNECTION_RESULT_OK then -1 else 0, s\<lparr>peerConnectionSession := p\<rparr>))"

text \<open>One result of the system calls per session; the first session that cannot be initialised ends the loop.\<close>

fun init_sessions ::
    "('x, 's, 'm, 'w) pc_env \<Rightarrow> pc_init_os list \<Rightarrow> 'm \<Rightarrow> u32 \<Rightarrow> ('x, 's, 'm, 'w) AppSession list \<Rightarrow> int \<times> ('x, 's, 'm, 'w) AppSession list" where
  "init_sessions pe (sys # rest) m bits (s # ss) =
     (let (r, s') = InitializeAppSession pe sys m bits s
      in if r \<noteq> 0 then (r, s' # ss) else (let (r2, ss') = init_sessions pe rest m bits ss in (r2, s' # ss')))"
| "init_sessions pe _ m bits ss = (0, ss)"

text \<open>The cleared context has a session \<open>zero\<close> in every entry.  The flags say whether the descriptor of the barrier and the two mutexes can be
  created, the list what the system calls of the sessions answer.\<close>

definition zero_app :: "('x, 's, 'm, 'w) pc_ctx \<Rightarrow> ('x, 's, 'm, 'w) AppContext \<Rightarrow> ('x, 's, 'm, 'w) AppContext" where
  "zero_app zero a = a\<lparr>signalingControllerClientId := [], appSessions := replicate AWS_MAX_VIEWER_NUM \<lparr>remoteClientId = [], peerConnectionSession = zero\<rparr>,
     natTraversalConfig := 0, signalingConnectionBarrier := 0\<rparr>"

definition AppCommon_Init ::
    "('x, 's, 'm, 'w, 'q, 'p, 'c, 'o) app_env \<Rightarrow> ('x, 's, 'm, 'w) pc_ctx \<Rightarrow> bool \<Rightarrow> bool \<Rightarrow> bool \<Rightarrow> pc_init_os list \<Rightarrow> 'm \<Rightarrow> bool \<Rightarrow> bool
      \<Rightarrow> ('x, 's, 'm, 'w) AppContext option \<Rightarrow> int \<times> ('x, 's, 'm, 'w) AppContext option" where
  "AppCommon_Init e zero eventfdOk mutexOk bitrateMutexOk syss zeroMedia pMediaContext pInitTransceiver pApp =
     (case pApp of
        None \<Rightarrow> (-1, None)
      | Some a \<Rightarrow>
          if \<not> pMediaContext \<or> \<not> pInitTransceiver then (-1, pApp)
          else
            (let a0 = (zero_app zero a)\<lparr>natTraversalConfig := 255\<rparr>
             in if \<not> eventfdOk then (-1, Some a0)
                else
                  (let (r, sc) = SignalingController_Init (Some (signalingControllerContext a0)) True mutexOk; a1 = a0\<lparr>signalingControllerContext := the sc\<rparr>
                   in if r \<noteq> SIGNALING_CONTROLLER_RESULT_OK \<or> \<not> bitrateMutexOk then (-1, Some a1)
                      else
                        (let (r2, sc2) = SignalingController_SetConnectionStateCallback (Some (signalingControllerContext a1)) True;
                             a2 = a1\<lparr>signalingControllerContext := the sc2\<rparr>
                         in if r2 \<noteq> SIGNALING_CONTROLLER_RESULT_OK then (-1, Some a2)
                            else (let (ret, ss) = init_sessions (appPc e) syss zeroMedia (natTraversalConfig a2) (appSessions a2)
                                  in (ret, Some (a2\<lparr>appSessions := ss\<rparr>)))))))"

text \<open>The thread is created, whatever \<open>pthread_create\<close> answers, and the caller waits for the barrier; \<open>readOk\<close> is what the read answers.\<close>

definition AppCommon_StartSignalingController :: "bool \<Rightarrow> ('x, 's, 'm, 'w) AppContext option \<Rightarrow> int \<times> ('x, 's, 'm, 'w) AppContext option" where
  "AppCommon_StartSignalingController readOk pApp =
     (case pApp of
        None \<Rightarrow> (-1, None)
      | Some a \<Rightarrow> if readOk then (0, Some (a\<lparr>signalingConnectionBarrier := 0\<rparr>)) else (-2, Some a))"

end
