(* ===== verification/App_Common_Correct.thy ===== *)
theory App_Common_Correct
  imports App_Common
begin

text \<open>
  The sessions of the application: one per client in every reachable state, a message reaches only the session of its sender, what a failed start
  leaves behind, which ICE servers a session gets, and what an offer is read with.
\<close>

section \<open>Clients\<close>

text \<open>Two names are the same for the search when they have the same length and agree up to a terminator.\<close>

definition client_key :: "string \<Rightarrow> nat \<times> string" where
  "client_key x = (length x, takeWhile (\<lambda>c. c \<noteq> NUL) x)"

lemma strncmp_eq_key: "length x = length y \<Longrightarrow> strncmp_eq x y \<longleftrightarrow> takeWhile (\<lambda>c. c \<noteq> NUL) x = takeWhile (\<lambda>c. c \<noteq> NUL) y"
  by (induction x y rule: strncmp_eq.induct) auto

lemma same_client: "length x = length y \<and> strncmp_eq x y \<longleftrightarrow> client_key x = client_key y"
  using strncmp_eq_key by (auto simp: client_key_def)

lemma find_session_spec:
  assumes "find_session x k free ss = r"
  shows "(\<exists>i < length ss. r = Some (k + i) \<and> client_key (remoteClientId (ss ! i)) = client_key x)
    \<or> (\<forall>s \<in> set ss. client_key (remoteClientId s) \<noteq> client_key x) \<and> (r = free \<or>
      (\<exists>i < length ss. r = Some (k + i) \<and> sessionState (world (peerConnectionSession (ss ! i))) = PEER_CONNECTION_SESSION_STATE_INITED))"
  using assms
proof (induction ss arbitrary: k free)
  case (Cons s ss)
  show ?case
  proof (cases "client_key (remoteClientId s) = client_key x")
    case True
    with Cons.prems show ?thesis by (auto simp: same_client intro!: exI [of _ 0])
  next
    case False
    let ?inited = "sessionState (world (peerConnectionSession s)) = PEER_CONNECTION_SESSION_STATE_INITED"
    let ?free = "if free = None \<and> ?inited then Some k else free"
    from False Cons.prems have "find_session x (k + 1) ?free ss = r" by (simp add: same_client)
    from Cons.IH [OF this] consider
      (found) i where "i < length ss" "r = Some (k + 1 + i)" "client_key (remoteClientId (ss ! i)) = client_key x"
    | (kept) "\<forall>s \<in> set ss. client_key (remoteClientId s) \<noteq> client_key x" "r = ?free"
    | (new) i where "\<forall>s \<in> set ss. client_key (remoteClientId s) \<noteq> client_key x" "i < length ss" "r = Some (k + 1 + i)"
        "sessionState (world (peerConnectionSession (ss ! i))) = PEER_CONNECTION_SESSION_STATE_INITED"
      by blast
    then show ?thesis
    proof cases
      case found
      then show ?thesis by (intro disjI1 exI [of _ "Suc i"]) simp
    next
      case kept
      then show ?thesis using False by (cases "free = None \<and> ?inited") (auto intro: exI [of _ 0])
    next
      case new
      then show ?thesis using False by (intro disjI2 conjI disjI2 exI [of _ "Suc i"]) auto
    qed
  qed
qed simp

section \<open>What a message changes\<close>

text \<open>Only session \<open>i\<close> changes; when it changes its client, no other session has that client.\<close>

definition only_session :: "nat \<Rightarrow> string \<Rightarrow> ('x, 's, 'm, 'w) AppContext \<Rightarrow> ('x, 's, 'm, 'w) AppContext \<Rightarrow> bool" where
  "only_session i client a a' \<longleftrightarrow>
     length (appSessions a') = length (appSessions a) \<and> (\<forall>j < length (appSessions a). j \<noteq> i \<longrightarrow> appSessions a' ! j = appSessions a ! j)
     \<and> (i < length (appSessions a) \<longrightarrow> remoteClientId (appSessions a' ! i) = remoteClientId (appSessions a ! i)
          \<or> remoteClientId (appSessions a' ! i) = client \<and>
            (client_key (remoteClientId (appSessions a ! i)) = client_key client
              \<or> (\<forall>s \<in> set (appSessions a). client_key (remoteClientId s) \<noteq> client_key client)))"

lemma only_session_refl [simp]: "only_session i x a a"
  by (simp add: only_session_def)

lemma only_session_same: "appSessions a' = appSessions a \<Longrightarrow> only_session i x a a'"
  by (simp add: only_session_def)

lemma only_session_step:
  assumes "only_session i x a a1" "length (appSessions a2) = length (appSessions a1)"
    and "\<And>j. j < length (appSessions a1) \<Longrightarrow> j \<noteq> i \<Longrightarrow> appSessions a2 ! j = appSessions a1 ! j"
    and "i < length (appSessions a1) \<Longrightarrow> remoteClientId (appSessions a2 ! i) = remoteClientId (appSessions a1 ! i)"
  shows "only_session i x a a2"
  using assms by (simp add: only_session_def)

lemma put_session_only: "only_session i x a a1 \<Longrightarrow> only_session i x a (put_session i p a1)"
  by (rule only_session_step) (auto simp: put_session_def)

lemma session_servers_sessions: "session_servers e a w = Some (ret, servers, a1, w1) \<Longrightarrow> appSessions a1 = appSessions a \<and> natTraversalConfig a1 = natTraversalConfig a"
  by (auto simp: session_servers_def split: bind_splits)

lemma start_session_client:
  "start_session e i x servers bits s = (ret, s') \<Longrightarrow> remoteClientId s' = (if ret = 0 then x else remoteClientId s)"
  by (auto simp: start_session_def PeerConnection_Start_def Let_def split: prod.splits if_splits)

lemma StartPeerConnectionSession_sessions:
  assumes "StartPeerConnectionSession e i x a w = Some (ret, a1, w1)"
  shows "(appSessions a1 = appSessions a \<and> ret \<noteq> 0)
    \<or> (\<exists>s. appSessions a1 = (appSessions a)[i := s] \<and> remoteClientId s = (if ret = 0 then x else remoteClientId (appSessions a ! i)))"
proof -
  from assms consider "appSessions a1 = appSessions a" "ret \<noteq> 0"
    | (servers) r servers a0 where "session_servers e a w = Some (r, servers, a0, w1)"
        "(r \<noteq> 0 \<and> ret = r \<and> a1 = a0) \<or> (\<exists>s. start_session e i x servers (natTraversalConfig a0) (appSessions a0 ! i) = (ret, s) \<and> a1 = a0\<lparr>appSessions := (appSessions a0)[i := s]\<rparr>)"
    by (auto simp: StartPeerConnectionSession_def split: bind_splits if_splits prod.splits)
  then show ?thesis
  proof cases
    case servers
    from session_servers_sessions [OF servers(1)] servers(2) start_session_client show ?thesis by fastforce
  qed simp
qed

lemma GetPeerConnectionSession_only:
  assumes "AppCommon_GetPeerConnectionSession e x a w = Some (idx, a1, w1)"
  shows "\<exists>i. only_session i x a a1 \<and> (\<forall>k. idx = Some k \<longrightarrow> k = i \<and> i < length (appSessions a1) \<and> client_key (remoteClientId (appSessions a1 ! i)) = client_key x)"
proof (cases "find_session x 0 None (appSessions a)")
  case None
  with assms show ?thesis by (auto simp: AppCommon_GetPeerConnectionSession_def)
next
  case (Some i)
  from find_session_spec [OF Some] have found: "i < length (appSessions a)"
    "client_key (remoteClientId (appSessions a ! i)) = client_key x
      \<or> (\<forall>s \<in> set (appSessions a). client_key (remoteClientId s) \<noteq> client_key x)
        \<and> sessionState (world (session_of a i)) = PEER_CONNECTION_SESSION_STATE_INITED" by auto
  show ?thesis
  proof (cases "sessionState (world (session_of a i)) = PEER_CONNECTION_SESSION_STATE_INITED")
    case True
    with assms Some obtain ret where st: "StartPeerConnectionSession e i x a w = Some (ret, a1, w1)" "idx = (if ret \<noteq> 0 then None else Some i)"
      by (auto simp: AppCommon_GetPeerConnectionSession_def split: bind_splits)
    from StartPeerConnectionSession_sessions [OF st(1)] found st(2) show ?thesis
      by (intro exI [of _ i]) (auto simp: only_session_def split: if_splits)
  next
    case False
    with assms Some found show ?thesis by (auto simp: AppCommon_GetPeerConnectionSession_def)
  qed
qed

lemma signal_text_sessions: "signal_text e type client txt a w = Some (a1, w1) \<Longrightarrow> appSessions a1 = appSessions a"
  by (auto simp: signal_text_def Let_def split: prod.splits)

lemma send_sdp_answer_sessions: "send_sdp_answer e i client a w = Some (a1, w1) \<Longrightarrow> appSessions a1 = appSessions a"
  by (auto simp: send_sdp_answer_def split: bind_splits if_splits sum.splits dest: signal_text_sessions)

lemma take_description_only:
  assumes "take_description e offer msg behind a w = Some (idx, a1, w1)"
  shows "\<exists>i. only_session i (pRemoteClientId msg) a a1"
proof -
  from assms consider "a1 = a"
    | (session) idx0 a0 where "AppCommon_GetPeerConnectionSession e (pRemoteClientId msg) a w = Some (idx0, a0, w1)"
        "(idx0 = None \<and> a1 = a0) \<or> (\<exists>i p. idx0 = Some i \<and> a1 = put_session i p a0)"
    by (auto simp: take_description_def split: bind_splits option.splits) blast+
  then show ?thesis
  proof cases
    case session
    with GetPeerConnectionSession_only [OF session(1)] show ?thesis by (auto intro: put_session_only)
  qed auto
qed

lemma reconnect_loop_sessions:
  assumes "reconnect_loop e t0 t a w = Some y"
  shows "appSessions (fst y) = appSessions a"
proof (rule reconnect_loop.raw_induct [of "\<lambda>e t0 t a w y. appSessions (fst y) = appSessions a", OF _ assms], goal_cases)
  case (1 rec e t0 t a w y)
  from 1(2) show ?case by (auto simp: Let_def split: if_splits bind_splits prod.splits dest!: 1(1))
qed

lemma OnSignalingMessageReceived_only:
  assumes "OnSignalingMessageReceived e msg behind a w = Some (a1, w1)"
  shows "\<exists>i. only_session i (pRemoteClientId msg) a a1"
proof -
  have candidate: "\<exists>i. only_session i (pRemoteClientId msg) a a1" if run: "HandleRemoteCandidate e msg a w = Some (a1, w1)"
  proof -
    from run obtain idx a0 where "AppCommon_GetPeerConnectionSession e (pRemoteClientId msg) a w = Some (idx, a0, w1)"
      "(idx = None \<and> a1 = a0) \<or> (\<exists>i p. idx = Some i \<and> a1 = put_session i p a0)"
      by (auto simp: HandleRemoteCandidate_def split: bind_splits option.splits) blast+
    with GetPeerConnectionSession_only show ?thesis by (fastforce intro: put_session_only)
  qed
  have answered: "\<exists>i. only_session i x a a2" if "\<exists>i. only_session i x a a0" "appSessions a2 = appSessions a0" for x a0 and a2 :: "('a, 'b, 'c, 'd) AppContext"
    using that by (auto simp: only_session_def)
  have offer: "\<exists>i. only_session i (pRemoteClientId msg) a a1" if run: "HandleSdpOffer e (Some msg) behind (Some a) w = Some (Some a1, w1)"
  proof -
    from run obtain idx a0 w0 where s: "take_description e True msg behind a w = Some (idx, a0, w0)"
      "(case idx of None \<Rightarrow> Some (a0, w0) | Some i \<Rightarrow> send_sdp_answer e i (pRemoteClientId msg) a0 w0) = Some (a1, w1)"
      by (auto simp: HandleSdpOffer_def split: bind_splits)
    from s(2) have "appSessions a1 = appSessions a0" by (auto split: option.splits dest: send_sdp_answer_sessions)
    with take_description_only [OF s(1)] show ?thesis by (rule answered)
  qed
  have reconnect: "only_session 0 (pRemoteClientId msg) a a1" if "HandleIceServerReconnect e a w = Some (a1, w1)"
    using that by (auto simp: HandleIceServerReconnect_def split: prod.splits dest!: reconnect_loop_sessions intro: only_session_same)
  show ?thesis
  proof (cases "messageType msg")
    case SIGNALING_TYPE_MESSAGE_SDP_OFFER
    with assms have "\<exists>b. HandleSdpOffer e (Some msg) behind (Some a) w = Some (b, w1) \<and> a1 = the b" by (auto simp: OnSignalingMessageReceived_def)
    then show ?thesis using offer by (auto simp: HandleSdpOffer_def split: bind_splits)
  next
    case SIGNALING_TYPE_MESSAGE_SDP_ANSWER
    with assms show ?thesis by (auto simp: OnSignalingMessageReceived_def HandleSdpAnswer_def split: bind_splits dest: take_description_only)
  qed (use assms candidate reconnect in \<open>auto simp: OnSignalingMessageReceived_def\<close>)
qed

section \<open>Reachable states\<close>

text \<open>After the set-up, messages arrive, the signaling controller goes on, candidates become ready, and the threads of a session change that
  session in any way.\<close>

inductive app_reach :: "('x, 's, 'm, 'w, 'q, 'p, 'c, 'o) app_env \<Rightarrow> ('x, 's, 'm, 'w) AppContext \<times> 'o \<Rightarrow> bool"
  for e :: "('x, 's, 'm, 'w, 'q, 'p, 'c, 'o) app_env" where
  init: "announced (signalingControllerContext a) = [] \<Longrightarrow> AppCommon_Init e zero True True True syss m True True (Some a) = (0, Some a') \<Longrightarrow> app_reach e (a', w)"
| receive: "app_reach e (a, w) \<Longrightarrow> app_receive e m a w = Some (r, a', w') \<Longrightarrow> app_reach e (a', w')"
| listen: "app_reach e (a, w) \<Longrightarrow> listen_step (appSignaling e) (appSignalingOs e) (task_connect_info (appConfig e) a) (ph, signalingControllerContext a, w) = Some (ph', sc, w')
    \<Longrightarrow> app_reach e (a\<lparr>signalingControllerContext := sc\<rparr>, w')"
| connected: "app_reach e (a, w) \<Longrightarrow> OnSignalingConnectionStateChange ok st (Some a) = Some a' \<Longrightarrow> app_reach e (a', w)"
| candidate: "app_reach e (a, w) \<Longrightarrow> HandleLocalCandidateReady e (Some i) cand a w = Some (a', w') \<Longrightarrow> app_reach e (a', w')"
| session: "app_reach e (a, w) \<Longrightarrow> app_reach e (put_session i p a, w)"

definition clients_distinct :: "('x, 's, 'm, 'w) AppContext \<Rightarrow> bool" where
  "clients_distinct a \<longleftrightarrow> (\<forall>i < length (appSessions a). \<forall>j < length (appSessions a).
     i \<noteq> j \<and> remoteClientId (appSessions a ! i) \<noteq> [] \<longrightarrow> client_key (remoteClientId (appSessions a ! i)) \<noteq> client_key (remoteClientId (appSessions a ! j)))"

lemma client_key_empty: "client_key x = client_key [] \<longleftrightarrow> x = []"
  by (auto simp: client_key_def)

lemma clients_distinct_only:
  assumes "only_session i x a a'" "clients_distinct a"
  shows "clients_distinct a'"
proof (cases "i < length (appSessions a) \<and> remoteClientId (appSessions a' ! i) \<noteq> remoteClientId (appSessions a ! i)")
  case False
  have "remoteClientId (appSessions a' ! j) = remoteClientId (appSessions a ! j)" if "j < length (appSessions a)" for j
    using assms(1) False that by (cases "j = i") (auto simp: only_session_def)
  with assms show ?thesis by (auto simp: only_session_def clients_distinct_def)
next
  case True
  with assms(1) have i: "i < length (appSessions a)" "remoteClientId (appSessions a' ! i) = x" "length (appSessions a') = length (appSessions a)"
    and others: "\<And>j. j < length (appSessions a) \<Longrightarrow> j \<noteq> i \<Longrightarrow> appSessions a' ! j = appSessions a ! j"
    and new: "client_key (remoteClientId (appSessions a ! i)) = client_key x \<or> (\<forall>s \<in> set (appSessions a). client_key (remoteClientId s) \<noteq> client_key x)"
    by (auto simp: only_session_def)
  have free: "client_key (remoteClientId (appSessions a ! j)) \<noteq> client_key x" if "j < length (appSessions a)" "j \<noteq> i" "x \<noteq> []" for j
  proof (cases "client_key (remoteClientId (appSessions a ! i)) = client_key x")
    case same: True
    with that(3) have "remoteClientId (appSessions a ! i) \<noteq> []" using client_key_empty by metis
    with assms(2) i(1) that(1,2) same show ?thesis by (metis clients_distinct_def)
  qed (use new that(1) in auto)
  have x: "client_key y \<noteq> client_key x" if "y \<noteq> []" "x = []" for y using that client_key_empty by auto
  show ?thesis unfolding clients_distinct_def i(3)
  proof (intro allI impI, elim conjE)
    fix j k assume jk: "j < length (appSessions a)" "k < length (appSessions a)" "j \<noteq> k" "remoteClientId (appSessions a' ! j) \<noteq> []"
    then consider "j = i" | "k = i" | "j \<noteq> i" "k \<noteq> i" by blast
    then show "client_key (remoteClientId (appSessions a' ! j)) \<noteq> client_key (remoteClientId (appSessions a' ! k))"
    proof cases
      case 1
      with jk i(2) others [of k] free [of k] show ?thesis by auto
    next
      case 2
      with jk i(2) others [of j] free [of j] x [of "remoteClientId (appSessions a ! j)"] show ?thesis by (cases "x = []") auto
    next
      case 3
      with jk others assms(2) show ?thesis by (simp add: clients_distinct_def)
    qed
  qed
qed

lemma init_sessions_clients: "init_sessions pe syss m bits ss = (r, ss') \<Longrightarrow> map remoteClientId ss' = map remoteClientId ss"
proof (induction pe syss m bits ss arbitrary: r ss' rule: init_sessions.induct)
  case (1 pe sys rest m bits s ss)
  obtain r1 s1 r2 ss1 where i: "InitializeAppSession pe sys m bits s = (r1, s1)" "init_sessions pe rest m bits ss = (r2, ss1)" by (metis prod.exhaust)
  then have "remoteClientId s1 = remoteClientId s" by (auto simp: InitializeAppSession_def split: prod.splits)
  with 1 i show ?case by (auto split: if_splits)
qed auto

lemma AppCommon_Init_clients:
  assumes "AppCommon_Init e zero b1 b2 b3 syss m True True (Some a) = (0, Some a')"
  shows "map remoteClientId (appSessions a') = replicate AWS_MAX_VIEWER_NUM []"
  using assms
  by (auto simp: AppCommon_Init_def Let_def zero_app_def split: if_splits prod.splits dest!: init_sessions_clients)

lemma app_receive_only:
  assumes "app_receive e m a w = Some (r, a', w')"
  shows "\<exists>i. only_session i (case Signaling_ParseWssRecvMessage (appSignaling e) m of None \<Rightarrow> [] | Some recv \<Rightarrow> recvSender recv) a a'"
proof -
  let ?sc = "signalingControllerContext a"
  obtain r0 rx msg where o: "OnWssMessageReceived (appSignaling e) (messageReceivedCallback ?sc) (signalingRxMessageBuffer ?sc) m = (r0, rx, msg)" by (metis prod_cases3)
  let ?a = "a\<lparr>signalingControllerContext := ?sc\<lparr>signalingRxMessageBuffer := rx\<rparr>\<rparr>"
  show ?thesis
  proof (cases msg)
    case None
    with assms o show ?thesis by (auto simp: app_receive_def only_session_def)
  next
    case (Some sm)
    with o have sender: "Signaling_ParseWssRecvMessage (appSignaling e) m \<noteq> None" "pRemoteClientId sm = recvSender (the (Signaling_ParseWssRecvMessage (appSignaling e) m))"
      by (auto simp: OnWssMessageReceived_def Let_def split: option.splits sum.splits if_splits)
    from assms o Some have "OnSignalingMessageReceived e sm (drop (length (the (pMessage sm))) rx) ?a w = Some (a', w')"
      by (auto simp: app_receive_def)
    from OnSignalingMessageReceived_only [OF this] sender show ?thesis by (auto simp: only_session_def)
  qed
qed

lemma app_reach_clients: "app_reach e x \<Longrightarrow> clients_distinct (fst x)"
proof (induction rule: app_reach.induct)
  case (init a zero syss m a' w)
  from AppCommon_Init_clients [OF init(2)] have none: "map remoteClientId (appSessions a') = replicate AWS_MAX_VIEWER_NUM []" .
  then have "remoteClientId (appSessions a' ! i) = []" if "i < length (appSessions a')" for i
    using that by (metis length_map length_replicate nth_map nth_replicate)
  then show ?case by (simp add: clients_distinct_def)
next
  case (receive a w m r a' w')
  with app_receive_only [OF receive(2)] show ?case by (auto intro: clients_distinct_only)
next
  case (listen a w ph ph' sc w')
  then show ?case by (simp add: clients_distinct_def)
next
  case (connected a w ok st a')
  then show ?case by (auto simp: OnSignalingConnectionStateChange_def clients_distinct_def split: if_splits)
next
  case (candidate a w i cand a' w')
  then have "appSessions a' = appSessions a" by (auto simp: HandleLocalCandidateReady_def Let_def split: option.splits if_splits dest: signal_text_sessions)
  with candidate show ?case by (simp add: clients_distinct_def)
next
  case (session a w i p)
  have "only_session i [] a (put_session i p a)" by (rule put_session_only) simp
  with session show ?case by (auto intro: clients_distinct_only)
qed

text \<open>C4: One session per client.  In every state that the application reaches, whatever messages arrive and whatever the threads of the
  sessions do, two sessions with a client have different clients.\<close>

theorem app_clients_distinct:
  assumes "app_reach e (a, w)" "i < length (appSessions a)" "j < length (appSessions a)" "i \<noteq> j" "remoteClientId (appSessions a ! i) \<noteq> []"
  shows "remoteClientId (appSessions a ! i) \<noteq> remoteClientId (appSessions a ! j)"
  using app_reach_clients [OF assms(1)] assms(2-5) unfolding clients_distinct_def fst_conv by metis


section \<open>A start that fails\<close>

lemma add_transceiver_state:
  assumes "add_transceiver e kind address p = (ret, p')"
  shows "sessionState (world p') = sessionState (world p)" "transceiverCount (world p') \<ge> transceiverCount (world p)"
    "ret = 0 \<Longrightarrow> transceiverCount (world p) < PEER_CONNECTION_TRANSCEIVER_MAX_COUNT \<and> transceiverCount (world p') = transceiverCount (world p) + 1"
  using assms by (auto simp: add_transceiver_def PeerConnection_AddTransceiver_def AllocateTransceiver_def Let_def split: prod.splits if_splits)

text \<open>C8: A start that fails on its way blocks the session.  Once a session has a transceiver that was added by a start that failed later,
  every further start of it fails, whoever the client is, and leaves it in the same state: only a session that has been started is closed
  and loses its transceivers.\<close>

theorem failed_start_blocks_session:
  assumes "StartPeerConnectionSession e i x a w = Some (ret, a', w')" "i < length (appSessions a)" "transceiverCount (world (session_of a i)) \<ge> 1"
  shows "ret \<noteq> 0 \<and> transceiverCount (world (session_of a' i)) \<ge> 1 \<and> sessionState (world (session_of a' i)) = sessionState (world (session_of a i))"
proof -
  have started: "ret \<noteq> 0 \<and> transceiverCount (world (peerConnectionSession s')) \<ge> 1 \<and> sessionState (world (peerConnectionSession s')) = sessionState (world (peerConnectionSession s))"
    if run: "start_session e i x servers bits s = (ret, s')" and count: "transceiverCount (world (peerConnectionSession s)) \<ge> 1" for servers bits s s' ret
  proof -
    obtain r1 p1 where p1: "PeerConnection_AddIceServerConfig (Some \<lparr>cfgNatTraversal = bits, cfgIceServers = servers, cfgRootCaPath = AWS_CA_CERT_PATH (appConfig e), cfgRootCaPem = []\<rparr>)
        (peerConnectionSession s) = (r1, p1)" by fastforce
    then have w1: "world p1 = world (peerConnectionSession s)"
      by (auto simp: PeerConnection_AddIceServerConfig_def IceController_AddIceServerConfig_def Let_def split: prod.splits if_splits)
    obtain r2 p2 where p2: "add_transceiver e TRANSCEIVER_TRACK_KIND_VIDEO (transceiver_address i DEMO_TRANSCEIVER_MEDIA_INDEX_VIDEO) p1 = (r2, p2)" by fastforce
    obtain r3 p3 where p3: "add_transceiver e TRANSCEIVER_TRACK_KIND_AUDIO (transceiver_address i DEMO_TRANSCEIVER_MEDIA_INDEX_AUDIO) p2 = (r3, p3)" by fastforce
    note st = add_transceiver_state [OF p2] add_transceiver_state [OF p3]
    have "\<not> (r2 = 0 \<and> r3 = 0)" using st count w1 by (auto simp: PEER_CONNECTION_TRANSCEIVER_MAX_COUNT_def)
    with run p1 p2 p3 st count w1 show ?thesis by (auto simp: start_session_def split: if_splits)
  qed
  show ?thesis
  proof (cases "length x > REMOTE_ID_MAX_LENGTH")
    case True
    with assms show ?thesis by (auto simp: StartPeerConnectionSession_def)
  next
    case False
    with assms(1) obtain r servers a1 w1 where s: "session_servers e a w = Some (r, servers, a1, w1)"
      and rest: "(r \<noteq> 0 \<and> ret = r \<and> a' = a1) \<or> (\<exists>s'. start_session e i x servers (natTraversalConfig a1) (appSessions a1 ! i) = (ret, s') \<and> a' = a1\<lparr>appSessions := (appSessions a1)[i := s']\<rparr>)"
      by (auto simp: StartPeerConnectionSession_def split: bind_splits if_splits prod.splits)
    from session_servers_sessions [OF s] have "appSessions a1 = appSessions a" by simp
    with rest started assms(2,3) show ?thesis by fastforce
  qed
qed

section \<open>The signaling controller of the application\<close>

abbreviation signaling_ok :: "('x, 's, 'm, 'w, 'q, 'p, 'c, 'o) app_env \<Rightarrow> ('x, 's, 'm, 'w) AppContext \<Rightarrow> bool" where
  "signaling_ok e a \<equiv> context_ok (appSignaling e) (signalingControllerContext a)"

lemma context_ok_rx [simp]: "context_ok slib (c\<lparr>signalingRxMessageBuffer := rx\<rparr>) = context_ok slib c"
  by (simp add: context_defs)

lemma query_ok:
  assumes "SignalingController_QueryIceServerConfigs slib sos (Some c) True s = Some (r, sc, cfgs, s')" "context_ok slib c"
  shows "\<exists>c'. sc = Some c' \<and> context_ok slib c' \<and> cfgs = Some (take (iceServerConfigsCount c') (iceServerConfigs c'))"
  using assms by (auto simp: SignalingController_QueryIceServerConfigs_def split: if_splits prod.splits dest: GetIceServerConfigs_ok)

lemma session_servers_ok: "session_servers e a w = Some (ret, servers, a1, w1) \<Longrightarrow> signaling_ok e a \<Longrightarrow> signaling_ok e a1"
  by (auto simp: session_servers_def split: bind_splits dest!: query_ok)

lemma GetPeerConnectionSession_ok: "AppCommon_GetPeerConnectionSession e x a w = Some (idx, a1, w1) \<Longrightarrow> signaling_ok e a \<Longrightarrow> signaling_ok e a1"
  by (auto simp: AppCommon_GetPeerConnectionSession_def StartPeerConnectionSession_def Let_def split: option.splits if_splits bind_splits prod.splits dest!: session_servers_ok)

lemma SendMessage_context: "SignalingController_SendMessage slib (Some c) pMsg mm mn = Some (r, sc, acts) \<Longrightarrow> \<exists>c'. sc = Some c'"
  by (auto simp: SignalingController_SendMessage_def split: option.splits if_splits bind_splits sum.splits)

lemma signal_text_ok:
  assumes "signal_text e type client txt a w = Some (a1, w1)" "signaling_ok e a"
  shows "signaling_ok e a1"
proof -
  from assms(1) obtain msg mm mn r sc acts where s: "SignalingController_SendMessage (appSignaling e) (Some (signalingControllerContext a)) (Some msg) mm mn = Some (r, sc, acts)"
    "a1 = a\<lparr>signalingControllerContext := the sc\<rparr>"
    by (auto simp: signal_text_def Let_def split: prod.splits)
  from SendMessage_context [OF s(1)] obtain c1 where "sc = Some c1" by blast
  with SignalingController_SendMessage_ok s assms(2) show ?thesis by simp
qed

lemma put_session_ok [simp]: "signaling_ok e (put_session i p a) = signaling_ok e a"
  by (simp add: put_session_def)

lemma take_description_ok: "take_description e offer msg behind a w = Some (idx, a1, w1) \<Longrightarrow> signaling_ok e a \<Longrightarrow> signaling_ok e a1"
  by (auto simp: take_description_def split: bind_splits option.splits dest!: GetPeerConnectionSession_ok)

lemma reconnect_loop_ok:
  assumes "reconnect_loop e t0 t a w = Some y" "signaling_ok e a"
  shows "signaling_ok e (fst y)"
proof -
  have "signaling_ok e a \<longrightarrow> signaling_ok e (fst y)"
  proof (rule reconnect_loop.raw_induct [of "\<lambda>e t0 t a w y. signaling_ok e a \<longrightarrow> signaling_ok e (fst y)", OF _ assms(1)], goal_cases)
    case (1 rec e t0 t a w y)
    from 1(2) show ?case
      by (auto simp: Let_def SignalingController_RefreshIceServerConfigs_def split: if_splits bind_splits prod.splits dest!: 1(1) dest: GetIceServerConfigs_ok)
  qed
  with assms(2) show ?thesis by simp
qed

lemma send_sdp_answer_ok: "send_sdp_answer e i client a w = Some (a1, w1) \<Longrightarrow> signaling_ok e a \<Longrightarrow> signaling_ok e a1"
  by (auto simp: send_sdp_answer_def split: bind_splits if_splits sum.splits dest: signal_text_ok)

lemma OnSignalingMessageReceived_ok:
  assumes "OnSignalingMessageReceived e msg behind a w = Some (a1, w1)" "signaling_ok e a"
  shows "signaling_ok e a1"
proof (cases "messageType msg")
  case SIGNALING_TYPE_MESSAGE_SDP_OFFER
  with assms(1) obtain idx a0 w0 where s: "take_description e True msg behind a w = Some (idx, a0, w0)"
    "(case idx of None \<Rightarrow> Some (a0, w0) | Some i \<Rightarrow> send_sdp_answer e i (pRemoteClientId msg) a0 w0) = Some (a1, w1)"
    by (auto simp: OnSignalingMessageReceived_def HandleSdpOffer_def split: bind_splits)
  from take_description_ok [OF s(1) assms(2)] s(2) show ?thesis by (cases idx) (auto elim: send_sdp_answer_ok)
next
  case SIGNALING_TYPE_MESSAGE_SDP_ANSWER
  with assms show ?thesis by (auto simp: OnSignalingMessageReceived_def HandleSdpAnswer_def split: bind_splits dest: take_description_ok)
next
  case SIGNALING_TYPE_MESSAGE_ICE_CANDIDATE
  with assms show ?thesis
    by (auto simp: OnSignalingMessageReceived_def HandleRemoteCandidate_def split: bind_splits option.splits dest!: GetPeerConnectionSession_ok)
next
  case SIGNALING_TYPE_MESSAGE_RECONNECT_ICE_SERVER
  with assms show ?thesis
    by (auto simp: OnSignalingMessageReceived_def HandleIceServerReconnect_def split: prod.splits dest!: reconnect_loop_ok)
qed (use assms in \<open>auto simp: OnSignalingMessageReceived_def\<close>)

lemma app_receive_ok: "app_receive e m a w = Some (r, a', w') \<Longrightarrow> signaling_ok e a \<Longrightarrow> signaling_ok e a'"
  by (auto simp: app_receive_def Let_def split: prod.splits option.splits dest!: OnSignalingMessageReceived_ok)

lemma AppCommon_Init_ok:
  assumes "announced (signalingControllerContext a) = []" "AppCommon_Init e zero True True True syss m True True (Some a) = (0, Some a')"
  shows "signaling_ok e a'"
proof -
  let ?sc = "signalingControllerContext (zero_app zero a)"
  have "announced ?sc = []" using assms(1) by (simp add: zero_app_def)
  moreover from assms(2) obtain sc where "SignalingController_Init (Some ?sc) True True = (SIGNALING_CONTROLLER_RESULT_OK, sc)"
    "signalingControllerContext a' = (the sc)\<lparr>connectionStateCallback := True\<rparr>"
    by (auto simp: AppCommon_Init_def Let_def SignalingController_SetConnectionStateCallback_def split: if_splits prod.splits)
  moreover then obtain c1 where "sc = Some c1" by (auto simp: SignalingController_Init_def Let_def split: prod.splits if_splits)
  ultimately show ?thesis using SignalingController_Init_ok by fastforce
qed

lemma app_reach_signaling_ok: "app_reach e x \<Longrightarrow> signaling_ok e (fst x)"
proof (induction rule: app_reach.induct)
  case (init a zero syss m a' w)
  then show ?case by (simp add: AppCommon_Init_ok)
next
  case (receive a w m r a' w')
  then show ?case using app_receive_ok by fastforce
next
  case (listen a w ph ph' sc w')
  then show ?case using listen_step_ok by fastforce
next
  case (connected a w ok st a')
  then show ?case by (auto simp: OnSignalingConnectionStateChange_def split: if_splits)
next
  case (candidate a w i cand a' w')
  then show ?case by (auto simp: HandleLocalCandidateReady_def Let_def split: option.splits if_splits dest: signal_text_ok)
qed simp

lemma stored_config_readable: "config_ok cfg \<Longrightarrow> uris_readable (iceServerUris (stored_config cfg))"
  by (auto simp: config_ok_def uri_ok_def stored_config_def uris_readable_def list_all_iff dest!: in_set_takeD)

section \<open>The ICE servers of a session\<close>

text \<open>The servers in a stored configuration.\<close>

definition stored_views :: "StoredIceServerConfig \<Rightarrow> server_view list" where
  "stored_views cfg = List.map_filter (uri_view (storedUserName cfg) (storedPassword cfg)) (take (iceServerUriCount cfg) (storedUris cfg))"

lemma config_views_stored: "config_ok cfg \<Longrightarrow> config_views (stored_config cfg) = stored_views cfg"
  by (simp add: config_ok_def config_views_def stored_config_def stored_views_def ice_server_consts
      SIGNALING_CONTROLLER_ICE_SERVER_USER_NAME_BUFFER_LENGTH_def SIGNALING_CONTROLLER_ICE_SERVER_PASSWORD_BUFFER_LENGTH_def)

lemma session_servers_stored:
  assumes "signaling_ok e a" "length (default_stun_url (AWS_REGION (appConfig e))) < ICE_CONTROLLER_ICE_SERVER_URL_MAX_LENGTH"
    and "SignalingController_QueryIceServerConfigs (appSignaling e) (appSignalingOs e) (Some (signalingControllerContext a)) True w
      = Some (SIGNALING_CONTROLLER_RESULT_OK, Some sc, cfgs, w1)"
  shows "\<exists>servers. session_servers e a w = Some (0, servers, a\<lparr>signalingControllerContext := sc\<rparr>, w1)
    \<and> map view servers = take ICE_CONTROLLER_MAX_ICE_SERVER_COUNT
        ((ICE_CONTROLLER_ICE_SERVER_TYPE_STUN, default_stun_url (AWS_REGION (appConfig e)), 443, None, [], [])
          # concat (map stored_views (take (iceServerConfigsCount sc) (iceServerConfigs sc))))"
proof -
  let ?cfgs = "take (iceServerConfigsCount sc) (iceServerConfigs sc)"
  from query_ok [OF assms(3,1)] have cfgs: "cfgs = Some ?cfgs" "list_all config_ok (iceServerConfigs sc)" by (auto simp: context_defs)
  then have ok: "list_all config_ok ?cfgs" by (auto simp: list_all_iff dest: in_set_takeD)
  then have readable: "\<forall>c \<in> set (map stored_config ?cfgs). uris_readable (iceServerUris c)" by (auto simp: list_all_iff intro: stored_config_readable)
  have views: "concat (map config_views (map stored_config ?cfgs)) = concat (map stored_views ?cfgs)"
    using ok by (auto simp: list_all_iff config_views_stored intro!: arg_cong [where f = concat])
  have "replicate ICE_CONTROLLER_MAX_ICE_SERVER_COUNT blank_server \<noteq> []" by (simp add: ICE_CONTROLLER_MAX_ICE_SERVER_COUNT_def)
  from GetIceServerList_refines [OF readable this assms(2)] assms(3) cfgs(1) show ?thesis
    unfolding views by (auto simp: session_servers_def)
qed


section \<open>What an offer is read with\<close>

lemma message_text_OnWss:
  assumes "OnWssMessageReceived slib True rx m = (0, rx', Some msg)" "message_text msg = Some t"
  shows "map (\<lambda>b. char_of (unat b)) rx' = t @ drop (length t) (map (\<lambda>b. char_of (unat b)) rx)"
  using assms by (auto simp: OnWssMessageReceived_def message_text_def Let_def drop_map split: option.splits sum.splits if_splits)

lemma char_of_0: "char_of (0 :: nat) = NUL"
  by (simp add: char_of_def)

lemma takeWhile_zeros: "NUL \<notin> set t \<Longrightarrow> takeWhile (\<lambda>c. c \<noteq> NUL) (t @ replicate k NUL) = t"
  by (induction t) (auto simp: takeWhile_replicate)

lemma plain_escaped: "list_all plain_line ls \<Longrightarrow> NUL \<notin> set (lines_escaped ls)"
  by (auto simp: lines_escaped_def escaped_newline_def plain_line_def list_all_iff)

text \<open>C7: A description is read together with an older one.  A message is decoded to the front of the receive buffer without a terminator, and
  the lines of its description are read up to one: when the message before it was longer, the first line behind the message is
  joined to what follows the description, and the remaining lines of the old message are lines of the new description.\<close>

theorem stale_lines_join_description:
  assumes "OnWssMessageReceived slib True (replicate n 0) m1 = (0, rx1, Some msg1)" "OnWssMessageReceived slib True rx1 m2 = (0, rx2, Some msg2)"
    and "message_text msg1 = Some (junk @ head @ lines_escaped ([] # olds) @ tail)" "length (junk @ head @ lines_escaped ([] # olds) @ tail) < n"
    and "message_text msg2 = Some t" "length t = length junk"
    and "SignalingController_ExtractSdpMessageFromSignalingMessage json (Some t) offer True = (SIGNALING_CONTROLLER_RESULT_OK, Some (lines_escaped (l # ls), rest))"
    and "list_all plain_line (l # ls @ olds)" "plain_line rest" "plain_line head" "plain_line tail"
    and "length (lines_text (l # ls @ (rest @ head) # olds)) \<le> PEER_CONNECTION_SDP_DESCRIPTION_BUFFER_MAX_LENGTH"
  shows "received_sdp json offer msg2 (drop (length t) rx2) = Some (Some (lines_text (l # ls @ (rest @ head) # olds)))"
proof -
  let ?old = "junk @ head @ lines_escaped ([] # olds) @ tail" and ?lines = "l # ls @ (rest @ head) # olds"
  have rx: "map (\<lambda>b. char_of (unat b)) (drop (length t) rx2) = head @ lines_escaped ([] # olds) @ tail @ replicate (n - length ?old) NUL"
    using message_text_OnWss [OF assms(1,3)] message_text_OnWss [OF assms(2,5)] assms(6) by (simp add: char_of_0 flip: drop_map)
  have joined: "lines_escaped (l # ls) @ rest @ head @ lines_escaped ([] # olds) @ tail = lines_escaped ?lines @ tail" by (simp add: lines_escaped_def)
  have plain: "list_all plain_line ?lines" using assms(8-10) by (auto simp: plain_line_def)
  have "NUL \<notin> set (lines_escaped ?lines @ tail)" using plain_escaped [OF plain] assms(11) by (simp add: plain_line_def)
  note mem = takeWhile_zeros [OF this, of "n - length ?old"]
  from assms(4) have zero: "NUL \<in> set (replicate (n - length ?old) NUL)" unfolding set_replicate_conv_if by simp
  have read: "deserialize_newlines PEER_CONNECTION_SDP_DESCRIPTION_BUFFER_MAX_LENGTH [] (lines_escaped ?lines @ tail) = (SIGNALING_CONTROLLER_RESULT_OK, lines_text ?lines)"
    using deserialize_lines_escaped [OF plain, of tail "[]"] assms(11,12) by (simp add: plain_line_def)
  have "lines_escaped (l # ls) @ rest @ map (\<lambda>b. char_of (unat b)) (drop (length t) rx2) = (lines_escaped ?lines @ tail) @ replicate (n - length ?old) NUL"
    using joined by (simp add: rx)
  moreover have "lines_escaped (l # ls) \<noteq> []" by (simp add: lines_escaped_def escaped_newline_def)
  ultimately show ?thesis
    using assms(5,7) mem zero read unfolding received_sdp_def by (simp add: SignalingController_DeserializeSdpContentNewline_def)
qed

end
