(* ===== verification/App_Common_Examples.thy ===== *)
theory App_Common_Examples
  imports App_Common_Correct Pc_Reach Pc_Sdp_Correct
begin

text \<open>
  An application with two sessions: it is initialised, tries to connect, and a client sends it a candidate.  The properties of
  \<open>App_Common_Correct\<close> at this run.
\<close>

section \<open>The world\<close>

definition demo_server :: SignalingIceServer where
  "demo_server = \<lparr>serverUserName = ''u'', serverPassword = ''p'', messageTtlSeconds = 300, serverUris = [''turn:a:443?transport=udp'']\<rparr>"

definition demo_app_lib :: signaling_lib where
  "demo_app_lib = demo_lib\<lparr>Signaling_ConstructGetIceServerConfigRequest := \<lambda>_ _ _ _ _. Some (''https://h/p'', ''{}''),
     Signaling_ParseGetIceServerConfigResponse := \<lambda>_ _. Some [demo_server],
     Signaling_ParseWssRecvMessage := \<lambda>b. Some \<lparr>recvType = SIGNALING_TYPE_MESSAGE_ICE_CANDIDATE, recvPayload = b, recvSender = ''peer'', recvCorrelationId = []\<rparr>\<rparr>"

definition demo_app_config :: demo_config where
  "demo_app_config = \<lparr>AWS_REGION = ''us-west-2'', AWS_KVS_CHANNEL_NAME = ''ch'', AWS_KVS_AGENT_NAME = ''ua'', AWS_CA_CERT_PATH = ''ca'',
     AWS_ACCESS_KEY = Some (''key'', ''secret'', None), AWS_IOT_THING = None, JOIN_STORAGE_SESSION = False\<rparr>"

definition demo_app :: "(unit, nat, unit, unit, RtpPacketInfo list, nat, (sdp_type \<times> string) list, unit) app_env" where
  "demo_app = \<lparr>appConfig = demo_app_config, appPc = demo_pc_env, appSdp = \<lambda>_. demo_sdp_session TRANSCEIVER_TRACK_KIND_VIDEO 8, appSerializer = demo_serializer,
     appRandom = 7, appSignaling = demo_app_lib, appSignalingOs = demo_signaling_os, appMalloc = \<lambda>w. ((Some 7, Some 8), w),
     appJson = \<lambda>t. Some [(''sdp'', t, [])], initTransceiverFunc = \<lambda>_ _ w. (0, w)\<rparr>"

lemma demo_http_send:
  assumes "length ua < 100"
  shows "\<exists>h' acts resp'. Networking_HttpSend demo_http_world (Some h) (Some \<lparr>verb = HTTP_POST, pUrl = ''https://h/p'', pHeaders = [], pUserAgent = ua, pBody = Some ''{}''\<rparr>)
    (Some creds) cfg (Some resp) = Some (NETWORKING_RESULT_OK, Some h', acts, Some resp')"
proof -
  have "GetHostFromUrl ''https://h/p'' (length ''https://h/p'') = Some (0, Some (8, 1))" "GetPathFromUrl ''https://h/p'' (length ''https://h/p'') = Some (0, Some (9, 2))" by code_simp+
  with assms show ?thesis
    by (simp add: Networking_HttpSend_def http_prepare_def if_ok_def CreateHttpLwsContext_def demo_http_world_def http_host_def http_time_def
        http_token_def http_path_def http_sign_def http_exchange_def http_loop.simps LwsHttpCallback_def GetCurrentTimeInIso8601Format_def
        ISO8601_TIME_LENGTH_def HTTP_URI_HOST_BUFFER_LENGTH_def HTTP_URI_PATH_BUFFER_LENGTH_def handshake_headers_def requiredHeaders_def no_header_def
        SignHttpRequest_def SIGV4_METADATA_BUFFER_LENGTH_def split: option.splits)
qed

definition demo_stored :: StoredIceServerConfig where
  "demo_stored = \<lparr>ttlSeconds = 300, storedUris = (storedUris zero_config)[0 := (''turn:a:443?transport=udp'', replicate 233 NUL)], iceServerUriCount = 1,
     storedUserName = ''u'', storedPassword = ''p''\<rparr>"

lemma demo_store: "store_config demo_server zero_config = (True, demo_stored)"
  by (simp add: store_config_def demo_server_def demo_stored_def zero_config_def SIGNALING_CONTROLLER_ICE_SERVER_MAX_URIS_COUNT_def
      SIGNALING_CONTROLLER_ICE_SERVER_URI_BUFFER_LENGTH_def)

definition demo_refreshed :: "NetworkingHttpContext \<Rightarrow> SignalingControllerContext \<Rightarrow> SignalingControllerContext" where
  "demo_refreshed h c = c\<lparr>httpContext := h, iceServerConfigs := demo_stored # tl (iceServerConfigs c), iceServerConfigsCount := 1, iceServerConfigExpirationSec := ice_expiration 300 100\<rparr>"

lemma demo_query:
  assumes "iceServerConfigsCount c = 0" "length (pUserAgentName c) < 100" "iceServerConfigs c = replicate SIGNALING_CONTROLLER_ICE_SERVER_MAX_CONFIG_COUNT zero_config"
  shows "\<exists>h. SignalingController_QueryIceServerConfigs demo_app_lib demo_signaling_os (Some c) True ()
    = Some (SIGNALING_CONTROLLER_RESULT_OK, Some (demo_refreshed h c), Some [demo_stored], ())"
proof -
  obtain h' acts resp' where "Networking_HttpSend demo_http_world (Some (httpContext c))
      (Some \<lparr>verb = HTTP_POST, pUrl = ''https://h/p'', pHeaders = [], pUserAgent = pUserAgentName c, pBody = Some ''{}''\<rparr>)
      (Some (stored_credentials c)) (awsConfig c) (Some fresh_response) = Some (NETWORKING_RESULT_OK, Some h', acts, Some resp')"
    using demo_http_send [OF assms(2)] by metis
  then have post: "post_signaling demo_signaling_os (Some (''https://h/p'', ''{}'')) c () = Some (SIGNALING_CONTROLLER_RESULT_OK, c\<lparr>httpContext := h'\<rparr>, pContent resp', ())"
    by (simp add: post_signaling_def HttpSend_def post_request_def SIGNALING_CONTROLLER_HTTP_NUM_RETRIES_def numeral_eq_Suc demo_signaling_os_def)
  have five: "SIGNALING_CONTROLLER_ICE_SERVER_MAX_CONFIG_COUNT = Suc 4" by (simp add: SIGNALING_CONTROLLER_ICE_SERVER_MAX_CONFIG_COUNT_def)
  have "(replicate 5 zero_config)[0 := demo_stored] = demo_stored # replicate 4 zero_config" by (simp add: numeral_eq_Suc)
  then have "store_configs 0 [demo_server] (- 1) (iceServerConfigs c) = (True, 1, 300, demo_stored # tl (iceServerConfigs c))"
    using demo_store by (simp add: assms(3) five demo_server_def SIGNALING_CONTROLLER_ICE_SERVER_USER_NAME_BUFFER_LENGTH_def SIGNALING_CONTROLLER_ICE_SERVER_PASSWORD_BUFFER_LENGTH_def)
  with post assms(1) have "SignalingController_QueryIceServerConfigs demo_app_lib demo_signaling_os (Some c) True ()
    = Some (SIGNALING_CONTROLLER_RESULT_OK, Some (demo_refreshed h' c), Some [demo_stored], ())"
    by (simp add: SignalingController_QueryIceServerConfigs_def GetIceServerConfigs_def demo_app_lib_def demo_refreshed_def demo_signaling_os_def del: store_configs.simps)
  then show ?thesis by blast
qed

section \<open>The run\<close>

abbreviation demo_sys :: pc_init_os where
  "demo_sys \<equiv> \<lparr>initCertificate = True, initQueue = True, initSrtpMutex = True, initBarrier = True, initTask = True, initSocketMutex = True, initIceMutex = True,
     initListener = True\<rparr>"

definition demo_app_start :: "(unit, nat, unit, unit) AppContext" where
  "demo_app_start = \<lparr>signalingControllerContext = demo_context, signalingControllerClientId = [], signalingControllerRole = SIGNALING_ROLE_MASTER, appSessions = [],
     natTraversalConfig = 0, signalingConnectionBarrier = 0, isFirstConnected = True\<rparr>"

definition demo_inited :: "int \<times> (unit, nat, unit, unit) AppContext option" where
  "demo_inited = AppCommon_Init demo_app demo_pc_start True True True [demo_sys, demo_sys] () True True (Some demo_app_start)"

abbreviation demo_app0 :: "(unit, nat, unit, unit) AppContext" where
  "demo_app0 \<equiv> the (snd demo_inited)"

definition demo_session0 :: "(unit, nat, unit, unit) pc_ctx" where
  "demo_session0 = snd (PeerConnection_Init demo_pc_env demo_sys () (Some \<lparr>cfgNatTraversal = 255, cfgIceServers = [], cfgRootCaPath = [], cfgRootCaPem = []\<rparr>) demo_pc_start)"

lemma demo_session0: "PeerConnection_Init demo_pc_env demo_sys () (Some \<lparr>cfgNatTraversal = 255, cfgIceServers = [], cfgRootCaPath = [], cfgRootCaPem = []\<rparr>) demo_pc_start
    = (PEER_CONNECTION_RESULT_OK, demo_session0)"
  "sessionState (world demo_session0) = PEER_CONNECTION_SESSION_STATE_INITED" "transceiverCount (world demo_session0) = 0"
  "requestQueue (world demo_session0) = \<lparr>mq_maxmsg = PEER_CONNECTION_MAX_QUEUE_MSG_NUM, mq_msgs = []\<rparr>"
  by (simp_all add: demo_session0_def demo_steps Let_def)

lemma demo_inited: "demo_inited = (0, Some demo_app0)"
  "appSessions demo_app0 = [\<lparr>remoteClientId = [], peerConnectionSession = demo_session0\<rparr>, \<lparr>remoteClientId = [], peerConnectionSession = demo_session0\<rparr>]"
  "signalingControllerContext demo_app0 = demo_started\<lparr>connectionStateCallback := True\<rparr>" "natTraversalConfig demo_app0 = 255"
  by (simp_all add: demo_inited_def AppCommon_Init_def demo_app_def demo_app_start_def zero_app_def demo_init(1) SignalingController_SetConnectionStateCallback_def
      AWS_MAX_VIEWER_NUM_def numeral_2_eq_2 InitializeAppSession_def demo_session0(1))

lemma demo_reach0: "app_reach demo_app (demo_app0, ())"
  by (rule app_reach.init [OF _ demo_inited(1) [unfolded demo_inited_def], folded demo_inited_def]) (simp add: demo_app_start_def demo_context_def)

text \<open>A first attempt to connect fails at the description of the channel; it leaves the callback for messages set.\<close>

definition demo_listening :: SignalingControllerContext where
  "demo_listening = fst (snd (the (listen_step demo_app_lib demo_signaling_os (task_connect_info demo_app_config demo_app0)
     (LISTEN_CONNECT, demo_started\<lparr>connectionStateCallback := True\<rparr>, ()))))"

lemma demo_listening: "listen_step demo_app_lib demo_signaling_os (task_connect_info demo_app_config demo_app0) (LISTEN_CONNECT, demo_started\<lparr>connectionStateCallback := True\<rparr>, ())
    = Some (LISTEN_CONNECT, demo_listening, ())"
  "messageReceivedCallback demo_listening" "iceServerConfigsCount demo_listening = 0" "pUserAgentName demo_listening = ''ua''"
  "iceServerConfigs demo_listening = replicate SIGNALING_CONTROLLER_ICE_SERVER_MAX_CONFIG_COUNT zero_config"
  by (simp_all add: demo_listening_def listen_step_def ConnectToSignalingService_def connect_steps_def obtain_credentials_def AreCredentialsExpired_def uses_iot_def
      copy_static_credentials_def sig_then_def DescribeSignalingChannel_def post_signaling_def OnConnectionStateChange_def take_connect_info_def demo_app_lib_def demo_lib_def
      demo_signaling_os_def task_connect_info_def demo_app_config_def demo_started_def SignalingController_Init_def Networking_HttpInit_def Networking_WebsocketInit_def
      RingBuffer_Init_def zero_signaling_context_def demo_context_def ws_init_def)

definition demo_app1 :: "(unit, nat, unit, unit) AppContext" where
  "demo_app1 = demo_app0\<lparr>signalingControllerContext := demo_listening\<rparr>"

lemma demo_reach1: "app_reach demo_app (demo_app1, ())"
  unfolding demo_app1_def by (rule app_reach.listen [OF demo_reach0, where ph = LISTEN_CONNECT]) (simp add: demo_inited(3) demo_app_def demo_listening(1))

text \<open>A client sends a candidate: the first session becomes its session.\<close>

lemma demo_start_session:
  "\<exists>p. start_session demo_app 0 ''peer'' servers bits \<lparr>remoteClientId = [], peerConnectionSession = demo_session0\<rparr>
      = (0, \<lparr>remoteClientId = ''peer'', peerConnectionSession = p\<rparr>) \<and> requestQueue (world p) = \<lparr>mq_maxmsg = PEER_CONNECTION_MAX_QUEUE_MSG_NUM, mq_msgs = []\<rparr>"
  using demo_session0(3,4)
  by (simp add: start_session_def PeerConnection_AddIceServerConfig_def IceController_AddIceServerConfig_def add_transceiver_def demo_app_def PeerConnection_AddTransceiver_def
      AllocateTransceiver_def PEER_CONNECTION_TRANSCEIVER_MAX_COUNT_def PeerConnection_Start_def EmptyMessageQueue_empty set_session_state_def demo_app_config_def ICE_CONTROLLER_MAX_PATH_LENGTH_def Let_def split: prod.splits)

lemma demo_app_fields: "appSignaling demo_app = demo_app_lib" "appSignalingOs demo_app = demo_signaling_os"
  "length (default_stun_url (AWS_REGION (appConfig demo_app))) < ICE_CONTROLLER_ICE_SERVER_URL_MAX_LENGTH"
  by (simp_all add: demo_app_def demo_app_config_def default_stun_url_def ice_server_consts)

lemma demo_servers:
  assumes "signaling_ok demo_app a" "signalingControllerContext a = demo_listening\<lparr>signalingRxMessageBuffer := rx\<rparr>"
  shows "\<exists>h servers. session_servers demo_app a () = Some (0, servers, a\<lparr>signalingControllerContext := demo_refreshed h (signalingControllerContext a)\<rparr>, ())"
proof -
  obtain h where "SignalingController_QueryIceServerConfigs demo_app_lib demo_signaling_os (Some (signalingControllerContext a)) True ()
    = Some (SIGNALING_CONTROLLER_RESULT_OK, Some (demo_refreshed h (signalingControllerContext a)), Some [demo_stored], ())"
    using demo_query [of "signalingControllerContext a"] assms(2) by (auto simp: demo_listening)
  with session_servers_stored [OF assms(1) demo_app_fields(3), unfolded demo_app_fields(1,2)] show ?thesis by blast
qed

definition demo_frame :: bytes where
  "demo_frame = map of_char ''SGVsbG8=''"

lemma demo_frame: "Base64_Decode (Some demo_frame) (Some SIGNALING_CONTROLLER_MESSAGE_BUFFER_LENGTH) = Inr demo_text"
  by code_simp

lemma demo_receive: "\<exists>a2. app_receive demo_app demo_frame demo_app1 () = Some (0, a2, ()) \<and> remoteClientId (appSessions a2 ! 0) = ''peer'' \<and> length (appSessions a2) = 2"
proof -
  let ?rx = "demo_text @ drop (length demo_text) (signalingRxMessageBuffer demo_listening)"
  let ?a = "demo_app1\<lparr>signalingControllerContext := demo_listening\<lparr>signalingRxMessageBuffer := ?rx\<rparr>\<rparr>"
  let ?msg = "\<lparr>pRemoteClientId = ''peer'', messageType = SIGNALING_TYPE_MESSAGE_ICE_CANDIDATE, pMessage = Some demo_text, pCorrelationId = []\<rparr>"
  have wss: "OnWssMessageReceived demo_app_lib True (signalingRxMessageBuffer demo_listening) demo_frame = (0, ?rx, Some ?msg)"
    using demo_frame by (simp add: OnWssMessageReceived_def demo_app_lib_def Let_def)
  have ctx: "signalingControllerContext ?a = demo_listening\<lparr>signalingRxMessageBuffer := ?rx\<rparr>" by simp
  have "signaling_ok demo_app ?a" using app_reach_signaling_ok [OF demo_reach1] by (simp add: demo_app1_def)
  from demo_servers [OF this ctx] obtain h servers where servers: "session_servers demo_app ?a () = Some (0, servers, ?a\<lparr>signalingControllerContext := demo_refreshed h (signalingControllerContext ?a)\<rparr>, ())"
    by blast
  have sessions: "appSessions ?a = [\<lparr>remoteClientId = [], peerConnectionSession = demo_session0\<rparr>, \<lparr>remoteClientId = [], peerConnectionSession = demo_session0\<rparr>]"
    by (simp add: demo_app1_def demo_inited(2))
  obtain p where "start_session demo_app 0 ''peer'' servers (natTraversalConfig ?a) \<lparr>remoteClientId = [], peerConnectionSession = demo_session0\<rparr>
      = (0, \<lparr>remoteClientId = ''peer'', peerConnectionSession = p\<rparr>)" using demo_start_session by blast
  with servers sessions have "\<exists>a2. StartPeerConnectionSession demo_app 0 ''peer'' ?a () = Some (0, a2, ())
      \<and> appSessions a2 = [\<lparr>remoteClientId = ''peer'', peerConnectionSession = p\<rparr>, \<lparr>remoteClientId = [], peerConnectionSession = demo_session0\<rparr>]"
    by (simp add: StartPeerConnectionSession_def REMOTE_ID_MAX_LENGTH_def)
  with sessions have "\<exists>a2. AppCommon_GetPeerConnectionSession demo_app ''peer'' ?a () = Some (Some 0, a2, ())
      \<and> appSessions a2 = [\<lparr>remoteClientId = ''peer'', peerConnectionSession = p\<rparr>, \<lparr>remoteClientId = [], peerConnectionSession = demo_session0\<rparr>]"
    by (auto simp: AppCommon_GetPeerConnectionSession_def demo_session0(2))
  then have "\<exists>a2. OnSignalingMessageReceived demo_app ?msg rest ?a () = Some (a2, ()) \<and> remoteClientId (appSessions a2 ! 0) = ''peer'' \<and> length (appSessions a2) = 2" for rest
    by (auto simp: OnSignalingMessageReceived_def HandleRemoteCandidate_def message_text_def PeerConnection_AddRemoteCandidate_def SendRemoteCandidateRequest_def
        demo_app_def demo_pc_env_def put_session_def)
  then show ?thesis using wss by (auto simp: app_receive_def demo_app1_def demo_app_def demo_listening(2))
qed

section \<open>Witnesses\<close>

theorem app_clients_distinct_witness:
  "\<exists>a2. app_reach demo_app (a2, ()) \<and> remoteClientId (appSessions a2 ! 0) = ''peer'' \<and> remoteClientId (appSessions a2 ! 0) \<noteq> remoteClientId (appSessions a2 ! 1)"
proof -
  obtain a2 where a2: "app_receive demo_app demo_frame demo_app1 () = Some (0, a2, ())" "remoteClientId (appSessions a2 ! 0) = ''peer''" "length (appSessions a2) = 2"
    using demo_receive by blast
  from app_reach.receive [OF demo_reach1 a2(1)] have "app_reach demo_app (a2, ())" .
  with app_clients_distinct [OF this, of 0 1] a2(2,3) show ?thesis by auto
qed


lemma demo_views: "stored_views demo_stored = [(ICE_CONTROLLER_ICE_SERVER_TYPE_TURN, ''a'', 443, Some ICE_SOCKET_PROTOCOL_UDP, ''u'', ''p'')]"
proof -
  have "uri_view ''u'' ''p'' (''turn:a:443?transport=udp'', replicate 233 NUL) = Some (ICE_CONTROLLER_ICE_SERVER_TYPE_TURN, ''a'', 443, Some ICE_SOCKET_PROTOCOL_UDP, ''u'', ''p'')"
    by code_simp
  then show ?thesis
    by (simp add: stored_views_def demo_stored_def zero_config_def SIGNALING_CONTROLLER_ICE_SERVER_MAX_URIS_COUNT_def numeral_eq_Suc map_filter_simps)
qed


text \<open>The transceiver for audio cannot be set up at the first start.\<close>

definition demo_failing :: "(unit, nat, unit, unit, RtpPacketInfo list, nat, (sdp_type \<times> string) list, unit) app_env" where
  "demo_failing = demo_app\<lparr>initTransceiverFunc := \<lambda>k _ w. (if k = TRANSCEIVER_TRACK_KIND_AUDIO then -1 else 0, w)\<rparr>"

lemma demo_failing_session:
  "\<exists>p. start_session demo_failing 0 ''peer'' servers bits \<lparr>remoteClientId = [], peerConnectionSession = demo_session0\<rparr>
      = (-1, \<lparr>remoteClientId = [], peerConnectionSession = p\<rparr>) \<and> transceiverCount (world p) = 1"
  using demo_session0(3)
  by (simp add: start_session_def PeerConnection_AddIceServerConfig_def IceController_AddIceServerConfig_def add_transceiver_def demo_failing_def demo_app_def
      PeerConnection_AddTransceiver_def AllocateTransceiver_def PEER_CONNECTION_TRANSCEIVER_MAX_COUNT_def demo_app_config_def ICE_CONTROLLER_MAX_PATH_LENGTH_def
      Let_def split: prod.splits)

lemma demo_failed_start:
  "\<exists>a1. StartPeerConnectionSession demo_failing 0 ''peer'' demo_app1 () = Some (-1, a1, ()) \<and> transceiverCount (world (session_of a1 0)) = 1
    \<and> length (appSessions a1) = 2 \<and> (\<exists>servers a2. session_servers demo_app a1 () = Some (0, servers, a2, ()) \<and> appSessions a2 = appSessions a1)"
proof -
  have ok: "signaling_ok demo_app demo_app1" using app_reach_signaling_ok [OF demo_reach1] by simp
  have "signalingControllerContext demo_app1 = demo_listening\<lparr>signalingRxMessageBuffer := signalingRxMessageBuffer demo_listening\<rparr>" by (simp add: demo_app1_def)
  from demo_servers [OF ok this] obtain h servers where
    servers: "session_servers demo_app demo_app1 () = Some (0, servers, demo_app1\<lparr>signalingControllerContext := demo_refreshed h demo_listening\<rparr>, ())"
    by (auto simp: demo_app1_def)
  obtain p where p: "start_session demo_failing 0 ''peer'' servers (natTraversalConfig demo_app1) \<lparr>remoteClientId = [], peerConnectionSession = demo_session0\<rparr>
      = (-1, \<lparr>remoteClientId = [], peerConnectionSession = p\<rparr>)" "transceiverCount (world p) = 1" using demo_failing_session by blast
  define a1 where "a1 = demo_app1\<lparr>signalingControllerContext := demo_refreshed h demo_listening,
    appSessions := [\<lparr>remoteClientId = [], peerConnectionSession = p\<rparr>, \<lparr>remoteClientId = [], peerConnectionSession = demo_session0\<rparr>]\<rparr>"
  have "session_servers demo_failing = session_servers demo_app" by (intro ext) (simp add: session_servers_def demo_failing_def)
  with servers p have "StartPeerConnectionSession demo_failing 0 ''peer'' demo_app1 () = Some (-1, a1, ())"
    by (simp add: StartPeerConnectionSession_def REMOTE_ID_MAX_LENGTH_def a1_def demo_app1_def demo_inited(2))
  moreover have ok1: "signaling_ok demo_app a1" using session_servers_ok [OF servers ok] by (simp add: a1_def)
  have query: "SignalingController_QueryIceServerConfigs demo_app_lib demo_signaling_os (Some (signalingControllerContext a1)) True ()
      = Some (SIGNALING_CONTROLLER_RESULT_OK, Some (signalingControllerContext a1), Some [demo_stored], ())"
    by (simp add: SignalingController_QueryIceServerConfigs_def a1_def demo_refreshed_def demo_signaling_os_def ice_expiration_def
        SIGNALING_CONTROLLER_ICE_CONFIG_REFRESH_GRACE_PERIOD_SEC_def)
  from session_servers_stored [OF ok1 demo_app_fields(3), unfolded demo_app_fields(1,2), OF query] have
    "\<exists>servers a2. session_servers demo_app a1 () = Some (0, servers, a2, ()) \<and> appSessions a2 = appSessions a1" by auto
  moreover have "transceiverCount (world (session_of a1 0)) = 1" "length (appSessions a1) = 2" using p(2) by (simp_all add: a1_def)
  ultimately show ?thesis by blast
qed

theorem failed_start_blocks_session_witness:
  "\<exists>a1 ret a2. StartPeerConnectionSession demo_failing 0 ''peer'' demo_app1 () = Some (-1, a1, ())
    \<and> StartPeerConnectionSession demo_app 0 ''other'' a1 () = Some (ret, a2, ()) \<and> ret \<noteq> 0 \<and> transceiverCount (world (session_of a2 0)) \<ge> 1"
proof -
  obtain a1 servers a0 where a1: "StartPeerConnectionSession demo_failing 0 ''peer'' demo_app1 () = Some (-1, a1, ())" "transceiverCount (world (session_of a1 0)) = 1"
    "length (appSessions a1) = 2" "session_servers demo_app a1 () = Some (0, servers, a0, ())" using demo_failed_start by blast
  obtain ret s where "start_session demo_app 0 ''other'' servers (natTraversalConfig a0) (appSessions a0 ! 0) = (ret, s)" by fastforce
  with a1(4) have "\<exists>a2. StartPeerConnectionSession demo_app 0 ''other'' a1 () = Some (ret, a2, ())"
    by (simp add: StartPeerConnectionSession_def REMOTE_ID_MAX_LENGTH_def)
  then obtain a2 where again: "StartPeerConnectionSession demo_app 0 ''other'' a1 () = Some (ret, a2, ())" by blast
  with failed_start_blocks_session [OF again] a1 show ?thesis by auto
qed

text \<open>A description of one line arrives when an older, longer message is still in the buffer.\<close>

definition demo_old_text :: string where
  "demo_old_text = ''ABCDEFG'' @ ''b'' @ lines_escaped [[], ''c'']"

definition demo_new_text :: string where
  "demo_new_text = lines_escaped [''v''] @ [CHR 0x22, CHR ''}'']"

definition demo_frame_of :: "string \<Rightarrow> bytes" where
  "demo_frame_of t = (case Base64_Encode (Some (map of_char t)) (Some 100) of Some (Inr b) \<Rightarrow> b | _ \<Rightarrow> [])"

theorem stale_lines_join_description_witness:
  "\<exists>rx1 msg1 rx2 msg2. OnWssMessageReceived demo_peer_lib True (replicate 100 0) (demo_frame_of demo_old_text) = (0, rx1, Some msg1)
    \<and> OnWssMessageReceived demo_peer_lib True rx1 (demo_frame_of demo_new_text) = (0, rx2, Some msg2)
    \<and> received_sdp (\<lambda>t. Some [(''sdp'', take 5 t, drop 5 t)]) True msg2 (drop (length demo_new_text) rx2) = Some (Some (lines_text [''v'', [CHR 0x22, CHR ''}'', CHR ''b''], ''c'']))"
proof -
  let ?old = "map of_char demo_old_text :: bytes" and ?new = "map of_char demo_new_text :: bytes"
  let ?msg = "\<lambda>p. \<lparr>pRemoteClientId = ''peer'', messageType = SIGNALING_TYPE_MESSAGE_SDP_OFFER, pMessage = Some p, pCorrelationId = []\<rparr>"
  have dec: "Base64_Decode (Some (demo_frame_of demo_old_text)) (Some SIGNALING_CONTROLLER_MESSAGE_BUFFER_LENGTH) = Inr ?old"
    "Base64_Decode (Some (demo_frame_of demo_new_text)) (Some SIGNALING_CONTROLLER_MESSAGE_BUFFER_LENGTH) = Inr ?new" by code_simp+
  have chars: "map (\<lambda>b. char_of (unat b)) ?old = ''ABCDEFG'' @ ''b'' @ lines_escaped ([] # [''c'']) @ []" "map (\<lambda>b. char_of (unat b)) ?new = demo_new_text" by code_simp+
  have wss: "OnWssMessageReceived demo_peer_lib True (replicate 100 0) (demo_frame_of demo_old_text) = (0, ?old @ drop (length ?old) (replicate 100 0), Some (?msg ?old))"
    "OnWssMessageReceived demo_peer_lib True rx (demo_frame_of demo_new_text) = (0, ?new @ drop (length ?new) rx, Some (?msg ?new))" for rx
    using dec by (simp_all add: OnWssMessageReceived_def demo_peer_lib_def Let_def)
  have len: "length demo_new_text = length ''ABCDEFG''" by (simp add: demo_new_text_def lines_escaped_def escaped_newline_def)
  have sdp: "SignalingController_ExtractSdpMessageFromSignalingMessage (\<lambda>t. Some [(''sdp'', take 5 t, drop 5 t)]) (Some demo_new_text) True True
      = (SIGNALING_CONTROLLER_RESULT_OK, Some (lines_escaped (''v'' # []), [CHR 0x22, CHR ''}'']))" by code_simp
  have "received_sdp (\<lambda>t. Some [(''sdp'', take 5 t, drop 5 t)]) True (?msg ?new) (drop (length demo_new_text) (?new @ drop (length ?new) (?old @ drop (length ?old) (replicate 100 0))))
      = Some (Some (lines_text (''v'' # [] @ ([CHR 0x22, CHR ''}''] @ ''b'') # [''c''])))"
    by (rule stale_lines_join_description [OF wss(1) wss(2) _ _ _ len sdp, where tail = "[]"])
       (simp_all add: message_text_def chars plain_line_def lines_text_def lines_escaped_def escaped_newline_def PEER_CONNECTION_SDP_DESCRIPTION_BUFFER_MAX_LENGTH_def del: map_map)
  with wss show ?thesis by simp
qed

end
