(* ===== verification/Srtcp.thy ===== *)
theory Srtcp
  imports Srtp_Session_Correct Pc_Session
begin

text \<open>
  Received control packets and sender reports, \<open>peer_connection/peer_connection_srtcp.c\<close>.  Retransmission is in \<open>Srtp_Send\<close>.  The RTCP
  parser, libsrtp and the manager of the transport-wide feedback are arguments.  What the code tells the application, or measures and
  prints, is a list of events.  The handlers of the file are called with a session and a packet that exist: their checks against NULL
  are left out.
\<close>

section \<open>Data\<close>

definition PEER_CONNECTION_RTCP_RECEIVER_REPORT_RECEPTION_REPORT_NUM :: nat where "PEER_CONNECTION_RTCP_RECEIVER_REPORT_RECEPTION_REPORT_NUM = 31"
definition PEER_CONNECTION_SRTCP_NACK_MAX_SEQ_NUM :: nat where "PEER_CONNECTION_SRTCP_NACK_MAX_SEQ_NUM = 128"
definition PEER_CONNECTION_SRTCP_REMB_MAX_SSRC_NUM :: nat where "PEER_CONNECTION_SRTCP_REMB_MAX_SSRC_NUM = 255"
definition PEER_CONNECTION_RTCP_TWCC_MAX_ARRAY :: nat where "PEER_CONNECTION_RTCP_TWCC_MAX_ARRAY = 100"
definition PEER_CONNECTION_SRTCP_DLSR_TIMESCALE :: u32 where "PEER_CONNECTION_SRTCP_DLSR_TIMESCALE = 65536"

definition PEER_CONNECTION_SRTCP_MID_NTP :: "u64 \<Rightarrow> u32" where
  "PEER_CONNECTION_SRTCP_MID_NTP t = ucast (drop_bit 16 t AND 0xFFFFFFFF)"

text \<open>The length of an RTCP header is fixed by RFC 3550.\<close>

definition RTCP_HEADER_LENGTH :: nat where "RTCP_HEADER_LENGTH = 4"

datatype RtcpPacketType =
    RTCP_PACKET_FIR
  | RTCP_PACKET_TRANSPORT_FEEDBACK_NACK
  | RTCP_PACKET_TRANSPORT_FEEDBACK_TWCC
  | RTCP_PACKET_PAYLOAD_FEEDBACK_PLI
  | RTCP_PACKET_PAYLOAD_FEEDBACK_SLI
  | RTCP_PACKET_PAYLOAD_FEEDBACK_REMB
  | RTCP_PACKET_SENDER_REPORT
  | RTCP_PACKET_RECEIVER_REPORT
  | RTCP_PACKET_SOURCE_DESCRIPTION
  | RTCP_PACKET_OTHER

record RtcpPacket =
  packetType :: RtcpPacketType
  rtcpPayload :: bytes

record RtcpReceptionReport =
  sourceSsrc :: u32
  lastSR :: u32
  delaySinceLastSR :: u32

text \<open>The events: a picture loss with sender and source, a bandwidth estimation, a round trip time in milliseconds.\<close>

datatype 'b rtcp_event =
    PictureLossIndication u32 u32
  | BandwidthEstimation 'b
  | RoundTrip TransceiverTrackKind u32

text \<open>The library: the parsers are given the room of the arrays that the code passes, \<open>rtcpTime i\<close> is the time at the \<open>i\<close>-th reception report.\<close>

record ('s, 't, 'b) rtcp_env =
  rtcpLockOk :: bool
  srtpUnprotectRtcp :: "'s \<Rightarrow> bytes \<Rightarrow> nat \<Rightarrow> bytes option \<times> 's"
  srtpProtectRtcp :: "'s \<Rightarrow> bytes \<Rightarrow> nat \<Rightarrow> bytes option \<times> 's"
  Rtcp_DeserializePacket :: "bytes \<Rightarrow> RtcpPacket option"
  Rtcp_ParseFirPacket :: "RtcpPacket \<Rightarrow> u32 option"
  Rtcp_ParseNackPacket :: "RtcpPacket \<Rightarrow> nat \<Rightarrow> (u32 \<times> u32 \<times> u16 list) option"
  Rtcp_ParseTwccPacket :: "RtcpPacket \<Rightarrow> nat \<Rightarrow> (u16 \<times> u64) list option"
  Rtcp_ParsePliPacket :: "RtcpPacket \<Rightarrow> (u32 \<times> u32) option"
  Rtcp_ParseSliPacket :: "RtcpPacket \<Rightarrow> u32 option"
  Rtcp_ParseRembPacket :: "RtcpPacket \<Rightarrow> nat \<Rightarrow> u32 list option"
  Rtcp_ParseSenderReport :: "RtcpPacket \<Rightarrow> u32 option"
  Rtcp_ParseReceiverReport :: "RtcpPacket \<Rightarrow> nat \<Rightarrow> RtcpReceptionReport list option"
  Rtcp_SerializeSenderReport :: "RtcpSenderReport \<Rightarrow> nat \<Rightarrow> bytes option"
  RtcpTwccManager_FindPacketInfo :: "'t \<Rightarrow> u16 \<Rightarrow> bool"
  twccSetLocalSentTime :: "u16 \<Rightarrow> u64 \<Rightarrow> 't \<Rightarrow> 't"
  RtcpTwccManager_HandleTwccPacket :: "(u16 \<times> u64) list \<Rightarrow> 't \<Rightarrow> 'b option \<times> 't"
  bandwidthDuration :: "'b \<Rightarrow> int"
  rtcpTime :: "nat \<Rightarrow> u64"

record ('t, 'b) srtcp_state =
  rtcpTwccManager :: 't
  onPictureLossIndicationCallback :: bool
  onBandwidthEstimationCallback :: bool
  rtcpEvents :: "'b rtcp_event list"

definition rtcp_event :: "'b rtcp_event \<Rightarrow> ('t, 'b) srtcp_state \<Rightarrow> ('t, 'b) srtcp_state" where
  "rtcp_event ev st = st\<lparr>rtcpEvents := rtcpEvents st @ [ev]\<rparr>"

section \<open>Handlers\<close>

abbreviation match_ssrc :: "('q, 's) srtp_session \<Rightarrow> u32 \<Rightarrow> PeerConnectionResult \<times> Transceiver option" where
  "match_ssrc ses x \<equiv> PeerConnection_MatchTransceiverBySsrc (PeerConnectionSession.truncate ses) x"

definition PeerConnectionSrtcp_MatchRemoteBySsrc :: "('q, 's) srtp_session \<Rightarrow> u32 \<Rightarrow> PeerConnectionResult" where
  "PeerConnectionSrtcp_MatchRemoteBySsrc ses x =
     (if x \<noteq> remoteSsrc ses MEDIA_AUDIO \<and> x \<noteq> remoteSsrc ses MEDIA_VIDEO then PEER_CONNECTION_RESULT_UNKNOWN_SSRC else PEER_CONNECTION_RESULT_OK)"

definition OnRtcpFirEvent :: "('s, 't, 'b) rtcp_env \<Rightarrow> RtcpPacket \<Rightarrow> ('q, 's) srtp_session \<Rightarrow> PeerConnectionResult" where
  "OnRtcpFirEvent env pkt ses =
     (case Rtcp_ParseFirPacket env pkt of
        None \<Rightarrow> PEER_CONNECTION_RESULT_FAIL_RTCP_PARSE_FIR
      | Some sender \<Rightarrow> fst (match_ssrc ses sender))"

text \<open>The time of arrival at the peer is stored as the time of sending, packet by packet.\<close>

fun note_arrivals :: "('s, 't, 'b) rtcp_env \<Rightarrow> (u16 \<times> u64) list \<Rightarrow> 't \<Rightarrow> 't" where
  "note_arrivals env [] t = t"
| "note_arrivals env ((num, arrival) # rest) t =
     note_arrivals env rest (if RtcpTwccManager_FindPacketInfo env t num then twccSetLocalSentTime env num arrival t else t)"

definition OnRtcpTwccEvent :: "('s, 't, 'b) rtcp_env \<Rightarrow> RtcpPacket \<Rightarrow> ('t, 'b) srtcp_state \<Rightarrow> PeerConnectionResult \<times> ('t, 'b) srtcp_state" where
  "OnRtcpTwccEvent env pkt st =
     (case Rtcp_ParseTwccPacket env pkt PEER_CONNECTION_RTCP_TWCC_MAX_ARRAY of
        None \<Rightarrow> (PEER_CONNECTION_RESULT_FAIL_RTCP_PARSE_TWCC, st)
      | Some arrivals \<Rightarrow>
          (let (info, t) = RtcpTwccManager_HandleTwccPacket env arrivals (note_arrivals env arrivals (rtcpTwccManager st));
               st1 = st\<lparr>rtcpTwccManager := t\<rparr>
           in (case info of
                 None \<Rightarrow> (PEER_CONNECTION_RESULT_FAIL_RTCP_HANDLE_TWCC, st1)
               | Some b \<Rightarrow>
                   (PEER_CONNECTION_RESULT_OK,
                    if bandwidthDuration env b > 0 \<and> onBandwidthEstimationCallback st then rtcp_event (BandwidthEstimation b) st1 else st1))))"

definition OnRtcpPliEvent ::
    "('s, 't, 'b) rtcp_env \<Rightarrow> RtcpPacket \<Rightarrow> ('q, 's) srtp_session \<Rightarrow> ('t, 'b) srtcp_state \<Rightarrow> PeerConnectionResult \<times> ('t, 'b) srtcp_state" where
  "OnRtcpPliEvent env pkt ses st =
     (case Rtcp_ParsePliPacket env pkt of
        None \<Rightarrow> (PEER_CONNECTION_RESULT_FAIL_RTCP_PARSE_PLI, st)
      | Some (sender, source) \<Rightarrow>
          (let r = fst (match_ssrc ses source)
           in (r, if r = PEER_CONNECTION_RESULT_OK \<and> onPictureLossIndicationCallback st then rtcp_event (PictureLossIndication sender source) st else st)))"

definition OnRtcpSliEvent :: "('s, 't, 'b) rtcp_env \<Rightarrow> RtcpPacket \<Rightarrow> ('q, 's) srtp_session \<Rightarrow> PeerConnectionResult" where
  "OnRtcpSliEvent env pkt ses =
     (case Rtcp_ParseSliPacket env pkt of
        None \<Rightarrow> PEER_CONNECTION_RESULT_FAIL_RTCP_PARSE_SLI
      | Some source \<Rightarrow> (let r = fst (match_ssrc ses source) in if r = PEER_CONNECTION_RESULT_UNKNOWN_SSRC then PEER_CONNECTION_RESULT_OK else r))"

text \<open>The result is that of the last source.\<close>

fun remb_loop :: "('q, 's) srtp_session \<Rightarrow> u32 list \<Rightarrow> PeerConnectionResult \<Rightarrow> PeerConnectionResult" where
  "remb_loop ses [] r = r"
| "remb_loop ses (x # xs) r = remb_loop ses xs (fst (match_ssrc ses x))"

definition OnRtcpRembEvent :: "('s, 't, 'b) rtcp_env \<Rightarrow> RtcpPacket \<Rightarrow> ('q, 's) srtp_session \<Rightarrow> PeerConnectionResult" where
  "OnRtcpRembEvent env pkt ses =
     (case Rtcp_ParseRembPacket env pkt PEER_CONNECTION_SRTCP_REMB_MAX_SSRC_NUM of
        None \<Rightarrow> PEER_CONNECTION_RESULT_FAIL_RTCP_PARSE_REMB
      | Some sources \<Rightarrow> remb_loop ses sources PEER_CONNECTION_RESULT_OK)"

definition OnRtcpSenderReportEvent :: "('s, 't, 'b) rtcp_env \<Rightarrow> RtcpPacket \<Rightarrow> ('q, 's) srtp_session \<Rightarrow> PeerConnectionResult" where
  "OnRtcpSenderReportEvent env pkt ses =
     (case Rtcp_ParseSenderReport env pkt of
        None \<Rightarrow> PEER_CONNECTION_RESULT_FAIL_RTCP_PARSE_SENDER_REPORT
      | Some sender \<Rightarrow>
          (let r = PeerConnectionSrtcp_MatchRemoteBySsrc ses sender in if r = PEER_CONNECTION_RESULT_UNKNOWN_SSRC then PEER_CONNECTION_RESULT_OK else r))"

text \<open>The time between a sender report and the reception report about it, without the delay at the peer, in milliseconds: differences of
  32 bits.\<close>

definition round_trip :: "u64 \<Rightarrow> RtcpReceptionReport \<Rightarrow> u32" where
  "round_trip now rep =
     ucast (ucast (PEER_CONNECTION_SRTCP_MID_NTP (NetworkingUtils_GetNTPTimeFromUnixTimeUs now)) - ucast (lastSR rep) - ucast (delaySinceLastSR rep) :: u64)
       * 1000 div PEER_CONNECTION_SRTCP_DLSR_TIMESCALE"

text \<open>The loop over the reception reports: source and times are always those of the first report.\<close>

fun report_loop ::
    "('s, 't, 'b) rtcp_env \<Rightarrow> ('q, 's) srtp_session \<Rightarrow> RtcpReceptionReport \<Rightarrow> nat \<Rightarrow> RtcpReceptionReport list \<Rightarrow> ('t, 'b) srtcp_state \<Rightarrow> ('t, 'b) srtcp_state" where
  "report_loop env ses first i [] st = st"
| "report_loop env ses first i (rep # reps) st =
     report_loop env ses first (i + 1) reps
       (case match_ssrc ses (sourceSsrc first) of
          (r, Some t) \<Rightarrow>
            if r = PEER_CONNECTION_RESULT_OK \<and> lastSR rep \<noteq> 0 \<and> (trackKind t = TRANSCEIVER_TRACK_KIND_AUDIO \<or> trackKind t = TRANSCEIVER_TRACK_KIND_VIDEO)
            then rtcp_event (RoundTrip (trackKind t) (round_trip (rtcpTime env i) first)) st else st
        | (r, None) \<Rightarrow> st)"

definition OnRtcpReceiverReportEvent ::
    "('s, 't, 'b) rtcp_env \<Rightarrow> RtcpPacket \<Rightarrow> ('q, 's) srtp_session \<Rightarrow> ('t, 'b) srtcp_state \<Rightarrow> PeerConnectionResult \<times> ('t, 'b) srtcp_state" where
  "OnRtcpReceiverReportEvent env pkt ses st =
     (case Rtcp_ParseReceiverReport env pkt PEER_CONNECTION_RTCP_RECEIVER_REPORT_RECEPTION_REPORT_NUM of
        None \<Rightarrow> (PEER_CONNECTION_RESULT_FAIL_RTCP_PARSE_RECEIVER_REPORT, st)
      | Some reps \<Rightarrow> (PEER_CONNECTION_RESULT_OK, report_loop env ses (hd reps) 0 reps st))"

section \<open>A compound packet\<close>

text \<open>A function of the send path on the session with its receivers.\<close>

definition on_sender ::
    "(('q, 's) PeerConnectionSession \<Rightarrow> (PeerConnectionResult \<times> ('q, 's) PeerConnectionSession) option) \<Rightarrow> ('q, 's) srtp_session
      \<Rightarrow> (PeerConnectionResult \<times> ('q, 's) srtp_session) option" where
  "on_sender f ses =
     map_option (\<lambda>(r, b). (r, PeerConnectionSession.extend b (PeerConnectionSession.more ses))) (f (PeerConnectionSession.truncate ses))"

definition handle_rtcp ::
    "('q, 's) tx_env \<Rightarrow> ('s, 't, 'b) rtcp_env \<Rightarrow> RtcpPacket \<Rightarrow> ('q, 's) srtp_session \<Rightarrow> ('t, 'b) srtcp_state
      \<Rightarrow> (PeerConnectionResult \<times> ('q, 's) srtp_session \<times> ('t, 'b) srtcp_state) option" where
  "handle_rtcp tx env pkt ses st =
     (case packetType pkt of
        RTCP_PACKET_FIR \<Rightarrow> Some (OnRtcpFirEvent env pkt ses, ses, st)
      | RTCP_PACKET_TRANSPORT_FEEDBACK_NACK \<Rightarrow>
          map_option (\<lambda>(r, ses1). (r, ses1, st))
            (on_sender (\<lambda>b. OnRtcpNackEvent tx b (Rtcp_ParseNackPacket env pkt PEER_CONNECTION_SRTCP_NACK_MAX_SEQ_NUM)) ses)
      | RTCP_PACKET_TRANSPORT_FEEDBACK_TWCC \<Rightarrow> (let (r, st1) = OnRtcpTwccEvent env pkt st in Some (r, ses, st1))
      | RTCP_PACKET_PAYLOAD_FEEDBACK_PLI \<Rightarrow> (let (r, st1) = OnRtcpPliEvent env pkt ses st in Some (r, ses, st1))
      | RTCP_PACKET_PAYLOAD_FEEDBACK_SLI \<Rightarrow> Some (OnRtcpSliEvent env pkt ses, ses, st)
      | RTCP_PACKET_PAYLOAD_FEEDBACK_REMB \<Rightarrow> Some (OnRtcpRembEvent env pkt ses, ses, st)
      | RTCP_PACKET_SENDER_REPORT \<Rightarrow> Some (OnRtcpSenderReportEvent env pkt ses, ses, st)
      | RTCP_PACKET_RECEIVER_REPORT \<Rightarrow> (let (r, st1) = OnRtcpReceiverReportEvent env pkt ses st in Some (r, ses, st1))
      | _ \<Rightarrow> Some (PEER_CONNECTION_RESULT_OK, ses, st))"

text \<open>The loop over the packets.  The length of a packet is not compared with what is left: a longer one has no outcome, unless its handler
  fails and ends the loop.\<close>

function rtcp_loop ::
    "('q, 's) tx_env \<Rightarrow> ('s, 't, 'b) rtcp_env \<Rightarrow> bytes \<Rightarrow> ('q, 's) srtp_session \<Rightarrow> ('t, 'b) srtcp_state
      \<Rightarrow> (PeerConnectionResult \<times> ('q, 's) srtp_session \<times> ('t, 'b) srtcp_state) option" where
  "rtcp_loop tx env left ses st =
     (if length left < RTCP_HEADER_LENGTH then Some (PEER_CONNECTION_RESULT_OK, ses, st)
      else
        (case Rtcp_DeserializePacket env left of
           None \<Rightarrow> Some (PEER_CONNECTION_RESULT_FAIL_RTCP_DESERIALIZE, ses, st)
         | Some pkt \<Rightarrow>
             (case handle_rtcp tx env pkt ses st of
                None \<Rightarrow> None
              | Some (r, ses1, st1) \<Rightarrow>
                  if r \<noteq> PEER_CONNECTION_RESULT_OK then Some (r, ses1, st1)
                  else if length left < length (rtcpPayload pkt) + RTCP_HEADER_LENGTH then None
                  else rtcp_loop tx env (drop (length (rtcpPayload pkt) + RTCP_HEADER_LENGTH) left) ses1 st1)))"
  by pat_completeness auto

termination
  by (relation "measure (\<lambda>(tx, env, left, ses, st). length left)") (auto simp: RTCP_HEADER_LENGTH_def)

declare rtcp_loop.simps [simp del]

definition PeerConnectionSrtp_HandleSrtcpPacket ::
    "('q, 's) tx_env \<Rightarrow> ('s, 't, 'b) rtcp_env \<Rightarrow> bytes option \<Rightarrow> ('q, 's) srtp_session option \<Rightarrow> ('t, 'b) srtcp_state
      \<Rightarrow> (PeerConnectionResult \<times> ('q, 's) srtp_session option \<times> ('t, 'b) srtcp_state) option" where
  "PeerConnectionSrtp_HandleSrtcpPacket tx env pBuffer pSession st =
     (case (pSession, pBuffer) of
        (Some ses, Some buffer) \<Rightarrow>
          if \<not> rtcpLockOk env then Some (PEER_CONNECTION_RESULT_FAIL_TAKE_SRTP_MUTEX, pSession, st)
          else
            (case srtpReceiveSession ses of
               None \<Rightarrow> Some (PEER_CONNECTION_RESULT_FAIL_DECRYPT_SRTP_RTP_PACKET, pSession, st)
             | Some t \<Rightarrow>
                 (let (dec, t') = srtpUnprotectRtcp env t buffer PEER_CONNECTION_SRTP_RTP_PACKET_MAX_LENGTH; ses1 = ses\<lparr>srtpReceiveSession := Some t'\<rparr>
                  in (case dec of
                        None \<Rightarrow> Some (PEER_CONNECTION_RESULT_FAIL_DECRYPT_SRTP_RTP_PACKET, Some ses1, st)
                      | Some plain \<Rightarrow> map_option (\<lambda>(r, ses2, st2). (r, Some ses2, st2)) (rtcp_loop tx env plain ses1 st))))
      | _ \<Rightarrow> Some (PEER_CONNECTION_RESULT_BAD_PARAMETER, pSession, st))"

section \<open>Sender reports\<close>

text \<open>\<open>pOut\<close> is the room of the output buffer; the result carries the encrypted report.\<close>

definition PeerConnectionSrtcp_ConstructSenderReportPacket ::
    "('s, 't, 'b) rtcp_env \<Rightarrow> RtcpSenderReport option \<Rightarrow> nat option \<Rightarrow> ('q, 's) srtp_session option
      \<Rightarrow> PeerConnectionResult \<times> bytes option \<times> ('q, 's) srtp_session option" where
  "PeerConnectionSrtcp_ConstructSenderReportPacket env pSenderReport pOut pSession =
     (case (pSession, pSenderReport, pOut) of
        (Some ses, Some report, Some room) \<Rightarrow>
          (case Rtcp_SerializeSenderReport env report room of
             None \<Rightarrow> (PEER_CONNECTION_RESULT_FAIL_RTCP_SERIALIZE_SENDER_REPORT, None, pSession)
           | Some plain \<Rightarrow>
               if \<not> rtcpLockOk env then (PEER_CONNECTION_RESULT_FAIL_TAKE_SRTP_MUTEX, None, pSession)
               else
                 (case srtpTransmitSession ses of
                    None \<Rightarrow> (PEER_CONNECTION_RESULT_FAIL_ENCRYPT_SRTP_RTCP_PACKET, None, pSession)
                  | Some t \<Rightarrow>
                      (let (enc, t') = srtpProtectRtcp env t plain room
                       in (if enc = None then PEER_CONNECTION_RESULT_FAIL_ENCRYPT_SRTP_RTCP_PACKET else PEER_CONNECTION_RESULT_OK, enc,
                           Some (ses\<lparr>srtpTransmitSession := Some t'\<rparr>)))))
      | _ \<Rightarrow> (PEER_CONNECTION_RESULT_BAD_PARAMETER, None, pSession))"

end
