(* ===== verification/Srtcp_Correct.thy ===== *)
theory Srtcp_Correct
  imports Srtcp
begin

text \<open>
  Control packets: a compound packet is handled packet by packet and leaves the send path in order, what a source that is not known does to the
  rest of it, and what the measured round trip time is.
\<close>

section \<open>Retransmission keeps the send path\<close>

lemma Resend_inv:
  assumes "rpq_spec (txQueue env) rep" "tx_inv rep ses xs"
  shows "\<exists>r ses'. ResendSrtpPacket env ses t s x = Some (r, ses') \<and> tx_inv rep ses' xs"
proof (cases "senderLockOk env")
  case False
  with assms show ?thesis by (simp add: ResendSrtpPacket_def Let_def)
next
  case True
  note hyps = assms True
  show ?thesis
  proof (cases "s \<in> seqNum ` set (xs (media_of t))")
    case stored: True
    show ?thesis
    proof (cases "uses_rtx ses (media_of t)")
      case True
      from Resend_rtx [OF hyps stored this, of x] show ?thesis by blast
    next
      case False
      from Resend_plain [OF hyps stored this, of x] show ?thesis by blast
    qed
  next
    case False
    from Resend_missing [OF hyps this] assms(2) show ?thesis by blast
  qed
qed

lemma nack_loop_inv:
  assumes "rpq_spec (txQueue env) rep" "tx_inv rep ses xs"
  shows "\<exists>r ses'. nack_loop env ses t x seqs = Some (r, ses') \<and> tx_inv rep ses' xs"
  using assms(2)
proof (induction seqs arbitrary: ses)
  case (Cons s seqs)
  from Resend_inv [OF assms(1) Cons.prems] obtain r ses1 where "ResendSrtpPacket env ses t s x = Some (r, ses1)" "tx_inv rep ses1 xs" by blast
  with Cons.IH show ?case by auto
qed simp

lemma OnRtcpNackEvent_inv:
  assumes "rpq_spec (txQueue env) rep" "tx_inv rep ses xs"
  shows "\<exists>r ses'. OnRtcpNackEvent env ses parsed = Some (r, ses') \<and> tx_inv rep ses' xs"
  using nack_loop_inv [OF assms] assms(2) by (auto simp: OnRtcpNackEvent_def split: option.splits prod.splits)

section \<open>Compound packets\<close>

lemma extend_truncate [simp]:
  "PeerConnectionSession.truncate (PeerConnectionSession.extend b (PeerConnectionSession.more ses)) = b"
  "srtpReceiver (PeerConnectionSession.extend b (PeerConnectionSession.more ses)) = srtpReceiver ses"
  by (cases ses, simp add: PeerConnectionSession.truncate_def PeerConnectionSession.extend_def)+

lemma truncate_receive [simp]: "PeerConnectionSession.truncate (ses\<lparr>srtpReceiveSession := t\<rparr>) = PeerConnectionSession.truncate ses"
  by (simp add: PeerConnectionSession.truncate_def)

lemma handle_rtcp_safe:
  assumes "rpq_spec (txQueue tx) rep" "tx_inv rep (PeerConnectionSession.truncate ses) xs"
  shows "\<exists>r ses' st'. handle_rtcp tx env pkt ses st = Some (r, ses', st') \<and> tx_inv rep (PeerConnectionSession.truncate ses') xs \<and> srtpReceiver ses' = srtpReceiver ses"
proof -
  obtain r b where "OnRtcpNackEvent tx (PeerConnectionSession.truncate ses) (Rtcp_ParseNackPacket env pkt PEER_CONNECTION_SRTCP_NACK_MAX_SEQ_NUM) = Some (r, b)" "tx_inv rep b xs"
    using OnRtcpNackEvent_inv [OF assms] by blast
  with assms(2) show ?thesis by (cases "packetType pkt") (auto simp: handle_rtcp_def on_sender_def Let_def split: prod.splits)
qed

text \<open>The parser gives packets that are within what it was given.\<close>

definition rtcp_fits :: "('s, 't, 'b) rtcp_env \<Rightarrow> bool" where
  "rtcp_fits env \<longleftrightarrow> (\<forall>left pkt. Rtcp_DeserializePacket env left = Some pkt \<longrightarrow> length (rtcpPayload pkt) + RTCP_HEADER_LENGTH \<le> length left)"

lemma rtcp_loop_safe:
  assumes "rpq_spec (txQueue tx) rep" "rtcp_fits env" "tx_inv rep (PeerConnectionSession.truncate ses) xs"
  shows "\<exists>r ses' st'. rtcp_loop tx env left ses st = Some (r, ses', st') \<and> tx_inv rep (PeerConnectionSession.truncate ses') xs \<and> srtpReceiver ses' = srtpReceiver ses"
  using assms
proof (induction tx env left ses st rule: rtcp_loop.induct)
  case (1 tx env left ses st)
  show ?case
  proof (cases "length left < RTCP_HEADER_LENGTH \<or> Rtcp_DeserializePacket env left = None")
    case True
    with 1(4) show ?thesis by (subst rtcp_loop.simps) auto
  next
    case False
    then obtain pkt where pkt: "\<not> length left < RTCP_HEADER_LENGTH" "Rtcp_DeserializePacket env left = Some pkt" by auto
    with 1(3) have fits: "\<not> length left < length (rtcpPayload pkt) + RTCP_HEADER_LENGTH" by (auto simp: rtcp_fits_def not_less)
    obtain r ses1 st1 where h: "handle_rtcp tx env pkt ses st = Some (r, ses1, st1)" "tx_inv rep (PeerConnectionSession.truncate ses1) xs" "srtpReceiver ses1 = srtpReceiver ses"
      using handle_rtcp_safe [OF 1(2,4)] by blast
    show ?thesis
    proof (cases "r = PEER_CONNECTION_RESULT_OK")
      case True
      with 1(1) [OF pkt h(1) refl refl _ fits 1(2,3) h(2)] pkt h fits show ?thesis by (subst rtcp_loop.simps) simp
    next
      case False
      with pkt h show ?thesis by (subst rtcp_loop.simps) simp
    qed
  qed
qed

text \<open>C24: A control packet does no harm.  Whatever arrives, also from a sender that lies, \<open>PeerConnectionSrtp_HandleSrtcpPacket\<close> returns; no
  packet of the rolling buffers is lost, freed or used after it was freed, whatever is retransmitted, and the receivers are untouched.  The
  parser must only not report a packet longer than what it was given.\<close>

theorem srtcp_packet_safe:
  assumes "rpq_spec (txQueue tx) rep" "rtcp_fits env" "tx_inv rep (PeerConnectionSession.truncate ses) xs"
  shows "\<exists>r ses' st'. PeerConnectionSrtp_HandleSrtcpPacket tx env (Some buffer) (Some ses) st = Some (r, Some ses', st')
    \<and> tx_inv rep (PeerConnectionSession.truncate ses') xs \<and> srtpReceiver ses' = srtpReceiver ses"
proof (cases "rtcpLockOk env \<and> srtpReceiveSession ses \<noteq> None")
  case False
  with assms(3) show ?thesis by (auto simp: PeerConnectionSrtp_HandleSrtcpPacket_def)
next
  case True
  then obtain t where t: "rtcpLockOk env" "srtpReceiveSession ses = Some t" by auto
  obtain dec t' where dec: "srtpUnprotectRtcp env t buffer PEER_CONNECTION_SRTP_RTP_PACKET_MAX_LENGTH = (dec, t')" by fastforce
  let ?ses = "ses\<lparr>srtpReceiveSession := Some t'\<rparr>"
  have "tx_inv rep (PeerConnectionSession.truncate ?ses) xs" using assms(3) by simp
  from rtcp_loop_safe [OF assms(1,2) this, of "the dec" st] t dec assms(3) show ?thesis
    by (cases dec) (auto simp: PeerConnectionSrtp_HandleSrtcpPacket_def)
qed

text \<open>The packets of a compound packet one after the other, up to the first that fails.\<close>

fun rtcp_all ::
    "('q, 's) tx_env \<Rightarrow> ('s, 't, 'b) rtcp_env \<Rightarrow> RtcpPacket list \<Rightarrow> ('q, 's) srtp_session \<Rightarrow> ('t, 'b) srtcp_state
      \<Rightarrow> (PeerConnectionResult \<times> ('q, 's) srtp_session \<times> ('t, 'b) srtcp_state) option" where
  "rtcp_all tx env [] ses st = Some (PEER_CONNECTION_RESULT_OK, ses, st)"
| "rtcp_all tx env (pkt # pkts) ses st =
     (case handle_rtcp tx env pkt ses st of
        None \<Rightarrow> None
      | Some (r, ses1, st1) \<Rightarrow> if r \<noteq> PEER_CONNECTION_RESULT_OK then Some (r, ses1, st1) else rtcp_all tx env pkts ses1 st1)"

text \<open>An encoding that the parser reads back from the front of a buffer.\<close>

definition rtcp_encoding :: "('s, 't, 'b) rtcp_env \<Rightarrow> (RtcpPacket \<Rightarrow> bytes) \<Rightarrow> RtcpPacket list \<Rightarrow> bool" where
  "rtcp_encoding env enc pkts \<longleftrightarrow>
     (\<forall>pkt \<in> set pkts. length (enc pkt) = length (rtcpPayload pkt) + RTCP_HEADER_LENGTH \<and> (\<forall>rest. Rtcp_DeserializePacket env (enc pkt @ rest) = Some pkt))"

lemma rtcp_loop_all:
  assumes "rtcp_encoding env enc pkts" "length tail < RTCP_HEADER_LENGTH"
  shows "rtcp_loop tx env (concat (map enc pkts) @ tail) ses st = rtcp_all tx env pkts ses st"
  using assms(1)
proof (induction pkts arbitrary: ses st)
  case Nil
  with assms(2) show ?case by (subst rtcp_loop.simps) simp
next
  case (Cons pkt pkts)
  from Cons.prems have "length (enc pkt) = length (rtcpPayload pkt) + RTCP_HEADER_LENGTH" "Rtcp_DeserializePacket env (enc pkt @ rest) = Some pkt"
    "rtcp_encoding env enc pkts" for rest by (auto simp: rtcp_encoding_def)
  with Cons.IH show ?case by (subst rtcp_loop.simps) (auto split: option.splits)
qed

text \<open>C25: refinement.  A compound packet is handled packet by packet: what a decrypted buffer of encoded packets, with less than a header behind them,
  does to the session is what its packets do in order, up to the first one whose handler fails.\<close>

theorem srtcp_compound_in_order:
  assumes "rtcpLockOk env" "srtpReceiveSession ses = Some t" "rtcp_encoding env enc pkts" "length tail < RTCP_HEADER_LENGTH"
    and "srtpUnprotectRtcp env t buffer PEER_CONNECTION_SRTP_RTP_PACKET_MAX_LENGTH = (Some (concat (map enc pkts) @ tail), t')"
  shows "PeerConnectionSrtp_HandleSrtcpPacket tx env (Some buffer) (Some ses) st
    = map_option (\<lambda>(r, ses2, st2). (r, Some ses2, st2)) (rtcp_all tx env pkts (ses\<lparr>srtpReceiveSession := Some t'\<rparr>) st)"
  using assms rtcp_loop_all [OF assms(3,4), of tx] by (simp add: PeerConnectionSrtp_HandleSrtcpPacket_def)

lemma match_unknown: "\<forall>t \<in> set (transceivers ses). x \<noteq> ssrc t \<and> x \<noteq> rtxSsrc t \<Longrightarrow> match_ssrc ses x = (PEER_CONNECTION_RESULT_UNKNOWN_SSRC, None)"
  by (auto simp: PeerConnection_MatchTransceiverBySsrc_def PeerConnectionSession.truncate_def find_None_iff split: option.splits)


section \<open>The round trip time\<close>

lemma ucast_minus: "(ucast (x - y :: u64) :: u32) = ucast x - ucast y"
proof transfer
  fix x y :: int
  have "take_bit 32 (take_bit 64 x - take_bit 64 y) = take_bit 32 (take_bit 32 (take_bit 64 x) - take_bit 32 (take_bit 64 y))"
    by (rule take_bit_diff [symmetric])
  also have "\<dots> = take_bit 32 (take_bit 32 x - take_bit 32 y)" by simp
  also have "\<dots> = take_bit 32 (x - y)" by (rule take_bit_diff)
  finally show "take_bit LENGTH(32) (take_bit LENGTH(64) (x - y)) = take_bit LENGTH(32) (take_bit LENGTH(64) x - take_bit LENGTH(64) y)"
    by simp
qed

lemma ucast_u64_u32_id: "(ucast (ucast z :: u64) :: u32) = z"
  by transfer simp

text \<open>The round trip time is the one that passed, in milliseconds, also when the 32 bits of the clock wrap in between, as long as it is
  below 65.5 seconds.  \<open>d\<close> counts units of 1/65536 second.\<close>

theorem round_trip_exact:
  assumes "PEER_CONNECTION_SRTCP_MID_NTP (NetworkingUtils_GetNTPTimeFromUnixTimeUs now) = lastSR rep + delaySinceLastSR rep + d" "unat d * 1000 < 2 ^ 32"
  shows "unat (round_trip now rep) = unat d * 1000 div 65536"
proof -
  have "(ucast (ucast (a + b + d :: u32) - ucast a - ucast b :: u64) :: u32) = d" for a b
    unfolding ucast_minus ucast_u64_u32_id by simp
  then have "round_trip now rep = d * 1000 div 65536" unfolding round_trip_def assms(1) by (simp add: PEER_CONNECTION_SRTCP_DLSR_TIMESCALE_def)
  moreover have "unat (d * 1000) = unat d * 1000" using assms(2) by (simp add: unat_word_ariths)
  ultimately show ?thesis by (simp add: unat_div)
qed

section \<open>Examples\<close>

text \<open>A session that has sent a packet with number 9, and a parser of packets that start with a number for their type and the length of
  their payload: 1 is a NACK of number 9, 2 a picture loss of the source in its payload.\<close>

definition demo_rtcp :: "(nat, unit, unit) rtcp_env" where
  "demo_rtcp = \<lparr>rtcpLockOk = True, srtpUnprotectRtcp = \<lambda>t b n. (Some b, t + 1), srtpProtectRtcp = \<lambda>t b n. (Some b, t + 1),
     Rtcp_DeserializePacket = \<lambda>b. (case b of
         k # n # _ # _ # rest \<Rightarrow>
           if unat n \<le> length rest
           then Some \<lparr>packetType = (if k = 1 then RTCP_PACKET_TRANSPORT_FEEDBACK_NACK else if k = 2 then RTCP_PACKET_PAYLOAD_FEEDBACK_PLI else RTCP_PACKET_OTHER),
             rtcpPayload = take (unat n) rest\<rparr>
           else None
       | _ \<Rightarrow> None),
     Rtcp_ParseFirPacket = \<lambda>_. None, Rtcp_ParseNackPacket = \<lambda>_ _. Some (5, 1, [9]), Rtcp_ParseTwccPacket = \<lambda>_ _. None,
     Rtcp_ParsePliPacket = \<lambda>pkt. (case rtcpPayload pkt of x # _ \<Rightarrow> Some (5, ucast x) | [] \<Rightarrow> None), Rtcp_ParseSliPacket = \<lambda>_. None,
     Rtcp_ParseRembPacket = \<lambda>_ _. None, Rtcp_ParseSenderReport = \<lambda>_. None, Rtcp_ParseReceiverReport = \<lambda>_ _. None, Rtcp_SerializeSenderReport = \<lambda>_ _. None,
     RtcpTwccManager_FindPacketInfo = \<lambda>_ _. False, twccSetLocalSentTime = \<lambda>_ _ t. t, RtcpTwccManager_HandleTwccPacket = \<lambda>_ t. (None, t),
     bandwidthDuration = \<lambda>_. 0, rtcpTime = \<lambda>_. 0\<rparr>"

definition demo_srtcp :: "(RtpPacketInfo list, nat) srtp_session" where
  "demo_srtcp = PeerConnectionSession.extend ((demo_sent 0)\<lparr>transceivers := [demo_video]\<rparr>)
     (srtp_session.fields (srtpReceiver demo_srtp) (Some 0) (\<lambda>_. 3) (\<lambda>_. True))"

definition demo_srtcp_state :: "(unit, unit) srtcp_state" where
  "demo_srtcp_state = \<lparr>rtcpTwccManager = (), onPictureLossIndicationCallback = True, onBandwidthEstimationCallback = False, rtcpEvents = []\<rparr>"

lemma demo_srtcp_fields: "PeerConnectionSession.truncate demo_srtcp = (demo_sent 0)\<lparr>transceivers := [demo_video]\<rparr>" "srtpReceiveSession demo_srtcp = Some 0"
  "transceivers demo_srtcp = [demo_video]"
  by (simp_all add: demo_srtcp_def PeerConnectionSession.truncate_def PeerConnectionSession.extend_def srtp_session.defs)

lemma demo_srtcp_inv: "tx_inv (=) (PeerConnectionSession.truncate demo_srtcp) (\<lambda>m. if m = MEDIA_VIDEO then [new_info 0 9 2] else [])"
  unfolding demo_srtcp_fields by (rule tx_inv_cong [OF demo_sent_inv [of 0]]) simp_all

lemma demo_rtcp_fits: "rtcp_fits demo_rtcp"
  by (auto simp: rtcp_fits_def demo_rtcp_def RTCP_HEADER_LENGTH_def split: list.splits if_splits)

theorem srtcp_packet_safe_witness:
  "\<exists>r ses' st'. PeerConnectionSrtp_HandleSrtcpPacket demo_tx_env demo_rtcp (Some [1, 0, 0, 0]) (Some demo_srtcp) demo_srtcp_state = Some (r, Some ses', st')
    \<and> srtpReceiver ses' = srtpReceiver demo_srtcp"
  using srtcp_packet_safe [OF demo_resend_hyps(1) demo_rtcp_fits demo_srtcp_inv] by blast

definition demo_nack :: RtcpPacket where "demo_nack = \<lparr>packetType = RTCP_PACKET_TRANSPORT_FEEDBACK_NACK, rtcpPayload = []\<rparr>"
definition demo_pli :: "u8 \<Rightarrow> RtcpPacket" where "demo_pli x = \<lparr>packetType = RTCP_PACKET_PAYLOAD_FEEDBACK_PLI, rtcpPayload = [x]\<rparr>"

definition demo_encode :: "RtcpPacket \<Rightarrow> bytes" where
  "demo_encode pkt = [if packetType pkt = RTCP_PACKET_TRANSPORT_FEEDBACK_NACK then 1 else 2, of_nat (length (rtcpPayload pkt)), 0, 0] @ rtcpPayload pkt"

theorem srtcp_compound_in_order_witness:
  "PeerConnectionSrtp_HandleSrtcpPacket demo_tx_env demo_rtcp (Some [2, 1, 0, 0, 1, 1, 0, 0, 0, 0]) (Some demo_srtcp) demo_srtcp_state
    = map_option (\<lambda>(r, ses2, st2). (r, Some ses2, st2)) (rtcp_all demo_tx_env demo_rtcp [demo_pli 1, demo_nack] (demo_srtcp\<lparr>srtpReceiveSession := Some 1\<rparr>) demo_srtcp_state)"
proof (rule srtcp_compound_in_order [where enc = demo_encode and tail = "[0]"])
  show "rtcp_encoding demo_rtcp demo_encode [demo_pli 1, demo_nack]"
    by (simp add: rtcp_encoding_def demo_encode_def demo_pli_def demo_nack_def demo_rtcp_def RTCP_HEADER_LENGTH_def)
qed (simp_all add: demo_rtcp_def demo_srtcp_fields demo_encode_def demo_pli_def demo_nack_def RTCP_HEADER_LENGTH_def)


end
