(* ===== verification/Net_Sockets.thy ===== *)
theory Net_Sockets
  imports String_Utils "HOL-Library.Monad_Syntax"
begin

text \<open>
  \<open>network_transport/tcp_sockets_wrapper/ports/posix/tcp_sockets_wrapper.c\<close>,
  \<open>network_transport/udp_sockets_wrapper/ports/posix/udp_sockets_wrapper.c\<close> and the two files
  \<open>mbedtls_bio_*_sockets_wrapper.c\<close> that hand these sockets to mbedTLS.  The state has the open
  descriptors of the process and the \<open>struct xSOCKET\<close> objects on the heap; the answers of the operating
  system are an argument.  \<open>socket()\<close> returns the lowest descriptor that is not open, as POSIX says, and
  \<open>malloc()\<close> the lowest address that is not in use, a choice on which nothing depends.
\<close>

section \<open>Codes\<close>

definition SOCKETS_ERRNO_NONE :: int where "SOCKETS_ERRNO_NONE = 0"
definition SOCKETS_ERRNO_ERROR :: int where "SOCKETS_ERRNO_ERROR = -1"
definition SOCKETS_ERRNO_EWOULDBLOCK :: int where "SOCKETS_ERRNO_EWOULDBLOCK = -2"
definition SOCKETS_ERRNO_ENOMEM :: int where "SOCKETS_ERRNO_ENOMEM = -3"
definition SOCKETS_ERRNO_EINVAL :: int where "SOCKETS_ERRNO_EINVAL = -4"
definition SOCKETS_ERRNO_ENOTCONN :: int where "SOCKETS_ERRNO_ENOTCONN = -6"
definition SOCKETS_ERRNO_ENOSPC :: int where "SOCKETS_ERRNO_ENOSPC = -10"
definition SOCKETS_ERRNO_EINTR :: int where "SOCKETS_ERRNO_EINTR = -11"

lemmas sockets_errno_defs = SOCKETS_ERRNO_NONE_def SOCKETS_ERRNO_ERROR_def SOCKETS_ERRNO_EWOULDBLOCK_def
  SOCKETS_ERRNO_ENOMEM_def SOCKETS_ERRNO_EINVAL_def SOCKETS_ERRNO_ENOTCONN_def SOCKETS_ERRNO_ENOSPC_def
  SOCKETS_ERRNO_EINTR_def

text \<open>\<open>errno\<close>, as far as the code tells its values apart; \<open>EWOULDBLOCK\<close> is \<open>EAGAIN\<close> on Linux.\<close>

datatype errno_t = ERR_EAGAIN | ERR_EINTR | ERR_ENOMEM | ERR_ENOSPC | ERR_EPIPE | ERR_ECONNRESET | ERR_OTHER

text \<open>An \<open>int\<close> of the mbedTLS interface: the four codes of the library that the code names are negative and
  differ from the \<open>SOCKETS_ERRNO\<close> codes, so they are constructors; any other value is \<open>SSL_INT\<close>.\<close>

datatype ssl_ret = SSL_INT int | SSL_WANT_READ | SSL_WANT_WRITE | SSL_TIMEOUT | SSL_INTERNAL_ERROR

section \<open>The operating system\<close>

record addrinfo =
  ai_family :: int
  ai_socktype :: int
  ai_protocol :: int
  ai_addr :: bytes

datatype ip_proto = IPPROTO_TCP | IPPROTO_UDP

datatype sock_option = SO_RCVTIMEO | SO_SNDTIMEO

definition O_NONBLOCK :: int where "O_NONBLOCK = 2048"

text \<open>A socket option is given as a \<open>uint32_t\<close>; the size of the value, 4, is part of the call.\<close>

record 'w net_os =
  osGetaddrinfo :: "string \<Rightarrow> string \<Rightarrow> ip_proto \<Rightarrow> 'w \<Rightarrow> addrinfo list option \<times> 'w"
  osSocketOk :: "addrinfo \<Rightarrow> 'w \<Rightarrow> bool \<times> 'w"
  osConnectOk :: "int \<Rightarrow> addrinfo \<Rightarrow> 'w \<Rightarrow> bool \<times> 'w"
  osMallocOk :: "'w \<Rightarrow> bool \<times> 'w"
  osGetfl :: "int \<Rightarrow> 'w \<Rightarrow> int \<times> 'w"
  osSetfl :: "int \<Rightarrow> int \<Rightarrow> 'w \<Rightarrow> int \<times> 'w"
  osSetsockopt :: "int \<Rightarrow> sock_option \<Rightarrow> u32 \<Rightarrow> nat \<Rightarrow> 'w \<Rightarrow> 'w"
  osShutdown :: "int \<Rightarrow> 'w \<Rightarrow> 'w"
  osWrite :: "int \<Rightarrow> bytes \<Rightarrow> 'w \<Rightarrow> (int \<times> errno_t) \<times> 'w"
  osRead :: "int \<Rightarrow> nat \<Rightarrow> 'w \<Rightarrow> (int \<times> errno_t \<times> bytes) \<times> 'w"

text \<open>\<open>sockHeap\<close> has the address and the field \<open>xFd\<close> of every \<open>struct xSOCKET\<close>; a \<open>Socket_t\<close> is an address
  or NULL.\<close>

record 'w net_state =
  fdsOpen :: "nat list"
  sockHeap :: "(nat \<times> int) list"
  netWorld :: 'w

type_synonym Socket_t = "nat option"

definition lowest_free :: "nat list \<Rightarrow> nat" where
  "lowest_free xs = hd (filter (\<lambda>n. n \<notin> set xs) [0..<Suc (length xs)])"

lemma lowest_free_notin: "lowest_free xs \<notin> set xs"
proof -
  have "\<not> {0..<Suc (length xs)} \<subseteq> set xs"
    using card_mono [of "set xs" "{0..<Suc (length xs)}"] card_length [of xs] by fastforce
  hence "filter (\<lambda>n. n \<notin> set xs) [0..<Suc (length xs)] \<noteq> []"
    by (auto simp: filter_empty_conv simp del: upt_Suc)
  from hd_in_set [OF this] show ?thesis
    unfolding lowest_free_def by (simp del: upt_Suc)
qed

text \<open>\<open>close()\<close> of a descriptor that is not open fails and changes nothing.\<close>

definition net_close :: "int \<Rightarrow> 'w net_state \<Rightarrow> 'w net_state" where
  "net_close fd st = st\<lparr>fdsOpen := filter (\<lambda>d. int d \<noteq> fd) (fdsOpen st)\<rparr>"

text \<open>The field \<open>xFd\<close> behind a handle: a NULL or freed handle has none.\<close>

definition sock_fd :: "Socket_t \<Rightarrow> 'w net_state \<Rightarrow> int option" where
  "sock_fd s st = do { a \<leftarrow> s; map_of (sockHeap st) a }"

definition sock_free :: "Socket_t \<Rightarrow> 'w net_state \<Rightarrow> 'w net_state" where
  "sock_free s st = st\<lparr>sockHeap := filter (\<lambda>(a, fd). Some a \<noteq> s) (sockHeap st)\<rparr>"

text \<open>\<open>malloc( sizeof( struct xSOCKET ) )\<close> followed by the assignment of \<open>xFd\<close>.\<close>

definition sock_alloc :: "'w net_os \<Rightarrow> int \<Rightarrow> 'w net_state \<Rightarrow> Socket_t \<times> 'w net_state" where
  "sock_alloc sys fd st =
     (let (ok, w) = osMallocOk sys (netWorld st); a = lowest_free (map fst (sockHeap st))
      in if ok then (Some a, st\<lparr>sockHeap := (a, fd) # sockHeap st, netWorld := w\<rparr>) else (None, st\<lparr>netWorld := w\<rparr>))"

section \<open>TCP\<close>

text \<open>The loop over the addresses: the result code, the last descriptor, the state.\<close>

primrec tcp_try ::
    "'w net_os \<Rightarrow> addrinfo list \<Rightarrow> int \<Rightarrow> int \<Rightarrow> 'w net_state \<Rightarrow> int \<times> int \<times> 'w net_state" where
  "tcp_try sys [] xRet xFd st = (xRet, xFd, st)"
| "tcp_try sys (cur # rest) xRet xFd st =
     (let (ok, w1) = osSocketOk sys cur (netWorld st)
      in if \<not> ok then tcp_try sys rest SOCKETS_ERRNO_ENOMEM (-1) (st\<lparr>netWorld := w1\<rparr>)
         else
           (let d = lowest_free (fdsOpen st); fd = int d; (ok, w2) = osConnectOk sys fd cur w1;
                st1 = st\<lparr>fdsOpen := d # fdsOpen st, netWorld := w2\<rparr>
            in if ok then (SOCKETS_ERRNO_NONE, fd, st1)
               else tcp_try sys rest SOCKETS_ERRNO_ERROR fd (net_close fd st1)))"

text \<open>No time-out at all makes the descriptor non-blocking; otherwise both options are set.\<close>

definition tcp_options :: "'w net_os \<Rightarrow> int \<Rightarrow> u32 \<Rightarrow> u32 \<Rightarrow> 'w net_state \<Rightarrow> int \<times> 'w net_state" where
  "tcp_options sys fd receiveTimeoutMs sendTimeoutMs st =
     (if receiveTimeoutMs = 0 \<and> sendTimeoutMs = 0
      then
        (let (flags, w1) = osGetfl sys fd (netWorld st)
         in if flags < 0 then (SOCKETS_ERRNO_ERROR, st\<lparr>netWorld := w1\<rparr>)
            else
              (let (r, w2) = osSetfl sys fd (flags OR O_NONBLOCK) w1
               in (if r < 0 then SOCKETS_ERRNO_ERROR else SOCKETS_ERRNO_NONE, st\<lparr>netWorld := w2\<rparr>)))
      else
        (SOCKETS_ERRNO_NONE,
         st\<lparr>netWorld := osSetsockopt sys fd SO_SNDTIMEO sendTimeoutMs 4 (osSetsockopt sys fd SO_RCVTIMEO receiveTimeoutMs 4 (netWorld st))\<rparr>))"

text \<open>\<open>cur\<close> is the value of \<open>*pTcpSocket\<close> before the call, which stays unless a connection was made.\<close>

definition TCP_Sockets_Connect ::
    "'w net_os \<Rightarrow> Socket_t \<Rightarrow> string \<Rightarrow> u16 \<Rightarrow> u32 \<Rightarrow> u32 \<Rightarrow> 'w net_state \<Rightarrow> int \<times> Socket_t \<times> 'w net_state" where
  "TCP_Sockets_Connect sys cur pHostName port receiveTimeoutMs sendTimeoutMs st =
     (let (addrs, w1) = osGetaddrinfo sys pHostName (show_nat (unat port)) IPPROTO_TCP (netWorld st); st1 = st\<lparr>netWorld := w1\<rparr>
      in (case addrs of
            None \<Rightarrow> (SOCKETS_ERRNO_ERROR, cur, st1)
          | Some pxAddrList \<Rightarrow>
              (let (xRet, xFd, st2) = tcp_try sys pxAddrList SOCKETS_ERRNO_ERROR (-1) st1
               in if xRet \<noteq> SOCKETS_ERRNO_NONE then (xRet, cur, st2)
                  else
                    (case sock_alloc sys xFd st2 of
                       (None, st3) \<Rightarrow> (SOCKETS_ERRNO_ENOMEM, None, net_close xFd st3)
                     | (Some a, st3) \<Rightarrow>
                         (let (r, st4) = tcp_options sys xFd receiveTimeoutMs sendTimeoutMs st3 in (r, Some a, st4))))))"

definition TCP_Sockets_Disconnect :: "'w net_os \<Rightarrow> Socket_t \<Rightarrow> 'w net_state \<Rightarrow> 'w net_state option" where
  "TCP_Sockets_Disconnect sys tcpSocket st =
     do {
       fd \<leftarrow> sock_fd tcpSocket st;
       Some (sock_free tcpSocket (net_close fd (st\<lparr>netWorld := osShutdown sys fd (netWorld st)\<rparr>)))
     }"

text \<open>\<open>read()\<close> and \<open>write()\<close> on the descriptor of a handle; the bytes read are those the count names.\<close>

definition sock_write :: "'w net_os \<Rightarrow> Socket_t \<Rightarrow> bytes \<Rightarrow> 'w net_state \<Rightarrow> ((int \<times> errno_t) \<times> 'w net_state) option" where
  "sock_write sys xSocket buf st =
     do { fd \<leftarrow> sock_fd xSocket st; let (r, w) = osWrite sys fd buf (netWorld st); Some (r, st\<lparr>netWorld := w\<rparr>) }"

definition sock_read :: "'w net_os \<Rightarrow> Socket_t \<Rightarrow> nat \<Rightarrow> 'w net_state \<Rightarrow> ((int \<times> errno_t \<times> bytes) \<times> 'w net_state) option" where
  "sock_read sys xSocket n st =
     do { fd \<leftarrow> sock_fd xSocket st; let (r, w) = osRead sys fd n (netWorld st); Some (r, st\<lparr>netWorld := w\<rparr>) }"

definition TCP_Sockets_Send :: "'w net_os \<Rightarrow> Socket_t \<Rightarrow> bytes \<Rightarrow> 'w net_state \<Rightarrow> (int \<times> 'w net_state) option" where
  "TCP_Sockets_Send sys xSocket buf st =
     do {
       ((n, e), st1) \<leftarrow> sock_write sys xSocket buf st;
       Some (if n \<ge> 0 then n
             else (case e of
                     ERR_EAGAIN \<Rightarrow> SOCKETS_ERRNO_EWOULDBLOCK
                   | ERR_EINTR \<Rightarrow> SOCKETS_ERRNO_EWOULDBLOCK
                   | ERR_ENOMEM \<Rightarrow> SOCKETS_ERRNO_EWOULDBLOCK
                   | ERR_ENOSPC \<Rightarrow> SOCKETS_ERRNO_EWOULDBLOCK
                   | ERR_EPIPE \<Rightarrow> SOCKETS_ERRNO_ENOTCONN
                   | ERR_ECONNRESET \<Rightarrow> SOCKETS_ERRNO_ENOTCONN
                   | ERR_OTHER \<Rightarrow> SOCKETS_ERRNO_ERROR), st1)
     }"

definition TCP_Sockets_Recv :: "'w net_os \<Rightarrow> Socket_t \<Rightarrow> nat \<Rightarrow> 'w net_state \<Rightarrow> (int \<times> bytes \<times> 'w net_state) option" where
  "TCP_Sockets_Recv sys xSocket n st =
     do {
       ((k, e, out), st1) \<leftarrow> sock_read sys xSocket n st;
       Some (if k \<ge> 0 then (k, take (nat k) out, st1)
             else (case e of
                     ERR_EAGAIN \<Rightarrow> 0
                   | ERR_EINTR \<Rightarrow> 0
                   | ERR_EPIPE \<Rightarrow> SOCKETS_ERRNO_ENOTCONN
                   | ERR_ECONNRESET \<Rightarrow> SOCKETS_ERRNO_ENOTCONN
                   | _ \<Rightarrow> SOCKETS_ERRNO_ERROR, [], st1))
     }"

text \<open>A freed handle has no outcome; NULL gives \<open>-1\<close>.\<close>

definition TCP_Sockets_GetSocketFd :: "Socket_t \<Rightarrow> 'w net_state \<Rightarrow> int option" where
  "TCP_Sockets_GetSocketFd xSocket st = (if xSocket = None then Some (-1) else sock_fd xSocket st)"

section \<open>UDP\<close>

definition UDP_Sockets_CreateAndAssign :: "'w net_os \<Rightarrow> bool \<Rightarrow> int \<Rightarrow> 'w net_state \<Rightarrow> int \<times> Socket_t \<times> 'w net_state" where
  "UDP_Sockets_CreateAndAssign sys hasOut assignFd st =
     (if \<not> hasOut then (SOCKETS_ERRNO_EINVAL, None, st)
      else (case sock_alloc sys assignFd st of
              (None, st1) \<Rightarrow> (SOCKETS_ERRNO_ENOMEM, None, st1)
            | (Some a, st1) \<Rightarrow> (SOCKETS_ERRNO_NONE, Some a, st1)))"

text \<open>The loop uses the one descriptor of the handle for every address.\<close>

primrec udp_try :: "'w net_os \<Rightarrow> int \<Rightarrow> addrinfo list \<Rightarrow> int \<Rightarrow> 'w net_state \<Rightarrow> int \<times> 'w net_state" where
  "udp_try sys xFd [] xRet st = (xRet, st)"
| "udp_try sys xFd (cur # rest) xRet st =
     (if xFd < 0 then udp_try sys xFd rest SOCKETS_ERRNO_ENOMEM st
      else
        (let (ok, w) = osConnectOk sys xFd cur (netWorld st); st1 = st\<lparr>netWorld := w\<rparr>
         in if ok then (SOCKETS_ERRNO_NONE, st1) else udp_try sys xFd rest SOCKETS_ERRNO_ERROR st1))"

text \<open>The time-outs are not used.  The handle is only dereferenced when there is an address.\<close>

definition UDP_Sockets_Connect :: "'w net_os \<Rightarrow> Socket_t \<Rightarrow> string \<Rightarrow> u16 \<Rightarrow> 'w net_state \<Rightarrow> (int \<times> 'w net_state) option" where
  "UDP_Sockets_Connect sys udpSocket pHostName port st =
     (let (addrs, w1) = osGetaddrinfo sys pHostName (show_nat (unat port)) IPPROTO_UDP (netWorld st); st1 = st\<lparr>netWorld := w1\<rparr>
      in (case addrs of
            None \<Rightarrow> Some (SOCKETS_ERRNO_ERROR, st1)
          | Some [] \<Rightarrow> Some (SOCKETS_ERRNO_ERROR, st1)
          | Some l \<Rightarrow> do { xFd \<leftarrow> sock_fd udpSocket st1; Some (udp_try sys xFd l SOCKETS_ERRNO_ERROR st1) }))"

text \<open>The descriptor belongs to the caller and is not closed.\<close>

definition UDP_Sockets_Disconnect :: "'w net_os \<Rightarrow> Socket_t \<Rightarrow> 'w net_state \<Rightarrow> 'w net_state option" where
  "UDP_Sockets_Disconnect sys udpSocket st =
     do { fd \<leftarrow> sock_fd udpSocket st; Some (sock_free udpSocket (st\<lparr>netWorld := osShutdown sys fd (netWorld st)\<rparr>)) }"

definition UDP_Sockets_Send :: "'w net_os \<Rightarrow> Socket_t \<Rightarrow> bytes \<Rightarrow> 'w net_state \<Rightarrow> (int \<times> 'w net_state) option" where
  "UDP_Sockets_Send sys xSocket buf st =
     do {
       ((n, e), st1) \<leftarrow> sock_write sys xSocket buf st;
       Some (if n \<ge> 0 then n
             else (case e of
                     ERR_EPIPE \<Rightarrow> SOCKETS_ERRNO_ENOTCONN
                   | ERR_ECONNRESET \<Rightarrow> SOCKETS_ERRNO_ENOTCONN
                   | _ \<Rightarrow> SOCKETS_ERRNO_ERROR), st1)
     }"

definition UDP_Sockets_Recv :: "'w net_os \<Rightarrow> Socket_t \<Rightarrow> nat \<Rightarrow> 'w net_state \<Rightarrow> (int \<times> bytes \<times> 'w net_state) option" where
  "UDP_Sockets_Recv sys xSocket n st =
     do {
       ((k, e, out), st1) \<leftarrow> sock_read sys xSocket n st;
       Some (if k \<ge> 0 then (k, take (nat k) out, st1)
             else (case e of
                     ERR_EAGAIN \<Rightarrow> 0
                   | ERR_EINTR \<Rightarrow> 0
                   | ERR_EPIPE \<Rightarrow> SOCKETS_ERRNO_ENOTCONN
                   | ERR_ECONNRESET \<Rightarrow> SOCKETS_ERRNO_ENOTCONN
                   | _ \<Rightarrow> SOCKETS_ERRNO_ERROR, [], st1))
     }"

definition UDP_Sockets_GetSocketFd :: "Socket_t \<Rightarrow> 'w net_state \<Rightarrow> int option" where
  "UDP_Sockets_GetSocketFd xSocket st = (if xSocket = None then Some (-1) else sock_fd xSocket st)"

section \<open>The callbacks of mbedTLS\<close>

text \<open>The \<open>switch\<close> on the result of a send and on that of a receive.\<close>

definition bio_send_status :: "int \<Rightarrow> ssl_ret" where
  "bio_send_status r =
     (if r \<in> {SOCKETS_ERRNO_ENOTCONN, SOCKETS_ERRNO_ENOMEM, SOCKETS_ERRNO_EINVAL, SOCKETS_ERRNO_EINTR} then SSL_INTERNAL_ERROR
      else if r = SOCKETS_ERRNO_ENOSPC then SSL_TIMEOUT
      else SSL_INT r)"

definition bio_recv_status :: "int \<Rightarrow> ssl_ret" where
  "bio_recv_status r =
     (if r \<in> {SOCKETS_ERRNO_ENOTCONN, SOCKETS_ERRNO_ENOMEM, SOCKETS_ERRNO_EINVAL} then SSL_INTERNAL_ERROR
      else if r = 0 then SSL_WANT_READ
      else SSL_INT r)"

definition xMbedTLSBioTCPSocketsWrapperSend ::
    "'w net_os \<Rightarrow> Socket_t \<Rightarrow> bytes \<Rightarrow> 'w net_state \<Rightarrow> (ssl_ret \<times> 'w net_state) option" where
  "xMbedTLSBioTCPSocketsWrapperSend sys ctx buf st =
     do {
       (r, st1) \<leftarrow> TCP_Sockets_Send sys ctx buf st;
       Some (if r = SOCKETS_ERRNO_EWOULDBLOCK then SSL_WANT_WRITE else bio_send_status r, st1)
     }"

definition xMbedTLSBioTCPSocketsWrapperRecv ::
    "'w net_os \<Rightarrow> Socket_t \<Rightarrow> nat \<Rightarrow> 'w net_state \<Rightarrow> (ssl_ret \<times> bytes \<times> 'w net_state) option" where
  "xMbedTLSBioTCPSocketsWrapperRecv sys ctx len st =
     do { (r, out, st1) \<leftarrow> TCP_Sockets_Recv sys ctx len st; Some (bio_recv_status r, out, st1) }"

definition xMbedTLSBioUDPSocketsWrapperSend ::
    "'w net_os \<Rightarrow> Socket_t \<Rightarrow> bytes \<Rightarrow> 'w net_state \<Rightarrow> (ssl_ret \<times> 'w net_state) option" where
  "xMbedTLSBioUDPSocketsWrapperSend sys ctx buf st =
     do { (r, st1) \<leftarrow> UDP_Sockets_Send sys ctx buf st; Some (bio_send_status r, st1) }"

definition xMbedTLSBioUDPSocketsWrapperRecv ::
    "'w net_os \<Rightarrow> Socket_t \<Rightarrow> nat \<Rightarrow> 'w net_state \<Rightarrow> (ssl_ret \<times> bytes \<times> 'w net_state) option" where
  "xMbedTLSBioUDPSocketsWrapperRecv sys ctx len st =
     do { (r, out, st1) \<leftarrow> UDP_Sockets_Recv sys ctx len st; Some (bio_recv_status r, out, st1) }"

end
