(* ===== verification/Tls_Transport.thy ===== *)
theory Tls_Transport
  imports Net_Sockets
begin

text \<open>
  \<open>network_transport/transport_mbedtls.c\<close>: TLS over TCP, which the ICE controller uses to reach a TURN
  server.  The functions of mbedTLS are an argument; the ones that move data are trees of the callbacks
  they make, with a branch for every answer.  The state says which of the seven mbedTLS objects of
  \<open>SSLContext_t\<close> hold an initialised context that was not freed.  \<open>assert\<close> is active: a failed one has no
  outcome.
\<close>

section \<open>Data\<close>

datatype TlsTransportStatus_t =
    TLS_TRANSPORT_SUCCESS
  | TLS_TRANSPORT_INVALID_PARAMETER
  | TLS_TRANSPORT_INSUFFICIENT_MEMORY
  | TLS_TRANSPORT_INVALID_CREDENTIALS
  | TLS_TRANSPORT_HANDSHAKE_FAILED
  | TLS_TRANSPORT_HANDSHAKE_IN_PROGRESS
  | TLS_TRANSPORT_INTERNAL_ERROR
  | TLS_TRANSPORT_CONNECT_FAILURE

definition TLS_CONNECT_NON_BLOCKING_HANDSHAKE :: u32 where "TLS_CONNECT_NON_BLOCKING_HANDSHAKE = push_bit 0 1"

definition TRANSPORT_MBEDTLS_MAX_FILE_PATH_LENGTH :: nat where "TRANSPORT_MBEDTLS_MAX_FILE_PATH_LENGTH = 1024"

text \<open>The sizes of the struct are the lengths of the lists.\<close>

record NetworkCredentials =
  pAlpnProtos :: "string list option"
  disableSni :: int
  pRootCa :: "bytes option"
  pRootCaPath :: "string option"
  pClientCert :: "bytes option"
  pPrivateKey :: "bytes option"

datatype ssl_object = ObjConfig | ObjContext | ObjRootCa | ObjClientCert | ObjPrivKey | ObjEntropy | ObjCtrDrbg

text \<open>\<open>sslState\<close> stands for the contents of the mbedTLS objects, \<open>bioCtx\<close> for the pointer that
  \<open>mbedtls_ssl_set_bio\<close> stores in the connection context.\<close>

record 's TlsTransportParams =
  tcpSocket :: Socket_t
  sslState :: 's
  sslLive :: "ssl_object \<Rightarrow> bool"
  bioCtx :: Socket_t

record 's TlsNetworkContext =
  pParams :: "'s TlsTransportParams option"

section \<open>The library\<close>

datatype 's ssl_run =
    SslReturn ssl_ret bytes 's
  | SslSend bytes "ssl_ret \<Rightarrow> 's ssl_run"
  | SslRecv nat "ssl_ret \<Rightarrow> bytes \<Rightarrow> 's ssl_run"

record 's ssl_lib =
  libInit :: "ssl_object \<Rightarrow> 's \<Rightarrow> 's"
  libFree :: "ssl_object \<Rightarrow> 's \<Rightarrow> 's"
  libPsaCryptoInit :: "'s \<Rightarrow> int \<times> 's"
  libSeed :: "'s \<Rightarrow> int \<times> 's"
  libConfigDefaults :: "'s \<Rightarrow> int \<times> 's"
  libConfAuthmode :: "'s \<Rightarrow> 's"
  libConfRng :: "'s \<Rightarrow> 's"
  libConfCertProfile :: "'s \<Rightarrow> 's"
  libCrtParse :: "ssl_object \<Rightarrow> bytes \<Rightarrow> 's \<Rightarrow> int \<times> 's"
  libCrtParseFile :: "ssl_object \<Rightarrow> string \<Rightarrow> 's \<Rightarrow> int \<times> 's"
  libConfCaChain :: "'s \<Rightarrow> 's"
  libParseKey :: "bytes \<Rightarrow> 's \<Rightarrow> int \<times> 's"
  libConfOwnCert :: "'s \<Rightarrow> int \<times> 's"
  libConfAlpn :: "string list \<Rightarrow> 's \<Rightarrow> int \<times> 's"
  libSetHostname :: "string \<Rightarrow> 's \<Rightarrow> int \<times> 's"
  libSslSetup :: "'s \<Rightarrow> int \<times> 's"
  libSetBio :: "'s \<Rightarrow> 's"
  libHandshake :: "'s \<Rightarrow> 's ssl_run"
  libRead :: "nat \<Rightarrow> 's \<Rightarrow> 's ssl_run"
  libWrite :: "bytes \<Rightarrow> 's \<Rightarrow> 's ssl_run"
  libCloseNotify :: "'s \<Rightarrow> 's ssl_run"

primrec ssl_exec ::
    "'w net_os \<Rightarrow> 's ssl_run \<Rightarrow> 's TlsTransportParams \<Rightarrow> 'w net_state
      \<Rightarrow> (ssl_ret \<times> bytes \<times> 's TlsTransportParams \<times> 'w net_state) option" where
  "ssl_exec sys (SslReturn r out s) p st = Some (r, out, p\<lparr>sslState := s\<rparr>, st)"
| "ssl_exec sys (SslSend buf k) p st =
     do { (r, st1) \<leftarrow> xMbedTLSBioTCPSocketsWrapperSend sys (bioCtx p) buf st; ssl_exec sys (k r) p st1 }"
| "ssl_exec sys (SslRecv n k) p st =
     do { (r, out, st1) \<leftarrow> xMbedTLSBioTCPSocketsWrapperRecv sys (bioCtx p) n st; ssl_exec sys (k r out) p st1 }"

text \<open>\<open>mbedtls_*_init\<close> and \<open>mbedtls_*_free\<close> of one object; both clear the connection context.\<close>

definition ssl_init :: "'s ssl_lib \<Rightarrow> ssl_object \<Rightarrow> 's TlsTransportParams \<Rightarrow> 's TlsTransportParams" where
  "ssl_init lb ob p =
     p\<lparr>sslState := libInit lb ob (sslState p), sslLive := (sslLive p)(ob := True), bioCtx := (if ob = ObjContext then None else bioCtx p)\<rparr>"

definition ssl_free :: "'s ssl_lib \<Rightarrow> ssl_object \<Rightarrow> 's TlsTransportParams \<Rightarrow> 's TlsTransportParams" where
  "ssl_free lb ob p =
     p\<lparr>sslState := libFree lb ob (sslState p), sslLive := (sslLive p)(ob := False), bioCtx := (if ob = ObjContext then None else bioCtx p)\<rparr>"

definition ssl_conf :: "('s \<Rightarrow> 's) \<Rightarrow> 's TlsTransportParams \<Rightarrow> 's TlsTransportParams" where
  "ssl_conf f p = p\<lparr>sslState := f (sslState p)\<rparr>"

definition ssl_try :: "('s \<Rightarrow> int \<times> 's) \<Rightarrow> 's TlsTransportParams \<Rightarrow> int \<times> 's TlsTransportParams" where
  "ssl_try f p = (let (r, s) = f (sslState p) in (r, p\<lparr>sslState := s\<rparr>))"

section \<open>Set-up\<close>

definition sslContextInit :: "'s ssl_lib \<Rightarrow> 's TlsTransportParams \<Rightarrow> 's TlsTransportParams" where
  "sslContextInit lb p =
     ssl_init lb ObjContext (ssl_init lb ObjClientCert (ssl_init lb ObjPrivKey (ssl_init lb ObjRootCa (ssl_init lb ObjConfig p))))"

definition sslContextFree :: "'s ssl_lib \<Rightarrow> 's TlsTransportParams \<Rightarrow> 's TlsTransportParams" where
  "sslContextFree lb p =
     ssl_free lb ObjConfig (ssl_free lb ObjCtrDrbg (ssl_free lb ObjEntropy (ssl_free lb ObjPrivKey
       (ssl_free lb ObjClientCert (ssl_free lb ObjRootCa (ssl_free lb ObjContext p))))))"

definition setRootCa :: "'s ssl_lib \<Rightarrow> bytes \<Rightarrow> 's TlsTransportParams \<Rightarrow> int \<times> 's TlsTransportParams" where
  "setRootCa lb ca p =
     (let (e, p1) = ssl_try (libCrtParse lb ObjRootCa ca) p in (e, if e \<noteq> 0 then p1 else ssl_conf (libConfCaChain lb) p1))"

text \<open>The name is copied to a static buffer and terminated there, so the library sees it up to its first
  NUL.\<close>

definition setRootCaPath :: "'s ssl_lib \<Rightarrow> string \<Rightarrow> 's TlsTransportParams \<Rightarrow> (int \<times> 's TlsTransportParams) option" where
  "setRootCaPath lb path p =
     (if length path < TRANSPORT_MBEDTLS_MAX_FILE_PATH_LENGTH
      then
        Some (let (e, p1) = ssl_try (libCrtParseFile lb ObjRootCa (takeWhile (\<lambda>c. c \<noteq> CHR 0x00) path)) p
              in (e, if e \<noteq> 0 then p1 else ssl_conf (libConfCaChain lb) p1))
      else None)"

definition setClientCertificate :: "'s ssl_lib \<Rightarrow> bytes \<Rightarrow> 's TlsTransportParams \<Rightarrow> int \<times> 's TlsTransportParams" where
  "setClientCertificate lb cert p = ssl_try (libCrtParse lb ObjClientCert cert) p"

definition setPrivateKey :: "'s ssl_lib \<Rightarrow> bytes \<Rightarrow> 's TlsTransportParams \<Rightarrow> int \<times> 's TlsTransportParams" where
  "setPrivateKey lb key p = ssl_try (libParseKey lb key) p"

text \<open>A credential that is there is used only when the ones before it were accepted.\<close>

definition set_own_credentials ::
    "'s ssl_lib \<Rightarrow> NetworkCredentials \<Rightarrow> int \<Rightarrow> 's TlsTransportParams \<Rightarrow> int \<times> 's TlsTransportParams" where
  "set_own_credentials lb cred e p =
     (case (pClientCert cred, pPrivateKey cred) of
        (Some cert, Some key) \<Rightarrow>
          (let (e1, p1) = (if e = 0 then setClientCertificate lb cert p else (e, p));
               (e2, p2) = (if e1 = 0 then setPrivateKey lb key p1 else (e1, p1))
           in if e2 = 0 then ssl_try (libConfOwnCert lb) p2 else (e2, p2))
      | _ \<Rightarrow> (e, p))"

definition setTlsCredentials ::
    "'s ssl_lib \<Rightarrow> NetworkCredentials \<Rightarrow> 's TlsTransportParams \<Rightarrow> (int \<times> 's TlsTransportParams) option" where
  "setTlsCredentials lb cred p =
     do {
       let p1 = ssl_conf (libConfCertProfile lb) (ssl_conf (libConfRng lb) (ssl_conf (libConfAuthmode lb) p));
       (e, p2) \<leftarrow> (case pRootCa cred of
                     Some ca \<Rightarrow> Some (setRootCa lb ca p1)
                   | None \<Rightarrow> do { path \<leftarrow> pRootCaPath cred; setRootCaPath lb path p1 });
       Some (set_own_credentials lb cred e p2)
     }"

text \<open>Both failures are only logged.\<close>

definition setOptionalConfigurations ::
    "'s ssl_lib \<Rightarrow> string \<Rightarrow> NetworkCredentials \<Rightarrow> 's TlsTransportParams \<Rightarrow> 's TlsTransportParams" where
  "setOptionalConfigurations lb pHostName cred p =
     (let p1 = (case pAlpnProtos cred of None \<Rightarrow> p | Some protos \<Rightarrow> snd (ssl_try (libConfAlpn lb protos) p))
      in if disableSni cred = 0 then snd (ssl_try (libSetHostname lb pHostName) p1) else p1)"

definition tlsSetup ::
    "'s ssl_lib \<Rightarrow> string \<Rightarrow> NetworkCredentials \<Rightarrow> 's TlsTransportParams
      \<Rightarrow> (TlsTransportStatus_t \<times> 's TlsTransportParams) option" where
  "tlsSetup lb pHostName cred p =
     (let (e, p1) = ssl_try (libConfigDefaults lb) (sslContextInit lb p)
      in if e \<noteq> 0 then Some (TLS_TRANSPORT_INSUFFICIENT_MEMORY, p1)
         else do {
           (e2, p2) \<leftarrow> setTlsCredentials lb cred p1;
           Some (if e2 \<noteq> 0 then (TLS_TRANSPORT_INVALID_CREDENTIALS, p2)
                 else (TLS_TRANSPORT_SUCCESS, setOptionalConfigurations lb pHostName cred p2))
         })"

text \<open>Without PSA in the configuration of mbedTLS, \<open>psa_crypto_init\<close> is not called: a \<open>libPsaCryptoInit\<close> that
  answers 0 and changes nothing.\<close>

definition initTlsMbedtls :: "'s ssl_lib \<Rightarrow> 's TlsTransportParams \<Rightarrow> TlsTransportStatus_t \<times> 's TlsTransportParams" where
  "initTlsMbedtls lb p =
     (let (e, p1) = ssl_try (libPsaCryptoInit lb) (ssl_init lb ObjCtrDrbg (ssl_init lb ObjEntropy p))
      in if e \<noteq> 0 then (TLS_TRANSPORT_INTERNAL_ERROR, p1)
         else
           (let (e2, p2) = ssl_try (libSeed lb) p1
            in (if e2 \<noteq> 0 then TLS_TRANSPORT_INTERNAL_ERROR else TLS_TRANSPORT_SUCCESS, p2)))"

section \<open>Handshake\<close>

text \<open>One step of the handshake on the parameters of a context.\<close>

definition handshake_step ::
    "'s ssl_lib \<Rightarrow> 'w net_os \<Rightarrow> 's TlsTransportParams \<Rightarrow> 'w net_state
      \<Rightarrow> (TlsTransportStatus_t \<times> 's TlsTransportParams \<times> 'w net_state) option" where
  "handshake_step lb sys p st =
     do {
       (r, _, p1, st1) \<leftarrow> ssl_exec sys (libHandshake lb (sslState p)) p st;
       Some (if r = SSL_WANT_READ \<or> r = SSL_WANT_WRITE then TLS_TRANSPORT_HANDSHAKE_IN_PROGRESS
             else if r \<noteq> SSL_INT 0 then TLS_TRANSPORT_HANDSHAKE_FAILED
             else TLS_TRANSPORT_SUCCESS, p1, st1)
     }"

definition TLS_FreeRTOS_ContinueHandshake ::
    "'s ssl_lib \<Rightarrow> 'w net_os \<Rightarrow> 's TlsNetworkContext option \<Rightarrow> 'w net_state
      \<Rightarrow> (TlsTransportStatus_t \<times> 's TlsNetworkContext option \<times> 'w net_state) option" where
  "TLS_FreeRTOS_ContinueHandshake lb sys pTlsNetworkContext st =
     (case do { n \<leftarrow> pTlsNetworkContext; pParams n } of
        None \<Rightarrow> Some (TLS_TRANSPORT_INVALID_PARAMETER, pTlsNetworkContext, st)
      | Some p \<Rightarrow> do { (r, p1, st1) \<leftarrow> handshake_step lb sys p st; Some (r, Some \<lparr>pParams = Some p1\<rparr>, st1) })"

text \<open>The loop of a blocking handshake.\<close>

partial_function (option) handshake_until ::
    "'s ssl_lib \<Rightarrow> 'w net_os \<Rightarrow> 's TlsTransportParams \<Rightarrow> 'w net_state
      \<Rightarrow> (TlsTransportStatus_t \<times> 's TlsTransportParams \<times> 'w net_state) option" where
  "handshake_until lb sys p st =
     do {
       (r, p1, st1) \<leftarrow> handshake_step lb sys p st;
       if r = TLS_TRANSPORT_HANDSHAKE_IN_PROGRESS then handshake_until lb sys p1 st1 else Some (r, p1, st1)
     }"

definition tlsHandshake ::
    "'s ssl_lib \<Rightarrow> 'w net_os \<Rightarrow> u32 \<Rightarrow> 's TlsTransportParams \<Rightarrow> 'w net_state
      \<Rightarrow> (TlsTransportStatus_t \<times> 's TlsTransportParams \<times> 'w net_state) option" where
  "tlsHandshake lb sys flags p st =
     (let (e, p1) = ssl_try (libSslSetup lb) p
      in if e \<noteq> 0 then Some (TLS_TRANSPORT_INTERNAL_ERROR, p1, st)
         else
           (let p2 = (ssl_conf (libSetBio lb) p1)\<lparr>bioCtx := tcpSocket p1\<rparr>
            in if flags AND TLS_CONNECT_NON_BLOCKING_HANDSHAKE = 0 then handshake_until lb sys p2 st else handshake_step lb sys p2 st))"

section \<open>Connections\<close>

text \<open>The part of \<open>TLS_FreeRTOS_Connect\<close> after the TCP connection: the status, and whether \<open>isTlsSetup\<close> was
  set.\<close>

definition tls_establish ::
    "'s ssl_lib \<Rightarrow> 'w net_os \<Rightarrow> string \<Rightarrow> NetworkCredentials \<Rightarrow> u32 \<Rightarrow> 's TlsTransportParams \<Rightarrow> 'w net_state
      \<Rightarrow> (TlsTransportStatus_t \<times> bool \<times> 's TlsTransportParams \<times> 'w net_state) option" where
  "tls_establish lb sys pHostName cred flags p st =
     (let (r, p1) = initTlsMbedtls lb p
      in if r \<noteq> TLS_TRANSPORT_SUCCESS then Some (r, False, p1, st)
         else do {
           (r2, p2) \<leftarrow> tlsSetup lb pHostName cred p1;
           if r2 \<noteq> TLS_TRANSPORT_SUCCESS then Some (r2, False, p2, st)
           else do { (r3, p3, st3) \<leftarrow> tlsHandshake lb sys flags p2 st; Some (r3, True, p3, st3) }
         })"

definition tls_up :: "TlsTransportStatus_t \<Rightarrow> bool" where
  "tls_up r \<longleftrightarrow> r = TLS_TRANSPORT_SUCCESS \<or> r = TLS_TRANSPORT_HANDSHAKE_IN_PROGRESS"

text \<open>The cleaning up after a failure with a connected socket.\<close>

definition tls_clean_up ::
    "'s ssl_lib \<Rightarrow> 'w net_os \<Rightarrow> bool \<Rightarrow> 's TlsTransportParams \<Rightarrow> 'w net_state \<Rightarrow> ('s TlsTransportParams \<times> 'w net_state) option" where
  "tls_clean_up lb sys isTlsSetup p st =
     do {
       let p1 = (if isTlsSetup then sslContextFree lb p else p);
       st1 \<leftarrow> TCP_Sockets_Disconnect sys (tcpSocket p1) st;
       Some (p1\<lparr>tcpSocket := None\<rparr>, st1)
     }"

definition tls_connect ::
    "'s ssl_lib \<Rightarrow> 'w net_os \<Rightarrow> string \<Rightarrow> u16 \<Rightarrow> NetworkCredentials \<Rightarrow> u32 \<Rightarrow> u32 \<Rightarrow> u32 \<Rightarrow> 's TlsTransportParams \<Rightarrow> 'w net_state
      \<Rightarrow> (TlsTransportStatus_t \<times> 's TlsTransportParams \<times> 'w net_state) option" where
  "tls_connect lb sys pHostName port cred receiveTimeoutMs sendTimeoutMs flags p st =
     (let (socketStatus, s, st1) = TCP_Sockets_Connect sys None pHostName port receiveTimeoutMs sendTimeoutMs st;
          p1 = p\<lparr>tcpSocket := s\<rparr>
      in if socketStatus \<noteq> 0 then Some (TLS_TRANSPORT_CONNECT_FAILURE, p1, st1)
         else do {
           (r, isTlsSetup, p2, st2) \<leftarrow> tls_establish lb sys pHostName cred flags p1 st1;
           if tls_up r then Some (r, p2, st2)
           else do { (p3, st3) \<leftarrow> tls_clean_up lb sys isTlsSetup p2 st2; Some (r, p3, st3) }
         })"

definition TLS_FreeRTOS_Connect ::
    "'s ssl_lib \<Rightarrow> 'w net_os \<Rightarrow> 's TlsNetworkContext option \<Rightarrow> string option \<Rightarrow> u16 \<Rightarrow> NetworkCredentials option \<Rightarrow> u32 \<Rightarrow> u32 \<Rightarrow> u32
      \<Rightarrow> 'w net_state \<Rightarrow> (TlsTransportStatus_t \<times> 's TlsNetworkContext option \<times> 'w net_state) option" where
  "TLS_FreeRTOS_Connect lb sys pTlsNetworkContext pHostName port pNetworkCredentials receiveTimeoutMs sendTimeoutMs flags st =
     (case (do { n \<leftarrow> pTlsNetworkContext; pParams n }, pHostName, pNetworkCredentials) of
        (Some p, Some host, Some cred) \<Rightarrow>
          if pRootCa cred = None \<and> pRootCaPath cred = None then Some (TLS_TRANSPORT_INVALID_PARAMETER, pTlsNetworkContext, st)
          else do {
            (r, p1, st1) \<leftarrow> tls_connect lb sys host port cred receiveTimeoutMs sendTimeoutMs flags p st;
            Some (r, Some \<lparr>pParams = Some p1\<rparr>, st1)
          }
      | _ \<Rightarrow> Some (TLS_TRANSPORT_INVALID_PARAMETER, pTlsNetworkContext, st))"

text \<open>\<open>tcpSocket\<close> keeps its value after the object it points to is freed.\<close>

definition TLS_FreeRTOS_Disconnect ::
    "'s ssl_lib \<Rightarrow> 'w net_os \<Rightarrow> 's TlsNetworkContext option \<Rightarrow> 'w net_state
      \<Rightarrow> (TlsTransportStatus_t \<times> 's TlsNetworkContext option \<times> 'w net_state) option" where
  "TLS_FreeRTOS_Disconnect lb sys pTlsNetworkContext st =
     (case do { n \<leftarrow> pTlsNetworkContext; pParams n } of
        None \<Rightarrow> Some (TLS_TRANSPORT_INVALID_PARAMETER, pTlsNetworkContext, st)
      | Some p \<Rightarrow> do {
          (r, _, p1, st1) \<leftarrow> ssl_exec sys (libCloseNotify lb (sslState p)) p st;
          st2 \<leftarrow> TCP_Sockets_Disconnect sys (tcpSocket p1) st1;
          Some (if r \<in> {SSL_WANT_READ, SSL_WANT_WRITE, SSL_INT 0} then TLS_TRANSPORT_SUCCESS else TLS_TRANSPORT_INTERNAL_ERROR,
                Some \<lparr>pParams = Some (sslContextFree lb p1)\<rparr>, st2)
        })"

section \<open>Data transfer\<close>

text \<open>A result that can be retried is 0.\<close>

definition tls_status :: "ssl_ret \<Rightarrow> ssl_ret" where
  "tls_status r = (if r = SSL_TIMEOUT \<or> r = SSL_WANT_READ \<or> r = SSL_WANT_WRITE then SSL_INT 0 else r)"

text \<open>\<open>pBuffer\<close> says that there is a buffer; the bytes returned are those the library wrote to it.\<close>

definition TLS_FreeRTOS_recv ::
    "'s ssl_lib \<Rightarrow> 'w net_os \<Rightarrow> 's TlsNetworkContext option \<Rightarrow> bool \<Rightarrow> nat \<Rightarrow> 'w net_state
      \<Rightarrow> (ssl_ret \<times> bytes \<times> 's TlsNetworkContext option \<times> 'w net_state) option" where
  "TLS_FreeRTOS_recv lb sys pTlsNetworkContext pBuffer bytesToRecv st =
     (case do { n \<leftarrow> pTlsNetworkContext; pParams n } of
        None \<Rightarrow> Some (SSL_INT (-1), [], pTlsNetworkContext, st)
      | Some p \<Rightarrow>
          if \<not> pBuffer \<or> bytesToRecv = 0 then Some (SSL_INT (-1), [], pTlsNetworkContext, st)
          else do {
            (r, out, p1, st1) \<leftarrow> ssl_exec sys (libRead lb bytesToRecv (sslState p)) p st;
            Some (tls_status r, out, Some \<lparr>pParams = Some p1\<rparr>, st1)
          })"

definition TLS_FreeRTOS_send ::
    "'s ssl_lib \<Rightarrow> 'w net_os \<Rightarrow> 's TlsNetworkContext option \<Rightarrow> bytes option \<Rightarrow> 'w net_state
      \<Rightarrow> (ssl_ret \<times> 's TlsNetworkContext option \<times> 'w net_state) option" where
  "TLS_FreeRTOS_send lb sys pTlsNetworkContext pBuffer st =
     (case (do { n \<leftarrow> pTlsNetworkContext; pParams n }, pBuffer) of
        (Some p, Some buf) \<Rightarrow>
          if buf = [] then Some (SSL_INT (-1), pTlsNetworkContext, st)
          else do {
            (r, _, p1, st1) \<leftarrow> ssl_exec sys (libWrite lb buf (sslState p)) p st;
            Some (tls_status r, Some \<lparr>pParams = Some p1\<rparr>, st1)
          }
      | _ \<Rightarrow> Some (SSL_INT (-1), pTlsNetworkContext, st))"

definition TLS_FreeRTOS_GetSocketFd :: "'s TlsNetworkContext option \<Rightarrow> 'w net_state \<Rightarrow> int option" where
  "TLS_FreeRTOS_GetSocketFd pTlsNetworkContext st =
     (case do { n \<leftarrow> pTlsNetworkContext; pParams n } of
        None \<Rightarrow> Some (-1)
      | Some p \<Rightarrow> TCP_Sockets_GetSocketFd (tcpSocket p) st)"

end
