(* ===== verification/Tls_Transport_Correct.thy ===== *)
theory Tls_Transport_Correct
  imports Tls_Transport
begin

text \<open>
  What a TLS connection owns.  A locale states the contract of a stream socket; the TCP wrapper satisfies
  it.  The calls of mbedTLS and the data transfer keep the descriptors and the heap, so that a connection
  owns one descriptor and one \<open>struct xSOCKET\<close> from a successful connect to its disconnect, a failed
  connect gives both back, and the mbedTLS objects that a failure leaves behind are known.
\<close>

section \<open>Descriptors and handles\<close>

abbreviation resources :: "'w net_state \<Rightarrow> nat list \<times> (nat \<times> int) list" where
  "resources st \<equiv> (fdsOpen st, sockHeap st)"

text \<open>The state owns one descriptor and one handle more than \<open>st\<close>.\<close>

definition owns_more :: "'w net_state \<Rightarrow> Socket_t \<Rightarrow> 'w net_state \<Rightarrow> bool" where
  "owns_more st s st1 \<longleftrightarrow>
     s = Some (lowest_free (map fst (sockHeap st))) \<and>
     fdsOpen st1 = lowest_free (fdsOpen st) # fdsOpen st \<and>
     sockHeap st1 = (lowest_free (map fst (sockHeap st)), int (lowest_free (fdsOpen st))) # sockHeap st"

lemma owns_more_cong: "owns_more st s st1 \<Longrightarrow> resources st2 = resources st1 \<Longrightarrow> owns_more st s st2"
  by (simp add: owns_more_def)

lemma owns_more_fd: "owns_more st s st1 \<Longrightarrow> sock_fd s st1 = Some (int (lowest_free (fdsOpen st)))"
  by (simp add: owns_more_def sock_fd_def)

lemma sock_fd_cong: "sockHeap st1 = sockHeap st \<Longrightarrow> sock_fd s st1 = sock_fd s st"
  by (simp add: sock_fd_def)

lemma net_close_new:
  "fdsOpen st = lowest_free fds # fds \<Longrightarrow> fdsOpen (net_close (int (lowest_free fds)) st) = fds"
  using lowest_free_notin [of fds] by (auto simp: net_close_def intro!: filter_True)

lemma sock_free_new:
  assumes "sockHeap st = (lowest_free (map fst h), fd) # h"
  shows "sockHeap (sock_free (Some (lowest_free (map fst h))) st) = h"
proof -
  have "\<forall>x\<in>set h. fst x \<noteq> lowest_free (map fst h)"
    using lowest_free_notin [of "map fst h"] by force
  thus ?thesis using assms by (auto simp: sock_free_def intro!: filter_True)
qed

lemma owns_more_dangles:
  assumes "owns_more st s st1"
  shows "sock_fd s st = None"
  using assms lowest_free_notin [of "map fst (sockHeap st)"]
  by (simp add: owns_more_def sock_fd_def map_of_eq_None_iff)

lemma Disconnect_gives_back:
  assumes "owns_more st s st1"
  shows "\<exists>st2. TCP_Sockets_Disconnect sys s st1 = Some st2 \<and> resources st2 = resources st"
proof -
  let ?d = "int (lowest_free (fdsOpen st))"
  let ?st2 = "sock_free s (net_close ?d (st1\<lparr>netWorld := osShutdown sys ?d (netWorld st1)\<rparr>))"
  have f: "fdsOpen ?st2 = fdsOpen st"
    using assms net_close_new [of "st1\<lparr>netWorld := osShutdown sys ?d (netWorld st1)\<rparr>" "fdsOpen st"]
    by (simp add: owns_more_def sock_free_def)
  have h: "sockHeap ?st2 = sockHeap st"
    using assms sock_free_new [of "net_close ?d (st1\<lparr>netWorld := osShutdown sys ?d (netWorld st1)\<rparr>)" "sockHeap st" ?d]
    by (simp add: owns_more_def net_close_def)
  show ?thesis
    using f h owns_more_fd [OF assms] by (simp add: TCP_Sockets_Disconnect_def)
qed

section \<open>Connecting\<close>

lemma tcp_try_resources:
  assumes "tcp_try sys l r0 fd0 st = (r, fd, st1)" "r0 \<noteq> SOCKETS_ERRNO_NONE"
  shows "sockHeap st1 = sockHeap st \<and>
    (if r = SOCKETS_ERRNO_NONE
     then fd = int (lowest_free (fdsOpen st)) \<and> fdsOpen st1 = lowest_free (fdsOpen st) # fdsOpen st
     else fdsOpen st1 = fdsOpen st)"
  using assms
proof (induction l arbitrary: r0 fd0 st)
  case Nil
  then show ?case by simp
next
  case (Cons a l)
  obtain ok w1 where s: "osSocketOk sys a (netWorld st) = (ok, w1)" by fastforce
  obtain ok2 w2 where c: "osConnectOk sys (int (lowest_free (fdsOpen st))) a w1 = (ok2, w2)" by fastforce
  let ?st1 = "st\<lparr>fdsOpen := lowest_free (fdsOpen st) # fdsOpen st, netWorld := w2\<rparr>"
  have nc: "fdsOpen (net_close (int (lowest_free (fdsOpen st))) ?st1) = fdsOpen st" by (rule net_close_new) simp
  have nh: "sockHeap (net_close (int (lowest_free (fdsOpen st))) ?st1) = sockHeap st" by (simp add: net_close_def)
  show ?case
    using Cons.prems s c Cons.IH [of SOCKETS_ERRNO_ENOMEM "-1" "st\<lparr>netWorld := w1\<rparr>"]
      Cons.IH [of SOCKETS_ERRNO_ERROR "int (lowest_free (fdsOpen st))" "net_close (int (lowest_free (fdsOpen st))) ?st1"]
    unfolding nc nh
    by (cases ok; cases ok2) (auto simp: Let_def SOCKETS_ERRNO_ENOMEM_def SOCKETS_ERRNO_ERROR_def SOCKETS_ERRNO_NONE_def)
qed

lemma tcp_options_resources: "tcp_options sys fd rt sd st = (r, st1) \<Longrightarrow> resources st1 = resources st"
  by (auto simp: tcp_options_def Let_def split: if_splits prod.splits)

lemma tcp_options_timeouts: "tcp_options sys fd rt sd st = (r, st1) \<Longrightarrow> rt \<noteq> 0 \<or> sd \<noteq> 0 \<Longrightarrow> r = SOCKETS_ERRNO_NONE"
  by (auto simp: tcp_options_def)

text \<open>The end of the connect, once a descriptor is connected: the new resources are owned, also when
  \<open>fcntl\<close> failed.\<close>

lemma tcp_finish_cases:
  assumes fin: "(case sock_alloc sys fd st2 of
       (None, st3) \<Rightarrow> (SOCKETS_ERRNO_ENOMEM, None, net_close fd st3)
     | (Some a, st3) \<Rightarrow> (let (r, st4) = tcp_options sys fd rt sd st3 in (r, Some a, st4))) = (r, s, st1)"
    and fd: "fd = int (lowest_free (fdsOpen st))"
    and fds: "fdsOpen st2 = lowest_free (fdsOpen st) # fdsOpen st"
    and heap: "sockHeap st2 = sockHeap st"
  shows "r = 0 \<and> owns_more st s st1 \<or> r \<noteq> 0 \<and> s = None \<and> resources st1 = resources st
    \<or> r \<noteq> 0 \<and> rt = 0 \<and> sd = 0 \<and> owns_more st s st1"
proof -
  obtain ok w3 where m: "osMallocOk sys (netWorld st2) = (ok, w3)" by fastforce
  let ?a = "lowest_free (map fst (sockHeap st2))"
  let ?st3 = "st2\<lparr>sockHeap := (?a, fd) # sockHeap st2, netWorld := w3\<rparr>"
  obtain r4 st4 where p: "tcp_options sys fd rt sd ?st3 = (r4, st4)" by fastforce
  show ?thesis
  proof (cases ok)
    case False
    have "fdsOpen (net_close fd (st2\<lparr>netWorld := w3\<rparr>)) = fdsOpen st"
      unfolding fd by (rule net_close_new) (simp add: fds)
    then show ?thesis
      using fin m False heap by (auto simp: sock_alloc_def SOCKETS_ERRNO_ENOMEM_def net_close_def Let_def)
  next
    case True
    have e: "r = r4" "s = Some ?a" "st1 = st4"
      using fin m True p by (auto simp: sock_alloc_def Let_def)
    have "owns_more st s st1"
      unfolding e owns_more_def using tcp_options_resources [OF p] fd fds heap by simp
    then show ?thesis
      using tcp_options_timeouts [OF p] e by (auto simp: SOCKETS_ERRNO_NONE_def)
  qed
qed

lemma TCP_Sockets_Connect_cases:
  assumes "TCP_Sockets_Connect sys None host port rt sd st = (r, s, st1)"
  obtains (connected) "r = 0" "owns_more st s st1"
    | (failed) "r \<noteq> 0" "s = None" "resources st1 = resources st"
    | (no_options) "r \<noteq> 0" "rt = 0" "sd = 0" "owns_more st s st1"
proof -
  obtain ad w1 where g: "osGetaddrinfo sys host (show_nat (unat port)) IPPROTO_TCP (netWorld st) = (ad, w1)" by fastforce
  show thesis
  proof (cases ad)
    case None
    then show thesis using assms g failed by (auto simp: TCP_Sockets_Connect_def SOCKETS_ERRNO_ERROR_def)
  next
    case (Some l)
    obtain r1 fd st2 where t: "tcp_try sys l SOCKETS_ERRNO_ERROR (-1) (st\<lparr>netWorld := w1\<rparr>) = (r1, fd, st2)"
      by (metis surj_pair)
    note res = tcp_try_resources [OF t, unfolded SOCKETS_ERRNO_ERROR_def SOCKETS_ERRNO_NONE_def, simplified]
    show thesis
    proof (cases "r1 = SOCKETS_ERRNO_NONE")
      case False
      then show thesis using assms g Some t res failed by (auto simp: TCP_Sockets_Connect_def SOCKETS_ERRNO_NONE_def)
    next
      case True
      with assms g Some t have "(case sock_alloc sys fd st2 of
           (None, st3) \<Rightarrow> (SOCKETS_ERRNO_ENOMEM, None, net_close fd st3)
         | (Some a, st3) \<Rightarrow> (let (r, st4) = tcp_options sys fd rt sd st3 in (r, Some a, st4))) = (r, s, st1)"
        by (simp add: TCP_Sockets_Connect_def)
      from tcp_finish_cases [OF this, of st] show thesis
        using True res connected failed no_options by (auto simp: SOCKETS_ERRNO_NONE_def)
    qed
  qed
qed

section \<open>The contract of a stream socket\<close>

text \<open>A connect that succeeds hands out a handle; whatever its user does without touching the resources,
  the disconnect of the handle then succeeds and gives back exactly what the connect took, and the handle
  is of no use any more.\<close>

locale stream_socket =
  fixes conn :: "'st \<Rightarrow> int \<times> 'h \<times> 'st"
    and disc :: "'h \<Rightarrow> 'st \<Rightarrow> 'st option"
    and usable :: "'h \<Rightarrow> 'st \<Rightarrow> bool"
    and res :: "'st \<Rightarrow> 'r"
  assumes connected_usable: "conn st = (0, h, st1) \<Longrightarrow> res st2 = res st1 \<Longrightarrow> usable h st2"
    and gives_back: "conn st = (0, h, st1) \<Longrightarrow> res st2 = res st1 \<Longrightarrow> \<exists>st3. disc h st2 = Some st3 \<and> res st3 = res st"
    and not_usable: "conn st = (0, h, st1) \<Longrightarrow> res st3 = res st \<Longrightarrow> \<not> usable h st3"
    and disc_usable: "\<not> usable h st3 \<Longrightarrow> disc h st3 = None"
begin

lemma bracket:
  assumes "conn st = (0, h, st1)" "res st2 = res st1"
  obtains st3 where "disc h st2 = Some st3" "res st3 = res st" "disc h st3 = None"
  using gives_back [OF assms] not_usable [OF assms(1)] disc_usable by blast

lemma bracket_twice:
  assumes "conn st = (0, h, st1)" "disc h st1 = Some st3" "res st3 = res st" "conn st3 = (0, h', st4)"
  shows "\<exists>st5. disc h' st4 = Some st5 \<and> res st5 = res st"
  using gives_back [OF assms(4) refl] assms(3) by simp

end

interpretation tcp: stream_socket "TCP_Sockets_Connect sys None host port rt sd" "TCP_Sockets_Disconnect sys"
    "\<lambda>s st. sock_fd s st \<noteq> None" "resources"
proof (unfold_locales, goal_cases)
  case (1 st h st1 st2)
  from 1(1) show ?case
    by (cases rule: TCP_Sockets_Connect_cases) (use 1(2) owns_more_fd owns_more_cong in fastforce)+
next
  case (2 st h st1 st2)
  from 2(1) show ?case
    by (cases rule: TCP_Sockets_Connect_cases) (use 2(2) Disconnect_gives_back owns_more_cong in blast)+
next
  case (3 st h st1 st3)
  from 3(1) show ?case
  proof (cases rule: TCP_Sockets_Connect_cases)
    case connected
    then show ?thesis using 3(2) owns_more_dangles sock_fd_cong by fastforce
  qed simp_all
next
  case (4 h st3)
  then show ?case by (simp add: TCP_Sockets_Disconnect_def)
qed

section \<open>Calls of the library\<close>

text \<open>What a call of the library leaves alone: the handle, which objects are live, the pointer given to the
  callbacks, the resources.\<close>

definition holding :: "'s TlsTransportParams \<Rightarrow> Socket_t \<times> (ssl_object \<Rightarrow> bool) \<times> Socket_t" where
  "holding p = (tcpSocket p, sslLive p, bioCtx p)"

named_theorems holding_keep

lemma holding_conf [holding_keep]: "holding (ssl_conf f p) = holding p"
  by (simp add: holding_def ssl_conf_def)

lemma holding_try [holding_keep]: "holding (snd (ssl_try f p)) = holding p"
  by (simp add: holding_def ssl_try_def split: prod.split)

lemma holding_try_eq: "ssl_try f p = (e, p1) \<Longrightarrow> holding p1 = holding p"
  by (metis holding_try snd_conv)

lemma bio_send_resources:
  "xMbedTLSBioTCPSocketsWrapperSend sys ctx buf st = Some (r, st1) \<Longrightarrow> resources st1 = resources st"
  by (auto simp: xMbedTLSBioTCPSocketsWrapperSend_def TCP_Sockets_Send_def sock_write_def Let_def
      split: bind_splits prod.splits)

lemma bio_recv_resources:
  "xMbedTLSBioTCPSocketsWrapperRecv sys ctx n st = Some (r, out, st1) \<Longrightarrow> resources st1 = resources st"
  by (auto simp: xMbedTLSBioTCPSocketsWrapperRecv_def TCP_Sockets_Recv_def sock_read_def Let_def
      split: bind_splits prod.splits if_splits)

lemma bio_total:
  assumes "sock_fd ctx st \<noteq> None"
  shows "\<exists>r st1. xMbedTLSBioTCPSocketsWrapperSend sys ctx buf st = Some (r, st1)"
    and "\<exists>r out st1. xMbedTLSBioTCPSocketsWrapperRecv sys ctx n st = Some (r, out, st1)"
  using assms
  by (auto simp: xMbedTLSBioTCPSocketsWrapperSend_def TCP_Sockets_Send_def sock_write_def
      xMbedTLSBioTCPSocketsWrapperRecv_def TCP_Sockets_Recv_def sock_read_def Let_def split: prod.splits)

lemma ssl_exec_keeps:
  "ssl_exec sys run p st = Some (r, out, p1, st1) \<Longrightarrow> holding p1 = holding p \<and> resources st1 = resources st"
proof (induction run arbitrary: st)
  case (SslReturn r out s)
  then show ?case by (auto simp: holding_def)
next
  case (SslSend buf k)
  then show ?case by (fastforce dest: bio_send_resources split: bind_splits)
next
  case (SslRecv n k)
  then show ?case by (fastforce dest: bio_recv_resources split: bind_splits)
qed

lemma ssl_exec_total:
  "sock_fd (bioCtx p) st \<noteq> None \<Longrightarrow> \<exists>r out p1 st1. ssl_exec sys run p st = Some (r, out, p1, st1)"
proof (induction run arbitrary: st)
  case (SslReturn r out s)
  then show ?case by simp
next
  case (SslSend buf k)
  from bio_total(1) [OF SslSend.prems] obtain r st1
    where b: "xMbedTLSBioTCPSocketsWrapperSend sys (bioCtx p) buf st = Some (r, st1)" by blast
  have "sock_fd (bioCtx p) st1 \<noteq> None"
    using bio_send_resources [OF b] SslSend.prems sock_fd_cong [of st1 st] by simp
  from SslSend.IH [OF rangeI this] b show ?case by simp
next
  case (SslRecv n k)
  from bio_total(2) [OF SslRecv.prems] obtain r out st1
    where b: "xMbedTLSBioTCPSocketsWrapperRecv sys (bioCtx p) n st = Some (r, out, st1)" by blast
  have "sock_fd (bioCtx p) st1 \<noteq> None"
    using bio_recv_resources [OF b] SslRecv.prems sock_fd_cong [of st1 st] by simp
  from SslRecv.IH [OF rangeI rangeI this] b show ?case by simp
qed

section \<open>Set-up and handshake\<close>

lemma setTlsCredentials_keeps:
  "setTlsCredentials lb cred p = Some (e, p1) \<Longrightarrow> holding p1 = holding p"
  by (auto simp: setTlsCredentials_def set_own_credentials_def setRootCa_def setRootCaPath_def setClientCertificate_def
      setPrivateKey_def Let_def holding_keep
      split: bind_splits option.splits prod.splits if_splits dest!: holding_try_eq)

lemma setOptionalConfigurations_keeps: "holding (setOptionalConfigurations lb host cred p) = holding p"
  by (simp add: setOptionalConfigurations_def Let_def holding_keep split: option.split)

lemma sslContextInit_holding:
  "holding (sslContextInit lb p) =
     (tcpSocket p, (sslLive p)(ObjConfig := True, ObjRootCa := True, ObjPrivKey := True, ObjClientCert := True, ObjContext := True), None)"
  by (simp add: sslContextInit_def ssl_init_def holding_def)

lemma sslContextFree_dead: "\<not> sslLive (sslContextFree lb p) ob"
  by (cases ob) (simp_all add: sslContextFree_def ssl_free_def)

lemma sslContextFree_socket [simp]: "tcpSocket (sslContextFree lb p) = tcpSocket p" "bioCtx (sslContextFree lb p) = None"
  by (simp_all add: sslContextFree_def ssl_free_def)

lemma initTlsMbedtls_live:
  assumes "initTlsMbedtls lb p = (r, p1)"
  shows "tcpSocket p1 = tcpSocket p" "sslLive p1 = (sslLive p)(ObjEntropy := True, ObjCtrDrbg := True)"
    "r \<in> {TLS_TRANSPORT_SUCCESS, TLS_TRANSPORT_INTERNAL_ERROR}"
  using assms by (auto simp: initTlsMbedtls_def ssl_init_def ssl_try_def Let_def split: prod.splits if_splits)

lemma tlsSetup_live:
  assumes "tlsSetup lb host cred p = Some (r, p1)" "sslLive p ObjEntropy" "sslLive p ObjCtrDrbg"
  shows "tcpSocket p1 = tcpSocket p \<and> (\<forall>ob. sslLive p1 ob) \<and>
    r \<in> {TLS_TRANSPORT_SUCCESS, TLS_TRANSPORT_INSUFFICIENT_MEMORY, TLS_TRANSPORT_INVALID_CREDENTIALS}"
proof -
  obtain e p2 where t: "ssl_try (libConfigDefaults lb) (sslContextInit lb p) = (e, p2)" by fastforce
  have "holding p1 = holding (sslContextInit lb p) \<and>
    r \<in> {TLS_TRANSPORT_SUCCESS, TLS_TRANSPORT_INSUFFICIENT_MEMORY, TLS_TRANSPORT_INVALID_CREDENTIALS}"
    using assms(1) t holding_try_eq [OF t]
    by (auto simp: tlsSetup_def setOptionalConfigurations_keeps dest!: setTlsCredentials_keeps split: bind_splits if_splits)
  moreover from this have "sslLive p1 ob" for ob
    using assms(2,3) unfolding sslContextInit_holding by (cases ob) (simp_all add: holding_def)
  ultimately show ?thesis by (simp add: sslContextInit_holding) (simp add: holding_def)
qed

lemma handshake_step_keeps:
  assumes "handshake_step lb sys p st = Some (r, p1, st1)"
  shows "holding p1 = holding p \<and> resources st1 = resources st \<and>
    r \<in> {TLS_TRANSPORT_SUCCESS, TLS_TRANSPORT_HANDSHAKE_IN_PROGRESS, TLS_TRANSPORT_HANDSHAKE_FAILED}"
  using assms by (auto simp: handshake_step_def split: bind_splits if_splits dest!: ssl_exec_keeps)

lemma handshake_until_keeps:
  assumes "handshake_until lb sys p st = Some (r, p1, st1)"
  shows "holding p1 = holding p \<and> resources st1 = resources st \<and> r \<in> {TLS_TRANSPORT_SUCCESS, TLS_TRANSPORT_HANDSHAKE_FAILED}"
proof -
  let ?P = "\<lambda>lb sys p st (r, p1, st1). holding p1 = holding p \<and> resources st1 = resources st \<and>
    r \<in> {TLS_TRANSPORT_SUCCESS, TLS_TRANSPORT_HANDSHAKE_FAILED}"
  have "?P lb sys p st (r, p1, st1)"
  proof (rule handshake_until.raw_induct [of ?P, OF _ assms], goal_cases)
    case (1 f lb sys p st y)
    then show ?case
      by (fastforce split: bind_splits if_splits dest: handshake_step_keeps)
  qed
  then show ?thesis by simp
qed

lemma tlsHandshake_keeps:
  assumes "tlsHandshake lb sys flags p st = Some (r, p1, st1)"
  shows "tcpSocket p1 = tcpSocket p \<and> sslLive p1 = sslLive p \<and> resources st1 = resources st \<and>
    (tls_up r \<longrightarrow> bioCtx p1 = tcpSocket p) \<and>
    r \<in> {TLS_TRANSPORT_SUCCESS, TLS_TRANSPORT_HANDSHAKE_IN_PROGRESS, TLS_TRANSPORT_HANDSHAKE_FAILED, TLS_TRANSPORT_INTERNAL_ERROR}"
proof -
  obtain e p2 where t: "ssl_try (libSslSetup lb) p = (e, p2)" by fastforce
  have "holding ((ssl_conf (libSetBio lb) p2)\<lparr>bioCtx := tcpSocket p2\<rparr>) = (tcpSocket p, sslLive p, tcpSocket p)"
    using holding_try_eq [OF t] by (simp add: holding_def ssl_conf_def)
  then show ?thesis
    using assms t holding_try_eq [OF t]
    by (auto simp: tlsHandshake_def tls_up_def holding_def Let_def split: if_splits
        dest!: handshake_step_keeps handshake_until_keeps)
qed

lemma tls_establish_keeps:
  assumes "tls_establish lb sys host cred flags p st = Some (r, isTlsSetup, p1, st1)"
  shows "tcpSocket p1 = tcpSocket p \<and> resources st1 = resources st \<and>
    (isTlsSetup \<longrightarrow> (\<forall>ob. sslLive p1 ob)) \<and>
    (tls_up r \<longrightarrow> isTlsSetup \<and> bioCtx p1 = tcpSocket p) \<and>
    (r = TLS_TRANSPORT_HANDSHAKE_FAILED \<longrightarrow> isTlsSetup) \<and>
    (r \<in> {TLS_TRANSPORT_INSUFFICIENT_MEMORY, TLS_TRANSPORT_INVALID_CREDENTIALS} \<longrightarrow> \<not> isTlsSetup \<and> (\<forall>ob. sslLive p1 ob)) \<and>
    r \<notin> {TLS_TRANSPORT_INVALID_PARAMETER, TLS_TRANSPORT_CONNECT_FAILURE}"
proof -
  obtain r1 p2 where i: "initTlsMbedtls lb p = (r1, p2)" by fastforce
  note init = initTlsMbedtls_live [OF i]
  show ?thesis
  proof (cases "r1 = TLS_TRANSPORT_SUCCESS")
    case False
    then show ?thesis using assms i init by (auto simp: tls_establish_def tls_up_def)
  next
    case True
    then obtain r2 p3 where s: "tlsSetup lb host cred p2 = Some (r2, p3)"
      using assms i by (auto simp: tls_establish_def split: bind_splits)
    have su: "tcpSocket p3 = tcpSocket p \<and> (\<forall>ob. sslLive p3 ob) \<and>
      r2 \<in> {TLS_TRANSPORT_SUCCESS, TLS_TRANSPORT_INSUFFICIENT_MEMORY, TLS_TRANSPORT_INVALID_CREDENTIALS}"
      using tlsSetup_live [OF s] init by simp
    show ?thesis
    proof (cases "r2 = TLS_TRANSPORT_SUCCESS")
      case False
      then show ?thesis using assms i True s su by (auto simp: tls_establish_def tls_up_def)
    next
      case True
      then have "tlsHandshake lb sys flags p3 st = Some (r, p1, st1)" "isTlsSetup"
        using assms i \<open>r1 = TLS_TRANSPORT_SUCCESS\<close> s by (auto simp: tls_establish_def split: bind_splits)
      then show ?thesis using tlsHandshake_keeps su by fastforce
    qed
  qed
qed

section \<open>The life of a connection\<close>

text \<open>The context has a connection that was made in the state \<open>st0\<close> with these arguments.\<close>

definition tls_conn ::
    "'w net_os \<Rightarrow> string \<Rightarrow> u16 \<Rightarrow> u32 \<Rightarrow> u32 \<Rightarrow> 'w net_state \<Rightarrow> 's TlsNetworkContext option \<Rightarrow> 'w net_state \<Rightarrow> bool" where
  "tls_conn sys host port rt sd st0 n st \<longleftrightarrow>
     (\<exists>p st1. n = Some \<lparr>pParams = Some p\<rparr> \<and> TCP_Sockets_Connect sys None host port rt sd st0 = (0, tcpSocket p, st1) \<and>
        resources st = resources st1 \<and> bioCtx p = tcpSocket p \<and> (\<forall>ob. sslLive p ob))"

lemma tls_connI:
  assumes "TCP_Sockets_Connect sys None host port rt sd st0 = (0, tcpSocket p, st1)"
    and "resources st = resources st1" "holding p1 = holding p" "bioCtx p = tcpSocket p" "\<forall>ob. sslLive p ob"
  shows "tls_conn sys host port rt sd st0 (Some \<lparr>pParams = Some p1\<rparr>) st"
  using assms unfolding tls_conn_def by (auto simp: holding_def)

text \<open>What a user does with a connection.\<close>

datatype tls_op = OpContinue | OpSend "bytes option" | OpRecv bool nat

primrec tls_do ::
    "'s ssl_lib \<Rightarrow> 'w net_os \<Rightarrow> tls_op \<Rightarrow> 's TlsNetworkContext option \<Rightarrow> 'w net_state
      \<Rightarrow> ('s TlsNetworkContext option \<times> 'w net_state) option" where
  "tls_do lb sys OpContinue n st = map_option snd (TLS_FreeRTOS_ContinueHandshake lb sys n st)"
| "tls_do lb sys (OpSend buf) n st = map_option snd (TLS_FreeRTOS_send lb sys n buf st)"
| "tls_do lb sys (OpRecv has k) n st = map_option (snd \<circ> snd) (TLS_FreeRTOS_recv lb sys n has k st)"

primrec tls_ops ::
    "'s ssl_lib \<Rightarrow> 'w net_os \<Rightarrow> tls_op list \<Rightarrow> 's TlsNetworkContext option \<Rightarrow> 'w net_state
      \<Rightarrow> ('s TlsNetworkContext option \<times> 'w net_state) option" where
  "tls_ops lb sys [] n st = Some (n, st)"
| "tls_ops lb sys (op # ops) n st = do { (n1, st1) \<leftarrow> tls_do lb sys op n st; tls_ops lb sys ops n1 st1 }"

text \<open>A call of the library on a connection returns and keeps the connection.\<close>

lemma tls_conn_exec:
  assumes "tls_conn sys host port rt sd st0 (Some \<lparr>pParams = Some p\<rparr>) st"
  obtains r out p1 st1 where "ssl_exec sys run p st = Some (r, out, p1, st1)"
    "tls_conn sys host port rt sd st0 (Some \<lparr>pParams = Some p1\<rparr>) st1"
proof -
  from assms obtain st2 where c: "TCP_Sockets_Connect sys None host port rt sd st0 = (0, tcpSocket p, st2)"
      "resources st = resources st2" "bioCtx p = tcpSocket p" "\<forall>ob. sslLive p ob"
    by (auto simp: tls_conn_def)
  have "sock_fd (bioCtx p) st \<noteq> None" unfolding c(3) by (rule tcp.connected_usable [OF c(1,2)])
  from ssl_exec_total [OF this] obtain r out p1 st1 where x: "ssl_exec sys run p st = Some (r, out, p1, st1)" by blast
  show thesis
    by (rule that [OF x], rule tls_connI [OF c(1)]) (use ssl_exec_keeps [OF x] c in auto)
qed

lemma tls_do_conn:
  assumes "tls_conn sys host port rt sd st0 n st"
  shows "\<exists>n1 st1. tls_do lb sys op n st = Some (n1, st1) \<and> tls_conn sys host port rt sd st0 n1 st1"
proof -
  from assms obtain p where n: "n = Some \<lparr>pParams = Some p\<rparr>" by (auto simp: tls_conn_def)
  note conn = assms [unfolded n]
  show ?thesis
  proof (cases op)
    case OpContinue
    obtain r out p1 st1 where "ssl_exec sys (libHandshake lb (sslState p)) p st = Some (r, out, p1, st1)"
      "tls_conn sys host port rt sd st0 (Some \<lparr>pParams = Some p1\<rparr>) st1" by (rule tls_conn_exec [OF conn])
    then show ?thesis using n OpContinue by (simp add: TLS_FreeRTOS_ContinueHandshake_def handshake_step_def)
  next
    case (OpSend buf)
    obtain r out p1 st1 where "ssl_exec sys (libWrite lb (the buf) (sslState p)) p st = Some (r, out, p1, st1)"
      "tls_conn sys host port rt sd st0 (Some \<lparr>pParams = Some p1\<rparr>) st1" by (rule tls_conn_exec [OF conn])
    then show ?thesis using n OpSend conn by (auto simp: TLS_FreeRTOS_send_def split: option.split)
  next
    case (OpRecv has k)
    obtain r out p1 st1 where "ssl_exec sys (libRead lb k (sslState p)) p st = Some (r, out, p1, st1)"
      "tls_conn sys host port rt sd st0 (Some \<lparr>pParams = Some p1\<rparr>) st1" by (rule tls_conn_exec [OF conn])
    then show ?thesis using n OpRecv conn by (auto simp: TLS_FreeRTOS_recv_def)
  qed
qed

lemma tls_ops_conn:
  "tls_conn sys host port rt sd st0 n st \<Longrightarrow>
    \<exists>n1 st1. tls_ops lb sys ops n st = Some (n1, st1) \<and> tls_conn sys host port rt sd st0 n1 st1"
proof (induction ops arbitrary: n st)
  case Nil
  then show ?case by simp
next
  case (Cons op ops)
  from tls_do_conn [OF Cons.prems, of lb op] obtain n1 st1
    where a: "tls_do lb sys op n st = Some (n1, st1)" and c: "tls_conn sys host port rt sd st0 n1 st1" by blast
  from Cons.IH [OF c] a show ?case by simp
qed

lemma tls_conn_disconnect:
  assumes "tls_conn sys host port rt sd st0 n st"
  shows "\<exists>r p st1. TLS_FreeRTOS_Disconnect lb sys n st = Some (r, Some \<lparr>pParams = Some p\<rparr>, st1) \<and>
    resources st1 = resources st0 \<and> (\<forall>ob. \<not> sslLive p ob) \<and>
    TLS_FreeRTOS_Disconnect lb sys (Some \<lparr>pParams = Some p\<rparr>) st1 = None"
proof -
  from assms obtain p where n: "n = Some \<lparr>pParams = Some p\<rparr>" by (auto simp: tls_conn_def)
  obtain r out p1 st1 where x: "ssl_exec sys (libCloseNotify lb (sslState p)) p st = Some (r, out, p1, st1)"
    and c1: "tls_conn sys host port rt sd st0 (Some \<lparr>pParams = Some p1\<rparr>) st1" by (rule tls_conn_exec [OF assms [unfolded n]])
  from c1 obtain st2 where c: "TCP_Sockets_Connect sys None host port rt sd st0 = (0, tcpSocket p1, st2)"
      "resources st1 = resources st2" by (auto simp: tls_conn_def)
  obtain st3 where d: "TCP_Sockets_Disconnect sys (tcpSocket p1) st1 = Some st3" "resources st3 = resources st0"
    by (rule tcp.bracket [OF c])
  have again: "TLS_FreeRTOS_Disconnect lb sys (Some \<lparr>pParams = Some (sslContextFree lb p1)\<rparr>) st3 = None"
  proof -
    let ?q = "sslContextFree lb p1"
    have dead: "TCP_Sockets_Disconnect sys (tcpSocket p1) st4 = None" if "resources st4 = resources st3" for st4
      by (rule tcp.disc_usable, rule tcp.not_usable [OF c(1)]) (use that d in simp)
    show ?thesis
      by (auto simp: TLS_FreeRTOS_Disconnect_def holding_def dead split: Option.bind_split dest!: ssl_exec_keeps)
  qed
  show ?thesis
    using n x d again sslContextFree_dead [of lb p1] by (simp add: TLS_FreeRTOS_Disconnect_def)
qed

text \<open>The outcomes of a connect.\<close>

lemma tls_connect_cases:
  assumes "tls_connect lb sys host port cred rt sd flags p st = Some (r, p1, st1)"
  shows "(tls_up r \<longrightarrow> tls_conn sys host port rt sd st (Some \<lparr>pParams = Some p1\<rparr>) st1) \<and>
    (\<not> tls_up r \<longrightarrow> r \<noteq> TLS_TRANSPORT_CONNECT_FAILURE \<or> rt \<noteq> 0 \<or> sd \<noteq> 0 \<longrightarrow> resources st1 = resources st \<and> tcpSocket p1 = None) \<and>
    (r = TLS_TRANSPORT_HANDSHAKE_FAILED \<longrightarrow> (\<forall>ob. \<not> sslLive p1 ob)) \<and>
    (r \<in> {TLS_TRANSPORT_INSUFFICIENT_MEMORY, TLS_TRANSPORT_INVALID_CREDENTIALS} \<longrightarrow> (\<forall>ob. sslLive p1 ob))"
proof -
  obtain r0 s st2 where c: "TCP_Sockets_Connect sys None host port rt sd st = (r0, s, st2)" by (metis surj_pair)
  show ?thesis
  proof (cases "r0 = 0")
    case False
    then have e: "r = TLS_TRANSPORT_CONNECT_FAILURE" "p1 = p\<lparr>tcpSocket := s\<rparr>" "st1 = st2"
      using assms c by (auto simp: tls_connect_def)
    from c False show ?thesis by (cases rule: TCP_Sockets_Connect_cases) (simp_all add: e tls_up_def)
  next
    case True
    note c0 = c [unfolded True]
    obtain r2 b p2 st3 where t: "tls_establish lb sys host cred flags (p\<lparr>tcpSocket := s\<rparr>) st2 = Some (r2, b, p2, st3)"
      using assms c True by (auto simp: tls_connect_def split: bind_splits)
    note k = tls_establish_keeps [OF t, simplified]
    show ?thesis
    proof (cases "tls_up r2")
      case True
      then have e: "r = r2" "p1 = p2" "st1 = st3" using assms c0 t by (auto simp: tls_connect_def)
      have "tls_conn sys host port rt sd st (Some \<lparr>pParams = Some p2\<rparr>) st3"
        by (rule tls_connI [of _ _ _ _ _ _ p2 st2]) (use c0 k True in auto)
      then show ?thesis using True by (auto simp: e tls_up_def)
    next
      case False
      obtain st4 where d: "TCP_Sockets_Disconnect sys s st3 = Some st4" "resources st4 = resources st"
        by (rule tcp.bracket [OF c0, of st3]) (use k in simp)
      have e: "r = r2" "p1 = (if b then sslContextFree lb p2 else p2)\<lparr>tcpSocket := None\<rparr>" "st1 = st4"
        using assms c0 t False k d by (auto simp: tls_connect_def tls_clean_up_def split: if_splits)
      then show ?thesis using False k d sslContextFree_dead by auto
    qed
  qed
qed

lemma Connect_tls_connect:
  assumes "TLS_FreeRTOS_Connect lb sys n host port cred rt sd flags st = Some (r, n1, st1)" "r \<noteq> TLS_TRANSPORT_INVALID_PARAMETER"
  obtains p h c p1 where "n = Some \<lparr>pParams = Some p\<rparr>" "host = Some h" "cred = Some c" "n1 = Some \<lparr>pParams = Some p1\<rparr>"
    "tls_connect lb sys h port c rt sd flags p st = Some (r, p1, st1)"
proof -
  from assms obtain m p h c p1 where "n = Some m" "pParams m = Some p" "host = Some h" "cred = Some c" "n1 = Some \<lparr>pParams = Some p1\<rparr>"
    "tls_connect lb sys h port c rt sd flags p st = Some (r, p1, st1)"
    by (auto simp: TLS_FreeRTOS_Connect_def split: option.splits bind_splits if_splits)
  then show thesis using that [of p h c p1] by (cases m) simp
qed

lemma Connect_invalid_parameter:
  assumes "TLS_FreeRTOS_Connect lb sys n host port cred rt sd flags st = Some (TLS_TRANSPORT_INVALID_PARAMETER, n1, st1)"
  shows "n1 = n \<and> st1 = st"
proof -
  have "tls_connect lb sys h port c rt sd flags p st \<noteq> Some (TLS_TRANSPORT_INVALID_PARAMETER, p1, st1)" for h c p p1
    by (auto simp: tls_connect_def Let_def split: bind_splits if_splits prod.splits dest!: tls_establish_keeps)
  then show ?thesis
    using assms by (auto simp: TLS_FreeRTOS_Connect_def split: option.splits bind_splits if_splits)
qed

section \<open>Waiting for a peer that is gone\<close>

primrec handshake_steps ::
    "nat \<Rightarrow> 's ssl_lib \<Rightarrow> 'w net_os \<Rightarrow> 's TlsTransportParams \<Rightarrow> 'w net_state
      \<Rightarrow> (TlsTransportStatus_t \<times> 's TlsTransportParams \<times> 'w net_state) option" where
  "handshake_steps 0 lb sys p st = handshake_step lb sys p st"
| "handshake_steps (Suc k) lb sys p st = do { (r, p1, st1) \<leftarrow> handshake_step lb sys p st; handshake_steps k lb sys p1 st1 }"

lemma Recv_closed:
  assumes "\<And>fd n w. fst (fst (osRead sys fd n w)) = 0" "sock_fd ctx st \<noteq> None"
  shows "\<exists>out st1. xMbedTLSBioTCPSocketsWrapperRecv sys ctx n st = Some (SSL_WANT_READ, out, st1)"
proof -
  from assms(2) obtain fd where f: "sock_fd ctx st = Some fd" by blast
  obtain e out w where "osRead sys fd n (netWorld st) = ((0, e, out), w)"
    using assms(1) [of fd n "netWorld st"] by (metis prod.collapse)
  then show ?thesis
    using f by (auto simp: xMbedTLSBioTCPSocketsWrapperRecv_def TCP_Sockets_Recv_def sock_read_def bio_recv_status_def sockets_errno_defs)
qed

text \<open>A library that waits for the peer stays in that condition.\<close>

lemma handshake_step_waits:
  assumes "\<And>fd n w. fst (fst (osRead sys fd n w)) = 0"
    and "\<And>s. W s \<Longrightarrow> \<exists>m k. libHandshake lb s = SslRecv m k \<and> (\<forall>out. \<exists>out' s'. k SSL_WANT_READ out = SslReturn SSL_WANT_READ out' s' \<and> W s')"
    and "W (sslState p)" "sock_fd (bioCtx p) st \<noteq> None"
  shows "\<exists>p1 st1. handshake_step lb sys p st = Some (TLS_TRANSPORT_HANDSHAKE_IN_PROGRESS, p1, st1) \<and>
    W (sslState p1) \<and> sock_fd (bioCtx p1) st1 \<noteq> None"
proof -
  from assms(2) [OF assms(3)] obtain m k where h: "libHandshake lb (sslState p) = SslRecv m k"
    and k: "\<forall>out. \<exists>out' s'. k SSL_WANT_READ out = SslReturn SSL_WANT_READ out' s' \<and> W s'" by blast
  from Recv_closed [OF assms(1,4), of m] obtain out st1
    where b: "xMbedTLSBioTCPSocketsWrapperRecv sys (bioCtx p) m st = Some (SSL_WANT_READ, out, st1)" by blast
  from k obtain out' s' where r: "k SSL_WANT_READ out = SslReturn SSL_WANT_READ out' s'" "W s'" by blast
  have "sock_fd (bioCtx p) st1 \<noteq> None" using assms(4) sock_fd_cong [of st1 st] bio_recv_resources [OF b] by simp
  then show ?thesis using h b r by (simp add: handshake_step_def)
qed

section \<open>An example\<close>

text \<open>A library that waits for the peer, or that refuses certificates; a system on which every call but
  \<open>read\<close> succeeds.\<close>

definition demo_ssl :: "int \<Rightarrow> unit ssl_lib" where
  "demo_ssl crt =
     \<lparr>libInit = \<lambda>ob s. s, libFree = \<lambda>ob s. s, libPsaCryptoInit = \<lambda>s. (0, s), libSeed = \<lambda>s. (0, s),
      libConfigDefaults = \<lambda>s. (0, s), libConfAuthmode = id, libConfRng = id, libConfCertProfile = id,
      libCrtParse = \<lambda>ob c s. (crt, s), libCrtParseFile = \<lambda>ob c s. (crt, s), libConfCaChain = id,
      libParseKey = \<lambda>k s. (0, s), libConfOwnCert = \<lambda>s. (0, s), libConfAlpn = \<lambda>l s. (0, s), libSetHostname = \<lambda>h s. (0, s),
      libSslSetup = \<lambda>s. (0, s), libSetBio = id,
      libHandshake = \<lambda>s. SslRecv 5 (\<lambda>r out. SslReturn (if r = SSL_WANT_READ then r else SSL_INT 0) [] ()),
      libRead = \<lambda>n s. SslRecv n (\<lambda>r out. SslReturn r out ()),
      libWrite = \<lambda>buf s. SslSend buf (\<lambda>r. SslReturn r [] ()),
      libCloseNotify = \<lambda>s. SslSend [21] (\<lambda>r. SslReturn (SSL_INT 0) [] ())\<rparr>"

definition demo_net :: "unit net_os" where
  "demo_net =
     \<lparr>osGetaddrinfo = \<lambda>h p q w. (Some [\<lparr>ai_family = 2, ai_socktype = 1, ai_protocol = 6, ai_addr = [127, 0, 0, 1]\<rparr>], w),
      osSocketOk = \<lambda>a w. (True, w), osConnectOk = \<lambda>fd a w. (True, w), osMallocOk = \<lambda>w. (True, w),
      osGetfl = \<lambda>fd w. (2, w), osSetfl = \<lambda>fd fl w. (0, w), osSetsockopt = \<lambda>fd opt v n w. w, osShutdown = \<lambda>fd w. w,
      osWrite = \<lambda>fd buf w. ((int (length buf), ERR_OTHER), w), osRead = \<lambda>fd n w. ((0, ERR_OTHER, []), w)\<rparr>"

definition demo_params :: "unit TlsTransportParams" where
  "demo_params = \<lparr>tcpSocket = None, sslState = (), sslLive = \<lambda>_. False, bioCtx = None\<rparr>"

definition demo_credentials :: NetworkCredentials where
  "demo_credentials = \<lparr>pAlpnProtos = None, disableSni = 0, pRootCa = Some [1], pRootCaPath = None, pClientCert = None, pPrivateKey = None\<rparr>"

definition demo_net_state :: "unit net_state" where
  "demo_net_state = \<lparr>fdsOpen = [1, 0], sockHeap = [], netWorld = ()\<rparr>"

abbreviation demo_connect ::
    "int \<Rightarrow> (TlsTransportStatus_t \<times> unit TlsNetworkContext option \<times> unit net_state) option" where
  "demo_connect crt \<equiv> TLS_FreeRTOS_Connect (demo_ssl crt) demo_net (Some \<lparr>pParams = Some demo_params\<rparr>) (Some ''turn'') 443
     (Some demo_credentials) 0 0 TLS_CONNECT_NON_BLOCKING_HANDSHAKE demo_net_state"

lemmas demo_tls_defs = demo_ssl_def demo_net_def demo_params_def demo_credentials_def demo_net_state_def

lemmas tls_run_defs = TLS_FreeRTOS_Connect_def tls_connect_def TCP_Sockets_Connect_def tls_establish_def initTlsMbedtls_def
  tlsSetup_def setTlsCredentials_def set_own_credentials_def setRootCa_def setOptionalConfigurations_def sslContextInit_def
  ssl_init_def ssl_try_def ssl_conf_def tlsHandshake_def handshake_step_def xMbedTLSBioTCPSocketsWrapperRecv_def
  TCP_Sockets_Recv_def sock_read_def sock_fd_def sock_alloc_def tcp_options_def lowest_free_def bio_recv_status_def
  TLS_CONNECT_NON_BLOCKING_HANDSHAKE_def tls_up_def tls_clean_up_def TCP_Sockets_Disconnect_def sock_free_def net_close_def
  sockets_errno_defs

lemma demo_connect_ok:
  "demo_connect 0 = Some (TLS_TRANSPORT_HANDSHAKE_IN_PROGRESS,
     Some \<lparr>pParams = Some \<lparr>tcpSocket = Some 0, sslState = (),
        sslLive = (\<lambda>_. False)(ObjEntropy := True, ObjCtrDrbg := True, ObjConfig := True, ObjRootCa := True,
          ObjPrivKey := True, ObjClientCert := True, ObjContext := True), bioCtx = Some 0\<rparr>\<rparr>,
     \<lparr>fdsOpen = [2, 1, 0], sockHeap = [(0, 2)], netWorld = ()\<rparr>)"
  by (simp add: demo_tls_defs tls_run_defs upt_rec numeral_3_eq_3)

lemma demo_connect_refused:
  "demo_connect (-1) = Some (TLS_TRANSPORT_INVALID_CREDENTIALS,
     Some \<lparr>pParams = Some \<lparr>tcpSocket = None, sslState = (),
        sslLive = (\<lambda>_. False)(ObjEntropy := True, ObjCtrDrbg := True, ObjConfig := True, ObjRootCa := True,
          ObjPrivKey := True, ObjClientCert := True, ObjContext := True), bioCtx = None\<rparr>\<rparr>,
     \<lparr>fdsOpen = [1, 0], sockHeap = [], netWorld = ()\<rparr>)"
  by (simp add: demo_tls_defs tls_run_defs upt_rec numeral_3_eq_3)

text \<open>With no time-outs, a failing \<open>fcntl\<close> leaves the descriptor and the handle behind.\<close>

lemma fcntl_failure_leaks:
  "\<exists>n1 st1. TLS_FreeRTOS_Connect (demo_ssl 0) (demo_net\<lparr>osGetfl := \<lambda>fd w. (-1, w)\<rparr>) (Some \<lparr>pParams = Some demo_params\<rparr>)
     (Some ''turn'') 443 (Some demo_credentials) 0 0 TLS_CONNECT_NON_BLOCKING_HANDSHAKE demo_net_state
       = Some (TLS_TRANSPORT_CONNECT_FAILURE, n1, st1) \<and> fdsOpen st1 = [2, 1, 0] \<and> sockHeap st1 = [(0, 2)]"
  by (simp add: demo_tls_defs tls_run_defs upt_rec numeral_3_eq_3)

section \<open>Properties\<close>

text \<open>C20: A connect that succeeds, or whose handshake is still in progress, owns exactly one new descriptor and
  one new handle, the context holds the handle, \<open>TLS_FreeRTOS_GetSocketFd\<close> gives the descriptor, and the
  mbedTLS callbacks use it; a connect that fails owns nothing, with one exception: when no time-out is
  given and the TCP connection fails.\<close>

theorem tls_connect_owns:
  assumes "TLS_FreeRTOS_Connect lb sys n host port cred rt sd flags st = Some (r, n1, st1)"
  shows "if tls_up r
     then (\<exists>p. n1 = Some \<lparr>pParams = Some p\<rparr> \<and> owns_more st (tcpSocket p) st1 \<and> bioCtx p = tcpSocket p \<and>
       TLS_FreeRTOS_GetSocketFd n1 st1 = Some (int (lowest_free (fdsOpen st))) \<and> (\<forall>ob. sslLive p ob))
     else r \<noteq> TLS_TRANSPORT_CONNECT_FAILURE \<or> rt \<noteq> 0 \<or> sd \<noteq> 0 \<longrightarrow> fdsOpen st1 = fdsOpen st \<and> sockHeap st1 = sockHeap st"
proof (cases "r = TLS_TRANSPORT_INVALID_PARAMETER")
  case True
  then show ?thesis using assms Connect_invalid_parameter by (fastforce simp: tls_up_def)
next
  case False
  obtain p h c p1 where n1: "n1 = Some \<lparr>pParams = Some p1\<rparr>"
    and t: "tls_connect lb sys h port c rt sd flags p st = Some (r, p1, st1)"
    by (rule Connect_tls_connect [OF assms False])
  note out = tls_connect_cases [OF t]
  show ?thesis
  proof (cases "tls_up r")
    case True
    with out n1 obtain st2 where c: "TCP_Sockets_Connect sys None h port rt sd st = (0, tcpSocket p1, st2)"
      "resources st1 = resources st2" "bioCtx p1 = tcpSocket p1" "\<forall>ob. sslLive p1 ob" by (auto simp: tls_conn_def)
    from c(1) have "owns_more st (tcpSocket p1) st2" by (cases rule: TCP_Sockets_Connect_cases) simp_all
    from owns_more_cong [OF this c(2)] have o1: "owns_more st (tcpSocket p1) st1" .
    have "tcpSocket p1 \<noteq> None" using o1 by (simp add: owns_more_def)
    then show ?thesis
      using True n1 o1 owns_more_fd [OF o1] c by (simp add: TLS_FreeRTOS_GetSocketFd_def TCP_Sockets_GetSocketFd_def)
  next
    case False
    then show ?thesis using out by simp
  qed
qed

theorem tls_connect_owns_witness:
  "\<exists>p st1. demo_connect 0 = Some (TLS_TRANSPORT_HANDSHAKE_IN_PROGRESS, Some \<lparr>pParams = Some p\<rparr>, st1) \<and>
     owns_more demo_net_state (tcpSocket p) st1 \<and> fdsOpen st1 = [2, 1, 0]"
  using tls_connect_owns [OF demo_connect_ok] by (simp add: demo_connect_ok tls_up_def)

text \<open>C21: Whatever handshake steps, sends and receives follow a successful connect, none of them goes wrong,
  and the disconnect then gives back exactly the descriptor and the handle that the connect took and
  frees every mbedTLS object.  The context keeps the pointer to the freed handle: a second disconnect has
  no outcome.\<close>

theorem tls_lifecycle:
  assumes "TLS_FreeRTOS_Connect lb sys n host port cred rt sd flags st = Some (r, n1, st1)" "tls_up r"
  shows "\<exists>n2 st2 r3 p st3. tls_ops lb sys ops n1 st1 = Some (n2, st2) \<and>
    TLS_FreeRTOS_Disconnect lb sys n2 st2 = Some (r3, Some \<lparr>pParams = Some p\<rparr>, st3) \<and>
    fdsOpen st3 = fdsOpen st \<and> sockHeap st3 = sockHeap st \<and> (\<forall>ob. \<not> sslLive p ob) \<and>
    TLS_FreeRTOS_Disconnect lb sys (Some \<lparr>pParams = Some p\<rparr>) st3 = None"
proof -
  have "r \<noteq> TLS_TRANSPORT_INVALID_PARAMETER" using assms(2) by (auto simp: tls_up_def)
  then obtain p h c p1 where n1: "n1 = Some \<lparr>pParams = Some p1\<rparr>"
    and t: "tls_connect lb sys h port c rt sd flags p st = Some (r, p1, st1)"
    by (rule Connect_tls_connect [OF assms(1)])
  have "tls_conn sys h port rt sd st n1 st1" using tls_connect_cases [OF t] assms(2) n1 by simp
  from tls_ops_conn [OF this, of lb ops] obtain n2 st2 where o2: "tls_ops lb sys ops n1 st1 = Some (n2, st2)"
    and c2: "tls_conn sys h port rt sd st n2 st2" by blast
  from tls_conn_disconnect [OF c2, of lb] o2 show ?thesis by fastforce
qed

theorem tls_lifecycle_witness:
  "\<exists>n1 st1 n2 st2 r3 n3 st3. demo_connect 0 = Some (TLS_TRANSPORT_HANDSHAKE_IN_PROGRESS, n1, st1) \<and>
     tls_ops (demo_ssl 0) demo_net [OpContinue, OpSend (Some [7]), OpRecv True 9] n1 st1 = Some (n2, st2) \<and>
     TLS_FreeRTOS_Disconnect (demo_ssl 0) demo_net n2 st2 = Some (r3, n3, st3) \<and> fdsOpen st3 = [1, 0] \<and> sockHeap st3 = []"
proof -
  have "tls_up TLS_TRANSPORT_HANDSHAKE_IN_PROGRESS" by (simp add: tls_up_def)
  note tls_lifecycle [OF demo_connect_ok this, of "[OpContinue, OpSend (Some [7]), OpRecv True 9]"]
  then show ?thesis unfolding demo_connect_ok by (simp add: demo_net_state_def del: tls_ops.simps fun_upd_apply) blast
qed

text \<open>C22: A connect whose handshake fails frees all seven mbedTLS objects; one whose credentials are refused,
  or that gets no memory for the configuration, leaves all of them allocated.\<close>

theorem tls_failure_leftovers:
  assumes "TLS_FreeRTOS_Connect lb sys n host port cred rt sd flags st = Some (r, Some \<lparr>pParams = Some p\<rparr>, st1)"
  shows "(r = TLS_TRANSPORT_HANDSHAKE_FAILED \<longrightarrow> (\<forall>ob. \<not> sslLive p ob)) \<and>
    (r \<in> {TLS_TRANSPORT_INSUFFICIENT_MEMORY, TLS_TRANSPORT_INVALID_CREDENTIALS} \<longrightarrow> (\<forall>ob. sslLive p ob))"
proof (cases "r = TLS_TRANSPORT_INVALID_PARAMETER")
  case False
  obtain p0 h c p1 where "Some \<lparr>pParams = Some p\<rparr> = Some \<lparr>pParams = Some p1\<rparr>"
    and t: "tls_connect lb sys h port c rt sd flags p0 st = Some (r, p1, st1)"
    by (rule Connect_tls_connect [OF assms False])
  then show ?thesis using tls_connect_cases [OF t] by auto
qed simp

theorem tls_failure_leftovers_witness:
  "\<exists>p st1. demo_connect (-1) = Some (TLS_TRANSPORT_INVALID_CREDENTIALS, Some \<lparr>pParams = Some p\<rparr>, st1) \<and> (\<forall>ob. sslLive p ob)"
proof -
  note tls_failure_leftovers [OF demo_connect_refused]
  then show ?thesis unfolding demo_connect_refused by (simp del: fun_upd_apply)
qed

text \<open>C23: Once the peer has closed the TCP connection, \<open>read\<close> answers 0, which the callback reports as no data
  yet: a handshake that waits for the peer stays in progress for ever, and a blocking one does not
  return.\<close>

theorem closed_peer_never_noticed:
  assumes "\<And>fd n w. fst (fst (osRead sys fd n w)) = 0"
    and "\<And>s. W s \<Longrightarrow> \<exists>m k. libHandshake lb s = SslRecv m k \<and> (\<forall>out. \<exists>out' s'. k SSL_WANT_READ out = SslReturn SSL_WANT_READ out' s' \<and> W s')"
    and "W (sslState p)" "sock_fd (bioCtx p) st \<noteq> None"
  shows "(\<exists>p1 st1. handshake_steps k lb sys p st = Some (TLS_TRANSPORT_HANDSHAKE_IN_PROGRESS, p1, st1)) \<and>
    handshake_until lb sys p st = None"
proof -
  have waits: "\<exists>p1 st1. handshake_step lb sys p st = Some (TLS_TRANSPORT_HANDSHAKE_IN_PROGRESS, p1, st1) \<and>
      W (sslState p1) \<and> sock_fd (bioCtx p1) st1 \<noteq> None"
    if "W (sslState p)" "sock_fd (bioCtx p) st \<noteq> None" for p st
    using assms(1,2) that by (rule handshake_step_waits)
  have steps: "\<exists>p1 st1. handshake_steps k lb sys p st = Some (TLS_TRANSPORT_HANDSHAKE_IN_PROGRESS, p1, st1)"
    using assms(3,4)
  proof (induction k arbitrary: p st)
    case 0
    then show ?case using waits by fastforce
  next
    case (Suc k)
    from waits [OF Suc.prems] Suc.IH show ?case by fastforce
  qed
  have never: False if "handshake_until lb sys p st = Some y" for y
  proof -
    let ?P = "\<lambda>lb' sys' p st y. lb' = lb \<longrightarrow> sys' = sys \<longrightarrow> W (sslState p) \<longrightarrow> sock_fd (bioCtx p) st = None"
    have "?P lb sys p st y"
    proof (rule handshake_until.raw_induct [of ?P, OF _ that], intro impI, goal_cases)
      case (1 f lb' sys' p st y)
      show ?case
      proof (rule ccontr)
        assume "sock_fd (bioCtx p) st \<noteq> None"
        from waits [OF 1(5) this] 1 show False by fastforce
      qed
    qed
    then show False using assms(3,4) by simp
  qed
  show ?thesis using steps never by (meson not_Some_eq)
qed

theorem closed_peer_never_noticed_witness:
  "(\<exists>p1 st1. handshake_steps 100 (demo_ssl 0) demo_net (demo_params\<lparr>bioCtx := Some 0\<rparr>) (demo_net_state\<lparr>sockHeap := [(0, 2)]\<rparr>)
     = Some (TLS_TRANSPORT_HANDSHAKE_IN_PROGRESS, p1, st1)) \<and>
   handshake_until (demo_ssl 0) demo_net (demo_params\<lparr>bioCtx := Some 0\<rparr>) (demo_net_state\<lparr>sockHeap := [(0, 2)]\<rparr>) = None"
  by (rule closed_peer_never_noticed [where W = "\<lambda>_. True"])
    (simp_all add: demo_ssl_def demo_net_def demo_params_def demo_net_state_def sock_fd_def)

end
