(* ===== verification/Spec2Isabelle.thy ===== *)
theory Spec2Isabelle
  imports Websocket Srtp_Session_Correct Ice_Crc Ice_Candidate_Correct Ice_Server
    Timer_Controller Message_Queue Pc_Reach Pc_Sdp_Correct Signaling_Correct App_Common_Examples Srtcp_Correct Tls_Transport_Correct
begin

text \<open>
  \<^bold>\<open>A WebRTC peer for Amazon Kinesis Video Streams.\<close>  The program under \<open>src/examples\<close> connects a camera (master) and a
  viewer.  It signs in to a signaling service over HTTPS and a websocket (\<open>signaling_controller\<close>, \<open>networking\<close>), exchanges
  session descriptions (\<open>sdp_controller\<close>, \<open>peer_connection_sdp.c\<close>) and ICE candidates, finds a network path
  (\<open>ice_controller\<close>), secures it (\<open>network_transport/transport_dtls_mbedtls.c\<close>) and sends and receives media over SRTP
  (\<open>peer_connection_srtp.c\<close>, its codec helpers, the rolling buffer of sent packets and the jitter buffer of received ones).  A
  session (\<open>peer_connection.c\<close>) has a thread for its requests and one that listens on its sockets; timers and callbacks of the
  ICE controller post requests to a message queue.  Utilities are strings, Base64, timers, message queues and clocks.

  \<^bold>\<open>How code becomes definitions.\<close>  A C function is a function of the same name over its state; a struct is a record, an enum a
  datatype, a \<open>uintN_t\<close> a word of that width.  Results are values, so that every early return is a branch.  A call with undefined
  behaviour (a NULL dereference, an access outside an array, a double free) has no outcome: the function returns
  \<open>None\<close>, and a theorem that gives \<open>Some\<close> shows that it does not happen.  Loops whose end depends on a library or on the
  other side are \<open>partial_function (option)\<close>; where a property says that the code returns, the value is \<open>Some\<close>.  There is
  no fuel.  Longer functions are cut into named parts (\<open>parse_boundary\<close>, \<open>write_packet\<close>, \<open>rx_receive\<close>) which the manifest maps to their
  lines.  Memory that is allocated and freed is an explicit heap (\<open>Ring_Buffer\<close>, \<open>Rolling_Buffer\<close>, \<open>Srtp_Send\<close>).

  \<^bold>\<open>What is a parameter.\<close>  Code that is not in the repository is an argument: libwebsockets (the callbacks of a call as a list, results of a write), the SigV4 library, the signaling library (record \<open>signaling_lib\<close>), the RTP
  packet queue, packetizers and depacketizers, libsrtp, the RTP and RTCP parsers, the ICE library (record \<open>ice_lib\<close>), system calls
  and TLS (record \<open>ice_os\<close>), mbedTLS (record \<open>mbedtls\<close>, with a handshake as a tree of what it asks for), POSIX timers and message
  queues, the SDP library (records \<open>sdp_serializer\<close> and \<open>sdp_deserializer\<close>).  What a property needs of them is a hypothesis, and a witness
  discharges it for a concrete instance.  The configuration is the default one with \<open>ENABLE_SCTP_DATA_CHANNEL\<close> and metrics off.

  \<^bold>\<open>Interleaving.\<close>  Threads are modelled as steps: a step is one call of the application, one request of the session thread, one
  round of the listener, one timer, one callback of libwebsockets.  The steps of a session are the rules of \<open>session_reach\<close> (\<open>Pc_Reach\<close>),
  those of the websocket client the rules of its reachability relation (\<open>Websocket\<close>).  Within a step the other threads
  do not run; the mutexes of the code protect the parts where they could.

  \<^bold>\<open>Theories.\<close>
  \<^item> \<open>Rtc_Prelude\<close>: word types, bytes, reads of bounded memory, lemmas on words, options and lists.
  \<^item> \<open>Ring_Buffer\<close>, \<open>Websocket\<close>: \<open>networking/ring_buffer.c\<close> and the websocket half of \<open>networking/networking.c\<close>.  The queue is a linked list
    over a heap, shown to implement the interface \<open>element_queue\<close>; the client sends the accepted bytes in order,
    has a defined outcome on every reachable state, drains its queue, and puts fragments together.
  \<^item> \<open>Url\<close>, \<open>Request_Sign\<close>, \<open>Http_Client\<close>: the rest of \<open>networking/networking.c\<close>.  The URL, percent encoding, the signing of requests, HTTPS
    requests and the connection of the websocket.  The query of a signed websocket request is canonical, an authorization header belongs to
    its request, connecting loses nothing of the queue.
  \<^item> \<open>String_Utils\<close>, \<open>Base64\<close>, \<open>Timer_Controller\<close>, \<open>Message_Queue\<close>: the utilities.  Substring search equals its specification,
    decoding inverts encoding, the queue implements the interface \<open>bounded_channel\<close>.
  \<^item> \<open>Pc_Result\<close>, \<open>Jitter_Buffer\<close>, \<open>Jitter_Buffer_Correct\<close>: \<open>peer_connection_jitter_buffer.c\<close>.  Announced frames are complete, complete
    frames are announced, the window of accepted sequence numbers, ownership of the slots.
  \<^item> \<open>Codec_Helper\<close>: the receive half of the codec helpers; filling a frame refines the concatenation of the depacketized range.
  \<^item> \<open>Rolling_Buffer\<close>, \<open>Srtp_Send\<close>, \<open>Srtp_Send_Correct\<close>: the rolling buffer, the frame writers of the four codecs, SRTP encryption, and
    NACKs of \<open>peer_connection_srtcp.c\<close>.  No packet leaks or is freed twice, sequence numbers are consecutive, a retransmission repeats what was
    sent.
  \<^item> \<open>Srtp_Session\<close>, \<open>Srtp_Session_Correct\<close>: set-up, tear-down and receive path of \<open>peer_connection_srtp.c\<close>.  Frames consist of
    received packets, tear-down frees everything.
  \<^item> \<open>Srtcp\<close>, \<open>Srtcp_Correct\<close>: the control packets of \<open>peer_connection_srtcp.c\<close>.  A compound packet is handled packet by packet and keeps the
    send path in order; the round trip time is exact across the wrap of the clock.
  \<^item> \<open>Net_Sockets\<close>, \<open>Tls_Transport\<close>, \<open>Tls_Transport_Correct\<close>: the TCP and UDP socket wrappers, their mbedTLS callbacks and
    \<open>transport_mbedtls.c\<close>, with mbedTLS as trees of callbacks and the operating system as an argument.  What a connection owns from connect to disconnect and what a
    failure leaves behind; the ICE controller has this transport as a parameter.
  \<^item> \<open>Ice_Data\<close>, \<open>Ice_State\<close>, \<open>Ice_Net\<close>, \<open>Ice_Controller\<close>, \<open>Ice_Listener\<close>: the three files of \<open>ice_controller\<close>, operation by operation.
    \<open>Ice_Candidate\<close>, \<open>Ice_Candidate_Correct\<close>, \<open>Ice_Crc\<close>, \<open>Ice_Server\<close>: candidate strings (printed and read back), the checksum
    (equal to the bitwise definition), and the list of servers of \<open>app_common.c\<close>.
  \<^item> \<open>Ice_Sockets\<close>, \<open>Ice_Ownership\<close>, \<open>Ice_Ownership_Rx\<close>: the open descriptors are those of the socket table.  The interface
    \<open>ice_platform\<close> says what the controller needs of the system, \<open>ice_owner\<close> what it needs of the callbacks of its owner.
  \<^item> \<open>Dtls_Transport\<close>: \<open>transport_dtls_mbedtls.c\<close>.  The fingerprint check is exact, the handshake completes once.
  \<^item> \<open>Pc_Session\<close>, \<open>Pc_Api\<close>, \<open>Pc_Session_Correct\<close>, \<open>Pc_Reach\<close>: the session of \<open>peer_connection.c\<close>.  Its callbacks meet
    \<open>ice_owner\<close>, and in every reachable state descriptors and socket table agree.
  \<^item> \<open>Sdp_Data\<close>, \<open>Sdp_Parse\<close>, \<open>Sdp_Populate\<close>, \<open>Sdp_Serialize\<close>, \<open>Sdp_Round_Trip\<close>, \<open>Sdp_Offer\<close>: \<open>sdp_controller.c\<close>.  What is written is read back, and
    a composed session gives the peer the credentials of the composer.
  \<^item> \<open>Pc_Sdp\<close>, \<open>Pc_Sdp_Correct\<close>: \<open>peer_connection_sdp.c\<close> with the offer and the answer of \<open>peer_connection.c\<close>.  What a session
    announces, its peer learns; a chosen payload type is one that the peer announced for a codec of the session.
  \<^item> \<open>Sdp_Newline\<close>, \<open>Signaling\<close>, \<open>Signaling_Correct\<close>: \<open>signaling_controller.c\<close>.  Line ends are escaped and restored; in every state that the
    controller reaches its texts fit their arrays and the announced states alternate; a message reaches the other side unchanged.
  \<^item> \<open>App_Common\<close>, \<open>App_Common_Correct\<close>, \<open>App_Common_Examples\<close>: \<open>app_common.c\<close>.  The steps of the application are the rules of \<open>app_reach\<close>: in every
    state it reaches a client has one session, a message changes only the session of its sender, and a session gets the servers that
    the signaling controller has stored.

  \<^bold>\<open>Not modelled.\<close>  Data channels (compiled out, glue around usrsctp), media sources (files and GStreamer), metrics, logging, the
  main functions, and the bandwidth handler of \<open>app_common.c\<close>, which computes with floating point numbers.  The functions of the ICE controller that only print are left out, as are the wrappers of random numbers and
  hashes.
\<close>

end
